(* ===== verification/Prelude.thy ===== *)
theory Prelude
  imports
    "HOL-Library.Word"
    "HOL-Library.Char_ord"
    "HOL-Library.List_Lexorder"
    "HOL-Library.Product_Lexorder"
begin

text \<open>
  What every component of the development shares: the types that stand for the
  Rust scalars, the \<open>Result\<close> type with its \<open>?\<close> operator, the checked integer
  operations of the standard library, and byte strings.

  A Rust \<open>Result<T, E>\<close> is the sum \<open>'e + 't\<close>, with \<open>Inl\<close> for \<open>Err\<close>. The
  128-bit and 64-bit integers are HOL integers; every \<open>checked_\<close> operation
  of the source is a function into \<open>option\<close> that is \<open>None\<close> outside the
  two's complement range, and an operation the source leaves unchecked
  is wrapped into the range, which is what the release profile computes
  (the workspace does not switch overflow checks on). A \<open>[u8; 32]\<close>
  identity or digest is a 256-bit word, read big-endian, so that the derived
  \<open>Ord\<close> of the array is the order of the words. A Rust \<open>String\<close> or byte
  vector is a HOL string: one \<open>char\<close> per byte, so that \<open>length\<close> is Rust's \<open>len\<close>.
\<close>

named_theorems result_simps \<open>inversion of results built with the question-mark operator\<close>
named_theorems checked_simps \<open>results of the checked integer operations\<close>

section \<open>Results\<close>

abbreviation rbind :: "'e + 'a \<Rightarrow> ('a \<Rightarrow> 'e + 'b) \<Rightarrow> 'e + 'b" where
  "rbind r f \<equiv> case r of Inl e \<Rightarrow> Inl e | Inr a \<Rightarrow> f a"

definition ok_or :: "'a option \<Rightarrow> 'e \<Rightarrow> 'e + 'a" where
  "ok_or v e = (case v of None \<Rightarrow> Inl e | Some a \<Rightarrow> Inr a)"

definition ensure :: "bool \<Rightarrow> 'e \<Rightarrow> 'e + unit" where
  "ensure b e = (if b then Inr () else Inl e)"

definition is_ok :: "'e + 'a \<Rightarrow> bool" where
  "is_ok r = (case r of Inl _ \<Rightarrow> False | Inr _ \<Rightarrow> True)"

lemma rbind_Inr_iff [result_simps]:
  "rbind r f = Inr b \<longleftrightarrow> (\<exists>a. r = Inr a \<and> f a = Inr b)"
  by (cases r) auto

lemma rbind_Inl_iff [result_simps]:
  "rbind r f = Inl e \<longleftrightarrow> r = Inl e \<or> (\<exists>a. r = Inr a \<and> f a = Inl e)"
  by (cases r) auto

lemma rbind_cong: "r = r' \<Longrightarrow> (\<And>a. r' = Inr a \<Longrightarrow> f a = g a) \<Longrightarrow> rbind r f = rbind r' g"
  by (cases r') simp_all

lemma ok_or_simps [simp]:
  "ok_or None e = Inl e"
  "ok_or (Some a) e = Inr a"
  by (simp_all add: ok_or_def)

lemma ok_or_Inr_iff [result_simps]: "ok_or v e = Inr a \<longleftrightarrow> v = Some a"
  by (cases v) simp_all

lemma ok_or_Inl_iff [result_simps]: "ok_or v e = Inl e' \<longleftrightarrow> v = None \<and> e' = e"
  by (cases v) auto

lemma ensure_Inr_iff [result_simps]: "ensure b e = Inr u \<longleftrightarrow> b"
  by (simp add: ensure_def)

lemma ensure_Inl_iff [result_simps]: "ensure b e = Inl e' \<longleftrightarrow> \<not> b \<and> e' = e"
  by (auto simp: ensure_def)

lemma ensure_simps [simp]:
  "ensure True e = Inr ()"
  "ensure False e = Inl e"
  by (simp_all add: ensure_def)

lemma is_ok_simps [simp]:
  "is_ok (Inr a)"
  "\<not> is_ok (Inl e)"
  by (simp_all add: is_ok_def)

lemma if_Inr_iff [result_simps]:
  "(if b then Inl e else r) = Inr a \<longleftrightarrow> \<not> b \<and> r = Inr a"
  by auto

lemma if_Inl_iff [result_simps]:
  "(if b then Inl e else r) = Inl e' \<longleftrightarrow> (b \<and> e = e') \<or> (\<not> b \<and> r = Inl e')"
  by auto

text \<open>A \<open>for\<close> loop that leaves at the first error, without and with a loop state.\<close>

fun for_each :: "('a \<Rightarrow> 'e + unit) \<Rightarrow> 'a list \<Rightarrow> 'e + unit" where
  "for_each f [] = Inr ()"
| "for_each f (x # xs) = rbind (f x) (\<lambda>_. for_each f xs)"

fun try_fold :: "('s \<Rightarrow> 'a \<Rightarrow> 'e + 's) \<Rightarrow> 's \<Rightarrow> 'a list \<Rightarrow> 'e + 's" where
  "try_fold f s [] = Inr s"
| "try_fold f s (x # xs) = rbind (f s x) (\<lambda>s'. try_fold f s' xs)"

lemma for_each_Inr: "for_each f xs = Inr u \<longleftrightarrow> (\<forall>x \<in> set xs. f x = Inr ())"
  by (induction xs) (auto simp: rbind_Inr_iff)

lemma for_each_Inl: "for_each f xs = Inl e \<Longrightarrow> \<exists>x \<in> set xs. f x = Inl e"
  by (induction xs) (auto simp: rbind_Inl_iff)

lemma try_fold_append:
  "try_fold f s (xs @ ys) = rbind (try_fold f s xs) (\<lambda>s'. try_fold f s' ys)"
  by (induction xs arbitrary: s) (auto split: sum.splits)

text \<open>What a loop body keeps, the loop keeps; what it fails with, the loop fails with.\<close>

lemma try_fold_invariant:
  assumes "try_fold f s xs = Inr t" and "P s"
    and "\<And>s x s'. x \<in> set xs \<Longrightarrow> P s \<Longrightarrow> f s x = Inr s' \<Longrightarrow> P s'"
  shows "P t"
  using assms
proof (induction xs arbitrary: s)
  case (Cons x xs)
  from Cons.prems(1) obtain s' where s': "f s x = Inr s'" "try_fold f s' xs = Inr t"
    by (auto simp: rbind_Inr_iff)
  have "P s'"
    using Cons.prems(3) [OF _ Cons.prems(2) s'(1)] by simp
  then show ?case
    using Cons.IH [OF s'(2)] Cons.prems(3) by auto
qed simp

lemma try_fold_Inl:
  assumes "try_fold f s xs = Inl e" and "P s"
    and "\<And>s x s'. x \<in> set xs \<Longrightarrow> P s \<Longrightarrow> f s x = Inr s' \<Longrightarrow> P s'"
  shows "\<exists>s x. x \<in> set xs \<and> P s \<and> f s x = Inl e"
  using assms
proof (induction xs arbitrary: s)
  case (Cons x xs)
  show ?case
  proof (cases "f s x")
    case (Inl e')
    with Cons.prems show ?thesis by auto
  next
    case (Inr s')
    then have "P s'" "try_fold f s' xs = Inl e"
      using Cons.prems by auto
    then have "\<exists>s x. x \<in> set xs \<and> P s \<and> f s x = Inl e"
      using Cons.IH [of s'] Cons.prems(3) by (meson list.set_intros(2))
    then show ?thesis
      by auto
  qed
qed simp

section \<open>Machine integers\<close>

definition i128_ok :: "int \<Rightarrow> bool" where
  "i128_ok x \<longleftrightarrow> - 170141183460469231731687303715884105728 \<le> x
                  \<and> x \<le> 170141183460469231731687303715884105727"

definition i64_ok :: "int \<Rightarrow> bool" where
  "i64_ok x \<longleftrightarrow> - 9223372036854775808 \<le> x \<and> x \<le> 9223372036854775807"

lemma i128_ok_pow: "i128_ok x \<longleftrightarrow> - (2 ^ 127) \<le> x \<and> x < 2 ^ 127"
  by (auto simp: i128_ok_def)

lemma i64_ok_pow: "i64_ok x \<longleftrightarrow> - (2 ^ 63) \<le> x \<and> x < 2 ^ 63"
  by (auto simp: i64_ok_def)

lemma i64_ok_i128_ok: "i64_ok x \<Longrightarrow> i128_ok x"
  by (auto simp: i64_ok_def i128_ok_def)

text \<open>\<open>i128::checked_add\<close>, \<open>checked_sub\<close>, \<open>checked_mul\<close>, \<open>checked_neg\<close> and their 64-bit forms.\<close>

definition i128_new :: "int \<Rightarrow> int option" where
  "i128_new x = (if i128_ok x then Some x else None)"

definition i64_new :: "int \<Rightarrow> int option" where
  "i64_new x = (if i64_ok x then Some x else None)"

definition add128 :: "int \<Rightarrow> int \<Rightarrow> int option" where
  "add128 a b = i128_new (a + b)"

definition sub128 :: "int \<Rightarrow> int \<Rightarrow> int option" where
  "sub128 a b = i128_new (a - b)"

definition mul128 :: "int \<Rightarrow> int \<Rightarrow> int option" where
  "mul128 a b = i128_new (a * b)"

definition neg128 :: "int \<Rightarrow> int option" where
  "neg128 a = i128_new (- a)"

definition add64 :: "int \<Rightarrow> int \<Rightarrow> int option" where
  "add64 a b = i64_new (a + b)"

definition sub64 :: "int \<Rightarrow> int \<Rightarrow> int option" where
  "sub64 a b = i64_new (a - b)"

definition mul64 :: "int \<Rightarrow> int \<Rightarrow> int option" where
  "mul64 a b = i64_new (a * b)"

text \<open>\<open>u64::checked_add\<close> and \<open>u64::checked_mul\<close>.\<close>

definition u64_ok :: "int \<Rightarrow> bool" where
  "u64_ok x \<longleftrightarrow> 0 \<le> x \<and> x \<le> 18446744073709551615"

definition addu64 :: "int \<Rightarrow> int \<Rightarrow> int option" where
  "addu64 a b = (if u64_ok (a + b) then Some (a + b) else None)"

definition mulu64 :: "int \<Rightarrow> int \<Rightarrow> int option" where
  "mulu64 a b = (if u64_ok (a * b) then Some (a * b) else None)"

text \<open>Unchecked operators: the value wrapped into the two's complement range.\<close>

definition wrap128 :: "int \<Rightarrow> int" where
  "wrap128 x = (x + 2 ^ 127) mod 2 ^ 128 - 2 ^ 127"

definition wrap64 :: "int \<Rightarrow> int" where
  "wrap64 x = (x + 2 ^ 63) mod 2 ^ 64 - 2 ^ 63"

text \<open>Rust's integer division truncates towards zero.\<close>

definition tdiv :: "int \<Rightarrow> int \<Rightarrow> int" where
  "tdiv a b = sgn a * sgn b * (\<bar>a\<bar> div \<bar>b\<bar>)"

lemma i128_new_Some [checked_simps]: "i128_new x = Some y \<longleftrightarrow> i128_ok x \<and> y = x"
  by (auto simp: i128_new_def)

lemma i128_new_None [checked_simps]: "i128_new x = None \<longleftrightarrow> \<not> i128_ok x"
  by (simp add: i128_new_def)

lemma i64_new_Some [checked_simps]: "i64_new x = Some y \<longleftrightarrow> i64_ok x \<and> y = x"
  by (auto simp: i64_new_def)

lemma i64_new_None [checked_simps]: "i64_new x = None \<longleftrightarrow> \<not> i64_ok x"
  by (simp add: i64_new_def)

lemma checked_Some [checked_simps]:
  "add128 a b = Some c \<longleftrightarrow> i128_ok (a + b) \<and> c = a + b"
  "sub128 a b = Some c \<longleftrightarrow> i128_ok (a - b) \<and> c = a - b"
  "mul128 a b = Some c \<longleftrightarrow> i128_ok (a * b) \<and> c = a * b"
  "neg128 a = Some c \<longleftrightarrow> i128_ok (- a) \<and> c = - a"
  "add64 a b = Some c \<longleftrightarrow> i64_ok (a + b) \<and> c = a + b"
  "sub64 a b = Some c \<longleftrightarrow> i64_ok (a - b) \<and> c = a - b"
  "mul64 a b = Some c \<longleftrightarrow> i64_ok (a * b) \<and> c = a * b"
  "addu64 a b = Some c \<longleftrightarrow> u64_ok (a + b) \<and> c = a + b"
  "mulu64 a b = Some c \<longleftrightarrow> u64_ok (a * b) \<and> c = a * b"
  by (auto simp: add128_def sub128_def mul128_def neg128_def add64_def sub64_def mul64_def
      addu64_def mulu64_def i128_new_def i64_new_def)

lemma checked_None [checked_simps]:
  "add128 a b = None \<longleftrightarrow> \<not> i128_ok (a + b)"
  "sub128 a b = None \<longleftrightarrow> \<not> i128_ok (a - b)"
  "mul128 a b = None \<longleftrightarrow> \<not> i128_ok (a * b)"
  "neg128 a = None \<longleftrightarrow> \<not> i128_ok (- a)"
  "add64 a b = None \<longleftrightarrow> \<not> i64_ok (a + b)"
  "sub64 a b = None \<longleftrightarrow> \<not> i64_ok (a - b)"
  "mul64 a b = None \<longleftrightarrow> \<not> i64_ok (a * b)"
  "addu64 a b = None \<longleftrightarrow> \<not> u64_ok (a + b)"
  "mulu64 a b = None \<longleftrightarrow> \<not> u64_ok (a * b)"
  by (auto simp: add128_def sub128_def mul128_def neg128_def add64_def sub64_def mul64_def
      addu64_def mulu64_def i128_new_def i64_new_def)

lemma wrap128_id: "i128_ok x \<Longrightarrow> wrap128 x = x"
  by (simp add: wrap128_def i128_ok_pow mod_pos_pos_trivial)

lemma wrap128_add_left: "wrap128 (wrap128 x + y) = wrap128 (x + y)"
proof -
  have "((x + 2 ^ 127) mod 2 ^ 128 - 2 ^ 127 + y + 2 ^ 127) mod 2 ^ 128
      = ((x + 2 ^ 127) mod 2 ^ 128 + y) mod (2 ^ 128 :: int)"
    by (simp add: algebra_simps)
  also have "\<dots> = (x + 2 ^ 127 + y) mod 2 ^ 128"
    by (simp add: mod_add_left_eq)
  finally show ?thesis
    by (simp add: wrap128_def algebra_simps)
qed

lemma wrap64_id: "i64_ok x \<Longrightarrow> wrap64 x = x"
  by (simp add: wrap64_def i64_ok_pow mod_pos_pos_trivial)

lemma tdiv_nonneg: "0 \<le> a \<Longrightarrow> 0 < b \<Longrightarrow> tdiv a b = a div b"
  by (cases "a = 0") (simp_all add: tdiv_def)

text \<open>Division rounded up, as \<open>(a + b - 1) / b\<close>.\<close>

lemma ceil_div_bounds:
  fixes a b :: int
  assumes "0 < b"
  shows "a \<le> (a + (b - 1)) div b * b" and "(a + (b - 1)) div b * b < a + b"
proof -
  have "(a + (b - 1)) div b * b = a + (b - 1) - (a + (b - 1)) mod b"
    by (simp add: minus_mod_eq_div_mult [symmetric])
  moreover have "0 \<le> (a + (b - 1)) mod b" "(a + (b - 1)) mod b < b"
    using assms by simp_all
  ultimately show "a \<le> (a + (b - 1)) div b * b" and "(a + (b - 1)) div b * b < a + b"
    by linarith+
qed

section \<open>Identities, strings and bytes\<close>

type_synonym bytes32 = "256 word"

text \<open>\<open>to_le_bytes\<close> of an \<open>n\<close>-byte integer (two's complement when it is negative), and an identity
  as the bytes of its array.\<close>

definition le_bytes :: "nat \<Rightarrow> int \<Rightarrow> string" where
  "le_bytes n x = map (\<lambda>i. char_of (x div 256 ^ i mod 256)) [0..<n]"

definition bytes_of_id :: "bytes32 \<Rightarrow> string" where
  "bytes_of_id w = rev (le_bytes 32 (uint w))"

text \<open>The length-prefixed update of \<open>hash_json\<close>.\<close>

definition prefixed :: "string \<Rightarrow> string" where
  "prefixed bytes = le_bytes 8 (int (length bytes)) @ bytes"

lemma length_le_bytes [simp]: "length (le_bytes n x) = n"
  by (simp add: le_bytes_def)

text \<open>The bytes of a small number, computed from the last one on.\<close>

lemma le_bytes_zero: "le_bytes n 0 = replicate n (CHR 0x00)"
proof (induction n)
  case (Suc n)
  have "char_of (0 :: int) = CHR 0x00"
    by code_simp
  then show ?case
    using Suc by (simp add: le_bytes_def replicate_append_same [symmetric])
qed (simp add: le_bytes_def)

lemma le_bytes_code [code]:
  "le_bytes n x = (if n = 0 then [] else if x = 0 then replicate n (CHR 0x00)
     else char_of (x mod 256) # le_bytes (n - 1) (x div 256))"
proof (cases n)
  case (Suc m)
  have "map (\<lambda>i. char_of (x div 256 ^ i mod 256)) [0..<n]
      = char_of (x mod 256) # map (\<lambda>i. char_of (x div 256 ^ Suc i mod 256)) [0..<m]"
    unfolding Suc by (simp only: upt_conv_Cons [OF zero_less_Suc] map_Suc_upt [symmetric]) (simp add: comp_def)
  moreover have "map (\<lambda>i. char_of (x div 256 ^ Suc i mod 256) :: char) [0..<m] = le_bytes m (x div 256)"
    by (simp add: le_bytes_def zdiv_zmult2_eq)
  ultimately show ?thesis using Suc by (simp add: le_bytes_zero) (simp add: le_bytes_def)
qed (simp add: le_bytes_def)

lemma length_bytes_of_id [simp]: "length (bytes_of_id w) = 32"
  by (simp add: bytes_of_id_def)

text \<open>The versioned envelope every command is serialised in (\<open>struct WireCommand\<close> of each crate).\<close>

record 'c wire =
  wire_version :: int
  wire_command :: 'c

text \<open>Decimal display of an unsigned number, as \<open>format!\<close> prints it.\<close>

fun show_nat :: "nat \<Rightarrow> string" where
  "show_nat n = (if n < 10 then [char_of (48 + n)] else show_nat (n div 10) @ [char_of (48 + n mod 10)])"

declare show_nat.simps [simp del]

end
