(* ===== verification/FixedPoint.thy ===== *)
theory FixedPoint
  imports Prelude
begin

text \<open>
  The fixed-point primitives of \<open>crates/common-types/src/lib.rs\<close>: prices,
  quantities and money in millionths of a unit, the strict decimal parsers, and the
  two conversions between a price, a quantity and an amount of collateral. The
  lemmas show that parsing is exact (it never rounds, and undoes printing) and that
  the conversions round against the account.
\<close>

definition MICROS_PER_UNIT :: int where
  "MICROS_PER_UNIT = 1000000"

datatype financial_error =
    NegativeQuantity int
  | NegativeQuotePrice int
  | PriceOutOfRange int
  | ArithmeticOverflow

datatype decimal_error =
    InvalidSyntax
  | PrecisionLoss
  | DecimalOverflow
  | Financial financial_error

section \<open>Validated scalars\<close>

datatype quote_price_micros = QuotePriceMicros (quote_price_as_micros: int)
datatype price_micros = PriceMicros (price_as_micros: int)
datatype quantity_micros = QuantityMicros (quantity_as_micros: int)
datatype reference_quantity_e8 = ReferenceQuantityE8 (reference_as_e8: int)
datatype money_micros = MoneyMicros (money_as_micros: int)

definition quote_price_new :: "int \<Rightarrow> financial_error + quote_price_micros" where
  "quote_price_new v = (if 0 \<le> v then Inr (QuotePriceMicros v) else Inl (NegativeQuotePrice v))"

definition price_new :: "int \<Rightarrow> financial_error + price_micros" where
  "price_new v = (if 0 \<le> v \<and> v \<le> 1000000 then Inr (PriceMicros v) else Inl (PriceOutOfRange v))"

definition quantity_new :: "int \<Rightarrow> financial_error + quantity_micros" where
  "quantity_new v = (if 0 \<le> v then Inr (QuantityMicros v) else Inl (NegativeQuantity v))"

definition reference_quantity_new :: "int \<Rightarrow> financial_error + reference_quantity_e8" where
  "reference_quantity_new v =
     (if 0 \<le> v then Inr (ReferenceQuantityE8 v) else Inl (NegativeQuantity v))"

definition money_checked_add :: "money_micros \<Rightarrow> money_micros \<Rightarrow> financial_error + money_micros" where
  "money_checked_add a b =
     rbind (ok_or (add128 (money_as_micros a) (money_as_micros b)) ArithmeticOverflow)
       (\<lambda>v. Inr (MoneyMicros v))"

definition money_checked_sub :: "money_micros \<Rightarrow> money_micros \<Rightarrow> financial_error + money_micros" where
  "money_checked_sub a b =
     rbind (ok_or (sub128 (money_as_micros a) (money_as_micros b)) ArithmeticOverflow)
       (\<lambda>v. Inr (MoneyMicros v))"

section \<open>Strict decimal parsing\<close>

definition is_ascii_digit :: "char \<Rightarrow> bool" where
  "is_ascii_digit c \<longleftrightarrow> 48 \<le> (of_char c :: nat) \<and> (of_char c :: nat) \<le> 57"

definition digit_value :: "char \<Rightarrow> int" where
  "digit_value c = of_char c - 48"

fun parse_digits_from :: "int \<Rightarrow> string \<Rightarrow> decimal_error + int" where
  "parse_digits_from result [] = Inr result"
| "parse_digits_from result (digit # rest) =
     rbind (ok_or (mul64 result 10) DecimalOverflow) (\<lambda>current.
     rbind (ok_or (add64 current (digit_value digit)) DecimalOverflow) (\<lambda>next.
     parse_digits_from next rest))"

definition parse_digits :: "string \<Rightarrow> decimal_error + int" where
  "parse_digits value = parse_digits_from 0 value"

text \<open>\<open>str::split('.')\<close>: the pieces between the dots, one more than there are dots.\<close>

fun split_dot :: "string \<Rightarrow> string list" where
  "split_dot [] = [[]]"
| "split_dot (c # cs) =
     (if c = CHR ''.'' then [] # split_dot cs
      else (case split_dot cs of [] \<Rightarrow> [[c]] | p # ps \<Rightarrow> (c # p) # ps))"

fun scale_up :: "nat \<Rightarrow> int \<Rightarrow> decimal_error + int" where
  "scale_up 0 v = Inr v"
| "scale_up (Suc n) v = rbind (ok_or (mul64 v 10) DecimalOverflow) (scale_up n)"

definition checked_pow10 :: "nat \<Rightarrow> decimal_error + int" where
  "checked_pow10 n =
     (if 4294967295 < int n then Inl DecimalOverflow else ok_or (i64_new (10 ^ n)) DecimalOverflow)"

text \<open>The conversion of the two digit strings, after the syntax checks.\<close>

definition fixed_of_digits :: "string \<Rightarrow> string \<Rightarrow> nat \<Rightarrow> decimal_error + int" where
  "fixed_of_digits whole fraction fractional_digits =
     rbind (parse_digits whole) (\<lambda>whole_value.
     let kept_fraction = take (min (length fraction) fractional_digits) fraction in
     rbind (parse_digits kept_fraction) (\<lambda>kept.
     rbind (scale_up (fractional_digits - length kept_fraction) kept) (\<lambda>fraction_micros.
     rbind (checked_pow10 fractional_digits) (\<lambda>scale.
     rbind (ok_or (mul64 whole_value scale) DecimalOverflow) (\<lambda>scaled.
     ok_or (add64 scaled fraction_micros) DecimalOverflow)))))"

definition parse_unsigned_fixed :: "string \<Rightarrow> nat \<Rightarrow> decimal_error + int" where
  "parse_unsigned_fixed value fractional_digits =
     (if value = [] \<or> hd value = CHR ''+'' \<or> hd value = CHR ''-'' then Inl InvalidSyntax
      else case split_dot value of
        [] \<Rightarrow> Inl InvalidSyntax
      | whole # rest \<Rightarrow>
          let fraction = (case rest of [] \<Rightarrow> [] | f # _ \<Rightarrow> f) in
          if 2 \<le> length rest \<or> whole = [] \<or> \<not> list_all is_ascii_digit whole then Inl InvalidSyntax
          else if CHR ''.'' \<in> set value \<and> fraction = [] then Inl InvalidSyntax
          else if \<not> list_all is_ascii_digit fraction then Inl InvalidSyntax
          else if fractional_digits < length fraction
                  \<and> list_ex (\<lambda>c. c \<noteq> CHR ''0'') (drop fractional_digits fraction)
               then Inl PrecisionLoss
          else fixed_of_digits whole fraction fractional_digits)"

definition parse_unsigned_micros :: "string \<Rightarrow> decimal_error + int" where
  "parse_unsigned_micros value = parse_unsigned_fixed value 6"

definition map_financial :: "financial_error + 'a \<Rightarrow> decimal_error + 'a" where
  "map_financial r = (case r of Inl e \<Rightarrow> Inl (Financial e) | Inr a \<Rightarrow> Inr a)"

definition parse_price_micros :: "string \<Rightarrow> decimal_error + price_micros" where
  "parse_price_micros value =
     rbind (parse_unsigned_micros value) (\<lambda>micros. map_financial (price_new micros))"

definition parse_quantity_micros :: "string \<Rightarrow> decimal_error + quantity_micros" where
  "parse_quantity_micros value =
     rbind (parse_unsigned_micros value) (\<lambda>micros. map_financial (quantity_new micros))"

definition parse_reference_quantity_e8 :: "string \<Rightarrow> decimal_error + reference_quantity_e8" where
  "parse_reference_quantity_e8 value =
     rbind (parse_unsigned_fixed value 8) (\<lambda>v. map_financial (reference_quantity_new v))"

definition parse_quote_price_micros :: "string \<Rightarrow> decimal_error + quote_price_micros" where
  "parse_quote_price_micros value =
     rbind (parse_unsigned_micros value) (\<lambda>micros. map_financial (quote_price_new micros))"

section \<open>Collateral and proceeds\<close>

definition required_collateral ::
  "price_micros \<Rightarrow> quantity_micros \<Rightarrow> financial_error + money_micros" where
  "required_collateral price quantity =
     rbind (ok_or (mul128 (price_as_micros price) (quantity_as_micros quantity)) ArithmeticOverflow)
       (\<lambda>product.
     rbind (ok_or (add128 product (MICROS_PER_UNIT - 1)) ArithmeticOverflow)
       (\<lambda>bumped. Inr (MoneyMicros (tdiv bumped MICROS_PER_UNIT))))"

definition conservative_proceeds ::
  "price_micros \<Rightarrow> quantity_micros \<Rightarrow> financial_error + money_micros" where
  "conservative_proceeds price quantity =
     rbind (ok_or (mul128 (price_as_micros price) (quantity_as_micros quantity)) ArithmeticOverflow)
       (\<lambda>product. Inr (MoneyMicros (tdiv product MICROS_PER_UNIT)))"

section \<open>Parsing is exact\<close>

definition dec_acc :: "int \<Rightarrow> string \<Rightarrow> int" where
  "dec_acc a s = foldl (\<lambda>a c. a * 10 + digit_value c) a s"

abbreviation dec_value :: "string \<Rightarrow> int" where
  "dec_value s \<equiv> dec_acc 0 s"

lemma dec_acc_simps [simp]:
  "dec_acc a [] = a"
  "dec_acc a (c # s) = dec_acc (a * 10 + digit_value c) s"
  by (simp_all add: dec_acc_def)

lemma dec_acc_append: "dec_acc a (s @ t) = dec_acc (dec_acc a s) t"
  by (simp add: dec_acc_def)

lemma dec_acc_shift: "dec_acc a s = a * 10 ^ length s + dec_value s"
proof (induction s arbitrary: a)
  case (Cons c s)
  show ?case
    using Cons [of "a * 10 + digit_value c"] Cons [of "digit_value c"] by (simp add: algebra_simps)
qed simp

lemma digit_value_bounds: "is_ascii_digit c \<Longrightarrow> 0 \<le> digit_value c \<and> digit_value c \<le> 9"
proof -
  assume c: "is_ascii_digit c"
  have "(of_char c :: int) = int (of_char c :: nat)"
    by (rule of_nat_of_char [symmetric])
  with c show ?thesis
    unfolding is_ascii_digit_def digit_value_def by linarith
qed

lemma dec_acc_mono: "0 \<le> a \<Longrightarrow> list_all is_ascii_digit s \<Longrightarrow> a \<le> dec_acc a s"
proof (induction s arbitrary: a)
  case (Cons c s)
  then have "a * 10 + digit_value c \<le> dec_acc (a * 10 + digit_value c) s"
    using digit_value_bounds [of c] by simp
  then show ?case
    using Cons.prems digit_value_bounds [of c] by simp
qed simp

lemma parse_digits_from_eq:
  assumes "0 \<le> a" and "i64_ok a" and "list_all is_ascii_digit s"
  shows "parse_digits_from a s =
    (if i64_ok (dec_acc a s) then Inr (dec_acc a s) else Inl DecimalOverflow)"
  using assms
proof (induction s arbitrary: a)
  case (Cons c s)
  let ?b = "a * 10 + digit_value c"
  have c: "0 \<le> digit_value c" "digit_value c \<le> 9" and s: "list_all is_ascii_digit s"
    using Cons.prems digit_value_bounds [of c] by auto
  show ?case
  proof (cases "i64_ok ?b")
    case True
    then have "i64_ok (a * 10)"
      using c Cons.prems(1) by (simp add: i64_ok_def)
    with True have "mul64 a 10 = Some (a * 10)" "add64 (a * 10) (digit_value c) = Some ?b"
      by (simp_all add: checked_simps)
    then show ?thesis
      using Cons.IH [OF _ True s] c Cons.prems(1) by simp
  next
    case False
    then have "mul64 a 10 = None \<or> add64 (a * 10) (digit_value c) = None"
      by (simp add: checked_simps)
    moreover have "\<not> i64_ok (dec_acc ?b s)"
      using False dec_acc_mono [OF _ s, of ?b] c Cons.prems(1) by (auto simp: i64_ok_def)
    moreover have "m = a * 10" if "mul64 a 10 = Some m" for m
      using that by (simp add: checked_simps)
    ultimately show ?thesis
      by (cases "mul64 a 10") auto
  qed
qed simp

lemma parse_digits_eq:
  "list_all is_ascii_digit s \<Longrightarrow> parse_digits s =
    (if i64_ok (dec_value s) then Inr (dec_value s) else Inl DecimalOverflow)"
  unfolding parse_digits_def by (rule parse_digits_from_eq) (simp_all add: i64_ok_def)

lemma scale_up_Inr: "scale_up n v = Inr u \<Longrightarrow> u = v * 10 ^ n"
proof (induction n arbitrary: v)
  case (Suc n)
  then have "u = v * 10 * 10 ^ n"
    by (auto simp: result_simps checked_simps)
  then show ?case by simp
qed simp

lemma checked_pow10_Inr: "checked_pow10 n = Inr u \<Longrightarrow> u = 10 ^ n"
  by (auto simp: checked_pow10_def result_simps checked_simps split: if_splits)

lemma split_dot_nonempty: "split_dot s \<noteq> []"
  by (induction s) (auto split: list.splits)

lemma split_dot_join: "split_dot s = p # ps \<Longrightarrow> s = p @ concat (map (\<lambda>q. CHR ''.'' # q) ps)"
proof (induction s arbitrary: p ps)
  case (Cons c s)
  obtain q qs where q: "split_dot s = q # qs"
    using split_dot_nonempty by (cases "split_dot s") auto
  then have "s = q @ concat (map (\<lambda>q. CHR ''.'' # q) qs)"
    by (rule Cons.IH)
  moreover have "if c = CHR ''.'' then p = [] \<and> ps = q # qs else p = c # q \<and> ps = qs"
    using Cons.prems q by (simp split: if_splits)
  ultimately show ?case
    by (auto split: if_splits)
qed simp

lemma split_dot_nodot: "CHR ''.'' \<notin> set s \<Longrightarrow> split_dot s = [s]"
  by (induction s) auto

lemma split_dot_one:
  "CHR ''.'' \<notin> set w \<Longrightarrow> CHR ''.'' \<notin> set f \<Longrightarrow> split_dot (w @ CHR ''.'' # f) = [w, f]"
  by (induction w) (auto simp: split_dot_nodot)

lemma digits_no_dot: "list_all is_ascii_digit s \<Longrightarrow> CHR ''.'' \<notin> set s"
  by (auto simp: list_all_iff is_ascii_digit_def)

lemma zeros_value:
  assumes "\<not> list_ex (\<lambda>c. c \<noteq> CHR ''0'') s"
  shows "dec_acc a s = a * 10 ^ length s"
  using assms by (induction s arbitrary: a) (auto simp: digit_value_def)

lemma fixed_of_digits_Inr:
  assumes "list_all is_ascii_digit w" and "list_all is_ascii_digit f"
    and "fixed_of_digits w f d = Inr v"
  shows "i64_ok v" and "v = dec_value w * 10 ^ d + dec_value (take d f) * 10 ^ (d - length f)"
proof -
  let ?k = "take (min (length f) d) f"
  have k: "?k = take d f" "list_all is_ascii_digit (take d f)"
    using assms(2) by (auto simp: list_all_iff min_def dest: in_set_takeD)
  have len: "d - length (take d f) = d - length f"
    by simp
  obtain m s where "scale_up (d - length f) (dec_value (take d f)) = Inr m"
      and "checked_pow10 d = Inr s" and "v = dec_value w * s + m" and "i64_ok v"
    using assms(3) unfolding fixed_of_digits_def Let_def k(1) len parse_digits_eq [OF assms(1)]
      parse_digits_eq [OF k(2)]
    by (auto simp: result_simps checked_simps simp del: length_take split: if_splits)
  then show "i64_ok v" and "v = dec_value w * 10 ^ d + dec_value (take d f) * 10 ^ (d - length f)"
    by (auto dest!: scale_up_Inr checked_pow10_Inr)
qed

lemma parse_unsigned_fixed_parts:
  assumes "parse_unsigned_fixed s d = Inr v"
  obtains w f where "s = w @ (if f = [] then [] else CHR ''.'' # f)"
    and "w \<noteq> []" and "list_all is_ascii_digit w" and "list_all is_ascii_digit f"
    and "\<not> list_ex (\<lambda>c. c \<noteq> CHR ''0'') (drop d f)" and "i64_ok v"
    and "v = dec_value w * 10 ^ d + dec_value (take d f) * 10 ^ (d - length f)"
proof -
  obtain w rest where split: "split_dot s = w # rest"
    using split_dot_nonempty by (cases "split_dot s") auto
  define f where "f = (case rest of [] \<Rightarrow> [] | f # _ \<Rightarrow> f)"
  have facts: "length rest < 2" "w \<noteq> []" "list_all is_ascii_digit w"
      "CHR ''.'' \<in> set s \<longrightarrow> f \<noteq> []" "list_all is_ascii_digit f"
      "\<not> (d < length f \<and> list_ex (\<lambda>c. c \<noteq> CHR ''0'') (drop d f))"
      "fixed_of_digits w f d = Inr v"
    using assms unfolding parse_unsigned_fixed_def split
    by (simp_all add: f_def Let_def result_simps del: not_less)
  have s: "s = w @ (if f = [] then [] else CHR ''.'' # f)"
    using split_dot_join [OF split] facts(1,4) by (cases rest) (auto simp: f_def split: if_splits)
  moreover have "\<not> list_ex (\<lambda>c. c \<noteq> CHR ''0'') (drop d f)"
    using facts(6) by (cases "d < length f") auto
  ultimately show thesis
    using that facts fixed_of_digits_Inr [OF facts(3,5,7)] by blast
qed

text \<open>The value is the one the digits denote: \<open>v / 10 ^ d = digits / 10 ^ length f\<close>.\<close>

lemma parse_value_exact:
  assumes "\<not> list_ex (\<lambda>c. c \<noteq> CHR ''0'') (drop d f)"
    and "v = dec_value w * 10 ^ d + dec_value (take d f) * 10 ^ (d - length f)"
  shows "v * 10 ^ length f = dec_value (w @ f) * 10 ^ d"
proof -
  have "dec_value f = dec_value (take d f) * 10 ^ length (drop d f)"
    using zeros_value [OF assms(1)] dec_acc_append [of 0 "take d f" "drop d f"] by simp
  then have "dec_value (w @ f) = dec_value w * 10 ^ length f + dec_value (take d f) * 10 ^ (length f - d)"
    by (simp add: dec_acc_append) (simp add: dec_acc_shift [of "dec_value w"])
  moreover have "(10 :: int) ^ (d - length f) * 10 ^ length f = 10 ^ (length f - d) * 10 ^ d"
    by (simp flip: power_add)
  ultimately show ?thesis
    using assms(2) by (simp add: algebra_simps)
qed

section \<open>Printing, and parsing what was printed\<close>

definition pad_zeros :: "nat \<Rightarrow> string \<Rightarrow> string" where
  "pad_zeros d s = replicate (d - length s) (CHR ''0'') @ s"

definition decimal_text :: "nat \<Rightarrow> int \<Rightarrow> string" where
  "decimal_text d m =
     show_nat (nat (m div 10 ^ d)) @ CHR ''.'' # pad_zeros d (show_nat (nat (m mod 10 ^ d)))"

lemma show_nat_nonempty [simp]: "show_nat n \<noteq> []"
  by (subst show_nat.simps) simp

lemma digit_char:
  assumes "n < 10"
  shows "is_ascii_digit (char_of (48 + n))" and "digit_value (char_of (48 + n)) = int n"
proof -
  have "(of_char (char_of (48 + n)) :: nat) = 48 + n"
    using assms by simp
  moreover have "(of_char c :: int) = int (of_char c :: nat)" for c
    by (rule of_nat_of_char [symmetric])
  ultimately show "is_ascii_digit (char_of (48 + n))" "digit_value (char_of (48 + n)) = int n"
    using assms by (simp_all add: is_ascii_digit_def digit_value_def)
qed

lemma show_nat_digits: "list_all is_ascii_digit (show_nat n) \<and> dec_value (show_nat n) = int n"
proof (induction n rule: show_nat.induct)
  case (1 n)
  show ?case
  proof (cases "n < 10")
    case True
    then show ?thesis by (subst (1 2) show_nat.simps) (simp add: digit_char)
  next
    case False
    have "int n = int (n div 10) * 10 + int (n mod 10)"
      by (simp add: zdiv_int zmod_int)
    with 1 False show ?thesis
      by (subst (1 2) show_nat.simps) (simp add: digit_char dec_acc_append)
  qed
qed

lemma show_nat_length: "n < 10 ^ d \<Longrightarrow> 0 < d \<Longrightarrow> length (show_nat n) \<le> d"
proof (induction n arbitrary: d rule: show_nat.induct)
  case (1 n)
  show ?case
  proof (cases "n < 10")
    case True
    with "1.prems" show ?thesis by (subst show_nat.simps) simp
  next
    case False
    with "1.prems" obtain k where k: "d = Suc k" "0 < k"
      by (cases d; cases "d = 1") auto
    with "1.prems" have "n div 10 < 10 ^ k"
      by (simp add: less_mult_imp_div_less mult.commute)
    with "1.IH" [OF False _ k(2)] False k show ?thesis
      by (subst show_nat.simps) simp
  qed
qed

lemma pad_zeros_digits:
  "list_all is_ascii_digit s \<Longrightarrow>
     list_all is_ascii_digit (pad_zeros d s) \<and> dec_value (pad_zeros d s) = dec_value s"
  using zeros_value [of "replicate (d - length s) (CHR ''0'')" 0]
  by (auto simp: pad_zeros_def dec_acc_append list_all_iff list_ex_iff is_ascii_digit_def)

lemma length_pad_zeros: "length s \<le> d \<Longrightarrow> length (pad_zeros d s) = d"
  by (simp add: pad_zeros_def)

lemma parse_decimal_text:
  assumes "0 \<le> m" and "i64_ok m" and "0 < d" and "d \<le> 18"
  shows "parse_unsigned_fixed (decimal_text d m) d = Inr m"
proof -
  define w :: string where "w = show_nat (nat (m div 10 ^ d))"
  define f :: string where "f = pad_zeros d (show_nat (nat (m mod 10 ^ d)))"
  have q: "0 \<le> m div 10 ^ d" "0 \<le> m mod 10 ^ d" "m mod 10 ^ d < 10 ^ d"
    using assms(1) by (simp_all add: pos_imp_zdiv_nonneg_iff)
  then have "nat (m mod 10 ^ d) < 10 ^ d"
    by (simp add: nat_less_iff)
  then have lf: "length f = d"
    using assms(3) by (simp add: f_def length_pad_zeros show_nat_length)
  have w: "list_all is_ascii_digit w" "dec_value w = m div 10 ^ d" "w \<noteq> []"
    using q show_nat_digits by (simp_all add: w_def)
  have f: "list_all is_ascii_digit f" "dec_value f = m mod 10 ^ d" "f \<noteq> []"
    using q show_nat_digits pad_zeros_digits lf assms(3) by (auto simp: f_def)
  have dtext: "decimal_text d m = w @ CHR ''.'' # f"
    by (simp add: decimal_text_def w_def f_def)
  have m: "m div 10 ^ d * 10 ^ d + m mod 10 ^ d = m"
    by (rule div_mult_mod_eq)
  have pow: "(10 :: int) ^ d \<le> 10 ^ 18"
    using assms(4) by (intro power_increasing) simp_all
  have ok: "i64_ok (m div 10 ^ d)" "i64_ok (m mod 10 ^ d)" "i64_ok (m div 10 ^ d * 10 ^ d)"
  proof -
    have "m div 10 ^ d \<le> m div 10 ^ d * 10 ^ d"
      using q(1) by (simp add: mult_le_cancel_left1)
    then show "i64_ok (m div 10 ^ d)" "i64_ok (m mod 10 ^ d)" "i64_ok (m div 10 ^ d * 10 ^ d)"
      using assms(2) q m unfolding i64_ok_def by linarith+
  qed
  have okp: "i64_ok (10 ^ d)"
  proof -
    have "0 < (10 :: int) ^ d"
      by simp
    moreover have "(10 :: int) ^ 18 = 1000000000000000000"
      by simp
    ultimately show ?thesis
      using pow unfolding i64_ok_def by linarith
  qed
  have "fixed_of_digits w f d = Inr m"
    using assms(2,4) ok okp w(1,2) f(1,2) lf m
    by (simp add: fixed_of_digits_def parse_digits_eq checked_pow10_def i64_new_def mul64_def add64_def)
  moreover have "split_dot (decimal_text d m) = [w, f]"
    unfolding dtext by (intro split_dot_one digits_no_dot w f)
  moreover have "hd (decimal_text d m) \<noteq> CHR ''+'' \<and> hd (decimal_text d m) \<noteq> CHR ''-''"
    using w(1,3) by (cases w) (auto simp: dtext is_ascii_digit_def)
  ultimately show ?thesis
    using w f lf by (simp add: parse_unsigned_fixed_def dtext)
qed

section \<open>Rounding against the account\<close>

lemma micro_rounding:
  fixes x :: int
  assumes "0 \<le> x"
  shows "x \<le> (x + 999999) div 1000000 * 1000000"
    and "(x + 999999) div 1000000 * 1000000 < x + 1000000"
    and "x div 1000000 * 1000000 \<le> x"
    and "x < x div 1000000 * 1000000 + 1000000"
    and "0 \<le> x div 1000000"
    and "x div 1000000 \<le> (x + 999999) div 1000000"
    and "(x + 999999) div 1000000 \<le> x div 1000000 + 1"
proof -
  have c: "x \<le> (x + 999999) div 1000000 * 1000000" "(x + 999999) div 1000000 * 1000000 < x + 1000000"
    using ceil_div_bounds [of 1000000 x] by simp_all
  have f: "x div 1000000 * 1000000 \<le> x" "x < x div 1000000 * 1000000 + 1000000"
    using div_mult_mod_eq [of x 1000000] pos_mod_bound [of 1000000 x] pos_mod_sign [of 1000000 x]
    by linarith+
  obtain a b where d: "a = x div 1000000" "b = (x + 999999) div 1000000"
    by blast
  show "x \<le> (x + 999999) div 1000000 * 1000000"
    and "(x + 999999) div 1000000 * 1000000 < x + 1000000"
    and "x div 1000000 * 1000000 \<le> x"
    and "x < x div 1000000 * 1000000 + 1000000"
    and "0 \<le> x div 1000000"
    and "x div 1000000 \<le> (x + 999999) div 1000000"
    and "(x + 999999) div 1000000 \<le> x div 1000000 + 1"
    by (insert c f assms, unfold d [symmetric], linarith+)
qed

definition valid_price :: "price_micros \<Rightarrow> bool" where
  "valid_price p \<longleftrightarrow> price_new (price_as_micros p) = Inr p"

definition valid_quantity :: "quantity_micros \<Rightarrow> bool" where
  "valid_quantity q \<longleftrightarrow> quantity_new (quantity_as_micros q) = Inr q \<and> i64_ok (quantity_as_micros q)"

lemma valid_price_iff: "valid_price p \<longleftrightarrow> 0 \<le> price_as_micros p \<and> price_as_micros p \<le> 1000000"
  by (auto simp: valid_price_def price_new_def)

lemma valid_quantity_iff:
  "valid_quantity q \<longleftrightarrow> 0 \<le> quantity_as_micros q \<and> quantity_as_micros q \<le> 9223372036854775807"
  by (auto simp: valid_quantity_def quantity_new_def i64_ok_def)

lemma price_quantity_product:
  assumes "valid_price p" and "valid_quantity q"
  shows "0 \<le> price_as_micros p * quantity_as_micros q"
    and "price_as_micros p * quantity_as_micros q \<le> 1000000 * quantity_as_micros q"
  using assms by (auto simp: valid_price_iff valid_quantity_iff intro: mult_right_mono)

lemma required_collateral_eq:
  assumes "valid_price p" and "valid_quantity q"
  shows "required_collateral p q =
    Inr (MoneyMicros ((price_as_micros p * quantity_as_micros q + 999999) div 1000000))"
proof -
  note pq = price_quantity_product [OF assms]
  have "i128_ok (price_as_micros p * quantity_as_micros q + 999999)"
       "i128_ok (price_as_micros p * quantity_as_micros q)"
    using pq assms(2) by (auto simp: i128_ok_def valid_quantity_iff)
  then show ?thesis
    using pq by (simp add: required_collateral_def mul128_def add128_def i128_new_def
        MICROS_PER_UNIT_def tdiv_nonneg)
qed

lemma conservative_proceeds_eq:
  assumes "valid_price p" and "valid_quantity q"
  shows "conservative_proceeds p q =
    Inr (MoneyMicros (price_as_micros p * quantity_as_micros q div 1000000))"
proof -
  note pq = price_quantity_product [OF assms]
  have "i128_ok (price_as_micros p * quantity_as_micros q)"
    using pq assms(2) by (auto simp: i128_ok_def valid_quantity_iff)
  then show ?thesis
    using pq by (simp add: conservative_proceeds_def mul128_def i128_new_def
        MICROS_PER_UNIT_def tdiv_nonneg)
qed

section \<open>Properties\<close>

text \<open>Every accepted decimal string denotes its value exactly: it is digits, at most one dot
  with digits on both sides, the fixed-point value times the power of ten of the fraction's length
  is the number the digits spell at the requested scale, and the value fits an \<open>i64\<close>. No accepted
  string is rounded.\<close>
theorem parse_never_rounds:
  assumes "parse_unsigned_fixed s d = Inr v"
  shows "\<exists>w f. s = w @ (if f = [] then [] else CHR ''.'' # f) \<and> w \<noteq> []
           \<and> list_all is_ascii_digit (w @ f) \<and> v * 10 ^ length f = dec_value (w @ f) * 10 ^ d
           \<and> 0 \<le> v \<and> i64_ok v"
proof -
  obtain w f where wf: "s = w @ (if f = [] then [] else CHR ''.'' # f)" "w \<noteq> []"
      "list_all is_ascii_digit w" "list_all is_ascii_digit f"
      "\<not> list_ex (\<lambda>c. c \<noteq> CHR ''0'') (drop d f)" "i64_ok v"
      "v = dec_value w * 10 ^ d + dec_value (take d f) * 10 ^ (d - length f)"
    using assms by (rule parse_unsigned_fixed_parts)
  have "list_all is_ascii_digit (take d f)"
    using wf(4) by (auto simp: list_all_iff dest: in_set_takeD)
  then have "0 \<le> v"
    unfolding wf(7) using dec_acc_mono [of 0 w] dec_acc_mono [of 0 "take d f"] wf(3) by simp
  then show ?thesis
    using wf parse_value_exact [OF wf(5,7)] by (intro exI [of _ w] exI [of _ f]) auto
qed

theorem parse_never_rounds_witness:
  "\<exists>w f. ''12.50'' = w @ (if f = [] then [] else CHR ''.'' # f) \<and> w \<noteq> []
     \<and> list_all is_ascii_digit (w @ f) \<and> 12500000 * 10 ^ length f = dec_value (w @ f) * 10 ^ 6
     \<and> 0 \<le> (12500000 :: int) \<and> i64_ok 12500000"
  by (rule parse_never_rounds) code_simp

text \<open>Printing a quantity with six decimals and parsing it gives the quantity back, for every
  non-negative \<open>i64\<close>; the same holds for prices in range.\<close>
theorem decimal_round_trip:
  assumes "0 \<le> m" and "i64_ok m"
  shows "parse_quantity_micros (decimal_text 6 m) = Inr (QuantityMicros m)
    \<and> parse_price_micros (decimal_text 6 m) =
      (if m \<le> 1000000 then Inr (PriceMicros m) else Inl (Financial (PriceOutOfRange m)))
    \<and> parse_reference_quantity_e8 (decimal_text 8 m) = Inr (ReferenceQuantityE8 m)"
  using assms
  by (simp_all add: parse_quantity_micros_def parse_price_micros_def parse_reference_quantity_e8_def
      parse_unsigned_micros_def parse_decimal_text map_financial_def quantity_new_def price_new_def
      reference_quantity_new_def)

theorem decimal_round_trip_witness:
  "parse_quantity_micros (decimal_text 6 123000001) = Inr (QuantityMicros 123000001)
     \<and> parse_price_micros (decimal_text 6 400000) = Inr (PriceMicros 400000)"
  using decimal_round_trip [of 123000001] decimal_round_trip [of 400000] by (simp add: i64_ok_def)

text \<open>For a valid price and quantity neither conversion overflows; the reserved collateral is
  the exact cost rounded up to a micro and the credited proceeds are the exact value rounded
  down, so that the proceeds never exceed the collateral, differ from it by at most one micro,
  and the collateral never exceeds the quantity.\<close>
theorem collateral_rounds_against_account:
  assumes "valid_price p" and "valid_quantity q"
  shows "\<exists>c r. required_collateral p q = Inr (MoneyMicros c)
      \<and> conservative_proceeds p q = Inr (MoneyMicros r)
      \<and> price_as_micros p * quantity_as_micros q \<le> c * 1000000
      \<and> c * 1000000 < price_as_micros p * quantity_as_micros q + 1000000
      \<and> r * 1000000 \<le> price_as_micros p * quantity_as_micros q
      \<and> price_as_micros p * quantity_as_micros q < r * 1000000 + 1000000
      \<and> 0 \<le> r \<and> r \<le> c \<and> c \<le> r + 1 \<and> c \<le> quantity_as_micros q"
proof -
  let ?x = "price_as_micros p * quantity_as_micros q"
  let ?c = "(?x + 999999) div 1000000" and ?r = "?x div 1000000"
  note x = price_quantity_product [OF assms]
  have "?c \<le> quantity_as_micros q"
    using x by linarith
  moreover note micro_rounding [OF x(1)]
  ultimately show ?thesis
    using required_collateral_eq [OF assms] conservative_proceeds_eq [OF assms] by blast
qed

theorem collateral_rounds_against_account_witness:
  "\<exists>c r. required_collateral (PriceMicros 333333) (QuantityMicros 1) = Inr (MoneyMicros c)
      \<and> conservative_proceeds (PriceMicros 333333) (QuantityMicros 1) = Inr (MoneyMicros r)
      \<and> 0 \<le> r \<and> r \<le> c \<and> c \<le> r + 1"
  using collateral_rounds_against_account [of "PriceMicros 333333" "QuantityMicros 1"]
  by (auto simp: valid_price_iff valid_quantity_iff)

end
