(* ===== verification/BTree_Map.thy ===== *)
theory BTree_Map
  imports Prelude
begin

text \<open>
  The ordered map \<open>std::collections::BTreeMap\<close> that every component keeps its
  state in, and the ordered set \<open>BTreeSet\<close> as a map to unit. A map is its list of
  entries in key order, which is also what iterating over the map visits. The
  laws a client relies on are the locale \<open>ordered_map\<close>, interpreted below on the
  entry lists.
\<close>

named_theorems bt_simps \<open>lookup, keys and order of the entry lists\<close>

type_synonym ('k, 'v) btree = "('k \<times> 'v) list"

section \<open>Operations\<close>

definition bt_empty :: "('k, 'v) btree" where
  "bt_empty = []"

definition bt_get :: "('k, 'v) btree \<Rightarrow> 'k \<Rightarrow> 'v option" where
  "bt_get m k = map_of m k"

fun bt_insert :: "'k::linorder \<Rightarrow> 'v \<Rightarrow> ('k, 'v) btree \<Rightarrow> ('k, 'v) btree" where
  "bt_insert k v [] = [(k, v)]"
| "bt_insert k v ((a, b) # m) =
     (if k < a then (k, v) # (a, b) # m
      else if k = a then (k, v) # m
      else (a, b) # bt_insert k v m)"

definition bt_remove :: "'k \<Rightarrow> ('k, 'v) btree \<Rightarrow> ('k, 'v) btree" where
  "bt_remove k m = filter (\<lambda>e. fst e \<noteq> k) m"

definition bt_contains :: "('k, 'v) btree \<Rightarrow> 'k \<Rightarrow> bool" where
  "bt_contains m k = (bt_get m k \<noteq> None)"

definition bt_get_or :: "('k, 'v) btree \<Rightarrow> 'k \<Rightarrow> 'v \<Rightarrow> 'v" where
  "bt_get_or m k d = (case bt_get m k of None \<Rightarrow> d | Some v \<Rightarrow> v)"

definition bt_retain :: "('v \<Rightarrow> bool) \<Rightarrow> ('k, 'v) btree \<Rightarrow> ('k, 'v) btree" where
  "bt_retain p m = filter (\<lambda>e. p (snd e)) m"

definition bt_ok :: "('k::linorder, 'v) btree \<Rightarrow> bool" where
  "bt_ok m = sorted_wrt (<) (map fst m)"

type_synonym 'k btset = "('k, unit) btree"

definition bs_insert :: "'k::linorder \<Rightarrow> 'k btset \<Rightarrow> 'k btset" where
  "bs_insert k s = bt_insert k () s"

definition bs_mem :: "'k \<Rightarrow> 'k btset \<Rightarrow> bool" where
  "bs_mem k s = bt_contains s k"

fun bs_of_list :: "'k::linorder list \<Rightarrow> 'k btset" where
  "bs_of_list [] = []"
| "bs_of_list (k # ks) = bs_insert k (bs_of_list ks)"

definition bs_subset :: "'k btset \<Rightarrow> 'k btset \<Rightarrow> bool" where
  "bs_subset s t = list_all (\<lambda>e. bs_mem (fst e) t) s"

section \<open>Laws\<close>

lemma bt_get_Nil [simp]: "bt_get [] k = None"
  by (simp add: bt_get_def)

lemma bt_get_Cons [simp]:
  "bt_get ((a, b) # m) k = (if k = a then Some b else bt_get m k)"
  by (auto simp: bt_get_def)

lemma bt_get_empty [simp]: "bt_get bt_empty k = None"
  by (simp add: bt_empty_def)

lemma bt_get_insert [bt_simps]:
  "bt_get (bt_insert k v m) x = (if x = k then Some v else bt_get m x)"
  by (induction k v m rule: bt_insert.induct) auto

lemma bt_get_remove [bt_simps]:
  "bt_get (bt_remove k m) x = (if x = k then None else bt_get m x)"
  by (induction m) (auto simp: bt_remove_def bt_get_def)

lemma bt_contains_insert [bt_simps]:
  "bt_contains (bt_insert k v m) x \<longleftrightarrow> x = k \<or> bt_contains m x"
  by (simp add: bt_contains_def bt_get_insert)

lemma bt_get_or_insert [bt_simps]:
  "bt_get_or (bt_insert k v m) x d = (if x = k then v else bt_get_or m x d)"
  by (simp add: bt_get_or_def bt_get_insert)

lemma keys_insert [bt_simps]: "set (map fst (bt_insert k v m)) = insert k (set (map fst m))"
  by (induction k v m rule: bt_insert.induct) auto

lemma bt_ok_Nil [simp]: "bt_ok []"
  by (simp add: bt_ok_def)

lemma bt_ok_Cons:
  "bt_ok ((a, b) # m) \<longleftrightarrow> (\<forall>x \<in> set (map fst m). a < x) \<and> bt_ok m"
  by (auto simp: bt_ok_def)

lemma bt_ok_insert [intro]: "bt_ok m \<Longrightarrow> bt_ok (bt_insert k v m)"
proof (induction k v m rule: bt_insert.induct)
  case (1 k v)
  then show ?case by (simp add: bt_ok_def)
next
  case (2 k v a b m)
  from "2.prems" have "\<forall>x \<in> set (map fst m). a < x" and "bt_ok m"
    by (simp_all add: bt_ok_Cons)
  with "2.IH" show ?case
    by (auto simp: bt_ok_Cons keys_insert simp del: set_map)
qed

lemma bt_ok_filter [intro]: "bt_ok m \<Longrightarrow> bt_ok (filter p m)"
  by (induction m) (auto simp: bt_ok_def)

lemma bt_ok_retain [intro]: "bt_ok m \<Longrightarrow> bt_ok (bt_retain p m)"
  by (auto simp: bt_retain_def)

lemma bt_ok_remove [intro]: "bt_ok m \<Longrightarrow> bt_ok (bt_remove k m)"
  by (auto simp: bt_remove_def)

lemma bt_ok_distinct: "bt_ok m \<Longrightarrow> distinct (map fst m)"
  by (simp add: bt_ok_def strict_sorted_iff)

lemma bt_get_mem: "bt_get m k = Some v \<Longrightarrow> (k, v) \<in> set m"
  by (simp add: bt_get_def map_of_SomeD)

lemma bt_mem_get: "bt_ok m \<Longrightarrow> (k, v) \<in> set m \<longleftrightarrow> bt_get m k = Some v"
  using map_of_eq_Some_iff [OF bt_ok_distinct, of m k v] by (simp add: bt_get_def)

lemma bt_get_None_keys: "bt_get m k = None \<longleftrightarrow> k \<notin> fst ` set m"
  by (simp add: bt_get_def map_of_eq_None_iff)

lemma bt_get_retain [bt_simps]:
  assumes "bt_ok m"
  shows "bt_get (bt_retain p m) k = (case bt_get m k of None \<Rightarrow> None | Some v \<Rightarrow> if p v then Some v else None)"
  using assms
proof (induction m)
  case Nil
  then show ?case by (simp add: bt_retain_def)
next
  case (Cons e m)
  obtain a b where e: "e = (a, b)" by (cases e)
  have "bt_get m a = None"
    using Cons.prems by (force simp: e bt_ok_Cons bt_get_None_keys)
  with Cons e show ?case
    by (auto simp: bt_retain_def bt_ok_Cons split: option.splits)
qed

text \<open>Two sorted entry lists with the same lookups are the same list.\<close>

lemma bt_ext:
  assumes "bt_ok m" and "bt_ok n" and "\<And>k. bt_get m k = bt_get n k"
  shows "m = n"
proof -
  have "set m = set n"
    using assms by (auto simp: bt_mem_get)
  moreover have "sorted (map fst m)" "sorted (map fst n)"
    using assms(1,2) by (simp_all add: bt_ok_def strict_sorted_iff)
  ultimately show ?thesis
    using assms(1,2)
    by (metis bt_ok_distinct map_sorted_distinct_set_unique distinct_map inj_on_Un sup.idem)
qed

lemma bs_mem_insert [bt_simps]: "bs_mem x (bs_insert k s) \<longleftrightarrow> x = k \<or> bs_mem x s"
  by (simp add: bs_mem_def bs_insert_def bt_contains_insert)

lemma bs_mem_Nil [simp]: "\<not> bs_mem x []"
  by (simp add: bs_mem_def bt_contains_def)

lemma bs_mem_of_list [bt_simps]: "bs_mem x (bs_of_list ks) \<longleftrightarrow> x \<in> set ks"
  by (induction ks) (auto simp: bs_mem_insert)

lemma bs_mem_keys: "bs_mem x s \<longleftrightarrow> x \<in> fst ` set s"
  by (simp add: bs_mem_def bt_contains_def bt_get_None_keys)

lemma bs_subset_iff: "bs_subset s t \<longleftrightarrow> (\<forall>x. bs_mem x s \<longrightarrow> bs_mem x t)"
  by (auto simp: bs_subset_def list_all_iff bs_mem_keys)

section \<open>The interface\<close>

locale ordered_map =
  fixes empty_map :: "'m"
    and get :: "'m \<Rightarrow> 'k::linorder \<Rightarrow> 'v option"
    and put :: "'k \<Rightarrow> 'v \<Rightarrow> 'm \<Rightarrow> 'm"
    and del :: "'k \<Rightarrow> 'm \<Rightarrow> 'm"
    and entries :: "'m \<Rightarrow> ('k \<times> 'v) list"
    and valid :: "'m \<Rightarrow> bool"
  assumes get_empty: "get empty_map k = None"
    and get_put: "get (put k v m) x = (if x = k then Some v else get m x)"
    and get_del: "get (del k m) x = (if x = k then None else get m x)"
    and valid_empty: "valid empty_map"
    and valid_put: "valid m \<Longrightarrow> valid (put k v m)"
    and valid_del: "valid m \<Longrightarrow> valid (del k m)"
    and entries_get: "valid m \<Longrightarrow> (k, v) \<in> set (entries m) \<longleftrightarrow> get m k = Some v"
    and entries_sorted: "valid m \<Longrightarrow> sorted_wrt (<) (map fst (entries m))"
begin

lemma put_put: "get (put k v (put k w m)) x = get (put k v m) x"
  by (simp add: get_put)

lemma put_commute: "j \<noteq> k \<Longrightarrow> get (put j v (put k w m)) x = get (put k w (put j v m)) x"
  by (auto simp: get_put)

lemma del_put: "get (del k (put k v m)) x = get (del k m) x"
  by (simp add: get_put get_del)

lemma entries_distinct: "valid m \<Longrightarrow> distinct (map fst (entries m))"
  using entries_sorted [of m] by (simp add: strict_sorted_iff)

text \<open>Iteration visits every key once: a sum over the entries splits at any key.\<close>

lemma sum_entries_put:
  fixes f :: "'k \<Rightarrow> 'v \<Rightarrow> int"
  assumes "valid m"
  shows "(\<Sum>e\<leftarrow>entries (put k v m). f (fst e) (snd e))
       = (\<Sum>e\<leftarrow>entries m. f (fst e) (snd e)) + f k v
         - (case get m k of None \<Rightarrow> 0 | Some w \<Rightarrow> f k w)"
proof -
  let ?F = "\<lambda>e. f (fst e) (snd e)"
  have list_sum: "(\<Sum>e\<leftarrow>entries n. ?F e) = sum ?F (set (entries n))" if "valid n" for n
    using entries_distinct [OF that] by (simp add: sum_list_distinct_conv_sum_set distinct_map)
  let ?old = "{e \<in> set (entries m). fst e = k}"
  have old: "?old = (case get m k of None \<Rightarrow> {} | Some w \<Rightarrow> {(k, w)})"
    using entries_get [OF assms] by (auto split: option.splits)
  have new: "set (entries (put k v m)) = insert (k, v) (set (entries m) - ?old)"
    using entries_get [OF assms] entries_get [OF valid_put [OF assms]]
    by (auto simp: get_put split: if_splits)
  have "sum ?F (set (entries (put k v m))) = ?F (k, v) + sum ?F (set (entries m) - ?old)"
    unfolding new by (subst sum.insert) auto
  moreover have "sum ?F (set (entries m) - ?old) = sum ?F (set (entries m)) - sum ?F ?old"
    by (rule sum_diff) auto
  moreover have "sum ?F ?old = (case get m k of None \<Rightarrow> 0 | Some w \<Rightarrow> f k w)"
    unfolding old by (auto split: option.splits)
  ultimately show ?thesis
    using list_sum [OF assms] list_sum [OF valid_put [OF assms]] by simp
qed

end

interpretation btm: ordered_map bt_empty bt_get bt_insert bt_remove "\<lambda>m. m" bt_ok
  by unfold_locales
    (auto simp: bt_get_insert bt_get_remove bt_mem_get bt_empty_def bt_ok_def [symmetric])

lemmas bt_sum_insert = btm.sum_entries_put

end
