(* ===== verification/Command_Engine.thy ===== *)
theory Command_Engine
  imports Prelude
begin

text \<open>
  The contract that every single-writer component of the platform promises for its
  \<open>apply\<close>: a command is checked, encoded and hashed; a halted component refuses
  everything; a command id seen before with the same content is answered without a
  change of state; the same id with other content halts the component for good; and
  a fresh command is recorded exactly when it is accepted. The locale
  \<open>command_engine\<close> states it, \<open>decision_engine\<close> adds that the recorded answer is
  the one given back, and the lemmas below follow for whole histories of commands.
  Every component interprets one of the two on its own \<open>apply\<close>.
\<close>

fun run_commands :: "('c \<Rightarrow> 's \<Rightarrow> 'r \<times> 's) \<Rightarrow> 'c list \<Rightarrow> 's \<Rightarrow> 's" where
  "run_commands step [] s = s"
| "run_commands step (c # cs) s = run_commands step cs (snd (step c s))"

lemma run_commands_append:
  "run_commands step (cs @ ds) s = run_commands step ds (run_commands step cs s)"
  by (induction cs arbitrary: s) simp_all

lemma run_commands_invariant:
  assumes "P s" and "\<And>c s. P s \<Longrightarrow> P (snd (step c s))"
  shows "P (run_commands step cs s)"
  using assms(1) by (induction cs arbitrary: s) (auto intro: assms(2))

locale command_engine =
  fixes step :: "'c \<Rightarrow> 's \<Rightarrow> ('e + 'o) \<times> 's"
    and cmd_id :: "'c \<Rightarrow> bytes32"
    and content :: "'c \<Rightarrow> 'e + bytes32"
    and processed :: "'s \<Rightarrow> bytes32 \<Rightarrow> bytes32 option"
    and accepted :: "'s \<Rightarrow> int"
    and halted :: "'s \<Rightarrow> bool"
  assumes step_halted: "halted s \<Longrightarrow> \<exists>e. step c s = (Inl e, s)"
    and step_invalid: "\<not> halted s \<Longrightarrow> content c = Inl e \<Longrightarrow> step c s = (Inl e, s)"
    and step_duplicate:
      "\<not> halted s \<Longrightarrow> content c = Inr d \<Longrightarrow> processed s (cmd_id c) = Some d
        \<Longrightarrow> \<exists>out. step c s = (Inr out, s)"
    and step_conflict:
      "\<not> halted s \<Longrightarrow> content c = Inr d \<Longrightarrow> processed s (cmd_id c) = Some d' \<Longrightarrow> d' \<noteq> d
        \<Longrightarrow> step c s = (r, s')
        \<Longrightarrow> (\<exists>e. r = Inl e) \<and> halted s' \<and> processed s' = processed s \<and> accepted s' = accepted s"
    and step_fresh:
      "\<not> halted s \<Longrightarrow> content c = Inr d \<Longrightarrow> processed s (cmd_id c) = None
        \<Longrightarrow> step c s = (r, s')
        \<Longrightarrow> (processed s' = (processed s)(cmd_id c \<mapsto> d) \<and> accepted s' = accepted s + 1)
          \<or> ((\<exists>e. r = Inl e) \<and> processed s' = processed s \<and> accepted s' = accepted s)"
    and step_fresh_ok:
      "\<not> halted s \<Longrightarrow> content c = Inr d \<Longrightarrow> processed s (cmd_id c) = None
        \<Longrightarrow> step c s = (Inr out, s') \<Longrightarrow> \<not> halted s'"
begin

abbreviation run :: "'c list \<Rightarrow> 's \<Rightarrow> 's" where
  "run \<equiv> run_commands step"

lemma step_cases:
  assumes "step c s = (r, s')"
  obtains (halted) e where "halted s" "r = Inl e" "s' = s"
  | (invalid) e where "\<not> halted s" "content c = Inl e" "r = Inl e" "s' = s"
  | (duplicate) d out where "\<not> halted s" "content c = Inr d" "processed s (cmd_id c) = Some d"
      "r = Inr out" "s' = s"
  | (conflict) d d' e where "\<not> halted s" "content c = Inr d" "processed s (cmd_id c) = Some d'"
      "d' \<noteq> d" "r = Inl e" "halted s'" "processed s' = processed s" "accepted s' = accepted s"
  | (recorded) d where "\<not> halted s" "content c = Inr d" "processed s (cmd_id c) = None"
      "processed s' = (processed s)(cmd_id c \<mapsto> d)" "accepted s' = accepted s + 1"
      "\<And>out. r = Inr out \<Longrightarrow> \<not> halted s'"
  | (refused) d e where "\<not> halted s" "content c = Inr d" "processed s (cmd_id c) = None"
      "r = Inl e" "processed s' = processed s" "accepted s' = accepted s"
proof -
  consider "halted s" | e where "\<not> halted s" "content c = Inl e"
    | d where "\<not> halted s" "content c = Inr d" "processed s (cmd_id c) = Some d"
    | d d' where "\<not> halted s" "content c = Inr d" "processed s (cmd_id c) = Some d'" "d' \<noteq> d"
    | d where "\<not> halted s" "content c = Inr d" "processed s (cmd_id c) = None"
    by (cases "halted s"; cases "content c"; cases "processed s (cmd_id c)") metis+
  then show thesis
  proof cases
    case 1
    obtain e where "step c s = (Inl e, s)"
      using step_halted [OF 1] by blast
    with assms show ?thesis by (intro halted [OF 1]) auto
  next
    case (2 e)
    with step_invalid [OF 2] assms show ?thesis by (intro invalid [OF 2]) auto
  next
    case (3 d)
    obtain out where "step c s = (Inr out, s)"
      using step_duplicate [OF 3] by blast
    with assms show ?thesis by (intro duplicate [OF 3]) auto
  next
    case 4
    then show ?thesis using step_conflict [OF 4 assms] conflict by blast
  next
    case (5 d)
    have "\<And>out. r = Inr out \<Longrightarrow> \<not> halted s'"
      using step_fresh_ok [OF 5] assms by simp
    with step_fresh [OF 5 assms] show ?thesis
      using recorded [OF 5] refused [OF 5] by (elim disjE conjE exE) simp_all
  qed
qed

lemma halted_absorbing: "halted s \<Longrightarrow> run cs s = s"
proof (induction cs)
  case (Cons c cs)
  then show ?case using step_halted [of s c] by auto
qed simp

lemma step_processed_mono: "step c s = (r, s') \<Longrightarrow> processed s k = Some d \<Longrightarrow> processed s' k = Some d"
  by (erule step_cases) auto

lemma run_processed_mono: "processed s k = Some d \<Longrightarrow> processed (run cs s) k = Some d"
proof (induction cs arbitrary: s)
  case (Cons c cs)
  then have "processed (snd (step c s)) k = Some d"
    using step_processed_mono [of c s] by (metis prod.collapse)
  then show ?case using Cons.IH by simp
qed simp

lemma accepted_step:
  assumes "step c s = (Inr out, s')"
  obtains d where "content c = Inr d" "processed s' (cmd_id c) = Some d" "\<not> halted s'"
  using assms by (cases rule: step_cases) auto

text \<open>An accepted command that comes again later changes nothing.\<close>

lemma replay_is_noop:
  assumes "step c s = (Inr out, s')" and "\<not> halted (run cs s')"
  shows "\<exists>out'. step c (run cs s') = (Inr out', run cs s')"
proof -
  obtain d where d: "content c = Inr d" "processed s' (cmd_id c) = Some d"
    using assms(1) by (rule accepted_step)
  have "processed (run cs s') (cmd_id c) = Some d"
    using d(2) by (rule run_processed_mono)
  then show ?thesis
    using step_duplicate assms(2) d(1) by blast
qed

text \<open>The id of an accepted command with other content is refused and halts for good.\<close>

lemma equivocation_halts:
  assumes "step c s = (Inr out, s')" and "cmd_id c' = cmd_id c"
    and "content c' = Inr d'" and "content c \<noteq> content c'"
  shows "\<exists>e. fst (step c' (run cs s')) = Inl e \<and> halted (snd (step c' (run cs s')))"
proof -
  obtain d where d: "content c = Inr d" "processed s' (cmd_id c) = Some d"
    using assms(1) by (rule accepted_step)
  have p: "processed (run cs s') (cmd_id c') = Some d"
    using run_processed_mono [OF d(2)] assms(2) by simp
  obtain r t where rt: "step c' (run cs s') = (r, t)"
    by fastforce
  show ?thesis
  proof (cases "halted (run cs s')")
    case True
    then show ?thesis using step_halted [of "run cs s'" c'] by auto
  next
    case False
    then show ?thesis
      using step_conflict [OF False assms(3) p _ rt] d(1) assms(3,4) rt by auto
  qed
qed

lemma accepted_counts_step:
  assumes "step c s = (r, s')" and "finite (dom (processed s))"
    and "accepted s = int (card (dom (processed s)))"
  shows "finite (dom (processed s')) \<and> accepted s' = int (card (dom (processed s')))"
  using assms by (cases rule: step_cases) (auto simp: domIff card_insert_if)

lemma accepted_counts_run:
  "finite (dom (processed s)) \<and> accepted s = int (card (dom (processed s)))
    \<Longrightarrow> finite (dom (processed (run cs s))) \<and> accepted (run cs s) = int (card (dom (processed (run cs s))))"
  by (rule run_commands_invariant) (metis accepted_counts_step prod.collapse)+

end

locale decision_engine =
  command_engine step cmd_id content processed accepted halted
  for step :: "'c \<Rightarrow> 's \<Rightarrow> ('e + 'o) \<times> 's" and cmd_id content processed accepted halted +
  fixes decision :: "'s \<Rightarrow> bytes32 \<Rightarrow> 'o option"
  assumes decision_duplicate:
      "\<not> halted s \<Longrightarrow> content c = Inr d \<Longrightarrow> processed s (cmd_id c) = Some d
        \<Longrightarrow> \<exists>out. decision s (cmd_id c) = Some out \<and> step c s = (Inr out, s)"
    and decision_recorded:
      "\<not> halted s \<Longrightarrow> content c = Inr d \<Longrightarrow> processed s (cmd_id c) = None
        \<Longrightarrow> step c s = (Inr out, s') \<Longrightarrow> decision s' (cmd_id c) = Some out"
    and decision_mono:
      "decision s k = Some out \<Longrightarrow> step c s = (r, s') \<Longrightarrow> decision s' k = Some out"
begin

lemma decision_run_mono: "decision s k = Some out \<Longrightarrow> decision (run cs s) k = Some out"
proof (induction cs arbitrary: s)
  case (Cons c cs)
  then have "decision (snd (step c s)) k = Some out"
    using decision_mono [of s k out c] by (metis prod.collapse)
  then show ?case using Cons.IH by simp
qed simp

text \<open>A repeated command gets the decision it got the first time.\<close>

lemma replay_same_decision:
  assumes "step c s = (Inr out, s')" and "\<not> halted (run cs s')"
  shows "step c (run cs s') = (Inr out, run cs s')"
proof -
  obtain d where d: "content c = Inr d" "processed s' (cmd_id c) = Some d" "\<not> halted s'"
    using assms(1) by (rule accepted_step)
  have "decision s' (cmd_id c) = Some out"
    using assms(1)
  proof (cases rule: step_cases)
    case (duplicate d' out')
    then show ?thesis using decision_duplicate [of s c d'] assms(1) by auto
  next
    case (recorded d')
    then show ?thesis using decision_recorded assms(1) by blast
  qed auto
  then have "decision (run cs s') (cmd_id c) = Some out"
    by (rule decision_run_mono)
  moreover have "processed (run cs s') (cmd_id c) = Some d"
    using d(2) by (rule run_processed_mono)
  ultimately show ?thesis
    using decision_duplicate [OF assms(2) d(1)] by auto
qed

end

end
