(* ===== verification/Ledger.thy ===== *)
theory Ledger
  imports BTree_Map Command_Engine
begin

text \<open>
  The double-entry ledger of \<open>crates/accounting-ledger/src/lib.rs\<close>: accounts,
  balanced transactions, reservations of cash and tokens, cost positions, locks on
  complete pairs, and the ten commands. This theory holds the data and the
  operations in the order the code has them; \<open>Ledger_Invariant\<close> holds the lemmas.
\<close>

section \<open>Identities, assets and accounts\<close>

type_synonym command_id = bytes32
type_synonym reservation_id = bytes32
type_synonym lock_id = bytes32

datatype token_key = TokenKey (condition_id: string) (token_id: string)

datatype asset = Collateral | Outcome token_key

datatype account =
    CashAvailable
  | CashReserved reservation_id
  | TokenAvailable
  | TokenReserved reservation_id
  | InventoryCost token_key
  | LockedToken lock_id
  | LockedCost lock_id
  | FeeExpense
  | TradingRevenue
  | CostOfGoodsSold
  | CapitalContributed
  | External

text \<open>The derived \<open>Ord\<close>: the variant first, then its fields in order.\<close>

fun token_rank :: "token_key \<Rightarrow> string \<times> string" where
  "token_rank (TokenKey c t) = (c, t)"

fun asset_rank :: "asset \<Rightarrow> nat \<times> string \<times> string" where
  "asset_rank Collateral = (0, [], [])"
| "asset_rank (Outcome t) = (1, token_rank t)"

fun account_rank :: "account \<Rightarrow> nat \<times> bytes32 \<times> string \<times> string" where
  "account_rank CashAvailable = (0, 0, [], [])"
| "account_rank (CashReserved i) = (1, i, [], [])"
| "account_rank TokenAvailable = (2, 0, [], [])"
| "account_rank (TokenReserved i) = (3, i, [], [])"
| "account_rank (InventoryCost t) = (4, 0, token_rank t)"
| "account_rank (LockedToken i) = (5, i, [], [])"
| "account_rank (LockedCost i) = (6, i, [], [])"
| "account_rank FeeExpense = (7, 0, [], [])"
| "account_rank TradingRevenue = (8, 0, [], [])"
| "account_rank CostOfGoodsSold = (9, 0, [], [])"
| "account_rank CapitalContributed = (10, 0, [], [])"
| "account_rank External = (11, 0, [], [])"

lemma token_rank_inj [simp]: "token_rank s = token_rank t \<longleftrightarrow> s = t"
  by (cases s; cases t) simp

lemma asset_rank_inj [simp]: "asset_rank a = asset_rank b \<longleftrightarrow> a = b"
  by (cases a; cases b) simp_all

lemma account_rank_inj [simp]: "account_rank a = account_rank b \<longleftrightarrow> a = b"
  by (cases a; cases b) simp_all

instantiation token_key :: linorder
begin
definition less_eq_token_key :: "token_key \<Rightarrow> token_key \<Rightarrow> bool" where
  "less_eq_token_key s t \<longleftrightarrow> token_rank s \<le> token_rank t"
definition less_token_key :: "token_key \<Rightarrow> token_key \<Rightarrow> bool" where
  "less_token_key s t \<longleftrightarrow> token_rank s < token_rank t"
instance
  by standard (auto simp: less_eq_token_key_def less_token_key_def dest: order_antisym)
end

instantiation asset :: linorder
begin
definition less_eq_asset :: "asset \<Rightarrow> asset \<Rightarrow> bool" where
  "less_eq_asset s t \<longleftrightarrow> asset_rank s \<le> asset_rank t"
definition less_asset :: "asset \<Rightarrow> asset \<Rightarrow> bool" where
  "less_asset s t \<longleftrightarrow> asset_rank s < asset_rank t"
instance
  by standard (auto simp: less_eq_asset_def less_asset_def dest: order_antisym)
end

instantiation account :: linorder
begin
definition less_eq_account :: "account \<Rightarrow> account \<Rightarrow> bool" where
  "less_eq_account s t \<longleftrightarrow> account_rank s \<le> account_rank t"
definition less_account :: "account \<Rightarrow> account \<Rightarrow> bool" where
  "less_account s t \<longleftrightarrow> account_rank s < account_rank t"
instance
  by standard (auto simp: less_eq_account_def less_account_def dest: order_antisym)
end

section \<open>Records of the ledger\<close>

record posting =
  p_account :: account
  p_asset :: asset
  delta_micros :: int

datatype reservation_asset = ReserveOfCollateral | ReserveOfToken token_key

datatype reservation_status = ReservationActive | ReservationReleased | ReservationConsumed

record reservation =
  res_id :: reservation_id
  res_asset :: reservation_asset
  original_micros :: int
  remaining_micros :: int
  res_status :: reservation_status

record cost_position =
  pos_quantity :: int
  pos_cost :: int

datatype lock_status = LockActive | LockMerged

record pair_lock =
  lk_id :: lock_id
  lk_up :: token_key
  lk_down :: token_key
  lk_quantity :: int
  lk_cost :: int
  lk_payout :: int
  lk_status :: lock_status

datatype ledger_command =
    FundCollateral command_id int int
  | ReserveCollateral command_id reservation_id int int
  | ReserveToken command_id reservation_id token_key int int
  | ReleaseReservation command_id reservation_id int
  | ConfirmBuy command_id reservation_id token_key int int int string int
  | ConfirmSell command_id reservation_id int int int string int
  | LockPair command_id lock_id token_key token_key int int
  | ConfirmMerge command_id lock_id string int
  | ConfirmSplit command_id reservation_id token_key token_key int string int
  | ConfirmRedemption command_id reservation_id int int string int

fun ledger_command_id :: "ledger_command \<Rightarrow> command_id" where
  "ledger_command_id (FundCollateral i _ _) = i"
| "ledger_command_id (ReserveCollateral i _ _ _) = i"
| "ledger_command_id (ReserveToken i _ _ _ _) = i"
| "ledger_command_id (ReleaseReservation i _ _) = i"
| "ledger_command_id (ConfirmBuy i _ _ _ _ _ _ _) = i"
| "ledger_command_id (ConfirmSell i _ _ _ _ _ _) = i"
| "ledger_command_id (LockPair i _ _ _ _ _) = i"
| "ledger_command_id (ConfirmMerge i _ _ _) = i"
| "ledger_command_id (ConfirmSplit i _ _ _ _ _ _) = i"
| "ledger_command_id (ConfirmRedemption i _ _ _ _ _) = i"

fun ledger_recorded_at_ns :: "ledger_command \<Rightarrow> int" where
  "ledger_recorded_at_ns (FundCollateral _ _ t) = t"
| "ledger_recorded_at_ns (ReserveCollateral _ _ _ t) = t"
| "ledger_recorded_at_ns (ReserveToken _ _ _ _ t) = t"
| "ledger_recorded_at_ns (ReleaseReservation _ _ t) = t"
| "ledger_recorded_at_ns (ConfirmBuy _ _ _ _ _ _ _ t) = t"
| "ledger_recorded_at_ns (ConfirmSell _ _ _ _ _ _ t) = t"
| "ledger_recorded_at_ns (LockPair _ _ _ _ _ t) = t"
| "ledger_recorded_at_ns (ConfirmMerge _ _ _ t) = t"
| "ledger_recorded_at_ns (ConfirmSplit _ _ _ _ _ _ t) = t"
| "ledger_recorded_at_ns (ConfirmRedemption _ _ _ _ _ t) = t"

datatype apply_outcome = Applied | Duplicate

datatype ledger_error =
    Identifier
  | NonPositive
  | Fee
  | Overflow
  | PostingCount
  | Unbalanced asset
  | AccountAsset
  | NegativeBalance
  | ReservationExists
  | ReservationMissing
  | ReservationInactive
  | ReservationMismatch
  | ReservationInsufficient
  | InventoryInsufficient
  | PairIdentity
  | LockExists
  | LockMissing
  | LockInactive
  | Confirmation
  | Timestamp
  | CommandBound
  | Json string
  | Version int
  | IdempotencyConflict
  | Halted string
  | Conservation
  | ReservationInvariant
  | InventoryInvariant

record ledger =
  balances :: "(account \<times> asset, int) btree"
  reservations :: "(reservation_id, reservation) btree"
  costs :: "(token_key, cost_position) btree"
  locks :: "(lock_id, pair_lock) btree"
  processed :: "(command_id, bytes32) btree"
  accepted_commands :: int
  halted :: "string option"

definition ledger_default :: ledger where
  "ledger_default = \<lparr>balances = [], reservations = [], costs = [], locks = [], processed = [],
     accepted_commands = 0, halted = None\<rparr>"

section \<open>Validation of commands\<close>

definition positive :: "int \<Rightarrow> ledger_error + unit" where
  "positive v = ensure (0 < v) NonPositive"

definition token_validate :: "token_key \<Rightarrow> ledger_error + unit" where
  "token_validate t =
     for_each (\<lambda>s. ensure (\<not> (s = [] \<or> 256 < int (length s))) Identifier) [condition_id t, token_id t]"

definition token_key_new :: "string \<Rightarrow> string \<Rightarrow> ledger_error + token_key" where
  "token_key_new c t = rbind (token_validate (TokenKey c t)) (\<lambda>_. Inr (TokenKey c t))"

definition validate_confirmation :: "string \<Rightarrow> ledger_error + unit" where
  "validate_confirmation s = (if s = [] \<or> 512 < int (length s) then Inl Confirmation else Inr ())"

fun validate_ledger_fields :: "ledger_command \<Rightarrow> ledger_error + unit" where
  "validate_ledger_fields (FundCollateral _ amount _) = positive amount"
| "validate_ledger_fields (ReserveCollateral _ _ amount _) = positive amount"
| "validate_ledger_fields (ReserveToken _ _ token quantity _) =
     rbind (token_validate token) (\<lambda>_. positive quantity)"
| "validate_ledger_fields (ReleaseReservation _ _ _) = Inr ()"
| "validate_ledger_fields (ConfirmBuy _ _ token quantity consideration fee confirmation _) =
     rbind (token_validate token) (\<lambda>_.
     rbind (positive quantity) (\<lambda>_.
     rbind (positive consideration) (\<lambda>_.
     if fee < 0 then Inl Fee else validate_confirmation confirmation)))"
| "validate_ledger_fields (ConfirmSell _ _ quantity gross fee confirmation _) =
     rbind (positive quantity) (\<lambda>_.
     rbind (positive gross) (\<lambda>_.
     if fee < 0 \<or> gross < fee then Inl Fee else validate_confirmation confirmation))"
| "validate_ledger_fields (LockPair _ _ up down quantity _) =
     rbind (token_validate up) (\<lambda>_.
     rbind (token_validate down) (\<lambda>_.
     rbind (positive quantity) (\<lambda>_.
     if up = down \<or> condition_id up \<noteq> condition_id down then Inl PairIdentity else Inr ())))"
| "validate_ledger_fields (ConfirmMerge _ _ confirmation _) = validate_confirmation confirmation"
| "validate_ledger_fields (ConfirmSplit _ _ up down quantity confirmation _) =
     rbind (token_validate up) (\<lambda>_.
     rbind (token_validate down) (\<lambda>_.
     rbind (positive quantity) (\<lambda>_.
     if up = down \<or> condition_id up \<noteq> condition_id down then Inl PairIdentity
     else validate_confirmation confirmation)))"
| "validate_ledger_fields (ConfirmRedemption _ _ quantity payout confirmation _) =
     rbind (positive quantity) (\<lambda>_.
     if payout < 0 \<or> quantity < payout then Inl NonPositive else validate_confirmation confirmation)"

definition ledger_validate_command :: "ledger_command \<Rightarrow> ledger_error + unit" where
  "ledger_validate_command c =
     (if ledger_recorded_at_ns c < 0 then Inl Timestamp else validate_ledger_fields c)"

text \<open>
  \<open>to_vec\<close> stands for \<open>serde_json::to_vec\<close> and \<open>from_slice\<close> for \<open>serde_json::from_slice\<close>, both
  with the text of a serialisation error on the left.
\<close>

definition ledger_encode_command ::
  "(ledger_command wire \<Rightarrow> string + string) \<Rightarrow> ledger_command \<Rightarrow> ledger_error + string" where
  "ledger_encode_command to_vec c =
     rbind (ledger_validate_command c) (\<lambda>_.
       case to_vec \<lparr>wire_version = 1, wire_command = c\<rparr> of
         Inl e \<Rightarrow> Inl (Json e)
       | Inr bytes \<Rightarrow> if 65536 < int (length bytes) then Inl CommandBound else Inr bytes)"

definition ledger_decode_command ::
  "(string \<Rightarrow> string + ledger_command wire) \<Rightarrow> string \<Rightarrow> ledger_error + ledger_command" where
  "ledger_decode_command from_slice bytes =
     (if 65536 < int (length bytes) then Inl CommandBound
      else case from_slice bytes of
        Inl e \<Rightarrow> Inl (Json e)
      | Inr w \<Rightarrow>
          if wire_version w \<noteq> 1 then Inl (Version (wire_version w))
          else rbind (ledger_validate_command (wire_command w)) (\<lambda>_. Inr (wire_command w)))"

section \<open>Posting a transaction\<close>

definition compatible_account_asset :: "account \<Rightarrow> asset \<Rightarrow> bool" where
  "compatible_account_asset a s =
     (case a of
        TokenAvailable \<Rightarrow> s \<noteq> Collateral
      | TokenReserved _ \<Rightarrow> s \<noteq> Collateral
      | LockedToken _ \<Rightarrow> s \<noteq> Collateral
      | External \<Rightarrow> True
      | _ \<Rightarrow> s = Collateral)"

definition validate_account_asset :: "account \<Rightarrow> asset \<Rightarrow> ledger_error + unit" where
  "validate_account_asset a s =
     (case (a, s) of
        (InventoryCost account_token, Outcome asset_token) \<Rightarrow>
          if account_token \<noteq> asset_token then Inl AccountAsset
          else ensure (compatible_account_asset a s) AccountAsset
      | _ \<Rightarrow> ensure (compatible_account_asset a s) AccountAsset)"

fun requires_nonnegative :: "account \<Rightarrow> bool" where
  "requires_nonnegative TradingRevenue = False"
| "requires_nonnegative CapitalContributed = False"
| "requires_nonnegative External = False"
| "requires_nonnegative _ = True"

type_synonym posting_state = "(asset, int) btree \<times> (account \<times> asset, int) btree"

fun post_entry :: "posting_state \<Rightarrow> posting \<Rightarrow> ledger_error + posting_state" where
  "post_entry (totals, candidate) entry =
     (let key = (p_account entry, p_asset entry) in
      rbind (validate_account_asset (p_account entry) (p_asset entry)) (\<lambda>_.
      rbind (ok_or (add128 (bt_get_or totals (p_asset entry) 0) (delta_micros entry)) Overflow) (\<lambda>total.
      rbind (ok_or (add128 (bt_get_or candidate key 0) (delta_micros entry)) Overflow) (\<lambda>balance.
      if requires_nonnegative (p_account entry) \<and> balance < 0 then Inl NegativeBalance
      else Inr (bt_insert (p_asset entry) total totals, bt_insert key balance candidate)))))"

definition post :: "posting list \<Rightarrow> ledger \<Rightarrow> ledger_error + ledger" where
  "post postings l =
     (let nonzero = filter (\<lambda>p. delta_micros p \<noteq> 0) postings in
      if length nonzero < 2 then Inl PostingCount
      else rbind (try_fold post_entry ([], balances l) nonzero) (\<lambda>(totals, candidate).
        case find (\<lambda>e. snd e \<noteq> 0) totals of
          Some e \<Rightarrow> Inl (Unbalanced (fst e))
        | None \<Rightarrow> Inr (l\<lparr>balances := bt_retain (\<lambda>b. b \<noteq> 0) candidate\<rparr>)))"

definition mk_posting :: "account \<Rightarrow> asset \<Rightarrow> int \<Rightarrow> posting" where
  "mk_posting a s d = \<lparr>p_account = a, p_asset = s, delta_micros = d\<rparr>"

section \<open>Balances, reservations and cost positions\<close>

definition balance :: "ledger \<Rightarrow> account \<Rightarrow> asset \<Rightarrow> int" where
  "balance l a s = bt_get_or (balances l) (a, s) 0"

definition ledger_reservation :: "ledger \<Rightarrow> reservation_id \<Rightarrow> reservation option" where
  "ledger_reservation l i = bt_get (reservations l) i"

definition get_cost_position :: "ledger \<Rightarrow> token_key \<Rightarrow> cost_position" where
  "get_cost_position l t = bt_get_or (costs l) t \<lparr>pos_quantity = 0, pos_cost = 0\<rparr>"

definition ledger_pair_lock :: "ledger \<Rightarrow> lock_id \<Rightarrow> pair_lock option" where
  "ledger_pair_lock l i = bt_get (locks l) i"

definition active_reservation :: "ledger \<Rightarrow> reservation_id \<Rightarrow> ledger_error + reservation" where
  "active_reservation l i =
     rbind (ok_or (bt_get (reservations l) i) ReservationMissing) (\<lambda>r.
     if res_status r \<noteq> ReservationActive then Inl ReservationInactive else Inr r)"

definition consume_reservation :: "reservation_id \<Rightarrow> int \<Rightarrow> ledger \<Rightarrow> ledger_error + ledger" where
  "consume_reservation i amount l =
     rbind (ok_or (bt_get (reservations l) i) ReservationMissing) (\<lambda>r.
     rbind (ok_or (sub128 (remaining_micros r) amount) Overflow) (\<lambda>remaining.
     Inr (l\<lparr>reservations := bt_insert i
       (r\<lparr>remaining_micros := remaining,
          res_status := (if remaining = 0 then ReservationConsumed else res_status r)\<rparr>)
       (reservations l)\<rparr>)))"

definition reduce_cost :: "token_key \<Rightarrow> int \<Rightarrow> int \<Rightarrow> ledger \<Rightarrow> ledger_error + ledger" where
  "reduce_cost t quantity cost l =
     rbind (ok_or (bt_get (costs l) t) InventoryInsufficient) (\<lambda>p.
     rbind (ok_or (sub128 (pos_quantity p) quantity) Overflow) (\<lambda>q.
     rbind (ok_or (sub128 (pos_cost p) cost) Overflow) (\<lambda>c.
     if q = 0 \<and> c \<noteq> 0 then Inl InventoryInvariant
     else Inr (l\<lparr>costs := bt_insert t \<lparr>pos_quantity = q, pos_cost = c\<rparr> (costs l)\<rparr>))))"

definition add_cost :: "token_key \<Rightarrow> int \<Rightarrow> int \<Rightarrow> ledger \<Rightarrow> ledger_error + ledger" where
  "add_cost t quantity cost l =
     (let p = get_cost_position l t in
     rbind (ok_or (add128 (pos_quantity p) quantity) Overflow) (\<lambda>q.
     rbind (ok_or (add128 (pos_cost p) cost) Overflow) (\<lambda>c.
     Inr (l\<lparr>costs := bt_insert t \<lparr>pos_quantity = q, pos_cost = c\<rparr> (costs l)\<rparr>))))"

definition allocate_cost :: "cost_position \<Rightarrow> int \<Rightarrow> ledger_error + int" where
  "allocate_cost position quantity =
     (if quantity \<le> 0 \<or> pos_quantity position < quantity \<or> pos_quantity position \<le> 0
         \<or> pos_cost position < 0 then Inl InventoryInsufficient
      else if quantity = pos_quantity position then Inr (pos_cost position)
      else
        rbind (ok_or (mul128 (pos_cost position) quantity) Overflow) (\<lambda>product.
        rbind (ok_or (add128 product (pos_quantity position - 1)) Overflow) (\<lambda>value.
        Inr (tdiv value (pos_quantity position)))))"

section \<open>The commands\<close>

definition fund_collateral :: "int \<Rightarrow> ledger \<Rightarrow> ledger_error + ledger" where
  "fund_collateral amount l =
     rbind (ok_or (neg128 amount) Overflow) (\<lambda>negated.
     post [mk_posting CashAvailable Collateral amount,
           mk_posting CapitalContributed Collateral negated] l)"

definition reserve :: "reservation_id \<Rightarrow> reservation_asset \<Rightarrow> int \<Rightarrow> ledger \<Rightarrow> ledger_error + ledger" where
  "reserve i s amount l =
     (if bt_contains (reservations l) i then Inl ReservationExists
      else
        rbind (post (case s of
            ReserveOfCollateral \<Rightarrow>
              [mk_posting CashAvailable Collateral (- amount),
               mk_posting (CashReserved i) Collateral amount]
          | ReserveOfToken token \<Rightarrow>
              [mk_posting TokenAvailable (Outcome token) (- amount),
               mk_posting (TokenReserved i) (Outcome token) amount]) l) (\<lambda>l'.
        Inr (l'\<lparr>reservations := bt_insert i
          \<lparr>res_id = i, res_asset = s, original_micros = amount, remaining_micros = amount,
           res_status = ReservationActive\<rparr> (reservations l')\<rparr>)))"

definition release :: "reservation_id \<Rightarrow> ledger \<Rightarrow> ledger_error + ledger" where
  "release i l =
     rbind (active_reservation l i) (\<lambda>r.
     rbind (post (case res_asset r of
         ReserveOfCollateral \<Rightarrow>
           [mk_posting (CashReserved i) Collateral (- remaining_micros r),
            mk_posting CashAvailable Collateral (remaining_micros r)]
       | ReserveOfToken token \<Rightarrow>
           [mk_posting (TokenReserved i) (Outcome token) (- remaining_micros r),
            mk_posting TokenAvailable (Outcome token) (remaining_micros r)]) l) (\<lambda>l'.
     rbind (ok_or (bt_get (reservations l') i) ReservationMissing) (\<lambda>r'.
     Inr (l'\<lparr>reservations := bt_insert i
       (r'\<lparr>remaining_micros := 0, res_status := ReservationReleased\<rparr>) (reservations l')\<rparr>))))"

definition confirm_buy ::
  "reservation_id \<Rightarrow> token_key \<Rightarrow> int \<Rightarrow> int \<Rightarrow> int \<Rightarrow> ledger \<Rightarrow> ledger_error + ledger" where
  "confirm_buy i token quantity consideration fee l =
     rbind (ok_or (add128 consideration fee) Overflow) (\<lambda>total.
     rbind (active_reservation l i) (\<lambda>r.
     if res_asset r \<noteq> ReserveOfCollateral then Inl ReservationMismatch
     else if remaining_micros r < total then Inl ReservationInsufficient
     else
       rbind (post
         [mk_posting (CashReserved i) Collateral (- total),
          mk_posting (InventoryCost token) Collateral consideration,
          mk_posting FeeExpense Collateral fee,
          mk_posting TokenAvailable (Outcome token) quantity,
          mk_posting External (Outcome token) (- quantity)] l) (\<lambda>l1.
       rbind (consume_reservation i total l1) (\<lambda>l2.
       add_cost token quantity consideration l2))))"

definition confirm_sell ::
  "reservation_id \<Rightarrow> int \<Rightarrow> int \<Rightarrow> int \<Rightarrow> ledger \<Rightarrow> ledger_error + ledger" where
  "confirm_sell i quantity gross fee l =
     rbind (active_reservation l i) (\<lambda>r.
     case res_asset r of
       ReserveOfCollateral \<Rightarrow> Inl ReservationMismatch
     | ReserveOfToken token \<Rightarrow>
         if remaining_micros r < quantity then Inl ReservationInsufficient
         else
           rbind (allocate_cost (get_cost_position l token) quantity) (\<lambda>allocated.
           rbind (ok_or (sub128 gross fee) Overflow) (\<lambda>net.
           rbind (post
             [mk_posting (TokenReserved i) (Outcome token) (- quantity),
              mk_posting External (Outcome token) quantity,
              mk_posting CashAvailable Collateral net,
              mk_posting FeeExpense Collateral fee,
              mk_posting TradingRevenue Collateral (- gross),
              mk_posting (InventoryCost token) Collateral (- allocated),
              mk_posting CostOfGoodsSold Collateral allocated] l) (\<lambda>l1.
           rbind (consume_reservation i quantity l1) (\<lambda>l2.
           reduce_cost token quantity allocated l2)))))"

definition lock_pair ::
  "lock_id \<Rightarrow> token_key \<Rightarrow> token_key \<Rightarrow> int \<Rightarrow> ledger \<Rightarrow> ledger_error + ledger" where
  "lock_pair i up down quantity l =
     (if bt_contains (locks l) i then Inl LockExists
      else if up = down \<or> condition_id up \<noteq> condition_id down then Inl PairIdentity
      else
        rbind (allocate_cost (get_cost_position l up) quantity) (\<lambda>up_cost.
        rbind (allocate_cost (get_cost_position l down) quantity) (\<lambda>down_cost.
        rbind (ok_or (add128 up_cost down_cost) Overflow) (\<lambda>total_cost.
        rbind (post
          [mk_posting TokenAvailable (Outcome up) (- quantity),
           mk_posting (LockedToken i) (Outcome up) quantity,
           mk_posting TokenAvailable (Outcome down) (- quantity),
           mk_posting (LockedToken i) (Outcome down) quantity,
           mk_posting (InventoryCost up) Collateral (- up_cost),
           mk_posting (InventoryCost down) Collateral (- down_cost),
           mk_posting (LockedCost i) Collateral total_cost] l) (\<lambda>l1.
        rbind (reduce_cost up quantity up_cost l1) (\<lambda>l2.
        rbind (reduce_cost down quantity down_cost l2) (\<lambda>l3.
        Inr (l3\<lparr>locks := bt_insert i
          \<lparr>lk_id = i, lk_up = up, lk_down = down, lk_quantity = quantity, lk_cost = total_cost,
           lk_payout = quantity, lk_status = LockActive\<rparr> (locks l3)\<rparr>))))))))"

definition confirm_merge :: "lock_id \<Rightarrow> ledger \<Rightarrow> ledger_error + ledger" where
  "confirm_merge i l =
     rbind (ok_or (bt_get (locks l) i) LockMissing) (\<lambda>k.
     if lk_status k \<noteq> LockActive then Inl LockInactive
     else
       rbind (post
         [mk_posting (LockedToken i) (Outcome (lk_up k)) (- lk_quantity k),
          mk_posting External (Outcome (lk_up k)) (lk_quantity k),
          mk_posting (LockedToken i) (Outcome (lk_down k)) (- lk_quantity k),
          mk_posting External (Outcome (lk_down k)) (lk_quantity k),
          mk_posting CashAvailable Collateral (lk_payout k),
          mk_posting TradingRevenue Collateral (- lk_payout k),
          mk_posting (LockedCost i) Collateral (- lk_cost k),
          mk_posting CostOfGoodsSold Collateral (lk_cost k)] l) (\<lambda>l1.
       rbind (ok_or (bt_get (locks l1) i) LockMissing) (\<lambda>k'.
       Inr (l1\<lparr>locks := bt_insert i (k'\<lparr>lk_status := LockMerged\<rparr>) (locks l1)\<rparr>))))"

definition confirm_split ::
  "reservation_id \<Rightarrow> token_key \<Rightarrow> token_key \<Rightarrow> int \<Rightarrow> ledger \<Rightarrow> ledger_error + ledger" where
  "confirm_split i up down quantity l =
     (if up = down \<or> condition_id up \<noteq> condition_id down then Inl PairIdentity
      else
        rbind (active_reservation l i) (\<lambda>r.
        if res_asset r \<noteq> ReserveOfCollateral \<or> remaining_micros r < quantity
        then Inl ReservationMismatch
        else
          let up_cost = tdiv quantity 2 in
          rbind (ok_or (sub128 quantity up_cost) Overflow) (\<lambda>down_cost.
          rbind (post
            [mk_posting (CashReserved i) Collateral (- quantity),
             mk_posting (InventoryCost up) Collateral up_cost,
             mk_posting (InventoryCost down) Collateral down_cost,
             mk_posting TokenAvailable (Outcome up) quantity,
             mk_posting External (Outcome up) (- quantity),
             mk_posting TokenAvailable (Outcome down) quantity,
             mk_posting External (Outcome down) (- quantity)] l) (\<lambda>l1.
          rbind (consume_reservation i quantity l1) (\<lambda>l2.
          rbind (add_cost up quantity up_cost l2) (\<lambda>l3.
          add_cost down quantity down_cost l3))))))"

definition confirm_redemption ::
  "reservation_id \<Rightarrow> int \<Rightarrow> int \<Rightarrow> ledger \<Rightarrow> ledger_error + ledger" where
  "confirm_redemption i quantity payout l =
     rbind (active_reservation l i) (\<lambda>r.
     case res_asset r of
       ReserveOfCollateral \<Rightarrow> Inl ReservationMismatch
     | ReserveOfToken token \<Rightarrow>
         if remaining_micros r < quantity \<or> quantity < payout then Inl ReservationInsufficient
         else
           rbind (allocate_cost (get_cost_position l token) quantity) (\<lambda>allocated.
           rbind (post
             [mk_posting (TokenReserved i) (Outcome token) (- quantity),
              mk_posting External (Outcome token) quantity,
              mk_posting CashAvailable Collateral payout,
              mk_posting TradingRevenue Collateral (- payout),
              mk_posting (InventoryCost token) Collateral (- allocated),
              mk_posting CostOfGoodsSold Collateral allocated] l) (\<lambda>l1.
           rbind (consume_reservation i quantity l1) (\<lambda>l2.
           reduce_cost token quantity allocated l2))))"

fun dispatch :: "ledger_command \<Rightarrow> ledger \<Rightarrow> ledger_error + ledger" where
  "dispatch (FundCollateral _ amount _) l = fund_collateral amount l"
| "dispatch (ReserveCollateral _ i amount _) l = reserve i ReserveOfCollateral amount l"
| "dispatch (ReserveToken _ i token quantity _) l = reserve i (ReserveOfToken token) quantity l"
| "dispatch (ReleaseReservation _ i _) l = release i l"
| "dispatch (ConfirmBuy _ i token quantity consideration fee _ _) l =
     confirm_buy i token quantity consideration fee l"
| "dispatch (ConfirmSell _ i quantity gross fee _ _) l = confirm_sell i quantity gross fee l"
| "dispatch (LockPair _ i up down quantity _) l = lock_pair i up down quantity l"
| "dispatch (ConfirmMerge _ i _ _) l = confirm_merge i l"
| "dispatch (ConfirmSplit _ i up down quantity _ _) l = confirm_split i up down quantity l"
| "dispatch (ConfirmRedemption _ i quantity payout _ _) l = confirm_redemption i quantity payout l"

definition ledger_apply_fresh :: "ledger_command \<Rightarrow> ledger \<Rightarrow> ledger_error + ledger" where
  "ledger_apply_fresh c l = rbind (ledger_validate_command c) (\<lambda>_. dispatch c l)"

section \<open>The invariant check every command passes\<close>

definition checked_pnl :: "ledger \<Rightarrow> ledger_error + int \<times> int \<times> int" where
  "checked_pnl l =
     (let fees = balance l FeeExpense Collateral;
          revenue = balance l TradingRevenue Collateral;
          cost_of_goods = balance l CostOfGoodsSold Collateral in
      rbind (ok_or (neg128 revenue) Overflow) (\<lambda>value.
      rbind (ok_or (sub128 value cost_of_goods) Overflow) (\<lambda>value.
      rbind (ok_or (sub128 value fees) Overflow) (\<lambda>realized.
      rbind (try_fold (\<lambda>total k.
          rbind (ok_or (sub128 (lk_payout k) (lk_cost k)) Overflow) (\<lambda>value.
          ok_or (add128 total value) Overflow)) 0
        (filter (\<lambda>k. lk_status k = LockActive) (map snd (locks l)))) (\<lambda>locked.
      Inr (fees, realized, locked))))))"

definition verify_entry ::
  "(asset, int) btree \<Rightarrow> (account \<times> asset) \<times> int \<Rightarrow> ledger_error + (asset, int) btree" where
  "verify_entry totals entry =
     (let account = fst (fst entry); asset = snd (fst entry); bal = snd entry in
      rbind (validate_account_asset account asset) (\<lambda>_.
      if requires_nonnegative account \<and> bal < 0 then Inl NegativeBalance
      else rbind (ok_or (add128 (bt_get_or totals asset 0) bal) Overflow) (\<lambda>total.
        Inr (bt_insert asset total totals))))"

definition verify_reservation :: "ledger \<Rightarrow> reservation \<Rightarrow> ledger_error + unit" where
  "verify_reservation l r =
     (let expected = (if res_status r = ReservationActive then remaining_micros r else 0);
          actual = (case res_asset r of
              ReserveOfCollateral \<Rightarrow> balance l (CashReserved (res_id r)) Collateral
            | ReserveOfToken token \<Rightarrow> balance l (TokenReserved (res_id r)) (Outcome token)) in
      if expected \<noteq> actual \<or> original_micros r \<le> 0 \<or> remaining_micros r < 0
         \<or> original_micros r < remaining_micros r
      then Inl ReservationInvariant else Inr ())"

definition wrapping_sum :: "int list \<Rightarrow> int" where
  "wrapping_sum xs = foldl (\<lambda>s x. wrap128 (s + x)) 0 xs"

definition reserved_amounts :: "ledger \<Rightarrow> token_key \<Rightarrow> int list" where
  "reserved_amounts l token =
     map remaining_micros (filter (\<lambda>r. res_asset r = ReserveOfToken token
       \<and> res_status r = ReservationActive) (map snd (reservations l)))"

definition verify_token :: "ledger \<Rightarrow> token_key \<Rightarrow> ledger_error + unit" where
  "verify_token l token =
     (let available = balance l TokenAvailable (Outcome token);
          reserved = wrapping_sum (reserved_amounts l token);
          position = get_cost_position l token in
      if pos_quantity position \<noteq> wrap128 (available + reserved)
         \<or> pos_quantity position < 0 \<or> pos_cost position < 0
         \<or> balance l (InventoryCost token) Collateral \<noteq> pos_cost position
      then Inl InventoryInvariant else Inr ())"

fun token_of_reservation :: "reservation_asset \<Rightarrow> token_key list" where
  "token_of_reservation ReserveOfCollateral = []"
| "token_of_reservation (ReserveOfToken t) = [t]"

definition tracked_tokens :: "ledger \<Rightarrow> token_key list" where
  "tracked_tokens l = map fst (bs_of_list (map fst (costs l)
     @ concat (map (\<lambda>e. token_of_reservation (res_asset (snd e))) (reservations l))))"

definition verify_lock :: "ledger \<Rightarrow> pair_lock \<Rightarrow> ledger_error + unit" where
  "verify_lock l k =
     (let expected = (if lk_status k = LockActive then lk_quantity k else 0);
          cost = (if lk_status k = LockActive then lk_cost k else 0) in
      rbind (for_each (\<lambda>token.
          ensure (balance l (LockedToken (lk_id k)) (Outcome token) = expected) InventoryInvariant)
        [lk_up k, lk_down k]) (\<lambda>_.
      ensure (balance l (LockedCost (lk_id k)) Collateral = cost) InventoryInvariant))"

definition verify_invariants :: "ledger \<Rightarrow> ledger_error + unit" where
  "verify_invariants l =
     rbind (try_fold verify_entry [] (balances l)) (\<lambda>totals.
     if list_ex (\<lambda>e. snd e \<noteq> 0) totals then Inl Conservation
     else
       rbind (for_each (verify_reservation l) (map snd (reservations l))) (\<lambda>_.
       rbind (for_each (verify_token l) (tracked_tokens l)) (\<lambda>_.
       rbind (for_each (verify_lock l) (map snd (locks l))) (\<lambda>_.
       rbind (checked_pnl l) (\<lambda>_. Inr ())))))"

section \<open>Applying a command\<close>

definition ledger_conflict_text :: string where
  "ledger_conflict_text = ''idempotency key was reused for different command content''"

definition ledger_content ::
  "(ledger_command wire \<Rightarrow> string + string) \<Rightarrow> (string \<Rightarrow> bytes32) \<Rightarrow> ledger_command
    \<Rightarrow> ledger_error + bytes32" where
  "ledger_content to_vec blake3 c = rbind (ledger_encode_command to_vec c) (\<lambda>bytes. Inr (blake3 bytes))"

definition ledger_install ::
  "command_id \<Rightarrow> bytes32 \<Rightarrow> ledger_command \<Rightarrow> ledger \<Rightarrow> ledger_error + ledger" where
  "ledger_install i digest c l =
     rbind (ledger_apply_fresh c l) (\<lambda>candidate.
     rbind (ok_or (addu64 (accepted_commands candidate) 1) Overflow) (\<lambda>n.
     let recorded = candidate\<lparr>processed := bt_insert i digest (processed candidate),
           accepted_commands := n\<rparr> in
     rbind (verify_invariants recorded) (\<lambda>_. Inr recorded)))"

definition ledger_apply ::
  "(ledger_command wire \<Rightarrow> string + string) \<Rightarrow> (string \<Rightarrow> bytes32) \<Rightarrow> ledger_command \<Rightarrow> ledger
    \<Rightarrow> (ledger_error + apply_outcome) \<times> ledger" where
  "ledger_apply to_vec blake3 c l =
     (case halted l of
        Some reason \<Rightarrow> (Inl (Halted reason), l)
      | None \<Rightarrow>
          (case ledger_content to_vec blake3 c of
             Inl e \<Rightarrow> (Inl e, l)
           | Inr digest \<Rightarrow>
               (case bt_get (processed l) (ledger_command_id c) of
                  Some existing \<Rightarrow>
                    if existing = digest then (Inr Duplicate, l)
                    else (Inl IdempotencyConflict, l\<lparr>halted := Some ledger_conflict_text\<rparr>)
                | None \<Rightarrow>
                    (case ledger_install (ledger_command_id c) digest c l of
                       Inl e \<Rightarrow> (Inl e, l)
                     | Inr l' \<Rightarrow> (Inr Applied, l')))))"

section \<open>Snapshots and views\<close>

record ledger_json =
  js_account :: "account \<Rightarrow> string"
  js_asset :: "asset \<Rightarrow> string"
  js_reservation :: "reservation \<Rightarrow> string"
  js_token :: "token_key \<Rightarrow> string"
  js_position :: "cost_position \<Rightarrow> string"
  js_lock :: "pair_lock \<Rightarrow> string"

definition ledger_state_digest :: "ledger_json \<Rightarrow> (string \<Rightarrow> bytes32) \<Rightarrow> ledger \<Rightarrow> bytes32" where
  "ledger_state_digest js blake3 l = blake3
     (''accounting-ledger-state-v1''
      @ le_bytes 8 (accepted_commands l)
      @ concat (map (\<lambda>((a, s), b). prefixed (js_account js a) @ prefixed (js_asset js s)
          @ le_bytes 16 b) (balances l))
      @ concat (map (\<lambda>(i, r). bytes_of_id i @ prefixed (js_reservation js r)) (reservations l))
      @ concat (map (\<lambda>(t, p). prefixed (js_token js t) @ prefixed (js_position js p)) (costs l))
      @ concat (map (\<lambda>(i, k). bytes_of_id i @ prefixed (js_lock js k)) (locks l))
      @ concat (map (\<lambda>(i, d). bytes_of_id i @ bytes_of_id d) (processed l))
      @ (case halted l of None \<Rightarrow> [] | Some reason \<Rightarrow> reason))"

record ledger_snapshot =
  sn_accepted_commands :: int
  sn_cash_available :: int
  sn_cash_reserved :: int
  sn_fees :: int
  sn_realized_net_pnl :: int
  sn_locked_pnl :: int
  sn_active_reservations :: nat
  sn_active_locks :: nat
  sn_halted :: bool
  sn_halt_reason :: "string option"
  sn_digest :: bytes32

text \<open>A view that panics (an \<open>expect\<close> that fails) is \<open>None\<close>.\<close>

definition ledger_cash_reserved :: "ledger \<Rightarrow> int" where
  "ledger_cash_reserved l = wrapping_sum (map remaining_micros (filter (\<lambda>r.
     res_status r = ReservationActive \<and> res_asset r = ReserveOfCollateral) (map snd (reservations l))))"

definition ledger_snapshot :: "(ledger \<Rightarrow> bytes32) \<Rightarrow> ledger \<Rightarrow> ledger_snapshot option" where
  "ledger_snapshot state_digest l =
     (case checked_pnl l of
        Inl _ \<Rightarrow> None
      | Inr (fees, realized, locked) \<Rightarrow> Some
          \<lparr>sn_accepted_commands = accepted_commands l,
           sn_cash_available = balance l CashAvailable Collateral,
           sn_cash_reserved = ledger_cash_reserved l,
           sn_fees = fees, sn_realized_net_pnl = realized, sn_locked_pnl = locked,
           sn_active_reservations =
             length (filter (\<lambda>r. res_status r = ReservationActive) (map snd (reservations l))),
           sn_active_locks = length (filter (\<lambda>k. lk_status k = LockActive) (map snd (locks l))),
           sn_halted = (halted l \<noteq> None), sn_halt_reason = halted l,
           sn_digest = state_digest l\<rparr>)"

record confirmed_token_balance =
  ctb_token :: token_key
  ctb_balance :: int

fun holds_tokens :: "account \<Rightarrow> bool" where
  "holds_tokens TokenAvailable = True"
| "holds_tokens (TokenReserved _) = True"
| "holds_tokens (LockedToken _) = True"
| "holds_tokens _ = False"

fun add_token_balance ::
  "(account \<Rightarrow> bool) \<Rightarrow> (token_key, int) btree \<Rightarrow> (account \<times> asset) \<times> int
    \<Rightarrow> unit + (token_key, int) btree" where
  "add_token_balance incl totals ((a, Collateral), b) = Inr totals"
| "add_token_balance incl totals ((a, Outcome t), b) =
     (if incl a
      then rbind (ok_or (add128 (bt_get_or totals t 0) b) ()) (\<lambda>v. Inr (bt_insert t v totals))
      else Inr totals)"

definition token_category :: "(account \<Rightarrow> bool) \<Rightarrow> ledger \<Rightarrow> confirmed_token_balance list option" where
  "token_category incl l =
     (case try_fold (add_token_balance incl) [] (balances l) of
        Inl _ \<Rightarrow> None
      | Inr totals \<Rightarrow> Some (map (\<lambda>(t, b). \<lparr>ctb_token = t, ctb_balance = b\<rparr>)
          (filter (\<lambda>e. snd e \<noteq> 0) totals)))"

record reconciliation_view =
  rv_ledger_digest :: bytes32
  rv_accepted_commands :: int
  rv_halted :: bool
  rv_collateral_micros :: int
  rv_token_balances :: "confirmed_token_balance list"
  rv_present_command_ids :: "command_id btset"

definition ledger_reconciliation_view ::
  "(ledger \<Rightarrow> bytes32) \<Rightarrow> command_id btset \<Rightarrow> ledger \<Rightarrow> reconciliation_view option" where
  "ledger_reconciliation_view state_digest requested l =
     Option.bind (ledger_snapshot state_digest l) (\<lambda>snap.
     Option.bind (token_category holds_tokens l) (\<lambda>tokens.
     Option.bind (add128 (sn_cash_available snap) (sn_cash_reserved snap)) (\<lambda>collateral.
     Some \<lparr>rv_ledger_digest = sn_digest snap,
           rv_accepted_commands = sn_accepted_commands snap,
           rv_halted = sn_halted snap,
           rv_collateral_micros = collateral,
           rv_token_balances = tokens,
           rv_present_command_ids =
             filter (\<lambda>e. bt_contains (processed l) (fst e)) requested\<rparr>)))"

record ledger_risk_view =
  lr_ledger_digest :: bytes32
  lr_halted :: bool
  lr_cash_available :: int
  lr_cash_reserved :: int
  lr_available_tokens :: "confirmed_token_balance list"
  lr_reserved_tokens :: "confirmed_token_balance list"
  lr_locked_tokens :: "confirmed_token_balance list"

fun is_token_reserved :: "account \<Rightarrow> bool" where
  "is_token_reserved (TokenReserved _) = True"
| "is_token_reserved _ = False"

fun is_locked_token :: "account \<Rightarrow> bool" where
  "is_locked_token (LockedToken _) = True"
| "is_locked_token _ = False"

definition ledger_risk_view :: "(ledger \<Rightarrow> bytes32) \<Rightarrow> ledger \<Rightarrow> ledger_risk_view option" where
  "ledger_risk_view state_digest l =
     Option.bind (ledger_snapshot state_digest l) (\<lambda>snap.
     Option.bind (token_category (\<lambda>a. a = TokenAvailable) l) (\<lambda>available.
     Option.bind (token_category is_token_reserved l) (\<lambda>reserved.
     Option.bind (token_category is_locked_token l) (\<lambda>locked.
     Some \<lparr>lr_ledger_digest = sn_digest snap, lr_halted = sn_halted snap,
           lr_cash_available = sn_cash_available snap, lr_cash_reserved = sn_cash_reserved snap,
           lr_available_tokens = available, lr_reserved_tokens = reserved,
           lr_locked_tokens = locked\<rparr>))))"

end
