(* ===== verification/Ledger_Invariant.thy ===== *)
theory Ledger_Invariant
  imports Ledger
begin

text \<open>
  The correctness of the ledger. A successful posting moves each account by the net of
  its postings and keeps every asset balanced; the ledger invariant ties the control
  accounts to the reservations, cost positions and locks; every command keeps it; and
  under it the run-time check of the code can fail for nothing but an overflow.
\<close>

section \<open>Posting\<close>

lemma validate_account_asset_eq:
  "validate_account_asset a s = ensure (compatible_account_asset a s) AccountAsset"
  by (cases a; cases s) (simp_all add: validate_account_asset_def compatible_account_asset_def)

definition posting_key :: "posting \<Rightarrow> account \<times> asset" where
  "posting_key p = (p_account p, p_asset p)"

definition net :: "posting list \<Rightarrow> account \<times> asset \<Rightarrow> int" where
  "net ps k = (\<Sum>p\<leftarrow>ps. if posting_key p = k then delta_micros p else 0)"

definition asset_net :: "posting list \<Rightarrow> asset \<Rightarrow> int" where
  "asset_net ps s = (\<Sum>p\<leftarrow>ps. if p_asset p = s then delta_micros p else 0)"

definition asset_total :: "(account \<times> asset, int) btree \<Rightarrow> asset \<Rightarrow> int" where
  "asset_total m s = (\<Sum>e\<leftarrow>m. if snd (fst e) = s then snd e else 0)"

definition good_entry :: "account \<times> asset \<Rightarrow> int \<Rightarrow> bool" where
  "good_entry k v \<longleftrightarrow> compatible_account_asset (fst k) (snd k)
     \<and> (requires_nonnegative (fst k) \<longrightarrow> 0 \<le> v) \<and> i128_ok v"

definition good_entries :: "(account \<times> asset, int) btree \<Rightarrow> bool" where
  "good_entries m \<longleftrightarrow> bt_ok m \<and> (\<forall>k v. bt_get m k = Some v \<longrightarrow> good_entry k v)"

lemma net_simps [simp]:
  "net [] k = 0"
  "net (p # ps) k = (if posting_key p = k then delta_micros p else 0) + net ps k"
  "asset_net [] s = 0"
  "asset_net (p # ps) s = (if p_asset p = s then delta_micros p else 0) + asset_net ps s"
  by (simp_all add: net_def asset_net_def)

lemma net_nonzero: "net (filter (\<lambda>p. delta_micros p \<noteq> 0) ps) k = net ps k"
  by (induction ps) auto

lemma asset_net_nonzero: "asset_net (filter (\<lambda>p. delta_micros p \<noteq> 0) ps) s = asset_net ps s"
  by (induction ps) auto

lemma asset_total_insert:
  assumes "bt_ok m"
  shows "asset_total (bt_insert k v m) s
       = asset_total m s + (if snd k = s then v - bt_get_or m k 0 else 0)"
  using bt_sum_insert [OF assms, where f = "\<lambda>k v. if snd k = s then v else 0" and k = k and v = v]
  by (auto simp: asset_total_def bt_get_or_def split: option.splits)

lemma asset_total_retain: "asset_total (bt_retain (\<lambda>b. b \<noteq> 0) m) s = asset_total m s"
  by (induction m) (auto simp: asset_total_def bt_retain_def)

lemma get_or_retain: "bt_ok m \<Longrightarrow> bt_get_or (bt_retain (\<lambda>b. b \<noteq> 0) m) k 0 = bt_get_or m k 0"
  by (auto simp: bt_get_or_def bt_get_retain split: option.splits)

lemma post_entry_Inr:
  assumes "post_entry (tot, bal) p = Inr (tot', bal')"
  shows "tot' = bt_insert (p_asset p) (bt_get_or tot (p_asset p) 0 + delta_micros p) tot"
    and "bal' = bt_insert (posting_key p) (bt_get_or bal (posting_key p) 0 + delta_micros p) bal"
    and "good_entry (posting_key p) (bt_get_or bal (posting_key p) 0 + delta_micros p)"
  using assms
  by (auto simp: Let_def result_simps checked_simps validate_account_asset_eq posting_key_def
      good_entry_def split: if_splits)

lemma post_entries_spec:
  assumes "try_fold post_entry (tot, bal) ps = Inr (tot', bal')"
    and "good_entries bal" and "bt_ok tot"
  shows "good_entries bal' \<and> bt_ok tot'
    \<and> (\<forall>k. bt_get_or bal' k 0 = bt_get_or bal k 0 + net ps k)
    \<and> (\<forall>s. bt_get_or tot' s 0 = bt_get_or tot s 0 + asset_net ps s)
    \<and> (\<forall>s. asset_total bal' s = asset_total bal s + asset_net ps s)"
  using assms
proof (induction ps arbitrary: tot bal)
  case (Cons p ps)
  obtain t1 b1 where step: "post_entry (tot, bal) p = Inr (t1, b1)"
      and rest: "try_fold post_entry (t1, b1) ps = Inr (tot', bal')"
    using Cons.prems(1) by (auto simp: rbind_Inr_iff simp del: post_entry.simps)
  note eqs = post_entry_Inr [OF step]
  have "good_entries b1" "bt_ok t1"
    using Cons.prems(2,3) eqs by (auto simp: good_entries_def bt_simps)
  note IH = Cons.IH [OF rest this]
  have "bt_ok bal"
    using Cons.prems(2) by (simp add: good_entries_def)
  then have "asset_total b1 s = asset_total bal s + (if p_asset p = s then delta_micros p else 0)" for s
    by (simp add: eqs(2) asset_total_insert posting_key_def)
  then show ?case
    using IH by (auto simp: eqs(1,2) bt_simps)
qed simp

definition wf_balances :: "ledger \<Rightarrow> bool" where
  "wf_balances l \<longleftrightarrow> good_entries (balances l) \<and> (\<forall>k. bt_get (balances l) k \<noteq> Some 0)
     \<and> (\<forall>s. asset_total (balances l) s = 0)"

lemma find_all_zero:
  assumes "bt_ok m" and "\<And>k. bt_get_or m k 0 = 0"
  shows "find (\<lambda>e. snd e \<noteq> 0) m = None"
proof -
  have "snd e = 0" if "e \<in> set m" for e
    using assms that bt_mem_get [OF assms(1), of "fst e" "snd e"]
    by (metis bt_get_or_def option.simps(5) prod.collapse)
  then show ?thesis by (force simp: find_None_iff)
qed

lemma find_zero_get:
  assumes "bt_ok m" and "find (\<lambda>e. snd e \<noteq> 0) m = None"
  shows "bt_get_or m k 0 = (0 :: int)"
  using assms bt_get_mem [of m k]
  by (fastforce simp: bt_get_or_def find_None_iff split: option.splits)

text \<open>What a successful posting does: it moves every account by the sum of its postings, keeps
  every other part of the ledger, and only balanced transactions succeed.\<close>

lemma post_Inr:
  assumes "post ps l = Inr l'" and "wf_balances l"
  shows "\<exists>m. l' = l\<lparr>balances := m\<rparr>" and "wf_balances l'"
    and "balance l' a s = balance l a s + net ps (a, s)" and "asset_net ps s = 0"
proof -
  let ?nz = "filter (\<lambda>p. delta_micros p \<noteq> 0) ps"
  obtain tot cand where fold: "try_fold post_entry ([], balances l) ?nz = Inr (tot, cand)"
      and "(case find (\<lambda>e. snd e \<noteq> 0) tot of Some e \<Rightarrow> Inl (Unbalanced (fst e))
            | None \<Rightarrow> Inr (l\<lparr>balances := bt_retain (\<lambda>b. b \<noteq> 0) cand\<rparr>)) = Inr l'"
    using assms(1) by (auto simp: post_def Let_def result_simps split: if_splits)
  then have zero: "find (\<lambda>e. snd e \<noteq> 0) tot = None"
      and l': "l' = l\<lparr>balances := bt_retain (\<lambda>b. b \<noteq> 0) cand\<rparr>"
    by (cases "find (\<lambda>e. snd e \<noteq> 0) tot"; simp)+
  have good: "good_entries (balances l)"
    using assms(2) by (simp add: wf_balances_def)
  note spec = post_entries_spec [OF fold good bt_ok_Nil]
  have cand: "bt_ok cand" "good_entries cand"
    using spec by (simp_all add: good_entries_def)
  have net0: "asset_net ps s = 0" for s
    using spec find_zero_get [OF _ zero, of s] by (simp add: asset_net_nonzero bt_get_or_def)
  show "\<exists>m. l' = l\<lparr>balances := m\<rparr>"
    using l' by blast
  show "asset_net ps s = 0"
    by (rule net0)
  show "balance l' a s = balance l a s + net ps (a, s)"
    using spec cand(1) by (simp add: l' balance_def get_or_retain net_nonzero)
  show "wf_balances l'"
    using spec cand assms(2) net0
    by (auto simp: l' wf_balances_def good_entries_def asset_total_retain asset_net_nonzero
        bt_get_retain split: option.splits if_splits)
qed

text \<open>A balanced transaction of compatible postings fails only for an overflow or for a balance
  that would become negative.\<close>

lemma post_Inl:
  assumes "post ps l = Inl e" and "wf_balances l"
    and "2 \<le> length (filter (\<lambda>p. delta_micros p \<noteq> 0) ps)"
    and "\<And>p. p \<in> set ps \<Longrightarrow> compatible_account_asset (p_account p) (p_asset p)"
    and "\<And>s. asset_net ps s = 0"
  shows "e = Overflow \<or> e = NegativeBalance"
proof -
  let ?nz = "filter (\<lambda>p. delta_micros p \<noteq> 0) ps"
  show ?thesis
  proof (cases "try_fold post_entry ([], balances l) ?nz")
    case (Inl e')
    obtain tot bal p where "p \<in> set ?nz" "post_entry (tot, bal) p = Inl e'"
      using try_fold_Inl [OF Inl, of "\<lambda>_. True"] by auto
    moreover have "e' = e"
      using assms(1,3) Inl by (simp add: post_def Let_def)
    ultimately show ?thesis
      using assms(4) by (auto simp: Let_def result_simps validate_account_asset_eq split: if_splits)
  next
    case (Inr tc)
    obtain tot cand where tc: "tc = (tot, cand)" by fastforce
    have "good_entries (balances l)"
      using assms(2) by (simp add: wf_balances_def)
    note spec = post_entries_spec [OF Inr [unfolded tc] this bt_ok_Nil]
    then have "find (\<lambda>e. snd e \<noteq> 0) tot = None"
      by (intro find_all_zero) (auto simp: asset_net_nonzero assms(5) bt_get_or_def)
    then show ?thesis
      using assms(1,3) Inr tc by (simp add: post_def Let_def)
  qed
qed

lemma balance_nonneg: "wf_balances l \<Longrightarrow> requires_nonnegative a \<Longrightarrow> 0 \<le> balance l a s"
  by (auto simp: wf_balances_def good_entries_def good_entry_def balance_def bt_get_or_def
      split: option.splits)

lemma balance_ok: "wf_balances l \<Longrightarrow> i128_ok (balance l a s)"
  by (auto simp: wf_balances_def good_entries_def good_entry_def balance_def bt_get_or_def i128_ok_def
      split: option.splits)

lemma balance_incompatible:
  "wf_balances l \<Longrightarrow> \<not> compatible_account_asset a s \<Longrightarrow> balance l a s = 0"
  by (auto simp: wf_balances_def good_entries_def good_entry_def balance_def bt_get_or_def
      split: option.splits)

section \<open>The ledger invariant\<close>

text \<open>What a reservation still holds, of collateral and of a token.\<close>

fun cash_of :: "reservation option \<Rightarrow> int" where
  "cash_of None = 0"
| "cash_of (Some r) =
     (if res_status r = ReservationActive \<and> res_asset r = ReserveOfCollateral then remaining_micros r else 0)"

fun token_of :: "token_key \<Rightarrow> reservation option \<Rightarrow> int" where
  "token_of t None = 0"
| "token_of t (Some r) =
     (if res_status r = ReservationActive \<and> res_asset r = ReserveOfToken t then remaining_micros r else 0)"

fun locked_of :: "token_key \<Rightarrow> pair_lock option \<Rightarrow> int" where
  "locked_of t None = 0"
| "locked_of t (Some k) =
     (if lk_status k = LockActive \<and> (t = lk_up k \<or> t = lk_down k) then lk_quantity k else 0)"

fun locked_cost_of :: "pair_lock option \<Rightarrow> int" where
  "locked_cost_of None = 0"
| "locked_cost_of (Some k) = (if lk_status k = LockActive then lk_cost k else 0)"

definition token_reserved :: "(reservation_id, reservation) btree \<Rightarrow> token_key \<Rightarrow> int" where
  "token_reserved m t = (\<Sum>e\<leftarrow>m. token_of t (Some (snd e)))"

definition reservation_wf :: "reservation_id \<Rightarrow> reservation \<Rightarrow> bool" where
  "reservation_wf i r \<longleftrightarrow> res_id r = i \<and> 0 < original_micros r \<and> 0 \<le> remaining_micros r
     \<and> remaining_micros r \<le> original_micros r
     \<and> (res_status r = ReservationActive \<longrightarrow> 0 < remaining_micros r)"

definition lock_wf :: "lock_id \<Rightarrow> pair_lock \<Rightarrow> bool" where
  "lock_wf i k \<longleftrightarrow> lk_id k = i \<and> lk_up k \<noteq> lk_down k \<and> condition_id (lk_up k) = condition_id (lk_down k)
     \<and> 0 < lk_quantity k \<and> 0 \<le> lk_cost k \<and> lk_payout k = lk_quantity k"

definition inv_reservations :: "ledger \<Rightarrow> bool" where
  "inv_reservations l \<longleftrightarrow> bt_ok (reservations l)
     \<and> (\<forall>i r. bt_get (reservations l) i = Some r \<longrightarrow> reservation_wf i r)
     \<and> (\<forall>i. balance l (CashReserved i) Collateral = cash_of (bt_get (reservations l) i))
     \<and> (\<forall>i t. balance l (TokenReserved i) (Outcome t) = token_of t (bt_get (reservations l) i))"

definition inv_costs :: "ledger \<Rightarrow> bool" where
  "inv_costs l \<longleftrightarrow> bt_ok (costs l)
     \<and> (\<forall>t. pos_quantity (get_cost_position l t)
            = balance l TokenAvailable (Outcome t) + token_reserved (reservations l) t)
     \<and> (\<forall>t. i128_ok (balance l TokenAvailable (Outcome t) + token_reserved (reservations l) t))
     \<and> (\<forall>t. pos_cost (get_cost_position l t) = balance l (InventoryCost t) Collateral)"

definition inv_locks :: "ledger \<Rightarrow> bool" where
  "inv_locks l \<longleftrightarrow> bt_ok (locks l)
     \<and> (\<forall>i k. bt_get (locks l) i = Some k \<longrightarrow> lock_wf i k)
     \<and> (\<forall>i t. balance l (LockedToken i) (Outcome t) = locked_of t (bt_get (locks l) i))
     \<and> (\<forall>i. balance l (LockedCost i) Collateral = locked_cost_of (bt_get (locks l) i))"

text \<open>What the account holds at cost, and what the accounts say it was paid with: the capital
  contributed and the profit realised. And every token held came in from outside.\<close>

definition cash_reserved_total :: "(reservation_id, reservation) btree \<Rightarrow> int" where
  "cash_reserved_total m = (\<Sum>e\<leftarrow>m. cash_of (Some (snd e)))"

definition cost_total :: "(token_key, cost_position) btree \<Rightarrow> int" where
  "cost_total m = (\<Sum>e\<leftarrow>m. pos_cost (snd e))"

definition locked_cost_total :: "(lock_id, pair_lock) btree \<Rightarrow> int" where
  "locked_cost_total m = (\<Sum>e\<leftarrow>m. locked_cost_of (Some (snd e)))"

definition locked_total :: "(lock_id, pair_lock) btree \<Rightarrow> token_key \<Rightarrow> int" where
  "locked_total m t = (\<Sum>e\<leftarrow>m. locked_of t (Some (snd e)))"

definition held_at_cost :: "ledger \<Rightarrow> int" where
  "held_at_cost l = balance l CashAvailable Collateral + cash_reserved_total (reservations l)
     + cost_total (costs l) + locked_cost_total (locks l)"

definition realized_net :: "ledger \<Rightarrow> int" where
  "realized_net l = - balance l TradingRevenue Collateral - balance l CostOfGoodsSold Collateral
     - balance l FeeExpense Collateral"

definition inv_equity :: "ledger \<Rightarrow> bool" where
  "inv_equity l \<longleftrightarrow> held_at_cost l + balance l CapitalContributed Collateral - realized_net l = 0
     \<and> (\<forall>t. balance l TokenAvailable (Outcome t) + token_reserved (reservations l) t + locked_total (locks l) t
            + balance l External (Outcome t) = 0)"

definition ledger_inv :: "ledger \<Rightarrow> bool" where
  "ledger_inv l \<longleftrightarrow> wf_balances l \<and> inv_reservations l \<and> inv_costs l \<and> inv_locks l \<and> inv_equity l"

lemma balance_update [simp]:
  "balance (l\<lparr>reservations := r\<rparr>) a s = balance l a s"
  "balance (l\<lparr>costs := c\<rparr>) a s = balance l a s"
  "balance (l\<lparr>locks := k\<rparr>) a s = balance l a s"
  "balance (l\<lparr>processed := p\<rparr>) a s = balance l a s"
  "balance (l\<lparr>accepted_commands := n\<rparr>) a s = balance l a s"
  "balance (l\<lparr>halted := h\<rparr>) a s = balance l a s"
  by (simp_all add: balance_def)

lemma wf_balances_update [simp]:
  "wf_balances (l\<lparr>reservations := r\<rparr>) = wf_balances l"
  "wf_balances (l\<lparr>costs := c\<rparr>) = wf_balances l"
  "wf_balances (l\<lparr>locks := k\<rparr>) = wf_balances l"
  "wf_balances (l\<lparr>processed := p\<rparr>) = wf_balances l"
  "wf_balances (l\<lparr>accepted_commands := n\<rparr>) = wf_balances l"
  "wf_balances (l\<lparr>halted := h\<rparr>) = wf_balances l"
  by (simp_all add: wf_balances_def)

lemma cost_position_update [simp]:
  "get_cost_position (l\<lparr>balances := m\<rparr>) t = get_cost_position l t"
  "get_cost_position (l\<lparr>reservations := r\<rparr>) t = get_cost_position l t"
  "get_cost_position (l\<lparr>locks := k\<rparr>) t = get_cost_position l t"
  by (simp_all add: get_cost_position_def)

lemma token_reserved_insert:
  assumes "bt_ok m"
  shows "token_reserved (bt_insert i r m) t
       = token_reserved m t + token_of t (Some r) - token_of t (bt_get m i)"
  using bt_sum_insert [OF assms, where f = "\<lambda>k v. token_of t (Some v)" and k = i and v = r]
  by (simp add: token_reserved_def split: option.splits)

lemma cash_reserved_insert:
  "bt_ok m \<Longrightarrow> cash_reserved_total (bt_insert i r m)
     = cash_reserved_total m + cash_of (Some r) - cash_of (bt_get m i)"
  using bt_sum_insert [where f = "\<lambda>k v. cash_of (Some v)" and k = i and v = r]
  by (simp add: cash_reserved_total_def split: option.splits)

lemma cost_total_insert:
  "bt_ok m \<Longrightarrow> cost_total (bt_insert t p m)
     = cost_total m + pos_cost p - pos_cost (bt_get_or m t \<lparr>pos_quantity = 0, pos_cost = 0\<rparr>)"
  using bt_sum_insert [where f = "\<lambda>k v. pos_cost v" and k = t and v = p]
  by (simp add: cost_total_def bt_get_or_def split: option.splits)

lemma locked_cost_insert:
  "bt_ok m \<Longrightarrow> locked_cost_total (bt_insert i k m)
     = locked_cost_total m + locked_cost_of (Some k) - locked_cost_of (bt_get m i)"
  using bt_sum_insert [where f = "\<lambda>k v. locked_cost_of (Some v)" and k = i and v = k]
  by (simp add: locked_cost_total_def split: option.splits)

lemma locked_total_insert:
  "bt_ok m \<Longrightarrow> locked_total (bt_insert i k m) t
     = locked_total m t + locked_of t (Some k) - locked_of t (bt_get m i)"
  using bt_sum_insert [where f = "\<lambda>k v. locked_of t (Some v)" and k = i and v = k]
  by (simp add: locked_total_def split: option.splits)

lemmas total_insert = token_reserved_insert cash_reserved_insert cost_total_insert
  locked_cost_insert locked_total_insert bt_ok_insert

lemma ledger_inv_default: "ledger_inv ledger_default"
  by (simp add: ledger_inv_def wf_balances_def good_entries_def inv_reservations_def inv_costs_def
      inv_locks_def inv_equity_def held_at_cost_def realized_net_def ledger_default_def balance_def
      bt_get_or_def asset_total_def get_cost_position_def token_reserved_def cash_reserved_total_def
      cost_total_def locked_cost_total_def locked_total_def i128_ok_def)

lemma ledger_inv_record [simp]:
  "ledger_inv (l\<lparr>processed := p\<rparr>) = ledger_inv l"
  "ledger_inv (l\<lparr>accepted_commands := n\<rparr>) = ledger_inv l"
  "ledger_inv (l\<lparr>halted := h\<rparr>) = ledger_inv l"
  by (simp_all add: ledger_inv_def inv_reservations_def inv_costs_def inv_locks_def inv_equity_def
      held_at_cost_def realized_net_def get_cost_position_def)

text \<open>Inversion of the three bookkeeping steps.\<close>

lemma active_reservation_Inr:
  "active_reservation l i = Inr r \<longleftrightarrow> bt_get (reservations l) i = Some r \<and> res_status r = ReservationActive"
  by (auto simp: active_reservation_def result_simps)

definition consumed :: "int \<Rightarrow> reservation \<Rightarrow> reservation" where
  "consumed amount r = r\<lparr>remaining_micros := remaining_micros r - amount,
     res_status := (if remaining_micros r = amount then ReservationConsumed else res_status r)\<rparr>"

lemma consume_Inr:
  "consume_reservation i amount l = Inr l' \<longleftrightarrow> (\<exists>r. bt_get (reservations l) i = Some r
     \<and> i128_ok (remaining_micros r - amount)
     \<and> l' = l\<lparr>reservations := bt_insert i (consumed amount r) (reservations l)\<rparr>)"
  by (cases "bt_get (reservations l) i")
    (auto simp: consume_reservation_def consumed_def sub128_def i128_new_def)

lemma add_cost_Inr:
  "add_cost t q c l = Inr l' \<longleftrightarrow> i128_ok (pos_quantity (get_cost_position l t) + q)
     \<and> i128_ok (pos_cost (get_cost_position l t) + c)
     \<and> l' = l\<lparr>costs := bt_insert t \<lparr>pos_quantity = pos_quantity (get_cost_position l t) + q,
                 pos_cost = pos_cost (get_cost_position l t) + c\<rparr> (costs l)\<rparr>"
  by (auto simp: add_cost_def Let_def result_simps checked_simps)

lemma reduce_cost_Inr:
  "reduce_cost t q c l = Inr l' \<Longrightarrow> i128_ok (pos_quantity (get_cost_position l t) - q)
     \<and> l' = l\<lparr>costs := bt_insert t \<lparr>pos_quantity = pos_quantity (get_cost_position l t) - q,
                 pos_cost = pos_cost (get_cost_position l t) - c\<rparr> (costs l)\<rparr>"
  by (auto simp: reduce_cost_def get_cost_position_def bt_get_or_def result_simps checked_simps
      split: if_splits)

lemma mk_posting_simps [simp]:
  "posting_key (mk_posting a s d) = (a, s)"
  "p_account (mk_posting a s d) = a"
  "p_asset (mk_posting a s d) = s"
  "delta_micros (mk_posting a s d) = d"
  by (simp_all add: mk_posting_def posting_key_def)

section \<open>Cost allocation\<close>

lemma allocate_cost_bounds:
  assumes "allocate_cost p q = Inr c"
  shows "0 < q" and "q \<le> pos_quantity p" and "0 \<le> c" and "c \<le> pos_cost p"
    and "pos_cost p * q \<le> c * pos_quantity p" and "c * pos_quantity p < pos_cost p * q + pos_quantity p"
    and "q = pos_quantity p \<Longrightarrow> c = pos_cost p"
proof -
  let ?Q = "pos_quantity p" and ?C = "pos_cost p"
  have pos: "0 < q" "q \<le> ?Q" "0 \<le> ?C" "0 < ?Q"
    using assms by (auto simp: allocate_cost_def split: if_splits)
  have "c = ?C \<and> q = ?Q \<or> q < ?Q \<and> c = (?C * q + (?Q - 1)) div ?Q"
    using assms pos by (auto simp: allocate_cost_def result_simps checked_simps tdiv_nonneg split: if_splits)
  then have main: "?C * q \<le> c * ?Q \<and> c * ?Q < ?C * q + ?Q \<and> (q = ?Q \<longrightarrow> c = ?C)"
    using ceil_div_bounds [OF pos(4), of "?C * q"] pos by auto
  have "c * ?Q < (?C + 1) * ?Q"
    using main mult_left_mono [OF pos(2,3)] by (simp add: algebra_simps)
  then have "c \<le> ?C"
    using pos(4) by (simp add: mult_less_cancel_right)
  moreover have "0 \<le> c"
    using main pos mult_nonneg_nonneg [of ?C q] by (smt (verit) mult_neg_pos)
  ultimately show "0 < q" "q \<le> ?Q" "0 \<le> c" "c \<le> ?C" "?C * q \<le> c * ?Q"
      "c * ?Q < ?C * q + ?Q" "q = ?Q \<Longrightarrow> c = ?C"
    using main pos by blast+
qed

section \<open>Every command keeps the invariant\<close>

lemmas inv_defs = ledger_inv_def inv_reservations_def inv_costs_def inv_locks_def inv_equity_def
  held_at_cost_def realized_net_def get_cost_position_def

lemma post_moves:
  assumes "post ps l = Inr l'" and "ledger_inv l"
  shows "\<exists>m. l' = l\<lparr>balances := m\<rparr> \<and> wf_balances (l\<lparr>balances := m\<rparr>)
    \<and> (\<forall>a s. balance (l\<lparr>balances := m\<rparr>) a s = balance l a s + net ps (a, s))"
proof -
  have wf: "wf_balances l" using assms(2) by (simp add: ledger_inv_def)
  show ?thesis using post_Inr [OF assms(1) wf] by blast
qed

lemma fund_inv:
  assumes inv: "ledger_inv l" and "fund_collateral amount l = Inr l'"
  shows "ledger_inv l'"
proof -
  have p: "post [mk_posting CashAvailable Collateral amount,
      mk_posting CapitalContributed Collateral (- amount)] l = Inr l'"
    using assms(2) by (auto simp: fund_collateral_def result_simps checked_simps)
  obtain m where m: "l' = l\<lparr>balances := m\<rparr>" "wf_balances (l\<lparr>balances := m\<rparr>)"
      "\<And>a s. balance (l\<lparr>balances := m\<rparr>) a s = balance l a s + net [mk_posting CashAvailable Collateral amount,
      mk_posting CapitalContributed Collateral (- amount)] (a, s)"
    using post_moves [OF p inv] by blast
  show ?thesis
    using inv m(2) unfolding inv_defs by (auto simp: m(1,3))
qed

lemma reserve_inv:
  assumes inv: "ledger_inv l" and "0 < amount" and "reserve i s amount l = Inr l'"
  shows "ledger_inv l'"
proof -
  let ?ps = "case s of
      ReserveOfCollateral \<Rightarrow> [mk_posting CashAvailable Collateral (- amount),
        mk_posting (CashReserved i) Collateral amount]
    | ReserveOfToken token \<Rightarrow> [mk_posting TokenAvailable (Outcome token) (- amount),
        mk_posting (TokenReserved i) (Outcome token) amount]"
  obtain l1 where new: "bt_get (reservations l) i = None" and p: "post ?ps l = Inr l1"
      and l': "l' = l1\<lparr>reservations := bt_insert i \<lparr>res_id = i, res_asset = s, original_micros = amount,
        remaining_micros = amount, res_status = ReservationActive\<rparr> (reservations l1)\<rparr>"
    using assms(3) by (auto simp: reserve_def bt_contains_def result_simps)
  obtain m where m: "l1 = l\<lparr>balances := m\<rparr>" "wf_balances (l\<lparr>balances := m\<rparr>)"
      "\<And>a s. balance (l\<lparr>balances := m\<rparr>) a s = balance l a s + net ?ps (a, s)"
    using post_moves [OF p inv] by blast
  have ok: "bt_ok (reservations l)"
    using inv by (simp add: inv_defs)
  show ?thesis
    using inv m(2) assms(2) new ok unfolding inv_defs
    by (cases s) (auto simp: l' m(1,3) bt_simps total_insert reservation_wf_def)
qed

lemma inv_reservation: "ledger_inv l \<Longrightarrow> bt_get (reservations l) i = Some r \<Longrightarrow> reservation_wf i r"
  by (simp add: inv_defs)

lemma reservation_wf_released:
  "reservation_wf i r \<Longrightarrow> reservation_wf i (r\<lparr>remaining_micros := 0, res_status := ReservationReleased\<rparr>)"
  by (auto simp: reservation_wf_def)

lemma reservation_wf_consumed:
  "reservation_wf i r \<Longrightarrow> 0 \<le> amount \<Longrightarrow> amount \<le> remaining_micros r \<Longrightarrow> reservation_wf i (consumed amount r)"
  by (auto simp: reservation_wf_def consumed_def)

lemma active_amounts:
  assumes "res_status r = ReservationActive"
  shows "cash_of (Some r) = (if res_asset r = ReserveOfCollateral then remaining_micros r else 0)"
    and "token_of t (Some r) = (if res_asset r = ReserveOfToken t then remaining_micros r else 0)"
    and "cash_of (Some (consumed amount r)) = (if res_asset r = ReserveOfCollateral then remaining_micros r - amount else 0)"
    and "token_of t (Some (consumed amount r)) = (if res_asset r = ReserveOfToken t then remaining_micros r - amount else 0)"
  using assms by (auto simp: consumed_def)

lemma release_inv:
  assumes inv: "ledger_inv l" and "release i l = Inr l'"
  shows "ledger_inv l'"
proof -
  obtain r where r: "bt_get (reservations l) i = Some r" "res_status r = ReservationActive"
    using assms(2) by (auto simp: release_def active_reservation_Inr rbind_Inr_iff)
  let ?ps = "case res_asset r of
      ReserveOfCollateral \<Rightarrow> [mk_posting (CashReserved i) Collateral (- remaining_micros r),
        mk_posting CashAvailable Collateral (remaining_micros r)]
    | ReserveOfToken token \<Rightarrow> [mk_posting (TokenReserved i) (Outcome token) (- remaining_micros r),
        mk_posting TokenAvailable (Outcome token) (remaining_micros r)]"
  obtain l1 r' where p: "post ?ps l = Inr l1" and r': "bt_get (reservations l1) i = Some r'"
      and l': "l' = l1\<lparr>reservations := bt_insert i
        (r'\<lparr>remaining_micros := 0, res_status := ReservationReleased\<rparr>) (reservations l1)\<rparr>"
    using assms(2) r by (auto simp: release_def active_reservation_Inr result_simps)
  obtain m where m: "l1 = l\<lparr>balances := m\<rparr>" "wf_balances (l\<lparr>balances := m\<rparr>)"
      "\<And>a s. balance (l\<lparr>balances := m\<rparr>) a s = balance l a s + net ?ps (a, s)"
    using post_moves [OF p inv] by blast
  have [simp]: "r' = r" using r r' m(1) by simp
  have ok: "bt_ok (reservations l)" using inv by (simp add: inv_defs)
  show ?thesis
    using inv m(2) r ok reservation_wf_released [OF inv_reservation [OF inv r(1)]] unfolding inv_defs
    by (cases "res_asset r") (auto simp: l' m(1,3) bt_simps total_insert split: if_splits)
qed

lemma confirm_buy_inv:
  assumes inv: "ledger_inv l" and "0 < consideration" and "0 \<le> fee"
    and "confirm_buy i token quantity consideration fee l = Inr l'"
  shows "ledger_inv l'"
proof -
  let ?total = "consideration + fee"
  let ?ps = "[mk_posting (CashReserved i) Collateral (- ?total),
          mk_posting (InventoryCost token) Collateral consideration,
          mk_posting FeeExpense Collateral fee,
          mk_posting TokenAvailable (Outcome token) quantity,
          mk_posting External (Outcome token) (- quantity)]"
  obtain r l1 l2 where r: "bt_get (reservations l) i = Some r" "res_status r = ReservationActive"
      "res_asset r = ReserveOfCollateral" "?total \<le> remaining_micros r"
      and p: "post ?ps l = Inr l1" and c: "consume_reservation i ?total l1 = Inr l2"
      and a: "add_cost token quantity consideration l2 = Inr l'"
    using assms(4) by (auto simp: confirm_buy_def active_reservation_Inr result_simps checked_simps)
  obtain m where m: "l1 = l\<lparr>balances := m\<rparr>" "wf_balances (l\<lparr>balances := m\<rparr>)"
      "\<And>a s. balance (l\<lparr>balances := m\<rparr>) a s = balance l a s + net ?ps (a, s)"
    using post_moves [OF p inv] by blast
  have l2: "l2 = l\<lparr>balances := m, reservations := bt_insert i (consumed ?total r) (reservations l)\<rparr>"
    using c r by (auto simp: consume_Inr m(1))
  note l' = a [unfolded add_cost_Inr l2 get_cost_position_def, simplified]
  have ok: "bt_ok (reservations l)" using inv by (simp add: inv_defs)
  show ?thesis
    using inv m(2) r ok l' reservation_wf_consumed [OF inv_reservation [OF inv r(1)] _ r(4)] assms(2,3)
    unfolding inv_defs
    by (auto simp: m(1,3) bt_simps total_insert active_amounts algebra_simps
      simp del: cash_of.simps token_of.simps)
qed


lemma confirm_split_inv:
  assumes inv: "ledger_inv l" and "0 < quantity" and "confirm_split i up down quantity l = Inr l'"
  shows "ledger_inv l'"
proof -
  let ?uc = "tdiv quantity 2" and ?dc = "quantity - tdiv quantity 2"
  let ?ps = "[mk_posting (CashReserved i) Collateral (- quantity),
             mk_posting (InventoryCost up) Collateral ?uc,
             mk_posting (InventoryCost down) Collateral ?dc,
             mk_posting TokenAvailable (Outcome up) quantity,
             mk_posting External (Outcome up) (- quantity),
             mk_posting TokenAvailable (Outcome down) quantity,
             mk_posting External (Outcome down) (- quantity)]"
  obtain r l1 l2 l3 where r: "bt_get (reservations l) i = Some r" "res_status r = ReservationActive"
      "res_asset r = ReserveOfCollateral" "quantity \<le> remaining_micros r" and ne: "up \<noteq> down"
      and p: "post ?ps l = Inr l1" and c: "consume_reservation i quantity l1 = Inr l2"
      and a: "add_cost up quantity ?uc l2 = Inr l3" and b: "add_cost down quantity ?dc l3 = Inr l'"
    using assms(3) by (auto simp: confirm_split_def Let_def active_reservation_Inr result_simps checked_simps)
  obtain m where m: "l1 = l\<lparr>balances := m\<rparr>" "wf_balances (l\<lparr>balances := m\<rparr>)"
      "\<And>a s. balance (l\<lparr>balances := m\<rparr>) a s = balance l a s + net ?ps (a, s)"
    using post_moves [OF p inv] by blast
  have l2: "l2 = l\<lparr>balances := m, reservations := bt_insert i (consumed quantity r) (reservations l)\<rparr>"
    using c r by (auto simp: consume_Inr m(1))
  note l3 = a [unfolded add_cost_Inr l2 get_cost_position_def, simplified]
  have l': "i128_ok (pos_quantity (get_cost_position l down) + quantity)"
     "l' = l3\<lparr>costs := bt_insert down \<lparr>pos_quantity = pos_quantity (get_cost_position l down) + quantity,
                 pos_cost = pos_cost (get_cost_position l down) + ?dc\<rparr> (costs l3)\<rparr>"
    using b l3 ne by (auto simp: add_cost_Inr get_cost_position_def bt_simps)
  have ok: "bt_ok (reservations l)" using inv by (simp add: inv_defs)
  show ?thesis
    using inv m(2) r ok l3 l' ne reservation_wf_consumed [OF inv_reservation [OF inv r(1)] _ r(4)] assms(2)
    unfolding inv_defs
    by (auto simp: m(1,3) bt_simps total_insert active_amounts algebra_simps
      simp del: cash_of.simps token_of.simps)
qed


text \<open>The common tail of a sale and of a redemption: the reservation is consumed and the
  position reduced by what was posted.\<close>

lemma token_exit_inv:
  assumes inv: "ledger_inv l" and "0 < quantity"
    and r: "bt_get (reservations l) i = Some r" "res_status r = ReservationActive"
      "res_asset r = ReserveOfToken token" "quantity \<le> remaining_micros r"
    and p: "post ps l = Inr l1" and c: "consume_reservation i quantity l1 = Inr l2"
    and d: "reduce_cost token quantity allocated l2 = Inr l'"
    and net: "\<And>a s. a \<noteq> TokenReserved i \<and> a \<noteq> InventoryCost token
        \<Longrightarrow> requires_nonnegative a \<Longrightarrow> a \<noteq> CashAvailable \<Longrightarrow> a \<noteq> FeeExpense \<Longrightarrow> a \<noteq> CostOfGoodsSold \<Longrightarrow> net ps (a, s) = 0"
      "\<And>s. net ps (TokenReserved i, s) = (if s = Outcome token then - quantity else 0)"
      "\<And>s. net ps (InventoryCost token, s) = (if s = Collateral then - allocated else 0)"
      "\<And>t. net ps (External, Outcome t) = (if t = token then quantity else 0)"
      "net ps (CashAvailable, Collateral) + net ps (FeeExpense, Collateral)
        + net ps (TradingRevenue, Collateral) + net ps (CostOfGoodsSold, Collateral)
        + net ps (CapitalContributed, Collateral) = allocated"
  shows "ledger_inv l'"
proof -
  obtain m where m: "l1 = l\<lparr>balances := m\<rparr>" "wf_balances (l\<lparr>balances := m\<rparr>)"
      "\<And>a s. balance (l\<lparr>balances := m\<rparr>) a s = balance l a s + net ps (a, s)"
    using post_moves [OF p inv] by blast
  have l2: "l2 = l\<lparr>balances := m, reservations := bt_insert i (consumed quantity r) (reservations l)\<rparr>"
    using c r by (auto simp: consume_Inr m(1))
  note l' = reduce_cost_Inr [OF d, unfolded l2 get_cost_position_def, simplified]
  have ok: "bt_ok (reservations l)" using inv by (simp add: inv_defs)
  have n: "net ps (TokenReserved j, s) = (if j = i \<and> s = Outcome token then - quantity else 0)" for j s
    using net(1) [of "TokenReserved j" s] net(2) [of s] by (cases "j = i") simp_all
  have n': "net ps (InventoryCost t, s) = (if t = token \<and> s = Collateral then - allocated else 0)" for t s
    using net(1) [of "InventoryCost t" s] net(3) [of s] by (cases "t = token") simp_all
  have n5: "net ps (CashAvailable, Collateral) = allocated - net ps (FeeExpense, Collateral)
      - net ps (TradingRevenue, Collateral) - net ps (CostOfGoodsSold, Collateral)
      - net ps (CapitalContributed, Collateral)"
    using net(5) by linarith
  show ?thesis
    using inv m(2) r ok l' reservation_wf_consumed [OF inv_reservation [OF inv r(1)] _ r(4)] assms(2)
    unfolding inv_defs
    by (auto simp: m(1,3) n n' n5 net(1,4) bt_simps total_insert active_amounts algebra_simps
      simp del: cash_of.simps token_of.simps)
qed

lemma confirm_sell_inv:
  assumes inv: "ledger_inv l" and "0 < quantity" and "confirm_sell i quantity gross fee l = Inr l'"
  shows "ledger_inv l'"
proof -
  obtain r where r: "bt_get (reservations l) i = Some r" "res_status r = ReservationActive"
    using assms(3) by (auto simp: confirm_sell_def active_reservation_Inr rbind_Inr_iff)
  obtain token where token: "res_asset r = ReserveOfToken token"
    using assms(3) r by (cases "res_asset r") (auto simp: confirm_sell_def active_reservation_Inr result_simps)
  obtain allocated l1 l2 where q: "quantity \<le> remaining_micros r"
      and p: "post [mk_posting (TokenReserved i) (Outcome token) (- quantity),
              mk_posting External (Outcome token) quantity,
              mk_posting CashAvailable Collateral (gross - fee),
              mk_posting FeeExpense Collateral fee,
              mk_posting TradingRevenue Collateral (- gross),
              mk_posting (InventoryCost token) Collateral (- allocated),
              mk_posting CostOfGoodsSold Collateral allocated] l = Inr l1"
      and c: "consume_reservation i quantity l1 = Inr l2"
      and d: "reduce_cost token quantity allocated l2 = Inr l'"
    using assms(3) r token
    by (auto simp: confirm_sell_def active_reservation_Inr result_simps checked_simps)
  show ?thesis
    by (rule token_exit_inv [OF inv assms(2) r token q p c d]) auto
qed

lemma confirm_redemption_inv:
  assumes inv: "ledger_inv l" and "0 < quantity" and "confirm_redemption i quantity payout l = Inr l'"
  shows "ledger_inv l'"
proof -
  obtain r where r: "bt_get (reservations l) i = Some r" "res_status r = ReservationActive"
    using assms(3) by (auto simp: confirm_redemption_def active_reservation_Inr rbind_Inr_iff)
  obtain token where token: "res_asset r = ReserveOfToken token"
    using assms(3) r by (cases "res_asset r") (auto simp: confirm_redemption_def active_reservation_Inr result_simps)
  obtain allocated l1 l2 where q: "quantity \<le> remaining_micros r"
      and p: "post [mk_posting (TokenReserved i) (Outcome token) (- quantity),
              mk_posting External (Outcome token) quantity,
              mk_posting CashAvailable Collateral payout,
              mk_posting TradingRevenue Collateral (- payout),
              mk_posting (InventoryCost token) Collateral (- allocated),
              mk_posting CostOfGoodsSold Collateral allocated] l = Inr l1"
      and c: "consume_reservation i quantity l1 = Inr l2"
      and d: "reduce_cost token quantity allocated l2 = Inr l'"
    using assms(3) r token
    by (auto simp: confirm_redemption_def active_reservation_Inr result_simps checked_simps)
  show ?thesis
    by (rule token_exit_inv [OF inv assms(2) r token q p c d]) auto
qed

lemma lock_pair_inv:
  assumes inv: "ledger_inv l" and "lock_pair i up down quantity l = Inr l'"
  shows "ledger_inv l'"
proof -
  obtain uc dc l1 l2 l3 where new: "bt_get (locks l) i = None" and ne: "up \<noteq> down" "condition_id up = condition_id down"
      and uc: "allocate_cost (get_cost_position l up) quantity = Inr uc"
      and dc: "allocate_cost (get_cost_position l down) quantity = Inr dc"
      and p: "post [mk_posting TokenAvailable (Outcome up) (- quantity),
           mk_posting (LockedToken i) (Outcome up) quantity,
           mk_posting TokenAvailable (Outcome down) (- quantity),
           mk_posting (LockedToken i) (Outcome down) quantity,
           mk_posting (InventoryCost up) Collateral (- uc),
           mk_posting (InventoryCost down) Collateral (- dc),
           mk_posting (LockedCost i) Collateral (uc + dc)] l = Inr l1" (is "post ?ps l = _")
      and d: "reduce_cost up quantity uc l1 = Inr l2" "reduce_cost down quantity dc l2 = Inr l3"
      and l': "l' = l3\<lparr>locks := bt_insert i
          \<lparr>lk_id = i, lk_up = up, lk_down = down, lk_quantity = quantity, lk_cost = uc + dc,
           lk_payout = quantity, lk_status = LockActive\<rparr> (locks l3)\<rparr>"
    using assms(2) by (auto simp: lock_pair_def bt_contains_def result_simps checked_simps)
  obtain m where m: "l1 = l\<lparr>balances := m\<rparr>" "wf_balances (l\<lparr>balances := m\<rparr>)"
      "\<And>a s. balance (l\<lparr>balances := m\<rparr>) a s = balance l a s + net ?ps (a, s)"
    using post_moves [OF p inv] by blast
  note l2 = reduce_cost_Inr [OF d(1), unfolded m(1) get_cost_position_def, simplified]
  have l3: "i128_ok (pos_quantity (get_cost_position l down) - quantity)"
     "l3 = l2\<lparr>costs := bt_insert down \<lparr>pos_quantity = pos_quantity (get_cost_position l down) - quantity,
                 pos_cost = pos_cost (get_cost_position l down) - dc\<rparr> (costs l2)\<rparr>"
    using reduce_cost_Inr [OF d(2)] l2 ne(1) by (auto simp: get_cost_position_def bt_simps)
  have b: "0 < quantity" "0 \<le> uc" "0 \<le> dc"
    using allocate_cost_bounds [OF uc] allocate_cost_bounds [OF dc] by auto
  show ?thesis
    using inv m(2) new l2 l3 ne b
    unfolding inv_defs
    by (auto simp: l' m(3) bt_simps total_insert lock_wf_def algebra_simps)
qed

lemma confirm_merge_inv:
  assumes inv: "ledger_inv l" and "confirm_merge i l = Inr l'"
  shows "ledger_inv l'"
proof -
  obtain k k' l1 where k: "bt_get (locks l) i = Some k" "lk_status k = LockActive"
      and p: "post [mk_posting (LockedToken i) (Outcome (lk_up k)) (- lk_quantity k),
          mk_posting External (Outcome (lk_up k)) (lk_quantity k),
          mk_posting (LockedToken i) (Outcome (lk_down k)) (- lk_quantity k),
          mk_posting External (Outcome (lk_down k)) (lk_quantity k),
          mk_posting CashAvailable Collateral (lk_payout k),
          mk_posting TradingRevenue Collateral (- lk_payout k),
          mk_posting (LockedCost i) Collateral (- lk_cost k),
          mk_posting CostOfGoodsSold Collateral (lk_cost k)] l = Inr l1" (is "post ?ps l = _")
      and k': "bt_get (locks l1) i = Some k'"
      and l': "l' = l1\<lparr>locks := bt_insert i (k'\<lparr>lk_status := LockMerged\<rparr>) (locks l1)\<rparr>"
    using assms(2) by (auto simp: confirm_merge_def result_simps)
  obtain m where m: "l1 = l\<lparr>balances := m\<rparr>" "wf_balances (l\<lparr>balances := m\<rparr>)"
      "\<And>a s. balance (l\<lparr>balances := m\<rparr>) a s = balance l a s + net ?ps (a, s)"
    using post_moves [OF p inv] by blast
  have [simp]: "k' = k" using k k' m(1) by simp
  have w: "lock_wf i k" using inv k by (simp add: inv_defs)
  then have w': "lock_wf i (k\<lparr>lk_status := LockMerged\<rparr>)" "lk_up k \<noteq> lk_down k"
    by (auto simp: lock_wf_def)
  show ?thesis
    using inv m(2) k w' unfolding inv_defs
    by (auto simp: l' m(1,3) bt_simps total_insert algebra_simps)
qed


lemma dispatch_inv:
  assumes "ledger_inv l" and "ledger_validate_command c = Inr ()" and "dispatch c l = Inr l'"
  shows "ledger_inv l'"
  using assms(2,3)
  by (cases c)
    (auto simp: ledger_validate_command_def positive_def result_simps not_less
      intro: fund_inv [OF assms(1)] reserve_inv [OF assms(1)] release_inv [OF assms(1)]
        confirm_buy_inv [OF assms(1)] confirm_sell_inv [OF assms(1)] lock_pair_inv [OF assms(1)]
        confirm_merge_inv [OF assms(1)] confirm_split_inv [OF assms(1)] confirm_redemption_inv [OF assms(1)])

lemma apply_fresh_inv: "ledger_inv l \<Longrightarrow> ledger_apply_fresh c l = Inr l' \<Longrightarrow> ledger_inv l'"
  by (auto simp: ledger_apply_fresh_def result_simps intro: dispatch_inv)

lemma ledger_install_Inr:
  assumes "ledger_install i digest c l = Inr l'"
  obtains l1 where "ledger_apply_fresh c l = Inr l1" and "verify_invariants l' = Inr ()"
    and "u64_ok (accepted_commands l1 + 1)"
    and "l' = l1\<lparr>processed := bt_insert i digest (processed l1), accepted_commands := accepted_commands l1 + 1\<rparr>"
  using assms by (auto simp: ledger_install_def Let_def result_simps checked_simps)

lemma ledger_install_inv: "ledger_inv l \<Longrightarrow> ledger_install i digest c l = Inr l' \<Longrightarrow> ledger_inv l'"
  by (erule ledger_install_Inr) (auto dest: apply_fresh_inv)

lemma ledger_apply_cases:
  assumes "ledger_apply to_vec blake3 c l = (r, l')"
  obtains (unchanged) "l' = l" | (conflict) "r = Inl IdempotencyConflict" "l' = l\<lparr>halted := Some ledger_conflict_text\<rparr>"
  | (installed) digest where "r = Inr Applied" "halted l = None" "ledger_content to_vec blake3 c = Inr digest"
      "bt_get (processed l) (ledger_command_id c) = None"
      "ledger_install (ledger_command_id c) digest c l = Inr l'"
  using assms by (auto simp: ledger_apply_def split: option.splits sum.splits if_splits)

lemma ledger_apply_inv: "ledger_inv l \<Longrightarrow> ledger_inv (snd (ledger_apply to_vec blake3 c l))"
  by (rule ledger_apply_cases [of to_vec blake3 c l]) (auto simp: prod_eq_iff intro: ledger_install_inv)

section \<open>The run-time check\<close>

lemma verify_entries:
  assumes "good_entries m" and "bt_ok tot" and "set es \<subseteq> set m"
  shows "try_fold verify_entry tot es = Inl Overflow
    \<or> (\<exists>tot'. try_fold verify_entry tot es = Inr tot' \<and> bt_ok tot'
        \<and> (\<forall>s. bt_get_or tot' s 0 = bt_get_or tot s 0 + asset_total es s))"
  using assms(2,3)
proof (induction es arbitrary: tot)
  case (Cons e es)
  obtain a s v where e: "e = ((a, s), v)" by (metis prod.collapse)
  have "bt_get m (a, s) = Some v"
    using Cons.prems(2) assms(1) by (simp add: e good_entries_def bt_mem_get)
  then have g: "good_entry (a, s) v"
    using assms(1) by (simp add: good_entries_def)
  show ?case
  proof (cases "i128_ok (bt_get_or tot s 0 + v)")
    case True
    then have "verify_entry tot e = Inr (bt_insert s (bt_get_or tot s 0 + v) tot)"
      using g by (auto simp: verify_entry_def e validate_account_asset_eq good_entry_def add128_def i128_new_def)
    moreover have "bt_get_or (bt_insert s (bt_get_or tot s 0 + v) tot) x 0 + asset_total es x
        = bt_get_or tot x 0 + asset_total (e # es) x" for x
      by (auto simp: asset_total_def e bt_simps)
    ultimately show ?thesis
      using Cons.IH [of "bt_insert s (bt_get_or tot s 0 + v) tot"] Cons.prems by auto
  next
    case False
    then show ?thesis
      using g by (auto simp: verify_entry_def e validate_account_asset_eq good_entry_def add128_def i128_new_def)
  qed
qed (simp add: asset_total_def)

lemma wrapping_sum_eq: "wrap128 (a + wrapping_sum xs) = wrap128 (a + sum_list xs)"
proof -
  have "wrap128 (a + foldl (\<lambda>s x. wrap128 (s + x)) b xs) = wrap128 (a + b + sum_list xs)" for b
  proof (induction xs arbitrary: b)
    case (Cons x xs)
    have "wrap128 (a + wrap128 (b + x) + sum_list xs) = wrap128 (wrap128 (b + x) + (a + sum_list xs))"
      by (simp add: algebra_simps)
    also have "\<dots> = wrap128 (a + b + sum_list (x # xs))"
      by (simp add: wrap128_add_left) (simp add: algebra_simps)
    finally show ?case using Cons by simp
  qed simp
  then show ?thesis by (simp add: wrapping_sum_def)
qed

lemma reserved_amounts_sum: "sum_list (reserved_amounts l t) = token_reserved (reservations l) t"
proof -
  have "sum_list (map remaining_micros (filter (\<lambda>r. res_asset r = ReserveOfToken t
      \<and> res_status r = ReservationActive) (map snd m))) = token_reserved m t" for m
    by (induction m) (auto simp: token_reserved_def)
  then show ?thesis by (simp add: reserved_amounts_def)
qed

lemma token_reserved_nonneg:
  assumes "inv_reservations l"
  shows "0 \<le> token_reserved (reservations l) t"
proof -
  have "0 \<le> token_of t (Some (snd e))" if "e \<in> set (reservations l)" for e
  proof -
    have "bt_get (reservations l) (fst e) = Some (snd e)"
      using that assms by (simp add: inv_reservations_def bt_mem_get [symmetric])
    then have "reservation_wf (fst e) (snd e)"
      using assms by (simp add: inv_reservations_def)
    then show ?thesis by (simp add: reservation_wf_def)
  qed
  then show ?thesis
    unfolding token_reserved_def by (intro sum_list_nonneg) (auto simp del: token_of.simps)
qed

lemma verify_reservation_ok:
  assumes "ledger_inv l" and "(i, r) \<in> set (reservations l)"
  shows "verify_reservation l r = Inr ()"
proof -
  have r: "bt_get (reservations l) i = Some r"
    using assms by (simp add: ledger_inv_def inv_reservations_def bt_mem_get)
  have w: "reservation_wf i r" by (rule inv_reservation [OF assms(1) r])
  have b: "balance l (CashReserved i) Collateral = cash_of (Some r)"
      "balance l (TokenReserved i) (Outcome t) = token_of t (Some r)" for t
    using assms(1) r [symmetric] by (simp_all add: ledger_inv_def inv_reservations_def)
  show ?thesis
    using w b by (auto simp: verify_reservation_def reservation_wf_def Let_def split: reservation_asset.splits)
qed

lemma verify_token_ok:
  assumes "ledger_inv l"
  shows "verify_token l t = Inr ()"
proof -
  have "0 \<le> balance l TokenAvailable (Outcome t)" "0 \<le> balance l (InventoryCost t) Collateral"
      "0 \<le> token_reserved (reservations l) t"
    using assms balance_nonneg token_reserved_nonneg by (simp_all add: ledger_inv_def)
  then show ?thesis
    using assms by (simp add: verify_token_def Let_def wrapping_sum_eq reserved_amounts_sum wrap128_id
        ledger_inv_def inv_costs_def)
qed

lemma verify_lock_ok:
  assumes "ledger_inv l" and "(i, k) \<in> set (locks l)"
  shows "verify_lock l k = Inr ()"
proof -
  have k: "bt_get (locks l) i = Some k"
    using assms by (simp add: ledger_inv_def inv_locks_def bt_mem_get)
  have b: "lk_id k = i" "balance l (LockedToken i) (Outcome t) = locked_of t (Some k)"
      "balance l (LockedCost i) Collateral = locked_cost_of (Some k)" for t
    using assms(1) k by (simp_all add: ledger_inv_def inv_locks_def lock_wf_def)
  show ?thesis
    by (cases "lk_status k") (simp_all add: verify_lock_def Let_def b)
qed

definition locked_step :: "int \<Rightarrow> pair_lock \<Rightarrow> ledger_error + int" where
  "locked_step acc k = rbind (ok_or (sub128 (lk_payout k) (lk_cost k)) Overflow) (\<lambda>value.
     ok_or (add128 acc value) Overflow)"

lemma locked_step_Inr: "locked_step s k = Inr v \<longleftrightarrow> v = s + (lk_payout k - lk_cost k)
    \<and> i128_ok (lk_payout k - lk_cost k) \<and> i128_ok v"
  by (auto simp: locked_step_def rbind_Inr_iff ok_or_Inr_iff checked_simps)

lemma locked_fold_Inl: "try_fold locked_step s ks = Inl e \<Longrightarrow> e = Overflow"
  by (induction ks arbitrary: s) (auto simp: locked_step_def rbind_Inl_iff ok_or_Inl_iff)

lemma locked_fold_Inr:
  "try_fold locked_step s ks = Inr v \<Longrightarrow> v = s + (\<Sum>k\<leftarrow>ks. lk_payout k - lk_cost k)"
proof (induction ks arbitrary: s)
  case (Cons k ks)
  from Cons.prems have "try_fold locked_step (s + (lk_payout k - lk_cost k)) ks = Inr v"
    by (auto simp: rbind_Inr_iff locked_step_Inr)
  from Cons.IH [OF this] show ?case by simp
qed simp

lemma checked_pnl_eq:
  "checked_pnl l =
     rbind (ok_or (neg128 (balance l TradingRevenue Collateral)) Overflow) (\<lambda>value.
     rbind (ok_or (sub128 value (balance l CostOfGoodsSold Collateral)) Overflow) (\<lambda>value.
     rbind (ok_or (sub128 value (balance l FeeExpense Collateral)) Overflow) (\<lambda>realized.
     rbind (try_fold locked_step 0 (filter (\<lambda>k. lk_status k = LockActive) (map snd (locks l)))) (\<lambda>locked.
     Inr (balance l FeeExpense Collateral, realized, locked)))))"
  by (simp add: checked_pnl_def Let_def locked_step_def [abs_def] cong: rbind_cong)

lemma checked_pnl_Inl: "checked_pnl l = Inl e \<Longrightarrow> e = Overflow"
  by (auto simp: checked_pnl_eq rbind_Inl_iff ok_or_Inl_iff dest: locked_fold_Inl)

lemma verify_invariants_Inl:
  assumes "ledger_inv l" and "verify_invariants l = Inl e"
  shows "e = Overflow"
proof (cases "try_fold verify_entry [] (balances l)")
  case (Inl e')
  then show ?thesis
    using verify_entries [of "balances l" "[]" "balances l"] assms
    by (auto simp: verify_invariants_def ledger_inv_def wf_balances_def)
next
  case (Inr tot)
  then have tot: "bt_ok tot" "bt_get_or tot s 0 = 0" for s
    using verify_entries [of "balances l" "[]" "balances l"] assms
    by (auto simp: ledger_inv_def wf_balances_def bt_get_or_def)
  have "find (\<lambda>e. snd e \<noteq> 0) tot = None"
    by (rule find_all_zero [OF tot])
  then have "\<not> list_ex (\<lambda>e. snd e \<noteq> 0) tot"
    by (auto simp: find_None_iff list_ex_iff)
  moreover have "for_each (verify_reservation l) (map snd (reservations l)) = Inr ()"
    by (auto simp: for_each_Inr verify_reservation_ok [OF assms(1)])
  moreover have "for_each (verify_token l) (tracked_tokens l) = Inr ()"
    by (auto simp: for_each_Inr verify_token_ok [OF assms(1)])
  moreover have "for_each (verify_lock l) (map snd (locks l)) = Inr ()"
    by (auto simp: for_each_Inr verify_lock_ok [OF assms(1)])
  ultimately have "checked_pnl l = Inl e"
    using assms(2) Inr by (simp add: verify_invariants_def rbind_Inl_iff)
  then show ?thesis
    by (rule checked_pnl_Inl)
qed

end
