(* ===== verification/Ledger_Theorems.thy ===== *)
theory Ledger_Theorems
  imports Ledger_Invariant
begin

text \<open>
  What the ledger promises: its internal errors cannot happen, its \<open>apply\<close> is a command
  engine, its books balance in every reachable state and agree with the
  reservations, positions and locks, its capital is accounted for, and its views
  never panic.
\<close>

section \<open>Internal errors cannot happen\<close>

text \<open>The errors that would mean that the ledger itself is wrong, as opposed to a request that is
  refused or an amount that does not fit.\<close>

fun internal_error :: "ledger_error \<Rightarrow> bool" where
  "internal_error Conservation = True"
| "internal_error ReservationInvariant = True"
| "internal_error InventoryInvariant = True"
| "internal_error (Unbalanced _) = True"
| "internal_error PostingCount = True"
| "internal_error AccountAsset = True"
| "internal_error _ = False"

lemma post_not_internal:
  assumes "ledger_inv l" and "post ps l = Inl e"
    and "2 \<le> length (filter (\<lambda>p. delta_micros p \<noteq> 0) ps)"
    and "list_all (\<lambda>p. compatible_account_asset (p_account p) (p_asset p)) ps"
    and "\<And>s. asset_net ps s = 0"
  shows "\<not> internal_error e"
  using post_Inl [OF assms(2) _ assms(3) _ assms(5)] assms(1,4)
  by (auto simp: ledger_inv_def list_all_iff)

lemma active_Inl: "active_reservation l i = Inl e \<Longrightarrow> \<not> internal_error e"
  by (auto simp: active_reservation_def result_simps)

lemma consume_Inl: "consume_reservation i q l = Inl e \<Longrightarrow> \<not> internal_error e"
  by (auto simp: consume_reservation_def result_simps)

lemma add_cost_Inl: "add_cost t q c l = Inl e \<Longrightarrow> \<not> internal_error e"
  by (auto simp: add_cost_def Let_def result_simps)

lemma allocate_Inl: "allocate_cost p q = Inl e \<Longrightarrow> \<not> internal_error e"
  by (auto simp: allocate_cost_def result_simps split: if_splits)

lemma reduce_cost_Inl:
  assumes "reduce_cost t q c l = Inl e" and "allocate_cost (get_cost_position l t) q = Inr c"
  shows "\<not> internal_error e"
  using assms(1) allocate_cost_bounds(7) [OF assms(2)]
  by (cases "bt_get (costs l) t")
    (auto simp: reduce_cost_def get_cost_position_def bt_get_or_def result_simps checked_simps split: if_splits)

lemma cost_position_after:
  "post ps l = Inr l' \<Longrightarrow> ledger_inv l \<Longrightarrow> get_cost_position l' t = get_cost_position l t"
  "consume_reservation i q l = Inr l' \<Longrightarrow> get_cost_position l' t = get_cost_position l t"
  "reduce_cost u q c l = Inr l' \<Longrightarrow> t \<noteq> u \<Longrightarrow> get_cost_position l' t = get_cost_position l t"
  by (auto dest!: post_moves simp: consume_Inr dest: reduce_cost_Inr)
    (auto dest!: reduce_cost_Inr simp: get_cost_position_def bt_simps)

lemmas step_Inl = active_Inl consume_Inl add_cost_Inl allocate_Inl

named_theorems internal_simps
declare compatible_account_asset_def [internal_simps] result_simps [internal_simps]
  checked_simps [internal_simps] active_reservation_Inr [internal_simps]

lemma fund_not_internal:
  assumes inv: "ledger_inv l" and "0 < amount" and "fund_collateral amount l = Inl e"
  shows "\<not> internal_error e"
proof -
  have "\<not> internal_error e" if "post [mk_posting CashAvailable Collateral amount,
      mk_posting CapitalContributed Collateral (- amount)] l = Inl e"
    using post_not_internal [OF inv that] assms(2) by (simp add: internal_simps)
  then show ?thesis using assms(3) by (auto simp: fund_collateral_def internal_simps)
qed

lemma reserve_not_internal:
  assumes inv: "ledger_inv l" and "0 < amount" and "reserve i s amount l = Inl e"
  shows "\<not> internal_error e"
proof -
  have "\<not> internal_error e" if "post [mk_posting CashAvailable Collateral (- amount),
      mk_posting (CashReserved i) Collateral amount] l = Inl e"
    using post_not_internal [OF inv that] assms(2) by (simp add: internal_simps)
  moreover have "\<not> internal_error e" if "post [mk_posting TokenAvailable (Outcome t) (- amount),
      mk_posting (TokenReserved i) (Outcome t) amount] l = Inl e" for t
    using post_not_internal [OF inv that] assms(2) by (simp add: internal_simps)
  ultimately show ?thesis using assms(3) by (cases s) (auto simp: reserve_def internal_simps)
qed

lemma release_not_internal:
  assumes inv: "ledger_inv l" and "release i l = Inl e"
  shows "\<not> internal_error e"
proof (cases "active_reservation l i")
  case (Inl e')
  then show ?thesis using assms(2) active_Inl by (simp add: release_def)
next
  case (Inr r)
  then have r: "bt_get (reservations l) i = Some r" "res_status r = ReservationActive"
    by (simp_all add: active_reservation_Inr)
  then have pos: "0 < remaining_micros r"
    using inv_reservation [OF inv r(1)] by (simp add: reservation_wf_def)
  have "\<not> internal_error e" if "post [mk_posting (CashReserved i) Collateral (- remaining_micros r),
          mk_posting CashAvailable Collateral (remaining_micros r)] l = Inl e"
    using post_not_internal [OF inv that] pos by (simp add: internal_simps)
  moreover have "\<not> internal_error e" if "post [mk_posting (TokenReserved i) (Outcome t) (- remaining_micros r),
          mk_posting TokenAvailable (Outcome t) (remaining_micros r)] l = Inl e" for t
    using post_not_internal [OF inv that] pos by (simp add: internal_simps)
  moreover have "reservations l1 = reservations l" if "post ps l = Inr l1" for ps l1
    using post_moves [OF that inv] by auto
  ultimately show ?thesis
    using assms(2) r Inr by (cases "res_asset r") (auto simp: release_def internal_simps)
qed

lemma confirm_buy_not_internal:
  assumes inv: "ledger_inv l" and "0 < quantity" and "0 < consideration" and "0 \<le> fee"
    and "confirm_buy i token quantity consideration fee l = Inl e"
  shows "\<not> internal_error e"
proof -
  have "\<not> internal_error e" if "post [mk_posting (CashReserved i) Collateral (- (consideration + fee)),
          mk_posting (InventoryCost token) Collateral consideration,
          mk_posting FeeExpense Collateral fee,
          mk_posting TokenAvailable (Outcome token) quantity,
          mk_posting External (Outcome token) (- quantity)] l = Inl e"
    using post_not_internal [OF inv that] assms(2-4) by (simp add: internal_simps)
  then show ?thesis using assms(5) step_Inl by (auto simp: confirm_buy_def internal_simps)
qed

lemma confirm_split_not_internal:
  assumes inv: "ledger_inv l" and "0 < quantity" and "confirm_split i up down quantity l = Inl e"
  shows "\<not> internal_error e"
proof -
  have "\<not> internal_error e" if "post [mk_posting (CashReserved i) Collateral (- quantity),
             mk_posting (InventoryCost up) Collateral (tdiv quantity 2),
             mk_posting (InventoryCost down) Collateral (quantity - tdiv quantity 2),
             mk_posting TokenAvailable (Outcome up) quantity,
             mk_posting External (Outcome up) (- quantity),
             mk_posting TokenAvailable (Outcome down) quantity,
             mk_posting External (Outcome down) (- quantity)] l = Inl e"
    using post_not_internal [OF inv that] assms(2) by (simp add: internal_simps)
  then show ?thesis using assms(3) step_Inl by (auto simp: confirm_split_def Let_def internal_simps)
qed

lemma confirm_sell_not_internal:
  assumes inv: "ledger_inv l" and "0 < quantity" and "confirm_sell i quantity gross fee l = Inl e"
  shows "\<not> internal_error e"
proof -
  have p: "\<not> internal_error e" if "post [mk_posting (TokenReserved i) (Outcome t) (- quantity),
              mk_posting External (Outcome t) quantity,
              mk_posting CashAvailable Collateral (gross - fee),
              mk_posting FeeExpense Collateral fee,
              mk_posting TradingRevenue Collateral (- gross),
              mk_posting (InventoryCost t) Collateral (- c),
              mk_posting CostOfGoodsSold Collateral c] l = Inl e" for t c
    using post_not_internal [OF inv that] assms(2) by (simp add: internal_simps)
  have d: "\<not> internal_error e" if "reduce_cost t quantity c l2 = Inl e" and "consume_reservation i quantity l1 = Inr l2"
    and "post ps l = Inr l1" and "allocate_cost (get_cost_position l t) quantity = Inr c" for t c l1 l2 ps
    using that reduce_cost_Inl [OF that(1)] cost_position_after(1,2) inv by metis
  show ?thesis
  proof (cases "active_reservation l i")
    case (Inl e')
    then show ?thesis using assms(3) active_Inl by (auto simp: confirm_sell_def)
  next
    case (Inr r)
    then show ?thesis
      using assms(3) p d step_Inl
      by (cases "res_asset r") (auto simp: confirm_sell_def internal_simps)
  qed
qed

lemma confirm_redemption_not_internal:
  assumes inv: "ledger_inv l" and "0 < quantity" and "confirm_redemption i quantity payout l = Inl e"
  shows "\<not> internal_error e"
proof -
  have p: "\<not> internal_error e" if "post [mk_posting (TokenReserved i) (Outcome t) (- quantity),
              mk_posting External (Outcome t) quantity,
              mk_posting CashAvailable Collateral payout,
              mk_posting TradingRevenue Collateral (- payout),
              mk_posting (InventoryCost t) Collateral (- c),
              mk_posting CostOfGoodsSold Collateral c] l = Inl e" for t c
    using post_not_internal [OF inv that] assms(2) by (simp add: internal_simps)
  have d: "\<not> internal_error e" if "reduce_cost t quantity c l2 = Inl e" and "consume_reservation i quantity l1 = Inr l2"
    and "post ps l = Inr l1" and "allocate_cost (get_cost_position l t) quantity = Inr c" for t c l1 l2 ps
    using that reduce_cost_Inl [OF that(1)] cost_position_after(1,2) inv by metis
  show ?thesis
  proof (cases "active_reservation l i")
    case (Inl e')
    then show ?thesis using assms(3) active_Inl by (auto simp: confirm_redemption_def)
  next
    case (Inr r)
    then show ?thesis
      using assms(3) p d step_Inl
      by (cases "res_asset r") (auto simp: confirm_redemption_def internal_simps)
  qed
qed

lemma lock_pair_not_internal:
  assumes inv: "ledger_inv l" and "lock_pair i up down quantity l = Inl e"
  shows "\<not> internal_error e"
proof -
  have q: "0 < quantity" if "allocate_cost p quantity = Inr c" for p c
    using allocate_cost_bounds(1) [OF that] .
  have p: "\<not> internal_error e" if "post [mk_posting TokenAvailable (Outcome up) (- quantity),
           mk_posting (LockedToken i) (Outcome up) quantity,
           mk_posting TokenAvailable (Outcome down) (- quantity),
           mk_posting (LockedToken i) (Outcome down) quantity,
           mk_posting (InventoryCost up) Collateral (- uc),
           mk_posting (InventoryCost down) Collateral (- dc),
           mk_posting (LockedCost i) Collateral (uc + dc)] l = Inl e" and "0 < quantity" for uc dc
    using post_not_internal [OF inv that(1)] that(2) by (simp add: internal_simps)
  have d: "\<not> internal_error e" if "reduce_cost up quantity c l1 = Inl e" and "post ps l = Inr l1"
    and "allocate_cost (get_cost_position l up) quantity = Inr c" for c l1 ps
    using that reduce_cost_Inl [OF that(1)] cost_position_after(1) inv by metis
  have d': "\<not> internal_error e" if "reduce_cost down quantity c l2 = Inl e" and "reduce_cost up quantity c' l1 = Inr l2"
    and "up \<noteq> down" and "post ps l = Inr l1" and "allocate_cost (get_cost_position l down) quantity = Inr c" for c c' l1 l2 ps
    using that reduce_cost_Inl [OF that(1)] cost_position_after(1,3) inv by metis
  show ?thesis
    using assms(2) p q step_Inl
    by (auto simp: lock_pair_def internal_simps dest: d d')
qed

lemma confirm_merge_not_internal:
  assumes inv: "ledger_inv l" and "confirm_merge i l = Inl e"
  shows "\<not> internal_error e"
proof (cases "bt_get (locks l) i")
  case None
  then show ?thesis using assms(2) by (auto simp: confirm_merge_def)
next
  case (Some k)
  then have pos: "0 < lk_quantity k" "lk_payout k = lk_quantity k"
    using inv by (simp_all add: inv_defs lock_wf_def)
  have "\<not> internal_error e" if "post [mk_posting (LockedToken i) (Outcome (lk_up k)) (- lk_quantity k),
          mk_posting External (Outcome (lk_up k)) (lk_quantity k),
          mk_posting (LockedToken i) (Outcome (lk_down k)) (- lk_quantity k),
          mk_posting External (Outcome (lk_down k)) (lk_quantity k),
          mk_posting CashAvailable Collateral (lk_payout k),
          mk_posting TradingRevenue Collateral (- lk_payout k),
          mk_posting (LockedCost i) Collateral (- lk_cost k),
          mk_posting CostOfGoodsSold Collateral (lk_cost k)] l = Inl e"
    using post_not_internal [OF inv that] pos by (simp add: internal_simps)
  moreover have "locks l1 = locks l" if "post ps l = Inr l1" for ps l1
    using post_moves [OF that inv] by auto
  ultimately show ?thesis
    using assms(2) Some by (auto simp: confirm_merge_def internal_simps)
qed

lemma validate_not_internal: "ledger_validate_command c = Inl e \<Longrightarrow> \<not> internal_error e"
  by (cases c) (auto simp: ledger_validate_command_def positive_def token_validate_def
      validate_confirmation_def result_simps dest!: for_each_Inl split: if_splits)

lemma apply_fresh_not_internal:
  assumes inv: "ledger_inv l" and "ledger_apply_fresh c l = Inl e"
  shows "\<not> internal_error e"
proof (cases "ledger_validate_command c")
  case (Inl e')
  then show ?thesis using assms(2) validate_not_internal by (simp add: ledger_apply_fresh_def)
next
  case (Inr u)
  then have v: "validate_ledger_fields c = Inr ()" and d: "dispatch c l = Inl e"
    using assms(2) by (auto simp: ledger_apply_fresh_def ledger_validate_command_def if_Inr_iff)
  note pos = positive_def rbind_Inr_iff ensure_Inr_iff if_Inr_iff not_less
  show ?thesis
  proof (cases c)
    case (FundCollateral i a t)
    then show ?thesis using v d fund_not_internal [OF inv] by (simp add: pos)
  next
    case (ReserveCollateral i r a t)
    then show ?thesis using v d reserve_not_internal [OF inv] by (simp add: pos)
  next
    case (ReserveToken i r k q t)
    then show ?thesis using v d reserve_not_internal [OF inv, of q r "ReserveOfToken k" e] by (simp add: pos)
  next
    case (ReleaseReservation i r t)
    then show ?thesis using d release_not_internal [OF inv] by simp
  next
    case (ConfirmBuy i r k q n f s t)
    then show ?thesis using v d confirm_buy_not_internal [OF inv, of q n f r k e] by (simp add: pos)
  next
    case (ConfirmSell i r q g f s t)
    then show ?thesis using v d confirm_sell_not_internal [OF inv, of q r g f e] by (simp add: pos)
  next
    case (LockPair i k u w q t)
    then show ?thesis using d lock_pair_not_internal [OF inv] by simp
  next
    case (ConfirmMerge i k s t)
    then show ?thesis using d confirm_merge_not_internal [OF inv] by simp
  next
    case (ConfirmSplit i r u w q s t)
    then show ?thesis using v d confirm_split_not_internal [OF inv, of q r u w e] by (simp add: pos)
  next
    case (ConfirmRedemption i r q p s t)
    then show ?thesis using v d confirm_redemption_not_internal [OF inv, of q r p e] by (simp add: pos)
  qed
qed

lemma ledger_install_not_internal:
  assumes "ledger_inv l" and "ledger_install i digest c l = Inl e"
  shows "\<not> internal_error e"
proof (cases "ledger_apply_fresh c l")
  case (Inl e')
  then show ?thesis using assms apply_fresh_not_internal by (simp add: ledger_install_def)
next
  case (Inr l1)
  have inv: "ledger_inv (l1\<lparr>processed := bt_insert i digest (processed l1), accepted_commands := n\<rparr>)" for n
    using apply_fresh_inv [OF assms(1) Inr] by simp
  show ?thesis
    using assms(2) Inr
    by (auto dest!: verify_invariants_Inl [OF inv] simp: ledger_install_def Let_def rbind_Inl_iff ok_or_Inl_iff)
qed

lemma content_not_internal: "ledger_content to_vec blake3 c = Inl e \<Longrightarrow> \<not> internal_error e"
  using validate_not_internal
  by (auto simp: ledger_content_def ledger_encode_command_def rbind_Inl_iff
      split: sum.split_asm if_splits)

lemma ledger_apply_not_internal:
  assumes "ledger_inv l" and "fst (ledger_apply to_vec blake3 c l) = Inl e"
  shows "\<not> internal_error e"
proof (cases "halted l")
  case None
  show ?thesis
  proof (cases "ledger_content to_vec blake3 c")
    case (Inl e')
    then show ?thesis using assms(2) None content_not_internal by (simp add: ledger_apply_def)
  next
    case (Inr d)
    show ?thesis
    proof (cases "bt_get (processed l) (ledger_command_id c)")
      case Nothing: None
      show ?thesis
        using assms None Inr Nothing ledger_install_not_internal [OF assms(1)]
        by (cases "ledger_install (ledger_command_id c) d c l") (auto simp: ledger_apply_def)
    qed (use assms None Inr in \<open>auto simp: ledger_apply_def split: if_splits\<close>)
  qed
qed (use assms in \<open>auto simp: ledger_apply_def\<close>)


section \<open>The ledger as a command engine\<close>

text \<open>No command touches what the engine itself records.\<close>

definition same_record :: "ledger \<Rightarrow> ledger \<Rightarrow> bool" where
  "same_record l l' \<longleftrightarrow> processed l' = processed l \<and> accepted_commands l' = accepted_commands l
     \<and> halted l' = halted l"

lemma same_record_trans: "same_record l l1 \<Longrightarrow> same_record l1 l2 \<Longrightarrow> same_record l l2"
  by (simp add: same_record_def)

lemma step_frame:
  "post ps l = Inr l' \<Longrightarrow> same_record l l'"
  "consume_reservation i q l = Inr l' \<Longrightarrow> same_record l l'"
  "add_cost t q c l = Inr l' \<Longrightarrow> same_record l l'"
  "reduce_cost t q c l = Inr l' \<Longrightarrow> same_record l l'"
  by (auto simp: post_def Let_def same_record_def consume_reservation_def add_cost_def reduce_cost_def
      result_simps split: option.split_asm if_splits)

lemma token_only_Inr:
  "(case a of ReserveOfCollateral \<Rightarrow> Inl e | ReserveOfToken t \<Rightarrow> f t) = Inr x
     \<longleftrightarrow> (\<exists>t. a = ReserveOfToken t \<and> f t = Inr x)"
  by (cases a) auto

lemma dispatch_frame:
  assumes "dispatch c l = Inr l'"
  shows "same_record l l'"
proof -
  note defs = fund_collateral_def reserve_def release_def confirm_buy_def confirm_sell_def lock_pair_def
    confirm_merge_def confirm_split_def confirm_redemption_def
  show ?thesis
    using assms
    by (cases c)
      (auto simp: defs Let_def active_reservation_Inr rbind_Inr_iff if_Inr_iff ok_or_Inr_iff token_only_Inr
        same_record_def dest!: step_frame)
qed

lemma ledger_install_frame:
  assumes "ledger_install i digest c l = Inr l'"
  shows "processed l' = bt_insert i digest (processed l)" and "accepted_commands l' = accepted_commands l + 1"
    and "halted l' = halted l"
  using assms
  by (auto simp: ledger_apply_fresh_def rbind_Inr_iff same_record_def elim!: ledger_install_Inr dest!: dispatch_frame)

interpretation ledger_engine: command_engine "ledger_apply to_vec blake3" ledger_command_id
  "ledger_content to_vec blake3" "\<lambda>l. bt_get (processed l)" accepted_commands "\<lambda>l. halted l \<noteq> None"
  for to_vec blake3
  by unfold_locales
    (auto simp: ledger_apply_def ledger_install_frame bt_get_insert fun_eq_iff
      split: option.split_asm sum.split_asm if_splits)

section \<open>Reachable ledgers\<close>

abbreviation ledger_after ::
  "(ledger_command wire \<Rightarrow> string + string) \<Rightarrow> (string \<Rightarrow> bytes32) \<Rightarrow> ledger_command list \<Rightarrow> ledger" where
  "ledger_after to_vec blake3 cs \<equiv> run_commands (ledger_apply to_vec blake3) cs ledger_default"

lemma reachable_inv: "ledger_inv (ledger_after to_vec blake3 cs)"
  by (rule run_commands_invariant) (simp_all add: ledger_inv_default ledger_apply_inv)

lemma verify_default: "verify_invariants ledger_default = Inr ()"
  by (simp add: verify_invariants_def ledger_default_def tracked_tokens_def checked_pnl_def balance_def
      bt_get_or_def neg128_def sub128_def i128_new_def i128_ok_def)

lemma verify_parts [simp]:
  "verify_reservation (l\<lparr>halted := h\<rparr>) = verify_reservation l"
  "verify_token (l\<lparr>halted := h\<rparr>) = verify_token l"
  "verify_lock (l\<lparr>halted := h\<rparr>) = verify_lock l"
  "tracked_tokens (l\<lparr>halted := h\<rparr>) = tracked_tokens l"
  "checked_pnl (l\<lparr>halted := h\<rparr>) = checked_pnl l"
  by (auto simp add: verify_reservation_def verify_token_def verify_lock_def fun_eq_iff
      tracked_tokens_def checked_pnl_eq reserved_amounts_def get_cost_position_def Let_def
      cong: if_cong reservation_asset.case_cong rbind_cong)

lemma verify_record [simp]: "verify_invariants (l\<lparr>halted := h\<rparr>) = verify_invariants l"
  by (simp add: verify_invariants_def cong: if_cong rbind_cong)

lemma ledger_install_verified: "ledger_install i digest c l = Inr l' \<Longrightarrow> verify_invariants l' = Inr ()"
  by (erule ledger_install_Inr)

lemma reachable_verified: "verify_invariants (ledger_after to_vec blake3 cs) = Inr ()"
proof (rule run_commands_invariant [where P = "\<lambda>l. verify_invariants l = Inr ()"])
  fix c l assume v: "verify_invariants l = Inr ()"
  obtain r l' where step: "ledger_apply to_vec blake3 c l = (r, l')" by fastforce
  then show "verify_invariants (snd (ledger_apply to_vec blake3 c l)) = Inr ()"
    using v by (cases rule: ledger_apply_cases) (simp_all add: step ledger_install_verified)
qed (rule verify_default)

section \<open>Sums over a map\<close>

text \<open>A sum over the entries is a sum over any finite set that holds the keys.\<close>

lemma bt_sum_set:
  assumes "bt_ok m" and "finite S" and "fst ` set m \<subseteq> S"
  shows "(\<Sum>e\<leftarrow>m. f (fst e) (snd e)) = (\<Sum>k\<in>S. case bt_get m k of None \<Rightarrow> 0 | Some v \<Rightarrow> (f k v :: int))"
proof -
  let ?g = "\<lambda>k. case bt_get m k of None \<Rightarrow> 0 | Some v \<Rightarrow> f k v"
  have d: "distinct (map fst m)" by (rule bt_ok_distinct [OF assms(1)])
  have "f (fst e) (snd e) = ?g (fst e)" if "e \<in> set m" for e
    using that bt_mem_get [OF assms(1), of "fst e" "snd e"] by simp
  then have "(\<Sum>e\<leftarrow>m. f (fst e) (snd e)) = (\<Sum>e\<leftarrow>m. ?g (fst e))"
    by (metis (mono_tags, lifting) map_eq_conv)
  also have "\<dots> = (\<Sum>k\<leftarrow>map fst m. ?g k)"
    by (simp add: comp_def)
  also have "\<dots> = sum ?g (fst ` set m)"
    using d by (simp add: sum_list_distinct_conv_sum_set del: map_map)
  also have "\<dots> = sum ?g S"
    using assms(2,3) by (intro sum.mono_neutral_left) (auto simp: bt_get_None_keys [symmetric] split: option.splits)
  finally show ?thesis .
qed

lemma balance_sum:
  assumes "bt_ok (balances l)" and "inj acc" and "finite (UNIV :: 'i set)"
  shows "(\<Sum>e\<leftarrow>balances l. if fst e \<in> range (\<lambda>i :: 'i. (acc i, s)) then snd e else 0)
       = (\<Sum>i\<in>UNIV. balance l (acc i) s)"
proof -
  let ?R = "range (\<lambda>i. (acc i, s))" and ?K = "fst ` set (balances l)"
  have "(\<Sum>e\<leftarrow>balances l. if fst e \<in> ?R then snd e else 0)
      = (\<Sum>k\<in>?K \<union> ?R. case bt_get (balances l) k of None \<Rightarrow> 0 | Some v \<Rightarrow> if k \<in> ?R then v else 0)"
    using assms(1,3) by (intro bt_sum_set) auto
  also have "\<dots> = (\<Sum>k\<in>?R. bt_get_or (balances l) k 0)"
    using assms(3) by (intro sum.mono_neutral_cong_right) (auto simp: bt_get_or_def split: option.splits)
  also have "\<dots> = (\<Sum>i\<in>UNIV. balance l (acc i) s)"
    using assms(2) by (subst sum.reindex) (auto simp: inj_def balance_def)
  finally show ?thesis .
qed

lemma cash_reserved_balances:
  assumes "ledger_inv l"
  shows "(\<Sum>e\<leftarrow>balances l. if fst e \<in> range (\<lambda>i. (CashReserved i, Collateral)) then snd e else 0)
       = cash_reserved_total (reservations l)"
proof -
  have ok: "bt_ok (balances l)" "bt_ok (reservations l)"
    using assms by (simp_all add: ledger_inv_def wf_balances_def good_entries_def inv_reservations_def)
  have "cash_reserved_total (reservations l) = (\<Sum>i\<in>UNIV. cash_of (bt_get (reservations l) i))"
    unfolding cash_reserved_total_def
    by (subst bt_sum_set [OF ok(2) finite]) (auto intro!: sum.cong split: option.splits)
  also have "\<dots> = (\<Sum>i\<in>UNIV. balance l (CashReserved i) Collateral)"
    using assms by (simp add: ledger_inv_def inv_reservations_def)
  finally show ?thesis
    by (simp add: balance_sum [OF ok(1)] inj_def)
qed

section \<open>What the run-time check bounds\<close>

lemma verify_prefix:
  assumes "good_entries (xs @ ys)" and "try_fold verify_entry [] (xs @ ys) = Inr tot"
  shows "i128_ok (asset_total xs s)"
proof -
  obtain t where t: "try_fold verify_entry [] xs = Inr t"
    using assms(2) by (auto simp: try_fold_append rbind_Inr_iff)
  have ok: "i128_ok (bt_get_or t s 0)"
    by (rule try_fold_invariant [OF t, where P = "\<lambda>t. i128_ok (bt_get_or t s 0)"])
      (auto simp: verify_entry_def Let_def result_simps checked_simps bt_simps bt_get_or_def i128_ok_def
        split: if_splits)
  have g: "good_entries xs"
    proof -
    have ok: "bt_ok xs" using assms(1) by (simp add: good_entries_def bt_ok_def sorted_wrt_append)
    have "bt_get (xs @ ys) k = Some v" if "bt_get xs k = Some v" for k v
      using that by (simp add: bt_get_def)
    with assms(1) ok show ?thesis by (auto simp: good_entries_def)
  qed
  show ?thesis
    using verify_entries [OF g bt_ok_Nil order_refl] t ok by (auto simp: bt_get_or_def)
qed

lemma sorted_prefix:
  fixes m :: "(account \<times> asset, 'v) btree"
  assumes "bt_ok m"
  shows "\<exists>ys. m = filter (\<lambda>e. fst (fst e) \<le> a) m @ ys"
  using assms
proof (induction m)
  case (Cons e m)
  show ?case
  proof (cases "fst (fst e) \<le> a")
    case True
    then show ?thesis using Cons by (auto simp: bt_ok_def)
  next
    case False
    have "\<not> fst (fst x) \<le> a" if "x \<in> set m" for x
    proof -
      have "fst e < fst x" using Cons.prems that by (auto simp: bt_ok_def)
      then have "fst (fst e) \<le> fst (fst x)" by (auto simp: less_prod_def)
      with False show ?thesis by auto
    qed
    then have "filter (\<lambda>e. fst (fst e) \<le> a) m = []" by (simp add: filter_empty_conv)
    with False show ?thesis by auto
  qed
qed simp

lemma prefix_bound:
  assumes "ledger_inv l" and "verify_invariants l = Inr ()"
  shows "i128_ok (asset_total (filter (\<lambda>e. fst (fst e) \<le> a) (balances l)) s)"
proof -
  have g: "good_entries (balances l)" using assms(1) by (simp add: ledger_inv_def wf_balances_def)
  then obtain ys where ys: "balances l = filter (\<lambda>e. fst (fst e) \<le> a) (balances l) @ ys"
    using sorted_prefix good_entries_def by blast
  obtain tot where "try_fold verify_entry [] (balances l) = Inr tot"
    using assms(2) by (auto simp: verify_invariants_def rbind_Inr_iff)
  then show ?thesis
    using verify_prefix [of "filter (\<lambda>e. fst (fst e) \<le> a) (balances l)" ys] g ys by simp
qed

text \<open>What the selected accounts hold of a token, and the same as entries of a map.\<close>

definition selected :: "(account \<Rightarrow> bool) \<Rightarrow> ((account \<times> asset) \<times> int) list \<Rightarrow> token_key \<Rightarrow> int" where
  "selected incl es t = (\<Sum>e\<leftarrow>es. if incl (fst (fst e)) \<and> snd (fst e) = Outcome t then snd e else 0)"

lemma selected_simps [simp]:
  "selected incl [] t = 0"
  "selected incl (e # es) t = (if incl (fst (fst e)) \<and> snd (fst e) = Outcome t then snd e else 0) + selected incl es t"
  by (simp_all add: selected_def)

lemma selected_nonneg:
  "(\<And>e. e \<in> set es \<Longrightarrow> incl (fst (fst e)) \<Longrightarrow> 0 \<le> snd e) \<Longrightarrow> 0 \<le> selected incl es t"
  by (induction es) auto

lemma category_fold:
  assumes "\<And>e. e \<in> set es \<Longrightarrow> incl (fst (fst e)) \<Longrightarrow> 0 \<le> snd e"
    and "\<And>t. 0 \<le> bt_get_or tot t 0 \<and> i128_ok (bt_get_or tot t 0 + selected incl es t)"
    and "bt_ok tot"
  shows "\<exists>tot'. try_fold (add_token_balance incl) tot es = Inr tot' \<and> bt_ok tot'
    \<and> (\<forall>t. bt_get_or tot' t 0 = bt_get_or tot t 0 + selected incl es t)"
  using assms
proof (induction es arbitrary: tot)
  case (Cons e es)
  obtain a s v where e: "e = ((a, s), v)" by (metis prod.collapse)
  show ?case
  proof (cases "\<exists>t. s = Outcome t \<and> incl a")
    case False
    then have "add_token_balance incl tot e = Inr tot" by (cases s) (auto simp: e)
    then show ?thesis using Cons.IH [of tot] Cons.prems False by (auto simp: e)
  next
    case True
    then obtain t where t: "s = Outcome t" "incl a" by blast
    have v: "0 \<le> v" using Cons.prems(1) [of e] t by (simp add: e)
    have "0 \<le> selected incl es x" for x
      using Cons.prems(1) by (intro selected_nonneg) auto
    then have "i128_ok (bt_get_or tot t 0 + v)"
      using Cons.prems(2) [of t] t v unfolding i128_ok_def by (simp add: e) (smt (verit))
    then have "add_token_balance incl tot e = Inr (bt_insert t (bt_get_or tot t 0 + v) tot)"
      using t by (simp add: e add128_def i128_new_def)
    moreover have sel: "bt_get_or (bt_insert t (bt_get_or tot t 0 + v) tot) x 0 + selected incl es x
        = bt_get_or tot x 0 + selected incl (e # es) x" for x
      using t by (simp add: e bt_simps)
    have "0 \<le> bt_get_or (bt_insert t (bt_get_or tot t 0 + v) tot) x 0
        \<and> i128_ok (bt_get_or (bt_insert t (bt_get_or tot t 0 + v) tot) x 0 + selected incl es x)" for x
      unfolding sel using Cons.prems(2) [of x] Cons.prems(2) [of t] v by (simp add: bt_simps)
    from Cons.IH [OF _ this] have "\<exists>tot'. try_fold (add_token_balance incl) (bt_insert t (bt_get_or tot t 0 + v) tot) es = Inr tot'
        \<and> bt_ok tot' \<and> (\<forall>x. bt_get_or tot' x 0 = bt_get_or tot x 0 + selected incl (e # es) x)"
      unfolding sel using Cons.prems(1,3) bt_ok_insert by (metis list.set_intros(2))
    ultimately show ?thesis by simp
  qed
qed auto

definition ctb_amount :: "confirmed_token_balance list \<Rightarrow> token_key \<Rightarrow> int" where
  "ctb_amount vs t = bt_get_or (map (\<lambda>v. (ctb_token v, ctb_balance v)) vs) t 0"

lemma inv_good_entry:
  assumes "ledger_inv l" and "e \<in> set (balances l)"
  shows "good_entry (fst e) (snd e)"
proof -
  have ok: "bt_ok (balances l)" and g: "\<And>k v. bt_get (balances l) k = Some v \<Longrightarrow> good_entry k v"
    using assms(1) unfolding ledger_inv_def wf_balances_def good_entries_def by blast+
  have "bt_get (balances l) (fst e) = Some (snd e)"
    using bt_mem_get [OF ok, of "fst e" "snd e"] assms(2) by simp
  then show ?thesis by (rule g)
qed

lemma category_exact:
  assumes inv: "ledger_inv l" and ver: "verify_invariants l = Inr ()" and incl: "\<And>a. incl a \<Longrightarrow> holds_tokens a"
  shows "\<exists>vs. token_category incl l = Some vs \<and> (\<forall>t. ctb_amount vs t = selected incl (balances l) t)"
proof -
  have g: "good_entry (fst e) (snd e)" if "e \<in> set (balances l)" for e
    using inv_good_entry [OF inv that] .
  have nn: "0 \<le> snd e" if "e \<in> set (balances l)" "incl (fst (fst e))" for e
    using g [OF that(1)] incl [OF that(2)] by (cases "fst (fst e)") (auto simp: good_entry_def)
  have b: "selected incl es t \<le> asset_total (filter (\<lambda>e. fst (fst e) \<le> FeeExpense) es) (Outcome t)"
    if "set es \<subseteq> set (balances l)" for es t
    using that
  proof (induction es)
    case (Cons e es)
    have "good_entry (fst e) (snd e)" using g Cons.prems by auto
    then have "snd (fst e) = Outcome t \<Longrightarrow> fst (fst e) \<le> FeeExpense \<Longrightarrow> 0 \<le> snd e"
      by (cases "fst (fst e)") (auto simp: good_entry_def less_eq_account_def)
    moreover have "incl (fst (fst e)) \<Longrightarrow> fst (fst e) \<le> FeeExpense"
      using incl [of "fst (fst e)"] by (cases "fst (fst e)") (auto simp: less_eq_account_def)
    ultimately show ?case using Cons by (auto simp: asset_total_def)
  qed (simp add: asset_total_def)
  have "i128_ok (selected incl (balances l) t)" for t
    using b [OF order_refl, of t] prefix_bound [OF inv ver, of FeeExpense "Outcome t"]
      selected_nonneg [of "balances l" incl t] nn unfolding i128_ok_def by fastforce
  then obtain tot where tot: "try_fold (add_token_balance incl) [] (balances l) = Inr tot" "bt_ok tot"
      "\<And>t. bt_get_or tot t 0 = selected incl (balances l) t"
    using category_fold [of "balances l" incl "[]"] nn by (auto simp: bt_get_or_def)
  have "bt_get_or (bt_retain (\<lambda>b. b \<noteq> 0) tot) t 0 = bt_get_or tot t 0" for t
    using tot(2) by (auto simp: bt_get_or_def bt_get_retain split: option.splits)
  then show ?thesis
    using tot by (auto simp: token_category_def ctb_amount_def comp_def bt_retain_def case_prod_beta)
qed

lemma selected_available:
  assumes "ledger_inv l"
  shows "selected (\<lambda>a. a = TokenAvailable) (balances l) t = balance l TokenAvailable (Outcome t)"
proof -
  have "bt_ok (balances l)" using assms by (simp add: ledger_inv_def wf_balances_def good_entries_def)
  from balance_sum [OF this, of "\<lambda>_ :: unit. TokenAvailable" "Outcome t"]
  have "(\<Sum>e\<leftarrow>balances l. if fst e = (TokenAvailable, Outcome t) then snd e else 0) = balance l TokenAvailable (Outcome t)"
    by (simp add: inj_def)
  moreover have "(\<lambda>e. if fst e = (TokenAvailable, Outcome t) then snd e else 0)
      = (\<lambda>e. if fst (fst e) = TokenAvailable \<and> snd (fst e) = Outcome t then snd e else (0 :: int))"
    by (auto simp: fun_eq_iff)
  ultimately show ?thesis by (simp add: selected_def)
qed

lemma selected_reserved:
  assumes "ledger_inv l"
  shows "selected is_token_reserved (balances l) t = token_reserved (reservations l) t"
proof -
  have ok: "bt_ok (balances l)" "bt_ok (reservations l)"
    using assms by (simp_all add: ledger_inv_def wf_balances_def good_entries_def inv_reservations_def)
  have "(is_token_reserved (fst k) \<and> snd k = Outcome t) = (k \<in> range (\<lambda>i. (TokenReserved i, Outcome t)))" for k
    by (cases k; cases "fst k") auto
  then have "selected is_token_reserved (balances l) t = (\<Sum>i\<in>UNIV. balance l (TokenReserved i) (Outcome t))"
    using balance_sum [OF ok(1), of "\<lambda>i. TokenReserved i" "Outcome t"] by (simp add: selected_def inj_def)
  also have "\<dots> = (\<Sum>i\<in>UNIV. token_of t (bt_get (reservations l) i))"
    using assms by (simp add: ledger_inv_def inv_reservations_def)
  also have "\<dots> = token_reserved (reservations l) t"
    unfolding token_reserved_def
    by (subst bt_sum_set [OF ok(2) finite]) (auto intro!: sum.cong split: option.splits)
  finally show ?thesis .
qed

lemma selected_locked:
  assumes "ledger_inv l"
  shows "selected is_locked_token (balances l) t = locked_total (locks l) t"
proof -
  have ok: "bt_ok (balances l)" "bt_ok (locks l)"
    using assms by (simp_all add: ledger_inv_def wf_balances_def good_entries_def inv_locks_def)
  have "(is_locked_token (fst k) \<and> snd k = Outcome t) = (k \<in> range (\<lambda>i. (LockedToken i, Outcome t)))" for k
    by (cases k; cases "fst k") auto
  then have "selected is_locked_token (balances l) t = (\<Sum>i\<in>UNIV. balance l (LockedToken i) (Outcome t))"
    using balance_sum [OF ok(1), of "\<lambda>i. LockedToken i" "Outcome t"] by (simp add: selected_def inj_def)
  also have "\<dots> = (\<Sum>i\<in>UNIV. locked_of t (bt_get (locks l) i))"
    using assms by (simp add: ledger_inv_def inv_locks_def)
  also have "\<dots> = locked_total (locks l) t"
    unfolding locked_total_def
    by (subst bt_sum_set [OF ok(2) finite]) (auto intro!: sum.cong split: option.splits)
  finally show ?thesis .
qed

lemma selected_held:
  "selected holds_tokens es t = selected (\<lambda>a. a = TokenAvailable) es t + selected is_token_reserved es t
     + selected is_locked_token es t"
proof (induction es)
  case (Cons e es)
  then show ?case by (cases "fst (fst e)") auto
qed simp

lemma cash_bound:
  assumes inv: "ledger_inv l" and ver: "verify_invariants l = Inr ()"
  shows "i128_ok (balance l CashAvailable Collateral + cash_reserved_total (reservations l))"
    and "0 \<le> cash_reserved_total (reservations l)"
proof -
  have ok: "bt_ok (balances l)" using inv by (simp add: ledger_inv_def wf_balances_def good_entries_def)
  have g: "good_entry (fst e) (snd e)" if "e \<in> set (balances l)" for e
    using inv_good_entry [OF inv that] .
  let ?A = "\<lambda>e. if fst e \<in> range (\<lambda>_ :: unit. (CashAvailable, Collateral)) then snd e else (0 :: int)"
  let ?R = "\<lambda>e. if fst e \<in> range (\<lambda>i. (CashReserved i, Collateral)) then snd e else (0 :: int)"
  have "(\<Sum>e\<leftarrow>es. ?A e) + (\<Sum>e\<leftarrow>es. ?R e) = asset_total (filter (\<lambda>e. fst (fst e) \<le> TokenAvailable) es) Collateral
      \<and> 0 \<le> (\<Sum>e\<leftarrow>es. ?R e)" if "set es \<subseteq> set (balances l)" for es
    using that
  proof (induction es)
    case (Cons e es)
    have "good_entry (fst e) (snd e)" using g Cons.prems by auto
    moreover obtain a s v where "e = ((a, s), v)" by (metis prod.collapse)
    ultimately show ?case
      using Cons by (cases a) (auto simp: asset_total_def good_entry_def compatible_account_asset_def less_eq_account_def)
  qed (simp add: asset_total_def)
  from this [OF order_refl]
  show "i128_ok (balance l CashAvailable Collateral + cash_reserved_total (reservations l))"
    and "0 \<le> cash_reserved_total (reservations l)"
    using cash_reserved_balances [OF inv] prefix_bound [OF inv ver, of TokenAvailable Collateral]
      balance_sum [OF ok, of "\<lambda>_ :: unit. CashAvailable" Collateral] by (auto simp: inj_def)
qed

lemma ledger_cash_reserved_eq:
  assumes "ledger_inv l" and "verify_invariants l = Inr ()"
  shows "ledger_cash_reserved l = cash_reserved_total (reservations l)"
proof -
  have "sum_list (map remaining_micros (filter (\<lambda>r. res_status r = ReservationActive
      \<and> res_asset r = ReserveOfCollateral) (map snd m))) = cash_reserved_total m" for m
    by (induction m) (auto simp: cash_reserved_total_def)
  moreover have "i128_ok (cash_reserved_total (reservations l))"
    using cash_bound [OF assms] balance_nonneg [of l CashAvailable Collateral] assms(1)
    unfolding i128_ok_def ledger_inv_def by auto
  moreover have "wrap128 (wrapping_sum xs) = wrapping_sum xs" for xs
    by (cases xs rule: rev_cases) (simp_all add: wrapping_sum_def wrap128_add_left [of _ 0, simplified] wrap128_id i128_ok_def)
  ultimately show ?thesis
    using wrapping_sum_eq [of 0] by (simp add: ledger_cash_reserved_def wrap128_id)
qed

section \<open>Reserving and releasing\<close>

lemma wf_balances_ext:
  assumes "wf_balances l" and "wf_balances l'" and "\<And>a s. balance l a s = balance l' a s"
  shows "balances l = balances l'"
proof (rule bt_ext)
  show "bt_ok (balances l)" "bt_ok (balances l')"
    using assms(1,2) by (simp_all add: wf_balances_def good_entries_def)
  have nz: "bt_get (balances l) k \<noteq> Some 0" "bt_get (balances l') k \<noteq> Some 0" for k
    using assms(1,2) unfolding wf_balances_def by blast+
  show "bt_get (balances l) k = bt_get (balances l') k" for k
    using assms(3) [of "fst k" "snd k"] nz [of k] by (auto simp: balance_def bt_get_or_def split: option.splits)
qed

text \<open>A transfer of a positive amount between two accounts of one asset succeeds when the amount
  fits and the source can give it.\<close>

lemma transfer_succeeds:
  assumes "bt_ok (balances l)" and "0 < v" and "i128_ok v" and "i128_ok (- v)" and "a \<noteq> b"
    and "compatible_account_asset a s" and "compatible_account_asset b s"
    and "v \<le> balance l a s" and "i128_ok (balance l a s)"
    and "0 \<le> balance l b s" and "i128_ok (balance l b s + v)"
  shows "\<exists>l'. post [mk_posting a s (- v), mk_posting b s v] l = Inr l'"
proof -
  have "i128_ok (balance l a s - v)"
    using assms(2,3,8,9) unfolding i128_ok_def by linarith
  moreover have "\<not> balance l a s - v < 0" "\<not> balance l b s + v < 0"
    using assms(2,8,10) by linarith+
  moreover have "i128_ok (- v + v)" by (simp add: i128_ok_def)
  ultimately show ?thesis
    using assms(2,3,4,5,6,7,11)
    by (simp add: post_def Let_def validate_account_asset_eq mk_posting_def balance_def add128_def i128_new_def
        bt_get_or_def [of "[]"] bt_get_or_def [of "[(s, - v)]"] bt_simps)
qed

section \<open>A concrete history\<close>

text \<open>Ten units of collateral, two token purchases of one market, and a lock on the pair; the
  serialiser and the hash are constants, since every command id is used once.\<close>

definition demo_up :: token_key where "demo_up = TokenKey ''c'' ''u''"
definition demo_down :: token_key where "demo_down = TokenKey ''c'' ''d''"

definition demo_ledger :: "ledger_command list \<Rightarrow> ledger" where
  "demo_ledger cs = ledger_after (\<lambda>_. Inr ''w'') (\<lambda>_. 7) cs"

definition demo_buys :: "ledger_command list" where
  "demo_buys = [FundCollateral 1 10 0, ReserveCollateral 2 21 6 0,
     ConfirmBuy 3 21 demo_up 3 1 1 ''tx'' 0, ConfirmBuy 4 21 demo_down 3 2 0 ''tx'' 0]"

definition demo_lock :: "ledger_command list" where
  "demo_lock = demo_buys @ [LockPair 5 31 demo_up demo_down 2 0]"

section \<open>Properties\<close>

text \<open>Reserving an amount of cash or of a token and releasing the reservation at once always
  succeeds, for every ledger that satisfies the invariant, and gives back exactly the balances,
  cost positions and locks the ledger had before.\<close>
theorem reserve_release_round_trip:
  assumes inv: "ledger_inv l" and pos: "0 < amount" and "reserve i s amount l = Inr l1"
  shows "\<exists>l2. release i l1 = Inr l2 \<and> balances l2 = balances l \<and> costs l2 = costs l \<and> locks l2 = locks l"
proof -
  let ?held = "case s of ReserveOfCollateral \<Rightarrow> (CashReserved i, Collateral)
    | ReserveOfToken token \<Rightarrow> (TokenReserved i, Outcome token)"
  let ?free = "case s of ReserveOfCollateral \<Rightarrow> CashAvailable | ReserveOfToken token \<Rightarrow> TokenAvailable"
  let ?ps = "[mk_posting ?free (snd ?held) (- amount), mk_posting (fst ?held) (snd ?held) amount]"
  have inv1: "ledger_inv l1" by (rule reserve_inv [OF assms])
  obtain l0 where new: "bt_get (reservations l) i = None" and p: "post ?ps l = Inr l0"
      and l1: "l1 = l0\<lparr>reservations := bt_insert i \<lparr>res_id = i, res_asset = s, original_micros = amount,
        remaining_micros = amount, res_status = ReservationActive\<rparr> (reservations l0)\<rparr>"
    using assms(3) by (cases s) (auto simp: reserve_def bt_contains_def result_simps)
  obtain m where m: "l0 = l\<lparr>balances := m\<rparr>"
      "\<And>a s. balance (l\<lparr>balances := m\<rparr>) a s = balance l a s + net ?ps (a, s)"
    using post_moves [OF p inv] by blast
  have b1: "balance l1 a x = balance l a x + net ?ps (a, x)" for a x
    by (simp add: l1 m)
  have old: "balance l (fst ?held) (snd ?held) = 0"
    using inv new by (cases s) (simp_all add: ledger_inv_def inv_reservations_def)
  have wf: "wf_balances l" "wf_balances l1" using inv inv1 by (simp_all add: ledger_inv_def)
  have ok: "i128_ok amount" "i128_ok (balance l ?free (snd ?held))" "0 \<le> balance l1 ?free (snd ?held)"
    using balance_ok [OF wf(2), of "fst ?held" "snd ?held"] b1 [of "fst ?held" "snd ?held"] old
      balance_ok [OF wf(1), of ?free "snd ?held"] balance_nonneg [OF wf(2), of ?free "snd ?held"]
    by (cases s; simp)+
  have "\<exists>l'. post [mk_posting (fst ?held) (snd ?held) (- amount), mk_posting ?free (snd ?held) amount] l1 = Inr l'"
    using ok pos old b1 wf(2) balance_ok [OF wf(2), of "fst ?held" "snd ?held"]
    by (intro transfer_succeeds)
      (cases s; simp add: wf_balances_def good_entries_def compatible_account_asset_def; simp add: i128_ok_def)+
  then obtain l' where p': "post [mk_posting (fst ?held) (snd ?held) (- amount), mk_posting ?free (snd ?held) amount] l1 = Inr l'"
    by blast
  obtain m' where m': "l' = l1\<lparr>balances := m'\<rparr>" "wf_balances (l1\<lparr>balances := m'\<rparr>)"
      "\<And>a s. balance (l1\<lparr>balances := m'\<rparr>) a s = balance l1 a s
        + net [mk_posting (fst ?held) (snd ?held) (- amount), mk_posting ?free (snd ?held) amount] (a, s)"
    using post_moves [OF p' inv1] by blast
  have "balance l' a x = balance l a x" for a x
    by (cases s) (auto simp: m'(1,3) b1)
  then have bal: "balances l' = balances l"
    using m'(1,2) wf(1) by (intro wf_balances_ext) auto
  have act: "active_reservation l1 i = Inr \<lparr>res_id = i, res_asset = s, original_micros = amount,
        remaining_micros = amount, res_status = ReservationActive\<rparr>"
    by (simp add: active_reservation_Inr l1 bt_simps)
  have get1: "bt_get (reservations l1) i = Some \<lparr>res_id = i, res_asset = s, original_micros = amount,
        remaining_micros = amount, res_status = ReservationActive\<rparr>"
    by (simp add: l1 bt_simps)
  have "release i l1 = Inr (l'\<lparr>reservations := bt_insert i \<lparr>res_id = i, res_asset = s, original_micros = amount,
        remaining_micros = 0, res_status = ReservationReleased\<rparr> (reservations l')\<rparr>)"
    using p' by (cases s) (simp_all add: release_def act get1 m'(1))
  then show ?thesis
    using bal by (simp add: m'(1) l1 m(1))
qed


lemma demo_inv: "ledger_inv (demo_ledger cs)"
  by (simp add: demo_ledger_def reachable_inv)

lemma fund_state: "demo_ledger [FundCollateral 1 10 0] =
  \<lparr>balances = [((CashAvailable, Collateral), 10), ((CapitalContributed, Collateral), -10)],
   reservations = [], costs = [], locks = [], processed = [(1, 7)], accepted_commands = 1, halted = None\<rparr>"
  by code_simp

theorem reserve_release_round_trip_witness:
  "\<exists>l2. release 2 (demo_ledger [FundCollateral 1 10 0, ReserveCollateral 2 2 4 0]) = Inr l2
     \<and> balances l2 = balances (demo_ledger [FundCollateral 1 10 0])"
proof -
  let ?l = "demo_ledger [FundCollateral 1 10 0]"
  have "(case reserve 2 ReserveOfCollateral 4 ?l of Inl _ \<Rightarrow> False | Inr l1 \<Rightarrow>
      (case release 2 l1 of Inl _ \<Rightarrow> False | Inr r1 \<Rightarrow>
      (case release 2 (demo_ledger [FundCollateral 1 10 0, ReserveCollateral 2 2 4 0]) of Inl _ \<Rightarrow> False
       | Inr r2 \<Rightarrow> balances r1 = balances r2)))"
    unfolding fund_state by code_simp
  then obtain l1 r1 r2 where "reserve 2 ReserveOfCollateral 4 ?l = Inr l1" "release 2 l1 = Inr r1"
      "release 2 (demo_ledger [FundCollateral 1 10 0, ReserveCollateral 2 2 4 0]) = Inr r2" "balances r1 = balances r2"
    by (auto split: sum.split_asm)
  then show ?thesis
    using reserve_release_round_trip [OF demo_inv [of "[FundCollateral 1 10 0]"] _ \<open>reserve 2 ReserveOfCollateral 4 ?l = Inr l1\<close>]
    by auto
qed

text \<open>C1: In every ledger that commands can reach, each asset's balances over all accounts sum to
  zero, the control accounts equal what the active reservations and locks hold, each position's
  quantity is the available plus the reserved amount of its token and its cost the balance of its
  inventory account, and accounts that must not be negative are not. No command sequence, however
  ordered or malformed, breaks it.\<close>
theorem ledger_books_hold:
  "wf_balances (ledger_after to_vec blake3 cs) \<and> inv_reservations (ledger_after to_vec blake3 cs)
     \<and> inv_costs (ledger_after to_vec blake3 cs) \<and> inv_locks (ledger_after to_vec blake3 cs)"
  using reachable_inv [of to_vec blake3 cs] by (simp add: ledger_inv_def)


text \<open>The errors that mean a broken ledger (an unbalanced or degenerate transaction, an account
  of the wrong asset, and every mismatch the final check looks for) are never returned, whatever
  command is applied to whatever reachable ledger: the run-time check can fail for an overflow only.\<close>
theorem ledger_internal_errors_unreachable:
  assumes "fst (ledger_apply to_vec blake3 c (ledger_after to_vec blake3 cs)) = Inl e"
  shows "\<not> internal_error e \<and> verify_invariants (ledger_after to_vec blake3 cs) = Inr ()"
  using ledger_apply_not_internal [OF reachable_inv assms] reachable_verified by simp

theorem ledger_internal_errors_unreachable_witness:
  "fst (ledger_apply (\<lambda>_. Inr ''w'') (\<lambda>_. 7) (ReserveCollateral 2 21 11 0) (demo_ledger [FundCollateral 1 10 0]))
     = Inl NegativeBalance \<and> \<not> internal_error NegativeBalance"
proof -
  have "fst (ledger_apply (\<lambda>_. Inr ''w'') (\<lambda>_. 7) (ReserveCollateral 2 21 11 0)
      (demo_ledger [FundCollateral 1 10 0])) = Inl NegativeBalance"
    unfolding fund_state by code_simp
  then show ?thesis
    using ledger_internal_errors_unreachable [of "\<lambda>_. Inr ''w''" "\<lambda>_. 7" _ "[FundCollateral 1 10 0]"]
    by (simp add: demo_ledger_def)
qed

text \<open>A command that is refused changes nothing, except that reusing an id for other content
  halts the ledger; and a halted ledger never changes again.\<close>
theorem ledger_errors_are_atomic:
  assumes "ledger_apply to_vec blake3 c l = (Inl e, l')"
  shows "l' = l\<lparr>halted := if e = IdempotencyConflict then halted l' else halted l\<rparr>
    \<and> run_commands (ledger_apply to_vec blake3) cs (l\<lparr>halted := Some r\<rparr>) = l\<lparr>halted := Some r\<rparr>"
  using assms ledger_engine.halted_absorbing [of "l\<lparr>halted := Some r\<rparr>" to_vec blake3 cs]
  by (cases rule: ledger_apply_cases) auto

theorem ledger_errors_are_atomic_witness:
  "snd (ledger_apply (\<lambda>_. Inr ''w'') (\<lambda>_. 7) (ReserveCollateral 2 21 11 0) (demo_ledger [FundCollateral 1 10 0]))
     = demo_ledger [FundCollateral 1 10 0]"
proof -
  let ?l = "demo_ledger [FundCollateral 1 10 0]"
  obtain r l' where step: "ledger_apply (\<lambda>_. Inr ''w'') (\<lambda>_. 7) (ReserveCollateral 2 21 11 0) ?l = (r, l')"
    by fastforce
  have "fst (ledger_apply (\<lambda>_. Inr ''w'') (\<lambda>_. 7) (ReserveCollateral 2 21 11 0) ?l) = Inl NegativeBalance"
    unfolding fund_state by code_simp
  then show ?thesis
    using ledger_errors_are_atomic [of "\<lambda>_. Inr ''w''" "\<lambda>_. 7" _ ?l NegativeBalance l'] step by simp
qed

text \<open>Idempotence: once a command was applied, then after any further commands that leave the
  ledger unhalted the same command is answered without any change, and another command under its
  id is refused and halts the ledger.\<close>
theorem ledger_idempotent:
  assumes "ledger_apply to_vec blake3 c l = (Inr out, l1)"
    and "halted (run_commands (ledger_apply to_vec blake3) cs l1) = None"
    and "ledger_command_id c' = ledger_command_id c"
    and "ledger_content to_vec blake3 c' = Inr d'" and "ledger_content to_vec blake3 c \<noteq> Inr d'"
  shows "(\<exists>out'. ledger_apply to_vec blake3 c (run_commands (ledger_apply to_vec blake3) cs l1)
           = (Inr out', run_commands (ledger_apply to_vec blake3) cs l1))
    \<and> (\<exists>e. fst (ledger_apply to_vec blake3 c' (run_commands (ledger_apply to_vec blake3) cs l1)) = Inl e)
    \<and> halted (snd (ledger_apply to_vec blake3 c' (run_commands (ledger_apply to_vec blake3) cs l1))) \<noteq> None"
  using ledger_engine.replay_is_noop [OF assms(1)] assms(2)
    ledger_engine.equivocation_halts [OF assms(1,3,4)] assms(4,5) by auto

text \<open>The bytes of a command in the witness: its amount, so that commands differ.\<close>

definition demo_bytes :: "ledger_command wire \<Rightarrow> string + string" where
  "demo_bytes w = (case wire_command w of FundCollateral _ a _ \<Rightarrow> Inr (le_bytes 1 a) | _ \<Rightarrow> Inr [])"

definition demo_hash :: "string \<Rightarrow> bytes32" where
  "demo_hash s = (case s of [] \<Rightarrow> 0 | c # _ \<Rightarrow> of_char c)"

theorem ledger_idempotent_witness:
  "\<exists>out'. ledger_apply demo_bytes demo_hash (FundCollateral 1 10 0)
     (run_commands (ledger_apply demo_bytes demo_hash) [FundCollateral 2 5 0]
       (snd (ledger_apply demo_bytes demo_hash (FundCollateral 1 10 0) ledger_default)))
     = (Inr out', run_commands (ledger_apply demo_bytes demo_hash) [FundCollateral 2 5 0]
       (snd (ledger_apply demo_bytes demo_hash (FundCollateral 1 10 0) ledger_default)))"
proof -
  let ?l = "snd (ledger_apply demo_bytes demo_hash (FundCollateral 1 10 0) ledger_default)"
  have "fst (ledger_apply demo_bytes demo_hash (FundCollateral 1 10 0) ledger_default) = Inr Applied"
    by code_simp
  then have 1: "ledger_apply demo_bytes demo_hash (FundCollateral 1 10 0) ledger_default = (Inr Applied, ?l)"
    by (simp add: prod_eq_iff)
  have 2: "halted (run_commands (ledger_apply demo_bytes demo_hash) [FundCollateral 2 5 0] ?l) = None"
    by code_simp
  have 3: "ledger_content demo_bytes demo_hash (FundCollateral 1 11 0) = Inr 11"
      "ledger_content demo_bytes demo_hash (FundCollateral 1 10 0) \<noteq> Inr 11"
    by code_simp+
  show ?thesis
    using ledger_idempotent [OF 1 2 _ 3] by simp
qed

text \<open>The views other components read are total and exact on every reachable ledger: the
  snapshot, the risk view and the reconciliation view never panic; the risk view reports the free
  cash, the cash that active reservations hold, and for every token what is available, reserved
  and locked; the reconciliation view reports all cash and all tokens the ledger holds.\<close>
theorem ledger_views_exact:
  "\<exists>v w. ledger_risk_view sd (ledger_after to_vec blake3 cs) = Some v
     \<and> ledger_reconciliation_view sd req (ledger_after to_vec blake3 cs) = Some w
     \<and> lr_cash_available v = balance (ledger_after to_vec blake3 cs) CashAvailable Collateral
     \<and> lr_cash_reserved v = cash_reserved_total (reservations (ledger_after to_vec blake3 cs))
     \<and> ctb_amount (lr_available_tokens v) t = balance (ledger_after to_vec blake3 cs) TokenAvailable (Outcome t)
     \<and> ctb_amount (lr_reserved_tokens v) t = token_reserved (reservations (ledger_after to_vec blake3 cs)) t
     \<and> ctb_amount (lr_locked_tokens v) t = locked_total (locks (ledger_after to_vec blake3 cs)) t
     \<and> rv_collateral_micros w = lr_cash_available v + lr_cash_reserved v
     \<and> ctb_amount (rv_token_balances w) t = - balance (ledger_after to_vec blake3 cs) External (Outcome t)"
proof -
  define l where "l = ledger_after to_vec blake3 cs"
  have inv: "ledger_inv l" and ver: "verify_invariants l = Inr ()"
    by (simp_all add: l_def reachable_inv reachable_verified)
  obtain a where a: "token_category (\<lambda>a. a = TokenAvailable) l = Some a"
      "ctb_amount a t = balance l TokenAvailable (Outcome t)"
    using category_exact [OF inv ver, of "\<lambda>a. a = TokenAvailable"] selected_available [OF inv] by auto
  obtain r where r: "token_category is_token_reserved l = Some r"
      "ctb_amount r t = token_reserved (reservations l) t"
    using category_exact [OF inv ver, of is_token_reserved] selected_reserved [OF inv]
    by (metis holds_tokens.simps(2) is_token_reserved.elims(2))
  obtain k where k: "token_category is_locked_token l = Some k"
      "ctb_amount k t = locked_total (locks l) t"
    using category_exact [OF inv ver, of is_locked_token] selected_locked [OF inv]
    by (metis holds_tokens.simps(3) is_locked_token.elims(2))
  obtain h where h: "token_category holds_tokens l = Some h"
      "ctb_amount h t = - balance l External (Outcome t)"
    using category_exact [OF inv ver, of holds_tokens] selected_held [of "balances l" t]
      selected_available [OF inv] selected_reserved [OF inv] selected_locked [OF inv] inv
    by (auto simp: ledger_inv_def inv_equity_def add_eq_0_iff2)
  obtain s where s: "ledger_snapshot sd l = Some s" "sn_cash_available s = balance l CashAvailable Collateral"
      "sn_cash_reserved s = cash_reserved_total (reservations l)"
    using ver by (auto simp: verify_invariants_def rbind_Inr_iff if_Inr_iff ledger_snapshot_def
        ledger_cash_reserved_eq [OF inv ver])
  show ?thesis
    using a r k h s cash_bound(1) [OF inv ver] unfolding l_def [symmetric]
    by (simp add: ledger_risk_view_def ledger_reconciliation_view_def add128_def i128_new_def)
qed

text \<open>Selling a position in parts: what \<open>allocate_cost\<close> and \<open>reduce_cost\<close> do to it.\<close>

fun sell_parts :: "int list \<Rightarrow> cost_position \<Rightarrow> ledger_error + int list \<times> cost_position" where
  "sell_parts [] p = Inr ([], p)"
| "sell_parts (q # qs) p =
     rbind (allocate_cost p q) (\<lambda>c.
     rbind (sell_parts qs \<lparr>pos_quantity = pos_quantity p - q, pos_cost = pos_cost p - c\<rparr>) (\<lambda>(cs, p').
     Inr (c # cs, p')))"

text \<open>However a position is sold in parts, the costs allocated to the parts are never negative,
  what is allocated and what is left add up to the cost exactly, no part carries less than its
  share of the cost at the time, and parts that exhaust the quantity exhaust the cost: rounding
  neither creates nor loses a micro.\<close>
theorem allocation_conserves_cost:
  assumes "sell_parts qs p = Inr (cs, p')"
  shows "pos_quantity p' = pos_quantity p - sum_list qs \<and> pos_cost p' = pos_cost p - sum_list cs
    \<and> list_all (\<lambda>c. 0 \<le> c) cs \<and> length cs = length qs
    \<and> (if qs = [] then True else pos_cost p * hd qs \<le> hd cs * pos_quantity p)
    \<and> (if qs \<noteq> [] \<and> pos_quantity p' = 0 then pos_cost p' = 0 else True)"
  using assms
proof (induction qs arbitrary: p cs)
  case (Cons q qs)
  obtain c cs0 where c: "allocate_cost p q = Inr c" "cs = c # cs0"
      and r: "sell_parts qs \<lparr>pos_quantity = pos_quantity p - q, pos_cost = pos_cost p - c\<rparr> = Inr (cs0, p')"
    using Cons.prems by (auto simp: rbind_Inr_iff)
  note b = allocate_cost_bounds [OF c(1)]
  show ?case
    using Cons.IH [OF r] b c(2) r by (cases qs) (auto split: if_splits)
qed simp

theorem allocation_conserves_cost_witness:
  "sell_parts [1, 1, 1] \<lparr>pos_quantity = 3, pos_cost = 10\<rparr> = Inr ([4, 3, 3], \<lparr>pos_quantity = 0, pos_cost = 0\<rparr>)
     \<and> sum_list [4, 3, 3] = (10 :: int)"
proof -
  have s: "sell_parts [1, 1, 1] \<lparr>pos_quantity = 3, pos_cost = 10\<rparr> = Inr ([4, 3, 3], \<lparr>pos_quantity = 0, pos_cost = 0\<rparr>)"
    by code_simp
  show ?thesis
    using allocation_conserves_cost [OF s] s by simp
qed

lemma lock_pair_effect:
  assumes inv: "ledger_inv l" and "lock_pair i up down quantity l = Inr l'"
  obtains uc dc where "bt_get (locks l') i = Some \<lparr>lk_id = i, lk_up = up, lk_down = down,
        lk_quantity = quantity, lk_cost = uc + dc, lk_payout = quantity, lk_status = LockActive\<rparr>"
    and "\<And>a s. balance l' a s = balance l a s + net [mk_posting TokenAvailable (Outcome up) (- quantity),
           mk_posting (LockedToken i) (Outcome up) quantity,
           mk_posting TokenAvailable (Outcome down) (- quantity),
           mk_posting (LockedToken i) (Outcome down) quantity,
           mk_posting (InventoryCost up) Collateral (- uc),
           mk_posting (InventoryCost down) Collateral (- dc),
           mk_posting (LockedCost i) Collateral (uc + dc)] (a, s)"
    and "up \<noteq> down" and "condition_id up = condition_id down" and "bt_get (locks l) i = None"
    and "0 \<le> uc" and "0 \<le> dc"
proof -
  obtain uc dc l1 l2 l3 where new: "bt_get (locks l) i = None" and ne: "up \<noteq> down" "condition_id up = condition_id down"
      and uc: "allocate_cost (get_cost_position l up) quantity = Inr uc"
      and dc: "allocate_cost (get_cost_position l down) quantity = Inr dc"
      and p: "post [mk_posting TokenAvailable (Outcome up) (- quantity),
           mk_posting (LockedToken i) (Outcome up) quantity,
           mk_posting TokenAvailable (Outcome down) (- quantity),
           mk_posting (LockedToken i) (Outcome down) quantity,
           mk_posting (InventoryCost up) Collateral (- uc),
           mk_posting (InventoryCost down) Collateral (- dc),
           mk_posting (LockedCost i) Collateral (uc + dc)] l = Inr l1"
      and d: "reduce_cost up quantity uc l1 = Inr l2" "reduce_cost down quantity dc l2 = Inr l3"
      and l': "l' = l3\<lparr>locks := bt_insert i
          \<lparr>lk_id = i, lk_up = up, lk_down = down, lk_quantity = quantity, lk_cost = uc + dc,
           lk_payout = quantity, lk_status = LockActive\<rparr> (locks l3)\<rparr>"
    using assms(2) by (auto simp: lock_pair_def bt_contains_def result_simps checked_simps)
  have bal: "balance l' a s = balance l1 a s" for a s
    using reduce_cost_Inr [OF d(1)] reduce_cost_Inr [OF d(2)] by (auto simp: l')
  show thesis
  proof (rule that [of uc dc, OF _ _ ne new])
    show "balance l' a s = balance l a s + net [mk_posting TokenAvailable (Outcome up) (- quantity),
           mk_posting (LockedToken i) (Outcome up) quantity,
           mk_posting TokenAvailable (Outcome down) (- quantity),
           mk_posting (LockedToken i) (Outcome down) quantity,
           mk_posting (InventoryCost up) Collateral (- uc),
           mk_posting (InventoryCost down) Collateral (- dc),
           mk_posting (LockedCost i) Collateral (uc + dc)] (a, s)" for a s
      using post_moves [OF p inv] unfolding bal by blast
  qed (use allocate_cost_bounds(3) [OF uc] allocate_cost_bounds(3) [OF dc] in \<open>simp_all add: l' bt_simps\<close>)
qed

lemma confirm_merge_effect:
  assumes inv: "ledger_inv l" and k: "bt_get (locks l) i = Some k" and "confirm_merge i l = Inr l'"
  shows "balance l' a s = balance l a s + net [mk_posting (LockedToken i) (Outcome (lk_up k)) (- lk_quantity k),
          mk_posting External (Outcome (lk_up k)) (lk_quantity k),
          mk_posting (LockedToken i) (Outcome (lk_down k)) (- lk_quantity k),
          mk_posting External (Outcome (lk_down k)) (lk_quantity k),
          mk_posting CashAvailable Collateral (lk_payout k),
          mk_posting TradingRevenue Collateral (- lk_payout k),
          mk_posting (LockedCost i) Collateral (- lk_cost k),
          mk_posting CostOfGoodsSold Collateral (lk_cost k)] (a, s)"
proof -
  obtain k' l1 where p: "post [mk_posting (LockedToken i) (Outcome (lk_up k)) (- lk_quantity k),
          mk_posting External (Outcome (lk_up k)) (lk_quantity k),
          mk_posting (LockedToken i) (Outcome (lk_down k)) (- lk_quantity k),
          mk_posting External (Outcome (lk_down k)) (lk_quantity k),
          mk_posting CashAvailable Collateral (lk_payout k),
          mk_posting TradingRevenue Collateral (- lk_payout k),
          mk_posting (LockedCost i) Collateral (- lk_cost k),
          mk_posting CostOfGoodsSold Collateral (lk_cost k)] l = Inr l1"
      and l': "l' = l1\<lparr>locks := bt_insert i (k'\<lparr>lk_status := LockMerged\<rparr>) (locks l1)\<rparr>"
    using assms(3) k by (auto simp: confirm_merge_def result_simps)
  show ?thesis
    using post_moves [OF p inv] unfolding l' balance_update by blast
qed

text \<open>The profit of a locked pair is fixed when it is locked and realised when the merge is
  confirmed: a lock takes equal quantities of the two different tokens of one condition out of the
  available balances at their allocated cost and realises nothing, and the merge of that lock,
  after whatever has happened to the rest of the ledger in between, pays one unit of collateral
  per pair and realises exactly quantity minus locked cost.\<close>
theorem lock_then_merge_realises_locked_profit:
  assumes "ledger_inv l" and "lock_pair i up down quantity l = Inr l1"
    and "ledger_inv l2" and "bt_get (locks l2) i = bt_get (locks l1) i"
    and "confirm_merge i l2 = Inr l3"
  shows "\<exists>k. bt_get (locks l1) i = Some k \<and> lk_quantity k = quantity \<and> lk_payout k = quantity
    \<and> 0 \<le> lk_cost k \<and> up \<noteq> down \<and> condition_id up = condition_id down
    \<and> realized_net l1 = realized_net l
    \<and> balance l1 TokenAvailable (Outcome up) = balance l TokenAvailable (Outcome up) - quantity
    \<and> balance l1 TokenAvailable (Outcome down) = balance l TokenAvailable (Outcome down) - quantity
    \<and> balance l1 (LockedCost i) Collateral = lk_cost k
    \<and> realized_net l3 = realized_net l2 + (quantity - lk_cost k)
    \<and> balance l3 CashAvailable Collateral = balance l2 CashAvailable Collateral + quantity
    \<and> balance l3 (LockedToken i) (Outcome up) = 0 \<and> balance l3 (LockedToken i) (Outcome down) = 0"
proof -
  obtain uc dc where k: "bt_get (locks l1) i = Some \<lparr>lk_id = i, lk_up = up, lk_down = down,
        lk_quantity = quantity, lk_cost = uc + dc, lk_payout = quantity, lk_status = LockActive\<rparr>"
      and m: "\<And>a s. balance l1 a s = balance l a s + net [mk_posting TokenAvailable (Outcome up) (- quantity),
           mk_posting (LockedToken i) (Outcome up) quantity,
           mk_posting TokenAvailable (Outcome down) (- quantity),
           mk_posting (LockedToken i) (Outcome down) quantity,
           mk_posting (InventoryCost up) Collateral (- uc),
           mk_posting (InventoryCost down) Collateral (- dc),
           mk_posting (LockedCost i) Collateral (uc + dc)] (a, s)"
      and ne: "up \<noteq> down" "condition_id up = condition_id down"
      and new: "bt_get (locks l) i = None" and c: "0 \<le> uc" "0 \<le> dc"
    using assms(1,2) by (rule lock_pair_effect) blast
  note m' = confirm_merge_effect [OF assms(3) _ assms(5), of "\<lparr>lk_id = i, lk_up = up, lk_down = down,
        lk_quantity = quantity, lk_cost = uc + dc, lk_payout = quantity, lk_status = LockActive\<rparr>"]
  have "balance l (LockedCost i) Collateral = 0"
      "balance l2 (LockedToken i) (Outcome t) = locked_of t (bt_get (locks l1) i)" for t
    using assms(1,3,4) new by (simp_all add: ledger_inv_def inv_locks_def)
  then show ?thesis
    using k ne c by (simp add: m m' assms(4) realized_net_def)
qed

text \<open>One pair bought for three, merged for two: the locked cost is two of the three paid.\<close>

theorem lock_then_merge_realises_locked_profit_witness:
  "\<exists>l3. confirm_merge 31 (demo_ledger demo_lock) = Inr l3
     \<and> balance l3 CashAvailable Collateral = balance (demo_ledger demo_lock) CashAvailable Collateral + 2
     \<and> balance l3 (LockedToken 31) (Outcome demo_up) = 0"
proof -
  let ?l = "demo_ledger demo_buys"
  have "(case lock_pair 31 demo_up demo_down 2 ?l of Inl _ \<Rightarrow> False | Inr l1 \<Rightarrow>
      bt_get (locks (demo_ledger demo_lock)) 31 = bt_get (locks l1) 31)"
    by code_simp
  then obtain l1 where l1: "lock_pair 31 demo_up demo_down 2 ?l = Inr l1"
      "bt_get (locks (demo_ledger demo_lock)) 31 = bt_get (locks l1) 31"
    by (auto split: sum.split_asm)
  have "is_ok (confirm_merge 31 (demo_ledger demo_lock))"
    by code_simp
  then obtain l3 where l3: "confirm_merge 31 (demo_ledger demo_lock) = Inr l3"
    by (auto simp: is_ok_def split: sum.split_asm)
  show ?thesis
    using lock_then_merge_realises_locked_profit [OF demo_inv [of demo_buys] l1(1) demo_inv [of demo_lock] l1(2) l3] l3
    by auto
qed

end
