(* ===== verification/Reconciliation.thy ===== *)
theory Reconciliation
  imports Ledger
begin

text \<open>
  The settlement reconciler of \<open>crates/settlement-reconciliation/src/lib.rs\<close>: the local
  intents, the observed life of each trade, and the three-way comparison of
  intents, ledger and finalized chain. This theory holds the data and the operations;
  \<open>Reconciliation_Theorems\<close> holds what they guarantee.
\<close>

section \<open>Data\<close>

type_synonym recon_command_id = bytes32
type_synonym intent_id = bytes32

datatype side = Buy | Sell

record trade_intent =
  ti_intent_id :: intent_id
  ti_trade_id :: string
  ti_order_id :: string
  ti_token :: token_key
  ti_side :: side
  ti_quantity :: int
  ti_consideration :: int
  ti_fee :: int
  ti_ledger_command_id :: command_id

datatype trade_status = Matched | Mined | Confirmed | Retrying | Failed

fun is_terminal :: "trade_status \<Rightarrow> bool" where
  "is_terminal Confirmed = True"
| "is_terminal Failed = True"
| "is_terminal _ = False"

fun is_success :: "trade_status \<Rightarrow> bool" where
  "is_success Confirmed = True"
| "is_success _ = False"

record trade_observation =
  to_trade_id :: string
  to_order_id :: string
  to_token :: token_key
  to_side :: side
  to_quantity :: int
  to_consideration :: int
  to_fee :: int
  to_status :: trade_status
  to_transaction_hash :: "string option"
  to_matched_at :: int
  to_updated_at :: int

record chain_token_balance =
  chb_token :: token_key
  chb_balance :: int

record chain_snapshot =
  ch_chain_id :: int
  ch_wallet :: string
  ch_block_number :: int
  ch_block_hash :: string
  ch_finalized_at :: int
  ch_observed_at :: int
  ch_collateral :: int
  ch_token_balances :: "chain_token_balance list"

record recon_frame =
  fr_ledger :: reconciliation_view
  fr_chain :: chain_snapshot
  fr_evaluated_at :: int

datatype recon_command =
    RegisterIntent recon_command_id trade_intent int
  | ObserveTrade recon_command_id trade_observation int
  | Reconcile recon_command_id recon_frame int

fun recon_command_id :: "recon_command \<Rightarrow> recon_command_id" where
  "recon_command_id (RegisterIntent i _ _) = i"
| "recon_command_id (ObserveTrade i _ _) = i"
| "recon_command_id (Reconcile i _ _) = i"

fun recon_recorded_at :: "recon_command \<Rightarrow> int" where
  "recon_recorded_at (RegisterIntent _ _ t) = t"
| "recon_recorded_at (ObserveTrade _ _ t) = t"
| "recon_recorded_at (Reconcile _ _ t) = t"

record recon_config =
  cf_chain_id :: int
  cf_wallet :: string
  cf_confirmation_grace :: int
  cf_max_intents :: int
  cf_max_tokens :: int

datatype recon_mode = AwaitingSources | Pending | Reconciled | ModeHalted

datatype recon_error =
    RConfig
  | RIdentifier
  | RNonPositive
  | RFee
  | RTimestamp
  | RBound
  | RTokenBalances
  | RIntentConflict
  | RUnknownTrade
  | RTradeFactsChanged
  | RStatusTransition
  | RTerminalMutation
  | RTransactionHash
  | RTradeTimeRegression
  | RLedgerHalted
  | RLedgerHistory
  | RChainIdentity
  | RChainHistory
  | RCollateralMismatch
  | RTokenMismatch
  | RPrematurePosting
  | RConfirmationExpired
  | RLedgerCommandSet
  | ROverflow
  | RIdempotencyConflict
  | RHalted string
  | RCommandBound
  | RJson string
  | RVersion int

fun recon_error_text :: "recon_error \<Rightarrow> string" where
  "recon_error_text RConfig = ''reconciler configuration is invalid''"
| "recon_error_text RIdentifier = ''identifier is empty or exceeds its bound''"
| "recon_error_text RNonPositive = ''amount must be strictly positive''"
| "recon_error_text RFee = ''fee is negative or exceeds consideration''"
| "recon_error_text RTimestamp = ''timestamp is negative or internally inconsistent''"
| "recon_error_text RBound = ''collection exceeds its configured bound''"
| "recon_error_text RTokenBalances =
     ''token balances are not strictly sorted, unique, positive, and bounded''"
| "recon_error_text RIntentConflict =
     ''intent identity, trade ID, or expected ledger command is reused''"
| "recon_error_text RUnknownTrade = ''CLOB observation does not map to a registered local intent''"
| "recon_error_text RTradeFactsChanged = ''CLOB trade economics changed after registration''"
| "recon_error_text RStatusTransition = ''CLOB trade status transition is impossible''"
| "recon_error_text RTerminalMutation = ''terminal CLOB trade state changed''"
| "recon_error_text RTransactionHash =
     ''mined or confirmed trade lacks an on-chain transaction hash''"
| "recon_error_text RTradeTimeRegression = ''trade update time regressed''"
| "recon_error_text RLedgerHalted = ''ledger source is halted''"
| "recon_error_text RLedgerHistory = ''ledger history regressed or equivocated''"
| "recon_error_text RChainIdentity =
     ''blockchain identity does not match configured chain and wallet''"
| "recon_error_text RChainHistory = ''finalized blockchain history regressed or equivocated''"
| "recon_error_text RCollateralMismatch = ''ledger and finalized blockchain collateral differ''"
| "recon_error_text RTokenMismatch = ''ledger and finalized blockchain token balances differ''"
| "recon_error_text RPrematurePosting =
     ''unconfirmed or failed trade has already been posted to the ledger''"
| "recon_error_text RConfirmationExpired =
     ''confirmed trade exceeded its ledger-posting grace interval''"
| "recon_error_text RLedgerCommandSet = ''ledger view contains an unrelated command ID''"
| "recon_error_text ROverflow = ''arithmetic overflow''"
| "recon_error_text RIdempotencyConflict =
     ''command idempotency key was reused for different content''"
| "recon_error_text (RHalted reason) = ''reconciler is halted: '' @ reason"
| "recon_error_text RCommandBound = ''command exceeds the canonical payload bound''"
| "recon_error_text (RJson e) = ''command JSON is invalid: '' @ e"
| "recon_error_text (RVersion v) = ''unsupported command version: '' @ show_nat (nat v)"

record reconciler =
  rc_config :: recon_config
  rc_intents :: "(intent_id, trade_intent) btree"
  rc_trade_to_intent :: "(string, intent_id) btree"
  rc_ledger_command_to_intent :: "(command_id, intent_id) btree"
  rc_trades :: "(string, trade_observation) btree"
  rc_last_frame :: "recon_frame option"
  rc_mode :: recon_mode
  rc_processed :: "(recon_command_id, bytes32) btree"
  rc_accepted :: int
  rc_halted :: "string option"

section \<open>Validation\<close>

definition recon_validate_text :: "string \<Rightarrow> recon_error + unit" where
  "recon_validate_text s = (if s = [] \<or> 512 < int (length s) then Inl RIdentifier else Inr ())"

definition recon_validate_token :: "token_key \<Rightarrow> recon_error + unit" where
  "recon_validate_token t =
     rbind (recon_validate_text (condition_id t)) (\<lambda>_. recon_validate_text (token_id t))"

definition recon_positive :: "int \<Rightarrow> recon_error + unit" where
  "recon_positive v = (if 0 < v then Inr () else Inl RNonPositive)"

definition recon_validate_fee :: "int \<Rightarrow> int \<Rightarrow> recon_error + unit" where
  "recon_validate_fee fee consideration =
     (if fee < 0 \<or> consideration < fee then Inl RFee else Inr ())"

definition recon_config_validate :: "recon_config \<Rightarrow> recon_error + unit" where
  "recon_config_validate c =
     rbind (recon_validate_text (cf_wallet c)) (\<lambda>_.
     if cf_chain_id c = 0 \<or> cf_confirmation_grace c < 0 \<or> cf_max_intents c = 0 \<or> cf_max_tokens c = 0
     then Inl RConfig else Inr ())"

definition reconciler_new :: "recon_config \<Rightarrow> recon_error + reconciler" where
  "reconciler_new c =
     rbind (recon_config_validate c) (\<lambda>_.
     Inr \<lparr>rc_config = c, rc_intents = [], rc_trade_to_intent = [], rc_ledger_command_to_intent = [],
          rc_trades = [], rc_last_frame = None, rc_mode = AwaitingSources, rc_processed = [],
          rc_accepted = 0, rc_halted = None\<rparr>)"

definition validate_intent :: "trade_intent \<Rightarrow> recon_error + unit" where
  "validate_intent i =
     rbind (recon_validate_text (ti_trade_id i)) (\<lambda>_.
     rbind (recon_validate_text (ti_order_id i)) (\<lambda>_.
     rbind (recon_validate_token (ti_token i)) (\<lambda>_.
     rbind (recon_positive (ti_quantity i)) (\<lambda>_.
     rbind (recon_positive (ti_consideration i)) (\<lambda>_.
     recon_validate_fee (ti_fee i) (ti_consideration i))))))"

definition validate_observation :: "trade_observation \<Rightarrow> recon_error + unit" where
  "validate_observation v =
     rbind (recon_validate_text (to_trade_id v)) (\<lambda>_.
     rbind (recon_validate_text (to_order_id v)) (\<lambda>_.
     rbind (recon_validate_token (to_token v)) (\<lambda>_.
     rbind (recon_positive (to_quantity v)) (\<lambda>_.
     rbind (recon_positive (to_consideration v)) (\<lambda>_.
     rbind (recon_validate_fee (to_fee v) (to_consideration v)) (\<lambda>_.
     if to_matched_at v < 0 \<or> to_updated_at v < to_matched_at v then Inl RTimestamp
     else rbind (case to_transaction_hash v of None \<Rightarrow> Inr () | Some h \<Rightarrow> recon_validate_text h) (\<lambda>_.
       if (to_status v = Mined \<or> to_status v = Confirmed) \<and> to_transaction_hash v = None
       then Inl RTransactionHash else Inr ())))))))"

definition collect_token :: "(token_key, int) btree \<Rightarrow> token_key \<times> int \<Rightarrow> recon_error + (token_key, int) btree" where
  "collect_token m e =
     rbind (recon_validate_token (fst e)) (\<lambda>_.
     if snd e \<le> 0 \<or> bt_contains m (fst e) then Inl RTokenBalances
     else Inr (bt_insert (fst e) (snd e) m))"

definition collect_tokens :: "(token_key \<times> int) list \<Rightarrow> recon_error + (token_key, int) btree" where
  "collect_tokens es =
     rbind (try_fold collect_token [] es) (\<lambda>m.
     if map fst m \<noteq> map fst es then Inl RTokenBalances else Inr m)"

definition ledger_tokens :: "reconciliation_view \<Rightarrow> recon_error + (token_key, int) btree" where
  "ledger_tokens v = collect_tokens (map (\<lambda>b. (ctb_token b, ctb_balance b)) (rv_token_balances v))"

definition chain_tokens :: "chain_snapshot \<Rightarrow> recon_error + (token_key, int) btree" where
  "chain_tokens c = collect_tokens (map (\<lambda>b. (chb_token b, chb_balance b)) (ch_token_balances c))"

definition validate_frame :: "recon_frame \<Rightarrow> recon_config \<Rightarrow> recon_error + unit" where
  "validate_frame f cfg =
     (let c = fr_chain f; v = fr_ledger f in
      if fr_evaluated_at f < 0 \<or> ch_finalized_at c < 0 \<or> ch_observed_at c < ch_finalized_at c
         \<or> fr_evaluated_at f < ch_observed_at c then Inl RTimestamp
      else if ch_chain_id c \<noteq> cf_chain_id cfg \<or> ch_wallet c \<noteq> cf_wallet cfg then Inl RChainIdentity
      else
        rbind (recon_validate_text (ch_wallet c)) (\<lambda>_.
        rbind (recon_validate_text (ch_block_hash c)) (\<lambda>_.
        if ch_collateral c < 0 \<or> rv_collateral_micros v < 0
           \<or> cf_max_tokens cfg < int (length (ch_token_balances c))
           \<or> cf_max_tokens cfg < int (length (rv_token_balances v))
           \<or> cf_max_intents cfg < int (length (rv_present_command_ids v)) then Inl RBound
        else
          rbind (ledger_tokens v) (\<lambda>_.
          rbind (chain_tokens c) (\<lambda>_. Inr ())))))"

definition facts_match :: "trade_intent \<Rightarrow> trade_observation \<Rightarrow> bool" where
  "facts_match i v \<longleftrightarrow> ti_trade_id i = to_trade_id v \<and> ti_order_id i = to_order_id v
     \<and> ti_token i = to_token v \<and> ti_side i = to_side v \<and> ti_quantity i = to_quantity v
     \<and> ti_consideration i = to_consideration v \<and> ti_fee i = to_fee v"

fun status_step :: "trade_status \<Rightarrow> trade_status \<Rightarrow> bool" where
  "status_step Matched Mined = True"
| "status_step Matched Retrying = True"
| "status_step Mined Confirmed = True"
| "status_step Mined Retrying = True"
| "status_step Retrying Mined = True"
| "status_step Retrying Failed = True"
| "status_step _ _ = False"

definition validate_transition :: "trade_observation \<Rightarrow> trade_observation \<Rightarrow> recon_error + unit" where
  "validate_transition p n =
     (if is_terminal (to_status p) then (if p = n then Inr () else Inl RTerminalMutation)
      else if to_updated_at n < to_updated_at p then Inl RTradeTimeRegression
      else if \<not> (to_status p = to_status n \<or> status_step (to_status p) (to_status n))
      then Inl RStatusTransition
      else if to_matched_at p \<noteq> to_matched_at n then Inl RTradeFactsChanged
      else if to_status p = Mined \<and> to_status n = Confirmed
              \<and> to_transaction_hash p \<noteq> to_transaction_hash n then Inl RTradeFactsChanged
      else if to_status p = to_status n \<and> to_transaction_hash p \<noteq> to_transaction_hash n
      then Inl RTradeFactsChanged
      else Inr ())"

fun recon_validate_fields :: "recon_command \<Rightarrow> recon_error + unit" where
  "recon_validate_fields (RegisterIntent _ intent _) = validate_intent intent"
| "recon_validate_fields (ObserveTrade _ v t) =
     rbind (validate_observation v) (\<lambda>_. if t < to_updated_at v then Inl RTimestamp else Inr ())"
| "recon_validate_fields (Reconcile _ f t) =
     (if fr_evaluated_at f < 0 \<or> t < fr_evaluated_at f then Inl RTimestamp else Inr ())"

definition recon_validate_command :: "recon_command \<Rightarrow> recon_error + unit" where
  "recon_validate_command c =
     (if recon_recorded_at c < 0 then Inl RTimestamp else recon_validate_fields c)"

definition recon_encode_command ::
  "(recon_command wire \<Rightarrow> string + string) \<Rightarrow> recon_command \<Rightarrow> recon_error + string" where
  "recon_encode_command to_vec c =
     rbind (recon_validate_command c) (\<lambda>_.
       case to_vec \<lparr>wire_version = 1, wire_command = c\<rparr> of
         Inl e \<Rightarrow> Inl (RJson e)
       | Inr bytes \<Rightarrow> if 262144 < int (length bytes) then Inl RCommandBound else Inr bytes)"

definition recon_decode_command ::
  "(string \<Rightarrow> string + recon_command wire) \<Rightarrow> string \<Rightarrow> recon_error + recon_command" where
  "recon_decode_command from_slice bytes =
     (if 262144 < int (length bytes) then Inl RCommandBound
      else case from_slice bytes of
        Inl e \<Rightarrow> Inl (RJson e)
      | Inr w \<Rightarrow>
          if wire_version w \<noteq> 1 then Inl (RVersion (wire_version w))
          else rbind (recon_validate_command (wire_command w)) (\<lambda>_. Inr (wire_command w)))"

section \<open>Operations\<close>

definition recon_register :: "trade_intent \<Rightarrow> reconciler \<Rightarrow> recon_error + reconciler" where
  "recon_register i s =
     rbind (validate_intent i) (\<lambda>_.
     if cf_max_intents (rc_config s) \<le> int (length (rc_intents s)) then Inl RBound
     else if bt_contains (rc_intents s) (ti_intent_id i)
        \<or> bt_contains (rc_trade_to_intent s) (ti_trade_id i)
        \<or> bt_contains (rc_ledger_command_to_intent s) (ti_ledger_command_id i)
     then Inl RIntentConflict
     else Inr (s\<lparr>
       rc_trade_to_intent := bt_insert (ti_trade_id i) (ti_intent_id i) (rc_trade_to_intent s),
       rc_ledger_command_to_intent :=
         bt_insert (ti_ledger_command_id i) (ti_intent_id i) (rc_ledger_command_to_intent s),
       rc_intents := bt_insert (ti_intent_id i) i (rc_intents s),
       rc_mode := Pending\<rparr>))"

definition recon_observe_trade :: "trade_observation \<Rightarrow> reconciler \<Rightarrow> recon_error + reconciler" where
  "recon_observe_trade v s =
     rbind (validate_observation v) (\<lambda>_.
     rbind (ok_or (bt_get (rc_trade_to_intent s) (to_trade_id v)) RUnknownTrade) (\<lambda>intent_id.
     rbind (ok_or (bt_get (rc_intents s) intent_id) RUnknownTrade) (\<lambda>intent.
     if \<not> facts_match intent v then Inl RTradeFactsChanged
     else
       rbind (case bt_get (rc_trades s) (to_trade_id v) of
           Some previous \<Rightarrow> validate_transition previous v
         | None \<Rightarrow> if to_status v \<noteq> Matched then Inl RStatusTransition else Inr ()) (\<lambda>_.
       Inr (s\<lparr>rc_trades := bt_insert (to_trade_id v) v (rc_trades s), rc_mode := Pending\<rparr>)))))"

definition validate_history :: "reconciler \<Rightarrow> recon_frame \<Rightarrow> recon_error + unit" where
  "validate_history s f =
     (case rc_last_frame s of
        None \<Rightarrow> Inr ()
      | Some p \<Rightarrow>
          if fr_evaluated_at f < fr_evaluated_at p then Inl RTimestamp
          else if rv_accepted_commands (fr_ledger f) < rv_accepted_commands (fr_ledger p)
             \<or> (rv_accepted_commands (fr_ledger f) = rv_accepted_commands (fr_ledger p)
                \<and> rv_ledger_digest (fr_ledger f) \<noteq> rv_ledger_digest (fr_ledger p))
          then Inl RLedgerHistory
          else if ch_block_number (fr_chain f) < ch_block_number (fr_chain p) then Inl RChainHistory
          else if ch_block_number (fr_chain f) = ch_block_number (fr_chain p)
             \<and> (ch_block_hash (fr_chain f) \<noteq> ch_block_hash (fr_chain p)
                \<or> ch_collateral (fr_chain f) \<noteq> ch_collateral (fr_chain p)
                \<or> ch_token_balances (fr_chain f) \<noteq> ch_token_balances (fr_chain p))
          then Inl RChainHistory
          else if ch_observed_at (fr_chain f) < ch_observed_at (fr_chain p)
             \<or> ch_finalized_at (fr_chain f) < ch_finalized_at (fr_chain p)
          then Inl RChainHistory
          else Inr ())"

definition expected_ids :: "reconciler \<Rightarrow> command_id btset" where
  "expected_ids s = bs_of_list (map (\<lambda>e. ti_ledger_command_id (snd e)) (rc_intents s))"

text \<open>One round of the loop over the intents: the new value of \<open>pending\<close>.\<close>

definition reconcile_intent ::
  "reconciler \<Rightarrow> recon_frame \<Rightarrow> bool \<Rightarrow> trade_intent \<Rightarrow> recon_error + bool" where
  "reconcile_intent s f pending intent =
     (let posted = bs_mem (ti_ledger_command_id intent) (rv_present_command_ids (fr_ledger f)) in
      case bt_get (rc_trades s) (ti_trade_id intent) of
        None \<Rightarrow> if posted then Inl RPrematurePosting else Inr True
      | Some trade \<Rightarrow>
          (case to_status trade of
             Failed \<Rightarrow> if posted then Inl RPrematurePosting else Inr pending
           | Confirmed \<Rightarrow>
               if posted then Inr pending
               else rbind (ok_or (sub64 (fr_evaluated_at f) (to_updated_at trade)) ROverflow) (\<lambda>age.
                 if cf_confirmation_grace (rc_config s) < age then Inl RConfirmationExpired
                 else Inr True)
           | _ \<Rightarrow> if posted then Inl RPrematurePosting else Inr True))"

definition recon_reconcile :: "recon_frame \<Rightarrow> reconciler \<Rightarrow> recon_error + reconciler" where
  "recon_reconcile f s =
     rbind (validate_frame f (rc_config s)) (\<lambda>_.
     rbind (validate_history s f) (\<lambda>_.
     if rv_halted (fr_ledger f) then Inl RLedgerHalted
     else if \<not> bs_subset (rv_present_command_ids (fr_ledger f)) (expected_ids s) then Inl RLedgerCommandSet
     else if rv_collateral_micros (fr_ledger f) \<noteq> ch_collateral (fr_chain f) then Inl RCollateralMismatch
     else
       rbind (ledger_tokens (fr_ledger f)) (\<lambda>lt.
       rbind (chain_tokens (fr_chain f)) (\<lambda>ct.
       if lt \<noteq> ct then Inl RTokenMismatch
       else
         rbind (try_fold (reconcile_intent s f) False (map snd (rc_intents s))) (\<lambda>pending.
         Inr (s\<lparr>rc_mode := if pending then Pending else Reconciled, rc_last_frame := Some f\<rparr>))))))"

fun recon_apply_fresh :: "recon_command \<Rightarrow> reconciler \<Rightarrow> recon_error + reconciler" where
  "recon_apply_fresh (RegisterIntent _ i _) s = recon_register i s"
| "recon_apply_fresh (ObserveTrade _ v _) s = recon_observe_trade v s"
| "recon_apply_fresh (Reconcile _ f _) s = recon_reconcile f s"

definition recon_content ::
  "(recon_command wire \<Rightarrow> string + string) \<Rightarrow> (string \<Rightarrow> bytes32) \<Rightarrow> recon_command
    \<Rightarrow> recon_error + bytes32" where
  "recon_content to_vec blake3 c = rbind (recon_encode_command to_vec c) (\<lambda>bytes. Inr (blake3 bytes))"

definition recon_install_halt :: "recon_error \<Rightarrow> reconciler \<Rightarrow> reconciler" where
  "recon_install_halt e s = s\<lparr>rc_halted := Some (recon_error_text e), rc_mode := ModeHalted\<rparr>"

text \<open>The count of a candidate that is about to be installed; an overflow leaves the old state.\<close>

definition recon_record :: "recon_command_id \<Rightarrow> bytes32 \<Rightarrow> reconciler \<Rightarrow> recon_error + reconciler" where
  "recon_record i digest s =
     rbind (ok_or (addu64 (rc_accepted s) 1) ROverflow) (\<lambda>n.
     Inr (s\<lparr>rc_processed := bt_insert i digest (rc_processed s), rc_accepted := n\<rparr>))"

definition recon_apply ::
  "(recon_command wire \<Rightarrow> string + string) \<Rightarrow> (string \<Rightarrow> bytes32) \<Rightarrow> recon_command \<Rightarrow> reconciler
    \<Rightarrow> (recon_error + apply_outcome) \<times> reconciler" where
  "recon_apply to_vec blake3 c s =
     (case rc_halted s of
        Some reason \<Rightarrow> (Inl (RHalted reason), s)
      | None \<Rightarrow>
          (case recon_content to_vec blake3 c of
             Inl e \<Rightarrow> (Inl e, s)
           | Inr digest \<Rightarrow>
               (case bt_get (rc_processed s) (recon_command_id c) of
                  Some existing \<Rightarrow>
                    if existing = digest then (Inr Duplicate, s)
                    else (Inl RIdempotencyConflict, recon_install_halt RIdempotencyConflict s)
                | None \<Rightarrow>
                    (case recon_apply_fresh c s of
                       Inl e \<Rightarrow>
                         (case recon_record (recon_command_id c) digest (recon_install_halt e s) of
                            Inl e' \<Rightarrow> (Inl e', s)
                          | Inr s' \<Rightarrow> (Inl e, s'))
                     | Inr s1 \<Rightarrow>
                         (case recon_record (recon_command_id c) digest s1 of
                            Inl e' \<Rightarrow> (Inl e', s)
                          | Inr s' \<Rightarrow> (Inr Applied, s'))))))"

section \<open>Views\<close>

definition capture_frame ::
  "(ledger \<Rightarrow> bytes32) \<Rightarrow> reconciler \<Rightarrow> ledger \<Rightarrow> chain_snapshot \<Rightarrow> int \<Rightarrow> recon_frame option" where
  "capture_frame ledger_digest s l chain evaluated_at =
     Option.bind (ledger_reconciliation_view ledger_digest (expected_ids s) l) (\<lambda>view.
     Some \<lparr>fr_ledger = view, fr_chain = chain, fr_evaluated_at = evaluated_at\<rparr>)"

fun mode_tag :: "recon_mode \<Rightarrow> int" where
  "mode_tag AwaitingSources = 0"
| "mode_tag Pending = 1"
| "mode_tag Reconciled = 2"
| "mode_tag ModeHalted = 3"

record recon_json =
  rj_text :: "string \<Rightarrow> string"
  rj_intent :: "trade_intent \<Rightarrow> string"
  rj_observation :: "trade_observation \<Rightarrow> string"
  rj_frame :: "recon_frame option \<Rightarrow> string"
  rj_halted :: "string option \<Rightarrow> string"

definition recon_state_digest :: "recon_json \<Rightarrow> (string \<Rightarrow> bytes32) \<Rightarrow> reconciler \<Rightarrow> bytes32" where
  "recon_state_digest js blake3 s = blake3
     (''settlement-reconciliation-state-v1''
      @ le_bytes 8 (cf_chain_id (rc_config s))
      @ prefixed (rj_text js (cf_wallet (rc_config s)))
      @ le_bytes 8 (cf_confirmation_grace (rc_config s))
      @ le_bytes 8 (rc_accepted s)
      @ concat (map (\<lambda>(i, v). bytes_of_id i @ prefixed (rj_intent js v)) (rc_intents s))
      @ concat (map (\<lambda>(t, v). prefixed (rj_text js t) @ prefixed (rj_observation js v)) (rc_trades s))
      @ prefixed (rj_frame js (rc_last_frame s))
      @ concat (map (\<lambda>(i, d). bytes_of_id i @ bytes_of_id d) (rc_processed s))
      @ le_bytes 1 (mode_tag (rc_mode s))
      @ prefixed (rj_halted js (rc_halted s)))"

record recon_snapshot =
  rs_mode :: recon_mode
  rs_ready :: bool
  rs_accepted_commands :: int
  rs_intent_count :: nat
  rs_observed_trade_count :: nat
  rs_nonterminal_trade_count :: nat
  rs_confirmed_trade_count :: nat
  rs_failed_trade_count :: nat
  rs_last_evaluated_at :: "int option"
  rs_ledger_digest :: "bytes32 option"
  rs_chain_block_number :: "int option"
  rs_chain_block_hash :: "string option"
  rs_halt_reason :: "string option"
  rs_digest :: bytes32

definition recon_snapshot :: "(reconciler \<Rightarrow> bytes32) \<Rightarrow> reconciler \<Rightarrow> recon_snapshot" where
  "recon_snapshot state_digest s =
     (let trades = map snd (rc_trades s) in
      \<lparr>rs_mode = rc_mode s,
       rs_ready = (rc_mode s = Reconciled),
       rs_accepted_commands = rc_accepted s,
       rs_intent_count = length (rc_intents s),
       rs_observed_trade_count = length (rc_trades s),
       rs_nonterminal_trade_count = length (filter (\<lambda>t. \<not> is_terminal (to_status t)) trades),
       rs_confirmed_trade_count = length (filter (\<lambda>t. to_status t = Confirmed) trades),
       rs_failed_trade_count = length (filter (\<lambda>t. to_status t = Failed) trades),
       rs_last_evaluated_at = map_option fr_evaluated_at (rc_last_frame s),
       rs_ledger_digest = map_option (\<lambda>f. rv_ledger_digest (fr_ledger f)) (rc_last_frame s),
       rs_chain_block_number = map_option (\<lambda>f. ch_block_number (fr_chain f)) (rc_last_frame s),
       rs_chain_block_hash = map_option (\<lambda>f. ch_block_hash (fr_chain f)) (rc_last_frame s),
       rs_halt_reason = rc_halted s,
       rs_digest = state_digest s\<rparr>)"

definition recon_trade :: "reconciler \<Rightarrow> string \<Rightarrow> trade_observation option" where
  "recon_trade s t = bt_get (rc_trades s) t"

record recon_risk_gate =
  rg_digest :: bytes32
  rg_ready :: bool
  rg_evaluated_at :: "int option"
  rg_ledger_digest :: "bytes32 option"
  rg_chain_block_number :: "int option"

definition recon_risk_gate :: "(reconciler \<Rightarrow> bytes32) \<Rightarrow> reconciler \<Rightarrow> recon_risk_gate" where
  "recon_risk_gate state_digest s =
     (let snap = recon_snapshot state_digest s in
      \<lparr>rg_digest = rs_digest snap, rg_ready = rs_ready snap,
       rg_evaluated_at = rs_last_evaluated_at snap,
       rg_ledger_digest = rs_ledger_digest snap,
       rg_chain_block_number = rs_chain_block_number snap\<rparr>)"

end
