(* ===== verification/Reconciliation_Theorems.thy ===== *)
theory Reconciliation_Theorems
  imports Reconciliation Ledger_Theorems
begin

text \<open>
  What the reconciler guarantees: its state is consistent in every reachable
  state, intents and finished trades never change, a trade moves along the status
  automaton only, frames never go back in time, and the mode \<open>Reconciled\<close> means
  that intents, ledger and finalized chain agree.
\<close>

section \<open>Steps of the reconciler\<close>

lemma validate_transition_Inr:
  "validate_transition p n = Inr u \<longleftrightarrow>
     (if is_terminal (to_status p) then p = n
      else to_updated_at p \<le> to_updated_at n \<and> to_matched_at p = to_matched_at n
        \<and> (to_status p = to_status n \<or> status_step (to_status p) (to_status n))
        \<and> ((to_status p = Mined \<and> to_status n = Confirmed) \<or> to_status p = to_status n
            \<longrightarrow> to_transaction_hash p = to_transaction_hash n))"
  by (auto simp: validate_transition_def)

lemma recon_register_Inr:
  assumes "recon_register i s = Inr s'"
  shows "validate_intent i = Inr ()" and "bt_get (rc_intents s) (ti_intent_id i) = None"
    and "bt_get (rc_trade_to_intent s) (ti_trade_id i) = None"
    and "bt_get (rc_ledger_command_to_intent s) (ti_ledger_command_id i) = None"
    and "int (length (rc_intents s)) < cf_max_intents (rc_config s)"
    and "s' = s\<lparr>
       rc_trade_to_intent := bt_insert (ti_trade_id i) (ti_intent_id i) (rc_trade_to_intent s),
       rc_ledger_command_to_intent :=
         bt_insert (ti_ledger_command_id i) (ti_intent_id i) (rc_ledger_command_to_intent s),
       rc_intents := bt_insert (ti_intent_id i) i (rc_intents s), rc_mode := Pending\<rparr>"
  using assms by (auto simp: recon_register_def bt_contains_def rbind_Inr_iff if_Inr_iff not_le)

lemma recon_observe_Inr:
  assumes "recon_observe_trade v s = Inr s'"
  obtains k intent where "validate_observation v = Inr ()"
    and "bt_get (rc_trade_to_intent s) (to_trade_id v) = Some k" and "bt_get (rc_intents s) k = Some intent"
    and "facts_match intent v"
    and "case bt_get (rc_trades s) (to_trade_id v) of
           Some p \<Rightarrow> validate_transition p v = Inr () | None \<Rightarrow> to_status v = Matched"
    and "s' = s\<lparr>rc_trades := bt_insert (to_trade_id v) v (rc_trades s), rc_mode := Pending\<rparr>"
proof -
  from assms obtain k intent where *: "validate_observation v = Inr ()"
      "bt_get (rc_trade_to_intent s) (to_trade_id v) = Some k" "bt_get (rc_intents s) k = Some intent"
      "facts_match intent v"
      and c: "(case bt_get (rc_trades s) (to_trade_id v) of
           Some previous \<Rightarrow> validate_transition previous v
         | None \<Rightarrow> if to_status v \<noteq> Matched then Inl RStatusTransition else Inr ()) = Inr ()"
      and s': "s' = s\<lparr>rc_trades := bt_insert (to_trade_id v) v (rc_trades s), rc_mode := Pending\<rparr>"
    by (auto simp: recon_observe_trade_def rbind_Inr_iff if_Inr_iff ok_or_Inr_iff)
  show thesis
    by (rule that [OF * _ s']) (use c in \<open>cases "bt_get (rc_trades s) (to_trade_id v)"; auto split: if_splits\<close>)
qed

definition posted :: "trade_intent \<Rightarrow> recon_frame \<Rightarrow> bool" where
  "posted i f \<longleftrightarrow> bs_mem (ti_ledger_command_id i) (rv_present_command_ids (fr_ledger f))"

text \<open>What the loop of \<open>reconcile\<close> finds out about one intent: never a posting without
  confirmation, and nothing pending only when the trade is finished and the ledger says the same.\<close>

definition settled :: "reconciler \<Rightarrow> recon_frame \<Rightarrow> trade_intent \<Rightarrow> bool" where
  "settled s f i \<longleftrightarrow> (case bt_get (rc_trades s) (ti_trade_id i) of
     None \<Rightarrow> False
   | Some t \<Rightarrow> is_terminal (to_status t) \<and> (posted i f \<longleftrightarrow> to_status t = Confirmed))"

definition confirmed_if_posted :: "reconciler \<Rightarrow> recon_frame \<Rightarrow> trade_intent \<Rightarrow> bool" where
  "confirmed_if_posted s f i \<longleftrightarrow> (posted i f \<longrightarrow> (case bt_get (rc_trades s) (ti_trade_id i) of
     None \<Rightarrow> False | Some t \<Rightarrow> to_status t = Confirmed))"

lemma reconcile_intent_Inr:
  assumes "reconcile_intent s f p i = Inr p'"
  shows "confirmed_if_posted s f i" and "\<not> p' \<Longrightarrow> \<not> p \<and> settled s f i"
  using assms
  by (auto simp: reconcile_intent_def Let_def confirmed_if_posted_def settled_def posted_def result_simps
      split: option.splits trade_status.splits if_splits)

lemma reconcile_loop:
  assumes "try_fold (reconcile_intent s f) p is = Inr p'"
  shows "list_all (confirmed_if_posted s f) is" and "\<not> p' \<Longrightarrow> \<not> p \<and> list_all (settled s f) is"
  using assms by (induction "is" arbitrary: p) (auto simp: rbind_Inr_iff dest: reconcile_intent_Inr)


text \<open>The order in which frames may follow each other.\<close>

definition frame_le :: "recon_frame \<Rightarrow> recon_frame \<Rightarrow> bool" where
  "frame_le p f \<longleftrightarrow> fr_evaluated_at p \<le> fr_evaluated_at f
     \<and> rv_accepted_commands (fr_ledger p) \<le> rv_accepted_commands (fr_ledger f)
     \<and> (rv_accepted_commands (fr_ledger p) = rv_accepted_commands (fr_ledger f)
         \<longrightarrow> rv_ledger_digest (fr_ledger p) = rv_ledger_digest (fr_ledger f))
     \<and> ch_block_number (fr_chain p) \<le> ch_block_number (fr_chain f)
     \<and> (ch_block_number (fr_chain p) = ch_block_number (fr_chain f)
         \<longrightarrow> ch_block_hash (fr_chain p) = ch_block_hash (fr_chain f)
           \<and> ch_collateral (fr_chain p) = ch_collateral (fr_chain f)
           \<and> ch_token_balances (fr_chain p) = ch_token_balances (fr_chain f))
     \<and> ch_observed_at (fr_chain p) \<le> ch_observed_at (fr_chain f)
     \<and> ch_finalized_at (fr_chain p) \<le> ch_finalized_at (fr_chain f)"

lemma frame_le_refl: "frame_le f f"
  by (simp add: frame_le_def)

lemma frame_le_trans: "frame_le p f \<Longrightarrow> frame_le f g \<Longrightarrow> frame_le p g"
  by (auto simp: frame_le_def)

lemma validate_history_Inr:
  "validate_history s f = Inr u \<longleftrightarrow> (case rc_last_frame s of None \<Rightarrow> True | Some p \<Rightarrow> frame_le p f)"
  by (cases "rc_last_frame s") (auto simp: validate_history_def frame_le_def)

text \<open>The agreement of ledger, chain and intents in a frame.\<close>

definition sources_agree :: "reconciler \<Rightarrow> recon_frame \<Rightarrow> bool" where
  "sources_agree s f \<longleftrightarrow> \<not> rv_halted (fr_ledger f)
     \<and> ch_chain_id (fr_chain f) = cf_chain_id (rc_config s) \<and> ch_wallet (fr_chain f) = cf_wallet (rc_config s)
     \<and> rv_collateral_micros (fr_ledger f) = ch_collateral (fr_chain f)
     \<and> (\<exists>m. ledger_tokens (fr_ledger f) = Inr m \<and> chain_tokens (fr_chain f) = Inr m)
     \<and> bs_subset (rv_present_command_ids (fr_ledger f)) (expected_ids s)
     \<and> list_all (confirmed_if_posted s f) (map snd (rc_intents s))"

lemma recon_reconcile_Inr:
  assumes "recon_reconcile f s = Inr s'"
  shows "validate_frame f (rc_config s) = Inr ()"
    and "case rc_last_frame s of None \<Rightarrow> True | Some p \<Rightarrow> frame_le p f"
    and "sources_agree s f"
    and "\<exists>m. s' = s\<lparr>rc_mode := m, rc_last_frame := Some f\<rparr> \<and> (m = Pending \<or> m = Reconciled)"
    and "rc_mode s' = Reconciled \<Longrightarrow> list_all (settled s f) (map snd (rc_intents s))"
proof -
  obtain m p where v: "validate_frame f (rc_config s) = Inr ()" "validate_history s f = Inr ()"
      and g: "\<not> rv_halted (fr_ledger f)" "bs_subset (rv_present_command_ids (fr_ledger f)) (expected_ids s)"
        "rv_collateral_micros (fr_ledger f) = ch_collateral (fr_chain f)"
        "ledger_tokens (fr_ledger f) = Inr m" "chain_tokens (fr_chain f) = Inr m"
      and l: "try_fold (reconcile_intent s f) False (map snd (rc_intents s)) = Inr p"
      and s': "s' = s\<lparr>rc_mode := if p then Pending else Reconciled, rc_last_frame := Some f\<rparr>"
    using assms unfolding recon_reconcile_def rbind_Inr_iff if_Inr_iff by auto
  have "ch_chain_id (fr_chain f) = cf_chain_id (rc_config s)" "ch_wallet (fr_chain f) = cf_wallet (rc_config s)"
    using v(1) by (auto simp: validate_frame_def Let_def split: if_splits)
  then show "sources_agree s f"
    using g reconcile_loop(1) [OF l] by (simp add: sources_agree_def)
  show "validate_frame f (rc_config s) = Inr ()" by (rule v)
  show "case rc_last_frame s of None \<Rightarrow> True | Some p \<Rightarrow> frame_le p f"
    using v(2) by (simp add: validate_history_Inr)
  show "\<exists>m. s' = s\<lparr>rc_mode := m, rc_last_frame := Some f\<rparr> \<and> (m = Pending \<or> m = Reconciled)"
    by (auto simp: s')
  show "rc_mode s' = Reconciled \<Longrightarrow> list_all (settled s f) (map snd (rc_intents s))"
    using reconcile_loop(2) [OF l] by (auto simp: s' split: if_splits)
qed

text \<open>What one application can do to the state.\<close>

definition recorded :: "recon_command_id \<Rightarrow> bytes32 \<Rightarrow> reconciler \<Rightarrow> reconciler" where
  "recorded i d s = s\<lparr>rc_processed := bt_insert i d (rc_processed s), rc_accepted := rc_accepted s + 1\<rparr>"

lemma recon_record_Inr: "recon_record i d s = Inr s' \<longleftrightarrow> u64_ok (rc_accepted s + 1) \<and> s' = recorded i d s"
  by (auto simp: recon_record_def recorded_def rbind_Inr_iff ok_or_Inr_iff checked_simps)

lemma recon_record_Inl: "recon_record i d s = Inl e \<longleftrightarrow> \<not> u64_ok (rc_accepted s + 1) \<and> e = ROverflow"
  by (auto simp: recon_record_def rbind_Inl_iff ok_or_Inl_iff checked_simps)

lemma recon_apply_cases:
  assumes "recon_apply to_vec blake3 c s = (r, s')"
  obtains (unchanged) "s' = s" "r \<noteq> Inr Applied"
  | (conflict) "r = Inl RIdempotencyConflict" "rc_halted s = None" "s' = recon_install_halt RIdempotencyConflict s"
  | (failed) e d where "r = Inl e" "rc_halted s = None" "recon_content to_vec blake3 c = Inr d"
      "bt_get (rc_processed s) (recon_command_id c) = None"
      "recon_apply_fresh c s = Inl e" "s' = recorded (recon_command_id c) d (recon_install_halt e s)"
  | (applied) s1 d where "r = Inr Applied" "rc_halted s = None" "recon_content to_vec blake3 c = Inr d"
      "bt_get (rc_processed s) (recon_command_id c) = None"
      "recon_apply_fresh c s = Inr s1" "s' = recorded (recon_command_id c) d s1"
proof (cases "rc_halted s")
  case None
  show ?thesis
  proof (cases "recon_content to_vec blake3 c")
    case (Inr d)
    show ?thesis
    proof (cases "bt_get (rc_processed s) (recon_command_id c)")
      case Fresh: None
      show ?thesis
      proof (cases "recon_apply_fresh c s")
        case Err: (Inl e)
        show ?thesis
          using assms None Inr Fresh Err
          by (cases "recon_record (recon_command_id c) d (recon_install_halt e s)")
            (auto simp: recon_apply_def recon_record_Inr intro: unchanged failed)
      next
        case Ok: (Inr s1)
        show ?thesis
          using assms None Inr Fresh Ok
          by (cases "recon_record (recon_command_id c) d s1")
            (auto simp: recon_apply_def recon_record_Inr intro: unchanged applied)
      qed
    qed (use assms None Inr in \<open>auto simp: recon_apply_def split: if_splits intro: unchanged conflict\<close>)
  qed (use assms None in \<open>auto simp: recon_apply_def intro: unchanged\<close>)
qed (use assms in \<open>auto simp: recon_apply_def intro: unchanged\<close>)

lemma recon_step_invariant:
  assumes "P s" and "\<And>e s. P s \<Longrightarrow> P (recon_install_halt e s)" and "\<And>i d s. P s \<Longrightarrow> P (recorded i d s)"
    and "\<And>s'. rc_halted s = None \<Longrightarrow> recon_apply_fresh c s = Inr s' \<Longrightarrow> P s'"
  shows "P (snd (recon_apply to_vec blake3 c s))"
proof -
  obtain r s' where step: "recon_apply to_vec blake3 c s = (r, s')" by fastforce
  then show ?thesis
    using assms by (cases rule: recon_apply_cases) (simp_all add: step)
qed

section \<open>The invariant\<close>

definition inv_intents :: "reconciler \<Rightarrow> bool" where
  "inv_intents s \<longleftrightarrow> bt_ok (rc_intents s) \<and> bt_ok (rc_trade_to_intent s)
     \<and> bt_ok (rc_ledger_command_to_intent s)
     \<and> (\<forall>k i. bt_get (rc_intents s) k = Some i \<longrightarrow> ti_intent_id i = k \<and> validate_intent i = Inr ()
          \<and> bt_get (rc_trade_to_intent s) (ti_trade_id i) = Some k
          \<and> bt_get (rc_ledger_command_to_intent s) (ti_ledger_command_id i) = Some k)
     \<and> (\<forall>t k. bt_get (rc_trade_to_intent s) t = Some k
          \<longrightarrow> (\<exists>i. bt_get (rc_intents s) k = Some i \<and> ti_trade_id i = t))
     \<and> (\<forall>c k. bt_get (rc_ledger_command_to_intent s) c = Some k
          \<longrightarrow> (\<exists>i. bt_get (rc_intents s) k = Some i \<and> ti_ledger_command_id i = c))"

definition inv_trades :: "reconciler \<Rightarrow> bool" where
  "inv_trades s \<longleftrightarrow> bt_ok (rc_trades s)
     \<and> (\<forall>t v. bt_get (rc_trades s) t = Some v \<longrightarrow> to_trade_id v = t \<and> validate_observation v = Inr ()
          \<and> (\<exists>k i. bt_get (rc_trade_to_intent s) t = Some k \<and> bt_get (rc_intents s) k = Some i \<and> facts_match i v))"

definition inv_mode :: "reconciler \<Rightarrow> bool" where
  "inv_mode s \<longleftrightarrow> (rc_mode s = ModeHalted \<longleftrightarrow> rc_halted s \<noteq> None)
     \<and> (rc_mode s = Reconciled \<longrightarrow> (\<exists>f. rc_last_frame s = Some f \<and> sources_agree s f
          \<and> list_all (settled s f) (map snd (rc_intents s))))"

definition recon_inv :: "reconciler \<Rightarrow> bool" where
  "recon_inv s \<longleftrightarrow> inv_intents s \<and> inv_trades s \<and> inv_mode s"

lemma recorded_fields [simp]:
  "rc_config (recorded i d s) = rc_config s" "rc_intents (recorded i d s) = rc_intents s"
  "rc_trade_to_intent (recorded i d s) = rc_trade_to_intent s"
  "rc_ledger_command_to_intent (recorded i d s) = rc_ledger_command_to_intent s"
  "rc_trades (recorded i d s) = rc_trades s" "rc_last_frame (recorded i d s) = rc_last_frame s"
  "rc_mode (recorded i d s) = rc_mode s" "rc_halted (recorded i d s) = rc_halted s"
  "rc_processed (recorded i d s) = bt_insert i d (rc_processed s)"
  "rc_accepted (recorded i d s) = rc_accepted s + 1"
  by (simp_all add: recorded_def)

lemma install_halt_fields [simp]:
  "rc_config (recon_install_halt e s) = rc_config s" "rc_intents (recon_install_halt e s) = rc_intents s"
  "rc_trade_to_intent (recon_install_halt e s) = rc_trade_to_intent s"
  "rc_ledger_command_to_intent (recon_install_halt e s) = rc_ledger_command_to_intent s"
  "rc_trades (recon_install_halt e s) = rc_trades s" "rc_last_frame (recon_install_halt e s) = rc_last_frame s"
  "rc_mode (recon_install_halt e s) = ModeHalted"
  "rc_halted (recon_install_halt e s) = Some (recon_error_text e)"
  "rc_processed (recon_install_halt e s) = rc_processed s"
  "rc_accepted (recon_install_halt e s) = rc_accepted s"
  by (simp_all add: recon_install_halt_def)

lemma agree_cong:
  assumes "rc_config s' = rc_config s" and "rc_intents s' = rc_intents s" and "rc_trades s' = rc_trades s"
  shows "sources_agree s' = sources_agree s" and "settled s' = settled s"
  using assms by (simp_all add: sources_agree_def settled_def confirmed_if_posted_def expected_ids_def fun_eq_iff
      cong: option.case_cong list.pred_cong)

lemma agree_frame [simp]:
  "sources_agree (recorded i d s) = sources_agree s" "settled (recorded i d s) = settled s"
  by (rule agree_cong; simp)+

lemma recon_inv_frame:
  "recon_inv s \<Longrightarrow> recon_inv (recorded i d s)"
  "recon_inv s \<Longrightarrow> recon_inv (recon_install_halt e s)"
  by (simp_all add: recon_inv_def inv_intents_def inv_trades_def inv_mode_def)

lemma register_inv:
  assumes "recon_inv s" and "rc_halted s = None" and "recon_register i s = Inr s'"
  shows "recon_inv s'"
proof -
  note r = recon_register_Inr [OF assms(3)]
  have I: "\<And>k v. bt_get (rc_intents s) k = Some v \<Longrightarrow> ti_intent_id v = k \<and> validate_intent v = Inr ()
          \<and> bt_get (rc_trade_to_intent s) (ti_trade_id v) = Some k
          \<and> bt_get (rc_ledger_command_to_intent s) (ti_ledger_command_id v) = Some k"
      "\<And>t k. bt_get (rc_trade_to_intent s) t = Some k \<Longrightarrow> \<exists>v. bt_get (rc_intents s) k = Some v \<and> ti_trade_id v = t"
      "\<And>c k. bt_get (rc_ledger_command_to_intent s) c = Some k
          \<Longrightarrow> \<exists>v. bt_get (rc_intents s) k = Some v \<and> ti_ledger_command_id v = c"
      "bt_ok (rc_intents s)" "bt_ok (rc_trade_to_intent s)" "bt_ok (rc_ledger_command_to_intent s)"
    using assms(1) unfolding recon_inv_def inv_intents_def by blast+
  have "inv_intents s'"
    using r(1-4) I(4-6) unfolding inv_intents_def r(6)
    by (auto simp: bt_simps dest!: I(2,3)) (metis I(1) option.distinct(1))+
  moreover have "\<exists>k j. bt_get (rc_trade_to_intent s') t = Some k \<and> bt_get (rc_intents s') k = Some j \<and> facts_match j v"
    if v: "bt_get (rc_trades s) t = Some v" for t v
  proof -
    obtain k j where kj: "bt_get (rc_trade_to_intent s) t = Some k" "bt_get (rc_intents s) k = Some j" "facts_match j v"
      using assms(1) v unfolding recon_inv_def inv_trades_def by blast
    then have "k \<noteq> ti_intent_id i" "t \<noteq> ti_trade_id i"
      using r(2,3) by auto
    then show ?thesis using kj by (auto simp: r(6) bt_simps)
  qed
  then have "inv_trades s'"
    using assms(1) unfolding recon_inv_def inv_trades_def by (simp add: r(6))
  ultimately show ?thesis
    using assms(1,2) r by (auto simp: recon_inv_def inv_mode_def)
qed

lemma observe_inv:
  assumes "recon_inv s" and "rc_halted s = None" and "recon_observe_trade v s = Inr s'"
  shows "recon_inv s'"
  using assms(3)
proof (rule recon_observe_Inr)
  fix k intent
  assume *: "validate_observation v = Inr ()" "bt_get (rc_trade_to_intent s) (to_trade_id v) = Some k"
    "bt_get (rc_intents s) k = Some intent" "facts_match intent v"
    and s': "s' = s\<lparr>rc_trades := bt_insert (to_trade_id v) v (rc_trades s), rc_mode := Pending\<rparr>"
  have "inv_trades s'"
    using assms(1) * by (auto simp: s' recon_inv_def inv_trades_def bt_simps)
  then show ?thesis
    using assms(1,2) by (auto simp: s' recon_inv_def inv_mode_def inv_intents_def)
qed

lemma reconcile_inv:
  assumes "recon_inv s" and "rc_halted s = None" and "recon_reconcile f s = Inr s'"
  shows "recon_inv s'"
proof -
  note r = recon_reconcile_Inr [OF assms(3)]
  obtain m where s': "s' = s\<lparr>rc_mode := m, rc_last_frame := Some f\<rparr>" "m = Pending \<or> m = Reconciled"
    using r(4) by blast
  have "sources_agree s' = sources_agree s" "settled s' = settled s"
    by (rule agree_cong; simp add: s'(1))+
  then show ?thesis
    using assms(1,2) r(3,5) s' by (auto simp: recon_inv_def inv_mode_def inv_intents_def inv_trades_def)
qed

lemma recon_apply_inv: "recon_inv s \<Longrightarrow> recon_inv (snd (recon_apply to_vec blake3 c s))"
  by (rule recon_step_invariant)
    (cases c; auto simp: recon_inv_frame intro: register_inv observe_inv reconcile_inv)+

lemma recon_new_inv: "reconciler_new cfg = Inr s \<Longrightarrow> recon_inv s"
  by (auto simp: reconciler_new_def rbind_Inr_iff recon_inv_def inv_intents_def inv_trades_def inv_mode_def)

section \<open>The reconciler as a command engine\<close>

lemma recon_fresh_frame:
  assumes "recon_apply_fresh c s = Inr s'"
  shows "rc_processed s' = rc_processed s" and "rc_accepted s' = rc_accepted s"
    and "rc_halted s' = rc_halted s" and "rc_config s' = rc_config s"
  using assms
  by (cases c; auto dest!: recon_register_Inr(6) recon_reconcile_Inr(4) elim!: recon_observe_Inr)+

interpretation recon_engine: command_engine "recon_apply to_vec blake3" recon_command_id
  "recon_content to_vec blake3" "\<lambda>s. bt_get (rc_processed s)" rc_accepted "\<lambda>s. rc_halted s \<noteq> None"
  for to_vec blake3
  by unfold_locales
    (auto simp: recon_apply_def recon_record_Inr recon_record_Inl recon_fresh_frame bt_get_insert fun_eq_iff
      split: option.split_asm sum.split_asm if_splits)

section \<open>Histories\<close>

text \<open>What no later command undoes.\<close>

definition status_le :: "trade_observation option \<Rightarrow> trade_observation option \<Rightarrow> bool" where
  "status_le p n \<longleftrightarrow> (case (p, n) of
     (None, _) \<Rightarrow> True
   | (Some _, None) \<Rightarrow> False
   | (Some a, Some b) \<Rightarrow> status_step\<^sup>*\<^sup>* (to_status a) (to_status b) \<and> to_updated_at a \<le> to_updated_at b
       \<and> to_matched_at a = to_matched_at b \<and> (is_terminal (to_status a) \<longrightarrow> a = b))"

definition recon_le :: "reconciler \<Rightarrow> reconciler \<Rightarrow> bool" where
  "recon_le s s' \<longleftrightarrow> rc_config s' = rc_config s
     \<and> (\<forall>k i. bt_get (rc_intents s) k = Some i \<longrightarrow> bt_get (rc_intents s') k = Some i)
     \<and> (\<forall>t. status_le (bt_get (rc_trades s) t) (bt_get (rc_trades s') t))
     \<and> (\<forall>p. rc_last_frame s = Some p \<longrightarrow> (\<exists>f. rc_last_frame s' = Some f \<and> frame_le p f))"

lemma status_le_refl: "status_le p p"
  by (auto simp: status_le_def split: option.splits)

lemma status_le_trans: "status_le p q \<Longrightarrow> status_le q r \<Longrightarrow> status_le p r"
  by (auto simp: status_le_def split: option.splits intro: rtranclp_trans)

lemma recon_le_refl: "recon_le s s"
  by (auto simp: recon_le_def status_le_refl frame_le_refl)

lemma recon_le_trans: "recon_le s s' \<Longrightarrow> recon_le s' s'' \<Longrightarrow> recon_le s s''"
  unfolding recon_le_def by (metis status_le_trans frame_le_trans)

lemma validate_transition_le: "validate_transition p n = Inr u \<Longrightarrow> status_le (Some p) (Some n)"
  by (auto simp: validate_transition_Inr status_le_def split: if_splits)

lemma recon_fresh_le:
  assumes "recon_inv s" and "recon_apply_fresh c s = Inr s'"
  shows "recon_le s s'"
proof (cases c)
  case (RegisterIntent k i t)
  then have r: "recon_register i s = Inr s'" using assms(2) by simp
  note r = recon_register_Inr [OF r]
  show ?thesis
    using r(2) by (auto simp: r(6) recon_le_def bt_simps status_le_refl frame_le_refl)
next
  case (ObserveTrade k v t)
  then have "recon_observe_trade v s = Inr s'" using assms(2) by simp
  then show ?thesis
  proof (rule recon_observe_Inr)
    assume c: "case bt_get (rc_trades s) (to_trade_id v) of
           Some p \<Rightarrow> validate_transition p v = Inr () | None \<Rightarrow> to_status v = Matched"
      and s': "s' = s\<lparr>rc_trades := bt_insert (to_trade_id v) v (rc_trades s), rc_mode := Pending\<rparr>"
    have "status_le (bt_get (rc_trades s) (to_trade_id v)) (Some v)"
      using c by (cases "bt_get (rc_trades s) (to_trade_id v)")
        (auto dest: validate_transition_le simp: status_le_def [of None])
    then show ?thesis
      by (auto simp: s' recon_le_def bt_simps status_le_refl frame_le_refl)
  qed
next
  case (Reconcile k f t)
  then have r: "recon_reconcile f s = Inr s'" using assms(2) by simp
  show ?thesis
    using recon_reconcile_Inr(2,4) [OF r] by (auto simp: recon_le_def status_le_refl)
qed

lemma recon_step_le:
  assumes "recon_inv s"
  shows "recon_le s (snd (recon_apply to_vec blake3 c s))"
  by (rule recon_step_invariant [where P = "recon_le s"])
    (auto simp: recon_le_refl intro: recon_fresh_le [OF assms], auto simp: recon_le_def)

lemma recon_run_le:
  assumes "recon_inv s"
  shows "recon_inv (run_commands (recon_apply to_vec blake3) cs s)
    \<and> recon_le s (run_commands (recon_apply to_vec blake3) cs s)"
  by (rule run_commands_invariant [where P = "\<lambda>s'. recon_inv s' \<and> recon_le s s'"])
    (auto simp: assms recon_le_refl recon_apply_inv intro: recon_le_trans recon_step_le)

lemma collect_token_Inr:
  "collect_token m e = Inr m' \<longleftrightarrow> recon_validate_token (fst e) = Inr () \<and> 0 < snd e
     \<and> bt_get m (fst e) = None \<and> m' = bt_insert (fst e) (snd e) m"
  by (auto simp: collect_token_def bt_contains_def rbind_Inr_iff if_Inr_iff)

lemma collect_fold:
  assumes "try_fold collect_token m es = Inr m'"
  shows "bt_get m' k = (case bt_get m k of Some v \<Rightarrow> Some v | None \<Rightarrow> map_of es k)"
  using assms
proof (induction es arbitrary: m)
  case (Cons e es)
  obtain m1 where m1: "collect_token m e = Inr m1" "try_fold collect_token m1 es = Inr m'"
    using Cons.prems by (auto simp: rbind_Inr_iff)
  show ?case
    using Cons.IH [OF m1(2)] m1(1) by (cases e) (auto simp: collect_token_Inr bt_simps split: option.splits)
qed (simp split: option.splits)

lemma collect_tokens_get: "collect_tokens es = Inr m \<Longrightarrow> bt_get m k = map_of es k"
  by (auto simp: collect_tokens_def rbind_Inr_iff if_Inr_iff dest: collect_fold [where k = k])

lemma ledger_tokens_amount: "ledger_tokens v = Inr m \<Longrightarrow> bt_get_or m t 0 = ctb_amount (rv_token_balances v) t"
  by (auto simp: ledger_tokens_def ctb_amount_def bt_get_or_def bt_get_def [of "map _ _"] dest!: collect_tokens_get [where k = t])

definition chain_amount :: "chain_snapshot \<Rightarrow> token_key \<Rightarrow> int" where
  "chain_amount c t = bt_get_or (map (\<lambda>b. (chb_token b, chb_balance b)) (ch_token_balances c)) t 0"

lemma chain_tokens_amount: "chain_tokens c = Inr m \<Longrightarrow> bt_get_or m t 0 = chain_amount c t"
  by (auto simp: chain_tokens_def chain_amount_def bt_get_or_def bt_get_def [of "map _ _"] dest!: collect_tokens_get [where k = t])

lemma bs_mem_filter: "bs_mem k (filter (\<lambda>e. P (fst e)) m) \<longleftrightarrow> P k \<and> bs_mem k m"
  by (auto simp: bs_mem_keys image_iff) force

lemma status_le_terminal: "status_le (Some a) q \<Longrightarrow> is_terminal (to_status a) \<Longrightarrow> q = Some a"
  by (auto simp: status_le_def split: option.splits)

section \<open>A concrete trade\<close>

text \<open>The purchase of three tokens for one unit and a fee of one, from its intent to the frame that
  reconciles it with the ledger and the chain.\<close>

definition demo_config :: recon_config where
  "demo_config = \<lparr>cf_chain_id = 137, cf_wallet = ''w'', cf_confirmation_grace = 5, cf_max_intents = 4,
     cf_max_tokens = 4\<rparr>"

definition demo_intent :: trade_intent where
  "demo_intent = \<lparr>ti_intent_id = 1, ti_trade_id = ''t'', ti_order_id = ''o'', ti_token = demo_up,
     ti_side = Buy, ti_quantity = 3, ti_consideration = 1, ti_fee = 1, ti_ledger_command_id = 3\<rparr>"

definition demo_observed :: "trade_status \<Rightarrow> string option \<Rightarrow> int \<Rightarrow> trade_observation" where
  "demo_observed st h t = \<lparr>to_trade_id = ''t'', to_order_id = ''o'', to_token = demo_up, to_side = Buy,
     to_quantity = 3, to_consideration = 1, to_fee = 1, to_status = st, to_transaction_hash = h,
     to_matched_at = 1, to_updated_at = t\<rparr>"

definition demo_trade :: "recon_command list" where
  "demo_trade = [RegisterIntent 1 demo_intent 0, ObserveTrade 2 (demo_observed Matched None 1) 1,
     ObserveTrade 3 (demo_observed Mined (Some ''x'') 2) 2,
     ObserveTrade 4 (demo_observed Confirmed (Some ''x'') 3) 3]"

definition demo_chain :: chain_snapshot where
  "demo_chain = \<lparr>ch_chain_id = 137, ch_wallet = ''w'', ch_block_number = 9, ch_block_hash = ''b'',
     ch_finalized_at = 3, ch_observed_at = 4, ch_collateral = 8,
     ch_token_balances = [\<lparr>chb_token = demo_up, chb_balance = 3\<rparr>]\<rparr>"

definition demo_posted :: "ledger_command list" where
  "demo_posted = [FundCollateral 1 10 0, ReserveCollateral 2 21 6 0, ConfirmBuy 3 21 demo_up 3 1 1 ''tx'' 0]"

definition demo_initial :: reconciler where
  "demo_initial = (case reconciler_new demo_config of Inr s \<Rightarrow> s | Inl _ \<Rightarrow> undefined)"

abbreviation demo_apply :: "recon_command \<Rightarrow> reconciler \<Rightarrow> (recon_error + apply_outcome) \<times> reconciler" where
  "demo_apply \<equiv> recon_apply (\<lambda>_. Inr ''w'') (\<lambda>_. 7)"

definition demo_recon :: "recon_command list \<Rightarrow> reconciler" where
  "demo_recon cs = run_commands demo_apply cs demo_initial"

lemma demo_new: "reconciler_new demo_config = Inr demo_initial"
  by code_simp

lemma demo_recon_trade: "rc_mode (demo_recon demo_trade) = Pending \<and> rc_halted (demo_recon demo_trade) = None"
  by code_simp


section \<open>Properties\<close>

lemma recon_reachable:
  "reconciler_new cfg = Inr s0 \<Longrightarrow> recon_inv (run_commands (recon_apply to_vec blake3) cs s0)"
  using recon_run_le recon_new_inv by blast

text \<open>The three indices and the trades of every reachable reconciler are consistent: every
  intent is valid and found under its id, trade id and ledger command id, and under no other;
  every observed trade is valid (so a mined or confirmed one names its transaction) and repeats
  the facts of a registered intent; and the mode is \<open>Halted\<close> exactly when the reconciler is halted.\<close>
theorem recon_state_consistent:
  assumes "reconciler_new cfg = Inr s0" and "s = run_commands (recon_apply to_vec blake3) cs s0"
  shows "inv_intents s \<and> inv_trades s \<and> (rc_mode s = ModeHalted \<longleftrightarrow> rc_halted s \<noteq> None)"
  using recon_reachable [OF assms(1), of to_vec blake3 cs] unfolding assms(2) [symmetric]
  by (simp add: recon_inv_def inv_mode_def)

theorem recon_state_consistent_witness:
  "inv_intents (demo_recon demo_trade) \<and> inv_trades (demo_recon demo_trade) \<and> rc_halted (demo_recon demo_trade) = None"
  using recon_state_consistent [OF demo_new demo_recon_def [of demo_trade]] demo_recon_trade by simp

text \<open>Nothing settled is ever undone: after any further commands every intent is still
  registered unchanged, every observed trade has moved along the status automaton (matched, mined,
  retrying, then confirmed from mined or failed from retrying) without going back in time, a
  confirmed or failed trade is exactly what it was, and the last frame has not been replaced by one
  with an earlier evaluation, ledger history or finalized block, or by another block or ledger of
  the same height.\<close>
theorem recon_history_monotone:
  assumes "reconciler_new cfg = Inr s0" and "s = run_commands (recon_apply to_vec blake3) cs s0"
    and "s' = run_commands (recon_apply to_vec blake3) ds s"
  shows "(bt_get (rc_intents s) k = Some i \<longrightarrow> bt_get (rc_intents s') k = Some i)
    \<and> status_le (bt_get (rc_trades s) t) (bt_get (rc_trades s') t)
    \<and> (rc_last_frame s = Some p \<longrightarrow> (\<exists>f. rc_last_frame s' = Some f \<and> frame_le p f))"
proof -
  have "recon_inv s"
    unfolding assms(2) by (rule recon_reachable [OF assms(1)])
  then have "recon_le s s'"
    unfolding assms(3) using recon_run_le by blast
  then show ?thesis
    by (simp add: recon_le_def)
qed

theorem recon_history_monotone_witness:
  "bt_get (rc_trades (demo_recon demo_trade)) ''t'' = Some (demo_observed Confirmed (Some ''x'') 3)
   \<and> bt_get (rc_trades (run_commands demo_apply [ObserveTrade 5 (demo_observed Failed None 9) 9] (demo_recon demo_trade))) ''t''
     = Some (demo_observed Confirmed (Some ''x'') 3)"
proof -
  have t: "bt_get (rc_trades (demo_recon demo_trade)) ''t'' = Some (demo_observed Confirmed (Some ''x'') 3)"
    by code_simp
  have f: "is_terminal (to_status (demo_observed Confirmed (Some ''x'') 3))"
    by (simp add: demo_observed_def)
  have "status_le (bt_get (rc_trades (demo_recon demo_trade)) ''t'')
      (bt_get (rc_trades (run_commands demo_apply [ObserveTrade 5 (demo_observed Failed None 9) 9] (demo_recon demo_trade))) ''t'')"
    using recon_history_monotone [OF demo_new demo_recon_def [of demo_trade] refl] by blast
  then show ?thesis
    using status_le_terminal [OF _ f] t by metis
qed


definition demo_frame :: recon_frame where
  "demo_frame = the (capture_frame (\<lambda>_. 5) (demo_recon demo_trade) (demo_ledger demo_posted) demo_chain 4)"

lemma demo_capture:
  "capture_frame (\<lambda>_. 5) (demo_recon demo_trade) (demo_ledger demo_posted) demo_chain 4 = Some demo_frame"
  by code_simp

lemma demo_reconciled:
  "fst (demo_apply (Reconcile 5 demo_frame 5) (demo_recon demo_trade)) = Inr Applied
   \<and> rc_mode (demo_recon (demo_trade @ [Reconcile 5 demo_frame 5])) = Reconciled"
  by code_simp


text \<open>C11: Reconciling a frame captured from the real ledger, in any state the ledger can reach, against
  a finalized chain snapshot: when it ends \<open>Reconciled\<close>, the wallet's collateral is the ledger's free
  cash plus the cash its reservations hold, its balance of every token is what the ledger has
  available, reserved and locked, and the ledger has processed the command of an intent exactly
  when that trade was confirmed.\<close>
theorem reconciled_ledger_matches_wallet:
  assumes "reconciler_new cfg = Inr s0" and "s = run_commands (recon_apply to_vec blake3) cs s0"
    and "l = ledger_after to_vec' blake3' ls"
    and "capture_frame ld s l chain t = Some f"
    and "recon_apply to_vec blake3 (Reconcile i f at) s = (Inr Applied, s')" and "rc_mode s' = Reconciled"
  shows "ch_collateral chain = balance l CashAvailable Collateral + cash_reserved_total (reservations l)
    \<and> chain_amount chain tok = balance l TokenAvailable (Outcome tok)
         + token_reserved (reservations l) tok + locked_total (locks l) tok
    \<and> list_all (\<lambda>v. \<exists>x. bt_get (rc_trades s) (ti_trade_id v) = Some x \<and> is_terminal (to_status x)
         \<and> (bt_contains (processed l) (ti_ledger_command_id v) \<longleftrightarrow> to_status x = Confirmed))
       (map snd (rc_intents s))"
proof -
  have inv: "ledger_inv l" and ver: "verify_invariants l = Inr ()"
    unfolding assms(3) by (rule reachable_inv, rule reachable_verified)
  obtain s1 where fresh: "recon_reconcile f s = Inr s1" "rc_mode s1 = Reconciled"
    using assms(5,6) by (cases rule: recon_apply_cases) (auto simp: recon_apply_def split: option.split_asm sum.split_asm if_splits)
  obtain view where view: "ledger_reconciliation_view ld (expected_ids s) l = Some view" "f = \<lparr>fr_ledger = view, fr_chain = chain, fr_evaluated_at = t\<rparr>"
    using assms(4) by (auto simp: capture_frame_def bind_eq_Some_conv)
  obtain m where agree: "rv_collateral_micros view = ch_collateral chain" "ledger_tokens view = Inr m" "chain_tokens chain = Inr m"
    using recon_reconcile_Inr(3) [OF fresh(1)] by (auto simp: sources_agree_def view(2))
  have set: "list_all (settled s f) (map snd (rc_intents s))"
    by (rule recon_reconcile_Inr(5) [OF fresh])
  obtain tokens where tokens: "token_category holds_tokens l = Some tokens" "ctb_amount tokens tok = selected holds_tokens (balances l) tok"
    using category_exact [OF inv ver, of holds_tokens] by auto
  have v: "rv_collateral_micros view = balance l CashAvailable Collateral + ledger_cash_reserved l"
      "rv_token_balances view = tokens"
      "rv_present_command_ids view = filter (\<lambda>e. bt_contains (processed l) (fst e)) (expected_ids s)"
    using view(1) tokens(1) by (auto simp: ledger_reconciliation_view_def ledger_snapshot_def checked_simps
        bind_eq_Some_conv split: sum.split_asm)
  have "posted i f \<longleftrightarrow> bt_contains (processed l) (ti_ledger_command_id i)" if "i \<in> set (map snd (rc_intents s))" for i
    using that by (force simp: posted_def view(2) v(3) bs_mem_filter [where P = "bt_contains (processed l)"] expected_ids_def bs_mem_of_list)
  then have "list_all (\<lambda>v. \<exists>x. bt_get (rc_trades s) (ti_trade_id v) = Some x \<and> is_terminal (to_status x)
         \<and> (bt_contains (processed l) (ti_ledger_command_id v) \<longleftrightarrow> to_status x = Confirmed)) (map snd (rc_intents s))"
    using set unfolding list_all_iff by (fastforce simp: settled_def split: option.split_asm)
  moreover have "chain_amount chain tok = ctb_amount tokens tok"
    using ledger_tokens_amount [OF agree(2), of tok] chain_tokens_amount [OF agree(3), of tok] v(2) by simp
  ultimately show ?thesis
    using agree(1) v(1) tokens(2) ledger_cash_reserved_eq [OF inv ver] selected_held [of "balances l" tok]
      selected_available [OF inv] selected_reserved [OF inv] selected_locked [OF inv] by simp
qed

theorem reconciled_ledger_matches_wallet_witness:
  "ch_collateral demo_chain = balance (demo_ledger demo_posted) CashAvailable Collateral
     + cash_reserved_total (reservations (demo_ledger demo_posted)) \<and> ch_collateral demo_chain = 8"
proof -
  have 1: "demo_apply (Reconcile 5 demo_frame 5) (demo_recon demo_trade)
      = (Inr Applied, demo_recon (demo_trade @ [Reconcile 5 demo_frame 5]))"
    using demo_reconciled by (simp add: prod_eq_iff demo_recon_def run_commands_append)
  show ?thesis
    using reconciled_ledger_matches_wallet [OF demo_new demo_recon_def demo_ledger_def demo_capture 1] demo_reconciled
    by (simp add: demo_chain_def)
qed

text \<open>Repeating an accepted command of the reconciler later is a no-op as long as nothing halted
  it; another command under its id is refused and halts it; and once halted it never changes.\<close>
theorem recon_idempotent:
  assumes "recon_apply to_vec blake3 c s = (Inr out, s1)"
    and "rc_halted (run_commands (recon_apply to_vec blake3) cs s1) = None"
    and "recon_command_id c' = recon_command_id c"
    and "recon_content to_vec blake3 c' = Inr d'" and "recon_content to_vec blake3 c \<noteq> Inr d'"
  shows "(\<exists>out'. recon_apply to_vec blake3 c (run_commands (recon_apply to_vec blake3) cs s1)
           = (Inr out', run_commands (recon_apply to_vec blake3) cs s1))
    \<and> (\<exists>e s2. recon_apply to_vec blake3 c' (run_commands (recon_apply to_vec blake3) cs s1) = (Inl e, s2)
        \<and> rc_halted s2 \<noteq> None \<and> run_commands (recon_apply to_vec blake3) ds s2 = s2)"
proof -
  obtain r s2 where s2: "recon_apply to_vec blake3 c' (run_commands (recon_apply to_vec blake3) cs s1) = (r, s2)"
    by fastforce
  have "(\<exists>e. r = Inl e) \<and> rc_halted s2 \<noteq> None"
    using recon_engine.equivocation_halts [OF assms(1,3,4), of cs] assms(4,5) s2 by auto
  then show ?thesis
    using recon_engine.replay_is_noop [OF assms(1)] assms(2) s2 recon_engine.halted_absorbing [of s2 to_vec blake3 ds]
    by auto
qed

definition demo_recon_bytes :: "recon_command wire \<Rightarrow> string + string" where
  "demo_recon_bytes w = (case wire_command w of RegisterIntent _ i _ \<Rightarrow> Inr (ti_order_id i) | _ \<Rightarrow> Inr [])"

theorem recon_idempotent_witness:
  "\<exists>e s2. recon_apply demo_recon_bytes demo_hash (RegisterIntent 1 (demo_intent\<lparr>ti_order_id := ''z''\<rparr>) 0)
     (snd (recon_apply demo_recon_bytes demo_hash (RegisterIntent 1 demo_intent 0) demo_initial)) = (Inl e, s2)
     \<and> rc_halted s2 \<noteq> None"
proof -
  let ?a = "recon_apply demo_recon_bytes demo_hash"
  let ?s = "snd (?a (RegisterIntent 1 demo_intent 0) demo_initial)"
  have "fst (?a (RegisterIntent 1 demo_intent 0) demo_initial) = Inr Applied"
    by code_simp
  then have 1: "?a (RegisterIntent 1 demo_intent 0) demo_initial = (Inr Applied, ?s)"
    by (simp add: prod_eq_iff)
  have 2: "rc_halted (run_commands ?a [] ?s) = None"
    by code_simp
  have 3: "recon_content demo_recon_bytes demo_hash (RegisterIntent 1 (demo_intent\<lparr>ti_order_id := ''z''\<rparr>) 0) = Inr 122"
      "recon_content demo_recon_bytes demo_hash (RegisterIntent 1 demo_intent 0) \<noteq> Inr 122"
    by code_simp+
  show ?thesis
    using recon_idempotent [OF 1 2 _ 3] unfolding run_commands.simps by (simp, blast)
qed

end
