(* ===== verification/Portfolio_Risk.thy ===== *)
theory Portfolio_Risk
  imports Reconciliation
begin

text \<open>
  The scenario risk gate of \<open>crates/portfolio-risk/src/lib.rs\<close>: a request is
  checked, every combination of fills, market outcomes and shocks is priced, and a
  trade is approved when the worst of them stays within the limits. This theory
  holds the data and the operations; \<open>Portfolio_Risk_Theorems\<close> what they guarantee.
  The hash and the serialiser are the fields of \<open>risk_codec\<close>.
\<close>

section \<open>Data\<close>

type_synonym risk_command_id = bytes32
type_synonym risk_order_id = bytes32

datatype order_side = BuySide | SellSide

record market_risk =
  mr_condition_id :: string
  mr_up :: token_key
  mr_down :: token_key
  mr_shock_group :: string

record order_exposure =
  oe_order_id :: risk_order_id
  oe_token :: token_key
  oe_side :: order_side
  oe_quantity :: int
  oe_partial_fill :: int
  oe_limit_price :: int
  oe_max_fee :: int

record group_multiplier =
  gm_shock_group :: string
  gm_multiplier_bps :: int

record shock_profile =
  sh_shock_id :: string
  sh_group_multipliers :: "group_multiplier list"

record risk_limits =
  rl_capital_floor :: int
  rl_operational_reserve :: int
  rl_pending_settlement_reserve :: int
  rl_max_gross_exposure :: int
  rl_max_condition_exposure :: int
  rl_max_group_exposure :: int
  rl_reserved_cash_haircut_bps :: int
  rl_available_token_haircut_bps :: int
  rl_reserved_token_haircut_bps :: int
  rl_locked_token_haircut_bps :: int
  rl_max_reconciliation_age :: int
  rl_max_open_orders :: int
  rl_max_scenarios :: int

record risk_request =
  rq_reconciliation :: recon_risk_gate
  rq_ledger :: ledger_risk_view
  rq_markets :: "market_risk list"
  rq_open_orders :: "order_exposure list"
  rq_candidate :: order_exposure
  rq_additional_candidates :: "order_exposure list"
  rq_shocks :: "shock_profile list"
  rq_limits :: risk_limits
  rq_evaluated_at :: int

datatype risk_command = Evaluate risk_command_id risk_request int

fun risk_command_id :: "risk_command \<Rightarrow> risk_command_id" where
  "risk_command_id (Evaluate i _ _) = i"

fun risk_recorded_at :: "risk_command \<Rightarrow> int" where
  "risk_recorded_at (Evaluate _ _ t) = t"

datatype decision_status = Approve | NoTrade

datatype decision_reason =
    AllLimitsSatisfied
  | ReconciliationNotReady
  | ReconciliationStale
  | ProvenanceMismatch
  | LedgerHalted
  | InvalidFrame
  | ReservationMismatchReason
  | CandidateCapacity
  | ScenarioBudget
  | CapitalFloor
  | GrossExposure
  | ConditionExposure
  | GroupExposure

record scenario_witness =
  sw_fill_quantities :: "int list"
  sw_outcome_bits :: "int list"
  sw_shock_id :: string
  sw_terminal_wealth :: int
  sw_gross_exposure :: int
  sw_max_condition_exposure :: int
  sw_max_group_exposure :: int

record risk_decision =
  rd_command_id :: risk_command_id
  rd_evaluated_at :: int
  rd_status :: decision_status
  rd_reason :: decision_reason
  rd_minimum_terminal_wealth :: "int option"
  rd_scenario_count :: int
  rd_witness :: "scenario_witness option"
  rd_reconciliation_digest :: bytes32
  rd_ledger_digest :: bytes32
  rd_candidate_order_digest :: bytes32
  rd_decision_digest :: bytes32

datatype risk_error =
    KTimestamp
  | KCommandBound
  | KJson string
  | KVersion int
  | KIdempotencyConflict
  | KReconciliationHistory
  | KOverflow
  | KHalted string

fun risk_error_text :: "risk_error \<Rightarrow> string" where
  "risk_error_text KTimestamp = ''risk command timestamp is invalid''"
| "risk_error_text KCommandBound = ''risk command exceeds its canonical bound''"
| "risk_error_text (KJson e) = ''risk command JSON is invalid: '' @ e"
| "risk_error_text (KVersion v) = ''unsupported risk command version: '' @ show_nat (nat v)"
| "risk_error_text KIdempotencyConflict = ''risk command id was reused for different content''"
| "risk_error_text KReconciliationHistory = ''reconciliation history regressed or equivocated''"
| "risk_error_text KOverflow = ''risk arithmetic overflow''"
| "risk_error_text (KHalted reason) = ''risk engine is halted: '' @ reason"

record risk_engine =
  rk_processed :: "(risk_command_id, bytes32 \<times> risk_decision) btree"
  rk_accepted :: int
  rk_last_evaluated_at :: "int option"
  rk_last_reconciled_at :: "int option"
  rk_last_reconciliation_digest :: "bytes32 option"
  rk_last_decision :: "risk_decision option"
  rk_halted :: "string option"

definition risk_engine_default :: risk_engine where
  "risk_engine_default = \<lparr>rk_processed = [], rk_accepted = 0, rk_last_evaluated_at = None,
     rk_last_reconciled_at = None, rk_last_reconciliation_digest = None, rk_last_decision = None,
     rk_halted = None\<rparr>"

text \<open>\<open>serde_json\<close> on the types that are hashed, and \<open>blake3\<close>.\<close>

record risk_codec =
  kc_to_vec :: "risk_command wire \<Rightarrow> string + string"
  kc_order_json :: "order_exposure \<Rightarrow> string"
  kc_decision_json :: "risk_decision \<Rightarrow> string"
  kc_blake3 :: "string \<Rightarrow> bytes32"

section \<open>Digests\<close>

definition order_exposure_digest :: "risk_codec \<Rightarrow> order_exposure \<Rightarrow> bytes32" where
  "order_exposure_digest cx order = kc_blake3 cx
     (''portfolio-risk-order-exposure-v1'' @ prefixed (kc_order_json cx order))"

definition candidate_set_digest :: "risk_codec \<Rightarrow> risk_request \<Rightarrow> bytes32" where
  "candidate_set_digest cx q =
     (if rq_additional_candidates q = [] then order_exposure_digest cx (rq_candidate q)
      else kc_blake3 cx (''portfolio-risk-candidate-set-v1''
        @ concat (map (\<lambda>c. prefixed (kc_order_json cx c)) (rq_candidate q # rq_additional_candidates q))))"

definition decision_digest :: "risk_codec \<Rightarrow> risk_decision \<Rightarrow> bytes32" where
  "decision_digest cx d = kc_blake3 cx (kc_decision_json cx (d\<lparr>rd_decision_digest := 0\<rparr>))"

definition verify_digest :: "risk_codec \<Rightarrow> risk_decision \<Rightarrow> bool" where
  "verify_digest cx d = (rd_decision_digest d = decision_digest cx d)"

section \<open>Arithmetic\<close>

definition risk_div_ceil :: "int \<Rightarrow> int \<Rightarrow> risk_error + int" where
  "risk_div_ceil value divisor =
     rbind (ok_or (sub128 divisor 1) KOverflow) (\<lambda>d.
     rbind (ok_or (add128 value d) KOverflow) (\<lambda>adjusted.
     Inr (tdiv adjusted divisor)))"

definition buy_cost :: "int \<Rightarrow> int \<Rightarrow> risk_error + int" where
  "buy_cost price quantity =
     rbind (ok_or (mul128 price quantity) KOverflow) (\<lambda>product. risk_div_ceil product 1000000)"

definition sale_proceeds :: "int \<Rightarrow> int \<Rightarrow> risk_error + int" where
  "sale_proceeds price quantity =
     rbind (ok_or (mul128 price quantity) KOverflow) (\<lambda>value. Inr (tdiv value 1000000))"

definition partial_fee :: "int \<Rightarrow> int \<Rightarrow> int \<Rightarrow> risk_error + int" where
  "partial_fee fee filled total_quantity =
     rbind (ok_or (mul128 fee filled) KOverflow) (\<lambda>v. risk_div_ceil v total_quantity)"

definition full_buy_cost :: "order_exposure \<Rightarrow> risk_error + int" where
  "full_buy_cost order =
     rbind (buy_cost (oe_limit_price order) (oe_quantity order)) (\<lambda>c.
     ok_or (add128 c (oe_max_fee order)) KOverflow)"

definition haircut :: "int \<Rightarrow> int \<Rightarrow> risk_error + int" where
  "haircut value bps =
     rbind (ok_or (mul128 value bps) KOverflow) (\<lambda>product. Inr (tdiv product 10000))"

text \<open>\<open>binary_search_by\<close> on the multipliers, which \<open>valid_shocks\<close> requires to be strictly sorted.\<close>

definition shock_multiplier :: "shock_profile \<Rightarrow> string \<Rightarrow> int" where
  "shock_multiplier shock grp =
     (case find (\<lambda>e. gm_shock_group e = grp) (sh_group_multipliers shock) of
        None \<Rightarrow> 10000 | Some e \<Rightarrow> gm_multiplier_bps e)"

definition fill_choices :: "order_exposure \<Rightarrow> int list" where
  "fill_choices order =
     [0] @ (if 0 < oe_partial_fill order then [oe_partial_fill order] else []) @ [oe_quantity order]"

definition product_count :: "int list \<Rightarrow> risk_error + int" where
  "product_count counts = try_fold (\<lambda>n value. ok_or (mulu64 n value) KOverflow) 1 counts"

text \<open>The fills with index \<open>i\<close>: a number in the mixed radix of the numbers of choices, each at least
  two by \<open>fill_choices\<close>.\<close>

fun decode_fills :: "int \<Rightarrow> int list list \<Rightarrow> int list" where
  "decode_fills i [] = []"
| "decode_fills i (values # rest) =
     (let radix = int (length values) in values ! nat (i mod radix) # decode_fills (i div radix) rest)"

definition outcome_bits :: "int \<Rightarrow> nat \<Rightarrow> int list" where
  "outcome_bits value count = map (\<lambda>i. if value div 2 ^ i mod 2 = 0 then 0 else 1) [0..<count]"

section \<open>Validation of a request\<close>

definition valid_text :: "string \<Rightarrow> bool" where
  "valid_text s \<longleftrightarrow> s \<noteq> [] \<and> int (length s) \<le> 512"

definition valid_limits :: "risk_limits \<Rightarrow> bool" where
  "valid_limits l \<longleftrightarrow> 0 \<le> rl_capital_floor l \<and> 0 \<le> rl_operational_reserve l
     \<and> 0 \<le> rl_pending_settlement_reserve l \<and> 0 \<le> rl_max_gross_exposure l
     \<and> 0 \<le> rl_max_condition_exposure l \<and> 0 \<le> rl_max_group_exposure l
     \<and> 0 \<le> rl_max_reconciliation_age l \<and> rl_max_open_orders l \<le> 12
     \<and> 0 < rl_max_scenarios l \<and> rl_max_scenarios l \<le> 1000000
     \<and> list_all (\<lambda>v. v \<le> 10000) [rl_reserved_cash_haircut_bps l, rl_available_token_haircut_bps l,
          rl_reserved_token_haircut_bps l, rl_locked_token_haircut_bps l]"

type_synonym market_index = "(token_key, int) btree"

fun market_index_from ::
  "int \<Rightarrow> market_index \<times> string btset \<times> string btset \<Rightarrow> market_risk list
    \<Rightarrow> (market_index \<times> string btset) option" where
  "market_index_from i (by_token, conditions, groups) [] = Some (by_token, groups)"
| "market_index_from i (by_token, conditions, groups) (m # ms) =
     (if \<not> valid_text (mr_condition_id m) \<or> \<not> valid_text (mr_shock_group m)
         \<or> \<not> valid_text (token_id (mr_up m)) \<or> \<not> valid_text (token_id (mr_down m))
         \<or> mr_up m = mr_down m
         \<or> condition_id (mr_up m) \<noteq> mr_condition_id m \<or> condition_id (mr_down m) \<noteq> mr_condition_id m
         \<or> bs_mem (mr_condition_id m) conditions
         \<or> bt_contains by_token (mr_up m)
         \<or> bt_contains (bt_insert (mr_up m) i by_token) (mr_down m)
      then None
      else market_index_from (i + 1)
        (bt_insert (mr_down m) i (bt_insert (mr_up m) i by_token),
         bs_insert (mr_condition_id m) conditions, bs_insert (mr_shock_group m) groups) ms)"

definition market_index :: "market_risk list \<Rightarrow> (market_index \<times> string btset) option" where
  "market_index ms = market_index_from 0 ([], [], []) ms"

fun valid_multipliers :: "string btset \<Rightarrow> string option \<Rightarrow> group_multiplier list \<Rightarrow> bool" where
  "valid_multipliers groups previous [] = True"
| "valid_multipliers groups previous (e # es) \<longleftrightarrow>
     valid_text (gm_shock_group e) \<and> bs_mem (gm_shock_group e) groups \<and> gm_multiplier_bps e \<le> 10000
     \<and> (case previous of None \<Rightarrow> True | Some p \<Rightarrow> p < gm_shock_group e)
     \<and> valid_multipliers groups (Some (gm_shock_group e)) es"

fun valid_shocks_from :: "string btset \<Rightarrow> string btset \<Rightarrow> shock_profile list \<Rightarrow> bool" where
  "valid_shocks_from ids groups [] = True"
| "valid_shocks_from ids groups (s # ss) \<longleftrightarrow>
     valid_text (sh_shock_id s) \<and> \<not> bs_mem (sh_shock_id s) ids
     \<and> valid_multipliers groups None (sh_group_multipliers s)
     \<and> valid_shocks_from (bs_insert (sh_shock_id s) ids) groups ss"

definition valid_shocks :: "shock_profile list \<Rightarrow> string btset \<Rightarrow> bool" where
  "valid_shocks shocks groups = valid_shocks_from [] groups shocks"

definition valid_order :: "order_exposure \<Rightarrow> market_index \<Rightarrow> bool" where
  "valid_order order markets \<longleftrightarrow> bt_contains markets (oe_token order) \<and> 0 < oe_quantity order
     \<and> 0 \<le> oe_partial_fill order \<and> oe_partial_fill order < oe_quantity order
     \<and> 0 \<le> oe_limit_price order \<and> oe_limit_price order \<le> 1000000 \<and> 0 \<le> oe_max_fee order"

fun fills_safe :: "order_exposure \<Rightarrow> int list \<Rightarrow> risk_error + bool" where
  "fills_safe order [] = Inr True"
| "fills_safe order (fill # fills) =
     rbind (partial_fee (oe_max_fee order) fill (oe_quantity order)) (\<lambda>fee.
     rbind (sale_proceeds (oe_limit_price order) fill) (\<lambda>proceeds.
     if proceeds < fee then Inr False else fills_safe order fills))"

definition order_fill_safe :: "order_exposure \<Rightarrow> risk_error + bool" where
  "order_fill_safe order =
     (if oe_side order = BuySide then Inr True
      else fills_safe order (filter (\<lambda>fill. 0 < fill) (fill_choices order)))"

fun risk_balances_from ::
  "(token_key, int) btree \<Rightarrow> token_key option \<Rightarrow> market_index \<Rightarrow> confirmed_token_balance list
    \<Rightarrow> (token_key, int) btree option" where
  "risk_balances_from result previous markets [] = Some result"
| "risk_balances_from result previous markets (v # vs) =
     (if ctb_balance v \<le> 0 \<or> \<not> bt_contains markets (ctb_token v)
         \<or> (case previous of None \<Rightarrow> False | Some t \<Rightarrow> ctb_token v \<le> t)
         \<or> bt_contains result (ctb_token v)
      then None
      else risk_balances_from (bt_insert (ctb_token v) (ctb_balance v) result)
        (Some (ctb_token v)) markets vs)"

definition risk_balances ::
  "confirmed_token_balance list \<Rightarrow> market_index \<Rightarrow> (token_key, int) btree option" where
  "risk_balances values markets = risk_balances_from [] None markets values"

section \<open>Holdings and scenarios\<close>

record holdings =
  hd_available_cash :: int
  hd_reserved_cash :: int
  hd_available :: "(token_key, int) btree"
  hd_reserved :: "(token_key, int) btree"
  hd_locked :: "(token_key, int) btree"

record prepared =
  pr_request :: risk_request
  pr_groups :: "string list"
  pr_fill_options :: "int list list"
  pr_fill_combinations :: int
  pr_outcome_combinations :: int
  pr_scenario_count :: int
  pr_holdings :: holdings

definition add_balance :: "(token_key, int) btree \<Rightarrow> token_key \<Rightarrow> int \<Rightarrow> risk_error + (token_key, int) btree" where
  "add_balance m t quantity =
     rbind (ok_or (add128 (bt_get_or m t 0) quantity) KOverflow) (\<lambda>v. Inr (bt_insert t v m))"

definition subtract_balance ::
  "(token_key, int) btree \<Rightarrow> token_key \<Rightarrow> int \<Rightarrow> risk_error + (token_key, int) btree" where
  "subtract_balance m t quantity =
     rbind (ok_or (bt_get m t) KOverflow) (\<lambda>b.
     rbind (ok_or (sub128 b quantity) KOverflow) (\<lambda>v.
     if v < 0 then Inl KOverflow
     else if v = 0 then Inr (bt_remove t m) else Inr (bt_insert t v m)))"

text \<open>The order with index \<open>i\<close> and whether its source is reserved.\<close>

definition scenario_order :: "risk_request \<Rightarrow> nat \<Rightarrow> order_exposure \<times> bool" where
  "scenario_order q i =
     (if i < length (rq_open_orders q) then (rq_open_orders q ! i, True)
      else
        let c = i - length (rq_open_orders q) in
        if c = 0 then (rq_candidate q, False) else (rq_additional_candidates q ! (c - 1), False))"

definition apply_fill :: "holdings \<Rightarrow> order_exposure \<Rightarrow> int \<Rightarrow> bool \<Rightarrow> risk_error + holdings" where
  "apply_fill h order fill reserved_source =
     (if fill = 0 then Inr h
      else
        rbind (partial_fee (oe_max_fee order) fill (oe_quantity order)) (\<lambda>fee.
        case oe_side order of
          BuySide \<Rightarrow>
            rbind (buy_cost (oe_limit_price order) fill) (\<lambda>c.
            rbind (ok_or (add128 c fee) KOverflow) (\<lambda>cost.
            let cash = (if reserved_source then hd_reserved_cash h else hd_available_cash h) in
            rbind (ok_or (sub128 cash cost) KOverflow) (\<lambda>left.
            if left < 0 then Inl KOverflow
            else
              let h' = (if reserved_source then h\<lparr>hd_reserved_cash := left\<rparr>
                        else h\<lparr>hd_available_cash := left\<rparr>) in
              rbind (add_balance (hd_available h') (oe_token order) fill) (\<lambda>m.
              Inr (h'\<lparr>hd_available := m\<rparr>)))))
        | SellSide \<Rightarrow>
            rbind (if reserved_source
                then rbind (subtract_balance (hd_reserved h) (oe_token order) fill) (\<lambda>m. Inr (h\<lparr>hd_reserved := m\<rparr>))
                else rbind (subtract_balance (hd_available h) (oe_token order) fill) (\<lambda>m. Inr (h\<lparr>hd_available := m\<rparr>))) (\<lambda>h'.
            rbind (sale_proceeds (oe_limit_price order) fill) (\<lambda>gross.
            rbind (ok_or (sub128 gross fee) KOverflow) (\<lambda>proceeds.
            if proceeds < 0 then Inl KOverflow
            else
              rbind (ok_or (add128 (hd_available_cash h') proceeds) KOverflow) (\<lambda>cash.
              Inr (h'\<lparr>hd_available_cash := cash\<rparr>)))))))"

definition total_token :: "holdings \<Rightarrow> token_key \<Rightarrow> risk_error + int" where
  "total_token h t =
     rbind (ok_or (add128 (bt_get_or (hd_available h) t 0) (bt_get_or (hd_reserved h) t 0)) KOverflow) (\<lambda>v.
     ok_or (add128 v (bt_get_or (hd_locked h) t 0)) KOverflow)"

type_synonym exposure_state = "int \<times> int \<times> (string, int) btree"

definition exposure_step :: "holdings \<Rightarrow> exposure_state \<Rightarrow> market_risk \<Rightarrow> risk_error + exposure_state" where
  "exposure_step h = (\<lambda>(gross, max_condition, group_exposure) m.
     rbind (total_token h (mr_up m)) (\<lambda>up.
     rbind (total_token h (mr_down m)) (\<lambda>down.
     rbind (ok_or (add128 gross up) KOverflow) (\<lambda>v.
     rbind (ok_or (add128 v down) KOverflow) (\<lambda>gross'.
     rbind (ok_or (sub128 up down) KOverflow) (\<lambda>d.
     let directional = \<bar>d\<bar> in
     rbind (ok_or (bt_get group_exposure (mr_shock_group m)) KOverflow) (\<lambda>g.
     rbind (ok_or (add128 g directional) KOverflow) (\<lambda>g'.
     Inr (gross', max max_condition directional, bt_insert (mr_shock_group m) g' group_exposure)))))))))"

definition max_of :: "int list \<Rightarrow> int" where
  "max_of vs = (case vs of [] \<Rightarrow> 0 | v # rest \<Rightarrow> foldl max v rest)"

definition exposure :: "holdings \<Rightarrow> risk_request \<Rightarrow> string list \<Rightarrow> risk_error + int \<times> int \<times> int" where
  "exposure h q groups =
     rbind (try_fold (exposure_step h) (0, 0, foldr (\<lambda>g m. bt_insert g 0 m) groups [])
       (rq_markets q)) (\<lambda>(gross, max_condition, group_exposure).
     Inr (gross, max_condition, max_of (map snd group_exposure)))"

definition winner_value ::
  "holdings \<Rightarrow> risk_limits \<Rightarrow> token_key \<Rightarrow> int \<Rightarrow> int \<Rightarrow> risk_error + int" where
  "winner_value h limits winner multiplier wealth =
     try_fold (\<lambda>w (m, base_haircut).
       rbind (haircut (bt_get_or m winner 0) base_haircut) (\<lambda>v.
       rbind (haircut v multiplier) (\<lambda>value.
       ok_or (add128 w value) KOverflow))) wealth
     [(hd_available h, rl_available_token_haircut_bps limits),
      (hd_reserved h, rl_reserved_token_haircut_bps limits),
      (hd_locked h, rl_locked_token_haircut_bps limits)]"

fun market_values ::
  "holdings \<Rightarrow> risk_limits \<Rightarrow> shock_profile \<Rightarrow> int \<Rightarrow> int list \<Rightarrow> market_risk list \<Rightarrow> risk_error + int" where
  "market_values h limits shock wealth (b # bits) (m # ms) =
     rbind (winner_value h limits (if b = 0 then mr_up m else mr_down m)
       (shock_multiplier shock (mr_shock_group m)) wealth) (\<lambda>w.
     market_values h limits shock w bits ms)"
| "market_values h limits shock wealth _ _ = Inr wealth"

definition terminal_wealth ::
  "holdings \<Rightarrow> risk_request \<Rightarrow> int list \<Rightarrow> shock_profile \<Rightarrow> risk_error + int" where
  "terminal_wealth h q outcomes shock =
     (let limits = rq_limits q in
     rbind (haircut (hd_reserved_cash h) (rl_reserved_cash_haircut_bps limits)) (\<lambda>reserved_cash.
     rbind (ok_or (add128 (hd_available_cash h) reserved_cash) KOverflow) (\<lambda>wealth.
     rbind (market_values h limits shock wealth outcomes (rq_markets q)) (\<lambda>w.
     rbind (ok_or (sub128 w (rl_operational_reserve limits)) KOverflow) (\<lambda>v.
     ok_or (sub128 v (rl_pending_settlement_reserve limits)) KOverflow)))))"

section \<open>Preparing a request\<close>

text \<open>The loops of \<open>prepare\<close> leave with a decision reason (\<open>Inr (Inl _)\<close>) or with an error.\<close>

record order_totals =
  ot_order_ids :: "risk_order_id btset"
  ot_reserved_buy :: int
  ot_reserved_sell :: "(token_key, int) btree"
  ot_fill_options :: "int list list"

fun open_orders_loop ::
  "market_index \<Rightarrow> order_exposure list \<Rightarrow> order_totals \<Rightarrow> risk_error + (decision_reason + order_totals)" where
  "open_orders_loop markets [] st = Inr (Inr st)"
| "open_orders_loop markets (order # orders) st =
     (if \<not> valid_order order markets then Inr (Inl InvalidFrame)
      else rbind (order_fill_safe order) (\<lambda>safe.
        if \<not> safe \<or> bs_mem (oe_order_id order) (ot_order_ids st) then Inr (Inl InvalidFrame)
        else
          rbind (case oe_side order of
              BuySide \<Rightarrow>
                rbind (full_buy_cost order) (\<lambda>cost.
                rbind (ok_or (add128 (ot_reserved_buy st) cost) KOverflow) (\<lambda>v.
                Inr (st\<lparr>ot_reserved_buy := v\<rparr>)))
            | SellSide \<Rightarrow>
                rbind (ok_or (add128 (bt_get_or (ot_reserved_sell st) (oe_token order) 0) (oe_quantity order)) KOverflow) (\<lambda>v.
                Inr (st\<lparr>ot_reserved_sell := bt_insert (oe_token order) v (ot_reserved_sell st)\<rparr>))) (\<lambda>st'.
          open_orders_loop markets orders
            (st'\<lparr>ot_order_ids := bs_insert (oe_order_id order) (ot_order_ids st'),
                 ot_fill_options := ot_fill_options st' @ [fill_choices order]\<rparr>))))"

fun candidates_loop ::
  "market_index \<Rightarrow> order_exposure list \<Rightarrow> risk_order_id btset \<times> int list list
    \<Rightarrow> decision_reason + int list list" where
  "candidates_loop markets [] (ids, opts) = Inr opts"
| "candidates_loop markets (c # cs) (ids, opts) =
     (if \<not> valid_order c markets \<or> bs_mem (oe_order_id c) ids then Inl InvalidFrame
      else candidates_loop markets cs (bs_insert (oe_order_id c) ids, opts @ [fill_choices c]))"

fun candidate_totals ::
  "order_exposure list \<Rightarrow> int \<times> (token_key, int) btree \<Rightarrow> risk_error + (int \<times> (token_key, int) btree) option" where
  "candidate_totals [] (buy, sell) = Inr (Some (buy, sell))"
| "candidate_totals (c # cs) (buy, sell) =
     rbind (order_fill_safe c) (\<lambda>safe.
     if \<not> safe then Inr None
     else case oe_side c of
       BuySide \<Rightarrow>
         rbind (full_buy_cost c) (\<lambda>cost.
         rbind (ok_or (add128 buy cost) KOverflow) (\<lambda>v. candidate_totals cs (v, sell)))
     | SellSide \<Rightarrow>
         rbind (ok_or (add128 (bt_get_or sell (oe_token c) 0) (oe_quantity c)) KOverflow) (\<lambda>v.
         candidate_totals cs (buy, bt_insert (oe_token c) v sell)))"

definition all_candidates :: "risk_request \<Rightarrow> order_exposure list" where
  "all_candidates q = rq_candidate q # rq_additional_candidates q"

definition candidates_have_capacity :: "risk_request \<Rightarrow> (token_key, int) btree \<Rightarrow> risk_error + bool" where
  "candidates_have_capacity q available =
     rbind (candidate_totals (all_candidates q) (0, [])) (\<lambda>r. Inr (case r of
       None \<Rightarrow> False
     | Some (buy, sell) \<Rightarrow> buy \<le> lr_cash_available (rq_ledger q)
         \<and> list_all (\<lambda>(t, quantity). quantity \<le> bt_get_or available t 0) sell))"

definition prepare :: "risk_request \<Rightarrow> risk_error + (decision_reason + prepared)" where
  "prepare q =
     (if \<not> valid_limits (rq_limits q) \<or> rq_evaluated_at q < 0 \<or> rq_markets q = []
         \<or> 12 < int (length (rq_markets q))
         \<or> rl_max_open_orders (rq_limits q) < int (length (rq_open_orders q))
         \<or> 12 < int (length (rq_open_orders q))
         \<or> 2 < int (length (rq_additional_candidates q)) + 1
         \<or> 12 < int (length (rq_open_orders q)) + int (length (rq_additional_candidates q)) + 1
         \<or> rq_shocks q = [] \<or> 32 < int (length (rq_shocks q))
      then Inr (Inl InvalidFrame)
      else case market_index (rq_markets q) of
        None \<Rightarrow> Inr (Inl InvalidFrame)
      | Some (markets, groups) \<Rightarrow>
        if \<not> valid_shocks (rq_shocks q) groups then Inr (Inl InvalidFrame)
        else case (risk_balances (lr_available_tokens (rq_ledger q)) markets,
                   risk_balances (lr_reserved_tokens (rq_ledger q)) markets,
                   risk_balances (lr_locked_tokens (rq_ledger q)) markets) of
          (Some available, Some reserved, Some locked) \<Rightarrow>
            if lr_cash_available (rq_ledger q) < 0 \<or> lr_cash_reserved (rq_ledger q) < 0
            then Inr (Inl InvalidFrame)
            else
              rbind (open_orders_loop markets (rq_open_orders q)
                \<lparr>ot_order_ids = [], ot_reserved_buy = 0, ot_reserved_sell = [], ot_fill_options = []\<rparr>) (\<lambda>r.
              case r of
                Inl reason \<Rightarrow> Inr (Inl reason)
              | Inr st \<Rightarrow>
                  if ot_reserved_buy st \<noteq> lr_cash_reserved (rq_ledger q) \<or> ot_reserved_sell st \<noteq> reserved
                  then Inr (Inl ReservationMismatchReason)
                  else case candidates_loop markets (all_candidates q) (ot_order_ids st, ot_fill_options st) of
                    Inl reason \<Rightarrow> Inr (Inl reason)
                  | Inr fill_options \<Rightarrow>
                      rbind (candidates_have_capacity q available) (\<lambda>capacity.
                      if \<not> capacity then Inr (Inl CandidateCapacity)
                      else
                        rbind (product_count (map (\<lambda>vs. int (length vs)) fill_options)) (\<lambda>fill_combinations.
                        let outcome_combinations = 2 ^ length (rq_markets q) in
                        rbind (ok_or (mulu64 fill_combinations outcome_combinations) KOverflow) (\<lambda>v.
                        rbind (ok_or (mulu64 v (int (length (rq_shocks q)))) KOverflow) (\<lambda>scenario_count.
                        if rl_max_scenarios (rq_limits q) < scenario_count \<or> 1000000 < scenario_count
                        then Inr (Inl ScenarioBudget)
                        else Inr (Inr
                          \<lparr>pr_request = q, pr_groups = map fst groups, pr_fill_options = fill_options,
                           pr_fill_combinations = fill_combinations,
                           pr_outcome_combinations = outcome_combinations,
                           pr_scenario_count = scenario_count,
                           pr_holdings = \<lparr>hd_available_cash = lr_cash_available (rq_ledger q),
                             hd_reserved_cash = lr_cash_reserved (rq_ledger q),
                             hd_available = available, hd_reserved = reserved, hd_locked = locked\<rparr>\<rparr>))))))
          | _ \<Rightarrow> Inr (Inl InvalidFrame))"

section \<open>Enumerating the scenarios\<close>

record extremes =
  ex_minimum :: "scenario_witness option"
  ex_max_gross :: "scenario_witness option"
  ex_max_condition :: "scenario_witness option"
  ex_max_group :: "scenario_witness option"

definition replace_min ::
  "scenario_witness option \<Rightarrow> scenario_witness \<Rightarrow> (scenario_witness \<Rightarrow> int) \<Rightarrow> scenario_witness option" where
  "replace_min current candidate value =
     (case current of
        None \<Rightarrow> Some candidate
      | Some existing \<Rightarrow> if value candidate < value existing then Some candidate else current)"

definition replace_max ::
  "scenario_witness option \<Rightarrow> scenario_witness \<Rightarrow> (scenario_witness \<Rightarrow> int) \<Rightarrow> scenario_witness option" where
  "replace_max current candidate value =
     (case current of
        None \<Rightarrow> Some candidate
      | Some existing \<Rightarrow> if value existing < value candidate then Some candidate else current)"

fun apply_fills :: "risk_request \<Rightarrow> nat \<Rightarrow> int list \<Rightarrow> holdings \<Rightarrow> risk_error + holdings" where
  "apply_fills q i [] h = Inr h"
| "apply_fills q i (fill # fills) h =
     rbind (apply_fill h (fst (scenario_order q i)) fill (snd (scenario_order q i))) (\<lambda>h'.
     apply_fills q (Suc i) fills h')"

definition note_witness :: "extremes \<Rightarrow> scenario_witness \<Rightarrow> extremes" where
  "note_witness e w =
     \<lparr>ex_minimum = replace_min (ex_minimum e) w sw_terminal_wealth,
      ex_max_gross = replace_max (ex_max_gross e) w sw_gross_exposure,
      ex_max_condition = replace_max (ex_max_condition e) w sw_max_condition_exposure,
      ex_max_group = replace_max (ex_max_group e) w sw_max_group_exposure\<rparr>"

definition enumerate_shock ::
  "risk_request \<Rightarrow> int list \<Rightarrow> holdings \<Rightarrow> int \<times> int \<times> int \<Rightarrow> int list \<Rightarrow> extremes \<Rightarrow> shock_profile
    \<Rightarrow> risk_error + extremes" where
  "enumerate_shock q fills h = (\<lambda>(gross, condition, group) bits e shock.
     rbind (terminal_wealth h q bits shock) (\<lambda>wealth.
     Inr (note_witness e
       \<lparr>sw_fill_quantities = fills, sw_outcome_bits = bits, sw_shock_id = sh_shock_id shock,
        sw_terminal_wealth = wealth, sw_gross_exposure = gross,
        sw_max_condition_exposure = condition, sw_max_group_exposure = group\<rparr>)))"

definition enumerate_outcome ::
  "risk_request \<Rightarrow> int list \<Rightarrow> holdings \<Rightarrow> int \<times> int \<times> int \<Rightarrow> extremes \<Rightarrow> int \<Rightarrow> risk_error + extremes" where
  "enumerate_outcome q fills h ex e outcome =
     try_fold (enumerate_shock q fills h ex (outcome_bits outcome (length (rq_markets q)))) e (rq_shocks q)"

definition enumerate_fill :: "prepared \<Rightarrow> extremes \<Rightarrow> int \<Rightarrow> risk_error + extremes" where
  "enumerate_fill p e fill_index =
     (let q = pr_request p; fills = decode_fills fill_index (pr_fill_options p) in
      rbind (apply_fills q 0 fills (pr_holdings p)) (\<lambda>h.
      rbind (exposure h q (pr_groups p)) (\<lambda>ex.
      try_fold (enumerate_outcome q fills h ex) e [0..pr_outcome_combinations p - 1])))"

definition exceeds :: "scenario_witness option \<Rightarrow> (scenario_witness \<Rightarrow> int) \<Rightarrow> int \<Rightarrow> bool" where
  "exceeds w value limit = (case w of None \<Rightarrow> False | Some v \<Rightarrow> limit < value v)"

definition judge :: "risk_limits \<Rightarrow> extremes \<Rightarrow> scenario_witness
    \<Rightarrow> risk_error + decision_status \<times> decision_reason \<times> scenario_witness" where
  "judge limits e minimum =
     (if sw_terminal_wealth minimum < rl_capital_floor limits
      then Inr (NoTrade, CapitalFloor, minimum)
      else if exceeds (ex_max_gross e) sw_gross_exposure (rl_max_gross_exposure limits)
      then rbind (ok_or (ex_max_gross e) KOverflow) (\<lambda>w. Inr (NoTrade, GrossExposure, w))
      else if exceeds (ex_max_condition e) sw_max_condition_exposure (rl_max_condition_exposure limits)
      then rbind (ok_or (ex_max_condition e) KOverflow) (\<lambda>w. Inr (NoTrade, ConditionExposure, w))
      else if exceeds (ex_max_group e) sw_max_group_exposure (rl_max_group_exposure limits)
      then rbind (ok_or (ex_max_group e) KOverflow) (\<lambda>w. Inr (NoTrade, GroupExposure, w))
      else Inr (Approve, AllLimitsSatisfied, minimum))"

definition sealed :: "risk_codec \<Rightarrow> risk_decision \<Rightarrow> risk_decision" where
  "sealed cx d = d\<lparr>rd_decision_digest := decision_digest cx d\<rparr>"

definition enumerate_scenarios ::
  "risk_codec \<Rightarrow> risk_command_id \<Rightarrow> prepared \<Rightarrow> risk_error + risk_decision" where
  "enumerate_scenarios cx i p =
     (let q = pr_request p in
      rbind (try_fold (enumerate_fill p)
        \<lparr>ex_minimum = None, ex_max_gross = None, ex_max_condition = None, ex_max_group = None\<rparr>
        [0..pr_fill_combinations p - 1]) (\<lambda>e.
      rbind (ok_or (ex_minimum e) KOverflow) (\<lambda>minimum.
      rbind (judge (rq_limits q) e minimum) (\<lambda>(status, reason, witness).
      Inr (sealed cx
        \<lparr>rd_command_id = i, rd_evaluated_at = rq_evaluated_at q, rd_status = status, rd_reason = reason,
         rd_minimum_terminal_wealth = Some (sw_terminal_wealth minimum),
         rd_scenario_count = pr_scenario_count p, rd_witness = Some witness,
         rd_reconciliation_digest = rg_digest (rq_reconciliation q),
         rd_ledger_digest = lr_ledger_digest (rq_ledger q),
         rd_candidate_order_digest = candidate_set_digest cx q, rd_decision_digest = 0\<rparr>)))))"

definition no_trade :: "risk_codec \<Rightarrow> risk_command_id \<Rightarrow> risk_request \<Rightarrow> decision_reason \<Rightarrow> risk_decision" where
  "no_trade cx i q reason = sealed cx
     \<lparr>rd_command_id = i, rd_evaluated_at = rq_evaluated_at q, rd_status = NoTrade, rd_reason = reason,
      rd_minimum_terminal_wealth = None, rd_scenario_count = 0, rd_witness = None,
      rd_reconciliation_digest = rg_digest (rq_reconciliation q),
      rd_ledger_digest = lr_ledger_digest (rq_ledger q),
      rd_candidate_order_digest = candidate_set_digest cx q, rd_decision_digest = 0\<rparr>"

definition evaluate :: "risk_codec \<Rightarrow> risk_command_id \<Rightarrow> risk_request \<Rightarrow> risk_error + risk_decision" where
  "evaluate cx i q =
     (let base = no_trade cx i q; r = rq_reconciliation q in
      if \<not> valid_limits (rq_limits q) \<or> rq_evaluated_at q < 0 then Inr (base InvalidFrame)
      else if \<not> rg_ready r then Inr (base ReconciliationNotReady)
      else case (rg_evaluated_at r, rg_ledger_digest r) of
        (Some reconciled_at, Some reconciled_ledger) \<Rightarrow>
          if rq_evaluated_at q < reconciled_at then Inr (base InvalidFrame)
          else
            rbind (ok_or (sub64 (rq_evaluated_at q) reconciled_at) KOverflow) (\<lambda>age.
            if rl_max_reconciliation_age (rq_limits q) < age then Inr (base ReconciliationStale)
            else if reconciled_ledger \<noteq> lr_ledger_digest (rq_ledger q) then Inr (base ProvenanceMismatch)
            else if lr_halted (rq_ledger q) then Inr (base LedgerHalted)
            else
              rbind (prepare q) (\<lambda>r. case r of
                Inl reason \<Rightarrow> Inr (base reason)
              | Inr p \<Rightarrow> enumerate_scenarios cx i p))
      | _ \<Rightarrow> Inr (base ReconciliationNotReady))"

section \<open>The engine\<close>

fun risk_validate_command :: "risk_command \<Rightarrow> risk_error + unit" where
  "risk_validate_command (Evaluate _ q t) =
     (if t < 0 \<or> rq_evaluated_at q < 0 \<or> t < rq_evaluated_at q then Inl KTimestamp else Inr ())"

definition risk_encode_command :: "risk_codec \<Rightarrow> risk_command \<Rightarrow> risk_error + string" where
  "risk_encode_command cx c =
     rbind (risk_validate_command c) (\<lambda>_.
       case kc_to_vec cx \<lparr>wire_version = 2, wire_command = c\<rparr> of
         Inl e \<Rightarrow> Inl (KJson e)
       | Inr bytes \<Rightarrow> if 524288 < int (length bytes) then Inl KCommandBound else Inr bytes)"

definition risk_decode_command ::
  "(string \<Rightarrow> string + risk_command wire) \<Rightarrow> string \<Rightarrow> risk_error + risk_command" where
  "risk_decode_command from_slice bytes =
     (if 524288 < int (length bytes) then Inl KCommandBound
      else case from_slice bytes of
        Inl e \<Rightarrow> Inl (KJson e)
      | Inr w \<Rightarrow>
          if \<not> (1 \<le> wire_version w \<and> wire_version w \<le> 2) then Inl (KVersion (wire_version w))
          else rbind (risk_validate_command (wire_command w)) (\<lambda>_. Inr (wire_command w)))"

definition risk_content :: "risk_codec \<Rightarrow> risk_command \<Rightarrow> risk_error + bytes32" where
  "risk_content cx c = rbind (risk_encode_command cx c) (\<lambda>bytes. Inr (kc_blake3 cx bytes))"

definition risk_install_halt :: "risk_error \<Rightarrow> risk_engine \<Rightarrow> (risk_error + risk_decision) \<times> risk_engine" where
  "risk_install_halt e s = (Inl e, s\<lparr>rk_halted := Some (risk_error_text e)\<rparr>)"

definition history_regressed :: "risk_engine \<Rightarrow> risk_request \<Rightarrow> bool" where
  "history_regressed s q \<longleftrightarrow>
     (case rk_last_evaluated_at s of None \<Rightarrow> False | Some previous_at \<Rightarrow> rq_evaluated_at q < previous_at)
     \<or> (case (rk_last_reconciled_at s, rg_evaluated_at (rq_reconciliation q)) of
          (Some previous_at, Some observed_at) \<Rightarrow>
            observed_at < previous_at
            \<or> (observed_at = previous_at
               \<and> rk_last_reconciliation_digest s \<noteq> Some (rg_digest (rq_reconciliation q)))
        | _ \<Rightarrow> False)"

definition risk_install ::
  "risk_command_id \<Rightarrow> bytes32 \<Rightarrow> risk_request \<Rightarrow> risk_decision \<Rightarrow> int \<Rightarrow> risk_engine \<Rightarrow> risk_engine" where
  "risk_install i digest q d n s = s\<lparr>rk_processed := bt_insert i (digest, d) (rk_processed s),
     rk_accepted := n,
     rk_last_evaluated_at := Some (rq_evaluated_at q),
     rk_last_reconciled_at := (if rg_evaluated_at (rq_reconciliation q) \<noteq> None
       then rg_evaluated_at (rq_reconciliation q) else rk_last_reconciled_at s),
     rk_last_reconciliation_digest := Some (rg_digest (rq_reconciliation q)),
     rk_last_decision := Some d\<rparr>"

fun risk_apply :: "risk_codec \<Rightarrow> risk_command \<Rightarrow> risk_engine \<Rightarrow> (risk_error + risk_decision) \<times> risk_engine" where
  "risk_apply cx (Evaluate i q t) s =
     (case rk_halted s of
        Some reason \<Rightarrow> (Inl (KHalted reason), s)
      | None \<Rightarrow>
          (case risk_content cx (Evaluate i q t) of
             Inl e \<Rightarrow> (Inl e, s)
           | Inr digest \<Rightarrow>
               (case bt_get (rk_processed s) i of
                  Some (existing, decision) \<Rightarrow>
                    if existing = digest then (Inr decision, s)
                    else risk_install_halt KIdempotencyConflict s
                | None \<Rightarrow>
                    if history_regressed s q then risk_install_halt KReconciliationHistory s
                    else
                      (case evaluate cx i q of
                         Inl e \<Rightarrow> risk_install_halt e s
                       | Inr d \<Rightarrow>
                           (case addu64 (rk_accepted s) 1 of
                              None \<Rightarrow> risk_install_halt KOverflow s
                            | Some n \<Rightarrow>
                                (Inr (sealed cx d), risk_install i digest q (sealed cx d) n s))))))"

text \<open>The digest of the state, over the JSON of its parts.\<close>

record risk_json =
  kj_time :: "int option \<Rightarrow> string"
  kj_digest :: "bytes32 option \<Rightarrow> string"
  kj_last_decision :: "risk_decision option \<Rightarrow> string"
  kj_decision :: "risk_decision \<Rightarrow> string"
  kj_halted :: "string option \<Rightarrow> string"

definition risk_state_digest :: "risk_json \<Rightarrow> (string \<Rightarrow> bytes32) \<Rightarrow> risk_engine \<Rightarrow> bytes32" where
  "risk_state_digest js blake3 s = blake3
     (''portfolio-risk-state-v1''
      @ le_bytes 8 (rk_accepted s)
      @ prefixed (kj_time js (rk_last_evaluated_at s))
      @ prefixed (kj_time js (rk_last_reconciled_at s))
      @ prefixed (kj_digest js (rk_last_reconciliation_digest s))
      @ prefixed (kj_last_decision js (rk_last_decision s))
      @ concat (map (\<lambda>(i, d, decision). bytes_of_id i @ bytes_of_id d @ prefixed (kj_decision js decision))
          (rk_processed s))
      @ prefixed (kj_halted js (rk_halted s)))"

record risk_snapshot =
  ks_accepted_commands :: int
  ks_last_evaluated_at :: "int option"
  ks_last_reconciled_at :: "int option"
  ks_last_reconciliation_digest :: "bytes32 option"
  ks_last_decision :: "risk_decision option"
  ks_halted :: bool
  ks_halt_reason :: "string option"
  ks_digest :: bytes32

definition risk_snapshot :: "(risk_engine \<Rightarrow> bytes32) \<Rightarrow> risk_engine \<Rightarrow> risk_snapshot" where
  "risk_snapshot state_digest s =
     \<lparr>ks_accepted_commands = rk_accepted s, ks_last_evaluated_at = rk_last_evaluated_at s,
      ks_last_reconciled_at = rk_last_reconciled_at s,
      ks_last_reconciliation_digest = rk_last_reconciliation_digest s,
      ks_last_decision = rk_last_decision s, ks_halted = (rk_halted s \<noteq> None),
      ks_halt_reason = rk_halted s, ks_digest = state_digest s\<rparr>"

end
