(* ===== verification/Portfolio_Risk_Theorems.thy ===== *)
theory Portfolio_Risk_Theorems
  imports Portfolio_Risk Reconciliation_Theorems
begin

text \<open>
  What the risk gate guarantees: the enumeration visits every scenario, an approval
  means that every scenario keeps every limit, the reported minimum is the exact
  worst case, fills are priced against the account, and the engine repeats its
  decisions.
\<close>

section \<open>Every scenario is visited\<close>

lemma listset_Cons: "xs \<in> listset (A # As) \<longleftrightarrow> (\<exists>y ys. xs = y # ys \<and> y \<in> A \<and> ys \<in> listset As)"
  by (auto simp: set_Cons_def)

definition radix_product :: "int list list \<Rightarrow> int" where
  "radix_product opts = (\<Prod>vs\<leftarrow>opts. int (length vs))"

lemma radix_product_pos: "list_all (\<lambda>vs. vs \<noteq> []) opts \<Longrightarrow> 0 < radix_product opts"
  by (induction opts) (auto simp: radix_product_def)

lemma decode_fills_listset:
  assumes "list_all (\<lambda>vs. vs \<noteq> []) opts" and "0 \<le> i"
  shows "decode_fills i opts \<in> listset (map set opts)"
  using assms
proof (induction opts arbitrary: i)
  case (Cons vs opts)
  have "0 < int (length vs)" using Cons.prems by simp
  then have "nat (i mod int (length vs)) < length vs"
    by (simp add: nat_less_iff)
  then show ?case
    using Cons by (auto simp: Let_def listset_Cons pos_imp_zdiv_nonneg_iff simp del: listset.simps)
qed simp

lemma decode_fills_onto:
  assumes "fills \<in> listset (map set opts)"
  shows "\<exists>i. 0 \<le> i \<and> i < radix_product opts \<and> decode_fills i opts = fills"
  using assms
proof (induction opts arbitrary: fills)
  case (Cons vs opts)
  then obtain v rest where f: "fills = v # rest" "v \<in> set vs" "rest \<in> listset (map set opts)"
    by (auto simp: listset_Cons simp del: listset.simps)
  obtain j where j: "0 \<le> j" "j < radix_product opts" "decode_fills j opts = rest"
    using Cons.IH [OF f(3)] by blast
  obtain k where k: "k < length vs" "vs ! k = v"
    using f(2) by (auto simp: in_set_conv_nth)
  let ?n = "int (length vs)"
  have n: "0 < ?n" using k(1) by linarith
  have "(j * ?n + int k) mod ?n = int k" "(j * ?n + int k) div ?n = j"
    using k n by (simp_all add: div_add1_eq [of _ _ ?n])
  moreover have "j * ?n + int k < radix_product (vs # opts)"
  proof -
    have "j * ?n + int k < (j + 1) * ?n" using k by (simp add: algebra_simps)
    also have "\<dots> \<le> radix_product opts * ?n" using j n by (intro mult_right_mono) simp_all
    finally show ?thesis by (simp add: radix_product_def mult.commute)
  qed
  ultimately show ?case
    using j k f(1) by (intro exI [of _ "j * ?n + int k"]) (simp add: Let_def)
next
  case Nil
  then show ?case by (intro exI [of _ 0]) (simp add: radix_product_def)
qed

lemma outcome_bits_onto:
  assumes "bits \<in> listset (replicate n {0, 1})"
  shows "\<exists>v. 0 \<le> v \<and> v < 2 ^ n \<and> outcome_bits v n = bits"
  using assms
proof (induction n arbitrary: bits)
  case 0
  then show ?case by (intro exI [of _ 0]) (simp add: outcome_bits_def)
next
  case (Suc n)
  then obtain b rest where f: "bits = b # rest" "b = 0 \<or> b = 1" "rest \<in> listset (replicate n {0, 1})"
    by (auto simp: listset_Cons simp del: listset.simps)
  obtain v where v: "0 \<le> v" "v < 2 ^ n" "outcome_bits v n = rest"
    using Suc.IH [OF f(3)] by blast
  have d: "(2 * v + b) div 2 ^ Suc i = v div 2 ^ i" for i
    using f(2) by (auto simp: zdiv_zmult2_eq)
  have "outcome_bits (2 * v + b) (Suc n) = b # outcome_bits v n"
    unfolding outcome_bits_def using f(2) d
    by (simp only: upt_conv_Cons [of 0 "Suc n"] map_Suc_upt [symmetric] map_map list.map comp_def) auto
  then show ?case
    using v f by (intro exI [of _ "2 * v + b"]) auto
qed

lemma outcome_bits_listset: "outcome_bits v n \<in> listset (replicate n {0, 1})"
proof -
  have "map f xs \<in> listset (replicate (length xs) {0, 1})" if "\<And>x. f x = 0 \<or> f x = (1 :: int)" for f and xs :: "nat list"
    using that by (induction xs) (auto simp: set_Cons_def)
  from this [of "\<lambda>i. if v div 2 ^ i mod 2 = 0 then 0 else 1" "[0..<n]"] show ?thesis
    by (simp add: outcome_bits_def)
qed


section \<open>The extremes\<close>

definition covers :: "extremes \<Rightarrow> scenario_witness \<Rightarrow> bool" where
  "covers e w \<longleftrightarrow>
     (case ex_minimum e of None \<Rightarrow> False | Some m \<Rightarrow> sw_terminal_wealth m \<le> sw_terminal_wealth w)
     \<and> (case ex_max_gross e of None \<Rightarrow> False | Some m \<Rightarrow> sw_gross_exposure w \<le> sw_gross_exposure m)
     \<and> (case ex_max_condition e of None \<Rightarrow> False
          | Some m \<Rightarrow> sw_max_condition_exposure w \<le> sw_max_condition_exposure m)
     \<and> (case ex_max_group e of None \<Rightarrow> False | Some m \<Rightarrow> sw_max_group_exposure w \<le> sw_max_group_exposure m)"

lemma note_covers: "covers (note_witness e w) w"
  by (auto simp: covers_def note_witness_def replace_min_def replace_max_def split: option.splits)

lemma note_keeps: "covers e v \<Longrightarrow> covers (note_witness e w) v"
  by (auto simp: covers_def note_witness_def replace_min_def replace_max_def split: option.splits if_splits)

text \<open>What holds after the round of one element and is kept by every other round holds at the end.\<close>

lemma try_fold_reaches:
  assumes "try_fold f s xs = Inr t" and "x \<in> set xs"
    and keep: "\<And>s x s'. f s x = Inr s' \<Longrightarrow> P s \<Longrightarrow> P s'"
  shows "\<exists>s1 s2. f s1 x = Inr s2 \<and> (P s2 \<longrightarrow> P t)"
  using assms(1,2)
proof (induction xs arbitrary: s)
  case (Cons y ys)
  obtain s' where s': "f s y = Inr s'" "try_fold f s' ys = Inr t"
    using Cons.prems(1) by (auto simp: rbind_Inr_iff)
  have "P s' \<Longrightarrow> P t"
    using try_fold_invariant [OF s'(2), of P] keep by blast
  then show ?case
    using Cons s' by (cases "x = y") auto
qed simp

text \<open>A scenario, priced: some choice of fills, an outcome for every market and a shock.\<close>

definition priced :: "prepared \<Rightarrow> int list \<Rightarrow> int list \<Rightarrow> shock_profile \<Rightarrow> scenario_witness \<Rightarrow> bool" where
  "priced p fills bits shock w \<longleftrightarrow> (\<exists>h. apply_fills (pr_request p) 0 fills (pr_holdings p) = Inr h
     \<and> exposure h (pr_request p) (pr_groups p)
         = Inr (sw_gross_exposure w, sw_max_condition_exposure w, sw_max_group_exposure w)
     \<and> terminal_wealth h (pr_request p) bits shock = Inr (sw_terminal_wealth w)
     \<and> sw_fill_quantities w = fills \<and> sw_outcome_bits w = bits \<and> sw_shock_id w = sh_shock_id shock)"

definition is_scenario :: "prepared \<Rightarrow> int list \<Rightarrow> int list \<Rightarrow> shock_profile \<Rightarrow> bool" where
  "is_scenario p fills bits shock \<longleftrightarrow> fills \<in> listset (map set (pr_fill_options p))
     \<and> bits \<in> listset (replicate (length (rq_markets (pr_request p))) {0, 1})
     \<and> shock \<in> set (rq_shocks (pr_request p))"

lemma enumerate_shock_Inr:
  "enumerate_shock q fills h (g, c, k) bits e shock = Inr e' \<longleftrightarrow>
     (\<exists>w. terminal_wealth h q bits shock = Inr w \<and> e' = note_witness e
       \<lparr>sw_fill_quantities = fills, sw_outcome_bits = bits, sw_shock_id = sh_shock_id shock,
        sw_terminal_wealth = w, sw_gross_exposure = g,
        sw_max_condition_exposure = c, sw_max_group_exposure = k\<rparr>)"
  by (auto simp: enumerate_shock_def rbind_Inr_iff)

lemma shock_keeps: "enumerate_shock q fills h x bits e shock = Inr e' \<Longrightarrow> covers e v \<Longrightarrow> covers e' v"
  by (cases x) (auto simp: enumerate_shock_Inr note_keeps)

lemma outcome_keeps: "enumerate_outcome q fills h x e b = Inr e' \<Longrightarrow> covers e v \<Longrightarrow> covers e' v"
  unfolding enumerate_outcome_def by (rule try_fold_invariant [where P = "\<lambda>e. covers e v"]) (auto intro: shock_keeps)

lemma fill_keeps: "enumerate_fill p e i = Inr e' \<Longrightarrow> covers e v \<Longrightarrow> covers e' v"
  by (auto simp: enumerate_fill_def Let_def rbind_Inr_iff
      intro: try_fold_invariant [where P = "\<lambda>e. covers e v"] outcome_keeps)

lemma scenario_covered:
  assumes run: "try_fold (enumerate_fill p) e0 [0..pr_fill_combinations p - 1] = Inr e"
    and n: "pr_fill_combinations p = radix_product (pr_fill_options p)"
      "pr_outcome_combinations p = 2 ^ length (rq_markets (pr_request p))"
    and sc: "is_scenario p fills bits shock"
  shows "\<exists>w. priced p fills bits shock w \<and> covers e w"
proof -
  let ?q = "pr_request p"
  obtain i where i: "0 \<le> i" "i < radix_product (pr_fill_options p)" "decode_fills i (pr_fill_options p) = fills"
    using decode_fills_onto sc unfolding is_scenario_def by blast
  obtain o' where b: "0 \<le> o'" "o' < 2 ^ length (rq_markets ?q)" "outcome_bits o' (length (rq_markets ?q)) = bits"
    using outcome_bits_onto sc unfolding is_scenario_def by blast
  have "i \<in> set [0..pr_fill_combinations p - 1]" using i n by simp
  from try_fold_reaches [OF run this, of "\<lambda>e. \<exists>w. priced p fills bits shock w \<and> covers e w"]
  obtain e1 e2 where 1: "enumerate_fill p e1 i = Inr e2"
      "(\<exists>w. priced p fills bits shock w \<and> covers e2 w) \<Longrightarrow> \<exists>w. priced p fills bits shock w \<and> covers e w"
    using fill_keeps by blast
  obtain h g c k where h: "apply_fills ?q 0 fills (pr_holdings p) = Inr h" "exposure h ?q (pr_groups p) = Inr (g, c, k)"
      and run2: "try_fold (enumerate_outcome ?q fills h (g, c, k)) e1 [0..pr_outcome_combinations p - 1] = Inr e2"
    using 1(1) i(3) by (auto simp: enumerate_fill_def Let_def rbind_Inr_iff)
  have "o' \<in> set [0..pr_outcome_combinations p - 1]" using b n by simp
  from try_fold_reaches [OF run2 this, of "\<lambda>e. \<exists>w. priced p fills bits shock w \<and> covers e w"]
  obtain e3 e4 where 2: "enumerate_outcome ?q fills h (g, c, k) e3 o' = Inr e4"
      "(\<exists>w. priced p fills bits shock w \<and> covers e4 w) \<Longrightarrow> \<exists>w. priced p fills bits shock w \<and> covers e2 w"
    using outcome_keeps by blast
  have run3: "try_fold (enumerate_shock ?q fills h (g, c, k) bits) e3 (rq_shocks ?q) = Inr e4"
    using 2(1) b(3) by (simp add: enumerate_outcome_def)
  have "shock \<in> set (rq_shocks ?q)" using sc by (simp add: is_scenario_def)
  from try_fold_reaches [OF run3 this, of "\<lambda>e. \<exists>w. priced p fills bits shock w \<and> covers e w"]
  obtain e5 e6 where 3: "enumerate_shock ?q fills h (g, c, k) bits e5 shock = Inr e6"
      "(\<exists>w. priced p fills bits shock w \<and> covers e6 w) \<Longrightarrow> \<exists>w. priced p fills bits shock w \<and> covers e4 w"
    using shock_keeps by blast
  obtain w where w: "terminal_wealth h ?q bits shock = Inr w"
      "e6 = note_witness e5 \<lparr>sw_fill_quantities = fills, sw_outcome_bits = bits, sw_shock_id = sh_shock_id shock,
        sw_terminal_wealth = w, sw_gross_exposure = g,
        sw_max_condition_exposure = c, sw_max_group_exposure = k\<rparr>" (is "_ = note_witness _ ?w")
    using 3(1) unfolding enumerate_shock_Inr by blast
  have "priced p fills bits shock ?w" using h w(1) by (simp add: priced_def)
  then have "\<exists>w. priced p fills bits shock w \<and> covers e6 w"
    using note_covers w(2) by blast
  then show ?thesis
    using 1 2 3 by blast
qed

text \<open>Conversely the extremes are scenarios.\<close>

definition attained :: "prepared \<Rightarrow> extremes \<Rightarrow> bool" where
  "attained p e \<longleftrightarrow> (\<forall>w. ex_minimum e = Some w \<or> ex_max_gross e = Some w \<or> ex_max_condition e = Some w
     \<or> ex_max_group e = Some w \<longrightarrow> (\<exists>fills bits shock. is_scenario p fills bits shock \<and> priced p fills bits shock w))"

lemma note_attained:
  "attained p e \<Longrightarrow> is_scenario p fills bits shock \<Longrightarrow> priced p fills bits shock w \<Longrightarrow> attained p (note_witness e w)"
  unfolding attained_def note_witness_def replace_min_def replace_max_def
  by (simp split: option.split) blast

lemma fill_attained:
  assumes ne: "list_all (\<lambda>vs. vs \<noteq> []) (pr_fill_options p)" and "0 \<le> i"
    and "enumerate_fill p e i = Inr e'" and "attained p e"
  shows "attained p e'"
proof -
  let ?q = "pr_request p" and ?f = "decode_fills i (pr_fill_options p)"
  obtain h g c k where h: "apply_fills ?q 0 ?f (pr_holdings p) = Inr h" "exposure h ?q (pr_groups p) = Inr (g, c, k)"
      and run: "try_fold (enumerate_outcome ?q ?f h (g, c, k)) e [0..pr_outcome_combinations p - 1] = Inr e'"
    using assms(3) by (auto simp: enumerate_fill_def Let_def rbind_Inr_iff)
  have step: "attained p e2" if "enumerate_outcome ?q ?f h (g, c, k) e1 b = Inr e2" "attained p e1" for e1 e2 b
    using that(1) unfolding enumerate_outcome_def
  proof (rule try_fold_invariant [where P = "attained p"])
    fix s shock s'
    assume s: "shock \<in> set (rq_shocks ?q)" "attained p s"
      "enumerate_shock ?q ?f h (g, c, k) (outcome_bits b (length (rq_markets ?q))) s shock = Inr s'"
    have "is_scenario p ?f (outcome_bits b (length (rq_markets ?q))) shock"
      using s(1) decode_fills_listset [OF ne assms(2)] outcome_bits_listset by (simp add: is_scenario_def)
    then show "attained p s'"
      using s(2,3) h by (auto simp: enumerate_shock_Inr intro!: note_attained simp: priced_def)
  qed (rule that(2))
  show ?thesis
    using run by (rule try_fold_invariant [where P = "attained p"]) (use assms(4) step in auto)
qed


section \<open>What a prepared request is\<close>

lemma product_fold: "try_fold (\<lambda>n value. ok_or (mulu64 n value) KOverflow) b counts = Inr n \<Longrightarrow> n = b * prod_list counts"
proof (induction counts arbitrary: b)
  case (Cons c counts)
  then have "try_fold (\<lambda>n value. ok_or (mulu64 n value) KOverflow) (b * c) counts = Inr n"
    by (auto simp: rbind_Inr_iff ok_or_Inr_iff checked_simps)
  from Cons.IH [OF this] show ?case by (simp add: mult.assoc)
qed simp

lemma product_count_Inr: "product_count (map (\<lambda>vs. int (length vs)) opts) = Inr n \<Longrightarrow> n = radix_product opts"
  by (auto simp: product_count_def radix_product_def dest: product_fold)

lemma fill_choices_nonempty [simp]: "fill_choices order \<noteq> []"
  by (simp add: fill_choices_def)

lemma open_orders_loop_options:
  "open_orders_loop markets orders st = Inr (Inr st') \<Longrightarrow>
     ot_fill_options st' = ot_fill_options st @ map fill_choices orders \<and> list_all (\<lambda>v. valid_order v markets) orders"
proof (induction orders arbitrary: st)
  case (Cons v vs)
  from Cons.prems obtain st1 where c: "(case oe_side v of
              BuySide \<Rightarrow>
                rbind (full_buy_cost v) (\<lambda>cost.
                rbind (ok_or (add128 (ot_reserved_buy st) cost) KOverflow) (\<lambda>v.
                Inr (st\<lparr>ot_reserved_buy := v\<rparr>)))
            | SellSide \<Rightarrow>
                rbind (ok_or (add128 (bt_get_or (ot_reserved_sell st) (oe_token v) 0) (oe_quantity v)) KOverflow) (\<lambda>w.
                Inr (st\<lparr>ot_reserved_sell := bt_insert (oe_token v) w (ot_reserved_sell st)\<rparr>))) = Inr st1"
      and s1: "open_orders_loop markets vs (st1\<lparr>ot_order_ids := bs_insert (oe_order_id v) (ot_order_ids st1),
        ot_fill_options := ot_fill_options st1 @ [fill_choices v]\<rparr>) = Inr (Inr st')" "valid_order v markets"
    by (auto simp: rbind_Inr_iff split: if_splits)
  have "ot_fill_options st1 = ot_fill_options st"
    using c by (cases "oe_side v") (auto simp: rbind_Inr_iff)
  note s1 = s1(1) this s1(2)
  show ?case using Cons.IH [OF s1(1)] s1(2,3) by simp
qed simp

lemma candidates_loop_options:
  "candidates_loop markets cs (ids, opts) = Inr opts' \<Longrightarrow>
     opts' = opts @ map fill_choices cs \<and> list_all (\<lambda>v. valid_order v markets) cs"
proof (induction cs arbitrary: ids opts)
  case (Cons c cs)
  then have step: "candidates_loop markets cs (bs_insert (oe_order_id c) ids, opts @ [fill_choices c]) = Inr opts'"
      and "valid_order c markets"
    by (auto split: if_splits)
  then show ?case using Cons.IH [OF step] by simp
qed simp

definition request_orders :: "risk_request \<Rightarrow> order_exposure list" where
  "request_orders q = rq_open_orders q @ all_candidates q"

lemma prepare_Inr:
  assumes "prepare q = Inr (Inr p)"
  shows "pr_request p = q" and "pr_fill_options p = map fill_choices (request_orders q)"
    and "pr_fill_combinations p = radix_product (pr_fill_options p)"
    and "pr_outcome_combinations p = 2 ^ length (rq_markets q)"
    and "pr_scenario_count p = radix_product (pr_fill_options p) * 2 ^ length (rq_markets q) * int (length (rq_shocks q))"
    and "pr_scenario_count p \<le> rl_max_scenarios (rq_limits q)"
    and "hd_available_cash (pr_holdings p) = lr_cash_available (rq_ledger q)"
    and "hd_reserved_cash (pr_holdings p) = lr_cash_reserved (rq_ledger q)"
    and "\<exists>markets groups. market_index (rq_markets q) = Some (markets, groups)
      \<and> list_all (\<lambda>v. valid_order v markets) (request_orders q)"
    and "rq_shocks q \<noteq> []"
proof -
  obtain markets groups where mi: "market_index (rq_markets q) = Some (markets, groups)"
    using assms by (cases "market_index (rq_markets q)") (auto simp: prepare_def split: if_splits)
  obtain available reserved locked where b: "risk_balances (lr_available_tokens (rq_ledger q)) markets = Some available"
      "risk_balances (lr_reserved_tokens (rq_ledger q)) markets = Some reserved"
      "risk_balances (lr_locked_tokens (rq_ledger q)) markets = Some locked"
    using assms by (auto simp: prepare_def mi split: if_splits option.split_asm)
  let ?st0 = "\<lparr>ot_order_ids = [], ot_reserved_buy = 0, ot_reserved_sell = [], ot_fill_options = []\<rparr>"
  obtain r where r: "open_orders_loop markets (rq_open_orders q) ?st0 = Inr r"
    using assms by (auto simp: prepare_def mi b rbind_Inr_iff split: if_splits)
  obtain st where "r = Inr st"
    using assms r by (cases r) (auto simp: prepare_def mi b split: if_splits)
  then have st: "open_orders_loop markets (rq_open_orders q) ?st0 = Inr (Inr st)"
    using r by simp
  obtain opts where opts: "candidates_loop markets (all_candidates q) (ot_order_ids st, ot_fill_options st) = Inr opts"
    using assms st by (cases "candidates_loop markets (all_candidates q) (ot_order_ids st, ot_fill_options st)")
      (auto simp: prepare_def mi b split: if_splits)
  have "\<exists>n v k. product_count (map (\<lambda>vs. int (length vs)) opts) = Inr n
      \<and> mulu64 n (2 ^ length (rq_markets q)) = Some v \<and> mulu64 v (int (length (rq_shocks q))) = Some k
      \<and> k \<le> rl_max_scenarios (rq_limits q) \<and> rq_shocks q \<noteq> []
      \<and> p = \<lparr>pr_request = q, pr_groups = map fst groups, pr_fill_options = opts, pr_fill_combinations = n,
             pr_outcome_combinations = 2 ^ length (rq_markets q), pr_scenario_count = k,
             pr_holdings = \<lparr>hd_available_cash = lr_cash_available (rq_ledger q),
               hd_reserved_cash = lr_cash_reserved (rq_ledger q),
               hd_available = available, hd_reserved = reserved, hd_locked = locked\<rparr>\<rparr>"
    using assms by (auto simp: prepare_def mi b st opts rbind_Inr_iff ok_or_Inr_iff Let_def split: if_splits)
  then obtain n v k where pn: "product_count (map (\<lambda>vs. int (length vs)) opts) = Inr n"
      "mulu64 n (2 ^ length (rq_markets q)) = Some v" "mulu64 v (int (length (rq_shocks q))) = Some k"
      "k \<le> rl_max_scenarios (rq_limits q)" "rq_shocks q \<noteq> []"
      and p: "p = \<lparr>pr_request = q, pr_groups = map fst groups, pr_fill_options = opts, pr_fill_combinations = n,
             pr_outcome_combinations = 2 ^ length (rq_markets q), pr_scenario_count = k,
             pr_holdings = \<lparr>hd_available_cash = lr_cash_available (rq_ledger q),
               hd_reserved_cash = lr_cash_reserved (rq_ledger q),
               hd_available = available, hd_reserved = reserved, hd_locked = locked\<rparr>\<rparr>"
    by blast
  have o: "opts = map fill_choices (request_orders q)" "list_all (\<lambda>v. valid_order v markets) (request_orders q)"
    using open_orders_loop_options [OF st] candidates_loop_options [OF opts] by (simp_all add: request_orders_def)
  note n = product_count_Inr [OF pn(1)]
  show "pr_request p = q" "pr_fill_options p = map fill_choices (request_orders q)"
    "pr_fill_combinations p = radix_product (pr_fill_options p)"
    "pr_outcome_combinations p = 2 ^ length (rq_markets q)"
    "pr_scenario_count p = radix_product (pr_fill_options p) * 2 ^ length (rq_markets q) * int (length (rq_shocks q))"
    "pr_scenario_count p \<le> rl_max_scenarios (rq_limits q)"
    "hd_available_cash (pr_holdings p) = lr_cash_available (rq_ledger q)"
    "hd_reserved_cash (pr_holdings p) = lr_cash_reserved (rq_ledger q)"
    "\<exists>markets groups. market_index (rq_markets q) = Some (markets, groups)
      \<and> list_all (\<lambda>v. valid_order v markets) (request_orders q)" "rq_shocks q \<noteq> []"
    using pn o n mi by (auto simp: p checked_simps)
qed

section \<open>What a decision says\<close>

lemma sealed_fields [simp]:
  "rd_status (sealed cx d) = rd_status d" "rd_reason (sealed cx d) = rd_reason d"
  "rd_minimum_terminal_wealth (sealed cx d) = rd_minimum_terminal_wealth d"
  "rd_scenario_count (sealed cx d) = rd_scenario_count d" "rd_witness (sealed cx d) = rd_witness d"
  "rd_command_id (sealed cx d) = rd_command_id d" "rd_evaluated_at (sealed cx d) = rd_evaluated_at d"
  "rd_reconciliation_digest (sealed cx d) = rd_reconciliation_digest d"
  "rd_ledger_digest (sealed cx d) = rd_ledger_digest d"
  "rd_candidate_order_digest (sealed cx d) = rd_candidate_order_digest d"
  by (simp_all add: sealed_def)

lemma sealed_verifies: "verify_digest cx (sealed cx d)"
  by (simp add: verify_digest_def sealed_def decision_digest_def)

lemma sealed_sealed [simp]: "sealed cx (sealed cx d) = sealed cx d"
  by (simp add: sealed_def decision_digest_def)

lemma judge_Approve:
  "judge limits e m = Inr (Approve, reason, w) \<longleftrightarrow>
     reason = AllLimitsSatisfied \<and> w = m \<and> rl_capital_floor limits \<le> sw_terminal_wealth m
     \<and> \<not> exceeds (ex_max_gross e) sw_gross_exposure (rl_max_gross_exposure limits)
     \<and> \<not> exceeds (ex_max_condition e) sw_max_condition_exposure (rl_max_condition_exposure limits)
     \<and> \<not> exceeds (ex_max_group e) sw_max_group_exposure (rl_max_group_exposure limits)"
  by (auto simp: judge_def rbind_Inr_iff)

lemma enumerate_Inr:
  assumes "enumerate_scenarios cx i p = Inr d"
  obtains e minimum status reason w where
    "try_fold (enumerate_fill p) \<lparr>ex_minimum = None, ex_max_gross = None, ex_max_condition = None, ex_max_group = None\<rparr>
        [0..pr_fill_combinations p - 1] = Inr e"
    and "ex_minimum e = Some minimum" and "judge (rq_limits (pr_request p)) e minimum = Inr (status, reason, w)"
    and "rd_status d = status" and "rd_reason d = reason" and "rd_witness d = Some w"
    and "rd_minimum_terminal_wealth d = Some (sw_terminal_wealth minimum)"
    and "rd_scenario_count d = pr_scenario_count p" and "rd_command_id d = i"
    and "rd_ledger_digest d = lr_ledger_digest (rq_ledger (pr_request p))"
    and "rd_candidate_order_digest d = candidate_set_digest cx (pr_request p)"
  using assms by (auto simp: enumerate_scenarios_def Let_def rbind_Inr_iff ok_or_Inr_iff)

lemma evaluate_enumerated:
  assumes "evaluate cx i q = Inr d" and "rd_minimum_terminal_wealth d \<noteq> None \<or> rd_status d = Approve \<or> rd_witness d \<noteq> None"
  obtains p t where "prepare q = Inr (Inr p)" and "enumerate_scenarios cx i p = Inr d"
    and "rg_ready (rq_reconciliation q)" and "rg_evaluated_at (rq_reconciliation q) = Some t"
    and "t \<le> rq_evaluated_at q" and "rq_evaluated_at q - t \<le> rl_max_reconciliation_age (rq_limits q)"
    and "rg_ledger_digest (rq_reconciliation q) = Some (lr_ledger_digest (rq_ledger q))"
    and "\<not> lr_halted (rq_ledger q)"
proof -
  have no: "rd_minimum_terminal_wealth (no_trade cx i q r) = None" "rd_status (no_trade cx i q r) = NoTrade"
      "rd_witness (no_trade cx i q r) = None" for r
    by (simp_all add: no_trade_def)
  obtain t l where tl: "rg_evaluated_at (rq_reconciliation q) = Some t" "rg_ledger_digest (rq_reconciliation q) = Some l"
    using assms no by (auto simp: evaluate_def Let_def split: if_splits option.split_asm)
  have "rg_ready (rq_reconciliation q) \<and> t \<le> rq_evaluated_at q
      \<and> rq_evaluated_at q - t \<le> rl_max_reconciliation_age (rq_limits q)
      \<and> l = lr_ledger_digest (rq_ledger q) \<and> \<not> lr_halted (rq_ledger q)
      \<and> (\<exists>r. prepare q = Inr r \<and> (case r of Inl reason \<Rightarrow> Inr (no_trade cx i q reason)
           | Inr p \<Rightarrow> enumerate_scenarios cx i p) = Inr d)"
    using assms no by (auto simp: evaluate_def Let_def tl rbind_Inr_iff ok_or_Inr_iff checked_simps split: if_splits)
  moreover from this obtain r where r: "prepare q = Inr r" "(case r of Inl reason \<Rightarrow> Inr (no_trade cx i q reason)
           | Inr p \<Rightarrow> enumerate_scenarios cx i p) = Inr d"
    by blast
  moreover obtain p where "r = Inr p"
    using r(2) assms(2) no by (cases r) auto
  ultimately show thesis
    using that tl by auto
qed


section \<open>Fills are priced against the account\<close>

lemma risk_div_ceil_Inr:
  assumes "risk_div_ceil v d = Inr c" and "0 \<le> v" and "0 < d"
  shows "v \<le> c * d" and "c * d < v + d" and "0 \<le> c"
proof -
  have c: "c = (v + (d - 1)) div d"
    using assms by (auto simp: risk_div_ceil_def rbind_Inr_iff ok_or_Inr_iff checked_simps tdiv_nonneg)
  show "v \<le> c * d" "c * d < v + d"
    using ceil_div_bounds [OF assms(3), of v] by (simp_all add: c)
  show "0 \<le> c"
    using assms(2,3) by (simp add: c pos_imp_zdiv_nonneg_iff)
qed

lemma buy_cost_Inr:
  assumes "buy_cost price quantity = Inr c" and "0 \<le> price" and "0 \<le> quantity"
  shows "price * quantity \<le> c * 1000000" and "0 \<le> c"
  using assms risk_div_ceil_Inr [of "price * quantity" 1000000 c]
  by (auto simp: buy_cost_def rbind_Inr_iff ok_or_Inr_iff checked_simps)

lemma sale_proceeds_Inr:
  assumes "sale_proceeds price quantity = Inr c" and "0 \<le> price" and "0 \<le> quantity"
  shows "c * 1000000 \<le> price * quantity" and "0 \<le> c"
proof -
  have c: "c = price * quantity div 1000000" "0 \<le> price * quantity"
    using assms by (auto simp: sale_proceeds_def rbind_Inr_iff ok_or_Inr_iff checked_simps tdiv_nonneg)
  then show "c * 1000000 \<le> price * quantity" "0 \<le> c"
    using div_mult_mod_eq [of "price * quantity" 1000000] pos_mod_sign [of 1000000 "price * quantity"]
    unfolding c(1) by (linarith, simp add: pos_imp_zdiv_nonneg_iff)
qed

lemma partial_fee_Inr:
  assumes "partial_fee fee filled q = Inr c" and "0 \<le> fee" and "0 \<le> filled" and "0 < q"
  shows "0 \<le> c" and "fee * filled \<le> c * q"
  using assms risk_div_ceil_Inr [of "fee * filled" q c]
  by (auto simp: partial_fee_def rbind_Inr_iff ok_or_Inr_iff checked_simps)

lemma haircut_Inr:
  assumes "haircut v bps = Inr c" and "0 \<le> v" and "0 \<le> bps" and "bps \<le> 10000"
  shows "0 \<le> c" and "c \<le> v" and "c * 10000 \<le> v * bps" and "bps = 10000 \<Longrightarrow> c = v"
proof -
  have c: "c = v * bps div 10000"
    using assms by (auto simp: haircut_def rbind_Inr_iff ok_or_Inr_iff checked_simps tdiv_nonneg)
  have "v * bps \<le> v * 10000"
    using assms by (intro mult_left_mono) simp_all
  then show "c \<le> v" by (simp add: c)
  show "0 \<le> c" using assms by (simp add: c pos_imp_zdiv_nonneg_iff)
  show "c * 10000 \<le> v * bps"
    using div_mult_mod_eq [of "v * bps" 10000] pos_mod_sign [of 10000 "v * bps"] unfolding c by linarith
  show "bps = 10000 \<Longrightarrow> c = v" by (simp add: c)
qed

definition held_cash :: "holdings \<Rightarrow> int" where
  "held_cash h = hd_available_cash h + hd_reserved_cash h"

definition held_token :: "holdings \<Rightarrow> token_key \<Rightarrow> int" where
  "held_token h t = bt_get_or (hd_available h) t 0 + bt_get_or (hd_reserved h) t 0 + bt_get_or (hd_locked h) t 0"

definition holdings_ok :: "holdings \<Rightarrow> bool" where
  "holdings_ok h \<longleftrightarrow> 0 \<le> hd_available_cash h \<and> 0 \<le> hd_reserved_cash h
     \<and> (\<forall>t. 0 \<le> bt_get_or (hd_available h) t 0 \<and> 0 \<le> bt_get_or (hd_reserved h) t 0
          \<and> 0 \<le> bt_get_or (hd_locked h) t 0)"

lemma add_balance_Inr: "add_balance m t q = Inr m' \<longleftrightarrow> i128_ok (bt_get_or m t 0 + q) \<and> m' = bt_insert t (bt_get_or m t 0 + q) m"
  by (auto simp: add_balance_def rbind_Inr_iff ok_or_Inr_iff checked_simps)

lemma subtract_balance_Inr:
  assumes "subtract_balance m t q = Inr m'"
  shows "bt_get_or m' x 0 = bt_get_or m x 0 - (if x = t then q else 0)" and "q \<le> bt_get_or m t 0"
proof -
  obtain b where b: "bt_get m t = Some b" "\<not> b - q < 0"
      "m' = (if b - q = 0 then bt_remove t m else bt_insert t (b - q) m)"
    using assms by (auto simp: subtract_balance_def rbind_Inr_iff ok_or_Inr_iff checked_simps split: if_splits)
  then show "bt_get_or m' x 0 = bt_get_or m x 0 - (if x = t then q else 0)" and "q \<le> bt_get_or m t 0"
    by (auto simp: bt_get_or_def bt_simps)
qed


text \<open>Pricing a fill never makes the account richer: with non-negative holdings, a valid order and a
  non-negative fill, the holdings stay non-negative, the filled quantity moves into or out of the
  token exactly, a purchase takes at least its price at the limit out of the cash, a sale adds at
  most its price at the limit, and no other token moves. Marking the token at the limit price, no
  fill gains.\<close>
theorem fill_never_gains:
  assumes "apply_fill h order fill reserved_source = Inr h'" and "holdings_ok h"
    and "valid_order order markets" and "0 \<le> fill"
  shows "holdings_ok h'
    \<and> held_token h' t = held_token h t
        + (if t = oe_token order then (if oe_side order = BuySide then fill else - fill) else 0)
    \<and> held_cash h' * 1000000 + oe_limit_price order * held_token h' (oe_token order)
        \<le> held_cash h * 1000000 + oe_limit_price order * held_token h (oe_token order)"
proof (cases "fill = 0")
  case False
  let ?p = "oe_limit_price order"
  obtain fee where fee: "partial_fee (oe_max_fee order) fill (oe_quantity order) = Inr fee"
    using assms(1) False by (auto simp: apply_fill_def rbind_Inr_iff)
  have fee0: "0 \<le> fee" and p0: "0 \<le> ?p"
    using partial_fee_Inr(1) [OF fee] assms(3,4) by (simp_all add: valid_order_def)
  show ?thesis
  proof (cases "oe_side order")
    case BuySide
    obtain c where c: "buy_cost ?p fill = Inr c"
      using assms(1) False fee BuySide by (auto simp: apply_fill_def rbind_Inr_iff)
    have c0: "?p * fill \<le> c * 1000000" "0 \<le> c"
      using buy_cost_Inr [OF c p0] assms(4) by auto
    obtain m where h': "m = bt_insert (oe_token order) (bt_get_or (hd_available h) (oe_token order) 0 + fill) (hd_available h)"
        "h' = (if reserved_source then h\<lparr>hd_reserved_cash := hd_reserved_cash h - (c + fee), hd_available := m\<rparr>
           else h\<lparr>hd_available_cash := hd_available_cash h - (c + fee), hd_available := m\<rparr>)"
        "if reserved_source then c + fee \<le> hd_reserved_cash h else c + fee \<le> hd_available_cash h"
      using assms(1) False fee BuySide c
      by (auto simp: apply_fill_def rbind_Inr_iff ok_or_Inr_iff checked_simps Let_def add_balance_Inr split: if_splits)
    have "held_token h' x = held_token h x + (if x = oe_token order then fill else 0)" for x
      by (simp add: held_token_def h'(1,2) bt_simps)
    moreover have "held_cash h' = held_cash h - (c + fee)"
      by (simp add: held_cash_def h'(2))
    moreover have "holdings_ok h'"
      using assms(2,4) h' by (auto simp: holdings_ok_def bt_simps)
    ultimately show ?thesis
      using c0 fee0 BuySide by (simp add: algebra_simps)
  next
    case SellSide
    obtain g where g: "sale_proceeds ?p fill = Inr g" and net: "0 \<le> g - fee"
      using assms(1) False fee SellSide by (auto simp: apply_fill_def rbind_Inr_iff ok_or_Inr_iff checked_simps split: if_splits)
    have g0: "g * 1000000 \<le> ?p * fill" using sale_proceeds_Inr [OF g p0] assms(4) by auto
    obtain m where m: "if reserved_source then subtract_balance (hd_reserved h) (oe_token order) fill = Inr m
          else subtract_balance (hd_available h) (oe_token order) fill = Inr m"
        "h' = (if reserved_source then h\<lparr>hd_reserved := m, hd_available_cash := hd_available_cash h + (g - fee)\<rparr>
           else h\<lparr>hd_available := m, hd_available_cash := hd_available_cash h + (g - fee)\<rparr>)"
      using assms(1) False fee SellSide g
      by (auto simp: apply_fill_def rbind_Inr_iff ok_or_Inr_iff checked_simps Let_def split: if_splits)
    have tok: "held_token h' x = held_token h x - (if x = oe_token order then fill else 0)" for x
      using m subtract_balance_Inr(1) [of _ "oe_token order" fill m x] by (auto simp: held_token_def split: if_splits)
    moreover have cash: "held_cash h' = held_cash h + (g - fee)"
      by (simp add: held_cash_def m(2))
    moreover have "holdings_ok h'"
      using assms(2) m net subtract_balance_Inr [of _ "oe_token order" fill m]
      by (auto simp: holdings_ok_def split: if_splits)
    moreover have "?p * held_token h' (oe_token order) = ?p * held_token h (oe_token order) - ?p * fill"
      by (simp add: tok algebra_simps)
    ultimately show ?thesis
      using g0 fee0 SellSide by auto
  qed
qed (use assms in \<open>simp add: apply_fill_def\<close>)

section \<open>Properties\<close>

text \<open>C4: An approval covers every scenario: for every choice of a fill among none, partial and full for
  every open order and every candidate, every combination of market outcomes and every shock, the
  scenario could be priced without an overflow, its terminal wealth is at least the capital floor
  and its gross, condition and group exposures are within their limits.\<close>
theorem risk_approval_covers_every_scenario:
  assumes "evaluate cx i q = Inr d" and "rd_status d = Approve"
    and "fills \<in> listset (map (\<lambda>v. set (fill_choices v)) (request_orders q))"
    and "bits \<in> listset (replicate (length (rq_markets q)) {0, 1})"
    and "shock \<in> set (rq_shocks q)"
  shows "\<exists>p h gross condition grp wealth. prepare q = Inr (Inr p)
    \<and> apply_fills q 0 fills (pr_holdings p) = Inr h
    \<and> exposure h q (pr_groups p) = Inr (gross, condition, grp)
    \<and> terminal_wealth h q bits shock = Inr wealth
    \<and> rl_capital_floor (rq_limits q) \<le> wealth
    \<and> gross \<le> rl_max_gross_exposure (rq_limits q)
    \<and> condition \<le> rl_max_condition_exposure (rq_limits q)
    \<and> grp \<le> rl_max_group_exposure (rq_limits q)"
proof -
  obtain p where p: "prepare q = Inr (Inr p)" "enumerate_scenarios cx i p = Inr d"
    using evaluate_enumerated [OF assms(1)] assms(2) by blast
  note pp = prepare_Inr [OF p(1)]
  obtain e m where e: "try_fold (enumerate_fill p) \<lparr>ex_minimum = None, ex_max_gross = None, ex_max_condition = None, ex_max_group = None\<rparr>
        [0..pr_fill_combinations p - 1] = Inr e" "ex_minimum e = Some m"
      and j: "judge (rq_limits q) e m = Inr (Approve, rd_reason d, the (rd_witness d))"
    using p(2) pp(1) assms(2) by (auto elim!: enumerate_Inr)
  have sc: "is_scenario p fills bits shock"
    using assms(3-5) pp(1,2) by (simp add: is_scenario_def comp_def)
  obtain w where w: "priced p fills bits shock w" "covers e w"
    using scenario_covered [OF e(1) pp(3) _ sc] pp(1,4) by auto
  have lim: "rl_capital_floor (rq_limits q) \<le> sw_terminal_wealth w"
      "sw_gross_exposure w \<le> rl_max_gross_exposure (rq_limits q)"
      "sw_max_condition_exposure w \<le> rl_max_condition_exposure (rq_limits q)"
      "sw_max_group_exposure w \<le> rl_max_group_exposure (rq_limits q)"
    using w(2) e(2) j unfolding judge_Approve by (auto simp: covers_def exceeds_def split: option.split_asm)
  then show ?thesis
    using w(1) p(1) pp(1) by (auto simp: priced_def)
qed

text \<open>The reported minimum is exact: whenever a decision reports a minimum terminal wealth, some
  scenario has it and no scenario has less, and the reported number of scenarios is the number of
  fill choices times outcomes times shocks and within the configured budget.\<close>
theorem risk_minimum_is_exact:
  assumes "evaluate cx i q = Inr d" and "rd_minimum_terminal_wealth d = Some m"
  shows "\<exists>p. prepare q = Inr (Inr p)
    \<and> (\<exists>fills bits shock w. is_scenario p fills bits shock \<and> priced p fills bits shock w \<and> sw_terminal_wealth w = m)
    \<and> (\<forall>fills bits shock. is_scenario p fills bits shock
         \<longrightarrow> (\<exists>w. priced p fills bits shock w \<and> m \<le> sw_terminal_wealth w))
    \<and> rd_scenario_count d = radix_product (map fill_choices (request_orders q))
         * 2 ^ length (rq_markets q) * int (length (rq_shocks q))
    \<and> rd_scenario_count d \<le> rl_max_scenarios (rq_limits q)"
proof -
  obtain p where p: "prepare q = Inr (Inr p)" "enumerate_scenarios cx i p = Inr d"
    using evaluate_enumerated [OF assms(1)] assms(2) by blast
  note pp = prepare_Inr [OF p(1)]
  obtain e w where e: "try_fold (enumerate_fill p) \<lparr>ex_minimum = None, ex_max_gross = None, ex_max_condition = None, ex_max_group = None\<rparr>
        [0..pr_fill_combinations p - 1] = Inr e" "ex_minimum e = Some w" "m = sw_terminal_wealth w"
      and n: "rd_scenario_count d = pr_scenario_count p"
    using p(2) assms(2) by (auto elim!: enumerate_Inr)
  have "attained p e"
  proof (rule try_fold_invariant [OF e(1)])
    show "attained p \<lparr>ex_minimum = None, ex_max_gross = None, ex_max_condition = None, ex_max_group = None\<rparr>"
      by (simp add: attained_def)
    show "attained p s'" if "x \<in> set [0..pr_fill_combinations p - 1]" "attained p s" "enumerate_fill p s x = Inr s'" for s x s'
      using fill_attained [OF _ _ that(3,2)] that(1) pp(2) by (simp add: list_all_iff)
  qed
  then have "\<exists>fills bits shock. is_scenario p fills bits shock \<and> priced p fills bits shock w"
    using e(2) by (simp add: attained_def)
  moreover have "\<exists>v. priced p fills bits shock v \<and> m \<le> sw_terminal_wealth v" if sc: "is_scenario p fills bits shock" for fills bits shock
  proof -
    obtain v where "priced p fills bits shock v" "covers e v"
      using scenario_covered [OF e(1) pp(3) _ sc] pp(1,4) by auto
    then show ?thesis using e(2,3) by (auto simp: covers_def)
  qed
  ultimately show ?thesis
    using p(1) pp(2,5,6) n e(3) by auto
qed

text \<open>An approval rests on sources that are ready, fresh and the same: the reconciliation gate was
  ready at a time not after the evaluation and at most the configured age before it, the ledger
  view is the one that was reconciled and is not halted, the decision names exactly the candidate
  set that was priced, and its digest verifies.\<close>
theorem risk_approval_has_fresh_provenance:
  assumes "evaluate cx i q = Inr d" and "rd_status d = Approve"
  shows "rg_ready (rq_reconciliation q)
    \<and> (\<exists>t. rg_evaluated_at (rq_reconciliation q) = Some t \<and> t \<le> rq_evaluated_at q
         \<and> rq_evaluated_at q - t \<le> rl_max_reconciliation_age (rq_limits q))
    \<and> rg_ledger_digest (rq_reconciliation q) = Some (rd_ledger_digest d)
    \<and> rd_ledger_digest d = lr_ledger_digest (rq_ledger q) \<and> \<not> lr_halted (rq_ledger q)
    \<and> rd_candidate_order_digest d = candidate_set_digest cx q \<and> rd_reason d = AllLimitsSatisfied
    \<and> verify_digest cx d"
proof -
  obtain p t where p: "prepare q = Inr (Inr p)" "enumerate_scenarios cx i p = Inr d"
    and f: "rg_ready (rq_reconciliation q)" "rg_evaluated_at (rq_reconciliation q) = Some t"
      "t \<le> rq_evaluated_at q" "rq_evaluated_at q - t \<le> rl_max_reconciliation_age (rq_limits q)"
      "rg_ledger_digest (rq_reconciliation q) = Some (lr_ledger_digest (rq_ledger q))" "\<not> lr_halted (rq_ledger q)"
    using evaluate_enumerated [OF assms(1)] assms(2) by blast
  have "verify_digest cx d"
    using p(2) sealed_verifies by (auto simp: enumerate_scenarios_def Let_def rbind_Inr_iff)
  moreover have "rd_reason d = AllLimitsSatisfied"
    using p(2) assms(2) by (auto elim!: enumerate_Inr simp: judge_Approve)
  moreover have "rd_ledger_digest d = lr_ledger_digest (rq_ledger q)"
      "rd_candidate_order_digest d = candidate_set_digest cx q"
    using p(2) prepare_Inr(1) [OF p(1)] by (auto elim!: enumerate_Inr)
  ultimately show ?thesis using f by auto
qed


text \<open>A refusal for a limit proves itself: when an evaluated request is refused, the witness the
  decision carries is a scenario of the request, priced as recorded, that breaks the limit the reason
  names.\<close>
theorem risk_refusal_names_a_breach:
  assumes "evaluate cx i q = Inr d" and "rd_status d = NoTrade" and "rd_witness d = Some w"
  shows "\<exists>p fills bits shock. prepare q = Inr (Inr p) \<and> is_scenario p fills bits shock \<and> priced p fills bits shock w
    \<and> (case rd_reason d of
         CapitalFloor \<Rightarrow> sw_terminal_wealth w < rl_capital_floor (rq_limits q)
       | GrossExposure \<Rightarrow> rl_max_gross_exposure (rq_limits q) < sw_gross_exposure w
       | ConditionExposure \<Rightarrow> rl_max_condition_exposure (rq_limits q) < sw_max_condition_exposure w
       | GroupExposure \<Rightarrow> rl_max_group_exposure (rq_limits q) < sw_max_group_exposure w
       | _ \<Rightarrow> False)"
proof -
  obtain p where p: "prepare q = Inr (Inr p)" "enumerate_scenarios cx i p = Inr d"
    using evaluate_enumerated [OF assms(1)] assms(3) by blast
  note pp = prepare_Inr [OF p(1)]
  obtain e m where e: "try_fold (enumerate_fill p) \<lparr>ex_minimum = None, ex_max_gross = None, ex_max_condition = None, ex_max_group = None\<rparr>
        [0..pr_fill_combinations p - 1] = Inr e" "ex_minimum e = Some m"
      and j: "judge (rq_limits q) e m = Inr (NoTrade, rd_reason d, w)"
    using p(2) pp(1) assms(2,3) by (auto elim!: enumerate_Inr)
  have att: "attained p e"
  proof (rule try_fold_invariant [OF e(1)])
    show "attained p \<lparr>ex_minimum = None, ex_max_gross = None, ex_max_condition = None, ex_max_group = None\<rparr>"
      by (simp add: attained_def)
    show "attained p s'" if "x \<in> set [0..pr_fill_combinations p - 1]" "attained p s" "enumerate_fill p s x = Inr s'" for s x s'
      using fill_attained [OF _ _ that(3,2)] that(1) pp(2) by (simp add: list_all_iff)
  qed
  have w: "ex_minimum e = Some w \<or> ex_max_gross e = Some w \<or> ex_max_condition e = Some w \<or> ex_max_group e = Some w"
    and breach: "case rd_reason d of
         CapitalFloor \<Rightarrow> sw_terminal_wealth w < rl_capital_floor (rq_limits q)
       | GrossExposure \<Rightarrow> rl_max_gross_exposure (rq_limits q) < sw_gross_exposure w
       | ConditionExposure \<Rightarrow> rl_max_condition_exposure (rq_limits q) < sw_max_condition_exposure w
       | GroupExposure \<Rightarrow> rl_max_group_exposure (rq_limits q) < sw_max_group_exposure w
       | _ \<Rightarrow> False"
    using j e(2) by (auto simp: judge_def rbind_Inr_iff ok_or_Inr_iff exceeds_def split: if_splits)
  show ?thesis
    using att w breach p(1) unfolding attained_def by blast
qed

section \<open>The risk gate as a decision engine\<close>

lemma risk_apply_unfold:
  "risk_apply cx c s = (case c of Evaluate i q t \<Rightarrow> risk_apply cx (Evaluate i q t) s)"
  by (cases c) simp

interpretation risk_engine: decision_engine "risk_apply cx" risk_command_id "risk_content cx"
  "\<lambda>s k. map_option fst (bt_get (rk_processed s) k)" rk_accepted "\<lambda>s. rk_halted s \<noteq> None"
  "\<lambda>s k. map_option snd (bt_get (rk_processed s) k)"
  for cx
proof unfold_locales
  fix s c e d d' r s' out k
  show "rk_halted s \<noteq> None \<Longrightarrow> \<exists>e. risk_apply cx c s = (Inl e, s)"
    by (cases c) auto
  show "\<not> rk_halted s \<noteq> None \<Longrightarrow> risk_content cx c = Inl e \<Longrightarrow> risk_apply cx c s = (Inl e, s)"
    by (cases c) auto
  show "\<not> rk_halted s \<noteq> None \<Longrightarrow> risk_content cx c = Inr d
      \<Longrightarrow> map_option fst (bt_get (rk_processed s) (risk_command_id c)) = Some d
      \<Longrightarrow> \<exists>out. risk_apply cx c s = (Inr out, s)"
    by (cases c) auto
  show "\<not> rk_halted s \<noteq> None \<Longrightarrow> risk_content cx c = Inr d
      \<Longrightarrow> map_option fst (bt_get (rk_processed s) (risk_command_id c)) = Some d' \<Longrightarrow> d' \<noteq> d
      \<Longrightarrow> risk_apply cx c s = (r, s')
      \<Longrightarrow> (\<exists>e. r = Inl e) \<and> rk_halted s' \<noteq> None
        \<and> (\<lambda>k. map_option fst (bt_get (rk_processed s') k)) = (\<lambda>k. map_option fst (bt_get (rk_processed s) k))
        \<and> rk_accepted s' = rk_accepted s"
    by (cases c) (auto simp: risk_install_halt_def)
  show "\<not> rk_halted s \<noteq> None \<Longrightarrow> risk_content cx c = Inr d
      \<Longrightarrow> map_option fst (bt_get (rk_processed s) (risk_command_id c)) = None
      \<Longrightarrow> risk_apply cx c s = (r, s')
      \<Longrightarrow> ((\<lambda>k. map_option fst (bt_get (rk_processed s') k))
            = (\<lambda>k. map_option fst (bt_get (rk_processed s) k))(risk_command_id c \<mapsto> d) \<and> rk_accepted s' = rk_accepted s + 1)
        \<or> ((\<exists>e. r = Inl e)
           \<and> (\<lambda>k. map_option fst (bt_get (rk_processed s') k)) = (\<lambda>k. map_option fst (bt_get (rk_processed s) k))
           \<and> rk_accepted s' = rk_accepted s)"
    by (cases c) (auto simp: risk_install_halt_def risk_install_def bt_simps checked_simps fun_eq_iff
        dest!: sym [of "Inl _"] split: if_splits sum.split_asm option.split_asm)
  show "\<not> rk_halted s \<noteq> None \<Longrightarrow> risk_content cx c = Inr d
      \<Longrightarrow> map_option fst (bt_get (rk_processed s) (risk_command_id c)) = None
      \<Longrightarrow> risk_apply cx c s = (Inr out, s') \<Longrightarrow> \<not> rk_halted s' \<noteq> None"
    by (cases c) (auto simp: risk_install_halt_def risk_install_def split: if_splits sum.split_asm option.split_asm)
  show "\<not> rk_halted s \<noteq> None \<Longrightarrow> risk_content cx c = Inr d
      \<Longrightarrow> map_option fst (bt_get (rk_processed s) (risk_command_id c)) = Some d
      \<Longrightarrow> \<exists>out. map_option snd (bt_get (rk_processed s) (risk_command_id c)) = Some out \<and> risk_apply cx c s = (Inr out, s)"
    by (cases c) auto
  show "\<not> rk_halted s \<noteq> None \<Longrightarrow> risk_content cx c = Inr d
      \<Longrightarrow> map_option fst (bt_get (rk_processed s) (risk_command_id c)) = None
      \<Longrightarrow> risk_apply cx c s = (Inr out, s') \<Longrightarrow> map_option snd (bt_get (rk_processed s') (risk_command_id c)) = Some out"
    by (cases c) (auto simp: risk_install_halt_def risk_install_def bt_simps split: if_splits sum.split_asm option.split_asm)
  show "map_option snd (bt_get (rk_processed s) k) = Some out \<Longrightarrow> risk_apply cx c s = (r, s')
      \<Longrightarrow> map_option snd (bt_get (rk_processed s') k) = Some out"
    by (cases c) (auto simp: risk_install_halt_def risk_install_def bt_simps split: if_splits sum.split_asm option.split_asm)
qed


section \<open>A concrete request\<close>

text \<open>A wallet with ten units of cash of which four are reserved by an open purchase, and a candidate
  purchase of the other token of the market; amounts are in micros.\<close>

definition demo_codec :: risk_codec where
  "demo_codec = \<lparr>kc_to_vec = \<lambda>_. Inr ''w'', kc_order_json = \<lambda>_. ''o'', kc_decision_json = \<lambda>_. ''d'', kc_blake3 = \<lambda>_. 7\<rparr>"


definition demo_order :: "risk_order_id \<Rightarrow> token_key \<Rightarrow> order_side \<Rightarrow> int \<Rightarrow> order_exposure" where
  "demo_order i t sd n = \<lparr>oe_order_id = i, oe_token = t, oe_side = sd, oe_quantity = n, oe_partial_fill = 0,
     oe_limit_price = 500000, oe_max_fee = 0\<rparr>"

definition demo_limits :: risk_limits where
  "demo_limits = \<lparr>rl_capital_floor = 5, rl_operational_reserve = 0, rl_pending_settlement_reserve = 0,
     rl_max_gross_exposure = 20, rl_max_condition_exposure = 10, rl_max_group_exposure = 10,
     rl_reserved_cash_haircut_bps = 10000, rl_available_token_haircut_bps = 10000,
     rl_reserved_token_haircut_bps = 10000, rl_locked_token_haircut_bps = 10000,
     rl_max_reconciliation_age = 5, rl_max_open_orders = 4, rl_max_scenarios = 100\<rparr>"

definition demo_request :: risk_request where
  "demo_request = \<lparr>rq_reconciliation = \<lparr>rg_digest = 1, rg_ready = True, rg_evaluated_at = Some 4,
       rg_ledger_digest = Some 5, rg_chain_block_number = Some 9\<rparr>,
     rq_ledger = \<lparr>lr_ledger_digest = 5, lr_halted = False, lr_cash_available = 6, lr_cash_reserved = 4,
       lr_available_tokens = [], lr_reserved_tokens = [], lr_locked_tokens = []\<rparr>,
     rq_markets = [\<lparr>mr_condition_id = ''c'', mr_up = demo_up, mr_down = demo_down, mr_shock_group = ''g''\<rparr>],
     rq_open_orders = [demo_order 1 demo_up BuySide 8],
     rq_candidate = demo_order 2 demo_down BuySide 4, rq_additional_candidates = [],
     rq_shocks = [\<lparr>sh_shock_id = ''s'', sh_group_multipliers = []\<rparr>],
     rq_limits = demo_limits, rq_evaluated_at = 6\<rparr>"

definition demo_decision :: risk_decision where
  "demo_decision = (case evaluate demo_codec 1 demo_request of Inr d \<Rightarrow> d | Inl _ \<Rightarrow> undefined)"

text \<open>Worst case: only the open order is filled, and the market goes down.\<close>

lemma demo_evaluates:
  "evaluate demo_codec 1 demo_request = Inr demo_decision \<and> rd_status demo_decision = Approve
     \<and> rd_minimum_terminal_wealth demo_decision = Some 6"
  by code_simp

theorem fill_never_gains_witness:
  "\<exists>h'. apply_fill \<lparr>hd_available_cash = 6, hd_reserved_cash = 4, hd_available = [], hd_reserved = [], hd_locked = []\<rparr>
      (demo_order 1 demo_up BuySide 8) 8 True = Inr h' \<and> holdings_ok h' \<and> held_token h' demo_up = 8"
proof -
  let ?h = "\<lparr>hd_available_cash = 6, hd_reserved_cash = 4, hd_available = [], hd_reserved = [], hd_locked = []\<rparr>"
  have "is_ok (apply_fill ?h (demo_order 1 demo_up BuySide 8) 8 True)"
    by code_simp
  then obtain h' where h': "apply_fill ?h (demo_order 1 demo_up BuySide 8) 8 True = Inr h'"
    by (auto simp: is_ok_def split: sum.split_asm)
  have v: "valid_order (demo_order 1 demo_up BuySide 8) [(demo_up, 0)]"
    by code_simp
  have ok: "holdings_ok ?h"
    by (simp add: holdings_ok_def bt_get_or_def)
  show ?thesis
    using fill_never_gains [OF h' ok v, of demo_up] h'
    by (simp add: held_token_def [of ?h] bt_get_or_def) (simp add: demo_order_def)
qed

theorem risk_approval_covers_every_scenario_witness:
  "\<exists>p h wealth. prepare demo_request = Inr (Inr p) \<and> apply_fills demo_request 0 [8, 0] (pr_holdings p) = Inr h
     \<and> terminal_wealth h demo_request [1] (hd (rq_shocks demo_request)) = Inr wealth
     \<and> rl_capital_floor (rq_limits demo_request) \<le> wealth"
proof -
  have f: "[8, 0] \<in> listset (map (\<lambda>v. set (fill_choices v)) (request_orders demo_request))"
    by (simp add: request_orders_def all_candidates_def demo_request_def demo_order_def fill_choices_def set_Cons_def)
  have b: "[1] \<in> listset (replicate (length (rq_markets demo_request)) {0, 1})"
    by (simp add: demo_request_def set_Cons_def)
  have s: "hd (rq_shocks demo_request) \<in> set (rq_shocks demo_request)"
    by (simp add: demo_request_def)
  show ?thesis
    using risk_approval_covers_every_scenario [OF _ _ f b s, of demo_codec 1 demo_decision] demo_evaluates by blast
qed

theorem risk_minimum_is_exact_witness:
  "rd_scenario_count demo_decision = 8"
proof -
  have "radix_product (map fill_choices (request_orders demo_request))
      * 2 ^ length (rq_markets demo_request) * int (length (rq_shocks demo_request)) = 8"
    by code_simp
  then show ?thesis
    using risk_minimum_is_exact [of demo_codec 1 demo_request demo_decision 6] demo_evaluates by auto
qed

theorem risk_approval_has_fresh_provenance_witness:
  "rd_ledger_digest demo_decision = 5 \<and> verify_digest demo_codec demo_decision"
  using risk_approval_has_fresh_provenance [of demo_codec 1 demo_request demo_decision] demo_evaluates
  by (simp add: demo_request_def)

definition demo_refused :: risk_request where
  "demo_refused = demo_request\<lparr>rq_limits := demo_limits\<lparr>rl_capital_floor := 7\<rparr>\<rparr>"

definition demo_refusal :: risk_decision where
  "demo_refusal = (case evaluate demo_codec 1 demo_refused of Inr d \<Rightarrow> d | Inl _ \<Rightarrow> undefined)"

lemma demo_refuses:
  "evaluate demo_codec 1 demo_refused = Inr demo_refusal \<and> rd_status demo_refusal = NoTrade
     \<and> rd_reason demo_refusal = CapitalFloor \<and> rd_witness demo_refusal = Some
       \<lparr>sw_fill_quantities = [8, 0], sw_outcome_bits = [1], sw_shock_id = ''s'', sw_terminal_wealth = 6,
        sw_gross_exposure = 8, sw_max_condition_exposure = 8, sw_max_group_exposure = 8\<rparr>"
  by code_simp

theorem risk_refusal_names_a_breach_witness:
  "\<exists>w. rd_witness demo_refusal = Some w \<and> sw_terminal_wealth w < rl_capital_floor (rq_limits demo_refused)"
  using risk_refusal_names_a_breach [of demo_codec 1 demo_refused demo_refusal] demo_refuses by auto

text \<open>The risk engine repeats itself: a command that was decided is answered later, after any
  further commands that do not halt the engine, with the same decision and without a change of
  state; other content under its id is refused and halts the engine for good.\<close>
theorem risk_decisions_are_repeated:
  assumes "risk_apply cx c s = (Inr d, s1)"
    and "rk_halted (run_commands (risk_apply cx) cs s1) = None"
    and "risk_command_id c' = risk_command_id c"
    and "risk_content cx c' = Inr d'" and "risk_content cx c \<noteq> Inr d'"
  shows "risk_apply cx c (run_commands (risk_apply cx) cs s1) = (Inr d, run_commands (risk_apply cx) cs s1)
    \<and> (\<exists>e s2. risk_apply cx c' (run_commands (risk_apply cx) cs s1) = (Inl e, s2) \<and> rk_halted s2 \<noteq> None
        \<and> run_commands (risk_apply cx) ds s2 = s2)"
proof -
  obtain r s2 where s2: "risk_apply cx c' (run_commands (risk_apply cx) cs s1) = (r, s2)"
    by fastforce
  have "(\<exists>e. r = Inl e) \<and> rk_halted s2 \<noteq> None"
    using risk_engine.equivocation_halts [OF assms(1,3,4), of cs] assms(4,5) s2 by auto
  then show ?thesis
    using risk_engine.replay_same_decision [OF assms(1)] assms(2) s2 risk_engine.halted_absorbing [of s2 cx ds]
    by auto
qed

definition demo_time_codec :: risk_codec where
  "demo_time_codec = demo_codec\<lparr>kc_to_vec := \<lambda>w. Inr (le_bytes 1 (risk_recorded_at (wire_command w))), kc_blake3 := demo_hash\<rparr>"

theorem risk_decisions_are_repeated_witness:
  "\<exists>d. risk_apply demo_time_codec (Evaluate 1 demo_request 6)
      (snd (risk_apply demo_time_codec (Evaluate 1 demo_request 6) risk_engine_default))
    = (Inr d, snd (risk_apply demo_time_codec (Evaluate 1 demo_request 6) risk_engine_default))"
proof -
  let ?a = "risk_apply demo_time_codec"
  let ?s = "snd (?a (Evaluate 1 demo_request 6) risk_engine_default)"
  have "is_ok (fst (?a (Evaluate 1 demo_request 6) risk_engine_default))"
    by code_simp
  then obtain d where 1: "?a (Evaluate 1 demo_request 6) risk_engine_default = (Inr d, ?s)"
    by (cases "?a (Evaluate 1 demo_request 6) risk_engine_default") (auto simp: is_ok_def split: sum.split_asm)
  have 2: "rk_halted (run_commands ?a [] ?s) = None"
    by code_simp
  have 3: "risk_content demo_time_codec (Evaluate 1 demo_request 7) = Inr 7"
      "risk_content demo_time_codec (Evaluate 1 demo_request 6) \<noteq> Inr 7"
    by code_simp+
  show ?thesis
    using risk_decisions_are_repeated [OF 1 2 _ 3] by auto
qed

end
