(* ===== verification/Order_Policy.thy ===== *)
theory Order_Policy
  imports Portfolio_Risk
begin

text \<open>
  The order-intent policy of \<open>crates/order-intent-policy/src/lib.rs\<close>: what the
  exchange allows at the moment, the permits for placing and cancelling an order,
  and the life of every order that got a permit. This theory holds the data and the
  operations; \<open>Order_Policy_Theorems\<close> what they guarantee. The hash and the
  serialiser are the fields of \<open>policy_codec\<close>.
\<close>

section \<open>Data\<close>

type_synonym policy_command_id = bytes32

datatype exchange_mode =
    ModeUnknown
  | ModeNormal
  | ModeRestarting
  | ModePostOnly
  | ModeCancelOnly
  | ModeTradingDisabled
  | ModeRecovering

record mode_observation =
  mo_sequence :: int
  mo_mode :: exchange_mode
  mo_observed_at :: int
  mo_valid_until :: int

datatype time_in_force = Gtc | Gtd int | Fok | Fak

record signer_policy =
  sp_policy_id :: bytes32
  sp_venue :: string
  sp_exchange_contract :: string
  sp_allowed_tokens :: "token_key list"
  sp_max_quantity :: int
  sp_max_price :: int
  sp_max_notional :: int
  sp_allow_maker :: bool
  sp_allow_taker :: bool
  sp_valid_from :: int
  sp_valid_until :: int

record placement_request =
  pl_approval :: risk_decision
  pl_order :: order_exposure
  pl_venue :: string
  pl_exchange_contract :: string
  pl_post_only :: bool
  pl_marketable :: bool
  pl_time_in_force :: time_in_force
  pl_signer_policy :: signer_policy
  pl_max_approval_age :: int
  pl_max_mode_age :: int
  pl_authorization_expires_at :: int
  pl_evaluated_at :: int

record cancel_request =
  cr_order_id :: risk_order_id
  cr_max_mode_age :: int
  cr_evaluated_at :: int

datatype policy_command =
    ObserveMode policy_command_id mode_observation int
  | AuthorizePlacement policy_command_id placement_request int
  | MarkDelayed policy_command_id risk_order_id int int int
  | MarkLive policy_command_id risk_order_id int
  | AuthorizeCancel policy_command_id cancel_request int
  | MarkTerminal policy_command_id risk_order_id int

fun policy_command_id :: "policy_command \<Rightarrow> policy_command_id" where
  "policy_command_id (ObserveMode i _ _) = i"
| "policy_command_id (AuthorizePlacement i _ _) = i"
| "policy_command_id (MarkDelayed i _ _ _ _) = i"
| "policy_command_id (MarkLive i _ _) = i"
| "policy_command_id (AuthorizeCancel i _ _) = i"
| "policy_command_id (MarkTerminal i _ _) = i"

fun policy_recorded_at :: "policy_command \<Rightarrow> int" where
  "policy_recorded_at (ObserveMode _ _ t) = t"
| "policy_recorded_at (AuthorizePlacement _ _ t) = t"
| "policy_recorded_at (MarkDelayed _ _ _ _ t) = t"
| "policy_recorded_at (MarkLive _ _ t) = t"
| "policy_recorded_at (AuthorizeCancel _ _ t) = t"
| "policy_recorded_at (MarkTerminal _ _ t) = t"

datatype policy_status = Permit | Deny

datatype policy_action = ActObserveMode | ActPlace | ActLifecycle | ActCancel

datatype policy_reason =
    ModeAccepted
  | PlacementPermitted
  | LifecycleAccepted
  | CancelPermitted
  | ModeUnavailable
  | ModeStale
  | ModeForbidsPlacement
  | ModeForbidsCancel
  | PostOnlyViolation
  | RiskNotApproved
  | RiskDigestInvalid
  | RiskOrderMismatch
  | RiskApprovalStale
  | ApprovalAlreadyUsed
  | AuthorizationExpired
  | SignerPolicyInvalid
  | SignerPolicyInactive
  | VenueForbidden
  | ContractForbidden
  | TokenForbidden
  | QuantityLimit
  | PriceLimit
  | NotionalLimit
  | MakerForbidden
  | TakerForbidden
  | TimeInForceInvalid
  | OrderAlreadyTracked
  | OrderUnknown
  | OrderTerminal
  | CancelAlreadyAuthorized
  | Uncancellable

record policy_decision =
  pd_command_id :: policy_command_id
  pd_action :: policy_action
  pd_status :: policy_status
  pd_reason :: policy_reason
  pd_order_id :: "risk_order_id option"
  pd_exchange_mode :: exchange_mode
  pd_risk_decision_digest :: "bytes32 option"
  pd_signer_policy_digest :: "bytes32 option"
  pd_subject_digest :: "bytes32 option"
  pd_decision_digest :: bytes32

datatype order_stage =
    Authorized
  | Delayed int int
  | Live
  | CancelAuthorized
  | Terminal

record tracked_order =
  tk_order :: order_exposure
  tk_approval_digest :: bytes32
  tk_signer_policy_digest :: bytes32
  tk_authorization_expires_at :: int
  tk_stage :: order_stage

datatype policy_error =
    PTimestamp
  | PCommandBound
  | PJson string
  | PVersion int
  | PIdempotencyConflict
  | PModeHistory
  | PClockRegression
  | PLifecycleTransition
  | POverflow
  | PHalted string

fun policy_error_text :: "policy_error \<Rightarrow> string" where
  "policy_error_text PTimestamp = ''policy command timestamp is invalid''"
| "policy_error_text PCommandBound = ''policy command exceeds its canonical bound''"
| "policy_error_text (PJson e) = ''policy command JSON is invalid: '' @ e"
| "policy_error_text (PVersion v) = ''unsupported policy command version: '' @ show_nat (nat v)"
| "policy_error_text PIdempotencyConflict = ''policy command id was reused for different content''"
| "policy_error_text PModeHistory = ''exchange-mode history regressed or equivocated''"
| "policy_error_text PClockRegression = ''policy command time regressed''"
| "policy_error_text PLifecycleTransition = ''order lifecycle transition is impossible''"
| "policy_error_text POverflow = ''policy arithmetic overflow''"
| "policy_error_text (PHalted reason) = ''policy engine is halted: '' @ reason"

record policy_engine =
  pe_processed :: "(policy_command_id, bytes32 \<times> policy_decision) btree"
  pe_mode :: "mode_observation option"
  pe_orders :: "(risk_order_id, tracked_order) btree"
  pe_used_approvals :: "bytes32 btset"
  pe_accepted :: int
  pe_last_recorded_at :: "int option"
  pe_last_decision :: "policy_decision option"
  pe_halted :: "string option"

definition policy_engine_default :: policy_engine where
  "policy_engine_default = \<lparr>pe_processed = [], pe_mode = None, pe_orders = [], pe_used_approvals = [],
     pe_accepted = 0, pe_last_recorded_at = None, pe_last_decision = None, pe_halted = None\<rparr>"

text \<open>\<open>serde_json\<close> on the types that are hashed, and \<open>blake3\<close>.\<close>

record policy_codec =
  pc_to_vec :: "policy_command wire \<Rightarrow> string + string"
  pc_signer_json :: "signer_policy \<Rightarrow> string"
  pc_placement_json :: "placement_request \<Rightarrow> string"
  pc_cancel_json :: "cancel_request \<Rightarrow> string"
  pc_decision_json :: "policy_decision \<Rightarrow> string"
  pc_risk :: risk_codec

abbreviation pc_blake3 :: "policy_codec \<Rightarrow> string \<Rightarrow> bytes32" where
  "pc_blake3 cx \<equiv> kc_blake3 (pc_risk cx)"

section \<open>Digests and decisions\<close>

definition signer_policy_digest :: "policy_codec \<Rightarrow> signer_policy \<Rightarrow> bytes32" where
  "signer_policy_digest cx p =
     pc_blake3 cx (''order-intent-signer-policy-v1'' @ prefixed (pc_signer_json cx p))"

definition placement_request_digest :: "policy_codec \<Rightarrow> placement_request \<Rightarrow> bytes32" where
  "placement_request_digest cx r =
     pc_blake3 cx (''order-intent-placement-request-v1'' @ prefixed (pc_placement_json cx r))"

definition cancel_request_digest :: "policy_codec \<Rightarrow> cancel_request \<Rightarrow> bytes32" where
  "cancel_request_digest cx r =
     pc_blake3 cx (''order-intent-cancel-request-v1'' @ prefixed (pc_cancel_json cx r))"

definition policy_decision_digest :: "policy_codec \<Rightarrow> policy_decision \<Rightarrow> bytes32" where
  "policy_decision_digest cx d = pc_blake3 cx (pc_decision_json cx (d\<lparr>pd_decision_digest := 0\<rparr>))"

definition policy_verify_digest :: "policy_codec \<Rightarrow> policy_decision \<Rightarrow> bool" where
  "policy_verify_digest cx d = (pd_decision_digest d = policy_decision_digest cx d)"

record decision_evidence =
  ev_order_id :: "risk_order_id option"
  ev_risk_digest :: "bytes32 option"
  ev_signer_digest :: "bytes32 option"
  ev_subject_digest :: "bytes32 option"

definition evidence_default :: decision_evidence where
  "evidence_default = \<lparr>ev_order_id = None, ev_risk_digest = None, ev_signer_digest = None, ev_subject_digest = None\<rparr>"

definition evidence_order :: "risk_order_id \<Rightarrow> decision_evidence" where
  "evidence_order i = \<lparr>ev_order_id = Some i, ev_risk_digest = None, ev_signer_digest = None, ev_subject_digest = None\<rparr>"

definition evidence_cancel :: "policy_codec \<Rightarrow> cancel_request \<Rightarrow> decision_evidence" where
  "evidence_cancel cx r = \<lparr>ev_order_id = Some (cr_order_id r), ev_risk_digest = None, ev_signer_digest = None,
     ev_subject_digest = Some (cancel_request_digest cx r)\<rparr>"

definition make_decision ::
  "policy_codec \<Rightarrow> policy_command_id \<Rightarrow> policy_action \<Rightarrow> policy_status \<Rightarrow> policy_reason \<Rightarrow> exchange_mode
    \<Rightarrow> decision_evidence \<Rightarrow> policy_decision" where
  "make_decision cx i action status reason mode ev =
     (let value = \<lparr>pd_command_id = i, pd_action = action, pd_status = status, pd_reason = reason,
        pd_order_id = ev_order_id ev, pd_exchange_mode = mode,
        pd_risk_decision_digest = ev_risk_digest ev, pd_signer_policy_digest = ev_signer_digest ev,
        pd_subject_digest = ev_subject_digest ev, pd_decision_digest = 0\<rparr>
      in value\<lparr>pd_decision_digest := policy_decision_digest cx value\<rparr>)"

section \<open>The rules for placing\<close>

definition policy_div_ceil :: "int \<Rightarrow> int \<Rightarrow> policy_error + int" where
  "policy_div_ceil value divisor =
     rbind (ok_or (sub128 divisor 1) POverflow) (\<lambda>d.
     rbind (ok_or (add128 value d) POverflow) (\<lambda>adjusted.
     Inr (tdiv adjusted divisor)))"

definition strict_tokens :: "token_key list \<Rightarrow> bool" where
  "strict_tokens ts \<longleftrightarrow> list_all (\<lambda>t. valid_text (condition_id t) \<and> valid_text (token_id t)) ts
     \<and> successively (<) ts"

text \<open>The age tests of the modes and of approvals: \<open>evaluated_at - observed_at\<close> is an unchecked
  \<open>i64\<close> subtraction.\<close>

definition mode_stale :: "mode_observation \<Rightarrow> int \<Rightarrow> int \<Rightarrow> bool" where
  "mode_stale m max_age at \<longleftrightarrow> max_age < 0 \<or> at < mo_observed_at m \<or> mo_valid_until m \<le> at
     \<or> max_age < wrap64 (at - mo_observed_at m)"

definition mode_place_denial :: "mode_observation option \<Rightarrow> placement_request \<Rightarrow> policy_reason option" where
  "mode_place_denial mode r =
     (case mode of
        None \<Rightarrow> Some ModeUnavailable
      | Some m \<Rightarrow>
          if mode_stale m (pl_max_mode_age r) (pl_evaluated_at r) then Some ModeStale
          else (case mo_mode m of
              ModeNormal \<Rightarrow> None
            | ModePostOnly \<Rightarrow>
                if pl_post_only r \<and> \<not> pl_marketable r then None else Some PostOnlyViolation
            | _ \<Rightarrow> Some ModeForbidsPlacement))"

definition mode_cancel_denial :: "mode_observation option \<Rightarrow> cancel_request \<Rightarrow> policy_reason option" where
  "mode_cancel_denial mode r =
     (case mode of
        None \<Rightarrow> Some ModeUnavailable
      | Some m \<Rightarrow>
          if mode_stale m (cr_max_mode_age r) (cr_evaluated_at r) then Some ModeStale
          else (case mo_mode m of
              ModeUnknown \<Rightarrow> Some ModeForbidsCancel
            | ModeRestarting \<Rightarrow> Some ModeForbidsCancel
            | _ \<Rightarrow> None))"

text \<open>The membership test of a token is \<open>binary_search\<close>, on a list just checked by \<open>strict_tokens\<close>.\<close>

definition signer_denial :: "placement_request \<Rightarrow> policy_error + policy_reason option" where
  "signer_denial r =
     (let p = pl_signer_policy r; v = pl_order r in
      if \<not> valid_text (sp_venue p) \<or> \<not> valid_text (sp_exchange_contract p) \<or> sp_allowed_tokens p = []
         \<or> 64 < int (length (sp_allowed_tokens p)) \<or> sp_max_quantity p \<le> 0
         \<or> \<not> (0 \<le> sp_max_price p \<and> sp_max_price p \<le> 1000000) \<or> sp_max_notional p \<le> 0
         \<or> sp_valid_from p < 0 \<or> sp_valid_until p \<le> sp_valid_from p \<or> \<not> strict_tokens (sp_allowed_tokens p)
      then Inr (Some SignerPolicyInvalid)
      else if pl_evaluated_at r < sp_valid_from p \<or> sp_valid_until p \<le> pl_evaluated_at r
      then Inr (Some SignerPolicyInactive)
      else if pl_venue r \<noteq> sp_venue p then Inr (Some VenueForbidden)
      else if pl_exchange_contract r \<noteq> sp_exchange_contract p then Inr (Some ContractForbidden)
      else if oe_token v \<notin> set (sp_allowed_tokens p) then Inr (Some TokenForbidden)
      else if sp_max_quantity p < oe_quantity v then Inr (Some QuantityLimit)
      else if sp_max_price p < oe_limit_price v then Inr (Some PriceLimit)
      else
        rbind (ok_or (mul128 (oe_limit_price v) (oe_quantity v)) POverflow) (\<lambda>product.
        rbind (policy_div_ceil product 1000000) (\<lambda>cost.
        rbind (ok_or (add128 cost (oe_max_fee v)) POverflow) (\<lambda>notional.
        if sp_max_notional p < notional then Inr (Some NotionalLimit)
        else if pl_marketable r \<and> \<not> sp_allow_taker p then Inr (Some TakerForbidden)
        else if \<not> pl_marketable r \<and> \<not> sp_allow_maker p then Inr (Some MakerForbidden)
        else Inr None))))"

definition time_in_force_denial :: "placement_request \<Rightarrow> policy_reason option" where
  "time_in_force_denial r =
     (if pl_post_only r \<and> pl_marketable r then Some PostOnlyViolation
      else (case pl_time_in_force r of
          Gtd expires_at \<Rightarrow> if expires_at \<le> pl_evaluated_at r then Some TimeInForceInvalid else None
        | Fok \<Rightarrow> if pl_post_only r then Some TimeInForceInvalid else None
        | Fak \<Rightarrow> if pl_post_only r then Some TimeInForceInvalid else None
        | Gtc \<Rightarrow> None))"

definition placement_denial ::
  "policy_codec \<Rightarrow> placement_request \<Rightarrow> policy_engine \<Rightarrow> policy_error + policy_reason option" where
  "placement_denial cx r s =
     (let a = pl_approval r in
      if \<not> verify_digest (pc_risk cx) a then Inr (Some RiskDigestInvalid)
      else if rd_status a \<noteq> Approve \<or> rd_reason a \<noteq> AllLimitsSatisfied then Inr (Some RiskNotApproved)
      else if rd_candidate_order_digest a \<noteq> order_exposure_digest (pc_risk cx) (pl_order r)
      then Inr (Some RiskOrderMismatch)
      else if pl_evaluated_at r < rd_evaluated_at a \<or> pl_max_approval_age r < 0
         \<or> pl_max_approval_age r < wrap64 (pl_evaluated_at r - rd_evaluated_at a)
      then Inr (Some RiskApprovalStale)
      else if bs_mem (rd_decision_digest a) (pe_used_approvals s) then Inr (Some ApprovalAlreadyUsed)
      else if bt_contains (pe_orders s) (oe_order_id (pl_order r)) then Inr (Some OrderAlreadyTracked)
      else if pl_authorization_expires_at r \<le> pl_evaluated_at r then Inr (Some AuthorizationExpired)
      else (case mode_place_denial (pe_mode s) r of
          Some reason \<Rightarrow> Inr (Some reason)
        | None \<Rightarrow>
            rbind (signer_denial r) (\<lambda>signer.
            case signer of Some reason \<Rightarrow> Inr (Some reason) | None \<Rightarrow> Inr (time_in_force_denial r))))"

section \<open>Operations\<close>

type_synonym policy_result = "policy_error + policy_decision \<times> policy_engine"

definition current_mode :: "policy_engine \<Rightarrow> exchange_mode" where
  "current_mode s = (case pe_mode s of None \<Rightarrow> ModeUnknown | Some m \<Rightarrow> mo_mode m)"

definition observe_mode ::
  "policy_codec \<Rightarrow> policy_command_id \<Rightarrow> mode_observation \<Rightarrow> policy_engine \<Rightarrow> policy_result" where
  "observe_mode cx i v s =
     (if mo_observed_at v < 0 \<or> mo_valid_until v \<le> mo_observed_at v then Inl PTimestamp
      else
        let accept = (\<lambda>m. make_decision cx i ActObserveMode Permit ModeAccepted m evidence_default) in
        case pe_mode s of
          None \<Rightarrow> Inr (accept (mo_mode v), s\<lparr>pe_mode := Some v\<rparr>)
        | Some p \<Rightarrow>
            if mo_sequence v < mo_sequence p \<or> mo_observed_at v < mo_observed_at p
               \<or> (mo_sequence v = mo_sequence p \<and> v \<noteq> p) then Inl PModeHistory
            else if mo_sequence v = mo_sequence p then Inr (accept (mo_mode p), s)
            else Inr (accept (mo_mode v), s\<lparr>pe_mode := Some v\<rparr>))"

definition authorize_placement ::
  "policy_codec \<Rightarrow> policy_command_id \<Rightarrow> placement_request \<Rightarrow> policy_engine \<Rightarrow> policy_result" where
  "authorize_placement cx i r s =
     (let mode = current_mode s;
          signer_digest = signer_policy_digest cx (pl_signer_policy r);
          evidence = \<lparr>ev_order_id = Some (oe_order_id (pl_order r)),
            ev_risk_digest = Some (rd_decision_digest (pl_approval r)),
            ev_signer_digest = Some signer_digest,
            ev_subject_digest = Some (placement_request_digest cx r)\<rparr> in
      rbind (placement_denial cx r s) (\<lambda>denial.
      case denial of
        Some reason \<Rightarrow> Inr (make_decision cx i ActPlace Deny reason mode evidence, s)
      | None \<Rightarrow> Inr (make_decision cx i ActPlace Permit PlacementPermitted mode evidence,
          s\<lparr>pe_used_approvals := bs_insert (rd_decision_digest (pl_approval r)) (pe_used_approvals s),
            pe_orders := bt_insert (oe_order_id (pl_order r))
              \<lparr>tk_order = pl_order r, tk_approval_digest = rd_decision_digest (pl_approval r),
               tk_signer_policy_digest = signer_digest,
               tk_authorization_expires_at = pl_authorization_expires_at r, tk_stage = Authorized\<rparr>
              (pe_orders s)\<rparr>)))"

definition lifecycle_decision :: "policy_codec \<Rightarrow> policy_command_id \<Rightarrow> risk_order_id \<Rightarrow> policy_engine \<Rightarrow> policy_decision" where
  "lifecycle_decision cx i order_id s =
     make_decision cx i ActLifecycle Permit LifecycleAccepted (current_mode s) (evidence_order order_id)"

definition set_stage :: "risk_order_id \<Rightarrow> tracked_order \<Rightarrow> order_stage \<Rightarrow> policy_engine \<Rightarrow> policy_engine" where
  "set_stage i t stage s = s\<lparr>pe_orders := bt_insert i (t\<lparr>tk_stage := stage\<rparr>) (pe_orders s)\<rparr>"

definition mark_delayed ::
  "policy_codec \<Rightarrow> policy_command_id \<Rightarrow> risk_order_id \<Rightarrow> int \<Rightarrow> int \<Rightarrow> int \<Rightarrow> policy_engine \<Rightarrow> policy_result" where
  "mark_delayed cx i order_id release_at uncancellable_until at s =
     (if release_at \<le> at \<or> uncancellable_until < release_at then Inl PLifecycleTransition
      else
        rbind (ok_or (bt_get (pe_orders s) order_id) PLifecycleTransition) (\<lambda>t.
        if tk_stage t \<noteq> Authorized \<or> tk_authorization_expires_at t \<le> at then Inl PLifecycleTransition
        else
          let s' = set_stage order_id t (Delayed release_at uncancellable_until) s in
          Inr (lifecycle_decision cx i order_id s', s')))"

definition mark_live ::
  "policy_codec \<Rightarrow> policy_command_id \<Rightarrow> risk_order_id \<Rightarrow> int \<Rightarrow> policy_engine \<Rightarrow> policy_result" where
  "mark_live cx i order_id at s =
     rbind (ok_or (bt_get (pe_orders s) order_id) PLifecycleTransition) (\<lambda>t.
     rbind (case tk_stage t of
         Authorized \<Rightarrow> ensure (at < tk_authorization_expires_at t) PLifecycleTransition
       | Delayed release_at _ \<Rightarrow> ensure (release_at \<le> at) PLifecycleTransition
       | _ \<Rightarrow> Inl PLifecycleTransition) (\<lambda>_.
     let s' = set_stage order_id t Live s in
     Inr (lifecycle_decision cx i order_id s', s')))"

definition authorize_cancel ::
  "policy_codec \<Rightarrow> policy_command_id \<Rightarrow> cancel_request \<Rightarrow> policy_engine \<Rightarrow> policy_result" where
  "authorize_cancel cx i r s =
     (let decide = (\<lambda>status reason. make_decision cx i ActCancel status reason (current_mode s) (evidence_cancel cx r)) in
      case bt_get (pe_orders s) (cr_order_id r) of
        None \<Rightarrow> Inr (decide Deny OrderUnknown, s)
      | Some t \<Rightarrow>
          (case (case tk_stage t of
                Terminal \<Rightarrow> Some OrderTerminal
              | CancelAuthorized \<Rightarrow> Some CancelAlreadyAuthorized
              | Delayed _ uncancellable_until \<Rightarrow>
                  if cr_evaluated_at r < uncancellable_until then Some Uncancellable
                  else mode_cancel_denial (pe_mode s) r
              | _ \<Rightarrow> mode_cancel_denial (pe_mode s) r) of
             Some reason \<Rightarrow> Inr (decide Deny reason, s)
           | None \<Rightarrow> Inr (decide Permit CancelPermitted, set_stage (cr_order_id r) t CancelAuthorized s)))"

definition mark_terminal :: "policy_codec \<Rightarrow> policy_command_id \<Rightarrow> risk_order_id \<Rightarrow> policy_engine \<Rightarrow> policy_result" where
  "mark_terminal cx i order_id s =
     rbind (ok_or (bt_get (pe_orders s) order_id) PLifecycleTransition) (\<lambda>t.
     if tk_stage t = Terminal then Inl PLifecycleTransition
     else
       let s' = set_stage order_id t Terminal s in
       Inr (lifecycle_decision cx i order_id s', s'))"

fun policy_apply_fresh :: "policy_codec \<Rightarrow> policy_command \<Rightarrow> policy_engine \<Rightarrow> policy_result" where
  "policy_apply_fresh cx (ObserveMode i v _) s = observe_mode cx i v s"
| "policy_apply_fresh cx (AuthorizePlacement i r _) s = authorize_placement cx i r s"
| "policy_apply_fresh cx (MarkDelayed i order_id release_at uncancellable_until at) s =
     mark_delayed cx i order_id release_at uncancellable_until at s"
| "policy_apply_fresh cx (MarkLive i order_id at) s = mark_live cx i order_id at s"
| "policy_apply_fresh cx (AuthorizeCancel i r _) s = authorize_cancel cx i r s"
| "policy_apply_fresh cx (MarkTerminal i order_id _) s = mark_terminal cx i order_id s"

section \<open>The engine\<close>

definition policy_validate_command :: "policy_command \<Rightarrow> policy_error + unit" where
  "policy_validate_command c =
     (if policy_recorded_at c < 0 then Inl PTimestamp
      else case c of
        ObserveMode _ v t \<Rightarrow> if t < mo_observed_at v then Inl PTimestamp else Inr ()
      | AuthorizePlacement _ r t \<Rightarrow> if pl_evaluated_at r \<noteq> t then Inl PTimestamp else Inr ()
      | AuthorizeCancel _ r t \<Rightarrow> if cr_evaluated_at r \<noteq> t then Inl PTimestamp else Inr ()
      | _ \<Rightarrow> Inr ())"

definition policy_encode_command :: "policy_codec \<Rightarrow> policy_command \<Rightarrow> policy_error + string" where
  "policy_encode_command cx c =
     rbind (policy_validate_command c) (\<lambda>_.
       case pc_to_vec cx \<lparr>wire_version = 1, wire_command = c\<rparr> of
         Inl e \<Rightarrow> Inl (PJson e)
       | Inr bytes \<Rightarrow> if 262144 < int (length bytes) then Inl PCommandBound else Inr bytes)"

definition policy_decode_command ::
  "(string \<Rightarrow> string + policy_command wire) \<Rightarrow> string \<Rightarrow> policy_error + policy_command" where
  "policy_decode_command deserialize bytes =
     (if 262144 < int (length bytes) then Inl PCommandBound
      else case deserialize bytes of
        Inl e \<Rightarrow> Inl (PJson e)
      | Inr w \<Rightarrow>
          if wire_version w \<noteq> 1 then Inl (PVersion (wire_version w))
          else rbind (policy_validate_command (wire_command w)) (\<lambda>_. Inr (wire_command w)))"

definition policy_content :: "policy_codec \<Rightarrow> policy_command \<Rightarrow> policy_error + bytes32" where
  "policy_content cx c = rbind (policy_encode_command cx c) (\<lambda>bytes. Inr (pc_blake3 cx bytes))"

definition policy_install_halt :: "policy_error \<Rightarrow> policy_engine \<Rightarrow> (policy_error + policy_decision) \<times> policy_engine" where
  "policy_install_halt e s = (Inl e, s\<lparr>pe_halted := Some (policy_error_text e)\<rparr>)"

definition policy_record ::
  "policy_command \<Rightarrow> bytes32 \<Rightarrow> policy_decision \<Rightarrow> int \<Rightarrow> policy_engine \<Rightarrow> policy_engine" where
  "policy_record c digest d n s = s\<lparr>pe_accepted := n, pe_last_recorded_at := Some (policy_recorded_at c),
     pe_last_decision := Some d,
     pe_processed := bt_insert (policy_command_id c) (digest, d) (pe_processed s)\<rparr>"

definition policy_apply :: "policy_codec \<Rightarrow> policy_command \<Rightarrow> policy_engine \<Rightarrow> (policy_error + policy_decision) \<times> policy_engine" where
  "policy_apply cx c s =
     (case pe_halted s of
        Some reason \<Rightarrow> (Inl (PHalted reason), s)
      | None \<Rightarrow>
          (case policy_content cx c of
             Inl e \<Rightarrow> (Inl e, s)
           | Inr content \<Rightarrow>
               (case bt_get (pe_processed s) (policy_command_id c) of
                  Some (existing, decision) \<Rightarrow>
                    if existing = content then (Inr decision, s)
                    else policy_install_halt PIdempotencyConflict s
                | None \<Rightarrow>
                    if (case pe_last_recorded_at s of None \<Rightarrow> False | Some p \<Rightarrow> policy_recorded_at c < p)
                    then policy_install_halt PClockRegression s
                    else
                      (case policy_apply_fresh cx c s of
                         Inl e \<Rightarrow> policy_install_halt e s
                       | Inr (d, s1) \<Rightarrow>
                           (case addu64 (pe_accepted s1) 1 of
                              None \<Rightarrow> policy_install_halt POverflow s
                            | Some n \<Rightarrow> (Inr d, policy_record c content d n s1))))))"

text \<open>The digest of the state, over the JSON of its parts.\<close>

record policy_json =
  pj_mode :: "mode_observation option \<Rightarrow> string"
  pj_order :: "tracked_order \<Rightarrow> string"
  pj_approvals :: "bytes32 btset \<Rightarrow> string"
  pj_count :: "int \<Rightarrow> string"
  pj_time :: "int option \<Rightarrow> string"
  pj_last_decision :: "policy_decision option \<Rightarrow> string"
  pj_decision :: "policy_decision \<Rightarrow> string"
  pj_halted :: "string option \<Rightarrow> string"

definition policy_state_digest :: "policy_json \<Rightarrow> (string \<Rightarrow> bytes32) \<Rightarrow> policy_engine \<Rightarrow> bytes32" where
  "policy_state_digest js blake3 s = blake3
     (''order-intent-policy-state-v1''
      @ prefixed (pj_mode js (pe_mode s))
      @ concat (map (\<lambda>(i, t). bytes_of_id i @ prefixed (pj_order js t)) (pe_orders s))
      @ prefixed (pj_approvals js (pe_used_approvals s))
      @ prefixed (pj_count js (pe_accepted s))
      @ prefixed (pj_time js (pe_last_recorded_at s))
      @ prefixed (pj_last_decision js (pe_last_decision s))
      @ concat (map (\<lambda>(i, content, decision). bytes_of_id i @ bytes_of_id content @ prefixed (pj_decision js decision))
          (pe_processed s))
      @ prefixed (pj_halted js (pe_halted s)))"

record policy_snapshot =
  ps_accepted_commands :: int
  ps_mode :: exchange_mode
  ps_mode_sequence :: "int option"
  ps_mode_observed_at :: "int option"
  ps_tracked_orders :: nat
  ps_used_approvals :: nat
  ps_last_recorded_at :: "int option"
  ps_last_decision :: "policy_decision option"
  ps_halted :: bool
  ps_halt_reason :: "string option"
  ps_digest :: bytes32

definition policy_snapshot :: "(policy_engine \<Rightarrow> bytes32) \<Rightarrow> policy_engine \<Rightarrow> policy_snapshot" where
  "policy_snapshot state_digest s =
     \<lparr>ps_accepted_commands = pe_accepted s, ps_mode = current_mode s,
      ps_mode_sequence = map_option mo_sequence (pe_mode s),
      ps_mode_observed_at = map_option mo_observed_at (pe_mode s),
      ps_tracked_orders = length (pe_orders s), ps_used_approvals = length (pe_used_approvals s),
      ps_last_recorded_at = pe_last_recorded_at s, ps_last_decision = pe_last_decision s,
      ps_halted = (pe_halted s \<noteq> None), ps_halt_reason = pe_halted s, ps_digest = state_digest s\<rparr>"

definition policy_order :: "policy_engine \<Rightarrow> risk_order_id \<Rightarrow> tracked_order option" where
  "policy_order s i = bt_get (pe_orders s) i"

end
