(* ===== verification/Order_Policy_Theorems.thy ===== *)
theory Order_Policy_Theorems
  imports Order_Policy Portfolio_Risk_Theorems
begin

text \<open>
  What the order policy guarantees: a permit holds every rule at its time, an
  approval authorises one order once, orders move forward through their stages
  only, and the observed exchange mode never goes back.
\<close>

section \<open>The life of an order\<close>

inductive stage_step :: "order_stage \<Rightarrow> order_stage \<Rightarrow> bool" where
  delay: "stage_step Authorized (Delayed release_at uncancellable_until)"
| live: "stage_step Authorized Live"
| release: "stage_step (Delayed release_at uncancellable_until) Live"
| cancel: "stage \<in> {Authorized, Live} \<or> (\<exists>a b. stage = Delayed a b) \<Longrightarrow> stage_step stage CancelAuthorized"
| finish: "stage \<noteq> Terminal \<Longrightarrow> stage_step stage Terminal"

inductive_simps stage_step_from [simp]:
  "stage_step Terminal stage"
  "stage_step CancelAuthorized stage"

inductive_simps stage_step_to:
  "stage_step stage Live"
  "stage_step stage (Delayed a b)"
  "stage_step stage CancelAuthorized"
  "stage_step stage Authorized"

inductive_cases stage_step_cases: "stage_step stage stage'"

fun stage_rank :: "order_stage \<Rightarrow> nat" where
  "stage_rank Authorized = 0"
| "stage_rank (Delayed _ _) = 1"
| "stage_rank Live = 2"
| "stage_rank CancelAuthorized = 3"
| "stage_rank Terminal = 4"

lemma stage_step_rank: "stage_step a b \<Longrightarrow> stage_rank a < stage_rank b"
proof (erule stage_step.cases)
  show "stage_rank a < stage_rank b" if "a = stage" "b = Terminal" "stage \<noteq> Terminal" for stage
    using that by (cases stage) auto
qed auto

lemma stage_steps_rank: "stage_step\<^sup>*\<^sup>* a b \<Longrightarrow> stage_rank a \<le> stage_rank b"
  by (induction rule: rtranclp_induct) (auto dest: stage_step_rank)

lemma terminal_steps: "stage_step\<^sup>*\<^sup>* Terminal b \<Longrightarrow> b = Terminal"
  by (induction rule: rtranclp_induct) auto

lemma cancelled_steps: "stage_step\<^sup>*\<^sup>* CancelAuthorized b \<Longrightarrow> b = CancelAuthorized \<or> b = Terminal"
  by (induction rule: rtranclp_induct) auto

text \<open>The same order: identity, approval, signer policy and expiry.\<close>

definition same_facts :: "tracked_order \<Rightarrow> tracked_order \<Rightarrow> bool" where
  "same_facts t u \<longleftrightarrow> u\<lparr>tk_stage := tk_stage t\<rparr> = t"

lemma same_facts_refl [simp]: "same_facts t t"
  by (simp add: same_facts_def)

lemma same_facts_iff: "same_facts t u \<longleftrightarrow> tk_order u = tk_order t \<and> tk_approval_digest u = tk_approval_digest t
    \<and> tk_signer_policy_digest u = tk_signer_policy_digest t
    \<and> tk_authorization_expires_at u = tk_authorization_expires_at t"
  by (cases t; cases u) (auto simp: same_facts_def)

text \<open>What one fresh command does to the orders and the used approvals.\<close>

inductive order_step :: "policy_codec \<Rightarrow> policy_engine \<Rightarrow> policy_command \<Rightarrow> policy_engine \<Rightarrow> bool" for cx s where
  keep: "pe_orders s' = pe_orders s \<Longrightarrow> pe_used_approvals s' = pe_used_approvals s \<Longrightarrow> order_step cx s c s'"
| place: "placement_denial cx r s = Inr None
    \<Longrightarrow> s' = s\<lparr>pe_used_approvals := bs_insert (rd_decision_digest (pl_approval r)) (pe_used_approvals s),
      pe_orders := bt_insert (oe_order_id (pl_order r))
        \<lparr>tk_order = pl_order r, tk_approval_digest = rd_decision_digest (pl_approval r),
         tk_signer_policy_digest = signer_policy_digest cx (pl_signer_policy r),
         tk_authorization_expires_at = pl_authorization_expires_at r, tk_stage = Authorized\<rparr> (pe_orders s)\<rparr>
    \<Longrightarrow> order_step cx s (AuthorizePlacement i r t) s'"
| move: "bt_get (pe_orders s) k = Some u \<Longrightarrow> stage_step (tk_stage u) stage \<Longrightarrow> s' = set_stage k u stage s
    \<Longrightarrow> order_step cx s c s'"

lemma fresh_order_step:
  assumes "policy_apply_fresh cx c s = Inr (d, s')"
  shows "order_step cx s c s'"
proof (cases c)
  case (ObserveMode i v t)
  then show ?thesis
    using assms by (intro order_step.keep) (auto simp: observe_mode_def Let_def split: if_splits option.split_asm)
next
  case (AuthorizePlacement i r t)
  then obtain denial where dn: "placement_denial cx r s = Inr denial"
    using assms by (auto simp: authorize_placement_def Let_def rbind_Inr_iff)
  show ?thesis
  proof (cases denial)
    case None
    then show ?thesis
      using assms dn AuthorizePlacement order_step.place [of cx r s _ i t]
      by (auto simp: authorize_placement_def Let_def)
  next
    case (Some reason)
    then show ?thesis
      using assms dn AuthorizePlacement by (intro order_step.keep) (auto simp: authorize_placement_def Let_def)
  qed
next
  case (MarkDelayed i k a b t)
  then obtain u where "bt_get (pe_orders s) k = Some u" "tk_stage u = Authorized" "s' = set_stage k u (Delayed a b) s"
    using assms by (auto simp: mark_delayed_def Let_def rbind_Inr_iff ok_or_Inr_iff split: if_splits)
  then show ?thesis
    by (metis order_step.move stage_step.delay)
next
  case (MarkLive i k t)
  then obtain u where u: "bt_get (pe_orders s) k = Some u" "s' = set_stage k u Live s"
      "tk_stage u \<noteq> Live" "tk_stage u \<noteq> CancelAuthorized" "tk_stage u \<noteq> Terminal"
    using assms by (fastforce simp: mark_live_def Let_def rbind_Inr_iff ok_or_Inr_iff)
  then have "stage_step (tk_stage u) Live"
    by (cases "tk_stage u") (auto simp: stage_step_to)
  then show ?thesis
    using u(1,2) by (auto intro: order_step.move)
next
  case (AuthorizeCancel i r t)
  show ?thesis
  proof (cases "s' = s")
    case False
    then obtain u where "bt_get (pe_orders s) (cr_order_id r) = Some u" "stage_step (tk_stage u) CancelAuthorized"
        "s' = set_stage (cr_order_id r) u CancelAuthorized s"
      using assms AuthorizeCancel
      by (auto simp: authorize_cancel_def Let_def stage_step_to split: option.split_asm order_stage.split_asm if_splits)
    then show ?thesis
      by (auto intro: order_step.move)
  qed (auto intro: order_step.keep)
next
  case (MarkTerminal i k t)
  then obtain u where "bt_get (pe_orders s) k = Some u" "tk_stage u \<noteq> Terminal" "s' = set_stage k u Terminal s"
    using assms by (auto simp: mark_terminal_def Let_def rbind_Inr_iff ok_or_Inr_iff split: if_splits)
  then show ?thesis
    by (auto intro: order_step.move stage_step.finish)
qed

text \<open>What \<open>apply\<close> does is nothing to the books, or one fresh command, recorded.\<close>

lemma policy_apply_cases:
  assumes "policy_apply cx c s = (r, s')"
  obtains (same) "pe_orders s' = pe_orders s" "pe_used_approvals s' = pe_used_approvals s" "pe_mode s' = pe_mode s"
      "pe_processed s' = pe_processed s" "bt_get (pe_processed s) (policy_command_id c) = None \<Longrightarrow> \<exists>e. r = Inl e"
  | (fresh) d s1 digest n where "bt_get (pe_processed s) (policy_command_id c) = None" "policy_validate_command c = Inr ()"
      "policy_apply_fresh cx c s = Inr (d, s1)" "r = Inr d" "s' = policy_record c digest d n s1"
proof (cases "\<exists>d. r = Inr d \<and> bt_get (pe_processed s) (policy_command_id c) = None")
  case True
  then obtain d s1 digest n where "bt_get (pe_processed s) (policy_command_id c) = None" "r = Inr d"
      "policy_content cx c = Inr digest" "policy_apply_fresh cx c s = Inr (d, s1)" "s' = policy_record c digest d n s1"
    using assms
    by (auto simp: policy_apply_def policy_install_halt_def split: option.split_asm sum.split_asm if_splits)
  then show ?thesis
    by (intro fresh) (auto simp: policy_content_def policy_encode_command_def rbind_Inr_iff)
next
  case False
  then show ?thesis
    using assms by (intro same)
      (auto simp: policy_apply_def policy_install_halt_def split: option.split_asm sum.split_asm if_splits prod.split_asm)
qed

lemma policy_record_simps [simp]:
  "pe_orders (policy_record c digest d n s) = pe_orders s"
  "pe_used_approvals (policy_record c digest d n s) = pe_used_approvals s"
  "pe_mode (policy_record c digest d n s) = pe_mode s"
  "policy_order (policy_record c digest d n s) k = policy_order s k"
  by (simp_all add: policy_record_def policy_order_def)

section \<open>The books of orders and approvals\<close>

definition policy_ok :: "policy_engine \<Rightarrow> bool" where
  "policy_ok s \<longleftrightarrow>
     (\<forall>k u. policy_order s k = Some u \<longrightarrow> oe_order_id (tk_order u) = k)
     \<and> (\<forall>a. bs_mem a (pe_used_approvals s) \<longleftrightarrow> (\<exists>k u. policy_order s k = Some u \<and> tk_approval_digest u = a))
     \<and> (\<forall>j k t u. policy_order s j = Some t \<longrightarrow> policy_order s k = Some u
          \<longrightarrow> tk_approval_digest t = tk_approval_digest u \<longrightarrow> j = k)
     \<and> (\<forall>m. pe_mode s = Some m \<longrightarrow> 0 \<le> mo_observed_at m \<and> mo_observed_at m < mo_valid_until m)"

lemma policy_okI:
  assumes "\<And>k u. policy_order s k = Some u \<Longrightarrow> oe_order_id (tk_order u) = k"
    and "\<And>a. bs_mem a (pe_used_approvals s) \<longleftrightarrow> (\<exists>k u. policy_order s k = Some u \<and> tk_approval_digest u = a)"
    and "\<And>j k t u. policy_order s j = Some t \<Longrightarrow> policy_order s k = Some u
          \<Longrightarrow> tk_approval_digest t = tk_approval_digest u \<Longrightarrow> j = k"
    and "\<And>m. pe_mode s = Some m \<Longrightarrow> 0 \<le> mo_observed_at m \<and> mo_observed_at m < mo_valid_until m"
  shows "policy_ok s"
  unfolding policy_ok_def using assms by blast

lemma policy_ok_cong:
  assumes "policy_ok s" and "pe_orders s' = pe_orders s" and "pe_used_approvals s' = pe_used_approvals s"
    and "\<And>m. pe_mode s' = Some m \<Longrightarrow> 0 \<le> mo_observed_at m \<and> mo_observed_at m < mo_valid_until m"
  shows "policy_ok s'"
  using assms by (simp add: policy_ok_def policy_order_def)

lemma policy_ok_mode: "policy_ok s \<Longrightarrow> pe_mode s = Some m \<Longrightarrow> 0 \<le> mo_observed_at m \<and> mo_observed_at m < mo_valid_until m"
  by (simp add: policy_ok_def)

lemma policy_ok_id: "policy_ok s \<Longrightarrow> policy_order s k = Some u \<Longrightarrow> oe_order_id (tk_order u) = k"
  by (simp add: policy_ok_def)

lemma policy_ok_used: "policy_ok s \<Longrightarrow>
    bs_mem a (pe_used_approvals s) \<longleftrightarrow> (\<exists>k u. policy_order s k = Some u \<and> tk_approval_digest u = a)"
  by (simp add: policy_ok_def)

lemma policy_ok_inj: "policy_ok s \<Longrightarrow> policy_order s j = Some t \<Longrightarrow> policy_order s k = Some u
    \<Longrightarrow> tk_approval_digest t = tk_approval_digest u \<Longrightarrow> j = k"
  unfolding policy_ok_def by blast

lemma policy_order_set_stage:
  "policy_order (set_stage k u stage s) j = (if j = k then Some (u\<lparr>tk_stage := stage\<rparr>) else policy_order s j)"
  by (simp add: policy_order_def set_stage_def bt_simps)

lemma placement_denial_None:
  "placement_denial cx r s = Inr None \<longleftrightarrow>
     verify_digest (pc_risk cx) (pl_approval r) \<and> rd_status (pl_approval r) = Approve
     \<and> rd_reason (pl_approval r) = AllLimitsSatisfied
     \<and> rd_candidate_order_digest (pl_approval r) = order_exposure_digest (pc_risk cx) (pl_order r)
     \<and> rd_evaluated_at (pl_approval r) \<le> pl_evaluated_at r \<and> 0 \<le> pl_max_approval_age r
     \<and> wrap64 (pl_evaluated_at r - rd_evaluated_at (pl_approval r)) \<le> pl_max_approval_age r
     \<and> \<not> bs_mem (rd_decision_digest (pl_approval r)) (pe_used_approvals s)
     \<and> policy_order s (oe_order_id (pl_order r)) = None
     \<and> pl_evaluated_at r < pl_authorization_expires_at r
     \<and> mode_place_denial (pe_mode s) r = None \<and> signer_denial r = Inr None \<and> time_in_force_denial r = None"
  by (auto simp: placement_denial_def Let_def rbind_Inr_iff bt_contains_def policy_order_def
      split: option.splits)

lemma order_step_ok:
  assumes "order_step cx s c s'" and "pe_mode s' = pe_mode s" and ok: "policy_ok s"
  shows "policy_ok s'"
  using assms(1)
proof (cases rule: order_step.cases)
  case keep
  then show ?thesis using ok assms(2) by (simp add: policy_ok_def policy_order_def)
next
  case (place r i t)
  let ?k = "oe_order_id (pl_order r)" and ?a = "rd_decision_digest (pl_approval r)"
  have new: "policy_order s ?k = None" "\<not> bs_mem ?a (pe_used_approvals s)"
    using place by (simp_all add: placement_denial_None)
  define u where "u = \<lparr>tk_order = pl_order r, tk_approval_digest = ?a,
    tk_signer_policy_digest = signer_policy_digest cx (pl_signer_policy r),
    tk_authorization_expires_at = pl_authorization_expires_at r, tk_stage = Authorized\<rparr>"
  have u: "tk_order u = pl_order r" "tk_approval_digest u = ?a"
      "\<And>j. policy_order s' j = (if j = ?k then Some u else policy_order s j)"
      "pe_used_approvals s' = bs_insert ?a (pe_used_approvals s)"
    using place(3) by (simp_all add: policy_order_def bt_simps u_def)
  have a: "tk_approval_digest v \<noteq> ?a" if "policy_order s j = Some v" for j v
    using ok new that unfolding policy_ok_def by blast
  have mem: "bs_mem x (pe_used_approvals s') \<longleftrightarrow> (\<exists>k v. policy_order s' k = Some v \<and> tk_approval_digest v = x)" for x
  proof -
    have "bs_mem x (pe_used_approvals s') \<longleftrightarrow> x = ?a \<or> (\<exists>k v. policy_order s k = Some v \<and> tk_approval_digest v = x)"
      using ok u(4) by (simp add: bs_mem_insert policy_ok_def)
    also have "\<dots> \<longleftrightarrow> (\<exists>k v. policy_order s' k = Some v \<and> tk_approval_digest v = x)"
      using u(2) new(1) by (auto simp: u(3) split: if_splits) (metis option.distinct(1))+
    finally show ?thesis .
  qed
  have inj: "j = k" if "policy_order s' j = Some v" "policy_order s' k = Some w"
      "tk_approval_digest v = tk_approval_digest w" for j k v w
    using that a ok u(2) unfolding policy_ok_def u(3) by (auto split: if_splits)
  have ids: "oe_order_id (tk_order v) = j" if "policy_order s' j = Some v" for j v
    using that ok u(1) unfolding policy_ok_def u(3) by (auto split: if_splits)
  show ?thesis
  proof (rule policy_okI)
    show "j = k" if "policy_order s' j = Some t" "policy_order s' k = Some u"
      "tk_approval_digest t = tk_approval_digest u" for j k t u
      by (rule inj [OF that])
  qed (use ids mem assms(2) policy_ok_mode [OF ok] in auto)
next
  case (move k u stage)
  have get: "policy_order s k = Some u"
    using move(1) by (simp add: policy_order_def)
  have older: "\<exists>v0. policy_order s j = Some v0 \<and> tk_order v0 = tk_order v \<and> tk_approval_digest v0 = tk_approval_digest v"
    if "policy_order s' j = Some v" for j v
    using that get by (auto simp: move(3) policy_order_set_stage split: if_splits)
  have forth: "\<exists>v. policy_order s' j = Some v \<and> tk_approval_digest v = tk_approval_digest v0"
    if "policy_order s j = Some v0" for j v0
    using that get by (auto simp: move(3) policy_order_set_stage split: if_splits)
  have "pe_used_approvals s' = pe_used_approvals s"
    by (simp add: move(3) set_stage_def)
  then have mem: "bs_mem x (pe_used_approvals s') \<longleftrightarrow> (\<exists>k v. policy_order s' k = Some v \<and> tk_approval_digest v = x)" for x
    using policy_ok_used [OF ok, of x] older forth by metis
  show ?thesis
  proof (rule policy_okI)
    show "oe_order_id (tk_order v) = j" if "policy_order s' j = Some v" for j v
      using older [OF that] policy_ok_id [OF ok] by metis
    show "i = j" if "policy_order s' i = Some v" "policy_order s' j = Some w"
      "tk_approval_digest v = tk_approval_digest w" for i j v w
      using older [OF that(1)] older [OF that(2)] that(3) policy_ok_inj [OF ok] by metis
  qed (use mem assms(2) policy_ok_mode [OF ok] in auto)
qed

section \<open>Modes\<close>

definition later_mode :: "mode_observation \<Rightarrow> mode_observation \<Rightarrow> bool" where
  "later_mode m m' \<longleftrightarrow> m' = m \<or> (mo_sequence m < mo_sequence m' \<and> mo_observed_at m \<le> mo_observed_at m')"

lemma later_mode_trans: "later_mode a b \<Longrightarrow> later_mode b c \<Longrightarrow> later_mode a c"
  by (auto simp: later_mode_def)

lemma fresh_mode:
  assumes "policy_apply_fresh cx c s = Inr (d, s')"
  shows "pe_mode s' = pe_mode s
    \<or> (\<exists>m. pe_mode s' = Some m \<and> 0 \<le> mo_observed_at m \<and> mo_observed_at m < mo_valid_until m
         \<and> (\<forall>p. pe_mode s = Some p \<longrightarrow> later_mode p m) \<and> pe_orders s' = pe_orders s
         \<and> pe_used_approvals s' = pe_used_approvals s)"
proof (cases c)
  case (ObserveMode i v t)
  then show ?thesis
    using assms by (auto simp: observe_mode_def later_mode_def Let_def split: if_splits option.split_asm)
next
  case (AuthorizeCancel i r t)
  then show ?thesis
    using assms by (simp add: authorize_cancel_def Let_def set_stage_def split: option.split_asm) auto
qed (use assms in \<open>auto simp: authorize_placement_def mark_delayed_def mark_live_def mark_terminal_def Let_def
      rbind_Inr_iff set_stage_def split: if_splits option.split_asm\<close>)

lemma fresh_ok:
  assumes "policy_apply_fresh cx c s = Inr (d, s')" and ok: "policy_ok s"
  shows "policy_ok s'"
proof (cases "pe_mode s' = pe_mode s")
  case True
  then show ?thesis using order_step_ok fresh_order_step [OF assms(1)] ok by blast
next
  case False
  then show ?thesis
    using fresh_mode [OF assms(1)] by (auto intro: policy_ok_cong [OF ok])
qed

lemma apply_ok:
  assumes "policy_ok s"
  shows "policy_ok (snd (policy_apply cx c s))"
proof -
  obtain r s' where a: "policy_apply cx c s = (r, s')" by fastforce
  then have "policy_ok s'"
  proof (cases rule: policy_apply_cases)
    case same
    show ?thesis
      by (rule policy_ok_cong [OF assms]) (use same policy_ok_mode [OF assms] in auto)
  next
    case (fresh d s1 digest n)
    from fresh_ok [OF fresh(3) assms] show ?thesis
      by (rule policy_ok_cong) (use fresh(5) policy_ok_mode [OF fresh_ok [OF fresh(3) assms]] in auto)
  qed
  then show ?thesis by (simp add: a)
qed

lemma default_ok: "policy_ok policy_engine_default"
  by (simp add: policy_ok_def policy_engine_default_def policy_order_def)

lemma run_ok: "policy_ok (run_commands (policy_apply cx) cs policy_engine_default)"
  by (rule run_commands_invariant [where P = policy_ok, OF default_ok apply_ok])

section \<open>Orders over time\<close>

definition order_progress :: "tracked_order \<Rightarrow> tracked_order \<Rightarrow> bool" where
  "order_progress t u \<longleftrightarrow> same_facts t u \<and> stage_step\<^sup>*\<^sup>* (tk_stage t) (tk_stage u)"

lemma order_progress_refl [simp]: "order_progress t t"
  by (simp add: order_progress_def)

lemma order_progress_trans: "order_progress t u \<Longrightarrow> order_progress u v \<Longrightarrow> order_progress t v"
  by (auto simp: order_progress_def same_facts_iff)

lemma order_step_progress:
  assumes "order_step cx s c s'" and "policy_order s k = Some t"
  shows "\<exists>u. policy_order s' k = Some u \<and> order_progress t u"
  using assms(1)
proof (cases rule: order_step.cases)
  case keep
  then show ?thesis using assms(2) by (simp add: policy_order_def)
next
  case (place r i t')
  then show ?thesis using assms(2) by (auto simp: placement_denial_None) (auto simp: policy_order_def bt_simps)
next
  case (move j u stage)
  then show ?thesis
    using assms(2)
    by (auto simp: policy_order_set_stage order_progress_def same_facts_iff) (auto simp: policy_order_def)
qed

lemma apply_progress:
  assumes "policy_order s k = Some t"
  shows "\<exists>u. policy_order (snd (policy_apply cx c s)) k = Some u \<and> order_progress t u"
proof -
  obtain r s' where a: "policy_apply cx c s = (r, s')" by fastforce
  then have "\<exists>u. policy_order s' k = Some u \<and> order_progress t u"
  proof (cases rule: policy_apply_cases)
    case same
    then show ?thesis using assms by (simp add: policy_order_def)
  next
    case (fresh d s1 digest n)
    then show ?thesis using order_step_progress [OF fresh_order_step [OF fresh(3)] assms] by simp
  qed
  then show ?thesis by (simp add: a)
qed

lemma run_progress:
  "policy_order s k = Some t
    \<Longrightarrow> \<exists>u. policy_order (run_commands (policy_apply cx) cs s) k = Some u \<and> order_progress t u"
proof (induction cs arbitrary: s t)
  case (Cons c cs)
  then show ?case
    using apply_progress [OF Cons.prems, of cx c] order_progress_trans by simp blast
qed simp

lemma apply_used:
  "bs_mem a (pe_used_approvals s) \<Longrightarrow> bs_mem a (pe_used_approvals (snd (policy_apply cx c s)))"
proof -
  assume m: "bs_mem a (pe_used_approvals s)"
  obtain r s' where e: "policy_apply cx c s = (r, s')" by fastforce
  then have "bs_mem a (pe_used_approvals s')"
  proof (cases rule: policy_apply_cases)
    case (fresh d s1 digest n)
    from fresh_order_step [OF fresh(3)] show ?thesis
      by (cases rule: order_step.cases) (use m fresh(5) in \<open>auto simp: set_stage_def bs_mem_insert\<close>)
  qed (use m in simp)
  then show ?thesis by (simp add: e)
qed

lemma run_used:
  "bs_mem a (pe_used_approvals s) \<Longrightarrow> bs_mem a (pe_used_approvals (run_commands (policy_apply cx) cs s))"
  by (rule run_commands_invariant [where P = "\<lambda>s. bs_mem a (pe_used_approvals s)", OF _ apply_used])

lemma apply_mode:
  assumes "pe_mode s = Some m"
  shows "\<exists>m'. pe_mode (snd (policy_apply cx c s)) = Some m' \<and> later_mode m m'"
proof -
  obtain r s' where a: "policy_apply cx c s = (r, s')" by fastforce
  then have "\<exists>m'. pe_mode s' = Some m' \<and> later_mode m m'"
  proof (cases rule: policy_apply_cases)
    case (fresh d s1 digest n)
    then show ?thesis using fresh_mode [OF fresh(3)] assms by (auto simp: later_mode_def)
  qed (use assms in \<open>simp add: later_mode_def\<close>)
  then show ?thesis by (simp add: a)
qed

lemma run_mode:
  "pe_mode s = Some m \<Longrightarrow> \<exists>m'. pe_mode (run_commands (policy_apply cx) cs s) = Some m' \<and> later_mode m m'"
proof (induction cs arbitrary: s m)
  case (Cons c cs)
  then show ?case
    using apply_mode [OF Cons.prems, of cx c] later_mode_trans by simp blast
qed (simp add: later_mode_def)

section \<open>The policy as a decision engine\<close>

lemma policy_fresh_frame:
  assumes "policy_apply_fresh cx c s = Inr (d, s')"
  shows "pe_processed s' = pe_processed s \<and> pe_accepted s' = pe_accepted s \<and> pe_halted s' = pe_halted s"
proof (cases c)
  case (AuthorizeCancel i r t)
  then show ?thesis
    using assms by (simp add: authorize_cancel_def Let_def set_stage_def split: option.split_asm) auto
qed (use assms in \<open>auto simp: observe_mode_def authorize_placement_def mark_delayed_def mark_live_def
      mark_terminal_def Let_def rbind_Inr_iff set_stage_def split: if_splits option.split_asm\<close>)

interpretation policy_engine: decision_engine "policy_apply cx" policy_command_id "policy_content cx"
  "\<lambda>s k. map_option fst (bt_get (pe_processed s) k)" pe_accepted "\<lambda>s. pe_halted s \<noteq> None"
  "\<lambda>s k. map_option snd (bt_get (pe_processed s) k)"
  for cx
  by unfold_locales
    (auto simp: policy_apply_def policy_install_halt_def policy_record_def policy_fresh_frame bt_get_insert checked_simps
      fun_eq_iff dest: policy_fresh_frame dest!: sym [of "Inl _"] split: option.split_asm sum.split_asm if_splits prod.split_asm)

section \<open>Permits\<close>

lemma fresh_placement_permit:
  assumes "policy_apply cx (AuthorizePlacement i r t) s = (Inr d, s')"
    and "bt_get (pe_processed s) i = None" and "pd_status d = Permit"
  shows "placement_denial cx r s = Inr None" and "pl_evaluated_at r = t" and "0 \<le> t"
    and "bs_mem (rd_decision_digest (pl_approval r)) (pe_used_approvals s')"
    and "policy_order s' (oe_order_id (pl_order r)) = Some
        \<lparr>tk_order = pl_order r, tk_approval_digest = rd_decision_digest (pl_approval r),
         tk_signer_policy_digest = signer_policy_digest cx (pl_signer_policy r),
         tk_authorization_expires_at = pl_authorization_expires_at r, tk_stage = Authorized\<rparr>"
proof -
  from assms(1,2) obtain s1 digest n where f: "policy_validate_command (AuthorizePlacement i r t) = Inr ()"
      "authorize_placement cx i r s = Inr (d, s1)" "s' = policy_record (AuthorizePlacement i r t) digest d n s1"
    by (cases rule: policy_apply_cases) auto
  show "pl_evaluated_at r = t" "0 \<le> t"
    using f(1) by (auto simp: policy_validate_command_def split: if_splits)
  obtain denial where dn: "placement_denial cx r s = Inr denial"
    using f(2) by (auto simp: authorize_placement_def Let_def rbind_Inr_iff)
  have "denial = None"
    using f(2) dn assms(3) by (cases denial) (auto simp: authorize_placement_def make_decision_def Let_def)
  then show "placement_denial cx r s = Inr None"
    using dn by simp
  then show "bs_mem (rd_decision_digest (pl_approval r)) (pe_used_approvals s')"
    and "policy_order s' (oe_order_id (pl_order r)) = Some
        \<lparr>tk_order = pl_order r, tk_approval_digest = rd_decision_digest (pl_approval r),
         tk_signer_policy_digest = signer_policy_digest cx (pl_signer_policy r),
         tk_authorization_expires_at = pl_authorization_expires_at r, tk_stage = Authorized\<rparr>"
    using f(2,3) by (auto simp: authorize_placement_def Let_def policy_order_def bt_simps)
qed

lemma policy_ceil_covers:
  assumes "policy_div_ceil x 1000000 = Inr c"
  shows "x \<le> c * 1000000"
proof -
  have c: "c = tdiv (x + 999999) 1000000"
    using assms by (auto simp: policy_div_ceil_def rbind_Inr_iff ok_or_Inr_iff checked_simps)
  show ?thesis
  proof (cases "0 \<le> x + 999999")
    case True
    then show ?thesis
      using ceil_div_bounds(1) [of 1000000 x] c by (simp add: tdiv_nonneg)
  next
    case False
    have "\<bar>x + 999999\<bar> div 1000000 * 1000000 \<le> \<bar>x + 999999\<bar>"
      by (simp add: minus_mod_eq_div_mult [symmetric])
    then show ?thesis
      using False c by (simp add: tdiv_def)
  qed
qed

lemma signer_denial_None:
  assumes "signer_denial r = Inr None"
  shows "sp_valid_from (pl_signer_policy r) \<le> pl_evaluated_at r \<and> pl_evaluated_at r < sp_valid_until (pl_signer_policy r)
    \<and> pl_venue r = sp_venue (pl_signer_policy r) \<and> pl_exchange_contract r = sp_exchange_contract (pl_signer_policy r)
    \<and> oe_token (pl_order r) \<in> set (sp_allowed_tokens (pl_signer_policy r))
    \<and> oe_quantity (pl_order r) \<le> sp_max_quantity (pl_signer_policy r)
    \<and> oe_limit_price (pl_order r) \<le> sp_max_price (pl_signer_policy r)
    \<and> oe_limit_price (pl_order r) * oe_quantity (pl_order r) + oe_max_fee (pl_order r) * 1000000
        \<le> sp_max_notional (pl_signer_policy r) * 1000000
    \<and> (if pl_marketable r then sp_allow_taker (pl_signer_policy r) else sp_allow_maker (pl_signer_policy r))"
proof -
  let ?p = "pl_signer_policy r" and ?v = "pl_order r"
  from assms obtain c where c: "policy_div_ceil (oe_limit_price ?v * oe_quantity ?v) 1000000 = Inr c"
      "c + oe_max_fee ?v \<le> sp_max_notional ?p"
    and rest: "sp_valid_from ?p \<le> pl_evaluated_at r" "pl_evaluated_at r < sp_valid_until ?p"
      "pl_venue r = sp_venue ?p" "pl_exchange_contract r = sp_exchange_contract ?p"
      "oe_token ?v \<in> set (sp_allowed_tokens ?p)" "oe_quantity ?v \<le> sp_max_quantity ?p"
      "oe_limit_price ?v \<le> sp_max_price ?p"
      "if pl_marketable r then sp_allow_taker ?p else sp_allow_maker ?p"
    by (auto simp: signer_denial_def Let_def rbind_Inr_iff ok_or_Inr_iff checked_simps split: if_splits)
  have "(c + oe_max_fee ?v) * 1000000 \<le> sp_max_notional ?p * 1000000"
    using c(2) by simp
  then show ?thesis
    using policy_ceil_covers [OF c(1)] rest by (simp add: algebra_simps)
qed

lemma mode_fresh:
  assumes "\<not> mode_stale m age at" and "0 \<le> mo_observed_at m" and "i64_ok at"
  shows "mo_observed_at m \<le> at \<and> at < mo_valid_until m \<and> at - mo_observed_at m \<le> age"
  using assms wrap64_id [of "at - mo_observed_at m"] by (auto simp: mode_stale_def i64_ok_def)


text \<open>C19: A risk approval authorises one order, once: after a fresh placement was permitted, no later
  fresh placement is permitted on the same approval or for the same order id, whatever happens in
  between.\<close>
theorem approval_authorises_one_order:
  assumes "policy_apply cx (AuthorizePlacement i r t) s = (Inr d, s1)"
    and "bt_get (pe_processed s) i = None" and "pd_status d = Permit"
    and "policy_apply cx (AuthorizePlacement i' r' t') (run_commands (policy_apply cx) cs s1) = (Inr d', s2)"
    and "bt_get (pe_processed (run_commands (policy_apply cx) cs s1)) i' = None" and "pd_status d' = Permit"
  shows "rd_decision_digest (pl_approval r') \<noteq> rd_decision_digest (pl_approval r)
    \<and> oe_order_id (pl_order r') \<noteq> oe_order_id (pl_order r)"
proof -
  note p = fresh_placement_permit [OF assms(1-3)] and p' = fresh_placement_permit [OF assms(4-6)]
  have "bs_mem (rd_decision_digest (pl_approval r)) (pe_used_approvals (run_commands (policy_apply cx) cs s1))"
    by (rule run_used [OF p(4)])
  moreover have "policy_order (run_commands (policy_apply cx) cs s1) (oe_order_id (pl_order r)) \<noteq> None"
    using run_progress [OF p(5)] by auto
  ultimately show ?thesis
    using p'(1) by (auto simp: placement_denial_None)
qed

text \<open>The books of the policy are consistent in every reachable state: every tracked order is filed
  under its own id, the used approvals are exactly those of the tracked orders, no two orders
  share an approval, and the last observed mode has a sane validity interval.\<close>
theorem policy_books_consistent:
  "policy_ok (run_commands (policy_apply cx) cs policy_engine_default)"
  by (rule run_ok)

text \<open>An order never changes its terms and only moves forward: at any later time it is still tracked
  with the same order, approval, signer policy and expiry, its stage was reached by steps of the
  stage machine (whose rank grows with every step), and a terminal order stays as it is.\<close>
theorem order_lifecycle_moves_forward:
  assumes "policy_order s k = Some t"
  shows "\<exists>u. policy_order (run_commands (policy_apply cx) cs s) k = Some u
    \<and> tk_order u = tk_order t \<and> tk_approval_digest u = tk_approval_digest t
    \<and> tk_signer_policy_digest u = tk_signer_policy_digest t
    \<and> tk_authorization_expires_at u = tk_authorization_expires_at t
    \<and> stage_step\<^sup>*\<^sup>* (tk_stage t) (tk_stage u) \<and> stage_rank (tk_stage t) \<le> stage_rank (tk_stage u)
    \<and> (tk_stage t = Terminal \<longrightarrow> u = t)"
proof -
  obtain u where u: "policy_order (run_commands (policy_apply cx) cs s) k = Some u" "order_progress t u"
    using run_progress [OF assms] by blast
  have "u = t" if "tk_stage t = Terminal"
    using u(2) that terminal_steps by (auto simp: order_progress_def same_facts_def)
  then show ?thesis
    using u stage_steps_rank by (auto simp: order_progress_def same_facts_iff)
qed

text \<open>The exchange mode never goes back: a later observed mode is the same observation, or has a larger
  sequence number and is not older.\<close>
theorem mode_history_monotone:
  assumes "pe_mode s = Some m"
  shows "\<exists>m'. pe_mode (run_commands (policy_apply cx) cs s) = Some m'
    \<and> (m' = m \<or> mo_sequence m < mo_sequence m' \<and> mo_observed_at m \<le> mo_observed_at m')"
  using run_mode [OF assms, of cx cs] by (simp add: later_mode_def)

text \<open>A permit to cancel is sound: a fresh cancellation is permitted only for a tracked order that is
  neither finished nor already being cancelled, outside the uncancellable window of a delayed order,
  under a fresh mode that is neither unknown nor restarting; the order is then in the stage of an
  authorised cancellation, and no later fresh cancellation of it is permitted.\<close>
theorem cancel_permit_is_sound:
  assumes s: "s = run_commands (policy_apply cx) cs policy_engine_default"
    and "policy_apply cx (AuthorizeCancel i r t) s = (Inr d, s')"
    and "bt_get (pe_processed s) i = None" and "pd_status d = Permit" and "i64_ok t"
  shows "(\<exists>u. policy_order s (cr_order_id r) = Some u \<and> tk_stage u \<notin> {Terminal, CancelAuthorized}
       \<and> (\<forall>a b. tk_stage u = Delayed a b \<longrightarrow> b \<le> t)
       \<and> policy_order s' (cr_order_id r) = Some (u\<lparr>tk_stage := CancelAuthorized\<rparr>))
    \<and> (\<exists>m. pe_mode s = Some m \<and> t < mo_valid_until m \<and> t - mo_observed_at m \<le> cr_max_mode_age r
         \<and> mo_mode m \<notin> {ModeUnknown, ModeRestarting})
    \<and> (\<forall>ds i' r' t' d' s2. cr_order_id r' = cr_order_id r
         \<longrightarrow> bt_get (pe_processed (run_commands (policy_apply cx) ds s')) i' = None
         \<longrightarrow> policy_apply cx (AuthorizeCancel i' r' t') (run_commands (policy_apply cx) ds s') = (Inr d', s2)
         \<longrightarrow> pd_status d' = Deny)"
proof -
  have permit: "pl = t0 \<and> (\<exists>u m. policy_order z (cr_order_id q) = Some u \<and> pe_mode z = Some m
      \<and> tk_stage u \<notin> {Terminal, CancelAuthorized} \<and> (\<forall>a b. tk_stage u = Delayed a b \<longrightarrow> b \<le> t0)
      \<and> \<not> mode_stale m (cr_max_mode_age q) t0 \<and> mo_mode m \<notin> {ModeUnknown, ModeRestarting}
      \<and> policy_order z' (cr_order_id q) = Some (u\<lparr>tk_stage := CancelAuthorized\<rparr>))"
    if ap: "policy_apply cx (AuthorizeCancel j q t0) z = (Inr e, z')" and new: "bt_get (pe_processed z) j = None"
      and pm: "pd_status e = Permit" and pl: "pl = cr_evaluated_at q" for j q t0 z e z' pl
  proof -
    from ap new obtain s1 digest n where f: "policy_validate_command (AuthorizeCancel j q t0) = Inr ()"
        "authorize_cancel cx j q z = Inr (e, s1)" "z' = policy_record (AuthorizeCancel j q t0) digest e n s1"
      by (cases rule: policy_apply_cases) auto
    have t: "cr_evaluated_at q = t0"
      using f(1) by (auto simp: policy_validate_command_def split: if_splits)
    obtain u where u: "policy_order z (cr_order_id q) = Some u" "s1 = set_stage (cr_order_id q) u CancelAuthorized z"
        "tk_stage u \<notin> {Terminal, CancelAuthorized}" "\<And>a b. tk_stage u = Delayed a b \<Longrightarrow> b \<le> t0"
        "mode_cancel_denial (pe_mode z) q = None"
      using f(2) pm t by (auto simp: authorize_cancel_def make_decision_def Let_def policy_order_def
          split: option.split_asm order_stage.split_asm if_splits)
    obtain m where "pe_mode z = Some m" "\<not> mode_stale m (cr_max_mode_age q) t0" "mo_mode m \<notin> {ModeUnknown, ModeRestarting}"
      using u(5) t by (auto simp: mode_cancel_denial_def split: option.splits if_splits exchange_mode.splits)
    then show ?thesis
      using u(1-4) f(3) t pl by (auto simp: policy_order_set_stage)
  qed
  obtain u m where u: "policy_order s (cr_order_id r) = Some u" "pe_mode s = Some m"
      "tk_stage u \<notin> {Terminal, CancelAuthorized}" "\<And>a b. tk_stage u = Delayed a b \<Longrightarrow> b \<le> t"
      "\<not> mode_stale m (cr_max_mode_age r) t" "mo_mode m \<notin> {ModeUnknown, ModeRestarting}"
      "policy_order s' (cr_order_id r) = Some (u\<lparr>tk_stage := CancelAuthorized\<rparr>)"
    using permit [OF assms(2-4) refl] by blast
  have ok: "policy_ok s"
    unfolding s by (rule run_ok)
  have f: "t < mo_valid_until m \<and> t - mo_observed_at m \<le> cr_max_mode_age r"
    using mode_fresh [OF u(5)] policy_ok_mode [OF ok u(2)] assms(5) by simp
  have later: "pd_status d' = Deny"
    if "cr_order_id r' = cr_order_id r" "bt_get (pe_processed (run_commands (policy_apply cx) ds s')) i' = None"
      "policy_apply cx (AuthorizeCancel i' r' t') (run_commands (policy_apply cx) ds s') = (Inr d', s2)"
    for ds i' r' t' d' s2
  proof (rule ccontr)
    assume "pd_status d' \<noteq> Deny"
    then have "pd_status d' = Permit" by (cases "pd_status d'") auto
    from permit [OF that(3,2) this refl] obtain v where
      v: "policy_order (run_commands (policy_apply cx) ds s') (cr_order_id r') = Some v"
        "tk_stage v \<notin> {Terminal, CancelAuthorized}"
      by blast
    then show False
      using run_progress [OF u(7), of cx ds] that(1) cancelled_steps [of "tk_stage v"]
      by (auto simp: order_progress_def)
  qed
  show ?thesis
    using u f later by auto
qed

lemma fresh_denied:
  assumes "policy_apply_fresh cx c s = Inr (d, s')" and "pd_status d = Deny"
  shows "s' = s"
proof (cases c)
  case (AuthorizeCancel i r t)
  then show ?thesis
    using assms by (simp add: authorize_cancel_def make_decision_def Let_def split: option.split_asm) auto
qed (use assms in \<open>auto simp: observe_mode_def authorize_placement_def mark_delayed_def mark_live_def
      mark_terminal_def make_decision_def lifecycle_decision_def Let_def rbind_Inr_iff split: if_splits option.split_asm\<close>)

text \<open>A refusal has no effect: a command that fails, or is answered with a denial, leaves the mode,
  the tracked orders and the used approvals as they were, so a denied approval can still be used.\<close>
theorem policy_refusals_have_no_effect:
  assumes "policy_apply cx c s = (r, s')" and "\<And>d. r = Inr d \<Longrightarrow> pd_status d = Deny"
  shows "pe_orders s' = pe_orders s \<and> pe_used_approvals s' = pe_used_approvals s \<and> pe_mode s' = pe_mode s"
  using assms(1)
proof (cases rule: policy_apply_cases)
  case (fresh d s1 digest n)
  then show ?thesis
    using fresh_denied [OF fresh(3)] assms(2) by simp
qed simp

text \<open>The policy repeats itself: a decided command is answered later, after any further commands that
  do not halt the engine, with the same decision and without a change of state; in particular
  a repeated placement does not use a second approval. Other content under its id is refused and
  halts the engine for good.\<close>
theorem policy_decisions_are_repeated:
  assumes "policy_apply cx c s = (Inr d, s1)"
    and "pe_halted (run_commands (policy_apply cx) cs s1) = None"
    and "policy_command_id c' = policy_command_id c"
    and "policy_content cx c' = Inr d'" and "policy_content cx c \<noteq> Inr d'"
  shows "policy_apply cx c (run_commands (policy_apply cx) cs s1) = (Inr d, run_commands (policy_apply cx) cs s1)
    \<and> (\<exists>e s2. policy_apply cx c' (run_commands (policy_apply cx) cs s1) = (Inl e, s2) \<and> pe_halted s2 \<noteq> None
        \<and> run_commands (policy_apply cx) ds s2 = s2)"
proof -
  obtain r s2 where s2: "policy_apply cx c' (run_commands (policy_apply cx) cs s1) = (r, s2)"
    by fastforce
  have "(\<exists>e. r = Inl e) \<and> pe_halted s2 \<noteq> None"
    using policy_engine.equivocation_halts [OF assms(1,3,4), of cs] assms(4,5) s2 by auto
  then show ?thesis
    using policy_engine.replay_same_decision [OF assms(1)] assms(2) s2 policy_engine.halted_absorbing [of s2 cx ds]
    by auto
qed

section \<open>Concrete histories\<close>

definition demo_policy_codec :: policy_codec where
  "demo_policy_codec = \<lparr>pc_to_vec = \<lambda>w. Inr (le_bytes 1 (policy_recorded_at (wire_command w))),
     pc_signer_json = \<lambda>_. ''s'', pc_placement_json = \<lambda>_. ''p'', pc_cancel_json = \<lambda>_. ''c'', pc_decision_json = \<lambda>_. ''d'',
     pc_risk = \<lparr>kc_to_vec = \<lambda>_. Inr ''w'', kc_order_json = \<lambda>_. ''o'',
       kc_decision_json = \<lambda>d. le_bytes 1 (rd_evaluated_at d), kc_blake3 = demo_hash\<rparr>\<rparr>"

definition demo_approval :: "int \<Rightarrow> bytes32 \<Rightarrow> risk_decision" where
  "demo_approval e digest = \<lparr>rd_command_id = 1, rd_evaluated_at = e, rd_status = Approve, rd_reason = AllLimitsSatisfied,
     rd_minimum_terminal_wealth = None, rd_scenario_count = 1, rd_witness = None, rd_reconciliation_digest = 1,
     rd_ledger_digest = 5, rd_candidate_order_digest = 112, rd_decision_digest = digest\<rparr>"

definition demo_signer_policy :: signer_policy where
  "demo_signer_policy = \<lparr>sp_policy_id = 1, sp_venue = ''v'', sp_exchange_contract = ''x'', sp_allowed_tokens = [demo_up],
     sp_max_quantity = 10, sp_max_price = 600000, sp_max_notional = 5, sp_allow_maker = True, sp_allow_taker = False,
     sp_valid_from = 0, sp_valid_until = 100\<rparr>"

definition demo_placement :: "risk_decision \<Rightarrow> risk_order_id \<Rightarrow> int \<Rightarrow> placement_request" where
  "demo_placement a k t = \<lparr>pl_approval = a, pl_order = demo_order k demo_up BuySide 8, pl_venue = ''v'',
     pl_exchange_contract = ''x'', pl_post_only = True, pl_marketable = False, pl_time_in_force = Gtc,
     pl_signer_policy = demo_signer_policy, pl_max_approval_age = 5, pl_max_mode_age = 20,
     pl_authorization_expires_at = 90, pl_evaluated_at = t\<rparr>"

definition demo_mode :: policy_command where
  "demo_mode = ObserveMode 1 \<lparr>mo_sequence = 1, mo_mode = ModePostOnly, mo_observed_at = 2, mo_valid_until = 50\<rparr> 3"

definition demo_place :: "bytes32 \<Rightarrow> int \<Rightarrow> bytes32 \<Rightarrow> int \<Rightarrow> policy_command" where
  "demo_place i e k t = AuthorizePlacement i (demo_placement (demo_approval e (of_int e)) k t) t"

definition demo_cancel :: "bytes32 \<Rightarrow> bytes32 \<Rightarrow> int \<Rightarrow> policy_command" where
  "demo_cancel i k t = AuthorizeCancel i \<lparr>cr_order_id = k, cr_max_mode_age = 20, cr_evaluated_at = t\<rparr> t"

abbreviation demo_policy_run :: "policy_command list \<Rightarrow> policy_engine" where
  "demo_policy_run cs \<equiv> run_commands (policy_apply demo_policy_codec) cs policy_engine_default"

lemma demo_policy_step:
  "case policy_apply demo_policy_codec c s of (Inr d, _) \<Rightarrow> pd_status d = st | _ \<Rightarrow> False
    \<Longrightarrow> \<exists>d. policy_apply demo_policy_codec c s = (Inr d, snd (policy_apply demo_policy_codec c s)) \<and> pd_status d = st"
  by (cases "policy_apply demo_policy_codec c s") (auto split: sum.split_asm)

text \<open>What the witnesses need of these runs, evaluated at once.\<close>

lemma demo_policy_facts:
  "(case policy_apply demo_policy_codec (demo_place 2 4 7 6) (demo_policy_run [demo_mode]) of
      (Inr d, _) \<Rightarrow> pd_status d = Permit | _ \<Rightarrow> False)
   \<and> (case policy_apply demo_policy_codec (demo_place 3 5 8 7) (demo_policy_run [demo_mode, demo_place 2 4 7 6]) of
      (Inr d, _) \<Rightarrow> pd_status d = Permit | _ \<Rightarrow> False)
   \<and> (case policy_apply demo_policy_codec (demo_cancel 3 7 8) (demo_policy_run [demo_mode, demo_place 2 4 7 6]) of
      (Inr d, _) \<Rightarrow> pd_status d = Permit | _ \<Rightarrow> False)
   \<and> (case policy_apply demo_policy_codec (demo_cancel 2 7 8) (demo_policy_run [demo_mode]) of
      (Inr d, _) \<Rightarrow> pd_status d = Deny | _ \<Rightarrow> False)
   \<and> bt_get (pe_processed (demo_policy_run [demo_mode])) 2 = None
   \<and> map_option (\<lambda>m. (mo_mode m, mo_sequence m)) (pe_mode (demo_policy_run [demo_mode])) = Some (ModePostOnly, 1)
   \<and> bt_get (pe_processed (demo_policy_run [demo_mode, demo_place 2 4 7 6])) 3 = None
   \<and> pe_halted (demo_policy_run [demo_mode, demo_place 2 4 7 6]) = None
   \<and> map_option tk_stage (policy_order (demo_policy_run [demo_mode, demo_place 2 4 7 6]) 7) = Some Authorized
   \<and> policy_content demo_policy_codec (demo_place 2 4 7 7) = Inr 7
   \<and> policy_content demo_policy_codec (demo_place 2 4 7 6) \<noteq> Inr 7
   \<and> placement_denial demo_policy_codec (demo_placement (demo_approval (- 9223372036854775808) 0) 7 6) (demo_policy_run [demo_mode]) = Inr None"
  by code_simp

lemma demo_placed:
  "case policy_apply demo_policy_codec (demo_place 2 4 7 6) (demo_policy_run [demo_mode]) of
     (Inr d, _) \<Rightarrow> pd_status d = Permit | _ \<Rightarrow> False"
  by (rule demo_policy_facts [THEN conjunct1])

lemma demo_placed_again:
  "case policy_apply demo_policy_codec (demo_place 3 5 8 7) (demo_policy_run [demo_mode, demo_place 2 4 7 6]) of
     (Inr d, _) \<Rightarrow> pd_status d = Permit | _ \<Rightarrow> False"
  by (rule demo_policy_facts [THEN conjunct2, THEN conjunct1])


theorem approval_authorises_one_order_witness:
  "rd_decision_digest (demo_approval 5 5) \<noteq> rd_decision_digest (demo_approval 4 4)"
proof -
  let ?s = "demo_policy_run [demo_mode]" and ?a = "policy_apply demo_policy_codec"
  let ?s1 = "snd (?a (demo_place 2 4 7 6) ?s)"
  obtain d where d: "?a (AuthorizePlacement 2 (demo_placement (demo_approval 4 (of_int 4)) 7 6) 6) ?s = (Inr d, ?s1)" "pd_status d = Permit"
    using demo_policy_step [OF demo_placed] by (auto simp: demo_place_def)
  have e: "run_commands ?a [] ?s1 = demo_policy_run [demo_mode, demo_place 2 4 7 6]"
    by simp
  obtain d' s2 where d': "?a (AuthorizePlacement 3 (demo_placement (demo_approval 5 (of_int 5)) 8 7) 7) (run_commands ?a [] ?s1) = (Inr d', s2)"
      "pd_status d' = Permit"
    using demo_policy_step [OF demo_placed_again] unfolding e by (auto simp: demo_place_def)
  have new: "bt_get (pe_processed ?s) 2 = None" "bt_get (pe_processed (run_commands ?a [] ?s1)) 3 = None"
    unfolding e using demo_policy_facts by - (elim conjE, assumption)+
  show ?thesis
    using approval_authorises_one_order [OF d(1) new(1) d(2) d'(1) new(2) d'(2)]
    by (simp add: demo_placement_def demo_approval_def)
qed

lemma demo_tracked:
  "map_option tk_stage (policy_order (demo_policy_run [demo_mode, demo_place 2 4 7 6]) 7) = Some Authorized"
  using demo_policy_facts by - (elim conjE, assumption)+

theorem order_lifecycle_moves_forward_witness:
  "\<exists>u. policy_order (run_commands (policy_apply demo_policy_codec) [MarkLive 3 7 8, MarkTerminal 4 7 9]
       (demo_policy_run [demo_mode, demo_place 2 4 7 6])) 7 = Some u \<and> stage_step\<^sup>*\<^sup>* Authorized (tk_stage u)"
proof -
  obtain t where "policy_order (demo_policy_run [demo_mode, demo_place 2 4 7 6]) 7 = Some t" "tk_stage t = Authorized"
    using demo_tracked by auto
  then show ?thesis
    using order_lifecycle_moves_forward [of "demo_policy_run [demo_mode, demo_place 2 4 7 6]" 7 t
        demo_policy_codec "[MarkLive 3 7 8, MarkTerminal 4 7 9]"] by auto
qed

theorem mode_history_monotone_witness:
  "\<exists>m'. pe_mode (run_commands (policy_apply demo_policy_codec) [demo_place 2 4 7 6] (demo_policy_run [demo_mode])) = Some m'
     \<and> 1 \<le> mo_sequence m'"
proof -
  have "map_option (\<lambda>m. (mo_mode m, mo_sequence m)) (pe_mode (demo_policy_run [demo_mode])) = Some (ModePostOnly, 1)"
    using demo_policy_facts by - (elim conjE, assumption)+
  then obtain m where "pe_mode (demo_policy_run [demo_mode]) = Some m" "mo_sequence m = 1"
    by auto
  then show ?thesis
    using mode_history_monotone [of "demo_policy_run [demo_mode]" m demo_policy_codec "[demo_place 2 4 7 6]"] by auto
qed

theorem cancel_permit_is_sound_witness:
  "\<exists>u. policy_order (demo_policy_run [demo_mode, demo_place 2 4 7 6]) 7 = Some u \<and> tk_stage u \<notin> {Terminal, CancelAuthorized}"
proof -
  let ?s = "demo_policy_run [demo_mode, demo_place 2 4 7 6]"
  let ?r = "\<lparr>cr_order_id = 7, cr_max_mode_age = 20, cr_evaluated_at = 8\<rparr>"
  have "case policy_apply demo_policy_codec (demo_cancel 3 7 8) ?s of (Inr d, _) \<Rightarrow> pd_status d = Permit | _ \<Rightarrow> False"
    using demo_policy_facts by - (elim conjE, assumption)+
  from demo_policy_step [OF this] obtain d where
    d: "policy_apply demo_policy_codec (AuthorizeCancel 3 ?r 8) ?s = (Inr d, snd (policy_apply demo_policy_codec (demo_cancel 3 7 8) ?s))"
      "pd_status d = Permit"
    by (auto simp: demo_cancel_def)
  have new: "bt_get (pe_processed ?s) 3 = None"
    using demo_policy_facts by - (elim conjE, assumption)+
  show ?thesis
    using cancel_permit_is_sound [OF refl d(1) new d(2)] by (auto simp: i64_ok_def)
qed

theorem policy_refusals_have_no_effect_witness:
  "pe_used_approvals (snd (policy_apply demo_policy_codec (demo_cancel 2 7 8) (demo_policy_run [demo_mode])))
    = pe_used_approvals (demo_policy_run [demo_mode])"
proof -
  have "case policy_apply demo_policy_codec (demo_cancel 2 7 8) (demo_policy_run [demo_mode]) of
      (Inr d, _) \<Rightarrow> pd_status d = Deny | _ \<Rightarrow> False"
    using demo_policy_facts by - (elim conjE, assumption)+
  from demo_policy_step [OF this] obtain d where
    "policy_apply demo_policy_codec (demo_cancel 2 7 8) (demo_policy_run [demo_mode])
      = (Inr d, snd (policy_apply demo_policy_codec (demo_cancel 2 7 8) (demo_policy_run [demo_mode])))" "pd_status d = Deny"
    by blast
  then show ?thesis
    using policy_refusals_have_no_effect by (metis sum.inject(2))
qed

theorem policy_decisions_are_repeated_witness:
  "\<exists>d. policy_apply demo_policy_codec (demo_place 2 4 7 6) (demo_policy_run [demo_mode, demo_place 2 4 7 6])
     = (Inr d, demo_policy_run [demo_mode, demo_place 2 4 7 6])"
proof -
  let ?a = "policy_apply demo_policy_codec" and ?s = "demo_policy_run [demo_mode]"
  obtain d where 1: "?a (demo_place 2 4 7 6) ?s = (Inr d, snd (?a (demo_place 2 4 7 6) ?s))"
    using demo_policy_step [OF demo_placed] by blast
  have e: "run_commands ?a [] (snd (?a (demo_place 2 4 7 6) ?s)) = demo_policy_run [demo_mode, demo_place 2 4 7 6]"
    by simp
  have 2: "pe_halted (run_commands ?a [] (snd (?a (demo_place 2 4 7 6) ?s))) = None"
    unfolding e using demo_policy_facts by - (elim conjE, assumption)+
  have 3: "policy_content demo_policy_codec (demo_place 2 4 7 7) = Inr 7"
      "policy_content demo_policy_codec (demo_place 2 4 7 6) \<noteq> Inr 7"
    using demo_policy_facts by - (elim conjE, assumption)+
  show ?thesis
    using policy_decisions_are_repeated [OF 1 2 _ 3] unfolding e by (auto simp: demo_place_def)
qed


end
