(* ===== verification/Paper_Execution.thy ===== *)
theory Paper_Execution
  imports Order_Policy
begin

text \<open>
  The paper execution engine of \<open>crates/paper-execution/src/lib.rs\<close>: permits are
  turned into paper orders, exchange observations move an order through its life, and
  every fill becomes a hand-off to settlement. This theory holds the data and the
  operations; \<open>Paper_Execution_Theorems\<close> what they guarantee. The hash and
  the serialisers are the fields of \<open>exec_codec\<close>.
\<close>

section \<open>Data\<close>

type_synonym exec_command_id = bytes32

datatype unknown_reason = SubmitTimeout | CancelTimeout | TransportLost | RecoveryRequired

datatype retry_class =
    RetryPermanent | RetryRestart | RetryRateLimit | RetryBalanceOrAllowance | RetryDelayedCheck | RetryUnknown

record match_fill =
  mf_fill_id :: string
  mf_quantity :: int
  mf_consideration :: int
  mf_fee :: int
  mf_cumulative_quantity :: int
  mf_cumulative_consideration :: int
  mf_cumulative_fee :: int
  mf_ledger_command_id :: command_id

datatype exchange_event =
    EvDelayed int int
  | EvAcknowledged
  | EvLive
  | EvMatch match_fill bool
  | EvCancelAccepted
  | EvCancelRejected
  | EvRejected retry_class string
  | EvUnknown unknown_reason

record exchange_observation =
  eo_order_id :: risk_order_id
  eo_source_sequence :: int
  eo_exchange_order_id :: "string option"
  eo_event :: exchange_event
  eo_event_time :: int
  eo_received_time :: int

datatype exec_command =
    Submit exec_command_id policy_decision placement_request string int
  | RequestCancel exec_command_id policy_decision cancel_request int
  | Observe exec_command_id exchange_observation int

fun exec_command_id :: "exec_command \<Rightarrow> exec_command_id" where
  "exec_command_id (Submit i _ _ _ _) = i"
| "exec_command_id (RequestCancel i _ _ _) = i"
| "exec_command_id (Observe i _ _) = i"

fun exec_recorded_at :: "exec_command \<Rightarrow> int" where
  "exec_recorded_at (Submit _ _ _ _ t) = t"
| "exec_recorded_at (RequestCancel _ _ _ t) = t"
| "exec_recorded_at (Observe _ _ t) = t"

datatype active_state =
    XSubmitted
  | XDelayed int int
  | XAcknowledged
  | XLive
  | XPartiallyMatched
  | XUnknown unknown_reason

datatype order_state =
    XActive active_state
  | XCancelPending active_state
  | XFullyMatched
  | XCanceled
  | XRejected retry_class string

fun is_terminal_state :: "order_state \<Rightarrow> bool" where
  "is_terminal_state XFullyMatched = True"
| "is_terminal_state XCanceled = True"
| "is_terminal_state (XRejected _ _) = True"
| "is_terminal_state _ = False"

record handoff =
  hf_intent :: trade_intent
  hf_source_sequence :: int
  hf_placement_policy_digest :: bytes32
  hf_source_observation_digest :: bytes32

record paper_order =
  po_placement :: placement_request
  po_local_submission_id :: string
  po_placement_policy_digest :: bytes32
  po_exchange_order_id :: "string option"
  po_state :: order_state
  po_last_source_sequence :: "int option"
  po_last_event_time :: "int option"
  po_last_received_time :: "int option"
  po_cumulative_quantity :: int
  po_cumulative_consideration :: int
  po_cumulative_fee :: int
  po_fills :: "(string, match_fill) btree"
  po_handoffs :: "handoff list"

datatype exec_status = Executed | ExecDenied

datatype exec_reason =
    SubmissionAccepted
  | CancelRequested
  | ObservationApplied
  | PolicyDigestInvalid
  | PolicyNotPermitted
  | PolicySubjectMismatch
  | PolicyOrderMismatch
  | ExecAuthorizationExpired
  | AuthorizationNotYetValid
  | PolicyAlreadyUsed
  | OrderAlreadyExists
  | ExecOrderUnknown
  | ExecOrderTerminal
  | CancelAlreadyPending

record exec_decision =
  xd_command_id :: exec_command_id
  xd_status :: exec_status
  xd_reason :: exec_reason
  xd_order_id :: "risk_order_id option"
  xd_state :: "order_state option"
  xd_new_handoff :: "handoff option"
  xd_decision_digest :: bytes32

datatype exec_error =
    XTimestamp
  | XCommandBound
  | XJson string
  | XVersion int
  | XIdempotencyConflict
  | XClockRegression
  | XSourceHistory
  | XExchangeOrderIdentity
  | XLifecycleTransition
  | XFillInvariant
  | XIdentifier
  | XOverflow
  | XHalted string

fun exec_error_text :: "exec_error \<Rightarrow> string" where
  "exec_error_text XTimestamp = ''execution command timestamp is invalid''"
| "exec_error_text XCommandBound = ''execution command exceeds its canonical bound''"
| "exec_error_text (XJson e) = ''execution command JSON is invalid: '' @ e"
| "exec_error_text (XVersion v) = ''unsupported execution command version: '' @ show_nat (nat v)"
| "exec_error_text XIdempotencyConflict = ''execution command id was reused for different content''"
| "exec_error_text XClockRegression = ''execution command clock regressed''"
| "exec_error_text XSourceHistory = ''paper source history regressed or equivocated''"
| "exec_error_text XExchangeOrderIdentity = ''paper observation changed immutable exchange order identity''"
| "exec_error_text XLifecycleTransition = ''paper order lifecycle transition is impossible''"
| "exec_error_text XFillInvariant = ''paper fill facts are invalid or inconsistent''"
| "exec_error_text XIdentifier = ''paper identifier is invalid''"
| "exec_error_text XOverflow = ''paper arithmetic overflow''"
| "exec_error_text (XHalted reason) = ''paper execution engine is halted: '' @ reason"

record exec_engine =
  xe_processed :: "(exec_command_id, bytes32 \<times> exec_decision) btree"
  xe_orders :: "(risk_order_id, paper_order) btree"
  xe_used_placement_permits :: "bytes32 btset"
  xe_used_cancel_permits :: "bytes32 btset"
  xe_accepted :: int
  xe_last_recorded_at :: "int option"
  xe_last_decision :: "exec_decision option"
  xe_halted :: "string option"

definition exec_engine_default :: exec_engine where
  "exec_engine_default = \<lparr>xe_processed = [], xe_orders = [], xe_used_placement_permits = [],
     xe_used_cancel_permits = [], xe_accepted = 0, xe_last_recorded_at = None, xe_last_decision = None,
     xe_halted = None\<rparr>"

text \<open>\<open>serde_json\<close> on the types that are hashed, and \<open>blake3\<close>.\<close>

record exec_codec =
  xc_to_vec :: "exec_command wire \<Rightarrow> string + string"
  xc_observation_json :: "exchange_observation \<Rightarrow> string + string"
  xc_decision_json :: "exec_decision \<Rightarrow> string"
  xc_policy :: policy_codec

abbreviation xc_blake3 :: "exec_codec \<Rightarrow> string \<Rightarrow> bytes32" where
  "xc_blake3 cx \<equiv> pc_blake3 (xc_policy cx)"

section \<open>Decisions\<close>

definition exec_decision_digest :: "exec_codec \<Rightarrow> exec_decision \<Rightarrow> bytes32" where
  "exec_decision_digest cx d = xc_blake3 cx (xc_decision_json cx (d\<lparr>xd_decision_digest := 0\<rparr>))"

definition exec_verify_digest :: "exec_codec \<Rightarrow> exec_decision \<Rightarrow> bool" where
  "exec_verify_digest cx d = (xd_decision_digest d = exec_decision_digest cx d)"

definition exec_make_decision ::
  "exec_codec \<Rightarrow> exec_command_id \<Rightarrow> exec_status \<Rightarrow> exec_reason \<Rightarrow> risk_order_id option \<Rightarrow> order_state option
    \<Rightarrow> handoff option \<Rightarrow> exec_decision" where
  "exec_make_decision cx i status reason order_id state new_handoff =
     (let value = \<lparr>xd_command_id = i, xd_status = status, xd_reason = reason, xd_order_id = order_id,
        xd_state = state, xd_new_handoff = new_handoff, xd_decision_digest = 0\<rparr>
      in value\<lparr>xd_decision_digest := exec_decision_digest cx value\<rparr>)"

section \<open>Helpers\<close>

definition exec_validate_text :: "string \<Rightarrow> exec_error + unit" where
  "exec_validate_text s = (if s = [] \<or> 512 < int (length s) then Inl XIdentifier else Inr ())"

definition exec_validate_observation :: "exchange_observation \<Rightarrow> exec_error + unit" where
  "exec_validate_observation v =
     (if eo_event_time v < 0 \<or> eo_received_time v < eo_event_time v then Inl XTimestamp
      else case eo_exchange_order_id v of None \<Rightarrow> Inr () | Some i \<Rightarrow> exec_validate_text i)"

definition exec_div_ceil :: "int \<Rightarrow> int \<Rightarrow> exec_error + int" where
  "exec_div_ceil value divisor =
     rbind (ok_or (sub128 divisor 1) XOverflow) (\<lambda>d.
     rbind (ok_or (add128 value d) XOverflow) (\<lambda>adjusted.
     Inr (tdiv adjusted divisor)))"

fun current_active :: "order_state \<Rightarrow> active_state option" where
  "current_active (XActive a) = Some a"
| "current_active (XCancelPending a) = Some a"
| "current_active _ = None"

definition require_active_transition :: "order_state \<Rightarrow> (active_state \<Rightarrow> bool) \<Rightarrow> exec_error + unit" where
  "require_active_transition state allowed =
     (case current_active state of
        Some value \<Rightarrow> if allowed value then Inr () else Inl XLifecycleTransition
      | None \<Rightarrow> Inl XLifecycleTransition)"

definition set_active :: "paper_order \<Rightarrow> active_state \<Rightarrow> exec_error + paper_order" where
  "set_active order a =
     (case po_state order of
        XActive _ \<Rightarrow> Inr (order\<lparr>po_state := XActive a\<rparr>)
      | XCancelPending _ \<Rightarrow> Inr (order\<lparr>po_state := XCancelPending a\<rparr>)
      | _ \<Rightarrow> Inl XLifecycleTransition)"

definition require_exchange_id :: "paper_order \<Rightarrow> exec_error + unit" where
  "require_exchange_id order =
     (if po_exchange_order_id order = None then Inl XExchangeOrderIdentity else Inr ())"

definition exec_intent_id :: "exec_codec \<Rightarrow> string \<Rightarrow> string \<Rightarrow> intent_id" where
  "exec_intent_id cx fill_id order_id =
     xc_blake3 cx (''paper-execution-handoff-v1'' @ prefixed fill_id @ prefixed order_id)"

definition validate_source_history :: "paper_order \<Rightarrow> exchange_observation \<Rightarrow> exec_error + unit" where
  "validate_source_history order v =
     (if (case po_last_source_sequence order of None \<Rightarrow> False | Some p \<Rightarrow> eo_source_sequence v \<le> p)
         \<or> (case po_last_event_time order of None \<Rightarrow> False | Some p \<Rightarrow> eo_event_time v < p)
         \<or> (case po_last_received_time order of None \<Rightarrow> False | Some p \<Rightarrow> eo_received_time v < p)
      then Inl XSourceHistory else Inr ())"

definition bind_exchange_order_id :: "paper_order \<Rightarrow> string option \<Rightarrow> exec_error + paper_order" where
  "bind_exchange_order_id order observed =
     rbind (case observed of None \<Rightarrow> Inr () | Some value \<Rightarrow> exec_validate_text value) (\<lambda>_.
     case (po_exchange_order_id order, observed) of
       (Some existing, Some value) \<Rightarrow> if existing \<noteq> value then Inl XExchangeOrderIdentity else Inr order
     | (None, Some value) \<Rightarrow> Inr (order\<lparr>po_exchange_order_id := Some value\<rparr>)
     | _ \<Rightarrow> Inr order)"

section \<open>Fills\<close>

text \<open>The fill is not worse than the limit price.\<close>

definition fill_within_limit :: "order_exposure \<Rightarrow> match_fill \<Rightarrow> exec_error + unit" where
  "fill_within_limit v fill =
     rbind (ok_or (mul128 (oe_limit_price v) (mf_quantity fill)) XOverflow) (\<lambda>limit_value.
     case oe_side v of
       BuySide \<Rightarrow> rbind (exec_div_ceil limit_value 1000000) (\<lambda>limit.
         if limit < mf_consideration fill then Inl XFillInvariant else Inr ())
     | SellSide \<Rightarrow>
         if mf_consideration fill < tdiv limit_value 1000000 then Inl XFillInvariant else Inr ())"

definition validate_fill :: "paper_order \<Rightarrow> match_fill \<Rightarrow> bool \<Rightarrow> exec_error + unit" where
  "validate_fill order fill fully =
     rbind (exec_validate_text (mf_fill_id fill)) (\<lambda>_.
     let v = pl_order (po_placement order) in
     if mf_quantity fill \<le> 0 \<or> mf_consideration fill \<le> 0 \<or> mf_fee fill < 0
        \<or> mf_consideration fill < mf_fee fill then Inl XFillInvariant
     else if add128 (po_cumulative_quantity order) (mf_quantity fill) \<noteq> Some (mf_cumulative_quantity fill)
        \<or> add128 (po_cumulative_consideration order) (mf_consideration fill)
            \<noteq> Some (mf_cumulative_consideration fill)
        \<or> add128 (po_cumulative_fee order) (mf_fee fill) \<noteq> Some (mf_cumulative_fee fill)
        \<or> oe_quantity v < mf_cumulative_quantity fill
        \<or> oe_max_fee v < mf_cumulative_fee fill
        \<or> fully \<noteq> (mf_cumulative_quantity fill = oe_quantity v) then Inl XFillInvariant
     else fill_within_limit v fill)"

definition too_early :: "order_state \<Rightarrow> int \<Rightarrow> bool" where
  "too_early state event_time =
     (case current_active state of Some (XDelayed release_at _) \<Rightarrow> event_time < release_at | _ \<Rightarrow> False)"

fun side_of_order :: "order_side \<Rightarrow> side" where
  "side_of_order BuySide = Buy"
| "side_of_order SellSide = Sell"

definition fill_intent :: "exec_codec \<Rightarrow> paper_order \<Rightarrow> string \<Rightarrow> match_fill \<Rightarrow> trade_intent" where
  "fill_intent cx order exchange_order_id fill =
     \<lparr>ti_intent_id = exec_intent_id cx (mf_fill_id fill) exchange_order_id,
      ti_trade_id = mf_fill_id fill, ti_order_id = exchange_order_id,
      ti_token = oe_token (pl_order (po_placement order)),
      ti_side = side_of_order (oe_side (pl_order (po_placement order))),
      ti_quantity = mf_quantity fill, ti_consideration = mf_consideration fill, ti_fee = mf_fee fill,
      ti_ledger_command_id = mf_ledger_command_id fill\<rparr>"

definition apply_match ::
  "exec_codec \<Rightarrow> paper_order \<Rightarrow> exchange_observation \<Rightarrow> match_fill \<Rightarrow> bool \<Rightarrow> bytes32
    \<Rightarrow> exec_error + handoff \<times> paper_order" where
  "apply_match cx order v fill fully digest =
     rbind (require_exchange_id order) (\<lambda>_.
     if is_terminal_state (po_state order) \<or> bt_contains (po_fills order) (mf_fill_id fill)
        \<or> list_ex (\<lambda>e. mf_ledger_command_id (snd e) = mf_ledger_command_id fill) (po_fills order)
     then Inl XFillInvariant
     else if too_early (po_state order) (eo_event_time v) then Inl XLifecycleTransition
     else
       rbind (validate_fill order fill fully) (\<lambda>_.
       rbind (ok_or (po_exchange_order_id order) XExchangeOrderIdentity) (\<lambda>exchange_order_id.
       let h = \<lparr>hf_intent = fill_intent cx order exchange_order_id fill,
             hf_source_sequence = eo_source_sequence v,
             hf_placement_policy_digest = po_placement_policy_digest order,
             hf_source_observation_digest = digest\<rparr>;
           filled = order\<lparr>po_cumulative_quantity := mf_cumulative_quantity fill,
             po_cumulative_consideration := mf_cumulative_consideration fill,
             po_cumulative_fee := mf_cumulative_fee fill,
             po_fills := bt_insert (mf_fill_id fill) fill (po_fills order),
             po_handoffs := po_handoffs order @ [h]\<rparr> in
       if fully then Inr (h, filled\<lparr>po_state := XFullyMatched\<rparr>)
       else rbind (set_active filled XPartiallyMatched) (\<lambda>filled. Inr (h, filled)))))"

section \<open>Observations\<close>

fun may_delay :: "active_state \<Rightarrow> bool" where
  "may_delay XSubmitted = True"
| "may_delay (XUnknown _) = True"
| "may_delay _ = False"

fun may_acknowledge :: "active_state \<Rightarrow> bool" where
  "may_acknowledge XSubmitted = True"
| "may_acknowledge (XDelayed _ _) = True"
| "may_acknowledge (XUnknown _) = True"
| "may_acknowledge _ = False"

fun may_go_live :: "active_state \<Rightarrow> bool" where
  "may_go_live XSubmitted = True"
| "may_go_live (XDelayed _ _) = True"
| "may_go_live XAcknowledged = True"
| "may_go_live (XUnknown _) = True"
| "may_go_live _ = False"

definition moved :: "exec_error + paper_order \<Rightarrow> exec_error + handoff option \<times> paper_order" where
  "moved r = rbind r (\<lambda>order. Inr (None, order))"

definition apply_observation ::
  "exec_codec \<Rightarrow> paper_order \<Rightarrow> exchange_observation \<Rightarrow> bytes32 \<Rightarrow> exec_error + handoff option \<times> paper_order" where
  "apply_observation cx order v digest =
     (case eo_event v of
        EvDelayed release_at uncancellable_until \<Rightarrow>
          rbind (require_active_transition (po_state order) may_delay) (\<lambda>_.
          if release_at \<le> eo_event_time v \<or> uncancellable_until < release_at then Inl XLifecycleTransition
          else moved (set_active order (XDelayed release_at uncancellable_until)))
      | EvAcknowledged \<Rightarrow>
          rbind (require_exchange_id order) (\<lambda>_.
          rbind (require_active_transition (po_state order) may_acknowledge) (\<lambda>_.
          moved (set_active order XAcknowledged)))
      | EvLive \<Rightarrow>
          rbind (require_exchange_id order) (\<lambda>_.
          rbind (require_active_transition (po_state order) may_go_live) (\<lambda>_.
          if too_early (po_state order) (eo_event_time v) then Inl XLifecycleTransition
          else moved (set_active order XLive)))
      | EvMatch fill fully \<Rightarrow>
          rbind (apply_match cx order v fill fully digest) (\<lambda>(h, order'). Inr (Some h, order'))
      | EvCancelAccepted \<Rightarrow>
          (case po_state order of
             XCancelPending _ \<Rightarrow> Inr (None, order\<lparr>po_state := XCanceled\<rparr>)
           | _ \<Rightarrow> Inl XLifecycleTransition)
      | EvCancelRejected \<Rightarrow>
          (case po_state order of
             XCancelPending resume \<Rightarrow> Inr (None, order\<lparr>po_state := XActive resume\<rparr>)
           | _ \<Rightarrow> Inl XLifecycleTransition)
      | EvRejected class code \<Rightarrow>
          rbind (exec_validate_text code) (\<lambda>_.
          if is_terminal_state (po_state order) then Inl XLifecycleTransition
          else Inr (None, order\<lparr>po_state := XRejected class code\<rparr>))
      | EvUnknown reason \<Rightarrow>
          (case po_state order of
             XActive _ \<Rightarrow> Inr (None, order\<lparr>po_state := XActive (XUnknown reason)\<rparr>)
           | XCancelPending _ \<Rightarrow> Inr (None, order\<lparr>po_state := XCancelPending (XUnknown reason)\<rparr>)
           | _ \<Rightarrow> Inl XLifecycleTransition))"

section \<open>Operations\<close>

type_synonym exec_result = "exec_error + exec_decision \<times> exec_engine"

definition submit_denial ::
  "exec_codec \<Rightarrow> policy_decision \<Rightarrow> placement_request \<Rightarrow> int \<Rightarrow> exec_engine \<Rightarrow> exec_reason option" where
  "submit_denial cx p r at s =
     (let order_id = oe_order_id (pl_order r) in
      if \<not> policy_verify_digest (xc_policy cx) p then Some PolicyDigestInvalid
      else if pd_status p \<noteq> Permit \<or> pd_action p \<noteq> ActPlace \<or> pd_reason p \<noteq> PlacementPermitted
      then Some PolicyNotPermitted
      else if pd_subject_digest p \<noteq> Some (placement_request_digest (xc_policy cx) r) then Some PolicySubjectMismatch
      else if pd_order_id p \<noteq> Some order_id then Some PolicyOrderMismatch
      else if at < pl_evaluated_at r then Some AuthorizationNotYetValid
      else if pl_authorization_expires_at r \<le> at then Some ExecAuthorizationExpired
      else if bs_mem (pd_decision_digest p) (xe_used_placement_permits s) then Some PolicyAlreadyUsed
      else if bt_contains (xe_orders s) order_id then Some OrderAlreadyExists
      else None)"

definition new_paper_order :: "placement_request \<Rightarrow> string \<Rightarrow> bytes32 \<Rightarrow> paper_order" where
  "new_paper_order r local_id digest =
     \<lparr>po_placement = r, po_local_submission_id = local_id, po_placement_policy_digest = digest,
      po_exchange_order_id = None, po_state = XActive XSubmitted, po_last_source_sequence = None,
      po_last_event_time = None, po_last_received_time = None, po_cumulative_quantity = 0,
      po_cumulative_consideration = 0, po_cumulative_fee = 0, po_fills = [], po_handoffs = []\<rparr>"

definition submit ::
  "exec_codec \<Rightarrow> exec_command_id \<Rightarrow> policy_decision \<Rightarrow> placement_request \<Rightarrow> string \<Rightarrow> int \<Rightarrow> exec_engine \<Rightarrow> exec_result" where
  "submit cx i p r local_id at s =
     (let order_id = oe_order_id (pl_order r) in
      case submit_denial cx p r at s of
        Some reason \<Rightarrow> Inr (exec_make_decision cx i ExecDenied reason (Some order_id) None None, s)
      | None \<Rightarrow>
          rbind (exec_validate_text local_id) (\<lambda>_.
          Inr (exec_make_decision cx i Executed SubmissionAccepted (Some order_id) (Some (XActive XSubmitted)) None,
            s\<lparr>xe_used_placement_permits := bs_insert (pd_decision_digest p) (xe_used_placement_permits s),
              xe_orders := bt_insert order_id (new_paper_order r local_id (pd_decision_digest p)) (xe_orders s)\<rparr>)))"

definition cancel_denial ::
  "exec_codec \<Rightarrow> policy_decision \<Rightarrow> cancel_request \<Rightarrow> exec_engine \<Rightarrow> exec_reason option" where
  "cancel_denial cx p r s =
     (if \<not> policy_verify_digest (xc_policy cx) p then Some PolicyDigestInvalid
      else if pd_status p \<noteq> Permit \<or> pd_action p \<noteq> ActCancel \<or> pd_reason p \<noteq> CancelPermitted
      then Some PolicyNotPermitted
      else if pd_subject_digest p \<noteq> Some (cancel_request_digest (xc_policy cx) r) then Some PolicySubjectMismatch
      else if pd_order_id p \<noteq> Some (cr_order_id r) then Some PolicyOrderMismatch
      else if bs_mem (pd_decision_digest p) (xe_used_cancel_permits s) then Some PolicyAlreadyUsed
      else case bt_get (xe_orders s) (cr_order_id r) of
        None \<Rightarrow> Some ExecOrderUnknown
      | Some order \<Rightarrow>
          if is_terminal_state (po_state order) then Some ExecOrderTerminal
          else (case po_state order of XCancelPending _ \<Rightarrow> Some CancelAlreadyPending | _ \<Rightarrow> None))"

definition request_cancel ::
  "exec_codec \<Rightarrow> exec_command_id \<Rightarrow> policy_decision \<Rightarrow> cancel_request \<Rightarrow> exec_engine \<Rightarrow> exec_result" where
  "request_cancel cx i p r s =
     (case cancel_denial cx p r s of
        Some reason \<Rightarrow> Inr (exec_make_decision cx i ExecDenied reason (Some (cr_order_id r))
          (map_option po_state (bt_get (xe_orders s) (cr_order_id r))) None, s)
      | None \<Rightarrow>
          rbind (ok_or (bt_get (xe_orders s) (cr_order_id r)) XLifecycleTransition) (\<lambda>order.
          case po_state order of
            XActive resume \<Rightarrow>
              Inr (exec_make_decision cx i Executed CancelRequested (Some (cr_order_id r)) (Some (XCancelPending resume)) None,
                s\<lparr>xe_orders := bt_insert (cr_order_id r) (order\<lparr>po_state := XCancelPending resume\<rparr>) (xe_orders s),
                  xe_used_cancel_permits := bs_insert (pd_decision_digest p) (xe_used_cancel_permits s)\<rparr>)
          | _ \<Rightarrow> Inl XLifecycleTransition))"

definition observe_order ::
  "exec_codec \<Rightarrow> paper_order \<Rightarrow> exchange_observation \<Rightarrow> exec_error + handoff option \<times> paper_order" where
  "observe_order cx order v =
     rbind (validate_source_history order v) (\<lambda>_.
     rbind (bind_exchange_order_id order (eo_exchange_order_id v)) (\<lambda>bound.
     case xc_observation_json cx v of
       Inl e \<Rightarrow> Inl (XJson e)
     | Inr bytes \<Rightarrow>
         rbind (apply_observation cx bound v (xc_blake3 cx bytes)) (\<lambda>(h, order').
         Inr (h, order'\<lparr>po_last_source_sequence := Some (eo_source_sequence v),
                po_last_event_time := Some (eo_event_time v),
                po_last_received_time := Some (eo_received_time v)\<rparr>))))"

definition observe :: "exec_codec \<Rightarrow> exec_command_id \<Rightarrow> exchange_observation \<Rightarrow> exec_engine \<Rightarrow> exec_result" where
  "observe cx i v s =
     rbind (exec_validate_observation v) (\<lambda>_.
     rbind (ok_or (bt_get (xe_orders s) (eo_order_id v)) XLifecycleTransition) (\<lambda>order.
     rbind (observe_order cx order v) (\<lambda>(h, order').
     Inr (exec_make_decision cx i Executed ObservationApplied (Some (eo_order_id v)) (Some (po_state order')) h,
       s\<lparr>xe_orders := bt_insert (eo_order_id v) order' (xe_orders s)\<rparr>))))"

fun exec_apply_fresh :: "exec_codec \<Rightarrow> exec_command \<Rightarrow> exec_engine \<Rightarrow> exec_result" where
  "exec_apply_fresh cx (Submit i p r local_id at) s = submit cx i p r local_id at s"
| "exec_apply_fresh cx (RequestCancel i p r _) s = request_cancel cx i p r s"
| "exec_apply_fresh cx (Observe i v _) s = observe cx i v s"

section \<open>The engine\<close>

definition exec_validate_command :: "exec_command \<Rightarrow> exec_error + unit" where
  "exec_validate_command c =
     (if exec_recorded_at c < 0 then Inl XTimestamp
      else case c of
        Submit _ _ _ _ t \<Rightarrow> if t < 0 then Inl XTimestamp else Inr ()
      | RequestCancel _ _ r t \<Rightarrow> if cr_evaluated_at r \<noteq> t then Inl XTimestamp else Inr ()
      | Observe _ v t \<Rightarrow> if t < eo_received_time v then Inl XTimestamp else Inr ())"

definition exec_encode_command :: "exec_codec \<Rightarrow> exec_command \<Rightarrow> exec_error + string" where
  "exec_encode_command cx c =
     rbind (exec_validate_command c) (\<lambda>_.
       case xc_to_vec cx \<lparr>wire_version = 1, wire_command = c\<rparr> of
         Inl e \<Rightarrow> Inl (XJson e)
       | Inr bytes \<Rightarrow> if 262144 < int (length bytes) then Inl XCommandBound else Inr bytes)"

definition exec_decode_command ::
  "(string \<Rightarrow> string + exec_command wire) \<Rightarrow> string \<Rightarrow> exec_error + exec_command" where
  "exec_decode_command deserialize bytes =
     (if 262144 < int (length bytes) then Inl XCommandBound
      else case deserialize bytes of
        Inl e \<Rightarrow> Inl (XJson e)
      | Inr w \<Rightarrow>
          if wire_version w \<noteq> 1 then Inl (XVersion (wire_version w))
          else rbind (exec_validate_command (wire_command w)) (\<lambda>_. Inr (wire_command w)))"

definition exec_content :: "exec_codec \<Rightarrow> exec_command \<Rightarrow> exec_error + bytes32" where
  "exec_content cx c = rbind (exec_encode_command cx c) (\<lambda>bytes. Inr (xc_blake3 cx bytes))"

definition exec_install_halt :: "exec_error \<Rightarrow> exec_engine \<Rightarrow> (exec_error + exec_decision) \<times> exec_engine" where
  "exec_install_halt e s = (Inl e, s\<lparr>xe_halted := Some (exec_error_text e)\<rparr>)"

definition exec_record ::
  "exec_command \<Rightarrow> bytes32 \<Rightarrow> exec_decision \<Rightarrow> int \<Rightarrow> exec_engine \<Rightarrow> exec_engine" where
  "exec_record c digest d n s = s\<lparr>xe_accepted := n, xe_last_recorded_at := Some (exec_recorded_at c),
     xe_last_decision := Some d,
     xe_processed := bt_insert (exec_command_id c) (digest, d) (xe_processed s)\<rparr>"

definition exec_apply :: "exec_codec \<Rightarrow> exec_command \<Rightarrow> exec_engine \<Rightarrow> (exec_error + exec_decision) \<times> exec_engine" where
  "exec_apply cx c s =
     (case xe_halted s of
        Some reason \<Rightarrow> (Inl (XHalted reason), s)
      | None \<Rightarrow>
          (case exec_content cx c of
             Inl e \<Rightarrow> (Inl e, s)
           | Inr content \<Rightarrow>
               (case bt_get (xe_processed s) (exec_command_id c) of
                  Some (existing, decision) \<Rightarrow>
                    if existing = content then (Inr decision, s)
                    else exec_install_halt XIdempotencyConflict s
                | None \<Rightarrow>
                    if (case xe_last_recorded_at s of None \<Rightarrow> False | Some p \<Rightarrow> exec_recorded_at c < p)
                    then exec_install_halt XClockRegression s
                    else
                      (case exec_apply_fresh cx c s of
                         Inl e \<Rightarrow> exec_install_halt e s
                       | Inr (d, s1) \<Rightarrow>
                           (case addu64 (xe_accepted s1) 1 of
                              None \<Rightarrow> exec_install_halt XOverflow s
                            | Some n \<Rightarrow> (Inr d, exec_record c content d n s1))))))"

text \<open>The digest of the state, over the JSON of its parts, and the summary.\<close>

record exec_json =
  xj_order :: "paper_order \<Rightarrow> string"
  xj_permits :: "bytes32 btset \<Rightarrow> string"
  xj_count :: "int \<Rightarrow> string"
  xj_time :: "int option \<Rightarrow> string"
  xj_last_decision :: "exec_decision option \<Rightarrow> string"
  xj_decision :: "exec_decision \<Rightarrow> string"
  xj_halted :: "string option \<Rightarrow> string"

definition exec_state_digest :: "exec_json \<Rightarrow> (string \<Rightarrow> bytes32) \<Rightarrow> exec_engine \<Rightarrow> bytes32" where
  "exec_state_digest js blake3 s = blake3
     (''paper-execution-state-v1''
      @ concat (map (\<lambda>(i, order). bytes_of_id i @ prefixed (xj_order js order)) (xe_orders s))
      @ prefixed (xj_permits js (xe_used_placement_permits s))
      @ prefixed (xj_permits js (xe_used_cancel_permits s))
      @ prefixed (xj_count js (xe_accepted s))
      @ prefixed (xj_time js (xe_last_recorded_at s))
      @ prefixed (xj_last_decision js (xe_last_decision s))
      @ concat (map (\<lambda>(i, content, decision). bytes_of_id i @ bytes_of_id content @ prefixed (xj_decision js decision))
          (xe_processed s))
      @ prefixed (xj_halted js (xe_halted s)))"

record exec_snapshot =
  xs_accepted_commands :: int
  xs_order_count :: nat
  xs_used_placement_permits :: nat
  xs_used_cancel_permits :: nat
  xs_handoff_count :: nat
  xs_last_recorded_at :: "int option"
  xs_last_decision :: "exec_decision option"
  xs_halted :: bool
  xs_halt_reason :: "string option"
  xs_digest :: bytes32

definition exec_snapshot :: "(exec_engine \<Rightarrow> bytes32) \<Rightarrow> exec_engine \<Rightarrow> exec_snapshot" where
  "exec_snapshot state_digest s =
     \<lparr>xs_accepted_commands = xe_accepted s, xs_order_count = length (xe_orders s),
      xs_used_placement_permits = length (xe_used_placement_permits s),
      xs_used_cancel_permits = length (xe_used_cancel_permits s),
      xs_handoff_count = sum_list (map (\<lambda>e. length (po_handoffs (snd e))) (xe_orders s)),
      xs_last_recorded_at = xe_last_recorded_at s, xs_last_decision = xe_last_decision s,
      xs_halted = (xe_halted s \<noteq> None), xs_halt_reason = xe_halted s, xs_digest = state_digest s\<rparr>"

definition exec_order :: "exec_engine \<Rightarrow> risk_order_id \<Rightarrow> paper_order option" where
  "exec_order s i = bt_get (xe_orders s) i"

end
