(* ===== verification/Paper_Execution_Theorems.thy ===== *)
theory Paper_Execution_Theorems
  imports Paper_Execution Order_Policy_Theorems
begin

text \<open>
  What the paper execution engine guarantees: the running totals of an order are the sums of its
  fills and never exceed what was authorised, every fill is handed to settlement once and with the
  facts of the fill, a finished order stays as it is, and a permit is used once.
\<close>

section \<open>New keys\<close>

lemma set_insert_new: "bt_get m k = None \<Longrightarrow> set (bt_insert k v m) = insert (k, v) (set m)"
  by (induction k v m rule: bt_insert.induct) (auto split: if_splits)

lemma length_insert_new: "bt_get m k = None \<Longrightarrow> length (bt_insert k v m) = Suc (length m)"
  by (induction k v m rule: bt_insert.induct) (auto split: if_splits)

lemma sum_insert_new:
  fixes f :: "'v \<Rightarrow> int"
  shows "bt_get m k = None \<Longrightarrow> (\<Sum>e\<leftarrow>bt_insert k v m. f (snd e)) = (\<Sum>e\<leftarrow>m. f (snd e)) + f v"
  by (induction k v m rule: bt_insert.induct) (auto split: if_splits)

section \<open>A well-formed paper order\<close>

definition fill_ok :: "order_exposure \<Rightarrow> match_fill \<Rightarrow> bool" where
  "fill_ok v f \<longleftrightarrow> mf_fill_id f \<noteq> [] \<and> int (length (mf_fill_id f)) \<le> 512
     \<and> 0 < mf_quantity f \<and> 0 < mf_consideration f \<and> 0 \<le> mf_fee f \<and> mf_fee f \<le> mf_consideration f
     \<and> (case oe_side v of
          BuySide \<Rightarrow> mf_consideration f * 1000000 < oe_limit_price v * mf_quantity f + 1000000
        | SellSide \<Rightarrow> oe_limit_price v * mf_quantity f - 1000000 < mf_consideration f * 1000000)"

definition fill_total :: "(match_fill \<Rightarrow> int) \<Rightarrow> paper_order \<Rightarrow> int" where
  "fill_total f order = (\<Sum>e\<leftarrow>po_fills order. f (snd e))"

definition handoff_of :: "paper_order \<Rightarrow> handoff \<Rightarrow> match_fill \<Rightarrow> bool" where
  "handoff_of order h f \<longleftrightarrow> po_exchange_order_id order = Some (ti_order_id (hf_intent h))
     \<and> ti_trade_id (hf_intent h) = mf_fill_id f
     \<and> ti_token (hf_intent h) = oe_token (pl_order (po_placement order))
     \<and> ti_side (hf_intent h) = side_of_order (oe_side (pl_order (po_placement order)))
     \<and> ti_quantity (hf_intent h) = mf_quantity f \<and> ti_consideration (hf_intent h) = mf_consideration f
     \<and> ti_fee (hf_intent h) = mf_fee f \<and> ti_ledger_command_id (hf_intent h) = mf_ledger_command_id f
     \<and> hf_placement_policy_digest h = po_placement_policy_digest order"

definition handoffs_ok :: "paper_order \<Rightarrow> bool" where
  "handoffs_ok order \<longleftrightarrow>
     (\<forall>h \<in> set (po_handoffs order). \<exists>f. bt_get (po_fills order) (ti_trade_id (hf_intent h)) = Some f \<and> handoff_of order h f)
     \<and> set (map (\<lambda>h. ti_trade_id (hf_intent h)) (po_handoffs order)) = set (map fst (po_fills order))
     \<and> distinct (map (\<lambda>h. ti_trade_id (hf_intent h)) (po_handoffs order))
     \<and> distinct (map (\<lambda>h. ti_ledger_command_id (hf_intent h)) (po_handoffs order))
     \<and> sorted_wrt (<) (map hf_source_sequence (po_handoffs order))
     \<and> (\<forall>h \<in> set (po_handoffs order). \<exists>n. po_last_source_sequence order = Some n \<and> hf_source_sequence h \<le> n)"

definition exchange_id_ok :: "paper_order \<Rightarrow> bool" where
  "exchange_id_ok order \<longleftrightarrow>
     (\<forall>x. po_exchange_order_id order = Some x \<longrightarrow> x \<noteq> [] \<and> int (length x) \<le> 512)"

definition fills_ok :: "paper_order \<Rightarrow> bool" where
  "fills_ok order \<longleftrightarrow>
     (let v = pl_order (po_placement order) in
      bt_ok (po_fills order)
      \<and> (\<forall>e \<in> set (po_fills order). mf_fill_id (snd e) = fst e \<and> fill_ok v (snd e))
      \<and> po_cumulative_quantity order = fill_total mf_quantity order
      \<and> po_cumulative_consideration order = fill_total mf_consideration order
      \<and> po_cumulative_fee order = fill_total mf_fee order
      \<and> (po_fills order \<noteq> [] \<longrightarrow> po_cumulative_quantity order \<le> oe_quantity v \<and> po_cumulative_fee order \<le> oe_max_fee v)
      \<and> (po_state order = XFullyMatched \<longleftrightarrow> po_fills order \<noteq> [] \<and> po_cumulative_quantity order = oe_quantity v))"

definition order_ok :: "paper_order \<Rightarrow> bool" where
  "order_ok order \<longleftrightarrow> fills_ok order \<and> handoffs_ok order \<and> exchange_id_ok order"

text \<open>Changes that leave the fills alone.\<close>

lemma fills_ok_cong:
  assumes "fills_ok o1" and "po_placement o2 = po_placement o1" and "po_fills o2 = po_fills o1"
    and "po_cumulative_quantity o2 = po_cumulative_quantity o1"
    and "po_cumulative_consideration o2 = po_cumulative_consideration o1"
    and "po_cumulative_fee o2 = po_cumulative_fee o1"
    and "po_state o1 \<noteq> XFullyMatched" and "po_state o2 \<noteq> XFullyMatched"
  shows "fills_ok o2"
  using assms unfolding fills_ok_def fill_total_def Let_def by auto

lemma handoffs_ok_cong:
  assumes "handoffs_ok o1" and "po_placement o2 = po_placement o1" and "po_fills o2 = po_fills o1"
    and "po_handoffs o2 = po_handoffs o1" and "po_placement_policy_digest o2 = po_placement_policy_digest o1"
    and "\<And>m. po_last_source_sequence o1 = Some m \<Longrightarrow> \<exists>n. po_last_source_sequence o2 = Some n \<and> m \<le> n"
    and "po_exchange_order_id o2 = po_exchange_order_id o1 \<or> po_exchange_order_id o1 = None"
  shows "handoffs_ok o2"
proof (cases "po_handoffs o1 = []")
  case True
  then show ?thesis
    using assms(1,3,4) by (auto simp: handoffs_ok_def)
next
  case False
  then have "po_exchange_order_id o1 \<noteq> None"
    using assms(1) by (cases "po_handoffs o1") (auto simp: handoffs_ok_def handoff_of_def)
  then have "handoff_of o2 = handoff_of o1"
    using assms(2,5,7) by (auto simp: handoff_of_def fun_eq_iff)
  moreover have "\<forall>h \<in> set (po_handoffs o1). \<exists>n. po_last_source_sequence o2 = Some n \<and> hf_source_sequence h \<le> n"
  proof
    fix h
    assume "h \<in> set (po_handoffs o1)"
    then obtain m where m: "po_last_source_sequence o1 = Some m" "hf_source_sequence h \<le> m"
      using assms(1) unfolding handoffs_ok_def by blast
    obtain n where "po_last_source_sequence o2 = Some n" "m \<le> n"
      using assms(6) [OF m(1)] by blast
    then show "\<exists>n. po_last_source_sequence o2 = Some n \<and> hf_source_sequence h \<le> n"
      using m(2) by auto
  qed
  ultimately show ?thesis
    using assms(1) unfolding handoffs_ok_def assms(3,4) by simp
qed

lemma exec_ceil_below:
  assumes "exec_div_ceil x 1000000 = Inr c" and "c' \<le> c" and "0 < c'"
  shows "c' * 1000000 < x + 1000000"
proof -
  have c: "c = tdiv (x + 999999) 1000000"
    using assms(1) by (auto simp: exec_div_ceil_def rbind_Inr_iff ok_or_Inr_iff checked_simps)
  have "0 \<le> x + 999999"
  proof (rule ccontr)
    assume "\<not> 0 \<le> x + 999999"
    then have "c = - (\<bar>x + 999999\<bar> div 1000000)"
      using c by (simp add: tdiv_def)
    moreover have "0 \<le> \<bar>x + 999999\<bar> div 1000000"
      by (simp add: pos_imp_zdiv_nonneg_iff)
    ultimately show False
      using assms(2,3) by linarith
  qed
  then have "c * 1000000 < x + 1000000"
    using ceil_div_bounds(2) [of 1000000 x] c by (simp add: tdiv_nonneg)
  then show ?thesis
    using assms(2) by linarith
qed

lemma sale_above:
  assumes "tdiv x 1000000 \<le> c" and "0 < c"
  shows "x - 1000000 < c * 1000000"
proof (cases "0 \<le> x")
  case True
  have "x - x div 1000000 * 1000000 < 1000000"
    by (simp add: minus_div_mult_eq_mod)
  moreover have "x div 1000000 * 1000000 \<le> c * 1000000"
    using assms(1) True by (simp add: tdiv_nonneg)
  ultimately show ?thesis by linarith
qed (use assms(2) in linarith)

lemma fill_within_limit_ok:
  assumes "fill_within_limit v f = Inr ()" and "0 < mf_consideration f"
  shows "case oe_side v of
          BuySide \<Rightarrow> mf_consideration f * 1000000 < oe_limit_price v * mf_quantity f + 1000000
        | SellSide \<Rightarrow> oe_limit_price v * mf_quantity f - 1000000 < mf_consideration f * 1000000"
proof (cases "oe_side v")
  case BuySide
  then obtain c where "exec_div_ceil (oe_limit_price v * mf_quantity f) 1000000 = Inr c" "mf_consideration f \<le> c"
    using assms(1) by (auto simp: fill_within_limit_def rbind_Inr_iff ok_or_Inr_iff checked_simps split: if_split_asm)
  then show ?thesis
    using exec_ceil_below assms(2) BuySide by auto
next
  case SellSide
  then have "tdiv (oe_limit_price v * mf_quantity f) 1000000 \<le> mf_consideration f"
    using assms(1) by (auto simp: fill_within_limit_def rbind_Inr_iff ok_or_Inr_iff checked_simps split: if_split_asm)
  then show ?thesis
    using sale_above assms(2) SellSide by auto
qed

lemma validate_fill_ok:
  assumes "validate_fill order f fully = Inr ()"
  shows "fill_ok (pl_order (po_placement order)) f
    \<and> mf_cumulative_quantity f = po_cumulative_quantity order + mf_quantity f
    \<and> mf_cumulative_consideration f = po_cumulative_consideration order + mf_consideration f
    \<and> mf_cumulative_fee f = po_cumulative_fee order + mf_fee f
    \<and> mf_cumulative_quantity f \<le> oe_quantity (pl_order (po_placement order))
    \<and> mf_cumulative_fee f \<le> oe_max_fee (pl_order (po_placement order))
    \<and> (fully \<longleftrightarrow> mf_cumulative_quantity f = oe_quantity (pl_order (po_placement order)))"
proof -
  let ?v = "pl_order (po_placement order)"
  have base: "mf_fill_id f \<noteq> []" "int (length (mf_fill_id f)) \<le> 512"
      "0 < mf_quantity f" "0 < mf_consideration f" "0 \<le> mf_fee f" "mf_fee f \<le> mf_consideration f"
      "add128 (po_cumulative_quantity order) (mf_quantity f) = Some (mf_cumulative_quantity f)"
      "add128 (po_cumulative_consideration order) (mf_consideration f) = Some (mf_cumulative_consideration f)"
      "add128 (po_cumulative_fee order) (mf_fee f) = Some (mf_cumulative_fee f)"
      "mf_cumulative_quantity f \<le> oe_quantity ?v" "mf_cumulative_fee f \<le> oe_max_fee ?v"
      "fully \<longleftrightarrow> mf_cumulative_quantity f = oe_quantity ?v"
    and price: "fill_within_limit ?v f = Inr ()"
    using assms unfolding validate_fill_def rbind_Inr_iff exec_validate_text_def Let_def if_Inr_iff
    by (simp_all add: not_less not_le)
  then show ?thesis
    using fill_within_limit_ok [OF price base(4)] by (simp add: fill_ok_def checked_simps)
qed

section \<open>Every observation keeps the order well formed\<close>

text \<open>The order after an observation, with the position in the source history moved on.\<close>

abbreviation seen :: "exchange_observation \<Rightarrow> paper_order \<Rightarrow> paper_order" where
  "seen v order \<equiv> order\<lparr>po_last_source_sequence := Some (eo_source_sequence v),
     po_last_event_time := Some (eo_event_time v), po_last_received_time := Some (eo_received_time v)\<rparr>"

definition filled_order :: "paper_order \<Rightarrow> match_fill \<Rightarrow> handoff \<Rightarrow> order_state \<Rightarrow> paper_order" where
  "filled_order order f h state = order\<lparr>po_cumulative_quantity := mf_cumulative_quantity f,
     po_cumulative_consideration := mf_cumulative_consideration f, po_cumulative_fee := mf_cumulative_fee f,
     po_fills := bt_insert (mf_fill_id f) f (po_fills order), po_handoffs := po_handoffs order @ [h],
     po_state := state\<rparr>"

lemma filled_order_simps [simp]:
  "po_placement (filled_order order f h st) = po_placement order"
  "po_local_submission_id (filled_order order f h st) = po_local_submission_id order"
  "po_placement_policy_digest (filled_order order f h st) = po_placement_policy_digest order"
  "po_exchange_order_id (filled_order order f h st) = po_exchange_order_id order"
  "po_state (filled_order order f h st) = st"
  "po_cumulative_quantity (filled_order order f h st) = mf_cumulative_quantity f"
  "po_cumulative_consideration (filled_order order f h st) = mf_cumulative_consideration f"
  "po_cumulative_fee (filled_order order f h st) = mf_cumulative_fee f"
  "po_fills (filled_order order f h st) = bt_insert (mf_fill_id f) f (po_fills order)"
  "po_handoffs (filled_order order f h st) = po_handoffs order @ [h]"
  by (simp_all add: filled_order_def)

lemma apply_match_Inr:
  assumes "apply_match cx order v f fully digest = Inr (h, order')"
  obtains x st where "po_exchange_order_id order = Some x" "\<not> is_terminal_state (po_state order)"
    "bt_get (po_fills order) (mf_fill_id f) = None"
    "\<And>e. e \<in> set (po_fills order) \<Longrightarrow> mf_ledger_command_id (snd e) \<noteq> mf_ledger_command_id f"
    "\<not> too_early (po_state order) (eo_event_time v)" "validate_fill order f fully = Inr ()"
    "h = \<lparr>hf_intent = fill_intent cx order x f, hf_source_sequence = eo_source_sequence v,
      hf_placement_policy_digest = po_placement_policy_digest order, hf_source_observation_digest = digest\<rparr>"
    "order' = filled_order order f h st" "st = XFullyMatched \<longleftrightarrow> fully"
    "\<not> fully \<Longrightarrow> st = XActive XPartiallyMatched \<or> st = XCancelPending XPartiallyMatched"
proof -
  obtain x where x: "po_exchange_order_id order = Some x"
    using assms by (auto simp: apply_match_def require_exchange_id_def split: if_split_asm)
  define h0 where "h0 = \<lparr>hf_intent = fill_intent cx order x f, hf_source_sequence = eo_source_sequence v,
      hf_placement_policy_digest = po_placement_policy_digest order, hf_source_observation_digest = digest\<rparr>"
  have r: "\<not> is_terminal_state (po_state order)" "bt_get (po_fills order) (mf_fill_id f) = None"
      "\<And>e. e \<in> set (po_fills order) \<Longrightarrow> mf_ledger_command_id (snd e) \<noteq> mf_ledger_command_id f"
      "\<not> too_early (po_state order) (eo_event_time v)" "validate_fill order f fully = Inr ()"
    using assms x unfolding apply_match_def rbind_Inr_iff if_Inr_iff
    by (auto simp: bt_contains_def list_ex_iff)
  have "\<exists>st. h = h0 \<and> order' = filled_order order f h0 st \<and> (st = XFullyMatched \<longleftrightarrow> fully)
      \<and> (\<not> fully \<longrightarrow> st = XActive XPartiallyMatched \<or> st = XCancelPending XPartiallyMatched)"
  proof (cases fully)
    case True
    then have "h = h0 \<and> order' = filled_order order f h0 XFullyMatched"
      using assms x r unfolding apply_match_def
      by (auto simp: require_exchange_id_def bt_contains_def Let_def h0_def filled_order_def split: if_split_asm)
    then show ?thesis using True by blast
  next
    case False
    have "h = h0 \<and> (\<exists>a. po_state order = XActive a \<and> order' = filled_order order f h0 (XActive XPartiallyMatched)
        \<or> po_state order = XCancelPending a \<and> order' = filled_order order f h0 (XCancelPending XPartiallyMatched))"
      using assms x r False unfolding apply_match_def
      by (cases "po_state order")
        (auto simp: require_exchange_id_def bt_contains_def Let_def h0_def filled_order_def set_active_def split: if_split_asm)
    then show ?thesis using False by auto
  qed
  then show ?thesis
    using that [OF x r] unfolding h0_def by blast
qed

lemma handoff_of_filled [simp]: "handoff_of (filled_order order f h st) k g = handoff_of order k g"
  by (simp add: handoff_of_def)

lemma filled_handoffs_ok:
  assumes ok: "handoffs_ok order" and fills: "fills_ok order"
    and new: "bt_get (po_fills order) (mf_fill_id f) = None"
      "\<And>e. e \<in> set (po_fills order) \<Longrightarrow> mf_ledger_command_id (snd e) \<noteq> mf_ledger_command_id f"
    and h: "handoff_of order h f" "hf_source_sequence h = n"
    and later: "\<And>m. po_last_source_sequence order = Some m \<Longrightarrow> m < n"
  shows "handoffs_ok ((filled_order order f h st)\<lparr>po_last_source_sequence := Some n\<rparr>)"
proof -
  let ?t = "\<lambda>h. ti_trade_id (hf_intent h)" and ?c = "\<lambda>h. ti_ledger_command_id (hf_intent h)"
  have t: "?t h = mf_fill_id f" "?c h = mf_ledger_command_id f"
    using h(1) by (simp_all add: handoff_of_def)
  have old: "bt_get (po_fills order) (?t k) = Some g \<and> handoff_of order k g
      \<and> hf_source_sequence k < n \<and> ?t k \<noteq> mf_fill_id f \<and> ?c k \<noteq> mf_ledger_command_id f"
    if "k \<in> set (po_handoffs order)" "bt_get (po_fills order) (?t k) = Some g" "handoff_of order k g" for k g
  proof -
    have "(?t k, g) \<in> set (po_fills order)" using that(2) by (rule bt_get_mem)
    then have "?c k \<noteq> mf_ledger_command_id f"
      using new(2) [of "(?t k, g)"] that(3) by (simp add: handoff_of_def)
    moreover have "?t k \<noteq> mf_fill_id f" using that(2) new(1) by auto
    moreover have "hf_source_sequence k < n"
      using ok that(1) later unfolding handoffs_ok_def by fastforce
    ultimately show ?thesis using that by blast
  qed
  have ex: "\<exists>g. bt_get (po_fills order) (?t k) = Some g \<and> handoff_of order k g" if "k \<in> set (po_handoffs order)" for k
    using ok that unfolding handoffs_ok_def by blast
  have facts: "\<exists>g. bt_get (bt_insert (mf_fill_id f) f (po_fills order)) (?t k) = Some g \<and> handoff_of order k g"
    if "k \<in> set (po_handoffs order @ [h])" for k
  proof (cases "k \<in> set (po_handoffs order)")
    case True
    then show ?thesis using ex old by (metis bt_get_insert)
  next
    case False
    then show ?thesis using that h(1) t by (auto simp: bt_get_insert)
  qed
  have lt: "hf_source_sequence k < n \<and> ?t k \<noteq> mf_fill_id f \<and> ?c k \<noteq> mf_ledger_command_id f"
    if "k \<in> set (po_handoffs order)" for k
    using ex [OF that] old [OF that] by blast
  have "sorted_wrt (<) (map hf_source_sequence (po_handoffs order @ [h]))"
    using ok lt h(2) by (auto simp: handoffs_ok_def sorted_wrt_append)
  moreover have "?t h \<notin> ?t ` set (po_handoffs order)" "?c h \<notin> ?c ` set (po_handoffs order)"
    using lt t by fastforce+
  then have "distinct (map ?t (po_handoffs order @ [h]))" "distinct (map ?c (po_handoffs order @ [h]))"
    using ok by (simp_all add: handoffs_ok_def)
  moreover have "set (map ?t (po_handoffs order @ [h])) = set (map fst (bt_insert (mf_fill_id f) f (po_fills order)))"
    using ok t(1) by (simp add: handoffs_ok_def keys_insert del: set_map)
  moreover have "hf_source_sequence k \<le> n" if "k \<in> set (po_handoffs order @ [h])" for k
    using that lt h(2) by fastforce
  ultimately show ?thesis
    using facts unfolding handoffs_ok_def by (simp add: handoff_of_def)
qed

lemma filled_fills_ok:
  assumes ok: "fills_ok order" and new: "bt_get (po_fills order) (mf_fill_id f) = None"
    and v: "validate_fill order f fully = Inr ()" and st: "st = XFullyMatched \<longleftrightarrow> fully"
  shows "fills_ok (filled_order order f h st)"
proof -
  note f = validate_fill_ok [OF v]
  have tot: "fill_total g (filled_order order f h st) = fill_total g order + g f" for g
    using sum_insert_new [OF new, of g f] by (simp add: fill_total_def)
  have "bt_insert (mf_fill_id f) f (po_fills order) \<noteq> []"
    using length_insert_new [OF new, of f] by auto
  moreover have "bt_ok (bt_insert (mf_fill_id f) f (po_fills order))"
    using ok by (auto simp: fills_ok_def Let_def)
  ultimately show ?thesis
    using ok f st set_insert_new [OF new, of f] unfolding fills_ok_def Let_def tot by (simp add: ball_Un)
qed

lemma apply_match_ok:
  assumes m: "apply_match cx order v f fully digest = Inr (h, order')" and ok: "order_ok order"
    and later: "\<And>m. po_last_source_sequence order = Some m \<Longrightarrow> m < eo_source_sequence v"
  shows "order_ok (seen v order')"
  using m
proof (cases rule: apply_match_Inr)
  case (1 x st)
  note x = 1(1,3,4,6,7,8,9)
  have fills: "fills_ok order" "handoffs_ok order" "exchange_id_ok order"
    using ok by (simp_all add: order_ok_def)
  have "handoff_of order h f" "hf_source_sequence h = eo_source_sequence v"
    using x(1,5) by (simp_all add: handoff_of_def fill_intent_def)
  from filled_handoffs_ok [OF fills(2,1) x(2,3) this later]
  have "handoffs_ok ((filled_order order f h st)\<lparr>po_last_source_sequence := Some (eo_source_sequence v)\<rparr>)"
    by blast
  then have "handoffs_ok (seen v order')"
    unfolding x(6) handoffs_ok_def handoff_of_def by simp
  moreover have "fills_ok (filled_order order f h st)"
    by (rule filled_fills_ok [OF fills(1) x(2,4,7)])
  then have "fills_ok (seen v order')"
    unfolding x(6) fills_ok_def fill_total_def by simp
  moreover have "exchange_id_ok (seen v order')"
    using fills(3) x(6) by (simp add: exchange_id_ok_def)
  ultimately show ?thesis by (simp add: order_ok_def)
qed

text \<open>An observation that is not a fill changes the state alone, and the state was not final.\<close>

lemma set_active_Inr:
  "set_active order a = Inr order' \<longleftrightarrow>
     (\<exists>b. po_state order = XActive b \<and> order' = order\<lparr>po_state := XActive a\<rparr>)
     \<or> (\<exists>b. po_state order = XCancelPending b \<and> order' = order\<lparr>po_state := XCancelPending a\<rparr>)"
  by (cases "po_state order") (auto simp: set_active_def)

lemma moved_Inr: "moved r = Inr (h, order') \<longleftrightarrow> h = None \<and> r = Inr order'"
  by (auto simp: moved_def rbind_Inr_iff)

lemma apply_observation_cases:
  assumes "apply_observation cx order v digest = Inr (h, order')"
  obtains (state) st where "h = None" "order' = order\<lparr>po_state := st\<rparr>" "\<not> is_terminal_state (po_state order)"
      "st \<noteq> XFullyMatched"
  | (fill) f fully k where "eo_event v = EvMatch f fully" "h = Some k"
      "apply_match cx order v f fully digest = Inr (k, order')"
proof -
  have "(\<exists>f fully k. eo_event v = EvMatch f fully \<and> h = Some k \<and> apply_match cx order v f fully digest = Inr (k, order'))
    \<or> (\<exists>st. h = None \<and> order' = order\<lparr>po_state := st\<rparr> \<and> \<not> is_terminal_state (po_state order) \<and> st \<noteq> XFullyMatched)"
  proof (cases "\<exists>f fully. eo_event v = EvMatch f fully")
    case True
    then show ?thesis
      using assms by (auto simp: apply_observation_def rbind_Inr_iff)
  next
    case False
    then show ?thesis
      using assms
      by (cases "po_state order")
        (auto simp: apply_observation_def rbind_Inr_iff if_Inr_iff moved_Inr set_active_Inr split: exchange_event.split_asm)
  qed
  then show ?thesis using that by blast
qed



lemma source_history_Inr:
  "validate_source_history order v = Inr () \<Longrightarrow> po_last_source_sequence order = Some m \<Longrightarrow> m < eo_source_sequence v"
  by (auto simp: validate_source_history_def split: if_split_asm)

lemma bind_Inr:
  assumes "bind_exchange_order_id order x = Inr order'"
  shows "\<exists>y. order' = order\<lparr>po_exchange_order_id := y\<rparr>
    \<and> (y = po_exchange_order_id order \<or> po_exchange_order_id order = None \<and> (\<exists>z. y = Some z \<and> z \<noteq> [] \<and> int (length z) \<le> 512))"
proof (cases x)
  case None
  then show ?thesis
    using assms by (intro exI [of _ "po_exchange_order_id order"])
      (auto simp: bind_exchange_order_id_def split: option.split_asm)
next
  case (Some z)
  then show ?thesis
    using assms by (cases "po_exchange_order_id order")
      (auto simp: bind_exchange_order_id_def exec_validate_text_def rbind_Inr_iff split: if_split_asm)
qed

lemma observe_order_Inr:
  assumes "observe_order cx order v = Inr (h, order')"
  obtains y digest order1 where "\<And>m. po_last_source_sequence order = Some m \<Longrightarrow> m < eo_source_sequence v"
    "y = po_exchange_order_id order \<or> po_exchange_order_id order = None \<and> (\<exists>z. y = Some z \<and> z \<noteq> [] \<and> int (length z) \<le> 512)"
    "apply_observation cx (order\<lparr>po_exchange_order_id := y\<rparr>) v digest = Inr (h, order1)" "order' = seen v order1"
proof -
  obtain bound bytes order1 where o: "validate_source_history order v = Inr ()"
      "bind_exchange_order_id order (eo_exchange_order_id v) = Inr bound"
      "apply_observation cx bound v (xc_blake3 cx bytes) = Inr (h, order1)" "order' = seen v order1"
    using assms by (cases "xc_observation_json cx v") (auto simp: observe_order_def rbind_Inr_iff)
  show ?thesis
    using bind_Inr [OF o(2)] that source_history_Inr [OF o(1)] o(3,4) by blast
qed

lemma observe_order_ok:
  assumes "observe_order cx order v = Inr (h, order')" and ok: "order_ok order"
  shows "order_ok order'"
  using assms(1)
proof (cases rule: observe_order_Inr)
  case (1 y digest order1)
  let ?o = "order\<lparr>po_exchange_order_id := y\<rparr>"
  have "exchange_id_ok ?o"
    using ok 1(2) by (cases "y = po_exchange_order_id order") (auto simp: order_ok_def exchange_id_ok_def)
  moreover have "handoffs_ok ?o"
    using handoffs_ok_cong [of order ?o] ok 1(2) by (auto simp: order_ok_def)
  ultimately have bound: "order_ok ?o"
    using ok by (simp add: order_ok_def fills_ok_def fill_total_def)
  from 1(3) show ?thesis
  proof (cases rule: apply_observation_cases)
    case (state st)
    have "po_state ?o \<noteq> XFullyMatched"
      using state(3) by (cases "po_state ?o") auto
    then have "fills_ok order'"
      using fills_ok_cong [of ?o order'] bound state 1(4) by (simp add: order_ok_def)
    moreover have "handoffs_ok order'"
    proof (rule handoffs_ok_cong [of ?o])
      show "\<exists>n. po_last_source_sequence order' = Some n \<and> m \<le> n" if "po_last_source_sequence ?o = Some m" for m
        using 1(1) [of m] that 1(4) by simp
    qed (use bound state 1(4) in \<open>auto simp: order_ok_def\<close>)
    moreover have "exchange_id_ok order'"
      using bound state 1(4) by (simp add: order_ok_def exchange_id_ok_def)
    ultimately show ?thesis by (simp add: order_ok_def)
  next
    case (fill f fully k)
    then show ?thesis
      using apply_match_ok [OF fill(3) bound] 1(1,4) by simp
  qed
qed

text \<open>What an observation keeps of an order.\<close>

definition exec_progress :: "paper_order \<Rightarrow> paper_order \<Rightarrow> bool" where
  "exec_progress order order' \<longleftrightarrow>
     po_placement order' = po_placement order
     \<and> po_local_submission_id order' = po_local_submission_id order
     \<and> po_placement_policy_digest order' = po_placement_policy_digest order
     \<and> (po_exchange_order_id order = None \<or> po_exchange_order_id order' = po_exchange_order_id order)
     \<and> (\<forall>k f. bt_get (po_fills order) k = Some f \<longrightarrow> bt_get (po_fills order') k = Some f)
     \<and> (\<exists>hs. po_handoffs order' = po_handoffs order @ hs)
     \<and> po_cumulative_quantity order \<le> po_cumulative_quantity order'
     \<and> po_cumulative_consideration order \<le> po_cumulative_consideration order'
     \<and> po_cumulative_fee order \<le> po_cumulative_fee order'
     \<and> (is_terminal_state (po_state order) \<longrightarrow> order' = order)"

lemma exec_progress_refl [simp]: "exec_progress order order"
  by (simp add: exec_progress_def)

lemma exec_progress_trans: "exec_progress a b \<Longrightarrow> exec_progress b c \<Longrightarrow> exec_progress a c"
  unfolding exec_progress_def by (elim conjE exE, intro conjI) auto

lemma observe_order_progress:
  assumes "observe_order cx order v = Inr (h, order')"
  shows "exec_progress order order'"
  using assms
proof (cases rule: observe_order_Inr)
  case (1 y digest order1)
  from 1(3) show ?thesis
  proof (cases rule: apply_observation_cases)
    case (state st)
    then show ?thesis using 1(2,4) by (auto simp: exec_progress_def)
  next
    case (fill f fully k)
    from fill(3) show ?thesis
    proof (cases rule: apply_match_Inr)
      case inner: (1 x st)
      then show ?thesis
        using 1(2,4) validate_fill_ok [OF inner(6)] by (auto simp: exec_progress_def bt_get_insert fill_ok_def)
    qed
  qed
qed

section \<open>The engine\<close>

text \<open>What one fresh command does to the orders and the permits.\<close>

inductive exec_step :: "exec_codec \<Rightarrow> exec_engine \<Rightarrow> exec_command \<Rightarrow> exec_engine \<Rightarrow> bool" for cx s where
  denied: "exec_step cx s c s"
| submitted: "submit_denial cx p r t s = None \<Longrightarrow> local_id \<noteq> [] \<Longrightarrow> int (length local_id) \<le> 512
    \<Longrightarrow> exec_step cx s (Submit i p r local_id t)
      (s\<lparr>xe_used_placement_permits := bs_insert (pd_decision_digest p) (xe_used_placement_permits s),
         xe_orders := bt_insert (oe_order_id (pl_order r)) (new_paper_order r local_id (pd_decision_digest p)) (xe_orders s)\<rparr>)"
| cancelling: "cancel_denial cx p r s = None \<Longrightarrow> bt_get (xe_orders s) (cr_order_id r) = Some order
    \<Longrightarrow> po_state order = XActive resume
    \<Longrightarrow> exec_step cx s (RequestCancel i p r t)
      (s\<lparr>xe_orders := bt_insert (cr_order_id r) (order\<lparr>po_state := XCancelPending resume\<rparr>) (xe_orders s),
         xe_used_cancel_permits := bs_insert (pd_decision_digest p) (xe_used_cancel_permits s)\<rparr>)"
| observed: "bt_get (xe_orders s) (eo_order_id v) = Some order \<Longrightarrow> observe_order cx order v = Inr (h, order')
    \<Longrightarrow> exec_step cx s (Observe i v t) (s\<lparr>xe_orders := bt_insert (eo_order_id v) order' (xe_orders s)\<rparr>)"

inductive_cases submit_stepE: "exec_step cx s (Submit i p r local_id t) s'"
inductive_cases cancel_stepE: "exec_step cx s (RequestCancel i p r t) s'"

lemma exec_fresh_step:
  assumes "exec_apply_fresh cx c s = Inr (d, s')"
  shows "exec_step cx s c s' \<and> (xd_status d = ExecDenied \<longrightarrow> s' = s)"
proof (cases c)
  case (Submit i p r local_id t)
  show ?thesis
  proof (cases "submit_denial cx p r t s")
    case None
    then show ?thesis
      using assms Submit exec_step.submitted [OF None, of local_id i]
      by (auto simp: submit_def Let_def rbind_Inr_iff exec_validate_text_def exec_make_decision_def split: if_split_asm)
  next
    case (Some reason)
    then show ?thesis
      using assms Submit by (auto simp: submit_def Let_def intro: exec_step.denied)
  qed
next
  case (RequestCancel i p r t)
  show ?thesis
  proof (cases "cancel_denial cx p r s")
    case None
    then obtain order where g: "bt_get (xe_orders s) (cr_order_id r) = Some order"
      using assms RequestCancel by (auto simp: request_cancel_def rbind_Inr_iff ok_or_Inr_iff)
    obtain resume where "po_state order = XActive resume"
        "d = exec_make_decision cx i Executed CancelRequested (Some (cr_order_id r)) (Some (XCancelPending resume)) None"
        "s' = s\<lparr>xe_orders := bt_insert (cr_order_id r) (order\<lparr>po_state := XCancelPending resume\<rparr>) (xe_orders s),
         xe_used_cancel_permits := bs_insert (pd_decision_digest p) (xe_used_cancel_permits s)\<rparr>"
      using assms RequestCancel None g by (cases "po_state order") (auto simp: request_cancel_def)
    then show ?thesis
      using RequestCancel exec_step.cancelling [OF None g] by (auto simp: exec_make_decision_def Let_def)
  next
    case (Some reason)
    then show ?thesis
      using assms RequestCancel by (auto simp: request_cancel_def intro: exec_step.denied)
  qed
next
  case (Observe i v t)
  then obtain order h order' where "bt_get (xe_orders s) (eo_order_id v) = Some order" "observe_order cx order v = Inr (h, order')"
      "s' = s\<lparr>xe_orders := bt_insert (eo_order_id v) order' (xe_orders s)\<rparr>"
      "d = exec_make_decision cx i Executed ObservationApplied (Some (eo_order_id v)) (Some (po_state order')) h"
    using assms by (auto simp: observe_def rbind_Inr_iff ok_or_Inr_iff)
  then show ?thesis
    using Observe exec_step.observed by (auto simp: exec_make_decision_def Let_def)
qed

lemma exec_record_simps [simp]:
  "xe_orders (exec_record c digest d n s) = xe_orders s"
  "xe_used_placement_permits (exec_record c digest d n s) = xe_used_placement_permits s"
  "xe_used_cancel_permits (exec_record c digest d n s) = xe_used_cancel_permits s"
  "exec_order (exec_record c digest d n s) k = exec_order s k"
  by (simp_all add: exec_record_def exec_order_def)

lemma exec_apply_cases:
  assumes "exec_apply cx c s = (r, s')"
  obtains (same) "xe_orders s' = xe_orders s" "xe_used_placement_permits s' = xe_used_placement_permits s"
      "xe_used_cancel_permits s' = xe_used_cancel_permits s"
      "bt_get (xe_processed s) (exec_command_id c) = None \<Longrightarrow> \<exists>e. r = Inl e"
  | (fresh) d s1 digest n where "bt_get (xe_processed s) (exec_command_id c) = None"
      "exec_apply_fresh cx c s = Inr (d, s1)" "r = Inr d" "s' = exec_record c digest d n s1"
proof (cases "\<exists>d. r = Inr d \<and> bt_get (xe_processed s) (exec_command_id c) = None")
  case True
  then obtain d s1 digest n where "bt_get (xe_processed s) (exec_command_id c) = None" "r = Inr d"
      "exec_apply_fresh cx c s = Inr (d, s1)" "s' = exec_record c digest d n s1"
    using assms
    by (auto simp: exec_apply_def exec_install_halt_def split: option.split_asm sum.split_asm if_splits)
  then show ?thesis
    by (intro fresh)
next
  case False
  then show ?thesis
    using assms by (intro same)
      (auto simp: exec_apply_def exec_install_halt_def split: option.split_asm sum.split_asm if_splits prod.split_asm)
qed

definition exec_ok :: "exec_engine \<Rightarrow> bool" where
  "exec_ok s \<longleftrightarrow>
     (\<forall>k order. exec_order s k = Some order \<longrightarrow> order_ok order \<and> oe_order_id (pl_order (po_placement order)) = k
        \<and> bs_mem (po_placement_policy_digest order) (xe_used_placement_permits s))
     \<and> (\<forall>j k a b. exec_order s j = Some a \<longrightarrow> exec_order s k = Some b
          \<longrightarrow> po_placement_policy_digest a = po_placement_policy_digest b \<longrightarrow> j = k)"

lemma exec_ok_order: "exec_ok s \<Longrightarrow> exec_order s k = Some order
    \<Longrightarrow> order_ok order \<and> oe_order_id (pl_order (po_placement order)) = k
      \<and> bs_mem (po_placement_policy_digest order) (xe_used_placement_permits s)"
  by (simp add: exec_ok_def)

lemma exec_ok_permit: "exec_ok s \<Longrightarrow> exec_order s j = Some a \<Longrightarrow> exec_order s k = Some b
    \<Longrightarrow> po_placement_policy_digest a = po_placement_policy_digest b \<Longrightarrow> j = k"
  unfolding exec_ok_def by blast

lemma exec_okI:
  assumes "\<And>k order. exec_order s k = Some order \<Longrightarrow> order_ok order \<and> oe_order_id (pl_order (po_placement order)) = k
        \<and> bs_mem (po_placement_policy_digest order) (xe_used_placement_permits s)"
    and "\<And>j k a b. exec_order s j = Some a \<Longrightarrow> exec_order s k = Some b
          \<Longrightarrow> po_placement_policy_digest a = po_placement_policy_digest b \<Longrightarrow> j = k"
  shows "exec_ok s"
  unfolding exec_ok_def using assms by blast

text \<open>Replacing a tracked order by a well-formed one with the same placement and permit.\<close>

lemma exec_ok_update:
  assumes ok: "exec_ok s" and old: "exec_order s k = Some order"
    and new: "order_ok order'" "po_placement order' = po_placement order"
      "po_placement_policy_digest order' = po_placement_policy_digest order"
    and s': "xe_orders s' = bt_insert k order' (xe_orders s)"
      "xe_used_placement_permits s' = xe_used_placement_permits s"
  shows "exec_ok s'"
proof (rule exec_okI)
  have get: "exec_order s' j = (if j = k then Some order' else exec_order s j)" for j
    by (simp add: exec_order_def s' bt_get_insert)
  have from_old: "\<exists>a0. exec_order s j = Some a0 \<and> po_placement a0 = po_placement a
      \<and> po_placement_policy_digest a0 = po_placement_policy_digest a" if "exec_order s' j = Some a" for j a
    using that old new by (auto simp: get split: if_splits)
  show "order_ok a \<and> oe_order_id (pl_order (po_placement a)) = j
      \<and> bs_mem (po_placement_policy_digest a) (xe_used_placement_permits s')" if "exec_order s' j = Some a" for j a
  proof -
    have "order_ok a"
      using that new(1) exec_ok_order [OF ok] by (auto simp: get split: if_splits)
    then show ?thesis
      using from_old [OF that] exec_ok_order [OF ok] s'(2) by metis
  qed
  show "i = j" if "exec_order s' i = Some a" "exec_order s' j = Some b"
      "po_placement_policy_digest a = po_placement_policy_digest b" for i j a b
    using from_old [OF that(1)] from_old [OF that(2)] that(3) exec_ok_permit [OF ok] by metis
qed

lemma new_order_ok: "order_ok (new_paper_order r local_id digest)"
  by (simp add: order_ok_def fills_ok_def fill_total_def handoffs_ok_def exchange_id_ok_def new_paper_order_def Let_def)

lemma submit_denial_None:
  "submit_denial cx p r t s = None \<longleftrightarrow>
     policy_verify_digest (xc_policy cx) p \<and> pd_status p = Permit \<and> pd_action p = ActPlace \<and> pd_reason p = PlacementPermitted
     \<and> pd_subject_digest p = Some (placement_request_digest (xc_policy cx) r)
     \<and> pd_order_id p = Some (oe_order_id (pl_order r)) \<and> pl_evaluated_at r \<le> t \<and> t < pl_authorization_expires_at r
     \<and> \<not> bs_mem (pd_decision_digest p) (xe_used_placement_permits s)
     \<and> exec_order s (oe_order_id (pl_order r)) = None"
  by (auto simp: submit_denial_def Let_def bt_contains_def exec_order_def)

lemma exec_step_ok:
  assumes "exec_step cx s c s'" and ok: "exec_ok s"
  shows "exec_ok s'"
  using assms(1)
proof (cases rule: exec_step.cases)
  case denied
  then show ?thesis using ok by simp
next
  case (submitted p r t local_id i)
  let ?k = "oe_order_id (pl_order r)" and ?d = "pd_decision_digest p"
  have new: "exec_order s ?k = None" "\<not> bs_mem ?d (xe_used_placement_permits s)"
    using submitted(3) by (simp_all add: submit_denial_None)
  have get: "exec_order s' j = (if j = ?k then Some (new_paper_order r local_id ?d) else exec_order s j)" for j
    by (simp add: exec_order_def submitted(2) bt_get_insert)
  have used: "xe_used_placement_permits s' = bs_insert ?d (xe_used_placement_permits s)"
    by (simp add: submitted(2))
  have other: "po_placement_policy_digest a \<noteq> ?d" if "exec_order s j = Some a" for j a
    using exec_ok_order [OF ok that] new(2) by auto
  show ?thesis
  proof (rule exec_okI)
    show "order_ok a \<and> oe_order_id (pl_order (po_placement a)) = j
      \<and> bs_mem (po_placement_policy_digest a) (xe_used_placement_permits s')" if "exec_order s' j = Some a" for j a
      using that exec_ok_order [OF ok] new_order_ok
      by (auto simp: get used bs_mem_insert new_paper_order_def split: if_splits)
    show "i = j" if "exec_order s' i = Some a" "exec_order s' j = Some b"
      "po_placement_policy_digest a = po_placement_policy_digest b" for i j a b
      using that other [of i a] other [of j b] exec_ok_permit [OF ok, of i a j b]
      by (auto simp: get new_paper_order_def split: if_splits)
  qed
next
  case (cancelling p r order resume i t)
  have o: "exec_order s (cr_order_id r) = Some order"
    using cancelling(4) by (simp add: exec_order_def)
  have "order_ok (order\<lparr>po_state := XCancelPending resume\<rparr>)"
    using exec_ok_order [OF ok o] cancelling(5) fills_ok_cong [of order "order\<lparr>po_state := XCancelPending resume\<rparr>"]
      handoffs_ok_cong [of order "order\<lparr>po_state := XCancelPending resume\<rparr>"]
    by (auto simp: order_ok_def exchange_id_ok_def)
  then show ?thesis
    by (rule exec_ok_update [OF ok o]) (simp_all add: cancelling(2))
next
  case (observed v order h order' i t)
  have o: "exec_order s (eo_order_id v) = Some order"
    using observed(3) by (simp add: exec_order_def)
  have "order_ok order'"
    using observe_order_ok [OF observed(4)] exec_ok_order [OF ok o] by blast
  then show ?thesis
    using observe_order_progress [OF observed(4)]
    by (intro exec_ok_update [OF ok o]) (auto simp: observed(2) exec_progress_def)
qed

lemma exec_apply_ok:
  assumes "exec_ok s"
  shows "exec_ok (snd (exec_apply cx c s))"
proof -
  obtain r s' where a: "exec_apply cx c s = (r, s')" by fastforce
  then have "exec_ok s'"
  proof (cases rule: exec_apply_cases)
    case same
    then show ?thesis using assms by (simp add: exec_ok_def exec_order_def)
  next
    case (fresh d s1 digest n)
    then show ?thesis
      using exec_step_ok [OF conjunct1 [OF exec_fresh_step [OF fresh(2)]] assms] by (simp add: exec_ok_def)
  qed
  then show ?thesis by (simp add: a)
qed

lemma exec_default_ok: "exec_ok exec_engine_default"
  by (simp add: exec_ok_def exec_engine_default_def exec_order_def)

lemma exec_run_ok: "exec_ok (run_commands (exec_apply cx) cs exec_engine_default)"
  by (rule run_commands_invariant [where P = exec_ok, OF exec_default_ok exec_apply_ok])

section \<open>Orders over time\<close>

lemma exec_step_progress:
  assumes "exec_step cx s c s'" and "exec_order s k = Some order"
  shows "\<exists>order'. exec_order s' k = Some order' \<and>
    (exec_progress order order' \<or> (\<exists>a. po_state order = XActive a \<and> order' = order\<lparr>po_state := XCancelPending a\<rparr>))"
  using assms(1)
proof (cases rule: exec_step.cases)
  case denied
  then show ?thesis using assms(2) by simp
next
  case (submitted p r t local_id i)
  then show ?thesis
    using assms(2) by (auto simp: submit_denial_None exec_order_def bt_get_insert)
next
  case (cancelling p r ord resume i t)
  then show ?thesis
    using assms(2) by (auto simp: exec_order_def bt_get_insert)
next
  case (observed v ord h ord' i t)
  then show ?thesis
    using assms(2) observe_order_progress [OF observed(4)] by (auto simp: exec_order_def bt_get_insert)
qed

lemma cancelling_progress: "po_state order = XActive a \<Longrightarrow> exec_progress order (order\<lparr>po_state := XCancelPending a\<rparr>)"
  by (simp add: exec_progress_def)

lemma exec_apply_progress:
  assumes "exec_order s k = Some order"
  shows "\<exists>order'. exec_order (snd (exec_apply cx c s)) k = Some order' \<and> exec_progress order order'"
proof -
  obtain r s' where a: "exec_apply cx c s = (r, s')" by fastforce
  then have "\<exists>order'. exec_order s' k = Some order' \<and> exec_progress order order'"
  proof (cases rule: exec_apply_cases)
    case same
    then show ?thesis using assms by (simp add: exec_order_def)
  next
    case (fresh d s1 digest n)
    then show ?thesis
      using exec_step_progress [OF conjunct1 [OF exec_fresh_step [OF fresh(2)]] assms] cancelling_progress by auto
  qed
  then show ?thesis by (simp add: a)
qed

lemma exec_run_progress:
  "exec_order s k = Some order
    \<Longrightarrow> \<exists>order'. exec_order (run_commands (exec_apply cx) cs s) k = Some order' \<and> exec_progress order order'"
proof (induction cs arbitrary: s order)
  case (Cons c cs)
  then show ?case
    using exec_apply_progress [OF Cons.prems, of cx c] exec_progress_trans by simp blast
qed simp

lemma exec_apply_used:
  assumes "bs_mem a (xe_used_placement_permits s)"
  shows "bs_mem a (xe_used_placement_permits (snd (exec_apply cx c s)))"
proof -
  obtain r s' where e: "exec_apply cx c s = (r, s')" by fastforce
  then have "bs_mem a (xe_used_placement_permits s')"
  proof (cases rule: exec_apply_cases)
    case (fresh d s1 digest n)
    from conjunct1 [OF exec_fresh_step [OF fresh(2)]] show ?thesis
      by (cases rule: exec_step.cases) (use assms fresh(4) in \<open>auto simp: bs_mem_insert\<close>)
  qed (use assms in simp)
  then show ?thesis by (simp add: e)
qed

lemma exec_run_used:
  "bs_mem a (xe_used_placement_permits s) \<Longrightarrow> bs_mem a (xe_used_placement_permits (run_commands (exec_apply cx) cs s))"
  by (rule run_commands_invariant [where P = "\<lambda>s. bs_mem a (xe_used_placement_permits s)", OF _ exec_apply_used])

section \<open>Totals and prices\<close>

lemma fills_priced:
  assumes "\<forall>e \<in> set m. fill_ok v (snd e)" and "m \<noteq> []"
  shows "case oe_side v of
      BuySide \<Rightarrow> (\<Sum>e\<leftarrow>m. mf_consideration (snd e)) * 1000000
        < oe_limit_price v * (\<Sum>e\<leftarrow>m. mf_quantity (snd e)) + 1000000 * int (length m)
    | SellSide \<Rightarrow> oe_limit_price v * (\<Sum>e\<leftarrow>m. mf_quantity (snd e)) - 1000000 * int (length m)
        < (\<Sum>e\<leftarrow>m. mf_consideration (snd e)) * 1000000"
  using assms
proof (induction m)
  case (Cons e m)
  have e: "case oe_side v of
      BuySide \<Rightarrow> mf_consideration (snd e) * 1000000 < oe_limit_price v * mf_quantity (snd e) + 1000000
    | SellSide \<Rightarrow> oe_limit_price v * mf_quantity (snd e) - 1000000 < mf_consideration (snd e) * 1000000"
    using Cons.prems(1) by (simp add: fill_ok_def)
  show ?case
  proof (cases "m = []")
    case True
    then show ?thesis using e by (cases "oe_side v") simp_all
  next
    case False
    then show ?thesis
      using e Cons.IH Cons.prems(1) by (cases "oe_side v") (simp_all add: algebra_simps)
  qed
qed simp

section \<open>The execution engine as a decision engine\<close>

lemma exec_fresh_frame:
  assumes "exec_apply_fresh cx c s = Inr (d, s')"
  shows "xe_processed s' = xe_processed s \<and> xe_accepted s' = xe_accepted s \<and> xe_halted s' = xe_halted s"
  using conjunct1 [OF exec_fresh_step [OF assms]] by (cases rule: exec_step.cases) auto

interpretation exec_engine: decision_engine "exec_apply cx" exec_command_id "exec_content cx"
  "\<lambda>s k. map_option fst (bt_get (xe_processed s) k)" xe_accepted "\<lambda>s. xe_halted s \<noteq> None"
  "\<lambda>s k. map_option snd (bt_get (xe_processed s) k)"
  for cx
  by unfold_locales
    (auto simp: exec_apply_def exec_install_halt_def exec_record_def exec_fresh_frame bt_get_insert checked_simps
      fun_eq_iff dest: exec_fresh_frame dest!: sym [of "Inl _"] split: option.split_asm sum.split_asm if_splits prod.split_asm)

section \<open>Properties\<close>

text \<open>C25: On every reachable execution engine the totals of an order are the sums of its fills, no more
  is filled than was ordered and no more fee is taken than was allowed, an order is fully matched exactly when
  its fills reach the ordered quantity, and what a purchase costs (a sale yields) misses the limit price by
  less than one micro per fill.\<close>
theorem fills_stay_within_authorisation:
  assumes "exec_order (run_commands (exec_apply cx) cs exec_engine_default) k = Some order"
  shows "let v = pl_order (po_placement order); fills = map snd (po_fills order) in
    po_cumulative_quantity order = (\<Sum>f\<leftarrow>fills. mf_quantity f)
    \<and> po_cumulative_consideration order = (\<Sum>f\<leftarrow>fills. mf_consideration f)
    \<and> po_cumulative_fee order = (\<Sum>f\<leftarrow>fills. mf_fee f)
    \<and> (fills \<noteq> [] \<longrightarrow> po_cumulative_quantity order \<le> oe_quantity v \<and> po_cumulative_fee order \<le> oe_max_fee v
        \<and> (case oe_side v of
             BuySide \<Rightarrow> po_cumulative_consideration order * 1000000
               < oe_limit_price v * po_cumulative_quantity order + 1000000 * int (length fills)
           | SellSide \<Rightarrow> oe_limit_price v * po_cumulative_quantity order - 1000000 * int (length fills)
               < po_cumulative_consideration order * 1000000))
    \<and> (po_state order = XFullyMatched \<longleftrightarrow> fills \<noteq> [] \<and> po_cumulative_quantity order = oe_quantity v)"
proof -
  have "fills_ok order"
    using exec_ok_order [OF exec_run_ok assms] by (simp add: order_ok_def)
  then show ?thesis
    using fills_priced [of "po_fills order" "pl_order (po_placement order)"]
    by (cases "oe_side (pl_order (po_placement order))") (auto simp: fills_ok_def fill_total_def Let_def comp_def)
qed

text \<open>C26: Every fill is handed to settlement exactly once and with its own facts: on every reachable
  execution engine the hand-offs of an order and its fills correspond one to one by trade id, each
  hand-off repeats the token, side, quantity, consideration, fee and ledger command of its fill under the
  order's exchange id and permit, ledger commands are not shared, and hand-offs follow the source history.\<close>
theorem handoffs_match_fills:
  assumes "exec_order (run_commands (exec_apply cx) cs exec_engine_default) k = Some order"
  shows "length (po_handoffs order) = length (po_fills order)
    \<and> (\<forall>h \<in> set (po_handoffs order). \<exists>f. bt_get (po_fills order) (ti_trade_id (hf_intent h)) = Some f
         \<and> po_exchange_order_id order = Some (ti_order_id (hf_intent h)) \<and> ti_trade_id (hf_intent h) = mf_fill_id f
         \<and> ti_token (hf_intent h) = oe_token (pl_order (po_placement order))
         \<and> ti_side (hf_intent h) = side_of_order (oe_side (pl_order (po_placement order)))
         \<and> ti_quantity (hf_intent h) = mf_quantity f \<and> ti_consideration (hf_intent h) = mf_consideration f
         \<and> ti_fee (hf_intent h) = mf_fee f \<and> ti_ledger_command_id (hf_intent h) = mf_ledger_command_id f
         \<and> hf_placement_policy_digest h = po_placement_policy_digest order)
    \<and> distinct (map (\<lambda>h. ti_ledger_command_id (hf_intent h)) (po_handoffs order))
    \<and> sorted_wrt (<) (map hf_source_sequence (po_handoffs order))"
proof -
  have ok: "handoffs_ok order" "fills_ok order"
    using exec_ok_order [OF exec_run_ok assms] by (simp_all add: order_ok_def)
  have "length (map (\<lambda>h. ti_trade_id (hf_intent h)) (po_handoffs order)) = length (map fst (po_fills order))"
    using ok bt_ok_distinct [of "po_fills order"]
    by (metis distinct_card fills_ok_def handoffs_ok_def)
  then show ?thesis
    using ok(1) unfolding handoffs_ok_def handoff_of_def by simp
qed

text \<open>A paper order never loses anything: at any later time it is still there with the same placement,
  submission id and permit, its exchange id once bound is unchanged, its fills and hand-offs are kept
  and only added to, its totals do not shrink, and a finished order (matched, cancelled or rejected) is unchanged.\<close>
theorem paper_order_history_is_kept:
  assumes "exec_order s k = Some order"
  shows "\<exists>order'. exec_order (run_commands (exec_apply cx) cs s) k = Some order'
    \<and> po_placement order' = po_placement order \<and> po_placement_policy_digest order' = po_placement_policy_digest order
    \<and> (po_exchange_order_id order = None \<or> po_exchange_order_id order' = po_exchange_order_id order)
    \<and> (\<forall>i f. bt_get (po_fills order) i = Some f \<longrightarrow> bt_get (po_fills order') i = Some f)
    \<and> take (length (po_handoffs order)) (po_handoffs order') = po_handoffs order
    \<and> po_cumulative_quantity order \<le> po_cumulative_quantity order'
    \<and> po_cumulative_consideration order \<le> po_cumulative_consideration order'
    \<and> (is_terminal_state (po_state order) \<longrightarrow> order' = order)"
proof -
  obtain order' where "exec_order (run_commands (exec_apply cx) cs s) k = Some order'" "exec_progress order order'"
    using exec_run_progress [OF assms] by blast
  then show ?thesis
    by (auto simp: exec_progress_def)
qed

lemma fresh_submission:
  assumes "exec_apply cx (Submit i p r local_id t) s = (Inr d, s')"
    and "bt_get (xe_processed s) i = None" and "xd_status d = Executed"
  shows "submit_denial cx p r t s = None"
    and "bs_mem (pd_decision_digest p) (xe_used_placement_permits s')"
    and "exec_order s' (oe_order_id (pl_order r)) = Some (new_paper_order r local_id (pd_decision_digest p))"
proof -
  from assms(1,2) obtain s1 digest n where f: "submit cx i p r local_id t s = Inr (d, s1)"
      "s' = exec_record (Submit i p r local_id t) digest d n s1"
    by (cases rule: exec_apply_cases) auto
  show "submit_denial cx p r t s = None"
    using f(1) assms(3) by (cases "submit_denial cx p r t s") (auto simp: submit_def exec_make_decision_def Let_def)
  then show "bs_mem (pd_decision_digest p) (xe_used_placement_permits s')"
    and "exec_order s' (oe_order_id (pl_order r)) = Some (new_paper_order r local_id (pd_decision_digest p))"
    using f by (auto simp: submit_def Let_def rbind_Inr_iff bs_mem_insert exec_order_def bt_get_insert)
qed

text \<open>A placement permit creates one paper order: a fresh submission is executed only with an intact
  permit of the order policy for exactly this placement, inside its time window, and afterwards no other fresh
  submission is executed on the same permit or for the same order.\<close>
theorem placement_permit_is_used_once:
  assumes "exec_apply cx (Submit i p r local_id t) s = (Inr d, s1)"
    and "bt_get (xe_processed s) i = None" and "xd_status d = Executed"
    and "exec_apply cx (Submit i' p' r' local_id' t') (run_commands (exec_apply cx) cs s1) = (Inr d', s2)"
    and "bt_get (xe_processed (run_commands (exec_apply cx) cs s1)) i' = None" and "xd_status d' = Executed"
  shows "policy_verify_digest (xc_policy cx) p \<and> pd_status p = Permit \<and> pd_action p = ActPlace
    \<and> pd_subject_digest p = Some (placement_request_digest (xc_policy cx) r)
    \<and> pd_order_id p = Some (oe_order_id (pl_order r))
    \<and> pl_evaluated_at r \<le> t \<and> t < pl_authorization_expires_at r
    \<and> pd_decision_digest p' \<noteq> pd_decision_digest p \<and> oe_order_id (pl_order r') \<noteq> oe_order_id (pl_order r)"
proof -
  note a = fresh_submission [OF assms(1-3)] and b = fresh_submission [OF assms(4-6)]
  have "bs_mem (pd_decision_digest p) (xe_used_placement_permits (run_commands (exec_apply cx) cs s1))"
    by (rule exec_run_used [OF a(2)])
  moreover have "exec_order (run_commands (exec_apply cx) cs s1) (oe_order_id (pl_order r)) \<noteq> None"
    using exec_run_progress [OF a(3)] by auto
  ultimately show ?thesis
    using a(1) b(1) by (auto simp: submit_denial_None)
qed

text \<open>A refused command has no effect on the orders: an error or a denial leaves every paper order and
  every used permit as it was.\<close>
theorem execution_refusals_have_no_effect:
  assumes "exec_apply cx c s = (r, s')" and "\<And>d. r = Inr d \<Longrightarrow> xd_status d = ExecDenied"
  shows "xe_orders s' = xe_orders s \<and> xe_used_placement_permits s' = xe_used_placement_permits s
    \<and> xe_used_cancel_permits s' = xe_used_cancel_permits s"
  using assms(1)
proof (cases rule: exec_apply_cases)
  case (fresh d s1 digest n)
  then show ?thesis
    using exec_fresh_step [OF fresh(2)] assms(2) by simp
qed simp

section \<open>From the policy to settlement\<close>

lemma placement_permit_decision:
  assumes "policy_apply cx (AuthorizePlacement i r t) s = (Inr p, s')"
    and "bt_get (pe_processed s) i = None" and "pd_status p = Permit"
  shows "policy_verify_digest cx p \<and> pd_action p = ActPlace \<and> pd_reason p = PlacementPermitted
    \<and> pd_subject_digest p = Some (placement_request_digest cx r) \<and> pd_order_id p = Some (oe_order_id (pl_order r))"
proof -
  from assms(1,2) obtain s1 digest n where "authorize_placement cx i r s = Inr (p, s1)"
    by (cases rule: policy_apply_cases) auto
  then show ?thesis
    using fresh_placement_permit(1) [OF assms]
    by (auto simp: authorize_placement_def make_decision_def policy_verify_digest_def policy_decision_digest_def Let_def)
qed

text \<open>What the policy permits can be executed: the decision of a fresh permitted placement, submitted
  unchanged inside its time window to an execution engine that has seen neither the permit nor the order,
  is executed and creates the paper order for exactly that placement.\<close>
theorem policy_permit_is_executable:
  assumes "policy_apply (xc_policy cx) (AuthorizePlacement i r t) s = (Inr p, s')"
    and "bt_get (pe_processed s) i = None" and "pd_status p = Permit"
    and "\<not> bs_mem (pd_decision_digest p) (xe_used_placement_permits e)"
    and "exec_order e (oe_order_id (pl_order r)) = None"
    and "t \<le> at" and "at < pl_authorization_expires_at r"
    and "local_id \<noteq> []" and "length local_id \<le> 512"
  shows "\<exists>d e'. exec_apply_fresh cx (Submit j p r local_id at) e = Inr (d, e') \<and> xd_status d = Executed
    \<and> exec_order e' (oe_order_id (pl_order r)) = Some (new_paper_order r local_id (pd_decision_digest p))"
proof -
  have "submit_denial cx p r at e = None"
    using placement_permit_decision [OF assms(1-3)] assms(3-7) fresh_placement_permit(2) [OF assms(1-3)]
    by (simp add: submit_denial_None)
  then show ?thesis
    using assms(8,9)
    by (simp add: submit_def Let_def exec_validate_text_def exec_make_decision_def exec_order_def bt_get_insert)
qed

lemma allowed_token_valid:
  assumes "signer_denial r = Inr None"
  shows "recon_validate_token (oe_token (pl_order r)) = Inr ()"
proof -
  have "strict_tokens (sp_allowed_tokens (pl_signer_policy r))" "oe_token (pl_order r) \<in> set (sp_allowed_tokens (pl_signer_policy r))"
    using assms by (auto simp: signer_denial_def Let_def split: if_splits)
  then show ?thesis
    by (auto simp: strict_tokens_def list_all_iff valid_text_def recon_validate_token_def recon_validate_text_def)
qed

text \<open>Settlement accepts every hand-off: on every reachable execution engine, the intent of a hand-off of an
  order whose placement passes its signer policy is registered by any reconciler that has room and knows
  neither its intent, nor its trade, nor its ledger command.\<close>
theorem handoff_is_registered_by_settlement:
  assumes "exec_order (run_commands (exec_apply cx) cs exec_engine_default) k = Some order"
    and "h \<in> set (po_handoffs order)" and "signer_denial (po_placement order) = Inr None"
    and "int (length (rc_intents s)) < cf_max_intents (rc_config s)"
    and "bt_get (rc_intents s) (ti_intent_id (hf_intent h)) = None"
    and "bt_get (rc_trade_to_intent s) (ti_trade_id (hf_intent h)) = None"
    and "bt_get (rc_ledger_command_to_intent s) (ti_ledger_command_id (hf_intent h)) = None"
  shows "\<exists>s'. recon_register (hf_intent h) s = Inr s'
    \<and> bt_get (rc_intents s') (ti_intent_id (hf_intent h)) = Some (hf_intent h)"
proof -
  have ok: "handoffs_ok order" "fills_ok order" "exchange_id_ok order"
    using exec_ok_order [OF exec_run_ok assms(1)] by (simp_all add: order_ok_def)
  obtain f where f: "bt_get (po_fills order) (ti_trade_id (hf_intent h)) = Some f" "handoff_of order h f"
    using ok(1) assms(2) unfolding handoffs_ok_def by blast
  have "fill_ok (pl_order (po_placement order)) f"
    using ok(2) bt_get_mem [OF f(1)] by (auto simp: fills_ok_def Let_def)
  moreover have "ti_order_id (hf_intent h) \<noteq> [] \<and> int (length (ti_order_id (hf_intent h))) \<le> 512"
    using ok(3) f(2) by (auto simp: exchange_id_ok_def handoff_of_def)
  ultimately have "validate_intent (hf_intent h) = Inr ()"
    using f(2) allowed_token_valid [OF assms(3)]
    by (simp add: validate_intent_def handoff_of_def fill_ok_def recon_validate_text_def recon_positive_def recon_validate_fee_def)
  then show ?thesis
    using assms(4-7) by (simp add: recon_register_def bt_contains_def bt_get_insert)
qed

section \<open>Concrete histories\<close>

definition demo_exec_codec :: exec_codec where
  "demo_exec_codec = \<lparr>xc_to_vec = \<lambda>w. Inr (le_bytes 1 (exec_recorded_at (wire_command w))),
     xc_observation_json = \<lambda>_. Inr ''v'', xc_decision_json = \<lambda>_. ''d'',
     xc_policy = demo_policy_codec\<lparr>pc_decision_json := \<lambda>d. le_bytes 1 (uint (pd_command_id d))\<rparr>\<rparr>"

definition demo_permit :: "policy_command_id \<Rightarrow> placement_request \<Rightarrow> policy_decision" where
  "demo_permit i r = make_decision (xc_policy demo_exec_codec) i ActPlace Permit PlacementPermitted ModePostOnly
     \<lparr>ev_order_id = Some (oe_order_id (pl_order r)), ev_risk_digest = None, ev_signer_digest = None,
      ev_subject_digest = Some (placement_request_digest (xc_policy demo_exec_codec) r)\<rparr>"

definition demo_submit :: "bytes32 \<Rightarrow> bytes32 \<Rightarrow> int \<Rightarrow> exec_command" where
  "demo_submit i k t = Submit i (demo_permit i (demo_placement (demo_approval 4 4) k 6)) (demo_placement (demo_approval 4 4) k 6) ''l'' t"

definition demo_fill :: "string \<Rightarrow> int \<Rightarrow> int \<Rightarrow> int \<Rightarrow> int \<Rightarrow> command_id \<Rightarrow> match_fill" where
  "demo_fill i q c cq cc l = \<lparr>mf_fill_id = i, mf_quantity = q, mf_consideration = c, mf_fee = 0, mf_cumulative_quantity = cq,
     mf_cumulative_consideration = cc, mf_cumulative_fee = 0, mf_ledger_command_id = l\<rparr>"

definition demo_match :: "bytes32 \<Rightarrow> int \<Rightarrow> match_fill \<Rightarrow> bool \<Rightarrow> exec_command" where
  "demo_match i n f fully = Observe i \<lparr>eo_order_id = 7, eo_source_sequence = n, eo_exchange_order_id = Some ''x'',
     eo_event = EvMatch f fully, eo_event_time = 8, eo_received_time = 9\<rparr> 10"

definition demo_matched :: "exec_command list" where
  "demo_matched = [demo_submit 2 7 7, demo_match 3 1 (demo_fill ''f'' 3 2 3 2 21) False,
     demo_match 4 2 (demo_fill ''g'' 5 3 8 5 22) True]"

abbreviation demo_exec_run :: "exec_command list \<Rightarrow> exec_engine" where
  "demo_exec_run cs \<equiv> run_commands (exec_apply demo_exec_codec) cs exec_engine_default"

definition demo_order_state :: paper_order where
  "demo_order_state = the (exec_order (demo_exec_run demo_matched) 7)"

definition demo_reconciler :: reconciler where
  "demo_reconciler = (case reconciler_new \<lparr>cf_chain_id = 137, cf_wallet = ''w'', cf_confirmation_grace = 5, cf_max_intents = 4, cf_max_tokens = 4\<rparr>
     of Inr s \<Rightarrow> s | Inl _ \<Rightarrow> undefined)"

text \<open>What the witnesses need of these runs, evaluated at once.\<close>

lemma demo_exec_facts:
  "(case exec_order (demo_exec_run demo_matched) 7 of None \<Rightarrow> False
      | Some order \<Rightarrow> po_state order = XFullyMatched \<and> length (po_handoffs order) = 2)
   \<and> (case exec_apply demo_exec_codec (demo_submit 2 7 7) exec_engine_default of (Inr d, _) \<Rightarrow> xd_status d = Executed | _ \<Rightarrow> False)
   \<and> (case exec_apply demo_exec_codec (demo_submit 3 8 7)
        (run_commands (exec_apply demo_exec_codec) [] (snd (exec_apply demo_exec_codec (demo_submit 2 7 7) exec_engine_default))) of
        (Inr d, _) \<Rightarrow> xd_status d = Executed | _ \<Rightarrow> False)
   \<and> bt_get (xe_processed exec_engine_default) 2 = None
   \<and> bt_get (xe_processed (run_commands (exec_apply demo_exec_codec) [] (snd (exec_apply demo_exec_codec (demo_submit 2 7 7) exec_engine_default)))) 3 = None
   \<and> (case exec_apply demo_exec_codec (demo_submit 2 7 5) exec_engine_default of (Inr d, _) \<Rightarrow> xd_status d = ExecDenied | _ \<Rightarrow> False)
   \<and> (case policy_apply (xc_policy demo_exec_codec) (AuthorizePlacement 2 (demo_placement (demo_approval 4 4) 7 6) 6)
        (run_commands (policy_apply (xc_policy demo_exec_codec)) [demo_mode] policy_engine_default) of
        (Inr d, _) \<Rightarrow> pd_status d = Permit | _ \<Rightarrow> False)
   \<and> bt_get (pe_processed (run_commands (policy_apply (xc_policy demo_exec_codec)) [demo_mode] policy_engine_default)) 2 = None
   \<and> signer_denial (po_placement demo_order_state) = Inr None
   \<and> int (length (rc_intents demo_reconciler)) < cf_max_intents (rc_config demo_reconciler)
   \<and> (rc_intents demo_reconciler = [] \<and> rc_trade_to_intent demo_reconciler = [] \<and> rc_ledger_command_to_intent demo_reconciler = [])
   \<and> (full_buy_cost (pl_order (po_placement demo_order_state)) = Inr 4
      \<and> 4 < po_cumulative_consideration demo_order_state + po_cumulative_fee demo_order_state)"
  by code_simp

lemma demo_matched_order:
  "exec_order (demo_exec_run demo_matched) 7 = Some demo_order_state \<and> po_state demo_order_state = XFullyMatched
    \<and> length (po_handoffs demo_order_state) = 2"
  using conjunct1 [OF demo_exec_facts] unfolding demo_order_state_def by (auto split: option.split_asm)

theorem fills_stay_within_authorisation_witness:
  "po_cumulative_quantity demo_order_state = oe_quantity (pl_order (po_placement demo_order_state))"
  using fills_stay_within_authorisation [OF conjunct1 [OF demo_matched_order]] demo_matched_order by (simp add: Let_def)

theorem handoffs_match_fills_witness:
  "length (po_fills demo_order_state) = 2"
  using handoffs_match_fills [OF conjunct1 [OF demo_matched_order]] demo_matched_order by simp

theorem paper_order_history_is_kept_witness:
  "exec_order (run_commands (exec_apply demo_exec_codec) [demo_match 5 3 (demo_fill ''h'' 1 1 9 6 23) False]
     (demo_exec_run demo_matched)) 7 = Some demo_order_state"
  using paper_order_history_is_kept [OF conjunct1 [OF demo_matched_order], of demo_exec_codec
      "[demo_match 5 3 (demo_fill ''h'' 1 1 9 6 23) False]"] demo_matched_order by auto

lemma demo_exec_step:
  "case exec_apply demo_exec_codec c s of (Inr d, _) \<Rightarrow> xd_status d = st | _ \<Rightarrow> False
    \<Longrightarrow> \<exists>d. exec_apply demo_exec_codec c s = (Inr d, snd (exec_apply demo_exec_codec c s)) \<and> xd_status d = st"
  by (cases "exec_apply demo_exec_codec c s") (auto split: sum.split_asm)

theorem placement_permit_is_used_once_witness:
  "pd_decision_digest (demo_permit 3 (demo_placement (demo_approval 4 4) 8 6))
     \<noteq> pd_decision_digest (demo_permit 2 (demo_placement (demo_approval 4 4) 7 6))"
proof -
  let ?a = "exec_apply demo_exec_codec"
  let ?s1 = "snd (?a (demo_submit 2 7 7) exec_engine_default)"
  have "case ?a (demo_submit 2 7 7) exec_engine_default of (Inr d, _) \<Rightarrow> xd_status d = Executed | _ \<Rightarrow> False"
    using demo_exec_facts by - (elim conjE, assumption)+
  from demo_exec_step [OF this] obtain d where
    d: "?a (Submit 2 (demo_permit 2 (demo_placement (demo_approval 4 4) 7 6)) (demo_placement (demo_approval 4 4) 7 6) ''l'' 7)
      exec_engine_default = (Inr d, ?s1)" "xd_status d = Executed"
    by (auto simp: demo_submit_def)
  have "case ?a (demo_submit 3 8 7) (run_commands ?a [] ?s1) of (Inr d, _) \<Rightarrow> xd_status d = Executed | _ \<Rightarrow> False"
    using demo_exec_facts by - (elim conjE, assumption)+
  from demo_exec_step [OF this] obtain d' s2 where
    d': "?a (Submit 3 (demo_permit 3 (demo_placement (demo_approval 4 4) 8 6)) (demo_placement (demo_approval 4 4) 8 6) ''l'' 7)
      (run_commands ?a [] ?s1) = (Inr d', s2)" "xd_status d' = Executed"
    by (auto simp: demo_submit_def)
  have new: "bt_get (xe_processed exec_engine_default) 2 = None" "bt_get (xe_processed (run_commands ?a [] ?s1)) 3 = None"
    using demo_exec_facts by - (elim conjE, assumption)+
  show ?thesis
    using placement_permit_is_used_once [OF d(1) new(1) d(2) d'(1) new(2) d'(2)] by simp
qed

theorem execution_refusals_have_no_effect_witness:
  "xe_orders (snd (exec_apply demo_exec_codec (demo_submit 2 7 5) exec_engine_default)) = []"
proof -
  have "case exec_apply demo_exec_codec (demo_submit 2 7 5) exec_engine_default of (Inr d, _) \<Rightarrow> xd_status d = ExecDenied | _ \<Rightarrow> False"
    using demo_exec_facts by - (elim conjE, assumption)+
  from demo_exec_step [OF this] obtain d where
    "exec_apply demo_exec_codec (demo_submit 2 7 5) exec_engine_default
      = (Inr d, snd (exec_apply demo_exec_codec (demo_submit 2 7 5) exec_engine_default))" "xd_status d = ExecDenied"
    by blast
  from execution_refusals_have_no_effect [OF this(1)] this show ?thesis
    by (simp add: exec_engine_default_def)
qed

theorem policy_permit_is_executable_witness:
  "\<exists>p d e'. exec_apply_fresh demo_exec_codec (Submit 1 p (demo_placement (demo_approval 4 4) 7 6) ''l'' 8) exec_engine_default
     = Inr (d, e') \<and> xd_status d = Executed"
proof -
  let ?cx = "xc_policy demo_exec_codec" and ?r = "demo_placement (demo_approval 4 4) 7 6"
  let ?s = "run_commands (policy_apply ?cx) [demo_mode] policy_engine_default"
  have "case policy_apply ?cx (AuthorizePlacement 2 ?r 6) ?s of (Inr d, _) \<Rightarrow> pd_status d = Permit | _ \<Rightarrow> False"
    using demo_exec_facts by - (elim conjE, assumption)+
  then obtain p s' where p: "policy_apply ?cx (AuthorizePlacement 2 ?r 6) ?s = (Inr p, s')" "pd_status p = Permit"
    by (auto split: prod.split_asm sum.split_asm)
  have new: "bt_get (pe_processed ?s) 2 = None"
    using demo_exec_facts by - (elim conjE, assumption)+
  show ?thesis
    using policy_permit_is_executable [OF p(1) new p(2), of exec_engine_default 8 "''l''" 1]
    by (auto simp: exec_engine_default_def exec_order_def demo_placement_def)
qed

theorem handoff_is_registered_by_settlement_witness:
  "\<exists>s'. recon_register (hf_intent (hd (po_handoffs demo_order_state))) demo_reconciler = Inr s'"
proof -
  let ?h = "hd (po_handoffs demo_order_state)"
  have h: "?h \<in> set (po_handoffs demo_order_state)"
    using demo_matched_order by (cases "po_handoffs demo_order_state") auto
  have s: "signer_denial (po_placement demo_order_state) = Inr None"
    using demo_exec_facts by - (elim conjE, assumption)+
  have room: "int (length (rc_intents demo_reconciler)) < cf_max_intents (rc_config demo_reconciler)"
    using demo_exec_facts by - (elim conjE, assumption)+
  have empty: "rc_intents demo_reconciler = [] \<and> rc_trade_to_intent demo_reconciler = []
      \<and> rc_ledger_command_to_intent demo_reconciler = []"
    using demo_exec_facts by (elim conjE) (intro conjI; assumption)
  show ?thesis
    using handoff_is_registered_by_settlement [OF conjunct1 [OF demo_matched_order] h s room] empty by auto
qed


end
