(* ===== verification/Paper_Runtime.thy ===== *)
theory Paper_Runtime
  imports Paper_Execution
begin

text \<open>
  The paper trading runtime of \<open>crates/paper-trading-runtime/src/lib.rs\<close>: one writer that owns
  the ledger, the reconciler, the risk gate, the order policy and the paper execution, and that lets a
  command reach its component only when it agrees with what the others hold. This theory holds the
  data and the operations; \<open>Paper_Runtime_Theorems\<close> what they guarantee. The serialisers and
  the hash are the fields of \<open>rt_codec\<close>; a view that panics is the error \<open>TPanic\<close>, which \<open>rt_apply\<close>
  passes on without touching the state.
\<close>

section \<open>Data\<close>

type_synonym pipeline_command_id = bytes32

datatype fault_point = BeforeRisk | BeforeExecution | BeforeHandoff | IntegrityHalt

datatype pipeline_command =
    OnLedger pipeline_command_id ledger_command int
  | OnReconciler pipeline_command_id recon_command int
  | OnRisk pipeline_command_id risk_command int
  | OnPolicy pipeline_command_id policy_command int
  | OnExecution pipeline_command_id exec_command int
  | RegisterHandoff pipeline_command_id risk_order_id nat int
  | InjectFault pipeline_command_id fault_point int

fun pipeline_command_id :: "pipeline_command \<Rightarrow> pipeline_command_id" where
  "pipeline_command_id (OnLedger i _ _) = i"
| "pipeline_command_id (OnReconciler i _ _) = i"
| "pipeline_command_id (OnRisk i _ _) = i"
| "pipeline_command_id (OnPolicy i _ _) = i"
| "pipeline_command_id (OnExecution i _ _) = i"
| "pipeline_command_id (RegisterHandoff i _ _ _) = i"
| "pipeline_command_id (InjectFault i _ _) = i"

fun pipeline_recorded_at :: "pipeline_command \<Rightarrow> int" where
  "pipeline_recorded_at (OnLedger _ _ t) = t"
| "pipeline_recorded_at (OnReconciler _ _ t) = t"
| "pipeline_recorded_at (OnRisk _ _ t) = t"
| "pipeline_recorded_at (OnPolicy _ _ t) = t"
| "pipeline_recorded_at (OnExecution _ _ t) = t"
| "pipeline_recorded_at (RegisterHandoff _ _ _ t) = t"
| "pipeline_recorded_at (InjectFault _ _ t) = t"

datatype pipeline_stage =
  AccountingStage | ReconciliationStage | RiskStage | PolicyStage | ExecutionStage | HandoffStage | FaultStage

datatype pipeline_detail =
    DetailApplied
  | DetailDuplicate
  | DetailRisk risk_decision
  | DetailPolicy policy_decision
  | DetailExecution exec_decision
  | DetailHandoffRegistered
  | DetailFaultArmed fault_point
  | DetailFaultTriggered fault_point

record pipeline_outcome =
  out_command_id :: pipeline_command_id
  out_stage :: pipeline_stage
  out_detail :: pipeline_detail
  out_digest :: bytes32

datatype rt_error =
    TConfig
  | TTimestamp
  | TCommandBound
  | TJson string
  | TVersion int
  | TIdempotencyConflict
  | TClockRegression
  | TBoundary
  | TReservation
  | THandoff
  | TInjectedIntegrity
  | TAccounting string
  | TReconciliation string
  | TRisk string
  | TPolicy string
  | TExecution string
  | TOverflow
  | THalted string
  | TPanic

fun rt_error_text :: "rt_error \<Rightarrow> string" where
  "rt_error_text TConfig = ''paper runtime configuration is invalid''"
| "rt_error_text TTimestamp = ''pipeline command timestamp or nested timestamp is invalid''"
| "rt_error_text TCommandBound = ''pipeline command exceeds its canonical bound''"
| "rt_error_text (TJson e) = ''pipeline command JSON is invalid: '' @ e"
| "rt_error_text (TVersion v) = ''unsupported pipeline command version: '' @ show_nat (nat v)"
| "rt_error_text TIdempotencyConflict = ''pipeline command id was reused for different content''"
| "rt_error_text TClockRegression = ''pipeline clock regressed''"
| "rt_error_text TBoundary = ''cross-component provenance or ordering is invalid''"
| "rt_error_text TReservation = ''capital reservation does not exactly back the approved candidate''"
| "rt_error_text THandoff = ''reconciliation handoff is missing, changed, or already registered''"
| "rt_error_text TInjectedIntegrity = ''deterministic integrity fault was injected''"
| "rt_error_text (TAccounting e) = ''accounting failure: '' @ e"
| "rt_error_text (TReconciliation e) = ''reconciliation failure: '' @ e"
| "rt_error_text (TRisk e) = ''risk failure: '' @ e"
| "rt_error_text (TPolicy e) = ''policy failure: '' @ e"
| "rt_error_text (TExecution e) = ''execution failure: '' @ e"
| "rt_error_text TOverflow = ''pipeline arithmetic overflow''"
| "rt_error_text (THalted reason) = ''paper runtime is halted: '' @ reason"
| "rt_error_text TPanic = ''''"

text \<open>The texts of the ledger's errors; \<open>asset_debug\<close> is the derived \<open>Debug\<close> print of an asset.\<close>

fun ledger_error_text :: "(asset \<Rightarrow> string) \<Rightarrow> ledger_error \<Rightarrow> string" where
  "ledger_error_text _ Identifier = ''identifier is empty or exceeds its bound''"
| "ledger_error_text _ NonPositive = ''amount must be strictly positive''"
| "ledger_error_text _ Fee = ''fee is negative or exceeds gross proceeds''"
| "ledger_error_text _ Overflow = ''arithmetic overflow''"
| "ledger_error_text _ PostingCount = ''transaction has fewer than two non-zero postings''"
| "ledger_error_text asset_debug (Unbalanced a) = ''transaction is not balanced for asset '' @ asset_debug a"
| "ledger_error_text _ AccountAsset = ''account and asset are incompatible''"
| "ledger_error_text _ NegativeBalance = ''controlled account would become negative''"
| "ledger_error_text _ ReservationExists = ''reservation already exists''"
| "ledger_error_text _ ReservationMissing = ''reservation does not exist''"
| "ledger_error_text _ ReservationInactive = ''reservation is not active''"
| "ledger_error_text _ ReservationMismatch = ''reservation asset or owner does not match the command''"
| "ledger_error_text _ ReservationInsufficient = ''reservation has insufficient remaining balance''"
| "ledger_error_text _ InventoryInsufficient = ''inventory is insufficient''"
| "ledger_error_text _ PairIdentity = ''complete pair tokens must be distinct and share one condition''"
| "ledger_error_text _ LockExists = ''pair lock already exists''"
| "ledger_error_text _ LockMissing = ''pair lock does not exist''"
| "ledger_error_text _ LockInactive = ''pair lock is not active''"
| "ledger_error_text _ Confirmation = ''confirmation reference is empty or exceeds its bound''"
| "ledger_error_text _ Timestamp = ''command timestamp is negative''"
| "ledger_error_text _ CommandBound = ''command exceeds the canonical payload bound''"
| "ledger_error_text _ (Json e) = ''command JSON is invalid: '' @ e"
| "ledger_error_text _ (Version v) = ''unsupported command version: '' @ show_nat (nat v)"
| "ledger_error_text _ IdempotencyConflict = ''idempotency key was reused for different command content''"
| "ledger_error_text _ (Halted reason) = ''ledger is halted: '' @ reason"
| "ledger_error_text _ Conservation = ''ledger conservation invariant failed''"
| "ledger_error_text _ ReservationInvariant = ''ledger reservation invariant failed''"
| "ledger_error_text _ InventoryInvariant = ''ledger inventory invariant failed''"

record runtime =
  rt_config :: recon_config
  rt_ledger :: ledger
  rt_reconciler :: reconciler
  rt_risk :: risk_engine
  rt_policy :: policy_engine
  rt_execution :: exec_engine
  rt_approved :: "(risk_order_id, order_exposure \<times> bytes32) btree"
  rt_reserved :: "risk_order_id btset"
  rt_registered :: "bytes32 btset"
  rt_pending :: "(command_id, risk_order_id \<times> trade_intent) btree"
  rt_processed :: "(pipeline_command_id, bytes32 \<times> pipeline_outcome) btree"
  rt_armed_fault :: "fault_point option"
  rt_accepted :: int
  rt_last_recorded_at :: "int option"
  rt_halted :: "string option"

definition runtime_new :: "recon_config \<Rightarrow> rt_error + runtime" where
  "runtime_new config =
     (case reconciler_new config of
        Inl _ \<Rightarrow> Inl TConfig
      | Inr reconciler \<Rightarrow> Inr
          \<lparr>rt_config = config, rt_ledger = ledger_default, rt_reconciler = reconciler,
           rt_risk = risk_engine_default, rt_policy = policy_engine_default, rt_execution = exec_engine_default,
           rt_approved = [], rt_reserved = [], rt_registered = [], rt_pending = [], rt_processed = [],
           rt_armed_fault = None, rt_accepted = 0, rt_last_recorded_at = None, rt_halted = None\<rparr>)"

text \<open>\<open>serde_json\<close>, \<open>blake3\<close> (in the codec of the execution engine) and the \<open>Debug\<close> print.\<close>

record rt_codec =
  rt_to_vec :: "pipeline_command wire \<Rightarrow> string + string"
  rt_ledger_to_vec :: "ledger_command wire \<Rightarrow> string + string"
  rt_recon_to_vec :: "recon_command wire \<Rightarrow> string + string"
  rt_ledger_json :: ledger_json
  rt_recon_json :: recon_json
  rt_handoff_json :: "handoff \<Rightarrow> string + string"
  rt_outcome_json :: "pipeline_outcome \<Rightarrow> string"
  rt_asset_debug :: "asset \<Rightarrow> string"
  rt_exec :: exec_codec

abbreviation rt_blake3 :: "rt_codec \<Rightarrow> string \<Rightarrow> bytes32" where
  "rt_blake3 cx \<equiv> xc_blake3 (rt_exec cx)"

abbreviation rt_policy_codec :: "rt_codec \<Rightarrow> policy_codec" where
  "rt_policy_codec cx \<equiv> xc_policy (rt_exec cx)"

abbreviation rt_risk_codec :: "rt_codec \<Rightarrow> risk_codec" where
  "rt_risk_codec cx \<equiv> pc_risk (rt_policy_codec cx)"

abbreviation rt_ledger_digest :: "rt_codec \<Rightarrow> ledger \<Rightarrow> bytes32" where
  "rt_ledger_digest cx \<equiv> ledger_state_digest (rt_ledger_json cx) (rt_blake3 cx)"

abbreviation rt_recon_digest :: "rt_codec \<Rightarrow> reconciler \<Rightarrow> bytes32" where
  "rt_recon_digest cx \<equiv> recon_state_digest (rt_recon_json cx) (rt_blake3 cx)"

section \<open>Helpers\<close>

type_synonym rt_result = "rt_error + pipeline_outcome \<times> runtime"

definition outcome_digest :: "rt_codec \<Rightarrow> pipeline_outcome \<Rightarrow> bytes32" where
  "outcome_digest cx v = rt_blake3 cx (rt_outcome_json cx (v\<lparr>out_digest := 0\<rparr>))"

definition outcome :: "rt_codec \<Rightarrow> pipeline_command_id \<Rightarrow> pipeline_stage \<Rightarrow> pipeline_detail \<Rightarrow> pipeline_outcome" where
  "outcome cx i stage detail =
     (let value = \<lparr>out_command_id = i, out_stage = stage, out_detail = detail, out_digest = 0\<rparr>
      in value\<lparr>out_digest := outcome_digest cx value\<rparr>)"

definition consume_fault :: "fault_point \<Rightarrow> runtime \<Rightarrow> bool \<times> runtime" where
  "consume_fault expected s =
     (if rt_armed_fault s = Some expected then (True, s\<lparr>rt_armed_fault := None\<rparr>) else (False, s))"

definition rt_full_buy_cost :: "order_exposure \<Rightarrow> rt_error + int" where
  "rt_full_buy_cost order =
     rbind (ok_or (mul128 (oe_limit_price order) (oe_quantity order)) TOverflow) (\<lambda>product.
     rbind (ok_or (add128 product 999999) TOverflow) (\<lambda>v.
     ok_or (add128 (tdiv v 1000000) (oe_max_fee order)) TOverflow))"

definition derived_policy_id :: "rt_codec \<Rightarrow> exec_command_id \<Rightarrow> bytes32 \<Rightarrow> policy_command_id" where
  "derived_policy_id cx execution_id decision =
     rt_blake3 cx (''paper-runtime-policy-sync-v1'' @ bytes_of_id execution_id @ bytes_of_id decision)"

fun touched_reservation :: "ledger_command \<Rightarrow> reservation_id option" where
  "touched_reservation (ReserveCollateral _ r _ _) = Some r"
| "touched_reservation (ReserveToken _ r _ _ _) = Some r"
| "touched_reservation (ReleaseReservation _ r _) = Some r"
| "touched_reservation (ConfirmBuy _ r _ _ _ _ _ _) = Some r"
| "touched_reservation (ConfirmSell _ r _ _ _ _ _) = Some r"
| "touched_reservation _ = None"

definition is_active_reservation :: "ledger \<Rightarrow> reservation_id \<Rightarrow> bool" where
  "is_active_reservation l i =
     (case ledger_reservation l i of None \<Rightarrow> False | Some r \<Rightarrow> res_status r = ReservationActive)"

definition refresh_reservation_tracking ::
  "risk_order_id btset \<Rightarrow> ledger \<Rightarrow> ledger_command \<Rightarrow> risk_order_id btset" where
  "refresh_reservation_tracking values l c =
     (case touched_reservation c of
        None \<Rightarrow> values
      | Some i \<Rightarrow> if is_active_reservation l i then bs_insert i values else bt_remove i values)"

section \<open>The accounting boundary\<close>

fun validate_accounting_boundary :: "runtime \<Rightarrow> ledger_command \<Rightarrow> rt_error + unit" where
  "validate_accounting_boundary s (ReserveCollateral _ reservation amount _) =
     (case bt_get (rt_approved s) reservation of
        None \<Rightarrow> Inl TReservation
      | Some (candidate, _) \<Rightarrow>
          if oe_side candidate \<noteq> BuySide then Inl TReservation
          else rbind (rt_full_buy_cost candidate) (\<lambda>cost.
            if cost \<noteq> amount then Inl TReservation else Inr ()))"
| "validate_accounting_boundary s (ReserveToken _ reservation token quantity _) =
     (case bt_get (rt_approved s) reservation of
        None \<Rightarrow> Inl TReservation
      | Some (candidate, _) \<Rightarrow>
          if oe_side candidate \<noteq> SellSide \<or> oe_token candidate \<noteq> token \<or> oe_quantity candidate \<noteq> quantity
          then Inl TReservation else Inr ())"
| "validate_accounting_boundary s (ConfirmBuy i reservation token quantity consideration fee _ _) =
     (case bt_get (rt_pending s) i of
        None \<Rightarrow> Inl THandoff
      | Some (order_id, intent) \<Rightarrow>
          if order_id \<noteq> reservation \<or> ti_side intent \<noteq> Buy \<or> ti_token intent \<noteq> token
             \<or> ti_quantity intent \<noteq> quantity \<or> ti_consideration intent \<noteq> consideration \<or> ti_fee intent \<noteq> fee
          then Inl THandoff else Inr ())"
| "validate_accounting_boundary s (ConfirmSell i reservation quantity gross fee _ _) =
     (case bt_get (rt_pending s) i of
        None \<Rightarrow> Inl THandoff
      | Some (order_id, intent) \<Rightarrow>
          if order_id \<noteq> reservation \<or> ti_side intent \<noteq> Sell
             \<or> ti_quantity intent \<noteq> quantity \<or> ti_consideration intent \<noteq> gross \<or> ti_fee intent \<noteq> fee
          then Inl THandoff else Inr ())"
| "validate_accounting_boundary s (ReleaseReservation _ reservation _) =
     (if list_ex (\<lambda>e. fst (snd e) = reservation) (rt_pending s) then Inl THandoff
      else case exec_order (rt_execution s) reservation of
        None \<Rightarrow> Inr ()
      | Some order \<Rightarrow>
          (case po_state order of
             XCanceled \<Rightarrow> Inr ()
           | XRejected _ _ \<Rightarrow> Inr ()
           | _ \<Rightarrow> Inl TReservation))"
| "validate_accounting_boundary s _ = Inr ()"

fun confirmed_command :: "ledger_command \<Rightarrow> command_id option" where
  "confirmed_command (ConfirmBuy i _ _ _ _ _ _ _) = Some i"
| "confirmed_command (ConfirmSell i _ _ _ _ _ _) = Some i"
| "confirmed_command _ = None"

fun detail_of_apply :: "apply_outcome \<Rightarrow> pipeline_detail" where
  "detail_of_apply Applied = DetailApplied"
| "detail_of_apply Duplicate = DetailDuplicate"

section \<open>Operations\<close>

definition apply_accounting :: "rt_codec \<Rightarrow> pipeline_command_id \<Rightarrow> ledger_command \<Rightarrow> runtime \<Rightarrow> rt_result" where
  "apply_accounting cx i c s =
     rbind (validate_accounting_boundary s c) (\<lambda>_.
     case ledger_apply (rt_ledger_to_vec cx) (rt_blake3 cx) c (rt_ledger s) of
       (Inl e, _) \<Rightarrow> Inl (TAccounting (ledger_error_text (rt_asset_debug cx) e))
     | (Inr result, l) \<Rightarrow>
         Inr (outcome cx i AccountingStage (detail_of_apply result),
           s\<lparr>rt_ledger := l,
             rt_reserved := refresh_reservation_tracking (rt_reserved s) l c,
             rt_pending := (case confirmed_command c of None \<Rightarrow> rt_pending s | Some k \<Rightarrow> bt_remove k (rt_pending s))\<rparr>))"

fun reconciliation_boundary :: "rt_codec \<Rightarrow> recon_command \<Rightarrow> runtime \<Rightarrow> rt_error + unit" where
  "reconciliation_boundary cx (RegisterIntent _ _ _) s = Inl TBoundary"
| "reconciliation_boundary cx (Reconcile _ f _) s =
     (case capture_frame (rt_ledger_digest cx) (rt_reconciler s) (rt_ledger s) (fr_chain f) (fr_evaluated_at f) of
        None \<Rightarrow> Inl TPanic
      | Some actual \<Rightarrow> if actual \<noteq> f then Inl TBoundary else Inr ())"
| "reconciliation_boundary cx (ObserveTrade _ _ _) s = Inr ()"

definition apply_reconciliation :: "rt_codec \<Rightarrow> pipeline_command_id \<Rightarrow> recon_command \<Rightarrow> runtime \<Rightarrow> rt_result" where
  "apply_reconciliation cx i c s =
     rbind (reconciliation_boundary cx c s) (\<lambda>_.
     case recon_apply (rt_recon_to_vec cx) (rt_blake3 cx) c (rt_reconciler s) of
       (Inl e, _) \<Rightarrow> Inl (TReconciliation (recon_error_text e))
     | (Inr result, r) \<Rightarrow>
         Inr (outcome cx i ReconciliationStage (detail_of_apply result), s\<lparr>rt_reconciler := r\<rparr>))"

fun risk_request_of :: "risk_command \<Rightarrow> risk_request" where
  "risk_request_of (Evaluate _ q _) = q"

definition apply_risk :: "rt_codec \<Rightarrow> pipeline_command_id \<Rightarrow> risk_command \<Rightarrow> runtime \<Rightarrow> rt_result" where
  "apply_risk cx i c s =
     (case consume_fault BeforeRisk s of
        (True, s0) \<Rightarrow> Inr (outcome cx i RiskStage (DetailFaultTriggered BeforeRisk), s0)
      | (False, _) \<Rightarrow>
          (let q = risk_request_of c in
           if rq_reconciliation q \<noteq> recon_risk_gate (rt_recon_digest cx) (rt_reconciler s) then Inl TBoundary
           else case ledger_risk_view (rt_ledger_digest cx) (rt_ledger s) of
             None \<Rightarrow> Inl TPanic
           | Some view \<Rightarrow>
               if rq_ledger q \<noteq> view \<or> rq_additional_candidates q \<noteq> [] then Inl TBoundary
               else case risk_apply (rt_risk_codec cx) c (rt_risk s) of
                 (Inl e, _) \<Rightarrow> Inl (TRisk (risk_error_text e))
               | (Inr d, k) \<Rightarrow>
                   Inr (outcome cx i RiskStage (DetailRisk d),
                     s\<lparr>rt_risk := k,
                       rt_approved := (if rd_status d = Approve
                         then bt_insert (oe_order_id (rq_candidate q)) (rq_candidate q, rd_decision_digest d) (rt_approved s)
                         else rt_approved s)\<rparr>)))"

fun policy_boundary :: "policy_command \<Rightarrow> runtime \<Rightarrow> rt_error + unit" where
  "policy_boundary (AuthorizePlacement _ r _) s =
     (if rk_last_decision (rt_risk s) \<noteq> Some (pl_approval r) \<or> \<not> bs_mem (oe_order_id (pl_order r)) (rt_reserved s)
      then Inl TBoundary else Inr ())"
| "policy_boundary _ s = Inr ()"

definition apply_policy :: "rt_codec \<Rightarrow> pipeline_command_id \<Rightarrow> policy_command \<Rightarrow> runtime \<Rightarrow> rt_result" where
  "apply_policy cx i c s =
     rbind (policy_boundary c s) (\<lambda>_.
     case policy_apply (rt_policy_codec cx) c (rt_policy s) of
       (Inl e, _) \<Rightarrow> Inl (TPolicy (policy_error_text e))
     | (Inr d, p) \<Rightarrow> Inr (outcome cx i PolicyStage (DetailPolicy d), s\<lparr>rt_policy := p\<rparr>))"

fun execution_boundary :: "exec_command \<Rightarrow> runtime \<Rightarrow> rt_error + unit" where
  "execution_boundary (Submit _ p r _ _) s =
     (if \<not> bs_mem (oe_order_id (pl_order r)) (rt_reserved s) then Inl TReservation
      else if pe_last_decision (rt_policy s) \<noteq> Some p then Inl TBoundary else Inr ())"
| "execution_boundary (RequestCancel _ p _ _) s =
     (if pe_last_decision (rt_policy s) \<noteq> Some p then Inl TBoundary else Inr ())"
| "execution_boundary (Observe _ _ _) s = Inr ()"

fun policy_sync :: "rt_codec \<Rightarrow> exec_command \<Rightarrow> exec_decision \<Rightarrow> policy_command option" where
  "policy_sync cx (Observe i v t) d =
     (case xd_order_id d of
        None \<Rightarrow> None
      | Some order_id \<Rightarrow>
          (let policy_id = derived_policy_id cx i (xd_decision_digest d) in
           case eo_event v of
             EvDelayed release_at uncancellable_until \<Rightarrow>
               Some (MarkDelayed policy_id order_id release_at uncancellable_until t)
           | EvLive \<Rightarrow> Some (MarkLive policy_id order_id t)
           | _ \<Rightarrow>
               (case xd_state d of
                  None \<Rightarrow> None
                | Some state \<Rightarrow> if is_terminal_state state then Some (MarkTerminal policy_id order_id t) else None)))"
| "policy_sync cx _ d = None"

definition synchronize_policy :: "rt_codec \<Rightarrow> exec_command \<Rightarrow> exec_decision \<Rightarrow> policy_engine \<Rightarrow> rt_error + policy_engine" where
  "synchronize_policy cx c d p =
     (case policy_sync cx c d of
        None \<Rightarrow> Inr p
      | Some sync \<Rightarrow>
          (case policy_apply (rt_policy_codec cx) sync p of
             (Inl e, _) \<Rightarrow> Inl (TPolicy (policy_error_text e))
           | (Inr _, p') \<Rightarrow> Inr p'))"

definition apply_execution :: "rt_codec \<Rightarrow> pipeline_command_id \<Rightarrow> exec_command \<Rightarrow> runtime \<Rightarrow> rt_result" where
  "apply_execution cx i c s =
     (case consume_fault BeforeExecution s of
        (True, s0) \<Rightarrow> Inr (outcome cx i ExecutionStage (DetailFaultTriggered BeforeExecution), s0)
      | (False, _) \<Rightarrow>
          rbind (execution_boundary c s) (\<lambda>_.
          case exec_apply (rt_exec cx) c (rt_execution s) of
            (Inl e, _) \<Rightarrow> Inl (TExecution (exec_error_text e))
          | (Inr d, x) \<Rightarrow>
              rbind (synchronize_policy cx c d (rt_policy s)) (\<lambda>p.
              Inr (outcome cx i ExecutionStage (DetailExecution d), s\<lparr>rt_execution := x, rt_policy := p\<rparr>))))"

definition order_handoff :: "exec_engine \<Rightarrow> risk_order_id \<Rightarrow> nat \<Rightarrow> handoff option" where
  "order_handoff x order_id index =
     Option.bind (exec_order x order_id) (\<lambda>order.
       if index < length (po_handoffs order) then Some (po_handoffs order ! index) else None)"

definition register_handoff ::
  "rt_codec \<Rightarrow> pipeline_command_id \<Rightarrow> risk_order_id \<Rightarrow> nat \<Rightarrow> int \<Rightarrow> runtime \<Rightarrow> rt_result" where
  "register_handoff cx i order_id index at s =
     (case consume_fault BeforeHandoff s of
        (True, s0) \<Rightarrow> Inr (outcome cx i HandoffStage (DetailFaultTriggered BeforeHandoff), s0)
      | (False, _) \<Rightarrow>
          rbind (ok_or (order_handoff (rt_execution s) order_id index) THandoff) (\<lambda>h.
          case rt_handoff_json cx h of
            Inl e \<Rightarrow> Inl (TJson e)
          | Inr bytes \<Rightarrow>
              (let digest = rt_blake3 cx bytes in
               if bs_mem digest (rt_registered s) then Inl THandoff
               else case recon_apply (rt_recon_to_vec cx) (rt_blake3 cx)
                   (RegisterIntent digest (hf_intent h) at) (rt_reconciler s) of
                 (Inl e, _) \<Rightarrow> Inl (TReconciliation (recon_error_text e))
               | (Inr _, r) \<Rightarrow>
                   if bt_contains (rt_pending s) (ti_ledger_command_id (hf_intent h)) then Inl THandoff
                   else Inr (outcome cx i HandoffStage DetailHandoffRegistered,
                     s\<lparr>rt_registered := bs_insert digest (rt_registered s), rt_reconciler := r,
                       rt_pending := bt_insert (ti_ledger_command_id (hf_intent h)) (order_id, hf_intent h)
                         (rt_pending s)\<rparr>))))"

definition inject_fault :: "rt_codec \<Rightarrow> pipeline_command_id \<Rightarrow> fault_point \<Rightarrow> runtime \<Rightarrow> rt_result" where
  "inject_fault cx i fault s =
     (if fault = IntegrityHalt then Inl TInjectedIntegrity
      else Inr (outcome cx i FaultStage (DetailFaultArmed fault), s\<lparr>rt_armed_fault := Some fault\<rparr>))"

fun rt_apply_fresh :: "rt_codec \<Rightarrow> pipeline_command \<Rightarrow> runtime \<Rightarrow> rt_result" where
  "rt_apply_fresh cx (OnLedger i c _) s = apply_accounting cx i c s"
| "rt_apply_fresh cx (OnReconciler i c _) s = apply_reconciliation cx i c s"
| "rt_apply_fresh cx (OnRisk i c _) s = apply_risk cx i c s"
| "rt_apply_fresh cx (OnPolicy i c _) s = apply_policy cx i c s"
| "rt_apply_fresh cx (OnExecution i c _) s = apply_execution cx i c s"
| "rt_apply_fresh cx (RegisterHandoff i order_id index at) s = register_handoff cx i order_id index at s"
| "rt_apply_fresh cx (InjectFault i fault _) s = inject_fault cx i fault s"

section \<open>The engine\<close>

fun nested_recorded_at :: "pipeline_command \<Rightarrow> int option" where
  "nested_recorded_at (OnLedger _ c _) = Some (ledger_recorded_at_ns c)"
| "nested_recorded_at (OnReconciler _ c _) = Some (recon_recorded_at c)"
| "nested_recorded_at (OnRisk _ c _) = Some (risk_recorded_at c)"
| "nested_recorded_at (OnPolicy _ c _) = Some (policy_recorded_at c)"
| "nested_recorded_at (OnExecution _ c _) = Some (exec_recorded_at c)"
| "nested_recorded_at _ = None"

definition rt_validate_command :: "pipeline_command \<Rightarrow> rt_error + unit" where
  "rt_validate_command c =
     (if pipeline_recorded_at c < 0 then Inl TTimestamp
      else if (case nested_recorded_at c of None \<Rightarrow> False | Some v \<Rightarrow> v \<noteq> pipeline_recorded_at c) then Inl TTimestamp
      else Inr ())"

definition rt_encode_command :: "rt_codec \<Rightarrow> pipeline_command \<Rightarrow> rt_error + string" where
  "rt_encode_command cx c =
     rbind (rt_validate_command c) (\<lambda>_.
       case rt_to_vec cx \<lparr>wire_version = 1, wire_command = c\<rparr> of
         Inl e \<Rightarrow> Inl (TJson e)
       | Inr bytes \<Rightarrow> if 1048576 < int (length bytes) then Inl TCommandBound else Inr bytes)"

definition rt_decode_command ::
  "(string \<Rightarrow> string + pipeline_command wire) \<Rightarrow> string \<Rightarrow> rt_error + pipeline_command" where
  "rt_decode_command deserialize bytes =
     (if 1048576 < int (length bytes) then Inl TCommandBound
      else case deserialize bytes of
        Inl e \<Rightarrow> Inl (TJson e)
      | Inr w \<Rightarrow>
          if wire_version w \<noteq> 1 then Inl (TVersion (wire_version w))
          else rbind (rt_validate_command (wire_command w)) (\<lambda>_. Inr (wire_command w)))"

definition rt_content :: "rt_codec \<Rightarrow> pipeline_command \<Rightarrow> rt_error + bytes32" where
  "rt_content cx c = rbind (rt_encode_command cx c) (\<lambda>bytes. Inr (rt_blake3 cx bytes))"

definition rt_install_halt :: "rt_error \<Rightarrow> runtime \<Rightarrow> (rt_error + pipeline_outcome) \<times> runtime" where
  "rt_install_halt e s = (Inl e, s\<lparr>rt_halted := Some (rt_error_text e)\<rparr>)"

definition rt_record :: "pipeline_command \<Rightarrow> bytes32 \<Rightarrow> pipeline_outcome \<Rightarrow> int \<Rightarrow> runtime \<Rightarrow> runtime" where
  "rt_record c digest d n s = s\<lparr>rt_accepted := n, rt_last_recorded_at := Some (pipeline_recorded_at c),
     rt_processed := bt_insert (pipeline_command_id c) (digest, d) (rt_processed s)\<rparr>"

definition rt_apply :: "rt_codec \<Rightarrow> pipeline_command \<Rightarrow> runtime \<Rightarrow> (rt_error + pipeline_outcome) \<times> runtime" where
  "rt_apply cx c s =
     (case rt_halted s of
        Some reason \<Rightarrow> (Inl (THalted reason), s)
      | None \<Rightarrow>
          (case rt_content cx c of
             Inl e \<Rightarrow> (Inl e, s)
           | Inr content \<Rightarrow>
               (case bt_get (rt_processed s) (pipeline_command_id c) of
                  Some (existing, result) \<Rightarrow>
                    if existing = content then (Inr result, s)
                    else rt_install_halt TIdempotencyConflict s
                | None \<Rightarrow>
                    if (case rt_last_recorded_at s of None \<Rightarrow> False | Some p \<Rightarrow> pipeline_recorded_at c < p)
                    then rt_install_halt TClockRegression s
                    else
                      (case rt_apply_fresh cx c s of
                         Inl e \<Rightarrow> if e = TPanic then (Inl TPanic, s) else rt_install_halt e s
                       | Inr (d, s1) \<Rightarrow>
                           (case addu64 (rt_accepted s1) 1 of
                              None \<Rightarrow> rt_install_halt TOverflow s
                            | Some n \<Rightarrow> (Inr d, rt_record c content d n s1))))))"

section \<open>The digest and the snapshot\<close>

text \<open>The serialised parts of the digest; the digests of the components are those of their theories.\<close>

record rt_json =
  tj_text :: "string \<Rightarrow> string"
  tj_number :: "int \<Rightarrow> string"
  tj_candidate :: "order_exposure \<Rightarrow> string"
  tj_orders :: "risk_order_id btset \<Rightarrow> string"
  tj_digests :: "bytes32 btset \<Rightarrow> string"
  tj_intent :: "trade_intent \<Rightarrow> string"
  tj_fault :: "fault_point option \<Rightarrow> string"
  tj_time :: "int option \<Rightarrow> string"
  tj_outcome :: "pipeline_outcome \<Rightarrow> string"
  tj_halted :: "string option \<Rightarrow> string"
  tj_risk :: risk_json
  tj_policy :: policy_json
  tj_exec :: exec_json

definition component_digests :: "rt_codec \<Rightarrow> rt_json \<Rightarrow> runtime \<Rightarrow> bytes32 list option" where
  "component_digests cx js s =
     Option.bind (ledger_snapshot (rt_ledger_digest cx) (rt_ledger s)) (\<lambda>ledger.
     Some [sn_digest ledger,
       rs_digest (recon_snapshot (rt_recon_digest cx) (rt_reconciler s)),
       ks_digest (risk_snapshot (risk_state_digest (tj_risk js) (rt_blake3 cx)) (rt_risk s)),
       ps_digest (policy_snapshot (policy_state_digest (tj_policy js) (rt_blake3 cx)) (rt_policy s)),
       xs_digest (exec_snapshot (exec_state_digest (tj_exec js) (rt_blake3 cx)) (rt_execution s))])"

definition rt_state_digest :: "rt_codec \<Rightarrow> rt_json \<Rightarrow> runtime \<Rightarrow> bytes32 option" where
  "rt_state_digest cx js s =
     Option.bind (component_digests cx js s) (\<lambda>digests.
     Some (rt_blake3 cx
       (''paper-trading-runtime-state-v1''
        @ prefixed (tj_number js (cf_chain_id (rt_config s)))
        @ prefixed (tj_text js (cf_wallet (rt_config s)))
        @ prefixed (tj_number js (cf_confirmation_grace (rt_config s)))
        @ prefixed (tj_number js (cf_max_intents (rt_config s)))
        @ prefixed (tj_number js (cf_max_tokens (rt_config s)))
        @ concat (map bytes_of_id digests)
        @ concat (map (\<lambda>(i, candidate, decision). bytes_of_id i @ prefixed (tj_candidate js candidate)
            @ bytes_of_id decision) (rt_approved s))
        @ prefixed (tj_orders js (rt_reserved s))
        @ prefixed (tj_digests js (rt_registered s))
        @ concat (map (\<lambda>(k, i, intent). bytes_of_id k @ bytes_of_id i @ prefixed (tj_intent js intent))
            (rt_pending s))
        @ prefixed (tj_fault js (rt_armed_fault s))
        @ prefixed (tj_number js (rt_accepted s))
        @ prefixed (tj_time js (rt_last_recorded_at s))
        @ concat (map (\<lambda>(i, content, result). bytes_of_id i @ bytes_of_id content
            @ prefixed (tj_outcome js result)) (rt_processed s))
        @ prefixed (tj_halted js (rt_halted s)))))"

record runtime_snapshot =
  ts_accepted_commands :: int
  ts_ledger_digest :: bytes32
  ts_reconciliation_digest :: bytes32
  ts_risk_digest :: bytes32
  ts_policy_digest :: bytes32
  ts_execution_digest :: bytes32
  ts_reserved_order_count :: nat
  ts_registered_handoff_count :: nat
  ts_pending_handoff_count :: nat
  ts_armed_fault :: "fault_point option"
  ts_last_recorded_at :: "int option"
  ts_halted :: bool
  ts_halt_reason :: "string option"
  ts_digest :: bytes32

definition rt_snapshot :: "rt_codec \<Rightarrow> rt_json \<Rightarrow> runtime \<Rightarrow> runtime_snapshot option" where
  "rt_snapshot cx js s =
     Option.bind (component_digests cx js s) (\<lambda>digests.
     Option.bind (rt_state_digest cx js s) (\<lambda>digest.
     Some \<lparr>ts_accepted_commands = rt_accepted s,
           ts_ledger_digest = digests ! 0, ts_reconciliation_digest = digests ! 1,
           ts_risk_digest = digests ! 2, ts_policy_digest = digests ! 3, ts_execution_digest = digests ! 4,
           ts_reserved_order_count = length (rt_reserved s),
           ts_registered_handoff_count = length (rt_registered s),
           ts_pending_handoff_count = length (rt_pending s),
           ts_armed_fault = rt_armed_fault s, ts_last_recorded_at = rt_last_recorded_at s,
           ts_halted = (rt_halted s \<noteq> None), ts_halt_reason = rt_halted s, ts_digest = digest\<rparr>))"

end
