(* ===== verification/Paper_Runtime_Theorems.thy ===== *)
theory Paper_Runtime_Theorems
  imports Paper_Runtime Paper_Execution_Theorems Ledger_Theorems
begin

text \<open>
  What the paper trading runtime guarantees, over the theorems of its components.
\<close>


section \<open>Steps\<close>

text \<open>What an accepted fresh command does, stage by stage.\<close>

inductive rt_step :: "rt_codec \<Rightarrow> runtime \<Rightarrow> pipeline_command \<Rightarrow> runtime \<Rightarrow> bool" for cx where
  booked: "validate_accounting_boundary s c = Inr ()
    \<Longrightarrow> ledger_apply (rt_ledger_to_vec cx) (rt_blake3 cx) c (rt_ledger s) = (Inr v, l)
    \<Longrightarrow> rt_step cx s (OnLedger i c t)
      (s\<lparr>rt_ledger := l, rt_reserved := refresh_reservation_tracking (rt_reserved s) l c,
         rt_pending := (case confirmed_command c of None \<Rightarrow> rt_pending s | Some k \<Rightarrow> bt_remove k (rt_pending s))\<rparr>)"
| compared: "reconciliation_boundary cx c s = Inr ()
    \<Longrightarrow> recon_apply (rt_recon_to_vec cx) (rt_blake3 cx) c (rt_reconciler s) = (Inr v, r)
    \<Longrightarrow> rt_step cx s (OnReconciler i c t) (s\<lparr>rt_reconciler := r\<rparr>)"
| judged: "rq_reconciliation q = recon_risk_gate (rt_recon_digest cx) (rt_reconciler s)
    \<Longrightarrow> ledger_risk_view (rt_ledger_digest cx) (rt_ledger s) = Some (rq_ledger q)
    \<Longrightarrow> rq_additional_candidates q = []
    \<Longrightarrow> risk_apply (rt_risk_codec cx) (Evaluate j q u) (rt_risk s) = (Inr d, k)
    \<Longrightarrow> rt_step cx s (OnRisk i (Evaluate j q u) t)
      (s\<lparr>rt_risk := k,
         rt_approved := (if rd_status d = Approve
           then bt_insert (oe_order_id (rq_candidate q)) (rq_candidate q, rd_decision_digest d) (rt_approved s)
           else rt_approved s)\<rparr>)"
| licensed: "policy_boundary c s = Inr ()
    \<Longrightarrow> policy_apply (rt_policy_codec cx) c (rt_policy s) = (Inr d, p)
    \<Longrightarrow> rt_step cx s (OnPolicy i c t) (s\<lparr>rt_policy := p\<rparr>)"
| executed: "execution_boundary c s = Inr ()
    \<Longrightarrow> exec_apply (rt_exec cx) c (rt_execution s) = (Inr d, x)
    \<Longrightarrow> synchronize_policy cx c d (rt_policy s) = Inr p
    \<Longrightarrow> rt_step cx s (OnExecution i c t) (s\<lparr>rt_execution := x, rt_policy := p\<rparr>)"
| registered: "order_handoff (rt_execution s) k n = Some h
    \<Longrightarrow> \<not> bs_mem digest (rt_registered s)
    \<Longrightarrow> recon_apply (rt_recon_to_vec cx) (rt_blake3 cx) (RegisterIntent digest (hf_intent h) t) (rt_reconciler s) = (Inr v, r)
    \<Longrightarrow> bt_get (rt_pending s) (ti_ledger_command_id (hf_intent h)) = None
    \<Longrightarrow> rt_step cx s (RegisterHandoff i k n t)
      (s\<lparr>rt_registered := bs_insert digest (rt_registered s), rt_reconciler := r,
         rt_pending := bt_insert (ti_ledger_command_id (hf_intent h)) (k, hf_intent h) (rt_pending s)\<rparr>)"
| fault: "rt_step cx s c (s\<lparr>rt_armed_fault := f\<rparr>)"

lemma apply_accounting_step:
  "apply_accounting cx i c s = Inr (d, s') \<Longrightarrow> rt_step cx s (OnLedger i c t) s'"
  by (auto simp: apply_accounting_def rbind_Inr_iff intro: rt_step.booked split: prod.split_asm sum.split_asm)

lemma apply_reconciliation_step:
  "apply_reconciliation cx i c s = Inr (d, s') \<Longrightarrow> rt_step cx s (OnReconciler i c t) s'"
  by (auto simp: apply_reconciliation_def rbind_Inr_iff intro: rt_step.compared split: prod.split_asm sum.split_asm)

lemma apply_risk_step:
  "apply_risk cx i c s = Inr (d, s') \<Longrightarrow> rt_step cx s (OnRisk i c t) s'"
proof (cases c)
  case (Evaluate j q u)
  show "apply_risk cx i c s = Inr (d, s') \<Longrightarrow> ?thesis"
  proof (cases "rt_armed_fault s = Some BeforeRisk")
    case True
    then show "apply_risk cx i c s = Inr (d, s') \<Longrightarrow> ?thesis"
      by (auto simp: apply_risk_def consume_fault_def intro: rt_step.fault)
  next
    case False
    assume "apply_risk cx i c s = Inr (d, s')"
    then obtain v where "rq_reconciliation q = recon_risk_gate (rt_recon_digest cx) (rt_reconciler s)"
        "ledger_risk_view (rt_ledger_digest cx) (rt_ledger s) = Some v" "rq_ledger q = v" "rq_additional_candidates q = []"
      and applied: "(case risk_apply (rt_risk_codec cx) (Evaluate j q u) (rt_risk s) of
          (Inl e, _) \<Rightarrow> Inl (TRisk (risk_error_text e))
        | (Inr d, k) \<Rightarrow>
            Inr (outcome cx i RiskStage (DetailRisk d),
              s\<lparr>rt_risk := k,
                rt_approved := (if rd_status d = Approve
                  then bt_insert (oe_order_id (rq_candidate q)) (rq_candidate q, rd_decision_digest d) (rt_approved s)
                  else rt_approved s)\<rparr>)) = Inr (d, s')"
      using False Evaluate
      by (auto simp: apply_risk_def consume_fault_def Let_def split: if_split_asm option.split_asm)
    then show ?thesis
      unfolding Evaluate using rt_step.judged [of q cx s j u]
      by (auto split: prod.split_asm sum.split_asm)
  qed
qed

lemma apply_policy_step:
  "apply_policy cx i c s = Inr (d, s') \<Longrightarrow> rt_step cx s (OnPolicy i c t) s'"
  by (auto simp: apply_policy_def rbind_Inr_iff intro: rt_step.licensed split: prod.split_asm sum.split_asm)

lemma apply_execution_step:
  assumes "apply_execution cx i c s = Inr (d, s')"
  shows "rt_step cx s (OnExecution i c t) s'"
proof (cases "rt_armed_fault s = Some BeforeExecution")
  case True
  then show ?thesis
    using assms by (auto simp: apply_execution_def consume_fault_def intro: rt_step.fault)
next
  case False
  then show ?thesis
    using assms by (auto simp: apply_execution_def consume_fault_def rbind_Inr_iff intro: rt_step.executed
        split: prod.split_asm sum.split_asm)
qed

lemma register_handoff_step:
  assumes "register_handoff cx i k n t s = Inr (d, s')"
  shows "rt_step cx s (RegisterHandoff i k n t) s'"
proof (cases "rt_armed_fault s = Some BeforeHandoff")
  case True
  then show ?thesis
    using assms by (auto simp: register_handoff_def consume_fault_def intro: rt_step.fault)
next
  case False
  then obtain h bytes where h: "order_handoff (rt_execution s) k n = Some h" "rt_handoff_json cx h = Inr bytes"
      "\<not> bs_mem (rt_blake3 cx bytes) (rt_registered s)"
    using assms
    by (cases "order_handoff (rt_execution s) k n"; cases "rt_handoff_json cx (the (order_handoff (rt_execution s) k n))")
      (auto simp: register_handoff_def consume_fault_def Let_def split: if_split_asm)
  obtain v r where a: "recon_apply (rt_recon_to_vec cx) (rt_blake3 cx)
      (RegisterIntent (rt_blake3 cx bytes) (hf_intent h) t) (rt_reconciler s) = (v, r)"
    by fastforce
  show ?thesis
    using assms False h a rt_step.registered [OF h(1,3)]
    by (cases v; cases "bt_get (rt_pending s) (ti_ledger_command_id (hf_intent h))")
      (auto simp: register_handoff_def consume_fault_def Let_def bt_contains_def)
qed

lemma rt_fresh_step: "rt_apply_fresh cx c s = Inr (d, s') \<Longrightarrow> rt_step cx s c s'"
  by (cases c) (auto simp: inject_fault_def split: if_split_asm
      intro: apply_accounting_step apply_reconciliation_step apply_risk_step apply_policy_step apply_execution_step
        register_handoff_step rt_step.fault)

lemma rt_apply_cases:
  assumes "rt_apply cx c s = (r, s')"
  obtains (same) "s' = s" "bt_get (rt_processed s) (pipeline_command_id c) = None \<Longrightarrow> \<exists>e. r = Inl e"
  | (halt) e where "r = Inl e" "s' = s\<lparr>rt_halted := Some (rt_error_text e)\<rparr>"
  | (fresh) d s1 digest n where "rt_halted s = None" "bt_get (rt_processed s) (pipeline_command_id c) = None"
      "rt_apply_fresh cx c s = Inr (d, s1)" "r = Inr d" "s' = rt_record c digest d n s1"
proof (cases "\<exists>d. r = Inr d \<and> bt_get (rt_processed s) (pipeline_command_id c) = None")
  case True
  then obtain d s1 digest n where "rt_halted s = None" "bt_get (rt_processed s) (pipeline_command_id c) = None" "r = Inr d"
      "rt_apply_fresh cx c s = Inr (d, s1)" "s' = rt_record c digest d n s1"
    using assms
    by (auto simp: rt_apply_def rt_install_halt_def split: option.split_asm sum.split_asm if_split_asm)
  then show ?thesis
    by (intro fresh)
next
  case False
  show ?thesis
  proof (cases "s' = s")
    case True
    moreover have "bt_get (rt_processed s) (pipeline_command_id c) = None \<Longrightarrow> \<exists>e. r = Inl e"
      using False by (cases r) auto
    ultimately show ?thesis
      by (rule same)
  next
    case neq: False
    obtain content where c: "rt_halted s = None" "rt_content cx c = Inr content"
      using assms neq by (cases "rt_halted s"; cases "rt_content cx c") (auto simp: rt_apply_def)
    have "\<exists>e. r = Inl e \<and> s' = s\<lparr>rt_halted := Some (rt_error_text e)\<rparr>"
    proof (cases "bt_get (rt_processed s) (pipeline_command_id c)")
      case (Some e)
      then show ?thesis
        using assms neq c by (cases e) (auto simp: rt_apply_def rt_install_halt_def split: if_split_asm)
    next
      case None
      obtain e' where refused: "r = Inl e'"
        using False None by (cases r) auto
      show ?thesis
      proof (cases "rt_apply_fresh cx c s")
        case (Inl e)
        then show ?thesis
          using assms neq c None by (cases "rt_last_recorded_at s") (auto simp: rt_apply_def rt_install_halt_def split: if_split_asm)
      next
        case (Inr e)
        then show ?thesis
          using assms neq c None refused
          by (cases "rt_last_recorded_at s"; cases e; cases "addu64 (rt_accepted (snd e)) 1")
            (auto simp: rt_apply_def rt_install_halt_def split: if_split_asm)
      qed
    qed
    then show ?thesis
      using halt by blast
  qed
qed

lemma rt_record_simps [simp]:
  "rt_ledger (rt_record c digest d n s) = rt_ledger s" "rt_reconciler (rt_record c digest d n s) = rt_reconciler s"
  "rt_risk (rt_record c digest d n s) = rt_risk s" "rt_policy (rt_record c digest d n s) = rt_policy s"
  "rt_execution (rt_record c digest d n s) = rt_execution s" "rt_approved (rt_record c digest d n s) = rt_approved s"
  "rt_reserved (rt_record c digest d n s) = rt_reserved s" "rt_registered (rt_record c digest d n s) = rt_registered s"
  "rt_pending (rt_record c digest d n s) = rt_pending s" "rt_halted (rt_record c digest d n s) = rt_halted s"
  by (simp_all add: rt_record_def)

text \<open>An invariant of the parts that every step keeps holds in every reachable state.\<close>

lemma rt_invariant:
  assumes "P s0" and steps: "\<And>s c s'. P s \<Longrightarrow> rt_step cx s c s' \<Longrightarrow> P s'"
    and recs: "\<And>s c digest d n. P s \<Longrightarrow> P (rt_record c digest d n s)"
    and halt: "\<And>s e. P s \<Longrightarrow> P (s\<lparr>rt_halted := e\<rparr>)"
  shows "P (run_commands (rt_apply cx) cs s0)"
proof (rule run_commands_invariant [where P = P, OF assms(1)])
  fix c s
  assume "P s"
  obtain r s' where a: "rt_apply cx c s = (r, s')"
    by fastforce
  then have "P s'"
    using \<open>P s\<close> by (cases rule: rt_apply_cases) (auto intro: halt recs steps dest: rt_fresh_step)
  then show "P (snd (rt_apply cx c s))"
    using a by simp
qed

section \<open>The components of a runtime\<close>

definition engine_reaches :: "('c \<Rightarrow> 's \<Rightarrow> ('e + 'o) \<times> 's) \<Rightarrow> 's \<Rightarrow> 's \<Rightarrow> bool" where
  "engine_reaches step s0 s \<longleftrightarrow> (\<exists>cs. s = run_commands step cs s0)"

lemma engine_reaches_refl [simp]: "engine_reaches step s s"
  unfolding engine_reaches_def by (rule exI [of _ "[]"]) simp

lemma engine_reaches_step: "engine_reaches step s0 s \<Longrightarrow> step c s = (r, s') \<Longrightarrow> engine_reaches step s0 s'"
  unfolding engine_reaches_def
  by (metis run_commands.simps run_commands_append snd_conv)


abbreviation rt_ledger_step where
  "rt_ledger_step cx \<equiv> ledger_apply (rt_ledger_to_vec cx) (rt_blake3 cx)"

abbreviation rt_recon_step where
  "rt_recon_step cx \<equiv> recon_apply (rt_recon_to_vec cx) (rt_blake3 cx)"

definition components_live :: "rt_codec \<Rightarrow> reconciler \<Rightarrow> runtime \<Rightarrow> bool" where
  "components_live cx r0 s \<longleftrightarrow>
     engine_reaches (rt_ledger_step cx) ledger_default (rt_ledger s) \<and> halted (rt_ledger s) = None
     \<and> engine_reaches (rt_recon_step cx) r0 (rt_reconciler s) \<and> rc_halted (rt_reconciler s) = None
     \<and> engine_reaches (risk_apply (rt_risk_codec cx)) risk_engine_default (rt_risk s) \<and> rk_halted (rt_risk s) = None
     \<and> engine_reaches (policy_apply (rt_policy_codec cx)) policy_engine_default (rt_policy s) \<and> pe_halted (rt_policy s) = None
     \<and> engine_reaches (exec_apply (rt_exec cx)) exec_engine_default (rt_execution s) \<and> xe_halted (rt_execution s) = None"

lemma synchronize_policy_Inr:
  assumes "synchronize_policy cx c d p = Inr p'"
  obtains "policy_sync cx c d = None" "p' = p"
  | sync v where "policy_sync cx c d = Some sync" "policy_apply (rt_policy_codec cx) sync p = (Inr v, p')"
  using assms by (auto simp: synchronize_policy_def split: option.split_asm prod.split_asm sum.split_asm)

lemma not_halted_after:
  "ledger_apply tv b c l = (Inr v, l') \<Longrightarrow> halted l' = None"
  "recon_apply tw b rc r = (Inr v', r') \<Longrightarrow> rc_halted r' = None"
  "risk_apply kx kc k = (Inr kd, k') \<Longrightarrow> rk_halted k' = None"
  "policy_apply px pc p = (Inr pd, p') \<Longrightarrow> pe_halted p' = None"
  "exec_apply xx xc x = (Inr xd, x') \<Longrightarrow> xe_halted x' = None"
  using ledger_engine.accepted_step [of tv b c l v l'] recon_engine.accepted_step [of tw b rc r v' r']
    risk_engine.accepted_step [of kx kc k kd k'] policy_engine.accepted_step [of px pc p pd p']
    exec_engine.accepted_step [of xx xc x xd x'] by blast+

lemma components_live_step:
  assumes "components_live cx r0 s" and "rt_step cx s c s'"
  shows "components_live cx r0 s'"
  using assms(2)
proof cases
  case (executed c d x p i t)
  have "engine_reaches (policy_apply (rt_policy_codec cx)) policy_engine_default p \<and> pe_halted p = None"
    using executed(5)
  proof (cases rule: synchronize_policy_Inr)
    case 1
    then show ?thesis using assms(1) by (simp add: components_live_def)
  next
    case (2 sync v)
    then show ?thesis
      using assms(1) engine_reaches_step not_halted_after(4) by (fastforce simp: components_live_def)
  qed
  then show ?thesis
    using assms(1) executed engine_reaches_step not_halted_after(5)
    by (fastforce simp: components_live_def)
qed (use assms(1) in \<open>auto simp: components_live_def simp del: risk_apply.simps elim: engine_reaches_step dest: not_halted_after\<close>)

lemma runtime_new_Inr:
  "runtime_new config = Inr s0 \<longleftrightarrow> (\<exists>r0. reconciler_new config = Inr r0 \<and> s0 =
     \<lparr>rt_config = config, rt_ledger = ledger_default, rt_reconciler = r0,
      rt_risk = risk_engine_default, rt_policy = policy_engine_default, rt_execution = exec_engine_default,
      rt_approved = [], rt_reserved = [], rt_registered = [], rt_pending = [], rt_processed = [],
      rt_armed_fault = None, rt_accepted = 0, rt_last_recorded_at = None, rt_halted = None\<rparr>)"
  by (auto simp: runtime_new_def split: sum.split)

lemma new_components_live:
  "runtime_new config = Inr s0 \<Longrightarrow> reconciler_new config = Inr r0 \<Longrightarrow> components_live cx r0 s0"
  by (auto simp: runtime_new_Inr components_live_def ledger_default_def risk_engine_default_def
      policy_engine_default_def exec_engine_default_def reconciler_new_def rbind_Inr_iff)

lemma components_live_run:
  assumes "runtime_new config = Inr s0" and "reconciler_new config = Inr r0"
  shows "components_live cx r0 (run_commands (rt_apply cx) cs s0)"
  by (rule rt_invariant [where P = "components_live cx r0", OF new_components_live [OF assms] components_live_step])
    (simp_all add: components_live_def)

section \<open>What accepted component commands keep\<close>

text \<open>A reservation that is not released stays so, unless the command releases it.\<close>

definition holds_capital :: "ledger \<Rightarrow> reservation_id \<Rightarrow> bool" where
  "holds_capital l k \<longleftrightarrow> (\<exists>r. ledger_reservation l k = Some r \<and> res_status r \<noteq> ReservationReleased)"

definition keeps_capital :: "ledger \<Rightarrow> ledger \<Rightarrow> reservation_id \<Rightarrow> bool" where
  "keeps_capital l l' k \<longleftrightarrow> (holds_capital l k \<longrightarrow> holds_capital l' k)"

lemma keeps_capital_trans: "keeps_capital l l1 k \<Longrightarrow> keeps_capital l1 l2 k \<Longrightarrow> keeps_capital l l2 k"
  by (simp add: keeps_capital_def)

lemma keeps_capital_same: "reservations l' = reservations l \<Longrightarrow> keeps_capital l l' k"
  by (simp add: keeps_capital_def holds_capital_def ledger_reservation_def)

lemma same_reservations:
  "post ps l = Inr l' \<Longrightarrow> reservations l' = reservations l"
  "add_cost t q c l = Inr l' \<Longrightarrow> reservations l' = reservations l"
  "reduce_cost t q c l = Inr l' \<Longrightarrow> reservations l' = reservations l"
  by (auto simp: post_def Let_def add_cost_def reduce_cost_def result_simps split: option.split_asm if_splits)

lemma consume_keeps_capital: "consume_reservation i q l = Inr l' \<Longrightarrow> keeps_capital l l' k"
  by (auto simp: consume_reservation_def keeps_capital_def holds_capital_def ledger_reservation_def result_simps bt_get_insert)

lemma dispatch_keeps_capital:
  assumes "dispatch c l = Inr l'" and "\<And>i t. c \<noteq> ReleaseReservation i k t"
  shows "keeps_capital l l' k"
proof -
  have one: "consume_reservation i q l1 = Inr l2 \<Longrightarrow> reservations l1 = reservations l \<Longrightarrow> reservations l' = reservations l2
      \<Longrightarrow> keeps_capital l l' k" for i q l1 l2
    using consume_keeps_capital [of i q l1 l2 k] by (simp add: keeps_capital_def holds_capital_def ledger_reservation_def)
  show ?thesis
  proof (cases c)
    case (ReleaseReservation i j t)
    moreover have "j \<noteq> k"
      using assms(2) [of i t] ReleaseReservation by auto
    ultimately show ?thesis
      using assms(1) by (auto simp: release_def active_reservation_Inr rbind_Inr_iff ok_or_Inr_iff keeps_capital_def
          holds_capital_def ledger_reservation_def bt_get_insert dest!: same_reservations)
  next
    case (ConfirmBuy i j t q x f u v)
    then show ?thesis
      using assms(1) by (auto simp: confirm_buy_def rbind_Inr_iff if_Inr_iff dest!: same_reservations intro: one)
  next
    case (ConfirmSell i j q x f u v)
    then show ?thesis
      using assms(1) by (auto simp: confirm_sell_def rbind_Inr_iff if_Inr_iff token_only_Inr dest!: same_reservations intro: one)
  next
    case (ConfirmSplit i j a b q u v)
    then show ?thesis
      using assms(1) by (auto simp: confirm_split_def Let_def rbind_Inr_iff if_Inr_iff dest!: same_reservations intro: one)
  next
    case (ConfirmRedemption i j q x u v)
    then show ?thesis
      using assms(1) by (auto simp: confirm_redemption_def rbind_Inr_iff if_Inr_iff token_only_Inr dest!: same_reservations intro: one)
  qed (use assms(1) in \<open>auto simp: fund_collateral_def reserve_def lock_pair_def confirm_merge_def rbind_Inr_iff if_Inr_iff
        keeps_capital_def holds_capital_def ledger_reservation_def bt_get_insert bt_contains_def dest!: same_reservations\<close>)
qed

lemma ledger_keeps_capital:
  assumes "ledger_apply to_vec blake3 c l = (Inr v, l')" and "\<And>i t. c \<noteq> ReleaseReservation i k t"
  shows "keeps_capital l l' k"
  using assms(1)
proof (cases rule: ledger_apply_cases)
  case (installed digest)
  from installed(5) show ?thesis
  proof (rule ledger_install_Inr)
    fix l1
    assume f: "ledger_apply_fresh c l = Inr l1"
      and l': "l' = l1\<lparr>processed := bt_insert (ledger_command_id c) digest (processed l1), accepted_commands := accepted_commands l1 + 1\<rparr>"
    have "dispatch c l = Inr l1"
      using f by (auto simp: ledger_apply_fresh_def rbind_Inr_iff)
    then show ?thesis
      using dispatch_keeps_capital [OF _ assms(2)] l' by (simp add: keeps_capital_def holds_capital_def ledger_reservation_def)
  qed
qed (simp_all add: keeps_capital_same)

lemma ledger_active_capital: "is_active_reservation l k \<Longrightarrow> holds_capital l k"
  by (auto simp: is_active_reservation_def holds_capital_def split: option.split_asm)

section \<open>Capital behind the orders\<close>

fun returned_capital :: "order_state \<Rightarrow> bool" where
  "returned_capital XCanceled = True"
| "returned_capital (XRejected _ _) = True"
| "returned_capital _ = False"

definition orders_backed :: "runtime \<Rightarrow> bool" where
  "orders_backed s \<longleftrightarrow>
     (\<forall>k. bs_mem k (rt_reserved s) \<longrightarrow> holds_capital (rt_ledger s) k)
     \<and> (\<forall>k order. exec_order (rt_execution s) k = Some order \<longrightarrow> \<not> returned_capital (po_state order)
          \<longrightarrow> holds_capital (rt_ledger s) k)"

lemma orders_backedI:
  assumes "\<And>k. bs_mem k (rt_reserved s) \<Longrightarrow> holds_capital (rt_ledger s) k"
    and "\<And>k order. exec_order (rt_execution s) k = Some order \<Longrightarrow> \<not> returned_capital (po_state order)
          \<Longrightarrow> holds_capital (rt_ledger s) k"
  shows "orders_backed s"
  unfolding orders_backed_def using assms by blast

lemma orders_backed_reserved: "orders_backed s \<Longrightarrow> bs_mem k (rt_reserved s) \<Longrightarrow> holds_capital (rt_ledger s) k"
  by (simp add: orders_backed_def)

lemma orders_backed_order:
  "orders_backed s \<Longrightarrow> exec_order (rt_execution s) k = Some order \<Longrightarrow> \<not> returned_capital (po_state order)
    \<Longrightarrow> holds_capital (rt_ledger s) k"
  by (simp add: orders_backed_def)

lemma release_boundary:
  assumes "validate_accounting_boundary s (ReleaseReservation i k t) = Inr ()"
  shows "case exec_order (rt_execution s) k of None \<Rightarrow> True | Some order \<Rightarrow> returned_capital (po_state order)"
  using assms by (auto split: option.split_asm order_state.split_asm if_splits option.split)

lemma bs_mem_remove: "bs_mem x (bt_remove k m) \<longleftrightarrow> x \<noteq> k \<and> bs_mem x m"
  by (simp add: bs_mem_def bt_contains_def bt_get_remove)

lemma tracking_holds:
  assumes "bs_mem k (refresh_reservation_tracking m l c)"
  shows "is_active_reservation l k \<or> (bs_mem k m \<and> touched_reservation c \<noteq> Some k)"
  using assms by (auto simp: refresh_reservation_tracking_def bs_mem_insert bs_mem_remove split: option.split_asm if_splits)

text \<open>An order the execution engine has after an accepted command is an old one that moved on, or
  the one just submitted.\<close>

lemma exec_accepted:
  assumes "exec_apply cx c x = (Inr d, x')"
  shows "x' = x \<or> (\<exists>x1 digest n. exec_apply_fresh cx c x = Inr (d, x1) \<and> x' = exec_record c digest d n x1)"
proof (cases "bt_get (xe_processed x) (exec_command_id c)")
  case None
  show ?thesis
    using assms
  proof (cases rule: exec_apply_cases)
    case same
    then show ?thesis using None by simp
  next
    case (fresh d' x1 digest n)
    then show ?thesis by blast
  qed
next
  case (Some e)
  then show ?thesis
    using assms by (cases e) (auto simp: exec_apply_def exec_install_halt_def split: option.split_asm sum.split_asm if_splits)
qed

lemma exec_order_origin:
  assumes "exec_apply cx c x = (Inr d, x')" and "exec_order x' k = Some order'"
  obtains (old) order where "exec_order x k = Some order" "exec_progress order order'"
  | (new) i p r local_id t where "c = Submit i p r local_id t" "submit_denial cx p r t x = None"
      "oe_order_id (pl_order r) = k" "order' = new_paper_order r local_id (pd_decision_digest p)"
proof (cases "exec_order x k")
  case (Some order)
  obtain order2 where "exec_order x' k = Some order2" "exec_progress order order2"
    using exec_apply_progress [OF Some, of cx c] assms(1) by auto
  then show ?thesis
    using old [OF Some] assms(2) by simp
next
  case None
  then have neq: "x' \<noteq> x"
    using assms(2) by auto
  then obtain x1 digest n where f: "exec_apply_fresh cx c x = Inr (d, x1)" "x' = exec_record c digest d n x1"
    using exec_accepted [OF assms(1)] by blast
  have "exec_order x1 k = Some order'"
    using assms(2) f(2) by simp
  from conjunct1 [OF exec_fresh_step [OF f(1)]] this None show ?thesis
    by (cases rule: exec_step.cases)
      (auto simp: exec_order_def bt_get_insert split: if_splits intro!: new)
qed

lemma terminal_returned: "returned_capital st \<Longrightarrow> is_terminal_state st"
  by (cases st) auto

lemma orders_backed_step:
  assumes ok: "orders_backed s" and "rt_step cx s c s'"
  shows "orders_backed s'"
  using assms(2)
proof cases
  case (booked c v l i t)
  have keep: "holds_capital l k" if "holds_capital (rt_ledger s) k" "\<And>i t. c \<noteq> ReleaseReservation i k t" for k
    using ledger_keeps_capital [OF booked(4) that(2)] that(1) by (simp add: keeps_capital_def)
  show ?thesis
  proof (rule orders_backedI)
    fix k assume "bs_mem k (rt_reserved s')"
    then have "is_active_reservation l k \<or> bs_mem k (rt_reserved s) \<and> touched_reservation c \<noteq> Some k"
      using tracking_holds booked(2) by simp
    moreover have "touched_reservation c \<noteq> Some k \<Longrightarrow> c \<noteq> ReleaseReservation i k t" for i t
      by auto
    ultimately show "holds_capital (rt_ledger s') k"
      using keep [of k] orders_backed_reserved [OF ok, of k] ledger_active_capital [of l k] booked(2) by auto
  next
    fix k order assume o: "exec_order (rt_execution s') k = Some order" "\<not> returned_capital (po_state order)"
    then have "holds_capital (rt_ledger s) k"
      using orders_backed_order [OF ok] booked(2) by simp
    moreover have "c \<noteq> ReleaseReservation i k t" for i t
      using release_boundary [of s i k t] booked(2,3) o by auto
    ultimately show "holds_capital (rt_ledger s') k"
      using keep booked(2) by simp
  qed
next
  case (executed c d x p i t)
  show ?thesis
  proof (rule orders_backedI)
    fix k order assume o: "exec_order (rt_execution s') k = Some order" "\<not> returned_capital (po_state order)"
    then have "exec_order x k = Some order"
      using executed(2) by simp
    with executed(4) have "holds_capital (rt_ledger s) k"
    proof (cases rule: exec_order_origin)
      case (old order0)
      then have "\<not> returned_capital (po_state order0)"
        using o(2) terminal_returned by (auto simp: exec_progress_def)
      then show ?thesis
        using orders_backed_order [OF ok old(1)] by simp
    next
      case (new i p r local_id t)
      then show ?thesis
        using executed(3) orders_backed_reserved [OF ok] by (auto split: if_splits)
    qed
    then show "holds_capital (rt_ledger s') k"
      using executed(2) by simp
  qed (use ok executed(2) in \<open>simp add: orders_backed_def\<close>)
qed (use ok in \<open>simp_all add: orders_backed_def\<close>)


section \<open>Hand-offs waiting for their posting\<close>

definition pending_ok :: "runtime \<Rightarrow> bool" where
  "pending_ok s \<longleftrightarrow> (\<forall>k i intent. bt_get (rt_pending s) k = Some (i, intent) \<longrightarrow>
     (\<exists>order h. exec_order (rt_execution s) i = Some order \<and> h \<in> set (po_handoffs order) \<and> hf_intent h = intent
        \<and> ti_ledger_command_id intent = k))"

lemma pending_okI:
  assumes "\<And>k i intent. bt_get (rt_pending s) k = Some (i, intent) \<Longrightarrow>
     \<exists>order h. exec_order (rt_execution s) i = Some order \<and> h \<in> set (po_handoffs order) \<and> hf_intent h = intent
        \<and> ti_ledger_command_id intent = k"
  shows "pending_ok s"
  unfolding pending_ok_def using assms by blast

lemma pending_handoff:
  assumes "pending_ok s" and "bt_get (rt_pending s) k = Some (i, intent)"
  obtains order h where "exec_order (rt_execution s) i = Some order" "h \<in> set (po_handoffs order)" "hf_intent h = intent"
    "ti_ledger_command_id intent = k"
  using assms unfolding pending_ok_def by blast

lemma pending_ok_step:
  assumes ok: "pending_ok s" and "rt_step cx s c s'"
  shows "pending_ok s'"
  using assms(2)
proof cases
  case (booked c v l i t)
  then show ?thesis
    using ok by (auto simp: pending_ok_def bt_get_remove split: option.split_asm if_splits)
next
  case (executed c d x p i t)
  show ?thesis
  proof (rule pending_okI)
    fix k j intent assume "bt_get (rt_pending s') k = Some (j, intent)"
    then have "bt_get (rt_pending s) k = Some (j, intent)"
      using executed(2) by simp
    from pending_handoff [OF ok this] obtain order h where o: "exec_order (rt_execution s) j = Some order"
        "h \<in> set (po_handoffs order)" "hf_intent h = intent" "ti_ledger_command_id intent = k" .
    obtain order' where "exec_order x j = Some order'" "exec_progress order order'"
      using exec_apply_progress [OF o(1), of "rt_exec cx" c] executed(4) by auto
    then show "\<exists>order h. exec_order (rt_execution s') j = Some order \<and> h \<in> set (po_handoffs order) \<and> hf_intent h = intent
        \<and> ti_ledger_command_id intent = k"
      using o executed(2) by (auto simp: exec_progress_def)
  qed
next
  case (registered k n h digest t v r i)
  then obtain order where "exec_order (rt_execution s) k = Some order" "h \<in> set (po_handoffs order)"
    by (auto simp: order_handoff_def bind_eq_Some_conv split: if_splits)
  then show ?thesis
    using ok registered(2) by (auto simp: pending_ok_def bt_get_insert)
qed (use ok in \<open>simp_all add: pending_ok_def\<close>)

section \<open>The chain of approvals\<close>

text \<open>A decision the runtime's own risk gate made and still remembers.\<close>

definition risk_made :: "risk_engine \<Rightarrow> risk_decision \<Rightarrow> bool" where
  "risk_made k d \<longleftrightarrow> (\<exists>i. map_option snd (bt_get (rk_processed k) i) = Some d)"

lemma risk_made_mono: "risk_apply cx c k = (r, k') \<Longrightarrow> risk_made k d \<Longrightarrow> risk_made k' d"
  unfolding risk_made_def using risk_engine.decision_mono by blast

lemma risk_decision_made:
  assumes "risk_apply cx c k = (Inr d, k')"
  shows "risk_made k' d \<and> (k' = k \<or> rk_last_decision k' = Some d)"
proof (cases c)
  case (Evaluate i q t)
  have "map_option snd (bt_get (rk_processed k') i) = Some d \<and> (k' = k \<or> rk_last_decision k' = Some d)"
  proof (cases "bt_get (rk_processed k) i")
    case (Some e)
    then show ?thesis
      using assms Evaluate by (cases e) (auto simp: risk_install_halt_def split: option.split_asm sum.split_asm if_splits)
  next
    case None
    then show ?thesis
      using assms Evaluate by (auto simp: risk_install_halt_def risk_install_def bt_get_insert
          split: option.split_asm sum.split_asm if_splits)
  qed
  then show ?thesis
    unfolding risk_made_def by blast
qed

definition authorised :: "policy_codec \<Rightarrow> risk_engine \<Rightarrow> bytes32 \<Rightarrow> risk_order_id \<Rightarrow> bool" where
  "authorised cx k subject i \<longleftrightarrow> (\<exists>r. placement_request_digest cx r = subject \<and> oe_order_id (pl_order r) = i
     \<and> risk_made k (pl_approval r) \<and> rd_status (pl_approval r) = Approve
     \<and> rd_candidate_order_digest (pl_approval r) = order_exposure_digest (pc_risk cx) (pl_order r))"

lemma authorised_mono: "authorised cx k subject i \<Longrightarrow> (\<And>d. risk_made k d \<Longrightarrow> risk_made k' d) \<Longrightarrow> authorised cx k' subject i"
  unfolding authorised_def by blast

definition permits :: "policy_decision \<Rightarrow> bool" where
  "permits p \<longleftrightarrow> pd_status p = Permit \<and> pd_action p = ActPlace"

definition approvals_ok :: "rt_codec \<Rightarrow> runtime \<Rightarrow> bool" where
  "approvals_ok cx s \<longleftrightarrow>
     (\<forall>d. rk_last_decision (rt_risk s) = Some d \<longrightarrow> risk_made (rt_risk s) d)
     \<and> (\<forall>p. pe_last_decision (rt_policy s) = Some p \<longrightarrow> permits p \<longrightarrow>
          (\<exists>subject i u. pd_subject_digest p = Some subject \<and> pd_order_id p = Some i
             \<and> authorised (rt_policy_codec cx) (rt_risk s) subject i \<and> policy_order (rt_policy s) i = Some u))
     \<and> (\<forall>k order. exec_order (rt_execution s) k = Some order \<longrightarrow>
          authorised (rt_policy_codec cx) (rt_risk s) (placement_request_digest (rt_policy_codec cx) (po_placement order)) k
          \<and> (\<exists>u. policy_order (rt_policy s) k = Some u))"

lemma approvals_okI:
  assumes "\<And>d. rk_last_decision (rt_risk s) = Some d \<Longrightarrow> risk_made (rt_risk s) d"
    and "\<And>p. pe_last_decision (rt_policy s) = Some p \<Longrightarrow> permits p \<Longrightarrow>
          \<exists>subject i u. pd_subject_digest p = Some subject \<and> pd_order_id p = Some i
             \<and> authorised (rt_policy_codec cx) (rt_risk s) subject i \<and> policy_order (rt_policy s) i = Some u"
    and "\<And>k order. exec_order (rt_execution s) k = Some order \<Longrightarrow>
          authorised (rt_policy_codec cx) (rt_risk s) (placement_request_digest (rt_policy_codec cx) (po_placement order)) k
          \<and> (\<exists>u. policy_order (rt_policy s) k = Some u)"
  shows "approvals_ok cx s"
  unfolding approvals_ok_def using assms by blast

lemma approvals_okD:
  assumes "approvals_ok cx s"
  shows "rk_last_decision (rt_risk s) = Some d \<Longrightarrow> risk_made (rt_risk s) d"
    and "pe_last_decision (rt_policy s) = Some p \<Longrightarrow> permits p \<Longrightarrow>
          \<exists>subject i u. pd_subject_digest p = Some subject \<and> pd_order_id p = Some i
             \<and> authorised (rt_policy_codec cx) (rt_risk s) subject i \<and> policy_order (rt_policy s) i = Some u"
    and "exec_order (rt_execution s) k = Some order \<Longrightarrow>
          authorised (rt_policy_codec cx) (rt_risk s) (placement_request_digest (rt_policy_codec cx) (po_placement order)) k
          \<and> (\<exists>u. policy_order (rt_policy s) k = Some u)"
  using assms unfolding approvals_ok_def by blast+

text \<open>The same for a policy command.\<close>

lemma policy_accepted:
  assumes "policy_apply cx c p = (Inr d, p')"
  shows "p' = p \<or> (\<exists>p1 digest n. policy_apply_fresh cx c p = Inr (d, p1) \<and> p' = policy_record c digest d n p1
    \<and> bt_get (pe_processed p) (policy_command_id c) = None)"
proof (cases "bt_get (pe_processed p) (policy_command_id c)")
  case None
  show ?thesis
    using assms
  proof (cases rule: policy_apply_cases)
    case same
    then show ?thesis using None by simp
  next
    case (fresh d' p1 digest n)
    then show ?thesis using None by blast
  qed
next
  case (Some e)
  then show ?thesis
    using assms by (cases e) (auto simp: policy_apply_def policy_install_halt_def split: option.split_asm sum.split_asm if_splits)
qed

lemma permit_is_placement:
  assumes "policy_apply_fresh cx c p = Inr (d, p1)" and "permits d"
  obtains i r t where "c = AuthorizePlacement i r t"
proof (cases c)
  case (AuthorizeCancel i r t)
  then show ?thesis
    using assms by (simp add: authorize_cancel_def permits_def make_decision_def Let_def split: option.split_asm) auto
qed (use assms that in \<open>auto simp: observe_mode_def mark_delayed_def mark_live_def mark_terminal_def
      lifecycle_decision_def make_decision_def permits_def Let_def rbind_Inr_iff split: if_splits option.split_asm\<close>)

lemma policy_orders_kept:
  assumes "policy_apply cx c p = (r, p')" and "policy_order p k = Some u"
  shows "\<exists>u'. policy_order p' k = Some u'"
  using apply_progress [OF assms(2), of cx c] assms(1) by auto


lemma policy_record_last [simp]: "pe_last_decision (policy_record c digest d n s) = Some d"
  by (simp add: policy_record_def)

lemma licensed_permit:
  assumes ok: "approvals_ok cx s" and boundary: "policy_boundary c s = Inr ()"
    and app: "policy_apply (rt_policy_codec cx) c (rt_policy s) = (Inr d, p')" and p: "pe_last_decision p' = Some p" "permits p"
  shows "\<exists>subject i u. pd_subject_digest p = Some subject \<and> pd_order_id p = Some i
    \<and> authorised (rt_policy_codec cx) (rt_risk s) subject i \<and> policy_order p' i = Some u"
  using policy_accepted [OF app]
proof
  assume "p' = rt_policy s"
  then show ?thesis
    using approvals_okD(2) [OF ok] p by simp
next
  assume "\<exists>p1 digest n. policy_apply_fresh (rt_policy_codec cx) c (rt_policy s) = Inr (d, p1) \<and> p' = policy_record c digest d n p1
    \<and> bt_get (pe_processed (rt_policy s)) (policy_command_id c) = None"
  then obtain p1 digest n where f: "policy_apply_fresh (rt_policy_codec cx) c (rt_policy s) = Inr (d, p1)"
      "p' = policy_record c digest d n p1" "bt_get (pe_processed (rt_policy s)) (policy_command_id c) = None" by blast
  have d: "d = p"
    using f(2) p(1) by simp
  obtain i r t where c: "c = AuthorizePlacement i r t"
    using permit_is_placement [OF f(1)] p(2) d by blast
  have permit: "policy_apply (rt_policy_codec cx) (AuthorizePlacement i r t) (rt_policy s) = (Inr p, p')"
      "bt_get (pe_processed (rt_policy s)) i = None" "pd_status p = Permit"
    using app f(3) p(2) unfolding c d by (simp_all add: permits_def)
  have "risk_made (rt_risk s) (pl_approval r)"
    using boundary approvals_okD(1) [OF ok] unfolding c by (auto split: if_splits)
  then have "authorised (rt_policy_codec cx) (rt_risk s) (placement_request_digest (rt_policy_codec cx) r) (oe_order_id (pl_order r))"
    using fresh_placement_permit(1) [OF permit] unfolding authorised_def placement_denial_None by blast
  then show ?thesis
    using fresh_placement_permit(5) [OF permit] placement_permit_decision [OF permit] by auto
qed

lemma sync_no_permit:
  assumes "policy_sync cx c d = Some sync"
  shows "sync \<noteq> AuthorizePlacement i r t"
  using assms by (cases c) (auto simp: Let_def split: option.split_asm exchange_event.split_asm if_splits)

lemma synchronised_last:
  assumes "synchronize_policy cx c d p = Inr p'" and "pe_last_decision p' = Some q" and "permits q"
  shows "p' = p"
  using assms(1)
proof (cases rule: synchronize_policy_Inr)
  case (2 sync v)
  show ?thesis
  proof (rule ccontr)
    assume "p' \<noteq> p"
    then obtain p1 digest n where f: "policy_apply_fresh (rt_policy_codec cx) sync p = Inr (v, p1)" "p' = policy_record sync digest v n p1"
      using policy_accepted [OF 2(2)] by blast
    then show False
      using permit_is_placement [OF f(1)] sync_no_permit [OF 2(1)] assms(2,3) by auto
  qed
qed simp

lemma synchronised_orders:
  assumes "synchronize_policy cx c d p = Inr p'" and "policy_order p k = Some u"
  shows "\<exists>u'. policy_order p' k = Some u'"
  using assms(1)
  by (cases rule: synchronize_policy_Inr) (use assms(2) policy_orders_kept in blast)+

lemma approvals_ok_step:
  assumes ok: "approvals_ok cx s" and "rt_step cx s c s'"
  shows "approvals_ok cx s'"
  using assms(2)
proof cases
  case (judged q j u d k i t)
  have made: "risk_made k e" if "risk_made (rt_risk s) e" for e
    using risk_made_mono [OF judged(6) that] .
  have last: "rk_last_decision k = Some e \<Longrightarrow> risk_made k e" for e
    using risk_decision_made [OF judged(6)] approvals_okD(1) [OF ok, of e] by auto
  show ?thesis
    by (rule approvals_okI)
      (use approvals_okD(2,3) [OF ok] last made judged(2) authorised_mono [of _ "rt_risk s" _ _ k] in \<open>simp; blast\<close>)+
next
  case (licensed c d p i t)
  show ?thesis
    by (rule approvals_okI)
      (use approvals_okD [OF ok] licensed_permit [OF ok licensed(3,4)] policy_orders_kept [OF licensed(4)] licensed(2)
        in \<open>simp; blast\<close>)+
next
  case (executed c d x p i t)
  show ?thesis
  proof (rule approvals_okI)
    fix q assume "pe_last_decision (rt_policy s') = Some q" "permits q"
    then show "\<exists>subject i u. pd_subject_digest q = Some subject \<and> pd_order_id q = Some i
        \<and> authorised (rt_policy_codec cx) (rt_risk s') subject i \<and> policy_order (rt_policy s') i = Some u"
      using synchronised_last [OF executed(5)] approvals_okD(2) [OF ok] executed(2) by simp
  next
    fix k order assume o: "exec_order (rt_execution s') k = Some order"
    then have "exec_order x k = Some order"
      using executed(2) by simp
    with executed(4) have "authorised (rt_policy_codec cx) (rt_risk s)
        (placement_request_digest (rt_policy_codec cx) (po_placement order)) k \<and> (\<exists>u. policy_order (rt_policy s) k = Some u)"
    proof (cases rule: exec_order_origin)
      case (old order0)
      then show ?thesis
        using approvals_okD(3) [OF ok old(1)] by (simp add: exec_progress_def)
    next
      case (new i q r local_id t)
      then have "pe_last_decision (rt_policy s) = Some q"
        using executed(3) by (auto split: if_splits)
      then show ?thesis
        using approvals_okD(2) [OF ok] new by (force simp: submit_denial_None permits_def new_paper_order_def)
    qed
    then show "authorised (rt_policy_codec cx) (rt_risk s')
        (placement_request_digest (rt_policy_codec cx) (po_placement order)) k \<and> (\<exists>u. policy_order (rt_policy s') k = Some u)"
      using synchronised_orders [OF executed(5)] executed(2) by auto
  qed (use approvals_okD(1) [OF ok] executed(2) in simp)
qed (use ok in \<open>simp_all add: approvals_ok_def\<close>)


section \<open>Reachable runtimes\<close>

lemma orders_backed_run:
  assumes "runtime_new config = Inr s0"
  shows "orders_backed (run_commands (rt_apply cx) cs s0)"
  by (rule rt_invariant [where P = orders_backed, OF _ orders_backed_step])
    (use assms in \<open>auto simp: runtime_new_Inr orders_backed_def exec_order_def exec_engine_default_def\<close>)

lemma pending_ok_run:
  assumes "runtime_new config = Inr s0"
  shows "pending_ok (run_commands (rt_apply cx) cs s0)"
  by (rule rt_invariant [where P = pending_ok, OF _ pending_ok_step])
    (use assms in \<open>auto simp: runtime_new_Inr pending_ok_def\<close>)

lemma approvals_ok_run:
  assumes "runtime_new config = Inr s0"
  shows "approvals_ok cx (run_commands (rt_apply cx) cs s0)"
  by (rule rt_invariant [where P = "approvals_ok cx", OF _ approvals_ok_step])
    (use assms in \<open>auto simp: runtime_new_Inr approvals_ok_def exec_order_def exec_engine_default_def
      risk_engine_default_def policy_engine_default_def\<close>)

lemma exec_order_run:
  fixes s :: runtime
  assumes "exec_order (rt_execution s) k = Some order"
  shows "\<exists>order'. exec_order (rt_execution (run_commands (rt_apply cx) cs s)) k = Some order' \<and> exec_progress order order'"
proof (rule rt_invariant [where P = "\<lambda>s :: runtime. \<exists>order'. exec_order (rt_execution s) k = Some order' \<and> exec_progress order order'"])
  fix s s' :: runtime and c
  assume "\<exists>order'. exec_order (rt_execution s) k = Some order' \<and> exec_progress order order'"
  then obtain order' where o: "exec_order (rt_execution s) k = Some order'" "exec_progress order order'" by blast
  assume "rt_step cx s c s'"
  then show "\<exists>order'. exec_order (rt_execution s') k = Some order' \<and> exec_progress order order'"
  proof cases
    case (executed c d x p i t)
    then show ?thesis
      using exec_apply_progress [OF o(1), of "rt_exec cx" c] exec_progress_trans [OF o(2)] by auto
  qed (use o in simp_all)
qed (use assms in simp_all)

text \<open>The views other components read do not panic on a ledger that passes its own check.\<close>

lemma ledger_views_total:
  assumes inv: "ledger_inv l" and ver: "verify_invariants l = Inr ()"
  shows "ledger_snapshot sd l \<noteq> None" and "ledger_risk_view sd l \<noteq> None" and "ledger_reconciliation_view sd req l \<noteq> None"
proof -
  have cat: "\<exists>vs. token_category incl l = Some vs" if "\<And>a. incl a \<Longrightarrow> holds_tokens a" for incl
    using category_exact [OF inv ver that] by blast
  obtain a b c d where v: "token_category (\<lambda>a. a = TokenAvailable) l = Some a" "token_category is_token_reserved l = Some b"
      "token_category is_locked_token l = Some c" "token_category holds_tokens l = Some d"
    using cat [of "\<lambda>a. a = TokenAvailable"] cat [of is_token_reserved] cat [of is_locked_token] cat [of holds_tokens]
    by (metis holds_tokens.simps(1,2,3) is_token_reserved.elims(2) is_locked_token.elims(2))
  obtain s where s: "ledger_snapshot sd l = Some s" "sn_cash_available s = balance l CashAvailable Collateral"
      "sn_cash_reserved s = cash_reserved_total (reservations l)"
    using ver by (auto simp: verify_invariants_def rbind_Inr_iff if_Inr_iff ledger_snapshot_def
        ledger_cash_reserved_eq [OF inv ver])
  then show "ledger_snapshot sd l \<noteq> None" and "ledger_risk_view sd l \<noteq> None" and "ledger_reconciliation_view sd req l \<noteq> None"
    using v cash_bound(1) [OF inv ver]
    by (simp_all add: ledger_risk_view_def ledger_reconciliation_view_def add128_def i128_new_def)
qed

lemma components_views_total:
  assumes "components_live cx r0 s"
  shows "ledger_snapshot sd (rt_ledger s) \<noteq> None" and "ledger_risk_view sd (rt_ledger s) \<noteq> None"
    and "ledger_reconciliation_view sd req (rt_ledger s) \<noteq> None"
  using assms ledger_views_total [OF reachable_inv reachable_verified]
  by (auto simp: components_live_def engine_reaches_def)

lemma no_panic:
  assumes "components_live cx r0 s"
  shows "rt_apply_fresh cx c s \<noteq> Inl TPanic"
proof (cases c)
  case (OnLedger i k t)
  have "validate_accounting_boundary s k \<noteq> Inl TPanic"
    by (cases "(s, k)" rule: validate_accounting_boundary.cases)
      (auto simp: rt_full_buy_cost_def rbind_Inl_iff ok_or_Inl_iff split: option.split order_state.split)
  then show ?thesis
    using OnLedger by (cases "validate_accounting_boundary s k")
      (auto simp: apply_accounting_def split: prod.split_asm sum.split_asm)
next
  case (OnReconciler i k t)
  have "reconciliation_boundary cx k s \<noteq> Inl TPanic"
    using components_views_total(3) [OF assms, of "rt_ledger_digest cx" "expected_ids (rt_reconciler s)"]
    by (cases k) (auto simp: capture_frame_def split: if_splits)
  then show ?thesis
    using OnReconciler by (cases "reconciliation_boundary cx k s")
      (auto simp: apply_reconciliation_def split: prod.split_asm sum.split_asm)
next
  case (OnRisk i k t)
  then show ?thesis
    using components_views_total(2) [OF assms, of "rt_ledger_digest cx"]
    by (auto simp: apply_risk_def consume_fault_def Let_def split: option.split_asm prod.split_asm sum.split_asm if_splits)
next
  case (OnPolicy i k t)
  have "policy_boundary k s \<noteq> Inl TPanic"
    by (cases k) auto
  then show ?thesis
    using OnPolicy by (cases "policy_boundary k s") (auto simp: apply_policy_def split: prod.split_asm sum.split_asm)
next
  case (OnExecution i k t)
  have "execution_boundary k s \<noteq> Inl TPanic" and sync: "synchronize_policy cx k d p \<noteq> Inl TPanic" for d p
    by (cases k; auto simp: synchronize_policy_def split: option.split prod.split sum.split)+
  then show ?thesis
    using OnExecution sync by (cases "execution_boundary k s")
      (auto simp: apply_execution_def consume_fault_def rbind_Inl_iff split: prod.split_asm sum.split_asm if_splits)
next
  case (RegisterHandoff i k n t)
  then show ?thesis
    by (cases "order_handoff (rt_execution s) k n"; cases "rt_handoff_json cx (the (order_handoff (rt_execution s) k n))")
      (auto simp: register_handoff_def consume_fault_def Let_def split: prod.split_asm sum.split_asm if_splits)
next
  case (InjectFault i f t)
  then show ?thesis
    by (simp add: inject_fault_def)
qed


section \<open>The runtime as a decision engine\<close>

lemma rt_fresh_frame:
  assumes "rt_apply_fresh cx c s = Inr (d, s')"
  shows "rt_processed s' = rt_processed s \<and> rt_accepted s' = rt_accepted s \<and> rt_halted s' = rt_halted s"
  using rt_fresh_step [OF assms] by cases simp_all

interpretation rt_engine: decision_engine "rt_apply cx" pipeline_command_id "rt_content cx"
  "\<lambda>s k. map_option fst (bt_get (rt_processed s) k)" rt_accepted "\<lambda>s. rt_halted s \<noteq> None"
  "\<lambda>s k. map_option snd (bt_get (rt_processed s) k)"
  for cx
  by unfold_locales
    (auto simp: rt_apply_def rt_install_halt_def rt_record_def rt_fresh_frame bt_get_insert checked_simps fun_eq_iff
      dest: rt_fresh_frame dest!: sym [of "Inl _"] split: option.split_asm sum.split_asm if_splits prod.split_asm)

section \<open>Confirmed trades\<close>

text \<open>What a confirmation posts: its ledger command, reservation, side, bought token, quantity,
  consideration and fee.\<close>

fun confirmed_trade ::
  "ledger_command \<Rightarrow> (command_id \<times> reservation_id \<times> order_side \<times> token_key option \<times> int \<times> int \<times> int) option" where
  "confirmed_trade (ConfirmBuy k i token quantity consideration fee _ _) =
     Some (k, i, BuySide, Some token, quantity, consideration, fee)"
| "confirmed_trade (ConfirmSell k i quantity gross fee _ _) = Some (k, i, SellSide, None, quantity, gross, fee)"
| "confirmed_trade _ = None"

lemma side_of_order_inj: "side_of_order a = side_of_order b \<longleftrightarrow> a = b"
  by (cases a; cases b) simp_all

lemma confirmation_boundary:
  assumes "validate_accounting_boundary s c = Inr ()" and "confirmed_trade c = Some (k, i, side, token, q, x, f)"
  obtains intent where "bt_get (rt_pending s) k = Some (i, intent)" "ti_side intent = side_of_order side"
    "token = None \<or> token = Some (ti_token intent)" "ti_quantity intent = q" "ti_consideration intent = x" "ti_fee intent = f"
  using assms by (cases c) (auto split: option.split_asm if_split_asm)

lemma booked_boundary:
  assumes "rt_apply_fresh cx (OnLedger i c t) s = Inr (d, s1)"
  shows "validate_accounting_boundary s c = Inr ()"
  using assms by (auto simp: apply_accounting_def rbind_Inr_iff)

section \<open>Properties\<close>

text \<open>C5: The runtime is made of its components and nothing else: in every reachable state the ledger,
  the reconciler, the risk gate, the policy and the execution are states each reaches on its own from
  its start, so that every property of a component holds inside the runtime; none of them is halted,
  even when the runtime is; and neither a command nor a snapshot ever panics.\<close>
theorem pipeline_components_are_reachable:
  assumes "runtime_new config = Inr s0" and "s = run_commands (rt_apply cx) cs s0"
  shows "(\<exists>ls. rt_ledger s = ledger_after (rt_ledger_to_vec cx) (rt_blake3 cx) ls)
    \<and> (\<exists>r0 rs. reconciler_new config = Inr r0
         \<and> rt_reconciler s = run_commands (recon_apply (rt_recon_to_vec cx) (rt_blake3 cx)) rs r0)
    \<and> (\<exists>ks. rt_risk s = run_commands (risk_apply (rt_risk_codec cx)) ks risk_engine_default)
    \<and> (\<exists>ps. rt_policy s = run_commands (policy_apply (rt_policy_codec cx)) ps policy_engine_default)
    \<and> (\<exists>xs. rt_execution s = run_commands (exec_apply (rt_exec cx)) xs exec_engine_default)
    \<and> halted (rt_ledger s) = None \<and> rc_halted (rt_reconciler s) = None \<and> rk_halted (rt_risk s) = None
    \<and> pe_halted (rt_policy s) = None \<and> xe_halted (rt_execution s) = None
    \<and> rt_apply_fresh cx c s \<noteq> Inl TPanic \<and> rt_snapshot cx js s \<noteq> None"
proof -
  obtain r0 where r0: "reconciler_new config = Inr r0"
    using assms(1) by (auto simp: runtime_new_Inr)
  have live: "components_live cx r0 s"
    unfolding assms(2) by (rule components_live_run [OF assms(1) r0])
  have "rt_snapshot cx js s \<noteq> None"
    using components_views_total(1) [OF live, of "rt_ledger_digest cx"]
    by (auto simp: rt_snapshot_def rt_state_digest_def component_digests_def)
  then show ?thesis
    using live no_panic [OF live] r0 unfolding components_live_def engine_reaches_def by blast
qed


text \<open>C2: Every paper order of a reachable runtime rests on an approval and on capital: some placement
  with the digest of its placement was licensed for its id on a decision that the runtime's own risk
  gate made, \<open>Approve\<close>, for the digest of that placement's order; the policy still tracks the order;
  and unless the order was cancelled or rejected, the ledger reservation under its id has not been released.\<close>
theorem paper_orders_are_approved_and_backed:
  assumes "runtime_new config = Inr s0" and "s = run_commands (rt_apply cx) cs s0"
    and "exec_order (rt_execution s) k = Some order"
  shows "(\<exists>r i. placement_request_digest (rt_policy_codec cx) r = placement_request_digest (rt_policy_codec cx) (po_placement order)
         \<and> oe_order_id (pl_order r) = k \<and> map_option snd (bt_get (rk_processed (rt_risk s)) i) = Some (pl_approval r)
         \<and> rd_status (pl_approval r) = Approve
         \<and> rd_candidate_order_digest (pl_approval r) = order_exposure_digest (rt_risk_codec cx) (pl_order r))
    \<and> policy_order (rt_policy s) k \<noteq> None
    \<and> (case po_state order of XCanceled \<Rightarrow> True | XRejected _ _ \<Rightarrow> True
       | _ \<Rightarrow> (case ledger_reservation (rt_ledger s) k of None \<Rightarrow> False | Some r \<Rightarrow> res_status r \<noteq> ReservationReleased))"
proof -
  have "holds_capital (rt_ledger s) k" if "\<not> returned_capital (po_state order)"
    using orders_backed_order [OF orders_backed_run [OF assms(1)]] assms(2,3) that by blast
  then have "case po_state order of XCanceled \<Rightarrow> True | XRejected _ _ \<Rightarrow> True
       | _ \<Rightarrow> (case ledger_reservation (rt_ledger s) k of None \<Rightarrow> False | Some r \<Rightarrow> res_status r \<noteq> ReservationReleased)"
    by (cases "po_state order") (auto simp: holds_capital_def)
  moreover have "approvals_ok cx s"
    unfolding assms(2) by (rule approvals_ok_run [OF assms(1)])
  note approvals_okD(3) [OF this assms(3)]
  ultimately show ?thesis
    unfolding authorised_def risk_made_def by blast
qed

text \<open>C32: What a matched order leaves over stays locked: once an order is fully matched, every later
  command to release its reservation is refused and leaves the ledger as it was, and when the
  command is otherwise well formed and in time the refusal halts the runtime for good.\<close>
theorem matched_leftover_cannot_be_released:
  assumes "exec_order (rt_execution s) r = Some order" and "po_state order = XFullyMatched"
    and "s' = run_commands (rt_apply cx) cs s"
    and "bt_get (rt_processed s') i = None"
  shows "\<exists>e s2. rt_apply cx (OnLedger i (ReleaseReservation k r t) u) s' = (Inl e, s2) \<and> rt_ledger s2 = rt_ledger s'
    \<and> (rt_content cx (OnLedger i (ReleaseReservation k r t) u) = Inr digest
       \<and> (case rt_last_recorded_at s' of None \<Rightarrow> True | Some p \<Rightarrow> p \<le> u) \<longrightarrow> rt_halted s2 \<noteq> None)"
proof -
  let ?c = "OnLedger i (ReleaseReservation k r t) u"
  obtain order' where o: "exec_order (rt_execution s') r = Some order'" "exec_progress order order'"
    unfolding assms(3) using exec_order_run [OF assms(1)] by blast
  then have m: "po_state order' = XFullyMatched"
    using assms(2) by (simp add: exec_progress_def)
  have refused: "rt_apply_fresh cx ?c s' \<noteq> Inr v" for v
    using booked_boundary [of cx i "ReleaseReservation k r t" u s'] o(1) m by (cases v) (auto split: if_split_asm)
  then obtain e where e: "rt_apply_fresh cx ?c s' = Inl e"
    by (cases "rt_apply_fresh cx ?c s'") auto
  have np: "e \<noteq> TPanic"
    using e o(1) m by (auto simp: apply_accounting_def split: if_split_asm)
  show ?thesis
    using assms(4) e np
    by (cases "rt_halted s'"; cases "rt_content cx ?c"; cases "rt_last_recorded_at s'")
      (auto simp: rt_apply_def rt_install_halt_def simp del: rt_apply_fresh.simps)
qed


section \<open>One trade through the whole pipeline\<close>

text \<open>Funding, the opening reconciliation, the approval and reservation of a purchase of eight tokens
  for at most four, its licence and submission, a fill for three, the hand-off and the posting. The
  commands are computed from the state they are applied to; the digests of the witness are short.\<close>

definition demo_rt_codec :: rt_codec where
  "demo_rt_codec = \<lparr>rt_to_vec = \<lambda>_. Inr [], rt_ledger_to_vec = \<lambda>_. Inr [], rt_recon_to_vec = \<lambda>_. Inr [],
     rt_ledger_json = \<lparr>js_account = \<lambda>_. [], js_asset = \<lambda>_. [], js_reservation = \<lambda>_. [], js_token = \<lambda>_. [],
       js_position = \<lambda>_. [], js_lock = \<lambda>_. []\<rparr>,
     rt_recon_json = \<lparr>rj_text = \<lambda>_. [], rj_intent = \<lambda>_. [], rj_observation = \<lambda>_. [], rj_frame = \<lambda>_. [], rj_halted = \<lambda>_. []\<rparr>,
     rt_handoff_json = \<lambda>h. Inr (le_bytes 1 (hf_source_sequence h)), rt_outcome_json = \<lambda>_. [], rt_asset_debug = \<lambda>_. [],
     rt_exec = demo_exec_codec\<rparr>"

definition demo_runtime :: runtime where
  "demo_runtime = (case runtime_new demo_config of Inr s \<Rightarrow> s | Inl _ \<Rightarrow> undefined)"

fun demo_play :: "(runtime \<Rightarrow> pipeline_command) list \<Rightarrow> runtime \<Rightarrow> runtime" where
  "demo_play [] s = s"
| "demo_play (f # fs) s = demo_play fs (snd (rt_apply demo_rt_codec (f s) s))"

definition demo_gate :: "runtime \<Rightarrow> pipeline_command" where
  "demo_gate s = (let chain = demo_chain\<lparr>ch_collateral := 10, ch_token_balances := []\<rparr> in
     OnReconciler 2 (Reconcile 2 (the (capture_frame (rt_ledger_digest demo_rt_codec) (rt_reconciler s) (rt_ledger s) chain 4)) 4) 4)"

definition demo_judge :: "runtime \<Rightarrow> pipeline_command" where
  "demo_judge s = OnRisk 3 (Evaluate 3
     (demo_request\<lparr>rq_reconciliation := recon_risk_gate (rt_recon_digest demo_rt_codec) (rt_reconciler s),
        rq_ledger := the (ledger_risk_view (rt_ledger_digest demo_rt_codec) (rt_ledger s)),
        rq_open_orders := [], rq_candidate := demo_order 7 demo_up BuySide 8, rq_evaluated_at := 5\<rparr>) 5) 5"

definition demo_rt_request :: "runtime \<Rightarrow> placement_request" where
  "demo_rt_request s = demo_placement (the (rk_last_decision (rt_risk s))) 7 7"

definition demo_license :: "runtime \<Rightarrow> pipeline_command" where
  "demo_license s = OnPolicy 6 (AuthorizePlacement 6 (demo_rt_request s) 7) 7"

definition demo_rt_submit :: "runtime \<Rightarrow> pipeline_command" where
  "demo_rt_submit s = OnExecution 7 (Submit 7 (the (pe_last_decision (rt_policy s))) (demo_rt_request s) ''l'' 8) 8"

definition demo_opening :: "(runtime \<Rightarrow> pipeline_command) list" where
  "demo_opening = [\<lambda>_. OnLedger 1 (FundCollateral 1 10 1) 1, demo_gate, demo_judge,
     \<lambda>_. OnLedger 4 (ReserveCollateral 4 7 4 6) 6,
     \<lambda>_. OnPolicy 5 (ObserveMode 5 \<lparr>mo_sequence = 1, mo_mode = ModePostOnly, mo_observed_at = 2, mo_valid_until = 50\<rparr> 6) 6]"

definition demo_rt_match :: "runtime \<Rightarrow> pipeline_command" where
  "demo_rt_match s = OnExecution 8 (Observe 8 \<lparr>eo_order_id = 7, eo_source_sequence = 1, eo_exchange_order_id = Some ''x'',
     eo_event = EvMatch (demo_fill ''f'' 8 3 8 3 21) True, eo_event_time = 8, eo_received_time = 9\<rparr> 9) 9"

definition demo_trading :: "(runtime \<Rightarrow> pipeline_command) list" where
  "demo_trading = demo_opening @ [demo_license, demo_rt_submit, demo_rt_match, \<lambda>_. RegisterHandoff 9 7 0 10,
     \<lambda>_. OnLedger 10 (ConfirmBuy 21 7 demo_up 8 3 0 ''x'' 11) 11]"



definition demo_state :: "nat \<Rightarrow> runtime" where
  "demo_state n = demo_play (take n demo_trading) demo_runtime"

lemma demo_runtime_new: "runtime_new demo_config = Inr demo_runtime"
  unfolding demo_runtime_def runtime_new_def demo_new by simp

lemma demo_play_runs: "\<exists>cs. demo_play fs s = run_commands (rt_apply demo_rt_codec) cs s"
proof (induction fs arbitrary: s)
  case Nil
  show ?case
    by (rule exI [of _ "[]"]) simp
next
  case (Cons f fs)
  then obtain cs where "demo_play fs (snd (rt_apply demo_rt_codec (f s) s))
      = run_commands (rt_apply demo_rt_codec) cs (snd (rt_apply demo_rt_codec (f s) s))" by blast
  then have "demo_play (f # fs) s = run_commands (rt_apply demo_rt_codec) (f s # cs) s"
    by simp
  then show ?case by blast
qed

lemma demo_state_runs: "\<exists>cs. demo_state n = run_commands (rt_apply demo_rt_codec) cs demo_runtime"
  unfolding demo_state_def by (rule demo_play_runs)

definition demo_release :: pipeline_command where
  "demo_release = OnLedger 30 (ReleaseReservation 30 7 12) 12"

definition demo_confirm :: ledger_command where
  "demo_confirm = ConfirmBuy 21 7 demo_up 8 3 0 ''x'' 11"

definition demo_before_confirm :: "runtime \<Rightarrow> bool" where
  "demo_before_confirm s \<longleftrightarrow> bt_get (rt_processed s) 10 = None \<and> is_ok (fst (rt_apply demo_rt_codec (OnLedger 10 demo_confirm 11) s))"

definition demo_after_trade :: "runtime \<Rightarrow> bool" where
  "demo_after_trade s \<longleftrightarrow>
     (case exec_order (rt_execution s) 7 of None \<Rightarrow> False | Some order \<Rightarrow> po_state order = XFullyMatched)
     \<and> (case ledger_reservation (rt_ledger s) 7 of None \<Rightarrow> False
        | Some r \<Rightarrow> res_status r = ReservationActive \<and> remaining_micros r = 1)
     \<and> bt_get (rt_processed s) 30 = None \<and> rt_halted s = None \<and> rt_last_recorded_at s = Some 11
     \<and> is_ok (rt_content demo_rt_codec demo_release)"

lemma demo_confirming: "demo_before_confirm (demo_state 9)"
  by code_simp

lemma demo_traded: "demo_after_trade (demo_state 10)"
  by code_simp

lemma demo_traded_order:
  obtains order where "exec_order (rt_execution (demo_state 10)) 7 = Some order" "po_state order = XFullyMatched"
  using demo_traded by (auto simp: demo_after_trade_def split: option.split_asm)

theorem pipeline_components_are_reachable_witness:
  "halted (rt_ledger (demo_state 10)) = None \<and> rt_apply_fresh demo_rt_codec demo_release (demo_state 10) \<noteq> Inl TPanic"
proof -
  obtain cs where cs: "demo_state 10 = run_commands (rt_apply demo_rt_codec) cs demo_runtime"
    using demo_state_runs by blast
  show ?thesis
    using pipeline_components_are_reachable [OF demo_runtime_new cs, of demo_release] by simp
qed


theorem paper_orders_are_approved_and_backed_witness:
  "policy_order (rt_policy (demo_state 10)) 7 \<noteq> None
     \<and> (case ledger_reservation (rt_ledger (demo_state 10)) 7 of None \<Rightarrow> False | Some r \<Rightarrow> res_status r \<noteq> ReservationReleased)"
proof -
  obtain cs where cs: "demo_state 10 = run_commands (rt_apply demo_rt_codec) cs demo_runtime"
    using demo_state_runs by blast
  obtain order where "exec_order (rt_execution (demo_state 10)) 7 = Some order" "po_state order = XFullyMatched"
    by (rule demo_traded_order)
  then show ?thesis
    using paper_orders_are_approved_and_backed [OF demo_runtime_new cs, of 7 order] by simp
qed

theorem matched_leftover_cannot_be_released_witness:
  "\<exists>e s2. rt_apply demo_rt_codec demo_release (demo_state 10) = (Inl e, s2) \<and> rt_halted s2 \<noteq> None
     \<and> (case ledger_reservation (rt_ledger s2) 7 of None \<Rightarrow> False
        | Some r \<Rightarrow> res_status r = ReservationActive \<and> remaining_micros r = 1)"
proof -
  obtain order where o: "exec_order (rt_execution (demo_state 10)) 7 = Some order" "po_state order = XFullyMatched"
    by (rule demo_traded_order)
  have r: "demo_state 10 = run_commands (rt_apply demo_rt_codec) [] (demo_state 10)"
    by simp
  have f: "bt_get (rt_processed (demo_state 10)) 30 = None" "rt_last_recorded_at (demo_state 10) = Some 11"
      "is_ok (rt_content demo_rt_codec demo_release)"
    using demo_traded by (simp_all add: demo_after_trade_def)
  then obtain digest where "rt_content demo_rt_codec demo_release = Inr digest"
    by (auto simp: is_ok_def split: sum.split_asm)
  then show ?thesis
    using matched_leftover_cannot_be_released [OF o r f(1), of 30 12 12 digest] f(2) demo_traded
    by (auto simp: demo_after_trade_def demo_release_def)
qed

section \<open>Capital that a split takes away\<close>

definition demo_split_first :: "(runtime \<Rightarrow> pipeline_command) list" where
  "demo_split_first = demo_opening @ [\<lambda>_. OnLedger 20 (ConfirmSplit 20 7 demo_up demo_down 4 ''x'' 6) 6, demo_license, demo_rt_submit]"

definition submitted_without_capital :: "runtime \<Rightarrow> risk_order_id \<Rightarrow> bool" where
  "submitted_without_capital s k \<longleftrightarrow>
     (case (exec_order (rt_execution s) k, ledger_reservation (rt_ledger s) k) of
        (Some order, Some r) \<Rightarrow> rt_halted s = None \<and> po_state order = XActive XSubmitted
          \<and> res_status r = ReservationConsumed \<and> remaining_micros r = 0
          \<and> (case rt_full_buy_cost (pl_order (po_placement order)) of Inl _ \<Rightarrow> False | Inr cost \<Rightarrow> 0 < cost)
      | _ \<Rightarrow> False)"

lemma demo_split_takes_capital: "submitted_without_capital (demo_play demo_split_first demo_runtime) 7"
  by code_simp


end
