(* ===== verification/Strategy_Proposal.thy ===== *)
theory Strategy_Proposal
  imports Portfolio_Risk
begin

text \<open>
  The proposal boundary of \<open>crates/strategy-proposal/src/lib.rs\<close>: a strategy proposes an order in a
  context it captured, and the engine turns the proposal into a candidate for the risk gate or rejects
  it. This theory holds the data and the engine; \<open>Strategy_Theorems\<close> what it guarantees. The capture
  of a context from the session coordinator is not modelled: a context is an input.
\<close>

section \<open>Data\<close>

type_synonym proposal_command_id = bytes32
type_synonym proposal_id = bytes32

datatype strategy_class = CompleteSetArbitrage | MarketMaking | SequentialHedge | StatisticalDirectional

datatype strategy_asset = Bitcoin | Ethereum

record proposal_level =
  lv_price :: int
  lv_quantity :: int

record proposal_book =
  bk_authoritative :: bool
  bk_best_bid :: "proposal_level option"
  bk_best_ask :: "proposal_level option"

record strategy_context =
  cx_captured_at :: int
  cx_valid_until :: int
  cx_coordinator_evaluated_at :: int
  cx_coordinator_digest :: bytes32
  cx_applied_frame_digest :: bytes32
  cx_session_digest :: bytes32
  cx_market_digest :: bytes32
  cx_reference_digest :: bytes32
  cx_supervision_digest :: bytes32
  cx_asset :: strategy_asset
  cx_session_start_time_ms :: int
  cx_session_end_time_ms :: int
  cx_condition_id :: string
  cx_up_token :: token_key
  cx_down_token :: token_key
  cx_current :: bool
  cx_active_ready :: bool
  cx_up_book :: "proposal_book option"
  cx_down_book :: "proposal_book option"
  cx_context_digest :: bytes32

record proposal_intent =
  pi_proposal_id :: proposal_id
  pi_strategy :: strategy_class
  pi_token :: token_key
  pi_side :: order_side
  pi_quantity :: int
  pi_partial_fill :: int
  pi_limit_price :: int
  pi_max_fee :: int
  pi_evaluated_at :: int
  pi_expires_at :: int

datatype proposal_command =
  Propose proposal_command_id strategy_context proposal_intent int

fun proposal_command_id :: "proposal_command \<Rightarrow> proposal_command_id" where
  "proposal_command_id (Propose i _ _ _) = i"

fun proposal_recorded_at :: "proposal_command \<Rightarrow> int" where
  "proposal_recorded_at (Propose _ _ _ t) = t"

datatype proposal_status = Candidate | ProposalReject

datatype proposal_reason =
    ContextAccepted
  | ProposalSourceNotReady
  | ProposalContextExpired
  | IntentExpired
  | ProposalUnknownToken
  | InvalidEconomics
  | ProposalAlreadyUsed

record proposal_decision =
  pp_command_id :: proposal_command_id
  pp_proposal_id :: proposal_id
  pp_status :: proposal_status
  pp_reason :: proposal_reason
  pp_context_digest :: bytes32
  pp_intent_digest :: bytes32
  pp_candidate :: "order_exposure option"
  pp_decision_digest :: bytes32

datatype proposal_error =
    SpTimestamp
  | SpCommandBound
  | SpJson string
  | SpVersion int
  | SpIdempotencyConflict
  | SpClockRegression
  | SpContextDigest
  | SpContextHistory
  | SpOverflow
  | SpHalted string

fun proposal_error_text :: "proposal_error \<Rightarrow> string" where
  "proposal_error_text SpTimestamp = ''proposal command timestamp is invalid''"
| "proposal_error_text SpCommandBound = ''proposal command exceeds its canonical bound''"
| "proposal_error_text (SpJson e) = ''proposal command JSON is invalid: '' @ e"
| "proposal_error_text (SpVersion v) = ''unsupported proposal command version: '' @ show_nat (nat v)"
| "proposal_error_text SpIdempotencyConflict = ''proposal command id was reused for different content''"
| "proposal_error_text SpClockRegression = ''proposal command clock regressed''"
| "proposal_error_text SpContextDigest = ''strategy context checksum is invalid''"
| "proposal_error_text SpContextHistory = ''strategy context history regressed or equivocated''"
| "proposal_error_text SpOverflow = ''proposal arithmetic or counter overflow''"
| "proposal_error_text (SpHalted reason) = ''proposal engine is halted: '' @ reason"

record proposal_engine =
  spe_processed :: "(proposal_command_id, bytes32 \<times> proposal_decision) btree"
  spe_used_proposals :: "proposal_id btset"
  spe_accepted :: int
  spe_candidate_count :: int
  spe_reject_count :: int
  spe_last_recorded_at :: "int option"
  spe_last_captured_at :: "int option"
  spe_last_context_digest :: "bytes32 option"
  spe_last_decision :: "proposal_decision option"
  spe_halted :: "string option"

definition proposal_engine_default :: proposal_engine where
  "proposal_engine_default = \<lparr>spe_processed = [], spe_used_proposals = [], spe_accepted = 0,
     spe_candidate_count = 0, spe_reject_count = 0, spe_last_recorded_at = None, spe_last_captured_at = None,
     spe_last_context_digest = None, spe_last_decision = None, spe_halted = None\<rparr>"

text \<open>\<open>serde_json\<close> on the types that are hashed, and \<open>blake3\<close>.\<close>

record proposal_codec =
  sc_to_vec :: "proposal_command wire \<Rightarrow> string + string"
  sc_context_json :: "strategy_context \<Rightarrow> string"
  sc_intent_json :: "proposal_intent \<Rightarrow> string"
  sc_decision_json :: "proposal_decision \<Rightarrow> string"
  sc_blake3 :: "string \<Rightarrow> bytes32"

section \<open>Digests\<close>

definition context_digest :: "proposal_codec \<Rightarrow> strategy_context \<Rightarrow> bytes32" where
  "context_digest cx c = sc_blake3 cx
     (''strategy-proposal-context-v1'' @ prefixed (sc_context_json cx (c\<lparr>cx_context_digest := 0\<rparr>)))"

definition verify_context :: "proposal_codec \<Rightarrow> strategy_context \<Rightarrow> bool" where
  "verify_context cx c = (cx_context_digest c = context_digest cx c)"

definition proposal_intent_digest :: "proposal_codec \<Rightarrow> proposal_intent \<Rightarrow> bytes32" where
  "proposal_intent_digest cx i = sc_blake3 cx (''strategy-proposal-intent-v1'' @ prefixed (sc_intent_json cx i))"

definition proposal_decision_digest :: "proposal_codec \<Rightarrow> proposal_decision \<Rightarrow> bytes32" where
  "proposal_decision_digest cx d = sc_blake3 cx
     (''strategy-proposal-decision-v1'' @ prefixed (sc_decision_json cx (d\<lparr>pp_decision_digest := 0\<rparr>)))"

definition proposal_verify_digest :: "proposal_codec \<Rightarrow> proposal_decision \<Rightarrow> bool" where
  "proposal_verify_digest cx d = (pp_decision_digest d = proposal_decision_digest cx d)"

definition derived_order_id :: "proposal_codec \<Rightarrow> proposal_id \<Rightarrow> bytes32 \<Rightarrow> bytes32 \<Rightarrow> risk_order_id" where
  "derived_order_id cx proposal context intent = sc_blake3 cx
     (''strategy-proposal-risk-order-v1'' @ bytes_of_id proposal @ bytes_of_id context @ bytes_of_id intent)"

section \<open>Judging a proposal\<close>

definition book_ready :: "proposal_book option \<Rightarrow> bool" where
  "book_ready b = (case b of None \<Rightarrow> False
     | Some v \<Rightarrow> bk_authoritative v \<and> bk_best_bid v \<noteq> None \<and> bk_best_ask v \<noteq> None)"

definition proposal_books_ready :: "proposal_book option \<Rightarrow> proposal_book option \<Rightarrow> bool" where
  "proposal_books_ready up down = list_all book_ready [up, down]"

definition valid_economics :: "proposal_intent \<Rightarrow> bool" where
  "valid_economics i \<longleftrightarrow> 0 < pi_quantity i \<and> pi_quantity i \<le> 1000000000000 \<and> 0 < pi_partial_fill i
     \<and> pi_partial_fill i \<le> pi_quantity i \<and> 0 \<le> pi_limit_price i \<and> pi_limit_price i \<le> 1000000
     \<and> 0 \<le> pi_max_fee i \<and> pi_max_fee i \<le> 1000000000 \<and> 0 \<le> pi_evaluated_at i \<and> 0 \<le> pi_expires_at i"

definition proposal_judgement :: "strategy_context \<Rightarrow> proposal_intent \<Rightarrow> proposal_engine \<Rightarrow> proposal_reason" where
  "proposal_judgement c i s =
     (if bs_mem (pi_proposal_id i) (spe_used_proposals s) then ProposalAlreadyUsed
      else if \<not> cx_current c \<or> \<not> cx_active_ready c \<or> \<not> proposal_books_ready (cx_up_book c) (cx_down_book c)
      then ProposalSourceNotReady
      else if cx_valid_until c < pi_evaluated_at i then ProposalContextExpired
      else if pi_expires_at i < pi_evaluated_at i then IntentExpired
      else if pi_token i \<noteq> cx_up_token c \<and> pi_token i \<noteq> cx_down_token c then ProposalUnknownToken
      else if \<not> valid_economics i then InvalidEconomics
      else ContextAccepted)"

definition candidate_of :: "proposal_codec \<Rightarrow> strategy_context \<Rightarrow> proposal_intent \<Rightarrow> order_exposure" where
  "candidate_of cx c i =
     \<lparr>oe_order_id = derived_order_id cx (pi_proposal_id i) (cx_context_digest c) (proposal_intent_digest cx i),
      oe_token = pi_token i, oe_side = pi_side i, oe_quantity = pi_quantity i,
      oe_partial_fill = pi_partial_fill i, oe_limit_price = pi_limit_price i, oe_max_fee = pi_max_fee i\<rparr>"

definition proposal_evaluate ::
  "proposal_codec \<Rightarrow> proposal_command_id \<Rightarrow> strategy_context \<Rightarrow> proposal_intent \<Rightarrow> proposal_engine
    \<Rightarrow> proposal_error + proposal_decision \<times> proposal_engine" where
  "proposal_evaluate cx command_id c i s =
     (let reason = proposal_judgement c i s;
          status = (if reason = ContextAccepted then Candidate else ProposalReject);
          used = s\<lparr>spe_used_proposals := bs_insert (pi_proposal_id i) (spe_used_proposals s)\<rparr> in
      rbind (if status = Candidate
          then rbind (ok_or (addu64 (spe_candidate_count used) 1) SpOverflow) (\<lambda>n. Inr (used\<lparr>spe_candidate_count := n\<rparr>))
          else rbind (ok_or (addu64 (spe_reject_count used) 1) SpOverflow) (\<lambda>n. Inr (used\<lparr>spe_reject_count := n\<rparr>))) (\<lambda>s'.
      let d = \<lparr>pp_command_id = command_id, pp_proposal_id = pi_proposal_id i, pp_status = status, pp_reason = reason,
            pp_context_digest = cx_context_digest c, pp_intent_digest = proposal_intent_digest cx i,
            pp_candidate = (if status = Candidate then Some (candidate_of cx c i) else None), pp_decision_digest = 0\<rparr>
      in Inr (d\<lparr>pp_decision_digest := proposal_decision_digest cx d\<rparr>, s')))"

section \<open>The engine\<close>

fun proposal_validate_command :: "proposal_command \<Rightarrow> proposal_error + unit" where
  "proposal_validate_command (Propose _ c i t) =
     (if t < 0 \<or> pi_evaluated_at i \<noteq> t \<or> t < cx_captured_at c then Inl SpTimestamp else Inr ())"

definition proposal_encode_command :: "proposal_codec \<Rightarrow> proposal_command \<Rightarrow> proposal_error + string" where
  "proposal_encode_command cx c =
     rbind (proposal_validate_command c) (\<lambda>_.
       case sc_to_vec cx \<lparr>wire_version = 1, wire_command = c\<rparr> of
         Inl e \<Rightarrow> Inl (SpJson e)
       | Inr bytes \<Rightarrow> if 262144 < int (length bytes) then Inl SpCommandBound else Inr bytes)"

definition proposal_decode_command ::
  "(string \<Rightarrow> string + proposal_command wire) \<Rightarrow> string \<Rightarrow> proposal_error + proposal_command" where
  "proposal_decode_command deserialize bytes =
     (if 262144 < int (length bytes) then Inl SpCommandBound
      else case deserialize bytes of
        Inl e \<Rightarrow> Inl (SpJson e)
      | Inr w \<Rightarrow>
          if wire_version w \<noteq> 1 then Inl (SpVersion (wire_version w))
          else rbind (proposal_validate_command (wire_command w)) (\<lambda>_. Inr (wire_command w)))"

definition proposal_content :: "proposal_codec \<Rightarrow> proposal_command \<Rightarrow> proposal_error + bytes32" where
  "proposal_content cx c = rbind (proposal_encode_command cx c) (\<lambda>bytes. Inr (sc_blake3 cx bytes))"

definition proposal_halt :: "proposal_error \<Rightarrow> proposal_engine \<Rightarrow> (proposal_error + proposal_decision) \<times> proposal_engine" where
  "proposal_halt e s = (Inl e, s\<lparr>spe_halted := Some (proposal_error_text e)\<rparr>)"

text \<open>The test both strategy engines make on the history of contexts.\<close>

definition context_regressed :: "int option \<Rightarrow> bytes32 option \<Rightarrow> strategy_context \<Rightarrow> bool" where
  "context_regressed last_at last_digest c \<longleftrightarrow>
     (case last_at of None \<Rightarrow> False | Some p \<Rightarrow> cx_captured_at c < p)
     \<or> (last_at = Some (cx_captured_at c)
        \<and> (case last_digest of None \<Rightarrow> False | Some d \<Rightarrow> d \<noteq> cx_context_digest c))"

definition proposal_record ::
  "proposal_command_id \<Rightarrow> bytes32 \<Rightarrow> strategy_context \<Rightarrow> int \<Rightarrow> proposal_decision \<Rightarrow> int \<Rightarrow> proposal_engine \<Rightarrow> proposal_engine" where
  "proposal_record i digest c t d n s = s\<lparr>spe_accepted := n, spe_last_recorded_at := Some t,
     spe_last_captured_at := Some (cx_captured_at c), spe_last_context_digest := Some (cx_context_digest c),
     spe_last_decision := Some d, spe_processed := bt_insert i (digest, d) (spe_processed s)\<rparr>"

fun proposal_apply ::
  "proposal_codec \<Rightarrow> proposal_command \<Rightarrow> proposal_engine \<Rightarrow> (proposal_error + proposal_decision) \<times> proposal_engine" where
  "proposal_apply cx (Propose i c p t) s =
     (case spe_halted s of
        Some reason \<Rightarrow> (Inl (SpHalted reason), s)
      | None \<Rightarrow>
          (case proposal_content cx (Propose i c p t) of
             Inl e \<Rightarrow> (Inl e, s)
           | Inr digest \<Rightarrow>
               (case bt_get (spe_processed s) i of
                  Some (existing, decision) \<Rightarrow>
                    if existing = digest then (Inr decision, s)
                    else proposal_halt SpIdempotencyConflict s
                | None \<Rightarrow>
                    if (case spe_last_recorded_at s of None \<Rightarrow> False | Some q \<Rightarrow> t < q)
                    then proposal_halt SpClockRegression s
                    else if \<not> verify_context cx c then proposal_halt SpContextDigest s
                    else if context_regressed (spe_last_captured_at s) (spe_last_context_digest s) c
                    then proposal_halt SpContextHistory s
                    else
                      (case proposal_evaluate cx i c p s of
                         Inl e \<Rightarrow> if e = SpOverflow then proposal_halt SpOverflow s else (Inl e, s)
                       | Inr (d, s1) \<Rightarrow>
                           (case addu64 (spe_accepted s1) 1 of
                              None \<Rightarrow> proposal_halt SpOverflow s
                            | Some n \<Rightarrow> (Inr d, proposal_record i digest c t d n s1))))))"

section \<open>The digest and the snapshot\<close>

record proposal_json =
  sj_count :: "int \<Rightarrow> string"
  sj_time :: "int option \<Rightarrow> string"
  sj_digest :: "bytes32 option \<Rightarrow> string"
  sj_last_decision :: "proposal_decision option \<Rightarrow> string"
  sj_decision :: "proposal_decision \<Rightarrow> string"
  sj_halted :: "string option \<Rightarrow> string"

definition proposal_state_digest :: "proposal_json \<Rightarrow> (string \<Rightarrow> bytes32) \<Rightarrow> proposal_engine \<Rightarrow> bytes32" where
  "proposal_state_digest js blake3 s = blake3
     (''strategy-proposal-state-v1''
      @ concat (map (\<lambda>e. bytes_of_id (fst e)) (spe_used_proposals s))
      @ concat (map (\<lambda>(i, content, decision). bytes_of_id i @ bytes_of_id content @ prefixed (sj_decision js decision))
          (spe_processed s))
      @ prefixed (sj_count js (spe_accepted s))
      @ prefixed (sj_count js (spe_candidate_count s))
      @ prefixed (sj_count js (spe_reject_count s))
      @ prefixed (sj_time js (spe_last_recorded_at s))
      @ prefixed (sj_time js (spe_last_captured_at s))
      @ prefixed (sj_digest js (spe_last_context_digest s))
      @ prefixed (sj_last_decision js (spe_last_decision s))
      @ prefixed (sj_halted js (spe_halted s)))"

record proposal_snapshot =
  pn_accepted_commands :: int
  pn_proposal_count :: nat
  pn_candidate_count :: int
  pn_reject_count :: int
  pn_last_captured_at :: "int option"
  pn_last_context_digest :: "bytes32 option"
  pn_last_decision :: "proposal_decision option"
  pn_halted :: bool
  pn_halt_reason :: "string option"
  pn_digest :: bytes32

definition proposal_snapshot :: "(proposal_engine \<Rightarrow> bytes32) \<Rightarrow> proposal_engine \<Rightarrow> proposal_snapshot" where
  "proposal_snapshot state_digest s =
     \<lparr>pn_accepted_commands = spe_accepted s, pn_proposal_count = length (spe_used_proposals s),
      pn_candidate_count = spe_candidate_count s, pn_reject_count = spe_reject_count s,
      pn_last_captured_at = spe_last_captured_at s, pn_last_context_digest = spe_last_context_digest s,
      pn_last_decision = spe_last_decision s, pn_halted = (spe_halted s \<noteq> None),
      pn_halt_reason = spe_halted s, pn_digest = state_digest s\<rparr>"

end
