(* ===== verification/Complete_Set_Arbitrage.thy ===== *)
theory Complete_Set_Arbitrage
  imports Strategy_Proposal
begin

text \<open>
  The detector of complete-set arbitrage of \<open>crates/complete-set-arbitrage/src/lib.rs\<close>: one token of
  each outcome of a market is worth one unit together, so a pair that can be bought for less (and
  merged) or sold for more (after a split) earns the difference. This theory holds the data, the
  calculation and the engine; \<open>Strategy_Theorems\<close> what they guarantee.
\<close>

section \<open>Data\<close>

type_synonym arbitrage_command_id = bytes32
type_synonym arbitrage_evaluation_id = bytes32

datatype arbitrage_direction = BuyPair | SellPair

record arbitrage_constraints =
  ac_min_quantity :: int
  ac_max_quantity :: int
  ac_partial_fill :: int
  ac_up_max_fee :: int
  ac_down_max_fee :: int
  ac_conversion_max_cost :: int
  ac_min_net_profit :: int
  ac_min_roi_bps :: int

record arbitrage_request =
  ar_evaluation_id :: arbitrage_evaluation_id
  ar_direction :: arbitrage_direction
  ar_context :: strategy_context
  ar_constraints :: arbitrage_constraints
  ar_evaluated_at :: int
  ar_expires_at :: int

datatype arbitrage_command = EvaluateArbitrage arbitrage_command_id arbitrage_request int

fun arbitrage_command_id :: "arbitrage_command \<Rightarrow> arbitrage_command_id" where
  "arbitrage_command_id (EvaluateArbitrage i _ _) = i"

fun arbitrage_recorded_at :: "arbitrage_command \<Rightarrow> int" where
  "arbitrage_recorded_at (EvaluateArbitrage _ _ t) = t"

datatype arbitrage_status = Opportunity | NoOpportunity

datatype arbitrage_reason =
    ExecutableProfit
  | SourceNotReady
  | ContextExpired
  | RequestExpired
  | InvalidConstraints
  | InsufficientLiquidity
  | NonPositiveProfit
  | ProfitBelowMinimum
  | RoiBelowMinimum
  | UndefinedRoi
  | EvaluationAlreadyUsed

record arbitrage_plan =
  ap_direction :: arbitrage_direction
  ap_quantity :: int
  ap_up_price :: int
  ap_down_price :: int
  ap_up_value :: int
  ap_down_value :: int
  ap_fee_budget :: int
  ap_conversion_cost :: int
  ap_deployed_capital :: int
  ap_net_profit :: int
  ap_roi_bps :: int
  ap_intents :: "proposal_intent \<times> proposal_intent"
  ap_plan_digest :: bytes32

record arbitrage_decision =
  ad_command_id :: arbitrage_command_id
  ad_evaluation_id :: arbitrage_evaluation_id
  ad_status :: arbitrage_status
  ad_reason :: arbitrage_reason
  ad_context_digest :: bytes32
  ad_request_digest :: bytes32
  ad_plan :: "arbitrage_plan option"
  ad_decision_digest :: bytes32

datatype arbitrage_error =
    ArbTimestamp
  | ArbCommandBound
  | ArbJson string
  | ArbVersion int
  | ArbIdempotencyConflict
  | ArbClockRegression
  | ArbContextDigest
  | ArbContextHistory
  | ArbOverflow
  | ArbHalted string

fun arbitrage_error_text :: "arbitrage_error \<Rightarrow> string" where
  "arbitrage_error_text ArbTimestamp = ''arbitrage command timestamp is invalid''"
| "arbitrage_error_text ArbCommandBound = ''arbitrage command exceeds its canonical bound''"
| "arbitrage_error_text (ArbJson e) = ''arbitrage command JSON is invalid: '' @ e"
| "arbitrage_error_text (ArbVersion v) = ''unsupported arbitrage command version: '' @ show_nat (nat v)"
| "arbitrage_error_text ArbIdempotencyConflict = ''arbitrage command id was reused for different content''"
| "arbitrage_error_text ArbClockRegression = ''arbitrage command clock regressed''"
| "arbitrage_error_text ArbContextDigest = ''arbitrage context checksum is invalid''"
| "arbitrage_error_text ArbContextHistory = ''arbitrage context history regressed or equivocated''"
| "arbitrage_error_text ArbOverflow = ''arbitrage arithmetic or counter overflow''"
| "arbitrage_error_text (ArbHalted reason) = ''arbitrage engine is halted: '' @ reason"

record arbitrage_engine =
  ae_processed :: "(arbitrage_command_id, bytes32 \<times> arbitrage_decision) btree"
  ae_used_evaluations :: "arbitrage_evaluation_id btset"
  ae_accepted :: int
  ae_opportunity_count :: int
  ae_no_opportunity_count :: int
  ae_last_recorded_at :: "int option"
  ae_last_captured_at :: "int option"
  ae_last_context_digest :: "bytes32 option"
  ae_last_decision :: "arbitrage_decision option"
  ae_halted :: "string option"

definition arbitrage_engine_default :: arbitrage_engine where
  "arbitrage_engine_default = \<lparr>ae_processed = [], ae_used_evaluations = [], ae_accepted = 0,
     ae_opportunity_count = 0, ae_no_opportunity_count = 0, ae_last_recorded_at = None, ae_last_captured_at = None,
     ae_last_context_digest = None, ae_last_decision = None, ae_halted = None\<rparr>"

text \<open>\<open>serde_json\<close> on the types that are hashed; \<open>blake3\<close> is in the codec of the proposals.\<close>

record arbitrage_codec =
  arc_to_vec :: "arbitrage_command wire \<Rightarrow> string + string"
  arc_request_json :: "arbitrage_request \<Rightarrow> string"
  arc_direction_json :: "arbitrage_direction \<Rightarrow> string"
  arc_constraints_json :: "arbitrage_constraints \<Rightarrow> string"
  arc_plan_json :: "arbitrage_plan \<Rightarrow> string"
  arc_decision_json :: "arbitrage_decision \<Rightarrow> string"
  arc_proposal :: proposal_codec

abbreviation arc_blake3 :: "arbitrage_codec \<Rightarrow> string \<Rightarrow> bytes32" where
  "arc_blake3 cx \<equiv> sc_blake3 (arc_proposal cx)"

section \<open>Digests\<close>

definition arbitrage_request_digest :: "arbitrage_codec \<Rightarrow> arbitrage_request \<Rightarrow> bytes32" where
  "arbitrage_request_digest cx q = arc_blake3 cx (''complete-set-request-v1'' @ prefixed (arc_request_json cx q))"

definition plan_digest :: "arbitrage_codec \<Rightarrow> arbitrage_plan \<Rightarrow> bytes32" where
  "plan_digest cx p = arc_blake3 cx (''complete-set-plan-v1'' @ prefixed (arc_plan_json cx (p\<lparr>ap_plan_digest := 0\<rparr>)))"

definition plan_verify_digest :: "arbitrage_codec \<Rightarrow> arbitrage_plan \<Rightarrow> bool" where
  "plan_verify_digest cx p = (ap_plan_digest p = plan_digest cx p)"

definition arbitrage_decision_digest :: "arbitrage_codec \<Rightarrow> arbitrage_decision \<Rightarrow> bytes32" where
  "arbitrage_decision_digest cx d = arc_blake3 cx
     (''complete-set-decision-v1'' @ prefixed (arc_decision_json cx (d\<lparr>ad_decision_digest := 0\<rparr>)))"

definition arbitrage_verify_digest :: "arbitrage_codec \<Rightarrow> arbitrage_decision \<Rightarrow> bool" where
  "arbitrage_verify_digest cx d = (ad_decision_digest d = arbitrage_decision_digest cx d)"

definition derived_proposal_id :: "arbitrage_codec \<Rightarrow> arbitrage_request \<Rightarrow> bool \<Rightarrow> proposal_id" where
  "derived_proposal_id cx q up = arc_blake3 cx
     (''complete-set-proposal-v1'' @ bytes_of_id (ar_evaluation_id q) @ bytes_of_id (cx_context_digest (ar_context q))
      @ [char_of (if up then 1 else 0 :: nat)]
      @ prefixed (arc_direction_json cx (ar_direction q))
      @ prefixed (arc_constraints_json cx (ar_constraints q)))"

section \<open>The calculation\<close>

definition arbitrage_books_ready :: "strategy_context \<Rightarrow> bool" where
  "arbitrage_books_ready c = list_all book_ready [cx_up_book c, cx_down_book c]"

definition valid_constraints :: "arbitrage_constraints \<Rightarrow> bool" where
  "valid_constraints v \<longleftrightarrow> 0 < ac_min_quantity v \<and> ac_min_quantity v \<le> ac_max_quantity v
     \<and> ac_max_quantity v \<le> 1000000000000 \<and> 0 < ac_partial_fill v \<and> ac_partial_fill v < ac_min_quantity v
     \<and> 0 \<le> ac_up_max_fee v \<and> ac_up_max_fee v \<le> 1000000000
     \<and> 0 \<le> ac_down_max_fee v \<and> ac_down_max_fee v \<le> 1000000000
     \<and> 0 \<le> ac_conversion_max_cost v \<and> ac_conversion_max_cost v \<le> 1000000000000
     \<and> 1 \<le> ac_min_net_profit v \<and> ac_min_net_profit v \<le> 1000000000000 \<and> ac_min_roi_bps v \<le> 1000000"

definition leg_value :: "int \<Rightarrow> int \<Rightarrow> order_side \<Rightarrow> arbitrage_error + int" where
  "leg_value price quantity side =
     rbind (ok_or (mul128 price quantity) ArbOverflow) (\<lambda>product.
     case side of
       BuySide \<Rightarrow> rbind (ok_or (add128 product 999999) ArbOverflow) (\<lambda>v. Inr (tdiv v 1000000))
     | SellSide \<Rightarrow> Inr (tdiv product 1000000))"

definition selected_levels :: "arbitrage_request \<Rightarrow> (proposal_level \<times> proposal_level \<times> order_side) option" where
  "selected_levels q =
     Option.bind (cx_up_book (ar_context q)) (\<lambda>up.
     Option.bind (cx_down_book (ar_context q)) (\<lambda>down.
     case ar_direction q of
       BuyPair \<Rightarrow> Option.bind (bk_best_ask up) (\<lambda>u. Option.bind (bk_best_ask down) (\<lambda>d. Some (u, d, BuySide)))
     | SellPair \<Rightarrow> Option.bind (bk_best_bid up) (\<lambda>u. Option.bind (bk_best_bid down) (\<lambda>d. Some (u, d, SellSide)))))"

definition arbitrage_intent ::
  "arbitrage_codec \<Rightarrow> arbitrage_request \<Rightarrow> bool \<Rightarrow> order_side \<Rightarrow> int \<Rightarrow> int \<Rightarrow> int \<Rightarrow> proposal_intent" where
  "arbitrage_intent cx q up side quantity price expires_at =
     \<lparr>pi_proposal_id = derived_proposal_id cx q up, pi_strategy = CompleteSetArbitrage,
      pi_token = (if up then cx_up_token (ar_context q) else cx_down_token (ar_context q)),
      pi_side = side, pi_quantity = quantity, pi_partial_fill = ac_partial_fill (ar_constraints q),
      pi_limit_price = price,
      pi_max_fee = (if up then ac_up_max_fee (ar_constraints q) else ac_down_max_fee (ar_constraints q)),
      pi_evaluated_at = ar_evaluated_at q, pi_expires_at = expires_at\<rparr>"

text \<open>The capital a pair needs and the profit it leaves.\<close>

definition pair_economics ::
  "arbitrage_direction \<Rightarrow> int \<Rightarrow> int \<Rightarrow> int \<Rightarrow> int \<Rightarrow> int \<Rightarrow> arbitrage_error + int \<times> int" where
  "pair_economics direction quantity up_value down_value fees conversion =
     (case direction of
        BuyPair \<Rightarrow>
          rbind (ok_or (Option.bind (Option.bind (add128 up_value down_value) (\<lambda>v. add128 v fees)) (\<lambda>v. add128 v conversion))
            ArbOverflow) (\<lambda>deployed.
          rbind (ok_or (sub128 quantity deployed) ArbOverflow) (\<lambda>profit. Inr (deployed, profit)))
      | SellPair \<Rightarrow>
          rbind (ok_or (add128 quantity conversion) ArbOverflow) (\<lambda>deployed.
          rbind (ok_or (Option.bind (Option.bind (add128 up_value down_value) (\<lambda>v. sub128 v fees)) (\<lambda>v. sub128 v deployed))
            ArbOverflow) (\<lambda>profit. Inr (deployed, profit))))"

text \<open>\<open>Calculation\<close>: \<open>Inl\<close> is a rejection.\<close>

definition calculate_plan ::
  "arbitrage_codec \<Rightarrow> arbitrage_request \<Rightarrow> arbitrage_error + (arbitrage_reason + arbitrage_plan)" where
  "calculate_plan cx q =
     (let k = ar_constraints q in
      rbind (ok_or (selected_levels q) ArbOverflow) (\<lambda>(up, down, side).
      let quantity = min (min (ac_max_quantity k) (lv_quantity up)) (lv_quantity down) in
      if quantity < ac_min_quantity k \<or> quantity < ac_partial_fill k then Inr (Inl InsufficientLiquidity)
      else
        rbind (leg_value (lv_price up) quantity side) (\<lambda>up_value.
        rbind (leg_value (lv_price down) quantity side) (\<lambda>down_value.
        rbind (ok_or (add128 (ac_up_max_fee k) (ac_down_max_fee k)) ArbOverflow) (\<lambda>fees.
        let conversion = ac_conversion_max_cost k in
        rbind (pair_economics (ar_direction q) quantity up_value down_value fees conversion) (\<lambda>(deployed, profit).
        if profit \<le> 0 then Inr (Inl NonPositiveProfit)
        else if profit < ac_min_net_profit k then Inr (Inl ProfitBelowMinimum)
        else if deployed \<le> 0 then Inr (Inl UndefinedRoi)
        else
          rbind (ok_or (mul128 profit 10000) ArbOverflow) (\<lambda>scaled.
          let roi = tdiv scaled deployed in
          if \<not> u64_ok roi then Inl ArbOverflow
          else if roi < ac_min_roi_bps k then Inr (Inl RoiBelowMinimum)
          else
            let expires_at = min (ar_expires_at q) (cx_valid_until (ar_context q));
                plan = \<lparr>ap_direction = ar_direction q, ap_quantity = quantity, ap_up_price = lv_price up,
                  ap_down_price = lv_price down, ap_up_value = up_value, ap_down_value = down_value,
                  ap_fee_budget = fees, ap_conversion_cost = conversion, ap_deployed_capital = deployed,
                  ap_net_profit = profit, ap_roi_bps = roi,
                  ap_intents = (arbitrage_intent cx q True side quantity (lv_price up) expires_at,
                    arbitrage_intent cx q False side quantity (lv_price down) expires_at),
                  ap_plan_digest = 0\<rparr> in
            Inr (Inr (plan\<lparr>ap_plan_digest := plan_digest cx plan\<rparr>)))))))))"

definition arbitrage_judgement :: "arbitrage_request \<Rightarrow> arbitrage_engine \<Rightarrow> arbitrage_reason" where
  "arbitrage_judgement q s =
     (let c = ar_context q in
      if bs_mem (ar_evaluation_id q) (ae_used_evaluations s) then EvaluationAlreadyUsed
      else if \<not> cx_current c \<or> \<not> cx_active_ready c \<or> \<not> arbitrage_books_ready c then SourceNotReady
      else if cx_valid_until c < ar_evaluated_at q then ContextExpired
      else if ar_expires_at q < ar_evaluated_at q then RequestExpired
      else if \<not> valid_constraints (ar_constraints q) then InvalidConstraints
      else ExecutableProfit)"

definition arbitrage_outcome ::
  "arbitrage_codec \<Rightarrow> arbitrage_request \<Rightarrow> arbitrage_engine \<Rightarrow> arbitrage_error + arbitrage_reason \<times> arbitrage_plan option" where
  "arbitrage_outcome cx q s =
     (let reason = arbitrage_judgement q s in
      if reason = ExecutableProfit
      then rbind (calculate_plan cx q) (\<lambda>r. case r of Inl rejection \<Rightarrow> Inr (rejection, None) | Inr p \<Rightarrow> Inr (reason, Some p))
      else Inr (reason, None))"

definition arbitrage_evaluate ::
  "arbitrage_codec \<Rightarrow> arbitrage_command_id \<Rightarrow> arbitrage_request \<Rightarrow> arbitrage_engine
    \<Rightarrow> arbitrage_error + arbitrage_decision \<times> arbitrage_engine" where
  "arbitrage_evaluate cx command_id q s =
     (let used = s\<lparr>ae_used_evaluations := bs_insert (ar_evaluation_id q) (ae_used_evaluations s)\<rparr> in
      rbind (arbitrage_outcome cx q s) (\<lambda>(reason, plan).
      rbind (if plan \<noteq> None
          then rbind (ok_or (addu64 (ae_opportunity_count used) 1) ArbOverflow)
            (\<lambda>n. Inr (Opportunity, used\<lparr>ae_opportunity_count := n\<rparr>))
          else rbind (ok_or (addu64 (ae_no_opportunity_count used) 1) ArbOverflow)
            (\<lambda>n. Inr (NoOpportunity, used\<lparr>ae_no_opportunity_count := n\<rparr>))) (\<lambda>(status, s').
      let d = \<lparr>ad_command_id = command_id, ad_evaluation_id = ar_evaluation_id q, ad_status = status, ad_reason = reason,
            ad_context_digest = cx_context_digest (ar_context q), ad_request_digest = arbitrage_request_digest cx q,
            ad_plan = plan, ad_decision_digest = 0\<rparr>
      in Inr (d\<lparr>ad_decision_digest := arbitrage_decision_digest cx d\<rparr>, s'))))"

section \<open>The engine\<close>

fun arbitrage_validate_command :: "arbitrage_command \<Rightarrow> arbitrage_error + unit" where
  "arbitrage_validate_command (EvaluateArbitrage _ q t) =
     (if t < 0 \<or> ar_evaluated_at q \<noteq> t \<or> t < cx_captured_at (ar_context q) then Inl ArbTimestamp else Inr ())"

definition arbitrage_encode_command :: "arbitrage_codec \<Rightarrow> arbitrage_command \<Rightarrow> arbitrage_error + string" where
  "arbitrage_encode_command cx c =
     rbind (arbitrage_validate_command c) (\<lambda>_.
       case arc_to_vec cx \<lparr>wire_version = 1, wire_command = c\<rparr> of
         Inl e \<Rightarrow> Inl (ArbJson e)
       | Inr bytes \<Rightarrow> if 262144 < int (length bytes) then Inl ArbCommandBound else Inr bytes)"

definition arbitrage_decode_command ::
  "(string \<Rightarrow> string + arbitrage_command wire) \<Rightarrow> string \<Rightarrow> arbitrage_error + arbitrage_command" where
  "arbitrage_decode_command deserialize bytes =
     (if 262144 < int (length bytes) then Inl ArbCommandBound
      else case deserialize bytes of
        Inl e \<Rightarrow> Inl (ArbJson e)
      | Inr w \<Rightarrow>
          if wire_version w \<noteq> 1 then Inl (ArbVersion (wire_version w))
          else rbind (arbitrage_validate_command (wire_command w)) (\<lambda>_. Inr (wire_command w)))"

definition arbitrage_content :: "arbitrage_codec \<Rightarrow> arbitrage_command \<Rightarrow> arbitrage_error + bytes32" where
  "arbitrage_content cx c = rbind (arbitrage_encode_command cx c) (\<lambda>bytes. Inr (arc_blake3 cx bytes))"

definition arbitrage_halt ::
  "arbitrage_error \<Rightarrow> arbitrage_engine \<Rightarrow> (arbitrage_error + arbitrage_decision) \<times> arbitrage_engine" where
  "arbitrage_halt e s = (Inl e, s\<lparr>ae_halted := Some (arbitrage_error_text e)\<rparr>)"

definition arbitrage_record ::
  "arbitrage_command_id \<Rightarrow> bytes32 \<Rightarrow> strategy_context \<Rightarrow> int \<Rightarrow> arbitrage_decision \<Rightarrow> int
    \<Rightarrow> arbitrage_engine \<Rightarrow> arbitrage_engine" where
  "arbitrage_record i digest c t d n s = s\<lparr>ae_accepted := n, ae_last_recorded_at := Some t,
     ae_last_captured_at := Some (cx_captured_at c), ae_last_context_digest := Some (cx_context_digest c),
     ae_last_decision := Some d, ae_processed := bt_insert i (digest, d) (ae_processed s)\<rparr>"

fun arbitrage_apply ::
  "arbitrage_codec \<Rightarrow> arbitrage_command \<Rightarrow> arbitrage_engine \<Rightarrow> (arbitrage_error + arbitrage_decision) \<times> arbitrage_engine" where
  "arbitrage_apply cx (EvaluateArbitrage i q t) s =
     (case ae_halted s of
        Some reason \<Rightarrow> (Inl (ArbHalted reason), s)
      | None \<Rightarrow>
          (case arbitrage_content cx (EvaluateArbitrage i q t) of
             Inl e \<Rightarrow> (Inl e, s)
           | Inr digest \<Rightarrow>
               (case bt_get (ae_processed s) i of
                  Some (existing, decision) \<Rightarrow>
                    if existing = digest then (Inr decision, s)
                    else arbitrage_halt ArbIdempotencyConflict s
                | None \<Rightarrow>
                    if (case ae_last_recorded_at s of None \<Rightarrow> False | Some p \<Rightarrow> t < p)
                    then arbitrage_halt ArbClockRegression s
                    else if \<not> verify_context (arc_proposal cx) (ar_context q) then arbitrage_halt ArbContextDigest s
                    else if context_regressed (ae_last_captured_at s) (ae_last_context_digest s) (ar_context q)
                    then arbitrage_halt ArbContextHistory s
                    else
                      (case arbitrage_evaluate cx i q s of
                         Inl e \<Rightarrow> if e = ArbOverflow then arbitrage_halt ArbOverflow s else (Inl e, s)
                       | Inr (d, s1) \<Rightarrow>
                           (case addu64 (ae_accepted s1) 1 of
                              None \<Rightarrow> arbitrage_halt ArbOverflow s
                            | Some n \<Rightarrow> (Inr d, arbitrage_record i digest (ar_context q) t d n s1))))))"

section \<open>The digest and the snapshot\<close>

record arbitrage_json =
  aj_count :: "int \<Rightarrow> string"
  aj_time :: "int option \<Rightarrow> string"
  aj_digest :: "bytes32 option \<Rightarrow> string"
  aj_last_decision :: "arbitrage_decision option \<Rightarrow> string"
  aj_decision :: "arbitrage_decision \<Rightarrow> string"
  aj_halted :: "string option \<Rightarrow> string"

definition arbitrage_state_digest :: "arbitrage_json \<Rightarrow> (string \<Rightarrow> bytes32) \<Rightarrow> arbitrage_engine \<Rightarrow> bytes32" where
  "arbitrage_state_digest js blake3 s = blake3
     (''complete-set-arbitrage-state-v1''
      @ concat (map (\<lambda>e. bytes_of_id (fst e)) (ae_used_evaluations s))
      @ concat (map (\<lambda>(i, content, decision). bytes_of_id i @ bytes_of_id content @ prefixed (aj_decision js decision))
          (ae_processed s))
      @ prefixed (aj_count js (ae_accepted s))
      @ prefixed (aj_count js (ae_opportunity_count s))
      @ prefixed (aj_count js (ae_no_opportunity_count s))
      @ prefixed (aj_time js (ae_last_recorded_at s))
      @ prefixed (aj_time js (ae_last_captured_at s))
      @ prefixed (aj_digest js (ae_last_context_digest s))
      @ prefixed (aj_last_decision js (ae_last_decision s))
      @ prefixed (aj_halted js (ae_halted s)))"

record arbitrage_snapshot =
  as_accepted_commands :: int
  as_evaluation_count :: nat
  as_opportunity_count :: int
  as_no_opportunity_count :: int
  as_last_captured_at :: "int option"
  as_last_context_digest :: "bytes32 option"
  as_last_decision :: "arbitrage_decision option"
  as_halted :: bool
  as_halt_reason :: "string option"
  as_digest :: bytes32

definition arbitrage_snapshot :: "(arbitrage_engine \<Rightarrow> bytes32) \<Rightarrow> arbitrage_engine \<Rightarrow> arbitrage_snapshot" where
  "arbitrage_snapshot state_digest s =
     \<lparr>as_accepted_commands = ae_accepted s, as_evaluation_count = length (ae_used_evaluations s),
      as_opportunity_count = ae_opportunity_count s, as_no_opportunity_count = ae_no_opportunity_count s,
      as_last_captured_at = ae_last_captured_at s, as_last_context_digest = ae_last_context_digest s,
      as_last_decision = ae_last_decision s, as_halted = (ae_halted s \<noteq> None),
      as_halt_reason = ae_halted s, as_digest = state_digest s\<rparr>"

end
