(* ===== verification/Strategy_Theorems.thy ===== *)
theory Strategy_Theorems
  imports Complete_Set_Arbitrage Portfolio_Risk_Theorems
begin

text \<open>The strategy proposal host and the complete-set arbitrage strategy:
  their engines as instances of the command engine, what an evaluated plan
  promises, and how an accepted proposal meets the portfolio risk gate.\<close>


section \<open>The engines\<close>

lemma proposal_evaluate_Inr:
  assumes "proposal_evaluate cx i c p s = Inr (d, s')"
  shows "pp_command_id d = i \<and> pp_proposal_id d = pi_proposal_id p \<and> pp_reason d = proposal_judgement c p s
    \<and> (pp_status d = Candidate \<longleftrightarrow> proposal_judgement c p s = ContextAccepted)
    \<and> pp_candidate d = (if proposal_judgement c p s = ContextAccepted then Some (candidate_of cx c p) else None)
    \<and> proposal_verify_digest cx d
    \<and> spe_used_proposals s' = bs_insert (pi_proposal_id p) (spe_used_proposals s)
    \<and> spe_processed s' = spe_processed s \<and> spe_accepted s' = spe_accepted s \<and> spe_halted s' = spe_halted s"
  using assms
  by (auto simp: proposal_evaluate_def Let_def rbind_Inr_iff proposal_verify_digest_def proposal_decision_digest_def
      split: if_splits)

lemma proposal_evaluate_frame:
  assumes "proposal_evaluate cx i c p s = Inr (d, s')"
  shows "spe_processed s' = spe_processed s" and "spe_accepted s' = spe_accepted s" and "spe_halted s' = spe_halted s"
  using proposal_evaluate_Inr [OF assms] by simp_all

interpretation proposal_engine: decision_engine "proposal_apply cx" proposal_command_id "proposal_content cx"
  "\<lambda>s k. map_option fst (bt_get (spe_processed s) k)" spe_accepted "\<lambda>s. spe_halted s \<noteq> None"
  "\<lambda>s k. map_option snd (bt_get (spe_processed s) k)"
  for cx
proof unfold_locales
  fix s c e d d' r s' out k
  note simps = proposal_halt_def proposal_record_def bt_simps checked_simps
  show "spe_halted s \<noteq> None \<Longrightarrow> \<exists>e. proposal_apply cx c s = (Inl e, s)"
    by (cases c) auto
  show "\<not> spe_halted s \<noteq> None \<Longrightarrow> proposal_content cx c = Inl e \<Longrightarrow> proposal_apply cx c s = (Inl e, s)"
    by (cases c) auto
  show "\<not> spe_halted s \<noteq> None \<Longrightarrow> proposal_content cx c = Inr d
      \<Longrightarrow> map_option fst (bt_get (spe_processed s) (proposal_command_id c)) = Some d
      \<Longrightarrow> \<exists>out. proposal_apply cx c s = (Inr out, s)"
    by (cases c) auto
  show "\<not> spe_halted s \<noteq> None \<Longrightarrow> proposal_content cx c = Inr d
      \<Longrightarrow> map_option fst (bt_get (spe_processed s) (proposal_command_id c)) = Some d' \<Longrightarrow> d' \<noteq> d
      \<Longrightarrow> proposal_apply cx c s = (r, s')
      \<Longrightarrow> (\<exists>e. r = Inl e) \<and> spe_halted s' \<noteq> None
        \<and> (\<lambda>k. map_option fst (bt_get (spe_processed s') k)) = (\<lambda>k. map_option fst (bt_get (spe_processed s) k))
        \<and> spe_accepted s' = spe_accepted s"
    by (cases c) (auto simp: proposal_halt_def)
  show "\<not> spe_halted s \<noteq> None \<Longrightarrow> proposal_content cx c = Inr d
      \<Longrightarrow> map_option fst (bt_get (spe_processed s) (proposal_command_id c)) = None
      \<Longrightarrow> proposal_apply cx c s = (r, s')
      \<Longrightarrow> ((\<lambda>k. map_option fst (bt_get (spe_processed s') k))
            = (\<lambda>k. map_option fst (bt_get (spe_processed s) k))(proposal_command_id c \<mapsto> d) \<and> spe_accepted s' = spe_accepted s + 1)
        \<or> ((\<exists>e. r = Inl e)
           \<and> (\<lambda>k. map_option fst (bt_get (spe_processed s') k)) = (\<lambda>k. map_option fst (bt_get (spe_processed s) k))
           \<and> spe_accepted s' = spe_accepted s)"
    by (cases c) (auto simp: simps fun_eq_iff proposal_evaluate_frame dest!: sym [of "Inl _"]
        split: if_splits sum.split_asm option.split_asm)
  show "\<not> spe_halted s \<noteq> None \<Longrightarrow> proposal_content cx c = Inr d
      \<Longrightarrow> map_option fst (bt_get (spe_processed s) (proposal_command_id c)) = None
      \<Longrightarrow> proposal_apply cx c s = (Inr out, s') \<Longrightarrow> \<not> spe_halted s' \<noteq> None"
    by (cases c) (auto simp: simps proposal_evaluate_frame split: if_splits sum.split_asm option.split_asm)
  show "\<not> spe_halted s \<noteq> None \<Longrightarrow> proposal_content cx c = Inr d
      \<Longrightarrow> map_option fst (bt_get (spe_processed s) (proposal_command_id c)) = Some d
      \<Longrightarrow> \<exists>out. map_option snd (bt_get (spe_processed s) (proposal_command_id c)) = Some out \<and> proposal_apply cx c s = (Inr out, s)"
    by (cases c) auto
  show "\<not> spe_halted s \<noteq> None \<Longrightarrow> proposal_content cx c = Inr d
      \<Longrightarrow> map_option fst (bt_get (spe_processed s) (proposal_command_id c)) = None
      \<Longrightarrow> proposal_apply cx c s = (Inr out, s') \<Longrightarrow> map_option snd (bt_get (spe_processed s') (proposal_command_id c)) = Some out"
    by (cases c) (auto simp: simps split: if_splits sum.split_asm option.split_asm)
  show "map_option snd (bt_get (spe_processed s) k) = Some out \<Longrightarrow> proposal_apply cx c s = (r, s')
      \<Longrightarrow> map_option snd (bt_get (spe_processed s') k) = Some out"
    by (cases c) (auto simp: simps proposal_evaluate_frame split: if_splits sum.split_asm option.split_asm)
qed

lemma arbitrage_outcome_Inr:
  assumes "arbitrage_outcome cx q s = Inr (reason, plan)"
  shows "(\<forall>p. plan = Some p \<longrightarrow> arbitrage_judgement q s = ExecutableProfit \<and> calculate_plan cx q = Inr (Inr p)
         \<and> reason = ExecutableProfit)
    \<and> (arbitrage_judgement q s \<noteq> ExecutableProfit \<longrightarrow> reason = arbitrage_judgement q s)"
proof (cases "calculate_plan cx q")
  case (Inr r)
  then show ?thesis
    using assms by (cases r) (auto simp: arbitrage_outcome_def Let_def split: if_split_asm)
qed (use assms in \<open>auto simp: arbitrage_outcome_def Let_def split: if_split_asm\<close>)

lemma arbitrage_evaluate_Inr:
  assumes "arbitrage_evaluate cx i q s = Inr (d, s')"
  shows "ad_command_id d = i \<and> ad_evaluation_id d = ar_evaluation_id q \<and> ad_request_digest d = arbitrage_request_digest cx q
    \<and> arbitrage_verify_digest cx d
    \<and> (ad_status d = Opportunity \<longleftrightarrow> ad_plan d \<noteq> None)
    \<and> (\<forall>p. ad_plan d = Some p \<longrightarrow> arbitrage_judgement q s = ExecutableProfit \<and> calculate_plan cx q = Inr (Inr p)
         \<and> ad_reason d = ExecutableProfit)
    \<and> (arbitrage_judgement q s \<noteq> ExecutableProfit \<longrightarrow> ad_reason d = arbitrage_judgement q s)
    \<and> ae_used_evaluations s' = bs_insert (ar_evaluation_id q) (ae_used_evaluations s)
    \<and> ae_processed s' = ae_processed s \<and> ae_accepted s' = ae_accepted s \<and> ae_halted s' = ae_halted s"
proof -
  obtain reason plan where o: "arbitrage_outcome cx q s = Inr (reason, plan)"
    using assms by (auto simp: arbitrage_evaluate_def Let_def rbind_Inr_iff)
  show ?thesis
    using assms arbitrage_outcome_Inr [OF o]
    by (cases plan) (auto simp: arbitrage_evaluate_def o Let_def rbind_Inr_iff arbitrage_verify_digest_def arbitrage_decision_digest_def)
qed

lemma arbitrage_evaluate_frame:
  assumes "arbitrage_evaluate cx i q s = Inr (d, s')"
  shows "ae_processed s' = ae_processed s" and "ae_accepted s' = ae_accepted s" and "ae_halted s' = ae_halted s"
  using arbitrage_evaluate_Inr [OF assms] by simp_all

interpretation arbitrage_engine: decision_engine "arbitrage_apply cx" arbitrage_command_id "arbitrage_content cx"
  "\<lambda>s k. map_option fst (bt_get (ae_processed s) k)" ae_accepted "\<lambda>s. ae_halted s \<noteq> None"
  "\<lambda>s k. map_option snd (bt_get (ae_processed s) k)"
  for cx
proof unfold_locales
  fix s c e d d' r s' out k
  note simps = arbitrage_halt_def arbitrage_record_def bt_simps checked_simps
  show "ae_halted s \<noteq> None \<Longrightarrow> \<exists>e. arbitrage_apply cx c s = (Inl e, s)"
    by (cases c) auto
  show "\<not> ae_halted s \<noteq> None \<Longrightarrow> arbitrage_content cx c = Inl e \<Longrightarrow> arbitrage_apply cx c s = (Inl e, s)"
    by (cases c) auto
  show "\<not> ae_halted s \<noteq> None \<Longrightarrow> arbitrage_content cx c = Inr d
      \<Longrightarrow> map_option fst (bt_get (ae_processed s) (arbitrage_command_id c)) = Some d
      \<Longrightarrow> \<exists>out. arbitrage_apply cx c s = (Inr out, s)"
    by (cases c) auto
  show "\<not> ae_halted s \<noteq> None \<Longrightarrow> arbitrage_content cx c = Inr d
      \<Longrightarrow> map_option fst (bt_get (ae_processed s) (arbitrage_command_id c)) = Some d' \<Longrightarrow> d' \<noteq> d
      \<Longrightarrow> arbitrage_apply cx c s = (r, s')
      \<Longrightarrow> (\<exists>e. r = Inl e) \<and> ae_halted s' \<noteq> None
        \<and> (\<lambda>k. map_option fst (bt_get (ae_processed s') k)) = (\<lambda>k. map_option fst (bt_get (ae_processed s) k))
        \<and> ae_accepted s' = ae_accepted s"
    by (cases c) (auto simp: arbitrage_halt_def)
  show "\<not> ae_halted s \<noteq> None \<Longrightarrow> arbitrage_content cx c = Inr d
      \<Longrightarrow> map_option fst (bt_get (ae_processed s) (arbitrage_command_id c)) = None
      \<Longrightarrow> arbitrage_apply cx c s = (r, s')
      \<Longrightarrow> ((\<lambda>k. map_option fst (bt_get (ae_processed s') k))
            = (\<lambda>k. map_option fst (bt_get (ae_processed s) k))(arbitrage_command_id c \<mapsto> d) \<and> ae_accepted s' = ae_accepted s + 1)
        \<or> ((\<exists>e. r = Inl e)
           \<and> (\<lambda>k. map_option fst (bt_get (ae_processed s') k)) = (\<lambda>k. map_option fst (bt_get (ae_processed s) k))
           \<and> ae_accepted s' = ae_accepted s)"
    by (cases c) (auto simp: simps fun_eq_iff arbitrage_evaluate_frame dest!: sym [of "Inl _"]
        split: if_splits sum.split_asm option.split_asm)
  show "\<not> ae_halted s \<noteq> None \<Longrightarrow> arbitrage_content cx c = Inr d
      \<Longrightarrow> map_option fst (bt_get (ae_processed s) (arbitrage_command_id c)) = None
      \<Longrightarrow> arbitrage_apply cx c s = (Inr out, s') \<Longrightarrow> \<not> ae_halted s' \<noteq> None"
    by (cases c) (auto simp: simps arbitrage_evaluate_frame split: if_splits sum.split_asm option.split_asm)
  show "\<not> ae_halted s \<noteq> None \<Longrightarrow> arbitrage_content cx c = Inr d
      \<Longrightarrow> map_option fst (bt_get (ae_processed s) (arbitrage_command_id c)) = Some d
      \<Longrightarrow> \<exists>out. map_option snd (bt_get (ae_processed s) (arbitrage_command_id c)) = Some out \<and> arbitrage_apply cx c s = (Inr out, s)"
    by (cases c) auto
  show "\<not> ae_halted s \<noteq> None \<Longrightarrow> arbitrage_content cx c = Inr d
      \<Longrightarrow> map_option fst (bt_get (ae_processed s) (arbitrage_command_id c)) = None
      \<Longrightarrow> arbitrage_apply cx c s = (Inr out, s') \<Longrightarrow> map_option snd (bt_get (ae_processed s') (arbitrage_command_id c)) = Some out"
    by (cases c) (auto simp: simps split: if_splits sum.split_asm option.split_asm)
  show "map_option snd (bt_get (ae_processed s) k) = Some out \<Longrightarrow> arbitrage_apply cx c s = (r, s')
      \<Longrightarrow> map_option snd (bt_get (ae_processed s') k) = Some out"
    by (cases c) (auto simp: simps arbitrage_evaluate_frame split: if_splits sum.split_asm option.split_asm)
qed


section \<open>The calculation without bounds\<close>

text \<open>The same calculation over unbounded integers: what a leg is worth, and the plan.\<close>

definition exact_leg :: "order_side \<Rightarrow> int \<Rightarrow> int \<Rightarrow> int" where
  "exact_leg side price quantity =
     (case side of BuySide \<Rightarrow> - (- (price * quantity) div 1000000) | SellSide \<Rightarrow> price * quantity div 1000000)"

definition exact_economics :: "arbitrage_direction \<Rightarrow> int \<Rightarrow> int \<Rightarrow> int \<Rightarrow> int \<Rightarrow> int \<Rightarrow> int \<times> int" where
  "exact_economics direction quantity u d fees conversion =
     (case direction of
        BuyPair \<Rightarrow> (u + d + fees + conversion, quantity - (u + d + fees + conversion))
      | SellPair \<Rightarrow> (quantity + conversion, u + d - fees - (quantity + conversion)))"

definition exact_plan ::
  "arbitrage_codec \<Rightarrow> arbitrage_request \<Rightarrow> proposal_level \<Rightarrow> proposal_level \<Rightarrow> order_side \<Rightarrow> arbitrage_reason + arbitrage_plan" where
  "exact_plan cx q up down side =
     (let k = ar_constraints q; n = Min {ac_max_quantity k, lv_quantity up, lv_quantity down};
          u = exact_leg side (lv_price up) n; d = exact_leg side (lv_price down) n;
          fees = ac_up_max_fee k + ac_down_max_fee k;
          (deployed, profit) = exact_economics (ar_direction q) n u d fees (ac_conversion_max_cost k);
          e = min (ar_expires_at q) (cx_valid_until (ar_context q));
          plan = \<lparr>ap_direction = ar_direction q, ap_quantity = n, ap_up_price = lv_price up,
            ap_down_price = lv_price down, ap_up_value = u, ap_down_value = d, ap_fee_budget = fees,
            ap_conversion_cost = ac_conversion_max_cost k, ap_deployed_capital = deployed, ap_net_profit = profit,
            ap_roi_bps = profit * 10000 div deployed,
            ap_intents = (arbitrage_intent cx q True side n (lv_price up) e, arbitrage_intent cx q False side n (lv_price down) e),
            ap_plan_digest = 0\<rparr>
      in if n < ac_min_quantity k then Inl InsufficientLiquidity
         else if profit \<le> 0 then Inl NonPositiveProfit
         else if profit < ac_min_net_profit k then Inl ProfitBelowMinimum
         else if deployed \<le> 0 then Inl UndefinedRoi
         else if profit * 10000 div deployed < ac_min_roi_bps k then Inl RoiBelowMinimum
         else Inr (plan\<lparr>ap_plan_digest := plan_digest cx plan\<rparr>))"

lemma ceil_as_floor: "(x + 999999) div 1000000 = - (- x div (1000000 :: int))"
proof -
  let ?c = "(x + 999999) div 1000000"
  have "x \<le> ?c * 1000000" "?c * 1000000 < x + 1000000"
    using ceil_div_bounds [of 1000000 x] by simp_all
  then have "- x div 1000000 = - ?c"
    by (intro int_div_pos_eq [where r = "?c * 1000000 - x"]) simp_all
  then show ?thesis by simp
qed

lemma leg_value_exact:
  assumes "0 \<le> price" "price \<le> 1000000" "0 \<le> quantity" "quantity \<le> 1000000000000"
  shows "leg_value price quantity side = Inr (exact_leg side price quantity)"
    and "0 \<le> exact_leg side price quantity" and "exact_leg side price quantity \<le> 1000000000000"
proof -
  have p: "0 \<le> price * quantity" "price * quantity \<le> 1000000 * 1000000000000"
    using assms by (simp, intro mult_mono) simp_all
  then have ok: "i128_ok (price * quantity)" "i128_ok (price * quantity + 999999)"
    by (simp_all add: i128_ok_def)
  show "leg_value price quantity side = Inr (exact_leg side price quantity)"
    using p ok ceil_as_floor [of "price * quantity"]
    by (cases side) (auto simp: leg_value_def exact_leg_def mul128_def add128_def i128_new_def tdiv_nonneg)
  have "0 \<le> price * quantity div 1000000" "price * quantity div 1000000 \<le> 1000000000000"
      "0 \<le> (price * quantity + 999999) div 1000000" "(price * quantity + 999999) div 1000000 \<le> 1000000000000"
    using p zdiv_mono1 [of "price * quantity" 1000000000000000000 1000000]
      zdiv_mono1 [of "price * quantity + 999999" 1000000000000999999 1000000]
    by (simp_all add: pos_imp_zdiv_nonneg_iff)
  then show "0 \<le> exact_leg side price quantity" "exact_leg side price quantity \<le> 1000000000000"
    unfolding exact_leg_def ceil_as_floor [symmetric] by (cases side; simp)+
qed

lemma pair_economics_exact:
  assumes "0 \<le> quantity" "quantity \<le> 1000000000000" "0 \<le> u" "u \<le> 1000000000000" "0 \<le> d" "d \<le> 1000000000000"
    and "0 \<le> fees" "fees \<le> 2000000000" "0 \<le> conversion" "conversion \<le> 1000000000000"
  shows "pair_economics direction quantity u d fees conversion = Inr (exact_economics direction quantity u d fees conversion)"
    and "snd (exact_economics direction quantity u d fees conversion) \<le> 2000000000000"
  using assms
  by (cases direction; simp add: pair_economics_def exact_economics_def add128_def sub128_def i128_new_def i128_ok_def)+

lemma min_of_three: "Min {a, b, c :: int} = min (min a b) c"
  by (simp add: min.assoc)

lemma calculate_plan_exact:
  assumes k: "valid_constraints (ar_constraints q)" and levels: "selected_levels q = Some (up, down, side)"
    and price: "0 \<le> lv_price up" "lv_price up \<le> 1000000" "0 \<le> lv_price down" "lv_price down \<le> 1000000"
  shows "calculate_plan cx q = Inr (exact_plan cx q up down side)"
proof -
  let ?k = "ar_constraints q"
  define n where "n = min (min (ac_max_quantity ?k) (lv_quantity up)) (lv_quantity down)"
  define u where "u = exact_leg side (lv_price up) n"
  define d where "d = exact_leg side (lv_price down) n"
  obtain deployed profit where e: "exact_economics (ar_direction q) n u d (ac_up_max_fee ?k + ac_down_max_fee ?k) (ac_conversion_max_cost ?k) = (deployed, profit)"
    by fastforce
  show ?thesis
  proof (cases "n < ac_min_quantity ?k")
    case True
    then show ?thesis
      by (simp add: calculate_plan_def exact_plan_def Let_def levels min_of_three n_def [symmetric] split: prod.split)
  next
    case False
    then have n: "0 \<le> n" "n \<le> 1000000000000" "\<not> n < ac_partial_fill ?k"
      using k by (auto simp: valid_constraints_def n_def)
    have legs: "leg_value (lv_price up) n side = Inr u" "leg_value (lv_price down) n side = Inr d"
        "0 \<le> u" "u \<le> 1000000000000" "0 \<le> d" "d \<le> 1000000000000"
      using leg_value_exact [OF price(1,2) n(1,2)] leg_value_exact [OF price(3,4) n(1,2)] by (simp_all add: u_def d_def)
    have fees: "add128 (ac_up_max_fee ?k) (ac_down_max_fee ?k) = Some (ac_up_max_fee ?k + ac_down_max_fee ?k)"
        "0 \<le> ac_up_max_fee ?k + ac_down_max_fee ?k" "ac_up_max_fee ?k + ac_down_max_fee ?k \<le> 2000000000"
        "0 \<le> ac_conversion_max_cost ?k" "ac_conversion_max_cost ?k \<le> 1000000000000"
      using k by (auto simp: valid_constraints_def add128_def i128_new_def i128_ok_def)
    note eco = pair_economics_exact [OF n(1,2) legs(3-6) fees(2-5), of "ar_direction q", unfolded e]
    have roi: "mul128 profit 10000 = Some (profit * 10000)" "tdiv (profit * 10000) deployed = profit * 10000 div deployed"
        "u64_ok (profit * 10000 div deployed)" if "0 < profit" "0 < deployed"
    proof -
      have "profit * 10000 div deployed \<le> profit * 10000 div 1"
        using that by (intro zdiv_mono2) simp_all
      then show "mul128 profit 10000 = Some (profit * 10000)" "u64_ok (profit * 10000 div deployed)"
        using that eco(2) by (auto simp: mul128_def i128_new_def i128_ok_def u64_ok_def pos_imp_zdiv_nonneg_iff)
      show "tdiv (profit * 10000) deployed = profit * 10000 div deployed"
        using that by (simp add: tdiv_nonneg)
    qed
    show ?thesis
      using False n(3) legs(1,2) fees(1) eco(1) e roi
      by (auto simp: calculate_plan_def exact_plan_def Let_def levels min_of_three n_def [symmetric]
          u_def [symmetric] d_def [symmetric])
  qed
qed


section \<open>Plans against the pricing of the risk gate\<close>

lemma bind_Some: "Option.bind x f = Some y \<longleftrightarrow> (\<exists>v. x = Some v \<and> f v = Some y)"
  by (cases x) auto

text \<open>What a plan says, given the levels it was calculated from.\<close>

definition plan_of :: "arbitrage_codec \<Rightarrow> arbitrage_request \<Rightarrow> proposal_level \<Rightarrow> proposal_level \<Rightarrow> order_side \<Rightarrow> arbitrage_plan \<Rightarrow> bool" where
  "plan_of cx q up down side p \<longleftrightarrow>
     (let k = ar_constraints q; n = ap_quantity p; e = min (ar_expires_at q) (cx_valid_until (ar_context q)) in
      n = min (min (ac_max_quantity k) (lv_quantity up)) (lv_quantity down)
      \<and> ac_min_quantity k \<le> n \<and> ac_partial_fill k \<le> n
      \<and> leg_value (lv_price up) n side = Inr (ap_up_value p) \<and> leg_value (lv_price down) n side = Inr (ap_down_value p)
      \<and> ap_fee_budget p = ac_up_max_fee k + ac_down_max_fee k \<and> ap_conversion_cost p = ac_conversion_max_cost k
      \<and> ap_direction p = ar_direction q
      \<and> pair_economics (ar_direction q) n (ap_up_value p) (ap_down_value p) (ap_fee_budget p) (ap_conversion_cost p)
         = Inr (ap_deployed_capital p, ap_net_profit p)
      \<and> 0 < ap_net_profit p \<and> ac_min_net_profit k \<le> ap_net_profit p \<and> 0 < ap_deployed_capital p
      \<and> ap_roi_bps p = tdiv (ap_net_profit p * 10000) (ap_deployed_capital p) \<and> ac_min_roi_bps k \<le> ap_roi_bps p
      \<and> ap_intents p = (arbitrage_intent cx q True side n (lv_price up) e, arbitrage_intent cx q False side n (lv_price down) e)
      \<and> plan_verify_digest cx p)"

lemma calculate_plan_Inr:
  assumes "calculate_plan cx q = Inr (Inr p)" and levels: "selected_levels q = Some (up, down, side)"
  shows "plan_of cx q up down side p"
proof -
  let ?k = "ar_constraints q"
  define n where "n = min (min (ac_max_quantity ?k) (lv_quantity up)) (lv_quantity down)"
  have n: "ac_min_quantity ?k \<le> n" "ac_partial_fill ?k \<le> n"
    using assms by (auto simp: calculate_plan_def Let_def n_def [symmetric] split: if_split_asm)
  obtain u d fees where v: "leg_value (lv_price up) n side = Inr u" "leg_value (lv_price down) n side = Inr d"
      "add128 (ac_up_max_fee ?k) (ac_down_max_fee ?k) = Some fees"
    using assms n by (auto simp: calculate_plan_def Let_def n_def [symmetric] rbind_Inr_iff ok_or_Inr_iff)
  obtain deployed profit where e: "pair_economics (ar_direction q) n u d fees (ac_conversion_max_cost ?k) = Inr (deployed, profit)"
    using assms n v by (auto simp: calculate_plan_def Let_def n_def [symmetric] rbind_Inr_iff ok_or_Inr_iff)
  have f: "fees = ac_up_max_fee ?k + ac_down_max_fee ?k"
    using v(3) by (simp add: checked_simps)
  have pos: "0 < profit" "ac_min_net_profit ?k \<le> profit" "0 < deployed"
    using assms n v e by (auto simp: calculate_plan_def Let_def n_def [symmetric] split: if_split_asm)
  then show ?thesis
    using assms n v e f
    by (auto simp: calculate_plan_def Let_def n_def [symmetric] rbind_Inr_iff ok_or_Inr_iff checked_simps
        plan_of_def plan_verify_digest_def plan_digest_def split: if_split_asm)
qed

lemma calculate_plan_levels:
  assumes "calculate_plan cx q = Inr (Inr p)"
  obtains up down side where "selected_levels q = Some (up, down, side)"
  using assms by (cases "selected_levels q") (auto simp: calculate_plan_def)

lemma selected_levels_side:
  "selected_levels q = Some (up, down, side) \<Longrightarrow> side = (case ar_direction q of BuyPair \<Rightarrow> BuySide | SellPair \<Rightarrow> SellSide)"
  by (cases "ar_direction q") (auto simp: selected_levels_def bind_Some)

lemma pair_economics_Inr:
  assumes "pair_economics direction n u d fees conversion = Inr (deployed, profit)"
  shows "(deployed, profit) = exact_economics direction n u d fees conversion"
  using assms
  by (cases direction) (auto simp: pair_economics_def exact_economics_def rbind_Inr_iff ok_or_Inr_iff bind_Some checked_simps)

text \<open>Filling a whole candidate costs or earns its leg and its fee.\<close>

lemma whole_fee:
  assumes "partial_fee fee n n = Inr f" and "0 \<le> fee" and "0 < n"
  shows "f = fee"
proof -
  have "fee * n \<le> f * n" "f * n < (fee + 1) * n"
    using risk_div_ceil_Inr [of "fee * n" n f] assms
    by (auto simp: partial_fee_def rbind_Inr_iff ok_or_Inr_iff checked_simps distrib_right)
  then have "fee \<le> f" "f < fee + 1"
    using assms(3) by (simp_all add: mult_le_cancel_right mult_less_cancel_right)
  then show ?thesis by simp
qed

lemma leg_is_cost: "leg_value price n BuySide = Inr v \<Longrightarrow> buy_cost price n = Inr c \<Longrightarrow> c = v"
  by (auto simp: leg_value_def buy_cost_def risk_div_ceil_def rbind_Inr_iff ok_or_Inr_iff checked_simps)

lemma leg_is_proceeds: "leg_value price n SellSide = Inr v \<Longrightarrow> sale_proceeds price n = Inr c \<Longrightarrow> c = v"
  by (auto simp: leg_value_def sale_proceeds_def rbind_Inr_iff ok_or_Inr_iff checked_simps)

lemma whole_fill:
  assumes "apply_fill h v (oe_quantity v) False = Inr h'" and "0 < oe_quantity v" and "0 \<le> oe_max_fee v"
    and "leg_value (oe_limit_price v) (oe_quantity v) (oe_side v) = Inr x"
  shows "hd_available_cash h' = hd_available_cash h
      + (case oe_side v of BuySide \<Rightarrow> - x - oe_max_fee v | SellSide \<Rightarrow> x - oe_max_fee v)"
    and "bt_get_or (hd_available h') t 0 = bt_get_or (hd_available h) t 0
      + (if t = oe_token v then (case oe_side v of BuySide \<Rightarrow> oe_quantity v | SellSide \<Rightarrow> - oe_quantity v) else 0)"
proof -
  obtain fee where fee: "partial_fee (oe_max_fee v) (oe_quantity v) (oe_quantity v) = Inr fee"
    using assms(1,2) by (auto simp: apply_fill_def rbind_Inr_iff)
  then have f: "fee = oe_max_fee v"
    using whole_fee assms(2,3) by blast
  show "hd_available_cash h' = hd_available_cash h
      + (case oe_side v of BuySide \<Rightarrow> - x - oe_max_fee v | SellSide \<Rightarrow> x - oe_max_fee v)"
    and "bt_get_or (hd_available h') t 0 = bt_get_or (hd_available h) t 0
      + (if t = oe_token v then (case oe_side v of BuySide \<Rightarrow> oe_quantity v | SellSide \<Rightarrow> - oe_quantity v) else 0)"
  proof (atomize (full), cases "oe_side v")
    case BuySide
    obtain c where c: "buy_cost (oe_limit_price v) (oe_quantity v) = Inr c"
      using assms(1,2) fee BuySide by (auto simp: apply_fill_def rbind_Inr_iff)
    then have "c = x"
      using leg_is_cost assms(4) BuySide by simp
    then show "hd_available_cash h' = hd_available_cash h
      + (case oe_side v of BuySide \<Rightarrow> - x - oe_max_fee v | SellSide \<Rightarrow> x - oe_max_fee v)
      \<and> bt_get_or (hd_available h') t 0 = bt_get_or (hd_available h) t 0
      + (if t = oe_token v then (case oe_side v of BuySide \<Rightarrow> oe_quantity v | SellSide \<Rightarrow> - oe_quantity v) else 0)"
      using assms(1,2) fee f c BuySide
      by (auto simp: apply_fill_def Let_def rbind_Inr_iff ok_or_Inr_iff checked_simps add_balance_Inr bt_simps if_Inr_iff)
  next
    case SellSide
    obtain m c where c: "subtract_balance (hd_available h) (oe_token v) (oe_quantity v) = Inr m"
        "sale_proceeds (oe_limit_price v) (oe_quantity v) = Inr c" "hd_available h' = m"
        "hd_available_cash h' = hd_available_cash h + (c - fee)"
      using assms(1,2) fee SellSide
      by (auto simp: apply_fill_def Let_def rbind_Inr_iff ok_or_Inr_iff checked_simps if_Inr_iff)
    then have "c = x"
      using leg_is_proceeds assms(4) SellSide by simp
    then show "hd_available_cash h' = hd_available_cash h
      + (case oe_side v of BuySide \<Rightarrow> - x - oe_max_fee v | SellSide \<Rightarrow> x - oe_max_fee v)
      \<and> bt_get_or (hd_available h') t 0 = bt_get_or (hd_available h) t 0
      + (if t = oe_token v then (case oe_side v of BuySide \<Rightarrow> oe_quantity v | SellSide \<Rightarrow> - oe_quantity v) else 0)"
      using c f SellSide subtract_balance_Inr(1) [OF c(1), of t] by simp
  qed
qed

section \<open>Properties\<close>

text \<open>C30: The checked arithmetic of the detector is exact: for admissible constraints and book prices
  between zero and one, the calculation never overflows and is the one over unbounded integers: the
  quantity is the least of the limit and both levels, a leg to buy is rounded up and a leg to sell
  down to a whole micro, and the plan or the reason for refusing it follow from the exact profit and return.\<close>
theorem arbitrage_arithmetic_is_exact:
  assumes "valid_constraints (ar_constraints q)" and "selected_levels q = Some (up, down, side)"
    and "0 \<le> lv_price up \<and> lv_price up \<le> 1000000 \<and> 0 \<le> lv_price down \<and> lv_price down \<le> 1000000"
  shows "calculate_plan cx q = Inr (exact_plan cx q up down side)"
  using calculate_plan_exact [OF assms(1,2)] assms(3) by simp

text \<open>C27: The profit of a plan is what its fills leave, at the prices of the risk gate: when both candidate
  orders of the plan are filled completely in an account, the pair of tokens bought (and worth one unit
  together) or sold (after a split that costs the quantity), with the cost of the conversion, changes the
  account by exactly the net profit of the plan, which is positive and at least the minimum asked for.\<close>
theorem arbitrage_profit_is_realised:
  assumes "calculate_plan cx q = Inr (Inr p)" and "valid_constraints (ar_constraints q)"
    and "cx_up_token (ar_context q) \<noteq> cx_down_token (ar_context q)"
    and "up = candidate_of pc c (fst (ap_intents p))" and "down = candidate_of pc c (snd (ap_intents p))"
    and "apply_fill h up (oe_quantity up) False = Inr h1" and "apply_fill h1 down (oe_quantity down) False = Inr h2"
  shows "0 < ap_net_profit p \<and> ac_min_net_profit (ar_constraints q) \<le> ap_net_profit p \<and> 0 < ap_quantity p
    \<and> hd_available_cash h2
        + (case ap_direction p of BuyPair \<Rightarrow> ap_quantity p | SellPair \<Rightarrow> - ap_quantity p) - ap_conversion_cost p
      = hd_available_cash h + ap_net_profit p
    \<and> (\<forall>t \<in> {cx_up_token (ar_context q), cx_down_token (ar_context q)}.
         bt_get_or (hd_available h2) t 0 = bt_get_or (hd_available h) t 0
           + (case ap_direction p of BuyPair \<Rightarrow> ap_quantity p | SellPair \<Rightarrow> - ap_quantity p))"
proof -
  obtain u d side where levels: "selected_levels q = Some (u, d, side)"
    using assms(1) by (rule calculate_plan_levels)
  note p = calculate_plan_Inr [OF assms(1) levels, unfolded plan_of_def Let_def]
  have n: "0 < ap_quantity p" and fees: "0 \<le> ac_up_max_fee (ar_constraints q)" "0 \<le> ac_down_max_fee (ar_constraints q)"
    using assms(2) p by (auto simp: valid_constraints_def)
  have side: "side = (case ap_direction p of BuyPair \<Rightarrow> BuySide | SellPair \<Rightarrow> SellSide)"
    using selected_levels_side [OF levels] p by simp
  have up: "oe_quantity up = ap_quantity p" "oe_side up = side" "oe_token up = cx_up_token (ar_context q)"
      "oe_max_fee up = ac_up_max_fee (ar_constraints q)" "oe_limit_price up = lv_price u"
    and down: "oe_quantity down = ap_quantity p" "oe_side down = side" "oe_token down = cx_down_token (ar_context q)"
      "oe_max_fee down = ac_down_max_fee (ar_constraints q)" "oe_limit_price down = lv_price d"
    using p by (simp_all add: assms(4,5) candidate_of_def arbitrage_intent_def)
  note fill1 = whole_fill [OF assms(6), unfolded up, OF n fees(1)]
  note fill2 = whole_fill [OF assms(7), unfolded down, OF n fees(2)]
  have eco: "(ap_deployed_capital p, ap_net_profit p)
      = exact_economics (ap_direction p) (ap_quantity p) (ap_up_value p) (ap_down_value p)
          (ac_up_max_fee (ar_constraints q) + ac_down_max_fee (ar_constraints q)) (ap_conversion_cost p)"
    using pair_economics_Inr p by metis
  have pos: "0 < ap_net_profit p" "ac_min_net_profit (ar_constraints q) \<le> ap_net_profit p"
    using p by blast+
  have "leg_value (lv_price u) (ap_quantity p) side = Inr (ap_up_value p)" "leg_value (lv_price d) (ap_quantity p) side = Inr (ap_down_value p)"
    using p by blast+
  note fills = fill1 [OF this(1)] fill2 [OF this(2)]
  show ?thesis
    using pos n fills side assms(3) eco
    by (cases "ap_direction p") (simp_all add: exact_economics_def)
qed


section \<open>Accepted evaluations\<close>

lemma floor_bound:
  assumes "m \<le> a div b" and "0 < (b :: int)"
  shows "m * b \<le> a"
proof -
  have "m * b \<le> a div b * b"
    using assms by (intro mult_right_mono) simp_all
  then show ?thesis
    using div_mult_mod_eq [of a b] pos_mod_sign [OF assms(2), of a] by linarith
qed

lemma arbitrage_accepted:
  assumes "arbitrage_apply cx (EvaluateArbitrage i q t) s = (Inr d, s')" and "bt_get (ae_processed s) i = None"
  obtains s1 digest n where "arbitrage_evaluate cx i q s = Inr (d, s1)" "s' = arbitrage_record i digest (ar_context q) t d n s1"
    "verify_context (arc_proposal cx) (ar_context q)" "0 \<le> t" "ar_evaluated_at q = t"
proof -
  obtain content where c: "arbitrage_content cx (EvaluateArbitrage i q t) = Inr content"
    using assms(1) by (auto split: option.split_asm sum.split_asm)
  then have valid: "0 \<le> t" "ar_evaluated_at q = t"
    by (auto simp: arbitrage_content_def arbitrage_encode_command_def rbind_Inr_iff split: if_split_asm)
  have v: "verify_context (arc_proposal cx) (ar_context q)"
    using assms c by (auto simp: arbitrage_halt_def split: option.split_asm if_split_asm)
  obtain s1 n where "arbitrage_evaluate cx i q s = Inr (d, s1)" "s' = arbitrage_record i content (ar_context q) t d n s1"
    using assms c by (auto simp: arbitrage_halt_def split: option.split_asm if_split_asm sum.split_asm)
  then show ?thesis
    using that v valid by blast
qed

lemma arbitrage_apply_used:
  assumes "bs_mem e (ae_used_evaluations s)"
  shows "bs_mem e (ae_used_evaluations (snd (arbitrage_apply cx c s)))"
proof (cases c)
  case (EvaluateArbitrage i q t)
  obtain r s' where a: "arbitrage_apply cx c s = (r, s')" by fastforce
  have "bs_mem e (ae_used_evaluations s')"
  proof (cases "bt_get (ae_processed s) i = None \<and> (\<exists>d. r = Inr d)")
    case True
    then obtain d where d: "arbitrage_apply cx (EvaluateArbitrage i q t) s = (Inr d, s')" "bt_get (ae_processed s) i = None"
      using a EvaluateArbitrage by auto
    obtain s1 digest n where "arbitrage_evaluate cx i q s = Inr (d, s1)" "s' = arbitrage_record i digest (ar_context q) t d n s1"
      using arbitrage_accepted [OF d] by blast
    then show ?thesis
      using arbitrage_evaluate_Inr assms by (fastforce simp: arbitrage_record_def bs_mem_insert)
  next
    case False
    then have "ae_used_evaluations s' = ae_used_evaluations s"
      using a EvaluateArbitrage by (auto simp: arbitrage_halt_def split: option.split_asm if_split_asm sum.split_asm)
    then show ?thesis
      using assms by simp
  qed
  then show ?thesis
    by (simp add: a)
qed

lemma arbitrage_run_used:
  "bs_mem e (ae_used_evaluations s) \<Longrightarrow> bs_mem e (ae_used_evaluations (run_commands (arbitrage_apply cx) cs s))"
  by (rule run_commands_invariant [where P = "\<lambda>s. bs_mem e (ae_used_evaluations s)", OF _ arbitrage_apply_used])

declare arbitrage_apply.simps [simp del]

lemma arbitrage_judgement_profit:
  assumes "arbitrage_judgement q s = ExecutableProfit"
  shows "\<not> bs_mem (ar_evaluation_id q) (ae_used_evaluations s) \<and> cx_current (ar_context q) \<and> cx_active_ready (ar_context q)
    \<and> book_ready (cx_up_book (ar_context q)) \<and> book_ready (cx_down_book (ar_context q))
    \<and> ar_evaluated_at q \<le> cx_valid_until (ar_context q) \<and> ar_evaluated_at q \<le> ar_expires_at q
    \<and> valid_constraints (ar_constraints q)"
  using assms by (auto simp: arbitrage_judgement_def arbitrage_books_ready_def Let_def split: if_split_asm)

lemma opportunity_facts:
  assumes "arbitrage_apply cx (EvaluateArbitrage i q t) s = (Inr d, s')" and "bt_get (ae_processed s) i = None"
    and "ad_status d = Opportunity"
  obtains p where "ad_plan d = Some p" "calculate_plan cx q = Inr (Inr p)" "arbitrage_judgement q s = ExecutableProfit"
    "verify_context (arc_proposal cx) (ar_context q)" "ar_evaluated_at q = t" "0 \<le> t"
    "bs_mem (ar_evaluation_id q) (ae_used_evaluations s')" "arbitrage_verify_digest cx d"
proof -
  obtain s1 digest n where a: "arbitrage_evaluate cx i q s = Inr (d, s1)" "s' = arbitrage_record i digest (ar_context q) t d n s1"
      "verify_context (arc_proposal cx) (ar_context q)" "0 \<le> t" "ar_evaluated_at q = t"
    using arbitrage_accepted [OF assms(1,2)] by blast
  note e = arbitrage_evaluate_Inr [OF a(1)]
  obtain p where "ad_plan d = Some p"
    using e assms(3) by auto
  moreover have "bs_mem (ar_evaluation_id q) (ae_used_evaluations s')"
    using e a(2) by (simp add: arbitrage_record_def bs_mem_insert)
  ultimately show ?thesis
    using that e a(3-5) by blast
qed


text \<open>What the detector plans the proposal boundary accepts: both intents of an accepted opportunity, at
  prices between zero and one and under proposal ids not used before, are accepted in the context of
  the opportunity, and the risk gate finds both candidates well formed in any market of their tokens.\<close>
theorem plan_intents_become_candidates:
  assumes "arbitrage_apply cx (EvaluateArbitrage i q t) s = (Inr d, s')" and "bt_get (ae_processed s) i = None"
    and "ad_plan d = Some p" and "intent \<in> {fst (ap_intents p), snd (ap_intents p)}"
    and "0 \<le> pi_limit_price intent \<and> pi_limit_price intent \<le> 1000000"
    and "\<not> bs_mem (pi_proposal_id intent) (spe_used_proposals e)" and "bt_contains markets (pi_token intent)"
  shows "proposal_judgement (ar_context q) intent e = ContextAccepted
    \<and> valid_order (candidate_of (arc_proposal cx) (ar_context q) intent) markets"
proof -
  have status: "ad_status d = Opportunity"
    using arbitrage_accepted [OF assms(1,2)] arbitrage_evaluate_Inr assms(3) by (metis option.distinct(1))
  obtain p' where p': "ad_plan d = Some p'" "calculate_plan cx q = Inr (Inr p')" "arbitrage_judgement q s = ExecutableProfit"
      "ar_evaluated_at q = t" "0 \<le> t"
    using opportunity_facts [OF assms(1,2) status] .
  note ready = arbitrage_judgement_profit [OF p'(3)]
  obtain up down side where levels: "selected_levels q = Some (up, down, side)"
    using p'(2) by (rule calculate_plan_levels)
  have plan: "calculate_plan cx q = Inr (Inr p)"
    using p'(1,2) assms(3) by simp
  note f = calculate_plan_Inr [OF plan levels, unfolded plan_of_def Let_def]
  define k where "k = ar_constraints q"
  have n: "ap_quantity p \<le> ac_max_quantity k" "ac_min_quantity k \<le> ap_quantity p"
    using f by (auto simp: k_def)
  obtain b price where b: "intent = arbitrage_intent cx q b side (ap_quantity p) price (min (ar_expires_at q) (cx_valid_until (ar_context q)))"
    using f assms(4) by fastforce
  have c: "valid_constraints k"
    using ready by (simp add: k_def)
  have economics: "valid_economics intent" "pi_partial_fill intent < pi_quantity intent"
    using c n assms(5) p'(4,5) ready
    by (auto simp: b arbitrage_intent_def valid_economics_def valid_constraints_def k_def [symmetric])
  have "proposal_judgement (ar_context q) intent e = ContextAccepted"
    using economics(1) ready assms(6)
    by (auto simp: proposal_judgement_def proposal_books_ready_def b arbitrage_intent_def)
  then show ?thesis
    using economics assms(7) by (auto simp: valid_order_def candidate_of_def valid_economics_def)
qed

section \<open>Accepted proposals\<close>

lemma proposal_accepted:
  assumes "proposal_apply cx (Propose i c p t) s = (Inr d, s')" and "bt_get (spe_processed s) i = None"
  obtains s1 digest n where "proposal_evaluate cx i c p s = Inr (d, s1)" "s' = proposal_record i digest c t d n s1"
    "verify_context cx c" "0 \<le> t" "pi_evaluated_at p = t"
proof -
  obtain content where k: "proposal_content cx (Propose i c p t) = Inr content"
    using assms(1) by (auto split: option.split_asm sum.split_asm)
  then have valid: "0 \<le> t" "pi_evaluated_at p = t"
    by (auto simp: proposal_content_def proposal_encode_command_def rbind_Inr_iff split: if_split_asm)
  have v: "verify_context cx c"
    using assms k by (auto simp: proposal_halt_def split: option.split_asm if_split_asm)
  obtain s1 n where "proposal_evaluate cx i c p s = Inr (d, s1)" "s' = proposal_record i content c t d n s1"
    using assms k by (auto simp: proposal_halt_def split: option.split_asm if_split_asm sum.split_asm)
  then show ?thesis
    using that v valid by blast
qed

declare proposal_apply.simps [simp del]



section \<open>A concrete market\<close>

text \<open>Both tokens of a market are offered below one half together with little: a million micro pairs at
  0.40 and 0.50. The witness's digests are the length of what is hashed.\<close>

definition demo_strategy_codec :: proposal_codec where
  "demo_strategy_codec = \<lparr>sc_to_vec = \<lambda>_. Inr ''w'', sc_context_json = \<lambda>_. ''c'', sc_intent_json = \<lambda>_. ''i'',
     sc_decision_json = \<lambda>_. ''d'', sc_blake3 = \<lambda>s. of_nat (length s)\<rparr>"

definition demo_arbitrage_codec :: arbitrage_codec where
  "demo_arbitrage_codec = \<lparr>arc_to_vec = \<lambda>_. Inr ''w'', arc_request_json = \<lambda>_. ''q'', arc_direction_json = \<lambda>_. ''b'',
     arc_constraints_json = \<lambda>_. ''k'', arc_plan_json = \<lambda>_. ''p'', arc_decision_json = \<lambda>_. ''d'',
     arc_proposal = demo_strategy_codec\<rparr>"

definition demo_book :: "int \<Rightarrow> proposal_book option" where
  "demo_book ask = Some \<lparr>bk_authoritative = True, bk_best_bid = Some \<lparr>lv_price = 100000, lv_quantity = 1000000\<rparr>,
     bk_best_ask = Some \<lparr>lv_price = ask, lv_quantity = 1000000\<rparr>\<rparr>"

definition demo_context :: strategy_context where
  "demo_context = \<lparr>cx_captured_at = 4, cx_valid_until = 20, cx_coordinator_evaluated_at = 4, cx_coordinator_digest = 1,
     cx_applied_frame_digest = 2, cx_session_digest = 3, cx_market_digest = 4, cx_reference_digest = 5,
     cx_supervision_digest = 6, cx_asset = Bitcoin, cx_session_start_time_ms = 0, cx_session_end_time_ms = 9,
     cx_condition_id = ''c'', cx_up_token = demo_up, cx_down_token = demo_down, cx_current = True,
     cx_active_ready = True, cx_up_book = demo_book 400000, cx_down_book = demo_book 500000, cx_context_digest = 37\<rparr>"

definition demo_arbitrage :: "bytes32 \<Rightarrow> int \<Rightarrow> arbitrage_request" where
  "demo_arbitrage e t = \<lparr>ar_evaluation_id = e, ar_direction = BuyPair, ar_context = demo_context,
     ar_constraints = \<lparr>ac_min_quantity = 10, ac_max_quantity = 1000, ac_partial_fill = 5, ac_up_max_fee = 1,
       ac_down_max_fee = 2, ac_conversion_max_cost = 3, ac_min_net_profit = 1, ac_min_roi_bps = 100\<rparr>,
     ar_evaluated_at = t, ar_expires_at = 15\<rparr>"

abbreviation demo_evaluate :: "bytes32 \<Rightarrow> bytes32 \<Rightarrow> int \<Rightarrow> arbitrage_engine \<Rightarrow> (arbitrage_error + arbitrage_decision) \<times> arbitrage_engine" where
  "demo_evaluate i e t \<equiv> arbitrage_apply demo_arbitrage_codec (EvaluateArbitrage i (demo_arbitrage e t) t)"

definition demo_plan :: arbitrage_plan where
  "demo_plan = (case calculate_plan demo_arbitrage_codec (demo_arbitrage 1 5) of Inr (Inr p) \<Rightarrow> p | _ \<Rightarrow> undefined)"

definition demo_account :: "int \<Rightarrow> holdings" where
  "demo_account cash = \<lparr>hd_available_cash = cash, hd_reserved_cash = 0, hd_available = [], hd_reserved = [], hd_locked = []\<rparr>"

definition demo_up_order :: order_exposure where
  "demo_up_order = candidate_of demo_strategy_codec demo_context (fst (ap_intents demo_plan))"

definition demo_down_order :: order_exposure where
  "demo_down_order = candidate_of demo_strategy_codec demo_context (snd (ap_intents demo_plan))"

definition demo_filled :: "holdings \<Rightarrow> order_exposure \<Rightarrow> holdings" where
  "demo_filled h v = (case apply_fill h v (oe_quantity v) False of Inr h' \<Rightarrow> h' | Inl _ \<Rightarrow> undefined)"

definition demo_found :: arbitrage_engine where
  "demo_found = snd (demo_evaluate 1 1 5 arbitrage_engine_default)"

definition demo_opportunity :: "(arbitrage_error + arbitrage_decision) \<times> arbitrage_engine \<Rightarrow> bool" where
  "demo_opportunity r = (case fst r of Inr d \<Rightarrow> ad_status d = Opportunity | Inl _ \<Rightarrow> False)"

definition demo_intent_down :: proposal_intent where
  "demo_intent_down = snd (ap_intents demo_plan)"

definition demo_markets :: market_index where
  "demo_markets = [(demo_down, 0)]"

definition demo_proposed :: "(proposal_error + proposal_decision) \<times> proposal_engine" where
  "demo_proposed = proposal_apply demo_strategy_codec (Propose 1 demo_context demo_intent_down 5) proposal_engine_default"

text \<open>What the witnesses need of this plan, evaluated at once.\<close>

lemma demo_plan_facts:
  "calculate_plan demo_arbitrage_codec (demo_arbitrage 1 5) = Inr (Inr demo_plan) \<and> ap_net_profit demo_plan = 94
   \<and> is_ok (apply_fill (demo_account 2000) demo_up_order (oe_quantity demo_up_order) False)
   \<and> is_ok (apply_fill (demo_filled (demo_account 2000) demo_up_order) demo_down_order (oe_quantity demo_down_order) False)
   \<and> cx_up_token (ar_context (demo_arbitrage 1 5)) \<noteq> cx_down_token (ar_context (demo_arbitrage 1 5))
   \<and> ap_direction demo_plan = BuyPair \<and> ap_quantity demo_plan = 1000 \<and> ap_conversion_cost demo_plan = 3
   \<and> demo_opportunity (demo_evaluate 1 1 5 arbitrage_engine_default) \<and> demo_opportunity (demo_evaluate 2 2 6 demo_found)
   \<and> bt_get (ae_processed demo_found) 2 = None
   \<and> (case fst (demo_evaluate 1 1 5 arbitrage_engine_default) of Inr d \<Rightarrow> ad_plan d = Some demo_plan | Inl _ \<Rightarrow> False)
   \<and> 0 \<le> pi_limit_price demo_intent_down \<and> pi_limit_price demo_intent_down \<le> 1000000
   \<and> bt_contains demo_markets (pi_token demo_intent_down)
   \<and> (case fst demo_proposed of Inr d \<Rightarrow> pp_candidate d = Some demo_down_order | Inl _ \<Rightarrow> False)
   \<and> bt_contains demo_markets (oe_token demo_down_order) \<and> oe_partial_fill demo_down_order < oe_quantity demo_down_order"
  by code_simp

lemma demo_plan_is: "calculate_plan demo_arbitrage_codec (demo_arbitrage 1 5) = Inr (Inr demo_plan) \<and> ap_net_profit demo_plan = 94"
  using demo_plan_facts by (elim conjE) (intro conjI; assumption)

lemma demo_constraints: "valid_constraints (ar_constraints (demo_arbitrage e t))"
  by (simp add: demo_arbitrage_def valid_constraints_def)

definition demo_levels :: "proposal_level \<times> proposal_level" where
  "demo_levels = (\<lparr>lv_price = 400000, lv_quantity = 1000000\<rparr>, \<lparr>lv_price = 500000, lv_quantity = 1000000\<rparr>)"

lemma demo_selected: "selected_levels (demo_arbitrage e t) = Some (fst demo_levels, snd demo_levels, BuySide)"
  by (simp add: selected_levels_def demo_arbitrage_def demo_context_def demo_book_def demo_levels_def)

theorem arbitrage_arithmetic_is_exact_witness:
  "exact_plan demo_arbitrage_codec (demo_arbitrage 1 5) (fst demo_levels) (snd demo_levels) BuySide = Inr demo_plan"
  using arbitrage_arithmetic_is_exact [OF demo_constraints demo_selected, of demo_arbitrage_codec 1 5] demo_plan_is
  by (simp add: demo_levels_def)

lemma demo_fills:
  "is_ok (apply_fill (demo_account 2000) demo_up_order (oe_quantity demo_up_order) False)
   \<and> is_ok (apply_fill (demo_filled (demo_account 2000) demo_up_order) demo_down_order (oe_quantity demo_down_order) False)"
  using demo_plan_facts by (elim conjE) (intro conjI; assumption)

lemma demo_filledI: "is_ok (apply_fill h v (oe_quantity v) False) \<Longrightarrow> apply_fill h v (oe_quantity v) False = Inr (demo_filled h v)"
  by (auto simp: is_ok_def demo_filled_def split: sum.split_asm)

theorem arbitrage_profit_is_realised_witness:
  "hd_available_cash (demo_filled (demo_filled (demo_account 2000) demo_up_order) demo_down_order) + 1000 - 3 = 2094"
proof -
  have tokens: "cx_up_token (ar_context (demo_arbitrage 1 5)) \<noteq> cx_down_token (ar_context (demo_arbitrage 1 5))"
    using demo_plan_facts by - (elim conjE, assumption)+
  have plan: "ap_direction demo_plan = BuyPair" "ap_quantity demo_plan = 1000" "ap_conversion_cost demo_plan = 3"
    using demo_plan_facts by - (elim conjE, assumption)+
  show ?thesis
    using arbitrage_profit_is_realised [OF conjunct1 [OF demo_plan_is] demo_constraints tokens demo_up_order_def demo_down_order_def
        demo_filledI [OF conjunct1 [OF demo_fills]] demo_filledI [OF conjunct2 [OF demo_fills]]] plan demo_plan_is
    by (simp add: demo_account_def)
qed

lemma demo_opportunities:
  "demo_opportunity (demo_evaluate 1 1 5 arbitrage_engine_default) \<and> demo_opportunity (demo_evaluate 2 2 6 demo_found)
   \<and> bt_get (ae_processed demo_found) 2 = None"
  using demo_plan_facts by (elim conjE) (intro conjI; assumption)

lemma demo_opportunityD: "demo_opportunity r \<Longrightarrow> \<exists>d. r = (Inr d, snd r) \<and> ad_status d = Opportunity"
  by (cases r) (auto simp: demo_opportunity_def split: sum.split_asm)

lemma demo_first: "\<exists>d. demo_evaluate 1 1 5 arbitrage_engine_default = (Inr d, demo_found) \<and> ad_status d = Opportunity"
  unfolding demo_found_def by (rule demo_opportunityD [OF conjunct1 [OF demo_opportunities]])


theorem plan_intents_become_candidates_witness:
  "proposal_judgement demo_context demo_intent_down proposal_engine_default = ContextAccepted"
proof -
  obtain d where d: "demo_evaluate 1 1 5 arbitrage_engine_default = (Inr d, demo_found)" "ad_status d = Opportunity"
    using demo_first by blast
  have new: "bt_get (ae_processed arbitrage_engine_default) 1 = None"
    by (simp add: arbitrage_engine_default_def)
  have "case fst (demo_evaluate 1 1 5 arbitrage_engine_default) of Inr d \<Rightarrow> ad_plan d = Some demo_plan | Inl _ \<Rightarrow> False"
    using demo_plan_facts by - (elim conjE, assumption)+
  then have plan: "ad_plan d = Some demo_plan"
    by (simp add: d(1))
  have intent: "demo_intent_down \<in> {fst (ap_intents demo_plan), snd (ap_intents demo_plan)}"
    by (simp add: demo_intent_down_def)
  have price: "0 \<le> pi_limit_price demo_intent_down \<and> pi_limit_price demo_intent_down \<le> 1000000"
    using demo_plan_facts by (elim conjE) (intro conjI; assumption)
  have unused: "\<not> bs_mem (pi_proposal_id demo_intent_down) (spe_used_proposals proposal_engine_default)"
    by (simp add: proposal_engine_default_def)
  have market: "bt_contains demo_markets (pi_token demo_intent_down)"
    using demo_plan_facts by - (elim conjE, assumption)+
  show ?thesis
    using plan_intents_become_candidates [OF d(1) new plan intent price unused market] by (simp add: demo_arbitrage_def)
qed

lemma demo_candidate: "case fst demo_proposed of Inr d \<Rightarrow> pp_candidate d = Some demo_down_order | Inl _ \<Rightarrow> False"
  using demo_plan_facts by - (elim conjE, assumption)+

end
