(* ===== verification/Paired_Opportunity.thy ===== *)
theory Paired_Opportunity
  imports Complete_Set_Arbitrage
begin

text \<open>
  The paired opportunity runtime of \<open>crates/paired-opportunity-runtime/src/lib.rs\<close>: one writer over the
  arbitrage detector, the proposal boundary and the risk gate. An opportunity becomes two proposals, the
  two candidates one risk request. This theory holds the data and the operations;
  \<open>Paired_Opportunity_Theorems\<close> what they guarantee.
\<close>

section \<open>Data\<close>

type_synonym pair_command_id = bytes32

record pair_frame =
  pf_reconciliation :: recon_risk_gate
  pf_ledger :: ledger_risk_view
  pf_markets :: "market_risk list"
  pf_open_orders :: "order_exposure list"
  pf_shocks :: "shock_profile list"
  pf_limits :: risk_limits
  pf_evaluated_at :: int

datatype pair_command = EvaluatePair pair_command_id arbitrage_command pair_frame int

fun pair_command_id :: "pair_command \<Rightarrow> pair_command_id" where
  "pair_command_id (EvaluatePair i _ _ _) = i"

fun pair_recorded_at :: "pair_command \<Rightarrow> int" where
  "pair_recorded_at (EvaluatePair _ _ _ t) = t"

datatype pair_status = RiskEligible | PairNoTrade

datatype pair_reason = CombinedRiskApproved | DetectorNoOpportunity | CombinedRiskNoTrade

record pair_decision =
  qd_command_id :: pair_command_id
  qd_status :: pair_status
  qd_reason :: pair_reason
  qd_arbitrage :: arbitrage_decision
  qd_proposals :: "proposal_decision list"
  qd_risk :: "risk_decision option"
  qd_decision_digest :: bytes32

datatype pair_error =
    QTimestamp
  | QCommandBound
  | QJson string
  | QVersion int
  | QIdempotencyConflict
  | QClockRegression
  | QBoundary
  | QArbitrage string
  | QProposal string
  | QRisk string
  | QOverflow
  | QHalted string

fun pair_error_text :: "pair_error \<Rightarrow> string" where
  "pair_error_text QTimestamp = ''paired command timestamp is invalid''"
| "pair_error_text QCommandBound = ''paired command exceeds its canonical bound''"
| "pair_error_text (QJson e) = ''paired command JSON is invalid: '' @ e"
| "pair_error_text (QVersion v) = ''unsupported paired command version: '' @ show_nat (nat v)"
| "pair_error_text QIdempotencyConflict = ''paired command id was reused for different content''"
| "pair_error_text QClockRegression = ''paired runtime clock regressed''"
| "pair_error_text QBoundary = ''paired child boundary was substituted or became inconsistent''"
| "pair_error_text (QArbitrage e) = ''arbitrage child failed: '' @ e"
| "pair_error_text (QProposal e) = ''proposal child failed: '' @ e"
| "pair_error_text (QRisk e) = ''risk child failed: '' @ e"
| "pair_error_text QOverflow = ''paired runtime counter overflow''"
| "pair_error_text (QHalted reason) = ''paired runtime is halted: '' @ reason"

record pair_engine =
  qe_arbitrage :: arbitrage_engine
  qe_proposal :: proposal_engine
  qe_risk :: risk_engine
  qe_consumed :: "bytes32 btset"
  qe_processed :: "(pair_command_id, bytes32 \<times> pair_decision) btree"
  qe_accepted :: int
  qe_eligible_count :: int
  qe_no_trade_count :: int
  qe_last_recorded_at :: "int option"
  qe_last_decision :: "pair_decision option"
  qe_halted :: "string option"

definition pair_engine_default :: pair_engine where
  "pair_engine_default = \<lparr>qe_arbitrage = arbitrage_engine_default, qe_proposal = proposal_engine_default,
     qe_risk = risk_engine_default, qe_consumed = [], qe_processed = [], qe_accepted = 0,
     qe_eligible_count = 0, qe_no_trade_count = 0, qe_last_recorded_at = None, qe_last_decision = None,
     qe_halted = None\<rparr>"

text \<open>\<open>serde_json\<close> on the types that are hashed; \<open>blake3\<close> is the one of the detector.\<close>

record pair_codec =
  qc_to_vec :: "pair_command wire \<Rightarrow> string + string"
  qc_index_json :: "nat \<Rightarrow> string"
  qc_decision_json :: "pair_decision \<Rightarrow> string"
  qc_arbitrage :: arbitrage_codec
  qc_risk :: risk_codec

abbreviation qc_blake3 :: "pair_codec \<Rightarrow> string \<Rightarrow> bytes32" where
  "qc_blake3 cx \<equiv> arc_blake3 (qc_arbitrage cx)"

abbreviation qc_proposal :: "pair_codec \<Rightarrow> proposal_codec" where
  "qc_proposal cx \<equiv> arc_proposal (qc_arbitrage cx)"

section \<open>Digests and derived ids\<close>

definition pair_decision_digest :: "pair_codec \<Rightarrow> pair_decision \<Rightarrow> bytes32" where
  "pair_decision_digest cx d = qc_blake3 cx
     (''paired-opportunity-decision-v1'' @ prefixed (qc_decision_json cx (d\<lparr>qd_decision_digest := 0\<rparr>)))"

definition pair_verify_digest :: "pair_codec \<Rightarrow> pair_decision \<Rightarrow> bool" where
  "pair_verify_digest cx d = (qd_decision_digest d = pair_decision_digest cx d)"

definition make_pair_decision ::
  "pair_codec \<Rightarrow> pair_command_id \<Rightarrow> pair_status \<Rightarrow> pair_reason \<Rightarrow> arbitrage_decision \<Rightarrow> proposal_decision list
    \<Rightarrow> risk_decision option \<Rightarrow> pair_decision" where
  "make_pair_decision cx i status reason arbitrage proposals risk =
     (let value = \<lparr>qd_command_id = i, qd_status = status, qd_reason = reason, qd_arbitrage = arbitrage,
        qd_proposals = proposals, qd_risk = risk, qd_decision_digest = 0\<rparr>
      in value\<lparr>qd_decision_digest := pair_decision_digest cx value\<rparr>)"

definition derived_proposal_command_id :: "pair_codec \<Rightarrow> pair_command_id \<Rightarrow> nat \<Rightarrow> bytes32 \<Rightarrow> proposal_command_id" where
  "derived_proposal_command_id cx i index digest = qc_blake3 cx
     (''paired-runtime-proposal-command-v1'' @ bytes_of_id i @ bytes_of_id digest @ prefixed (qc_index_json cx index))"

definition derived_risk_command_id :: "pair_codec \<Rightarrow> pair_command_id \<Rightarrow> bytes32 \<Rightarrow> risk_command_id" where
  "derived_risk_command_id cx i digest = qc_blake3 cx
     (''paired-runtime-risk-command-v1'' @ bytes_of_id i @ bytes_of_id digest)"

section \<open>The evaluation\<close>

text \<open>One turn of the loop over the intents of the plan: the proposal must become a candidate.\<close>

definition propose_leg ::
  "pair_codec \<Rightarrow> pair_command_id \<Rightarrow> bytes32 \<Rightarrow> strategy_context \<Rightarrow> nat \<Rightarrow> proposal_intent \<Rightarrow> proposal_engine
    \<Rightarrow> pair_error + proposal_decision \<times> proposal_engine" where
  "propose_leg cx i digest c index intent p =
     (case proposal_apply (qc_proposal cx)
         (Propose (derived_proposal_command_id cx i index digest) c intent (pi_evaluated_at intent)) p of
        (Inl e, _) \<Rightarrow> Inl (QProposal (proposal_error_text e))
      | (Inr d, p') \<Rightarrow>
          if pp_status d \<noteq> Candidate \<or> pp_candidate d = None then Inl QBoundary else Inr (d, p'))"

definition pair_risk_request :: "pair_frame \<Rightarrow> order_exposure \<Rightarrow> order_exposure \<Rightarrow> risk_request" where
  "pair_risk_request frame first second =
     \<lparr>rq_reconciliation = pf_reconciliation frame, rq_ledger = pf_ledger frame, rq_markets = pf_markets frame,
      rq_open_orders = pf_open_orders frame, rq_candidate = first, rq_additional_candidates = [second],
      rq_shocks = pf_shocks frame, rq_limits = pf_limits frame, rq_evaluated_at = pf_evaluated_at frame\<rparr>"

text \<open>Both legs of an opportunity, through the proposal boundary and the risk gate.\<close>

definition evaluate_legs ::
  "pair_codec \<Rightarrow> pair_command_id \<Rightarrow> arbitrage_decision \<Rightarrow> arbitrage_plan \<Rightarrow> strategy_context \<Rightarrow> pair_frame \<Rightarrow> pair_engine
    \<Rightarrow> pair_error + pair_decision \<times> pair_engine" where
  "evaluate_legs cx i a plan c frame s =
     rbind (propose_leg cx i (ap_plan_digest plan) c 0 (fst (ap_intents plan)) (qe_proposal s)) (\<lambda>(d0, p0).
     rbind (propose_leg cx i (ap_plan_digest plan) c 1 (snd (ap_intents plan)) p0) (\<lambda>(d1, p1).
     rbind (ok_or (pp_candidate d0) QBoundary) (\<lambda>first.
     rbind (ok_or (pp_candidate d1) QBoundary) (\<lambda>second.
     case risk_apply (qc_risk cx) (Evaluate (derived_risk_command_id cx i (ap_plan_digest plan))
         (pair_risk_request frame first second) (pf_evaluated_at frame)) (qe_risk s) of
       (Inl e, _) \<Rightarrow> Inl (QRisk (risk_error_text e))
     | (Inr k, risk) \<Rightarrow>
         (let (status, reason) = (if rd_status k = Approve then (RiskEligible, CombinedRiskApproved)
            else (PairNoTrade, CombinedRiskNoTrade)) in
          Inr (make_pair_decision cx i status reason a [d0, d1] (Some k),
            s\<lparr>qe_proposal := p1, qe_risk := risk\<rparr>))))))"

fun arbitrage_request_of :: "arbitrage_command \<Rightarrow> arbitrage_request" where
  "arbitrage_request_of (EvaluateArbitrage _ q _) = q"

fun pair_evaluate :: "pair_codec \<Rightarrow> pair_command \<Rightarrow> pair_engine \<Rightarrow> pair_error + pair_decision \<times> pair_engine" where
  "pair_evaluate cx (EvaluatePair i ac frame t) s =
     (case arbitrage_apply (qc_arbitrage cx) ac (qe_arbitrage s) of
        (Inl e, _) \<Rightarrow> Inl (QArbitrage (arbitrage_error_text e))
      | (Inr a, arbitrage) \<Rightarrow>
          if bs_mem (ad_decision_digest a) (qe_consumed s) then Inl QBoundary
          else
            let s1 = s\<lparr>qe_arbitrage := arbitrage, qe_consumed := bs_insert (ad_decision_digest a) (qe_consumed s)\<rparr> in
            if ad_status a \<noteq> Opportunity
            then Inr (make_pair_decision cx i PairNoTrade DetectorNoOpportunity a [] None, s1)
            else
              rbind (ok_or (ad_plan a) QBoundary) (\<lambda>plan.
              let c = ar_context (arbitrage_request_of ac) in
              if \<not> plan_verify_digest (qc_arbitrage cx) plan then Inl QBoundary
              else if cx_context_digest c \<noteq> ad_context_digest a \<or> pf_evaluated_at frame \<noteq> t then Inl QBoundary
              else evaluate_legs cx i a plan c frame s1))"

section \<open>The engine\<close>

fun pair_validate_command :: "pair_command \<Rightarrow> pair_error + unit" where
  "pair_validate_command (EvaluatePair _ ac frame t) =
     (if t < 0 \<or> pf_evaluated_at frame \<noteq> t \<or> arbitrage_recorded_at ac \<noteq> t then Inl QTimestamp else Inr ())"

definition pair_encode_command :: "pair_codec \<Rightarrow> pair_command \<Rightarrow> pair_error + string" where
  "pair_encode_command cx c =
     rbind (pair_validate_command c) (\<lambda>_.
       case qc_to_vec cx \<lparr>wire_version = 1, wire_command = c\<rparr> of
         Inl e \<Rightarrow> Inl (QJson e)
       | Inr bytes \<Rightarrow> if 1048576 < int (length bytes) then Inl QCommandBound else Inr bytes)"

definition pair_decode_command ::
  "(string \<Rightarrow> string + pair_command wire) \<Rightarrow> string \<Rightarrow> pair_error + pair_command" where
  "pair_decode_command deserialize bytes =
     (if 1048576 < int (length bytes) then Inl QCommandBound
      else case deserialize bytes of
        Inl e \<Rightarrow> Inl (QJson e)
      | Inr w \<Rightarrow>
          if wire_version w \<noteq> 1 then Inl (QVersion (wire_version w))
          else rbind (pair_validate_command (wire_command w)) (\<lambda>_. Inr (wire_command w)))"

definition pair_content :: "pair_codec \<Rightarrow> pair_command \<Rightarrow> pair_error + bytes32" where
  "pair_content cx c = rbind (pair_encode_command cx c) (\<lambda>bytes. Inr (qc_blake3 cx bytes))"

definition pair_halt :: "pair_error \<Rightarrow> pair_engine \<Rightarrow> pair_engine" where
  "pair_halt e s = s\<lparr>qe_halted := Some (pair_error_text e)\<rparr>"

text \<open>The counter of the status a decision has.\<close>

definition pair_count :: "pair_decision \<Rightarrow> pair_engine \<Rightarrow> pair_engine option" where
  "pair_count d s =
     (case qd_status d of
        RiskEligible \<Rightarrow> map_option (\<lambda>n. s\<lparr>qe_eligible_count := n\<rparr>) (addu64 (qe_eligible_count s) 1)
      | PairNoTrade \<Rightarrow> map_option (\<lambda>n. s\<lparr>qe_no_trade_count := n\<rparr>) (addu64 (qe_no_trade_count s) 1))"

definition pair_enter :: "pair_command \<Rightarrow> bytes32 \<Rightarrow> pair_decision \<Rightarrow> pair_engine \<Rightarrow> pair_engine" where
  "pair_enter c digest d s = s\<lparr>qe_last_recorded_at := Some (pair_recorded_at c), qe_last_decision := Some d,
     qe_processed := bt_insert (pair_command_id c) (digest, d) (qe_processed s)\<rparr>"

text \<open>A command that was not seen before: evaluated on a copy that is installed only when all went well.\<close>

definition pair_apply_new ::
  "pair_codec \<Rightarrow> pair_command \<Rightarrow> bytes32 \<Rightarrow> pair_engine \<Rightarrow> (pair_error + pair_decision) \<times> pair_engine" where
  "pair_apply_new cx c digest s =
     (if (case qe_last_recorded_at s of None \<Rightarrow> False | Some p \<Rightarrow> pair_recorded_at c < p)
      then (Inl QClockRegression, pair_halt QClockRegression s)
      else case pair_evaluate cx c s of
        Inl e \<Rightarrow> (Inl e, pair_halt e s)
      | Inr (d, s1) \<Rightarrow>
          (case addu64 (qe_accepted s1) 1 of
             None \<Rightarrow> (Inl QOverflow, pair_halt QOverflow s)
           | Some n \<Rightarrow>
               (case pair_count d (s1\<lparr>qe_accepted := n\<rparr>) of
                  None \<Rightarrow> (Inl QOverflow, pair_halt QOverflow s)
                | Some s2 \<Rightarrow> (Inr d, pair_enter c digest d s2))))"

definition pair_apply :: "pair_codec \<Rightarrow> pair_command \<Rightarrow> pair_engine \<Rightarrow> (pair_error + pair_decision) \<times> pair_engine" where
  "pair_apply cx c s =
     (case qe_halted s of
        Some reason \<Rightarrow> (Inl (QHalted reason), s)
      | None \<Rightarrow>
          (case pair_content cx c of
             Inl e \<Rightarrow> (Inl e, s)
           | Inr content \<Rightarrow>
               (case bt_get (qe_processed s) (pair_command_id c) of
                  Some (existing, decision) \<Rightarrow>
                    if existing = content then (Inr decision, s)
                    else (Inl QIdempotencyConflict, pair_halt QIdempotencyConflict s)
                | None \<Rightarrow> pair_apply_new cx c content s)))"

section \<open>The digest and the snapshot\<close>

record pair_json =
  qj_count :: "int \<Rightarrow> string"
  qj_time :: "int option \<Rightarrow> string"
  qj_last_decision :: "pair_decision option \<Rightarrow> string"
  qj_decision :: "pair_decision \<Rightarrow> string"
  qj_halted :: "string option \<Rightarrow> string"
  qj_arbitrage :: arbitrage_json
  qj_proposal :: proposal_json
  qj_risk :: risk_json

definition child_digests :: "pair_json \<Rightarrow> (string \<Rightarrow> bytes32) \<Rightarrow> pair_engine \<Rightarrow> bytes32 list" where
  "child_digests js blake3 s =
     [as_digest (arbitrage_snapshot (arbitrage_state_digest (qj_arbitrage js) blake3) (qe_arbitrage s)),
      pn_digest (proposal_snapshot (proposal_state_digest (qj_proposal js) blake3) (qe_proposal s)),
      ks_digest (risk_snapshot (risk_state_digest (qj_risk js) blake3) (qe_risk s))]"

definition pair_state_digest :: "pair_json \<Rightarrow> (string \<Rightarrow> bytes32) \<Rightarrow> pair_engine \<Rightarrow> bytes32" where
  "pair_state_digest js blake3 s = blake3
     (''paired-opportunity-runtime-state-v1''
      @ concat (map bytes_of_id (child_digests js blake3 s))
      @ concat (map (\<lambda>e. bytes_of_id (fst e)) (qe_consumed s))
      @ prefixed (qj_count js (qe_accepted s))
      @ prefixed (qj_count js (qe_eligible_count s))
      @ prefixed (qj_count js (qe_no_trade_count s))
      @ prefixed (qj_time js (qe_last_recorded_at s))
      @ prefixed (qj_last_decision js (qe_last_decision s))
      @ concat (map (\<lambda>(i, content, decision). bytes_of_id i @ bytes_of_id content @ prefixed (qj_decision js decision))
          (qe_processed s))
      @ prefixed (qj_halted js (qe_halted s)))"

record pair_snapshot =
  qn_accepted_commands :: int
  qn_eligible_count :: int
  qn_no_trade_count :: int
  qn_arbitrage_digest :: bytes32
  qn_proposal_digest :: bytes32
  qn_risk_digest :: bytes32
  qn_last_decision :: "pair_decision option"
  qn_halted :: bool
  qn_halt_reason :: "string option"
  qn_digest :: bytes32

definition pair_snapshot :: "pair_json \<Rightarrow> (string \<Rightarrow> bytes32) \<Rightarrow> pair_engine \<Rightarrow> pair_snapshot" where
  "pair_snapshot js blake3 s =
     (let digests = child_digests js blake3 s in
      \<lparr>qn_accepted_commands = qe_accepted s, qn_eligible_count = qe_eligible_count s,
       qn_no_trade_count = qe_no_trade_count s,
       qn_arbitrage_digest = digests ! 0, qn_proposal_digest = digests ! 1, qn_risk_digest = digests ! 2,
       qn_last_decision = qe_last_decision s, qn_halted = (qe_halted s \<noteq> None),
       qn_halt_reason = qe_halted s, qn_digest = pair_state_digest js blake3 s\<rparr>)"

end
