(* ===== verification/Paired_Staging.thy ===== *)
theory Paired_Staging
  imports Paired_Opportunity Paper_Runtime
begin

text \<open>
  The capital staging of \<open>crates/paired-capital-staging/src/lib.rs\<close>: one writer over the paired
  opportunity runtime and the ledger. A pair that the risk gate approves is staged by reserving the
  capital of both legs, or of neither; an abort releases both. This theory holds the data and the
  operations; \<open>Paired_Staging_Theorems\<close> what they guarantee. A view of the ledger that panics is the
  error \<open>GPanic\<close>, which \<open>staging_apply\<close> passes on without touching the state.
\<close>

section \<open>Arrays of two\<close>

text \<open>The arrays \<open>[T; 2]\<close> of the paired crates are pairs, indexed by a leg that is 0 or 1.\<close>

definition at_leg :: "nat \<Rightarrow> 'a \<times> 'a \<Rightarrow> 'a" where
  "at_leg i p = (if i = 0 then fst p else snd p)"

definition set_leg :: "nat \<Rightarrow> 'a \<Rightarrow> 'a \<times> 'a \<Rightarrow> 'a \<times> 'a" where
  "set_leg i v p = (if i = 0 then (v, snd p) else (fst p, v))"

lemma at_leg_simps [simp]:
  "at_leg 0 p = fst p"
  "at_leg (Suc i) p = snd p"
  "at_leg 1 p = snd p"
  by (simp_all add: at_leg_def)

lemma at_set_leg: "i \<le> 1 \<Longrightarrow> j \<le> 1 \<Longrightarrow> at_leg i (set_leg j v p) = (if i = j then v else at_leg i p)"
  by (auto simp: at_leg_def set_leg_def)

lemma at_set_leg_same [simp]: "at_leg i (set_leg i v p) = v"
  by (simp add: at_leg_def set_leg_def)

section \<open>Data\<close>

type_synonym staging_command_id = bytes32
type_synonym pair_stage_id = bytes32

datatype stage_status = FullyReserved | StageAborted

datatype staging_fault = BeforeSecondReservation

record stage_record =
  sr_stage_id :: pair_stage_id
  sr_paired_decision_digest :: bytes32
  sr_candidates :: "order_exposure \<times> order_exposure"
  sr_expires_at :: "int \<times> int"
  sr_order_ids :: "risk_order_id \<times> risk_order_id"
  sr_candidate_digests :: "bytes32 \<times> bytes32"
  sr_reservation_ids :: "reservation_id \<times> reservation_id"
  sr_status :: stage_status
  sr_staged_at :: int
  sr_aborted_at :: "int option"
  sr_staged_ledger_digest :: bytes32
  sr_terminal_ledger_digest :: "bytes32 option"
  sr_record_digest :: bytes32

datatype staging_command =
    StageFund staging_command_id int int
  | StagePair staging_command_id pair_command int
  | StageAbort staging_command_id pair_stage_id int
  | StageInjectFault staging_command_id staging_fault int

fun staging_command_id :: "staging_command \<Rightarrow> staging_command_id" where
  "staging_command_id (StageFund i _ _) = i"
| "staging_command_id (StagePair i _ _) = i"
| "staging_command_id (StageAbort i _ _) = i"
| "staging_command_id (StageInjectFault i _ _) = i"

fun staging_recorded_at :: "staging_command \<Rightarrow> int" where
  "staging_recorded_at (StageFund _ _ t) = t"
| "staging_recorded_at (StagePair _ _ t) = t"
| "staging_recorded_at (StageAbort _ _ t) = t"
| "staging_recorded_at (StageInjectFault _ _ t) = t"

datatype staging_detail =
    StagingFunded
  | StagingNoTrade pair_decision
  | StagingReserved stage_record
  | StagingAborted stage_record
  | StagingFaultArmed staging_fault

record staging_decision =
  gd_command_id :: staging_command_id
  gd_detail :: staging_detail
  gd_decision_digest :: bytes32

datatype staging_error =
    GTimestamp
  | GCommandBound
  | GJson string
  | GVersion int
  | GIdempotencyConflict
  | GClockRegression
  | GBoundary
  | GStageExists
  | GStageInactive
  | GAccounting string
  | GPaired string
  | GOverflow
  | GHalted string
  | GPanic

fun staging_error_text :: "staging_error \<Rightarrow> string" where
  "staging_error_text GTimestamp = ''staging command timestamp is invalid''"
| "staging_error_text GCommandBound = ''staging command exceeds its canonical bound''"
| "staging_error_text (GJson e) = ''staging command JSON is invalid: '' @ e"
| "staging_error_text (GVersion v) = ''unsupported staging command version: '' @ show_nat (nat v)"
| "staging_error_text GIdempotencyConflict = ''staging command id was reused for different content''"
| "staging_error_text GClockRegression = ''staging clock regressed''"
| "staging_error_text GBoundary = ''paired or ledger provenance was substituted''"
| "staging_error_text GStageExists = ''pair stage already exists''"
| "staging_error_text GStageInactive = ''pair stage does not exist or is not active''"
| "staging_error_text (GAccounting e) = ''accounting child failed: '' @ e"
| "staging_error_text (GPaired e) = ''paired child failed: '' @ e"
| "staging_error_text GOverflow = ''staging arithmetic or counter overflow''"
| "staging_error_text (GHalted reason) = ''capital staging is halted: '' @ reason"
| "staging_error_text GPanic = ''''"

record staging =
  sg_paired :: pair_engine
  sg_ledger :: ledger
  sg_stages :: "(pair_stage_id, stage_record) btree"
  sg_processed :: "(staging_command_id, bytes32 \<times> staging_decision) btree"
  sg_accepted :: int
  sg_last_recorded_at :: "int option"
  sg_last_decision :: "staging_decision option"
  sg_halted :: "string option"
  sg_armed_fault :: "staging_fault option"

definition staging_default :: staging where
  "staging_default = \<lparr>sg_paired = pair_engine_default, sg_ledger = ledger_default, sg_stages = [],
     sg_processed = [], sg_accepted = 0, sg_last_recorded_at = None, sg_last_decision = None,
     sg_halted = None, sg_armed_fault = None\<rparr>"

text \<open>\<open>serde_json\<close> and the \<open>Debug\<close> print of an asset; \<open>blake3\<close> is the one of the paired runtime.\<close>

record staging_codec =
  gc_to_vec :: "staging_command wire \<Rightarrow> string + string"
  gc_ledger_to_vec :: "ledger_command wire \<Rightarrow> string + string"
  gc_ledger_json :: ledger_json
  gc_asset_debug :: "asset \<Rightarrow> string"
  gc_record_json :: "stage_record \<Rightarrow> string"
  gc_decision_json :: "staging_decision \<Rightarrow> string"
  gc_pair :: pair_codec

abbreviation gc_blake3 :: "staging_codec \<Rightarrow> string \<Rightarrow> bytes32" where
  "gc_blake3 cx \<equiv> qc_blake3 (gc_pair cx)"

abbreviation gc_ledger_digest :: "staging_codec \<Rightarrow> ledger \<Rightarrow> bytes32" where
  "gc_ledger_digest cx \<equiv> ledger_state_digest (gc_ledger_json cx) (gc_blake3 cx)"

section \<open>Digests and derived ids\<close>

definition derive_stage_id :: "staging_codec \<Rightarrow> bytes32 \<Rightarrow> pair_stage_id" where
  "derive_stage_id cx digest = gc_blake3 cx (''paired-capital-stage-id-v1'' @ bytes_of_id digest)"

definition stage_ledger_id :: "staging_codec \<Rightarrow> pair_stage_id \<Rightarrow> nat \<Rightarrow> command_id" where
  "stage_ledger_id cx stage index = gc_blake3 cx
     (''paired-capital-ledger-command-v1'' @ bytes_of_id stage @ prefixed (qc_index_json (gc_pair cx) index))"

definition stage_record_digest :: "staging_codec \<Rightarrow> stage_record \<Rightarrow> bytes32" where
  "stage_record_digest cx r = gc_blake3 cx
     (''paired-capital-stage-record-v1'' @ prefixed (gc_record_json cx (r\<lparr>sr_record_digest := 0\<rparr>)))"

definition stage_verify_digest :: "staging_codec \<Rightarrow> stage_record \<Rightarrow> bool" where
  "stage_verify_digest cx r = (sr_record_digest r = stage_record_digest cx r)"

definition staging_decision_digest :: "staging_codec \<Rightarrow> staging_decision \<Rightarrow> bytes32" where
  "staging_decision_digest cx d = gc_blake3 cx
     (''paired-capital-decision-v1'' @ prefixed (gc_decision_json cx (d\<lparr>gd_decision_digest := 0\<rparr>)))"

definition staging_verify_digest :: "staging_codec \<Rightarrow> staging_decision \<Rightarrow> bool" where
  "staging_verify_digest cx d = (gd_decision_digest d = staging_decision_digest cx d)"

section \<open>Helpers\<close>

definition exact_candidates :: "staging_codec \<Rightarrow> pair_decision \<Rightarrow> staging_error + order_exposure \<times> order_exposure" where
  "exact_candidates cx d =
     (if \<not> pair_verify_digest (gc_pair cx) d \<or> length (qd_proposals d) \<noteq> 2 then Inl GBoundary
      else
        rbind (ok_or (pp_candidate (qd_proposals d ! 0)) GBoundary) (\<lambda>first.
        rbind (ok_or (pp_candidate (qd_proposals d ! 1)) GBoundary) (\<lambda>second.
        if oe_order_id first = oe_order_id second then Inl GBoundary else Inr (first, second))))"

definition reservation_amount :: "order_exposure \<Rightarrow> staging_error + int" where
  "reservation_amount candidate =
     (case oe_side candidate of
        BuySide \<Rightarrow>
          rbind (ok_or (mul128 (oe_limit_price candidate) (oe_quantity candidate)) GOverflow) (\<lambda>product.
          ok_or (Option.bind (map_option (\<lambda>v. tdiv v 1000000) (add128 product 999999))
            (\<lambda>v. add128 v (oe_max_fee candidate))) GOverflow)
      | SellSide \<Rightarrow> Inr (oe_quantity candidate))"

definition reservation_asset_of :: "order_exposure \<Rightarrow> reservation_asset" where
  "reservation_asset_of candidate =
     (case oe_side candidate of BuySide \<Rightarrow> ReserveOfCollateral | SellSide \<Rightarrow> ReserveOfToken (oe_token candidate))"

definition active_stage_count :: "staging \<Rightarrow> nat" where
  "active_stage_count s = length (filter (\<lambda>r. sr_status r = FullyReserved) (map snd (sg_stages s)))"

definition staging_ledger_apply :: "staging_codec \<Rightarrow> ledger_command \<Rightarrow> staging \<Rightarrow> staging_error + staging" where
  "staging_ledger_apply cx c s =
     (case ledger_apply (gc_ledger_to_vec cx) (gc_blake3 cx) c (sg_ledger s) of
        (Inl e, _) \<Rightarrow> Inl (GAccounting (ledger_error_text (gc_asset_debug cx) e))
      | (Inr _, l) \<Rightarrow> Inr (s\<lparr>sg_ledger := l\<rparr>))"

definition staging_risk_view :: "staging_codec \<Rightarrow> staging \<Rightarrow> ledger_risk_view option" where
  "staging_risk_view cx s = ledger_risk_view (gc_ledger_digest cx) (sg_ledger s)"

definition staging_reservation :: "staging \<Rightarrow> reservation_id \<Rightarrow> reservation option" where
  "staging_reservation s i = ledger_reservation (sg_ledger s) i"

definition staging_pair_lock :: "staging \<Rightarrow> lock_id \<Rightarrow> pair_lock option" where
  "staging_pair_lock s i = ledger_pair_lock (sg_ledger s) i"

definition staging_stage :: "staging \<Rightarrow> pair_stage_id \<Rightarrow> stage_record option" where
  "staging_stage s i = bt_get (sg_stages s) i"

definition staging_reconciliation_view ::
  "staging_codec \<Rightarrow> command_id btset \<Rightarrow> staging \<Rightarrow> reconciliation_view option" where
  "staging_reconciliation_view cx ids s = ledger_reconciliation_view (gc_ledger_digest cx) ids (sg_ledger s)"

text \<open>\<open>self.ledger.snapshot().digest\<close>.\<close>

definition staged_digest :: "staging_codec \<Rightarrow> staging \<Rightarrow> staging_error + bytes32" where
  "staged_digest cx s = rbind (ok_or (ledger_snapshot (gc_ledger_digest cx) (sg_ledger s)) GPanic) (\<lambda>v. Inr (sn_digest v))"

section \<open>Staging and aborting\<close>

definition stage_reserve ::
  "staging_codec \<Rightarrow> order_exposure \<Rightarrow> pair_stage_id \<Rightarrow> nat \<Rightarrow> int \<Rightarrow> staging \<Rightarrow> staging_error + staging" where
  "stage_reserve cx candidate stage index at s =
     rbind (case oe_side candidate of
         BuySide \<Rightarrow> rbind (reservation_amount candidate) (\<lambda>amount.
           Inr (ReserveCollateral (stage_ledger_id cx stage index) (oe_order_id candidate) amount at))
       | SellSide \<Rightarrow>
           Inr (ReserveToken (stage_ledger_id cx stage index) (oe_order_id candidate) (oe_token candidate)
             (oe_quantity candidate) at)) (\<lambda>c.
     staging_ledger_apply cx c s)"

text \<open>The reservation of a candidate holds exactly its amount.\<close>

definition verify_backing :: "order_exposure \<Rightarrow> staging \<Rightarrow> staging_error + unit" where
  "verify_backing candidate s =
     rbind (ok_or (staging_reservation s (oe_order_id candidate)) GBoundary) (\<lambda>r.
     if res_status r \<noteq> ReservationActive then Inl GBoundary
     else rbind (reservation_amount candidate) (\<lambda>amount.
       if remaining_micros r \<noteq> amount \<or> res_asset r \<noteq> reservation_asset_of candidate then Inl GBoundary else Inr ()))"

definition stage_reserve_both ::
  "staging_codec \<Rightarrow> order_exposure \<times> order_exposure \<Rightarrow> pair_stage_id \<Rightarrow> int \<Rightarrow> staging \<Rightarrow> staging_error + staging" where
  "stage_reserve_both cx candidates stage at s =
     rbind (stage_reserve cx (fst candidates) stage 0 at s) (\<lambda>s1.
     if sg_armed_fault s1 = Some BeforeSecondReservation then Inl GBoundary
     else
       rbind (stage_reserve cx (snd candidates) stage 1 at s1) (\<lambda>s2.
       rbind (verify_backing (fst candidates) s2) (\<lambda>_.
       rbind (verify_backing (snd candidates) s2) (\<lambda>_. Inr s2))))"

definition new_stage_record ::
  "staging_codec \<Rightarrow> pair_decision \<Rightarrow> arbitrage_plan \<Rightarrow> order_exposure \<times> order_exposure \<Rightarrow> int \<Rightarrow> bytes32 \<Rightarrow> stage_record" where
  "new_stage_record cx d plan candidates at ledger_digest =
     (let ids = (oe_order_id (fst candidates), oe_order_id (snd candidates));
          r = \<lparr>sr_stage_id = derive_stage_id cx (qd_decision_digest d),
            sr_paired_decision_digest = qd_decision_digest d, sr_candidates = candidates,
            sr_expires_at = (pi_expires_at (fst (ap_intents plan)), pi_expires_at (snd (ap_intents plan))),
            sr_order_ids = ids,
            sr_candidate_digests = (order_exposure_digest (qc_risk (gc_pair cx)) (fst candidates),
              order_exposure_digest (qc_risk (gc_pair cx)) (snd candidates)),
            sr_reservation_ids = ids, sr_status = FullyReserved, sr_staged_at = at, sr_aborted_at = None,
            sr_staged_ledger_digest = ledger_digest, sr_terminal_ledger_digest = None, sr_record_digest = 0\<rparr>
      in r\<lparr>sr_record_digest := stage_record_digest cx r\<rparr>)"

fun pair_frame_of :: "pair_command \<Rightarrow> pair_frame" where
  "pair_frame_of (EvaluatePair _ _ frame _) = frame"

definition verified_plan :: "staging_codec \<Rightarrow> pair_decision \<Rightarrow> staging_error + arbitrage_plan" where
  "verified_plan cx d =
     (case ad_plan (qd_arbitrage d) of
        None \<Rightarrow> Inl GBoundary
      | Some plan \<Rightarrow> if plan_verify_digest (qc_arbitrage (gc_pair cx)) plan then Inr plan else Inl GBoundary)"

type_synonym staging_result = "staging_error + staging_detail \<times> staging"

definition stage_pair :: "staging_codec \<Rightarrow> pair_command \<Rightarrow> int \<Rightarrow> staging \<Rightarrow> staging_result" where
  "stage_pair cx c at s =
     rbind (ok_or (staging_risk_view cx s) GPanic) (\<lambda>view.
     if pf_ledger (pair_frame_of c) \<noteq> view then Inl GBoundary
     else case pair_apply (gc_pair cx) c (sg_paired s) of
       (Inl e, _) \<Rightarrow> Inl (GPaired (pair_error_text e))
     | (Inr d, paired) \<Rightarrow>
         (let s1 = s\<lparr>sg_paired := paired\<rparr> in
          if qd_status d \<noteq> RiskEligible then Inr (StagingNoTrade d, s1)
          else
            rbind (exact_candidates cx d) (\<lambda>candidates.
            rbind (verified_plan cx d) (\<lambda>plan.
            let stage = derive_stage_id cx (qd_decision_digest d) in
            if bt_contains (sg_stages s1) stage then Inl GStageExists
            else
              rbind (stage_reserve_both cx candidates stage at s1) (\<lambda>s2.
              rbind (staged_digest cx s2) (\<lambda>digest.
              let r = new_stage_record cx d plan candidates at digest in
              Inr (StagingReserved r, s2\<lparr>sg_stages := bt_insert stage r (sg_stages s2)\<rparr>)))))))"

definition stage_abort :: "staging_codec \<Rightarrow> pair_stage_id \<Rightarrow> int \<Rightarrow> staging \<Rightarrow> staging_result" where
  "stage_abort cx stage at s =
     (case bt_get (sg_stages s) stage of
        None \<Rightarrow> Inl GStageInactive
      | Some current \<Rightarrow>
          if sr_status current \<noteq> FullyReserved then Inl GStageInactive
          else
            rbind (staging_ledger_apply cx
              (ReleaseReservation (stage_ledger_id cx stage 2) (fst (sr_reservation_ids current)) at) s) (\<lambda>s1.
            rbind (staging_ledger_apply cx
              (ReleaseReservation (stage_ledger_id cx stage 3) (snd (sr_reservation_ids current)) at) s1) (\<lambda>s2.
            rbind (staged_digest cx s2) (\<lambda>digest.
            let r = current\<lparr>sr_status := StageAborted, sr_aborted_at := Some at,
                  sr_terminal_ledger_digest := Some digest, sr_record_digest := 0\<rparr>;
                sealed = r\<lparr>sr_record_digest := stage_record_digest cx r\<rparr> in
            Inr (StagingAborted sealed, s2\<lparr>sg_stages := bt_insert stage sealed (sg_stages s2)\<rparr>)))))"

fun settlement_command :: "ledger_command \<Rightarrow> bool" where
  "settlement_command (FundCollateral _ _ _) = False"
| "settlement_command _ = True"

text \<open>The accounting batch of a composing owner, applied to a copy that is installed as a whole.\<close>

definition staging_settlement_batch :: "staging_codec \<Rightarrow> ledger_command list \<Rightarrow> staging \<Rightarrow> staging_error + staging" where
  "staging_settlement_batch cx cs s =
     try_fold (\<lambda>s c. if \<not> settlement_command c then Inl GBoundary else staging_ledger_apply cx c s) s cs"

fun staging_apply_fresh :: "staging_codec \<Rightarrow> staging_command \<Rightarrow> staging \<Rightarrow> staging_result" where
  "staging_apply_fresh cx (StageFund i amount t) s =
     (if active_stage_count s \<noteq> 0 then Inl GBoundary
      else rbind (staging_ledger_apply cx (FundCollateral i amount t) s) (\<lambda>s'. Inr (StagingFunded, s')))"
| "staging_apply_fresh cx (StagePair _ c t) s = stage_pair cx c t s"
| "staging_apply_fresh cx (StageAbort _ stage t) s = stage_abort cx stage t s"
| "staging_apply_fresh cx (StageInjectFault _ fault _) s =
     (if sg_armed_fault s \<noteq> None then Inl GBoundary
      else Inr (StagingFaultArmed fault, s\<lparr>sg_armed_fault := Some fault\<rparr>))"

section \<open>The engine\<close>

definition staging_validate_command :: "staging_command \<Rightarrow> staging_error + unit" where
  "staging_validate_command c =
     (if staging_recorded_at c < 0 then Inl GTimestamp
      else case c of
        StagePair _ p t \<Rightarrow> if pair_recorded_at p \<noteq> t then Inl GTimestamp else Inr ()
      | _ \<Rightarrow> Inr ())"

definition staging_encode_command :: "staging_codec \<Rightarrow> staging_command \<Rightarrow> staging_error + string" where
  "staging_encode_command cx c =
     rbind (staging_validate_command c) (\<lambda>_.
       case gc_to_vec cx \<lparr>wire_version = 1, wire_command = c\<rparr> of
         Inl e \<Rightarrow> Inl (GJson e)
       | Inr bytes \<Rightarrow> if 1048576 < int (length bytes) then Inl GCommandBound else Inr bytes)"

definition staging_decode_command ::
  "(string \<Rightarrow> string + staging_command wire) \<Rightarrow> string \<Rightarrow> staging_error + staging_command" where
  "staging_decode_command deserialize bytes =
     (if 1048576 < int (length bytes) then Inl GCommandBound
      else case deserialize bytes of
        Inl e \<Rightarrow> Inl (GJson e)
      | Inr w \<Rightarrow>
          if wire_version w \<noteq> 1 then Inl (GVersion (wire_version w))
          else rbind (staging_validate_command (wire_command w)) (\<lambda>_. Inr (wire_command w)))"

definition staging_content :: "staging_codec \<Rightarrow> staging_command \<Rightarrow> staging_error + bytes32" where
  "staging_content cx c = rbind (staging_encode_command cx c) (\<lambda>bytes. Inr (gc_blake3 cx bytes))"

definition staging_halt :: "staging_error \<Rightarrow> staging \<Rightarrow> staging" where
  "staging_halt e s = s\<lparr>sg_halted := Some (staging_error_text e)\<rparr>"

definition staging_make_decision :: "staging_codec \<Rightarrow> staging_command_id \<Rightarrow> staging_detail \<Rightarrow> staging_decision" where
  "staging_make_decision cx i detail =
     (let d = \<lparr>gd_command_id = i, gd_detail = detail, gd_decision_digest = 0\<rparr>
      in d\<lparr>gd_decision_digest := staging_decision_digest cx d\<rparr>)"

definition staging_record :: "staging_command \<Rightarrow> bytes32 \<Rightarrow> staging_decision \<Rightarrow> int \<Rightarrow> staging \<Rightarrow> staging" where
  "staging_record c digest d n s = s\<lparr>sg_accepted := n, sg_last_recorded_at := Some (staging_recorded_at c),
     sg_last_decision := Some d, sg_processed := bt_insert (staging_command_id c) (digest, d) (sg_processed s)\<rparr>"

definition staging_apply_new ::
  "staging_codec \<Rightarrow> staging_command \<Rightarrow> bytes32 \<Rightarrow> staging \<Rightarrow> (staging_error + staging_decision) \<times> staging" where
  "staging_apply_new cx c digest s =
     (if (case sg_last_recorded_at s of None \<Rightarrow> False | Some p \<Rightarrow> staging_recorded_at c < p)
      then (Inl GClockRegression, staging_halt GClockRegression s)
      else case staging_apply_fresh cx c s of
        Inl e \<Rightarrow> if e = GPanic then (Inl GPanic, s) else (Inl e, staging_halt e s)
      | Inr (detail, s1) \<Rightarrow>
          (case addu64 (sg_accepted s1) 1 of
             None \<Rightarrow> (Inl GOverflow, staging_halt GOverflow s)
           | Some n \<Rightarrow>
               (let d = staging_make_decision cx (staging_command_id c) detail
                in (Inr d, staging_record c digest d n s1))))"

definition staging_apply :: "staging_codec \<Rightarrow> staging_command \<Rightarrow> staging \<Rightarrow> (staging_error + staging_decision) \<times> staging" where
  "staging_apply cx c s =
     (case sg_halted s of
        Some reason \<Rightarrow> (Inl (GHalted reason), s)
      | None \<Rightarrow>
          (case staging_content cx c of
             Inl e \<Rightarrow> (Inl e, s)
           | Inr content \<Rightarrow>
               (case bt_get (sg_processed s) (staging_command_id c) of
                  Some (existing, decision) \<Rightarrow>
                    if existing = content then (Inr decision, s)
                    else (Inl GIdempotencyConflict, staging_halt GIdempotencyConflict s)
                | None \<Rightarrow> staging_apply_new cx c content s)))"

section \<open>The digest and the snapshot\<close>

record staging_json =
  gj_stage :: "stage_record \<Rightarrow> string"
  gj_count :: "int \<Rightarrow> string"
  gj_time :: "int option \<Rightarrow> string"
  gj_last_decision :: "staging_decision option \<Rightarrow> string"
  gj_decision :: "staging_decision \<Rightarrow> string"
  gj_halted :: "string option \<Rightarrow> string"
  gj_fault :: "staging_fault option \<Rightarrow> string"
  gj_pair :: pair_json

definition staging_state_digest :: "staging_codec \<Rightarrow> staging_json \<Rightarrow> staging \<Rightarrow> bytes32 option" where
  "staging_state_digest cx js s =
     Option.bind (ledger_snapshot (gc_ledger_digest cx) (sg_ledger s)) (\<lambda>ledger.
     Some (gc_blake3 cx
       (''paired-capital-staging-state-v1''
        @ bytes_of_id (sn_digest ledger)
        @ bytes_of_id (qn_digest (pair_snapshot (gj_pair js) (gc_blake3 cx) (sg_paired s)))
        @ concat (map (\<lambda>(i, stage). bytes_of_id i @ prefixed (gj_stage js stage)) (sg_stages s))
        @ prefixed (gj_count js (sg_accepted s))
        @ prefixed (gj_time js (sg_last_recorded_at s))
        @ prefixed (gj_last_decision js (sg_last_decision s))
        @ concat (map (\<lambda>(i, content, decision). bytes_of_id i @ bytes_of_id content @ prefixed (gj_decision js decision))
            (sg_processed s))
        @ prefixed (gj_halted js (sg_halted s))
        @ prefixed (gj_fault js (sg_armed_fault s)))))"

record staging_snapshot =
  gn_accepted_commands :: int
  gn_ledger :: ledger_risk_view
  gn_paired_digest :: bytes32
  gn_stages :: "(pair_stage_id, stage_record) btree"
  gn_active_stage_count :: nat
  gn_halted :: bool
  gn_halt_reason :: "string option"
  gn_digest :: bytes32

definition staging_snapshot :: "staging_codec \<Rightarrow> staging_json \<Rightarrow> staging \<Rightarrow> staging_snapshot option" where
  "staging_snapshot cx js s =
     Option.bind (staging_risk_view cx s) (\<lambda>view.
     Option.bind (staging_state_digest cx js s) (\<lambda>digest.
     Some \<lparr>gn_accepted_commands = sg_accepted s, gn_ledger = view,
       gn_paired_digest = qn_digest (pair_snapshot (gj_pair js) (gc_blake3 cx) (sg_paired s)),
       gn_stages = sg_stages s, gn_active_stage_count = active_stage_count s,
       gn_halted = (sg_halted s \<noteq> None), gn_halt_reason = sg_halted s, gn_digest = digest\<rparr>))"

end
