(* ===== verification/Paired_Policy.thy ===== *)
theory Paired_Policy
  imports Paired_Staging
begin

text \<open>
  The paired placement policy of \<open>crates/paired-placement-policy/src/lib.rs\<close>: one writer over the capital
  staging that licenses the legs of a staged pair one after the other. The first leg may be either; the
  hedge only after the first is completely matched; an abort only while no leg can have been filled. This
  theory holds the data and the operations; \<open>Paired_Policy_Theorems\<close> what they guarantee.
\<close>

section \<open>Data\<close>

type_synonym pairpol_command_id = bytes32
type_synonym pair_permit_id = bytes32

datatype leg_role = FirstLeg | HedgeLeg

datatype leg_state =
    LegNotAuthorized
  | LegAuthorized
  | LegExpired
  | LegSubmitted
  | LegDelayed
  | LegLive
  | LegPartiallyMatched
  | LegUnknown
  | LegFullyMatched
  | LegPartiallyMatchedTerminal
  | LegNoFillTerminal

definition possible_fill :: "leg_state \<Rightarrow> bool" where
  "possible_fill l \<longleftrightarrow> l \<in> {LegSubmitted, LegDelayed, LegLive, LegPartiallyMatched, LegUnknown, LegFullyMatched,
     LegPartiallyMatchedTerminal}"

definition safe_terminal :: "leg_state \<Rightarrow> bool" where
  "safe_terminal l \<longleftrightarrow> l \<in> {LegNotAuthorized, LegExpired, LegNoFillTerminal}"

record pair_permit =
  pm_permit_id :: pair_permit_id
  pm_stage_id :: pair_stage_id
  pm_stage_record_digest :: bytes32
  pm_leg_index :: nat
  pm_role :: leg_role
  pm_order :: order_exposure
  pm_candidate_digest :: bytes32
  pm_reservation_id :: reservation_id
  pm_mode_sequence :: int
  pm_valid_from :: int
  pm_valid_until :: int
  pm_permit_digest :: bytes32

record pair_record =
  lp_stage_id :: pair_stage_id
  lp_stage_record_digest :: bytes32
  lp_first_leg :: "nat option"
  lp_legs :: "leg_state \<times> leg_state"
  lp_permits :: "pair_permit option \<times> pair_permit option"
  lp_source_sequences :: "int option \<times> int option"
  lp_source_observed_at :: "int option \<times> int option"
  lp_ever_partially_matched :: "bool \<times> bool"
  lp_aborted :: bool
  lp_record_digest :: bytes32

datatype pairpol_command =
    PolFund pairpol_command_id int int
  | PolStage pairpol_command_id pair_command int
  | PolObserveMode pairpol_command_id mode_observation int
  | PolAuthorizeFirst pairpol_command_id pair_stage_id nat int int int
  | PolAuthorizeHedge pairpol_command_id pair_stage_id int int int
  | PolObserveLeg pairpol_command_id pair_stage_id nat pair_permit_id leg_state int int int
  | PolExpire pairpol_command_id pair_stage_id int
  | PolAbortSafe pairpol_command_id pair_stage_id int

fun pairpol_command_id :: "pairpol_command \<Rightarrow> pairpol_command_id" where
  "pairpol_command_id (PolFund i _ _) = i"
| "pairpol_command_id (PolStage i _ _) = i"
| "pairpol_command_id (PolObserveMode i _ _) = i"
| "pairpol_command_id (PolAuthorizeFirst i _ _ _ _ _) = i"
| "pairpol_command_id (PolAuthorizeHedge i _ _ _ _) = i"
| "pairpol_command_id (PolObserveLeg i _ _ _ _ _ _ _) = i"
| "pairpol_command_id (PolExpire i _ _) = i"
| "pairpol_command_id (PolAbortSafe i _ _) = i"

fun pairpol_recorded_at :: "pairpol_command \<Rightarrow> int" where
  "pairpol_recorded_at (PolFund _ _ t) = t"
| "pairpol_recorded_at (PolStage _ _ t) = t"
| "pairpol_recorded_at (PolObserveMode _ _ t) = t"
| "pairpol_recorded_at (PolAuthorizeFirst _ _ _ _ _ t) = t"
| "pairpol_recorded_at (PolAuthorizeHedge _ _ _ _ t) = t"
| "pairpol_recorded_at (PolObserveLeg _ _ _ _ _ _ _ t) = t"
| "pairpol_recorded_at (PolExpire _ _ t) = t"
| "pairpol_recorded_at (PolAbortSafe _ _ t) = t"

datatype pairpol_status = PolAccepted | PolDenied

datatype pairpol_reason =
    PairFunded
  | PairStaged
  | PairHasNoTrade
  | PairModeAccepted
  | PairPermissionIssued
  | PairStageUnknown
  | PairStageInactive
  | PairModeUnavailable
  | PairModeStale
  | PairStageStale
  | PairInvalidValidity
  | PairInvalidLeg
  | PairFirstAlreadySelected
  | PairHedgeNotReady
  | PairLegAlreadyAuthorized
  | PairLifecycleAccepted
  | PairLifecycleDenied
  | PairPermissionExpired
  | PairNothingExpired
  | PairUnsafeAbort
  | PairAborted

record pairpol_decision =
  yd_command_id :: pairpol_command_id
  yd_status :: pairpol_status
  yd_reason :: pairpol_reason
  yd_stage_id :: "pair_stage_id option"
  yd_permit :: "pair_permit option"
  yd_decision_digest :: bytes32

datatype pairpol_error =
    YTimestamp
  | YCommandBound
  | YJson string
  | YVersion int
  | YIdempotencyConflict
  | YClockRegression
  | YModeHistory
  | YBoundary
  | YOverflow
  | YStaging string
  | YHalted string
  | YPanic

fun pairpol_error_text :: "pairpol_error \<Rightarrow> string" where
  "pairpol_error_text YTimestamp = ''paired policy command timestamp is invalid''"
| "pairpol_error_text YCommandBound = ''paired policy command exceeds its canonical bound''"
| "pairpol_error_text (YJson e) = ''paired policy command JSON is invalid: '' @ e"
| "pairpol_error_text (YVersion v) = ''unsupported paired policy command version: '' @ show_nat (nat v)"
| "pairpol_error_text YIdempotencyConflict = ''paired policy command id was reused for different content''"
| "pairpol_error_text YClockRegression = ''paired policy clock regressed''"
| "pairpol_error_text YModeHistory = ''exchange-mode history regressed or equivocated''"
| "pairpol_error_text YBoundary = ''paired policy child or subject boundary was substituted''"
| "pairpol_error_text YOverflow = ''paired policy arithmetic or counter overflow''"
| "pairpol_error_text (YStaging e) = ''paired staging child failed: '' @ e"
| "pairpol_error_text (YHalted reason) = ''paired policy is halted: '' @ reason"
| "pairpol_error_text YPanic = ''''"

record pairpol =
  ye_staging :: staging
  ye_mode :: "mode_observation option"
  ye_records :: "(pair_stage_id, pair_record) btree"
  ye_processed :: "(pairpol_command_id, bytes32 \<times> pairpol_decision) btree"
  ye_accepted :: int
  ye_last_recorded_at :: "int option"
  ye_last_decision :: "pairpol_decision option"
  ye_halted :: "string option"

definition pairpol_default :: pairpol where
  "pairpol_default = \<lparr>ye_staging = staging_default, ye_mode = None, ye_records = [], ye_processed = [],
     ye_accepted = 0, ye_last_recorded_at = None, ye_last_decision = None, ye_halted = None\<rparr>"

text \<open>\<open>serde_json\<close> on the types that are hashed; \<open>blake3\<close> is the one of the staging.\<close>

record pairpol_codec =
  yc_to_vec :: "pairpol_command wire \<Rightarrow> string + string"
  yc_role_json :: "leg_role \<Rightarrow> string"
  yc_permit_json :: "pair_permit \<Rightarrow> string"
  yc_record_json :: "pair_record \<Rightarrow> string"
  yc_decision_json :: "pairpol_decision \<Rightarrow> string"
  yc_staging :: staging_codec

abbreviation yc_blake3 :: "pairpol_codec \<Rightarrow> string \<Rightarrow> bytes32" where
  "yc_blake3 cx \<equiv> gc_blake3 (yc_staging cx)"

section \<open>Digests and derived ids\<close>

definition derived_staging_id :: "pairpol_codec \<Rightarrow> pairpol_command_id \<Rightarrow> nat \<Rightarrow> staging_command_id" where
  "derived_staging_id cx i discriminator = yc_blake3 cx
     (''paired-policy-staging-command-v1'' @ bytes_of_id i @ [char_of discriminator])"

definition derive_permit_id :: "pairpol_codec \<Rightarrow> pair_stage_id \<Rightarrow> nat \<Rightarrow> leg_role \<Rightarrow> pair_permit_id" where
  "derive_permit_id cx stage leg role = yc_blake3 cx
     (''paired-paper-permit-id-v1'' @ bytes_of_id stage @ [char_of leg] @ prefixed (yc_role_json cx role))"

definition permit_digest :: "pairpol_codec \<Rightarrow> pair_permit \<Rightarrow> bytes32" where
  "permit_digest cx p = yc_blake3 cx
     (''paired-paper-permit-v1'' @ prefixed (yc_permit_json cx (p\<lparr>pm_permit_digest := 0\<rparr>)))"

definition permit_verify_digest :: "pairpol_codec \<Rightarrow> pair_permit \<Rightarrow> bool" where
  "permit_verify_digest cx p = (pm_permit_digest p = permit_digest cx p)"

definition pair_record_digest :: "pairpol_codec \<Rightarrow> pair_record \<Rightarrow> bytes32" where
  "pair_record_digest cx r = yc_blake3 cx
     (''paired-policy-record-v1'' @ prefixed (yc_record_json cx (r\<lparr>lp_record_digest := 0\<rparr>)))"

definition pair_record_verify :: "pairpol_codec \<Rightarrow> pair_record \<Rightarrow> bool" where
  "pair_record_verify cx r = (lp_record_digest r = pair_record_digest cx r)"

definition refresh_record :: "pairpol_codec \<Rightarrow> pair_record \<Rightarrow> pair_record" where
  "refresh_record cx r =
     (let cleared = r\<lparr>lp_record_digest := 0\<rparr> in cleared\<lparr>lp_record_digest := pair_record_digest cx cleared\<rparr>)"

definition pairpol_decision_digest :: "pairpol_codec \<Rightarrow> pairpol_decision \<Rightarrow> bytes32" where
  "pairpol_decision_digest cx d = yc_blake3 cx
     (''paired-policy-decision-v1'' @ prefixed (yc_decision_json cx (d\<lparr>yd_decision_digest := 0\<rparr>)))"

definition pairpol_verify_digest :: "pairpol_codec \<Rightarrow> pairpol_decision \<Rightarrow> bool" where
  "pairpol_verify_digest cx d = (yd_decision_digest d = pairpol_decision_digest cx d)"

definition pairpol_answer ::
  "pairpol_command_id \<Rightarrow> pairpol_status \<Rightarrow> pairpol_reason \<Rightarrow> pair_stage_id option \<Rightarrow> pair_permit option
    \<Rightarrow> pairpol_decision" where
  "pairpol_answer i status reason stage permit = \<lparr>yd_command_id = i, yd_status = status, yd_reason = reason,
     yd_stage_id = stage, yd_permit = permit, yd_decision_digest = 0\<rparr>"

section \<open>The life of a leg\<close>

fun valid_leg_transition :: "leg_state \<Rightarrow> leg_state \<Rightarrow> bool \<Rightarrow> bool" where
  "valid_leg_transition LegAuthorized next _ = (next \<in> {LegSubmitted, LegUnknown, LegNoFillTerminal})"
| "valid_leg_transition LegSubmitted next _ =
     (next \<in> {LegDelayed, LegLive, LegPartiallyMatched, LegUnknown, LegFullyMatched, LegNoFillTerminal})"
| "valid_leg_transition LegDelayed next _ =
     (next \<in> {LegLive, LegPartiallyMatched, LegUnknown, LegFullyMatched, LegNoFillTerminal})"
| "valid_leg_transition LegLive next _ =
     (next \<in> {LegLive, LegPartiallyMatched, LegUnknown, LegFullyMatched, LegNoFillTerminal})"
| "valid_leg_transition LegPartiallyMatched next _ =
     (next \<in> {LegPartiallyMatched, LegUnknown, LegFullyMatched, LegPartiallyMatchedTerminal})"
| "valid_leg_transition LegUnknown next ever_partial =
     (next \<in> {LegSubmitted, LegDelayed, LegLive, LegPartiallyMatched, LegUnknown, LegFullyMatched, LegNoFillTerminal,
        LegPartiallyMatchedTerminal}
      \<and> \<not> (ever_partial \<and> next = LegNoFillTerminal)
      \<and> (next \<noteq> LegPartiallyMatchedTerminal \<or> ever_partial))"
| "valid_leg_transition _ _ _ = False"

definition new_pair_record :: "pairpol_codec \<Rightarrow> stage_record \<Rightarrow> pair_record" where
  "new_pair_record cx stage = refresh_record cx
     \<lparr>lp_stage_id = sr_stage_id stage, lp_stage_record_digest = sr_record_digest stage, lp_first_leg = None,
      lp_legs = (LegNotAuthorized, LegNotAuthorized), lp_permits = (None, None),
      lp_source_sequences = (None, None), lp_source_observed_at = (None, None),
      lp_ever_partially_matched = (False, False), lp_aborted = False, lp_record_digest = 0\<rparr>"

section \<open>The staging below\<close>

definition pairpol_staging_apply ::
  "pairpol_codec \<Rightarrow> staging_command \<Rightarrow> pairpol \<Rightarrow> pairpol_error + staging_decision \<times> pairpol" where
  "pairpol_staging_apply cx c s =
     (case staging_apply (yc_staging cx) c (ye_staging s) of
        (Inl e, _) \<Rightarrow> Inl (if e = GPanic then YPanic else YStaging (staging_error_text e))
      | (Inr d, g) \<Rightarrow> Inr (d, s\<lparr>ye_staging := g\<rparr>))"

definition validate_reservation :: "pairpol \<Rightarrow> stage_record \<Rightarrow> reservation_id \<Rightarrow> pairpol_error + unit" where
  "validate_reservation s stage i =
     (case staging_reservation (ye_staging s) i of
        None \<Rightarrow> Inl YBoundary
      | Some r \<Rightarrow>
          if sr_status stage = FullyReserved \<and> res_status r \<noteq> ReservationActive then Inl YBoundary else Inr ())"

definition validate_stage :: "pairpol_codec \<Rightarrow> pairpol \<Rightarrow> stage_record \<Rightarrow> pairpol_error + unit" where
  "validate_stage cx s stage =
     (let risk = qc_risk (gc_pair (yc_staging cx)) in
      if \<not> stage_verify_digest (yc_staging cx) stage
         \<or> oe_order_id (fst (sr_candidates stage)) \<noteq> fst (sr_order_ids stage)
         \<or> oe_order_id (snd (sr_candidates stage)) \<noteq> snd (sr_order_ids stage)
         \<or> order_exposure_digest risk (fst (sr_candidates stage)) \<noteq> fst (sr_candidate_digests stage)
         \<or> order_exposure_digest risk (snd (sr_candidates stage)) \<noteq> snd (sr_candidate_digests stage)
      then Inl YBoundary
      else rbind (validate_reservation s stage (fst (sr_reservation_ids stage))) (\<lambda>_.
        validate_reservation s stage (snd (sr_reservation_ids stage))))"

section \<open>Operations\<close>

type_synonym pairpol_result = "pairpol_error + pairpol_decision \<times> pairpol"

definition pairpol_fund :: "pairpol_codec \<Rightarrow> pairpol_command_id \<Rightarrow> int \<Rightarrow> int \<Rightarrow> pairpol \<Rightarrow> pairpol_result" where
  "pairpol_fund cx i amount t s =
     rbind (pairpol_staging_apply cx (StageFund (derived_staging_id cx i 0) amount t) s) (\<lambda>(_, s').
     Inr (pairpol_answer i PolAccepted PairFunded None None, s'))"

definition pairpol_stage :: "pairpol_codec \<Rightarrow> pairpol_command_id \<Rightarrow> pair_command \<Rightarrow> int \<Rightarrow> pairpol \<Rightarrow> pairpol_result" where
  "pairpol_stage cx i c t s =
     rbind (pairpol_staging_apply cx (StagePair (derived_staging_id cx i 0) c t) s) (\<lambda>(d, s').
     case gd_detail d of
       StagingReserved r \<Rightarrow>
         rbind (validate_stage cx s' r) (\<lambda>_.
         if bt_contains (ye_records s') (sr_stage_id r) then Inl YBoundary
         else Inr (pairpol_answer i PolAccepted PairStaged (Some (sr_stage_id r)) None,
           s'\<lparr>ye_records := bt_insert (sr_stage_id r) (new_pair_record cx r) (ye_records s')\<rparr>))
     | StagingNoTrade _ \<Rightarrow> Inr (pairpol_answer i PolDenied PairHasNoTrade None None, s')
     | _ \<Rightarrow> Inl YBoundary)"

definition pairpol_observe_mode :: "pairpol_command_id \<Rightarrow> mode_observation \<Rightarrow> pairpol \<Rightarrow> pairpol_result" where
  "pairpol_observe_mode i v s =
     (if mo_observed_at v < 0 \<or> mo_valid_until v < mo_observed_at v then Inl YTimestamp
      else if (case ye_mode s of None \<Rightarrow> False
          | Some p \<Rightarrow> mo_sequence v < mo_sequence p \<or> (mo_sequence v = mo_sequence p \<and> v \<noteq> p)
              \<or> mo_observed_at v < mo_observed_at p)
      then Inl YModeHistory
      else Inr (pairpol_answer i PolAccepted PairModeAccepted None None, s\<lparr>ye_mode := Some v\<rparr>))"

text \<open>The last part of the judgement, once stage, times and mode are in order.\<close>

fun role_denial :: "leg_role \<Rightarrow> nat \<Rightarrow> pair_record \<Rightarrow> pairpol_reason option" where
  "role_denial FirstLeg leg r = (if lp_first_leg r \<noteq> None then Some PairFirstAlreadySelected else None)"
| "role_denial HedgeLeg leg r =
     (case lp_first_leg r of
        None \<Rightarrow> Some PairHedgeNotReady
      | Some first \<Rightarrow>
          if first = leg \<or> at_leg first (lp_legs r) \<noteq> LegFullyMatched then Some PairHedgeNotReady else None)"

definition authorization_denial ::
  "pairpol_codec \<Rightarrow> pair_stage_id \<Rightarrow> nat \<Rightarrow> leg_role \<Rightarrow> int \<Rightarrow> int \<Rightarrow> int \<Rightarrow> pairpol
    \<Rightarrow> pairpol_error + pairpol_reason option" where
  "authorization_denial cx stage_id leg role max_mode_age valid_until at s =
     (if 1 < leg then Inr (Some PairInvalidLeg)
      else case staging_stage (ye_staging s) stage_id of
        None \<Rightarrow> Inr (Some PairStageUnknown)
      | Some stage \<Rightarrow>
          rbind (validate_stage cx s stage) (\<lambda>_.
          if sr_status stage \<noteq> FullyReserved then Inr (Some PairStageInactive)
          else rbind (ok_or (bt_get (ye_records s) stage_id) YBoundary) (\<lambda>r.
          if lp_aborted r then Inr (Some PairStageInactive)
          else rbind (ok_or (add64 (sr_staged_at stage) 1000000000) YOverflow) (\<lambda>deadline.
          let expires_at = at_leg leg (sr_expires_at stage) in
          if deadline < at then Inr (Some PairStageStale)
          else if expires_at \<le> at then Inr (Some PairStageStale)
          else if max_mode_age < 0 \<or> valid_until \<le> at \<or> 1000000000 < wrap64 (valid_until - at)
             \<or> deadline < valid_until \<or> expires_at < valid_until
          then Inr (Some PairInvalidValidity)
          else case ye_mode s of
            None \<Rightarrow> Inr (Some PairModeUnavailable)
          | Some mode \<Rightarrow>
              if mo_mode mode \<noteq> ModeNormal then Inr (Some PairModeUnavailable)
              else if at < mo_observed_at mode \<or> mo_valid_until mode < at
                 \<or> max_mode_age < wrap64 (at - mo_observed_at mode)
              then Inr (Some PairModeStale)
              else if at_leg leg (lp_legs r) \<noteq> LegNotAuthorized then Inr (Some PairLegAlreadyAuthorized)
              else Inr (role_denial role leg r)))))"

definition new_permit ::
  "pairpol_codec \<Rightarrow> stage_record \<Rightarrow> nat \<Rightarrow> leg_role \<Rightarrow> mode_observation \<Rightarrow> int \<Rightarrow> int \<Rightarrow> pair_stage_id \<Rightarrow> pair_permit" where
  "new_permit cx stage leg role mode at valid_until stage_id =
     (let p = \<lparr>pm_permit_id = derive_permit_id cx stage_id leg role, pm_stage_id = stage_id,
        pm_stage_record_digest = sr_record_digest stage, pm_leg_index = leg, pm_role = role,
        pm_order = at_leg leg (sr_candidates stage), pm_candidate_digest = at_leg leg (sr_candidate_digests stage),
        pm_reservation_id = at_leg leg (sr_reservation_ids stage), pm_mode_sequence = mo_sequence mode,
        pm_valid_from = at, pm_valid_until = valid_until, pm_permit_digest = 0\<rparr>
      in p\<lparr>pm_permit_digest := permit_digest cx p\<rparr>)"

definition license_leg :: "pairpol_codec \<Rightarrow> pair_permit \<Rightarrow> pair_record \<Rightarrow> pair_record" where
  "license_leg cx p r = refresh_record cx
     (r\<lparr>lp_first_leg := (if pm_role p = FirstLeg then Some (pm_leg_index p) else lp_first_leg r),
        lp_legs := set_leg (pm_leg_index p) LegAuthorized (lp_legs r),
        lp_permits := set_leg (pm_leg_index p) (Some p) (lp_permits r)\<rparr>)"

definition pairpol_authorize ::
  "pairpol_codec \<Rightarrow> pairpol_command_id \<Rightarrow> pair_stage_id \<Rightarrow> nat \<Rightarrow> leg_role \<Rightarrow> int \<Rightarrow> int \<Rightarrow> int \<Rightarrow> pairpol
    \<Rightarrow> pairpol_result" where
  "pairpol_authorize cx i stage_id leg role max_mode_age valid_until at s =
     rbind (authorization_denial cx stage_id leg role max_mode_age valid_until at s) (\<lambda>denial.
     case denial of
       Some reason \<Rightarrow> Inr (pairpol_answer i PolDenied reason (Some stage_id) None, s)
     | None \<Rightarrow>
         rbind (ok_or (staging_stage (ye_staging s) stage_id) YBoundary) (\<lambda>stage.
         rbind (validate_stage cx s stage) (\<lambda>_.
         rbind (ok_or (ye_mode s) YBoundary) (\<lambda>mode.
         rbind (ok_or (bt_get (ye_records s) stage_id) YBoundary) (\<lambda>r.
         let p = new_permit cx stage leg role mode at valid_until stage_id in
         Inr (pairpol_answer i PolAccepted PairPermissionIssued (Some stage_id) (Some p),
           s\<lparr>ye_records := bt_insert stage_id (license_leg cx p r) (ye_records s)\<rparr>))))))"

definition pairpol_authorize_hedge ::
  "pairpol_codec \<Rightarrow> pairpol_command_id \<Rightarrow> pair_stage_id \<Rightarrow> int \<Rightarrow> int \<Rightarrow> int \<Rightarrow> pairpol \<Rightarrow> pairpol_result" where
  "pairpol_authorize_hedge cx i stage_id max_mode_age valid_until at s =
     rbind (ok_or (bt_get (ye_records s) stage_id) YBoundary) (\<lambda>r.
     rbind (ok_or (lp_first_leg r) YBoundary) (\<lambda>first.
     if 1 < first then Inl YBoundary
     else pairpol_authorize cx i stage_id (1 - first) HedgeLeg max_mode_age valid_until at s))"

definition observed_leg :: "pairpol_codec \<Rightarrow> nat \<Rightarrow> leg_state \<Rightarrow> int \<Rightarrow> int \<Rightarrow> pair_record \<Rightarrow> pair_record" where
  "observed_leg cx leg state sequence observed_at r = refresh_record cx
     (r\<lparr>lp_legs := set_leg leg state (lp_legs r),
        lp_source_sequences := set_leg leg (Some sequence) (lp_source_sequences r),
        lp_source_observed_at := set_leg leg (Some observed_at) (lp_source_observed_at r),
        lp_ever_partially_matched := (if state = LegPartiallyMatched
          then set_leg leg True (lp_ever_partially_matched r) else lp_ever_partially_matched r)\<rparr>)"

definition pairpol_observe_leg ::
  "pairpol_codec \<Rightarrow> pairpol_command_id \<Rightarrow> pair_stage_id \<Rightarrow> nat \<Rightarrow> pair_permit_id \<Rightarrow> leg_state \<Rightarrow> int \<Rightarrow> int \<Rightarrow> int
    \<Rightarrow> pairpol \<Rightarrow> pairpol_result" where
  "pairpol_observe_leg cx i stage_id leg permit_id state sequence observed_at at s =
     (if 1 < leg \<or> observed_at < 0 \<or> at < observed_at then Inl YTimestamp
      else
        rbind (ok_or (bt_get (ye_records s) stage_id) YBoundary) (\<lambda>r.
        rbind (ok_or (at_leg leg (lp_permits r)) YBoundary) (\<lambda>p.
        if \<not> permit_verify_digest cx p \<or> pm_permit_id p \<noteq> permit_id then Inl YBoundary
        else if (case at_leg leg (lp_source_sequences r) of None \<Rightarrow> False | Some q \<Rightarrow> sequence \<le> q) then Inl YBoundary
        else if (case at_leg leg (lp_source_observed_at r) of None \<Rightarrow> False | Some q \<Rightarrow> observed_at < q)
        then Inl YBoundary
        else if \<not> valid_leg_transition (at_leg leg (lp_legs r)) state (at_leg leg (lp_ever_partially_matched r))
        then Inl YBoundary
        else Inr (pairpol_answer i PolAccepted PairLifecycleAccepted (Some stage_id) None,
          s\<lparr>ye_records := bt_insert stage_id (observed_leg cx leg state sequence observed_at r) (ye_records s)\<rparr>))))"

definition leg_expires :: "nat \<Rightarrow> int \<Rightarrow> pair_record \<Rightarrow> bool" where
  "leg_expires leg at r \<longleftrightarrow> at_leg leg (lp_legs r) = LegAuthorized
     \<and> (case at_leg leg (lp_permits r) of None \<Rightarrow> False | Some p \<Rightarrow> pm_valid_until p \<le> at)"

definition expire_leg :: "nat \<Rightarrow> int \<Rightarrow> pair_record \<Rightarrow> pair_record" where
  "expire_leg leg at r = (if leg_expires leg at r then r\<lparr>lp_legs := set_leg leg LegExpired (lp_legs r)\<rparr> else r)"

definition pairpol_expire :: "pairpol_codec \<Rightarrow> pairpol_command_id \<Rightarrow> pair_stage_id \<Rightarrow> int \<Rightarrow> pairpol \<Rightarrow> pairpol_result" where
  "pairpol_expire cx i stage_id at s =
     rbind (ok_or (bt_get (ye_records s) stage_id) YBoundary) (\<lambda>r.
     Inr (pairpol_answer i PolAccepted
         (if leg_expires 0 at r \<or> leg_expires 1 at r then PairPermissionExpired else PairNothingExpired)
         (Some stage_id) None,
       s\<lparr>ye_records := bt_insert stage_id (refresh_record cx (expire_leg 1 at (expire_leg 0 at r))) (ye_records s)\<rparr>))"

definition abort_is_safe :: "pair_stage_id \<Rightarrow> pairpol \<Rightarrow> bool" where
  "abort_is_safe stage_id s =
     (case bt_get (ye_records s) stage_id of
        None \<Rightarrow> False
      | Some r \<Rightarrow> \<not> lp_aborted r \<and> safe_terminal (fst (lp_legs r)) \<and> safe_terminal (snd (lp_legs r)))"

definition pairpol_abort_safe :: "pairpol_codec \<Rightarrow> pairpol_command_id \<Rightarrow> pair_stage_id \<Rightarrow> int \<Rightarrow> pairpol \<Rightarrow> pairpol_result" where
  "pairpol_abort_safe cx i stage_id at s =
     (if \<not> abort_is_safe stage_id s then Inr (pairpol_answer i PolDenied PairUnsafeAbort (Some stage_id) None, s)
      else
        rbind (pairpol_staging_apply cx (StageAbort (derived_staging_id cx i 1) stage_id at) s) (\<lambda>(d, s').
        case gd_detail d of
          StagingAborted _ \<Rightarrow>
            rbind (ok_or (bt_get (ye_records s') stage_id) YBoundary) (\<lambda>r.
            Inr (pairpol_answer i PolAccepted PairAborted (Some stage_id) None,
              s'\<lparr>ye_records := bt_insert stage_id (refresh_record cx (r\<lparr>lp_aborted := True\<rparr>)) (ye_records s')\<rparr>))
        | _ \<Rightarrow> Inl YBoundary))"

fun pairpol_apply_fresh :: "pairpol_codec \<Rightarrow> pairpol_command \<Rightarrow> pairpol \<Rightarrow> pairpol_result" where
  "pairpol_apply_fresh cx (PolFund i amount t) s = pairpol_fund cx i amount t s"
| "pairpol_apply_fresh cx (PolStage i c t) s = pairpol_stage cx i c t s"
| "pairpol_apply_fresh cx (PolObserveMode i v _) s = pairpol_observe_mode i v s"
| "pairpol_apply_fresh cx (PolAuthorizeFirst i stage leg max_mode_age valid_until t) s =
     pairpol_authorize cx i stage leg FirstLeg max_mode_age valid_until t s"
| "pairpol_apply_fresh cx (PolAuthorizeHedge i stage max_mode_age valid_until t) s =
     pairpol_authorize_hedge cx i stage max_mode_age valid_until t s"
| "pairpol_apply_fresh cx (PolObserveLeg i stage leg permit state sequence observed_at t) s =
     pairpol_observe_leg cx i stage leg permit state sequence observed_at t s"
| "pairpol_apply_fresh cx (PolExpire i stage t) s = pairpol_expire cx i stage t s"
| "pairpol_apply_fresh cx (PolAbortSafe i stage t) s = pairpol_abort_safe cx i stage t s"

definition pairpol_settlement_batch :: "pairpol_codec \<Rightarrow> ledger_command list \<Rightarrow> pairpol \<Rightarrow> pairpol_error + pairpol" where
  "pairpol_settlement_batch cx cs s =
     (case staging_settlement_batch (yc_staging cx) cs (ye_staging s) of
        Inl e \<Rightarrow> Inl (YStaging (staging_error_text e))
      | Inr g \<Rightarrow> Inr (s\<lparr>ye_staging := g\<rparr>))"

section \<open>The engine\<close>

definition pairpol_validate_command :: "pairpol_command \<Rightarrow> pairpol_error + unit" where
  "pairpol_validate_command c =
     (if pairpol_recorded_at c < 0 then Inl YTimestamp
      else case c of
        PolStage _ p t \<Rightarrow> if pair_recorded_at p \<noteq> t then Inl YTimestamp else Inr ()
      | PolObserveMode _ v t \<Rightarrow> if t < mo_observed_at v then Inl YTimestamp else Inr ()
      | PolObserveLeg _ _ _ _ _ _ observed_at t \<Rightarrow> if t < observed_at then Inl YTimestamp else Inr ()
      | _ \<Rightarrow> Inr ())"

definition pairpol_encode_command :: "pairpol_codec \<Rightarrow> pairpol_command \<Rightarrow> pairpol_error + string" where
  "pairpol_encode_command cx c =
     rbind (pairpol_validate_command c) (\<lambda>_.
       case yc_to_vec cx \<lparr>wire_version = 1, wire_command = c\<rparr> of
         Inl e \<Rightarrow> Inl (YJson e)
       | Inr bytes \<Rightarrow> if 1048576 < int (length bytes) then Inl YCommandBound else Inr bytes)"

definition pairpol_decode_command ::
  "(string \<Rightarrow> string + pairpol_command wire) \<Rightarrow> string \<Rightarrow> pairpol_error + pairpol_command" where
  "pairpol_decode_command deserialize bytes =
     (if 1048576 < int (length bytes) then Inl YCommandBound
      else case deserialize bytes of
        Inl e \<Rightarrow> Inl (YJson e)
      | Inr w \<Rightarrow>
          if wire_version w \<noteq> 1 then Inl (YVersion (wire_version w))
          else rbind (pairpol_validate_command (wire_command w)) (\<lambda>_. Inr (wire_command w)))"

definition pairpol_content :: "pairpol_codec \<Rightarrow> pairpol_command \<Rightarrow> pairpol_error + bytes32" where
  "pairpol_content cx c = rbind (pairpol_encode_command cx c) (\<lambda>bytes. Inr (yc_blake3 cx bytes))"

definition pairpol_halt :: "pairpol_error \<Rightarrow> pairpol \<Rightarrow> pairpol" where
  "pairpol_halt e s = s\<lparr>ye_halted := Some (pairpol_error_text e)\<rparr>"

definition pairpol_record :: "pairpol_command \<Rightarrow> bytes32 \<Rightarrow> pairpol_decision \<Rightarrow> int \<Rightarrow> pairpol \<Rightarrow> pairpol" where
  "pairpol_record c digest d n s = s\<lparr>ye_accepted := n, ye_last_recorded_at := Some (pairpol_recorded_at c),
     ye_last_decision := Some d, ye_processed := bt_insert (pairpol_command_id c) (digest, d) (ye_processed s)\<rparr>"

definition pairpol_apply_new ::
  "pairpol_codec \<Rightarrow> pairpol_command \<Rightarrow> bytes32 \<Rightarrow> pairpol \<Rightarrow> (pairpol_error + pairpol_decision) \<times> pairpol" where
  "pairpol_apply_new cx c digest s =
     (if (case ye_last_recorded_at s of None \<Rightarrow> False | Some p \<Rightarrow> pairpol_recorded_at c < p)
      then (Inl YClockRegression, pairpol_halt YClockRegression s)
      else case pairpol_apply_fresh cx c s of
        Inl e \<Rightarrow> if e = YPanic then (Inl YPanic, s) else (Inl e, pairpol_halt e s)
      | Inr (d, s1) \<Rightarrow>
          (case addu64 (ye_accepted s1) 1 of
             None \<Rightarrow> (Inl YOverflow, pairpol_halt YOverflow s)
           | Some n \<Rightarrow>
               (let sealed = d\<lparr>yd_decision_digest := pairpol_decision_digest cx d\<rparr>
                in (Inr sealed, pairpol_record c digest sealed n s1))))"

definition pairpol_apply :: "pairpol_codec \<Rightarrow> pairpol_command \<Rightarrow> pairpol \<Rightarrow> (pairpol_error + pairpol_decision) \<times> pairpol" where
  "pairpol_apply cx c s =
     (case ye_halted s of
        Some reason \<Rightarrow> (Inl (YHalted reason), s)
      | None \<Rightarrow>
          (case pairpol_content cx c of
             Inl e \<Rightarrow> (Inl e, s)
           | Inr content \<Rightarrow>
               (case bt_get (ye_processed s) (pairpol_command_id c) of
                  Some (existing, decision) \<Rightarrow>
                    if existing = content then (Inr decision, s)
                    else (Inl YIdempotencyConflict, pairpol_halt YIdempotencyConflict s)
                | None \<Rightarrow> pairpol_apply_new cx c content s)))"

section \<open>The digest and the snapshot\<close>

record pairpol_json =
  yj_mode :: "mode_observation option \<Rightarrow> string"
  yj_record :: "pair_record \<Rightarrow> string"
  yj_count :: "int \<Rightarrow> string"
  yj_time :: "int option \<Rightarrow> string"
  yj_last_decision :: "pairpol_decision option \<Rightarrow> string"
  yj_decision :: "pairpol_decision \<Rightarrow> string"
  yj_halted :: "string option \<Rightarrow> string"
  yj_staging :: staging_json

definition pairpol_state_digest :: "pairpol_codec \<Rightarrow> pairpol_json \<Rightarrow> pairpol \<Rightarrow> bytes32 option" where
  "pairpol_state_digest cx js s =
     Option.bind (staging_snapshot (yc_staging cx) (yj_staging js) (ye_staging s)) (\<lambda>staging.
     Some (yc_blake3 cx
       (''paired-placement-policy-state-v1''
        @ bytes_of_id (gn_digest staging)
        @ prefixed (yj_mode js (ye_mode s))
        @ concat (map (\<lambda>(i, r). bytes_of_id i @ prefixed (yj_record js r)) (ye_records s))
        @ concat (map (\<lambda>(i, content, decision). bytes_of_id i @ bytes_of_id content @ prefixed (yj_decision js decision))
            (ye_processed s))
        @ prefixed (yj_count js (ye_accepted s))
        @ prefixed (yj_time js (ye_last_recorded_at s))
        @ prefixed (yj_last_decision js (ye_last_decision s))
        @ prefixed (yj_halted js (ye_halted s)))))"

record pairpol_snapshot =
  yn_accepted_commands :: int
  yn_mode :: exchange_mode
  yn_mode_sequence :: "int option"
  yn_staging_digest :: bytes32
  yn_pair_records :: "(pair_stage_id, pair_record) btree"
  yn_reserved_cash :: int
  yn_reserved_tokens :: "confirmed_token_balance list"
  yn_active_reservation_count :: nat
  yn_possible_exposure_legs :: nat
  yn_halted :: bool
  yn_halt_reason :: "string option"
  yn_digest :: bytes32

definition pairpol_snapshot :: "pairpol_codec \<Rightarrow> pairpol_json \<Rightarrow> pairpol \<Rightarrow> pairpol_snapshot option" where
  "pairpol_snapshot cx js s =
     Option.bind (staging_risk_view (yc_staging cx) (ye_staging s)) (\<lambda>view.
     Option.bind (staging_snapshot (yc_staging cx) (yj_staging js) (ye_staging s)) (\<lambda>staging.
     Option.bind (pairpol_state_digest cx js s) (\<lambda>digest.
     let records = map snd (ye_records s) in
     Some \<lparr>yn_accepted_commands = ye_accepted s,
       yn_mode = (case ye_mode s of None \<Rightarrow> ModeUnknown | Some v \<Rightarrow> mo_mode v),
       yn_mode_sequence = map_option mo_sequence (ye_mode s), yn_staging_digest = gn_digest staging,
       yn_pair_records = ye_records s, yn_reserved_cash = lr_cash_reserved view,
       yn_reserved_tokens = lr_reserved_tokens view,
       yn_active_reservation_count = sum_list (map (\<lambda>_. 2) (filter (\<lambda>r. \<not> lp_aborted r) records)),
       yn_possible_exposure_legs =
         length (filter possible_fill (concat (map (\<lambda>r. [fst (lp_legs r), snd (lp_legs r)]) records))),
       yn_halted = (ye_halted s \<noteq> None), yn_halt_reason = ye_halted s, yn_digest = digest\<rparr>)))"

end
