(* ===== verification/Paired_Execution.thy ===== *)
theory Paired_Execution
  imports Paired_Policy
begin

text \<open>
  The paired paper execution of \<open>crates/paired-paper-execution/src/lib.rs\<close>: one writer over the paired
  placement policy. A permit becomes a paper order, what the exchange reports moves the order and, in the
  same transaction, the leg the policy keeps of it; every fill becomes a hand-off to settlement. This
  theory holds the data and the operations; \<open>Paired_Execution_Theorems\<close> what they guarantee. States of
  orders, events and hand-offs are those of \<open>paper-execution\<close>, as in the source.
\<close>

section \<open>Data\<close>

type_synonym pairexec_command_id = bytes32

record paired_order =
  xo_permit :: pair_permit
  xo_local_submission_id :: string
  xo_exchange_order_id :: "string option"
  xo_state :: order_state
  xo_last_source_sequence :: "int option"
  xo_last_event_time :: "int option"
  xo_last_received_time :: "int option"
  xo_cumulative_quantity :: int
  xo_cumulative_consideration :: int
  xo_cumulative_fee :: int
  xo_fills :: "(string, match_fill) btree"
  xo_handoffs :: "handoff list"

datatype pairexec_command =
    PxPolicy pairexec_command_id pairpol_command int
  | PxSubmit pairexec_command_id pair_permit string int
  | PxCancel pairexec_command_id pair_stage_id nat int
  | PxObserve pairexec_command_id pair_stage_id nat exchange_observation int

fun pairexec_command_id :: "pairexec_command \<Rightarrow> pairexec_command_id" where
  "pairexec_command_id (PxPolicy i _ _) = i"
| "pairexec_command_id (PxSubmit i _ _ _) = i"
| "pairexec_command_id (PxCancel i _ _ _) = i"
| "pairexec_command_id (PxObserve i _ _ _ _) = i"

fun pairexec_recorded_at :: "pairexec_command \<Rightarrow> int" where
  "pairexec_recorded_at (PxPolicy _ _ t) = t"
| "pairexec_recorded_at (PxSubmit _ _ _ t) = t"
| "pairexec_recorded_at (PxCancel _ _ _ t) = t"
| "pairexec_recorded_at (PxObserve _ _ _ _ t) = t"

datatype pairexec_status = PxApplied | PxDenied

datatype pairexec_reason =
    PxPolicyApplied
  | PxSubmissionAccepted
  | PxPermitInvalid
  | PxPermitExpired
  | PxPermitAlreadyUsed
  | PxOrderAlreadyExists
  | PxCancelRequested
  | PxCancelDenied
  | PxObservationApplied

record pairexec_decision =
  fd_command_id :: pairexec_command_id
  fd_status :: pairexec_status
  fd_reason :: pairexec_reason
  fd_stage_id :: "pair_stage_id option"
  fd_leg_index :: "nat option"
  fd_state :: "order_state option"
  fd_policy_decision :: "pairpol_decision option"
  fd_new_handoff :: "handoff option"
  fd_decision_digest :: bytes32

datatype pairexec_error =
    FTimestamp
  | FCommandBound
  | FJson string
  | FVersion int
  | FIdempotencyConflict
  | FClockRegression
  | FBoundary
  | FSourceHistory
  | FExchangeOrderIdentity
  | FLifecycle
  | FFillInvariant
  | FIdentifier
  | FReservation
  | FHandoff
  | FOverflow
  | FPolicy string
  | FHalted string
  | FPanic

fun pairexec_error_text :: "pairexec_error \<Rightarrow> string" where
  "pairexec_error_text FTimestamp = ''paired execution command timestamp is invalid''"
| "pairexec_error_text FCommandBound = ''paired execution command exceeds its canonical bound''"
| "pairexec_error_text (FJson e) = ''paired execution command JSON is invalid: '' @ e"
| "pairexec_error_text (FVersion v) = ''unsupported paired execution command version: '' @ show_nat (nat v)"
| "pairexec_error_text FIdempotencyConflict = ''paired execution command id was reused for different content''"
| "pairexec_error_text FClockRegression = ''paired execution clock regressed''"
| "pairexec_error_text FBoundary = ''caller attempted to bypass composed lifecycle ownership''"
| "pairexec_error_text FSourceHistory = ''paper source history regressed or equivocated''"
| "pairexec_error_text FExchangeOrderIdentity = ''paper exchange order identity changed''"
| "pairexec_error_text FLifecycle = ''paper lifecycle transition is impossible''"
| "pairexec_error_text FFillInvariant = ''paper fill facts violate exact bounds''"
| "pairexec_error_text FIdentifier = ''paper identifier is invalid''"
| "pairexec_error_text FReservation = ''paired reservations changed across an exposure transition''"
| "pairexec_error_text FHandoff = ''settlement handoff identity was reused''"
| "pairexec_error_text FOverflow = ''paired execution arithmetic or counter overflow''"
| "pairexec_error_text (FPolicy e) = ''paired policy child failed: '' @ e"
| "pairexec_error_text (FHalted reason) = ''paired execution is halted: '' @ reason"
| "pairexec_error_text FPanic = ''''"

type_synonym order_key = "pair_stage_id \<times> nat"

record pairexec =
  fe_policy :: pairpol
  fe_orders :: "(order_key, paired_order) btree"
  fe_used_permits :: "bytes32 btset"
  fe_handoff_digests :: "bytes32 btset"
  fe_ledger_command_ids :: "command_id btset"
  fe_processed :: "(pairexec_command_id, bytes32 \<times> pairexec_decision) btree"
  fe_accepted :: int
  fe_last_recorded_at :: "int option"
  fe_last_decision :: "pairexec_decision option"
  fe_halted :: "string option"

definition pairexec_default :: pairexec where
  "pairexec_default = \<lparr>fe_policy = pairpol_default, fe_orders = [], fe_used_permits = [], fe_handoff_digests = [],
     fe_ledger_command_ids = [], fe_processed = [], fe_accepted = 0, fe_last_recorded_at = None,
     fe_last_decision = None, fe_halted = None\<rparr>"

text \<open>\<open>serde_json\<close> on the types that are hashed; \<open>blake3\<close> is the one of the policy.\<close>

record pairexec_codec =
  fc_to_vec :: "pairexec_command wire \<Rightarrow> string + string"
  fc_observation_json :: "exchange_observation \<Rightarrow> string + string"
  fc_handoff_json :: "handoff \<Rightarrow> string + string"
  fc_leg_json :: "leg_state \<Rightarrow> string"
  fc_decision_json :: "pairexec_decision \<Rightarrow> string"
  fc_policy :: pairpol_codec

abbreviation fc_blake3 :: "pairexec_codec \<Rightarrow> string \<Rightarrow> bytes32" where
  "fc_blake3 cx \<equiv> yc_blake3 (fc_policy cx)"

abbreviation fc_staging :: "pairexec_codec \<Rightarrow> staging_codec" where
  "fc_staging cx \<equiv> yc_staging (fc_policy cx)"

section \<open>Digests and decisions\<close>

definition pairexec_decision_digest :: "pairexec_codec \<Rightarrow> pairexec_decision \<Rightarrow> bytes32" where
  "pairexec_decision_digest cx d = fc_blake3 cx
     (''paired-execution-decision-v1'' @ prefixed (fc_decision_json cx (d\<lparr>fd_decision_digest := 0\<rparr>)))"

definition pairexec_verify_digest :: "pairexec_codec \<Rightarrow> pairexec_decision \<Rightarrow> bool" where
  "pairexec_verify_digest cx d = (fd_decision_digest d = pairexec_decision_digest cx d)"

definition pairexec_answer ::
  "pairexec_command_id \<Rightarrow> pairexec_status \<Rightarrow> pairexec_reason \<Rightarrow> pair_stage_id option \<Rightarrow> nat option \<Rightarrow> order_state option
    \<Rightarrow> pairpol_decision option \<Rightarrow> handoff option \<Rightarrow> pairexec_decision" where
  "pairexec_answer i status reason stage leg state policy h = \<lparr>fd_command_id = i, fd_status = status,
     fd_reason = reason, fd_stage_id = stage, fd_leg_index = leg, fd_state = state, fd_policy_decision = policy,
     fd_new_handoff = h, fd_decision_digest = 0\<rparr>"

definition pair_intent_id :: "pairexec_codec \<Rightarrow> string \<Rightarrow> string \<Rightarrow> intent_id" where
  "pair_intent_id cx fill_id order_id =
     fc_blake3 cx (''paired-paper-execution-handoff-v1'' @ prefixed fill_id @ prefixed order_id)"

definition handoff_digest :: "pairexec_codec \<Rightarrow> handoff \<Rightarrow> pairexec_error + bytes32" where
  "handoff_digest cx h = (case fc_handoff_json cx h of Inl e \<Rightarrow> Inl (FJson e) | Inr bytes \<Rightarrow> Inr (fc_blake3 cx bytes))"

definition derived_sync_id :: "pairexec_codec \<Rightarrow> pairexec_command_id \<Rightarrow> pair_permit_id \<Rightarrow> leg_state \<Rightarrow> pairpol_command_id" where
  "derived_sync_id cx i permit state = fc_blake3 cx
     (''paired-execution-policy-sync-v1'' @ bytes_of_id i @ bytes_of_id permit @ prefixed (fc_leg_json cx state))"

section \<open>Helpers\<close>

definition pairexec_validate_text :: "string \<Rightarrow> pairexec_error + unit" where
  "pairexec_validate_text s = (if s = [] \<or> 512 < int (length s) then Inl FIdentifier else Inr ())"

definition pairexec_div_ceil :: "int \<Rightarrow> int \<Rightarrow> pairexec_error + int" where
  "pairexec_div_ceil value divisor =
     rbind (ok_or (sub128 divisor 1) FOverflow) (\<lambda>d.
     rbind (ok_or (add128 value d) FOverflow) (\<lambda>adjusted.
     Inr (tdiv adjusted divisor)))"

definition pair_validate_observation :: "paired_order \<Rightarrow> exchange_observation \<Rightarrow> int \<Rightarrow> pairexec_error + unit" where
  "pair_validate_observation order v at =
     (if eo_source_sequence v = 0 \<or> eo_event_time v < 0 \<or> eo_received_time v < eo_event_time v
         \<or> at < eo_received_time v
         \<or> (case xo_last_source_sequence order of None \<Rightarrow> False | Some p \<Rightarrow> eo_source_sequence v \<le> p)
         \<or> (case xo_last_event_time order of None \<Rightarrow> False | Some p \<Rightarrow> eo_event_time v < p)
         \<or> (case xo_last_received_time order of None \<Rightarrow> False | Some p \<Rightarrow> eo_received_time v < p)
      then Inl FSourceHistory else Inr ())"

definition pair_bind_exchange_id :: "paired_order \<Rightarrow> string option \<Rightarrow> pairexec_error + paired_order" where
  "pair_bind_exchange_id order observed =
     rbind (case observed of None \<Rightarrow> Inr () | Some value \<Rightarrow> pairexec_validate_text value) (\<lambda>_.
     case (xo_exchange_order_id order, observed) of
       (Some existing, Some value) \<Rightarrow> if existing \<noteq> value then Inl FExchangeOrderIdentity else Inr order
     | (None, Some value) \<Rightarrow> Inr (order\<lparr>xo_exchange_order_id := Some value\<rparr>)
     | _ \<Rightarrow> Inr order)"

definition pair_require_active :: "order_state \<Rightarrow> (active_state \<Rightarrow> bool) \<Rightarrow> pairexec_error + unit" where
  "pair_require_active state allowed =
     (case current_active state of
        Some value \<Rightarrow> if allowed value then Inr () else Inl FLifecycle
      | None \<Rightarrow> Inl FLifecycle)"

definition pair_set_active :: "paired_order \<Rightarrow> active_state \<Rightarrow> pairexec_error + paired_order" where
  "pair_set_active order a =
     (case xo_state order of
        XActive _ \<Rightarrow> Inr (order\<lparr>xo_state := XActive a\<rparr>)
      | XCancelPending _ \<Rightarrow> Inr (order\<lparr>xo_state := XCancelPending a\<rparr>)
      | _ \<Rightarrow> Inl FLifecycle)"

definition pair_require_exchange_id :: "paired_order \<Rightarrow> pairexec_error + unit" where
  "pair_require_exchange_id order =
     (if xo_exchange_order_id order = None then Inl FExchangeOrderIdentity else Inr ())"

section \<open>Fills\<close>

definition pair_fill_within_limit :: "order_exposure \<Rightarrow> match_fill \<Rightarrow> pairexec_error + unit" where
  "pair_fill_within_limit v fill =
     rbind (ok_or (mul128 (oe_limit_price v) (mf_quantity fill)) FOverflow) (\<lambda>value.
     case oe_side v of
       BuySide \<Rightarrow> rbind (pairexec_div_ceil value 1000000) (\<lambda>limit.
         if limit < mf_consideration fill then Inl FFillInvariant else Inr ())
     | SellSide \<Rightarrow> if mf_consideration fill < tdiv value 1000000 then Inl FFillInvariant else Inr ())"

definition pair_validate_fill :: "paired_order \<Rightarrow> match_fill \<Rightarrow> bool \<Rightarrow> pairexec_error + unit" where
  "pair_validate_fill order fill fully =
     rbind (pairexec_validate_text (mf_fill_id fill)) (\<lambda>_.
     let v = pm_order (xo_permit order) in
     if mf_quantity fill \<le> 0 \<or> mf_consideration fill \<le> 0 \<or> mf_fee fill < 0
        \<or> mf_consideration fill < mf_fee fill then Inl FFillInvariant
     else if add128 (xo_cumulative_quantity order) (mf_quantity fill) \<noteq> Some (mf_cumulative_quantity fill)
        \<or> add128 (xo_cumulative_consideration order) (mf_consideration fill)
            \<noteq> Some (mf_cumulative_consideration fill)
        \<or> add128 (xo_cumulative_fee order) (mf_fee fill) \<noteq> Some (mf_cumulative_fee fill)
        \<or> oe_quantity v < mf_cumulative_quantity fill
        \<or> oe_max_fee v < mf_cumulative_fee fill
        \<or> fully \<noteq> (mf_cumulative_quantity fill = oe_quantity v) then Inl FFillInvariant
     else pair_fill_within_limit v fill)"

definition pair_fill_intent :: "pairexec_codec \<Rightarrow> paired_order \<Rightarrow> string \<Rightarrow> match_fill \<Rightarrow> trade_intent" where
  "pair_fill_intent cx order exchange_order_id fill =
     \<lparr>ti_intent_id = pair_intent_id cx (mf_fill_id fill) exchange_order_id,
      ti_trade_id = mf_fill_id fill, ti_order_id = exchange_order_id,
      ti_token = oe_token (pm_order (xo_permit order)),
      ti_side = side_of_order (oe_side (pm_order (xo_permit order))),
      ti_quantity = mf_quantity fill, ti_consideration = mf_consideration fill, ti_fee = mf_fee fill,
      ti_ledger_command_id = mf_ledger_command_id fill\<rparr>"

definition pair_apply_match ::
  "pairexec_codec \<Rightarrow> paired_order \<Rightarrow> exchange_observation \<Rightarrow> match_fill \<Rightarrow> bool \<Rightarrow> bytes32
    \<Rightarrow> pairexec_error + handoff \<times> paired_order" where
  "pair_apply_match cx order v fill fully digest =
     rbind (pair_require_exchange_id order) (\<lambda>_.
     if is_terminal_state (xo_state order) \<or> bt_contains (xo_fills order) (mf_fill_id fill)
        \<or> list_ex (\<lambda>e. mf_ledger_command_id (snd e) = mf_ledger_command_id fill) (xo_fills order)
     then Inl FFillInvariant
     else if too_early (xo_state order) (eo_event_time v) then Inl FLifecycle
     else
       rbind (pair_validate_fill order fill fully) (\<lambda>_.
       rbind (ok_or (xo_exchange_order_id order) FExchangeOrderIdentity) (\<lambda>exchange_order_id.
       let h = \<lparr>hf_intent = pair_fill_intent cx order exchange_order_id fill,
             hf_source_sequence = eo_source_sequence v,
             hf_placement_policy_digest = pm_permit_digest (xo_permit order),
             hf_source_observation_digest = digest\<rparr>;
           filled = order\<lparr>xo_cumulative_quantity := mf_cumulative_quantity fill,
             xo_cumulative_consideration := mf_cumulative_consideration fill,
             xo_cumulative_fee := mf_cumulative_fee fill,
             xo_fills := bt_insert (mf_fill_id fill) fill (xo_fills order),
             xo_handoffs := xo_handoffs order @ [h]\<rparr> in
       if fully then Inr (h, filled\<lparr>xo_state := XFullyMatched\<rparr>)
       else rbind (pair_set_active filled XPartiallyMatched) (\<lambda>filled. Inr (h, filled)))))"

definition pair_moved :: "pairexec_error + paired_order \<Rightarrow> pairexec_error + handoff option \<times> paired_order" where
  "pair_moved r = rbind r (\<lambda>order. Inr (None, order))"

definition pair_apply_observation ::
  "pairexec_codec \<Rightarrow> paired_order \<Rightarrow> exchange_observation \<Rightarrow> bytes32 \<Rightarrow> pairexec_error + handoff option \<times> paired_order" where
  "pair_apply_observation cx order v digest =
     (case eo_event v of
        EvDelayed release_at uncancellable_until \<Rightarrow>
          rbind (pair_require_active (xo_state order) may_delay) (\<lambda>_.
          if release_at \<le> eo_event_time v \<or> uncancellable_until < release_at then Inl FLifecycle
          else pair_moved (pair_set_active order (XDelayed release_at uncancellable_until)))
      | EvAcknowledged \<Rightarrow>
          rbind (pair_require_exchange_id order) (\<lambda>_.
          rbind (pair_require_active (xo_state order) may_acknowledge) (\<lambda>_.
          pair_moved (pair_set_active order XAcknowledged)))
      | EvLive \<Rightarrow>
          rbind (pair_require_exchange_id order) (\<lambda>_.
          rbind (pair_require_active (xo_state order) may_go_live) (\<lambda>_.
          if too_early (xo_state order) (eo_event_time v) then Inl FLifecycle
          else pair_moved (pair_set_active order XLive)))
      | EvMatch fill fully \<Rightarrow>
          rbind (pair_apply_match cx order v fill fully digest) (\<lambda>(h, order'). Inr (Some h, order'))
      | EvCancelAccepted \<Rightarrow>
          (case xo_state order of
             XCancelPending _ \<Rightarrow> Inr (None, order\<lparr>xo_state := XCanceled\<rparr>)
           | _ \<Rightarrow> Inl FLifecycle)
      | EvCancelRejected \<Rightarrow>
          (case xo_state order of
             XCancelPending resume \<Rightarrow> Inr (None, order\<lparr>xo_state := XActive resume\<rparr>)
           | _ \<Rightarrow> Inl FLifecycle)
      | EvRejected class code \<Rightarrow>
          rbind (pairexec_validate_text code) (\<lambda>_.
          if is_terminal_state (xo_state order) then Inl FLifecycle
          else Inr (None, order\<lparr>xo_state := XRejected class code\<rparr>))
      | EvUnknown reason \<Rightarrow>
          (case xo_state order of
             XActive _ \<Rightarrow> Inr (None, order\<lparr>xo_state := XActive (XUnknown reason)\<rparr>)
           | XCancelPending _ \<Rightarrow> Inr (None, order\<lparr>xo_state := XCancelPending (XUnknown reason)\<rparr>)
           | _ \<Rightarrow> Inl FLifecycle))"

text \<open>The state the policy is told.\<close>

fun resumed_leg :: "active_state option \<Rightarrow> leg_state" where
  "resumed_leg (Some (XDelayed _ _)) = LegDelayed"
| "resumed_leg (Some XPartiallyMatched) = LegPartiallyMatched"
| "resumed_leg (Some (XUnknown _)) = LegUnknown"
| "resumed_leg _ = LegLive"

definition policy_state_for :: "paired_order \<Rightarrow> exchange_event \<Rightarrow> leg_state" where
  "policy_state_for order event =
     (let terminal = (if xo_cumulative_quantity order = 0 then LegNoFillTerminal else LegPartiallyMatchedTerminal) in
      case event of
        EvDelayed _ _ \<Rightarrow> LegDelayed
      | EvAcknowledged \<Rightarrow> LegLive
      | EvLive \<Rightarrow> LegLive
      | EvMatch _ fully \<Rightarrow> if fully then LegFullyMatched else LegPartiallyMatched
      | EvUnknown _ \<Rightarrow> LegUnknown
      | EvCancelAccepted \<Rightarrow> terminal
      | EvRejected _ _ \<Rightarrow> terminal
      | EvCancelRejected \<Rightarrow> resumed_leg (current_active (xo_state order)))"

section \<open>Operations\<close>

type_synonym pairexec_result = "pairexec_error + pairexec_decision \<times> pairexec"

definition pairexec_risk_view :: "pairexec_codec \<Rightarrow> pairexec \<Rightarrow> ledger_risk_view option" where
  "pairexec_risk_view cx s = staging_risk_view (fc_staging cx) (ye_staging (fe_policy s))"

fun is_observe_leg :: "pairpol_command \<Rightarrow> bool" where
  "is_observe_leg (PolObserveLeg _ _ _ _ _ _ _ _) = True"
| "is_observe_leg _ = False"

definition pairexec_policy_apply ::
  "pairexec_codec \<Rightarrow> pairpol_command \<Rightarrow> pairexec \<Rightarrow> pairexec_error + pairpol_decision \<times> pairexec" where
  "pairexec_policy_apply cx c s =
     (case pairpol_apply (fc_policy cx) c (fe_policy s) of
        (Inl e, _) \<Rightarrow> Inl (if e = YPanic then FPanic else FPolicy (pairpol_error_text e))
      | (Inr d, p) \<Rightarrow> Inr (d, s\<lparr>fe_policy := p\<rparr>))"

definition pairexec_policy ::
  "pairexec_codec \<Rightarrow> pairexec_command_id \<Rightarrow> pairpol_command \<Rightarrow> int \<Rightarrow> pairexec \<Rightarrow> pairexec_result" where
  "pairexec_policy cx i c at s =
     (if pairpol_recorded_at c \<noteq> at \<or> is_observe_leg c then Inl FBoundary
      else rbind (pairexec_policy_apply cx c s) (\<lambda>(d, s').
        Inr (pairexec_answer i (if yd_status d = PolAccepted then PxApplied else PxDenied) PxPolicyApplied
          (yd_stage_id d) (map_option pm_leg_index (yd_permit d)) None (Some d) None, s')))"

definition sync_policy ::
  "pairexec_codec \<Rightarrow> pairexec_command_id \<Rightarrow> pair_permit \<Rightarrow> leg_state \<Rightarrow> int \<Rightarrow> int \<Rightarrow> int \<Rightarrow> pairexec
    \<Rightarrow> pairexec_error + pairexec" where
  "sync_policy cx i p state sequence observed_at at s =
     rbind (pairexec_policy_apply cx
       (PolObserveLeg (derived_sync_id cx i (pm_permit_id p) state) (pm_stage_id p) (pm_leg_index p) (pm_permit_id p)
         state sequence observed_at at) s) (\<lambda>(d, s').
     if yd_status d \<noteq> PolAccepted then Inl FBoundary else Inr s')"

definition require_reservations_unchanged ::
  "pairexec_codec \<Rightarrow> ledger_risk_view \<Rightarrow> pairexec \<Rightarrow> pairexec_error + unit" where
  "require_reservations_unchanged cx before s =
     rbind (ok_or (pairexec_risk_view cx s) FPanic) (\<lambda>after. if after = before then Inr () else Inl FReservation)"

definition pair_permit_current :: "pair_permit \<Rightarrow> pairexec \<Rightarrow> bool" where
  "pair_permit_current p s \<longleftrightarrow>
     (case bt_get (ye_records (fe_policy s)) (pm_stage_id p) of
        None \<Rightarrow> False
      | Some r \<Rightarrow> at_leg (pm_leg_index p) (lp_permits r) = Some p \<and> at_leg (pm_leg_index p) (lp_legs r) = LegAuthorized)
     \<and> (case staging_reservation (ye_staging (fe_policy s)) (pm_reservation_id p) of
          None \<Rightarrow> False | Some r \<Rightarrow> res_status r = ReservationActive)"

definition pair_submit_denial :: "pairexec_codec \<Rightarrow> pair_permit \<Rightarrow> int \<Rightarrow> pairexec \<Rightarrow> pairexec_reason option" where
  "pair_submit_denial cx p at s =
     (if \<not> permit_verify_digest (fc_policy cx) p \<or> 1 < pm_leg_index p then Some PxPermitInvalid
      else if bs_mem (pm_permit_digest p) (fe_used_permits s) then Some PxPermitAlreadyUsed
      else if \<not> pair_permit_current p s then Some PxPermitInvalid
      else if at < pm_valid_from p \<or> pm_valid_until p \<le> at then Some PxPermitExpired
      else if bt_contains (fe_orders s) (pm_stage_id p, pm_leg_index p) then Some PxOrderAlreadyExists
      else None)"

definition new_paired_order :: "pair_permit \<Rightarrow> string \<Rightarrow> paired_order" where
  "new_paired_order p local_id = \<lparr>xo_permit = p, xo_local_submission_id = local_id, xo_exchange_order_id = None,
     xo_state = XActive XSubmitted, xo_last_source_sequence = None, xo_last_event_time = None,
     xo_last_received_time = None, xo_cumulative_quantity = 0, xo_cumulative_consideration = 0,
     xo_cumulative_fee = 0, xo_fills = [], xo_handoffs = []\<rparr>"

definition pairexec_submit ::
  "pairexec_codec \<Rightarrow> pairexec_command_id \<Rightarrow> pair_permit \<Rightarrow> string \<Rightarrow> int \<Rightarrow> pairexec \<Rightarrow> pairexec_result" where
  "pairexec_submit cx i p local_id at s =
     (let key = (pm_stage_id p, pm_leg_index p) in
      case pair_submit_denial cx p at s of
        Some reason \<Rightarrow>
          Inr (pairexec_answer i PxDenied reason (Some (pm_stage_id p)) (Some (pm_leg_index p))
            (map_option xo_state (bt_get (fe_orders s) key)) None None, s)
      | None \<Rightarrow>
          rbind (pairexec_validate_text local_id) (\<lambda>_.
          rbind (ok_or (pairexec_risk_view cx s) FPanic) (\<lambda>before.
          rbind (sync_policy cx i p LegSubmitted 0 at at
            (s\<lparr>fe_used_permits := bs_insert (pm_permit_digest p) (fe_used_permits s),
               fe_orders := bt_insert key (new_paired_order p local_id) (fe_orders s)\<rparr>)) (\<lambda>s'.
          rbind (require_reservations_unchanged cx before s') (\<lambda>_.
          Inr (pairexec_answer i PxApplied PxSubmissionAccepted (Some (pm_stage_id p)) (Some (pm_leg_index p))
            (Some (XActive XSubmitted)) None None, s'))))))"

definition pair_cancel_denied :: "order_state \<Rightarrow> int \<Rightarrow> bool" where
  "pair_cancel_denied state at =
     (case state of
        XActive (XDelayed _ uncancellable_until) \<Rightarrow> at < uncancellable_until
      | XActive _ \<Rightarrow> False
      | _ \<Rightarrow> True)"

definition pairexec_cancel ::
  "pairexec_command_id \<Rightarrow> pair_stage_id \<Rightarrow> nat \<Rightarrow> int \<Rightarrow> pairexec \<Rightarrow> pairexec_decision \<times> pairexec" where
  "pairexec_cancel i stage leg at s =
     (case bt_get (fe_orders s) (stage, leg) of
        None \<Rightarrow> (pairexec_answer i PxDenied PxCancelDenied (Some stage) (Some leg) None None None, s)
      | Some order \<Rightarrow>
          if pair_cancel_denied (xo_state order) at
          then (pairexec_answer i PxDenied PxCancelDenied (Some stage) (Some leg) (Some (xo_state order)) None None, s)
          else (case xo_state order of
              XActive resume \<Rightarrow>
                (let pending = XCancelPending resume in
                 (pairexec_answer i PxApplied PxCancelRequested (Some stage) (Some leg) (Some pending) None None,
                  s\<lparr>fe_orders := bt_insert (stage, leg) (order\<lparr>xo_state := pending\<rparr>) (fe_orders s)\<rparr>))
            | _ \<Rightarrow> (pairexec_answer i PxDenied PxCancelDenied (Some stage) (Some leg) (Some (xo_state order)) None None, s)))"

text \<open>The part of an observation that concerns the order alone.\<close>

definition observe_paired_order ::
  "pairexec_codec \<Rightarrow> paired_order \<Rightarrow> exchange_observation \<Rightarrow> int \<Rightarrow> pairexec_error + handoff option \<times> paired_order" where
  "observe_paired_order cx order v at =
     (if eo_order_id v \<noteq> oe_order_id (pm_order (xo_permit order)) then Inl FBoundary
      else
        rbind (pair_validate_observation order v at) (\<lambda>_.
        rbind (pair_bind_exchange_id order (eo_exchange_order_id v)) (\<lambda>bound.
        case fc_observation_json cx v of
          Inl e \<Rightarrow> Inl (FJson e)
        | Inr bytes \<Rightarrow>
            rbind (pair_apply_observation cx bound v (fc_blake3 cx bytes)) (\<lambda>(h, order').
            Inr (h, order'\<lparr>xo_last_source_sequence := Some (eo_source_sequence v),
              xo_last_event_time := Some (eo_event_time v), xo_last_received_time := Some (eo_received_time v)\<rparr>)))))"

definition note_handoff :: "pairexec_codec \<Rightarrow> handoff option \<Rightarrow> pairexec \<Rightarrow> pairexec_error + pairexec" where
  "note_handoff cx h s =
     (case h of
        None \<Rightarrow> Inr s
      | Some value \<Rightarrow>
          rbind (handoff_digest cx value) (\<lambda>digest.
          if bs_mem digest (fe_handoff_digests s)
             \<or> bs_mem (ti_ledger_command_id (hf_intent value)) (fe_ledger_command_ids s)
          then Inl FHandoff
          else Inr (s\<lparr>fe_handoff_digests := bs_insert digest (fe_handoff_digests s),
            fe_ledger_command_ids := bs_insert (ti_ledger_command_id (hf_intent value)) (fe_ledger_command_ids s)\<rparr>)))"

definition pairexec_observe ::
  "pairexec_codec \<Rightarrow> pairexec_command_id \<Rightarrow> pair_stage_id \<Rightarrow> nat \<Rightarrow> exchange_observation \<Rightarrow> int \<Rightarrow> pairexec
    \<Rightarrow> pairexec_result" where
  "pairexec_observe cx i stage leg v at s =
     rbind (ok_or (pairexec_risk_view cx s) FPanic) (\<lambda>before.
     rbind (ok_or (bt_get (fe_orders s) (stage, leg)) FLifecycle) (\<lambda>order.
     rbind (observe_paired_order cx order v at) (\<lambda>(h, order').
     rbind (note_handoff cx h (s\<lparr>fe_orders := bt_insert (stage, leg) order' (fe_orders s)\<rparr>)) (\<lambda>s1.
     rbind (sync_policy cx i (xo_permit order') (policy_state_for order' (eo_event v)) (eo_source_sequence v)
       (eo_event_time v) at s1) (\<lambda>s2.
     rbind (require_reservations_unchanged cx before s2) (\<lambda>_.
     Inr (pairexec_answer i PxApplied PxObservationApplied (Some stage) (Some leg) (Some (xo_state order')) None h, s2)))))))"

fun pairexec_apply_fresh :: "pairexec_codec \<Rightarrow> pairexec_command \<Rightarrow> pairexec \<Rightarrow> pairexec_result" where
  "pairexec_apply_fresh cx (PxPolicy i c t) s = pairexec_policy cx i c t s"
| "pairexec_apply_fresh cx (PxSubmit i p local_id t) s = pairexec_submit cx i p local_id t s"
| "pairexec_apply_fresh cx (PxCancel i stage leg t) s = Inr (pairexec_cancel i stage leg t s)"
| "pairexec_apply_fresh cx (PxObserve i stage leg v t) s = pairexec_observe cx i stage leg v t s"

text \<open>What the composing owner of settlement reads and writes below.\<close>

definition pairexec_order :: "pairexec \<Rightarrow> pair_stage_id \<Rightarrow> nat \<Rightarrow> paired_order option" where
  "pairexec_order s stage leg = bt_get (fe_orders s) (stage, leg)"

definition pairexec_reconciliation_view ::
  "pairexec_codec \<Rightarrow> command_id btset \<Rightarrow> pairexec \<Rightarrow> reconciliation_view option" where
  "pairexec_reconciliation_view cx ids s = staging_reconciliation_view (fc_staging cx) ids (ye_staging (fe_policy s))"

definition pairexec_settlement_batch ::
  "pairexec_codec \<Rightarrow> ledger_command list \<Rightarrow> pairexec \<Rightarrow> pairexec_error + pairexec" where
  "pairexec_settlement_batch cx cs s =
     (case pairpol_settlement_batch (fc_policy cx) cs (fe_policy s) of
        Inl e \<Rightarrow> Inl (FPolicy (pairpol_error_text e))
      | Inr p \<Rightarrow> Inr (s\<lparr>fe_policy := p\<rparr>))"

definition pairexec_pair_lock :: "pairexec \<Rightarrow> lock_id \<Rightarrow> pair_lock option" where
  "pairexec_pair_lock s i = staging_pair_lock (ye_staging (fe_policy s)) i"

section \<open>The engine\<close>

definition pairexec_validate_command :: "pairexec_command \<Rightarrow> pairexec_error + unit" where
  "pairexec_validate_command c =
     (if pairexec_recorded_at c < 0 then Inl FTimestamp
      else case c of
        PxPolicy _ p t \<Rightarrow> if pairpol_recorded_at p \<noteq> t then Inl FTimestamp else Inr ()
      | PxObserve _ _ _ v t \<Rightarrow> if t < eo_received_time v then Inl FTimestamp else Inr ()
      | _ \<Rightarrow> Inr ())"

definition pairexec_encode_command :: "pairexec_codec \<Rightarrow> pairexec_command \<Rightarrow> pairexec_error + string" where
  "pairexec_encode_command cx c =
     rbind (pairexec_validate_command c) (\<lambda>_.
       case fc_to_vec cx \<lparr>wire_version = 1, wire_command = c\<rparr> of
         Inl e \<Rightarrow> Inl (FJson e)
       | Inr bytes \<Rightarrow> if 1048576 < int (length bytes) then Inl FCommandBound else Inr bytes)"

definition pairexec_decode_command ::
  "(string \<Rightarrow> string + pairexec_command wire) \<Rightarrow> string \<Rightarrow> pairexec_error + pairexec_command" where
  "pairexec_decode_command deserialize bytes =
     (if 1048576 < int (length bytes) then Inl FCommandBound
      else case deserialize bytes of
        Inl e \<Rightarrow> Inl (FJson e)
      | Inr w \<Rightarrow>
          if wire_version w \<noteq> 1 then Inl (FVersion (wire_version w))
          else rbind (pairexec_validate_command (wire_command w)) (\<lambda>_. Inr (wire_command w)))"

definition pairexec_content :: "pairexec_codec \<Rightarrow> pairexec_command \<Rightarrow> pairexec_error + bytes32" where
  "pairexec_content cx c = rbind (pairexec_encode_command cx c) (\<lambda>bytes. Inr (fc_blake3 cx bytes))"

definition pairexec_halt :: "pairexec_error \<Rightarrow> pairexec \<Rightarrow> pairexec" where
  "pairexec_halt e s = s\<lparr>fe_halted := Some (pairexec_error_text e)\<rparr>"

definition pairexec_record :: "pairexec_command \<Rightarrow> bytes32 \<Rightarrow> pairexec_decision \<Rightarrow> int \<Rightarrow> pairexec \<Rightarrow> pairexec" where
  "pairexec_record c digest d n s = s\<lparr>fe_accepted := n, fe_last_recorded_at := Some (pairexec_recorded_at c),
     fe_last_decision := Some d, fe_processed := bt_insert (pairexec_command_id c) (digest, d) (fe_processed s)\<rparr>"

definition pairexec_apply_new ::
  "pairexec_codec \<Rightarrow> pairexec_command \<Rightarrow> bytes32 \<Rightarrow> pairexec \<Rightarrow> (pairexec_error + pairexec_decision) \<times> pairexec" where
  "pairexec_apply_new cx c digest s =
     (if (case fe_last_recorded_at s of None \<Rightarrow> False | Some p \<Rightarrow> pairexec_recorded_at c < p)
      then (Inl FClockRegression, pairexec_halt FClockRegression s)
      else case pairexec_apply_fresh cx c s of
        Inl e \<Rightarrow> if e = FPanic then (Inl FPanic, s) else (Inl e, pairexec_halt e s)
      | Inr (d, s1) \<Rightarrow>
          (case addu64 (fe_accepted s1) 1 of
             None \<Rightarrow> (Inl FOverflow, pairexec_halt FOverflow s)
           | Some n \<Rightarrow>
               (let sealed = d\<lparr>fd_decision_digest := pairexec_decision_digest cx d\<rparr>
                in (Inr sealed, pairexec_record c digest sealed n s1))))"

definition pairexec_apply ::
  "pairexec_codec \<Rightarrow> pairexec_command \<Rightarrow> pairexec \<Rightarrow> (pairexec_error + pairexec_decision) \<times> pairexec" where
  "pairexec_apply cx c s =
     (case fe_halted s of
        Some reason \<Rightarrow> (Inl (FHalted reason), s)
      | None \<Rightarrow>
          (case pairexec_content cx c of
             Inl e \<Rightarrow> (Inl e, s)
           | Inr content \<Rightarrow>
               (case bt_get (fe_processed s) (pairexec_command_id c) of
                  Some (existing, decision) \<Rightarrow>
                    if existing = content then (Inr decision, s)
                    else (Inl FIdempotencyConflict, pairexec_halt FIdempotencyConflict s)
                | None \<Rightarrow> pairexec_apply_new cx c content s)))"

section \<open>The digest and the snapshot\<close>

record pairexec_json =
  fj_order :: "paired_order \<Rightarrow> string"
  fj_digests :: "bytes32 btset \<Rightarrow> string"
  fj_command_ids :: "command_id btset \<Rightarrow> string"
  fj_count :: "int \<Rightarrow> string"
  fj_time :: "int option \<Rightarrow> string"
  fj_last_decision :: "pairexec_decision option \<Rightarrow> string"
  fj_decision :: "pairexec_decision \<Rightarrow> string"
  fj_halted :: "string option \<Rightarrow> string"
  fj_policy :: pairpol_json

definition pairexec_state_digest :: "pairexec_codec \<Rightarrow> pairexec_json \<Rightarrow> pairexec \<Rightarrow> bytes32 option" where
  "pairexec_state_digest cx js s =
     Option.bind (pairpol_snapshot (fc_policy cx) (fj_policy js) (fe_policy s)) (\<lambda>policy.
     Some (fc_blake3 cx
       (''paired-paper-execution-state-v1''
        @ bytes_of_id (yn_digest policy)
        @ concat (map (\<lambda>((stage, leg), order). bytes_of_id stage @ [char_of leg] @ prefixed (fj_order js order))
            (fe_orders s))
        @ prefixed (fj_digests js (fe_used_permits s))
        @ prefixed (fj_digests js (fe_handoff_digests s))
        @ prefixed (fj_command_ids js (fe_ledger_command_ids s))
        @ concat (map (\<lambda>(i, content, decision). bytes_of_id i @ bytes_of_id content @ prefixed (fj_decision js decision))
            (fe_processed s))
        @ prefixed (fj_count js (fe_accepted s))
        @ prefixed (fj_time js (fe_last_recorded_at s))
        @ prefixed (fj_last_decision js (fe_last_decision s))
        @ prefixed (fj_halted js (fe_halted s)))))"

record pairexec_snapshot =
  fn_accepted_commands :: int
  fn_policy_digest :: bytes32
  fn_order_count :: nat
  fn_used_permit_count :: nat
  fn_handoff_count :: nat
  fn_reserved_cash :: int
  fn_reserved_tokens :: "confirmed_token_balance list"
  fn_halted :: bool
  fn_halt_reason :: "string option"
  fn_digest :: bytes32

definition pairexec_snapshot :: "pairexec_codec \<Rightarrow> pairexec_json \<Rightarrow> pairexec \<Rightarrow> pairexec_snapshot option" where
  "pairexec_snapshot cx js s =
     Option.bind (pairexec_risk_view cx s) (\<lambda>view.
     Option.bind (pairpol_snapshot (fc_policy cx) (fj_policy js) (fe_policy s)) (\<lambda>policy.
     Option.bind (pairexec_state_digest cx js s) (\<lambda>digest.
     Some \<lparr>fn_accepted_commands = fe_accepted s, fn_policy_digest = yn_digest policy,
       fn_order_count = length (fe_orders s), fn_used_permit_count = length (fe_used_permits s),
       fn_handoff_count = length (fe_handoff_digests s), fn_reserved_cash = lr_cash_reserved view,
       fn_reserved_tokens = lr_reserved_tokens view, fn_halted = (fe_halted s \<noteq> None),
       fn_halt_reason = fe_halted s, fn_digest = digest\<rparr>)))"

end
