(* ===== verification/Paired_Settlement.thy ===== *)
theory Paired_Settlement
  imports Paired_Execution
begin

text \<open>
  The paired settlement runtime of \<open>crates/paired-settlement-runtime/src/lib.rs\<close>: one writer over the
  paired execution and the reconciler. Hand-offs are registered with the reconciler, confirmed trades are
  posted to the ledger below the staging, complete pairs are locked, and the capital a finished pair leaves
  over is released. This theory holds the data and the operations; \<open>Paired_Settlement_Theorems\<close> what they
  guarantee.
\<close>

section \<open>Data\<close>

type_synonym settle_command_id = bytes32

record registered_handoff =
  rh_stage_id :: pair_stage_id
  rh_leg_index :: nat
  rh_handoff_index :: nat
  rh_handoff_digest :: bytes32
  rh_intent :: trade_intent
  rh_posted :: bool

datatype settle_command =
    StExecution settle_command_id pairexec_command int
  | StRegister settle_command_id pair_stage_id nat nat int
  | StObserve settle_command_id trade_observation int
  | StPost settle_command_id command_id int
  | StReconcile settle_command_id chain_snapshot int int
  | StLockPair settle_command_id pair_stage_id lock_id int int
  | StFinalize settle_command_id pair_stage_id int

fun settle_command_id :: "settle_command \<Rightarrow> settle_command_id" where
  "settle_command_id (StExecution i _ _) = i"
| "settle_command_id (StRegister i _ _ _ _) = i"
| "settle_command_id (StObserve i _ _) = i"
| "settle_command_id (StPost i _ _) = i"
| "settle_command_id (StReconcile i _ _ _) = i"
| "settle_command_id (StLockPair i _ _ _ _) = i"
| "settle_command_id (StFinalize i _ _) = i"

fun settle_recorded_at :: "settle_command \<Rightarrow> int" where
  "settle_recorded_at (StExecution _ _ t) = t"
| "settle_recorded_at (StRegister _ _ _ _ t) = t"
| "settle_recorded_at (StObserve _ _ t) = t"
| "settle_recorded_at (StPost _ _ t) = t"
| "settle_recorded_at (StReconcile _ _ _ t) = t"
| "settle_recorded_at (StLockPair _ _ _ _ t) = t"
| "settle_recorded_at (StFinalize _ _ t) = t"

datatype settle_stage =
  ExecutionPart | HandoffPart | SettlementPart | AccountingPart | ReconciliationPart | PairLockPart | FinalizationPart

datatype settle_detail =
    SettledExecution pairexec_decision
  | SettledHandoff
  | SettledTrade trade_status
  | SettledPosting
  | SettledReconciled
  | SettledPending
  | SettledLock
  | SettledFinal

record settle_outcome =
  zo_command_id :: settle_command_id
  zo_stage :: settle_stage
  zo_detail :: settle_detail
  zo_digest :: bytes32

datatype settle_error =
    ZConfig
  | ZTimestamp
  | ZCommandBound
  | ZJson string
  | ZVersion int
  | ZIdempotencyConflict
  | ZBoundary
  | ZHandoff
  | ZConfirmation
  | ZReconciliationNotCurrent
  | ZUnsafeFinalization
  | ZPairLock
  | ZExecution string
  | ZReconciliation string
  | ZAccounting string
  | ZOverflow
  | ZHalted string
  | ZPanic

fun settle_error_text :: "settle_error \<Rightarrow> string" where
  "settle_error_text ZConfig = ''paired settlement configuration is invalid''"
| "settle_error_text ZTimestamp = ''paired settlement timestamp is invalid or regressed''"
| "settle_error_text ZCommandBound = ''paired settlement command exceeds its canonical bound''"
| "settle_error_text (ZJson e) = ''paired settlement command JSON is invalid: '' @ e"
| "settle_error_text (ZVersion v) = ''unsupported paired settlement command version: '' @ show_nat (nat v)"
| "settle_error_text ZIdempotencyConflict = ''paired settlement command id was reused for different content''"
| "settle_error_text ZBoundary = ''execution, handoff, stage, or ledger provenance was substituted''"
| "settle_error_text ZHandoff = ''handoff is missing, changed, duplicated, or not terminal''"
| "settle_error_text ZConfirmation = ''trade is not confirmed or was already posted''"
| "settle_error_text ZReconciliationNotCurrent = ''authoritative reconciliation is not current''"
| "settle_error_text ZUnsafeFinalization = ''paired reservations cannot yet be finalized''"
| "settle_error_text ZPairLock = ''complete-pair lock is invalid''"
| "settle_error_text (ZExecution e) = ''execution child failed: '' @ e"
| "settle_error_text (ZReconciliation e) = ''reconciliation child failed: '' @ e"
| "settle_error_text (ZAccounting e) = ''accounting child failed: '' @ e"
| "settle_error_text ZOverflow = ''paired settlement arithmetic overflow''"
| "settle_error_text (ZHalted reason) = ''paired settlement runtime is halted: '' @ reason"
| "settle_error_text ZPanic = ''''"

record settle =
  ze_config :: recon_config
  ze_execution :: pairexec
  ze_reconciler :: reconciler
  ze_handoffs :: "(command_id, registered_handoff) btree"
  ze_handoff_digests :: "bytes32 btset"
  ze_finalized :: "pair_stage_id btset"
  ze_locked :: "(pair_stage_id, lock_id) btree"
  ze_processed :: "(settle_command_id, bytes32 \<times> settle_outcome) btree"
  ze_accepted :: int
  ze_last_recorded_at :: "int option"
  ze_halted :: "string option"

definition settle_new :: "recon_config \<Rightarrow> settle_error + settle" where
  "settle_new config =
     (case reconciler_new config of
        Inl _ \<Rightarrow> Inl ZConfig
      | Inr reconciler \<Rightarrow> Inr \<lparr>ze_config = config, ze_execution = pairexec_default, ze_reconciler = reconciler,
          ze_handoffs = [], ze_handoff_digests = [], ze_finalized = [], ze_locked = [], ze_processed = [],
          ze_accepted = 0, ze_last_recorded_at = None, ze_halted = None\<rparr>)"

text \<open>\<open>serde_json\<close> on the types that are hashed; \<open>blake3\<close> is the one of the execution.\<close>

record settle_codec =
  zc_to_vec :: "settle_command wire \<Rightarrow> string + string"
  zc_recon_to_vec :: "recon_command wire \<Rightarrow> string + string"
  zc_recon_json :: recon_json
  zc_outcome_json :: "settle_outcome \<Rightarrow> string"
  zc_execution :: pairexec_codec

abbreviation zc_blake3 :: "settle_codec \<Rightarrow> string \<Rightarrow> bytes32" where
  "zc_blake3 cx \<equiv> fc_blake3 (zc_execution cx)"

abbreviation zc_recon_digest :: "settle_codec \<Rightarrow> reconciler \<Rightarrow> bytes32" where
  "zc_recon_digest cx \<equiv> recon_state_digest (zc_recon_json cx) (zc_blake3 cx)"

section \<open>Digests and derived ids\<close>

definition settle_answer :: "settle_command_id \<Rightarrow> settle_stage \<Rightarrow> settle_detail \<Rightarrow> settle_outcome" where
  "settle_answer i stage detail = \<lparr>zo_command_id = i, zo_stage = stage, zo_detail = detail, zo_digest = 0\<rparr>"

definition settle_outcome_digest :: "settle_codec \<Rightarrow> settle_outcome \<Rightarrow> bytes32" where
  "settle_outcome_digest cx v = zc_blake3 cx (zc_outcome_json cx (v\<lparr>zo_digest := 0\<rparr>))"

definition settle_handoff_digest :: "settle_codec \<Rightarrow> handoff \<Rightarrow> settle_error + bytes32" where
  "settle_handoff_digest cx h =
     (case fc_handoff_json (zc_execution cx) h of Inl e \<Rightarrow> Inl (ZJson e) | Inr bytes \<Rightarrow> Inr (zc_blake3 cx bytes))"

definition derived_reconciliation_id :: "settle_codec \<Rightarrow> settle_command_id \<Rightarrow> string \<Rightarrow> recon_command_id" where
  "derived_reconciliation_id cx i domain =
     zc_blake3 cx (''paired-settlement-reconciliation-v1'' @ domain @ bytes_of_id i)"

definition derived_posting_id :: "settle_codec \<Rightarrow> settle_command_id \<Rightarrow> string \<Rightarrow> nat \<Rightarrow> command_id" where
  "derived_posting_id cx i domain index =
     zc_blake3 cx (''paired-settlement-ledger-v1'' @ domain @ bytes_of_id i @ le_bytes 8 (int index))"

section \<open>Views\<close>

abbreviation settle_staging :: "settle \<Rightarrow> staging" where
  "settle_staging s \<equiv> ye_staging (fe_policy (ze_execution s))"

definition settle_ledger_view :: "settle_codec \<Rightarrow> settle \<Rightarrow> reconciliation_view option" where
  "settle_ledger_view cx s =
     pairexec_reconciliation_view (zc_execution cx) (bs_of_list (map fst (ze_handoffs s))) (ze_execution s)"

definition reconciliation_is_current :: "settle_codec \<Rightarrow> settle \<Rightarrow> settle_error + bool" where
  "reconciliation_is_current cx s =
     (let snap = recon_snapshot (zc_recon_digest cx) (ze_reconciler s) in
      if \<not> rs_ready snap then Inr False
      else rbind (ok_or (settle_ledger_view cx s) ZPanic) (\<lambda>view.
        Inr (rs_ledger_digest snap = Some (rv_ledger_digest view))))"

definition settle_batch :: "settle_codec \<Rightarrow> ledger_command list \<Rightarrow> settle \<Rightarrow> settle_error + settle" where
  "settle_batch cx cs s =
     (case pairexec_settlement_batch (zc_execution cx) cs (ze_execution s) of
        Inl e \<Rightarrow> Inl (ZAccounting (pairexec_error_text e))
      | Inr x \<Rightarrow> Inr (s\<lparr>ze_execution := x\<rparr>))"

definition settle_recon :: "settle_codec \<Rightarrow> recon_command \<Rightarrow> settle \<Rightarrow> settle_error + settle" where
  "settle_recon cx c s =
     (case recon_apply (zc_recon_to_vec cx) (zc_blake3 cx) c (ze_reconciler s) of
        (Inl e, _) \<Rightarrow> Inl (ZReconciliation (recon_error_text e))
      | (Inr _, r) \<Rightarrow> Inr (s\<lparr>ze_reconciler := r\<rparr>))"

section \<open>Operations\<close>

type_synonym settle_result = "settle_error + settle_outcome \<times> settle"

text \<open>A new pair is staged only on reconciled books, against the gate and the ledger of this runtime.\<close>

fun staged_frame :: "pairexec_command \<Rightarrow> pair_frame option" where
  "staged_frame (PxPolicy _ (PolStage _ c _) _) = Some (pair_frame_of c)"
| "staged_frame _ = None"

definition execution_frame_ok :: "settle_codec \<Rightarrow> pairexec_command \<Rightarrow> settle \<Rightarrow> settle_error + unit" where
  "execution_frame_ok cx c s =
     (case staged_frame c of
        None \<Rightarrow> Inr ()
      | Some frame \<Rightarrow>
          rbind (reconciliation_is_current cx s) (\<lambda>current.
          if \<not> current \<or> pf_reconciliation frame \<noteq> recon_risk_gate (zc_recon_digest cx) (ze_reconciler s)
          then Inl ZBoundary
          else rbind (ok_or (pairexec_risk_view (zc_execution cx) (ze_execution s)) ZPanic) (\<lambda>view.
            if pf_ledger frame \<noteq> view then Inl ZBoundary else Inr ())))"

definition settle_execution ::
  "settle_codec \<Rightarrow> settle_command_id \<Rightarrow> pairexec_command \<Rightarrow> int \<Rightarrow> settle \<Rightarrow> settle_result" where
  "settle_execution cx i c at s =
     (if pairexec_recorded_at c \<noteq> at then Inl ZBoundary
      else rbind (execution_frame_ok cx c s) (\<lambda>_.
        case pairexec_apply (zc_execution cx) c (ze_execution s) of
          (Inl e, _) \<Rightarrow> Inl (if e = FPanic then ZPanic else ZExecution (pairexec_error_text e))
        | (Inr d, x) \<Rightarrow> Inr (settle_answer i ExecutionPart (SettledExecution d), s\<lparr>ze_execution := x\<rparr>)))"

definition settle_handoff_of :: "settle \<Rightarrow> pair_stage_id \<Rightarrow> nat \<Rightarrow> nat \<Rightarrow> handoff option" where
  "settle_handoff_of s stage leg index =
     Option.bind (pairexec_order (ze_execution s) stage leg) (\<lambda>order.
       if index < length (xo_handoffs order) then Some (xo_handoffs order ! index) else None)"

definition settle_register ::
  "settle_codec \<Rightarrow> settle_command_id \<Rightarrow> pair_stage_id \<Rightarrow> nat \<Rightarrow> nat \<Rightarrow> int \<Rightarrow> settle \<Rightarrow> settle_result" where
  "settle_register cx i stage leg index at s =
     rbind (ok_or (settle_handoff_of s stage leg index) ZHandoff) (\<lambda>h.
     rbind (settle_handoff_digest cx h) (\<lambda>digest.
     if bt_contains (ze_handoffs s) (ti_ledger_command_id (hf_intent h)) \<or> bs_mem digest (ze_handoff_digests s)
     then Inl ZHandoff
     else
       rbind (settle_recon cx (RegisterIntent digest (hf_intent h) at)
         (s\<lparr>ze_handoff_digests := bs_insert digest (ze_handoff_digests s)\<rparr>)) (\<lambda>s'.
       Inr (settle_answer i HandoffPart SettledHandoff,
         s'\<lparr>ze_handoffs := bt_insert (ti_ledger_command_id (hf_intent h))
           \<lparr>rh_stage_id = stage, rh_leg_index = leg, rh_handoff_index = index, rh_handoff_digest = digest,
            rh_intent = hf_intent h, rh_posted = False\<rparr> (ze_handoffs s')\<rparr>))))"

definition settle_observe :: "settle_codec \<Rightarrow> settle_command_id \<Rightarrow> trade_observation \<Rightarrow> int \<Rightarrow> settle \<Rightarrow> settle_result" where
  "settle_observe cx i v at s =
     (if at < to_updated_at v
         \<or> \<not> list_ex (\<lambda>e. ti_trade_id (rh_intent (snd e)) = to_trade_id v) (ze_handoffs s)
      then Inl ZBoundary
      else rbind (settle_recon cx (ObserveTrade (derived_reconciliation_id cx i ''observe'') v at) s) (\<lambda>s'.
        Inr (settle_answer i SettlementPart (SettledTrade (to_status v)), s')))"

text \<open>The posting of a confirmed fill.\<close>

fun posting_command :: "trade_intent \<Rightarrow> reservation_id \<Rightarrow> string \<Rightarrow> int \<Rightarrow> ledger_command" where
  "posting_command intent reservation confirmation at =
     (case ti_side intent of
        Buy \<Rightarrow> ConfirmBuy (ti_ledger_command_id intent) reservation (ti_token intent) (ti_quantity intent)
          (ti_consideration intent) (ti_fee intent) confirmation at
      | Sell \<Rightarrow> ConfirmSell (ti_ledger_command_id intent) reservation (ti_quantity intent)
          (ti_consideration intent) (ti_fee intent) confirmation at)"

definition confirmed_hash :: "trade_observation \<Rightarrow> settle_error + string" where
  "confirmed_hash trade =
     (if to_status trade \<noteq> Confirmed then Inl ZConfirmation
      else case to_transaction_hash trade of
        None \<Rightarrow> Inl ZConfirmation
      | Some v \<Rightarrow> if v = [] \<or> 512 < int (length v) then Inl ZConfirmation else Inr v)"

definition settle_post :: "settle_codec \<Rightarrow> settle_command_id \<Rightarrow> command_id \<Rightarrow> int \<Rightarrow> settle \<Rightarrow> settle_result" where
  "settle_post cx i ledger_id at s =
     rbind (ok_or (bt_get (ze_handoffs s) ledger_id) ZHandoff) (\<lambda>r.
     if rh_posted r then Inl ZConfirmation
     else
       rbind (ok_or (recon_trade (ze_reconciler s) (ti_trade_id (rh_intent r))) ZConfirmation) (\<lambda>trade.
       rbind (confirmed_hash trade) (\<lambda>confirmation.
       rbind (ok_or (pairexec_order (ze_execution s) (rh_stage_id r) (rh_leg_index r)) ZBoundary) (\<lambda>order.
       if map_option hf_intent (settle_handoff_of s (rh_stage_id r) (rh_leg_index r) (rh_handoff_index r))
          \<noteq> Some (rh_intent r)
       then Inl ZHandoff
       else
         rbind (settle_batch cx
           [posting_command (rh_intent r) (pm_reservation_id (xo_permit order)) confirmation at] s) (\<lambda>s'.
         Inr (settle_answer i AccountingPart SettledPosting,
           s'\<lparr>ze_handoffs := bt_insert ledger_id (r\<lparr>rh_posted := True\<rparr>) (ze_handoffs s')\<rparr>))))))"

definition settle_reconcile ::
  "settle_codec \<Rightarrow> settle_command_id \<Rightarrow> chain_snapshot \<Rightarrow> int \<Rightarrow> int \<Rightarrow> settle \<Rightarrow> settle_result" where
  "settle_reconcile cx i chain evaluated_at at s =
     (if at < evaluated_at then Inl ZTimestamp
      else
        rbind (ok_or (settle_ledger_view cx s) ZPanic) (\<lambda>view.
        rbind (settle_recon cx (Reconcile (derived_reconciliation_id cx i ''frame'')
          \<lparr>fr_ledger = view, fr_chain = chain, fr_evaluated_at = evaluated_at\<rparr> at) s) (\<lambda>s'.
        Inr (settle_answer i ReconciliationPart
          (if rs_ready (recon_snapshot (zc_recon_digest cx) (ze_reconciler s')) then SettledReconciled
           else SettledPending), s'))))"

text \<open>What was posted of each leg of a stage.\<close>

definition add_posted :: "int \<times> int \<Rightarrow> registered_handoff \<Rightarrow> settle_error + int \<times> int" where
  "add_posted posted r =
     (if \<not> rh_posted r then Inr posted
      else if 1 < rh_leg_index r then Inl ZPairLock
      else rbind (ok_or (add128 (at_leg (rh_leg_index r) posted) (ti_quantity (rh_intent r))) ZOverflow) (\<lambda>n.
        Inr (set_leg (rh_leg_index r) n posted)))"

definition posted_quantities :: "settle \<Rightarrow> pair_stage_id \<Rightarrow> settle_error + int \<times> int" where
  "posted_quantities s stage =
     try_fold add_posted (0, 0) (filter (\<lambda>r. rh_stage_id r = stage) (map snd (ze_handoffs s)))"

definition lockable_pair :: "stage_record \<Rightarrow> bool" where
  "lockable_pair stage \<longleftrightarrow>
     (let (up, down) = sr_candidates stage in
      oe_side up = BuySide \<and> oe_side down = BuySide
      \<and> condition_id (oe_token up) = condition_id (oe_token down) \<and> oe_token up \<noteq> oe_token down)"

definition settle_lock_pair ::
  "settle_codec \<Rightarrow> settle_command_id \<Rightarrow> pair_stage_id \<Rightarrow> lock_id \<Rightarrow> int \<Rightarrow> int \<Rightarrow> settle \<Rightarrow> settle_result" where
  "settle_lock_pair cx i stage_id lock quantity at s =
     (if quantity \<le> 0 \<or> bt_contains (ze_locked s) stage_id then Inl ZPairLock
      else
        rbind (reconciliation_is_current cx s) (\<lambda>current.
        if \<not> current then Inl ZPairLock
        else
          rbind (ok_or (staging_stage (settle_staging s) stage_id) ZPairLock) (\<lambda>stage.
          if \<not> lockable_pair stage then Inl ZPairLock
          else
            rbind (posted_quantities s stage_id) (\<lambda>posted.
            if fst posted < quantity \<or> snd posted < quantity then Inl ZPairLock
            else
              rbind (settle_batch cx [LockPair (derived_posting_id cx i ''lock'' 0) lock
                (oe_token (fst (sr_candidates stage))) (oe_token (snd (sr_candidates stage))) quantity at] s) (\<lambda>s'.
              Inr (settle_answer i PairLockPart SettledLock,
                s'\<lparr>ze_locked := bt_insert stage_id lock (ze_locked s')\<rparr>))))))"

text \<open>Every fill of a leg is registered and settled, and posted exactly when it was confirmed.\<close>

definition handoff_settled :: "settle \<Rightarrow> handoff \<Rightarrow> settle_error + unit" where
  "handoff_settled s h =
     rbind (ok_or (bt_get (ze_handoffs s) (ti_ledger_command_id (hf_intent h))) ZUnsafeFinalization) (\<lambda>r.
     rbind (ok_or (recon_trade (ze_reconciler s) (ti_trade_id (rh_intent r))) ZUnsafeFinalization) (\<lambda>trade.
     if \<not> is_terminal (to_status trade) \<or> (to_status trade = Confirmed) \<noteq> rh_posted r
     then Inl ZUnsafeFinalization else Inr ()))"

definition leg_settled :: "settle \<Rightarrow> pair_stage_id \<Rightarrow> nat \<Rightarrow> settle_error + unit" where
  "leg_settled s stage leg =
     rbind (ok_or (pairexec_order (ze_execution s) stage leg) ZUnsafeFinalization) (\<lambda>order.
     if \<not> is_terminal_state (xo_state order) then Inl ZUnsafeFinalization
     else for_each (handoff_settled s) (xo_handoffs order))"

text \<open>The releases of the reservations that are still active, in the order of the legs.\<close>

fun collect_releases ::
  "settle_codec \<Rightarrow> settle_command_id \<Rightarrow> int \<Rightarrow> settle \<Rightarrow> nat \<Rightarrow> reservation_id list \<Rightarrow> settle_error + ledger_command list" where
  "collect_releases cx i at s index [] = Inr []"
| "collect_releases cx i at s index (reservation # rest) =
     rbind (ok_or (staging_reservation (settle_staging s) reservation) ZUnsafeFinalization) (\<lambda>r.
     rbind (collect_releases cx i at s (index + 1) rest) (\<lambda>releases.
     Inr (if res_status r = ReservationActive
       then ReleaseReservation (derived_posting_id cx i ''release'' index) reservation at # releases else releases)))"

definition reservation_closed :: "settle \<Rightarrow> reservation_id \<Rightarrow> settle_error + unit" where
  "reservation_closed s i =
     (case staging_reservation (settle_staging s) i of
        None \<Rightarrow> Inr ()
      | Some r \<Rightarrow> if res_status r = ReservationActive then Inl ZUnsafeFinalization else Inr ())"

definition settle_finalize :: "settle_codec \<Rightarrow> settle_command_id \<Rightarrow> pair_stage_id \<Rightarrow> int \<Rightarrow> settle \<Rightarrow> settle_result" where
  "settle_finalize cx i stage_id at s =
     (if bs_mem stage_id (ze_finalized s) then Inl ZReconciliationNotCurrent
      else
        rbind (reconciliation_is_current cx s) (\<lambda>current.
        if \<not> current then Inl ZReconciliationNotCurrent
        else
          rbind (ok_or (staging_stage (settle_staging s) stage_id) ZUnsafeFinalization) (\<lambda>stage.
          rbind (for_each (leg_settled s stage_id) [0, 1]) (\<lambda>_.
          let reservations = [fst (sr_reservation_ids stage), snd (sr_reservation_ids stage)] in
          rbind (collect_releases cx i at s 0 reservations) (\<lambda>releases.
          rbind (settle_batch cx releases s) (\<lambda>s'.
          rbind (for_each (reservation_closed s') reservations) (\<lambda>_.
          Inr (settle_answer i FinalizationPart SettledFinal,
            s'\<lparr>ze_finalized := bs_insert stage_id (ze_finalized s')\<rparr>))))))))"

fun settle_apply_fresh :: "settle_codec \<Rightarrow> settle_command \<Rightarrow> settle \<Rightarrow> settle_result" where
  "settle_apply_fresh cx (StExecution i c t) s = settle_execution cx i c t s"
| "settle_apply_fresh cx (StRegister i stage leg index t) s = settle_register cx i stage leg index t s"
| "settle_apply_fresh cx (StObserve i v t) s = settle_observe cx i v t s"
| "settle_apply_fresh cx (StPost i ledger_id t) s = settle_post cx i ledger_id t s"
| "settle_apply_fresh cx (StReconcile i chain evaluated_at t) s = settle_reconcile cx i chain evaluated_at t s"
| "settle_apply_fresh cx (StLockPair i stage lock quantity t) s = settle_lock_pair cx i stage lock quantity t s"
| "settle_apply_fresh cx (StFinalize i stage t) s = settle_finalize cx i stage t s"

definition settle_pair_lock :: "settle \<Rightarrow> lock_id \<Rightarrow> pair_lock option" where
  "settle_pair_lock s i = pairexec_pair_lock (ze_execution s) i"

section \<open>The engine\<close>

definition settle_encode_command :: "settle_codec \<Rightarrow> settle_command \<Rightarrow> settle_error + string" where
  "settle_encode_command cx c =
     (case zc_to_vec cx \<lparr>wire_version = 1, wire_command = c\<rparr> of
        Inl e \<Rightarrow> Inl (ZJson e)
      | Inr bytes \<Rightarrow> if 1048576 < int (length bytes) then Inl ZCommandBound else Inr bytes)"

definition settle_decode_command ::
  "(string \<Rightarrow> string + settle_command wire) \<Rightarrow> string \<Rightarrow> settle_error + settle_command" where
  "settle_decode_command from_slice bytes =
     (if 1048576 < int (length bytes) then Inl ZCommandBound
      else case from_slice bytes of
        Inl e \<Rightarrow> Inl (ZJson e)
      | Inr w \<Rightarrow> if wire_version w \<noteq> 1 then Inl (ZVersion (wire_version w)) else Inr (wire_command w))"

definition settle_content :: "settle_codec \<Rightarrow> settle_command \<Rightarrow> settle_error + bytes32" where
  "settle_content cx c = rbind (settle_encode_command cx c) (\<lambda>bytes. Inr (zc_blake3 cx bytes))"

definition settle_halt :: "settle_error \<Rightarrow> settle \<Rightarrow> settle" where
  "settle_halt e s = s\<lparr>ze_halted := Some (settle_error_text e)\<rparr>"

definition settle_record :: "settle_command \<Rightarrow> bytes32 \<Rightarrow> settle_outcome \<Rightarrow> int \<Rightarrow> settle \<Rightarrow> settle" where
  "settle_record c digest v n s = s\<lparr>ze_accepted := n, ze_last_recorded_at := Some (settle_recorded_at c),
     ze_processed := bt_insert (settle_command_id c) (digest, v) (ze_processed s)\<rparr>"

text \<open>An overflow of the command count is returned without halting.\<close>

definition settle_apply_new ::
  "settle_codec \<Rightarrow> settle_command \<Rightarrow> bytes32 \<Rightarrow> settle \<Rightarrow> (settle_error + settle_outcome) \<times> settle" where
  "settle_apply_new cx c digest s =
     (if (case ze_last_recorded_at s of None \<Rightarrow> False | Some p \<Rightarrow> settle_recorded_at c < p)
      then (Inl ZTimestamp, settle_halt ZTimestamp s)
      else case settle_apply_fresh cx c s of
        Inl e \<Rightarrow> if e = ZPanic then (Inl ZPanic, s) else (Inl e, settle_halt e s)
      | Inr (v, s1) \<Rightarrow>
          (case addu64 (ze_accepted s1) 1 of
             None \<Rightarrow> (Inl ZOverflow, s)
           | Some n \<Rightarrow>
               (let sealed = v\<lparr>zo_digest := settle_outcome_digest cx v\<rparr>
                in (Inr sealed, settle_record c digest sealed n s1))))"

definition settle_early :: "settle_command \<Rightarrow> settle_error option" where
  "settle_early c = (if settle_recorded_at c < 0 then Some ZTimestamp else None)"

definition settle_apply :: "settle_codec \<Rightarrow> settle_command \<Rightarrow> settle \<Rightarrow> (settle_error + settle_outcome) \<times> settle" where
  "settle_apply cx c s =
     (case ze_halted s of
        Some reason \<Rightarrow> (Inl (ZHalted reason), s)
      | None \<Rightarrow>
          (case settle_early c of
             Some e \<Rightarrow> (Inl e, settle_halt e s)
           | None \<Rightarrow>
               (case settle_content cx c of
                  Inl e \<Rightarrow> (Inl e, s)
                | Inr content \<Rightarrow>
                    (case bt_get (ze_processed s) (settle_command_id c) of
                       Some (existing, v) \<Rightarrow>
                         if existing = content then (Inr v, s)
                         else (Inl ZIdempotencyConflict, settle_halt ZIdempotencyConflict s)
                     | None \<Rightarrow> settle_apply_new cx c content s))))"

section \<open>The digest and the snapshot\<close>

record settle_json =
  zj_text :: "string \<Rightarrow> string"
  zj_number :: "int \<Rightarrow> string"
  zj_handoff :: "registered_handoff \<Rightarrow> string"
  zj_digests :: "bytes32 btset \<Rightarrow> string"
  zj_stages :: "pair_stage_id btset \<Rightarrow> string"
  zj_outcome :: "settle_outcome \<Rightarrow> string"
  zj_time :: "int option \<Rightarrow> string"
  zj_halted :: "string option \<Rightarrow> string"
  zj_execution :: pairexec_json

definition settle_state_digest :: "settle_codec \<Rightarrow> settle_json \<Rightarrow> settle \<Rightarrow> bytes32 option" where
  "settle_state_digest cx js s =
     Option.bind (pairexec_snapshot (zc_execution cx) (zj_execution js) (ze_execution s)) (\<lambda>execution.
     Some (zc_blake3 cx
       (''paired-settlement-runtime-state-v1''
        @ prefixed (zj_number js (cf_chain_id (ze_config s)))
        @ prefixed (zj_text js (cf_wallet (ze_config s)))
        @ prefixed (zj_number js (cf_confirmation_grace (ze_config s)))
        @ prefixed (zj_number js (cf_max_intents (ze_config s)))
        @ prefixed (zj_number js (cf_max_tokens (ze_config s)))
        @ bytes_of_id (fn_digest execution)
        @ bytes_of_id (rs_digest (recon_snapshot (zc_recon_digest cx) (ze_reconciler s)))
        @ concat (map (\<lambda>(i, r). bytes_of_id i @ prefixed (zj_handoff js r)) (ze_handoffs s))
        @ prefixed (zj_digests js (ze_handoff_digests s))
        @ prefixed (zj_stages js (ze_finalized s))
        @ concat (map (\<lambda>(stage, lock). bytes_of_id stage @ bytes_of_id lock) (ze_locked s))
        @ concat (map (\<lambda>(i, content, v). bytes_of_id i @ bytes_of_id content @ prefixed (zj_outcome js v))
            (ze_processed s))
        @ prefixed (zj_number js (ze_accepted s))
        @ prefixed (zj_time js (ze_last_recorded_at s))
        @ prefixed (zj_halted js (ze_halted s)))))"

record settle_snapshot =
  zn_accepted_commands :: int
  zn_execution_digest :: bytes32
  zn_reconciliation_digest :: bytes32
  zn_registered_handoffs :: nat
  zn_posted_handoffs :: nat
  zn_finalized_stages :: nat
  zn_locked_stages :: nat
  zn_reconciliation_current :: bool
  zn_halted :: bool
  zn_halt_reason :: "string option"
  zn_digest :: bytes32

definition settle_snapshot :: "settle_codec \<Rightarrow> settle_json \<Rightarrow> settle \<Rightarrow> settle_snapshot option" where
  "settle_snapshot cx js s =
     Option.bind (pairexec_snapshot (zc_execution cx) (zj_execution js) (ze_execution s)) (\<lambda>execution.
     case reconciliation_is_current cx s of
       Inl _ \<Rightarrow> None
     | Inr current \<Rightarrow>
         Option.bind (settle_state_digest cx js s) (\<lambda>digest.
         Some \<lparr>zn_accepted_commands = ze_accepted s, zn_execution_digest = fn_digest execution,
           zn_reconciliation_digest = rs_digest (recon_snapshot (zc_recon_digest cx) (ze_reconciler s)),
           zn_registered_handoffs = length (ze_handoffs s),
           zn_posted_handoffs = length (filter rh_posted (map snd (ze_handoffs s))),
           zn_finalized_stages = length (ze_finalized s), zn_locked_stages = length (ze_locked s),
           zn_reconciliation_current = current, zn_halted = (ze_halted s \<noteq> None),
           zn_halt_reason = ze_halted s, zn_digest = digest\<rparr>))"

end
