(* ===== verification/Ctf_Runtime.thy ===== *)
theory Ctf_Runtime
  imports Paired_Settlement
begin

text \<open>
  The conditional-token transaction runtime of \<open>crates/ctf-transaction-runtime/src/lib.rs\<close>: one writer over
  the paired settlement that simulates the transactions on the chain. A split, a merge or a redemption is
  requested (which reserves or locks what it will use), followed through its life, and posted to the ledger
  when it is confirmed. This theory holds the data and the operations; \<open>Ctf_Theorems\<close> what they guarantee.
\<close>

section \<open>Data\<close>

type_synonym ctf_command_id = bytes32
type_synonym conversion_id = bytes32

datatype conversion_request =
    ConvertSplit token_key token_key int
  | ConvertMerge lock_id token_key token_key int
  | ConvertRedemption token_key int int bytes32

datatype conversion_state =
    ConvRequested
  | ConvPending
  | ConvRetrying string
  | ConvConfirmed string
  | ConvFailed string

fun conv_terminal :: "conversion_state \<Rightarrow> bool" where
  "conv_terminal (ConvConfirmed _) = True"
| "conv_terminal (ConvFailed _) = True"
| "conv_terminal _ = False"

datatype conversion_event =
    EvtPending string
  | EvtRetrying string
  | EvtConfirmed string
  | EvtFailed string

record conversion_observation =
  co_conversion_id :: conversion_id
  co_source_sequence :: int
  co_event :: conversion_event
  co_event_time :: int
  co_received_time :: int

record conversion =
  cv_conversion_id :: conversion_id
  cv_request :: conversion_request
  cv_reservation_id :: "reservation_id option"
  cv_state :: conversion_state
  cv_external_id :: "string option"
  cv_last_source_sequence :: "int option"
  cv_last_event_time :: "int option"
  cv_last_received_time :: "int option"
  cv_accounting_posted :: bool
  cv_requested_at :: int
  cv_record_digest :: bytes32

datatype ctf_command =
    CtfParent ctf_command_id settle_command int
  | CtfRequest ctf_command_id conversion_id conversion_request int
  | CtfObserve ctf_command_id conversion_observation int

fun ctf_command_id :: "ctf_command \<Rightarrow> ctf_command_id" where
  "ctf_command_id (CtfParent i _ _) = i"
| "ctf_command_id (CtfRequest i _ _ _) = i"
| "ctf_command_id (CtfObserve i _ _) = i"

fun ctf_recorded_at :: "ctf_command \<Rightarrow> int" where
  "ctf_recorded_at (CtfParent _ _ t) = t"
| "ctf_recorded_at (CtfRequest _ _ _ t) = t"
| "ctf_recorded_at (CtfObserve _ _ t) = t"

datatype ctf_stage = CtfParentStage | CtfRequestStage | CtfLifecycleStage | CtfAccountingStage

datatype ctf_detail =
    CtfParentDone settle_outcome
  | CtfRequested
  | CtfPending
  | CtfRetrying
  | CtfConfirmed
  | CtfFailed
  | CtfDuplicateSubmission
  | CtfDuplicateTerminal

record ctf_outcome =
  vo_command_id :: ctf_command_id
  vo_conversion_id :: "conversion_id option"
  vo_stage :: ctf_stage
  vo_detail :: ctf_detail
  vo_digest :: bytes32

datatype ctf_error =
    VConfig
  | VTimestamp
  | VCommandBound
  | VJson string
  | VVersion int
  | VIdempotencyConflict
  | VIdentity
  | VRequest
  | VLifecycle
  | VExternalIdentity
  | VSourceHistory
  | VAccounting string
  | VParent string
  | VOverflow
  | VHalted string
  | VPanic

fun ctf_error_text :: "ctf_error \<Rightarrow> string" where
  "ctf_error_text VConfig = ''CTF runtime configuration is invalid''"
| "ctf_error_text VTimestamp = ''CTF command timestamp is invalid or regressed''"
| "ctf_error_text VCommandBound = ''CTF command exceeds its canonical bound''"
| "ctf_error_text (VJson e) = ''CTF command JSON is invalid: '' @ e"
| "ctf_error_text (VVersion v) = ''unsupported CTF command version: '' @ show_nat (nat v)"
| "ctf_error_text VIdempotencyConflict = ''CTF command id was reused for different content''"
| "ctf_error_text VIdentity = ''conversion identity already exists or was substituted''"
| "ctf_error_text VRequest = ''conversion request is invalid or lacks reconciled backing''"
| "ctf_error_text VLifecycle = ''conversion lifecycle transition is invalid''"
| "ctf_error_text VExternalIdentity = ''external transaction identity was reused or changed''"
| "ctf_error_text VSourceHistory = ''conversion source history regressed or equivocated''"
| "ctf_error_text (VAccounting e) = ''conversion accounting failed: '' @ e"
| "ctf_error_text (VParent e) = ''paired settlement child failed: '' @ e"
| "ctf_error_text VOverflow = ''CTF arithmetic or counter overflow''"
| "ctf_error_text (VHalted reason) = ''CTF runtime is halted: '' @ reason"
| "ctf_error_text VPanic = ''''"

record ctf =
  ve_config :: recon_config
  ve_parent :: settle
  ve_records :: "(conversion_id, conversion) btree"
  ve_external_ids :: "(string, conversion_id) btree"
  ve_processed :: "(ctf_command_id, bytes32 \<times> ctf_outcome) btree"
  ve_accepted :: int
  ve_last_recorded_at :: "int option"
  ve_halted :: "string option"

definition ctf_new :: "recon_config \<Rightarrow> ctf_error + ctf" where
  "ctf_new config =
     (case settle_new config of
        Inl _ \<Rightarrow> Inl VConfig
      | Inr parent \<Rightarrow> Inr \<lparr>ve_config = config, ve_parent = parent, ve_records = [], ve_external_ids = [],
          ve_processed = [], ve_accepted = 0, ve_last_recorded_at = None, ve_halted = None\<rparr>)"

text \<open>\<open>serde_json\<close> on the types that are hashed; \<open>blake3\<close> is the one of the settlement.\<close>

record ctf_codec =
  vc_to_vec :: "ctf_command wire \<Rightarrow> string + string"
  vc_record_json :: "conversion \<Rightarrow> string"
  vc_outcome_json :: "ctf_outcome \<Rightarrow> string"
  vc_parent :: settle_codec

abbreviation vc_blake3 :: "ctf_codec \<Rightarrow> string \<Rightarrow> bytes32" where
  "vc_blake3 cx \<equiv> zc_blake3 (vc_parent cx)"

section \<open>Digests and derived ids\<close>

definition derived_reservation_id :: "ctf_codec \<Rightarrow> conversion_id \<Rightarrow> reservation_id" where
  "derived_reservation_id cx i = vc_blake3 cx (''ctf-conversion-reservation-v1'' @ bytes_of_id i)"

definition conversion_ledger_id :: "ctf_codec \<Rightarrow> conversion_id \<Rightarrow> string \<Rightarrow> command_id" where
  "conversion_ledger_id cx i domain = vc_blake3 cx (''ctf-conversion-ledger-v1'' @ domain @ bytes_of_id i)"

definition conversion_digest :: "ctf_codec \<Rightarrow> conversion \<Rightarrow> bytes32" where
  "conversion_digest cx r = vc_blake3 cx (vc_record_json cx (r\<lparr>cv_record_digest := 0\<rparr>))"

definition conversion_verify_digest :: "ctf_codec \<Rightarrow> conversion \<Rightarrow> bool" where
  "conversion_verify_digest cx r = (cv_record_digest r = conversion_digest cx r)"

definition seal_conversion :: "ctf_codec \<Rightarrow> conversion \<Rightarrow> conversion" where
  "seal_conversion cx r =
     (let cleared = r\<lparr>cv_record_digest := 0\<rparr> in cleared\<lparr>cv_record_digest := conversion_digest cx cleared\<rparr>)"

definition ctf_answer :: "ctf_command_id \<Rightarrow> conversion_id option \<Rightarrow> ctf_stage \<Rightarrow> ctf_detail \<Rightarrow> ctf_outcome" where
  "ctf_answer i conversion stage detail =
     \<lparr>vo_command_id = i, vo_conversion_id = conversion, vo_stage = stage, vo_detail = detail, vo_digest = 0\<rparr>"

definition ctf_outcome_digest :: "ctf_codec \<Rightarrow> ctf_outcome \<Rightarrow> bytes32" where
  "ctf_outcome_digest cx v = vc_blake3 cx (vc_outcome_json cx (v\<lparr>vo_digest := 0\<rparr>))"

section \<open>Helpers\<close>

definition ctf_valid_token :: "token_key \<Rightarrow> bool" where
  "ctf_valid_token t \<longleftrightarrow> condition_id t \<noteq> [] \<and> length (condition_id t) \<le> 256
     \<and> token_id t \<noteq> [] \<and> length (token_id t) \<le> 256"

definition valid_pair :: "token_key \<Rightarrow> token_key \<Rightarrow> int \<Rightarrow> bool" where
  "valid_pair up down quantity \<longleftrightarrow> 0 < quantity \<and> up \<noteq> down \<and> condition_id up = condition_id down
     \<and> ctf_valid_token up \<and> ctf_valid_token down"

fun valid_request :: "conversion_request \<Rightarrow> bool" where
  "valid_request (ConvertSplit up down quantity) = valid_pair up down quantity"
| "valid_request (ConvertMerge _ up down quantity) = valid_pair up down quantity"
| "valid_request (ConvertRedemption token quantity payout resolution) =
     (ctf_valid_token token \<and> 0 < quantity \<and> 0 \<le> payout \<and> payout \<le> quantity \<and> resolution \<noteq> 0)"

definition ctf_validate_text :: "string \<Rightarrow> ctf_error + unit" where
  "ctf_validate_text s = (if s = [] \<or> 512 < int (length s) then Inl VIdentity else Inr ())"

definition ctf_validate_observation :: "conversion_observation \<Rightarrow> int \<Rightarrow> ctf_error + unit" where
  "ctf_validate_observation v at =
     (if co_source_sequence v = 0 \<or> co_event_time v < 0 \<or> co_received_time v < co_event_time v
         \<or> at < co_received_time v
      then Inl VTimestamp else Inr ())"

definition validate_source :: "conversion \<Rightarrow> conversion_observation \<Rightarrow> ctf_error + unit" where
  "validate_source r v =
     (if (case cv_last_source_sequence r of None \<Rightarrow> False | Some p \<Rightarrow> co_source_sequence v \<le> p)
         \<or> (case cv_last_event_time r of None \<Rightarrow> False | Some p \<Rightarrow> co_event_time v < p)
         \<or> (case cv_last_received_time r of None \<Rightarrow> False | Some p \<Rightarrow> co_received_time v < p)
      then Inl VSourceHistory else Inr ())"

text \<open>The posting of a confirmed conversion.\<close>

fun confirmed_conversion :: "ctf_codec \<Rightarrow> conversion \<Rightarrow> string \<Rightarrow> int \<Rightarrow> ctf_error + ledger_command" where
  "confirmed_conversion cx r confirmation at =
     (let i = conversion_ledger_id cx (cv_conversion_id r) ''confirm'' in
      case cv_request r of
        ConvertSplit up down quantity \<Rightarrow>
          rbind (ok_or (cv_reservation_id r) VRequest) (\<lambda>reservation.
          Inr (ConfirmSplit i reservation up down quantity confirmation at))
      | ConvertMerge lock _ _ _ \<Rightarrow> Inr (ConfirmMerge i lock confirmation at)
      | ConvertRedemption _ quantity payout _ \<Rightarrow>
          rbind (ok_or (cv_reservation_id r) VRequest) (\<lambda>reservation.
          Inr (ConfirmRedemption i reservation quantity payout confirmation at)))"

fun duplicate_terminal :: "conversion_state \<Rightarrow> conversion_event \<Rightarrow> bool" where
  "duplicate_terminal (ConvConfirmed existing) (EvtConfirmed hash) = (existing = hash)"
| "duplicate_terminal (ConvFailed existing) (EvtFailed reason) = (existing = reason)"
| "duplicate_terminal _ _ = False"

definition ctf_batch :: "ctf_codec \<Rightarrow> ledger_command \<Rightarrow> ctf \<Rightarrow> ctf_error + ctf" where
  "ctf_batch cx c s =
     (case settle_batch (vc_parent cx) [c] (ve_parent s) of
        Inl e \<Rightarrow> Inl (VAccounting (settle_error_text e))
      | Inr p \<Rightarrow> Inr (s\<lparr>ve_parent := p\<rparr>))"

section \<open>Operations\<close>

type_synonym ctf_result = "ctf_error + ctf_outcome \<times> ctf"

definition ctf_apply_parent :: "ctf_codec \<Rightarrow> ctf_command_id \<Rightarrow> settle_command \<Rightarrow> int \<Rightarrow> ctf \<Rightarrow> ctf_result" where
  "ctf_apply_parent cx i c at s =
     (if settle_recorded_at c \<noteq> at then Inl VTimestamp
      else case settle_apply (vc_parent cx) c (ve_parent s) of
        (Inl e, _) \<Rightarrow> Inl (if e = ZPanic then VPanic else VParent (settle_error_text e))
      | (Inr v, p) \<Rightarrow> Inr (ctf_answer i None CtfParentStage (CtfParentDone v), s\<lparr>ve_parent := p\<rparr>))"

text \<open>A merge of the lock is under way.\<close>

fun merges_lock :: "lock_id \<Rightarrow> conversion \<Rightarrow> bool" where
  "merges_lock lock r =
     (\<not> conv_terminal (cv_state r)
      \<and> (case cv_request r of ConvertMerge existing _ _ _ \<Rightarrow> existing = lock | _ \<Rightarrow> False))"

text \<open>What a request reserves or locks.\<close>

fun back_request ::
  "ctf_codec \<Rightarrow> conversion_id \<Rightarrow> conversion_request \<Rightarrow> int \<Rightarrow> ctf \<Rightarrow> ctf_error + reservation_id option \<times> ctf" where
  "back_request cx i (ConvertSplit _ _ quantity) at s =
     (let reservation = derived_reservation_id cx i in
      rbind (ctf_batch cx (ReserveCollateral (conversion_ledger_id cx i ''reserve'') reservation quantity at) s) (\<lambda>s'.
      Inr (Some reservation, s')))"
| "back_request cx i (ConvertRedemption token quantity _ _) at s =
     (let reservation = derived_reservation_id cx i in
      rbind (ctf_batch cx (ReserveToken (conversion_ledger_id cx i ''reserve'') reservation token quantity at) s) (\<lambda>s'.
      Inr (Some reservation, s')))"
| "back_request cx i (ConvertMerge lock up down quantity) at s =
     (if list_ex (\<lambda>e. merges_lock lock (snd e)) (ve_records s) then Inl VRequest
      else case settle_pair_lock (ve_parent s) lock of
        Some k \<Rightarrow>
          if lk_status k \<noteq> LockActive \<or> lk_up k \<noteq> up \<or> lk_down k \<noteq> down \<or> lk_quantity k \<noteq> quantity
          then Inl VRequest else Inr (None, s)
      | None \<Rightarrow>
          rbind (ctf_batch cx (LockPair (conversion_ledger_id cx i ''lock'') lock up down quantity at) s) (\<lambda>s'.
          Inr (None, s')))"

definition ctf_request ::
  "ctf_codec \<Rightarrow> ctf_command_id \<Rightarrow> conversion_id \<Rightarrow> conversion_request \<Rightarrow> int \<Rightarrow> ctf \<Rightarrow> ctf_result" where
  "ctf_request cx i conversion q at s =
     (if bt_contains (ve_records s) conversion then Inl VIdentity
      else
        rbind (case reconciliation_is_current (vc_parent cx) (ve_parent s) of Inl _ \<Rightarrow> Inl VPanic | Inr b \<Rightarrow> Inr b) (\<lambda>current.
        if \<not> current \<or> \<not> valid_request q then Inl VRequest
        else
          rbind (back_request cx conversion q at s) (\<lambda>(reservation, s').
          let r = \<lparr>cv_conversion_id = conversion, cv_request = q, cv_reservation_id = reservation,
                cv_state = ConvRequested, cv_external_id = None, cv_last_source_sequence = None,
                cv_last_event_time = None, cv_last_received_time = None, cv_accounting_posted = False,
                cv_requested_at = at, cv_record_digest = 0\<rparr> in
          Inr (ctf_answer i (Some conversion) CtfRequestStage CtfRequested,
            s'\<lparr>ve_records := bt_insert conversion (seal_conversion cx r) (ve_records s')\<rparr>))))"

text \<open>A conversion that was sent and is not finished.\<close>

fun conv_sent :: "conversion_state \<Rightarrow> bool" where
  "conv_sent ConvPending = True"
| "conv_sent (ConvRetrying _) = True"
| "conv_sent _ = False"

type_synonym ctf_transition = "conversion_state \<times> ctf_detail \<times> bool"

fun conversion_transition ::
  "ctf_codec \<Rightarrow> conversion \<Rightarrow> conversion_event \<Rightarrow> int \<Rightarrow> ctf \<Rightarrow> ctf_error + ctf_transition \<times> ctf" where
  "conversion_transition cx r event at s =
     (if duplicate_terminal (cv_state r) event
      then Inr ((cv_state r, CtfDuplicateTerminal, cv_accounting_posted r), s)
      else if conv_terminal (cv_state r) then Inl VLifecycle
      else case event of
        EvtPending external \<Rightarrow>
          rbind (ctf_validate_text external) (\<lambda>_.
          case cv_external_id r of
            Some existing \<Rightarrow>
              if existing \<noteq> external then Inl VExternalIdentity
              else Inr ((cv_state r, CtfDuplicateSubmission, cv_accounting_posted r), s)
          | None \<Rightarrow>
              if (case bt_get (ve_external_ids s) external of None \<Rightarrow> False | Some owner \<Rightarrow> owner \<noteq> cv_conversion_id r)
              then Inl VExternalIdentity
              else Inr ((ConvPending, CtfPending, False),
                s\<lparr>ve_external_ids := bt_insert external (cv_conversion_id r) (ve_external_ids s)\<rparr>))
      | EvtRetrying reason \<Rightarrow>
          rbind (ctf_validate_text reason) (\<lambda>_.
          if cv_external_id r = None \<or> \<not> conv_sent (cv_state r) then Inl VLifecycle
          else Inr ((ConvRetrying reason, CtfRetrying, False), s))
      | EvtConfirmed hash \<Rightarrow>
          rbind (ctf_validate_text hash) (\<lambda>_.
          if cv_external_id r = None \<or> \<not> conv_sent (cv_state r) then Inl VLifecycle
          else
            rbind (confirmed_conversion cx r hash at) (\<lambda>c.
            rbind (ctf_batch cx c s) (\<lambda>s'.
            Inr ((ConvConfirmed hash, CtfConfirmed, True), s'))))
      | EvtFailed reason \<Rightarrow>
          rbind (ctf_validate_text reason) (\<lambda>_.
          rbind (case cv_reservation_id r of
              None \<Rightarrow> Inr s
            | Some reservation \<Rightarrow>
                ctf_batch cx (ReleaseReservation (conversion_ledger_id cx (cv_conversion_id r) ''release'') reservation at) s) (\<lambda>s'.
          Inr ((ConvFailed reason, CtfFailed, False), s'))))"

definition observed_conversion ::
  "ctf_codec \<Rightarrow> conversion \<Rightarrow> conversion_observation \<Rightarrow> conversion_state \<Rightarrow> bool \<Rightarrow> conversion" where
  "observed_conversion cx r v state posted = seal_conversion cx
     (r\<lparr>cv_state := state, cv_last_source_sequence := Some (co_source_sequence v),
        cv_last_event_time := Some (co_event_time v), cv_last_received_time := Some (co_received_time v),
        cv_accounting_posted := posted,
        cv_external_id := (case co_event v of
          EvtPending external \<Rightarrow> (if cv_external_id r = None then Some external else cv_external_id r)
        | _ \<Rightarrow> cv_external_id r)\<rparr>)"

definition ctf_observe :: "ctf_codec \<Rightarrow> ctf_command_id \<Rightarrow> conversion_observation \<Rightarrow> int \<Rightarrow> ctf \<Rightarrow> ctf_result" where
  "ctf_observe cx i v at s =
     rbind (ctf_validate_observation v at) (\<lambda>_.
     rbind (ok_or (bt_get (ve_records s) (co_conversion_id v)) VIdentity) (\<lambda>current.
     rbind (validate_source current v) (\<lambda>_.
     rbind (conversion_transition cx current (co_event v) at s) (\<lambda>((state, detail, posted), s').
     Inr (ctf_answer i (Some (co_conversion_id v)) (if posted then CtfAccountingStage else CtfLifecycleStage) detail,
       s'\<lparr>ve_records := bt_insert (co_conversion_id v) (observed_conversion cx current v state posted) (ve_records s')\<rparr>)))))"

fun ctf_apply_fresh :: "ctf_codec \<Rightarrow> ctf_command \<Rightarrow> ctf \<Rightarrow> ctf_result" where
  "ctf_apply_fresh cx (CtfParent i c t) s = ctf_apply_parent cx i c t s"
| "ctf_apply_fresh cx (CtfRequest i conversion q t) s = ctf_request cx i conversion q t s"
| "ctf_apply_fresh cx (CtfObserve i v t) s = ctf_observe cx i v t s"

section \<open>The engine\<close>

definition ctf_encode_command :: "ctf_codec \<Rightarrow> ctf_command \<Rightarrow> ctf_error + string" where
  "ctf_encode_command cx c =
     (case vc_to_vec cx \<lparr>wire_version = 1, wire_command = c\<rparr> of
        Inl e \<Rightarrow> Inl (VJson e)
      | Inr bytes \<Rightarrow> if 1048576 < int (length bytes) then Inl VCommandBound else Inr bytes)"

definition ctf_decode_command :: "(string \<Rightarrow> string + ctf_command wire) \<Rightarrow> string \<Rightarrow> ctf_error + ctf_command" where
  "ctf_decode_command from_slice bytes =
     (if 1048576 < int (length bytes) then Inl VCommandBound
      else case from_slice bytes of
        Inl e \<Rightarrow> Inl (VJson e)
      | Inr w \<Rightarrow> if wire_version w \<noteq> 1 then Inl (VVersion (wire_version w)) else Inr (wire_command w))"

definition ctf_content :: "ctf_codec \<Rightarrow> ctf_command \<Rightarrow> ctf_error + bytes32" where
  "ctf_content cx c = rbind (ctf_encode_command cx c) (\<lambda>bytes. Inr (vc_blake3 cx bytes))"

definition ctf_halt :: "ctf_error \<Rightarrow> ctf \<Rightarrow> ctf" where
  "ctf_halt e s = s\<lparr>ve_halted := Some (ctf_error_text e)\<rparr>"

definition ctf_record :: "ctf_command \<Rightarrow> bytes32 \<Rightarrow> ctf_outcome \<Rightarrow> int \<Rightarrow> ctf \<Rightarrow> ctf" where
  "ctf_record c digest v n s = s\<lparr>ve_accepted := n, ve_last_recorded_at := Some (ctf_recorded_at c),
     ve_processed := bt_insert (ctf_command_id c) (digest, v) (ve_processed s)\<rparr>"

text \<open>An overflow of the command count is returned without halting.\<close>

definition ctf_apply_new :: "ctf_codec \<Rightarrow> ctf_command \<Rightarrow> bytes32 \<Rightarrow> ctf \<Rightarrow> (ctf_error + ctf_outcome) \<times> ctf" where
  "ctf_apply_new cx c digest s =
     (if (case ve_last_recorded_at s of None \<Rightarrow> False | Some p \<Rightarrow> ctf_recorded_at c < p)
      then (Inl VTimestamp, ctf_halt VTimestamp s)
      else case ctf_apply_fresh cx c s of
        Inl e \<Rightarrow> if e = VPanic then (Inl VPanic, s) else (Inl e, ctf_halt e s)
      | Inr (v, s1) \<Rightarrow>
          (case addu64 (ve_accepted s1) 1 of
             None \<Rightarrow> (Inl VOverflow, s)
           | Some n \<Rightarrow>
               (let sealed = v\<lparr>vo_digest := ctf_outcome_digest cx v\<rparr>
                in (Inr sealed, ctf_record c digest sealed n s1))))"

definition ctf_early :: "ctf_command \<Rightarrow> ctf_error option" where
  "ctf_early c = (if ctf_recorded_at c < 0 then Some VTimestamp else None)"

definition ctf_apply :: "ctf_codec \<Rightarrow> ctf_command \<Rightarrow> ctf \<Rightarrow> (ctf_error + ctf_outcome) \<times> ctf" where
  "ctf_apply cx c s =
     (case ve_halted s of
        Some reason \<Rightarrow> (Inl (VHalted reason), s)
      | None \<Rightarrow>
          (case ctf_early c of
             Some e \<Rightarrow> (Inl e, ctf_halt e s)
           | None \<Rightarrow>
               (case ctf_content cx c of
                  Inl e \<Rightarrow> (Inl e, s)
                | Inr content \<Rightarrow>
                    (case bt_get (ve_processed s) (ctf_command_id c) of
                       Some (existing, v) \<Rightarrow>
                         if existing = content then (Inr v, s)
                         else (Inl VIdempotencyConflict, ctf_halt VIdempotencyConflict s)
                     | None \<Rightarrow> ctf_apply_new cx c content s))))"

section \<open>The digest and the snapshot\<close>

definition ctf_conversion :: "ctf \<Rightarrow> conversion_id \<Rightarrow> conversion option" where
  "ctf_conversion s i = bt_get (ve_records s) i"

record ctf_json =
  vj_text :: "string \<Rightarrow> string"
  vj_number :: "int \<Rightarrow> string"
  vj_record :: "conversion \<Rightarrow> string"
  vj_outcome :: "ctf_outcome \<Rightarrow> string"
  vj_time :: "int option \<Rightarrow> string"
  vj_halted :: "string option \<Rightarrow> string"
  vj_parent :: settle_json

definition ctf_state_digest :: "ctf_codec \<Rightarrow> ctf_json \<Rightarrow> ctf \<Rightarrow> bytes32 option" where
  "ctf_state_digest cx js s =
     Option.bind (settle_snapshot (vc_parent cx) (vj_parent js) (ve_parent s)) (\<lambda>parent.
     Some (vc_blake3 cx
       (''ctf-transaction-runtime-state-v1''
        @ prefixed (vj_number js (cf_chain_id (ve_config s)))
        @ prefixed (vj_text js (cf_wallet (ve_config s)))
        @ prefixed (vj_number js (cf_confirmation_grace (ve_config s)))
        @ prefixed (vj_number js (cf_max_intents (ve_config s)))
        @ prefixed (vj_number js (cf_max_tokens (ve_config s)))
        @ bytes_of_id (zn_digest parent)
        @ concat (map (\<lambda>(i, r). bytes_of_id i @ prefixed (vj_record js r)) (ve_records s))
        @ concat (map (\<lambda>(external, owner). prefixed (vj_text js external) @ bytes_of_id owner) (ve_external_ids s))
        @ concat (map (\<lambda>(i, content, v). bytes_of_id i @ bytes_of_id content @ prefixed (vj_outcome js v))
            (ve_processed s))
        @ prefixed (vj_number js (ve_accepted s))
        @ prefixed (vj_time js (ve_last_recorded_at s))
        @ prefixed (vj_halted js (ve_halted s)))))"

record ctf_snapshot =
  vn_accepted_commands :: int
  vn_parent_digest :: bytes32
  vn_transaction_count :: nat
  vn_requested_count :: nat
  vn_pending_count :: nat
  vn_retrying_count :: nat
  vn_confirmed_count :: nat
  vn_failed_count :: nat
  vn_accounting_posted_count :: nat
  vn_halted :: bool
  vn_halt_reason :: "string option"
  vn_digest :: bytes32

definition count_conversions :: "(conversion_state \<Rightarrow> bool) \<Rightarrow> ctf \<Rightarrow> nat" where
  "count_conversions p s = length (filter (\<lambda>r. p (cv_state r)) (map snd (ve_records s)))"

definition ctf_snapshot :: "ctf_codec \<Rightarrow> ctf_json \<Rightarrow> ctf \<Rightarrow> ctf_snapshot option" where
  "ctf_snapshot cx js s =
     Option.bind (settle_snapshot (vc_parent cx) (vj_parent js) (ve_parent s)) (\<lambda>parent.
     Option.bind (ctf_state_digest cx js s) (\<lambda>digest.
     Some \<lparr>vn_accepted_commands = ve_accepted s, vn_parent_digest = zn_digest parent,
       vn_transaction_count = length (ve_records s),
       vn_requested_count = count_conversions (\<lambda>c. c = ConvRequested) s,
       vn_pending_count = count_conversions (\<lambda>c. c = ConvPending) s,
       vn_retrying_count = count_conversions (\<lambda>c. case c of ConvRetrying _ \<Rightarrow> True | _ \<Rightarrow> False) s,
       vn_confirmed_count = count_conversions (\<lambda>c. case c of ConvConfirmed _ \<Rightarrow> True | _ \<Rightarrow> False) s,
       vn_failed_count = count_conversions (\<lambda>c. case c of ConvFailed _ \<Rightarrow> True | _ \<Rightarrow> False) s,
       vn_accounting_posted_count = length (filter cv_accounting_posted (map snd (ve_records s))),
       vn_halted = (ve_halted s \<noteq> None), vn_halt_reason = ve_halted s, vn_digest = digest\<rparr>))"

end
