(* ===== verification/Journal.thy ===== *)
theory Journal
  imports Command_Engine BTree_Map
begin

text \<open>
  The shape that the runtimes of the paired chain share: a table of answered commands in front of the part
  of \<open>apply\<close> that is theirs. The locale \<open>journal\<close> takes a runtime's \<open>apply\<close> with its parts and promises that
  it is put together this way, that halting touches neither the table nor the count, that an accepted command
  is entered in the table, and that a refused one leaves the state as it was or halted. From this follow the
  rule for invariants of whole histories, where every answer comes from, and that answers are repeated. A
  runtime without checks before the encoding is a \<open>plain_journal\<close>, and so a \<open>decision_engine\<close>.
\<close>

locale journal =
  fixes step :: "'c \<Rightarrow> 's \<Rightarrow> ('e + 'o) \<times> 's"
    and cmd_id :: "'c \<Rightarrow> bytes32"
    and early :: "'c \<Rightarrow> 'e option"
    and content :: "'c \<Rightarrow> 'e + bytes32"
    and answered :: "'s \<Rightarrow> (bytes32, bytes32 \<times> 'o) btree"
    and accepted :: "'s \<Rightarrow> int"
    and halted :: "'s \<Rightarrow> string option"
    and halt :: "'e \<Rightarrow> 's \<Rightarrow> 's"
    and stopped :: "string \<Rightarrow> 'e"
    and conflict :: "'e"
    and fresh :: "'c \<Rightarrow> bytes32 \<Rightarrow> 's \<Rightarrow> ('e + 'o) \<times> 's"
  assumes step_eq: "step c s =
      (case halted s of
         Some reason \<Rightarrow> (Inl (stopped reason), s)
       | None \<Rightarrow>
           (case early c of
              Some e \<Rightarrow> (Inl e, halt e s)
            | None \<Rightarrow>
                (case content c of
                   Inl e \<Rightarrow> (Inl e, s)
                 | Inr d \<Rightarrow>
                     (case bt_get (answered s) (cmd_id c) of
                        Some (d', out) \<Rightarrow> if d' = d then (Inr out, s) else (Inl conflict, halt conflict s)
                      | None \<Rightarrow> fresh c d s))))"
    and halt_halts: "halted (halt e s) \<noteq> None"
    and halt_answered: "answered (halt e s) = answered s"
    and halt_accepted: "accepted (halt e s) = accepted s"
    and fresh_accepts: "halted s = None \<Longrightarrow> fresh c d s = (Inr out, s')
      \<Longrightarrow> answered s' = bt_insert (cmd_id c) (d, out) (answered s) \<and> accepted s' = accepted s + 1 \<and> halted s' = None"
    and fresh_refuses: "fresh c d s = (Inl e, s') \<Longrightarrow> s' = s \<or> s' = halt e s"
begin

abbreviation journal_run :: "'c list \<Rightarrow> 's \<Rightarrow> 's" where
  "journal_run \<equiv> run_commands step"

lemma step_shape:
  assumes "step c s = (r, s')"
  obtains (refused) e where "r = Inl e" "s' = s \<or> (\<exists>e. s' = halt e s)"
  | (repeated) d out where "halted s = None" "early c = None" "content c = Inr d"
      "bt_get (answered s) (cmd_id c) = Some (d, out)" "r = Inr out" "s' = s"
  | (accepted) d out where "halted s = None" "early c = None" "content c = Inr d"
      "bt_get (answered s) (cmd_id c) = None" "r = Inr out" "fresh c d s = (Inr out, s')"
proof (cases r)
  case (Inl e)
  have "s' = s \<or> (\<exists>e. s' = halt e s)"
    using assms fresh_refuses [of c _ s e s'] unfolding Inl
    by (auto simp: step_eq split: option.split_asm sum.split_asm prod.split_asm if_splits)
  then show ?thesis using refused Inl by blast
next
  case (Inr out)
  show ?thesis
    using assms repeated accepted unfolding Inr
    by (auto simp: step_eq split: option.split_asm sum.split_asm prod.split_asm if_splits)
qed

text \<open>An error leaves the state as it was, or halted and otherwise as it was.\<close>

lemma error_keeps_state: "step c s = (Inl e, s') \<Longrightarrow> s' = s \<or> (\<exists>e. s' = halt e s)"
  by (erule step_shape) auto

lemma run_invariant:
  assumes "P s" and "\<And>e s. P s \<Longrightarrow> P (halt e s)"
    and "\<And>c d out s s'. P s \<Longrightarrow> halted s = None \<Longrightarrow> fresh c d s = (Inr out, s') \<Longrightarrow> P s'"
  shows "P (journal_run cs s)"
proof (rule run_commands_invariant [of P, OF assms(1)])
  fix c s assume "P s"
  obtain r s' where r: "step c s = (r, s')"
    by fastforce
  then show "P (snd (step c s))"
    by (cases rule: step_shape) (use assms(2,3) \<open>P s\<close> r in auto)
qed

text \<open>Every answer in the table was given by a fresh command.\<close>

lemma answer_origin:
  assumes "answered s = []" and "P s" and "\<And>e s. P s \<Longrightarrow> P (halt e s)"
    and "\<And>c d out s s'. P s \<Longrightarrow> halted s = None \<Longrightarrow> fresh c d s = (Inr out, s') \<Longrightarrow> P s' \<and> Q (cmd_id c) d out"
    and "bt_get (answered (journal_run cs s)) k = Some (d, out)"
  shows "Q k d out"
proof -
  let ?I = "\<lambda>s. P s \<and> (\<forall>k d out. bt_get (answered s) k = Some (d, out) \<longrightarrow> Q k d out)"
  have "?I (journal_run cs s)"
  proof (rule run_invariant [of ?I])
    show "?I s" using assms(1,2) by simp
    show "?I (halt e s)" if "?I s" for e s using that assms(3) by (simp add: halt_answered)
    show "?I s'" if "?I s" "halted s = None" "fresh c d s = (Inr out, s')" for c d out s s'
      using that assms(4) [of s c d out s'] fresh_accepts [OF that(2,3)] by (auto simp: bt_get_insert)
  qed
  then show ?thesis using assms(5) by blast
qed

lemma answer_kept:
  assumes "step c s = (r, s')" and "bt_get (answered s) k = Some x"
  shows "bt_get (answered s') k = Some x"
  using assms(1)
proof (cases rule: step_shape)
  case (accepted d out)
  then show ?thesis using fresh_accepts [of s c d out s'] assms(2) by (auto simp: bt_get_insert)
qed (use assms(2) halt_answered in auto)

lemma answer_kept_run: "bt_get (answered s) k = Some x \<Longrightarrow> bt_get (answered (journal_run cs s)) k = Some x"
proof (induction cs arbitrary: s)
  case (Cons c cs)
  then have "bt_get (answered (snd (step c s))) k = Some x"
    using answer_kept [of c s] by (metis prod.collapse)
  then show ?case using Cons.IH by simp
qed simp

lemma accepted_is_answered:
  assumes "step c s = (Inr out, s')"
  obtains d where "early c = None" "content c = Inr d" "bt_get (answered s') (cmd_id c) = Some (d, out)"
  using assms
proof (cases rule: step_shape)
  case (accepted d out)
  then show ?thesis using that [of d] fresh_accepts [of s c d out s'] by (auto simp: bt_get_insert)
qed (use that in auto)

text \<open>An accepted command that comes again gets its answer again and changes nothing.\<close>

lemma repeated_answer:
  assumes "step c s = (Inr out, s')" and "halted (journal_run cs s') = None"
  shows "step c (journal_run cs s') = (Inr out, journal_run cs s')"
proof -
  obtain d where "early c = None" "content c = Inr d" "bt_get (answered s') (cmd_id c) = Some (d, out)"
    using assms(1) by (rule accepted_is_answered)
  then show ?thesis
    using answer_kept_run [of s' "cmd_id c" "(d, out)" cs] assms(2) by (simp add: step_eq)
qed

lemma halted_stays:
  assumes "halted s \<noteq> None"
  shows "journal_run cs s = s"
  using assms by (induction cs) (auto simp: step_eq split: option.split)

lemma halted_at_end: "halted (journal_run cs s) = None \<Longrightarrow> halted s = None"
  using halted_stays [of s cs] by fastforce

end

locale plain_journal =
  journal step cmd_id "\<lambda>_. None" content answered accepted halted halt stopped conflict fresh
  for step :: "'c \<Rightarrow> 's \<Rightarrow> ('e + 'o) \<times> 's" and cmd_id content answered accepted halted halt stopped conflict fresh

sublocale plain_journal \<subseteq>
  decision_engine step cmd_id content "\<lambda>s k. map_option fst (bt_get (answered s) k)" accepted
    "\<lambda>s. halted s \<noteq> None" "\<lambda>s k. map_option snd (bt_get (answered s) k)"
proof unfold_locales
  fix s c e d d' r s' out k
  show "halted s \<noteq> None \<Longrightarrow> \<exists>e. step c s = (Inl e, s)"
    by (auto simp: step_eq)
  show "\<not> halted s \<noteq> None \<Longrightarrow> content c = Inl e \<Longrightarrow> step c s = (Inl e, s)"
    by (simp add: step_eq)
  show "\<not> halted s \<noteq> None \<Longrightarrow> content c = Inr d \<Longrightarrow> map_option fst (bt_get (answered s) (cmd_id c)) = Some d
      \<Longrightarrow> \<exists>out. step c s = (Inr out, s)"
    by (auto simp: step_eq)
  show "\<not> halted s \<noteq> None \<Longrightarrow> content c = Inr d \<Longrightarrow> map_option fst (bt_get (answered s) (cmd_id c)) = Some d
      \<Longrightarrow> \<exists>out. map_option snd (bt_get (answered s) (cmd_id c)) = Some out \<and> step c s = (Inr out, s)"
    by (auto simp: step_eq)
  show "\<not> halted s \<noteq> None \<Longrightarrow> content c = Inr d \<Longrightarrow> map_option fst (bt_get (answered s) (cmd_id c)) = Some d'
      \<Longrightarrow> d' \<noteq> d \<Longrightarrow> step c s = (r, s')
      \<Longrightarrow> (\<exists>e. r = Inl e) \<and> halted s' \<noteq> None
        \<and> (\<lambda>k. map_option fst (bt_get (answered s') k)) = (\<lambda>k. map_option fst (bt_get (answered s) k))
        \<and> accepted s' = accepted s"
    using halt_halts by (auto simp: step_eq halt_answered halt_accepted)
  have shape: "\<not> halted s \<noteq> None \<Longrightarrow> content c = Inr d
      \<Longrightarrow> map_option fst (bt_get (answered s) (cmd_id c)) = None \<Longrightarrow> step c s = (r, s') \<Longrightarrow> fresh c d s = (r, s')"
    for r by (simp add: step_eq)
  show "\<not> halted s \<noteq> None \<Longrightarrow> content c = Inr d \<Longrightarrow> map_option fst (bt_get (answered s) (cmd_id c)) = None
      \<Longrightarrow> step c s = (r, s')
      \<Longrightarrow> ((\<lambda>k. map_option fst (bt_get (answered s') k)) = (\<lambda>k. map_option fst (bt_get (answered s) k))(cmd_id c \<mapsto> d)
          \<and> accepted s' = accepted s + 1)
        \<or> ((\<exists>e. r = Inl e)
          \<and> (\<lambda>k. map_option fst (bt_get (answered s') k)) = (\<lambda>k. map_option fst (bt_get (answered s) k))
          \<and> accepted s' = accepted s)"
    using shape [of r] fresh_accepts [of s c d _ s'] fresh_refuses [of c d s _ s']
    by (cases r) (force simp: bt_get_insert fun_eq_iff halt_answered halt_accepted)+
  show "\<not> halted s \<noteq> None \<Longrightarrow> content c = Inr d \<Longrightarrow> map_option fst (bt_get (answered s) (cmd_id c)) = None
      \<Longrightarrow> step c s = (Inr out, s') \<Longrightarrow> \<not> halted s' \<noteq> None"
    using shape [of "Inr out"] fresh_accepts [of s c d out s'] by simp
  show "\<not> halted s \<noteq> None \<Longrightarrow> content c = Inr d \<Longrightarrow> map_option fst (bt_get (answered s) (cmd_id c)) = None
      \<Longrightarrow> step c s = (Inr out, s') \<Longrightarrow> map_option snd (bt_get (answered s') (cmd_id c)) = Some out"
    using shape [of "Inr out"] fresh_accepts [of s c d out s'] by (simp add: bt_get_insert)
  show "map_option snd (bt_get (answered s) k) = Some out \<Longrightarrow> step c s = (r, s')
      \<Longrightarrow> map_option snd (bt_get (answered s') k) = Some out"
    using answer_kept [of c s r s' k] by auto
qed

end
