(* ===== verification/Paired_Opportunity_Theorems.thy ===== *)
theory Paired_Opportunity_Theorems
  imports Paired_Opportunity Strategy_Theorems Journal
begin

text \<open>
  What the paired opportunity runtime guarantees: it is a journal of commands, spends every decision of the
  detector once, and finds a pair eligible only on a calculated plan whose two legs the risk gate approves
  together.
\<close>

declare risk_apply.simps [simp del] arbitrage_apply.simps [simp del] proposal_apply.simps [simp del]
  pair_evaluate.simps [simp del]

section \<open>The engine\<close>

lemma propose_leg_Inr:
  assumes "propose_leg cx i digest c index intent p = Inr (d, p')"
  shows "proposal_apply (qc_proposal cx) (Propose (derived_proposal_command_id cx i index digest) c intent (pi_evaluated_at intent)) p
      = (Inr d, p')"
    and "pp_status d = Candidate" and "pp_candidate d \<noteq> None"
  using assms by (auto simp: propose_leg_def split: prod.split_asm sum.split_asm if_split_asm)

text \<open>What an evaluated decision is made of.\<close>

lemma evaluate_legs_Inr:
  assumes "evaluate_legs cx i a plan c frame s = Inr (d, s')"
  obtains d0 p0 d1 p1 first second k risk where
    "propose_leg cx i (ap_plan_digest plan) c 0 (fst (ap_intents plan)) (qe_proposal s) = Inr (d0, p0)"
    "propose_leg cx i (ap_plan_digest plan) c 1 (snd (ap_intents plan)) p0 = Inr (d1, p1)"
    "pp_candidate d0 = Some first" "pp_candidate d1 = Some second"
    "risk_apply (qc_risk cx) (Evaluate (derived_risk_command_id cx i (ap_plan_digest plan))
       (pair_risk_request frame first second) (pf_evaluated_at frame)) (qe_risk s) = (Inr k, risk)"
    "qd_status d = (if rd_status k = Approve then RiskEligible else PairNoTrade)"
    "qd_command_id d = i" "qd_arbitrage d = a" "qd_proposals d = [d0, d1]" "qd_risk d = Some k" "pair_verify_digest cx d"
    "s' = s\<lparr>qe_proposal := p1, qe_risk := risk\<rparr>"
proof -
  obtain d0 p0 d1 p1 first second where legs:
      "propose_leg cx i (ap_plan_digest plan) c 0 (fst (ap_intents plan)) (qe_proposal s) = Inr (d0, p0)"
      "propose_leg cx i (ap_plan_digest plan) c 1 (snd (ap_intents plan)) p0 = Inr (d1, p1)"
      "pp_candidate d0 = Some first" "pp_candidate d1 = Some second"
    using assms by (fastforce simp: evaluate_legs_def rbind_Inr_iff ok_or_Inr_iff)
  show ?thesis
    using assms legs
    by (auto simp: evaluate_legs_def make_pair_decision_def Let_def pair_verify_digest_def pair_decision_digest_def
        split: prod.split_asm sum.split_asm if_split_asm intro!: that [OF legs])
qed

lemma pair_evaluate_Inr:
  assumes "pair_evaluate cx (EvaluatePair i ac frame t) s = Inr (d, s')"
  obtains a arbitrage where
    "arbitrage_apply (qc_arbitrage cx) ac (qe_arbitrage s) = (Inr a, arbitrage)"
    "\<not> bs_mem (ad_decision_digest a) (qe_consumed s)" "qd_command_id d = i" "qd_arbitrage d = a" "pair_verify_digest cx d"
    "qe_consumed s' = bs_insert (ad_decision_digest a) (qe_consumed s)" "qe_arbitrage s' = arbitrage"
    "qe_processed s' = qe_processed s" "qe_accepted s' = qe_accepted s" "qe_halted s' = qe_halted s"
    "(ad_status a \<noteq> Opportunity \<and> qd_status d = PairNoTrade \<and> qd_risk d = None \<and> qd_proposals d = []
        \<and> qe_proposal s' = qe_proposal s \<and> qe_risk s' = qe_risk s)
      \<or> (\<exists>plan. ad_status a = Opportunity \<and> ad_plan a = Some plan \<and> plan_verify_digest (qc_arbitrage cx) plan
          \<and> cx_context_digest (ar_context (arbitrage_request_of ac)) = ad_context_digest a \<and> pf_evaluated_at frame = t
          \<and> evaluate_legs cx i a plan (ar_context (arbitrage_request_of ac)) frame
              (s\<lparr>qe_arbitrage := arbitrage, qe_consumed := bs_insert (ad_decision_digest a) (qe_consumed s)\<rparr>) = Inr (d, s'))"
proof -
  obtain a arbitrage where a: "arbitrage_apply (qc_arbitrage cx) ac (qe_arbitrage s) = (Inr a, arbitrage)"
      "\<not> bs_mem (ad_decision_digest a) (qe_consumed s)"
    using assms by (auto simp: pair_evaluate.simps split: prod.split_asm sum.split_asm if_split_asm)
  show ?thesis
  proof (cases "ad_status a = Opportunity")
    case False
    then show ?thesis
      using assms a by (intro that [of a arbitrage])
        (auto simp: pair_evaluate.simps make_pair_decision_def Let_def pair_verify_digest_def pair_decision_digest_def)
  next
    case True
    then obtain plan where plan: "ad_plan a = Some plan" "plan_verify_digest (qc_arbitrage cx) plan"
        "cx_context_digest (ar_context (arbitrage_request_of ac)) = ad_context_digest a" "pf_evaluated_at frame = t"
        "evaluate_legs cx i a plan (ar_context (arbitrage_request_of ac)) frame
          (s\<lparr>qe_arbitrage := arbitrage, qe_consumed := bs_insert (ad_decision_digest a) (qe_consumed s)\<rparr>) = Inr (d, s')"
      using assms a by (auto simp: pair_evaluate.simps Let_def rbind_Inr_iff ok_or_Inr_iff split: if_split_asm)
    from plan(5) have "qd_command_id d = i \<and> qd_arbitrage d = a \<and> pair_verify_digest cx d
        \<and> qe_consumed s' = bs_insert (ad_decision_digest a) (qe_consumed s) \<and> qe_arbitrage s' = arbitrage
        \<and> qe_processed s' = qe_processed s \<and> qe_accepted s' = qe_accepted s \<and> qe_halted s' = qe_halted s"
      by (rule evaluate_legs_Inr) simp
    then show ?thesis
      using a True plan by (intro that [of a arbitrage]) blast+
  qed
qed

lemma pair_evaluate_frame:
  assumes "pair_evaluate cx c s = Inr (d, s')"
  shows "qe_processed s' = qe_processed s \<and> qe_accepted s' = qe_accepted s \<and> qe_halted s' = qe_halted s"
  using assms by (cases c) (auto elim: pair_evaluate_Inr)

lemma pair_count_Some:
  "pair_count d s = Some s' \<Longrightarrow> \<exists>n m. s' = s\<lparr>qe_eligible_count := n, qe_no_trade_count := m\<rparr>"
  by (cases s) (auto simp: pair_count_def split: pair_status.split_asm)

text \<open>An accepted fresh command: evaluated, counted and recorded.\<close>

lemma pair_apply_new_Inr:
  assumes "pair_apply_new cx c digest s = (Inr d, s')"
  obtains s1 n m where "pair_evaluate cx c s = Inr (d, s1)"
    "s' = pair_enter c digest d (s1\<lparr>qe_accepted := qe_accepted s1 + 1, qe_eligible_count := n, qe_no_trade_count := m\<rparr>)"
  using assms
  by (auto simp: pair_apply_new_def checked_simps split: if_split_asm sum.split_asm option.split_asm dest!: pair_count_Some)

interpretation pair_journal: plain_journal "pair_apply cx" pair_command_id "pair_content cx" qe_processed qe_accepted
  qe_halted pair_halt QHalted QIdempotencyConflict "pair_apply_new cx"
  for cx
proof unfold_locales
  fix c s d out s' e
  show "pair_apply cx c s = (case qe_halted s of Some reason \<Rightarrow> (Inl (QHalted reason), s)
      | None \<Rightarrow> (case None of Some e \<Rightarrow> (Inl e, pair_halt e s) | None \<Rightarrow> (case pair_content cx c of Inl e \<Rightarrow> (Inl e, s)
          | Inr d \<Rightarrow> (case bt_get (qe_processed s) (pair_command_id c) of
              Some (d', out) \<Rightarrow> if d' = d then (Inr out, s) else (Inl QIdempotencyConflict, pair_halt QIdempotencyConflict s)
            | None \<Rightarrow> pair_apply_new cx c d s))))"
    by (simp add: pair_apply_def split: option.split sum.split)
  show "qe_halted (pair_halt e s) \<noteq> None" "qe_processed (pair_halt e s) = qe_processed s"
      "qe_accepted (pair_halt e s) = qe_accepted s"
    by (simp_all add: pair_halt_def)
  show "qe_halted s = None \<Longrightarrow> pair_apply_new cx c d s = (Inr out, s')
      \<Longrightarrow> qe_processed s' = bt_insert (pair_command_id c) (d, out) (qe_processed s)
        \<and> qe_accepted s' = qe_accepted s + 1 \<and> qe_halted s' = None"
    by (auto simp: pair_enter_def elim!: pair_apply_new_Inr dest!: pair_evaluate_frame)
  show "pair_apply_new cx c d s = (Inl e, s') \<Longrightarrow> s' = s \<or> s' = pair_halt e s"
    by (auto simp: pair_apply_new_def Let_def split: if_split_asm sum.split_asm option.split_asm)
qed

section \<open>Reachable runtimes\<close>

abbreviation pair_after :: "pair_codec \<Rightarrow> pair_command list \<Rightarrow> pair_engine" where
  "pair_after cx cs \<equiv> run_commands (pair_apply cx) cs pair_engine_default"

text \<open>Every decision of the detector inside was turned into an answer of the runtime, and no two answers
  come from the same decision.\<close>

definition consumed_once :: "pair_engine \<Rightarrow> bool" where
  "consumed_once s \<longleftrightarrow>
     (\<forall>i g d. bt_get (ae_processed (qe_arbitrage s)) i = Some (g, d) \<longrightarrow> bs_mem (ad_decision_digest d) (qe_consumed s))
     \<and> (\<forall>i g d. bt_get (qe_processed s) i = Some (g, d) \<longrightarrow> bs_mem (ad_decision_digest (qd_arbitrage d)) (qe_consumed s))
     \<and> (\<forall>i g d j h e. bt_get (qe_processed s) i = Some (g, d) \<longrightarrow> bt_get (qe_processed s) j = Some (h, e) \<longrightarrow> i \<noteq> j
          \<longrightarrow> ad_decision_digest (qd_arbitrage d) \<noteq> ad_decision_digest (qd_arbitrage e))"

lemma arbitrage_answers:
  assumes "arbitrage_apply cx c s = (Inr d, s')" and "bt_get (ae_processed s') i = Some (g, e)"
  shows "bt_get (ae_processed s) i = Some (g, e) \<or> (i = arbitrage_command_id c \<and> e = d)"
proof (cases c)
  case (EvaluateArbitrage k q t)
  show ?thesis
  proof (cases "bt_get (ae_processed s) k")
    case None
    then obtain s1 digest n where "arbitrage_evaluate cx k q s = Inr (d, s1)" "s' = arbitrage_record k digest (ar_context q) t d n s1"
      using arbitrage_accepted assms(1) unfolding EvaluateArbitrage by metis
    then show ?thesis
      using assms(2) arbitrage_evaluate_frame
      by (auto simp: arbitrage_record_def bt_get_insert EvaluateArbitrage split: if_split_asm)
  next
    case (Some x)
    then have "s' = s"
      using assms(1) unfolding EvaluateArbitrage
      by (auto simp: arbitrage_apply.simps arbitrage_halt_def split: option.split_asm sum.split_asm if_split_asm prod.split_asm)
    then show ?thesis using assms(2) by simp
  qed
qed

lemma consumed_once_after: "consumed_once (pair_after cx cs)"
proof (rule pair_journal.run_invariant [of consumed_once])
  show "consumed_once pair_engine_default"
    by (simp add: consumed_once_def pair_engine_default_def arbitrage_engine_default_def)
  show "consumed_once (pair_halt e s)" if "consumed_once s" for e s
    using that by (simp add: consumed_once_def pair_halt_def)
  fix c g d s s' assume inv: "consumed_once s" and new: "pair_apply_new cx c g s = (Inr d, s')"
  obtain i ac frame t where c: "c = EvaluatePair i ac frame t" by (cases c)
  obtain s1 n m where s1: "pair_evaluate cx c s = Inr (d, s1)"
      "s' = pair_enter c g d (s1\<lparr>qe_accepted := qe_accepted s1 + 1, qe_eligible_count := n, qe_no_trade_count := m\<rparr>)"
    using new by (rule pair_apply_new_Inr)
  obtain a arbitrage where a: "arbitrage_apply (qc_arbitrage cx) ac (qe_arbitrage s) = (Inr a, arbitrage)"
      "\<not> bs_mem (ad_decision_digest a) (qe_consumed s)" "qd_arbitrage d = a"
      "qe_consumed s1 = bs_insert (ad_decision_digest a) (qe_consumed s)" "qe_arbitrage s1 = arbitrage"
      "qe_processed s1 = qe_processed s"
    using s1(1) unfolding c by (elim pair_evaluate_Inr) blast
  show "consumed_once s'"
    using inv a s1(2) arbitrage_answers [OF a(1)] unfolding consumed_once_def c
    by (fastforce simp: pair_enter_def bt_get_insert bs_mem_insert split: if_split_asm)
qed

lemma risk_accepted:
  assumes "risk_apply cx (Evaluate i q t) s = (Inr k, s')" and "bt_get (rk_processed s) i = None"
  obtains d where "evaluate cx i q = Inr d" "k = sealed cx d"
  using assms
  by (auto simp: risk_apply.simps risk_install_halt_def split: option.split_asm sum.split_asm if_split_asm)

text \<open>A pair is found eligible only on a plan, as two proposals and by the risk gate: the
  decision of the detector was made for this command alone, its plan is the calculated one and profitable, the
  two candidates are the two legs of the plan, and the gate approves exactly the pair of them in the frame.\<close>
theorem eligible_pair_is_planned_and_approved:
  assumes "pair_apply cx (EvaluatePair i (EvaluateArbitrage j q t) frame t) (pair_after cx cs) = (Inr d, s')"
    and "bt_get (qe_processed (pair_after cx cs)) i = None" and "qd_status d = RiskEligible"
    and "ad_plan (qd_arbitrage d) = Some plan"
    and "bt_get (spe_processed (qe_proposal (pair_after cx cs))) (derived_proposal_command_id cx i 0 (ap_plan_digest plan)) = None"
    and "bt_get (spe_processed (qe_proposal (pair_after cx cs))) (derived_proposal_command_id cx i 1 (ap_plan_digest plan)) = None"
    and "derived_proposal_command_id cx i 0 (ap_plan_digest plan) \<noteq> derived_proposal_command_id cx i 1 (ap_plan_digest plan)"
    and "bt_get (rk_processed (qe_risk (pair_after cx cs))) (derived_risk_command_id cx i (ap_plan_digest plan)) = None"
  shows "calculate_plan (qc_arbitrage cx) q = Inr (Inr plan) \<and> 0 < ap_net_profit plan
    \<and> verify_context (qc_proposal cx) (ar_context q) \<and> pf_evaluated_at frame = t
    \<and> (\<exists>k. qd_risk d = Some (sealed (qc_risk cx) k) \<and> rd_status k = Approve
        \<and> evaluate (qc_risk cx) (derived_risk_command_id cx i (ap_plan_digest plan))
            (pair_risk_request frame (candidate_of (qc_proposal cx) (ar_context q) (fst (ap_intents plan)))
              (candidate_of (qc_proposal cx) (ar_context q) (snd (ap_intents plan)))) = Inr k)"
proof -
  let ?s = "pair_after cx cs" and ?i = "\<lambda>n. derived_proposal_command_id cx i n (ap_plan_digest plan)"
  let ?c = "ar_context q"
  obtain g where "pair_apply_new cx (EvaluatePair i (EvaluateArbitrage j q t) frame t) g ?s = (Inr d, s')"
    using assms(1,2) by (auto elim!: pair_journal.step_shape)
  then obtain s1 where e: "pair_evaluate cx (EvaluatePair i (EvaluateArbitrage j q t) frame t) ?s = Inr (d, s1)"
    by (rule pair_apply_new_Inr)
  obtain a arbitrage where a: "arbitrage_apply (qc_arbitrage cx) (EvaluateArbitrage j q t) (qe_arbitrage ?s) = (Inr a, arbitrage)"
      "\<not> bs_mem (ad_decision_digest a) (qe_consumed ?s)" "qd_arbitrage d = a"
    and legs: "ad_status a = Opportunity \<and> pf_evaluated_at frame = t \<and> evaluate_legs cx i a plan ?c frame
      (?s\<lparr>qe_arbitrage := arbitrage, qe_consumed := bs_insert (ad_decision_digest a) (qe_consumed ?s)\<rparr>) = Inr (d, s1)"
    using e
  proof (rule pair_evaluate_Inr, goal_cases)
    case (1 a arbitrage)
    from 1(12) assms(3,4) 1(5) show ?case by (intro 1(1) [OF 1(2,3,5)]) auto
  qed
  have "bt_get (ae_processed (qe_arbitrage ?s)) j = None"
  proof (rule ccontr)
    assume "bt_get (ae_processed (qe_arbitrage ?s)) j \<noteq> None"
    then obtain h b where "bt_get (ae_processed (qe_arbitrage ?s)) j = Some (h, b)" by auto
    moreover from this have "a = b"
      using a(1) by (auto simp: arbitrage_apply.simps arbitrage_halt_def split: option.split_asm sum.split_asm if_split_asm)
    ultimately show False
      using consumed_once_after [of cx cs] a(2) by (auto simp: consumed_once_def)
  qed
  note fresh = this
  obtain p where p: "ad_plan a = Some p" "calculate_plan (qc_arbitrage cx) q = Inr (Inr p)"
      "verify_context (qc_proposal cx) ?c"
    using opportunity_facts [OF a(1) fresh conjunct1 [OF legs]] by blast
  have plan: "p = plan"
    using p(1) a(3) assms(4) by simp
  obtain d0 p0 d1 p1 first second k risk where l:
      "propose_leg cx i (ap_plan_digest plan) ?c 0 (fst (ap_intents plan)) (qe_proposal ?s) = Inr (d0, p0)"
      "propose_leg cx i (ap_plan_digest plan) ?c 1 (snd (ap_intents plan)) p0 = Inr (d1, p1)"
      "pp_candidate d0 = Some first" "pp_candidate d1 = Some second"
      "risk_apply (qc_risk cx) (Evaluate (derived_risk_command_id cx i (ap_plan_digest plan))
         (pair_risk_request frame first second) t) (qe_risk ?s) = (Inr k, risk)"
      "qd_status d = (if rd_status k = Approve then RiskEligible else PairNoTrade)" "qd_risk d = Some k"
    using conjunct2 [OF conjunct2 [OF legs]] by (rule evaluate_legs_Inr) (use legs in auto)
  obtain s2 g2 n2 where p0: "proposal_evaluate (qc_proposal cx) (?i 0) ?c (fst (ap_intents plan)) (qe_proposal ?s) = Inr (d0, s2)"
      "p0 = proposal_record (?i 0) g2 ?c (pi_evaluated_at (fst (ap_intents plan))) d0 n2 s2"
    using proposal_accepted [OF propose_leg_Inr(1) [OF l(1)] assms(5)] by blast
  note e0 = proposal_evaluate_Inr [OF p0(1)]
  have first: "first = candidate_of (qc_proposal cx) ?c (fst (ap_intents plan))"
    using e0 l(3) by (simp split: if_split_asm)
  have "bt_get (spe_processed p0) (?i 1) = None"
    using e0 assms(6,7) by (simp add: p0(2) proposal_record_def bt_get_insert)
  then obtain s3 where "proposal_evaluate (qc_proposal cx) (?i 1) ?c (snd (ap_intents plan)) p0 = Inr (d1, s3)"
    using proposal_accepted [OF propose_leg_Inr(1) [OF l(2)]] by blast
  from proposal_evaluate_Inr [OF this] have second: "second = candidate_of (qc_proposal cx) ?c (snd (ap_intents plan))"
    using l(4) by (simp split: if_split_asm)
  obtain up down side where levels: "selected_levels q = Some (up, down, side)"
    using p(2) by (rule calculate_plan_levels)
  have "0 < ap_net_profit plan"
    using calculate_plan_Inr [OF p(2) levels] by (simp add: plan plan_of_def Let_def)
  moreover obtain e where "evaluate (qc_risk cx) (derived_risk_command_id cx i (ap_plan_digest plan))
      (pair_risk_request frame first second) = Inr e" "k = sealed (qc_risk cx) e"
    using l(5) assms(8) by (rule risk_accepted)
  ultimately show ?thesis
    using p(2,3) legs l(6,7) first second assms(3) by (auto simp: plan split: if_split_asm)
qed

text \<open>No decision of the detector is spent twice: two answers under different command ids carry
  different decisions.\<close>
theorem opportunities_are_spent_once:
  assumes "bt_get (qe_processed (pair_after cx cs)) i = Some (g, d)" and "bt_get (qe_processed (pair_after cx cs)) j = Some (h, e)"
    and "i \<noteq> j"
  shows "ad_decision_digest (qd_arbitrage d) \<noteq> ad_decision_digest (qd_arbitrage e)"
  using consumed_once_after [of cx cs] assms unfolding consumed_once_def by blast

end
