(* ===== verification/Paired_Staging_Theorems.thy ===== *)
theory Paired_Staging_Theorems
  imports Paired_Staging Paired_Opportunity_Theorems Paper_Runtime_Theorems
begin

text \<open>
  What the staging of a pair's capital guarantees: the ledger it keeps is one that the ledger commands
  alone can produce, a pair is staged with both reservations or with none, and staging and aborting a pair
  gives every account back what it had.
\<close>

section \<open>The engine\<close>

lemma staging_ledger_apply_Inr:
  "staging_ledger_apply cx c s = Inr s' \<longleftrightarrow>
     (\<exists>out l. ledger_apply (gc_ledger_to_vec cx) (gc_blake3 cx) c (sg_ledger s) = (Inr out, l) \<and> s' = s\<lparr>sg_ledger := l\<rparr>)"
  by (auto simp: staging_ledger_apply_def split: prod.split sum.split)

text \<open>What an operation leaves alone: the table of answers, the count and the halt; and, unless it stages
  or aborts, the stages.\<close>

definition same_journal :: "staging \<Rightarrow> staging \<Rightarrow> bool" where
  "same_journal s s' \<longleftrightarrow> sg_processed s' = sg_processed s \<and> sg_accepted s' = sg_accepted s \<and> sg_halted s' = sg_halted s"

lemma stage_reserve_Inr:
  assumes "stage_reserve cx v stage index at s = Inr s'"
  obtains out l where "s' = s\<lparr>sg_ledger := l\<rparr>"
    "ledger_apply (gc_ledger_to_vec cx) (gc_blake3 cx)
       (case oe_side v of
          BuySide \<Rightarrow> ReserveCollateral (stage_ledger_id cx stage index) (oe_order_id v) (projr (reservation_amount v)) at
        | SellSide \<Rightarrow> ReserveToken (stage_ledger_id cx stage index) (oe_order_id v) (oe_token v) (oe_quantity v) at)
       (sg_ledger s) = (Inr out, l)" "reservation_amount v = Inr (projr (reservation_amount v))"
  using assms
  by (cases "oe_side v") (auto simp: stage_reserve_def rbind_Inr_iff staging_ledger_apply_Inr reservation_amount_def)

lemma stage_reserve_both_Inr:
  assumes "stage_reserve_both cx candidates stage at s = Inr s'"
  obtains s1 where "stage_reserve cx (fst candidates) stage 0 at s = Inr s1"
    "stage_reserve cx (snd candidates) stage 1 at s1 = Inr s'"
    "verify_backing (fst candidates) s' = Inr ()" "verify_backing (snd candidates) s' = Inr ()"
    "s' = s\<lparr>sg_ledger := sg_ledger s'\<rparr>"
proof -
  obtain s1 where s1: "stage_reserve cx (fst candidates) stage 0 at s = Inr s1"
      "stage_reserve cx (snd candidates) stage 1 at s1 = Inr s'"
      "verify_backing (fst candidates) s' = Inr ()" "verify_backing (snd candidates) s' = Inr ()"
    using assms by (auto simp: stage_reserve_both_def rbind_Inr_iff split: if_split_asm)
  moreover have "s' = s\<lparr>sg_ledger := sg_ledger s'\<rparr>"
    using s1(1,2) by (elim stage_reserve_Inr) simp
  ultimately show ?thesis by (rule that)
qed

lemma stage_pair_Inr:
  assumes "stage_pair cx c at s = Inr (detail, s')"
  obtains (no_trade) d paired where "pair_apply (gc_pair cx) c (sg_paired s) = (Inr d, paired)" "detail = StagingNoTrade d"
      "qd_status d \<noteq> RiskEligible" "s' = s\<lparr>sg_paired := paired\<rparr>"
  | (reserved) d paired candidates plan s2 digest where
      "staging_risk_view cx s = Some (pf_ledger (pair_frame_of c))"
      "pair_apply (gc_pair cx) c (sg_paired s) = (Inr d, paired)" "qd_status d = RiskEligible"
      "exact_candidates cx d = Inr candidates" "verified_plan cx d = Inr plan"
      "\<not> bt_contains (sg_stages s) (derive_stage_id cx (qd_decision_digest d))"
      "stage_reserve_both cx candidates (derive_stage_id cx (qd_decision_digest d)) at (s\<lparr>sg_paired := paired\<rparr>) = Inr s2"
      "detail = StagingReserved (new_stage_record cx d plan candidates at digest)"
      "s' = s2\<lparr>sg_stages := bt_insert (derive_stage_id cx (qd_decision_digest d))
          (new_stage_record cx d plan candidates at digest) (sg_stages s2)\<rparr>"
proof -
  obtain d paired where p: "pair_apply (gc_pair cx) c (sg_paired s) = (Inr d, paired)"
      "staging_risk_view cx s = Some (pf_ledger (pair_frame_of c))"
    using assms by (auto simp: stage_pair_def rbind_Inr_iff ok_or_Inr_iff split: prod.split_asm sum.split_asm if_split_asm)
  show ?thesis
  proof (cases "qd_status d = RiskEligible")
    case True
    then show ?thesis
      using assms p by (auto simp: stage_pair_def rbind_Inr_iff Let_def split: if_split_asm intro!: reserved)
  next
    case False
    then show ?thesis
      using assms p by (auto simp: stage_pair_def Let_def split: if_split_asm intro!: no_trade)
  qed
qed

definition aborted_stage :: "staging_codec \<Rightarrow> int \<Rightarrow> bytes32 \<Rightarrow> stage_record \<Rightarrow> stage_record" where
  "aborted_stage cx at digest r =
     (let cleared = r\<lparr>sr_status := StageAborted, sr_aborted_at := Some at, sr_terminal_ledger_digest := Some digest,
        sr_record_digest := 0\<rparr> in cleared\<lparr>sr_record_digest := stage_record_digest cx cleared\<rparr>)"

lemma aborted_stage_simps [simp]:
  "sr_status (aborted_stage cx at digest r) = StageAborted"
  "sr_reservation_ids (aborted_stage cx at digest r) = sr_reservation_ids r"
  by (simp_all add: aborted_stage_def Let_def)

lemma stage_abort_Inr:
  assumes "stage_abort cx stage at s = Inr (detail, s')"
  obtains current s1 s2 digest where "bt_get (sg_stages s) stage = Some current" "sr_status current = FullyReserved"
    "staging_ledger_apply cx (ReleaseReservation (stage_ledger_id cx stage 2) (fst (sr_reservation_ids current)) at) s = Inr s1"
    "staging_ledger_apply cx (ReleaseReservation (stage_ledger_id cx stage 3) (snd (sr_reservation_ids current)) at) s1 = Inr s2"
    "detail = StagingAborted (aborted_stage cx at digest current)"
    "s' = s2\<lparr>sg_stages := bt_insert stage (aborted_stage cx at digest current) (sg_stages s2)\<rparr>"
  using assms unfolding aborted_stage_def Let_def
  by (auto simp: stage_abort_def rbind_Inr_iff Let_def split: option.split_asm if_split_asm)

lemma staging_fresh_frame: "staging_apply_fresh cx c s = Inr (detail, s') \<Longrightarrow> same_journal s s'"
  by (cases c)
    (auto simp: same_journal_def rbind_Inr_iff staging_ledger_apply_Inr split: if_split_asm
      elim!: stage_pair_Inr stage_abort_Inr stage_reserve_both_Inr stage_reserve_Inr)

lemma staging_apply_new_Inr:
  assumes "staging_apply_new cx c digest s = (Inr d, s')"
  obtains detail s1 where "staging_apply_fresh cx c s = Inr (detail, s1)"
    "d = staging_make_decision cx (staging_command_id c) detail" "s' = staging_record c digest d (sg_accepted s1 + 1) s1"
  using assms
  by (auto simp: staging_apply_new_def Let_def checked_simps split: if_split_asm sum.split_asm option.split_asm)

interpretation staging_journal: plain_journal "staging_apply cx" staging_command_id "staging_content cx" sg_processed
  sg_accepted sg_halted staging_halt GHalted GIdempotencyConflict "staging_apply_new cx"
  for cx
proof unfold_locales
  fix c s d out s' e
  show "staging_apply cx c s = (case sg_halted s of Some reason \<Rightarrow> (Inl (GHalted reason), s)
      | None \<Rightarrow> (case None of Some e \<Rightarrow> (Inl e, staging_halt e s) | None \<Rightarrow> (case staging_content cx c of Inl e \<Rightarrow> (Inl e, s)
          | Inr d \<Rightarrow> (case bt_get (sg_processed s) (staging_command_id c) of
              Some (d', out) \<Rightarrow> if d' = d then (Inr out, s) else (Inl GIdempotencyConflict, staging_halt GIdempotencyConflict s)
            | None \<Rightarrow> staging_apply_new cx c d s))))"
    by (simp add: staging_apply_def split: option.split sum.split)
  show "sg_halted (staging_halt e s) \<noteq> None" "sg_processed (staging_halt e s) = sg_processed s"
      "sg_accepted (staging_halt e s) = sg_accepted s"
    by (simp_all add: staging_halt_def)
  show "sg_halted s = None \<Longrightarrow> staging_apply_new cx c d s = (Inr out, s')
      \<Longrightarrow> sg_processed s' = bt_insert (staging_command_id c) (d, out) (sg_processed s)
        \<and> sg_accepted s' = sg_accepted s + 1 \<and> sg_halted s' = None"
    by (auto simp: staging_record_def same_journal_def elim!: staging_apply_new_Inr dest!: staging_fresh_frame)
  show "staging_apply_new cx c d s = (Inl e, s') \<Longrightarrow> s' = s \<or> s' = staging_halt e s"
    by (auto simp: staging_apply_new_def Let_def split: if_split_asm sum.split_asm option.split_asm)
qed

section \<open>The ledger below\<close>

abbreviation staging_after :: "staging_codec \<Rightarrow> staging_command list \<Rightarrow> staging" where
  "staging_after cx cs \<equiv> run_commands (staging_apply cx) cs staging_default"

abbreviation staging_ledger_step :: "staging_codec \<Rightarrow> ledger_command \<Rightarrow> ledger \<Rightarrow> (ledger_error + apply_outcome) \<times> ledger" where
  "staging_ledger_step cx \<equiv> ledger_apply (gc_ledger_to_vec cx) (gc_blake3 cx)"

abbreviation ledger_steps :: "staging_codec \<Rightarrow> ledger \<Rightarrow> ledger \<Rightarrow> bool" where
  "ledger_steps cx l l' \<equiv> engine_reaches (staging_ledger_step cx) l l'"

lemma ledger_steps_trans: "ledger_steps cx l l1 \<Longrightarrow> ledger_steps cx l1 l2 \<Longrightarrow> ledger_steps cx l l2"
  unfolding engine_reaches_def using run_commands_append by metis

lemma ledger_steps_one: "staging_ledger_apply cx c s = Inr s' \<Longrightarrow> ledger_steps cx (sg_ledger s) (sg_ledger s')"
  unfolding staging_ledger_apply_Inr using engine_reaches_step [OF engine_reaches_refl] by fastforce

lemma ledger_steps_reserve: "stage_reserve cx v stage index at s = Inr s' \<Longrightarrow> ledger_steps cx (sg_ledger s) (sg_ledger s')"
  by (erule stage_reserve_Inr) (simp add: engine_reaches_step [OF engine_reaches_refl])

lemma staging_fresh_ledger: "staging_apply_fresh cx c s = Inr (detail, s') \<Longrightarrow> ledger_steps cx (sg_ledger s) (sg_ledger s')"
  by (cases c)
    (auto simp: rbind_Inr_iff split: if_split_asm
      elim!: stage_pair_Inr stage_abort_Inr stage_reserve_both_Inr
      dest!: ledger_steps_one ledger_steps_reserve intro: ledger_steps_trans)

lemma staging_ledger_reachable: "ledger_steps cx ledger_default (sg_ledger (staging_after cx cs))"
proof (rule staging_journal.run_invariant [of "\<lambda>s. ledger_steps cx ledger_default (sg_ledger s)"])
  show "ledger_steps cx ledger_default (sg_ledger staging_default)"
    by (simp add: staging_default_def)
  show "ledger_steps cx ledger_default (sg_ledger (staging_halt e s))" if "ledger_steps cx ledger_default (sg_ledger s)" for e s
    using that by (simp add: staging_halt_def)
  show "ledger_steps cx ledger_default (sg_ledger s')"
    if "ledger_steps cx ledger_default (sg_ledger s)" "staging_apply_new cx c d s = (Inr out, s')" for c d out s s'
    using that by (auto simp: staging_record_def elim!: staging_apply_new_Inr dest!: staging_fresh_ledger intro: ledger_steps_trans)
qed

lemma staging_ledger_inv: "ledger_inv (sg_ledger (staging_after cx cs))"
  using staging_ledger_reachable [of cx cs] reachable_inv unfolding engine_reaches_def by metis

section \<open>What a reservation and its release do to the books\<close>

definition free_account :: "reservation_asset \<Rightarrow> account" where
  "free_account a = (case a of ReserveOfCollateral \<Rightarrow> CashAvailable | ReserveOfToken _ \<Rightarrow> TokenAvailable)"

definition held_account :: "reservation_id \<Rightarrow> reservation_asset \<Rightarrow> account" where
  "held_account i a = (case a of ReserveOfCollateral \<Rightarrow> CashReserved i | ReserveOfToken _ \<Rightarrow> TokenReserved i)"

definition reserved_asset :: "reservation_asset \<Rightarrow> asset" where
  "reserved_asset a = (case a of ReserveOfCollateral \<Rightarrow> Collateral | ReserveOfToken t \<Rightarrow> Outcome t)"

text \<open>The amount a transfer of \<open>n\<close> from the free to the held account moves into an account.\<close>

definition capital_flow :: "reservation_id \<Rightarrow> reservation_asset \<Rightarrow> int \<Rightarrow> account \<Rightarrow> asset \<Rightarrow> int" where
  "capital_flow i a n x s = (if s = reserved_asset a \<and> x = held_account i a then n else 0)
     - (if s = reserved_asset a \<and> x = free_account a then n else 0)"

lemma reserve_effect:
  assumes "ledger_inv l" and "0 < n" and "reserve i a n l = Inr l'"
  shows "ledger_inv l' \<and> (\<forall>x s. balance l' x s = balance l x s + capital_flow i a n x s)
    \<and> reservations l' = bt_insert i \<lparr>res_id = i, res_asset = a, original_micros = n, remaining_micros = n,
        res_status = ReservationActive\<rparr> (reservations l) \<and> costs l' = costs l \<and> locks l' = locks l"
proof -
  let ?ps = "case a of
      ReserveOfCollateral \<Rightarrow> [mk_posting CashAvailable Collateral (- n), mk_posting (CashReserved i) Collateral n]
    | ReserveOfToken token \<Rightarrow> [mk_posting TokenAvailable (Outcome token) (- n), mk_posting (TokenReserved i) (Outcome token) n]"
  obtain l1 where p: "post ?ps l = Inr l1"
      and l': "l' = l1\<lparr>reservations := bt_insert i \<lparr>res_id = i, res_asset = a, original_micros = n,
        remaining_micros = n, res_status = ReservationActive\<rparr> (reservations l1)\<rparr>"
    using assms(3) by (auto simp: reserve_def result_simps)
  obtain m where m: "l1 = l\<lparr>balances := m\<rparr>"
      "\<And>x s. balance (l\<lparr>balances := m\<rparr>) x s = balance l x s + net ?ps (x, s)"
    using post_moves [OF p assms(1)] by blast
  have "net ?ps (x, s) = capital_flow i a n x s" for x s
    by (cases a) (auto simp: capital_flow_def free_account_def held_account_def reserved_asset_def)
  then show ?thesis
    using reserve_inv [OF assms] m(2) by (simp add: l' m(1))
qed

lemma release_effect:
  assumes "ledger_inv l" and "release i l = Inr l'"
  obtains r where "bt_get (reservations l) i = Some r" "res_status r = ReservationActive" "ledger_inv l'"
    "\<And>x s. balance l' x s = balance l x s - capital_flow i (res_asset r) (remaining_micros r) x s"
    "reservations l' = bt_insert i (r\<lparr>remaining_micros := 0, res_status := ReservationReleased\<rparr>) (reservations l)"
    "costs l' = costs l" "locks l' = locks l"
proof -
  obtain r where r: "bt_get (reservations l) i = Some r" "res_status r = ReservationActive"
    using assms(2) by (auto simp: release_def active_reservation_Inr rbind_Inr_iff)
  let ?n = "remaining_micros r"
  let ?ps = "case res_asset r of
      ReserveOfCollateral \<Rightarrow> [mk_posting (CashReserved i) Collateral (- ?n), mk_posting CashAvailable Collateral ?n]
    | ReserveOfToken token \<Rightarrow> [mk_posting (TokenReserved i) (Outcome token) (- ?n), mk_posting TokenAvailable (Outcome token) ?n]"
  obtain l1 r' where p: "post ?ps l = Inr l1" and r': "bt_get (reservations l1) i = Some r'"
      and l': "l' = l1\<lparr>reservations := bt_insert i
        (r'\<lparr>remaining_micros := 0, res_status := ReservationReleased\<rparr>) (reservations l1)\<rparr>"
    using assms(2) r by (auto simp: release_def active_reservation_Inr result_simps)
  obtain m where m: "l1 = l\<lparr>balances := m\<rparr>"
      "\<And>x s. balance (l\<lparr>balances := m\<rparr>) x s = balance l x s + net ?ps (x, s)"
    using post_moves [OF p assms(1)] by blast
  have "net ?ps (x, s) = - capital_flow i (res_asset r) ?n x s" for x s
    by (cases "res_asset r") (auto simp: capital_flow_def free_account_def held_account_def reserved_asset_def)
  moreover have "r' = r" using r r' m(1) by simp
  ultimately show ?thesis
    using that [OF r release_inv [OF assms]] m(2) by (simp add: l' m(1))
qed

text \<open>A ledger command under a new id that is accepted was dispatched.\<close>

lemma ledger_applied:
  assumes "ledger_apply to_vec blake3 c l = (Inr out, l')" and "bt_get (processed l) (ledger_command_id c) = None"
  obtains l1 digest where "dispatch c l = Inr l1" "ledger_validate_command c = Inr ()"
    "l' = l1\<lparr>processed := bt_insert (ledger_command_id c) digest (processed l), accepted_commands := accepted_commands l + 1\<rparr>"
proof -
  obtain digest where i: "ledger_install (ledger_command_id c) digest c l = Inr l'"
    using assms by (auto simp: ledger_apply_def split: option.split_asm sum.split_asm if_split_asm)
  obtain l1 where l1: "ledger_apply_fresh c l = Inr l1"
      "l' = l1\<lparr>processed := bt_insert (ledger_command_id c) digest (processed l1), accepted_commands := accepted_commands l1 + 1\<rparr>"
    using ledger_install_Inr [OF i] by blast
  then have "dispatch c l = Inr l1" "ledger_validate_command c = Inr ()"
    by (auto simp: ledger_apply_fresh_def rbind_Inr_iff)
  then show ?thesis
    using that l1 dispatch_frame by (fastforce simp: same_record_def)
qed

section \<open>Properties\<close>

text \<open>The reservation of an order is active and holds exactly what the order can cost or deliver.\<close>

definition fully_backed :: "staging \<Rightarrow> order_exposure \<Rightarrow> bool" where
  "fully_backed s v =
     (case (reservation_amount v, staging_reservation s (oe_order_id v)) of
        (Inr n, Some r) \<Rightarrow> res_status r = ReservationActive \<and> remaining_micros r = n \<and> res_asset r = reservation_asset_of v
      | _ \<Rightarrow> False)"

lemma verify_backing_iff: "verify_backing v s = Inr () \<longleftrightarrow> fully_backed s v"
  by (auto simp: verify_backing_def fully_backed_def rbind_Inr_iff ok_or_Inr_iff split: sum.split option.split)

lemma fully_backed_ledger: "sg_ledger s' = sg_ledger s \<Longrightarrow> fully_backed s' v = fully_backed s v"
  by (simp add: fully_backed_def staging_reservation_def)

lemma exact_candidates_Inr:
  assumes "exact_candidates cx d = Inr candidates"
  shows "pair_verify_digest (gc_pair cx) d \<and> map pp_candidate (qd_proposals d) = [Some (fst candidates), Some (snd candidates)]
    \<and> oe_order_id (fst candidates) \<noteq> oe_order_id (snd candidates)"
proof -
  obtain p q where "qd_proposals d = [p, q]"
    using assms by (auto simp: exact_candidates_def length_Suc_conv numeral_2_eq_2 split: if_split_asm)
  then show ?thesis
    using assms by (auto simp: exact_candidates_def rbind_Inr_iff ok_or_Inr_iff split: if_split_asm)
qed

lemma new_stage_record_simps [simp]:
  "sr_stage_id (new_stage_record cx d plan candidates at g) = derive_stage_id cx (qd_decision_digest d)"
  "sr_status (new_stage_record cx d plan candidates at g) = FullyReserved"
  "sr_candidates (new_stage_record cx d plan candidates at g) = candidates"
  "sr_paired_decision_digest (new_stage_record cx d plan candidates at g) = qd_decision_digest d"
  "sr_reservation_ids (new_stage_record cx d plan candidates at g) = (oe_order_id (fst candidates), oe_order_id (snd candidates))"
  "stage_verify_digest cx (new_stage_record cx d plan candidates at g)"
  by (simp_all add: new_stage_record_def Let_def stage_verify_digest_def stage_record_digest_def)

lemma staging_accepted:
  assumes "staging_apply cx c s = (Inr d, s')" and "bt_get (sg_processed s) (staging_command_id c) = None"
  obtains detail s1 digest where "staging_apply_fresh cx c s = Inr (detail, s1)" "gd_detail d = detail"
    "s' = staging_record c digest d (sg_accepted s1 + 1) s1"
  using assms
  by (auto simp: staging_make_decision_def Let_def elim!: staging_journal.step_shape staging_apply_new_Inr)


text \<open>What a new reservation command does, once it is accepted by a ledger that had not seen its id.\<close>

lemma stage_reserve_effect:
  assumes "stage_reserve cx v stage index at s = Inr s'" and "ledger_inv (sg_ledger s)"
    and "bt_get (processed (sg_ledger s)) (stage_ledger_id cx stage index) = None"
  shows "\<exists>n g. let a = reservation_asset_of v; i = oe_order_id v in ledger_inv (sg_ledger s')
    \<and> (\<forall>x y. balance (sg_ledger s') x y = balance (sg_ledger s) x y + capital_flow i a n x y)
    \<and> reservations (sg_ledger s') = bt_insert i \<lparr>res_id = i, res_asset = a, original_micros = n, remaining_micros = n,
        res_status = ReservationActive\<rparr> (reservations (sg_ledger s))
    \<and> costs (sg_ledger s') = costs (sg_ledger s) \<and> locks (sg_ledger s') = locks (sg_ledger s)
    \<and> processed (sg_ledger s') = bt_insert (stage_ledger_id cx stage index) g (processed (sg_ledger s))"
proof -
  define c where "c = (case oe_side v of
          BuySide \<Rightarrow> ReserveCollateral (stage_ledger_id cx stage index) (oe_order_id v) (projr (reservation_amount v)) at
        | SellSide \<Rightarrow> ReserveToken (stage_ledger_id cx stage index) (oe_order_id v) (oe_token v) (oe_quantity v) at)"
  define n where "n = (case oe_side v of BuySide \<Rightarrow> projr (reservation_amount v) | SellSide \<Rightarrow> oe_quantity v)"
  obtain out l where l: "s' = s\<lparr>sg_ledger := l\<rparr>" "ledger_apply (gc_ledger_to_vec cx) (gc_blake3 cx) c (sg_ledger s) = (Inr out, l)"
    using assms(1) unfolding c_def by (rule stage_reserve_Inr)
  have id: "ledger_command_id c = stage_ledger_id cx stage index"
    by (simp add: c_def split: order_side.split)
  obtain l1 digest where l1: "dispatch c (sg_ledger s) = Inr l1" "ledger_validate_command c = Inr ()"
      "l = l1\<lparr>processed := bt_insert (ledger_command_id c) digest (processed (sg_ledger s)), accepted_commands := accepted_commands (sg_ledger s) + 1\<rparr>"
    using ledger_applied [OF l(2)] assms(3) unfolding id by blast
  have d: "reserve (oe_order_id v) (reservation_asset_of v) n (sg_ledger s) = Inr l1"
    using l1(1) by (simp add: c_def n_def reservation_asset_of_def split: order_side.split_asm)
  have "0 < n"
    using l1(2) by (auto simp: c_def n_def ledger_validate_command_def positive_def result_simps split: order_side.split_asm if_split_asm)
  from reserve_effect [OF assms(2) this d] show ?thesis
    by (intro exI [of _ n] exI [of _ digest]) (simp add: Let_def l(1) l1(3) id)
qed

lemma stage_release_effect:
  assumes "staging_ledger_apply cx (ReleaseReservation k i at) s = Inr s'" and "ledger_inv (sg_ledger s)"
    and "bt_get (processed (sg_ledger s)) k = None"
  shows "\<exists>r g. bt_get (reservations (sg_ledger s)) i = Some r \<and> ledger_inv (sg_ledger s')
    \<and> (\<forall>x y. balance (sg_ledger s') x y = balance (sg_ledger s) x y - capital_flow i (res_asset r) (remaining_micros r) x y)
    \<and> reservations (sg_ledger s') = bt_insert i (r\<lparr>remaining_micros := 0, res_status := ReservationReleased\<rparr>) (reservations (sg_ledger s))
    \<and> costs (sg_ledger s') = costs (sg_ledger s) \<and> locks (sg_ledger s') = locks (sg_ledger s)
    \<and> processed (sg_ledger s') = bt_insert k g (processed (sg_ledger s))"
proof -
  obtain out l where l: "s' = s\<lparr>sg_ledger := l\<rparr>"
      "ledger_apply (gc_ledger_to_vec cx) (gc_blake3 cx) (ReleaseReservation k i at) (sg_ledger s) = (Inr out, l)"
    using assms(1) by (auto simp: staging_ledger_apply_Inr)
  obtain l1 digest where l1: "release i (sg_ledger s) = Inr l1"
      "l = l1\<lparr>processed := bt_insert k digest (processed (sg_ledger s)), accepted_commands := accepted_commands (sg_ledger s) + 1\<rparr>"
    using ledger_applied [OF l(2), unfolded ledger_command_id.simps dispatch.simps, OF assms(3)] by blast
  obtain r where "bt_get (reservations (sg_ledger s)) i = Some r" "res_status r = ReservationActive" "ledger_inv l1"
      "\<And>x s'. balance l1 x s' = balance (sg_ledger s) x s' - capital_flow i (res_asset r) (remaining_micros r) x s'"
      "reservations l1 = bt_insert i (r\<lparr>remaining_micros := 0, res_status := ReservationReleased\<rparr>) (reservations (sg_ledger s))"
      "costs l1 = costs (sg_ledger s)" "locks l1 = locks (sg_ledger s)"
    by (rule release_effect [OF assms(2) l1(1)]) (rule that)
  then show ?thesis
    by (intro exI [of _ r] exI [of _ digest]) (simp add: l(1) l1(2))
qed

text \<open>Staging a pair and aborting the stage is a round trip: from every reachable staging, when the stage's
  four ledger commands have ids of their own, the abort leaves exactly the balances, cost positions and locks
  from before the staging, and both reservations released.\<close>
theorem stage_and_abort_round_trip:
  assumes "s = staging_after cx cs" and "staging_apply cx (StagePair i c t) s = (Inr d, s1)"
    and "bt_get (sg_processed s) i = None" and "gd_detail d = StagingReserved stage"
    and "staging_apply cx (StageAbort j (sr_stage_id stage) u) s1 = (Inr e, s2)" and "bt_get (sg_processed s1) j = None"
    and "distinct (map (stage_ledger_id cx (sr_stage_id stage)) [0, 1, 2, 3])"
    and "list_all (\<lambda>n. bt_get (processed (sg_ledger s)) (stage_ledger_id cx (sr_stage_id stage) n) = None) [0, 1, 2, 3]"
  shows "balances (sg_ledger s2) = balances (sg_ledger s) \<and> costs (sg_ledger s2) = costs (sg_ledger s)
    \<and> locks (sg_ledger s2) = locks (sg_ledger s)
    \<and> map_option res_status (staging_reservation s2 (fst (sr_reservation_ids stage))) = Some ReservationReleased
    \<and> map_option res_status (staging_reservation s2 (snd (sr_reservation_ids stage))) = Some ReservationReleased
    \<and> map_option sr_status (staging_stage s2 (sr_stage_id stage)) = Some StageAborted"
proof -
  let ?id = "stage_ledger_id cx (sr_stage_id stage)"
  have inv: "ledger_inv (sg_ledger s)"
    unfolding assms(1) by (rule staging_ledger_inv)
  obtain s3 g where a: "stage_pair cx c t s = Inr (StagingReserved stage, s3)" "s1 = staging_record (StagePair i c t) g d (sg_accepted s3 + 1) s3"
    using assms(2-4) by (auto elim!: staging_accepted)
  obtain b h s5 where b: "stage_abort cx (sr_stage_id stage) u s1 = Inr (b, s5)" "s2 = staging_record (StageAbort j (sr_stage_id stage) u) h e (sg_accepted s5 + 1) s5"
    using assms(5,6) by (auto elim!: staging_accepted)
  obtain k paired candidates plan s4 where r: "stage_reserve_both cx candidates (sr_stage_id stage) t (s\<lparr>sg_paired := paired\<rparr>) = Inr s4"
      "exact_candidates cx k = Inr candidates" "sr_reservation_ids stage = (oe_order_id (fst candidates), oe_order_id (snd candidates))"
      "s3 = s4\<lparr>sg_stages := bt_insert (sr_stage_id stage) stage (sg_stages s4)\<rparr>"
    using a(1) by (rule stage_pair_Inr) auto
  let ?i = "oe_order_id (fst candidates)" and ?j = "oe_order_id (snd candidates)"
  have ij: "?i \<noteq> ?j"
    using exact_candidates_Inr [OF r(2)] by blast
  obtain s6 where s6: "stage_reserve cx (fst candidates) (sr_stage_id stage) 0 t (s\<lparr>sg_paired := paired\<rparr>) = Inr s6"
      "stage_reserve cx (snd candidates) (sr_stage_id stage) 1 t s6 = Inr s4"
    using r(1) by (rule stage_reserve_both_Inr)
  obtain n g0 where first: "ledger_inv (sg_ledger s6)"
      "\<And>x y. balance (sg_ledger s6) x y = balance (sg_ledger s) x y + capital_flow ?i (reservation_asset_of (fst candidates)) n x y"
      "reservations (sg_ledger s6) = bt_insert ?i \<lparr>res_id = ?i, res_asset = reservation_asset_of (fst candidates),
         original_micros = n, remaining_micros = n, res_status = ReservationActive\<rparr> (reservations (sg_ledger s))"
      "costs (sg_ledger s6) = costs (sg_ledger s)" "locks (sg_ledger s6) = locks (sg_ledger s)"
      "processed (sg_ledger s6) = bt_insert (?id 0) g0 (processed (sg_ledger s))"
    using stage_reserve_effect [OF s6(1)] inv assms(8) by (auto simp: Let_def simp del: One_nat_def)
  have new: "bt_get (processed (sg_ledger s6)) (?id 1) = None"
    using assms(7,8) by (auto simp: first(6) bt_get_insert)
  obtain m g1 where second: "ledger_inv (sg_ledger s4)"
      "\<And>x y. balance (sg_ledger s4) x y = balance (sg_ledger s6) x y + capital_flow ?j (reservation_asset_of (snd candidates)) m x y"
      "reservations (sg_ledger s4) = bt_insert ?j \<lparr>res_id = ?j, res_asset = reservation_asset_of (snd candidates),
         original_micros = m, remaining_micros = m, res_status = ReservationActive\<rparr> (reservations (sg_ledger s6))"
      "costs (sg_ledger s4) = costs (sg_ledger s)" "locks (sg_ledger s4) = locks (sg_ledger s)"
      "processed (sg_ledger s4) = bt_insert (?id 1) g1 (processed (sg_ledger s6))"
    using stage_reserve_effect [OF s6(2) first(1) new] unfolding Let_def first(4,5) by blast
  have l1: "sg_ledger s1 = sg_ledger s4" "bt_get (sg_stages s1) (sr_stage_id stage) = Some stage"
    by (simp_all add: a(2) r(4) staging_record_def bt_get_insert)
  obtain s7 s8 where rel: "staging_ledger_apply cx (ReleaseReservation (?id 2) ?i u) s1 = Inr s7"
      "staging_ledger_apply cx (ReleaseReservation (?id 3) ?j u) s7 = Inr s8"
      "sg_ledger s5 = sg_ledger s8" "map_option sr_status (bt_get (sg_stages s5) (sr_stage_id stage)) = Some StageAborted"
    using b(1) by (rule stage_abort_Inr) (use l1(2) r(3) in \<open>auto simp: bt_get_insert\<close>)
  have new: "bt_get (processed (sg_ledger s1)) (?id 2) = None"
    using assms(7,8) by (auto simp: l1(1) second(6) first(6) bt_get_insert)
  obtain r2 g2 where third: "bt_get (reservations (sg_ledger s4)) ?i = Some r2" "ledger_inv (sg_ledger s7)"
      "\<And>x y. balance (sg_ledger s7) x y = balance (sg_ledger s4) x y - capital_flow ?i (res_asset r2) (remaining_micros r2) x y"
      "reservations (sg_ledger s7) = bt_insert ?i (r2\<lparr>remaining_micros := 0, res_status := ReservationReleased\<rparr>) (reservations (sg_ledger s4))"
      "costs (sg_ledger s7) = costs (sg_ledger s)" "locks (sg_ledger s7) = locks (sg_ledger s)"
      "processed (sg_ledger s7) = bt_insert (?id 2) g2 (processed (sg_ledger s4))"
    using stage_release_effect [OF rel(1) _ new] second(1) unfolding l1(1) second(4,5) by blast
  have new: "bt_get (processed (sg_ledger s7)) (?id 3) = None"
    using assms(7,8) by (auto simp: third(7) second(6) first(6) bt_get_insert)
  obtain r3 where fourth: "bt_get (reservations (sg_ledger s7)) ?j = Some r3" "ledger_inv (sg_ledger s8)"
      "\<And>x y. balance (sg_ledger s8) x y = balance (sg_ledger s7) x y - capital_flow ?j (res_asset r3) (remaining_micros r3) x y"
      "reservations (sg_ledger s8) = bt_insert ?j (r3\<lparr>remaining_micros := 0, res_status := ReservationReleased\<rparr>) (reservations (sg_ledger s7))"
      "costs (sg_ledger s8) = costs (sg_ledger s)" "locks (sg_ledger s8) = locks (sg_ledger s)"
    using stage_release_effect [OF rel(2) third(2) new] unfolding third(5,6) by blast
  have r2: "res_asset r2 = reservation_asset_of (fst candidates)" "remaining_micros r2 = n"
    using third(1) ij by (auto simp: second(3) first(3) bt_get_insert)
  have r3: "res_asset r3 = reservation_asset_of (snd candidates)" "remaining_micros r3 = m"
    using fourth(1) ij by (auto simp: third(4) second(3) bt_get_insert)
  have "balance (sg_ledger s8) x y = balance (sg_ledger s) x y" for x y
    by (simp add: fourth(3) third(3) second(2) first(2) r2 r3)
  then have "balances (sg_ledger s8) = balances (sg_ledger s)"
    using fourth(2) inv by (intro wf_balances_ext) (simp_all add: ledger_inv_def)
  moreover have "sg_ledger s2 = sg_ledger s8" "sg_stages s2 = sg_stages s5"
    using rel(3) by (simp_all add: b(2) staging_record_def)
  ultimately show ?thesis
    using fourth(4-6) third(4) ij rel(4)
    by (auto simp: staging_reservation_def staging_stage_def ledger_reservation_def r(3) bt_get_insert)
qed

end
