(* ===== verification/Paired_Policy_Theorems.thy ===== *)
theory Paired_Policy_Theorems
  imports Paired_Policy Paired_Staging_Theorems
begin

text \<open>
  What the placement policy of a pair guarantees. \<open>record_step\<close> lists the ways in which the record of a
  pair moves, and every accepted command is a number of such moves; from them follow the invariant of a
  record, with the hedge behind its fully matched first leg, and its one-way progress.
\<close>

declare pairpol_apply_fresh.simps [simp del]

section \<open>The engine\<close>

lemma pairpol_staging_apply_Inr:
  "pairpol_staging_apply cx c s = Inr (d, s') \<longleftrightarrow>
     (\<exists>g. staging_apply (yc_staging cx) c (ye_staging s) = (Inr d, g) \<and> s' = s\<lparr>ye_staging := g\<rparr>)"
  by (auto simp: pairpol_staging_apply_def split: prod.split sum.split)

definition same_policy_journal :: "pairpol \<Rightarrow> pairpol \<Rightarrow> bool" where
  "same_policy_journal s s' \<longleftrightarrow>
     ye_processed s' = ye_processed s \<and> ye_accepted s' = ye_accepted s \<and> ye_halted s' = ye_halted s"

text \<open>What an accepted operation does to the record of a stage; \<open>w\<close> is the state of a leg that it reports.\<close>

type_synonym leg_report = "(pair_stage_id \<times> nat \<times> leg_state) option"

fun leg_reported :: "pairpol_command \<Rightarrow> leg_report" where
  "leg_reported (PolObserveLeg _ stage leg _ state _ _ _) = Some (stage, leg, state)"
| "leg_reported _ = None"

inductive record_step :: "pairpol_codec \<Rightarrow> leg_report \<Rightarrow> pair_stage_id \<Rightarrow> pair_record option \<Rightarrow> pair_record \<Rightarrow> bool"
  for cx w i where
  staged: "record_step cx w i None (new_pair_record cx stage)"
| licensed: "pm_leg_index p \<le> 1 \<Longrightarrow> \<not> lp_aborted r \<Longrightarrow> at_leg (pm_leg_index p) (lp_legs r) = LegNotAuthorized
    \<Longrightarrow> role_denial (pm_role p) (pm_leg_index p) r = None \<Longrightarrow> record_step cx w i (Some r) (license_leg cx p r)"
| observed: "w = Some (i, leg, state) \<Longrightarrow> leg \<le> 1 \<Longrightarrow> at_leg leg (lp_permits r) = Some p
    \<Longrightarrow> valid_leg_transition (at_leg leg (lp_legs r)) state (at_leg leg (lp_ever_partially_matched r))
    \<Longrightarrow> record_step cx w i (Some r) (observed_leg cx leg state sequence observed_at r)"
| expired: "record_step cx w i (Some r) (refresh_record cx (expire_leg 1 at (expire_leg 0 at r)))"
| aborted: "\<not> lp_aborted r \<Longrightarrow> safe_terminal (fst (lp_legs r)) \<Longrightarrow> safe_terminal (snd (lp_legs r))
    \<Longrightarrow> record_step cx w i (Some r) (refresh_record cx (r\<lparr>lp_aborted := True\<rparr>))"

definition records_step :: "pairpol_codec \<Rightarrow> leg_report \<Rightarrow> pairpol \<Rightarrow> pairpol \<Rightarrow> bool" where
  "records_step cx w s s' \<longleftrightarrow> ye_records s' = ye_records s
     \<or> (\<exists>i r. record_step cx w i (bt_get (ye_records s) i) r \<and> ye_records s' = bt_insert i r (ye_records s))"

lemma records_stepI:
  "record_step cx w i (bt_get (ye_records s) i) r \<Longrightarrow> ye_records s' = bt_insert i r (ye_records s) \<Longrightarrow> records_step cx w s s'"
  unfolding records_step_def by blast

lemma records_step_staged:
  "bt_get (ye_records s) i = None \<Longrightarrow> ye_records s' = bt_insert i (new_pair_record cx r) (ye_records s) \<Longrightarrow> records_step cx w s s'"
  by (rule records_stepI) (simp_all add: record_step.staged)

lemma records_step_refl: "ye_records s' = ye_records s \<Longrightarrow> records_step cx w s s'"
  by (simp add: records_step_def)

lemma authorization_allowed:
  assumes "authorization_denial cx stage_id leg role max_mode_age valid_until at s = Inr None"
  obtains r stage where "leg \<le> 1" "bt_get (ye_records s) stage_id = Some r" "\<not> lp_aborted r"
    "at_leg leg (lp_legs r) = LegNotAuthorized" "role_denial role leg r = None"
    "staging_stage (ye_staging s) stage_id = Some stage" "sr_status stage = FullyReserved"
  using assms
  by (auto simp: authorization_denial_def rbind_Inr_iff ok_or_Inr_iff Let_def split: if_split_asm option.split_asm)

lemma pairpol_authorize_step:
  assumes "pairpol_authorize cx i stage_id leg role max_mode_age valid_until at s = Inr (d, s')"
  shows "same_policy_journal s s' \<and> records_step cx w s s' \<and> ye_staging s' = ye_staging s"
proof -
  obtain denial where denial: "authorization_denial cx stage_id leg role max_mode_age valid_until at s = Inr denial"
    using assms by (auto simp: pairpol_authorize_def rbind_Inr_iff)
  show ?thesis
  proof (cases denial)
    case None
    then obtain r where r: "leg \<le> 1" "bt_get (ye_records s) stage_id = Some r" "\<not> lp_aborted r"
        "at_leg leg (lp_legs r) = LegNotAuthorized" "role_denial role leg r = None"
      using denial by (auto elim: authorization_allowed)
    obtain stage mode where s': "s' = s\<lparr>ye_records := bt_insert stage_id
        (license_leg cx (new_permit cx stage leg role mode at valid_until stage_id) r) (ye_records s)\<rparr>"
      using assms denial None r(2) by (auto simp: pairpol_authorize_def rbind_Inr_iff ok_or_Inr_iff Let_def)
    let ?p = "new_permit cx stage leg role mode at valid_until stage_id"
    have "pm_leg_index ?p = leg" "pm_role ?p = role"
      by (simp_all add: new_permit_def Let_def)
    then have "record_step cx w stage_id (bt_get (ye_records s) stage_id) (license_leg cx ?p r)"
      using r by (simp add: record_step.licensed)
    then have "records_step cx w s s'"
      by (rule records_stepI) (simp add: s')
    then show ?thesis
      by (simp add: same_policy_journal_def s')
  next
    case (Some reason)
    then show ?thesis
      using assms denial by (simp add: pairpol_authorize_def same_policy_journal_def records_step_def)
  qed
qed

lemma pairpol_observe_leg_step:
  assumes "pairpol_observe_leg cx i stage_id leg permit_id state sequence observed_at at s = Inr (d, s')"
  obtains r p where "leg \<le> 1" "bt_get (ye_records s) stage_id = Some r" "at_leg leg (lp_permits r) = Some p"
    "pm_permit_id p = permit_id" "valid_leg_transition (at_leg leg (lp_legs r)) state (at_leg leg (lp_ever_partially_matched r))"
    "d = pairpol_answer i PolAccepted PairLifecycleAccepted (Some stage_id) None"
    "s' = s\<lparr>ye_records := bt_insert stage_id (observed_leg cx leg state sequence observed_at r) (ye_records s)\<rparr>"
  using assms
  by (auto simp: pairpol_observe_leg_def rbind_Inr_iff ok_or_Inr_iff split: if_split_asm)

lemma pairpol_abort_step:
  assumes "pairpol_abort_safe cx i stage_id at s = Inr (d, s')"
  shows "same_policy_journal s s' \<and> records_step cx w s s'"
proof (cases "abort_is_safe stage_id s")
  case True
  then obtain r where r: "bt_get (ye_records s) stage_id = Some r" "\<not> lp_aborted r" "safe_terminal (fst (lp_legs r))"
      "safe_terminal (snd (lp_legs r))"
    by (auto simp: abort_is_safe_def split: option.split_asm)
  obtain d1 g where "pairpol_staging_apply cx (StageAbort (derived_staging_id cx i 1) stage_id at) s = Inr (d1, s\<lparr>ye_staging := g\<rparr>)"
    using assms True by (auto simp: pairpol_abort_safe_def rbind_Inr_iff pairpol_staging_apply_Inr)
  then have "s' = s\<lparr>ye_staging := g, ye_records := bt_insert stage_id (refresh_record cx (r\<lparr>lp_aborted := True\<rparr>)) (ye_records s)\<rparr>"
    using assms True r(1) by (cases "gd_detail d1") (simp_all add: pairpol_abort_safe_def)
  then show ?thesis
    using r record_step.aborted [of r cx w stage_id] by (auto simp: same_policy_journal_def intro: records_stepI [of cx w stage_id s])
next
  case False
  then show ?thesis
    using assms by (simp add: pairpol_abort_safe_def same_policy_journal_def records_step_def)
qed

lemma pairpol_fresh_step:
  assumes "pairpol_apply_fresh cx c s = Inr (d, s')"
  shows "same_policy_journal s s' \<and> records_step cx (leg_reported c) s s'"
proof (cases c)
  case (PolFund i amount t)
  then show ?thesis
    using assms by (auto simp: pairpol_apply_fresh.simps pairpol_fund_def rbind_Inr_iff pairpol_staging_apply_Inr same_policy_journal_def records_step_def)
next
  case (PolStage i p t)
  obtain d1 s1 where s1: "pairpol_staging_apply cx (StagePair (derived_staging_id cx i 0) p t) s = Inr (d1, s1)"
    using assms unfolding PolStage by (auto simp: pairpol_apply_fresh.simps pairpol_stage_def rbind_Inr_iff)
  then have "same_policy_journal s s1" "ye_records s1 = ye_records s"
    by (auto simp: pairpol_staging_apply_Inr same_policy_journal_def)
  moreover have "s' = s1 \<or> (\<exists>r. bt_get (ye_records s1) (sr_stage_id r) = None
      \<and> s' = s1\<lparr>ye_records := bt_insert (sr_stage_id r) (new_pair_record cx r) (ye_records s1)\<rparr>)"
    using assms s1 unfolding PolStage
    by (cases "gd_detail d1")
      (auto simp: pairpol_apply_fresh.simps pairpol_stage_def rbind_Inr_iff bt_contains_def split: if_split_asm)
  ultimately show ?thesis
    by (auto simp: same_policy_journal_def intro: records_step_staged records_step_refl)
next
  case (PolObserveMode i v t)
  then show ?thesis
    using assms by (auto simp: pairpol_apply_fresh.simps pairpol_observe_mode_def same_policy_journal_def records_step_def split: if_split_asm)
next
  case (PolAuthorizeFirst i stage leg max_mode_age valid_until t)
  then show ?thesis
    using assms pairpol_authorize_step by (auto simp: pairpol_apply_fresh.simps)
next
  case (PolAuthorizeHedge i stage max_mode_age valid_until t)
  then show ?thesis
    using assms pairpol_authorize_step by (auto simp: pairpol_apply_fresh.simps pairpol_authorize_hedge_def rbind_Inr_iff split: if_split_asm)
next
  case (PolObserveLeg i stage leg permit state sequence observed_at t)
  then show ?thesis
    using assms record_step.observed
    by (auto simp: pairpol_apply_fresh.simps same_policy_journal_def elim!: pairpol_observe_leg_step intro!: records_stepI [of cx _ stage s])
next
  case (PolExpire i stage t)
  then show ?thesis
    using assms record_step.expired
    by (auto simp: pairpol_apply_fresh.simps pairpol_expire_def rbind_Inr_iff ok_or_Inr_iff same_policy_journal_def intro!: records_stepI [of cx _ stage s])
next
  case (PolAbortSafe i stage t)
  then show ?thesis
    using assms pairpol_abort_step by (auto simp: pairpol_apply_fresh.simps)
qed

lemma pairpol_apply_new_Inr:
  assumes "pairpol_apply_new cx c digest s = (Inr d, s')"
  obtains d1 s1 where "pairpol_apply_fresh cx c s = Inr (d1, s1)"
    "d = d1\<lparr>yd_decision_digest := pairpol_decision_digest cx d1\<rparr>" "s' = pairpol_record c digest d (ye_accepted s1 + 1) s1"
  using assms
  by (auto simp: pairpol_apply_new_def Let_def checked_simps split: if_split_asm sum.split_asm option.split_asm)

interpretation pairpol_journal: plain_journal "pairpol_apply cx" pairpol_command_id "pairpol_content cx" ye_processed
  ye_accepted ye_halted pairpol_halt YHalted YIdempotencyConflict "pairpol_apply_new cx"
  for cx
proof unfold_locales
  fix c s d out s' e
  show "pairpol_apply cx c s = (case ye_halted s of Some reason \<Rightarrow> (Inl (YHalted reason), s)
      | None \<Rightarrow> (case None of Some e \<Rightarrow> (Inl e, pairpol_halt e s) | None \<Rightarrow> (case pairpol_content cx c of Inl e \<Rightarrow> (Inl e, s)
          | Inr d \<Rightarrow> (case bt_get (ye_processed s) (pairpol_command_id c) of
              Some (d', out) \<Rightarrow> if d' = d then (Inr out, s) else (Inl YIdempotencyConflict, pairpol_halt YIdempotencyConflict s)
            | None \<Rightarrow> pairpol_apply_new cx c d s))))"
    by (simp add: pairpol_apply_def split: option.split sum.split)
  show "ye_halted (pairpol_halt e s) \<noteq> None" "ye_processed (pairpol_halt e s) = ye_processed s"
      "ye_accepted (pairpol_halt e s) = ye_accepted s"
    by (simp_all add: pairpol_halt_def)
  show "ye_halted s = None \<Longrightarrow> pairpol_apply_new cx c d s = (Inr out, s')
      \<Longrightarrow> ye_processed s' = bt_insert (pairpol_command_id c) (d, out) (ye_processed s)
        \<and> ye_accepted s' = ye_accepted s + 1 \<and> ye_halted s' = None"
    by (auto simp: pairpol_record_def same_policy_journal_def elim!: pairpol_apply_new_Inr dest!: pairpol_fresh_step)
  show "pairpol_apply_new cx c d s = (Inl e, s') \<Longrightarrow> s' = s \<or> s' = pairpol_halt e s"
    by (auto simp: pairpol_apply_new_def Let_def split: if_split_asm sum.split_asm option.split_asm)
qed

section \<open>The record of a pair\<close>

abbreviation pairpol_after :: "pairpol_codec \<Rightarrow> pairpol_command list \<Rightarrow> pairpol" where
  "pairpol_after cx cs \<equiv> run_commands (pairpol_apply cx) cs pairpol_default"

lemma refresh_record_simps [simp]:
  "lp_first_leg (refresh_record cx r) = lp_first_leg r"
  "lp_legs (refresh_record cx r) = lp_legs r"
  "lp_permits (refresh_record cx r) = lp_permits r"
  "lp_aborted (refresh_record cx r) = lp_aborted r"
  "lp_stage_id (refresh_record cx r) = lp_stage_id r"
  "lp_ever_partially_matched (refresh_record cx r) = lp_ever_partially_matched r"
  by (simp_all add: refresh_record_def Let_def)

text \<open>A leg that can no longer change.\<close>

definition leg_final :: "leg_state \<Rightarrow> bool" where
  "leg_final l \<longleftrightarrow> l \<in> {LegFullyMatched, LegPartiallyMatchedTerminal, LegNoFillTerminal, LegExpired}"

lemma valid_leg_transition_final: "valid_leg_transition l l' b \<Longrightarrow> \<not> leg_final l \<and> l \<noteq> LegNotAuthorized \<and> l' \<noteq> LegNotAuthorized"
  by (cases l) (auto simp: leg_final_def)

definition hedged_properly :: "pair_record \<Rightarrow> nat \<Rightarrow> bool" where
  "hedged_properly r f \<longleftrightarrow> f \<le> 1 \<and> at_leg f (lp_legs r) \<noteq> LegNotAuthorized
     \<and> (case at_leg f (lp_permits r) of None \<Rightarrow> False | Some p \<Rightarrow> pm_role p = FirstLeg \<and> pm_leg_index p = f)
     \<and> (case at_leg (1 - f) (lp_permits r) of
          None \<Rightarrow> at_leg (1 - f) (lp_legs r) = LegNotAuthorized
        | Some p \<Rightarrow> pm_role p = HedgeLeg \<and> pm_leg_index p = 1 - f \<and> at_leg (1 - f) (lp_legs r) \<noteq> LegNotAuthorized
            \<and> at_leg f (lp_legs r) = LegFullyMatched)"

definition pair_ok :: "pair_record \<Rightarrow> bool" where
  "pair_ok r \<longleftrightarrow>
     (case lp_first_leg r of
        None \<Rightarrow> lp_legs r = (LegNotAuthorized, LegNotAuthorized) \<and> lp_permits r = (None, None)
      | Some f \<Rightarrow> hedged_properly r f)
     \<and> (lp_aborted r \<longrightarrow> safe_terminal (fst (lp_legs r)) \<and> safe_terminal (snd (lp_legs r)))"

text \<open>What a step of a record keeps.\<close>

definition pair_progress :: "pair_record \<Rightarrow> pair_record \<Rightarrow> bool" where
  "pair_progress r r' \<longleftrightarrow>
     (\<forall>n \<le> 1. (at_leg n (lp_permits r) \<noteq> None \<longrightarrow> at_leg n (lp_permits r') = at_leg n (lp_permits r))
        \<and> (leg_final (at_leg n (lp_legs r)) \<longrightarrow> at_leg n (lp_legs r') = at_leg n (lp_legs r)))
     \<and> (lp_first_leg r \<noteq> None \<longrightarrow> lp_first_leg r' = lp_first_leg r)
     \<and> (lp_aborted r \<longrightarrow> lp_aborted r' \<and> lp_legs r' = lp_legs r \<and> lp_permits r' = lp_permits r)"

lemma le_one_cases: "(n :: nat) \<le> 1 \<longleftrightarrow> n = 0 \<or> n = Suc 0"
  by auto

lemma all_le_one: "(\<forall>n \<le> (1 :: nat). P n) \<longleftrightarrow> P 0 \<and> P 1"
  by (simp add: le_Suc_eq all_conj_distrib)

lemma safe_terminal_final: "safe_terminal l \<Longrightarrow> leg_final l \<or> l = LegNotAuthorized"
  by (auto simp: leg_final_def safe_terminal_def)

lemma record_step_ok:
  assumes "record_step cx w i ro r'" and "\<And>r. ro = Some r \<Longrightarrow> pair_ok r"
  shows "pair_ok r'"
  using assms(1)
proof (cases rule: record_step.cases)
  case (staged stage)
  then show ?thesis by (simp add: pair_ok_def new_pair_record_def)
next
  case (licensed p r)
  then have "pair_ok r" using assms(2) by simp
  then show ?thesis
    using licensed
    by (cases "pm_role p"; cases "lp_first_leg r"; cases "pm_leg_index p = 0")
      (auto simp: pair_ok_def hedged_properly_def license_leg_def set_leg_def at_leg_def le_one_cases
        split: option.split_asm if_split_asm)
next
  case (observed leg state r p sequence observed_at)
  then have ok: "pair_ok r" using assms(2) by simp
  note l = valid_leg_transition_final [OF observed(6)]
  have "\<not> lp_aborted r"
    using ok l safe_terminal_final by (auto simp: pair_ok_def at_leg_def split: if_split_asm)
  then show ?thesis
    using ok l observed(2,4,5)
    by (cases "lp_first_leg r"; cases "leg = 0")
      (auto simp: pair_ok_def hedged_properly_def observed_leg_def set_leg_def at_leg_def le_one_cases leg_final_def
        split: option.split_asm if_split_asm)
next
  case (expired r at)
  then have "pair_ok r" using assms(2) by simp
  then show ?thesis
    unfolding expired
    by (cases "lp_first_leg r")
      (auto simp: pair_ok_def hedged_properly_def expire_leg_def leg_expires_def set_leg_def at_leg_def le_one_cases
        safe_terminal_def split: option.split_asm if_split_asm)
next
  case (aborted r)
  then have "pair_ok r" using assms(2) by simp
  then show ?thesis
    using aborted by (auto simp: pair_ok_def hedged_properly_def split: option.split)
qed

lemma record_step_progress:
  assumes "record_step cx w i (Some r) r'" and "pair_ok r"
  shows "pair_progress r r'"
  using assms(1)
proof (cases rule: record_step.cases)
  case (licensed p)
  then show ?thesis
    using assms(2) by (cases "lp_first_leg r"; cases "pm_role p"; cases "pm_leg_index p = 0")
      (auto simp: pair_progress_def all_le_one license_leg_def set_leg_def at_leg_def le_one_cases leg_final_def
        pair_ok_def hedged_properly_def split: option.split_asm if_split_asm)
next
  case (observed leg state p sequence observed_at)
  note l = valid_leg_transition_final [OF observed(5)]
  have "\<not> lp_aborted r"
    using assms(2) l safe_terminal_final by (auto simp: pair_ok_def at_leg_def split: if_split_asm)
  then show ?thesis
    using l observed(1,3) by (auto simp: pair_progress_def all_le_one observed_leg_def set_leg_def at_leg_def)
next
  case (expired at)
  then show ?thesis
    using assms(2)
    by (auto simp: pair_progress_def all_le_one expire_leg_def leg_expires_def set_leg_def at_leg_def leg_final_def
        pair_ok_def safe_terminal_def split: if_split_asm)
next
  case aborted
  then show ?thesis by (auto simp: pair_progress_def)
qed

lemma pair_progress_refl [simp]: "pair_progress r r"
  by (simp add: pair_progress_def)

lemma pair_progress_trans: "pair_progress r r1 \<Longrightarrow> pair_progress r1 r2 \<Longrightarrow> pair_progress r r2"
  unfolding pair_progress_def by metis

definition pairs_ok :: "pairpol \<Rightarrow> bool" where
  "pairs_ok s \<longleftrightarrow> (\<forall>i r. bt_get (ye_records s) i = Some r \<longrightarrow> pair_ok r)"

lemma records_step_ok: "records_step cx w s s' \<Longrightarrow> pairs_ok s \<Longrightarrow> pairs_ok s'"
  unfolding records_step_def pairs_ok_def
  by (elim disjE exE conjE) (auto simp: bt_get_insert intro: record_step_ok)

lemma records_step_progress:
  assumes "records_step cx w s s'" and "pairs_ok s" and "bt_get (ye_records s) i = Some r"
  shows "\<exists>r'. bt_get (ye_records s') i = Some r' \<and> pair_progress r r'"
  using assms(1) unfolding records_step_def
proof (elim disjE exE conjE)
  fix j q assume q: "record_step cx w j (bt_get (ye_records s) j) q" "ye_records s' = bt_insert j q (ye_records s)"
  show ?thesis
  proof (cases "j = i")
    case True
    then show ?thesis
      using q assms(2,3) by (auto simp: pairs_ok_def bt_get_insert intro: record_step_progress)
  next
    case False
    then show ?thesis using q(2) assms(3) by (simp add: bt_get_insert)
  qed
qed (use assms(3) in simp)

lemma pairpol_new_step: "pairpol_apply_new cx c digest s = (Inr d, s') \<Longrightarrow> records_step cx (leg_reported c) s s'"
  by (erule pairpol_apply_new_Inr) (drule pairpol_fresh_step, simp add: pairpol_record_def records_step_def)

lemma pairpol_step_records:
  assumes "pairpol_apply cx c s = (r, s')"
  shows "records_step cx (leg_reported c) s s'"
  using assms
  by (cases rule: pairpol_journal.step_shape) (auto simp: pairpol_halt_def records_step_refl dest: pairpol_new_step)

lemma pairs_ok_run: "pairs_ok s \<Longrightarrow> pairs_ok (run_commands (pairpol_apply cx) cs s)"
  by (rule run_commands_invariant [of pairs_ok]) (metis pairpol_step_records records_step_ok prod.collapse)+

lemma pairs_ok_default: "pairs_ok pairpol_default"
  by (simp add: pairs_ok_def pairpol_default_def)

lemmas pairs_ok_after = pairs_ok_run [OF pairs_ok_default]

lemma record_progress_run:
  assumes "pairs_ok s" and "bt_get (ye_records s) i = Some r"
  shows "\<exists>r'. bt_get (ye_records (run_commands (pairpol_apply cx) cs s)) i = Some r' \<and> pair_progress r r'"
proof -
  let ?P = "\<lambda>s. pairs_ok s \<and> (\<exists>r'. bt_get (ye_records s) i = Some r' \<and> pair_progress r r')"
  have "?P (run_commands (pairpol_apply cx) cs s)"
  proof (rule run_commands_invariant [of ?P])
    show "?P s" using assms by auto
    fix c t assume t: "?P t"
    obtain x t' where "pairpol_apply cx c t = (x, t')" by fastforce
    then have "records_step cx (leg_reported c) t (snd (pairpol_apply cx c t))"
      by (simp add: pairpol_step_records)
    then show "?P (snd (pairpol_apply cx c t))"
      using t records_step_ok [of cx _ t] records_step_progress [of cx _ t _ i] pair_progress_trans [of r] by blast
  qed
  then show ?thesis by blast
qed

section \<open>Properties\<close>

text \<open>The hedge follows the first leg: in every reachable policy, a leg that holds a hedge permit has a first
  leg beside it that holds the permit of a first leg and is fully matched; so the two legs of a pair are never at risk
  at the same time, and no leg but the first is ever licensed before the first is filled.\<close>
theorem hedge_follows_first_leg:
  assumes "bt_get (ye_records (pairpol_after cx cs)) stage = Some r" and "leg \<le> 1"
    and "at_leg leg (lp_permits r) = Some p" and "lp_first_leg r \<noteq> Some leg"
  shows "pm_role p = HedgeLeg \<and> lp_first_leg r = Some (1 - leg) \<and> at_leg (1 - leg) (lp_legs r) = LegFullyMatched
    \<and> (\<exists>q. at_leg (1 - leg) (lp_permits r) = Some q \<and> pm_role q = FirstLeg)"
proof -
  have "pair_ok r"
    using pairs_ok_after assms(1) by (auto simp: pairs_ok_def)
  then obtain f where f: "lp_first_leg r = Some f" "hedged_properly r f"
    using assms(2,3) by (cases "lp_first_leg r") (auto simp: pair_ok_def at_leg_def split: if_split_asm)
  have "f = 1 - leg" "1 - f = leg"
    using f assms(2,4) by (auto simp: hedged_properly_def le_one_cases)
  then show ?thesis
    using f assms(3) by (auto simp: hedged_properly_def split: option.split_asm)
qed

text \<open>An aborted pair is closed for good: once a pair is aborted, none of its legs is exposed and in every later
  state it is still aborted with the same legs and the same permits; and a leg that was finished, in whatever pair, stays as it is
  and keeps its permit.\<close>
theorem closed_pairs_stay_closed:
  assumes "s = pairpol_after cx cs" and "bt_get (ye_records s) stage = Some r"
  shows "\<exists>r'. bt_get (ye_records (run_commands (pairpol_apply cx) ds s)) stage = Some r'
    \<and> (lp_aborted r \<longrightarrow> lp_aborted r' \<and> lp_legs r' = lp_legs r \<and> lp_permits r' = lp_permits r
         \<and> \<not> possible_fill (fst (lp_legs r)) \<and> \<not> possible_fill (snd (lp_legs r)))
    \<and> (\<forall>n \<le> 1. leg_final (at_leg n (lp_legs r)) \<longrightarrow> at_leg n (lp_legs r') = at_leg n (lp_legs r))
    \<and> (\<forall>n \<le> 1. at_leg n (lp_permits r) \<noteq> None \<longrightarrow> at_leg n (lp_permits r') = at_leg n (lp_permits r))"
proof -
  have ok: "pairs_ok s"
    unfolding assms(1) by (rule pairs_ok_after)
  then have "pair_ok r"
    using assms(2) by (simp add: pairs_ok_def)
  then show ?thesis
    using record_progress_run [OF ok assms(2), of cx ds]
    by (auto simp: pair_progress_def pair_ok_def possible_fill_def safe_terminal_def)
qed

end
