(* ===== verification/Paired_Execution_Theorems.thy ===== *)
theory Paired_Execution_Theorems
  imports Paired_Execution Paired_Policy_Theorems
begin

text \<open>
  What the paired execution guarantees. A paired order is a paper order under another permit, so the
  invariants of the single-order engine carry over along \<open>plain_order\<close>; the orders agree with the records of
  the policy below, and a hedge order stands beside a filled first order.
\<close>

section \<open>A paired order is a paper order\<close>

text \<open>The order of the single-order engine that a paired order amounts to, and the codec under which that engine
  makes the same hand-offs: its hash puts the paired domain in front, and gives the digest of the observation.\<close>

definition plain_order :: "placement_request \<Rightarrow> paired_order \<Rightarrow> paper_order" where
  "plain_order r x = \<lparr>po_placement = r\<lparr>pl_order := pm_order (xo_permit x)\<rparr>, po_local_submission_id = xo_local_submission_id x,
     po_placement_policy_digest = pm_permit_digest (xo_permit x), po_exchange_order_id = xo_exchange_order_id x,
     po_state = xo_state x, po_last_source_sequence = xo_last_source_sequence x, po_last_event_time = xo_last_event_time x,
     po_last_received_time = xo_last_received_time x, po_cumulative_quantity = xo_cumulative_quantity x,
     po_cumulative_consideration = xo_cumulative_consideration x, po_cumulative_fee = xo_cumulative_fee x,
     po_fills = xo_fills x, po_handoffs = xo_handoffs x\<rparr>"

definition single_codec :: "pairexec_codec \<Rightarrow> bytes32 \<Rightarrow> exec_codec \<Rightarrow> exec_codec" where
  "single_codec cx digest xc = xc\<lparr>xc_observation_json := \<lambda>_. Inr [],
     xc_policy := (xc_policy xc)\<lparr>pc_risk := (pc_risk (xc_policy xc))
       \<lparr>kc_blake3 := \<lambda>bytes. if bytes = [] then digest else fc_blake3 cx (''paired-'' @ bytes)\<rparr>\<rparr>\<rparr>"

lemma plain_order_simps [simp]:
  "pl_order (po_placement (plain_order r x)) = pm_order (xo_permit x)"
  "po_placement_policy_digest (plain_order r x) = pm_permit_digest (xo_permit x)"
  "po_exchange_order_id (plain_order r x) = xo_exchange_order_id x"
  "po_state (plain_order r x) = xo_state x"
  "po_last_source_sequence (plain_order r x) = xo_last_source_sequence x"
  "po_last_event_time (plain_order r x) = xo_last_event_time x"
  "po_last_received_time (plain_order r x) = xo_last_received_time x"
  "po_cumulative_quantity (plain_order r x) = xo_cumulative_quantity x"
  "po_cumulative_consideration (plain_order r x) = xo_cumulative_consideration x"
  "po_cumulative_fee (plain_order r x) = xo_cumulative_fee x"
  "po_fills (plain_order r x) = xo_fills x"
  "po_handoffs (plain_order r x) = xo_handoffs x"
  by (simp_all add: plain_order_def)

lemma plain_order_update:
  "plain_order r (x\<lparr>xo_state := st\<rparr>) = (plain_order r x)\<lparr>po_state := st\<rparr>"
  "plain_order r (x\<lparr>xo_exchange_order_id := i\<rparr>) = (plain_order r x)\<lparr>po_exchange_order_id := i\<rparr>"
  by (simp_all add: plain_order_def)

lemma same_intent_id: "exec_intent_id (single_codec cx g xc) fill_id order_id = pair_intent_id cx fill_id order_id"
  by (simp add: exec_intent_id_def pair_intent_id_def single_codec_def)

lemma same_fill_intent: "fill_intent (single_codec cx g xc) (plain_order r x) i f = pair_fill_intent cx x i f"
  by (simp add: fill_intent_def pair_fill_intent_def same_intent_id)

lemma same_text: "pairexec_validate_text t = Inr () \<Longrightarrow> exec_validate_text t = Inr ()"
  by (simp add: pairexec_validate_text_def exec_validate_text_def split: if_split_asm)

lemma same_limit: "pair_fill_within_limit v f = Inr () \<Longrightarrow> fill_within_limit v f = Inr ()"
  by (cases "oe_side v")
    (auto simp: pair_fill_within_limit_def fill_within_limit_def pairexec_div_ceil_def exec_div_ceil_def rbind_Inr_iff
      ok_or_Inr_iff split: if_split_asm)

lemma same_fill_check: "pair_validate_fill x f fully = Inr () \<Longrightarrow> validate_fill (plain_order r x) f fully = Inr ()"
  by (auto simp: pair_validate_fill_def validate_fill_def rbind_Inr_iff Let_def same_text same_limit split: if_split_asm)

lemma same_set_active:
  "pair_set_active x a = Inr x' \<Longrightarrow> set_active (plain_order r x) a = Inr (plain_order r x')"
  by (auto simp: pair_set_active_def set_active_def plain_order_update split: order_state.split_asm)

lemma same_match:
  assumes "pair_apply_match cx x v f fully g = Inr (h, x')"
  shows "apply_match (single_codec cx g xc) (plain_order r x) v f fully g = Inr (h, plain_order r x')"
proof -
  obtain i where i: "xo_exchange_order_id x = Some i" "\<not> is_terminal_state (xo_state x)" "\<not> bt_contains (xo_fills x) (mf_fill_id f)"
      "\<not> list_ex (\<lambda>e. mf_ledger_command_id (snd e) = mf_ledger_command_id f) (xo_fills x)"
      "\<not> too_early (xo_state x) (eo_event_time v)" "pair_validate_fill x f fully = Inr ()"
    using assms by (auto simp: pair_apply_match_def rbind_Inr_iff ok_or_Inr_iff split: if_split_asm)
  define k where "k = \<lparr>hf_intent = pair_fill_intent cx x i f, hf_source_sequence = eo_source_sequence v,
    hf_placement_policy_digest = pm_permit_digest (xo_permit x), hf_source_observation_digest = g\<rparr>"
  define y where "y = x\<lparr>xo_cumulative_quantity := mf_cumulative_quantity f, xo_cumulative_consideration := mf_cumulative_consideration f,
    xo_cumulative_fee := mf_cumulative_fee f, xo_fills := bt_insert (mf_fill_id f) f (xo_fills x), xo_handoffs := xo_handoffs x @ [k]\<rparr>"
  have y: "(if fully then Inr (k, y\<lparr>xo_state := XFullyMatched\<rparr>) else rbind (pair_set_active y XPartiallyMatched) (\<lambda>y. Inr (k, y))) = Inr (h, x')"
    using assms i unfolding k_def y_def by (simp add: pair_apply_match_def pair_require_exchange_id_def Let_def)
  have p: "(plain_order r x)\<lparr>po_cumulative_quantity := mf_cumulative_quantity f, po_cumulative_consideration := mf_cumulative_consideration f,
    po_cumulative_fee := mf_cumulative_fee f, po_fills := bt_insert (mf_fill_id f) f (xo_fills x), po_handoffs := xo_handoffs x @ [k]\<rparr>
    = plain_order r y"
    by (simp add: plain_order_def y_def)
  have "apply_match (single_codec cx g xc) (plain_order r x) v f fully g
      = (if fully then Inr (k, (plain_order r y)\<lparr>po_state := XFullyMatched\<rparr>)
         else rbind (set_active (plain_order r y) XPartiallyMatched) (\<lambda>y. Inr (k, y)))"
    using i same_fill_check [OF i(6)] unfolding p [symmetric] k_def
    by (simp add: apply_match_def require_exchange_id_def Let_def same_fill_intent)
  then show ?thesis
    using y by (auto simp: plain_order_update rbind_Inr_iff same_set_active split: if_split_asm)
qed

lemma same_observation:
  assumes "pair_apply_observation cx x v g = Inr (h, x')"
  shows "apply_observation (single_codec cx g xc) (plain_order r x) v g = Inr (h, plain_order r x')"
  using assms
  by (cases "eo_event v")
    (auto simp: pair_apply_observation_def apply_observation_def rbind_Inr_iff pair_moved_def moved_def same_match same_set_active
      pair_require_exchange_id_def require_exchange_id_def pair_require_active_def require_active_transition_def
      same_text plain_order_update split: if_split_asm option.split_asm order_state.split_asm)

lemma same_bind:
  assumes "pair_bind_exchange_id x i = Inr x'"
  shows "bind_exchange_order_id (plain_order r x) i = Inr (plain_order r x')"
  using assms
  by (cases i; cases "xo_exchange_order_id x")
    (auto simp: pair_bind_exchange_id_def bind_exchange_order_id_def rbind_Inr_iff same_text plain_order_update split: if_split_asm)

lemma observed_paired_order:
  assumes "observe_paired_order cx x v at = Inr (h, x')"
  shows "\<exists>bytes. fc_observation_json cx v = Inr bytes
      \<and> observe_order (single_codec cx (fc_blake3 cx bytes) xc) (plain_order r x) v = Inr (h, plain_order r x')"
    and "xo_permit x' = xo_permit x"
proof -
  obtain y bytes z where o: "fc_observation_json cx v = Inr bytes"
      "pair_validate_observation x v at = Inr ()" "pair_bind_exchange_id x (eo_exchange_order_id v) = Inr y"
      "pair_apply_observation cx y v (fc_blake3 cx bytes) = Inr (h, z)"
      "x' = z\<lparr>xo_last_source_sequence := Some (eo_source_sequence v),
              xo_last_event_time := Some (eo_event_time v), xo_last_received_time := Some (eo_received_time v)\<rparr>"
    using assms
    by (cases "fc_observation_json cx v") (auto simp: observe_paired_order_def rbind_Inr_iff split: if_split_asm)
  have "validate_source_history (plain_order r x) v = Inr ()"
    using o(2) by (auto simp: pair_validate_observation_def validate_source_history_def split: if_split_asm)
  moreover have "seen v (plain_order r z) = plain_order r x'"
    by (simp add: o(5) plain_order_def)
  ultimately show "\<exists>bytes. fc_observation_json cx v = Inr bytes
      \<and> observe_order (single_codec cx (fc_blake3 cx bytes) xc) (plain_order r x) v = Inr (h, plain_order r x')"
    using same_bind [OF o(3), of r] same_observation [OF o(4), of xc r] o(1)
    by (intro exI [of _ bytes]) (simp add: observe_order_def single_codec_def)
  have "xo_permit z = xo_permit y"
    using o(4)
    by (auto simp: pair_apply_observation_def pair_apply_match_def pair_moved_def pair_set_active_def rbind_Inr_iff Let_def
        split: exchange_event.split_asm if_split_asm order_state.split_asm)
  moreover have "xo_permit y = xo_permit x"
    using o(3) by (auto simp: pair_bind_exchange_id_def rbind_Inr_iff split: option.split_asm if_split_asm)
  ultimately show "xo_permit x' = xo_permit x"
    by (simp add: o(5))
qed

section \<open>The engine\<close>

lemma pairexec_policy_apply_Inr:
  "pairexec_policy_apply cx c s = Inr (d, s') \<longleftrightarrow>
     (\<exists>p. pairpol_apply (fc_policy cx) c (fe_policy s) = (Inr d, p) \<and> s' = s\<lparr>fe_policy := p\<rparr>)"
  by (auto simp: pairexec_policy_apply_def split: prod.split sum.split)

text \<open>The steps that an accepted operation is made of: the policy below, a new order, a changed order.\<close>

lemma sync_policy_Inr:
  assumes "sync_policy cx i p state sequence observed_at at s = Inr s'"
  obtains q where "s' = s\<lparr>fe_policy := q\<rparr>"
    "records_step (fc_policy cx) (Some (pm_stage_id p, pm_leg_index p, state)) (fe_policy s) q"
  using assms pairpol_step_records
  by (fastforce simp: sync_policy_def rbind_Inr_iff pairexec_policy_apply_Inr split: if_split_asm)

lemma pairexec_policy_Inr:
  assumes "pairexec_policy cx i c at s = Inr (d, s')"
  obtains q where "s' = s\<lparr>fe_policy := q\<rparr>" "records_step (fc_policy cx) None (fe_policy s) q"
proof -
  obtain e q where q: "pairpol_apply (fc_policy cx) c (fe_policy s) = (Inr e, q)" "s' = s\<lparr>fe_policy := q\<rparr>" "\<not> is_observe_leg c"
    using assms by (auto simp: pairexec_policy_def rbind_Inr_iff pairexec_policy_apply_Inr split: if_split_asm)
  have "leg_reported c = None"
    using q(3) by (cases c) auto
  then show ?thesis
    using that [OF q(2)] pairpol_step_records [OF q(1)] by simp
qed

lemma pairexec_submit_Inr:
  assumes "pairexec_submit cx i p local_id at s = Inr (d, s')"
  obtains (denied) "s' = s"
  | (submitted) q where "pair_submit_denial cx p at s = None"
      "records_step (fc_policy cx) (Some (pm_stage_id p, pm_leg_index p, LegSubmitted)) (fe_policy s) q"
      "s' = s\<lparr>fe_used_permits := bs_insert (pm_permit_digest p) (fe_used_permits s),
        fe_orders := bt_insert (pm_stage_id p, pm_leg_index p) (new_paired_order p local_id) (fe_orders s), fe_policy := q\<rparr>"
proof (cases "pair_submit_denial cx p at s")
  case None
  then show ?thesis
    using assms submitted by (auto simp: pairexec_submit_def Let_def rbind_Inr_iff elim!: sync_policy_Inr)
next
  case (Some reason)
  then show ?thesis using assms denied by (simp add: pairexec_submit_def Let_def)
qed

lemma pairexec_cancel_cases:
  assumes "pairexec_cancel i stage leg at s = (d, s')"
  obtains (denied) "s' = s"
  | (cancelling) x a where "bt_get (fe_orders s) (stage, leg) = Some x" "xo_state x = XActive a"
      "s' = s\<lparr>fe_orders := bt_insert (stage, leg) (x\<lparr>xo_state := XCancelPending a\<rparr>) (fe_orders s)\<rparr>"
proof (cases "bt_get (fe_orders s) (stage, leg)")
  case None
  then show ?thesis using assms denied by (simp add: pairexec_cancel_def)
next
  case (Some x)
  show ?thesis
  proof (cases "pair_cancel_denied (xo_state x) at")
    case True
    then show ?thesis using assms Some denied by (simp add: pairexec_cancel_def)
  next
    case False
    then obtain a where "xo_state x = XActive a"
      by (cases "xo_state x") (auto simp: pair_cancel_denied_def)
    then show ?thesis
      using assms Some False by (intro cancelling [of x a]) (simp_all add: pairexec_cancel_def Let_def)
  qed
qed

lemma note_handoff_Inr:
  assumes "note_handoff cx h s = Inr s'"
  shows "case h of None \<Rightarrow> s' = s
    | Some k \<Rightarrow> \<not> bs_mem (ti_ledger_command_id (hf_intent k)) (fe_ledger_command_ids s)
        \<and> (\<exists>g. s' = s\<lparr>fe_handoff_digests := bs_insert g (fe_handoff_digests s),
            fe_ledger_command_ids := bs_insert (ti_ledger_command_id (hf_intent k)) (fe_ledger_command_ids s)\<rparr>)"
  using assms by (cases h) (auto simp: note_handoff_def rbind_Inr_iff split: if_split_asm)

lemma pairexec_observe_Inr:
  assumes "pairexec_observe cx i stage leg v at s = Inr (d, s')"
  obtains x h x' s1 q where "bt_get (fe_orders s) (stage, leg) = Some x" "observe_paired_order cx x v at = Inr (h, x')"
    "note_handoff cx h (s\<lparr>fe_orders := bt_insert (stage, leg) x' (fe_orders s)\<rparr>) = Inr s1"
    "records_step (fc_policy cx) (Some (pm_stage_id (xo_permit x'), pm_leg_index (xo_permit x'), policy_state_for x' (eo_event v)))
       (fe_policy s1) q" "s' = s1\<lparr>fe_policy := q\<rparr>"
  using assms
  by (auto simp: pairexec_observe_def rbind_Inr_iff ok_or_Inr_iff elim!: sync_policy_Inr)

lemma pairexec_fresh_frame:
  assumes "pairexec_apply_fresh cx c s = Inr (d, s')"
  shows "fe_processed s' = fe_processed s \<and> fe_accepted s' = fe_accepted s \<and> fe_halted s' = fe_halted s"
proof (cases c)
  case (PxPolicy i p t)
  then show ?thesis using assms by (auto elim!: pairexec_policy_Inr)
next
  case (PxSubmit i p local_id t)
  then show ?thesis using assms by (auto elim!: pairexec_submit_Inr)
next
  case (PxCancel i stage leg t)
  then have "pairexec_cancel i stage leg t s = (d, s')" using assms by simp
  then show ?thesis by (cases rule: pairexec_cancel_cases) auto
next
  case (PxObserve i stage leg v t)
  then have "pairexec_observe cx i stage leg v t s = Inr (d, s')" using assms by simp
  then show ?thesis
    by (rule pairexec_observe_Inr) (drule note_handoff_Inr, auto split: option.split_asm)
qed

lemma pairexec_apply_new_Inr:
  assumes "pairexec_apply_new cx c digest s = (Inr d, s')"
  obtains d1 s1 where "pairexec_apply_fresh cx c s = Inr (d1, s1)"
    "d = d1\<lparr>fd_decision_digest := pairexec_decision_digest cx d1\<rparr>" "s' = pairexec_record c digest d (fe_accepted s1 + 1) s1"
  using assms
  by (auto simp: pairexec_apply_new_def Let_def checked_simps simp del: pairexec_apply_fresh.simps
      split: if_split_asm sum.split_asm option.split_asm)

declare pairexec_apply_fresh.simps [simp del]

interpretation pairexec_journal: plain_journal "pairexec_apply cx" pairexec_command_id "pairexec_content cx" fe_processed
  fe_accepted fe_halted pairexec_halt FHalted FIdempotencyConflict "pairexec_apply_new cx"
  for cx
proof unfold_locales
  fix c s d out s' e
  show "pairexec_apply cx c s = (case fe_halted s of Some reason \<Rightarrow> (Inl (FHalted reason), s)
      | None \<Rightarrow> (case None of Some e \<Rightarrow> (Inl e, pairexec_halt e s) | None \<Rightarrow> (case pairexec_content cx c of Inl e \<Rightarrow> (Inl e, s)
          | Inr d \<Rightarrow> (case bt_get (fe_processed s) (pairexec_command_id c) of
              Some (d', out) \<Rightarrow> if d' = d then (Inr out, s) else (Inl FIdempotencyConflict, pairexec_halt FIdempotencyConflict s)
            | None \<Rightarrow> pairexec_apply_new cx c d s))))"
    by (simp add: pairexec_apply_def split: option.split sum.split)
  show "fe_halted (pairexec_halt e s) \<noteq> None" "fe_processed (pairexec_halt e s) = fe_processed s"
      "fe_accepted (pairexec_halt e s) = fe_accepted s"
    by (simp_all add: pairexec_halt_def)
  show "fe_halted s = None \<Longrightarrow> pairexec_apply_new cx c d s = (Inr out, s')
      \<Longrightarrow> fe_processed s' = bt_insert (pairexec_command_id c) (d, out) (fe_processed s)
        \<and> fe_accepted s' = fe_accepted s + 1 \<and> fe_halted s' = None"
    by (auto simp: pairexec_record_def elim!: pairexec_apply_new_Inr dest!: pairexec_fresh_frame)
  show "pairexec_apply_new cx c d s = (Inl e, s') \<Longrightarrow> s' = s \<or> s' = pairexec_halt e s"
    by (auto simp: pairexec_apply_new_def Let_def split: if_split_asm sum.split_asm option.split_asm)
qed

section \<open>Orders and permits\<close>

abbreviation pairexec_after :: "pairexec_codec \<Rightarrow> pairexec_command list \<Rightarrow> pairexec" where
  "pairexec_after cx cs \<equiv> run_commands (pairexec_apply cx) cs pairexec_default"

text \<open>An order stands under its stage and leg with the permit that the policy keeps for them, and as a paper order.\<close>

definition paired_order_ok :: "pairexec \<Rightarrow> order_key \<Rightarrow> paired_order \<Rightarrow> bool" where
  "paired_order_ok s k x \<longleftrightarrow> snd k \<le> 1 \<and> pm_stage_id (xo_permit x) = fst k \<and> pm_leg_index (xo_permit x) = snd k
     \<and> (\<exists>r. bt_get (ye_records (fe_policy s)) (fst k) = Some r \<and> at_leg (snd k) (lp_permits r) = Some (xo_permit x))
     \<and> (\<forall>r. order_ok (plain_order r x))"

definition matched_legs_ok :: "pairexec \<Rightarrow> bool" where
  "matched_legs_ok s \<longleftrightarrow> (\<forall>i r n. bt_get (ye_records (fe_policy s)) i = Some r \<longrightarrow> n \<le> 1 \<longrightarrow> at_leg n (lp_legs r) = LegFullyMatched
     \<longrightarrow> (\<exists>x. bt_get (fe_orders s) (i, n) = Some x \<and> xo_state x = XFullyMatched))"

definition order_ledger_ids :: "paired_order \<Rightarrow> command_id set" where
  "order_ledger_ids x = (\<lambda>h. ti_ledger_command_id (hf_intent h)) ` set (xo_handoffs x)"

definition handoff_ids_ok :: "pairexec \<Rightarrow> bool" where
  "handoff_ids_ok s \<longleftrightarrow>
     (\<forall>k x. bt_get (fe_orders s) k = Some x \<longrightarrow> (\<forall>i \<in> order_ledger_ids x. bs_mem i (fe_ledger_command_ids s)))
     \<and> (\<forall>j x k y. bt_get (fe_orders s) j = Some x \<longrightarrow> bt_get (fe_orders s) k = Some y \<longrightarrow> j \<noteq> k
        \<longrightarrow> order_ledger_ids x \<inter> order_ledger_ids y = {})"

definition paired_ok :: "pairexec \<Rightarrow> bool" where
  "paired_ok s \<longleftrightarrow> pairs_ok (fe_policy s) \<and> (\<forall>k x. bt_get (fe_orders s) k = Some x \<longrightarrow> paired_order_ok s k x)
     \<and> matched_legs_ok s \<and> handoff_ids_ok s"

lemma paired_okD: "paired_ok s \<Longrightarrow> bt_get (fe_orders s) k = Some x \<Longrightarrow> paired_order_ok s k x"
  by (simp only: paired_ok_def)

lemma paired_ok_known: "paired_ok s \<Longrightarrow> bt_get (fe_orders s) k = Some x \<Longrightarrow> i \<in> order_ledger_ids x
    \<Longrightarrow> bs_mem i (fe_ledger_command_ids s)"
  unfolding paired_ok_def handoff_ids_ok_def by blast

lemma record_step_matched:
  assumes "record_step cx w i ro r'" and "n \<le> 1" and "at_leg n (lp_legs r') = LegFullyMatched"
  shows "(\<exists>r. ro = Some r \<and> at_leg n (lp_legs r) = LegFullyMatched) \<or> w = Some (i, n, LegFullyMatched)"
  using assms(1)
proof (cases rule: record_step.cases)
  case (staged stage)
  then show ?thesis using assms(3) by (simp add: new_pair_record_def at_leg_def split: if_split_asm)
next
  case (licensed p r)
  then show ?thesis
    using assms(2,3) by (auto simp: license_leg_def at_set_leg split: if_split_asm)
next
  case (observed leg state r p sequence observed_at)
  then show ?thesis
    using assms(2,3) by (auto simp: observed_leg_def at_set_leg split: if_split_asm)
next
  case (expired r at)
  then show ?thesis
    using assms(2,3) by (auto simp: expire_leg_def at_set_leg leg_expires_def split: if_split_asm)
next
  case (aborted r)
  then show ?thesis using assms(3) by simp
qed

lemma records_step_matched:
  assumes "records_step cx w p q" and "bt_get (ye_records q) i = Some r'" and "n \<le> 1" and "at_leg n (lp_legs r') = LegFullyMatched"
  shows "(\<exists>r. bt_get (ye_records p) i = Some r \<and> at_leg n (lp_legs r) = LegFullyMatched) \<or> w = Some (i, n, LegFullyMatched)"
  using assms(1) unfolding records_step_def
proof (elim disjE exE conjE)
  fix j u assume u: "record_step cx w j (bt_get (ye_records p) j) u" "ye_records q = bt_insert j u (ye_records p)"
  show ?thesis
  proof (cases "i = j")
    case True
    then show ?thesis using record_step_matched [OF u(1) assms(3)] assms(2,4) u(2) by (simp add: bt_get_insert)
  next
    case False
    then show ?thesis using assms(2,4) u(2) by (simp add: bt_get_insert)
  qed
qed (use assms(2,4) in simp)

text \<open>A step of the policy alone.\<close>

lemma policy_step_orders:
  assumes "records_step cx w (fe_policy s) q" and "pairs_ok (fe_policy s)" and "paired_order_ok s k x"
  shows "paired_order_ok (s\<lparr>fe_policy := q\<rparr>) k x"
proof -
  obtain r where r: "bt_get (ye_records (fe_policy s)) (fst k) = Some r" "at_leg (snd k) (lp_permits r) = Some (xo_permit x)"
    using assms(3) by (auto simp: paired_order_ok_def)
  obtain r' where "bt_get (ye_records q) (fst k) = Some r'" "pair_progress r r'"
    using records_step_progress [OF assms(1,2) r(1)] by blast
  then show ?thesis
    using assms(3) r by (auto simp: paired_order_ok_def pair_progress_def)
qed

lemma paired_order_ok_cong: "fe_policy s' = fe_policy s \<Longrightarrow> paired_order_ok s' k x = paired_order_ok s k x"
  by (simp add: paired_order_ok_def)

lemma policy_step_ok:
  assumes "paired_ok s" and "records_step cx w (fe_policy s) q"
    and "\<And>i n. w = Some (i, n, LegFullyMatched) \<Longrightarrow> \<exists>x. bt_get (fe_orders s) (i, n) = Some x \<and> xo_state x = XFullyMatched"
  shows "paired_ok (s\<lparr>fe_policy := q\<rparr>)"
proof -
  have "matched_legs_ok (s\<lparr>fe_policy := q\<rparr>)"
    using assms(1,3) records_step_matched [OF assms(2)] unfolding paired_ok_def matched_legs_ok_def by simp metis
  moreover have "handoff_ids_ok (s\<lparr>fe_policy := q\<rparr>)"
    using assms(1) by (simp add: paired_ok_def handoff_ids_ok_def)
  ultimately show ?thesis
    using assms(1) records_step_ok [OF assms(2)] policy_step_orders [OF assms(2)] by (auto simp: paired_ok_def)
qed

text \<open>A new or changed order, with the policy as it is.\<close>

lemma observed_order_ok:
  assumes "paired_ok s" and "paired_order_ok s k x"
    and "\<And>y. bt_get (fe_orders s) k = Some y \<Longrightarrow> xo_state y = XFullyMatched \<Longrightarrow> xo_state x = XFullyMatched"
    and "s' = s\<lparr>fe_orders := bt_insert k x (fe_orders s), fe_used_permits := u, fe_handoff_digests := g, fe_ledger_command_ids := ids\<rparr>"
    and "\<And>i. bs_mem i (fe_ledger_command_ids s) \<Longrightarrow> bs_mem i ids"
    and "\<And>i. i \<in> order_ledger_ids x \<Longrightarrow> bs_mem i ids
      \<and> (\<not> bs_mem i (fe_ledger_command_ids s) \<or> (\<exists>y. bt_get (fe_orders s) k = Some y \<and> i \<in> order_ledger_ids y))"
  shows "paired_ok s'"
proof -
  have "matched_legs_ok s'"
    using assms(1,3) unfolding paired_ok_def matched_legs_ok_def assms(4) by (simp add: bt_get_insert) metis
  moreover have "handoff_ids_ok s'"
  proof -
    have ids: "handoff_ids_ok s" using assms(1) by (simp add: paired_ok_def)
    then have other: "order_ledger_ids x \<inter> order_ledger_ids y = {}" if "j \<noteq> k" "bt_get (fe_orders s) j = Some y" for j y
      using assms(6) that unfolding handoff_ids_ok_def by blast
    show ?thesis
      using ids assms(5,6) other other [unfolded Int_commute [of "order_ledger_ids x"]]
      unfolding handoff_ids_ok_def assms(4) by (auto simp: bt_get_insert)
  qed
  moreover have "paired_order_ok s' j y = paired_order_ok s j y" for j y
    by (rule paired_order_ok_cong) (simp add: assms(4))
  ultimately show ?thesis
    using assms(1,2) by (auto simp: paired_ok_def assms(4) bt_get_insert)
qed


lemma new_paired_order_simps [simp]:
  "xo_permit (new_paired_order p i) = p" "xo_state (new_paired_order p i) = XActive XSubmitted"
  "xo_handoffs (new_paired_order p i) = []"
  by (simp_all add: new_paired_order_def)

lemma new_paired_order_ok: "order_ok (plain_order r (new_paired_order p i))"
proof -
  have "plain_order r (new_paired_order p i) = new_paper_order (r\<lparr>pl_order := pm_order p\<rparr>) i (pm_permit_digest p)"
    by (simp add: plain_order_def new_paired_order_def new_paper_order_def)
  then show ?thesis by (simp add: new_order_ok)
qed

lemma submitted_ok:
  assumes "paired_ok s" and "pair_submit_denial cx p at s = None"
    and "s' = s\<lparr>fe_used_permits := u, fe_orders := bt_insert (pm_stage_id p, pm_leg_index p) (new_paired_order p i) (fe_orders s)\<rparr>"
  shows "paired_ok s'"
proof -
  have p: "pm_leg_index p \<le> 1" "pair_permit_current p s" "bt_get (fe_orders s) (pm_stage_id p, pm_leg_index p) = None"
    using assms(2) by (auto simp: pair_submit_denial_def bt_contains_def split: if_split_asm)
  then have "paired_order_ok s (pm_stage_id p, pm_leg_index p) (new_paired_order p i)"
    by (auto simp: paired_order_ok_def pair_permit_current_def new_paired_order_ok split: option.split_asm)
  then show ?thesis
    by (rule observed_order_ok [OF assms(1), where u = u and g = "fe_handoff_digests s" and ids = "fe_ledger_command_ids s"])
      (use p(3) in \<open>simp_all add: assms(3) order_ledger_ids_def\<close>)
qed

lemma cancelling_ok:
  assumes "paired_ok s" and "bt_get (fe_orders s) k = Some x" and "xo_state x = XActive a"
    and "s' = s\<lparr>fe_orders := bt_insert k (x\<lparr>xo_state := XCancelPending a\<rparr>) (fe_orders s)\<rparr>"
  shows "paired_ok s'"
proof -
  let ?x = "x\<lparr>xo_state := XCancelPending a\<rparr>"
  have ok: "paired_order_ok s k x"
    using assms(1,2) by (rule paired_okD)
  have "order_ok (plain_order r ?x)" for r
  proof -
    have "order_ok (plain_order r x)" using ok by (simp add: paired_order_ok_def)
    then show ?thesis
      using fills_ok_cong [of "plain_order r x" "plain_order r ?x"] handoffs_ok_cong [of "plain_order r x" "plain_order r ?x"] assms(3)
      by (simp add: order_ok_def exchange_id_ok_def plain_order_update)
  qed
  then have "paired_order_ok s k ?x"
    using ok by (simp add: paired_order_ok_def)
  then show ?thesis
    by (rule observed_order_ok [OF assms(1), where u = "fe_used_permits s" and g = "fe_handoff_digests s" and ids = "fe_ledger_command_ids s"])
      (use assms paired_ok_known [OF assms(1,2)] in \<open>auto simp: order_ledger_ids_def\<close>)
qed

lemma matched_event:
  assumes "observe_paired_order cx x v at = Inr (h, x')" and "policy_state_for x' (eo_event v) = LegFullyMatched"
  shows "xo_state x' = XFullyMatched"
proof -
  have "\<exists>f. eo_event v = EvMatch f True"
  proof (cases "eo_event v")
    case EvCancelRejected
    have "resumed_leg a \<noteq> LegFullyMatched" for a
      by (cases a rule: resumed_leg.cases) auto
    then show ?thesis using assms(2) EvCancelRejected by (simp add: policy_state_for_def)
  qed (use assms(2) in \<open>auto simp: policy_state_for_def Let_def split: if_split_asm\<close>)
  then show ?thesis
    using assms(1)
    by (cases "fc_observation_json cx v")
      (auto simp: observe_paired_order_def rbind_Inr_iff pair_apply_observation_def pair_apply_match_def Let_def split: if_split_asm)
qed

text \<open>An observation adds at most the hand-off it returns.\<close>

lemma observed_handoffs:
  assumes "observe_paired_order cx x v at = Inr (h, x')"
  shows "xo_handoffs x' = xo_handoffs x @ (case h of None \<Rightarrow> [] | Some k \<Rightarrow> [k])"
proof -
  have bound: "xo_handoffs y = xo_handoffs x" if "pair_bind_exchange_id x i = Inr y" for y i
    using that by (auto simp: pair_bind_exchange_id_def rbind_Inr_iff split: option.split_asm if_split_asm)
  have applied: "xo_handoffs z = xo_handoffs y @ (case h of None \<Rightarrow> [] | Some k \<Rightarrow> [k])"
    if "pair_apply_observation cx y v g = Inr (h, z)" for y z g
    using that
    by (auto simp: pair_apply_observation_def pair_apply_match_def pair_moved_def pair_set_active_def rbind_Inr_iff Let_def
        split: exchange_event.split_asm if_split_asm order_state.split_asm)
  show ?thesis
    using assms
    by (cases "fc_observation_json cx v") (auto simp: observe_paired_order_def rbind_Inr_iff bound applied split: if_split_asm)
qed

lemma observed_ok:
  assumes "paired_ok s" and "bt_get (fe_orders s) k = Some x" and "observe_paired_order cx x v at = Inr (h, x')"
    and "note_handoff cx h (s\<lparr>fe_orders := bt_insert k x' (fe_orders s)\<rparr>) = Inr s'"
  shows "paired_ok s' \<and> fe_policy s' = fe_policy s \<and> bt_get (fe_orders s') k = Some x'"
proof -
  have ok: "paired_order_ok s k x"
    using assms(1,2) by (rule paired_okD)
  have order: "order_ok (plain_order r x')" for r
    using observed_paired_order(1) [OF assms(3), of undefined r] observe_order_ok ok by (auto simp: paired_order_ok_def)
  then have "paired_order_ok s k x'"
    using ok observed_paired_order(2) [OF assms(3)] by (simp add: paired_order_ok_def)
  note step = observed_order_ok [OF assms(1) this, where s' = s' and u = "fe_used_permits s"]
  have final: "xo_state x' = XFullyMatched" if "xo_state x = XFullyMatched"
    using observed_paired_order(1) [OF assms(3), of undefined undefined] observe_order_progress that
    by (fastforce simp: exec_progress_def dest: arg_cong [of _ _ po_state])
  note ids = note_handoff_Inr [OF assms(4)]
  have "paired_ok s'"
  proof (cases h)
    case None
    then show ?thesis
      using step [where g = "fe_handoff_digests s" and ids = "fe_ledger_command_ids s"] ids final assms(1,2) observed_handoffs [OF assms(3)]
        paired_ok_known [OF assms(1,2)]
      by (auto simp: order_ledger_ids_def)
  next
    case (Some j)
    then obtain g where g: "s' = s\<lparr>fe_orders := bt_insert k x' (fe_orders s), fe_handoff_digests := bs_insert g (fe_handoff_digests s),
            fe_ledger_command_ids := bs_insert (ti_ledger_command_id (hf_intent j)) (fe_ledger_command_ids s)\<rparr>"
        "\<not> bs_mem (ti_ledger_command_id (hf_intent j)) (fe_ledger_command_ids s)"
      using ids by auto
    then show ?thesis
      using step [where g = "bs_insert g (fe_handoff_digests s)"
          and ids = "bs_insert (ti_ledger_command_id (hf_intent j)) (fe_ledger_command_ids s)"]
        final assms(1,2) observed_handoffs [OF assms(3)] Some paired_ok_known [OF assms(1,2)]
      by (auto simp: order_ledger_ids_def bs_mem_insert)
  qed
  then show ?thesis
    using ids by (cases h) (auto simp: bt_get_insert)
qed

lemma pairexec_fresh_ok:
  assumes "pairexec_apply_fresh cx c s = Inr (d, s')" and ok: "paired_ok s"
  shows "paired_ok s'"
proof (cases c)
  case (PxPolicy i p t)
  then show ?thesis
    using assms policy_step_ok [OF ok] by (auto simp: pairexec_apply_fresh.simps elim!: pairexec_policy_Inr)
next
  case (PxSubmit i p local_id t)
  then have "pairexec_submit cx i p local_id t s = Inr (d, s')"
    using assms by (simp add: pairexec_apply_fresh.simps)
  then show ?thesis
  proof (cases rule: pairexec_submit_Inr)
    case (submitted q)
    define s1 where "s1 = s\<lparr>fe_used_permits := bs_insert (pm_permit_digest p) (fe_used_permits s),
        fe_orders := bt_insert (pm_stage_id p, pm_leg_index p) (new_paired_order p local_id) (fe_orders s)\<rparr>"
    have "paired_ok s1"
      by (rule submitted_ok [OF ok submitted(1) s1_def])
    moreover have "records_step (fc_policy cx) (Some (pm_stage_id p, pm_leg_index p, LegSubmitted)) (fe_policy s1) q"
      using submitted(2) by (simp add: s1_def)
    ultimately show ?thesis
      using policy_step_ok submitted(3) by (force simp: s1_def)
  qed (use ok in simp)
next
  case (PxCancel i stage leg t)
  then have "pairexec_cancel i stage leg t s = (d, s')"
    using assms by (simp add: pairexec_apply_fresh.simps)
  then show ?thesis
    by (cases rule: pairexec_cancel_cases) (use ok cancelling_ok in auto)
next
  case (PxObserve i stage leg v t)
  then have "pairexec_observe cx i stage leg v t s = Inr (d, s')"
    using assms by (simp add: pairexec_apply_fresh.simps)
  then show ?thesis
  proof (rule pairexec_observe_Inr)
    fix x h x' s1 q
    assume o: "bt_get (fe_orders s) (stage, leg) = Some x" "observe_paired_order cx x v t = Inr (h, x')"
      "note_handoff cx h (s\<lparr>fe_orders := bt_insert (stage, leg) x' (fe_orders s)\<rparr>) = Inr s1"
      "records_step (fc_policy cx) (Some (pm_stage_id (xo_permit x'), pm_leg_index (xo_permit x'), policy_state_for x' (eo_event v)))
         (fe_policy s1) q" "s' = s1\<lparr>fe_policy := q\<rparr>"
    have s1: "paired_ok s1" "bt_get (fe_orders s1) (stage, leg) = Some x'"
      using observed_ok [OF ok o(1-3)] by blast+
    then have "pm_stage_id (xo_permit x') = stage" "pm_leg_index (xo_permit x') = leg"
      by (auto simp: paired_ok_def paired_order_ok_def)
    then show ?thesis
      unfolding o(5) using s1 matched_event [OF o(2)] by (intro policy_step_ok [OF _ o(4)]) auto
  qed
qed

lemma paired_ok_cong:
  "fe_policy s' = fe_policy s \<Longrightarrow> fe_orders s' = fe_orders s \<Longrightarrow> fe_ledger_command_ids s' = fe_ledger_command_ids s
    \<Longrightarrow> paired_ok s' = paired_ok s"
  by (simp add: paired_ok_def matched_legs_ok_def handoff_ids_ok_def paired_order_ok_def)

lemma paired_ok_after: "paired_ok (pairexec_after cx cs)"
proof (rule pairexec_journal.run_invariant [of paired_ok])
  show "paired_ok pairexec_default"
    using pairs_ok_default
    by (simp add: paired_ok_def pairexec_default_def matched_legs_ok_def handoff_ids_ok_def pairpol_default_def)
  show "paired_ok (pairexec_halt e s)" if "paired_ok s" for e s
    using that paired_ok_cong [of "pairexec_halt e s" s] by (simp add: pairexec_halt_def)
  show "paired_ok s'" if "paired_ok s" "pairexec_apply_new cx c g s = (Inr d, s')" for c g d s s'
    using that(2)
  proof (rule pairexec_apply_new_Inr)
    fix d1 s1
    assume "pairexec_apply_fresh cx c s = Inr (d1, s1)" "s' = pairexec_record c g d (fe_accepted s1 + 1) s1"
    then show ?thesis
      using pairexec_fresh_ok [of cx c s d1 s1] that(1) paired_ok_cong [of s' s1] by (simp add: pairexec_record_def)
  qed
qed

section \<open>Properties\<close>

text \<open>C6: A hedge order exists only beside a filled first order: on every reachable execution runtime, an order under
  a hedge permit has the order of the other leg of its stage beside it, which was placed under a first-leg permit and is fully matched
  for exactly the quantity it was permitted.\<close>
theorem hedge_orders_follow_filled_first:
  assumes "bt_get (fe_orders (pairexec_after cx cs)) (stage, leg) = Some x" and "pm_role (xo_permit x) = HedgeLeg"
  shows "\<exists>y. bt_get (fe_orders (pairexec_after cx cs)) (stage, 1 - leg) = Some y \<and> pm_role (xo_permit y) = FirstLeg
    \<and> xo_state y = XFullyMatched \<and> xo_cumulative_quantity y = oe_quantity (pm_order (xo_permit y))
    \<and> xo_cumulative_quantity y = (\<Sum>f\<leftarrow>map snd (xo_fills y). mf_quantity f)"
proof -
  let ?s = "pairexec_after cx cs"
  have ok: "paired_ok ?s" by (rule paired_ok_after)
  from paired_okD [OF ok assms(1)] obtain r where r: "leg \<le> 1" "bt_get (ye_records (fe_policy ?s)) stage = Some r"
      "at_leg leg (lp_permits r) = Some (xo_permit x)"
    by (auto simp: paired_order_ok_def)
  have "pair_ok r"
    using ok r(2) by (auto simp: paired_ok_def pairs_ok_def)
  then obtain f where f: "lp_first_leg r = Some f" "hedged_properly r f"
    using r(3) by (cases "lp_first_leg r") (auto simp: pair_ok_def at_leg_def split: if_split_asm)
  have "f \<noteq> leg"
    using f(2) r(3) assms(2) by (auto simp: hedged_properly_def)
  then have first: "f = 1 - leg" "1 - f = leg"
    using f(2) r(1) by (auto simp: hedged_properly_def le_one_cases)
  then obtain q where q: "at_leg (1 - leg) (lp_legs r) = LegFullyMatched" "at_leg (1 - leg) (lp_permits r) = Some q" "pm_role q = FirstLeg"
    using f(2) r(3) by (auto simp: hedged_properly_def split: option.split_asm)
  obtain y where y: "bt_get (fe_orders ?s) (stage, 1 - leg) = Some y" "xo_state y = XFullyMatched"
    using ok r(2) q(1) unfolding paired_ok_def matched_legs_ok_def by (metis diff_le_self)
  note oky = paired_okD [OF ok y(1)]
  have "xo_permit y = q"
    using oky r(2) q(2) by (auto simp: paired_order_ok_def)
  moreover have "fills_ok (plain_order undefined y)"
    using oky by (simp add: paired_order_ok_def order_ok_def)
  ultimately show ?thesis
    using y q(3) by (auto simp: fills_ok_def fill_total_def Let_def comp_def)
qed

text \<open>Every paired order keeps within its permit: on every reachable runtime the totals of an order are the sums of
  its fills, which stay within the permitted quantity and fee, every fill was handed to settlement once and with its own facts
  under the permit's digest, and no ledger command is shared with a fill of another order.\<close>
theorem paired_fills_stay_within_permit:
  assumes "bt_get (fe_orders (pairexec_after cx cs)) k = Some x"
  shows "let v = pm_order (xo_permit x); fills = map snd (xo_fills x) in
    xo_cumulative_quantity x = (\<Sum>f\<leftarrow>fills. mf_quantity f) \<and> xo_cumulative_fee x = (\<Sum>f\<leftarrow>fills. mf_fee f)
    \<and> xo_cumulative_consideration x = (\<Sum>f\<leftarrow>fills. mf_consideration f)
    \<and> (fills \<noteq> [] \<longrightarrow> xo_cumulative_quantity x \<le> oe_quantity v \<and> xo_cumulative_fee x \<le> oe_max_fee v)
    \<and> set (map (\<lambda>h. ti_trade_id (hf_intent h)) (xo_handoffs x)) = set (map fst (xo_fills x))
    \<and> (\<forall>h \<in> set (xo_handoffs x). hf_placement_policy_digest h = pm_permit_digest (xo_permit x)
         \<and> ti_token (hf_intent h) = oe_token v \<and> (\<exists>f. bt_get (xo_fills x) (ti_trade_id (hf_intent h)) = Some f
              \<and> ti_quantity (hf_intent h) = mf_quantity f \<and> ti_consideration (hf_intent h) = mf_consideration f
              \<and> ti_fee (hf_intent h) = mf_fee f \<and> ti_ledger_command_id (hf_intent h) = mf_ledger_command_id f))
    \<and> distinct (map (\<lambda>h. ti_ledger_command_id (hf_intent h)) (xo_handoffs x))
    \<and> (\<forall>j y. bt_get (fe_orders (pairexec_after cx cs)) j = Some y \<longrightarrow> j \<noteq> k \<longrightarrow> order_ledger_ids x \<inter> order_ledger_ids y = {})"
proof -
  have ok: "paired_ok (pairexec_after cx cs)" by (rule paired_ok_after)
  have "order_ok (plain_order undefined x)"
    using paired_okD [OF ok assms] by (simp add: paired_order_ok_def)
  then have o: "fills_ok (plain_order undefined x)" "handoffs_ok (plain_order undefined x)"
    by (simp_all add: order_ok_def)
  have shared: "\<forall>j y. bt_get (fe_orders (pairexec_after cx cs)) j = Some y \<longrightarrow> j \<noteq> k \<longrightarrow> order_ledger_ids x \<inter> order_ledger_ids y = {}"
    using ok assms unfolding paired_ok_def handoff_ids_ok_def by blast
  show ?thesis
    unfolding Let_def using o
    by (intro conjI shared) (auto simp: fills_ok_def handoffs_ok_def handoff_of_def fill_total_def Let_def comp_def)
qed

text \<open>A paired order is a paper order: whatever observation the paired runtime accepts for an order, the single-order
  engine accepts for the corresponding paper order, with the same hand-off and the corresponding order afterwards.\<close>
theorem paired_order_refines_paper_order:
  assumes "observe_paired_order cx x v at = Inr (h, x')" and "fc_observation_json cx v = Inr bytes"
  shows "observe_order (single_codec cx (fc_blake3 cx bytes) xc) (plain_order r x) v = Inr (h, plain_order r x')
    \<and> exec_progress (plain_order r x) (plain_order r x') \<and> xo_permit x' = xo_permit x"
proof -
  have "observe_order (single_codec cx (fc_blake3 cx bytes) xc) (plain_order r x) v = Inr (h, plain_order r x')"
    using observed_paired_order(1) [OF assms(1), of xc r] assms(2) by simp
  then show ?thesis
    using observe_order_progress observed_paired_order(2) [OF assms(1)] by simp
qed

text \<open>The policy does not accept a delay of a leg that is delayed.\<close>

lemma delayed_twice_refused:
  assumes "bt_get (ye_records (fe_policy s)) (pm_stage_id p) = Some r" and "at_leg (pm_leg_index p) (lp_legs r) = LegDelayed"
    and "bt_get (ye_processed (fe_policy s)) (derived_sync_id cx i (pm_permit_id p) LegDelayed) = None"
  shows "\<exists>e. sync_policy cx i p LegDelayed sequence observed_at at s = Inl e \<and> e \<noteq> FPanic"
proof -
  let ?c = "PolObserveLeg (derived_sync_id cx i (pm_permit_id p) LegDelayed) (pm_stage_id p) (pm_leg_index p) (pm_permit_id p)
    LegDelayed sequence observed_at at"
  have "\<exists>e. pairpol_apply_fresh (fc_policy cx) ?c (fe_policy s) = Inl e \<and> e \<noteq> YPanic"
    using assms(1,2)
    by (cases "at_leg (pm_leg_index p) (lp_permits r)") (auto simp: pairpol_apply_fresh.simps pairpol_observe_leg_def)
  then have "\<exists>e q. pairpol_apply (fc_policy cx) ?c (fe_policy s) = (Inl e, q) \<and> e \<noteq> YPanic"
    using assms(3)
    by (cases "ye_halted (fe_policy s)"; cases "pairpol_content (fc_policy cx) ?c")
      (auto simp: pairpol_apply_def pairpol_apply_new_def pairpol_content_def pairpol_encode_command_def pairpol_validate_command_def
        split: if_split_asm sum.split_asm)
  then show ?thesis
    by (auto simp: sync_policy_def pairexec_policy_apply_def)
qed

text \<open>C35: The exchange's refusal to cancel a delayed order stops the runtime: the order goes back to delayed, which
  the policy below does not accept from a leg that is delayed, so every such observation is refused, the order stays with its cancellation
  pending, and the refusal halts the runtime for good.\<close>
theorem refused_cancel_of_delayed_order_halts:
  assumes "s = pairexec_after cx cs" and "bt_get (fe_orders s) (stage, leg) = Some x" and "xo_state x = XCancelPending (XDelayed a b)"
    and "bt_get (ye_records (fe_policy s)) stage = Some r" and "at_leg leg (lp_legs r) = LegDelayed"
    and "eo_event v = EvCancelRejected" and "bt_get (fe_processed s) i = None"
    and "bt_get (ye_processed (fe_policy s)) (derived_sync_id cx i (pm_permit_id (xo_permit x)) LegDelayed) = None"
  shows "\<exists>e s'. pairexec_apply cx (PxObserve i stage leg v t) s = (Inl e, s') \<and> fe_orders s' = fe_orders s
    \<and> (pairexec_content cx (PxObserve i stage leg v t) = Inr g \<and> pairexec_risk_view cx s \<noteq> None \<longrightarrow> fe_halted s' \<noteq> None)"
proof -
  let ?c = "PxObserve i stage leg v t"
  have o: "paired_order_ok s (stage, leg) x"
    using paired_okD [OF paired_ok_after] assms(1,2) by blast
  have refused: "\<exists>e. pairexec_apply_fresh cx ?c s = Inl e \<and> (pairexec_risk_view cx s \<noteq> None \<longrightarrow> e \<noteq> FPanic)"
  proof (cases "pairexec_risk_view cx s")
    case None
    then show ?thesis by (simp add: pairexec_apply_fresh.simps pairexec_observe_def)
  next
    case (Some view)
    show ?thesis
    proof (cases "observe_paired_order cx x v t")
      case (Inl e)
      then show ?thesis
        using assms(2) Some
        by (auto simp: pairexec_apply_fresh.simps pairexec_observe_def observe_paired_order_def pair_validate_observation_def
          pair_bind_exchange_id_def pairexec_validate_text_def pair_apply_observation_def assms(3,6)
          split: if_split_asm sum.split_asm option.split_asm)
    next
      case (Inr hx)
      obtain h x' where x': "observe_paired_order cx x v t = Inr (h, x')"
        using Inr by (cases hx) auto
      have state: "h = None" "xo_state x' = XActive (XDelayed a b)" "xo_permit x' = xo_permit x"
        using x' assms(3,6) observed_paired_order(2) [OF x']
        by (cases "fc_observation_json cx v"; auto simp: observe_paired_order_def rbind_Inr_iff pair_apply_observation_def
          pair_bind_exchange_id_def split: if_split_asm option.split_asm)+
      let ?s = "s\<lparr>fe_orders := bt_insert (stage, leg) x' (fe_orders s)\<rparr>"
      have "policy_state_for x' (eo_event v) = LegDelayed"
        by (simp add: policy_state_for_def assms(6) state(2))
      moreover have "\<exists>e. sync_policy cx i (xo_permit x') LegDelayed (eo_source_sequence v) (eo_event_time v) t ?s = Inl e \<and> e \<noteq> FPanic"
        using o assms(4,5,8) by (intro delayed_twice_refused [of _ _ r]) (auto simp: state(3) paired_order_ok_def)
      ultimately show ?thesis
        using assms(2) Some x' state(1) by (auto simp: pairexec_apply_fresh.simps pairexec_observe_def note_handoff_def)
    qed
  qed
  then obtain e where e: "pairexec_apply_fresh cx ?c s = Inl e" "pairexec_risk_view cx s \<noteq> None \<longrightarrow> e \<noteq> FPanic"
    by blast
  show ?thesis
    using assms(7) e
    by (cases "fe_halted s"; cases "pairexec_content cx ?c"; cases "fe_last_recorded_at s")
      (auto simp: pairexec_apply_def pairexec_apply_new_def pairexec_halt_def)
qed

end
