(* ===== verification/Ledger_Progress.thy ===== *)
theory Ledger_Progress
  imports Ledger_Theorems
begin

text \<open>
  What no ledger command undoes: a reservation that was released or used up, and a lock that was merged,
  stay exactly as they are, reservations and locks never disappear, and the table of processed commands only
  grows. The runtimes above the ledger use this for what they have finished.
\<close>

definition holdings_le :: "ledger \<Rightarrow> ledger \<Rightarrow> bool" where
  "holdings_le l l' \<longleftrightarrow>
     (\<forall>i r. bt_get (reservations l) i = Some r \<longrightarrow>
        (\<exists>r'. bt_get (reservations l') i = Some r' \<and> res_asset r' = res_asset r \<and> (res_status r \<noteq> ReservationActive \<longrightarrow> r' = r)))
     \<and> (\<forall>i k. bt_get (locks l) i = Some k \<longrightarrow>
        (\<exists>k'. bt_get (locks l') i = Some k' \<and> lk_quantity k' = lk_quantity k \<and> lk_cost k' = lk_cost k
           \<and> (lk_status k \<noteq> LockActive \<longrightarrow> k' = k)))"

definition processed_le :: "ledger \<Rightarrow> ledger \<Rightarrow> bool" where
  "processed_le l l' \<longleftrightarrow> (\<forall>k d. bt_get (processed l) k = Some d \<longrightarrow> bt_get (processed l') k = Some d)"

lemma holdings_le_refl [simp]: "holdings_le l l"
  by (simp add: holdings_le_def)

lemma holdings_le_trans: "holdings_le l l1 \<Longrightarrow> holdings_le l1 l2 \<Longrightarrow> holdings_le l l2"
  unfolding holdings_le_def by (elim conjE, intro conjI allI impI) (metis (no_types, lifting))+

lemma holdings_le_same: "reservations l' = reservations l \<Longrightarrow> locks l' = locks l \<Longrightarrow> holdings_le l l'"
  by (auto simp: holdings_le_def)

lemma holdings_le_reservation:
  "reservations l' = bt_insert i r' (reservations l) \<Longrightarrow> locks l' = locks l
    \<Longrightarrow> (\<And>r. bt_get (reservations l) i = Some r \<Longrightarrow> res_status r = ReservationActive \<and> res_asset r' = res_asset r)
    \<Longrightarrow> holdings_le l l'"
  by (auto simp: holdings_le_def bt_get_insert)

lemma holdings_le_lock:
  "locks l' = bt_insert i k' (locks l) \<Longrightarrow> reservations l' = reservations l
    \<Longrightarrow> (\<And>k. bt_get (locks l) i = Some k \<Longrightarrow> lk_status k = LockActive \<and> lk_quantity k' = lk_quantity k \<and> lk_cost k' = lk_cost k)
    \<Longrightarrow> holdings_le l l'"
  by (auto simp: holdings_le_def bt_get_insert)

lemma step_holdings:
  "post ps l = Inr l' \<Longrightarrow> reservations l' = reservations l \<and> locks l' = locks l"
  "add_cost t q c l = Inr l' \<Longrightarrow> reservations l' = reservations l \<and> locks l' = locks l"
  "reduce_cost t q c l = Inr l' \<Longrightarrow> reservations l' = reservations l \<and> locks l' = locks l"
  by (auto simp: post_def Let_def add_cost_def reduce_cost_def result_simps split: option.split_asm if_splits)

lemma consume_holdings:
  "consume_reservation i q l = Inr l' \<Longrightarrow> bt_get (reservations l) i = Some r
    \<Longrightarrow> reservations l' = bt_insert i (consumed q r) (reservations l) \<and> locks l' = locks l"
  by (auto simp: consume_Inr)

lemma consumed_asset [simp]: "res_asset (consumed q r) = res_asset r"
  by (simp add: consumed_def)

lemma dispatch_holdings:
  assumes "dispatch c l = Inr l'"
  shows "holdings_le l l'"
proof (cases c)
  case (FundCollateral i amount t)
  then show ?thesis
    using assms by (auto simp: fund_collateral_def rbind_Inr_iff dest!: step_holdings intro!: holdings_le_same)
next
  case (ReserveCollateral i k amount t)
  then show ?thesis
    using assms by (auto simp: reserve_def rbind_Inr_iff if_Inr_iff bt_contains_def dest!: step_holdings intro!: holdings_le_reservation)
next
  case (ReserveToken i k token quantity t)
  then show ?thesis
    using assms by (auto simp: reserve_def rbind_Inr_iff if_Inr_iff bt_contains_def dest!: step_holdings intro!: holdings_le_reservation)
next
  case (ReleaseReservation i k t)
  then show ?thesis
    using assms
    by (auto simp: release_def rbind_Inr_iff ok_or_Inr_iff active_reservation_Inr dest!: step_holdings intro!: holdings_le_reservation)
next
  case (ConfirmBuy i k token quantity consideration fee confirmation t)
  then show ?thesis
    using assms
    by (auto simp: confirm_buy_def rbind_Inr_iff if_Inr_iff ok_or_Inr_iff active_reservation_Inr consume_Inr
        dest!: step_holdings intro!: holdings_le_reservation)
next
  case (ConfirmSell i k quantity gross fee confirmation t)
  then show ?thesis
    using assms
    by (auto simp: confirm_sell_def rbind_Inr_iff if_Inr_iff ok_or_Inr_iff active_reservation_Inr token_only_Inr consume_Inr
        dest!: step_holdings intro!: holdings_le_reservation)
next
  case (LockPair i k up down quantity t)
  then show ?thesis
    using assms
    by (auto simp: lock_pair_def rbind_Inr_iff if_Inr_iff ok_or_Inr_iff bt_contains_def dest!: step_holdings intro!: holdings_le_lock)
next
  case (ConfirmMerge i k confirmation t)
  then show ?thesis
    using assms
    by (auto simp: confirm_merge_def rbind_Inr_iff if_Inr_iff ok_or_Inr_iff dest!: step_holdings intro!: holdings_le_lock)
next
  case (ConfirmSplit i k up down quantity confirmation t)
  then show ?thesis
    using assms
    by (auto simp: confirm_split_def Let_def rbind_Inr_iff if_Inr_iff ok_or_Inr_iff active_reservation_Inr consume_Inr
        dest!: step_holdings intro!: holdings_le_reservation)
next
  case (ConfirmRedemption i k quantity payout confirmation t)
  then show ?thesis
    using assms
    by (auto simp: confirm_redemption_def rbind_Inr_iff if_Inr_iff ok_or_Inr_iff active_reservation_Inr token_only_Inr consume_Inr
        dest!: step_holdings intro!: holdings_le_reservation)
qed

lemma install_holdings: "ledger_install i digest c l = Inr l' \<Longrightarrow> holdings_le l l'"
  by (erule ledger_install_Inr)
    (auto simp: ledger_apply_fresh_def rbind_Inr_iff holdings_le_def dest!: dispatch_holdings)

lemma ledger_step_le:
  assumes "ledger_apply to_vec blake3 c l = (r, l')"
  shows "holdings_le l l' \<and> processed_le l l'"
proof
  show "holdings_le l l'"
    using assms by (cases rule: ledger_apply_cases) (auto intro: install_holdings holdings_le_same)
  show "processed_le l l'"
    using ledger_engine.step_processed_mono [OF assms] by (auto simp: processed_le_def)
qed

end
