(* ===== verification/Paired_Settlement_Theorems.thy ===== *)
theory Paired_Settlement_Theorems
  imports Paired_Settlement Paired_Execution_Theorems Reconciliation_Theorems Ledger_Progress
begin

text \<open>
  What the paired settlement guarantees. \<open>settle_step\<close> lists what an accepted command does; every such step
  only adds to what the parts below have recorded (\<open>settle_le\<close>), which keeps what the runtime has finished
  finished: posted fills are confirmed, finalized pairs are closed, and a pair whose first leg ended partly filled
  stays open.
\<close>

section \<open>What no command undoes\<close>

text \<open>The ledger under the staging only moves by commands of its own; so it does below every runtime of the chain.\<close>

lemma ledger_steps_batch:
  "staging_settlement_batch cx cs s = Inr s' \<Longrightarrow> ledger_steps cx (sg_ledger s) (sg_ledger s') \<and> s' = s\<lparr>sg_ledger := sg_ledger s'\<rparr>"
proof (induction cs arbitrary: s)
  case Nil
  then show ?case by (simp add: staging_settlement_batch_def)
next
  case (Cons c cs)
  then obtain s1 where s1: "staging_ledger_apply cx c s = Inr s1" "staging_settlement_batch cx cs s1 = Inr s'"
    by (auto simp: staging_settlement_batch_def rbind_Inr_iff split: if_split_asm)
  obtain l where l: "s1 = s\<lparr>sg_ledger := l\<rparr>"
    using s1(1) by (auto simp: staging_ledger_apply_Inr)
  have "s' = s1\<lparr>sg_ledger := sg_ledger s'\<rparr>"
    using Cons.IH [OF s1(2)] by blast
  then have "s' = s\<lparr>sg_ledger := sg_ledger s'\<rparr>"
    by (simp add: l)
  then show ?case
    using ledger_steps_one [OF s1(1)] Cons.IH [OF s1(2)] ledger_steps_trans by blast
qed

lemma ledger_steps_le:
  assumes "ledger_steps cx l l'"
  shows "holdings_le l l' \<and> processed_le l l' \<and> (ledger_inv l \<longrightarrow> ledger_inv l')"
proof -
  obtain cs where cs: "l' = run_commands (staging_ledger_step cx) cs l"
    using assms by (auto simp: engine_reaches_def)
  let ?P = "\<lambda>l'. holdings_le l l' \<and> processed_le l l' \<and> (ledger_inv l \<longrightarrow> ledger_inv l')"
  have "?P (run_commands (staging_ledger_step cx) cs l)"
  proof (rule run_commands_invariant [of ?P])
    show "?P l" by (simp add: processed_le_def)
    fix c l1 assume l1: "?P l1"
    obtain r l2 where l2: "staging_ledger_step cx c l1 = (r, l2)" by fastforce
    then show "?P (snd (staging_ledger_step cx c l1))"
      using l1 ledger_step_le [OF l2] holdings_le_trans ledger_apply_inv [of l1 "gc_ledger_to_vec cx" "gc_blake3 cx" c]
      by (auto simp: processed_le_def)
  qed
  then show ?thesis by (simp add: cs)
qed

text \<open>The staging: its ledger, and the stages with what was reserved for them.\<close>

definition stages_reserved :: "staging \<Rightarrow> bool" where
  "stages_reserved s \<longleftrightarrow> (\<forall>i r. bt_get (sg_stages s) i = Some r \<longrightarrow>
     staging_reservation s (fst (sr_reservation_ids r)) \<noteq> None \<and> staging_reservation s (snd (sr_reservation_ids r)) \<noteq> None)"

definition staging_le :: "staging_codec \<Rightarrow> staging \<Rightarrow> staging \<Rightarrow> bool" where
  "staging_le cx s s' \<longleftrightarrow> ledger_steps cx (sg_ledger s) (sg_ledger s')
     \<and> (\<forall>i r. bt_get (sg_stages s) i = Some r \<longrightarrow>
          (\<exists>r'. bt_get (sg_stages s') i = Some r' \<and> sr_reservation_ids r' = sr_reservation_ids r))
     \<and> (stages_reserved s \<longrightarrow> stages_reserved s')"

lemma staging_le_refl [simp]: "staging_le cx s s"
  by (simp add: staging_le_def)

lemma staging_le_trans: "staging_le cx s s1 \<Longrightarrow> staging_le cx s1 s2 \<Longrightarrow> staging_le cx s s2"
  unfolding staging_le_def using ledger_steps_trans by metis

lemma reservation_kept:
  assumes "ledger_steps cx (sg_ledger s) (sg_ledger s')" and "staging_reservation s i \<noteq> None"
  shows "staging_reservation s' i \<noteq> None"
  using ledger_steps_le [OF assms(1)] assms(2) by (fastforce simp: staging_reservation_def ledger_reservation_def holdings_le_def)

lemma staging_le_same_stages:
  assumes "ledger_steps cx (sg_ledger s) (sg_ledger s')" and "sg_stages s' = sg_stages s"
  shows "staging_le cx s s'"
  using assms reservation_kept [OF assms(1)] unfolding staging_le_def stages_reserved_def by auto

lemma staging_le_batch: "staging_settlement_batch cx cs s = Inr s' \<Longrightarrow> staging_le cx s s'"
  using ledger_steps_batch [of cx cs s s'] by (intro staging_le_same_stages) (auto dest: arg_cong [of _ _ sg_stages])

lemma staging_le_stage:
  assumes "ledger_steps cx (sg_ledger s) (sg_ledger s')" and "sg_stages s' = bt_insert i r (sg_stages s)"
    and "\<And>q. bt_get (sg_stages s) i = Some q \<Longrightarrow> sr_reservation_ids r = sr_reservation_ids q"
    and "bt_get (sg_stages s) i = None \<Longrightarrow>
      staging_reservation s' (fst (sr_reservation_ids r)) \<noteq> None \<and> staging_reservation s' (snd (sr_reservation_ids r)) \<noteq> None"
  shows "staging_le cx s s'"
  using assms(1,2,3,4) reservation_kept [OF assms(1)] unfolding staging_le_def stages_reserved_def
  by (cases "bt_get (sg_stages s) i") (auto simp: bt_get_insert split: if_split_asm)

lemma staging_apply_ledger_stages: "staging_ledger_apply cx c s = Inr s' \<Longrightarrow> sg_stages s' = sg_stages s"
  by (auto simp: staging_ledger_apply_Inr)

lemma verified_reservation: "verify_backing v s = Inr () \<Longrightarrow> staging_reservation s (oe_order_id v) \<noteq> None"
  by (auto simp: verify_backing_def rbind_Inr_iff ok_or_Inr_iff split: if_split_asm option.split_asm)

lemma staging_fresh_le:
  assumes "staging_apply_fresh cx c s = Inr (detail, s')"
  shows "staging_le cx s s'"
proof (cases c)
  case (StagePair j p t)
  then have "stage_pair cx p t s = Inr (detail, s')" using assms by simp
  then show ?thesis
  proof (cases rule: stage_pair_Inr)
    case (reserved d paired candidates plan s2 digest)
    let ?i = "derive_stage_id cx (qd_decision_digest d)" and ?r = "new_stage_record cx d plan candidates t digest"
    have "sg_stages s2 = sg_stages s"
      using reserved(7) by (elim stage_reserve_both_Inr) (auto elim!: stage_reserve_Inr)
    moreover have "staging_reservation s2 (oe_order_id (fst candidates)) \<noteq> None"
        "staging_reservation s2 (oe_order_id (snd candidates)) \<noteq> None"
      using reserved(7) verified_reservation by (elim stage_reserve_both_Inr; blast)+
    moreover have "staging_reservation s' k = staging_reservation s2 k" for k
      by (simp add: reserved(9) staging_reservation_def)
    moreover have "sr_reservation_ids ?r = (oe_order_id (fst candidates), oe_order_id (snd candidates))"
      by (simp add: new_stage_record_def Let_def)
    ultimately show ?thesis
      using staging_fresh_ledger [OF assms] reserved(6,9)
      by (intro staging_le_stage [where i = ?i and r = ?r]) (auto simp: bt_contains_def)
  qed (use staging_fresh_ledger [OF assms] in \<open>auto intro: staging_le_same_stages\<close>)
next
  case (StageAbort j stage t)
  then have "stage_abort cx stage t s = Inr (detail, s')" using assms by simp
  then show ?thesis
  proof (rule stage_abort_Inr)
    fix current s1 s2 digest
    assume a: "bt_get (sg_stages s) stage = Some current"
      "staging_ledger_apply cx (ReleaseReservation (stage_ledger_id cx stage 2) (fst (sr_reservation_ids current)) t) s = Inr s1"
      "staging_ledger_apply cx (ReleaseReservation (stage_ledger_id cx stage 3) (snd (sr_reservation_ids current)) t) s1 = Inr s2"
      "s' = s2\<lparr>sg_stages := bt_insert stage (aborted_stage cx t digest current) (sg_stages s2)\<rparr>"
    then show ?thesis
      using staging_fresh_ledger [OF assms]
      by (intro staging_le_stage [where i = stage and r = "aborted_stage cx t digest current"])
        (auto dest!: staging_apply_ledger_stages)
  qed
qed (use assms staging_fresh_ledger [OF assms] in \<open>auto simp: rbind_Inr_iff split: if_split_asm
    dest!: staging_apply_ledger_stages intro!: staging_le_same_stages\<close>)

lemma staging_step_le: "staging_apply cx c s = (Inr d, s') \<Longrightarrow> staging_le cx s s'"
  by (erule staging_journal.step_shape)
    (auto simp: staging_record_def staging_le_def stages_reserved_def staging_reservation_def
      elim!: staging_apply_new_Inr dest!: staging_fresh_le)

abbreviation pairexec_staging :: "pairexec \<Rightarrow> staging" where
  "pairexec_staging s \<equiv> ye_staging (fe_policy s)"

abbreviation settle_ledger :: "settle \<Rightarrow> ledger" where
  "settle_ledger s \<equiv> sg_ledger (settle_staging s)"

lemma pairpol_staging_le:
  "pairpol_staging_apply cx c s = Inr (d, s') \<Longrightarrow> staging_le (yc_staging cx) (ye_staging s) (ye_staging s')"
  by (auto simp: pairpol_staging_apply_Inr dest: staging_step_le)

lemma pairpol_fresh_le:
  assumes "pairpol_apply_fresh cx c s = Inr (d, s')"
  shows "staging_le (yc_staging cx) (ye_staging s) (ye_staging s')"
proof (cases c)
  case (PolStage i p t)
  obtain d1 s1 where s1: "pairpol_staging_apply cx (StagePair (derived_staging_id cx i 0) p t) s = Inr (d1, s1)"
    using assms unfolding PolStage by (auto simp: pairpol_apply_fresh.simps pairpol_stage_def rbind_Inr_iff)
  then have "ye_staging s' = ye_staging s1"
    using assms unfolding PolStage
    by (cases "gd_detail d1") (auto simp: pairpol_apply_fresh.simps pairpol_stage_def rbind_Inr_iff split: if_split_asm)
  then show ?thesis using pairpol_staging_le [OF s1] by simp
next
  case (PolAbortSafe i stage t)
  show ?thesis
  proof (cases "abort_is_safe stage s")
    case True
    obtain d1 s1 where s1: "pairpol_staging_apply cx (StageAbort (derived_staging_id cx i 1) stage t) s = Inr (d1, s1)"
      using assms True unfolding PolAbortSafe by (auto simp: pairpol_apply_fresh.simps pairpol_abort_safe_def rbind_Inr_iff)
    then have "ye_staging s' = ye_staging s1"
      using assms True unfolding PolAbortSafe
      by (cases "gd_detail d1")
        (auto simp: pairpol_apply_fresh.simps pairpol_abort_safe_def rbind_Inr_iff ok_or_Inr_iff split: if_split_asm)
    then show ?thesis using pairpol_staging_le [OF s1] by simp
  next
    case False
    then show ?thesis
      using assms unfolding PolAbortSafe by (simp add: pairpol_apply_fresh.simps pairpol_abort_safe_def)
  qed
next
  case (PolAuthorizeFirst i stage leg max_mode_age valid_until t)
  then show ?thesis
    using assms pairpol_authorize_step by (fastforce simp: pairpol_apply_fresh.simps)
next
  case (PolAuthorizeHedge i stage max_mode_age valid_until t)
  then show ?thesis
    using assms pairpol_authorize_step
    by (fastforce simp: pairpol_apply_fresh.simps pairpol_authorize_hedge_def rbind_Inr_iff split: if_split_asm)
next
  case (PolObserveLeg i stage leg permit state sequence observed_at t)
  then show ?thesis
    using assms by (auto simp: pairpol_apply_fresh.simps elim!: pairpol_observe_leg_step)
qed (use assms pairpol_staging_le in \<open>auto simp: pairpol_apply_fresh.simps pairpol_fund_def pairpol_observe_mode_def
    pairpol_expire_def rbind_Inr_iff ok_or_Inr_iff split: if_split_asm\<close>)

lemma pairpol_step_le: "pairpol_apply cx c s = (Inr d, s') \<Longrightarrow> staging_le (yc_staging cx) (ye_staging s) (ye_staging s')"
  by (erule pairpol_journal.step_shape) (auto simp: pairpol_record_def elim!: pairpol_apply_new_Inr dest!: pairpol_fresh_le)

lemma sync_policy_staging:
  "sync_policy cx i p state sequence observed_at at s = Inr s'
    \<Longrightarrow> staging_le (yc_staging (fc_policy cx)) (pairexec_staging s) (pairexec_staging s')"
  by (auto simp: sync_policy_def rbind_Inr_iff pairexec_policy_apply_Inr split: if_split_asm dest: pairpol_step_le)

text \<open>An order of a pair keeps its permit and its hand-offs, and does not move once it is terminal.\<close>

definition paired_progress :: "paired_order \<Rightarrow> paired_order \<Rightarrow> bool" where
  "paired_progress x x' \<longleftrightarrow> xo_permit x' = xo_permit x \<and> (\<exists>hs. xo_handoffs x' = xo_handoffs x @ hs)
     \<and> (is_terminal_state (xo_state x) \<longrightarrow> x' = x)"

lemma paired_progress_refl [simp]: "paired_progress x x"
  by (simp add: paired_progress_def)

lemma paired_progress_trans: "paired_progress x y \<Longrightarrow> paired_progress y z \<Longrightarrow> paired_progress x z"
  by (auto simp: paired_progress_def)

lemma plain_order_inject: "plain_order r x = plain_order r y \<Longrightarrow> xo_permit x = xo_permit y \<Longrightarrow> x = y"
  by (cases x; cases y) (simp add: plain_order_def)

lemma observed_progress: "observe_paired_order cx x v at = Inr (h, x') \<Longrightarrow> paired_progress x x'"
proof -
  assume o: "observe_paired_order cx x v at = Inr (h, x')"
  obtain bytes where "observe_order (single_codec cx (fc_blake3 cx bytes) undefined) (plain_order undefined x) v
      = Inr (h, plain_order undefined x')"
    using observed_paired_order(1) [OF o, of undefined undefined] by blast
  then have "exec_progress (plain_order undefined x) (plain_order undefined x')"
    by (rule observe_order_progress)
  then show ?thesis
    using observed_paired_order(2) [OF o] plain_order_inject [of undefined x' x] by (auto simp: exec_progress_def paired_progress_def)
qed

definition pairexec_le :: "pairexec_codec \<Rightarrow> pairexec \<Rightarrow> pairexec \<Rightarrow> bool" where
  "pairexec_le cx s s' \<longleftrightarrow> staging_le (yc_staging (fc_policy cx)) (pairexec_staging s) (pairexec_staging s')
     \<and> (\<forall>i r. bt_get (ye_records (fe_policy s)) i = Some r \<longrightarrow>
          (\<exists>r'. bt_get (ye_records (fe_policy s')) i = Some r' \<and> pair_progress r r'))
     \<and> (\<forall>k x. bt_get (fe_orders s) k = Some x \<longrightarrow> (\<exists>x'. bt_get (fe_orders s') k = Some x' \<and> paired_progress x x'))"

lemma pairexec_le_refl [simp]: "pairexec_le cx s s"
  by (simp add: pairexec_le_def)

lemma pairexec_le_trans:
  assumes "pairexec_le cx s s1" and "pairexec_le cx s1 s2"
  shows "pairexec_le cx s s2"
  unfolding pairexec_le_def
proof (intro conjI allI impI)
  show "staging_le (yc_staging (fc_policy cx)) (pairexec_staging s) (pairexec_staging s2)"
    using assms by (auto simp: pairexec_le_def intro: staging_le_trans)
  fix i r assume "bt_get (ye_records (fe_policy s)) i = Some r"
  then obtain r1 where "bt_get (ye_records (fe_policy s1)) i = Some r1" "pair_progress r r1"
    using assms(1) unfolding pairexec_le_def by blast
  then show "\<exists>r'. bt_get (ye_records (fe_policy s2)) i = Some r' \<and> pair_progress r r'"
    using assms(2) pair_progress_trans unfolding pairexec_le_def by blast
next
  fix k x assume "bt_get (fe_orders s) k = Some x"
  then obtain x1 where "bt_get (fe_orders s1) k = Some x1" "paired_progress x x1"
    using assms(1) unfolding pairexec_le_def by blast
  then show "\<exists>x'. bt_get (fe_orders s2) k = Some x' \<and> paired_progress x x'"
    using assms(2) paired_progress_trans unfolding pairexec_le_def by blast
qed

lemma pairexec_le_policy:
  assumes "records_step (fc_policy cx) w (fe_policy s) q" and "pairs_ok (fe_policy s)"
    and "staging_le (yc_staging (fc_policy cx)) (pairexec_staging s) (ye_staging q)" and "s' = s\<lparr>fe_policy := q\<rparr>"
  shows "pairexec_le cx s s'"
  using records_step_progress [OF assms(1,2)] assms(3,4) by (auto simp: pairexec_le_def)

lemma pairexec_le_order:
  assumes "fe_policy s' = fe_policy s" and "fe_orders s' = bt_insert k x' (fe_orders s)"
    and "\<And>x. bt_get (fe_orders s) k = Some x \<Longrightarrow> paired_progress x x'"
  shows "pairexec_le cx s s'"
  using assms by (auto simp: pairexec_le_def bt_get_insert)

lemma sync_policy_le:
  assumes "sync_policy cx i p state sequence observed_at at s = Inr s'" and "pairs_ok (fe_policy s)"
  shows "pairexec_le cx s s'"
  using assms(1) by (rule sync_policy_Inr) (use sync_policy_staging [OF assms(1)] assms(2) in \<open>auto intro: pairexec_le_policy\<close>)

lemma pairexec_fresh_le:
  assumes "pairexec_apply_fresh cx c s = Inr (d, s')" and ok: "pairs_ok (fe_policy s)"
  shows "pairexec_le cx s s'"
proof (cases c)
  case (PxPolicy i p t)
  then have "\<exists>e q. pairpol_apply (fc_policy cx) p (fe_policy s) = (Inr e, q) \<and> s' = s\<lparr>fe_policy := q\<rparr>"
    using assms
    by (auto simp: pairexec_apply_fresh.simps pairexec_policy_def rbind_Inr_iff pairexec_policy_apply_Inr split: if_split_asm)
  then show ?thesis
    using pairpol_step_le pairpol_step_records ok by (blast intro: pairexec_le_policy)
next
  case (PxSubmit i p local_id t)
  then have s: "pairexec_submit cx i p local_id t s = Inr (d, s')"
    using assms by (simp add: pairexec_apply_fresh.simps)
  show ?thesis
  proof (cases "pair_submit_denial cx p t s")
    case None
    let ?s = "s\<lparr>fe_used_permits := bs_insert (pm_permit_digest p) (fe_used_permits s),
        fe_orders := bt_insert (pm_stage_id p, pm_leg_index p) (new_paired_order p local_id) (fe_orders s)\<rparr>"
    have "bt_get (fe_orders s) (pm_stage_id p, pm_leg_index p) = None"
      using None by (auto simp: pair_submit_denial_def bt_contains_def split: if_split_asm)
    then have "pairexec_le cx s ?s"
      by (intro pairexec_le_order [where k = "(pm_stage_id p, pm_leg_index p)" and x' = "new_paired_order p local_id"]) simp_all
    moreover have "pairexec_le cx ?s s'"
      using s None ok by (auto simp: pairexec_submit_def Let_def rbind_Inr_iff intro: sync_policy_le)
    ultimately show ?thesis by (rule pairexec_le_trans)
  next
    case (Some reason)
    then show ?thesis using s by (simp add: pairexec_submit_def Let_def)
  qed
next
  case (PxCancel i stage leg t)
  then have "pairexec_cancel i stage leg t s = (d, s')"
    using assms by (simp add: pairexec_apply_fresh.simps)
  then show ?thesis
    by (cases rule: pairexec_cancel_cases) (auto simp: paired_progress_def intro!: pairexec_le_order)
next
  case (PxObserve i stage leg v t)
  then obtain x h x' s1 p state sequence observed_at where o: "bt_get (fe_orders s) (stage, leg) = Some x"
      "observe_paired_order cx x v t = Inr (h, x')"
      "note_handoff cx h (s\<lparr>fe_orders := bt_insert (stage, leg) x' (fe_orders s)\<rparr>) = Inr s1"
      "sync_policy cx i p state sequence observed_at t s1 = Inr s'"
    using assms by (auto simp: pairexec_apply_fresh.simps pairexec_observe_def rbind_Inr_iff ok_or_Inr_iff)
  have s1: "fe_policy s1 = fe_policy s" "fe_orders s1 = bt_insert (stage, leg) x' (fe_orders s)"
    using note_handoff_Inr [OF o(3)] by (auto split: option.split_asm)
  then have "pairexec_le cx s s1"
    using observed_progress [OF o(2)] o(1) by (intro pairexec_le_order) auto
  then show ?thesis
    using sync_policy_le [OF o(4)] ok s1(1) by (auto intro: pairexec_le_trans)
qed

lemma pairexec_step_le: "pairexec_apply cx c s = (Inr d, s') \<Longrightarrow> pairs_ok (fe_policy s) \<Longrightarrow> pairexec_le cx s s'"
  by (erule pairexec_journal.step_shape)
    (auto simp: pairexec_record_def pairexec_le_def elim!: pairexec_apply_new_Inr dest!: pairexec_fresh_le)

lemma pairexec_step_ok: "pairexec_apply cx c s = (Inr d, s') \<Longrightarrow> paired_ok s \<Longrightarrow> paired_ok s'"
proof (erule pairexec_journal.step_shape)
  fix g out
  assume "paired_ok s" "pairexec_apply_new cx c g s = (Inr out, s')"
  then obtain d1 s1 where s1: "pairexec_apply_fresh cx c s = Inr (d1, s1)" "s' = pairexec_record c g out (fe_accepted s1 + 1) s1"
    by (elim pairexec_apply_new_Inr) blast
  then show "paired_ok s'"
    using pairexec_fresh_ok [OF s1(1) \<open>paired_ok s\<close>] paired_ok_cong [of s' s1] by (simp add: pairexec_record_def)
qed auto

lemma pairexec_batch_Inr:
  assumes "pairexec_settlement_batch cx cs s = Inr s'"
  obtains g where "staging_settlement_batch (yc_staging (fc_policy cx)) cs (ye_staging (fe_policy s)) = Inr g"
    "s' = s\<lparr>fe_policy := (fe_policy s)\<lparr>ye_staging := g\<rparr>\<rparr>"
  using assms by (auto simp: pairexec_settlement_batch_def pairpol_settlement_batch_def split: sum.split_asm)

lemma pairexec_batch_le: "pairexec_settlement_batch cx cs s = Inr s' \<Longrightarrow> pairexec_le cx s s'"
  by (erule pairexec_batch_Inr) (auto simp: pairexec_le_def dest: staging_le_batch)

lemma pairexec_batch_ok: "pairexec_settlement_batch cx cs s = Inr s' \<Longrightarrow> paired_ok s \<Longrightarrow> paired_ok s'"
  by (erule pairexec_batch_Inr)
    (simp add: paired_ok_def matched_legs_ok_def handoff_ids_ok_def paired_order_ok_def pairs_ok_def)

section \<open>The engine\<close>

declare settle_apply_fresh.simps [simp del]

lemma settle_batch_Inr:
  "settle_batch cx cs s = Inr s' \<longleftrightarrow>
     (\<exists>x. pairexec_settlement_batch (zc_execution cx) cs (ze_execution s) = Inr x \<and> s' = s\<lparr>ze_execution := x\<rparr>)"
  by (auto simp: settle_batch_def split: sum.split)

lemma settle_recon_Inr:
  "settle_recon cx c s = Inr s' \<longleftrightarrow>
     (\<exists>out r. recon_apply (zc_recon_to_vec cx) (zc_blake3 cx) c (ze_reconciler s) = (Inr out, r) \<and> s' = s\<lparr>ze_reconciler := r\<rparr>)"
  by (auto simp: settle_recon_def split: prod.split sum.split)

text \<open>What an accepted operation does.\<close>

inductive settle_step :: "settle_codec \<Rightarrow> settle \<Rightarrow> settle \<Rightarrow> bool" for cx s where
  executed: "pairexec_apply (zc_execution cx) c (ze_execution s) = (Inr d, x) \<Longrightarrow> settle_step cx s (s\<lparr>ze_execution := x\<rparr>)"
| registered: "pairexec_order (ze_execution s) stage leg = Some order \<Longrightarrow> index < length (xo_handoffs order)
    \<Longrightarrow> bt_get (ze_handoffs s) (ti_ledger_command_id (hf_intent (xo_handoffs order ! index))) = None
    \<Longrightarrow> recon_apply (zc_recon_to_vec cx) (zc_blake3 cx) (RegisterIntent digest (hf_intent (xo_handoffs order ! index)) at)
         (ze_reconciler s) = (Inr out, r)
    \<Longrightarrow> settle_step cx s (s\<lparr>ze_handoff_digests := bs_insert digest (ze_handoff_digests s), ze_reconciler := r,
         ze_handoffs := bt_insert (ti_ledger_command_id (hf_intent (xo_handoffs order ! index)))
           \<lparr>rh_stage_id = stage, rh_leg_index = leg, rh_handoff_index = index, rh_handoff_digest = digest,
            rh_intent = hf_intent (xo_handoffs order ! index), rh_posted = False\<rparr> (ze_handoffs s)\<rparr>)"
| reconciled: "recon_apply (zc_recon_to_vec cx) (zc_blake3 cx) rc (ze_reconciler s) = (Inr out, r)
    \<Longrightarrow> settle_step cx s (s\<lparr>ze_reconciler := r\<rparr>)"
| posted: "bt_get (ze_handoffs s) k = Some h \<Longrightarrow> \<not> rh_posted h \<Longrightarrow> recon_trade (ze_reconciler s) (ti_trade_id (rh_intent h)) = Some trade
    \<Longrightarrow> confirmed_hash trade = Inr confirmation
    \<Longrightarrow> pairexec_order (ze_execution s) (rh_stage_id h) (rh_leg_index h) = Some order
    \<Longrightarrow> pairexec_settlement_batch (zc_execution cx)
         [posting_command (rh_intent h) (pm_reservation_id (xo_permit order)) confirmation at] (ze_execution s) = Inr x
    \<Longrightarrow> settle_step cx s (s\<lparr>ze_execution := x, ze_handoffs := bt_insert k (h\<lparr>rh_posted := True\<rparr>) (ze_handoffs s)\<rparr>)"
| locked: "pairexec_settlement_batch (zc_execution cx) cs (ze_execution s) = Inr x
    \<Longrightarrow> settle_step cx s (s\<lparr>ze_execution := x, ze_locked := bt_insert stage lock (ze_locked s)\<rparr>)"
| finalized: "\<not> bs_mem stage_id (ze_finalized s) \<Longrightarrow> staging_stage (settle_staging s) stage_id = Some stage
    \<Longrightarrow> leg_settled s stage_id 0 = Inr () \<Longrightarrow> leg_settled s stage_id 1 = Inr ()
    \<Longrightarrow> pairexec_settlement_batch (zc_execution cx) cs (ze_execution s) = Inr x
    \<Longrightarrow> reservation_closed (s\<lparr>ze_execution := x\<rparr>) (fst (sr_reservation_ids stage)) = Inr ()
    \<Longrightarrow> reservation_closed (s\<lparr>ze_execution := x\<rparr>) (snd (sr_reservation_ids stage)) = Inr ()
    \<Longrightarrow> settle_step cx s (s\<lparr>ze_execution := x, ze_finalized := bs_insert stage_id (ze_finalized s)\<rparr>)"

lemma settle_fresh_step:
  assumes "settle_apply_fresh cx c s = Inr (d, s')"
  shows "settle_step cx s s'"
proof (cases c)
  case (StExecution i x t)
  then show ?thesis
    using assms settle_step.executed
    by (fastforce simp: settle_apply_fresh.simps settle_execution_def rbind_Inr_iff split: if_split_asm prod.split_asm sum.split_asm)
next
  case (StRegister i stage leg index t)
  then show ?thesis
    using assms settle_step.registered
    by (fastforce simp: settle_apply_fresh.simps settle_register_def settle_handoff_of_def rbind_Inr_iff ok_or_Inr_iff
        settle_recon_Inr bt_contains_def Option.bind_eq_Some_conv split: if_split_asm)
next
  case (StObserve i v t)
  then show ?thesis
    using assms settle_step.reconciled
    by (fastforce simp: settle_apply_fresh.simps settle_observe_def rbind_Inr_iff settle_recon_Inr split: if_split_asm)
next
  case (StPost i ledger_id t)
  then show ?thesis
    using assms settle_step.posted
    by (fastforce simp: settle_apply_fresh.simps settle_post_def rbind_Inr_iff ok_or_Inr_iff settle_batch_Inr split: if_split_asm)
next
  case (StReconcile i chain evaluated_at t)
  then show ?thesis
    using assms settle_step.reconciled
    by (fastforce simp: settle_apply_fresh.simps settle_reconcile_def rbind_Inr_iff ok_or_Inr_iff settle_recon_Inr split: if_split_asm)
next
  case (StLockPair i stage lock quantity t)
  then show ?thesis
    using assms settle_step.locked
    by (fastforce simp: settle_apply_fresh.simps settle_lock_pair_def rbind_Inr_iff ok_or_Inr_iff settle_batch_Inr split: if_split_asm)
next
  case (StFinalize i stage t)
  then show ?thesis
    using assms settle_step.finalized
    by (fastforce simp: settle_apply_fresh.simps settle_finalize_def rbind_Inr_iff ok_or_Inr_iff settle_batch_Inr Let_def split: if_split_asm)
qed

lemma settle_apply_new_Inr:
  assumes "settle_apply_new cx c digest s = (Inr v, s')"
  obtains w s1 where "settle_apply_fresh cx c s = Inr (w, s1)" "v = w\<lparr>zo_digest := settle_outcome_digest cx w\<rparr>"
    "s' = settle_record c digest v (ze_accepted s1 + 1) s1"
  using assms
  by (auto simp: settle_apply_new_def Let_def checked_simps split: if_split_asm sum.split_asm option.split_asm)

interpretation settle_journal: journal "settle_apply cx" settle_command_id settle_early "settle_content cx" ze_processed
  ze_accepted ze_halted settle_halt ZHalted ZIdempotencyConflict "settle_apply_new cx"
  for cx
proof unfold_locales
  fix c s d out s' e
  show "settle_apply cx c s = (case ze_halted s of Some reason \<Rightarrow> (Inl (ZHalted reason), s)
      | None \<Rightarrow> (case settle_early c of Some e \<Rightarrow> (Inl e, settle_halt e s) | None \<Rightarrow> (case settle_content cx c of Inl e \<Rightarrow> (Inl e, s)
          | Inr d \<Rightarrow> (case bt_get (ze_processed s) (settle_command_id c) of
              Some (d', out) \<Rightarrow> if d' = d then (Inr out, s) else (Inl ZIdempotencyConflict, settle_halt ZIdempotencyConflict s)
            | None \<Rightarrow> settle_apply_new cx c d s))))"
    by (simp add: settle_apply_def split: option.split sum.split)
  show "ze_halted (settle_halt e s) \<noteq> None" "ze_processed (settle_halt e s) = ze_processed s"
      "ze_accepted (settle_halt e s) = ze_accepted s"
    by (simp_all add: settle_halt_def)
  show "ze_halted s = None \<Longrightarrow> settle_apply_new cx c d s = (Inr out, s')
      \<Longrightarrow> ze_processed s' = bt_insert (settle_command_id c) (d, out) (ze_processed s)
        \<and> ze_accepted s' = ze_accepted s + 1 \<and> ze_halted s' = None"
    by (auto simp: settle_record_def elim!: settle_apply_new_Inr settle_step.cases dest!: settle_fresh_step)
  show "settle_apply_new cx c d s = (Inl e, s') \<Longrightarrow> s' = s \<or> s' = settle_halt e s"
    by (auto simp: settle_apply_new_def Let_def split: if_split_asm sum.split_asm option.split_asm)
qed

section \<open>What the settlement keeps\<close>

definition settle_le :: "settle_codec \<Rightarrow> settle \<Rightarrow> settle \<Rightarrow> bool" where
  "settle_le cx s s' \<longleftrightarrow> pairexec_le (zc_execution cx) (ze_execution s) (ze_execution s')
     \<and> recon_le (ze_reconciler s) (ze_reconciler s')
     \<and> (\<forall>k h. bt_get (ze_handoffs s) k = Some h \<longrightarrow>
          (\<exists>h'. bt_get (ze_handoffs s') k = Some h' \<and> (h' = h \<or> \<not> rh_posted h \<and> h' = h\<lparr>rh_posted := True\<rparr>)))
     \<and> (\<forall>i. bs_mem i (ze_finalized s) \<longrightarrow> bs_mem i (ze_finalized s'))"

lemma settle_le_refl [simp]: "settle_le cx s s"
  by (simp add: settle_le_def recon_le_refl)

lemma settle_le_handoff:
  "settle_le cx s s' \<Longrightarrow> bt_get (ze_handoffs s) k = Some h \<Longrightarrow>
    \<exists>h'. bt_get (ze_handoffs s') k = Some h' \<and> (h' = h \<or> \<not> rh_posted h \<and> h' = h\<lparr>rh_posted := True\<rparr>)"
  unfolding settle_le_def by blast

lemma settle_le_trans:
  assumes "settle_le cx s s1" and "settle_le cx s1 s2"
  shows "settle_le cx s s2"
proof -
  have "pairexec_le (zc_execution cx) (ze_execution s) (ze_execution s2)"
    using assms pairexec_le_trans unfolding settle_le_def by blast
  moreover have "recon_le (ze_reconciler s) (ze_reconciler s2)"
    using assms recon_le_trans unfolding settle_le_def by blast
  moreover have "\<exists>h'. bt_get (ze_handoffs s2) k = Some h' \<and> (h' = h \<or> \<not> rh_posted h \<and> h' = h\<lparr>rh_posted := True\<rparr>)"
    if "bt_get (ze_handoffs s) k = Some h" for k h
    using settle_le_handoff [OF assms(1) that] settle_le_handoff [OF assms(2)] by fastforce
  moreover have "bs_mem i (ze_finalized s2)" if "bs_mem i (ze_finalized s)" for i
    using assms that by (simp add: settle_le_def)
  ultimately show ?thesis
    unfolding settle_le_def by blast
qed

lemma settle_step_le:
  assumes "settle_step cx s s'" and "paired_ok (ze_execution s)" and "recon_inv (ze_reconciler s)"
  shows "settle_le cx s s'"
  using assms(1)
proof (cases rule: settle_step.cases)
  case (executed c d x)
  then show ?thesis
    using pairexec_step_le [OF executed(2)] assms(2) by (simp add: settle_le_def recon_le_refl paired_ok_def)
next
  case (registered stage leg order index digest at out r)
  then show ?thesis
    using recon_step_le [OF assms(3), of "zc_recon_to_vec cx" "zc_blake3 cx" "RegisterIntent digest (hf_intent (xo_handoffs order ! index)) at"]
    by (auto simp: settle_le_def bt_get_insert)
next
  case (reconciled rc out r)
  then show ?thesis
    using recon_step_le [OF assms(3), of "zc_recon_to_vec cx" "zc_blake3 cx" rc] by (simp add: settle_le_def)
next
  case (posted k h trade confirmation order at x)
  then show ?thesis
    by (auto simp: settle_le_def bt_get_insert recon_le_refl dest!: pairexec_batch_le)
next
  case (locked cs x stage lock)
  then show ?thesis
    by (auto simp: settle_le_def recon_le_refl dest!: pairexec_batch_le)
next
  case (finalized stage_id stage cs x)
  then show ?thesis
    by (auto simp: settle_le_def recon_le_refl bs_mem_insert dest!: pairexec_batch_le)
qed

text \<open>A hand-off is registered under the ledger command of the fill that it hands over, and is posted only when its
  trade is confirmed.\<close>

definition registered_ok :: "settle \<Rightarrow> command_id \<Rightarrow> registered_handoff \<Rightarrow> bool" where
  "registered_ok s k h \<longleftrightarrow> ti_ledger_command_id (rh_intent h) = k
     \<and> (\<exists>x. bt_get (fe_orders (ze_execution s)) (rh_stage_id h, rh_leg_index h) = Some x \<and> rh_handoff_index h < length (xo_handoffs x)
          \<and> rh_intent h = hf_intent (xo_handoffs x ! rh_handoff_index h))
     \<and> (rh_posted h \<longrightarrow> bt_get (processed (settle_ledger s)) k \<noteq> None
          \<and> (\<exists>t. recon_trade (ze_reconciler s) (ti_trade_id (rh_intent h)) = Some t \<and> to_status t = Confirmed))"

definition pair_finished :: "settle \<Rightarrow> pair_stage_id \<Rightarrow> bool" where
  "pair_finished s i \<longleftrightarrow> leg_settled s i 0 = Inr () \<and> leg_settled s i 1 = Inr ()
     \<and> (\<exists>r. staging_stage (settle_staging s) i = Some r \<and> reservation_closed s (fst (sr_reservation_ids r)) = Inr ()
          \<and> reservation_closed s (snd (sr_reservation_ids r)) = Inr ())"

definition settle_ok :: "settle \<Rightarrow> bool" where
  "settle_ok s \<longleftrightarrow> paired_ok (ze_execution s) \<and> recon_inv (ze_reconciler s) \<and> ledger_inv (settle_ledger s)
     \<and> stages_reserved (settle_staging s)
     \<and> (\<forall>k h. bt_get (ze_handoffs s) k = Some h \<longrightarrow> registered_ok s k h)
     \<and> (\<forall>i. bs_mem i (ze_finalized s) \<longrightarrow> pair_finished s i)"

lemma recon_trade_kept:
  "recon_le r r' \<Longrightarrow> recon_trade r i = Some t \<Longrightarrow> is_terminal (to_status t) \<Longrightarrow> recon_trade r' i = Some t"
  unfolding recon_le_def recon_trade_def by (metis status_le_terminal)

lemma settle_le_ledger:
  assumes "settle_le cx s s'"
  shows "holdings_le (settle_ledger s) (settle_ledger s')" and "processed_le (settle_ledger s) (settle_ledger s')"
    and "ledger_inv (settle_ledger s) \<Longrightarrow> ledger_inv (settle_ledger s')"
    and "stages_reserved (settle_staging s) \<Longrightarrow> stages_reserved (settle_staging s')"
  using assms ledger_steps_le unfolding settle_le_def pairexec_le_def staging_le_def by blast+

lemma registered_ok_kept:
  assumes "settle_le cx s s'" and "registered_ok s k h"
  shows "registered_ok s' k h"
proof -
  obtain x where x: "bt_get (fe_orders (ze_execution s)) (rh_stage_id h, rh_leg_index h) = Some x"
      "rh_handoff_index h < length (xo_handoffs x)" "rh_intent h = hf_intent (xo_handoffs x ! rh_handoff_index h)"
    using assms(2) by (auto simp: registered_ok_def)
  obtain x' where "bt_get (fe_orders (ze_execution s')) (rh_stage_id h, rh_leg_index h) = Some x'" "paired_progress x x'"
    using assms(1) x(1) unfolding settle_le_def pairexec_le_def by blast
  then have "\<exists>x. bt_get (fe_orders (ze_execution s')) (rh_stage_id h, rh_leg_index h) = Some x
      \<and> rh_handoff_index h < length (xo_handoffs x) \<and> rh_intent h = hf_intent (xo_handoffs x ! rh_handoff_index h)"
    using x(2,3) by (auto simp: paired_progress_def nth_append)
  moreover have "\<exists>t. recon_trade (ze_reconciler s') (ti_trade_id (rh_intent h)) = Some t \<and> to_status t = Confirmed"
    if "rh_posted h"
    using assms that recon_trade_kept [of "ze_reconciler s" "ze_reconciler s'"] by (fastforce simp: registered_ok_def settle_le_def)
  moreover have "bt_get (processed (settle_ledger s')) k \<noteq> None" if "rh_posted h"
    using settle_le_ledger(2) [OF assms(1)] assms(2) that by (fastforce simp: registered_ok_def processed_le_def)
  ultimately show ?thesis
    using assms(2) by (simp add: registered_ok_def)
qed

lemma handoff_settled_Inr:
  "handoff_settled s h = Inr () \<longleftrightarrow>
     (\<exists>r t. bt_get (ze_handoffs s) (ti_ledger_command_id (hf_intent h)) = Some r
       \<and> recon_trade (ze_reconciler s) (ti_trade_id (rh_intent r)) = Some t
       \<and> is_terminal (to_status t) \<and> (to_status t = Confirmed \<longleftrightarrow> rh_posted r))"
  by (auto simp: handoff_settled_def rbind_Inr_iff ok_or_Inr_iff)

lemma handoff_settled_kept:
  assumes "settle_le cx s s'" and "\<And>k h. bt_get (ze_handoffs s') k = Some h \<Longrightarrow> registered_ok s' k h"
    and "handoff_settled s h = Inr ()"
  shows "handoff_settled s' h = Inr ()"
proof -
  obtain r t where r: "bt_get (ze_handoffs s) (ti_ledger_command_id (hf_intent h)) = Some r"
      "recon_trade (ze_reconciler s) (ti_trade_id (rh_intent r)) = Some t" "is_terminal (to_status t)"
      "to_status t = Confirmed \<longleftrightarrow> rh_posted r"
    using assms(3) by (auto simp: handoff_settled_Inr)
  have t: "recon_trade (ze_reconciler s') (ti_trade_id (rh_intent r)) = Some t"
    using assms(1) r(2,3) recon_trade_kept by (auto simp: settle_le_def)
  obtain r' where r': "bt_get (ze_handoffs s') (ti_ledger_command_id (hf_intent h)) = Some r'"
      "r' = r \<or> \<not> rh_posted r \<and> r' = r\<lparr>rh_posted := True\<rparr>"
    using settle_le_handoff [OF assms(1) r(1)] by blast
  have "r' = r"
    using r'(2) assms(2) [OF r'(1)] t r(4) by (auto simp: registered_ok_def)
  then show ?thesis
    using r'(1) t r(3,4) by (simp add: handoff_settled_Inr)
qed

lemma leg_settled_Inr:
  "leg_settled s i leg = Inr () \<longleftrightarrow> (\<exists>x. bt_get (fe_orders (ze_execution s)) (i, leg) = Some x \<and> is_terminal_state (xo_state x)
     \<and> (\<forall>h \<in> set (xo_handoffs x). handoff_settled s h = Inr ()))"
  by (auto simp: leg_settled_def pairexec_order_def rbind_Inr_iff ok_or_Inr_iff for_each_Inr)

lemma leg_settled_kept:
  assumes "settle_le cx s s'" and "\<And>k h. bt_get (ze_handoffs s') k = Some h \<Longrightarrow> registered_ok s' k h"
    and "leg_settled s i leg = Inr ()"
  shows "leg_settled s' i leg = Inr ()"
proof -
  obtain x where x: "bt_get (fe_orders (ze_execution s)) (i, leg) = Some x" "is_terminal_state (xo_state x)"
      "\<forall>h \<in> set (xo_handoffs x). handoff_settled s h = Inr ()"
    using assms(3) by (auto simp: leg_settled_Inr)
  have "bt_get (fe_orders (ze_execution s')) (i, leg) = Some x"
    using assms(1) x(1,2) unfolding settle_le_def pairexec_le_def paired_progress_def by blast
  then show ?thesis
    using x(2,3) handoff_settled_kept [OF assms(1,2)] by (auto simp: leg_settled_Inr)
qed

lemma reservation_closed_kept:
  assumes "settle_le cx s s'" and "reservation_closed s i = Inr ()" and "staging_reservation (settle_staging s) i \<noteq> None"
  shows "reservation_closed s' i = Inr ()"
proof -
  obtain r where r: "bt_get (reservations (settle_ledger s)) i = Some r" "res_status r \<noteq> ReservationActive"
    using assms(2,3)
    by (auto simp: reservation_closed_def staging_reservation_def ledger_reservation_def split: option.split_asm if_split_asm)
  then have "bt_get (reservations (settle_ledger s')) i = Some r"
    using settle_le_ledger(1) [OF assms(1)] unfolding holdings_le_def by blast
  then show ?thesis
    using r(2) by (simp add: reservation_closed_def staging_reservation_def ledger_reservation_def)
qed

lemma pair_finished_kept:
  assumes "settle_le cx s s'" and "\<And>k h. bt_get (ze_handoffs s') k = Some h \<Longrightarrow> registered_ok s' k h"
    and "stages_reserved (settle_staging s)" and "pair_finished s i"
  shows "pair_finished s' i"
proof -
  obtain r where r: "bt_get (sg_stages (settle_staging s)) i = Some r" "reservation_closed s (fst (sr_reservation_ids r)) = Inr ()"
      "reservation_closed s (snd (sr_reservation_ids r)) = Inr ()"
    using assms(4) by (auto simp: pair_finished_def staging_stage_def)
  obtain r' where "bt_get (sg_stages (settle_staging s')) i = Some r'" "sr_reservation_ids r' = sr_reservation_ids r"
    using assms(1) r(1) unfolding settle_le_def pairexec_le_def staging_le_def by blast
  moreover have "staging_reservation (settle_staging s) (fst (sr_reservation_ids r)) \<noteq> None"
      "staging_reservation (settle_staging s) (snd (sr_reservation_ids r)) \<noteq> None"
    using assms(3) r(1) unfolding stages_reserved_def by blast+
  ultimately show ?thesis
    using assms(4) r(2,3) reservation_closed_kept [OF assms(1)] leg_settled_kept [OF assms(1,2)]
    by (simp add: pair_finished_def staging_stage_def)
qed

lemma batch_posts_command:
  assumes "pairexec_settlement_batch cx [c] s = Inr s'"
  shows "bt_get (processed (sg_ledger (pairexec_staging s'))) (ledger_command_id c) \<noteq> None"
proof -
  obtain g where g: "staging_settlement_batch (yc_staging (fc_policy cx)) [c] (pairexec_staging s) = Inr g"
      "s' = s\<lparr>fe_policy := (fe_policy s)\<lparr>ye_staging := g\<rparr>\<rparr>"
    using assms by (rule pairexec_batch_Inr)
  then obtain out l where "ledger_apply (gc_ledger_to_vec (yc_staging (fc_policy cx))) (gc_blake3 (yc_staging (fc_policy cx))) c
      (sg_ledger (pairexec_staging s)) = (Inr out, l)" "sg_ledger g = l"
    by (auto simp: staging_settlement_batch_def rbind_Inr_iff staging_ledger_apply_Inr split: if_split_asm)
  then show ?thesis
    using g(2) by (auto elim: ledger_engine.accepted_step)
qed

lemma posting_command_id [simp]: "ledger_command_id (posting_command i r confirmation at) = ti_ledger_command_id i"
  by (cases "ti_side i") auto

lemma settle_step_ok:
  assumes "settle_step cx s s'" and ok: "settle_ok s"
  shows "settle_ok s'"
proof -
  have le: "settle_le cx s s'"
    using assms by (intro settle_step_le) (simp_all add: settle_ok_def)
  have core: "paired_ok (ze_execution s') \<and> recon_inv (ze_reconciler s')"
    using assms(1)
  proof (cases rule: settle_step.cases)
    case (executed c d x)
    then show ?thesis using ok pairexec_step_ok [OF executed(2)] by (simp add: settle_ok_def)
  next
    case (registered stage leg order index digest at out r)
    then show ?thesis
      using ok recon_apply_inv [of "ze_reconciler s" "zc_recon_to_vec cx" "zc_blake3 cx"
        "RegisterIntent digest (hf_intent (xo_handoffs order ! index)) at"] by (simp add: settle_ok_def)
  next
    case (reconciled rc out r)
    then show ?thesis
      using ok recon_apply_inv [of "ze_reconciler s" "zc_recon_to_vec cx" "zc_blake3 cx" rc] by (simp add: settle_ok_def)
  qed (use ok in \<open>auto simp: settle_ok_def dest: pairexec_batch_ok\<close>)
  have handoffs: "registered_ok s' k h" if "bt_get (ze_handoffs s') k = Some h" for k h
  proof (cases "bt_get (ze_handoffs s) k = Some h")
    case True
    then show ?thesis using ok registered_ok_kept [OF le] by (simp add: settle_ok_def)
  next
    case False
    from assms(1) show ?thesis
    proof (cases rule: settle_step.cases)
      case (registered stage leg order index digest at out r)
      then show ?thesis
        using that False by (auto simp: registered_ok_def bt_get_insert pairexec_order_def split: if_split_asm)
    next
      case (posted j q trade confirmation order at x)
      then have k: "k = j" "h = q\<lparr>rh_posted := True\<rparr>"
        using that False by (auto simp: bt_get_insert split: if_split_asm)
      have q: "registered_ok s k q"
        using ok posted(2) k(1) by (simp add: settle_ok_def)
      have "registered_ok s' k q"
        by (rule registered_ok_kept [OF le q])
      moreover have "bt_get (processed (settle_ledger s')) k \<noteq> None"
        using batch_posts_command [OF posted(7), unfolded posting_command_id] q posted(1) by (simp add: registered_ok_def)
      moreover have "to_status trade = Confirmed"
        using posted(5) by (auto simp: confirmed_hash_def split: if_split_asm)
      ultimately show ?thesis
        using posted(1,4) k(2) by (simp add: registered_ok_def)
    qed (use that False in auto)
  qed
  have finished: "pair_finished s' i" if i: "bs_mem i (ze_finalized s')" for i
  proof (cases "bs_mem i (ze_finalized s)")
    case True
    then show ?thesis using ok pair_finished_kept [OF le handoffs] by (simp add: settle_ok_def)
  next
    case False
    from assms(1) show ?thesis
    proof (cases rule: settle_step.cases)
      case (finalized stage_id stage cs x)
      then have j: "i = stage_id"
        using i False by (auto simp: bs_mem_insert)
      have stage: "\<exists>r. bt_get (sg_stages (settle_staging s')) i = Some r \<and> sr_reservation_ids r = sr_reservation_ids stage"
        using finalized(3) le unfolding settle_le_def pairexec_le_def staging_le_def staging_stage_def j by blast
      have closed: "reservation_closed s' k = reservation_closed (s\<lparr>ze_execution := x\<rparr>) k" for k
        by (simp add: finalized(1) reservation_closed_def)
      show ?thesis
        using stage finalized(4,5,7,8) leg_settled_kept [OF le handoffs] closed j
        by (auto simp: pair_finished_def staging_stage_def)
    qed (use i False in auto)
  qed
  show ?thesis
    using core handoffs finished settle_le_ledger(3,4) [OF le] ok unfolding settle_ok_def by blast
qed

lemma settle_ok_cong:
  "ze_execution s' = ze_execution s \<Longrightarrow> ze_reconciler s' = ze_reconciler s \<Longrightarrow> ze_handoffs s' = ze_handoffs s
    \<Longrightarrow> ze_finalized s' = ze_finalized s \<Longrightarrow> settle_ok s' = settle_ok s \<and> settle_le cx s s' \<and> settle_le cx s' s"
  by (simp add: settle_ok_def settle_le_def registered_ok_def pair_finished_def leg_settled_Inr handoff_settled_Inr
      reservation_closed_def recon_le_refl)

lemma settle_new_step: "settle_apply_new cx c d s = (Inr out, s') \<Longrightarrow> settle_ok s \<Longrightarrow> settle_ok s' \<and> settle_le cx s s'"
proof (erule settle_apply_new_Inr)
  fix w s1
  assume a: "settle_apply_fresh cx c s = Inr (w, s1)" "s' = settle_record c d out (ze_accepted s1 + 1) s1" "settle_ok s"
  have "settle_ok s1" "settle_le cx s s1"
    using settle_step_ok [OF settle_fresh_step [OF a(1)] a(3)] settle_step_le [OF settle_fresh_step [OF a(1)]] a(3)
    by (simp_all add: settle_ok_def)
  then show ?thesis
    using settle_ok_cong [of s' s1 cx] settle_le_trans by (auto simp: a(2) settle_record_def)
qed

lemma settle_halt_step: "settle_ok s \<Longrightarrow> settle_ok (settle_halt e s) \<and> settle_le cx s (settle_halt e s)"
  using settle_ok_cong [of "settle_halt e s" s cx] by (simp add: settle_halt_def)

lemma settle_run:
  assumes "settle_ok s"
  shows "settle_ok (run_commands (settle_apply cx) cs s) \<and> settle_le cx s (run_commands (settle_apply cx) cs s)"
proof (rule settle_journal.run_invariant [of "\<lambda>s'. settle_ok s' \<and> settle_le cx s s'"])
  show "settle_ok s \<and> settle_le cx s s" using assms by simp
  show "settle_ok (settle_halt e s') \<and> settle_le cx s (settle_halt e s')" if "settle_ok s' \<and> settle_le cx s s'" for e s'
    using that settle_halt_step settle_le_trans by blast
  show "settle_ok s2 \<and> settle_le cx s s2" if "settle_ok s1 \<and> settle_le cx s s1" "settle_apply_new cx c d s1 = (Inr out, s2)"
    for c d out s1 s2
    using that settle_new_step settle_le_trans by blast
qed

lemma settle_new_ok: "settle_new config = Inr s \<Longrightarrow> settle_ok s"
  using ledger_inv_default paired_ok_after [of _ "[]"]
  by (auto simp: settle_new_def settle_ok_def stages_reserved_def pairexec_default_def pairpol_default_def staging_default_def
      intro: recon_new_inv split: sum.split_asm)

text \<open>The runtime after a history, from a configuration that it accepts.\<close>

abbreviation settle_reached :: "settle_codec \<Rightarrow> recon_config \<Rightarrow> settle_command list \<Rightarrow> settle \<Rightarrow> bool" where
  "settle_reached cx config cs s \<equiv> \<exists>s0. settle_new config = Inr s0 \<and> s = run_commands (settle_apply cx) cs s0"

lemma settle_reached_ok: "settle_reached cx config cs s \<Longrightarrow> settle_ok s"
  using settle_new_ok settle_run by blast

section \<open>Properties\<close>

text \<open>C7: Only confirmed fills are posted: in every reachable settlement runtime, a hand-off that is marked as posted
  stands under the ledger command of its fill, which the ledger has processed, its trade is confirmed, and it carries the token, the
  quantity, the consideration and the fee of a fill of the order that it came from.\<close>
theorem posted_fills_are_confirmed:
  assumes "settle_reached cx config cs s" and "bt_get (ze_handoffs s) k = Some h" and "rh_posted h"
  shows "ti_ledger_command_id (rh_intent h) = k \<and> bt_get (processed (settle_ledger s)) k \<noteq> None
    \<and> (\<exists>t. recon_trade (ze_reconciler s) (ti_trade_id (rh_intent h)) = Some t \<and> to_status t = Confirmed)
    \<and> (\<exists>x f. pairexec_order (ze_execution s) (rh_stage_id h) (rh_leg_index h) = Some x
         \<and> ti_token (rh_intent h) = oe_token (pm_order (xo_permit x)) \<and> bt_get (xo_fills x) (ti_trade_id (rh_intent h)) = Some f
         \<and> ti_quantity (rh_intent h) = mf_quantity f \<and> ti_consideration (rh_intent h) = mf_consideration f
         \<and> ti_fee (rh_intent h) = mf_fee f)"
proof -
  have ok: "settle_ok s"
    using assms(1) by (rule settle_reached_ok)
  then have r: "registered_ok s k h"
    using assms(2) by (simp add: settle_ok_def)
  then obtain x where x: "bt_get (fe_orders (ze_execution s)) (rh_stage_id h, rh_leg_index h) = Some x"
      "rh_handoff_index h < length (xo_handoffs x)" "rh_intent h = hf_intent (xo_handoffs x ! rh_handoff_index h)"
    by (auto simp: registered_ok_def)
  have "paired_order_ok (ze_execution s) (rh_stage_id h, rh_leg_index h) x"
    using ok x(1) by (auto simp: settle_ok_def intro: paired_okD)
  then have "handoffs_ok (plain_order undefined x)"
    by (simp add: paired_order_ok_def order_ok_def)
  moreover have "xo_handoffs x ! rh_handoff_index h \<in> set (xo_handoffs x)"
    using x(2) by simp
  ultimately have "\<exists>f. bt_get (xo_fills x) (ti_trade_id (rh_intent h)) = Some f \<and> ti_quantity (rh_intent h) = mf_quantity f
      \<and> ti_consideration (rh_intent h) = mf_consideration f \<and> ti_fee (rh_intent h) = mf_fee f
      \<and> ti_token (rh_intent h) = oe_token (pm_order (xo_permit x))"
    unfolding x(3) by (auto simp: handoffs_ok_def handoff_of_def)
  then show ?thesis
    using r x(1) assms(3) by (auto simp: registered_ok_def pairexec_order_def)
qed

text \<open>A finalized pair is closed for good: once a stage is finalized, in every later state both of its legs have an
  order that is terminal, every fill of them is registered, its trade is terminal and it is posted exactly when the trade was confirmed,
  and neither reservation of the pair is active.\<close>
theorem finalized_pairs_stay_closed:
  assumes "settle_reached cx config cs s" and "bs_mem stage (ze_finalized s)"
  shows "let s' = run_commands (settle_apply cx) ds s in
    (\<forall>leg \<le> 1. \<exists>x. pairexec_order (ze_execution s') stage leg = Some x \<and> is_terminal_state (xo_state x)
       \<and> (\<forall>f \<in> set (xo_handoffs x). \<exists>h t. bt_get (ze_handoffs s') (ti_ledger_command_id (hf_intent f)) = Some h
            \<and> recon_trade (ze_reconciler s') (ti_trade_id (rh_intent h)) = Some t \<and> is_terminal (to_status t)
            \<and> (to_status t = Confirmed \<longleftrightarrow> rh_posted h)))
    \<and> (\<exists>r. staging_stage (settle_staging s') stage = Some r
         \<and> (\<forall>i \<in> {fst (sr_reservation_ids r), snd (sr_reservation_ids r)}.
              \<exists>v. staging_reservation (settle_staging s') i = Some v \<and> res_status v \<noteq> ReservationActive))"
proof -
  define s' where "s' = run_commands (settle_apply cx) ds s"
  have ok: "settle_ok s'" and le: "settle_le cx s s'"
    using settle_run settle_reached_ok [OF assms(1)] by (auto simp: s'_def)
  have f: "pair_finished s' stage"
    using ok le assms(2) by (simp add: settle_ok_def settle_le_def)
  then have legs: "leg_settled s' stage leg = Inr ()" if "leg \<le> 1" for leg
    using le_one_cases [THEN iffD1, OF that] f by (auto simp: pair_finished_def)
  obtain r where r: "staging_stage (settle_staging s') stage = Some r"
      "reservation_closed s' (fst (sr_reservation_ids r)) = Inr ()" "reservation_closed s' (snd (sr_reservation_ids r)) = Inr ()"
    using f by (auto simp: pair_finished_def)
  have "staging_reservation (settle_staging s') (fst (sr_reservation_ids r)) \<noteq> None"
      "staging_reservation (settle_staging s') (snd (sr_reservation_ids r)) \<noteq> None"
    using ok r(1) unfolding settle_ok_def stages_reserved_def staging_stage_def by blast+
  then have "\<forall>i \<in> {fst (sr_reservation_ids r), snd (sr_reservation_ids r)}.
      \<exists>v. staging_reservation (settle_staging s') i = Some v \<and> res_status v \<noteq> ReservationActive"
    using r(2,3) by (auto simp: reservation_closed_def split: if_split_asm)
  moreover have "\<exists>x. pairexec_order (ze_execution s') stage leg = Some x \<and> is_terminal_state (xo_state x)
       \<and> (\<forall>f \<in> set (xo_handoffs x). \<exists>h t. bt_get (ze_handoffs s') (ti_ledger_command_id (hf_intent f)) = Some h
            \<and> recon_trade (ze_reconciler s') (ti_trade_id (rh_intent h)) = Some t \<and> is_terminal (to_status t)
            \<and> (to_status t = Confirmed \<longleftrightarrow> rh_posted h))" if "leg \<le> 1" for leg
    using legs [OF that] by (auto simp: leg_settled_Inr handoff_settled_Inr pairexec_order_def)
  ultimately show ?thesis
    using r(1) unfolding s'_def [symmetric] Let_def by blast
qed

text \<open>C36: A first leg that ends partly filled leaves its pair open forever: the hedge can then not be licensed, so its leg
  never gets the order that finalizing requires, and the filled leg is not safe to abort; in every later state each attempt to finalize
  the pair is refused and aborting it is not safe, whatever commands come between.\<close>
theorem partly_filled_pairs_are_never_closed:
  assumes "settle_reached cx config cs s" and "bt_get (ye_records (fe_policy (ze_execution s))) stage = Some r"
    and "lp_first_leg r = Some f" and "at_leg f (lp_legs r) = LegPartiallyMatchedTerminal"
  shows "let s' = run_commands (settle_apply cx) ds s in
    (\<exists>e. settle_finalize cx i stage t s' = Inl e) \<and> \<not> bs_mem stage (ze_finalized s')
    \<and> \<not> abort_is_safe stage (fe_policy (ze_execution s'))"
proof -
  define s' where "s' = run_commands (settle_apply cx) ds s"
  have ok: "settle_ok s" "settle_ok s'" and le: "settle_le cx s s'"
    using settle_run settle_reached_ok [OF assms(1)] by (auto simp: s'_def)
  obtain r' where r': "bt_get (ye_records (fe_policy (ze_execution s'))) stage = Some r'" "pair_progress r r'"
    using le assms(2) unfolding settle_le_def pairexec_le_def by blast
  have "pair_ok r" "pair_ok r'"
    using ok assms(2) r'(1) by (auto simp: settle_ok_def paired_ok_def pairs_ok_def)
  then have f: "f \<le> 1" "lp_first_leg r' = Some f" "hedged_properly r' f"
    using assms(3) r'(2) by (auto simp: pair_ok_def hedged_properly_def pair_progress_def)
  then have leg: "at_leg f (lp_legs r') = LegPartiallyMatchedTerminal"
    using r'(2) assms(4) by (simp add: pair_progress_def leg_final_def)
  then have "at_leg (1 - f) (lp_permits r') = None"
    using f(3) by (auto simp: hedged_properly_def split: option.split_asm)
  then have open_leg: "bt_get (fe_orders (ze_execution s')) (stage, 1 - f) = None"
    using paired_okD [of "ze_execution s'" "(stage, 1 - f)"] ok(2) r'(1)
    by (cases "bt_get (fe_orders (ze_execution s')) (stage, 1 - f)") (auto simp: settle_ok_def paired_order_ok_def)
  then have unsettled: "leg_settled s' stage (1 - f) \<noteq> Inr ()"
    by (simp add: leg_settled_Inr)
  have "\<not> abort_is_safe stage (fe_policy (ze_execution s'))"
    using leg r'(1) f(1) by (auto simp: abort_is_safe_def safe_terminal_def at_leg_def le_one_cases split: if_split_asm)
  moreover have "\<not> bs_mem stage (ze_finalized s')"
    using ok(2) unsettled le_one_cases [THEN iffD1, OF f(1)] by (auto simp: settle_ok_def pair_finished_def)
  moreover have "\<exists>e. settle_finalize cx i stage t s' = Inl e"
  proof (cases "settle_finalize cx i stage t s'")
    case (Inr v)
    then have "leg_settled s' stage 0 = Inr ()" "leg_settled s' stage 1 = Inr ()"
      by (auto simp: settle_finalize_def rbind_Inr_iff split: if_split_asm)
    then show ?thesis using unsettled le_one_cases [THEN iffD1, OF f(1)] by auto
  qed simp
  ultimately show ?thesis
    unfolding s'_def [symmetric] Let_def by blast
qed

end
