(* ===== verification/Ctf_Theorems.thy ===== *)
theory Ctf_Theorems
  imports Ctf_Runtime Paired_Settlement_Theorems
begin

text \<open>
  What the conditional-token transaction runtime guarantees: its records are well-formed, a finished
  conversion stays finished, and under the whole chain of runtimes lies one ledger.
\<close>

declare ctf_apply_fresh.simps [simp del] conversion_transition.simps [simp del] back_request.simps [simp del]

section \<open>The engine\<close>

lemma settle_batch_step:
  assumes "settle_batch cx cs s = Inr s'" and "settle_ok s"
  shows "settle_ok s' \<and> settle_le cx s s'"
proof -
  obtain x where x: "pairexec_settlement_batch (zc_execution cx) cs (ze_execution s) = Inr x" "s' = s\<lparr>ze_execution := x\<rparr>"
    using assms(1) by (auto simp: settle_batch_Inr)
  have "settle_ok (s\<lparr>ze_execution := x, ze_locked := bt_insert undefined undefined (ze_locked s)\<rparr>)
      \<and> settle_le cx s (s\<lparr>ze_execution := x, ze_locked := bt_insert undefined undefined (ze_locked s)\<rparr>)"
    using settle_step.locked [OF x(1)] settle_step_ok settle_step_le assms(2) by (meson settle_ok_def)
  then show ?thesis
    using settle_ok_cong [of s' "s\<lparr>ze_execution := x, ze_locked := bt_insert undefined undefined (ze_locked s)\<rparr>" cx] settle_le_trans
    by (auto simp: x(2))
qed

lemma settle_apply_step:
  assumes "settle_apply cx c s = (r, s')" and "settle_ok s"
  shows "settle_ok s' \<and> settle_le cx s s'"
  using settle_run [OF assms(2), of cx "[c]"] assms(1) by simp

abbreviation ctf_ledger :: "ctf \<Rightarrow> ledger" where
  "ctf_ledger s \<equiv> settle_ledger (ve_parent s)"

lemma ctf_batch_Inr:
  "ctf_batch cx c s = Inr s' \<longleftrightarrow> (\<exists>p. settle_batch (vc_parent cx) [c] (ve_parent s) = Inr p \<and> s' = s\<lparr>ve_parent := p\<rparr>)"
  by (auto simp: ctf_batch_def split: sum.split)

text \<open>What an operation may do to the runtime below, and to the external identities.\<close>

definition below_step :: "ctf_codec \<Rightarrow> ctf \<Rightarrow> ctf \<Rightarrow> bool" where
  "below_step cx s s' \<longleftrightarrow> settle_ok (ve_parent s') \<and> settle_le (vc_parent cx) (ve_parent s) (ve_parent s')
     \<and> s' = s\<lparr>ve_parent := ve_parent s'\<rparr>"

lemma below_step_refl: "settle_ok (ve_parent s) \<Longrightarrow> below_step cx s s"
  by (simp add: below_step_def)

lemma ctf_batch_below: "ctf_batch cx c s = Inr s' \<Longrightarrow> settle_ok (ve_parent s) \<Longrightarrow> below_step cx s s'"
  using settle_batch_step by (auto simp: ctf_batch_Inr below_step_def)

lemma ctf_batch_posts:
  assumes "ctf_batch cx c s = Inr s'"
  shows "bt_get (processed (ctf_ledger s')) (ledger_command_id c) \<noteq> None"
  using assms batch_posts_command by (fastforce simp: ctf_batch_Inr settle_batch_Inr)

lemma back_request_below:
  assumes "back_request cx i q at s = Inr (reservation, s')" and "settle_ok (ve_parent s)"
  shows "below_step cx s s'"
  using assms ctf_batch_below [OF _ assms(2)] below_step_refl [OF assms(2)]
  by (cases q) (auto simp: back_request.simps Let_def rbind_Inr_iff split: if_split_asm option.split_asm)

lemma back_request_reservation:
  assumes "back_request cx i q at s = Inr (reservation, s')"
  shows "reservation = (case q of ConvertMerge _ _ _ _ \<Rightarrow> None | _ \<Rightarrow> Some (derived_reservation_id cx i))"
  using assms by (cases q) (auto simp: back_request.simps Let_def rbind_Inr_iff split: if_split_asm option.split_asm)

lemma ctf_request_Inr:
  assumes "ctf_request cx i conversion q at s = Inr (d, s')" and "settle_ok (ve_parent s)"
  obtains s1 r where "below_step cx s s1" "bt_get (ve_records s) conversion = None" "valid_request q"
    "cv_conversion_id r = conversion" "cv_request r = q" "cv_state r = ConvRequested" "cv_external_id r = None"
    "cv_reservation_id r = (case q of ConvertMerge _ _ _ _ \<Rightarrow> None | _ \<Rightarrow> Some (derived_reservation_id cx conversion))"
    "\<not> cv_accounting_posted r" "s' = s1\<lparr>ve_records := bt_insert conversion (seal_conversion cx r) (ve_records s1)\<rparr>"
proof -
  obtain reservation s1 where b: "back_request cx conversion q at s = Inr (reservation, s1)" "valid_request q"
      "bt_get (ve_records s) conversion = None"
      "s' = s1\<lparr>ve_records := bt_insert conversion (seal_conversion cx \<lparr>cv_conversion_id = conversion, cv_request = q,
        cv_reservation_id = reservation, cv_state = ConvRequested, cv_external_id = None, cv_last_source_sequence = None,
        cv_last_event_time = None, cv_last_received_time = None, cv_accounting_posted = False,
        cv_requested_at = at, cv_record_digest = 0\<rparr>) (ve_records s1)\<rparr>"
    using assms(1) by (auto simp: ctf_request_def rbind_Inr_iff bt_contains_def Let_def split: if_split_asm sum.split_asm)
  show ?thesis
    by (rule that [OF back_request_below [OF b(1) assms(2)] b(3,2) _ _ _ _ _ _ b(4)])
      (simp_all add: back_request_reservation [OF b(1)])
qed

text \<open>The moves of a conversion.\<close>

lemma conversion_transition_Inr:
  assumes "conversion_transition cx r event at s = Inr ((state, detail, entered), s')" and "settle_ok (ve_parent s)"
  obtains (terminal) "conv_terminal (cv_state r)" "state = cv_state r" "entered = cv_accounting_posted r" "s' = s"
  | (again) external where "\<not> conv_terminal (cv_state r)" "event = EvtPending external" "cv_external_id r = Some external"
      "state = cv_state r" "entered = cv_accounting_posted r" "s' = s"
  | (pending) external where "\<not> conv_terminal (cv_state r)" "event = EvtPending external" "cv_external_id r = None"
      "bt_get (ve_external_ids s) external \<in> {None, Some (cv_conversion_id r)}" "state = ConvPending" "\<not> entered"
      "s' = s\<lparr>ve_external_ids := bt_insert external (cv_conversion_id r) (ve_external_ids s)\<rparr>"
  | (retrying) reason where "\<not> conv_terminal (cv_state r)" "event = EvtRetrying reason" "cv_external_id r \<noteq> None"
      "state = ConvRetrying reason" "\<not> entered" "s' = s"
  | (confirmed) hash c where "\<not> conv_terminal (cv_state r)" "event = EvtConfirmed hash" "cv_external_id r \<noteq> None"
      "state = ConvConfirmed hash" "entered" "confirmed_conversion cx r hash at = Inr c" "ctf_batch cx c s = Inr s'"
  | (failed) reason where "\<not> conv_terminal (cv_state r)" "event = EvtFailed reason" "state = ConvFailed reason" "\<not> entered"
      "case cv_reservation_id r of None \<Rightarrow> s' = s
       | Some i \<Rightarrow> ctf_batch cx (ReleaseReservation (conversion_ledger_id cx (cv_conversion_id r) ''release'') i at) s = Inr s'"
proof (cases "conv_terminal (cv_state r)")
  case True
  then show ?thesis
    using assms(1) terminal by (auto simp: conversion_transition.simps split: if_split_asm)
next
  case False
  then have "\<not> duplicate_terminal (cv_state r) event"
    by (cases "cv_state r"; cases event) auto
  then show ?thesis
    using assms(1) False again pending retrying confirmed failed
    by (cases event) (auto simp: conversion_transition.simps rbind_Inr_iff split: if_split_asm option.split_asm)
qed

lemma ctf_observe_Inr:
  assumes "ctf_observe cx i v at s = Inr (d, s')"
  obtains r state detail entered s1 where "bt_get (ve_records s) (co_conversion_id v) = Some r" "validate_source r v = Inr ()"
    "conversion_transition cx r (co_event v) at s = Inr ((state, detail, entered), s1)"
    "s' = s1\<lparr>ve_records := bt_insert (co_conversion_id v) (observed_conversion cx r v state entered) (ve_records s1)\<rparr>"
  using assms by (auto simp: ctf_observe_def rbind_Inr_iff ok_or_Inr_iff)

lemma ctf_fresh_frame:
  assumes "ctf_apply_fresh cx c s = Inr (d, s')"
  shows "ve_processed s' = ve_processed s \<and> ve_accepted s' = ve_accepted s \<and> ve_halted s' = ve_halted s"
proof (cases c)
  case (CtfParent i p t)
  then show ?thesis
    using assms by (auto simp: ctf_apply_fresh.simps ctf_apply_parent_def split: if_split_asm prod.split_asm sum.split_asm)
next
  case (CtfRequest i conversion q t)
  then show ?thesis
    using assms
    by (cases q) (auto simp: ctf_apply_fresh.simps ctf_request_def back_request.simps rbind_Inr_iff ctf_batch_Inr Let_def
        split: if_split_asm sum.split_asm option.split_asm)
next
  case (CtfObserve i v t)
  then show ?thesis
    using assms
    by (auto simp: ctf_apply_fresh.simps conversion_transition.simps rbind_Inr_iff ctf_batch_Inr
        split: if_split_asm option.split_asm conversion_event.split_asm elim!: ctf_observe_Inr)
qed

lemma ctf_apply_new_Inr:
  assumes "ctf_apply_new cx c digest s = (Inr v, s')"
  obtains w s1 where "ctf_apply_fresh cx c s = Inr (w, s1)" "v = w\<lparr>vo_digest := ctf_outcome_digest cx w\<rparr>"
    "s' = ctf_record c digest v (ve_accepted s1 + 1) s1"
  using assms
  by (auto simp: ctf_apply_new_def Let_def checked_simps split: if_split_asm sum.split_asm option.split_asm)

interpretation ctf_journal: journal "ctf_apply cx" ctf_command_id ctf_early "ctf_content cx" ve_processed
  ve_accepted ve_halted ctf_halt VHalted VIdempotencyConflict "ctf_apply_new cx"
  for cx
proof unfold_locales
  fix c s d out s' e
  show "ctf_apply cx c s = (case ve_halted s of Some reason \<Rightarrow> (Inl (VHalted reason), s)
      | None \<Rightarrow> (case ctf_early c of Some e \<Rightarrow> (Inl e, ctf_halt e s) | None \<Rightarrow> (case ctf_content cx c of Inl e \<Rightarrow> (Inl e, s)
          | Inr d \<Rightarrow> (case bt_get (ve_processed s) (ctf_command_id c) of
              Some (d', out) \<Rightarrow> if d' = d then (Inr out, s) else (Inl VIdempotencyConflict, ctf_halt VIdempotencyConflict s)
            | None \<Rightarrow> ctf_apply_new cx c d s))))"
    by (simp add: ctf_apply_def split: option.split sum.split)
  show "ve_halted (ctf_halt e s) \<noteq> None" "ve_processed (ctf_halt e s) = ve_processed s"
      "ve_accepted (ctf_halt e s) = ve_accepted s"
    by (simp_all add: ctf_halt_def)
  show "ve_halted s = None \<Longrightarrow> ctf_apply_new cx c d s = (Inr out, s')
      \<Longrightarrow> ve_processed s' = bt_insert (ctf_command_id c) (d, out) (ve_processed s)
        \<and> ve_accepted s' = ve_accepted s + 1 \<and> ve_halted s' = None"
    by (auto simp: ctf_record_def elim!: ctf_apply_new_Inr dest!: ctf_fresh_frame)
  show "ctf_apply_new cx c d s = (Inl e, s') \<Longrightarrow> s' = s \<or> s' = ctf_halt e s"
    by (auto simp: ctf_apply_new_def Let_def split: if_split_asm sum.split_asm option.split_asm)
qed

section \<open>What the runtime keeps\<close>

definition conversion_ok :: "ctf_codec \<Rightarrow> ctf \<Rightarrow> conversion_id \<Rightarrow> conversion \<Rightarrow> bool" where
  "conversion_ok cx s i r \<longleftrightarrow> cv_conversion_id r = i \<and> conversion_verify_digest cx r \<and> valid_request (cv_request r)
     \<and> cv_reservation_id r = (case cv_request r of ConvertMerge _ _ _ _ \<Rightarrow> None | _ \<Rightarrow> Some (derived_reservation_id cx i))
     \<and> (case cv_state r of
          ConvRequested \<Rightarrow> cv_external_id r = None
        | ConvFailed _ \<Rightarrow> True
        | _ \<Rightarrow> cv_external_id r \<noteq> None)
     \<and> (cv_accounting_posted r \<longleftrightarrow> (\<exists>hash. cv_state r = ConvConfirmed hash))
     \<and> (\<forall>e. cv_external_id r = Some e \<longrightarrow> bt_get (ve_external_ids s) e = Some i)
     \<and> (cv_accounting_posted r \<longrightarrow> bt_get (processed (ctf_ledger s)) (conversion_ledger_id cx i ''confirm'') \<noteq> None)
     \<and> (\<forall>reason. cv_state r = ConvFailed reason \<longrightarrow> cv_reservation_id r \<noteq> None
          \<longrightarrow> bt_get (processed (ctf_ledger s)) (conversion_ledger_id cx i ''release'') \<noteq> None)"

definition ctf_ok :: "ctf_codec \<Rightarrow> ctf \<Rightarrow> bool" where
  "ctf_ok cx s \<longleftrightarrow> settle_ok (ve_parent s) \<and> (\<forall>i r. bt_get (ve_records s) i = Some r \<longrightarrow> conversion_ok cx s i r)"

definition conversion_le :: "conversion \<Rightarrow> conversion \<Rightarrow> bool" where
  "conversion_le r r' \<longleftrightarrow> cv_conversion_id r' = cv_conversion_id r \<and> cv_request r' = cv_request r
     \<and> cv_reservation_id r' = cv_reservation_id r \<and> (cv_external_id r \<noteq> None \<longrightarrow> cv_external_id r' = cv_external_id r)
     \<and> (conv_terminal (cv_state r) \<longrightarrow> cv_state r' = cv_state r \<and> cv_accounting_posted r' = cv_accounting_posted r)"

definition ctf_le :: "ctf_codec \<Rightarrow> ctf \<Rightarrow> ctf \<Rightarrow> bool" where
  "ctf_le cx s s' \<longleftrightarrow> settle_le (vc_parent cx) (ve_parent s) (ve_parent s')
     \<and> (\<forall>e i. bt_get (ve_external_ids s) e = Some i \<longrightarrow> bt_get (ve_external_ids s') e = Some i)
     \<and> (\<forall>i r. bt_get (ve_records s) i = Some r \<longrightarrow> (\<exists>r'. bt_get (ve_records s') i = Some r' \<and> conversion_le r r'))"

lemma conversion_le_refl [simp]: "conversion_le r r"
  by (simp add: conversion_le_def)

lemma conversion_le_trans: "conversion_le r r1 \<Longrightarrow> conversion_le r1 r2 \<Longrightarrow> conversion_le r r2"
  by (auto simp: conversion_le_def)

lemma ctf_le_refl [simp]: "ctf_le cx s s"
  by (simp add: ctf_le_def)

lemma ctf_le_trans:
  assumes "ctf_le cx s s1" and "ctf_le cx s1 s2"
  shows "ctf_le cx s s2"
proof -
  have "settle_le (vc_parent cx) (ve_parent s) (ve_parent s2)"
    using assms settle_le_trans unfolding ctf_le_def by blast
  moreover have "\<exists>r'. bt_get (ve_records s2) i = Some r' \<and> conversion_le r r'" if r: "bt_get (ve_records s) i = Some r" for i r
  proof -
    obtain r1 where "bt_get (ve_records s1) i = Some r1" "conversion_le r r1"
      using assms(1) r unfolding ctf_le_def by blast
    then show ?thesis
      using assms(2) conversion_le_trans unfolding ctf_le_def by blast
  qed
  moreover have "bt_get (ve_external_ids s2) e = Some i" if "bt_get (ve_external_ids s) e = Some i" for e i
    using assms that unfolding ctf_le_def by blast
  ultimately show ?thesis
    unfolding ctf_le_def by blast
qed

lemma conversion_ok_kept:
  assumes "conversion_ok cx s i r" and "settle_le (vc_parent cx) (ve_parent s) (ve_parent s')"
    and "\<And>e. bt_get (ve_external_ids s) e = Some i \<Longrightarrow> bt_get (ve_external_ids s') e = Some i"
  shows "conversion_ok cx s' i r"
  using assms(1,3) settle_le_ledger(2) [OF assms(2)]
  unfolding conversion_ok_def processed_le_def by (elim conjE, intro conjI) (blast | assumption)+

text \<open>The record of one conversion is entered, over a state with the same or more books and external identities.\<close>

lemma ctf_record_step:
  assumes "ctf_ok cx s" and "settle_ok (ve_parent s')" and "settle_le (vc_parent cx) (ve_parent s) (ve_parent s')"
    and "\<And>e j. bt_get (ve_external_ids s) e = Some j \<Longrightarrow> bt_get (ve_external_ids s') e = Some j"
    and "ve_records s' = bt_insert i r (ve_records s)" and "conversion_ok cx s' i r"
    and "\<And>q. bt_get (ve_records s) i = Some q \<Longrightarrow> conversion_le q r"
  shows "ctf_ok cx s' \<and> ctf_le cx s s'"
proof
  show "ctf_ok cx s'"
    using assms(1,2,6) conversion_ok_kept [OF _ assms(3)] assms(4) by (auto simp: ctf_ok_def assms(5) bt_get_insert)
  show "ctf_le cx s s'"
    using assms(3,4,7) by (auto simp: ctf_le_def assms(5) bt_get_insert)
qed

lemma seal_conversion_fields [simp]:
  "cv_conversion_id (seal_conversion cx r) = cv_conversion_id r" "cv_request (seal_conversion cx r) = cv_request r"
  "cv_reservation_id (seal_conversion cx r) = cv_reservation_id r" "cv_state (seal_conversion cx r) = cv_state r"
  "cv_external_id (seal_conversion cx r) = cv_external_id r" "cv_accounting_posted (seal_conversion cx r) = cv_accounting_posted r"
  "conversion_verify_digest cx (seal_conversion cx r)"
  by (simp_all add: seal_conversion_def conversion_verify_digest_def conversion_digest_def Let_def)

lemma observed_conversion_fields [simp]:
  "cv_conversion_id (observed_conversion cx r v state p) = cv_conversion_id r"
  "cv_request (observed_conversion cx r v state p) = cv_request r"
  "cv_reservation_id (observed_conversion cx r v state p) = cv_reservation_id r"
  "cv_state (observed_conversion cx r v state p) = state" "cv_accounting_posted (observed_conversion cx r v state p) = p"
  "cv_external_id (observed_conversion cx r v state p) = (case co_event v of
     EvtPending external \<Rightarrow> (if cv_external_id r = None then Some external else cv_external_id r) | _ \<Rightarrow> cv_external_id r)"
  "conversion_verify_digest cx (observed_conversion cx r v state p)"
  by (simp_all add: observed_conversion_def)

lemma confirmed_conversion_id:
  "confirmed_conversion cx r hash at = Inr c \<Longrightarrow> ledger_command_id c = conversion_ledger_id cx (cv_conversion_id r) ''confirm''"
  by (auto simp: rbind_Inr_iff Let_def split: conversion_request.split_asm)

lemma ctf_observe_ok:
  assumes "ctf_observe cx i v at s = Inr (d, s')" and ok: "ctf_ok cx s"
  shows "ctf_ok cx s' \<and> ctf_le cx s s'"
  using assms(1)
proof (rule ctf_observe_Inr)
  fix r state detail entered s1
  assume r: "bt_get (ve_records s) (co_conversion_id v) = Some r"
    and t: "conversion_transition cx r (co_event v) at s = Inr ((state, detail, entered), s1)"
    and s': "s' = s1\<lparr>ve_records := bt_insert (co_conversion_id v) (observed_conversion cx r v state entered) (ve_records s1)\<rparr>"
  let ?i = "co_conversion_id v" and ?r = "observed_conversion cx r v state entered"
  have parent: "settle_ok (ve_parent s)" and rok: "conversion_ok cx s ?i r"
    using ok r by (simp_all add: ctf_ok_def)
  then have ri: "cv_conversion_id r = ?i"
    by (simp add: conversion_ok_def)
  note step = ctf_record_step [OF ok, of s' ?i ?r]
  have ids: "cv_external_id r = None" if "\<not> conv_terminal (cv_state r)" "cv_state r = ConvRequested"
    using rok that by (simp add: conversion_ok_def)
  from t parent show ?thesis
  proof (cases rule: conversion_transition_Inr)
    case terminal
    then have ev: "case co_event v of EvtPending external \<Rightarrow> False | EvtRetrying reason \<Rightarrow> False | _ \<Rightarrow> True"
      using t by (cases "cv_state r"; cases "co_event v") (auto simp: conversion_transition.simps split: if_split_asm)
    then have ext: "cv_external_id ?r = cv_external_id r"
      by (cases "co_event v") auto
    have "conversion_ok cx s' ?i ?r"
      using rok terminal ext by (cases "cv_state r") (simp_all add: conversion_ok_def s')
    then show ?thesis
      using terminal r ext parent by (intro step) (auto simp: s' conversion_le_def)
  next
    case (again external)
    have "conversion_ok cx s' ?i ?r"
      using rok again by (cases "cv_state r") (simp_all add: conversion_ok_def s')
    then show ?thesis
      using again r parent by (intro step) (auto simp: s' conversion_le_def)
  next
    case (pending external)
    have "conversion_ok cx s' ?i ?r"
      using rok pending by (auto simp: conversion_ok_def s' bt_get_insert)
    then show ?thesis
      using pending r parent ri by (intro step) (auto simp: s' conversion_le_def bt_get_insert)
  next
    case (retrying reason)
    have "conversion_ok cx s' ?i ?r"
      using rok retrying by (auto simp: conversion_ok_def s')
    then show ?thesis
      using retrying r parent by (intro step) (auto simp: s' conversion_le_def)
  next
    case (confirmed hash c)
    note below = ctf_batch_below [OF confirmed(7) parent]
    have "bt_get (processed (ctf_ledger s1)) (conversion_ledger_id cx ?i ''confirm'') \<noteq> None"
      using ctf_batch_posts [OF confirmed(7)] confirmed_conversion_id [OF confirmed(6)] ri by simp
    moreover have frame: "ve_records s1 = ve_records s" "ve_external_ids s1 = ve_external_ids s"
      using confirmed(7) by (auto simp: ctf_batch_Inr)
    ultimately have "conversion_ok cx s' ?i ?r"
      using rok confirmed by (auto simp: conversion_ok_def s')
    then show ?thesis
      using confirmed r below frame by (intro step) (auto simp: s' conversion_le_def below_step_def)
  next
    case (failed reason)
    have frame: "ve_records s1 = ve_records s" "ve_external_ids s1 = ve_external_ids s" "below_step cx s s1"
      using failed(5) ctf_batch_below [OF _ parent] below_step_refl [OF parent]
      by (auto simp: ctf_batch_Inr split: option.split_asm)
    have "bt_get (processed (ctf_ledger s1)) (conversion_ledger_id cx ?i ''release'') \<noteq> None" if "cv_reservation_id r \<noteq> None"
      using failed(5) that ri by (auto split: option.split_asm dest!: ctf_batch_posts)
    then have "conversion_ok cx s' ?i ?r"
      using rok failed frame(1,2) by (auto simp: conversion_ok_def s')
    then show ?thesis
      using failed r frame by (intro step) (auto simp: s' conversion_le_def below_step_def)
  qed
qed

lemma ctf_fresh_ok:
  assumes "ctf_apply_fresh cx c s = Inr (d, s')" and ok: "ctf_ok cx s"
  shows "ctf_ok cx s' \<and> ctf_le cx s s'"
proof (cases c)
  case (CtfParent i p t)
  then obtain q out where q: "settle_apply (vc_parent cx) p (ve_parent s) = (out, q)" "s' = s\<lparr>ve_parent := q\<rparr>"
    using assms(1) by (auto simp: ctf_apply_fresh.simps ctf_apply_parent_def split: if_split_asm prod.split_asm sum.split_asm)
  then have "settle_ok q" "settle_le (vc_parent cx) (ve_parent s) q"
    using settle_apply_step [OF q(1)] ok by (simp_all add: ctf_ok_def)
  then show ?thesis
    using ok conversion_ok_kept [of cx s _ _ s'] by (auto simp: ctf_ok_def ctf_le_def q(2))
next
  case (CtfRequest i conversion q t)
  have parent: "settle_ok (ve_parent s)"
    using ok by (simp add: ctf_ok_def)
  have "ctf_request cx i conversion q t s = Inr (d, s')"
    using assms(1) CtfRequest by (simp add: ctf_apply_fresh.simps)
  then show ?thesis
    using parent
  proof (rule ctf_request_Inr)
    fix s1 r
    assume r: "below_step cx s s1" "bt_get (ve_records s) conversion = None" "valid_request q"
      "cv_conversion_id r = conversion" "cv_request r = q" "cv_state r = ConvRequested" "cv_external_id r = None"
      "cv_reservation_id r = (case q of ConvertMerge _ _ _ _ \<Rightarrow> None | _ \<Rightarrow> Some (derived_reservation_id cx conversion))"
      "\<not> cv_accounting_posted r" "s' = s1\<lparr>ve_records := bt_insert conversion (seal_conversion cx r) (ve_records s1)\<rparr>"
    obtain p where p: "s1 = s\<lparr>ve_parent := p\<rparr>" "settle_ok p" "settle_le (vc_parent cx) (ve_parent s) p"
      using r(1) unfolding below_step_def by blast
    then have b: "settle_ok (ve_parent s1)" "settle_le (vc_parent cx) (ve_parent s) (ve_parent s1)"
        "ve_records s1 = ve_records s" "ve_external_ids s1 = ve_external_ids s"
      by simp_all
    have "conversion_ok cx s' conversion (seal_conversion cx r)"
      using r(3-9) by (simp add: conversion_ok_def)
    then show ?thesis
      using b r(2,10) by (intro ctf_record_step [OF ok, of s' conversion "seal_conversion cx r"]) auto
  qed
next
  case (CtfObserve i v t)
  then show ?thesis
    using assms ctf_observe_ok by (simp add: ctf_apply_fresh.simps)
qed

lemma ctf_ok_cong:
  "ve_parent s' = ve_parent s \<Longrightarrow> ve_records s' = ve_records s \<Longrightarrow> ve_external_ids s' = ve_external_ids s
    \<Longrightarrow> ctf_ok cx s' = ctf_ok cx s \<and> ctf_le cx s s' \<and> ctf_le cx s' s"
  by (simp add: ctf_ok_def ctf_le_def conversion_ok_def)

lemma ctf_run:
  assumes "ctf_ok cx s"
  shows "ctf_ok cx (run_commands (ctf_apply cx) cs s) \<and> ctf_le cx s (run_commands (ctf_apply cx) cs s)"
proof (rule ctf_journal.run_invariant [of "\<lambda>s'. ctf_ok cx s' \<and> ctf_le cx s s'"])
  show "ctf_ok cx s \<and> ctf_le cx s s" using assms by simp
  show "ctf_ok cx (ctf_halt e s') \<and> ctf_le cx s (ctf_halt e s')" if "ctf_ok cx s' \<and> ctf_le cx s s'" for e s'
    using that ctf_ok_cong [of "ctf_halt e s'" s' cx] ctf_le_trans by (auto simp: ctf_halt_def)
  show "ctf_ok cx s2 \<and> ctf_le cx s s2" if "ctf_ok cx s1 \<and> ctf_le cx s s1" "ctf_apply_new cx c d s1 = (Inr out, s2)"
    for c d out s1 s2
    using that(2)
  proof (rule ctf_apply_new_Inr)
    fix w t
    assume t: "ctf_apply_fresh cx c s1 = Inr (w, t)" "s2 = ctf_record c d out (ve_accepted t + 1) t"
    have "ctf_ok cx t \<and> ctf_le cx s1 t"
      using t(1) that(1) ctf_fresh_ok by blast
    then show ?thesis
      using that(1) ctf_ok_cong [of s2 t cx] ctf_le_trans [of cx s] by (auto simp: t(2) ctf_record_def)
  qed
qed

abbreviation ctf_reached :: "ctf_codec \<Rightarrow> recon_config \<Rightarrow> ctf_command list \<Rightarrow> ctf \<Rightarrow> bool" where
  "ctf_reached cx config cs s \<equiv> \<exists>s0. ctf_new config = Inr s0 \<and> s = run_commands (ctf_apply cx) cs s0"

lemma ctf_new_ok: "ctf_new config = Inr s \<Longrightarrow> ctf_ok cx s"
  by (auto simp: ctf_new_def ctf_ok_def intro: settle_new_ok split: sum.split_asm)

lemma ctf_reached_ok: "ctf_reached cx config cs s \<Longrightarrow> ctf_ok cx s"
  using ctf_new_ok ctf_run by blast

section \<open>Properties\<close>

text \<open>C37: The records of conversions are well-formed: in every reachable runtime a record stands under its own identity
  with the digest of its content and a valid request; it names a reservation unless it merges a lock; it has an external transaction
  unless it was only requested or has failed; its accounting is marked as posted exactly when it is confirmed, and then the ledger has
  processed its posting; when it failed, the ledger has processed the release of its reservation; and no two conversions share an
  external transaction.\<close>
theorem conversion_records_are_well_formed:
  assumes "ctf_reached cx config cs s" and "ctf_conversion s i = Some r"
  shows "cv_conversion_id r = i \<and> conversion_verify_digest cx r \<and> valid_request (cv_request r)
    \<and> cv_reservation_id r = (case cv_request r of ConvertMerge _ _ _ _ \<Rightarrow> None | _ \<Rightarrow> Some (derived_reservation_id cx i))
    \<and> (cv_external_id r = None \<longrightarrow> cv_state r = ConvRequested \<or> (\<exists>reason. cv_state r = ConvFailed reason))
    \<and> (cv_accounting_posted r \<longleftrightarrow> (\<exists>hash. cv_state r = ConvConfirmed hash))
    \<and> (cv_accounting_posted r \<longrightarrow> bt_get (processed (ctf_ledger s)) (conversion_ledger_id cx i ''confirm'') \<noteq> None)
    \<and> (\<forall>reason. cv_state r = ConvFailed reason \<longrightarrow> cv_reservation_id r \<noteq> None
         \<longrightarrow> bt_get (processed (ctf_ledger s)) (conversion_ledger_id cx i ''release'') \<noteq> None)
    \<and> (\<forall>j q. ctf_conversion s j = Some q \<longrightarrow> cv_external_id r \<noteq> None \<longrightarrow> cv_external_id q = cv_external_id r \<longrightarrow> j = i)"
proof -
  have ok: "ctf_ok cx s"
    using assms(1) by (rule ctf_reached_ok)
  then have r: "conversion_ok cx s i r"
    using assms(2) by (simp add: ctf_ok_def ctf_conversion_def)
  have one: "j = i" if q: "ctf_conversion s j = Some q" "cv_external_id r \<noteq> None" "cv_external_id q = cv_external_id r" for j q
  proof -
    obtain e where e: "cv_external_id r = Some e"
      using q(2) by blast
    have "conversion_ok cx s j q"
      using ok q(1) by (simp add: ctf_ok_def ctf_conversion_def)
    then have "bt_get (ve_external_ids s) e = Some j" "bt_get (ve_external_ids s) e = Some i"
      using r e q(3) by (simp_all add: conversion_ok_def)
    then show ?thesis by simp
  qed
  have external: "cv_external_id r = None \<longrightarrow> cv_state r = ConvRequested \<or> (\<exists>reason. cv_state r = ConvFailed reason)"
    using r by (cases "cv_state r") (simp_all add: conversion_ok_def)
  show ?thesis
    using r one external unfolding conversion_ok_def by blast
qed


text \<open>C8: Under the whole chain of runtimes lies one ledger: the ledger of every reachable transaction runtime is the state
  that a history of ledger commands alone reaches from the empty ledger, so whatever holds of every history of the ledger holds of it;
  and nothing that the runtime does later reopens a closed reservation or forgets a processed command.\<close>
theorem chain_keeps_one_ledger:
  assumes "ctf_reached cx config cs s"
  shows "(\<exists>ls. ctf_ledger s = ledger_after (gc_ledger_to_vec (fc_staging (zc_execution (vc_parent cx)))) (vc_blake3 cx) ls)
    \<and> verify_invariants (ctf_ledger s) = Inr ()
    \<and> holdings_le (ctf_ledger s) (ctf_ledger (run_commands (ctf_apply cx) ds s))
    \<and> processed_le (ctf_ledger s) (ctf_ledger (run_commands (ctf_apply cx) ds s))"
proof -
  obtain s0 where s0: "ctf_new config = Inr s0" "s = run_commands (ctf_apply cx) cs s0"
    using assms by blast
  have le: "ctf_le cx s0 s" "ctf_le cx s (run_commands (ctf_apply cx) ds s)"
    using ctf_run ctf_new_ok [OF s0(1)] by (simp_all add: s0(2))
  have "ctf_ledger s0 = ledger_default"
    using s0(1) by (auto simp: ctf_new_def settle_new_def pairexec_default_def pairpol_default_def staging_default_def
        split: sum.split_asm)
  then have "ledger_steps (fc_staging (zc_execution (vc_parent cx))) ledger_default (ctf_ledger s)"
    using le(1) by (simp add: ctf_le_def settle_le_def pairexec_le_def staging_le_def)
  then obtain ls where ls: "ctf_ledger s = ledger_after (gc_ledger_to_vec (fc_staging (zc_execution (vc_parent cx)))) (vc_blake3 cx) ls"
    by (auto simp: engine_reaches_def)
  then have "verify_invariants (ctf_ledger s) = Inr ()"
    by (simp add: reachable_verified)
  then show ?thesis
    using ls le(2) settle_le_ledger(1,2) unfolding ctf_le_def by blast
qed

end
