(* ===== verification/Paired_Demo.thy ===== *)
theory Paired_Demo
  imports Ctf_Theorems
begin

text \<open>
  One complete-set pair on its way from the detector to its two orders, as a concrete history of each runtime
  of the paired chain, and the properties of these runtimes applied to it.
\<close>

section \<open>A concrete pair\<close>

text \<open>A history whose commands depend on the state that they meet.\<close>

fun play :: "('c \<Rightarrow> 's \<Rightarrow> 'r \<times> 's) \<Rightarrow> ('s \<Rightarrow> 'c) list \<Rightarrow> 's \<Rightarrow> 's" where
  "play step [] s = s"
| "play step (f # fs) s = play step fs (snd (step (f s) s))"

lemma play_runs: "\<exists>cs. play step fs s = run_commands step cs s"
proof (induction fs arbitrary: s)
  case Nil
  show ?case
    by (rule exI [of _ "[]"]) simp
next
  case (Cons f fs)
  then obtain cs where "play step fs (snd (step (f s) s)) = run_commands step cs (snd (step (f s) s))" by blast
  then have "play step (f # fs) s = run_commands step (f s # cs) s"
    by simp
  then show ?case by blast
qed

lemma play_append: "play step (fs @ gs) s = play step gs (play step fs s)"
  by (induction fs arbitrary: s) simp_all

text \<open>The market of the single proposals, with two thousand micros to spend; the digests are sums of what is hashed.\<close>

definition sum_hash :: "string \<Rightarrow> bytes32" where
  "sum_hash s = of_int (foldl (\<lambda>h c. h + of_char c) (0 :: int) s)"

definition demo_pair_strategy :: proposal_codec where
  "demo_pair_strategy = demo_strategy_codec\<lparr>sc_blake3 := sum_hash\<rparr>"

definition demo_pair_codec :: pair_codec where
  "demo_pair_codec = \<lparr>qc_to_vec = \<lambda>_. Inr ''w'', qc_index_json = \<lambda>n. replicate n CHR ''i'', qc_decision_json = \<lambda>_. ''d'',
     qc_arbitrage = demo_arbitrage_codec\<lparr>arc_proposal := demo_pair_strategy\<rparr>, qc_risk = demo_codec\<lparr>kc_blake3 := sum_hash\<rparr>\<rparr>"

definition demo_pair_context :: strategy_context where
  "demo_pair_context = demo_context\<lparr>cx_context_digest := context_digest demo_pair_strategy demo_context\<rparr>"

definition demo_pair_request :: arbitrage_request where
  "demo_pair_request = (demo_arbitrage 1 5)\<lparr>ar_context := demo_pair_context\<rparr>"

definition demo_pair_frame :: "recon_risk_gate \<Rightarrow> ledger_risk_view \<Rightarrow> pair_frame" where
  "demo_pair_frame gate view = \<lparr>pf_reconciliation = gate, pf_ledger = view,
     pf_markets = rq_markets demo_request, pf_open_orders = [], pf_shocks = rq_shocks demo_request,
     pf_limits = demo_limits\<lparr>rl_capital_floor := 1000, rl_max_gross_exposure := 2000, rl_max_condition_exposure := 2000,
       rl_max_group_exposure := 2000\<rparr>, pf_evaluated_at = 5\<rparr>"

definition demo_pair_gate :: "ledger_risk_view \<Rightarrow> recon_risk_gate" where
  "demo_pair_gate view = (rq_reconciliation demo_request)\<lparr>rg_ledger_digest := Some (lr_ledger_digest view)\<rparr>"

definition demo_pair_view :: ledger_risk_view where
  "demo_pair_view = (rq_ledger demo_request)\<lparr>lr_cash_available := 2000, lr_cash_reserved := 0\<rparr>"

definition demo_pair_command :: "ledger_risk_view \<Rightarrow> pair_command" where
  "demo_pair_command view = EvaluatePair 1 (EvaluateArbitrage 1 demo_pair_request 5) (demo_pair_frame (demo_pair_gate view) view) 5"

definition demo_pair_found :: "(pair_error + pair_decision) \<times> pair_engine" where
  "demo_pair_found = pair_apply demo_pair_codec (demo_pair_command demo_pair_view) pair_engine_default"

definition eligible_with_plan :: "(pair_error + pair_decision) \<times> pair_engine \<Rightarrow> bool" where
  "eligible_with_plan r = (case fst r of
     Inl _ \<Rightarrow> False
   | Inr d \<Rightarrow> qd_status d = RiskEligible \<and> (case ad_plan (qd_arbitrage d) of None \<Rightarrow> False | Some plan \<Rightarrow>
       derived_proposal_command_id demo_pair_codec 1 0 (ap_plan_digest plan)
         \<noteq> derived_proposal_command_id demo_pair_codec 1 1 (ap_plan_digest plan)))"

lemma demo_pair_found_eligible: "eligible_with_plan demo_pair_found"
  by code_simp

theorem eligible_pair_is_planned_and_approved_witness:
  "\<exists>plan. calculate_plan (qc_arbitrage demo_pair_codec) demo_pair_request = Inr (Inr plan) \<and> 0 < ap_net_profit plan"
proof -
  obtain d plan where d: "fst demo_pair_found = Inr d" "qd_status d = RiskEligible"
      "ad_plan (qd_arbitrage d) = Some plan"
      "derived_proposal_command_id demo_pair_codec 1 0 (ap_plan_digest plan)
        \<noteq> derived_proposal_command_id demo_pair_codec 1 1 (ap_plan_digest plan)"
    using demo_pair_found_eligible by (auto simp: eligible_with_plan_def split: sum.split_asm option.split_asm)
  then have found: "demo_pair_found = (Inr d, snd demo_pair_found)"
    by (simp add: prod_eq_iff)
  have new: "qe_processed pair_engine_default = []" "spe_processed (qe_proposal pair_engine_default) = []"
      "rk_processed (qe_risk pair_engine_default) = []"
    by (simp_all add: pair_engine_default_def proposal_engine_default_def risk_engine_default_def)
  show ?thesis
    using eligible_pair_is_planned_and_approved [of demo_pair_codec 1 1 demo_pair_request 5 "demo_pair_frame (demo_pair_gate demo_pair_view) demo_pair_view" "[]" d
        "snd demo_pair_found" plan] d found new
    by (simp add: demo_pair_found_def demo_pair_command_def bt_get_def)
qed

section \<open>Staging it\<close>

definition demo_staging_codec :: staging_codec where
  "demo_staging_codec = \<lparr>gc_to_vec = \<lambda>_. Inr ''w'', gc_ledger_to_vec = \<lambda>_. Inr [], gc_ledger_json = rt_ledger_json demo_rt_codec,
     gc_asset_debug = \<lambda>_. [], gc_record_json = \<lambda>_. ''r'', gc_decision_json = \<lambda>_. ''d'', gc_pair = demo_pair_codec\<rparr>"

abbreviation demo_staging_step :: "staging_command \<Rightarrow> staging \<Rightarrow> (staging_error + staging_decision) \<times> staging" where
  "demo_staging_step \<equiv> staging_apply demo_staging_codec"

definition demo_stage_command :: "staging \<Rightarrow> staging_command" where
  "demo_stage_command s = StagePair 2 (demo_pair_command (the (staging_risk_view demo_staging_codec s))) 5"

definition demo_abort_command :: "staging \<Rightarrow> staging_command" where
  "demo_abort_command s = StageAbort 3 (fst (hd (sg_stages s))) 6"

definition demo_funded :: staging where
  "demo_funded = snd (demo_staging_step (StageFund 1 2000 4) staging_default)"

definition demo_staged :: "(staging_error + staging_decision) \<times> staging" where
  "demo_staged = demo_staging_step (demo_stage_command demo_funded) demo_funded"

definition demo_aborted :: "(staging_error + staging_decision) \<times> staging" where
  "demo_aborted = demo_staging_step (demo_abort_command (snd demo_staged)) (snd demo_staged)"

text \<open>What the witnesses need of this history, evaluated along it.\<close>

definition staged_facts :: "staging \<Rightarrow> pair_stage_id \<Rightarrow> bool" where
  "staged_facts s i \<longleftrightarrow> bt_get (sg_processed s) 2 = None
     \<and> distinct (map (stage_ledger_id demo_staging_codec i) [0, 1, 2, 3])
     \<and> list_all (\<lambda>n. bt_get (processed (sg_ledger s)) (stage_ledger_id demo_staging_codec i n) = None) [0, 1, 2, 3]"

definition staged_check :: "staging \<Rightarrow> (staging_error + staging_decision) \<times> staging \<Rightarrow> (staging_error + staging_decision) \<times> staging \<Rightarrow> bool" where
  "staged_check s r q \<longleftrightarrow> (case fst r of Inl _ \<Rightarrow> False | Inr d \<Rightarrow> (case gd_detail d of
       StagingReserved stage \<Rightarrow> fst (hd (sg_stages (snd r))) = sr_stage_id stage \<and> staged_facts s (sr_stage_id stage)
     | _ \<Rightarrow> False))
     \<and> bt_get (sg_processed (snd r)) 3 = None \<and> (case fst q of Inl _ \<Rightarrow> False | Inr _ \<Rightarrow> True)"

definition staged_check_abort :: "staging \<Rightarrow> (staging_error + staging_decision) \<times> staging \<Rightarrow> bool" where
  "staged_check_abort s r = staged_check s r (demo_staging_step (demo_abort_command (snd r)) (snd r))"

definition staged_check_stage :: "staging \<Rightarrow> bool" where
  "staged_check_stage s = staged_check_abort s (demo_staging_step (demo_stage_command s) s)"

lemma demo_staged_checked: "staged_check_stage demo_funded"
  by code_simp

lemma demo_staged_facts:
  obtains d stage e where "fst demo_staged = Inr d" "gd_detail d = StagingReserved stage"
    "fst (hd (sg_stages (snd demo_staged))) = sr_stage_id stage" "staged_facts demo_funded (sr_stage_id stage)"
    "bt_get (sg_processed (snd demo_staged)) 3 = None" "fst demo_aborted = Inr e"
  using demo_staged_checked unfolding staged_check_stage_def staged_check_abort_def staged_check_def demo_staged_def demo_aborted_def
  by (auto split: sum.split_asm staging_detail.split_asm)

lemma demo_funded_after: "demo_funded = staging_after demo_staging_codec [StageFund 1 2000 4]"
  by (simp add: demo_funded_def)


theorem stage_and_abort_round_trip_witness:
  "balances (sg_ledger (snd demo_aborted)) = balances (sg_ledger demo_funded)"
proof -
  obtain d stage e where d: "fst demo_staged = Inr d" "gd_detail d = StagingReserved stage"
      "fst (hd (sg_stages (snd demo_staged))) = sr_stage_id stage" "staged_facts demo_funded (sr_stage_id stage)"
      "bt_get (sg_processed (snd demo_staged)) 3 = None" "fst demo_aborted = Inr e"
    by (rule demo_staged_facts)
  have s: "staging_apply demo_staging_codec (StagePair 2 (demo_pair_command (the (staging_risk_view demo_staging_codec demo_funded))) 5)
      demo_funded = (Inr d, snd demo_staged)"
    using d(1) by (simp add: prod_eq_iff demo_staged_def demo_stage_command_def)
  have a: "staging_apply demo_staging_codec (StageAbort 3 (sr_stage_id stage) 6) (snd demo_staged) = (Inr e, snd demo_aborted)"
    using d(3,6) by (simp add: prod_eq_iff demo_aborted_def demo_abort_command_def)
  show ?thesis
    using stage_and_abort_round_trip [OF demo_funded_after s _ d(2) a d(5)] d(4) by (simp add: staged_facts_def)
qed

section \<open>Trading it\<close>

definition demo_pairpol_codec :: pairpol_codec where
  "demo_pairpol_codec = \<lparr>yc_to_vec = \<lambda>_. Inr ''w'', yc_role_json = \<lambda>r. (case r of FirstLeg \<Rightarrow> ''f'' | HedgeLeg \<Rightarrow> ''h''),
     yc_permit_json = \<lambda>p. replicate (pm_leg_index p) CHR ''x'', yc_record_json = \<lambda>_. ''r'', yc_decision_json = \<lambda>_. ''d'',
     yc_staging = demo_staging_codec\<rparr>"

definition demo_pairexec_codec :: pairexec_codec where
  "demo_pairexec_codec = \<lparr>fc_to_vec = \<lambda>_. Inr ''w'', fc_observation_json = \<lambda>_. Inr ''v'',
     fc_handoff_json = \<lambda>h. Inr (le_bytes 1 (hf_source_sequence h)), fc_leg_json = \<lambda>_. ''l'', fc_decision_json = \<lambda>_. ''d'',
     fc_policy = demo_pairpol_codec\<rparr>"

abbreviation demo_pairexec_play :: "(pairexec \<Rightarrow> pairexec_command) list \<Rightarrow> pairexec \<Rightarrow> pairexec" where
  "demo_pairexec_play \<equiv> play (pairexec_apply demo_pairexec_codec)"

definition demo_stage_id :: "pairexec \<Rightarrow> pair_stage_id" where
  "demo_stage_id s = fst (hd (ye_records (fe_policy s)))"

definition demo_leg_permit :: "nat \<Rightarrow> pairexec \<Rightarrow> pair_permit" where
  "demo_leg_permit leg s = the (at_leg leg (lp_permits (snd (hd (ye_records (fe_policy s))))))"

definition demo_opening_command :: "ledger_risk_view \<Rightarrow> pairexec_command" where
  "demo_opening_command view = PxPolicy 20 (PolStage 2 (demo_pair_command view) 5) 5"

definition demo_licensing :: "(pairexec \<Rightarrow> pairexec_command) list" where
  "demo_licensing = [\<lambda>_. PxPolicy 30 (PolObserveMode 3 \<lparr>mo_sequence = 1, mo_mode = ModeNormal, mo_observed_at = 2, mo_valid_until = 50\<rparr> 6) 6,
     \<lambda>s. PxPolicy 40 (PolAuthorizeFirst 4 (demo_stage_id s) 0 20 14 7) 7,
     \<lambda>s. PxSubmit 50 (demo_leg_permit 0 s) ''l'' 8]"

definition demo_pair_opening :: "(pairexec \<Rightarrow> pairexec_command) list" where
  "demo_pair_opening = [\<lambda>_. PxPolicy 10 (PolFund 1 2000 4) 4,
     \<lambda>s. demo_opening_command (the (pairexec_risk_view demo_pairexec_codec s))] @ demo_licensing"

definition demo_event :: "pair_permit \<Rightarrow> int \<Rightarrow> string \<Rightarrow> exchange_event \<Rightarrow> int \<Rightarrow> exchange_observation" where
  "demo_event p n x ev t = \<lparr>eo_order_id = oe_order_id (pm_order p), eo_source_sequence = n, eo_exchange_order_id = Some x, eo_event = ev,
     eo_event_time = t, eo_received_time = t\<rparr>"

text \<open>A fill of a part of an order at its limit price.\<close>

definition demo_fill_of :: "pair_permit \<Rightarrow> string \<Rightarrow> int \<Rightarrow> command_id \<Rightarrow> match_fill" where
  "demo_fill_of p i q l = demo_fill i q (tdiv (oe_limit_price (pm_order p) * q) 1000000) q (tdiv (oe_limit_price (pm_order p) * q) 1000000) l"

definition demo_full_fill :: "nat \<Rightarrow> string \<Rightarrow> command_id \<Rightarrow> pairexec \<Rightarrow> exchange_event" where
  "demo_full_fill leg i l s = EvMatch (demo_fill_of (demo_leg_permit leg s) i (oe_quantity (pm_order (demo_leg_permit leg s))) l) True"

definition demo_hedging :: "(pairexec \<Rightarrow> pairexec_command) list" where
  "demo_hedging = [\<lambda>s. PxObserve 60 (demo_stage_id s) 0 (demo_event (demo_leg_permit 0 s) 1 ''x'' (demo_full_fill 0 ''f'' 21 s) 9) 9,
     \<lambda>s. PxPolicy 70 (PolAuthorizeHedge 7 (demo_stage_id s) 20 14 10) 10,
     \<lambda>s. PxSubmit 80 (demo_leg_permit 1 s) ''m'' 10]"

definition demo_delaying :: "(pairexec \<Rightarrow> pairexec_command) list" where
  "demo_delaying = [\<lambda>s. PxObserve 60 (demo_stage_id s) 0 (demo_event (demo_leg_permit 0 s) 1 ''x'' (EvDelayed 10 11) 9) 9,
     \<lambda>s. PxCancel 70 (demo_stage_id s) 0 12]"

definition is_hedged :: "pairexec \<Rightarrow> bool" where
  "is_hedged s \<longleftrightarrow> (case bt_get (fe_orders s) (demo_stage_id s, 1) of None \<Rightarrow> False | Some x \<Rightarrow> pm_role (xo_permit x) = HedgeLeg)
     \<and> (case bt_get (fe_orders s) (demo_stage_id s, 0) of None \<Rightarrow> False | Some x \<Rightarrow> length (xo_fills x) = 1)"

definition is_delayed :: "pairexec \<Rightarrow> bool" where
  "is_delayed s \<longleftrightarrow> (case bt_get (fe_orders s) (demo_stage_id s, 0) of
       None \<Rightarrow> False
     | Some x \<Rightarrow> xo_state x = XCancelPending (XDelayed 10 11)
         \<and> bt_get (ye_processed (fe_policy s)) (derived_sync_id demo_pairexec_codec 80 (pm_permit_id (xo_permit x)) LegDelayed) = None)
     \<and> (case bt_get (ye_records (fe_policy s)) (demo_stage_id s) of None \<Rightarrow> False | Some r \<Rightarrow> fst (lp_legs r) = LegDelayed)
     \<and> bt_get (fe_processed s) 80 = None \<and> (case pairexec_risk_view demo_pairexec_codec s of None \<Rightarrow> False | Some _ \<Rightarrow> True)"

definition demo_both_ways :: "pairexec \<Rightarrow> bool" where
  "demo_both_ways s \<longleftrightarrow> is_hedged (demo_pairexec_play demo_hedging s) \<and> is_delayed (demo_pairexec_play demo_delaying s)"

lemma demo_pair_traded: "demo_both_ways (demo_pairexec_play demo_pair_opening pairexec_default)"
  by code_simp

definition demo_hedged :: pairexec where
  "demo_hedged = demo_pairexec_play (demo_pair_opening @ demo_hedging) pairexec_default"

definition demo_delayed :: pairexec where
  "demo_delayed = demo_pairexec_play (demo_pair_opening @ demo_delaying) pairexec_default"

lemma demo_pair_ends: "is_hedged demo_hedged" "is_delayed demo_delayed"
  using demo_pair_traded by (simp_all add: demo_both_ways_def demo_hedged_def demo_delayed_def play_append)

lemma demo_hedged_run: "\<exists>cs. demo_hedged = pairexec_after demo_pairexec_codec cs"
  unfolding demo_hedged_def by (rule play_runs)

lemma demo_delayed_run: "\<exists>cs. demo_delayed = pairexec_after demo_pairexec_codec cs"
  unfolding demo_delayed_def by (rule play_runs)

theorem hedge_orders_follow_filled_first_witness:
  "\<exists>y. bt_get (fe_orders demo_hedged) (demo_stage_id demo_hedged, 0) = Some y \<and> pm_role (xo_permit y) = FirstLeg \<and> xo_state y = XFullyMatched"
proof -
  obtain cs where cs: "demo_hedged = pairexec_after demo_pairexec_codec cs"
    using demo_hedged_run by blast
  obtain x where x: "bt_get (fe_orders demo_hedged) (demo_stage_id demo_hedged, 1) = Some x" "pm_role (xo_permit x) = HedgeLeg"
    using demo_pair_ends(1) by (auto simp: is_hedged_def split: option.split_asm)
  show ?thesis
    using hedge_orders_follow_filled_first [OF x(1) [unfolded cs] x(2)] by (auto simp: cs [symmetric])
qed

theorem paired_fills_stay_within_permit_witness:
  "\<exists>x. bt_get (fe_orders demo_hedged) (demo_stage_id demo_hedged, 0) = Some x \<and> length (xo_fills x) = 1
     \<and> 0 \<le> oe_quantity (pm_order (xo_permit x)) - xo_cumulative_quantity x"
proof -
  obtain cs where cs: "demo_hedged = pairexec_after demo_pairexec_codec cs"
    using demo_hedged_run by blast
  obtain x where x: "bt_get (fe_orders demo_hedged) (demo_stage_id demo_hedged, 0) = Some x" "length (xo_fills x) = 1"
    using demo_pair_ends(1) by (auto simp: is_hedged_def split: option.split_asm)
  then have "xo_fills x \<noteq> []" by auto
  then show ?thesis
    using paired_fills_stay_within_permit [OF x(1) [unfolded cs]] x by (simp add: Let_def)
qed

definition demo_paired_order :: paired_order where
  "demo_paired_order = new_paired_order \<lparr>pm_permit_id = 1, pm_stage_id = 2, pm_stage_record_digest = 3, pm_leg_index = 0,
     pm_role = FirstLeg, pm_order = demo_order 7 demo_up BuySide 8, pm_candidate_digest = 4, pm_reservation_id = 7,
     pm_mode_sequence = 1, pm_valid_from = 7, pm_valid_until = 14, pm_permit_digest = 5\<rparr> ''l''"

definition demo_paired_match :: exchange_observation where
  "demo_paired_match = demo_event (xo_permit demo_paired_order) 1 ''x'' (EvMatch (demo_fill ''f'' 8 4 8 4 21) True) 9"

definition demo_paired_filled :: "pairexec_error + handoff option \<times> paired_order" where
  "demo_paired_filled = observe_paired_order demo_pairexec_codec demo_paired_order demo_paired_match 9"

lemma demo_paired_filled_is: "case demo_paired_filled of Inl _ \<Rightarrow> False | Inr (h, x) \<Rightarrow> xo_state x = XFullyMatched"
  by code_simp

theorem paired_order_refines_paper_order_witness:
  "\<exists>h order. observe_order (single_codec demo_pairexec_codec (fc_blake3 demo_pairexec_codec ''v'') demo_exec_codec)
     (plain_order (demo_placement (demo_approval 4 4) 7 6) demo_paired_order) demo_paired_match = Inr (h, order) \<and> po_state order = XFullyMatched"
proof -
  obtain h x where x: "observe_paired_order demo_pairexec_codec demo_paired_order demo_paired_match 9 = Inr (h, x)" "xo_state x = XFullyMatched"
    using demo_paired_filled_is by (auto simp: demo_paired_filled_def split: sum.split_asm)
  have "fc_observation_json demo_pairexec_codec demo_paired_match = Inr ''v''"
    by (simp add: demo_pairexec_codec_def)
  then show ?thesis
    using paired_order_refines_paper_order [OF x(1)] x(2) by fastforce
qed

theorem refused_cancel_of_delayed_order_halts_witness:
  "\<exists>v e s. pairexec_apply demo_pairexec_codec (PxObserve 80 (demo_stage_id demo_delayed) 0 v 13) demo_delayed = (Inl e, s)
     \<and> fe_halted s \<noteq> None"
proof -
  obtain cs where cs: "demo_delayed = pairexec_after demo_pairexec_codec cs"
    using demo_delayed_run by blast
  obtain x r view where x: "bt_get (fe_orders demo_delayed) (demo_stage_id demo_delayed, 0) = Some x" "xo_state x = XCancelPending (XDelayed 10 11)"
      "bt_get (ye_processed (fe_policy demo_delayed)) (derived_sync_id demo_pairexec_codec 80 (pm_permit_id (xo_permit x)) LegDelayed) = None"
      "bt_get (ye_records (fe_policy demo_delayed)) (demo_stage_id demo_delayed) = Some r" "at_leg 0 (lp_legs r) = LegDelayed"
      "bt_get (fe_processed demo_delayed) 80 = None" "pairexec_risk_view demo_pairexec_codec demo_delayed = Some view"
    using demo_pair_ends(2) by (auto simp: is_delayed_def split: option.split_asm)
  let ?v = "demo_event (xo_permit x) 2 ''x'' EvCancelRejected 13"
  have content: "\<exists>g. pairexec_content demo_pairexec_codec (PxObserve 80 (demo_stage_id demo_delayed) 0 ?v 13) = Inr g"
    by (simp add: pairexec_content_def pairexec_encode_command_def pairexec_validate_command_def demo_pairexec_codec_def demo_event_def)
  have "eo_event ?v = EvCancelRejected"
    by (simp add: demo_event_def)
  then show ?thesis
    using refused_cancel_of_delayed_order_halts [OF cs x(1,2,4,5) _ x(6,3)] content x(7) by fastforce
qed

end
