(* ===== verification/Settlement_Demo.thy ===== *)
theory Settlement_Demo
  imports Paired_Demo
begin

text \<open>
  The settlement of the demonstration pair, once to the end and once stranded after a part of its first leg, and
  the conversion of collateral into a pair of tokens, with the properties of the two runtimes applied to them.
\<close>

section \<open>Settling it\<close>

definition demo_settle_codec :: settle_codec where
  "demo_settle_codec = \<lparr>zc_to_vec = \<lambda>_. Inr ''w'', zc_recon_to_vec = \<lambda>_. Inr [], zc_recon_json = rt_recon_json demo_rt_codec,
     zc_outcome_json = \<lambda>_. ''o'', zc_execution = demo_pairexec_codec\<rparr>"

definition demo_settle :: settle where
  "demo_settle = (case settle_new demo_config of Inr s \<Rightarrow> s | Inl _ \<Rightarrow> undefined)"

abbreviation demo_settle_play :: "(settle \<Rightarrow> settle_command) list \<Rightarrow> settle \<Rightarrow> settle" where
  "demo_settle_play \<equiv> play (settle_apply demo_settle_codec)"

fun on_execution :: "settle_command_id \<Rightarrow> pairexec_command \<Rightarrow> settle_command" where
  "on_execution i c = StExecution i c (pairexec_recorded_at c)"

definition demo_wallet :: "int \<Rightarrow> confirmed_token_balance list \<Rightarrow> int \<Rightarrow> chain_snapshot" where
  "demo_wallet cash tokens t = demo_chain\<lparr>ch_block_number := t, ch_finalized_at := t, ch_observed_at := t, ch_collateral := cash,
     ch_token_balances := map (\<lambda>b. \<lparr>chb_token = ctb_token b, chb_balance = ctb_balance b\<rparr>) tokens\<rparr>"

definition demo_settle_stage :: "settle \<Rightarrow> settle_command" where
  "demo_settle_stage s = on_execution 3 (PxPolicy 20 (PolStage 2 (EvaluatePair 1 (EvaluateArbitrage 1 demo_pair_request 5)
     (demo_pair_frame (recon_risk_gate (zc_recon_digest demo_settle_codec) (ze_reconciler s))
       (the (pairexec_risk_view demo_pairexec_codec (ze_execution s)))) 5) 5) 5)"

definition demo_settle_opening :: "(settle \<Rightarrow> settle_command) list" where
  "demo_settle_opening = [\<lambda>_. on_execution 1 (PxPolicy 10 (PolFund 1 2000 1) 1), \<lambda>_. StReconcile 2 (demo_wallet 2000 [] 4) 4 4,
     demo_settle_stage]
     @ map (\<lambda>f s. on_execution (pairexec_command_id (f (ze_execution s))) (f (ze_execution s))) demo_licensing"

definition demo_part_filled :: "(settle \<Rightarrow> settle_command) list" where
  "demo_part_filled = map (\<lambda>f s. on_execution (pairexec_command_id (f (ze_execution s))) (f (ze_execution s)))
    [\<lambda>s. PxObserve 60 (demo_stage_id s) 0 (demo_event (demo_leg_permit 0 s) 1 ''x''
       (EvMatch (demo_fill_of (demo_leg_permit 0 s) ''f'' 500 21) False) 9) 9,
     \<lambda>s. PxCancel 70 (demo_stage_id s) 0 10,
     \<lambda>s. PxObserve 80 (demo_stage_id s) 0 (demo_event (demo_leg_permit 0 s) 2 ''x'' EvCancelAccepted 11) 11]"

definition is_part_filled :: "settle \<Rightarrow> bool" where
  "is_part_filled s \<longleftrightarrow> (case bt_get (ye_records (fe_policy (ze_execution s))) (demo_stage_id (ze_execution s)) of
     None \<Rightarrow> False
   | Some r \<Rightarrow> lp_first_leg r = Some 0 \<and> fst (lp_legs r) = LegPartiallyMatchedTerminal)"

definition demo_leg_intent :: "nat \<Rightarrow> settle \<Rightarrow> trade_intent" where
  "demo_leg_intent leg s = hf_intent (the (settle_handoff_of s (demo_stage_id (ze_execution s)) leg 0))"

definition demo_seen :: "trade_intent \<Rightarrow> trade_status \<Rightarrow> string option \<Rightarrow> trade_observation" where
  "demo_seen i st h = \<lparr>to_trade_id = ti_trade_id i, to_order_id = ti_order_id i, to_token = ti_token i, to_side = ti_side i,
     to_quantity = ti_quantity i, to_consideration = ti_consideration i, to_fee = ti_fee i, to_status = st, to_transaction_hash = h,
     to_matched_at = 9, to_updated_at = 12\<rparr>"

definition demo_settle_leg :: "nat \<Rightarrow> settle_command_id \<Rightarrow> command_id \<Rightarrow> (settle \<Rightarrow> settle_command) list" where
  "demo_settle_leg leg i l = [\<lambda>s. StRegister i (demo_stage_id (ze_execution s)) leg 0 12,
     \<lambda>s. StObserve (i + 1) (demo_seen (demo_leg_intent leg s) Matched None) 12,
     \<lambda>s. StObserve (i + 2) (demo_seen (demo_leg_intent leg s) Mined (Some ''h'')) 12,
     \<lambda>s. StObserve (i + 3) (demo_seen (demo_leg_intent leg s) Confirmed (Some ''h'')) 12, \<lambda>_. StPost (i + 4) l 12]"

definition demo_settling :: "(settle \<Rightarrow> settle_command) list" where
  "demo_settling = map (\<lambda>f s. on_execution (pairexec_command_id (f (ze_execution s))) (f (ze_execution s)))
      (demo_hedging @ [\<lambda>s. PxObserve 90 (demo_stage_id s) 1 (demo_event (demo_leg_permit 1 s) 2 ''y'' (demo_full_fill 1 ''g'' 22 s) 11) 11])
    @ demo_settle_leg 0 100 21 @ demo_settle_leg 1 110 22
    @ [\<lambda>s. StReconcile 120 (demo_wallet (rv_collateral_micros (the (settle_ledger_view demo_settle_codec s)))
         (rv_token_balances (the (settle_ledger_view demo_settle_codec s))) 13) 13 13,
       \<lambda>s. StFinalize 121 (demo_stage_id (ze_execution s)) 14]"

definition is_settled :: "settle \<Rightarrow> bool" where
  "is_settled s \<longleftrightarrow> ze_finalized s = [(demo_stage_id (ze_execution s), ())]
     \<and> (case bt_get (ze_handoffs s) 21 of None \<Rightarrow> False | Some h \<Rightarrow> rh_posted h)"

definition demo_both_ends :: "settle \<Rightarrow> bool" where
  "demo_both_ends s \<longleftrightarrow> is_settled (demo_settle_play demo_settling s) \<and> is_part_filled (demo_settle_play demo_part_filled s)"

lemma demo_pair_settled: "demo_both_ends (demo_settle_play demo_settle_opening demo_settle)"
  by code_simp

definition demo_settled :: settle where
  "demo_settled = demo_settle_play (demo_settle_opening @ demo_settling) demo_settle"

definition demo_stranded :: settle where
  "demo_stranded = demo_settle_play (demo_settle_opening @ demo_part_filled) demo_settle"

lemma demo_settle_ends: "is_settled demo_settled" "is_part_filled demo_stranded"
  using demo_pair_settled by (simp_all add: demo_both_ends_def demo_settled_def demo_stranded_def play_append)

lemma demo_settle_new: "settle_new demo_config = Inr demo_settle"
  unfolding demo_settle_def settle_new_def demo_new by simp

lemma demo_settle_reached:
  "\<exists>cs. settle_reached demo_settle_codec demo_config cs demo_settled"
  "\<exists>cs. settle_reached demo_settle_codec demo_config cs demo_stranded"
  using play_runs [of "settle_apply demo_settle_codec"] demo_settle_new unfolding demo_settled_def demo_stranded_def by blast+

theorem posted_fills_are_confirmed_witness:
  "\<exists>h t. bt_get (ze_handoffs demo_settled) 21 = Some h \<and> rh_posted h
     \<and> recon_trade (ze_reconciler demo_settled) (ti_trade_id (rh_intent h)) = Some t \<and> to_status t = Confirmed"
proof -
  obtain cs where cs: "settle_reached demo_settle_codec demo_config cs demo_settled"
    using demo_settle_reached(1) by blast
  obtain h where h: "bt_get (ze_handoffs demo_settled) 21 = Some h" "rh_posted h"
    using demo_settle_ends(1) by (auto simp: is_settled_def split: option.split_asm)
  show ?thesis
    using posted_fills_are_confirmed [OF cs h] h by blast
qed

theorem finalized_pairs_stay_closed_witness:
  "\<exists>x. pairexec_order (ze_execution (run_commands (settle_apply demo_settle_codec) [StPost 122 21 14] demo_settled))
     (demo_stage_id (ze_execution demo_settled)) 0 = Some x \<and> is_terminal_state (xo_state x)"
proof -
  obtain cs where cs: "settle_reached demo_settle_codec demo_config cs demo_settled"
    using demo_settle_reached(1) by blast
  have "bs_mem (demo_stage_id (ze_execution demo_settled)) (ze_finalized demo_settled)"
    using demo_settle_ends(1) by (simp add: is_settled_def bs_mem_def bt_contains_def)
  from finalized_pairs_stay_closed [OF cs this, of "[StPost 122 21 14]"] show ?thesis
    unfolding Let_def by blast
qed

theorem partly_filled_pairs_are_never_closed_witness:
  "\<exists>e. settle_finalize demo_settle_codec 130 (demo_stage_id (ze_execution demo_stranded)) 20 demo_stranded = Inl e"
proof -
  obtain cs where cs: "settle_reached demo_settle_codec demo_config cs demo_stranded"
    using demo_settle_reached(2) by blast
  obtain r where r: "bt_get (ye_records (fe_policy (ze_execution demo_stranded))) (demo_stage_id (ze_execution demo_stranded)) = Some r"
      "lp_first_leg r = Some 0" "at_leg 0 (lp_legs r) = LegPartiallyMatchedTerminal"
    using demo_settle_ends(2) by (auto simp: is_part_filled_def split: option.split_asm)
  show ?thesis
    using partly_filled_pairs_are_never_closed [OF cs r, of "[]" 130 20] by (simp add: Let_def)
qed

section \<open>A conversion\<close>

definition demo_ctf_codec :: ctf_codec where
  "demo_ctf_codec = \<lparr>vc_to_vec = \<lambda>_. Inr ''w'', vc_record_json = \<lambda>_. ''r'', vc_outcome_json = \<lambda>_. ''o'', vc_parent = demo_settle_codec\<rparr>"

definition demo_ctf :: ctf where
  "demo_ctf = (case ctf_new demo_config of Inr s \<Rightarrow> s | Inl _ \<Rightarrow> undefined)"

definition demo_converting :: "ctf_command list" where
  "demo_converting = [CtfParent 1 (on_execution 1 (PxPolicy 10 (PolFund 1 2000 1) 1)) 1,
     CtfParent 2 (StReconcile 2 (demo_wallet 2000 [] 4) 4 4) 4, CtfRequest 3 7 (ConvertSplit demo_up demo_down 100) 5,
     CtfObserve 4 \<lparr>co_conversion_id = 7, co_source_sequence = 1, co_event = EvtPending ''t'', co_event_time = 6, co_received_time = 6\<rparr> 6,
     CtfObserve 5 \<lparr>co_conversion_id = 7, co_source_sequence = 2, co_event = EvtConfirmed ''t'', co_event_time = 7, co_received_time = 7\<rparr> 7]"

definition demo_converted :: ctf where
  "demo_converted = run_commands (ctf_apply demo_ctf_codec) demo_converting demo_ctf"

definition is_converted :: "ctf \<Rightarrow> bool" where
  "is_converted s \<longleftrightarrow> (case ctf_conversion s 7 of None \<Rightarrow> False | Some r \<Rightarrow> cv_state r = ConvConfirmed ''t'')"

lemma demo_converted_is: "is_converted demo_converted"
  by code_simp

lemma demo_ctf_reached: "ctf_reached demo_ctf_codec demo_config demo_converting demo_converted"
proof -
  have "ctf_new demo_config = Inr demo_ctf"
    unfolding demo_ctf_def ctf_new_def demo_settle_new by simp
  then show ?thesis
    unfolding demo_converted_def by blast
qed

theorem conversion_records_are_well_formed_witness:
  "bt_get (processed (ctf_ledger demo_converted)) (conversion_ledger_id demo_ctf_codec 7 ''confirm'') \<noteq> None"
proof -
  obtain r where r: "ctf_conversion demo_converted 7 = Some r" "cv_state r = ConvConfirmed ''t''"
    using demo_converted_is by (auto simp: is_converted_def split: option.split_asm)
  show ?thesis
    using conversion_records_are_well_formed [OF demo_ctf_reached r(1)] r(2) by simp
qed


theorem chain_keeps_one_ledger_witness:
  "verify_invariants (ctf_ledger demo_converted) = Inr ()"
  using chain_keeps_one_ledger [OF demo_ctf_reached] by blast

end
