(* ===== verification/Wire_Bytes.thy ===== *)
theory Wire_Bytes
  imports FixedPoint BTree_Map
begin

text \<open>
  What the binary formats of the market-data crates share: slices and little-endian integers as
  \<open>from_le_bytes\<close> reads them, the validity of UTF-8 that \<open>std::str::from_utf8\<close> checks, a cursor over the bytes
  not read yet, and the \<open>Display\<close> texts of integers and of the errors of \<open>common-types\<close>. The locale
  \<open>byte_codec\<close> states what a field's writer and reader owe each other: the reader gives the value back and
  leaves the rest.
\<close>

section \<open>Decimal texts\<close>

definition show_int :: "int \<Rightarrow> string" where
  "show_int x = (if x < 0 then CHR ''-'' # show_nat (nat (- x)) else show_nat (nat x))"

fun financial_error_text :: "financial_error \<Rightarrow> string" where
  "financial_error_text (NegativeQuantity v) = ''quantity cannot be negative: '' @ show_int v"
| "financial_error_text (NegativeQuotePrice v) = ''quote price cannot be negative: '' @ show_int v"
| "financial_error_text (PriceOutOfRange v) = ''price micros must be in 0..=1_000_000: '' @ show_int v"
| "financial_error_text ArithmeticOverflow = ''fixed-point arithmetic overflow''"

fun decimal_error_text :: "decimal_error \<Rightarrow> string" where
  "decimal_error_text InvalidSyntax = ''invalid unsigned decimal syntax''"
| "decimal_error_text PrecisionLoss = ''decimal exceeds the supported fixed-point precision''"
| "decimal_error_text DecimalOverflow = ''decimal conversion overflow''"
| "decimal_error_text (Financial e) = financial_error_text e"

section \<open>Ordered scalars\<close>

text \<open>The derived \<open>Ord\<close> of the newtypes that are keys of maps.\<close>

instantiation price_micros :: linorder
begin

definition less_eq_price_micros :: "price_micros \<Rightarrow> price_micros \<Rightarrow> bool" where
  "less_eq_price_micros p q = (price_as_micros p \<le> price_as_micros q)"

definition less_price_micros :: "price_micros \<Rightarrow> price_micros \<Rightarrow> bool" where
  "less_price_micros p q = (price_as_micros p < price_as_micros q)"

instance
  by standard (auto simp: less_eq_price_micros_def less_price_micros_def price_micros.expand)

end

section \<open>Integers in bytes\<close>

text \<open>\<open>bytes.get(a..b)\<close>.\<close>

definition slice :: "string \<Rightarrow> nat \<Rightarrow> nat \<Rightarrow> string option" where
  "slice bytes a b = (if a \<le> b \<and> b \<le> length bytes then Some (take (b - a) (drop a bytes)) else None)"

fun of_le :: "string \<Rightarrow> int" where
  "of_le [] = 0"
| "of_le (c # cs) = of_char c + 256 * of_le cs"

definition signed_of_le :: "string \<Rightarrow> int" where
  "signed_of_le bytes =
     (let v = of_le bytes; n = 256 ^ length bytes in if n \<le> 2 * v then v - n else v)"

lemma of_char_bounds: "0 \<le> (of_char c :: int)" "(of_char c :: int) < 256"
proof -
  have "(of_char c :: int) = int (of_char c :: nat)"
    by (rule of_nat_of_char [symmetric])
  then show "0 \<le> (of_char c :: int)" "(of_char c :: int) < 256"
    using of_char_of [of "of_char c :: nat"] nat_of_char_less_256 [of c] by simp_all
qed

lemma of_le_bounds: "0 \<le> of_le bytes" "of_le bytes < 256 ^ length bytes"
proof (induction bytes)
  case (Cons c cs)
  { case 1 show ?case using Cons.IH(1) of_char_bounds(1) [of c] by simp }
  { case 2 show ?case using Cons.IH(2) of_char_bounds(2) [of c] by simp }
qed simp_all

lemma le_bytes_Suc: "le_bytes (Suc n) x = char_of (x mod 256) # le_bytes n (x div 256)"
proof (cases "x = 0")
  case True
  have "char_of (0 :: int) = CHR 0x00"
    by code_simp
  with True show ?thesis by (simp add: le_bytes_zero)
qed (subst le_bytes_code, simp)

lemma of_le_bytes [simp]: "of_le (le_bytes n x) = x mod 256 ^ n"
proof (induction n arbitrary: x)
  case 0
  then show ?case by (simp add: le_bytes_def)
next
  case (Suc n)
  have "x mod 256 + 256 * (x div 256 mod 256 ^ n) = x mod 256 ^ Suc n"
    by (simp add: zmod_zmult2_eq)
  then show ?case
    by (simp add: le_bytes_Suc Suc of_char_of take_bit_eq_mod)
qed

lemma le_bytes_of_le: "le_bytes (length bytes) (of_le bytes) = bytes"
proof (induction bytes)
  case Nil
  then show ?case by (simp add: le_bytes_def)
next
  case (Cons c cs)
  have "(of_char c + 256 * of_le cs) mod 256 = of_char c" "(of_char c + 256 * of_le cs) div 256 = of_le cs"
    using of_char_bounds [of c] by (simp_all add: mod_pos_pos_trivial div_pos_pos_trivial)
  then show ?case
    using Cons by (simp add: le_bytes_Suc)
qed

lemma le_bytes_mod: "le_bytes n (x mod 256 ^ n) = le_bytes n x"
  using le_bytes_of_le [of "le_bytes n x"] by simp

lemma signed_of_le_bytes: "i64_ok x \<Longrightarrow> signed_of_le (le_bytes 8 x) = x"
proof (cases "0 \<le> x")
  case False
  moreover assume "i64_ok x"
  ultimately have "x mod 18446744073709551616 = x + 18446744073709551616"
    using mod_add_self2 [of x 18446744073709551616] by (simp add: i64_ok_def mod_pos_pos_trivial del: mod_add_self2)
  then show ?thesis
    using \<open>i64_ok x\<close> by (simp add: signed_of_le_def Let_def i64_ok_def)
qed (simp add: signed_of_le_def Let_def i64_ok_def mod_pos_pos_trivial)

lemma signed_of_le_range: "length bytes = 8 \<Longrightarrow> i64_ok (signed_of_le bytes)"
  using of_le_bounds [of bytes] by (simp add: signed_of_le_def Let_def i64_ok_def)

lemma le_bytes_signed: "length bytes = 8 \<Longrightarrow> le_bytes 8 (signed_of_le bytes) = bytes"
  using le_bytes_of_le [of bytes] le_bytes_mod [of 8 "of_le bytes"]
    le_bytes_mod [of 8 "of_le bytes - 18446744073709551616"]
  by (simp add: signed_of_le_def Let_def)

lemma le_bytes_one: "le_bytes (Suc 0) x = [char_of (x mod 256)]"
  by (simp add: le_bytes_Suc) (simp add: le_bytes_def)

lemma le_bytes_one_nth [simp]: "le_bytes (Suc 0) x ! 0 = char_of (x mod 256)"
  by (simp add: le_bytes_one)

lemma take_field: "n \<le> length bytes \<Longrightarrow> \<exists>v rest. bytes = v @ rest \<and> length v = n"
  by (metis append_take_drop_id length_take min.absorb2)

lemma le_bytes_field: "length v = n \<Longrightarrow> le_bytes n (of_le v) = v"
  using le_bytes_of_le by blast

lemma of_char_of_byte: "0 \<le> x \<Longrightarrow> x < 256 \<Longrightarrow> (of_char (char_of x :: char) :: int) = x"
  by (simp add: of_char_of take_bit_eq_mod mod_pos_pos_trivial)

text \<open>Reading a fixed number of bytes at an offset, as the \<open>read_u16\<close> ... \<open>read_i64\<close> functions of the crates do.\<close>

definition read_unsigned :: "'e \<Rightarrow> nat \<Rightarrow> string \<Rightarrow> nat \<Rightarrow> 'e + int" where
  "read_unsigned e n bytes offset = (case slice bytes offset (offset + n) of None \<Rightarrow> Inl e | Some v \<Rightarrow> Inr (of_le v))"

definition read_signed :: "'e \<Rightarrow> nat \<Rightarrow> string \<Rightarrow> nat \<Rightarrow> 'e + int" where
  "read_signed e n bytes offset = (case slice bytes offset (offset + n) of None \<Rightarrow> Inl e | Some v \<Rightarrow> Inr (signed_of_le v))"

lemma slice_append: "slice (p @ v @ rest) (length p) (length p + length v) = Some v"
  by (simp add: slice_def)

lemma slice_at: "length p = a \<Longrightarrow> length v = n \<Longrightarrow> b = a + n \<Longrightarrow> slice (p @ v @ rest) a b = Some v"
  using slice_append by blast

lemma slice_Some: "slice bytes a b = Some v \<Longrightarrow> length v = b - a \<and> a \<le> b \<and> b \<le> length bytes"
  by (auto simp: slice_def split: if_splits)

lemma slice_split: "slice bytes a b = Some v \<Longrightarrow> bytes = take a bytes @ v @ drop b bytes"
  by (auto simp: slice_def drop_drop [symmetric] take_drop split: if_splits)
    (metis append_take_drop_id drop_drop le_add_diff_inverse2 take_drop)

section \<open>UTF-8\<close>

text \<open>The well-formed byte sequences of the Unicode standard (table 3-7), which \<open>std::str::from_utf8\<close> accepts.\<close>

definition byte_in :: "nat \<Rightarrow> nat \<Rightarrow> char \<Rightarrow> bool" where
  "byte_in lo hi c \<longleftrightarrow> lo \<le> of_char c \<and> of_char c \<le> hi"

definition utf8_tail :: "char \<Rightarrow> bool" where
  "utf8_tail c = byte_in 128 191 c"

definition utf8_second :: "char \<Rightarrow> char \<Rightarrow> bool" where
  "utf8_second lead c =
     (if byte_in 224 224 lead then byte_in 160 191 c
      else if byte_in 237 237 lead then byte_in 128 159 c
      else if byte_in 240 240 lead then byte_in 144 191 c
      else if byte_in 244 244 lead then byte_in 128 143 c
      else utf8_tail c)"

fun utf8_valid :: "string \<Rightarrow> bool" where
  "utf8_valid [] = True"
| "utf8_valid (c # cs) =
     (if byte_in 0 127 c then utf8_valid cs
      else case cs of
        [] \<Rightarrow> False
      | c2 # cs2 \<Rightarrow>
          if byte_in 194 223 c then utf8_tail c2 \<and> utf8_valid cs2
          else case cs2 of
            [] \<Rightarrow> False
          | c3 # cs3 \<Rightarrow>
              if byte_in 224 239 c then utf8_second c c2 \<and> utf8_tail c3 \<and> utf8_valid cs3
              else case cs3 of
                [] \<Rightarrow> False
              | c4 # cs4 \<Rightarrow> byte_in 240 244 c \<and> utf8_second c c2 \<and> utf8_tail c3 \<and> utf8_tail c4 \<and> utf8_valid cs4)"

definition from_utf8 :: "'e \<Rightarrow> string \<Rightarrow> 'e + string" where
  "from_utf8 e bytes = (if utf8_valid bytes then Inr bytes else Inl e)"

lemma utf8_ascii: "list_all (byte_in 0 127) s \<Longrightarrow> utf8_valid s"
  by (induction s) auto

section \<open>Fields and loops\<close>

text \<open>A reader takes the bytes not read yet and returns its value with the bytes after it.\<close>

type_synonym ('e, 'a) reader = "string \<Rightarrow> 'e + 'a \<times> string"

locale byte_codec =
  fixes enc :: "'a \<Rightarrow> string"
    and dec :: "('e, 'a) reader"
    and valid :: "'a \<Rightarrow> bool"
  assumes dec_enc: "valid x \<Longrightarrow> dec (enc x @ rest) = Inr (x, rest)"
begin

lemma dec_enc_end: "valid x \<Longrightarrow> dec (enc x) = Inr (x, [])"
  using dec_enc [of x "[]"] by simp

text \<open>No encoding is a prefix of another: what follows a field starts at one place only.\<close>

lemma enc_inj: "valid x \<Longrightarrow> valid y \<Longrightarrow> enc x @ r = enc y @ s \<Longrightarrow> x = y \<and> r = s"
  by (metis dec_enc old.sum.inject(2) prod.inject)

end

text \<open>A \<open>for _ in 0..n\<close> loop over a reader with a loop state.\<close>

fun read_loop :: "('s \<Rightarrow> ('e, 's) reader) \<Rightarrow> nat \<Rightarrow> 's \<Rightarrow> ('e, 's) reader" where
  "read_loop f 0 s bytes = Inr (s, bytes)"
| "read_loop f (Suc n) s bytes = rbind (f s bytes) (\<lambda>(s', rest). read_loop f n s' rest)"

lemma bt_insert_last: "(\<forall>x \<in> fst ` set m. x < k) \<Longrightarrow> bt_insert k v m = m @ [(k, v)]"
  by (induction m) auto

text \<open>Reading back the entries of a map, in order, into an empty map.\<close>

lemma read_loop_map:
  assumes "\<And>k v m rest. (\<forall>x \<in> fst ` set m. x < k) \<Longrightarrow> (k, v) \<in> set entries \<Longrightarrow>
      f m (w (k, v) @ rest) = Inr (bt_insert k v m, rest)"
    and "bt_ok entries"
  shows "read_loop f (length entries) [] (concat (map w entries) @ rest) = Inr (entries, rest)"
proof -
  have "read_loop f (length xs) m (concat (map w xs) @ rest) = Inr (m @ xs, rest)"
    if "bt_ok (m @ xs)" and "set xs \<subseteq> set entries" for m xs
    using that
  proof (induction xs arbitrary: m)
    case (Cons e xs)
    obtain k v where e: "e = (k, v)" by (cases e)
    have less: "\<forall>x \<in> fst ` set m. x < k"
      using Cons.prems(1) by (auto simp: e bt_ok_def sorted_wrt_append)
    show ?case
      using Cons.IH [of "m @ [e]"] Cons.prems assms(1) [OF less, of v] by (simp add: e bt_insert_last [OF less])
  qed simp
  from this [of "[]" entries] show ?thesis using assms(2) by simp
qed

end
