(* ===== verification/Event_Envelope.thy ===== *)
theory Event_Envelope
  imports Wire_Bytes
begin

text \<open>
  The event envelopes of \<open>crates/event-schema/src/lib.rs\<close>, in which every recorded event is stored: their
  construction, the binary encoding and its strict decoder. The lemmas show that decoding undoes encoding and
  that a byte string decodes only when it is the encoding of what it decodes to. Sums of lengths are over the
  natural numbers: after \<open>validate_lengths\<close> they stay far below the range of \<open>usize\<close>.
\<close>

datatype event_source = SourceMarket | SourceUser | SourceReferencePrice | SourceBlockchain | SourceSystem

fun source_byte :: "event_source \<Rightarrow> int" where
  "source_byte SourceMarket = 1"
| "source_byte SourceUser = 2"
| "source_byte SourceReferencePrice = 3"
| "source_byte SourceBlockchain = 4"
| "source_byte SourceSystem = 5"

datatype schema_error =
    EmptyMarketId
  | MarketIdTooLarge nat
  | PayloadTooLarge nat
  | SchemaUnsupportedVersion int
  | UnknownSource int
  | ReservedByteSet int
  | InvalidMarketIdUtf8
  | SchemaTruncated
  | SchemaTrailingBytes nat
  | LengthOverflow

fun schema_error_text :: "schema_error \<Rightarrow> string" where
  "schema_error_text EmptyMarketId = ''market identifier cannot be empty''"
| "schema_error_text (MarketIdTooLarge n) = ''market identifier is too large: '' @ show_nat n"
| "schema_error_text (PayloadTooLarge n) = ''payload is too large: '' @ show_nat n"
| "schema_error_text (SchemaUnsupportedVersion v) = ''unsupported schema version: '' @ show_int v"
| "schema_error_text (UnknownSource v) = ''unknown event source: '' @ show_int v"
| "schema_error_text (ReservedByteSet v) = ''reserved schema byte is non-zero: '' @ show_int v"
| "schema_error_text InvalidMarketIdUtf8 = ''market identifier is not valid UTF-8''"
| "schema_error_text SchemaTruncated = ''event envelope is truncated''"
| "schema_error_text (SchemaTrailingBytes n) = ''event envelope has '' @ show_nat n @ '' trailing bytes''"
| "schema_error_text LengthOverflow = ''event envelope length overflow''"

definition source_from_byte :: "int \<Rightarrow> schema_error + event_source" where
  "source_from_byte v =
     (if v = 1 then Inr SourceMarket else if v = 2 then Inr SourceUser else if v = 3 then Inr SourceReferencePrice
      else if v = 4 then Inr SourceBlockchain else if v = 5 then Inr SourceSystem else Inl (UnknownSource v))"

record envelope =
  ev_schema_version :: int
  ev_source :: event_source
  ev_sequence :: int
  ev_event_time :: int
  ev_received_time :: int
  ev_market_id :: string
  ev_payload :: string

definition validate_lengths :: "nat \<Rightarrow> nat \<Rightarrow> schema_error + unit" where
  "validate_lengths market_len payload_len =
     (if 4 * 1024 < market_len then Inl (MarketIdTooLarge market_len)
      else if 16 * 1024 * 1024 < payload_len then Inl (PayloadTooLarge payload_len)
      else Inr ())"

definition envelope_new ::
  "event_source \<Rightarrow> int \<Rightarrow> int \<Rightarrow> int \<Rightarrow> string \<Rightarrow> string \<Rightarrow> schema_error + envelope" where
  "envelope_new source sequence event_time received_time market_id payload =
     rbind (validate_lengths (length market_id) (length payload)) (\<lambda>_.
     if market_id = [] then Inl EmptyMarketId
     else Inr \<lparr>ev_schema_version = 1, ev_source = source, ev_sequence = sequence, ev_event_time = event_time,
       ev_received_time = received_time, ev_market_id = market_id, ev_payload = payload\<rparr>)"

definition u32_of :: "'e \<Rightarrow> nat \<Rightarrow> 'e + nat" where
  "u32_of e n = (if 4294967295 < n then Inl e else Inr n)"

definition envelope_encode :: "envelope \<Rightarrow> schema_error + string" where
  "envelope_encode e =
     (if ev_schema_version e \<noteq> 1 then Inl (SchemaUnsupportedVersion (ev_schema_version e))
      else rbind (validate_lengths (length (ev_market_id e)) (length (ev_payload e))) (\<lambda>_.
        if ev_market_id e = [] then Inl EmptyMarketId
        else
          rbind (u32_of LengthOverflow (length (ev_market_id e))) (\<lambda>market_len.
          rbind (u32_of LengthOverflow (length (ev_payload e))) (\<lambda>payload_len.
          Inr (le_bytes 2 (ev_schema_version e) @ le_bytes 1 (source_byte (ev_source e)) @ le_bytes 1 0
            @ le_bytes 8 (ev_sequence e) @ le_bytes 8 (ev_event_time e) @ le_bytes 8 (ev_received_time e)
            @ le_bytes 4 (int market_len) @ le_bytes 4 (int payload_len) @ ev_market_id e @ ev_payload e)))))"

text \<open>The body after the lengths are known to fit.\<close>

definition envelope_body ::
  "string \<Rightarrow> int \<Rightarrow> event_source \<Rightarrow> int \<Rightarrow> int \<Rightarrow> int \<Rightarrow> nat \<Rightarrow> nat \<Rightarrow> schema_error + envelope" where
  "envelope_body bytes version source sequence event_time received_time market_len payload_len =
     (let expected = 36 + market_len + payload_len; market_end = 36 + market_len in
      if length bytes < expected then Inl SchemaTruncated
      else if length bytes \<noteq> expected then Inl (SchemaTrailingBytes (length bytes - expected))
      else
        rbind (from_utf8 InvalidMarketIdUtf8 (take market_len (drop 36 bytes))) (\<lambda>market_id.
        if market_id = [] then Inl EmptyMarketId
        else Inr \<lparr>ev_schema_version = version, ev_source = source, ev_sequence = sequence, ev_event_time = event_time,
          ev_received_time = received_time, ev_market_id = market_id,
          ev_payload = take payload_len (drop market_end bytes)\<rparr>))"

definition envelope_decode :: "string \<Rightarrow> schema_error + envelope" where
  "envelope_decode bytes =
     (if length bytes < 36 then Inl SchemaTruncated
      else
        rbind (read_unsigned SchemaTruncated 2 bytes 0) (\<lambda>version.
        if version \<noteq> 1 then Inl (SchemaUnsupportedVersion version)
        else
          rbind (source_from_byte (of_char (bytes ! 2))) (\<lambda>source.
          if (of_char (bytes ! 3) :: int) \<noteq> 0 then Inl (ReservedByteSet (of_char (bytes ! 3)))
          else
            rbind (read_unsigned SchemaTruncated 8 bytes 4) (\<lambda>sequence.
            rbind (read_signed SchemaTruncated 8 bytes 12) (\<lambda>event_time.
            rbind (read_signed SchemaTruncated 8 bytes 20) (\<lambda>received_time.
            rbind (read_unsigned SchemaTruncated 4 bytes 28) (\<lambda>market_len.
            rbind (read_unsigned SchemaTruncated 4 bytes 32) (\<lambda>payload_len.
            rbind (validate_lengths (nat market_len) (nat payload_len)) (\<lambda>_.
            envelope_body bytes version source sequence event_time received_time (nat market_len) (nat payload_len))))))))))"

section \<open>The encoding is exact\<close>

text \<open>What the types of the fields promise.\<close>

definition envelope_typed :: "envelope \<Rightarrow> bool" where
  "envelope_typed e \<longleftrightarrow> u64_ok (ev_sequence e) \<and> i64_ok (ev_event_time e) \<and> i64_ok (ev_received_time e)
     \<and> utf8_valid (ev_market_id e)"

lemma source_from_byte_byte [simp]: "source_from_byte (source_byte s) = Inr s"
  by (cases s) (simp_all add: source_from_byte_def)

lemma source_from_byte_Inr: "source_from_byte v = Inr s \<Longrightarrow> source_byte s = v"
  by (auto simp: source_from_byte_def split: if_splits)

lemma source_byte_small: "0 < source_byte s \<and> source_byte s < 256"
  by (cases s) simp_all

lemma read_unsigned_at:
  assumes "length p = offset" and "length v = n"
  shows "read_unsigned e n (p @ v @ rest) offset = Inr (of_le v)"
  using slice_append [of p v rest] assms by (simp add: read_unsigned_def)

lemma read_signed_at:
  assumes "length p = offset" and "length v = n"
  shows "read_signed e n (p @ v @ rest) offset = Inr (signed_of_le v)"
  using slice_append [of p v rest] assms by (simp add: read_signed_def)

lemma u32_of_Inr [simp]: "u32_of e n = Inr m \<longleftrightarrow> n \<le> 4294967295 \<and> m = n"
  by (auto simp: u32_of_def)

lemma envelope_encode_Inr:
  "envelope_encode e = Inr bytes \<longleftrightarrow>
     ev_schema_version e = 1 \<and> length (ev_market_id e) \<le> 4096 \<and> length (ev_payload e) \<le> 16777216 \<and> ev_market_id e \<noteq> []
     \<and> bytes = le_bytes 2 1 @ le_bytes 1 (source_byte (ev_source e)) @ le_bytes 1 0
         @ le_bytes 8 (ev_sequence e) @ le_bytes 8 (ev_event_time e) @ le_bytes 8 (ev_received_time e)
         @ le_bytes 4 (int (length (ev_market_id e))) @ le_bytes 4 (int (length (ev_payload e)))
         @ ev_market_id e @ ev_payload e"
  by (auto simp: envelope_encode_def validate_lengths_def result_simps)

lemma decode_encoded:
  assumes "envelope_typed e" and "envelope_encode e = Inr bytes"
  shows "envelope_decode bytes = Inr e"
proof -
  note e = assms(2) [unfolded envelope_encode_Inr]
  have small: "int (length (ev_market_id e)) mod 4294967296 = int (length (ev_market_id e))"
      "int (length (ev_payload e)) mod 4294967296 = int (length (ev_payload e))"
    using e by (simp_all add: mod_pos_pos_trivial)
  show ?thesis
    using e assms(1) source_byte_small [of "ev_source e"]
    by (simp add: envelope_decode_def read_unsigned_def read_signed_def slice_def signed_of_le_bytes envelope_typed_def
        u64_ok_def mod_pos_pos_trivial small nth_append of_char_of_byte validate_lengths_def
        envelope_body_def from_utf8_def)
qed

lemma decode_is_encoding:
  assumes "envelope_decode bytes = Inr e"
  shows "envelope_typed e \<and> envelope_encode e = Inr bytes"
proof -
  have len: "36 \<le> length bytes"
    using assms by (auto simp: envelope_decode_def split: if_splits)
  obtain a b where 1: "bytes = a @ b" "length a = 2" using take_field [of 2 bytes] len by auto
  obtain c d where 2: "b = c @ d" "length c = 1" using take_field [of 1 b] len 1 by auto
  obtain f g where 3: "d = f @ g" "length f = 1" using take_field [of 1 d] len 1 2 by auto
  obtain h i where 4: "g = h @ i" "length h = 8" using take_field [of 8 g] len 1 2 3 by auto
  obtain j k where 5: "i = j @ k" "length j = 8" using take_field [of 8 i] len 1 2 3 4 by auto
  obtain l m where 6: "k = l @ m" "length l = 8" using take_field [of 8 k] len 1 2 3 4 5 by auto
  obtain n q where 7: "m = n @ q" "length n = 4" using take_field [of 4 m] len 1 2 3 4 5 6 by auto
  obtain r s where 8: "q = r @ s" "length r = 4" using take_field [of 4 q] len 1 2 3 4 5 6 7 by auto
  have bytes: "bytes = a @ c @ f @ h @ j @ l @ n @ r @ s"
    using 1 2 3 4 5 6 7 8 by simp
  note lengths = 1(2) 2(2) 3(2) 4(2) 5(2) 6(2) 7(2) 8(2)
  have facts: "of_le a = 1" "source_from_byte (of_char (c ! 0)) = Inr (ev_source e)" "(of_char (f ! 0) :: int) = 0"
      "nat (of_le n) \<le> 4096" "nat (of_le r) \<le> 16777216"
      "length s = nat (of_le n) + nat (of_le r)" "utf8_valid (take (nat (of_le n)) s)" "take (nat (of_le n)) s \<noteq> []"
      "e = \<lparr>ev_schema_version = 1, ev_source = ev_source e, ev_sequence = of_le h, ev_event_time = signed_of_le j,
        ev_received_time = signed_of_le l, ev_market_id = take (nat (of_le n)) s, ev_payload = drop (nat (of_le n)) s\<rparr>"
    using assms lengths unfolding bytes
    by (auto simp: envelope_decode_def read_unsigned_def read_signed_def slice_def nth_append validate_lengths_def
        envelope_body_def from_utf8_def Let_def result_simps split: if_splits)
  obtain x y where xy: "c = [x]" "f = [y]"
    using 2 3 by (metis One_nat_def length_0_conv length_Suc_conv)
  have y: "y = CHR 0x00"
    using facts(3) xy le_bytes_of_le [of f] by (simp add: le_bytes_zero)
  have x: "char_of (source_byte (ev_source e)) = x"
    using source_from_byte_Inr [OF facts(2)] xy by simp
  define i p where ip: "i = take (nat (of_le n)) s" "p = drop (nat (of_le n)) s"
  have s: "s = i @ p" "int (length i) = of_le n" "int (length p) = of_le r" "utf8_valid i" "i \<noteq> []"
    using facts(6-8) of_le_bounds(1) [of n] of_le_bounds(1) [of r] by (simp_all add: ip)
  have "length i \<le> 4096" "length p \<le> 16777216"
    using facts(4,5) s(2,3) by linarith+
  moreover have fields: "ev_schema_version e = 1" "ev_sequence e = of_le h" "ev_event_time e = signed_of_le j"
      "ev_received_time e = signed_of_le l" "ev_market_id e = i" "ev_payload e = p"
    by (subst facts(9), simp add: ip)+
  moreover have "envelope_typed e"
    using fields s of_le_bounds [of h] lengths signed_of_le_range by (simp add: envelope_typed_def u64_ok_def)
  ultimately show ?thesis
    unfolding envelope_encode_Inr fields bytes xy y x [symmetric] s(1-3)
    using facts(1,4,5) s lengths le_bytes_field [of a 2] source_byte_small [of "ev_source e"]
    by (simp add: le_bytes_field le_bytes_signed le_bytes_one mod_pos_pos_trivial le_bytes_zero)
qed

text \<open>The envelope format is exact: bytes decode to an envelope if and only if they are the encoding of that envelope
  and its fields lie within their types. So decoding undoes encoding, no two byte strings decode to the same
  envelope, and everything that is truncated, too long or malformed is refused.\<close>
theorem envelope_codec_exact:
  "envelope_decode bytes = Inr e \<longleftrightarrow> envelope_typed e \<and> envelope_encode e = Inr bytes"
  by (blast intro: decode_encoded dest: decode_is_encoding)

end
