(* ===== verification/Market_Identity.thy ===== *)
theory Market_Identity
  imports Wire_Bytes
begin

text \<open>
  The identities of hourly markets, \<open>crates/public-market-data/src/domain.rs\<close>: the two configured series, the
  checks of identifiers, and the validation that turns a discovered candidate into an identity. The parser of
  RFC 3339 times (\<open>chrono\<close>), the parser of JSON string lists and \<open>blake3\<close> are parameters.
\<close>

datatype market_asset = AssetBitcoin | AssetEthereum

fun asset_index :: "market_asset \<Rightarrow> nat" where
  "asset_index AssetBitcoin = 0"
| "asset_index AssetEthereum = 1"

fun asset_as_str :: "market_asset \<Rightarrow> string" where
  "asset_as_str AssetBitcoin = ''BTC''"
| "asset_as_str AssetEthereum = ''ETH''"

instantiation market_asset :: linorder
begin

definition less_eq_market_asset :: "market_asset \<Rightarrow> market_asset \<Rightarrow> bool" where
  "less_eq_market_asset p q = (asset_index p \<le> asset_index q)"

definition less_market_asset :: "market_asset \<Rightarrow> market_asset \<Rightarrow> bool" where
  "less_market_asset p q = (asset_index p < asset_index q)"

instance
proof
  fix x y :: market_asset
  show "x \<le> y \<Longrightarrow> y \<le> x \<Longrightarrow> x = y"
    by (cases x; cases y) (simp_all add: less_eq_market_asset_def)
qed (auto simp: less_eq_market_asset_def less_market_asset_def)

end

record hourly_series =
  hs_id :: string
  hs_slug :: string
  hs_asset :: market_asset

definition BTC_HOURLY :: hourly_series where
  "BTC_HOURLY = \<lparr>hs_id = ''10114'', hs_slug = ''btc-up-or-down-hourly'', hs_asset = AssetBitcoin\<rparr>"

definition ETH_HOURLY :: hourly_series where
  "ETH_HOURLY = \<lparr>hs_id = ''10117'', hs_slug = ''eth-up-or-down-hourly'', hs_asset = AssetEthereum\<rparr>"

definition HOURLY_SERIES :: "hourly_series list" where
  "HOURLY_SERIES = [BTC_HOURLY, ETH_HOURLY]"

record market_identity =
  mi_asset :: market_asset
  mi_event_id :: string
  mi_market_id :: string
  mi_condition_id :: string
  mi_question_id :: string
  mi_event_slug :: string
  mi_market_slug :: string
  mi_series_id :: string
  mi_series_slug :: string
  mi_title :: string
  mi_start_time_ms :: int
  mi_end_time_ms :: int
  mi_resolution_source :: string
  mi_description :: string
  mi_up_token_id :: string
  mi_down_token_id :: string
  mi_rules_fingerprint :: bytes32

definition token_ids :: "market_identity \<Rightarrow> string \<times> string" where
  "token_ids m = (mi_up_token_id m, mi_down_token_id m)"

datatype identity_error =
    InvalidWindow int int
  | MissingField string
  | FieldTooLarge string nat
  | InvalidTimestamp string string
  | NotHourly int int
  | InvalidHexId string string
  | InvalidTokenId string
  | InvalidOutcomes string
  | NotUpDown
  | InvalidTokenCount
  | SeriesIdMismatch string

fun identity_error_text :: "identity_error \<Rightarrow> string" where
  "identity_error_text (InvalidWindow a b) = ''invalid discovery window: '' @ show_int a @ ''..'' @ show_int b"
| "identity_error_text (MissingField f) = ''missing field: '' @ f"
| "identity_error_text (FieldTooLarge f n) = ''field '' @ f @ '' is too large: '' @ show_nat n @ '' bytes''"
| "identity_error_text (InvalidTimestamp f v) = ''invalid RFC3339 timestamp in '' @ f @ '': '' @ v"
| "identity_error_text (NotHourly a b) = ''event is not exactly one hour: '' @ show_int a @ ''..'' @ show_int b"
| "identity_error_text (InvalidHexId f v) = ''invalid 32-byte hexadecimal identifier in '' @ f @ '': '' @ v"
| "identity_error_text (InvalidTokenId v) = ''invalid decimal token identifier: '' @ v"
| "identity_error_text (InvalidOutcomes e) = ''invalid outcomes JSON: '' @ e"
| "identity_error_text NotUpDown = ''market must contain exactly one Up and one Down outcome''"
| "identity_error_text InvalidTokenCount = ''market must contain exactly two token identifiers''"
| "identity_error_text (SeriesIdMismatch s) = ''series identity mismatch for slug: '' @ s"

record discovery_window =
  dw_start_ms :: int
  dw_end_ms :: int

definition discovery_window_new :: "int \<Rightarrow> int \<Rightarrow> identity_error + discovery_window" where
  "discovery_window_new start_ms end_ms =
     (if end_ms \<le> start_ms then Inl (InvalidWindow start_ms end_ms)
      else Inr \<lparr>dw_start_ms = start_ms, dw_end_ms = end_ms\<rparr>)"

definition discovery_overlaps :: "discovery_window \<Rightarrow> int \<Rightarrow> int \<Rightarrow> bool" where
  "discovery_overlaps w start_ms end_ms \<longleftrightarrow> start_ms < dw_end_ms w \<and> dw_start_ms w < end_ms"

section \<open>Identifiers\<close>

definition is_ascii_hexdigit :: "char \<Rightarrow> bool" where
  "is_ascii_hexdigit c \<longleftrightarrow> byte_in 48 57 c \<or> byte_in 65 70 c \<or> byte_in 97 102 c"

definition validate_hex_id :: "string \<Rightarrow> string \<Rightarrow> identity_error + unit" where
  "validate_hex_id field v =
     (if length v = 66 \<and> take 2 v = ''0x'' \<and> list_all is_ascii_hexdigit (drop 2 v) then Inr ()
      else Inl (InvalidHexId field v))"

definition validate_token_id :: "string \<Rightarrow> identity_error + unit" where
  "validate_token_id v =
     (if v \<noteq> [] \<and> length v \<le> 78 \<and> list_all is_ascii_digit v then Inr () else Inl (InvalidTokenId v))"

definition validate_short :: "string \<Rightarrow> string \<Rightarrow> identity_error + unit" where
  "validate_short field v =
     (if v = [] then Inl (MissingField field)
      else if 512 < length v then Inl (FieldTooLarge field (length v)) else Inr ())"

definition validate_rules :: "string \<Rightarrow> string \<Rightarrow> identity_error + unit" where
  "validate_rules field v =
     (if v = [] then Inl (MissingField field)
      else if 128 * 1024 < length v then Inl (FieldTooLarge field (length v)) else Inr ())"

section \<open>From a candidate to an identity\<close>

record market_candidate =
  mc_event_id :: string
  mc_event_slug :: string
  mc_market_id :: string
  mc_condition_id :: string
  mc_question_id :: string
  mc_market_slug :: string
  mc_series :: "(string \<times> string) list"
  mc_series_slug :: string
  mc_title :: string
  mc_start_time :: string
  mc_end_time :: string
  mc_resolution_source :: string
  mc_description :: string
  mc_outcomes_json :: string
  mc_token_ids_json :: string

text \<open>The library calls: \<open>DateTime::parse_from_rfc3339\<close> to milliseconds, \<open>serde_json::from_str\<close> to a list of
  strings (with the text of its error), and \<open>blake3\<close>.\<close>

record identity_codec =
  ic_rfc3339_ms :: "string \<Rightarrow> int option"
  ic_strings :: "string \<Rightarrow> string + string list"
  ic_blake3 :: "string \<Rightarrow> bytes32"

definition parse_time_ms :: "identity_codec \<Rightarrow> string \<Rightarrow> string \<Rightarrow> identity_error + int" where
  "parse_time_ms cx field v = ok_or (ic_rfc3339_ms cx v) (InvalidTimestamp field v)"

definition rules_fingerprint :: "identity_codec \<Rightarrow> string list \<Rightarrow> bytes32" where
  "rules_fingerprint cx parts = ic_blake3 cx (concat (map prefixed parts))"

definition to_ascii_lowercase :: "string \<Rightarrow> string" where
  "to_ascii_lowercase = map (\<lambda>c. if byte_in 65 90 c then char_of ((of_char c :: nat) + 32) else c)"

text \<open>The hash map from the lower-cased outcomes to their positions; a later one replaces an earlier one.\<close>

definition outcome_position :: "string list \<Rightarrow> string \<Rightarrow> nat option" where
  "outcome_position outcomes name =
     map_of (rev (zip (map to_ascii_lowercase outcomes) [0..<length outcomes])) name"

definition candidate_fields_ok :: "market_candidate \<Rightarrow> identity_error + unit" where
  "candidate_fields_ok c =
     rbind (validate_short ''event_id'' (mc_event_id c)) (\<lambda>_.
     rbind (validate_short ''event_slug'' (mc_event_slug c)) (\<lambda>_.
     rbind (validate_short ''market_id'' (mc_market_id c)) (\<lambda>_.
     rbind (validate_short ''market_slug'' (mc_market_slug c)) (\<lambda>_.
     rbind (validate_short ''title'' (mc_title c)) (\<lambda>_.
     rbind (validate_rules ''description'' (mc_description c)) (\<lambda>_.
     rbind (validate_rules ''resolution_source'' (mc_resolution_source c)) (\<lambda>_.
     rbind (validate_hex_id ''condition_id'' (mc_condition_id c)) (\<lambda>_.
     validate_hex_id ''question_id'' (mc_question_id c)))))))))"

definition candidate_series :: "hourly_series list \<Rightarrow> market_candidate \<Rightarrow> identity_error + hourly_series" where
  "candidate_series configured c =
     rbind (ok_or (find (\<lambda>s. hs_slug s = mc_series_slug c) configured) (SeriesIdMismatch (mc_series_slug c))) (\<lambda>series.
     if list_ex (\<lambda>(i, slug). i = hs_id series \<and> slug = hs_slug series) (mc_series c) then Inr series
     else Inl (SeriesIdMismatch (mc_series_slug c)))"

definition candidate_window :: "identity_codec \<Rightarrow> market_candidate \<Rightarrow> identity_error + int \<times> int" where
  "candidate_window cx c =
     rbind (parse_time_ms cx ''start_time'' (mc_start_time c)) (\<lambda>start_ms.
     rbind (parse_time_ms cx ''end_time'' (mc_end_time c)) (\<lambda>end_ms.
     if sub64 end_ms start_ms \<noteq> Some 3600000 then Inl (NotHourly start_ms end_ms) else Inr (start_ms, end_ms)))"

text \<open>The tokens of the outcomes \<open>Up\<close> and \<open>Down\<close>, in whichever order they are listed.\<close>

definition candidate_tokens :: "identity_codec \<Rightarrow> market_candidate \<Rightarrow> identity_error + string \<times> string" where
  "candidate_tokens cx c =
     rbind (case ic_strings cx (mc_outcomes_json c) of Inl e \<Rightarrow> Inl (InvalidOutcomes e) | Inr v \<Rightarrow> Inr v) (\<lambda>outcomes.
     rbind (case ic_strings cx (mc_token_ids_json c) of Inl e \<Rightarrow> Inl InvalidTokenCount | Inr v \<Rightarrow> Inr v) (\<lambda>tokens.
     if length tokens \<noteq> 2 then Inl InvalidTokenCount
     else
       rbind (for_each validate_token_id tokens) (\<lambda>_.
       if length outcomes \<noteq> 2 \<or> length (remdups (map to_ascii_lowercase outcomes)) \<noteq> 2 then Inl NotUpDown
       else
         rbind (ok_or (outcome_position outcomes ''up'') NotUpDown) (\<lambda>up.
         rbind (ok_or (outcome_position outcomes ''down'') NotUpDown) (\<lambda>down.
         Inr (tokens ! up, tokens ! down))))))"

definition validate_candidate ::
  "identity_codec \<Rightarrow> market_candidate \<Rightarrow> hourly_series list \<Rightarrow> identity_error + market_identity" where
  "validate_candidate cx c configured =
     rbind (candidate_fields_ok c) (\<lambda>_.
     rbind (candidate_series configured c) (\<lambda>series.
     rbind (candidate_window cx c) (\<lambda>(start_ms, end_ms).
     rbind (candidate_tokens cx c) (\<lambda>(up, down).
     Inr \<lparr>mi_asset = hs_asset series, mi_event_id = mc_event_id c, mi_market_id = mc_market_id c,
       mi_condition_id = mc_condition_id c, mi_question_id = mc_question_id c, mi_event_slug = mc_event_slug c,
       mi_market_slug = mc_market_slug c, mi_series_id = hs_id series, mi_series_slug = hs_slug series,
       mi_title = mc_title c, mi_start_time_ms = start_ms, mi_end_time_ms = end_ms,
       mi_resolution_source = mc_resolution_source c, mi_description = mc_description c,
       mi_up_token_id = up, mi_down_token_id = down,
       mi_rules_fingerprint = rules_fingerprint cx [mc_condition_id c, mc_question_id c, mc_series_slug c, mc_start_time c,
         mc_end_time c, mc_resolution_source c, mc_description c, mc_outcomes_json c, mc_token_ids_json c]\<rparr>))))"

section \<open>What an identity guarantees\<close>

lemma is_ascii_digit_byte: "is_ascii_digit c \<Longrightarrow> byte_in 0 127 c"
  by (simp add: is_ascii_digit_def byte_in_def)

lemma is_ascii_hexdigit_byte: "is_ascii_hexdigit c \<Longrightarrow> byte_in 0 127 c"
  by (auto simp: is_ascii_hexdigit_def byte_in_def)

lemma token_id_utf8: "validate_token_id v = Inr u \<Longrightarrow> utf8_valid v \<and> length v \<le> 78 \<and> v \<noteq> []"
  by (auto simp: validate_token_id_def list_all_iff intro!: utf8_ascii is_ascii_digit_byte split: if_splits)

lemma hex_id_utf8: "validate_hex_id f v = Inr u \<Longrightarrow> utf8_valid v \<and> length v = 66"
proof -
  assume *: "validate_hex_id f v = Inr u"
  then have v: "take 2 v = ''0x''" "length v = 66" "list_all is_ascii_hexdigit (drop 2 v)"
    by (auto simp: validate_hex_id_def split: if_splits)
  then have "v = ''0x'' @ drop 2 v"
    by (metis append_take_drop_id)
  moreover have "list_all (byte_in 0 127) (''0x'' @ drop 2 v)"
    using v(3) by (auto simp: list_all_iff byte_in_def dest!: is_ascii_hexdigit_byte)
  ultimately show ?thesis
    using utf8_ascii v(2) by metis
qed

end
