(* ===== verification/Public_Payload.thy ===== *)
theory Public_Payload
  imports Market_Identity
begin

text \<open>
  The normalised public-market payloads of \<open>crates/public-market-data/src/payload.rs\<close> and their strict
  decoder: a binary prefix with kind, time and asset ids, and the JSON text of the exchange, which must agree.
  \<open>serde_json\<close> is a parameter: a parser into a type of values \<open>'v\<close> and, for every derived \<open>Deserialize\<close>, the
  function from a value to the raw structure. The lemmas show what the type of a decoded event promises.
\<close>

section \<open>Data\<close>

datatype public_kind = KindBook | KindPriceChange | KindTickSizeChange | KindLastTradePrice | KindBestBidAsk

datatype market_side = BidSide | AskSide

record book_level =
  bl_price :: price_micros
  bl_quantity :: quantity_micros

record book_snapshot =
  bs_condition_id :: string
  bs_asset_id :: string
  bs_bids :: "book_level list"
  bs_asks :: "book_level list"

record price_change =
  pc_asset_id :: string
  pc_side :: market_side
  pc_price :: price_micros
  pc_quantity :: quantity_micros

record tick_size_change =
  ts_condition_id :: string
  ts_asset_id :: string
  ts_old_tick_size :: price_micros
  ts_new_tick_size :: price_micros

record last_trade =
  lt_condition_id :: string
  lt_asset_id :: string
  lt_side :: market_side
  lt_price :: price_micros
  lt_quantity :: "quantity_micros option"

record best_bid_ask =
  ba_condition_id :: string
  ba_asset_id :: string
  ba_best_bid :: price_micros
  ba_best_ask :: price_micros

datatype public_event =
    EventBook book_snapshot
  | EventPriceChanges string "price_change list"
  | EventTickSize tick_size_change
  | EventLastTrade last_trade
  | EventBestBidAsk best_bid_ask

record public_payload =
  pv_kind :: public_kind
  pv_timestamp_ms :: int
  pv_asset_ids :: "string list"
  pv_event :: public_event

datatype payload_error =
    PayloadTruncated
  | PayloadVersion int
  | PayloadReservedByte int
  | PayloadUnknownKind int
  | PayloadUnknownEventType string
  | PayloadAssetCount
  | PayloadTrailingBytes
  | PayloadInvalidUtf8
  | PayloadJson string
  | PayloadIdentity identity_error
  | PayloadDecimal string decimal_error
  | PayloadInvalidSide string
  | PayloadMismatch string
  | PayloadEmptyPriceChanges

fun payload_error_text :: "payload_error \<Rightarrow> string" where
  "payload_error_text PayloadTruncated = ''public payload is truncated''"
| "payload_error_text (PayloadVersion v) = ''unsupported public payload version: '' @ show_int v"
| "payload_error_text (PayloadReservedByte v) = ''public payload reserved byte is set: '' @ show_int v"
| "payload_error_text (PayloadUnknownKind v) = ''unknown public event kind: '' @ show_int v"
| "payload_error_text (PayloadUnknownEventType s) = ''unknown public JSON event type: '' @ s"
| "payload_error_text PayloadAssetCount = ''public payload has zero or too many assets''"
| "payload_error_text PayloadTrailingBytes = ''public payload has trailing bytes''"
| "payload_error_text PayloadInvalidUtf8 = ''public payload string is not UTF-8''"
| "payload_error_text (PayloadJson e) = ''invalid public payload JSON: '' @ e"
| "payload_error_text (PayloadIdentity e) = ''invalid public identity: '' @ identity_error_text e"
| "payload_error_text (PayloadDecimal field e) = ''invalid decimal field '' @ field @ '': '' @ decimal_error_text e"
| "payload_error_text (PayloadInvalidSide s) = ''invalid market side: '' @ s"
| "payload_error_text (PayloadMismatch s) = ''payload prefix and JSON disagree: '' @ s"
| "payload_error_text PayloadEmptyPriceChanges = ''event contains no price changes''"

section \<open>Names and bytes of kinds and sides\<close>

definition public_kind_parse :: "string \<Rightarrow> payload_error + public_kind" where
  "public_kind_parse v =
     (if v = ''book'' then Inr KindBook else if v = ''price_change'' then Inr KindPriceChange
      else if v = ''tick_size_change'' then Inr KindTickSizeChange
      else if v = ''last_trade_price'' then Inr KindLastTradePrice
      else if v = ''best_bid_ask'' then Inr KindBestBidAsk else Inl (PayloadUnknownEventType v))"

definition public_kind_from_byte :: "int \<Rightarrow> payload_error + public_kind" where
  "public_kind_from_byte v =
     (if v = 1 then Inr KindBook else if v = 2 then Inr KindPriceChange else if v = 3 then Inr KindTickSizeChange
      else if v = 4 then Inr KindLastTradePrice else if v = 5 then Inr KindBestBidAsk else Inl (PayloadUnknownKind v))"

definition market_side_parse :: "string \<Rightarrow> payload_error + market_side" where
  "market_side_parse v =
     (if v = ''BUY'' then Inr BidSide else if v = ''SELL'' then Inr AskSide else Inl (PayloadInvalidSide v))"

section \<open>The JSON text\<close>

text \<open>A value that is read as a time: the variants \<open>String\<close> and \<open>Number\<close> (with its \<open>as_i64\<close>), or another one.\<close>

datatype raw_timestamp = TimeText string | TimeNumber "int option" | TimeOther

record raw_header =
  rw_event_type :: string
  rw_market :: string
  rw_timestamp :: raw_timestamp

record raw_level =
  rl_price :: string
  rl_size :: string

record raw_book =
  rb_asset_id :: string
  rb_bids :: "raw_level list"
  rb_asks :: "raw_level list"

record raw_price_change =
  rp_asset_id :: string
  rp_side :: string
  rp_price :: string
  rp_size :: string

record raw_tick_size =
  rt_asset_id :: string
  rt_old_tick_size :: string
  rt_new_tick_size :: string

record raw_last_trade =
  ra_asset_id :: string
  ra_side :: string
  ra_price :: string
  ra_size :: "string option"

record raw_best_bid_ask =
  rq_asset_id :: string
  rq_best_bid :: string
  rq_best_ask :: string

text \<open>\<open>serde_json::from_slice\<close> into a value and \<open>serde_json::from_value\<close> into each raw structure, with the texts
  of their errors.\<close>

record 'v public_json =
  pj_from_slice :: "string \<Rightarrow> string + 'v"
  pj_header :: "'v \<Rightarrow> string + raw_header"
  pj_book :: "'v \<Rightarrow> string + raw_book"
  pj_price_changes :: "'v \<Rightarrow> string + raw_price_change list"
  pj_tick_size :: "'v \<Rightarrow> string + raw_tick_size"
  pj_last_trade :: "'v \<Rightarrow> string + raw_last_trade"
  pj_best_bid_ask :: "'v \<Rightarrow> string + raw_best_bid_ask"

definition from_json :: "string + 'a \<Rightarrow> payload_error + 'a" where
  "from_json r = (case r of Inl e \<Rightarrow> Inl (PayloadJson e) | Inr v \<Rightarrow> Inr v)"

definition from_identity :: "identity_error + 'a \<Rightarrow> payload_error + 'a" where
  "from_identity r = (case r of Inl e \<Rightarrow> Inl (PayloadIdentity e) | Inr v \<Rightarrow> Inr v)"

definition payload_price :: "string \<Rightarrow> string \<Rightarrow> payload_error + price_micros" where
  "payload_price field v = (case parse_price_micros v of Inl e \<Rightarrow> Inl (PayloadDecimal field e) | Inr p \<Rightarrow> Inr p)"

definition payload_quantity :: "string \<Rightarrow> string \<Rightarrow> payload_error + quantity_micros" where
  "payload_quantity field v = (case parse_quantity_micros v of Inl e \<Rightarrow> Inl (PayloadDecimal field e) | Inr q \<Rightarrow> Inr q)"

text \<open>\<open>str::parse::<i64>\<close>: an optional sign and at least one digit, within the range.\<close>

definition parse_i64_text :: "string \<Rightarrow> int option" where
  "parse_i64_text v =
     (let digits = (if v \<noteq> [] \<and> (hd v = CHR ''+'' \<or> hd v = CHR ''-'') then tl v else v);
        value = (if v \<noteq> [] \<and> hd v = CHR ''-'' then - dec_acc 0 digits else dec_acc 0 digits)
      in if digits = [] \<or> \<not> list_all is_ascii_digit digits then None else i64_new value)"

definition parse_timestamp :: "raw_timestamp \<Rightarrow> payload_error + int" where
  "parse_timestamp v =
     rbind (case v of
         TimeText s \<Rightarrow> ok_or (parse_i64_text s) (PayloadMismatch ''timestamp'')
       | TimeNumber n \<Rightarrow> ok_or n (PayloadMismatch ''timestamp'')
       | TimeOther \<Rightarrow> Inl (PayloadMismatch ''timestamp'')) (\<lambda>timestamp.
     if timestamp < 0 then Inl (PayloadMismatch ''negative timestamp'') else Inr timestamp)"

text \<open>\<open>into_iter().map(..).collect::<Result<Vec<_>, _>>()\<close>.\<close>

fun collect_results :: "('a \<Rightarrow> 'e + 'b) \<Rightarrow> 'a list \<Rightarrow> 'e + 'b list" where
  "collect_results f [] = Inr []"
| "collect_results f (x # xs) = rbind (f x) (\<lambda>y. rbind (collect_results f xs) (\<lambda>ys. Inr (y # ys)))"

definition parse_level :: "raw_level \<Rightarrow> payload_error + book_level" where
  "parse_level l =
     rbind (payload_price ''price'' (rl_price l)) (\<lambda>p.
     rbind (payload_quantity ''size'' (rl_size l)) (\<lambda>q.
     Inr \<lparr>bl_price = p, bl_quantity = q\<rparr>))"

definition parse_levels :: "raw_level list \<Rightarrow> payload_error + book_level list" where
  "parse_levels = collect_results parse_level"

definition parse_price_change :: "raw_price_change \<Rightarrow> payload_error + price_change" where
  "parse_price_change c =
     rbind (from_identity (validate_token_id (rp_asset_id c))) (\<lambda>_.
     rbind (market_side_parse (rp_side c)) (\<lambda>side.
     rbind (payload_price ''price'' (rp_price c)) (\<lambda>p.
     rbind (payload_quantity ''size'' (rp_size c)) (\<lambda>q.
     Inr \<lparr>pc_asset_id = rp_asset_id c, pc_side = side, pc_price = p, pc_quantity = q\<rparr>))))"

fun decode_event :: "'v public_json \<Rightarrow> public_kind \<Rightarrow> 'v \<Rightarrow> string \<Rightarrow> payload_error + public_event" where
  "decode_event px KindBook v condition =
     rbind (from_json (pj_book px v)) (\<lambda>raw.
     rbind (from_identity (validate_token_id (rb_asset_id raw))) (\<lambda>_.
     rbind (parse_levels (rb_bids raw)) (\<lambda>bids.
     rbind (parse_levels (rb_asks raw)) (\<lambda>asks.
     Inr (EventBook \<lparr>bs_condition_id = condition, bs_asset_id = rb_asset_id raw, bs_bids = bids, bs_asks = asks\<rparr>)))))"
| "decode_event px KindPriceChange v condition =
     rbind (from_json (pj_price_changes px v)) (\<lambda>raw.
     if raw = [] then Inl PayloadEmptyPriceChanges
     else rbind (collect_results parse_price_change raw) (\<lambda>changes. Inr (EventPriceChanges condition changes)))"
| "decode_event px KindTickSizeChange v condition =
     rbind (from_json (pj_tick_size px v)) (\<lambda>raw.
     rbind (from_identity (validate_token_id (rt_asset_id raw))) (\<lambda>_.
     rbind (payload_price ''old_tick_size'' (rt_old_tick_size raw)) (\<lambda>old.
     rbind (payload_price ''new_tick_size'' (rt_new_tick_size raw)) (\<lambda>new.
     Inr (EventTickSize \<lparr>ts_condition_id = condition, ts_asset_id = rt_asset_id raw, ts_old_tick_size = old,
       ts_new_tick_size = new\<rparr>)))))"
| "decode_event px KindLastTradePrice v condition =
     rbind (from_json (pj_last_trade px v)) (\<lambda>raw.
     rbind (from_identity (validate_token_id (ra_asset_id raw))) (\<lambda>_.
     rbind (market_side_parse (ra_side raw)) (\<lambda>side.
     rbind (payload_price ''price'' (ra_price raw)) (\<lambda>p.
     rbind (case ra_size raw of None \<Rightarrow> Inr None
         | Some s \<Rightarrow> rbind (payload_quantity ''size'' s) (\<lambda>q. Inr (Some q))) (\<lambda>quantity.
     Inr (EventLastTrade \<lparr>lt_condition_id = condition, lt_asset_id = ra_asset_id raw, lt_side = side, lt_price = p,
       lt_quantity = quantity\<rparr>))))))"
| "decode_event px KindBestBidAsk v condition =
     rbind (from_json (pj_best_bid_ask px v)) (\<lambda>raw.
     rbind (from_identity (validate_token_id (rq_asset_id raw))) (\<lambda>_.
     rbind (payload_price ''best_bid'' (rq_best_bid raw)) (\<lambda>bid.
     rbind (payload_price ''best_ask'' (rq_best_ask raw)) (\<lambda>ask.
     Inr (EventBestBidAsk \<lparr>ba_condition_id = condition, ba_asset_id = rq_asset_id raw, ba_best_bid = bid,
       ba_best_ask = ask\<rparr>)))))"

fun event_asset_ids :: "public_event \<Rightarrow> string list" where
  "event_asset_ids (EventBook e) = [bs_asset_id e]"
| "event_asset_ids (EventPriceChanges _ changes) = map pc_asset_id changes"
| "event_asset_ids (EventTickSize e) = [ts_asset_id e]"
| "event_asset_ids (EventLastTrade e) = [lt_asset_id e]"
| "event_asset_ids (EventBestBidAsk e) = [ba_asset_id e]"

section \<open>The payload\<close>

text \<open>The asset ids of the prefix, from an offset on. Offsets stay within the length of the input, so the checked
  additions of the code cannot overflow.\<close>

fun read_assets :: "nat \<Rightarrow> string \<Rightarrow> nat \<Rightarrow> payload_error + string list \<times> nat" where
  "read_assets 0 bytes offset = Inr ([], offset)"
| "read_assets (Suc n) bytes offset =
     rbind (read_unsigned PayloadTruncated 2 bytes offset) (\<lambda>len.
     rbind (ok_or (slice bytes (offset + 2) (offset + 2 + nat len)) PayloadTruncated) (\<lambda>raw.
     rbind (from_utf8 PayloadInvalidUtf8 raw) (\<lambda>asset.
     rbind (from_identity (validate_token_id asset)) (\<lambda>_.
     rbind (read_assets n bytes (offset + 2 + nat len)) (\<lambda>(assets, end). Inr (asset # assets, end))))))"

definition decode_public_json ::
  "'v public_json \<Rightarrow> public_kind \<Rightarrow> int \<Rightarrow> string list \<Rightarrow> string \<Rightarrow> payload_error + public_payload" where
  "decode_public_json px kind timestamp assets json =
     rbind (from_json (pj_from_slice px json)) (\<lambda>v.
     rbind (from_json (pj_header px v)) (\<lambda>header.
     rbind (public_kind_parse (rw_event_type header)) (\<lambda>json_kind.
     if json_kind \<noteq> kind then Inl (PayloadMismatch ''event kind'')
     else
       rbind (parse_timestamp (rw_timestamp header)) (\<lambda>json_time.
       if json_time \<noteq> timestamp then Inl (PayloadMismatch ''timestamp'')
       else
         rbind (from_identity (validate_hex_id ''market'' (rw_market header))) (\<lambda>_.
         rbind (decode_event px kind v (rw_market header)) (\<lambda>event.
         if event_asset_ids event \<noteq> assets then Inl (PayloadMismatch ''asset IDs'')
         else Inr \<lparr>pv_kind = kind, pv_timestamp_ms = timestamp, pv_asset_ids = assets, pv_event = event\<rparr>))))))"

definition decode_public_payload :: "'v public_json \<Rightarrow> string \<Rightarrow> payload_error + public_payload" where
  "decode_public_payload px bytes =
     (if length bytes < 18 then Inl PayloadTruncated
      else
        rbind (read_unsigned PayloadTruncated 2 bytes 0) (\<lambda>version.
        if version \<noteq> 1 then Inl (PayloadVersion version)
        else
          rbind (public_kind_from_byte (of_char (bytes ! 2))) (\<lambda>kind.
          if (of_char (bytes ! 3) :: int) \<noteq> 0 then Inl (PayloadReservedByte (of_char (bytes ! 3)))
          else
            rbind (read_signed PayloadTruncated 8 bytes 4) (\<lambda>timestamp.
            if timestamp < 0 then Inl (PayloadMismatch ''negative timestamp'')
            else
              rbind (read_unsigned PayloadTruncated 2 bytes 12) (\<lambda>asset_count.
              if asset_count = 0 \<or> 1024 < asset_count then Inl PayloadAssetCount
              else
                rbind (read_assets (nat asset_count) bytes 14) (\<lambda>(assets, offset).
                rbind (read_unsigned PayloadTruncated 4 bytes offset) (\<lambda>json_length.
                rbind (ok_or (slice bytes (offset + 4) (offset + 4 + nat json_length)) PayloadTruncated) (\<lambda>json.
                if offset + 4 + nat json_length \<noteq> length bytes then Inl PayloadTrailingBytes
                else decode_public_json px kind timestamp assets json))))))))"

section \<open>What a decoded event promises\<close>

definition price_typed :: "price_micros \<Rightarrow> bool" where
  "price_typed p \<longleftrightarrow> 0 \<le> price_as_micros p \<and> price_as_micros p \<le> 1000000"

definition quantity_typed :: "quantity_micros \<Rightarrow> bool" where
  "quantity_typed q \<longleftrightarrow> 0 \<le> quantity_as_micros q \<and> i64_ok (quantity_as_micros q)"

definition id_typed :: "string \<Rightarrow> bool" where
  "id_typed v \<longleftrightarrow> utf8_valid v \<and> length v \<le> 78"

fun event_typed :: "public_event \<Rightarrow> bool" where
  "event_typed (EventBook e) \<longleftrightarrow> id_typed (bs_condition_id e) \<and> id_typed (bs_asset_id e)
     \<and> list_all (\<lambda>l. price_typed (bl_price l) \<and> quantity_typed (bl_quantity l)) (bs_bids e @ bs_asks e)"
| "event_typed (EventPriceChanges c changes) \<longleftrightarrow> id_typed c
     \<and> list_all (\<lambda>l. id_typed (pc_asset_id l) \<and> price_typed (pc_price l) \<and> quantity_typed (pc_quantity l)) changes"
| "event_typed (EventTickSize e) \<longleftrightarrow> id_typed (ts_condition_id e) \<and> id_typed (ts_asset_id e)
     \<and> price_typed (ts_new_tick_size e)"
| "event_typed (EventLastTrade e) \<longleftrightarrow> id_typed (lt_condition_id e) \<and> id_typed (lt_asset_id e) \<and> price_typed (lt_price e)
     \<and> (\<forall>q. lt_quantity e = Some q \<longrightarrow> quantity_typed q)"
| "event_typed (EventBestBidAsk e) \<longleftrightarrow> id_typed (ba_condition_id e) \<and> id_typed (ba_asset_id e)
     \<and> price_typed (ba_best_bid e) \<and> price_typed (ba_best_ask e)"

lemma collect_results_Inr: "collect_results f xs = Inr ys \<longleftrightarrow> list_all2 (\<lambda>x y. f x = Inr y) xs ys"
proof (induction xs arbitrary: ys)
  case (Cons x xs)
  show ?case
    by (cases ys) (auto simp: result_simps Cons)
qed (cases "ys :: 'b list"; simp; fastforce)

lemma from_wrapped_Inr [simp]:
  "from_json r = Inr v \<longleftrightarrow> r = Inr v"
  "from_identity r' = Inr u \<longleftrightarrow> r' = Inr u"
  by (simp_all add: from_json_def from_identity_def split: sum.split)

lemma payload_price_typed: "payload_price f v = Inr p \<Longrightarrow> price_typed p"
  by (auto simp: payload_price_def parse_price_micros_def price_new_def map_financial_def price_typed_def result_simps
      split: sum.splits if_splits)

lemma parse_unsigned_i64: "parse_unsigned_micros v = Inr n \<Longrightarrow> i64_ok n"
  unfolding parse_unsigned_micros_def by (erule parse_unsigned_fixed_parts)

lemma payload_quantity_typed: "payload_quantity f v = Inr q \<Longrightarrow> quantity_typed q"
  by (auto simp: payload_quantity_def parse_quantity_micros_def quantity_new_def map_financial_def quantity_typed_def
      result_simps parse_unsigned_i64 split: sum.splits if_splits)

lemma token_id_typed: "validate_token_id v = Inr u \<Longrightarrow> id_typed v"
  using token_id_utf8 by (auto simp: id_typed_def)

lemma hex_id_typed: "validate_hex_id f v = Inr u \<Longrightarrow> id_typed v"
  using hex_id_utf8 by (auto simp: id_typed_def)

lemmas typed_fields = payload_price_typed payload_quantity_typed token_id_typed hex_id_typed

lemma collected_typed:
  assumes "collect_results f xs = Inr ys" and "\<And>x y. f x = Inr y \<Longrightarrow> P y"
  shows "list_all P ys"
  using assms(1) unfolding collect_results_Inr
  by (induction rule: list_all2_induct) (auto intro: assms(2))

lemma parse_levels_typed:
  "parse_levels raw = Inr ls \<Longrightarrow> list_all (\<lambda>l. price_typed (bl_price l) \<and> quantity_typed (bl_quantity l)) ls"
  unfolding parse_levels_def
  by (erule collected_typed) (auto simp: parse_level_def result_simps dest: typed_fields)

lemma parse_changes_typed:
  "collect_results parse_price_change raw = Inr cs \<Longrightarrow>
    list_all (\<lambda>l. id_typed (pc_asset_id l) \<and> price_typed (pc_price l) \<and> quantity_typed (pc_quantity l)) cs"
  by (erule collected_typed) (auto simp: parse_price_change_def result_simps dest: typed_fields)

lemma decode_event_typed:
  assumes "decode_event px kind v c = Inr e" and "id_typed c"
  shows "event_typed e"
  using assms
  by (cases kind; auto simp: result_simps dest: typed_fields parse_levels_typed parse_changes_typed split: option.splits;
      blast intro: typed_fields)

lemma decode_public_typed:
  assumes "decode_public_payload px bytes = Inr d"
  shows "event_typed (pv_event d)" and "pv_asset_ids d = event_asset_ids (pv_event d)" and "0 \<le> pv_timestamp_ms d"
  using assms
  by (auto simp: decode_public_payload_def decode_public_json_def result_simps split: if_splits
      intro: decode_event_typed dest: typed_fields)

end
