(* ===== verification/Order_Book.thy ===== *)
theory Order_Book
  imports Event_Envelope Public_Payload
begin

text \<open>
  The order books of \<open>crates/order-book-replay/src/lib.rs\<close>: the state that recorded envelopes rebuild, its digest,
  the checkpoint format, and the replay of a journal from the start or from a checkpoint. This theory holds the
  data and the operations; \<open>Order_Book_Theorems\<close> what they guarantee. The journal readers of \<open>market-recorder\<close> are
  file I/O: a journal is the list of what the calls of \<open>next_event\<close> return, an error text or an envelope.
\<close>

section \<open>Data\<close>

datatype epoch_status = EpochInactive | EpochCollecting | EpochSynchronized | EpochShutdown

fun epoch_status_byte :: "epoch_status \<Rightarrow> int" where
  "epoch_status_byte EpochInactive = 0"
| "epoch_status_byte EpochCollecting = 1"
| "epoch_status_byte EpochSynchronized = 2"
| "epoch_status_byte EpochShutdown = 3"

text \<open>\<open>BookKey\<close>, with its derived order: condition id and asset id.\<close>

type_synonym book_key = "string \<times> string"
type_synonym book_side = "(price_micros, quantity_micros) btree"

record token_book =
  tb_bids :: book_side
  tb_asks :: book_side
  tb_tick_size :: "price_micros option"
  tb_last_trade :: "(market_side \<times> price_micros \<times> quantity_micros option) option"
  tb_authoritative :: bool

definition best_bid :: "token_book \<Rightarrow> (price_micros \<times> quantity_micros) option" where
  "best_bid b = (if tb_bids b = [] then None else Some (last (tb_bids b)))"

definition best_ask :: "token_book \<Rightarrow> (price_micros \<times> quantity_micros) option" where
  "best_ask b = (if tb_asks b = [] then None else Some (hd (tb_asks b)))"

definition bid_levels :: "token_book \<Rightarrow> nat" where
  "bid_levels b = length (tb_bids b)"

definition ask_levels :: "token_book \<Rightarrow> nat" where
  "ask_levels b = length (tb_asks b)"

definition top_bids :: "token_book \<Rightarrow> nat \<Rightarrow> (price_micros \<times> quantity_micros) list" where
  "top_bids b depth = take depth (rev (tb_bids b))"

definition top_asks :: "token_book \<Rightarrow> nat \<Rightarrow> (price_micros \<times> quantity_micros) list" where
  "top_asks b depth = take depth (tb_asks b)"

record replay_state =
  rp_epoch :: int
  rp_status :: epoch_status
  rp_last_sequence :: "int option"
  rp_books :: "(book_key, token_book) btree"

definition replay_default :: replay_state where
  "replay_default = \<lparr>rp_epoch = 0, rp_status = EpochInactive, rp_last_sequence = None, rp_books = []\<rparr>"

definition replay_is_authoritative :: "replay_state \<Rightarrow> bool" where
  "replay_is_authoritative s \<longleftrightarrow> rp_status s = EpochSynchronized \<and> rp_books s \<noteq> []
     \<and> list_all (\<lambda>e. tb_authoritative (snd e)) (rp_books s)"

datatype replay_error =
    ReplayJournal string
  | ReplaySegment string
  | IncompleteJournal
  | UnsupportedSource event_source
  | SequenceRegression int int
  | SequenceGap int int
  | SequenceExhausted
  | EpochOverflow
  | SystemIdentity
  | UnknownSystemEvent
  | InvalidEpochTransition
  | MarketOutsideEpoch
  | ReplayPayload payload_error
  | ReplayTimestampOverflow
  | EnvelopeMismatch string
  | DuplicateLevel
  | ZeroSnapshotLevel
  | CrossedBook
  | DeltaBeforeSnapshot book_key
  | TickSizeMismatch
  | BestPriceMismatch
  | CheckpointMismatch
  | CheckpointSequenceNotFound

text \<open>The parameters: \<open>serde_json\<close>, the \<open>Debug\<close> form of a string, and \<open>blake3\<close>.\<close>

record 'v replay_codec =
  rc_json :: "'v public_json"
  rc_debug_str :: "string \<Rightarrow> string"
  rc_blake3 :: "string \<Rightarrow> bytes32"

fun source_debug :: "event_source \<Rightarrow> string" where
  "source_debug SourceMarket = ''Market''"
| "source_debug SourceUser = ''User''"
| "source_debug SourceReferencePrice = ''ReferencePrice''"
| "source_debug SourceBlockchain = ''Blockchain''"
| "source_debug SourceSystem = ''System''"

definition book_key_debug :: "'v replay_codec \<Rightarrow> book_key \<Rightarrow> string" where
  "book_key_debug cx k = ''BookKey { condition_id: '' @ rc_debug_str cx (fst k) @ '', asset_id: ''
     @ rc_debug_str cx (snd k) @ '' }''"

fun replay_error_text :: "'v replay_codec \<Rightarrow> replay_error \<Rightarrow> string" where
  "replay_error_text cx (ReplayJournal e) = ''journal error: '' @ e"
| "replay_error_text cx (ReplaySegment e) = ''segmented journal error: '' @ e"
| "replay_error_text cx IncompleteJournal = ''journal has an incomplete tail''"
| "replay_error_text cx (UnsupportedSource s) = ''unsupported event source: '' @ source_debug s"
| "replay_error_text cx (SequenceRegression expected actual) = ''sequence duplicate or regression: expected ''
     @ show_int expected @ '', received '' @ show_int actual"
| "replay_error_text cx (SequenceGap expected actual) = ''sequence gap: expected '' @ show_int expected
     @ '', received '' @ show_int actual"
| "replay_error_text cx SequenceExhausted = ''sequence exhausted''"
| "replay_error_text cx EpochOverflow = ''epoch counter overflow''"
| "replay_error_text cx SystemIdentity = ''invalid system event identity''"
| "replay_error_text cx UnknownSystemEvent = ''unknown public recorder system event''"
| "replay_error_text cx InvalidEpochTransition = ''invalid epoch transition''"
| "replay_error_text cx MarketOutsideEpoch = ''market event occurred outside an active epoch''"
| "replay_error_text cx (ReplayPayload e) = ''public payload error: '' @ payload_error_text e"
| "replay_error_text cx ReplayTimestampOverflow = ''public event timestamp overflow''"
| "replay_error_text cx (EnvelopeMismatch s) = ''envelope and payload disagree: '' @ s"
| "replay_error_text cx DuplicateLevel = ''duplicate price level''"
| "replay_error_text cx ZeroSnapshotLevel = ''snapshot contains a zero-sized level''"
| "replay_error_text cx CrossedBook = ''order book is crossed''"
| "replay_error_text cx (DeltaBeforeSnapshot k) = ''delta arrived before a fresh snapshot for '' @ book_key_debug cx k"
| "replay_error_text cx TickSizeMismatch = ''tick-size transition does not match current state''"
| "replay_error_text cx BestPriceMismatch = ''reported best bid/ask does not match reconstructed state''"
| "replay_error_text cx CheckpointMismatch = ''checkpoint does not match its durable journal prefix''"
| "replay_error_text cx CheckpointSequenceNotFound = ''checkpoint sequence is not present in the segmented journal''"

section \<open>Checks\<close>

definition validate_sequence :: "int option \<Rightarrow> int \<Rightarrow> replay_error + unit" where
  "validate_sequence previous actual =
     (case previous of
        None \<Rightarrow> Inr ()
      | Some l \<Rightarrow>
          rbind (ok_or (addu64 l 1) SequenceExhausted) (\<lambda>expected.
          if actual < expected then Inl (SequenceRegression expected actual)
          else if expected < actual then Inl (SequenceGap expected actual)
          else Inr ()))"

fun event_condition :: "public_event \<Rightarrow> string" where
  "event_condition (EventBook e) = bs_condition_id e"
| "event_condition (EventPriceChanges c _) = c"
| "event_condition (EventTickSize e) = ts_condition_id e"
| "event_condition (EventLastTrade e) = lt_condition_id e"
| "event_condition (EventBestBidAsk e) = ba_condition_id e"

definition add_level :: "book_side \<Rightarrow> book_level \<Rightarrow> replay_error + book_side" where
  "add_level side l =
     (if quantity_as_micros (bl_quantity l) = 0 then Inl ZeroSnapshotLevel
      else if bt_contains side (bl_price l) then Inl DuplicateLevel
      else Inr (bt_insert (bl_price l) (bl_quantity l) side))"

definition levels_to_map :: "book_level list \<Rightarrow> replay_error + book_side" where
  "levels_to_map ls = try_fold add_level [] ls"

definition is_crossed :: "book_side \<Rightarrow> book_side \<Rightarrow> bool" where
  "is_crossed bids asks \<longleftrightarrow> bids \<noteq> [] \<and> asks \<noteq> [] \<and> fst (hd asks) \<le> fst (last bids)"

definition validate_not_crossed :: "book_side \<Rightarrow> book_side \<Rightarrow> replay_error + unit" where
  "validate_not_crossed bids asks = (if is_crossed bids asks then Inl CrossedBook else Inr ())"

section \<open>Market events\<close>

definition apply_snapshot :: "book_snapshot \<Rightarrow> replay_state \<Rightarrow> replay_error + replay_state" where
  "apply_snapshot b s =
     rbind (levels_to_map (bs_bids b)) (\<lambda>bids.
     rbind (levels_to_map (bs_asks b)) (\<lambda>asks.
     rbind (validate_not_crossed bids asks) (\<lambda>_.
     Inr (s\<lparr>rp_books := bt_insert (bs_condition_id b, bs_asset_id b)
       \<lparr>tb_bids = bids, tb_asks = asks, tb_tick_size = None, tb_last_trade = None, tb_authoritative = True\<rparr>
       (rp_books s)\<rparr>))))"

text \<open>\<open>books.get_mut(&key).ok_or_else(..)\<close> and what is done to the book.\<close>

definition with_book ::
  "book_key \<Rightarrow> (token_book \<Rightarrow> token_book) \<Rightarrow> (book_key, token_book) btree \<Rightarrow> replay_error + (book_key, token_book) btree" where
  "with_book k f books =
     rbind (ok_or (bt_get books k) (DeltaBeforeSnapshot k)) (\<lambda>b. Inr (bt_insert k (f b) books))"

definition change_level :: "price_change \<Rightarrow> book_side \<Rightarrow> book_side" where
  "change_level c side =
     (if quantity_as_micros (pc_quantity c) = 0 then bt_remove (pc_price c) side
      else bt_insert (pc_price c) (pc_quantity c) side)"

definition change_book :: "price_change \<Rightarrow> token_book \<Rightarrow> token_book" where
  "change_book c b =
     (if \<not> tb_authoritative b then b
      else case pc_side c of
        BidSide \<Rightarrow> b\<lparr>tb_bids := change_level c (tb_bids b)\<rparr>
      | AskSide \<Rightarrow> b\<lparr>tb_asks := change_level c (tb_asks b)\<rparr>)"

definition distrust_crossed :: "token_book \<Rightarrow> token_book" where
  "distrust_crossed b = (if is_crossed (tb_bids b) (tb_asks b) then b\<lparr>tb_authoritative := False\<rparr> else b)"

definition apply_price_changes :: "string \<Rightarrow> price_change list \<Rightarrow> replay_state \<Rightarrow> replay_error + replay_state" where
  "apply_price_changes condition changes s =
     rbind (for_each (\<lambda>c. if bt_contains (rp_books s) (condition, pc_asset_id c) then Inr ()
         else Inl (DeltaBeforeSnapshot (condition, pc_asset_id c))) changes) (\<lambda>_.
     let affected = foldl (\<lambda>keys c. bs_insert (condition, pc_asset_id c) keys) [] changes in
     rbind (try_fold (\<lambda>books c. with_book (condition, pc_asset_id c) (change_book c) books) (rp_books s) changes) (\<lambda>changed.
     rbind (try_fold (\<lambda>books k. with_book k distrust_crossed books) changed (map fst affected)) (\<lambda>books.
     Inr (s\<lparr>rp_books := books\<rparr>))))"

definition apply_tick_size :: "tick_size_change \<Rightarrow> replay_state \<Rightarrow> replay_error + replay_state" where
  "apply_tick_size c s =
     rbind (with_book (ts_condition_id c, ts_asset_id c) (\<lambda>b. b\<lparr>tb_tick_size := Some (ts_new_tick_size c)\<rparr>) (rp_books s))
       (\<lambda>books. Inr (s\<lparr>rp_books := books\<rparr>))"

definition apply_last_trade :: "last_trade \<Rightarrow> replay_state \<Rightarrow> replay_error + replay_state" where
  "apply_last_trade t s =
     rbind (with_book (lt_condition_id t, lt_asset_id t)
         (\<lambda>b. b\<lparr>tb_last_trade := Some (lt_side t, lt_price t, lt_quantity t)\<rparr>) (rp_books s))
       (\<lambda>books. Inr (s\<lparr>rp_books := books\<rparr>))"

definition distrust_mismatch :: "best_bid_ask \<Rightarrow> token_book \<Rightarrow> token_book" where
  "distrust_mismatch u b =
     (if \<not> tb_authoritative b then b
      else if map_option fst (best_bid b) \<noteq> Some (ba_best_bid u) \<or> map_option fst (best_ask b) \<noteq> Some (ba_best_ask u)
      then b\<lparr>tb_authoritative := False\<rparr> else b)"

definition apply_best_bid_ask :: "best_bid_ask \<Rightarrow> replay_state \<Rightarrow> replay_error + replay_state" where
  "apply_best_bid_ask u s =
     rbind (with_book (ba_condition_id u, ba_asset_id u) (distrust_mismatch u) (rp_books s))
       (\<lambda>books. Inr (s\<lparr>rp_books := books\<rparr>))"

fun apply_public_event :: "public_event \<Rightarrow> replay_state \<Rightarrow> replay_error + replay_state" where
  "apply_public_event (EventBook b) s = apply_snapshot b s"
| "apply_public_event (EventPriceChanges condition changes) s = apply_price_changes condition changes s"
| "apply_public_event (EventTickSize c) s = apply_tick_size c s"
| "apply_public_event (EventLastTrade t) s = apply_last_trade t s"
| "apply_public_event (EventBestBidAsk u) s = apply_best_bid_ask u s"

section \<open>Envelopes\<close>

definition epoch_active :: "epoch_status \<Rightarrow> bool" where
  "epoch_active v \<longleftrightarrow> v \<in> {EpochCollecting, EpochSynchronized}"

definition apply_market :: "'v replay_codec \<Rightarrow> envelope \<Rightarrow> replay_state \<Rightarrow> replay_error + replay_state" where
  "apply_market cx e s =
     (if \<not> epoch_active (rp_status s) then Inl MarketOutsideEpoch
      else
        rbind (case decode_public_payload (rc_json cx) (ev_payload e) of
            Inl err \<Rightarrow> Inl (ReplayPayload err) | Inr d \<Rightarrow> Inr d) (\<lambda>d.
        rbind (ok_or (mul64 (pv_timestamp_ms d) 1000000) ReplayTimestampOverflow) (\<lambda>event_time.
        if event_time \<noteq> ev_event_time e then Inl (EnvelopeMismatch ''event timestamp'')
        else if event_condition (pv_event d) \<noteq> ev_market_id e then Inl (EnvelopeMismatch ''condition ID'')
        else apply_public_event (pv_event d) s)))"

definition apply_system :: "envelope \<Rightarrow> replay_state \<Rightarrow> replay_error + replay_state" where
  "apply_system e s =
     (if ev_market_id e \<noteq> ''__public_market_gateway__'' then Inr s
      else if ev_payload e = ''PUBLIC_MARKET_EPOCH_START_V1'' then
        rbind (ok_or (addu64 (rp_epoch s) 1) EpochOverflow) (\<lambda>n.
        Inr (s\<lparr>rp_epoch := n, rp_status := EpochCollecting, rp_books := []\<rparr>))
      else if ev_payload e = ''PUBLIC_MARKET_EPOCH_SYNCED_V1'' then
        (if rp_status s \<noteq> EpochCollecting \<or> rp_books s = [] then Inl InvalidEpochTransition
         else Inr (s\<lparr>rp_status := EpochSynchronized\<rparr>))
      else if ev_payload e = ''PUBLIC_MARKET_EPOCH_REDISCOVER_V1'' then
        (if \<not> epoch_active (rp_status s) then Inl InvalidEpochTransition
         else Inr (s\<lparr>rp_status := EpochInactive, rp_books := []\<rparr>))
      else if ev_payload e = ''PUBLIC_MARKET_EPOCH_SHUTDOWN_V1'' then
        (if \<not> epoch_active (rp_status s) then Inl InvalidEpochTransition
         else Inr (s\<lparr>rp_status := EpochShutdown\<rparr>))
      else Inl UnknownSystemEvent)"

definition apply_validated :: "'v replay_codec \<Rightarrow> envelope \<Rightarrow> replay_state \<Rightarrow> replay_error + replay_state" where
  "apply_validated cx e s =
     (case ev_source e of
        SourceSystem \<Rightarrow> apply_system e s
      | SourceMarket \<Rightarrow> apply_market cx e s
      | source \<Rightarrow> Inl (UnsupportedSource source))"

text \<open>The candidate is a copy, installed only when everything succeeded: an error leaves the state as it was.\<close>

definition replay_apply :: "'v replay_codec \<Rightarrow> envelope \<Rightarrow> replay_state \<Rightarrow> replay_error + replay_state" where
  "replay_apply cx e s =
     rbind (validate_sequence (rp_last_sequence s) (ev_sequence e)) (\<lambda>_.
     rbind (apply_validated cx e s) (\<lambda>s'.
     Inr (s'\<lparr>rp_last_sequence := Some (ev_sequence e)\<rparr>)))"

section \<open>The digest\<close>

definition side_byte :: "market_side \<Rightarrow> int" where
  "side_byte v = (case v of BidSide \<Rightarrow> 1 | AskSide \<Rightarrow> 2)"

definition flag_byte :: "bool \<Rightarrow> string" where
  "flag_byte b = le_bytes 1 (if b then 1 else 0)"

definition price_bytes :: "price_micros \<Rightarrow> string" where
  "price_bytes p = le_bytes 8 (price_as_micros p)"

definition quantity_bytes :: "quantity_micros \<Rightarrow> string" where
  "quantity_bytes q = le_bytes 8 (quantity_as_micros q)"

definition level_bytes :: "price_micros \<times> quantity_micros \<Rightarrow> string" where
  "level_bytes l = price_bytes (fst l) @ quantity_bytes (snd l)"

text \<open>\<open>encode_option_u64\<close>, \<open>encode_option_price\<close> and their twins for checkpoints: a flag and the value.\<close>

definition option_bytes :: "('a \<Rightarrow> string) \<Rightarrow> 'a option \<Rightarrow> string" where
  "option_bytes f v = (case v of None \<Rightarrow> flag_byte False | Some x \<Rightarrow> flag_byte True @ f x)"

definition side_digest_bytes :: "book_side \<Rightarrow> string" where
  "side_digest_bytes side = le_bytes 8 (int (length side)) @ concat (map level_bytes side)"

definition trade_bytes :: "market_side \<times> price_micros \<times> quantity_micros option \<Rightarrow> string" where
  "trade_bytes t = (case t of (side, p, q) \<Rightarrow> le_bytes 1 (side_byte side) @ price_bytes p @ option_bytes quantity_bytes q)"

definition book_digest_bytes :: "book_key \<times> token_book \<Rightarrow> string" where
  "book_digest_bytes e =
     (let b = snd e in prefixed (fst (fst e)) @ prefixed (snd (fst e)) @ side_digest_bytes (tb_bids b)
        @ side_digest_bytes (tb_asks b) @ flag_byte (tb_authoritative b) @ option_bytes price_bytes (tb_tick_size b)
        @ option_bytes trade_bytes (tb_last_trade b))"

definition replay_digest :: "'v replay_codec \<Rightarrow> replay_state \<Rightarrow> bytes32" where
  "replay_digest cx s = rc_blake3 cx
     (''POLY_BOOK_STATE_V1'' @ le_bytes 8 (rp_epoch s) @ le_bytes 1 (epoch_status_byte (rp_status s))
      @ option_bytes (le_bytes 8) (rp_last_sequence s) @ le_bytes 8 (int (length (rp_books s)))
      @ concat (map book_digest_bytes (rp_books s)))"

section \<open>Replay\<close>

type_synonym event_journal = "(string + envelope) list"

fun replay_items :: "'v replay_codec \<Rightarrow> (string \<Rightarrow> replay_error) \<Rightarrow> replay_state \<Rightarrow> event_journal \<Rightarrow> replay_error + replay_state" where
  "replay_items cx wrap s [] = Inr s"
| "replay_items cx wrap s (Inl e # items) = Inl (wrap e)"
| "replay_items cx wrap s (Inr e # items) = rbind (replay_apply cx e s) (\<lambda>s'. replay_items cx wrap s' items)"

text \<open>A single file: its records and whether its tail is clean.\<close>

definition replay_path :: "'v replay_codec \<Rightarrow> event_journal \<Rightarrow> bool \<Rightarrow> replay_error + replay_state" where
  "replay_path cx items clean =
     rbind (replay_items cx ReplayJournal replay_default items) (\<lambda>s.
     if \<not> clean then Inl IncompleteJournal else Inr s)"

definition replay_segmented_path :: "'v replay_codec \<Rightarrow> event_journal \<Rightarrow> replay_error + replay_state" where
  "replay_segmented_path cx items = replay_items cx ReplaySegment replay_default items"

fun resume_items ::
  "'v replay_codec \<Rightarrow> replay_state \<Rightarrow> replay_state \<Rightarrow> bool \<Rightarrow> event_journal \<Rightarrow> replay_error + replay_state \<times> bool" where
  "resume_items cx checkpoint s verified [] = Inr (s, verified)"
| "resume_items cx checkpoint s verified (Inl e # items) = Inl (ReplaySegment e)"
| "resume_items cx checkpoint s verified (Inr e # items) =
     rbind (replay_apply cx e s) (\<lambda>s'.
     if verified then resume_items cx checkpoint s' True items
     else if Some (ev_sequence e) = rp_last_sequence checkpoint then
       (if replay_digest cx s' \<noteq> replay_digest cx checkpoint then Inl CheckpointMismatch
        else resume_items cx checkpoint checkpoint True items)
     else if (case rp_last_sequence checkpoint of None \<Rightarrow> False | Some target \<Rightarrow> target < ev_sequence e)
     then Inl CheckpointSequenceNotFound
     else resume_items cx checkpoint s' False items)"

definition replay_segmented_from_checkpoint ::
  "'v replay_codec \<Rightarrow> event_journal \<Rightarrow> replay_state \<Rightarrow> replay_error + replay_state" where
  "replay_segmented_from_checkpoint cx items checkpoint =
     (let target = rp_last_sequence checkpoint;
        verified = (target = None \<and> replay_digest cx replay_default = replay_digest cx checkpoint) in
      if target = None \<and> \<not> verified then Inl CheckpointMismatch
      else
        rbind (resume_items cx checkpoint replay_default verified items) (\<lambda>(s, done_verified).
        if \<not> done_verified then Inl CheckpointSequenceNotFound else Inr s))"

end
