(* ===== verification/Order_Book_Checkpoint.thy ===== *)
theory Order_Book_Checkpoint
  imports Order_Book
begin

text \<open>
  The checkpoint format of \<open>crates/order-book-replay/src/lib.rs\<close>: \<open>encode_checkpoint\<close>, \<open>decode_checkpoint\<close> and the
  cursor that reads the payload. The cursor, a slice and an offset in the code, is the bytes from the offset on;
  lengths are natural numbers, which the bounds keep far below the range of \<open>usize\<close>. Creating and reading the
  file itself is I/O.
\<close>

datatype checkpoint_error =
    CheckpointIo string
  | CheckpointTruncated
  | InvalidMagic
  | UnsupportedCheckpoint int
  | ReservedBytes
  | InvalidLength
  | ChecksumMismatch
  | CheckpointUtf8
  | InvalidStatus int
  | InvalidSide int
  | InvalidBoolean int
  | CollectionBound
  | CheckpointDuplicate
  | InvalidFinancialValue
  | ZeroLevel
  | CrossedCheckpoint
  | CheckpointTrailing

fun checkpoint_error_text :: "checkpoint_error \<Rightarrow> string" where
  "checkpoint_error_text (CheckpointIo e) = ''checkpoint I/O error: '' @ e"
| "checkpoint_error_text CheckpointTruncated = ''checkpoint is truncated''"
| "checkpoint_error_text InvalidMagic = ''checkpoint magic is invalid''"
| "checkpoint_error_text (UnsupportedCheckpoint v) = ''unsupported checkpoint version: '' @ show_int v"
| "checkpoint_error_text ReservedBytes = ''checkpoint reserved bytes are non-zero''"
| "checkpoint_error_text InvalidLength = ''checkpoint length is invalid or exceeds the bound''"
| "checkpoint_error_text ChecksumMismatch = ''checkpoint checksum mismatch''"
| "checkpoint_error_text CheckpointUtf8 = ''checkpoint contains invalid UTF-8''"
| "checkpoint_error_text (InvalidStatus v) = ''checkpoint contains an invalid epoch status: '' @ show_int v"
| "checkpoint_error_text (InvalidSide v) = ''checkpoint contains an invalid market side: '' @ show_int v"
| "checkpoint_error_text (InvalidBoolean v) = ''checkpoint boolean is not canonical: '' @ show_int v"
| "checkpoint_error_text CollectionBound = ''checkpoint exceeds a collection bound''"
| "checkpoint_error_text CheckpointDuplicate = ''checkpoint contains a duplicate key or price''"
| "checkpoint_error_text InvalidFinancialValue = ''checkpoint contains an invalid financial value''"
| "checkpoint_error_text ZeroLevel = ''checkpoint contains a zero snapshot level''"
| "checkpoint_error_text CrossedCheckpoint = ''checkpoint contains a crossed authoritative book''"
| "checkpoint_error_text CheckpointTrailing = ''checkpoint has trailing bytes''"

section \<open>Encoding\<close>

definition encode_u32_length :: "nat \<Rightarrow> checkpoint_error + string" where
  "encode_u32_length n = (if 4294967295 < n then Inl CollectionBound else Inr (le_bytes 4 (int n)))"

definition encode_checkpoint_string :: "string \<Rightarrow> checkpoint_error + string" where
  "encode_checkpoint_string v =
     (if 4 * 1024 < length v then Inl CollectionBound
      else if 65535 < length v then Inl CollectionBound
      else Inr (le_bytes 2 (int (length v)) @ v))"

definition encode_checkpoint_levels :: "book_side \<Rightarrow> checkpoint_error + string" where
  "encode_checkpoint_levels side =
     (if 1000000 < length side then Inl CollectionBound
      else rbind (encode_u32_length (length side)) (\<lambda>n. Inr (n @ concat (map level_bytes side))))"

definition encode_checkpoint_book :: "book_key \<times> token_book \<Rightarrow> checkpoint_error + string" where
  "encode_checkpoint_book e =
     (let b = snd e in
      rbind (encode_checkpoint_string (fst (fst e))) (\<lambda>condition.
      rbind (encode_checkpoint_string (snd (fst e))) (\<lambda>asset.
      rbind (encode_checkpoint_levels (tb_bids b)) (\<lambda>bids.
      rbind (encode_checkpoint_levels (tb_asks b)) (\<lambda>asks.
      Inr (condition @ asset @ flag_byte (tb_authoritative b) @ bids @ asks
        @ option_bytes price_bytes (tb_tick_size b) @ option_bytes trade_bytes (tb_last_trade b)))))))"

definition encode_checkpoint_payload :: "replay_state \<Rightarrow> checkpoint_error + string" where
  "encode_checkpoint_payload s =
     (if 4096 < length (rp_books s) then Inl CollectionBound
      else
        rbind (encode_u32_length (length (rp_books s))) (\<lambda>n.
        rbind (collect_results encode_checkpoint_book (rp_books s)) (\<lambda>books.
        Inr (le_bytes 8 (rp_epoch s) @ le_bytes 1 (epoch_status_byte (rp_status s))
          @ option_bytes (le_bytes 8) (rp_last_sequence s) @ n @ concat books))))"

definition seal_checkpoint :: "'v replay_codec \<Rightarrow> string \<Rightarrow> string" where
  "seal_checkpoint cx payload = ''POLYCHK1'' @ le_bytes 2 1 @ le_bytes 8 0 @ le_bytes 8 (int (length payload))
     @ payload @ bytes_of_id (rc_blake3 cx payload)"

definition encode_checkpoint :: "'v replay_codec \<Rightarrow> replay_state \<Rightarrow> checkpoint_error + string" where
  "encode_checkpoint cx s =
     rbind (encode_checkpoint_payload s) (\<lambda>payload.
     if 268435456 < length payload then Inl InvalidLength
     else Inr (seal_checkpoint cx payload))"

section \<open>The cursor\<close>

type_synonym 'a cursor = "(checkpoint_error, 'a) reader"

definition cursor_take :: "nat \<Rightarrow> string cursor" where
  "cursor_take n bytes = (if length bytes < n then Inl CheckpointTruncated else Inr (take n bytes, drop n bytes))"

definition cursor_u8 :: "int cursor" where
  "cursor_u8 bytes = rbind (cursor_take 1 bytes) (\<lambda>(v, rest). Inr (of_char (hd v), rest))"

definition cursor_u16_usize :: "nat cursor" where
  "cursor_u16_usize bytes = rbind (cursor_take 2 bytes) (\<lambda>(v, rest). Inr (nat (of_le v), rest))"

definition cursor_u32_usize :: "nat cursor" where
  "cursor_u32_usize bytes = rbind (cursor_take 4 bytes) (\<lambda>(v, rest). Inr (nat (of_le v), rest))"

definition cursor_i64 :: "int cursor" where
  "cursor_i64 bytes = rbind (cursor_take 8 bytes) (\<lambda>(v, rest). Inr (signed_of_le v, rest))"

definition cursor_u64 :: "int cursor" where
  "cursor_u64 bytes = rbind (cursor_take 8 bytes) (\<lambda>(v, rest). Inr (of_le v, rest))"

definition cursor_boolean :: "bool cursor" where
  "cursor_boolean bytes = rbind (cursor_u8 bytes) (\<lambda>(v, rest).
     if v = 0 then Inr (False, rest) else if v = 1 then Inr (True, rest) else Inl (InvalidBoolean v))"

text \<open>\<open>optional_u64\<close>, \<open>optional_price\<close> and the other \<open>if cursor.boolean()? { Some(..) } else { None }\<close>.\<close>

definition cursor_option :: "'a cursor \<Rightarrow> 'a option cursor" where
  "cursor_option dec bytes = rbind (cursor_boolean bytes) (\<lambda>(b, rest).
     if b then rbind (dec rest) (\<lambda>(x, rest'). Inr (Some x, rest')) else Inr (None, rest))"

definition cursor_string :: "string cursor" where
  "cursor_string bytes = rbind (cursor_u16_usize bytes) (\<lambda>(n, rest).
     if 4 * 1024 < n then Inl CollectionBound
     else rbind (cursor_take n rest) (\<lambda>(v, rest'). rbind (from_utf8 CheckpointUtf8 v) (\<lambda>s. Inr (s, rest'))))"

definition cursor_price :: "price_micros cursor" where
  "cursor_price bytes = rbind (cursor_i64 bytes) (\<lambda>(v, rest).
     case price_new v of Inl _ \<Rightarrow> Inl InvalidFinancialValue | Inr p \<Rightarrow> Inr (p, rest))"

definition cursor_quantity :: "quantity_micros cursor" where
  "cursor_quantity bytes = rbind (cursor_i64 bytes) (\<lambda>(v, rest).
     case quantity_new v of Inl _ \<Rightarrow> Inl InvalidFinancialValue | Inr q \<Rightarrow> Inr (q, rest))"

definition cursor_level :: "book_side \<Rightarrow> book_side cursor" where
  "cursor_level side bytes =
     rbind (cursor_price bytes) (\<lambda>(p, rest).
     rbind (cursor_quantity rest) (\<lambda>(q, rest').
     if quantity_as_micros q = 0 then Inl ZeroLevel
     else if bt_contains side p then Inl CheckpointDuplicate
     else Inr (bt_insert p q side, rest')))"

definition cursor_levels :: "book_side cursor" where
  "cursor_levels bytes = rbind (cursor_u32_usize bytes) (\<lambda>(n, rest).
     if 1000000 < n then Inl CollectionBound else read_loop cursor_level n [] rest)"

definition cursor_side :: "market_side cursor" where
  "cursor_side bytes = rbind (cursor_u8 bytes) (\<lambda>(v, rest).
     if v = 1 then Inr (BidSide, rest) else if v = 2 then Inr (AskSide, rest) else Inl (InvalidSide v))"

definition cursor_trade :: "(market_side \<times> price_micros \<times> quantity_micros option) cursor" where
  "cursor_trade bytes =
     rbind (cursor_side bytes) (\<lambda>(side, rest).
     rbind (cursor_price rest) (\<lambda>(p, rest').
     rbind (cursor_option cursor_quantity rest') (\<lambda>(q, rest'').
     Inr ((side, p, q), rest''))))"

section \<open>Decoding\<close>

definition decode_status :: "int \<Rightarrow> checkpoint_error + epoch_status" where
  "decode_status v =
     (if v = 0 then Inr EpochInactive else if v = 1 then Inr EpochCollecting else if v = 2 then Inr EpochSynchronized
      else if v = 3 then Inr EpochShutdown else Inl (InvalidStatus v))"

definition decode_book :: "(book_key, token_book) btree \<Rightarrow> (book_key, token_book) btree cursor" where
  "decode_book books bytes =
     rbind (cursor_string bytes) (\<lambda>(condition, r1).
     rbind (cursor_string r1) (\<lambda>(asset, r2).
     rbind (cursor_boolean r2) (\<lambda>(authoritative, r3).
     rbind (cursor_levels r3) (\<lambda>(bids, r4).
     rbind (cursor_levels r4) (\<lambda>(asks, r5).
     if authoritative \<and> is_crossed bids asks then Inl CrossedCheckpoint
     else
       rbind (cursor_option cursor_price r5) (\<lambda>(tick, r6).
       rbind (cursor_option cursor_trade r6) (\<lambda>(trade, r7).
       if bt_contains books (condition, asset) then Inl CheckpointDuplicate
       else Inr (bt_insert (condition, asset)
         \<lparr>tb_bids = bids, tb_asks = asks, tb_tick_size = tick, tb_last_trade = trade, tb_authoritative = authoritative\<rparr>
         books, r7))))))))"

definition decode_checkpoint_payload :: "string \<Rightarrow> checkpoint_error + replay_state" where
  "decode_checkpoint_payload payload =
     rbind (cursor_u64 payload) (\<lambda>(epoch, r1).
     rbind (cursor_u8 r1) (\<lambda>(status_byte, r2).
     rbind (decode_status status_byte) (\<lambda>status.
     rbind (cursor_option cursor_u64 r2) (\<lambda>(sequence, r3).
     rbind (cursor_u32_usize r3) (\<lambda>(n, r4).
     if 4096 < n then Inl CollectionBound
     else
       rbind (read_loop decode_book n [] r4) (\<lambda>(books, r5).
       if r5 \<noteq> [] then Inl CheckpointTrailing
       else Inr \<lparr>rp_epoch = epoch, rp_status = status, rp_last_sequence = sequence, rp_books = books\<rparr>))))))"

definition decode_checkpoint :: "'v replay_codec \<Rightarrow> string \<Rightarrow> checkpoint_error + replay_state" where
  "decode_checkpoint cx bytes =
     (if length bytes < 26 + 32 then Inl CheckpointTruncated
      else if take 8 bytes \<noteq> ''POLYCHK1'' then Inl InvalidMagic
      else if of_le (take 2 (drop 8 bytes)) \<noteq> 1 then Inl (UnsupportedCheckpoint (of_le (take 2 (drop 8 bytes))))
      else if list_ex (\<lambda>c. c \<noteq> CHR 0x00) (take 8 (drop 10 bytes)) then Inl ReservedBytes
      else
        (let payload_length = nat (of_le (take 8 (drop 18 bytes))); payload_end = 26 + payload_length;
           expected_end = payload_end + 32 in
         if 268435456 < payload_length then Inl InvalidLength
         else if length bytes < expected_end then Inl CheckpointTruncated
         else if length bytes \<noteq> expected_end then Inl CheckpointTrailing
         else
           (let payload = take payload_length (drop 26 bytes) in
            if bytes_of_id (rc_blake3 cx payload) \<noteq> take 32 (drop payload_end bytes) then Inl ChecksumMismatch
            else decode_checkpoint_payload payload)))"

end
