(* ===== verification/Order_Book_Theorems.thy ===== *)
theory Order_Book_Theorems
  imports Order_Book_Checkpoint Command_Engine
begin

text \<open>
  What the order books of \<open>order-book-replay\<close> guarantee: every book of a replayed journal is well formed and, while it
  is authoritative, uncrossed; price changes set depths; a replay resumed from a checkpoint is the replay from the
  start, and a checkpoint is only trusted where the journal confirms it.
\<close>

section \<open>Well-formed books\<close>

definition side_ok :: "book_side \<Rightarrow> bool" where
  "side_ok side \<longleftrightarrow> bt_ok side
     \<and> (\<forall>(p, q) \<in> set side. price_typed p \<and> quantity_typed q \<and> quantity_as_micros q \<noteq> 0)"

fun trade_ok :: "market_side \<times> price_micros \<times> quantity_micros option \<Rightarrow> bool" where
  "trade_ok (side, p, q) \<longleftrightarrow> price_typed p \<and> (\<forall>v. q = Some v \<longrightarrow> quantity_typed v)"

definition book_ok :: "token_book \<Rightarrow> bool" where
  "book_ok b \<longleftrightarrow> side_ok (tb_bids b) \<and> side_ok (tb_asks b)
     \<and> (tb_authoritative b \<longrightarrow> \<not> is_crossed (tb_bids b) (tb_asks b))
     \<and> (\<forall>p. tb_tick_size b = Some p \<longrightarrow> price_typed p) \<and> (\<forall>t. tb_last_trade b = Some t \<longrightarrow> trade_ok t)"

definition books_ok :: "(book_key, token_book) btree \<Rightarrow> bool" where
  "books_ok books \<longleftrightarrow> bt_ok books \<and> (\<forall>(k, b) \<in> set books. id_typed (fst k) \<and> id_typed (snd k) \<and> book_ok b)"

definition replay_ok :: "replay_state \<Rightarrow> bool" where
  "replay_ok s \<longleftrightarrow> books_ok (rp_books s) \<and> u64_ok (rp_epoch s) \<and> (\<forall>n. rp_last_sequence s = Some n \<longrightarrow> u64_ok n)"

lemma set_bt_insert: "set (bt_insert k v m) \<subseteq> insert (k, v) (set m)"
  by (induction k v m rule: bt_insert.induct) auto

lemma set_bt_remove: "set (bt_remove k m) \<subseteq> set m"
  by (auto simp: bt_remove_def)

lemma side_ok_insert:
  "side_ok side \<Longrightarrow> price_typed p \<Longrightarrow> quantity_typed q \<Longrightarrow> quantity_as_micros q \<noteq> 0 \<Longrightarrow> side_ok (bt_insert p q side)"
  using set_bt_insert [of p q side] by (fastforce simp: side_ok_def)

lemma side_ok_remove: "side_ok side \<Longrightarrow> side_ok (bt_remove p side)"
  using set_bt_remove [of p side] by (fastforce simp: side_ok_def)

lemma side_ok_Nil [simp]: "side_ok []"
  by (simp add: side_ok_def)

lemma books_okI:
  assumes "books_ok books" and "id_typed (fst k)" and "id_typed (snd k)" and "book_ok b"
  shows "books_ok (bt_insert k b books)"
  using assms set_bt_insert [of k b books] by (fastforce simp: books_ok_def)

lemma books_ok_get: "books_ok books \<Longrightarrow> bt_get books k = Some b \<Longrightarrow> id_typed (fst k) \<and> id_typed (snd k) \<and> book_ok b"
  by (auto simp: books_ok_def dest: bt_get_mem)

lemma levels_to_map_ok:
  assumes "levels_to_map ls = Inr side" and "list_all (\<lambda>l. price_typed (bl_price l) \<and> quantity_typed (bl_quantity l)) ls"
  shows "side_ok side"
  using assms(1) unfolding levels_to_map_def
  by (rule try_fold_invariant)
    (use assms(2) in \<open>auto simp: add_level_def list_all_iff intro!: side_ok_insert split: if_splits\<close>)

lemma with_book_ok:
  assumes "with_book k f books = Inr books'" and "books_ok books" and "\<And>b. book_ok b \<Longrightarrow> book_ok (f b)"
  shows "books_ok books'"
  using assms by (auto simp: with_book_def result_simps intro!: books_okI dest: books_ok_get)

lemma change_level_ok:
  "side_ok side \<Longrightarrow> price_typed (pc_price c) \<Longrightarrow> quantity_typed (pc_quantity c) \<Longrightarrow> side_ok (change_level c side)"
  by (auto simp: change_level_def intro: side_ok_insert side_ok_remove)

text \<open>Between the changes and the check, a book may be crossed.\<close>

definition book_raw :: "token_book \<Rightarrow> bool" where
  "book_raw b \<longleftrightarrow> side_ok (tb_bids b) \<and> side_ok (tb_asks b)
     \<and> (\<forall>p. tb_tick_size b = Some p \<longrightarrow> price_typed p) \<and> (\<forall>t. tb_last_trade b = Some t \<longrightarrow> trade_ok t)"

lemma book_ok_raw: "book_ok b \<longleftrightarrow> book_raw b \<and> (tb_authoritative b \<longrightarrow> \<not> is_crossed (tb_bids b) (tb_asks b))"
  by (auto simp: book_ok_def book_raw_def)


lemma with_book_get:
  assumes "with_book k f books = Inr books'"
  shows "bt_get books' x = (if x = k then map_option f (bt_get books k) else bt_get books x)"
    and "bt_ok books \<Longrightarrow> bt_ok books'" and "bt_get books k \<noteq> None" and "books' \<noteq> []"
  using assms by (auto simp: with_book_def result_simps bt_get_insert) (metis bt_get_Nil bt_get_insert option.distinct(1))

lemma fold_with_book:
  assumes "try_fold (\<lambda>books c. with_book (key c) (f c) books) books cs = Inr books'"
  shows "bt_get books' x = map_option (\<lambda>b. foldl (\<lambda>b c. f c b) b (filter (\<lambda>c. key c = x) cs)) (bt_get books x)
    \<and> (bt_ok books \<longrightarrow> bt_ok books')"
  using assms
proof (induction cs arbitrary: books)
  case Nil
  then show ?case by (simp add: option.map_ident)
next
  case (Cons c cs)
  then obtain m where m: "with_book (key c) (f c) books = Inr m"
      "try_fold (\<lambda>books c. with_book (key c) (f c) books) m cs = Inr books'"
    by (auto simp: result_simps)
  show ?case
    using Cons.IH [OF m(2)] with_book_get [OF m(1)]
    by (cases "key c = x") (auto simp: option.map_comp comp_def)
qed

definition changed_book :: "price_change list \<Rightarrow> token_book \<Rightarrow> token_book" where
  "changed_book cs b = (if cs = [] then b else distrust_crossed (foldl (\<lambda>b c. change_book c b) b cs))"

lemma affected_facts:
  "bt_ok ks \<Longrightarrow> bt_ok (foldl (\<lambda>keys c. bs_insert (key c) keys) ks cs)
     \<and> fst ` set (foldl (\<lambda>keys c. bs_insert (key c) keys) ks cs) = fst ` set ks \<union> key ` set cs"
proof (induction cs arbitrary: ks)
  case (Cons c cs)
  have "bt_ok (bs_insert (key c) ks)"
    using Cons.prems by (auto simp: bs_insert_def)
  moreover have "fst ` set (bs_insert (key c) ks) = insert (key c) (fst ` set ks)"
    using keys_insert [of "key c" "()" ks] by (simp add: bs_insert_def)
  ultimately show ?case
    using Cons.IH [of "bs_insert (key c) ks"] by auto
qed simp

lemma filter_distinct: "distinct xs \<Longrightarrow> filter (\<lambda>y. y = x) xs = (if x \<in> set xs then [x] else [])"
  by (induction xs) auto

lemma price_changes_get:
  assumes "apply_price_changes condition cs s = Inr s'"
  shows "bt_get (rp_books s') k =
      map_option (changed_book (filter (\<lambda>c. (condition, pc_asset_id c) = k) cs)) (bt_get (rp_books s) k)"
    and "bt_ok (rp_books s) \<Longrightarrow> bt_ok (rp_books s')" and "\<exists>books. s' = s\<lparr>rp_books := books\<rparr>"
proof -
  let ?key = "\<lambda>c. (condition, pc_asset_id c)"
  let ?keys = "map fst (foldl (\<lambda>keys c. bs_insert (?key c) keys) [] cs)"
  obtain m books where 1: "try_fold (\<lambda>books c. with_book (?key c) (change_book c) books) (rp_books s) cs = Inr m"
      and 2: "try_fold (\<lambda>books k. with_book k distrust_crossed books) m ?keys = Inr books"
      and s': "s' = s\<lparr>rp_books := books\<rparr>"
    using assms by (auto simp: apply_price_changes_def result_simps Let_def)
  have keys: "distinct ?keys" "set ?keys = ?key ` set cs"
    using affected_facts [of "[]" ?key cs] bt_ok_distinct by auto
  have "bt_get books k = map_option (\<lambda>b. foldl (\<lambda>b c. distrust_crossed b) b (filter (\<lambda>y. y = k) ?keys)) (bt_get m k)"
    using fold_with_book [where key = "\<lambda>k. k" and f = "\<lambda>_. distrust_crossed", OF 2, of k] by simp
  moreover have "bt_get m k = map_option (\<lambda>b. foldl (\<lambda>b c. change_book c b) b (filter (\<lambda>c. ?key c = k) cs)) (bt_get (rp_books s) k)"
    using fold_with_book [where key = ?key and f = change_book, OF 1, of k] by simp
  moreover have "filter (\<lambda>c. ?key c = k) cs = [] \<longleftrightarrow> k \<notin> set ?keys"
    unfolding keys(2) by (auto simp: filter_empty_conv)
  ultimately show "bt_get (rp_books s') k = map_option (changed_book (filter (\<lambda>c. ?key c = k) cs)) (bt_get (rp_books s) k)"
    unfolding filter_distinct [OF keys(1)] s'
    by (cases "k \<in> set ?keys"; cases "bt_get (rp_books s) k") (auto simp: changed_book_def)
  show "bt_ok (rp_books s')" if "bt_ok (rp_books s)"
    using that fold_with_book [where key = ?key and f = change_book, OF 1]
      fold_with_book [where key = "\<lambda>k. k" and f = "\<lambda>_. distrust_crossed", OF 2] by (simp add: s')
  show "\<exists>books. s' = s\<lparr>rp_books := books\<rparr>"
    using s' by blast
qed

lemma change_book_raw:
  assumes "book_raw b" and "price_typed (pc_price c)" and "quantity_typed (pc_quantity c)"
  shows "book_raw (change_book c b)"
  using assms change_level_ok by (auto simp: book_raw_def change_book_def split: market_side.split)

lemma changed_book_ok:
  assumes "book_ok b" and "list_all (\<lambda>c. price_typed (pc_price c) \<and> quantity_typed (pc_quantity c)) cs"
  shows "book_ok (changed_book cs b)"
proof -
  have "book_raw (foldl (\<lambda>b c. change_book c b) b cs)" if "book_raw b" for b
    using that assms(2) by (induction cs arbitrary: b) (auto intro: change_book_raw)
  then have "book_raw (foldl (\<lambda>b c. change_book c b) b cs)"
    using assms(1) by (simp add: book_ok_raw)
  then have "book_ok (distrust_crossed (foldl (\<lambda>b c. change_book c b) b cs))"
    by (simp add: book_ok_raw distrust_crossed_def book_raw_def)
  then show ?thesis
    using assms(1) by (simp add: changed_book_def)
qed

lemma books_okI_get:
  assumes "bt_ok books" and "\<And>k b. bt_get books k = Some b \<Longrightarrow> id_typed (fst k) \<and> id_typed (snd k) \<and> book_ok b"
  shows "books_ok books"
  using assms by (auto simp: books_ok_def bt_mem_get)

lemma price_changes_ok:
  assumes "apply_price_changes condition cs s = Inr s'" and "books_ok (rp_books s)"
    and "list_all (\<lambda>c. price_typed (pc_price c) \<and> quantity_typed (pc_quantity c)) cs"
  shows "books_ok (rp_books s')"
proof (rule books_okI_get)
  show "bt_ok (rp_books s')"
    using price_changes_get(2) [OF assms(1)] assms(2) by (auto simp: books_ok_def)
next
  fix k b
  assume "bt_get (rp_books s') k = Some b"
  then obtain a where a: "bt_get (rp_books s) k = Some a" "b = changed_book (filter (\<lambda>c. (condition, pc_asset_id c) = k) cs) a"
    using price_changes_get(1) [OF assms(1), of k] by auto
  then show "id_typed (fst k) \<and> id_typed (snd k) \<and> book_ok b"
    using books_ok_get [OF assms(2) a(1)] assms(3) by (auto intro!: changed_book_ok simp: list_all_iff)
qed

lemma crossed_only [simp]:
  "book_ok b \<Longrightarrow> book_ok (b\<lparr>tb_authoritative := False\<rparr>)"
  "book_ok b \<Longrightarrow> price_typed p \<Longrightarrow> book_ok (b\<lparr>tb_tick_size := Some p\<rparr>)"
  "book_ok b \<Longrightarrow> trade_ok t \<Longrightarrow> book_ok (b\<lparr>tb_last_trade := Some t\<rparr>)"
  by (auto simp: book_ok_def)

lemma public_event_ok:
  assumes "apply_public_event e s = Inr s'" and "books_ok (rp_books s)" and "event_typed e"
  shows "books_ok (rp_books s') \<and> (\<exists>books. s' = s\<lparr>rp_books := books\<rparr>)"
proof (cases e)
  case (EventBook b)
  then show ?thesis
    using assms by (auto simp: apply_snapshot_def validate_not_crossed_def result_simps book_ok_def
        intro!: books_okI split: if_splits; blast intro: levels_to_map_ok)
next
  case (EventPriceChanges c cs)
  then show ?thesis
    using assms price_changes_ok [of c cs s s'] price_changes_get(3) [of c cs s s'] by (auto simp: list_all_iff)
next
  case (EventTickSize c)
  then show ?thesis
    using assms by (auto simp: apply_tick_size_def result_simps intro: with_book_ok)
next
  case (EventLastTrade t)
  then show ?thesis
    using assms by (auto simp: apply_last_trade_def result_simps intro!: with_book_ok [where books = "rp_books s"])
next
  case (EventBestBidAsk u)
  then show ?thesis
    using assms by (auto simp: apply_best_bid_ask_def result_simps distrust_mismatch_def
        intro!: with_book_ok [where books = "rp_books s"])
qed

text \<open>What an accepted envelope does.\<close>

inductive replay_step :: "envelope \<Rightarrow> replay_state \<Rightarrow> replay_state \<Rightarrow> bool" for e s where
  skipped: "replay_step e s s"
| started: "u64_ok n \<Longrightarrow> replay_step e s (s\<lparr>rp_epoch := n, rp_status := EpochCollecting, rp_books := []\<rparr>)"
| synced: "rp_status s = EpochCollecting \<Longrightarrow> rp_books s \<noteq> [] \<Longrightarrow> replay_step e s (s\<lparr>rp_status := EpochSynchronized\<rparr>)"
| rediscovered: "epoch_active (rp_status s) \<Longrightarrow> replay_step e s (s\<lparr>rp_status := EpochInactive, rp_books := []\<rparr>)"
| shut_down: "epoch_active (rp_status s) \<Longrightarrow> replay_step e s (s\<lparr>rp_status := EpochShutdown\<rparr>)"
| market: "epoch_active (rp_status s) \<Longrightarrow> ev_source e = SourceMarket \<Longrightarrow> event_typed u \<Longrightarrow> event_condition u = ev_market_id e
    \<Longrightarrow> apply_public_event u s = Inr s' \<Longrightarrow> replay_step e s s'"

lemma apply_validated_step:
  assumes "apply_validated cx e s = Inr s'"
  shows "replay_step e s s'"
  using assms
  by (auto simp: apply_validated_def apply_system_def apply_market_def result_simps checked_simps
      intro: replay_step.intros decode_public_typed(1) split: event_source.splits if_splits sum.splits)

lemma replay_step_ok:
  assumes "replay_step e s s'" and "replay_ok s"
  shows "replay_ok s'"
  using assms
proof (cases rule: replay_step.cases)
  case (market u)
  then show ?thesis using assms(2) public_event_ok [of u s s'] by (auto simp: replay_ok_def)
qed (auto simp: replay_ok_def books_ok_def)

lemma replay_apply_Inr:
  assumes "replay_apply cx e s = Inr s'"
  obtains t where "replay_step e s t" "s' = t\<lparr>rp_last_sequence := Some (ev_sequence e)\<rparr>"
    "\<And>l. rp_last_sequence s = Some l \<Longrightarrow> ev_sequence e = l + 1"
proof -
  obtain t where t: "validate_sequence (rp_last_sequence s) (ev_sequence e) = Inr ()" "apply_validated cx e s = Inr t"
      "s' = t\<lparr>rp_last_sequence := Some (ev_sequence e)\<rparr>"
    using assms by (auto simp: replay_apply_def result_simps)
  have "ev_sequence e = l + 1" if "rp_last_sequence s = Some l" for l
    using t(1) that by (auto simp: validate_sequence_def result_simps checked_simps)
  then show thesis
    using that apply_validated_step [OF t(2)] t(3) by blast
qed

lemma replay_apply_ok:
  assumes "replay_apply cx e s = Inr s'" and "replay_ok s" and "u64_ok (ev_sequence e)"
  shows "replay_ok s'"
proof -
  obtain t where t: "replay_step e s t" "s' = t\<lparr>rp_last_sequence := Some (ev_sequence e)\<rparr>"
    using assms(1) by (rule replay_apply_Inr)
  have "replay_ok t"
    by (rule replay_step_ok [OF t(1) assms(2)])
  then show ?thesis
    unfolding t(2) using assms(3) by (simp add: replay_ok_def)
qed

lemma replay_default_ok [simp]: "replay_ok replay_default"
  by (simp add: replay_ok_def replay_default_def books_ok_def u64_ok_def)

definition journal_typed :: "event_journal \<Rightarrow> bool" where
  "journal_typed items \<longleftrightarrow> (\<forall>e. Inr e \<in> set items \<longrightarrow> envelope_typed e)"

lemma replay_items_ok:
  assumes "replay_items cx wrap s items = Inr s'" and "replay_ok s" and "journal_typed items"
  shows "replay_ok s'"
  using assms
proof (induction cx wrap s items rule: replay_items.induct)
  case (3 cx wrap s e items)
  then obtain t where t: "replay_apply cx e s = Inr t" "replay_items cx wrap t items = Inr s'"
    by (auto simp: result_simps)
  have "u64_ok (ev_sequence e)" "journal_typed items"
    using "3.prems"(3) by (auto simp: journal_typed_def envelope_typed_def)
  then show ?case
    using "3.IH" [OF t] replay_apply_ok [OF t(1) "3.prems"(2)] by simp
qed auto

section \<open>Best prices\<close>

lemma hd_least: "bt_ok m \<Longrightarrow> m \<noteq> [] \<Longrightarrow> x \<in> set m \<Longrightarrow> fst (hd m) \<le> fst x"
  by (cases m) (auto simp: bt_ok_def less_imp_le)

lemma last_greatest: "bt_ok m \<Longrightarrow> m \<noteq> [] \<Longrightarrow> x \<in> set m \<Longrightarrow> fst x \<le> fst (last m)"
  by (induction m rule: rev_induct) (auto simp: bt_ok_def sorted_wrt_append less_imp_le)

lemma is_crossed_iff:
  assumes "bt_ok bids" and "bt_ok asks"
  shows "is_crossed bids asks \<longleftrightarrow> (\<exists>x \<in> set bids. \<exists>y \<in> set asks. fst y \<le> fst x)"
proof
  assume "is_crossed bids asks"
  then show "\<exists>x \<in> set bids. \<exists>y \<in> set asks. fst y \<le> fst x"
    unfolding is_crossed_def by (meson hd_in_set last_in_set)
next
  assume "\<exists>x \<in> set bids. \<exists>y \<in> set asks. fst y \<le> fst x"
  then obtain x y where xy: "x \<in> set bids" "y \<in> set asks" "fst y \<le> fst x" by blast
  then have "bids \<noteq> []" "asks \<noteq> []" by auto
  then show "is_crossed bids asks"
    using hd_least [OF assms(2) _ xy(2)] last_greatest [OF assms(1) _ xy(1)] xy(3) by (auto simp: is_crossed_def)
qed

lemma best_bid_greatest:
  assumes "side_ok (tb_bids b)" and "best_bid b = Some (p, q)"
  shows "(p, q) \<in> set (tb_bids b) \<and> (\<forall>(x, v) \<in> set (tb_bids b). x \<le> p)"
proof -
  have "tb_bids b \<noteq> []" "last (tb_bids b) = (p, q)"
    using assms(2) by (auto simp: best_bid_def split: if_splits)
  then show ?thesis
    using last_in_set [of "tb_bids b"] last_greatest [of "tb_bids b"] assms(1) by (auto simp: side_ok_def)
qed

lemma best_ask_least:
  assumes "side_ok (tb_asks b)" and "best_ask b = Some (p, q)"
  shows "(p, q) \<in> set (tb_asks b) \<and> (\<forall>(x, v) \<in> set (tb_asks b). p \<le> x)"
proof -
  have "tb_asks b \<noteq> []" "hd (tb_asks b) = (p, q)"
    using assms(2) by (auto simp: best_ask_def split: if_splits)
  then show ?thesis
    using hd_in_set [of "tb_asks b"] hd_least [of "tb_asks b"] assms(1) by (auto simp: side_ok_def)
qed

lemma replay_reached_ok:
  "replay_segmented_path cx items = Inr s \<Longrightarrow> journal_typed items \<Longrightarrow> replay_ok s"
  unfolding replay_segmented_path_def by (erule replay_items_ok [OF _ replay_default_ok])

text \<open>C12: A book that is called authoritative is a book: in every state that a journal rebuilds, every bid of an
  authoritative book lies strictly below every ask, all quantities are positive, both sides are strictly sorted, and
  the best bid and the best ask that are read off the ends are the highest bid and the lowest ask.\<close>
theorem authoritative_books_are_uncrossed:
  assumes "replay_segmented_path cx items = Inr s" and "journal_typed items"
    and "bt_get (rp_books s) k = Some b" and "tb_authoritative b"
  shows "(\<forall>(x, v) \<in> set (tb_bids b). \<forall>(y, w) \<in> set (tb_asks b). x < y)
    \<and> (\<forall>(x, v) \<in> set (tb_bids b @ tb_asks b). 0 < quantity_as_micros v \<and> 0 \<le> price_as_micros x \<and> price_as_micros x \<le> 1000000)
    \<and> sorted_wrt (<) (map fst (tb_bids b)) \<and> sorted_wrt (<) (map fst (tb_asks b))
    \<and> (\<forall>p q. best_bid b = Some (p, q) \<longrightarrow> (p, q) \<in> set (tb_bids b) \<and> (\<forall>(x, v) \<in> set (tb_bids b). x \<le> p))
    \<and> (\<forall>p q. best_ask b = Some (p, q) \<longrightarrow> (p, q) \<in> set (tb_asks b) \<and> (\<forall>(x, v) \<in> set (tb_asks b). p \<le> x))"
proof -
  have ok: "book_ok b"
    using books_ok_get [of "rp_books s" k b] replay_reached_ok [OF assms(1,2)] assms(3) by (simp add: replay_ok_def)
  then have sides: "side_ok (tb_bids b)" "side_ok (tb_asks b)" and "\<not> is_crossed (tb_bids b) (tb_asks b)"
    using assms(4) by (auto simp: book_ok_def)
  then have "\<forall>x \<in> set (tb_bids b). \<forall>y \<in> set (tb_asks b). fst x < fst y"
    using is_crossed_iff [of "tb_bids b" "tb_asks b"] by (auto simp: side_ok_def not_le)
  moreover have "\<forall>p q. best_bid b = Some (p, q) \<longrightarrow> (p, q) \<in> set (tb_bids b) \<and> (\<forall>(x, v) \<in> set (tb_bids b). x \<le> p)"
    using best_bid_greatest [OF sides(1)] by blast
  moreover have "\<forall>p q. best_ask b = Some (p, q) \<longrightarrow> (p, q) \<in> set (tb_asks b) \<and> (\<forall>(x, v) \<in> set (tb_asks b). p \<le> x)"
    using best_ask_least [OF sides(2)] by blast
  ultimately show ?thesis
    using sides by (fastforce simp: side_ok_def bt_ok_def price_typed_def quantity_typed_def)
qed

section \<open>Depth\<close>

text \<open>A side as the exchange means it: the quantity on offer at each price, zero where there is none.\<close>

definition depth_at :: "book_side \<Rightarrow> price_micros \<Rightarrow> int" where
  "depth_at side p = (case bt_get side p of None \<Rightarrow> 0 | Some q \<Rightarrow> quantity_as_micros q)"

definition set_depth :: "market_side \<Rightarrow> (price_micros \<Rightarrow> int) \<Rightarrow> price_change \<Rightarrow> price_micros \<Rightarrow> int" where
  "set_depth side f c = (if pc_side c = side then f(pc_price c := quantity_as_micros (pc_quantity c)) else f)"

lemma change_level_depth: "depth_at (change_level c side) = (depth_at side)(pc_price c := quantity_as_micros (pc_quantity c))"
  by (auto simp: depth_at_def change_level_def bt_get_insert bt_get_remove)

lemma change_book_depth:
  assumes "tb_authoritative b"
  shows "depth_at (tb_bids (change_book c b)) = set_depth BidSide (depth_at (tb_bids b)) c"
    and "depth_at (tb_asks (change_book c b)) = set_depth AskSide (depth_at (tb_asks b)) c"
    and "tb_authoritative (change_book c b)"
  using assms by (auto simp: change_book_def set_depth_def change_level_depth split: market_side.split)

lemma change_books_depth:
  assumes "tb_authoritative b"
  shows "depth_at (tb_bids (foldl (\<lambda>b c. change_book c b) b cs)) = foldl (set_depth BidSide) (depth_at (tb_bids b)) cs
    \<and> depth_at (tb_asks (foldl (\<lambda>b c. change_book c b) b cs)) = foldl (set_depth AskSide) (depth_at (tb_asks b)) cs
    \<and> tb_authoritative (foldl (\<lambda>b c. change_book c b) b cs)"
  using assms by (induction cs arbitrary: b) (simp_all add: change_book_depth)

lemma depth_positive: "side_ok side \<Longrightarrow> 0 < depth_at side p \<longleftrightarrow> (\<exists>q. (p, q) \<in> set side)"
proof (cases "bt_get side p")
  case None
  then show "side_ok side \<Longrightarrow> ?thesis" by (simp add: depth_at_def side_ok_def bt_mem_get)
next
  case (Some q)
  then show "side_ok side \<Longrightarrow> ?thesis"
    using bt_get_mem [OF Some] by (force simp: depth_at_def side_ok_def quantity_typed_def)
qed

lemma crossed_depth:
  assumes "side_ok bids" and "side_ok asks"
  shows "is_crossed bids asks \<longleftrightarrow> (\<exists>x y. 0 < depth_at bids x \<and> 0 < depth_at asks y \<and> y \<le> x)"
proof -
  have "is_crossed bids asks \<longleftrightarrow> (\<exists>x v y w. (x, v) \<in> set bids \<and> (y, w) \<in> set asks \<and> y \<le> x)"
    using assms is_crossed_iff [of bids asks] by (auto simp: side_ok_def Bex_def)
  then show ?thesis
    unfolding depth_positive [OF assms(1)] depth_positive [OF assms(2)] by blast
qed

lemma changed_off: "\<not> tb_authoritative b \<Longrightarrow> \<not> tb_authoritative (changed_book cs b)"
proof -
  assume "\<not> tb_authoritative b"
  then have "foldl (\<lambda>b c. change_book c b) b cs = b"
    by (induction cs) (simp_all add: change_book_def)
  then show ?thesis
    using \<open>\<not> tb_authoritative b\<close> by (simp add: changed_book_def distrust_crossed_def)
qed


section \<open>Resuming from a checkpoint\<close>

lemma replay_items_append:
  "replay_items cx wrap s (xs @ ys) = rbind (replay_items cx wrap s xs) (\<lambda>t. replay_items cx wrap t ys)"
proof (induction cx wrap s xs rule: replay_items.induct)
  case (3 cx wrap s e items)
  then show ?case by (cases "replay_apply cx e s") simp_all
qed simp_all

lemma resume_verified:
  "resume_items cx c s True items = rbind (replay_items cx ReplaySegment s items) (\<lambda>t. Inr (t, True))"
proof (induction cx "ReplaySegment" s items rule: replay_items.induct)
  case (3 cx s e items)
  then show ?case by (cases "replay_apply cx e s") simp_all
qed simp_all

lemma replay_apply_sequence:
  "replay_apply cx e s = Inr s' \<Longrightarrow> rp_last_sequence s' = Some (ev_sequence e)"
  by (auto elim: replay_apply_Inr)

lemma replay_items_sequence:
  assumes "replay_items cx wrap s items = Inr t" and "rp_last_sequence s = Some l"
  shows "\<exists>n. rp_last_sequence t = Some n \<and> l \<le> n \<and> (items \<noteq> [] \<longrightarrow> l < n)"
  using assms
proof (induction cx wrap s items arbitrary: l rule: replay_items.induct)
  case (3 cx wrap s e items)
  then obtain u where u: "replay_apply cx e s = Inr u" "replay_items cx wrap u items = Inr t"
    by (auto simp: result_simps)
  have "ev_sequence e = l + 1"
    using u(1) "3.prems"(2) by (auto elim: replay_apply_Inr)
  then show ?case
    using "3.IH" [OF u replay_apply_sequence [OF u(1)]] by auto
qed auto

text \<open>Up to the last envelope of the prefix the resumed replay only rebuilds; there the digests agree.\<close>

lemma resume_prefix:
  assumes "replay_items cx ReplaySegment s prefix = Inr c" and "prefix \<noteq> []"
  shows "resume_items cx c s False (prefix @ rest) = rbind (replay_items cx ReplaySegment c rest) (\<lambda>t. Inr (t, True))"
  using assms
proof (induction cx "ReplaySegment" s prefix rule: replay_items.induct)
  case (3 cx s e items)
  then obtain u where u: "replay_apply cx e s = Inr u" "replay_items cx ReplaySegment u items = Inr c"
    by (auto simp: result_simps)
  have seq: "rp_last_sequence u = Some (ev_sequence e)"
    by (rule replay_apply_sequence [OF u(1)])
  show ?case
  proof (cases items)
    case Nil
    then show ?thesis
      using u seq by (simp add: resume_verified)
  next
    case (Cons x xs)
    then obtain n where "rp_last_sequence c = Some n" "ev_sequence e < n"
      using replay_items_sequence [OF u(2) seq] by auto
    then show ?thesis
      using "3.hyps" [OF u] u(1) Cons by simp
  qed
qed simp_all

text \<open>C22: Resuming is replaying: for the state of any accepted prefix of a journal, replaying the journal from that
  checkpoint gives exactly what replaying it from the start gives, errors included.\<close>
theorem resuming_is_replaying:
  assumes "replay_segmented_path cx prefix = Inr c"
  shows "replay_segmented_from_checkpoint cx (prefix @ rest) c = replay_segmented_path cx (prefix @ rest)"
proof (cases "prefix = []")
  case True
  then have "c = replay_default"
    using assms by (simp add: replay_segmented_path_def)
  then show ?thesis
    using True by (cases "replay_items cx ReplaySegment replay_default rest")
      (simp_all add: replay_segmented_from_checkpoint_def replay_segmented_path_def resume_verified replay_default_def)
next
  case False
  obtain e items where prefix: "prefix = e # items"
    using False by (cases prefix) auto
  have run: "replay_items cx ReplaySegment replay_default prefix = Inr c"
    using assms by (simp add: replay_segmented_path_def)
  obtain a u where u: "e = Inr a" "replay_apply cx a replay_default = Inr u" "replay_items cx ReplaySegment u items = Inr c"
    using run prefix by (cases e) (auto simp: result_simps)
  have "rp_last_sequence c \<noteq> None"
    using replay_items_sequence [OF u(3) replay_apply_sequence [OF u(2)]] by auto
  then show ?thesis
    using resume_prefix [OF run False, of rest] run
    by (cases "replay_items cx ReplaySegment c rest")
      (auto simp: replay_segmented_from_checkpoint_def replay_segmented_path_def replay_items_append Let_def)
qed

lemma resume_accepted:
  assumes "resume_items cx c s False items = Inr (t, True)"
  shows "\<exists>before after u. items = before @ after \<and> before \<noteq> [] \<and> replay_items cx ReplaySegment s before = Inr u
    \<and> rp_last_sequence c = rp_last_sequence u \<and> replay_digest cx u = replay_digest cx c
    \<and> replay_items cx ReplaySegment c after = Inr t"
  using assms
proof (induction cx c s False items rule: resume_items.induct)
  case (3 cx c s e items)
  then obtain u where u: "replay_apply cx e s = Inr u"
    by (auto simp: result_simps)
  have seq: "rp_last_sequence u = Some (ev_sequence e)"
    by (rule replay_apply_sequence [OF u])
  show ?case
  proof (cases "Some (ev_sequence e) = rp_last_sequence c")
    case True
    then have "replay_items cx ReplaySegment c items = Inr t" "replay_digest cx u = replay_digest cx c"
      using "3.prems" u by (auto simp: resume_verified result_simps split: if_splits)
    then show ?thesis
      using u seq True by (intro exI [of _ "[Inr e]"] exI [of _ items] exI [of _ u]) simp
  next
    case False
    then have "resume_items cx c u False items = Inr (t, True)"
      using "3.prems" u by (auto split: if_splits)
    then obtain before after v where "items = before @ after" "replay_items cx ReplaySegment u before = Inr v"
        "rp_last_sequence c = rp_last_sequence v" "replay_digest cx v = replay_digest cx c"
        "replay_items cx ReplaySegment c after = Inr t"
      using "3.hyps"(3) [OF u] False "3.prems" u by (auto split: if_splits)
    then show ?thesis
      using u by (intro exI [of _ "Inr e # before"] exI [of _ after] exI [of _ v]) simp
  qed
qed simp_all

text \<open>A checkpoint is never trusted on its own: whatever state is handed in, resuming accepts it only at a point of
  the journal where the replay from the start, at the same sequence, has the same digest.\<close>
theorem checkpoint_is_verified_against_journal:
  assumes "replay_segmented_from_checkpoint cx items c = Inr t"
  shows "\<exists>before after u. items = before @ after \<and> replay_segmented_path cx before = Inr u
    \<and> rp_last_sequence u = rp_last_sequence c \<and> replay_digest cx u = replay_digest cx c
    \<and> replay_items cx ReplaySegment (if before = [] then u else c) after = Inr t"
proof (cases "rp_last_sequence c")
  case None
  then show ?thesis
    using assms by (intro exI [of _ "[]"] exI [of _ items] exI [of _ replay_default])
      (auto simp: replay_segmented_from_checkpoint_def replay_segmented_path_def resume_verified result_simps
        replay_default_def split: if_splits)
next
  case (Some n)
  then have "resume_items cx c replay_default False items = Inr (t, True)"
    using assms by (auto simp: replay_segmented_from_checkpoint_def result_simps split: if_splits)
  from resume_accepted [OF this] obtain before after u where "items = before @ after" "before \<noteq> []"
      "replay_items cx ReplaySegment replay_default before = Inr u" "rp_last_sequence c = rp_last_sequence u"
      "replay_digest cx u = replay_digest cx c" "replay_items cx ReplaySegment c after = Inr t"
    by blast
  then show ?thesis
    by (intro exI [of _ before] exI [of _ after] exI [of _ u]) (simp add: replay_segmented_path_def)
qed

end
