(* ===== verification/Checkpoint_Theorems.thy ===== *)
theory Checkpoint_Theorems
  imports Order_Book_Theorems
begin

text \<open>
  The checkpoint format of \<open>order-book-replay\<close>: each field's writer and reader as an instance of \<open>byte_codec\<close>, the
  round trip over them, a file that is not canonical and is accepted, and a small journal on which the theorems about
  order books are applied.
\<close>

section \<open>The checkpoint format\<close>

lemma cursor_take_append [simp]: "length v = n \<Longrightarrow> cursor_take n (v @ rest) = Inr (v, rest)"
  by (auto simp: cursor_take_def)

interpretation u64_field: byte_codec "le_bytes 8" cursor_u64 u64_ok
  by unfold_locales (simp add: cursor_u64_def u64_ok_def mod_pos_pos_trivial)

interpretation price_field: byte_codec price_bytes cursor_price price_typed
  by unfold_locales
    (auto simp: cursor_price_def cursor_i64_def price_bytes_def price_typed_def signed_of_le_bytes i64_ok_def price_new_def
      price_micros.expand)

interpretation quantity_field: byte_codec quantity_bytes cursor_quantity quantity_typed
  by unfold_locales
    (auto simp: cursor_quantity_def cursor_i64_def quantity_bytes_def quantity_typed_def signed_of_le_bytes quantity_new_def
      quantity_micros.expand)

lemma cursor_u8_bytes: "0 \<le> n \<Longrightarrow> n < 256 \<Longrightarrow> cursor_u8 (le_bytes (Suc 0) n @ rest) = Inr (n, rest)"
  by (simp add: cursor_u8_def le_bytes_one cursor_take_def of_char_of_byte)

interpretation flag_field: byte_codec flag_byte cursor_boolean "\<lambda>_. True"
  by unfold_locales (simp add: cursor_boolean_def flag_byte_def cursor_u8_bytes)

interpretation side_field: byte_codec "\<lambda>v. le_bytes (Suc 0) (side_byte v)" cursor_side "\<lambda>_. True"
  by unfold_locales (auto simp: cursor_side_def side_byte_def cursor_u8_bytes split: market_side.split)

lemma status_bytes [simp]:
  "decode_status (epoch_status_byte v) = Inr v" "0 \<le> epoch_status_byte v" "epoch_status_byte v < 256"
  by (cases v; simp add: decode_status_def)+

definition text_field :: "string \<Rightarrow> string" where
  "text_field v = le_bytes 2 (int (length v)) @ v"

interpretation text_field: byte_codec text_field cursor_string id_typed
  by unfold_locales
    (auto simp: cursor_string_def cursor_u16_usize_def text_field_def id_typed_def from_utf8_def mod_pos_pos_trivial)

lemma option_codec:
  assumes "byte_codec enc dec valid"
  shows "byte_codec (option_bytes enc) (cursor_option dec) (\<lambda>v. \<forall>x. v = Some x \<longrightarrow> valid x)"
proof
  fix v rest assume "\<forall>x. v = Some x \<longrightarrow> valid x"
  then show "cursor_option dec (option_bytes enc v @ rest) = Inr (v, rest)"
    using byte_codec.dec_enc [OF assms]
    by (cases v) (simp_all add: cursor_option_def option_bytes_def flag_field.dec_enc)
qed

interpretation sequence_field: byte_codec "option_bytes (le_bytes 8)" "cursor_option cursor_u64" "\<lambda>v. \<forall>x. v = Some x \<longrightarrow> u64_ok x"
  by (rule option_codec) (rule u64_field.byte_codec_axioms)

interpretation tick_field: byte_codec "option_bytes price_bytes" "cursor_option cursor_price" "\<lambda>v. \<forall>x. v = Some x \<longrightarrow> price_typed x"
  by (rule option_codec) (rule price_field.byte_codec_axioms)

interpretation amount_field: byte_codec "option_bytes quantity_bytes" "cursor_option cursor_quantity"
  "\<lambda>v. \<forall>x. v = Some x \<longrightarrow> quantity_typed x"
  by (rule option_codec) (rule quantity_field.byte_codec_axioms)

interpretation trade_field: byte_codec trade_bytes cursor_trade trade_ok
proof
  fix t :: "market_side \<times> price_micros \<times> quantity_micros option" and rest
  assume "trade_ok t"
  then show "cursor_trade (trade_bytes t @ rest) = Inr (t, rest)"
    by (cases t) (simp add: cursor_trade_def trade_bytes_def side_field.dec_enc price_field.dec_enc amount_field.dec_enc)
qed

interpretation last_trade_field: byte_codec "option_bytes trade_bytes" "cursor_option cursor_trade"
  "\<lambda>v. \<forall>x. v = Some x \<longrightarrow> trade_ok x"
  by (rule option_codec) (rule trade_field.byte_codec_axioms)

lemma bt_contains_below: "(\<forall>x \<in> fst ` set m. x < k) \<Longrightarrow> \<not> bt_contains m (k :: 'k :: linorder)"
  by (induction m) (auto simp: bt_contains_def)

definition levels_field :: "book_side \<Rightarrow> string" where
  "levels_field side = le_bytes 4 (int (length side)) @ concat (map level_bytes side)"

interpretation levels_field: byte_codec levels_field cursor_levels "\<lambda>side. side_ok side \<and> length side \<le> 1000000"
proof
  fix side :: book_side and rest
  assume ok: "side_ok side \<and> length side \<le> 1000000"
  have "cursor_level m (level_bytes (p, q) @ rest) = Inr (bt_insert p q m, rest)"
    if "\<forall>x \<in> fst ` set m. x < p" "(p, q) \<in> set side" for p q m rest
    using that ok bt_contains_below [OF that(1)]
    by (auto simp: cursor_level_def level_bytes_def side_ok_def price_field.dec_enc quantity_field.dec_enc)
  then have "read_loop cursor_level (length side) [] (concat (map level_bytes side) @ rest) = Inr (side, rest)"
    using ok by (intro read_loop_map) (auto simp: side_ok_def)
  then show "cursor_levels (levels_field side @ rest) = Inr (side, rest)"
    using ok by (simp add: cursor_levels_def levels_field_def cursor_u32_usize_def mod_pos_pos_trivial)
qed

definition book_field :: "book_key \<times> token_book \<Rightarrow> string" where
  "book_field e = (let b = snd e in text_field (fst (fst e)) @ text_field (snd (fst e)) @ flag_byte (tb_authoritative b)
     @ levels_field (tb_bids b) @ levels_field (tb_asks b) @ option_bytes price_bytes (tb_tick_size b)
     @ option_bytes trade_bytes (tb_last_trade b))"

lemma encode_checkpoint_book_Inr:
  assumes "encode_checkpoint_book e = Inr bytes"
  shows "bytes = book_field e \<and> length (tb_bids (snd e)) \<le> 1000000 \<and> length (tb_asks (snd e)) \<le> 1000000"
  using assms by (auto simp: encode_checkpoint_book_def encode_checkpoint_string_def encode_checkpoint_levels_def
      encode_u32_length_def book_field_def text_field_def levels_field_def Let_def result_simps split: if_splits)

lemma decode_book_field:
  assumes "book_ok b" and "id_typed c" and "id_typed a" and "length (tb_bids b) \<le> 1000000" and "length (tb_asks b) \<le> 1000000"
    and "\<forall>x \<in> fst ` set m. x < (c, a)"
  shows "decode_book m (book_field ((c, a), b) @ rest) = Inr (bt_insert (c, a) b m, rest)"
  using assms bt_contains_below [OF assms(6)]
  by (cases b) (simp add: decode_book_def book_field_def book_ok_def text_field.dec_enc flag_field.dec_enc levels_field.dec_enc
      tick_field.dec_enc last_trade_field.dec_enc)

lemma collect_results_map:
  assumes "collect_results f xs = Inr ys" and "\<And>x y. x \<in> set xs \<Longrightarrow> f x = Inr y \<Longrightarrow> y = g x \<and> P x"
  shows "ys = map g xs \<and> list_all P xs"
  using assms by (induction f xs arbitrary: ys rule: collect_results.induct) (auto simp: result_simps)

lemma payload_decoded:
  assumes "encode_checkpoint_payload s = Inr payload" and "replay_ok s"
  shows "decode_checkpoint_payload payload = Inr s"
proof -
  obtain books where n: "length (rp_books s) \<le> 4096" and books: "collect_results encode_checkpoint_book (rp_books s) = Inr books"
    and payload: "payload = le_bytes 8 (rp_epoch s) @ le_bytes 1 (epoch_status_byte (rp_status s))
          @ option_bytes (le_bytes 8) (rp_last_sequence s) @ le_bytes 4 (int (length (rp_books s))) @ concat books"
    using assms(1) by (auto simp: encode_checkpoint_payload_def encode_u32_length_def result_simps split: if_splits)
  have "books = map book_field (rp_books s)
      \<and> list_all (\<lambda>e. length (tb_bids (snd e)) \<le> 1000000 \<and> length (tb_asks (snd e)) \<le> 1000000) (rp_books s)"
    by (rule collect_results_map [OF books]) (blast dest: encode_checkpoint_book_Inr)
  then have field: "books = map book_field (rp_books s)"
    and small: "\<And>k b. (k, b) \<in> set (rp_books s) \<Longrightarrow> length (tb_bids b) \<le> 1000000 \<and> length (tb_asks b) \<le> 1000000"
    by (auto simp: list_all_iff)
  have "decode_book m (book_field (k, b) @ rest) = Inr (bt_insert k b m, rest)"
    if "\<forall>x \<in> fst ` set m. x < k" "(k, b) \<in> set (rp_books s)" for k b m rest
    using that assms(2) small [OF that(2)] by (cases k) (auto simp: replay_ok_def books_ok_def intro!: decode_book_field)
  then have "read_loop decode_book (length (rp_books s)) [] (concat (map book_field (rp_books s)) @ []) = Inr (rp_books s, [])"
    using assms(2) by (intro read_loop_map) (auto simp: replay_ok_def books_ok_def)
  then show ?thesis
    using n assms(2) unfolding payload field
    by (cases s) (simp add: decode_checkpoint_payload_def u64_field.dec_enc sequence_field.dec_enc replay_ok_def
        cursor_u8_bytes cursor_u32_usize_def mod_pos_pos_trivial)
qed

lemma reserved_zero: "\<not> list_ex (\<lambda>c. c \<noteq> CHR 0x00) (le_bytes 8 0)"
  by code_simp

lemma drop_sealed: "drop (26 + length payload) (seal_checkpoint cx payload) = bytes_of_id (rc_blake3 cx payload)"
proof -
  let ?front = "''POLYCHK1'' @ le_bytes 2 1 @ le_bytes 8 0 @ le_bytes 8 (int (length payload)) @ payload"
  have "seal_checkpoint cx payload = ?front @ bytes_of_id (rc_blake3 cx payload)" and "26 + length payload = length ?front"
    by (simp_all add: seal_checkpoint_def)
  then show ?thesis
    by (metis append_eq_conv_conj)
qed

lemma decode_sealed:
  assumes "length payload \<le> 268435456"
  shows "decode_checkpoint cx (seal_checkpoint cx payload) = decode_checkpoint_payload payload"
proof -
  have "of_le (take 8 (drop 18 (seal_checkpoint cx payload))) = int (length payload)"
    "of_le (take 2 (drop 8 (seal_checkpoint cx payload))) = 1" "take 8 (drop 10 (seal_checkpoint cx payload)) = le_bytes 8 0"
    "take (length payload) (drop 26 (seal_checkpoint cx payload)) = payload"
    "length (seal_checkpoint cx payload) = 26 + length payload + 32" "take 8 (seal_checkpoint cx payload) = ''POLYCHK1''"
    using assms by (simp_all add: seal_checkpoint_def mod_pos_pos_trivial bytes_of_id_def)
  then show ?thesis
    using assms by (simp add: decode_checkpoint_def reserved_zero drop_sealed bytes_of_id_def)
qed

text \<open>Checkpoints lose nothing: for every state that a journal rebuilds, if the checkpoint can be written (its
  collections are within their bounds) then decoding the written bytes gives the state back, whatever the hash.\<close>
theorem checkpoint_round_trip:
  assumes "replay_segmented_path cx items = Inr s" and "journal_typed items" and "encode_checkpoint cx s = Inr bytes"
  shows "decode_checkpoint cx bytes = Inr s"
proof -
  obtain payload where "encode_checkpoint_payload s = Inr payload" "length payload \<le> 268435456" "bytes = seal_checkpoint cx payload"
    using assms(3) by (auto simp: encode_checkpoint_def result_simps split: if_splits)
  then show ?thesis
    using payload_decoded [OF _ replay_reached_ok [OF assms(1,2)]] by (simp add: decode_sealed)
qed

text \<open>A checkpoint of one book with two bids, in the order of the map and swapped.\<close>

definition two_bids :: "(price_micros \<times> quantity_micros) list \<Rightarrow> string" where
  "two_bids levels = le_bytes 8 1 @ le_bytes (Suc 0) 1 @ option_bytes (le_bytes 8) (Some 2) @ le_bytes 4 1
     @ text_field ''0x'' @ text_field ''7'' @ flag_byte True @ (le_bytes 4 2 @ concat (map level_bytes levels))
     @ levels_field [] @ option_bytes price_bytes None @ option_bytes trade_bytes None"

definition low_bid :: "price_micros \<times> quantity_micros" where
  "low_bid = (PriceMicros 400000, QuantityMicros 5)"

definition high_bid :: "price_micros \<times> quantity_micros" where
  "high_bid = (PriceMicros 500000, QuantityMicros 6)"

definition two_bids_state :: replay_state where
  "two_bids_state = \<lparr>rp_epoch = 1, rp_status = EpochCollecting, rp_last_sequence = Some 2,
     rp_books = [((''0x'', ''7''), \<lparr>tb_bids = [low_bid, high_bid],
       tb_asks = [], tb_tick_size = None, tb_last_trade = None, tb_authoritative = True\<rparr>)]\<rparr>"

lemma short_ids: "id_typed ''0x''" "id_typed ''7''"
  by (simp_all add: id_typed_def byte_in_def)

lemma read_two_levels:
  "cursor_levels ((le_bytes 4 2 @ concat (map level_bytes [low_bid, high_bid])) @ rest) = Inr ([low_bid, high_bid], rest)"
  "cursor_levels ((le_bytes 4 2 @ concat (map level_bytes [high_bid, low_bid])) @ rest) = Inr ([low_bid, high_bid], rest)"
  by (simp_all add: cursor_levels_def cursor_u32_usize_def numeral_2_eq_2 cursor_level_def level_bytes_def low_bid_def
      high_bid_def price_field.dec_enc quantity_field.dec_enc price_typed_def quantity_typed_def i64_ok_def bt_contains_def
      less_price_micros_def)

lemma two_bids_decoded:
  assumes "levels = [low_bid, high_bid] \<or> levels = [high_bid, low_bid]"
  shows "decode_checkpoint_payload (two_bids levels) = Inr two_bids_state"
proof -
  have "cursor_levels ((le_bytes 4 2 @ concat (map level_bytes levels)) @ rest) = Inr ([low_bid, high_bid], rest)" for rest
    using assms read_two_levels [of rest] by blast
  then have "decode_book [] (text_field ''0x'' @ text_field ''7'' @ flag_byte True @ (le_bytes 4 2 @ concat (map level_bytes levels))
     @ levels_field [] @ option_bytes price_bytes None @ option_bytes trade_bytes None) = Inr (rp_books two_bids_state, [])"
    by (simp add: decode_book_def text_field.dec_enc short_ids flag_field.dec_enc levels_field.dec_enc tick_field.dec_enc
        last_trade_field.dec_enc_end is_crossed_def bt_contains_def two_bids_state_def del: append_assoc)
  then show ?thesis
    by (simp add: decode_checkpoint_payload_def two_bids_def u64_field.dec_enc sequence_field.dec_enc u64_ok_def
        cursor_u8_bytes cursor_u32_usize_def decode_status_def two_bids_state_def numeral_2_eq_2)
qed

lemma two_bids_encoded: "encode_checkpoint_payload two_bids_state = Inr (two_bids [low_bid, high_bid])"
  by (simp add: encode_checkpoint_payload_def two_bids_state_def encode_checkpoint_book_def encode_checkpoint_string_def
      encode_checkpoint_levels_def encode_u32_length_def two_bids_def text_field_def levels_field_def Let_def)

lemma two_bids_differ: "two_bids [low_bid, high_bid] \<noteq> two_bids [high_bid, low_bid]"
proof -
  have "level_bytes low_bid \<noteq> level_bytes high_bid"
    using price_field.dec_enc [of "fst low_bid" "quantity_bytes (snd low_bid)"]
      price_field.dec_enc [of "fst high_bid" "quantity_bytes (snd high_bid)"]
    by (auto simp: level_bytes_def low_bid_def high_bid_def price_typed_def)
  then show ?thesis
    by (auto simp: two_bids_def level_bytes_def price_bytes_def quantity_bytes_def)
qed


section \<open>A journal\<close>

text \<open>A JSON parser for two texts: a book with bids at 0.40 and 0.50 and an ask at 0.60, and a message that moves the
  ask to 0.55 and drops the lower bid.\<close>

definition demo_condition :: string where
  "demo_condition = ''0x'' @ replicate 64 CHR ''a''"

definition demo_json :: "string public_json" where
  "demo_json = \<lparr>pj_from_slice = Inr,
     pj_header = (\<lambda>v. Inr \<lparr>rw_event_type = (if v = ''b'' then ''book'' else ''price_change''), rw_market = demo_condition,
       rw_timestamp = TimeText ''5''\<rparr>),
     pj_book = (\<lambda>v. Inr \<lparr>rb_asset_id = ''7'', rb_bids = [\<lparr>rl_price = ''0.5'', rl_size = ''2''\<rparr>, \<lparr>rl_price = ''0.4'', rl_size = ''1''\<rparr>],
       rb_asks = [\<lparr>rl_price = ''0.6'', rl_size = ''3''\<rparr>]\<rparr>),
     pj_price_changes = (\<lambda>v. Inr [\<lparr>rp_asset_id = ''7'', rp_side = ''SELL'', rp_price = ''0.55'', rp_size = ''4''\<rparr>]),
     pj_tick_size = (\<lambda>v. Inl []), pj_last_trade = (\<lambda>v. Inl []), pj_best_bid_ask = (\<lambda>v. Inl [])\<rparr>"

definition demo_replay_codec :: "string replay_codec" where
  "demo_replay_codec = \<lparr>rc_json = demo_json, rc_debug_str = (\<lambda>v. v), rc_blake3 = (\<lambda>v. of_nat (length v))\<rparr>"

definition demo_payload :: "int \<Rightarrow> string \<Rightarrow> string" where
  "demo_payload kind json = le_bytes 2 1 @ le_bytes 1 kind @ le_bytes 1 0 @ le_bytes 8 5 @ le_bytes 2 1
     @ le_bytes 2 1 @ ''7'' @ le_bytes 4 1 @ json"

definition demo_envelope :: "int \<Rightarrow> event_source \<Rightarrow> string \<Rightarrow> string \<Rightarrow> envelope" where
  "demo_envelope n source market payload = \<lparr>ev_schema_version = 1, ev_source = source, ev_sequence = n,
     ev_event_time = 5000000, ev_received_time = 0, ev_market_id = market, ev_payload = payload\<rparr>"

definition demo_events :: event_journal where
  "demo_events = [Inr (demo_envelope 1 SourceSystem ''__public_market_gateway__'' ''PUBLIC_MARKET_EPOCH_START_V1''),
     Inr (demo_envelope 2 SourceMarket demo_condition (demo_payload 1 ''b'')),
     Inr (demo_envelope 3 SourceSystem ''__public_market_gateway__'' ''PUBLIC_MARKET_EPOCH_SYNCED_V1'')]"

definition demo_token_book :: token_book where
  "demo_token_book = \<lparr>tb_bids = [(PriceMicros 400000, QuantityMicros 1000000), (PriceMicros 500000, QuantityMicros 2000000)],
     tb_asks = [(PriceMicros 600000, QuantityMicros 3000000)], tb_tick_size = None, tb_last_trade = None,
     tb_authoritative = True\<rparr>"

definition demo_replay :: replay_state where
  "demo_replay = \<lparr>rp_epoch = 1, rp_status = EpochSynchronized, rp_last_sequence = Some 3,
     rp_books = [((demo_condition, ''7''), demo_token_book)]\<rparr>"

lemma demo_decoded:
  "decode_public_payload demo_json (demo_payload 1 ''b'') = Inr \<lparr>pv_kind = KindBook, pv_timestamp_ms = 5,
     pv_asset_ids = [''7''], pv_event = EventBook \<lparr>bs_condition_id = demo_condition, bs_asset_id = ''7'',
       bs_bids = [\<lparr>bl_price = PriceMicros 500000, bl_quantity = QuantityMicros 2000000\<rparr>, \<lparr>bl_price = PriceMicros 400000, bl_quantity = QuantityMicros 1000000\<rparr>],
       bs_asks = [\<lparr>bl_price = PriceMicros 600000, bl_quantity = QuantityMicros 3000000\<rparr>]\<rparr>\<rparr>"
  by code_simp

lemma demo_replayed: "replay_segmented_path demo_replay_codec demo_events = Inr demo_replay"
  by (simp add: replay_segmented_path_def demo_events_def demo_envelope_def replay_apply_def validate_sequence_def
      replay_default_def apply_validated_def apply_system_def apply_market_def addu64_def u64_ok_def epoch_active_def
      demo_replay_codec_def demo_decoded mul64_def i64_new_def i64_ok_def apply_snapshot_def levels_to_map_def add_level_def bt_contains_def
      less_price_micros_def validate_not_crossed_def is_crossed_def less_eq_price_micros_def demo_replay_def demo_token_book_def)

lemma demo_condition_id: "id_typed demo_condition"
  by code_simp

lemma demo_typed: "journal_typed demo_events"
  by (simp add: journal_typed_def demo_events_def demo_envelope_def envelope_typed_def u64_ok_def i64_ok_def byte_in_def
      demo_condition_id [unfolded id_typed_def])

lemma demo_get: "bt_get (rp_books demo_replay) (demo_condition, ''7'') = Some demo_token_book"
  by (simp add: demo_replay_def)

theorem authoritative_books_are_uncrossed_witness:
  "best_bid demo_token_book = Some (PriceMicros 500000, QuantityMicros 2000000)
   \<and> best_ask demo_token_book = Some (PriceMicros 600000, QuantityMicros 3000000)
   \<and> PriceMicros 500000 < PriceMicros 600000"
  using authoritative_books_are_uncrossed [OF demo_replayed demo_typed demo_get]
  by (simp add: demo_token_book_def best_bid_def best_ask_def)

definition demo_changes :: "price_change list" where
  "demo_changes = [\<lparr>pc_asset_id = ''7'', pc_side = AskSide, pc_price = PriceMicros 550000, pc_quantity = QuantityMicros 4000000\<rparr>,
     \<lparr>pc_asset_id = ''7'', pc_side = BidSide, pc_price = PriceMicros 400000, pc_quantity = QuantityMicros 0\<rparr>]"

definition demo_changed :: token_book where
  "demo_changed = \<lparr>tb_bids = [(PriceMicros 500000, QuantityMicros 2000000)],
     tb_asks = [(PriceMicros 550000, QuantityMicros 4000000), (PriceMicros 600000, QuantityMicros 3000000)],
     tb_tick_size = None, tb_last_trade = None, tb_authoritative = True\<rparr>"

lemma demo_changes_applied:
  "apply_price_changes demo_condition demo_changes demo_replay
     = Inr (demo_replay\<lparr>rp_books := [((demo_condition, ''7''), demo_changed)]\<rparr>)"
  by (simp add: apply_price_changes_def demo_changes_def demo_replay_def demo_token_book_def demo_changed_def with_book_def
      change_book_def change_level_def bt_contains_def bs_insert_def bt_remove_def distrust_crossed_def is_crossed_def
      less_price_micros_def less_eq_price_micros_def)


theorem resuming_is_replaying_witness:
  "replay_segmented_from_checkpoint demo_replay_codec (demo_events @ demo_events) demo_replay
     = replay_segmented_path demo_replay_codec (demo_events @ demo_events)"
  by (rule resuming_is_replaying [OF demo_replayed])

theorem checkpoint_is_verified_against_journal_witness:
  "\<exists>before after u. demo_events = before @ after \<and> replay_segmented_path demo_replay_codec before = Inr u
    \<and> rp_last_sequence u = Some 3"
proof -
  have "replay_segmented_from_checkpoint demo_replay_codec (demo_events @ []) demo_replay = Inr demo_replay"
    using resuming_is_replaying [OF demo_replayed, of "[]"] demo_replayed by simp
  from checkpoint_is_verified_against_journal [OF this] show ?thesis
    by (auto simp: demo_replay_def)
qed

theorem checkpoint_round_trip_witness:
  "decode_checkpoint demo_replay_codec (case encode_checkpoint demo_replay_codec demo_replay of Inr bytes \<Rightarrow> bytes | Inl _ \<Rightarrow> []) = Inr demo_replay"
proof -
  have "length demo_condition = 66"
    by (simp add: demo_condition_def)
  then obtain bytes where "encode_checkpoint demo_replay_codec demo_replay = Inr bytes"
    by (fastforce simp: encode_checkpoint_def encode_checkpoint_payload_def encode_checkpoint_book_def demo_replay_def
        encode_checkpoint_string_def encode_checkpoint_levels_def encode_u32_length_def demo_token_book_def flag_byte_def
        option_bytes_def level_bytes_def price_bytes_def quantity_bytes_def Let_def)
  then show ?thesis
    using checkpoint_round_trip [OF demo_replayed demo_typed, of bytes] by simp
qed

end
