(* ===== verification/Live_Market.thy ===== *)
theory Live_Market
  imports Order_Book_Theorems
begin

text \<open>
  The live market state of \<open>crates/live-market-state/src/lib.rs\<close>: \<open>LiveStateCore\<close>, which applies envelopes as they
  arrive and says whether the books may be used, and the loop of \<open>spawn_actor\<close> as a function of the inputs in the
  order in which \<open>select!\<close> takes them. Channels, tasks and the clock are the Tokio runtime: a tick carries the result
  of \<open>now_ns\<close>. An operation returns its result and the core it leaves, which an error may have changed.
\<close>

section \<open>Data\<close>

datatype actor_mode =
    ActorStarting | ActorCollecting | ActorRecovering | ActorReady | ActorStale | ActorInactive | ActorShutdown
  | ActorClosed | ActorHalted

record actor_snapshot =
  as_mode :: actor_mode
  as_ready :: bool
  as_epoch :: int
  as_last_sequence :: "int option"
  as_book_count :: nat
  as_digest :: bytes32
  as_last_market_event :: "int option"
  as_last_market_received :: "int option"
  as_halt_reason :: "string option"

datatype actor_error =
    ActorInvalidConfig
  | ActorIsHalted string
  | ActorTransition string
  | ReceiveTimeRegression int int
  | HealthClockRegression int int
  | ClockBeforeEpoch
  | ClockOverflow

fun actor_error_text :: "actor_error \<Rightarrow> string" where
  "actor_error_text ActorInvalidConfig = ''actor channel capacity and health durations must be positive''"
| "actor_error_text (ActorIsHalted r) = ''actor is permanently halted: '' @ r"
| "actor_error_text (ActorTransition r) = ''authoritative transition failed: '' @ r"
| "actor_error_text (ReceiveTimeRegression previous actual) = ''market receive time regressed from ''
     @ show_int previous @ '' to '' @ show_int actual"
| "actor_error_text (HealthClockRegression now received) = ''health clock '' @ show_int now
     @ '' is before last market receive time '' @ show_int received"
| "actor_error_text ClockBeforeEpoch = ''system clock is before the Unix epoch''"
| "actor_error_text ClockOverflow = ''system clock timestamp overflow''"

text \<open>A \<open>Duration\<close> is its nanoseconds.\<close>

record actor_config =
  ac_channel_capacity :: nat
  ac_stale_after :: int
  ac_health_interval :: int

definition actor_config_default :: actor_config where
  "actor_config_default = \<lparr>ac_channel_capacity = 4096, ac_stale_after = 5000000000, ac_health_interval = 250000000\<rparr>"

record live_core =
  lc_replay :: replay_state
  lc_stale_after :: int
  lc_mode :: actor_mode
  lc_last_event :: "int option"
  lc_last_received :: "int option"
  lc_halt_reason :: "string option"

section \<open>The core\<close>

definition live_new :: "int \<Rightarrow> actor_error + live_core" where
  "live_new stale_after =
     rbind (ok_or (i64_new stale_after) ActorInvalidConfig) (\<lambda>ns.
     if ns = 0 then Inl ActorInvalidConfig
     else Inr \<lparr>lc_replay = replay_default, lc_stale_after = ns, lc_mode = ActorStarting, lc_last_event = None,
       lc_last_received = None, lc_halt_reason = None\<rparr>)"

definition live_halt :: "string \<Rightarrow> live_core \<Rightarrow> live_core" where
  "live_halt reason c = c\<lparr>lc_mode := ActorHalted, lc_halt_reason := Some reason\<rparr>"

definition live_age :: "int \<Rightarrow> int \<Rightarrow> actor_error + int" where
  "live_age now last_received =
     (if now < last_received then Inl (HealthClockRegression now last_received)
      else ok_or (sub64 now last_received) (HealthClockRegression now last_received))"

definition refresh_mode :: "int \<Rightarrow> live_core \<Rightarrow> (actor_error + unit) \<times> live_core" where
  "refresh_mode now c =
     (case rp_status (lc_replay c) of
        EpochInactive \<Rightarrow> (Inr (), c\<lparr>lc_mode := ActorInactive\<rparr>)
      | EpochCollecting \<Rightarrow> (Inr (), c\<lparr>lc_mode := ActorCollecting\<rparr>)
      | EpochShutdown \<Rightarrow> (Inr (), c\<lparr>lc_mode := ActorShutdown\<rparr>)
      | EpochSynchronized \<Rightarrow>
          if \<not> replay_is_authoritative (lc_replay c) then (Inr (), c\<lparr>lc_mode := ActorRecovering\<rparr>)
          else case lc_last_received c of
            None \<Rightarrow> (Inl (ActorTransition ''synchronized epoch has no market receive time''),
              live_halt ''synchronized epoch has no market receive time'' c)
          | Some last_received \<Rightarrow>
              case live_age now last_received of
                Inl e \<Rightarrow> (Inl e, live_halt (actor_error_text e) c)
              | Inr age \<Rightarrow> (Inr (), c\<lparr>lc_mode := (if age \<le> lc_stale_after c then ActorReady else ActorStale)\<rparr>))"

definition market_time_error :: "envelope \<Rightarrow> live_core \<Rightarrow> actor_error option" where
  "market_time_error e c =
     (if ev_source e \<noteq> SourceMarket then None
      else if ev_event_time e < 0 then Some (ActorTransition ''market event time is unavailable'')
      else case lc_last_received c of
        None \<Rightarrow> None
      | Some previous \<Rightarrow>
          if ev_received_time e < previous then Some (ReceiveTimeRegression previous (ev_received_time e)) else None)"

definition live_apply :: "'v replay_codec \<Rightarrow> envelope \<Rightarrow> live_core \<Rightarrow> (actor_error + unit) \<times> live_core" where
  "live_apply cx e c =
     (case lc_halt_reason c of
        Some reason \<Rightarrow> (Inl (ActorIsHalted reason), c)
      | None \<Rightarrow>
          case market_time_error e c of
            Some err \<Rightarrow> (Inl err, live_halt (actor_error_text err) c)
          | None \<Rightarrow>
              case replay_apply cx e (lc_replay c) of
                Inl err \<Rightarrow> (Inl (ActorTransition (replay_error_text cx err)), live_halt (replay_error_text cx err) c)
              | Inr s \<Rightarrow>
                  let c' = c\<lparr>lc_replay := s\<rparr>;
                    c'' = (if ev_source e = SourceMarket
                      then c'\<lparr>lc_last_event := Some (ev_event_time e), lc_last_received := Some (ev_received_time e)\<rparr> else c')
                  in refresh_mode (ev_received_time e) c'')"

definition evaluate_health :: "int \<Rightarrow> live_core \<Rightarrow> (actor_error + unit) \<times> live_core" where
  "evaluate_health now c =
     (case lc_halt_reason c of
        Some reason \<Rightarrow> (Inl (ActorIsHalted reason), c)
      | None \<Rightarrow> refresh_mode now c)"

definition live_close :: "live_core \<Rightarrow> live_core" where
  "live_close c =
     (if lc_halt_reason c = None \<and> rp_status (lc_replay c) \<noteq> EpochShutdown then c\<lparr>lc_mode := ActorClosed\<rparr> else c)"

definition live_snapshot :: "'v replay_codec \<Rightarrow> live_core \<Rightarrow> actor_snapshot" where
  "live_snapshot cx c = \<lparr>as_mode = lc_mode c, as_ready = (lc_mode c = ActorReady), as_epoch = rp_epoch (lc_replay c),
     as_last_sequence = rp_last_sequence (lc_replay c), as_book_count = length (rp_books (lc_replay c)),
     as_digest = replay_digest cx (lc_replay c), as_last_market_event = lc_last_event c,
     as_last_market_received = lc_last_received c, as_halt_reason = lc_halt_reason c\<rparr>"

section \<open>The actor\<close>

text \<open>What one round of \<open>select!\<close> takes: what \<open>recv\<close> returned, or a tick with what \<open>now_ns\<close> returned.\<close>

datatype actor_input = ActorReceived "envelope option" | ActorTick "actor_error + int"

definition actor_tick :: "actor_error + int \<Rightarrow> live_core \<Rightarrow> (actor_error + unit) \<times> live_core" where
  "actor_tick clock c = (case clock of Inl e \<Rightarrow> (Inl e, c) | Inr now \<Rightarrow> evaluate_health now c)"

text \<open>One round: whether the task ends with it, and the core.\<close>

fun actor_round :: "'v replay_codec \<Rightarrow> actor_input \<Rightarrow> live_core \<Rightarrow> bool \<times> live_core" where
  "actor_round cx (ActorReceived None) c = (True, live_close c)"
| "actor_round cx (ActorReceived (Some e)) c = (case live_apply cx e c of (r, c') \<Rightarrow> (isl r, c'))"
| "actor_round cx (ActorTick clock) c =
     (case actor_tick clock c of
        (Inr _, c') \<Rightarrow> (False, c')
      | (Inl e, c') \<Rightarrow> (True, if lc_halt_reason c' = None then live_halt (actor_error_text e) c' else c'))"

text \<open>The snapshots that the task publishes, and the core when it has taken all inputs or has ended.\<close>

fun actor_run :: "'v replay_codec \<Rightarrow> live_core \<Rightarrow> actor_input list \<Rightarrow> actor_snapshot list \<times> bool \<times> live_core" where
  "actor_run cx c [] = ([], False, c)"
| "actor_run cx c (i # is) =
     (case actor_round cx i c of
        (True, c') \<Rightarrow> ([live_snapshot cx c'], True, c')
      | (False, c') \<Rightarrow> (case actor_run cx c' is of (ss, r) \<Rightarrow> (live_snapshot cx c' # ss, r)))"

definition spawn_actor :: "actor_config \<Rightarrow> actor_error + live_core" where
  "spawn_actor config =
     (if ac_channel_capacity config = 0 \<or> ac_health_interval config = 0 then Inl ActorInvalidConfig
      else live_new (ac_stale_after config))"

end
