(* ===== verification/Reference_Payload.thy ===== *)
theory Reference_Payload
  imports Event_Envelope
begin

text \<open>
  The reference feed of \<open>crates/reference-market-data/src/payload.rs\<close>: the symbols, candles, trades and tickers, the
  parser of a combined stream message, and the binary payload that is journalled. \<open>serde_json\<close> is a parameter.
\<close>

section \<open>Data\<close>

datatype reference_symbol = BtcUsdt | EthUsdt

fun symbol_byte :: "reference_symbol \<Rightarrow> int" where
  "symbol_byte BtcUsdt = 1"
| "symbol_byte EthUsdt = 2"

text \<open>The derived order.\<close>

instantiation reference_symbol :: linorder
begin

definition less_eq_reference_symbol :: "reference_symbol \<Rightarrow> reference_symbol \<Rightarrow> bool" where
  "less_eq_reference_symbol a b = (symbol_byte a \<le> symbol_byte b)"

definition less_reference_symbol :: "reference_symbol \<Rightarrow> reference_symbol \<Rightarrow> bool" where
  "less_reference_symbol a b = (symbol_byte a < symbol_byte b)"

lemma symbol_byte_inject [simp]: "symbol_byte a = symbol_byte b \<longleftrightarrow> a = b"
  by (cases a; cases b) simp_all

instance
  by standard (auto simp: less_eq_reference_symbol_def less_reference_symbol_def)

end

definition all_symbols :: "reference_symbol list" where
  "all_symbols = [BtcUsdt, EthUsdt]"

fun symbol_upper :: "reference_symbol \<Rightarrow> string" where
  "symbol_upper BtcUsdt = ''BTCUSDT''"
| "symbol_upper EthUsdt = ''ETHUSDT''"

fun symbol_stream :: "reference_symbol \<Rightarrow> string" where
  "symbol_stream BtcUsdt = ''btcusdt''"
| "symbol_stream EthUsdt = ''ethusdt''"

datatype candle_interval = OneHourUtc

datatype reference_kind = KindInProgressCandle | KindFinalizedCandle | KindAggregateTrade | KindBookTicker

fun reference_kind_byte :: "reference_kind \<Rightarrow> int" where
  "reference_kind_byte KindInProgressCandle = 1"
| "reference_kind_byte KindFinalizedCandle = 2"
| "reference_kind_byte KindAggregateTrade = 3"
| "reference_kind_byte KindBookTicker = 4"

record candle_data =
  cn_symbol :: reference_symbol
  cn_interval :: candle_interval
  cn_open_time :: int
  cn_close_time :: int
  cn_first_trade :: int
  cn_last_trade :: int
  cn_open :: quote_price_micros
  cn_high :: quote_price_micros
  cn_low :: quote_price_micros
  cn_close :: quote_price_micros
  cn_base_volume :: reference_quantity_e8
  cn_quote_volume :: reference_quantity_e8
  cn_trade_count :: int

record aggregate_trade =
  at_symbol :: reference_symbol
  at_id :: int
  at_price :: quote_price_micros
  at_quantity :: reference_quantity_e8
  at_first_trade :: int
  at_last_trade :: int
  at_trade_time :: int
  at_buyer_is_maker :: bool

record book_ticker =
  tk_symbol :: reference_symbol
  tk_update_id :: int
  tk_best_bid :: quote_price_micros
  tk_best_bid_quantity :: reference_quantity_e8
  tk_best_ask :: quote_price_micros
  tk_best_ask_quantity :: reference_quantity_e8

text \<open>The newtypes \<open>InProgressCandle\<close> and \<open>FinalizedCandle\<close> are told apart by the constructor.\<close>

datatype reference_event =
    RefInProgress candle_data
  | RefFinalized candle_data
  | RefTrade aggregate_trade
  | RefTicker book_ticker

fun reference_event_symbol :: "reference_event \<Rightarrow> reference_symbol" where
  "reference_event_symbol (RefInProgress c) = cn_symbol c"
| "reference_event_symbol (RefFinalized c) = cn_symbol c"
| "reference_event_symbol (RefTrade t) = at_symbol t"
| "reference_event_symbol (RefTicker b) = tk_symbol b"

fun reference_event_kind :: "reference_event \<Rightarrow> reference_kind" where
  "reference_event_kind (RefInProgress _) = KindInProgressCandle"
| "reference_event_kind (RefFinalized _) = KindFinalizedCandle"
| "reference_event_kind (RefTrade _) = KindAggregateTrade"
| "reference_event_kind (RefTicker _) = KindBookTicker"

record decoded_reference =
  rd_event_time :: "int option"
  rd_event :: reference_event

datatype reference_error =
    RefJson string
  | RefInvalidWrapper
  | RefUnsupportedStream string
  | RefUnsupportedEvent string
  | RefUnsupportedSymbol string
  | RefUnknownSymbol int
  | RefUnknownKind int
  | RefInvalidField string
  | RefDecimal string decimal_error
  | RefWrongInterval
  | RefInvalidCandle
  | RefInvalidBook
  | RefTruncated
  | RefTrailingBytes
  | RefUnsupportedVersion int
  | RefReservedByte int
  | RefMismatch string
  | RefTimestampOverflow

fun reference_error_text :: "reference_error \<Rightarrow> string" where
  "reference_error_text (RefJson e) = ''invalid reference JSON: '' @ e"
| "reference_error_text RefInvalidWrapper = ''combined stream wrapper is malformed''"
| "reference_error_text (RefUnsupportedStream s) = ''unsupported stream: '' @ s"
| "reference_error_text (RefUnsupportedEvent s) = ''unsupported event type: '' @ s"
| "reference_error_text (RefUnsupportedSymbol s) = ''unsupported symbol: '' @ s"
| "reference_error_text (RefUnknownSymbol v) = ''unknown encoded symbol: '' @ show_int v"
| "reference_error_text (RefUnknownKind v) = ''unknown encoded event kind: '' @ show_int v"
| "reference_error_text (RefInvalidField s) = ''missing or invalid field: '' @ s"
| "reference_error_text (RefDecimal field e) = ''invalid decimal field '' @ field @ '': '' @ decimal_error_text e"
| "reference_error_text RefWrongInterval = ''only the UTC one-hour candle is accepted''"
| "reference_error_text RefInvalidCandle = ''invalid candle bounds or price relationships''"
| "reference_error_text RefInvalidBook = ''invalid or crossed best bid/ask''"
| "reference_error_text RefTruncated = ''payload is truncated''"
| "reference_error_text RefTrailingBytes = ''payload has trailing bytes''"
| "reference_error_text (RefUnsupportedVersion v) = ''unsupported payload version: '' @ show_int v"
| "reference_error_text (RefReservedByte v) = ''payload reserved byte is set: '' @ show_int v"
| "reference_error_text (RefMismatch s) = ''payload prefix and body disagree: '' @ s"
| "reference_error_text RefTimestampOverflow = ''timestamp conversion overflow''"

definition symbol_parse :: "string \<Rightarrow> reference_error + reference_symbol" where
  "symbol_parse v =
     (if v = ''BTCUSDT'' then Inr BtcUsdt else if v = ''ETHUSDT'' then Inr EthUsdt else Inl (RefUnsupportedSymbol v))"

definition symbol_from_byte :: "int \<Rightarrow> reference_error + reference_symbol" where
  "symbol_from_byte v = (if v = 1 then Inr BtcUsdt else if v = 2 then Inr EthUsdt else Inl (RefUnknownSymbol v))"

definition reference_kind_from_byte :: "int \<Rightarrow> reference_error + reference_kind" where
  "reference_kind_from_byte v =
     (if v = 1 then Inr KindInProgressCandle else if v = 2 then Inr KindFinalizedCandle
      else if v = 3 then Inr KindAggregateTrade else if v = 4 then Inr KindBookTicker else Inl (RefUnknownKind v))"

section \<open>The stream message\<close>

text \<open>\<open>serde_json\<close>: parsing a text, and the views of a value as an object (its \<open>get\<close>), a string, a number, a boolean.\<close>

record 'v reference_json =
  rj_from_str :: "string \<Rightarrow> string + 'v"
  rj_as_object :: "'v \<Rightarrow> (string \<Rightarrow> 'v option) option"
  rj_as_str :: "'v \<Rightarrow> string option"
  rj_as_i64 :: "'v \<Rightarrow> int option"
  rj_as_u64 :: "'v \<Rightarrow> int option"
  rj_as_bool :: "'v \<Rightarrow> bool option"

definition json_string :: "'v reference_json \<Rightarrow> (string \<Rightarrow> 'v option) \<Rightarrow> string \<Rightarrow> reference_error + string" where
  "json_string jx m f =
     (case Option.bind (m f) (rj_as_str jx) of
        None \<Rightarrow> Inl (RefInvalidField f)
      | Some s \<Rightarrow> if s = [] then Inl (RefInvalidField f) else Inr s)"

definition json_i64 :: "'v reference_json \<Rightarrow> (string \<Rightarrow> 'v option) \<Rightarrow> string \<Rightarrow> reference_error + int" where
  "json_i64 jx m f =
     (case Option.bind (m f) (rj_as_i64 jx) of
        None \<Rightarrow> Inl (RefInvalidField f)
      | Some n \<Rightarrow> if n < 0 then Inl (RefInvalidField f) else Inr n)"

definition json_u64 :: "'v reference_json \<Rightarrow> (string \<Rightarrow> 'v option) \<Rightarrow> string \<Rightarrow> reference_error + int" where
  "json_u64 jx m f = ok_or (Option.bind (m f) (rj_as_u64 jx)) (RefInvalidField f)"

definition json_bool :: "'v reference_json \<Rightarrow> (string \<Rightarrow> 'v option) \<Rightarrow> string \<Rightarrow> reference_error + bool" where
  "json_bool jx m f = ok_or (Option.bind (m f) (rj_as_bool jx)) (RefInvalidField f)"

definition json_quote :: "'v reference_json \<Rightarrow> (string \<Rightarrow> 'v option) \<Rightarrow> string \<Rightarrow> reference_error + quote_price_micros" where
  "json_quote jx m f = rbind (json_string jx m f) (\<lambda>s.
     case parse_quote_price_micros s of Inl e \<Rightarrow> Inl (RefDecimal f e) | Inr p \<Rightarrow> Inr p)"

definition json_quantity :: "'v reference_json \<Rightarrow> (string \<Rightarrow> 'v option) \<Rightarrow> string \<Rightarrow> reference_error + reference_quantity_e8" where
  "json_quantity jx m f = rbind (json_string jx m f) (\<lambda>s.
     case parse_reference_quantity_e8 s of Inl e \<Rightarrow> Inl (RefDecimal f e) | Inr q \<Rightarrow> Inr q)"

definition validate_candle :: "candle_data \<Rightarrow> reference_error + unit" where
  "validate_candle c =
     (if cn_open_time c < 0 \<or> cn_close_time c \<le> cn_open_time c
         \<or> quote_price_as_micros (cn_high c) < quote_price_as_micros (cn_low c)
         \<or> quote_price_as_micros (cn_high c) < quote_price_as_micros (cn_open c)
         \<or> quote_price_as_micros (cn_open c) < quote_price_as_micros (cn_low c)
         \<or> quote_price_as_micros (cn_high c) < quote_price_as_micros (cn_close c)
         \<or> quote_price_as_micros (cn_close c) < quote_price_as_micros (cn_low c)
      then Inl RefInvalidCandle else Inr ())"

definition parse_candle :: "'v reference_json \<Rightarrow> reference_symbol \<Rightarrow> (string \<Rightarrow> 'v option) \<Rightarrow> reference_error + candle_data" where
  "parse_candle jx symbol k =
     rbind (json_i64 jx k ''t'') (\<lambda>open_time.
     rbind (json_i64 jx k ''T'') (\<lambda>close_time.
     rbind (json_i64 jx k ''f'') (\<lambda>first_trade.
     rbind (json_i64 jx k ''L'') (\<lambda>last_trade.
     rbind (json_quote jx k ''o'') (\<lambda>open.
     rbind (json_quote jx k ''h'') (\<lambda>high.
     rbind (json_quote jx k ''l'') (\<lambda>low.
     rbind (json_quote jx k ''c'') (\<lambda>close.
     rbind (json_quantity jx k ''v'') (\<lambda>base_volume.
     rbind (json_quantity jx k ''q'') (\<lambda>quote_volume.
     rbind (json_u64 jx k ''n'') (\<lambda>trade_count.
     Inr \<lparr>cn_symbol = symbol, cn_interval = OneHourUtc, cn_open_time = open_time, cn_close_time = close_time,
       cn_first_trade = first_trade, cn_last_trade = last_trade, cn_open = open, cn_high = high, cn_low = low,
       cn_close = close, cn_base_volume = base_volume, cn_quote_volume = quote_volume,
       cn_trade_count = trade_count\<rparr>)))))))))))"

definition parse_kline :: "'v reference_json \<Rightarrow> (string \<Rightarrow> 'v option) \<Rightarrow> reference_error + decoded_reference" where
  "parse_kline jx data =
     rbind (json_i64 jx data ''E'') (\<lambda>event_time.
     rbind (rbind (json_string jx data ''s'') symbol_parse) (\<lambda>outer.
     rbind (ok_or (Option.bind (data ''k'') (rj_as_object jx)) (RefInvalidField ''k'')) (\<lambda>k.
     rbind (rbind (json_string jx k ''s'') symbol_parse) (\<lambda>symbol.
     if outer \<noteq> symbol then Inl (RefMismatch ''kline symbol'')
     else
       rbind (json_string jx k ''i'') (\<lambda>interval.
       if interval \<noteq> ''1h'' then Inl RefWrongInterval
       else
         rbind (parse_candle jx symbol k) (\<lambda>candle.
         rbind (validate_candle candle) (\<lambda>_.
         rbind (json_bool jx k ''x'') (\<lambda>final.
         Inr \<lparr>rd_event_time = Some event_time,
           rd_event = (if final then RefFinalized candle else RefInProgress candle)\<rparr>))))))))"

definition parse_aggregate_trade :: "'v reference_json \<Rightarrow> (string \<Rightarrow> 'v option) \<Rightarrow> reference_error + decoded_reference" where
  "parse_aggregate_trade jx data =
     rbind (json_i64 jx data ''E'') (\<lambda>event_time.
     rbind (rbind (json_string jx data ''s'') symbol_parse) (\<lambda>symbol.
     rbind (json_u64 jx data ''a'') (\<lambda>trade_id.
     rbind (json_quote jx data ''p'') (\<lambda>price.
     rbind (json_quantity jx data ''q'') (\<lambda>quantity.
     rbind (json_u64 jx data ''f'') (\<lambda>first_trade.
     rbind (json_u64 jx data ''l'') (\<lambda>last_trade.
     rbind (json_i64 jx data ''T'') (\<lambda>trade_time.
     rbind (json_bool jx data ''m'') (\<lambda>maker.
     if last_trade < first_trade \<or> trade_time < 0 then Inl (RefInvalidField ''aggregate trade bounds'')
     else Inr \<lparr>rd_event_time = Some event_time, rd_event = RefTrade \<lparr>at_symbol = symbol, at_id = trade_id,
       at_price = price, at_quantity = quantity, at_first_trade = first_trade, at_last_trade = last_trade,
       at_trade_time = trade_time, at_buyer_is_maker = maker\<rparr>\<rparr>)))))))))"

definition parse_book_ticker :: "'v reference_json \<Rightarrow> (string \<Rightarrow> 'v option) \<Rightarrow> reference_error + decoded_reference" where
  "parse_book_ticker jx data =
     rbind (rbind (json_string jx data ''s'') symbol_parse) (\<lambda>symbol.
     rbind (json_u64 jx data ''u'') (\<lambda>update_id.
     rbind (json_quote jx data ''b'') (\<lambda>bid.
     rbind (json_quantity jx data ''B'') (\<lambda>bid_quantity.
     rbind (json_quote jx data ''a'') (\<lambda>ask.
     rbind (json_quantity jx data ''A'') (\<lambda>ask_quantity.
     if quote_price_as_micros ask < quote_price_as_micros bid then Inl RefInvalidBook
     else Inr \<lparr>rd_event_time = None, rd_event = RefTicker \<lparr>tk_symbol = symbol, tk_update_id = update_id,
       tk_best_bid = bid, tk_best_bid_quantity = bid_quantity, tk_best_ask = ask,
       tk_best_ask_quantity = ask_quantity\<rparr>\<rparr>))))))"

fun expected_stream :: "reference_event \<Rightarrow> string" where
  "expected_stream (RefInProgress c) = symbol_stream (cn_symbol c) @ ''@kline_1h''"
| "expected_stream (RefFinalized c) = symbol_stream (cn_symbol c) @ ''@kline_1h''"
| "expected_stream (RefTrade t) = symbol_stream (at_symbol t) @ ''@aggTrade''"
| "expected_stream (RefTicker b) = symbol_stream (tk_symbol b) @ ''@bookTicker''"

definition validate_stream :: "string \<Rightarrow> reference_event \<Rightarrow> reference_error + unit" where
  "validate_stream stream event = (if stream = expected_stream event then Inr () else Inl (RefUnsupportedStream stream))"

definition ends_with :: "string \<Rightarrow> string \<Rightarrow> bool" where
  "ends_with s suffix \<longleftrightarrow> length suffix \<le> length s \<and> drop (length s - length suffix) s = suffix"

text \<open>The \<open>match event\<close> of the message, by its event type or else by the stream.\<close>

definition parse_stream_data :: "'v reference_json \<Rightarrow> string \<Rightarrow> (string \<Rightarrow> 'v option) \<Rightarrow> reference_error + decoded_reference" where
  "parse_stream_data jx stream data =
     (case json_string jx data ''e'' of
        Inr e \<Rightarrow>
          if e = ''kline'' then parse_kline jx data
          else if e = ''aggTrade'' then parse_aggregate_trade jx data
          else Inl (RefUnsupportedEvent e)
      | Inl _ \<Rightarrow>
          if ends_with stream ''@bookTicker'' then parse_book_ticker jx data
          else Inl (RefUnsupportedStream stream))"

definition parse_combined_message :: "'v reference_json \<Rightarrow> string \<Rightarrow> reference_error + decoded_reference" where
  "parse_combined_message jx text =
     rbind (case rj_from_str jx text of Inl e \<Rightarrow> Inl (RefJson e) | Inr v \<Rightarrow> Inr v) (\<lambda>v.
     rbind (ok_or (rj_as_object jx v) RefInvalidWrapper) (\<lambda>root.
     rbind (json_string jx root ''stream'') (\<lambda>stream.
     rbind (ok_or (Option.bind (root ''data'') (rj_as_object jx)) RefInvalidWrapper) (\<lambda>data.
     rbind (parse_stream_data jx stream data) (\<lambda>decoded.
     rbind (validate_stream stream (rd_event decoded)) (\<lambda>_.
     Inr decoded))))))"

section \<open>The binary payload\<close>

definition encode_candle :: "candle_data \<Rightarrow> string" where
  "encode_candle c = concat (map (le_bytes 8) [cn_open_time c, cn_close_time c, cn_first_trade c, cn_last_trade c,
     quote_price_as_micros (cn_open c), quote_price_as_micros (cn_high c), quote_price_as_micros (cn_low c),
     quote_price_as_micros (cn_close c), reference_as_e8 (cn_base_volume c), reference_as_e8 (cn_quote_volume c),
     cn_trade_count c])"

fun encode_reference_body :: "reference_event \<Rightarrow> string" where
  "encode_reference_body (RefInProgress c) = encode_candle c"
| "encode_reference_body (RefFinalized c) = encode_candle c"
| "encode_reference_body (RefTrade t) = concat (map (le_bytes 8) [at_id t, quote_price_as_micros (at_price t),
     reference_as_e8 (at_quantity t), at_first_trade t, at_last_trade t, at_trade_time t])
     @ le_bytes 1 (if at_buyer_is_maker t then 1 else 0)"
| "encode_reference_body (RefTicker b) = concat (map (le_bytes 8) [tk_update_id b, quote_price_as_micros (tk_best_bid b),
     reference_as_e8 (tk_best_bid_quantity b), quote_price_as_micros (tk_best_ask b),
     reference_as_e8 (tk_best_ask_quantity b)])"

definition encode_reference_payload :: "decoded_reference \<Rightarrow> reference_error + string" where
  "encode_reference_payload d =
     (let body = encode_reference_body (rd_event d); event_ms = (case rd_event_time d of None \<Rightarrow> - 1 | Some ms \<Rightarrow> ms) in
      rbind (u32_of RefTruncated (length body)) (\<lambda>n.
      Inr (le_bytes 2 2 @ le_bytes 1 (reference_kind_byte (reference_event_kind (rd_event d)))
        @ le_bytes 1 (symbol_byte (reference_event_symbol (rd_event d))) @ le_bytes 8 event_ms @ le_bytes 4 (int n) @ body)))"

definition quote_from_i64 :: "int \<Rightarrow> reference_error + quote_price_micros" where
  "quote_from_i64 v = (case quote_price_new v of Inl e \<Rightarrow> Inl (RefDecimal ''encoded quote'' (Financial e)) | Inr p \<Rightarrow> Inr p)"

definition quantity_from_i64 :: "int \<Rightarrow> reference_error + reference_quantity_e8" where
  "quantity_from_i64 v =
     (case reference_quantity_new v of Inl e \<Rightarrow> Inl (RefDecimal ''encoded quantity'' (Financial e)) | Inr q \<Rightarrow> Inr q)"

definition ref_i64 :: "string \<Rightarrow> nat \<Rightarrow> reference_error + int" where
  "ref_i64 bytes offset = read_signed RefTruncated 8 bytes offset"

definition ref_u64 :: "string \<Rightarrow> nat \<Rightarrow> reference_error + int" where
  "ref_u64 bytes offset = read_unsigned RefTruncated 8 bytes offset"

definition ref_quote :: "string \<Rightarrow> nat \<Rightarrow> reference_error + quote_price_micros" where
  "ref_quote bytes offset = rbind (ref_i64 bytes offset) quote_from_i64"

definition ref_quantity :: "string \<Rightarrow> nat \<Rightarrow> reference_error + reference_quantity_e8" where
  "ref_quantity bytes offset = rbind (ref_i64 bytes offset) quantity_from_i64"

definition decode_candle :: "reference_symbol \<Rightarrow> string \<Rightarrow> reference_error + candle_data" where
  "decode_candle symbol body =
     (if length body \<noteq> 88 then Inl RefTruncated
      else
        rbind (ref_i64 body 0) (\<lambda>open_time.
        rbind (ref_i64 body 8) (\<lambda>close_time.
        rbind (ref_i64 body 16) (\<lambda>first_trade.
        rbind (ref_i64 body 24) (\<lambda>last_trade.
        rbind (ref_quote body 32) (\<lambda>open.
        rbind (ref_quote body 40) (\<lambda>high.
        rbind (ref_quote body 48) (\<lambda>low.
        rbind (ref_quote body 56) (\<lambda>close.
        rbind (ref_quantity body 64) (\<lambda>base_volume.
        rbind (ref_quantity body 72) (\<lambda>quote_volume.
        rbind (ref_u64 body 80) (\<lambda>trade_count.
        (let candle = \<lparr>cn_symbol = symbol, cn_interval = OneHourUtc, cn_open_time = open_time, cn_close_time = close_time,
           cn_first_trade = first_trade, cn_last_trade = last_trade, cn_open = open, cn_high = high, cn_low = low,
           cn_close = close, cn_base_volume = base_volume, cn_quote_volume = quote_volume, cn_trade_count = trade_count\<rparr> in
         rbind (validate_candle candle) (\<lambda>_. Inr candle))))))))))))))"

definition decode_trade :: "reference_symbol \<Rightarrow> string \<Rightarrow> reference_error + aggregate_trade" where
  "decode_trade symbol body =
     (if length body \<noteq> 49 then Inl RefTruncated
      else
        rbind (ref_u64 body 0) (\<lambda>trade_id.
        rbind (ref_quote body 8) (\<lambda>price.
        rbind (ref_quantity body 16) (\<lambda>quantity.
        rbind (ref_u64 body 24) (\<lambda>first_trade.
        rbind (ref_u64 body 32) (\<lambda>last_trade.
        rbind (ref_i64 body 40) (\<lambda>trade_time.
        rbind (let flag = (of_char (body ! 48) :: int) in
          if flag = 0 then Inr False else if flag = 1 then Inr True else Inl (RefInvalidField ''buyer maker'')) (\<lambda>maker.
        Inr \<lparr>at_symbol = symbol, at_id = trade_id, at_price = price, at_quantity = quantity, at_first_trade = first_trade,
          at_last_trade = last_trade, at_trade_time = trade_time, at_buyer_is_maker = maker\<rparr>))))))))"

definition decode_ticker :: "reference_symbol \<Rightarrow> string \<Rightarrow> reference_error + book_ticker" where
  "decode_ticker symbol body =
     (if length body \<noteq> 40 then Inl RefTruncated
      else
        rbind (ref_u64 body 0) (\<lambda>update_id.
        rbind (ref_quote body 8) (\<lambda>bid.
        rbind (ref_quantity body 16) (\<lambda>bid_quantity.
        rbind (ref_quote body 24) (\<lambda>ask.
        rbind (ref_quantity body 32) (\<lambda>ask_quantity.
        if quote_price_as_micros ask < quote_price_as_micros bid then Inl RefInvalidBook
        else Inr \<lparr>tk_symbol = symbol, tk_update_id = update_id, tk_best_bid = bid, tk_best_bid_quantity = bid_quantity,
          tk_best_ask = ask, tk_best_ask_quantity = ask_quantity\<rparr>))))))"

fun decode_reference_body :: "reference_kind \<Rightarrow> reference_symbol \<Rightarrow> string \<Rightarrow> reference_error + reference_event" where
  "decode_reference_body KindInProgressCandle symbol body = rbind (decode_candle symbol body) (\<lambda>c. Inr (RefInProgress c))"
| "decode_reference_body KindFinalizedCandle symbol body = rbind (decode_candle symbol body) (\<lambda>c. Inr (RefFinalized c))"
| "decode_reference_body KindAggregateTrade symbol body = rbind (decode_trade symbol body) (\<lambda>t. Inr (RefTrade t))"
| "decode_reference_body KindBookTicker symbol body = rbind (decode_ticker symbol body) (\<lambda>b. Inr (RefTicker b))"

definition decode_reference_payload :: "string \<Rightarrow> reference_error + decoded_reference" where
  "decode_reference_payload bytes =
     (if length bytes < 16 then Inl RefTruncated
      else
        rbind (read_unsigned RefTruncated 2 bytes 0) (\<lambda>version.
        if version \<noteq> 2 then Inl (RefUnsupportedVersion version)
        else
          rbind (reference_kind_from_byte (of_char (bytes ! 2))) (\<lambda>kind.
          rbind (symbol_from_byte (of_char (bytes ! 3))) (\<lambda>symbol.
          rbind (ref_i64 bytes 4) (\<lambda>event_ms.
          rbind (read_unsigned RefTruncated 4 bytes 12) (\<lambda>body_length.
          rbind (ok_or (slice bytes 16 (16 + nat body_length)) RefTruncated) (\<lambda>body.
          if 16 + nat body_length \<noteq> length bytes then Inl RefTrailingBytes
          else
            rbind (decode_reference_body kind symbol body) (\<lambda>event.
            rbind (if event_ms = - 1 then Inr None else if 0 \<le> event_ms then Inr (Some event_ms)
              else Inl (RefInvalidField ''event time'')) (\<lambda>event_time.
            if (reference_event_kind event = KindBookTicker) \<noteq> (event_time = None)
            then Inl (RefMismatch ''source event-time availability'')
            else Inr \<lparr>rd_event_time = event_time, rd_event = event\<rparr>)))))))))"

end
