(* ===== verification/Reference_Replay.thy ===== *)
theory Reference_Replay
  imports Reference_Payload BTree_Map Order_Book
begin

text \<open>
  The replayed state of the reference feed, \<open>crates/reference-market-data/src/replay.rs\<close>: what recorded envelopes do
  to the candles, trades and tickers of each symbol, when the feed counts as synchronized, and its digest. The
  journal reader is a list of envelopes or error texts; \<open>blake3\<close> is a parameter.
\<close>

datatype reference_health = RefStarting | RefCollecting | RefReady | RefDisconnected | RefShutdown

fun reference_health_byte :: "reference_health \<Rightarrow> int" where
  "reference_health_byte RefStarting = 0"
| "reference_health_byte RefCollecting = 1"
| "reference_health_byte RefReady = 2"
| "reference_health_byte RefDisconnected = 3"
| "reference_health_byte RefShutdown = 4"

record symbol_state =
  sy_in_progress :: "candle_data option"
  sy_last_finalized :: "candle_data option"
  sy_trade :: "aggregate_trade option"
  sy_ticker :: "book_ticker option"
  sy_candle_event :: "int option"
  sy_candle_received :: "int option"
  sy_trade_event :: "int option"
  sy_trade_received :: "int option"
  sy_ticker_received :: "int option"

definition symbol_default :: symbol_state where
  "symbol_default = \<lparr>sy_in_progress = None, sy_last_finalized = None, sy_trade = None, sy_ticker = None,
     sy_candle_event = None, sy_candle_received = None, sy_trade_event = None, sy_trade_received = None,
     sy_ticker_received = None\<rparr>"

record symbol_snapshot =
  ss_candle_event :: "int option"
  ss_candle_received :: "int option"
  ss_trade_event :: "int option"
  ss_trade_received :: "int option"
  ss_ticker_received :: "int option"

definition oldest_required_received :: "symbol_snapshot \<Rightarrow> int option" where
  "oldest_required_received s =
     Option.bind (ss_candle_received s) (\<lambda>c.
     Option.bind (ss_trade_received s) (\<lambda>t.
     Option.bind (ss_ticker_received s) (\<lambda>k.
     Some (min (min c t) k))))"

definition latest_source_event :: "symbol_snapshot \<Rightarrow> int option" where
  "latest_source_event s =
     Option.bind (ss_candle_event s) (\<lambda>c.
     Option.bind (ss_trade_event s) (\<lambda>t.
     Some (max c t)))"

record reference_snapshot =
  rn_health :: reference_health
  rn_epoch :: int
  rn_last_sequence :: "int option"
  rn_digest :: bytes32
  rn_last_received :: "int option"
  rn_symbols :: "(reference_symbol, symbol_snapshot) btree"

record reference_state =
  rs_health :: reference_health
  rs_epoch :: int
  rs_last_sequence :: "int option"
  rs_symbols :: "(reference_symbol, symbol_state) btree"
  rs_finalized :: "(reference_symbol \<times> int, candle_data) btree"
  rs_last_received :: "int option"

definition reference_default :: reference_state where
  "reference_default = \<lparr>rs_health = RefStarting, rs_epoch = 0, rs_last_sequence = None, rs_symbols = [], rs_finalized = [],
     rs_last_received = None\<rparr>"

definition finalized_candle :: "reference_state \<Rightarrow> reference_symbol \<Rightarrow> int \<Rightarrow> candle_data option" where
  "finalized_candle s symbol open_time = bt_get (rs_finalized s) (symbol, open_time)"

definition in_progress_candle :: "reference_state \<Rightarrow> reference_symbol \<Rightarrow> candle_data option" where
  "in_progress_candle s symbol = Option.bind (bt_get (rs_symbols s) symbol) sy_in_progress"

definition latest_book :: "reference_state \<Rightarrow> reference_symbol \<Rightarrow> book_ticker option" where
  "latest_book s symbol = Option.bind (bt_get (rs_symbols s) symbol) sy_ticker"

definition latest_trade :: "reference_state \<Rightarrow> reference_symbol \<Rightarrow> aggregate_trade option" where
  "latest_trade s symbol = Option.bind (bt_get (rs_symbols s) symbol) sy_trade"

datatype reference_replay_error =
    RefReplayJournal string
  | RefReplayPayload reference_error
  | RefIncompleteJournal
  | RefSequenceGap int int
  | RefSequenceOverflow
  | UnexpectedSource event_source
  | InvalidSystemTransition
  | PrematureSync
  | ReferenceOutsideEpoch
  | RefMarketMismatch
  | RefTimestampMismatch
  | RefReceiveTimeRegression
  | RefReplayTimestampOverflow
  | SourceSequenceRegression string
  | CandleRegression
  | FinalizedCandleChanged

fun reference_replay_error_text :: "reference_replay_error \<Rightarrow> string" where
  "reference_replay_error_text (RefReplayJournal e) = ''journal error: '' @ e"
| "reference_replay_error_text (RefReplayPayload e) = ''reference payload error: '' @ reference_error_text e"
| "reference_replay_error_text RefIncompleteJournal = ''journal is not cleanly terminated''"
| "reference_replay_error_text (RefSequenceGap expected actual) = ''sequence gap: expected '' @ show_int expected
     @ '', got '' @ show_int actual"
| "reference_replay_error_text RefSequenceOverflow = ''sequence or epoch overflow''"
| "reference_replay_error_text (UnexpectedSource s) = ''unexpected event source: '' @ source_debug s"
| "reference_replay_error_text InvalidSystemTransition = ''invalid reference gateway system transition''"
| "reference_replay_error_text PrematureSync = ''gateway declared sync before all required feeds were observed''"
| "reference_replay_error_text ReferenceOutsideEpoch = ''reference event arrived outside an active epoch''"
| "reference_replay_error_text RefMarketMismatch = ''reference market identifier disagrees with payload''"
| "reference_replay_error_text RefTimestampMismatch = ''envelope and payload timestamps disagree''"
| "reference_replay_error_text RefReceiveTimeRegression = ''reference receive time regressed''"
| "reference_replay_error_text RefReplayTimestampOverflow = ''timestamp overflow''"
| "reference_replay_error_text (SourceSequenceRegression s) = ''source sequence regressed for '' @ s"
| "reference_replay_error_text CandleRegression = ''candle time regressed''"
| "reference_replay_error_text FinalizedCandleChanged = ''a finalized candle changed''"

section \<open>Candles\<close>

definition candle_not_after :: "candle_data option \<Rightarrow> candle_data \<Rightarrow> bool" where
  "candle_not_after prior c \<longleftrightarrow> (case prior of None \<Rightarrow> False | Some l \<Rightarrow> cn_open_time c \<le> cn_open_time l)"

definition apply_in_progress :: "candle_data \<Rightarrow> symbol_state \<Rightarrow> reference_replay_error + symbol_state" where
  "apply_in_progress c s =
     (if candle_not_after (sy_last_finalized s) c then Inl CandleRegression
      else if (case sy_in_progress s of None \<Rightarrow> False | Some p \<Rightarrow> cn_open_time c < cn_open_time p) then Inl CandleRegression
      else Inr (s\<lparr>sy_in_progress := Some c\<rparr>))"

definition apply_finalized :: "candle_data \<Rightarrow> symbol_state \<Rightarrow> reference_replay_error + symbol_state" where
  "apply_finalized c s =
     (if candle_not_after (sy_last_finalized s) c then Inl CandleRegression
      else if (case sy_in_progress s of None \<Rightarrow> False | Some p \<Rightarrow> cn_open_time c < cn_open_time p) then Inl CandleRegression
      else
        let s' = s\<lparr>sy_last_finalized := Some c\<rparr> in
        Inr (if (case sy_in_progress s' of None \<Rightarrow> False | Some p \<Rightarrow> cn_open_time p = cn_open_time c)
          then s'\<lparr>sy_in_progress := None\<rparr> else s'))"

section \<open>Envelopes\<close>

definition reference_active :: "reference_health \<Rightarrow> bool" where
  "reference_active h \<longleftrightarrow> h \<in> {RefCollecting, RefReady}"

definition symbol_of :: "reference_state \<Rightarrow> reference_symbol \<Rightarrow> symbol_state" where
  "symbol_of s symbol = (case bt_get (rs_symbols s) symbol of None \<Rightarrow> symbol_default | Some v \<Rightarrow> v)"

text \<open>The \<open>match decoded.event\<close>: the changed entry of the symbol, and the finalized candles.\<close>

fun apply_reference_event ::
  "reference_event \<Rightarrow> int \<Rightarrow> int \<Rightarrow> reference_state \<Rightarrow> reference_replay_error + reference_state" where
  "apply_reference_event (RefInProgress c) event_time received s =
     rbind (apply_in_progress c (symbol_of s (cn_symbol c))) (\<lambda>v.
     Inr (s\<lparr>rs_symbols := bt_insert (cn_symbol c)
       (v\<lparr>sy_candle_event := Some event_time, sy_candle_received := Some received\<rparr>) (rs_symbols s)\<rparr>))"
| "apply_reference_event (RefFinalized c) event_time received s =
     rbind (apply_finalized c (symbol_of s (cn_symbol c))) (\<lambda>v.
     let k = (cn_symbol c, cn_open_time c);
       s' = s\<lparr>rs_symbols := bt_insert (cn_symbol c)
           (v\<lparr>sy_candle_event := Some event_time, sy_candle_received := Some received\<rparr>) (rs_symbols s),
         rs_finalized := bt_insert k c (rs_finalized s)\<rparr> in
     case bt_get (rs_finalized s) k of
       None \<Rightarrow> Inr s'
     | Some existing \<Rightarrow> if existing \<noteq> c then Inl FinalizedCandleChanged else Inr s')"
| "apply_reference_event (RefTrade t) event_time received s =
     (let v = symbol_of s (at_symbol t) in
      if (case sy_trade v of None \<Rightarrow> False | Some prior \<Rightarrow> at_id t \<le> at_id prior)
      then Inl (SourceSequenceRegression ''aggregate trade'')
      else Inr (s\<lparr>rs_symbols := bt_insert (at_symbol t)
        (v\<lparr>sy_trade := Some t, sy_trade_event := Some event_time, sy_trade_received := Some received\<rparr>) (rs_symbols s)\<rparr>))"
| "apply_reference_event (RefTicker b) event_time received s =
     (let v = symbol_of s (tk_symbol b) in
      if (case sy_ticker v of None \<Rightarrow> False | Some prior \<Rightarrow> tk_update_id b \<le> tk_update_id prior)
      then Inl (SourceSequenceRegression ''book ticker'')
      else Inr (s\<lparr>rs_symbols := bt_insert (tk_symbol b)
        (v\<lparr>sy_ticker := Some b, sy_ticker_received := Some received\<rparr>) (rs_symbols s)\<rparr>))"

definition apply_reference :: "envelope \<Rightarrow> reference_state \<Rightarrow> reference_replay_error + reference_state" where
  "apply_reference e s =
     (if \<not> reference_active (rs_health s) then Inl ReferenceOutsideEpoch
      else
        rbind (case decode_reference_payload (ev_payload e) of
            Inl err \<Rightarrow> Inl (RefReplayPayload err) | Inr d \<Rightarrow> Inr d) (\<lambda>d.
        if ev_market_id e \<noteq> ''BINANCE_SPOT:'' @ symbol_upper (reference_event_symbol (rd_event d)) then Inl RefMarketMismatch
        else
          rbind (case rd_event_time d of
              Some ms \<Rightarrow> ok_or (mul64 ms 1000000) RefReplayTimestampOverflow
            | None \<Rightarrow> Inr (- 1)) (\<lambda>expected.
          if ev_event_time e \<noteq> expected then Inl RefTimestampMismatch
          else if ev_received_time e < 0 then Inl RefTimestampMismatch
          else if (case rs_last_received s of None \<Rightarrow> False | Some previous \<Rightarrow> ev_received_time e < previous)
          then Inl RefReceiveTimeRegression
          else
            rbind (apply_reference_event (rd_event d) (ev_event_time e) (ev_received_time e) s) (\<lambda>s'.
            Inr (s'\<lparr>rs_last_received := Some (ev_received_time e)\<rparr>)))))"

definition all_predictive_sources_present :: "reference_state \<Rightarrow> bool" where
  "all_predictive_sources_present s \<longleftrightarrow> list_all (\<lambda>symbol.
     case bt_get (rs_symbols s) symbol of
       None \<Rightarrow> False
     | Some v \<Rightarrow> sy_in_progress v \<noteq> None \<and> sy_trade v \<noteq> None \<and> sy_ticker v \<noteq> None) all_symbols"

definition apply_reference_system :: "string \<Rightarrow> reference_state \<Rightarrow> reference_replay_error + reference_state" where
  "apply_reference_system payload s =
     (if payload = ''REFERENCE_MARKET_EPOCH_START_V1'' then
        rbind (ok_or (addu64 (rs_epoch s) 1) RefSequenceOverflow) (\<lambda>n.
        Inr (s\<lparr>rs_epoch := n, rs_health := RefCollecting, rs_symbols := []\<rparr>))
      else if payload = ''REFERENCE_MARKET_EPOCH_SYNCED_V1'' \<and> rs_health s = RefCollecting then
        (if \<not> all_predictive_sources_present s then Inl PrematureSync
         else Inr (s\<lparr>rs_health := RefReady\<rparr>))
      else if (payload = ''REFERENCE_MARKET_EPOCH_ROTATE_V1'' \<or> payload = ''REFERENCE_MARKET_EPOCH_DISCONNECTED_V1'')
          \<and> reference_active (rs_health s) then
        Inr (s\<lparr>rs_health := RefDisconnected, rs_symbols := []\<rparr>)
      else if payload = ''REFERENCE_MARKET_EPOCH_SHUTDOWN_V1'' \<and> reference_active (rs_health s) then
        Inr (s\<lparr>rs_health := RefShutdown, rs_symbols := []\<rparr>)
      else Inl InvalidSystemTransition)"

text \<open>\<open>apply\<close> works on a clone: an error leaves the state as it was.\<close>

definition reference_apply :: "envelope \<Rightarrow> reference_state \<Rightarrow> reference_replay_error + reference_state" where
  "reference_apply e s =
     rbind (case rs_last_sequence s of
         Some v \<Rightarrow> ok_or (addu64 v 1) RefSequenceOverflow
       | None \<Rightarrow> Inr (ev_sequence e)) (\<lambda>expected.
     if ev_sequence e \<noteq> expected then Inl (RefSequenceGap expected (ev_sequence e))
     else
       rbind (if ev_source e = SourceSystem \<and> ev_market_id e = ''__reference_market_gateway__''
           then apply_reference_system (ev_payload e) s
         else if ev_source e = SourceReferencePrice then apply_reference e s
         else Inl (UnexpectedSource (ev_source e))) (\<lambda>s'.
       Inr (s'\<lparr>rs_last_sequence := Some (ev_sequence e)\<rparr>)))"

section \<open>Digest and snapshot\<close>

definition i64_min :: int where
  "i64_min = - 9223372036854775808"

definition time_bytes :: "int option \<Rightarrow> string" where
  "time_bytes t = le_bytes 8 (case t of None \<Rightarrow> i64_min | Some v \<Rightarrow> v)"

definition candle_hash_bytes :: "candle_data \<Rightarrow> string" where
  "candle_hash_bytes c = encode_candle c"

definition finalized_hash_bytes :: "(reference_symbol \<times> int) \<times> candle_data \<Rightarrow> string" where
  "finalized_hash_bytes e = le_bytes 1 (symbol_byte (fst (fst e))) @ le_bytes 8 (snd (fst e)) @ candle_hash_bytes (snd e)"

definition symbol_hash_bytes :: "reference_state \<Rightarrow> reference_symbol \<Rightarrow> string" where
  "symbol_hash_bytes s symbol = le_bytes 1 (symbol_byte symbol) @
     (case bt_get (rs_symbols s) symbol of
        None \<Rightarrow> le_bytes 1 0 @ le_bytes 1 0 @ le_bytes 1 0
      | Some v \<Rightarrow> time_bytes (sy_candle_event v) @ time_bytes (sy_candle_received v) @ time_bytes (sy_trade_event v)
          @ time_bytes (sy_trade_received v) @ time_bytes (sy_ticker_received v)
          @ (case sy_in_progress v of None \<Rightarrow> le_bytes 1 0 | Some c \<Rightarrow> le_bytes 1 1 @ candle_hash_bytes c)
          @ (case sy_trade v of None \<Rightarrow> le_bytes 1 0 | Some t \<Rightarrow> le_bytes 1 1 @ le_bytes 8 (at_id t)
               @ le_bytes 8 (quote_price_as_micros (at_price t)) @ le_bytes 8 (reference_as_e8 (at_quantity t)))
          @ (case sy_ticker v of None \<Rightarrow> le_bytes 1 0 | Some b \<Rightarrow> le_bytes 1 1 @ le_bytes 8 (tk_update_id b)
               @ le_bytes 8 (quote_price_as_micros (tk_best_bid b)) @ le_bytes 8 (quote_price_as_micros (tk_best_ask b))))"

definition reference_digest :: "(string \<Rightarrow> bytes32) \<Rightarrow> reference_state \<Rightarrow> bytes32" where
  "reference_digest blake3 s = blake3
     (''REFERENCE_REPLAY_STATE_V1'' @ le_bytes 8 (rs_epoch s) @ le_bytes 1 (reference_health_byte (rs_health s))
      @ le_bytes 8 (case rs_last_sequence s of None \<Rightarrow> 18446744073709551615 | Some n \<Rightarrow> n)
      @ time_bytes (rs_last_received s) @ concat (map finalized_hash_bytes (rs_finalized s))
      @ concat (map (symbol_hash_bytes s) all_symbols))"

definition symbol_snapshot_of :: "symbol_state \<Rightarrow> symbol_snapshot" where
  "symbol_snapshot_of v = \<lparr>ss_candle_event = sy_candle_event v, ss_candle_received = sy_candle_received v,
     ss_trade_event = sy_trade_event v, ss_trade_received = sy_trade_received v,
     ss_ticker_received = sy_ticker_received v\<rparr>"

definition reference_snapshot_of :: "(string \<Rightarrow> bytes32) \<Rightarrow> reference_state \<Rightarrow> reference_snapshot" where
  "reference_snapshot_of blake3 s = \<lparr>rn_health = rs_health s, rn_epoch = rs_epoch s, rn_last_sequence = rs_last_sequence s,
     rn_digest = reference_digest blake3 s, rn_last_received = rs_last_received s,
     rn_symbols = map (\<lambda>(symbol, v). (symbol, symbol_snapshot_of v)) (rs_symbols s)\<rparr>"

section \<open>Replay\<close>

fun reference_items :: "reference_state \<Rightarrow> event_journal \<Rightarrow> reference_replay_error + reference_state" where
  "reference_items s [] = Inr s"
| "reference_items s (Inl e # items) = Inl (RefReplayJournal e)"
| "reference_items s (Inr e # items) = rbind (reference_apply e s) (\<lambda>s'. reference_items s' items)"

definition reference_replay_path :: "event_journal \<Rightarrow> bool \<Rightarrow> reference_replay_error + reference_state" where
  "reference_replay_path items clean =
     rbind (reference_items reference_default items) (\<lambda>s.
     if \<not> clean then Inl RefIncompleteJournal else Inr s)"

end
