(* ===== verification/Feed_Supervisor.thy ===== *)
theory Feed_Supervisor
  imports Live_Market Reference_Replay
begin

text \<open>
  The supervisor of \<open>crates/feed-supervisor/src/lib.rs\<close>: from a snapshot of the market actor and one of the reference
  feed it decides whether their data is healthy, fresh and consistent in time. It reads no clock; an evaluation
  returns its result and the supervisor it leaves. \<open>blake3\<close> is a parameter.
\<close>

section \<open>Data\<close>

record supervisor_config =
  vc_market_stale_after :: int
  vc_reference_stale_after :: int
  vc_max_cross_feed_skew :: int
  vc_max_source_lag :: int
  vc_max_source_future :: int

definition supervisor_config_default :: supervisor_config where
  "supervisor_config_default = \<lparr>vc_market_stale_after = 5000000000, vc_reference_stale_after = 5000000000,
     vc_max_cross_feed_skew = 2000000000, vc_max_source_lag = 10000000000, vc_max_source_future = 500000000\<rparr>"

datatype supervisor_mode =
    SupStarting | SupReady | SupMarketUnavailable | SupReferenceUnavailable | SupMarketStale | SupReferenceStale
  | SupCrossFeedSkew | SupSourceLag | SupSourceFuture | SupHalted

fun supervisor_mode_byte :: "supervisor_mode \<Rightarrow> int" where
  "supervisor_mode_byte SupStarting = 1"
| "supervisor_mode_byte SupReady = 2"
| "supervisor_mode_byte SupMarketUnavailable = 3"
| "supervisor_mode_byte SupReferenceUnavailable = 4"
| "supervisor_mode_byte SupMarketStale = 5"
| "supervisor_mode_byte SupReferenceStale = 6"
| "supervisor_mode_byte SupCrossFeedSkew = 7"
| "supervisor_mode_byte SupSourceLag = 8"
| "supervisor_mode_byte SupSourceFuture = 9"
| "supervisor_mode_byte SupHalted = 10"

record supervisor_snapshot =
  vs_mode :: supervisor_mode
  vs_ready :: bool
  vs_evaluated_at :: "int option"
  vs_market_epoch :: int
  vs_market_sequence :: "int option"
  vs_market_digest :: bytes32
  vs_market_state_digest :: bytes32
  vs_reference_epoch :: int
  vs_reference_sequence :: "int option"
  vs_reference_digest :: bytes32
  vs_reference_state_digest :: bytes32
  vs_halt_reason :: "string option"
  vs_digest :: bytes32

record observation =
  ob_now :: int
  ob_market :: actor_snapshot
  ob_reference :: reference_snapshot

record feed_marker =
  fm_epoch :: int
  fm_sequence :: "int option"
  fm_digest :: bytes32
  fm_state_digest :: bytes32

record supervisor =
  sv_market_stale :: int
  sv_reference_stale :: int
  sv_max_skew :: int
  sv_max_lag :: int
  sv_max_future :: int
  sv_mode :: supervisor_mode
  sv_last_now :: "int option"
  sv_market_marker :: "feed_marker option"
  sv_reference_marker :: "feed_marker option"
  sv_halt_reason :: "string option"

datatype supervisor_error =
    SupInvalidConfig
  | SupInvalidNow int
  | SupClockRegression int int
  | FeedRegression string
  | DigestChangedWithoutSequence string
  | SupMissingTimestamp string
  | MissingReferenceSymbol reference_symbol
  | ReceiveTimeFuture
  | SnapshotTimingMismatch
  | SupTimestampOverflow
  | SupIsHalted string

fun symbol_debug :: "reference_symbol \<Rightarrow> string" where
  "symbol_debug BtcUsdt = ''BtcUsdt''"
| "symbol_debug EthUsdt = ''EthUsdt''"

fun supervisor_error_text :: "supervisor_error \<Rightarrow> string" where
  "supervisor_error_text SupInvalidConfig = ''supervisor duration configuration is zero or too large''"
| "supervisor_error_text (SupInvalidNow v) = ''invalid evaluation time: '' @ show_int v"
| "supervisor_error_text (SupClockRegression previous actual) = ''local evaluation clock regressed from ''
     @ show_int previous @ '' to '' @ show_int actual"
| "supervisor_error_text (FeedRegression feed) = feed @ '' feed snapshot epoch or sequence regressed''"
| "supervisor_error_text (DigestChangedWithoutSequence feed) = feed @ '' feed digest changed without sequence advancement''"
| "supervisor_error_text (SupMissingTimestamp s) = ''required timestamp is missing: '' @ s"
| "supervisor_error_text (MissingReferenceSymbol s) = ''reference snapshot is missing '' @ symbol_debug s"
| "supervisor_error_text ReceiveTimeFuture = ''a feed receive timestamp is later than evaluation time''"
| "supervisor_error_text SnapshotTimingMismatch = ''feed snapshot aggregate timing is internally inconsistent''"
| "supervisor_error_text SupTimestampOverflow = ''timestamp subtraction overflow''"
| "supervisor_error_text (SupIsHalted r) = ''supervisor is permanently halted: '' @ r"

definition duration_ns :: "int \<Rightarrow> supervisor_error + int" where
  "duration_ns d = rbind (ok_or (i64_new d) SupInvalidConfig) (\<lambda>ns. if ns = 0 then Inl SupInvalidConfig else Inr ns)"

definition supervisor_new :: "supervisor_config \<Rightarrow> supervisor_error + supervisor" where
  "supervisor_new c =
     rbind (duration_ns (vc_market_stale_after c)) (\<lambda>market.
     rbind (duration_ns (vc_reference_stale_after c)) (\<lambda>reference.
     rbind (duration_ns (vc_max_cross_feed_skew c)) (\<lambda>skew.
     rbind (duration_ns (vc_max_source_lag c)) (\<lambda>lag.
     rbind (duration_ns (vc_max_source_future c)) (\<lambda>future.
     Inr \<lparr>sv_market_stale = market, sv_reference_stale = reference, sv_max_skew = skew, sv_max_lag = lag,
       sv_max_future = future, sv_mode = SupStarting, sv_last_now = None, sv_market_marker = None,
       sv_reference_marker = None, sv_halt_reason = None\<rparr>)))))"

section \<open>Markers\<close>

definition sequence_bytes :: "int option \<Rightarrow> string" where
  "sequence_bytes n = le_bytes 8 (case n of None \<Rightarrow> 18446744073709551615 | Some v \<Rightarrow> v)"

definition market_marker_digest :: "(string \<Rightarrow> bytes32) \<Rightarrow> actor_snapshot \<Rightarrow> bytes32" where
  "market_marker_digest blake3 s = blake3
     (''MARKET_SUPERVISION_MARKER_V1'' @ le_bytes 8 (as_epoch s) @ sequence_bytes (as_last_sequence s)
      @ bytes_of_id (as_digest s) @ time_bytes (as_last_market_event s) @ time_bytes (as_last_market_received s))"

definition symbol_times :: "reference_snapshot \<Rightarrow> reference_symbol \<Rightarrow> string" where
  "symbol_times s symbol =
     (case bt_get (rn_symbols s) symbol of
        None \<Rightarrow> concat (replicate 5 (time_bytes None))
      | Some t \<Rightarrow> concat (map time_bytes [ss_candle_event t, ss_candle_received t, ss_trade_event t, ss_trade_received t,
          ss_ticker_received t]))"

definition reference_marker_digest :: "(string \<Rightarrow> bytes32) \<Rightarrow> reference_snapshot \<Rightarrow> bytes32" where
  "reference_marker_digest blake3 s = blake3
     (''REFERENCE_SUPERVISION_MARKER_V1'' @ le_bytes 8 (rn_epoch s) @ sequence_bytes (rn_last_sequence s)
      @ bytes_of_id (rn_digest s) @ time_bytes (rn_last_received s)
      @ concat (map (\<lambda>symbol. le_bytes 1 (symbol_byte symbol) @ symbol_times s symbol) all_symbols))"

definition market_marker :: "(string \<Rightarrow> bytes32) \<Rightarrow> actor_snapshot \<Rightarrow> feed_marker" where
  "market_marker blake3 s = \<lparr>fm_epoch = as_epoch s, fm_sequence = as_last_sequence s,
     fm_digest = market_marker_digest blake3 s, fm_state_digest = as_digest s\<rparr>"

definition reference_marker :: "(string \<Rightarrow> bytes32) \<Rightarrow> reference_snapshot \<Rightarrow> feed_marker" where
  "reference_marker blake3 s = \<lparr>fm_epoch = rn_epoch s, fm_sequence = rn_last_sequence s,
     fm_digest = reference_marker_digest blake3 s, fm_state_digest = rn_digest s\<rparr>"

definition validate_marker :: "string \<Rightarrow> feed_marker \<Rightarrow> feed_marker \<Rightarrow> supervisor_error + unit" where
  "validate_marker feed previous next_marker =
     (if fm_epoch next_marker < fm_epoch previous
         \<or> (case fm_sequence previous of None \<Rightarrow> False
             | Some l \<Rightarrow> (case fm_sequence next_marker of None \<Rightarrow> True | Some r \<Rightarrow> r < l))
      then Inl (FeedRegression feed)
      else if fm_sequence previous = fm_sequence next_marker \<and> fm_digest previous \<noteq> fm_digest next_marker
      then Inl (DigestChangedWithoutSequence feed)
      else Inr ())"

definition validate_previous_marker :: "string \<Rightarrow> feed_marker option \<Rightarrow> feed_marker \<Rightarrow> supervisor_error + unit" where
  "validate_previous_marker feed previous next_marker =
     (case previous of None \<Rightarrow> Inr () | Some p \<Rightarrow> validate_marker feed p next_marker)"

section \<open>Times\<close>

definition option_list :: "'a option \<Rightarrow> 'a list" where
  "option_list v = (case v of None \<Rightarrow> [] | Some x \<Rightarrow> [x])"

definition component_times :: "symbol_snapshot \<Rightarrow> int list" where
  "component_times t = concat (map option_list [ss_candle_received t, ss_trade_received t, ss_ticker_received t])"

definition validate_no_future_receive :: "observation \<Rightarrow> supervisor_error + unit" where
  "validate_no_future_receive ob =
     (let times = option_list (as_last_market_received (ob_market ob)) @ option_list (rn_last_received (ob_reference ob))
        @ concat (map (\<lambda>e. component_times (snd e)) (rn_symbols (ob_reference ob))) in
      if list_ex (\<lambda>t. t < 0 \<or> ob_now ob < t) times then Inl ReceiveTimeFuture else Inr ())"

fun latest_component :: "int option list \<Rightarrow> int \<Rightarrow> supervisor_error + int" where
  "latest_component [] latest = Inr latest"
| "latest_component (t # ts) latest =
     rbind (ok_or t (SupMissingTimestamp ''reference component receive'')) (\<lambda>v. latest_component ts (max latest v))"

fun latest_over_symbols :: "reference_snapshot \<Rightarrow> reference_symbol list \<Rightarrow> int \<Rightarrow> supervisor_error + int" where
  "latest_over_symbols s [] latest = Inr latest"
| "latest_over_symbols s (symbol # symbols) latest =
     rbind (ok_or (bt_get (rn_symbols s) symbol) (MissingReferenceSymbol symbol)) (\<lambda>t.
     rbind (latest_component [ss_candle_received t, ss_trade_received t, ss_ticker_received t] latest) (\<lambda>latest'.
     latest_over_symbols s symbols latest'))"

definition validate_reference_timing :: "reference_snapshot \<Rightarrow> supervisor_error + unit" where
  "validate_reference_timing s =
     rbind (ok_or (rn_last_received s) (SupMissingTimestamp ''reference receive'')) (\<lambda>expected.
     rbind (latest_over_symbols s all_symbols i64_min) (\<lambda>latest.
     if latest = expected then Inr () else Inl SnapshotTimingMismatch))"

definition age :: "int \<Rightarrow> int \<Rightarrow> supervisor_error + int" where
  "age now t = ok_or (sub64 now t) SupTimestampOverflow"

section \<open>The mode\<close>

text \<open>The loop over the symbols: it may return a mode early, or collect the times of the sources.\<close>

fun reference_sources ::
  "supervisor \<Rightarrow> observation \<Rightarrow> reference_symbol list \<Rightarrow> int list \<Rightarrow> supervisor_error + (supervisor_mode + int list)" where
  "reference_sources sv ob [] events = Inr (Inr events)"
| "reference_sources sv ob (symbol # symbols) events =
     rbind (ok_or (bt_get (rn_symbols (ob_reference ob)) symbol) (MissingReferenceSymbol symbol)) (\<lambda>t.
     rbind (ok_or (oldest_required_received t) (SupMissingTimestamp ''reference component receive'')) (\<lambda>oldest.
     rbind (age (ob_now ob) oldest) (\<lambda>a.
     if sv_reference_stale sv < a then Inr (Inl SupReferenceStale)
     else
       rbind (ok_or (ss_candle_event t) (SupMissingTimestamp ''reference candle event'')) (\<lambda>candle.
       rbind (ok_or (ss_trade_event t) (SupMissingTimestamp ''reference aggregate-trade event'')) (\<lambda>trade.
       reference_sources sv ob symbols (events @ [candle, trade]))))))"

definition u64_or_max :: "int \<Rightarrow> int" where
  "u64_or_max v = (if 0 \<le> v then v else 18446744073709551615)"

fun source_times_mode :: "supervisor \<Rightarrow> int \<Rightarrow> int list \<Rightarrow> supervisor_error + supervisor_mode" where
  "source_times_mode sv now [] = Inr SupReady"
| "source_times_mode sv now (t # ts) =
     (if now < t then
        (if u64_or_max (sv_max_future sv) < \<bar>t - now\<bar> then Inr SupSourceFuture else source_times_mode sv now ts)
      else rbind (age now t) (\<lambda>a. if sv_max_lag sv < a then Inr SupSourceLag else source_times_mode sv now ts))"

definition evaluate_mode :: "supervisor \<Rightarrow> observation \<Rightarrow> supervisor_error + supervisor_mode" where
  "evaluate_mode sv ob =
     (let market = ob_market ob; reference = ob_reference ob in
      if as_mode market \<noteq> ActorReady \<or> \<not> as_ready market then Inr SupMarketUnavailable
      else if rn_health reference \<noteq> RefReady then Inr SupReferenceUnavailable
      else
        rbind (ok_or (as_last_market_received market) (SupMissingTimestamp ''market receive'')) (\<lambda>market_received.
        rbind (ok_or (as_last_market_event market) (SupMissingTimestamp ''market event'')) (\<lambda>market_event.
        rbind (ok_or (rn_last_received reference) (SupMissingTimestamp ''reference receive'')) (\<lambda>reference_received.
        rbind (age (ob_now ob) market_received) (\<lambda>a.
        if sv_market_stale sv < a then Inr SupMarketStale
        else
          rbind (reference_sources sv ob all_symbols [market_event]) (\<lambda>r.
          case r of
            Inl m \<Rightarrow> Inr m
          | Inr events \<Rightarrow>
              if u64_or_max (sv_max_skew sv) < \<bar>market_received - reference_received\<bar> then Inr SupCrossFeedSkew
              else source_times_mode sv (ob_now ob) events))))))"

section \<open>Evaluation\<close>

definition supervisor_halt :: "supervisor_error \<Rightarrow> supervisor \<Rightarrow> supervisor" where
  "supervisor_halt e sv = sv\<lparr>sv_mode := SupHalted, sv_halt_reason := Some (supervisor_error_text e)\<rparr>"

definition marker_bytes :: "feed_marker \<Rightarrow> string" where
  "marker_bytes m = le_bytes 8 (fm_epoch m) @ sequence_bytes (fm_sequence m) @ bytes_of_id (fm_digest m)
     @ bytes_of_id (fm_state_digest m)"

definition supervisor_digest ::
  "(string \<Rightarrow> bytes32) \<Rightarrow> supervisor_mode \<Rightarrow> int option \<Rightarrow> feed_marker \<Rightarrow> feed_marker \<Rightarrow> string option \<Rightarrow> bytes32" where
  "supervisor_digest blake3 m now market reference reason = blake3
     (''CROSS_FEED_SUPERVISOR_V1'' @ le_bytes 1 (supervisor_mode_byte m) @ time_bytes now @ marker_bytes market
      @ marker_bytes reference
      @ (case reason of None \<Rightarrow> le_bytes 8 0 | Some r \<Rightarrow> le_bytes 8 (int (length r)) @ r))"

definition no_marker :: feed_marker where
  "no_marker = \<lparr>fm_epoch = 0, fm_sequence = None, fm_digest = 0, fm_state_digest = 0\<rparr>"

definition supervisor_snapshot_of :: "(string \<Rightarrow> bytes32) \<Rightarrow> supervisor \<Rightarrow> supervisor_snapshot" where
  "supervisor_snapshot_of blake3 sv =
     (let market = (case sv_market_marker sv of None \<Rightarrow> no_marker | Some m \<Rightarrow> m);
        reference = (case sv_reference_marker sv of None \<Rightarrow> no_marker | Some m \<Rightarrow> m) in
      \<lparr>vs_mode = sv_mode sv, vs_ready = (sv_mode sv = SupReady), vs_evaluated_at = sv_last_now sv,
       vs_market_epoch = fm_epoch market, vs_market_sequence = fm_sequence market, vs_market_digest = fm_digest market,
       vs_market_state_digest = fm_state_digest market, vs_reference_epoch = fm_epoch reference,
       vs_reference_sequence = fm_sequence reference, vs_reference_digest = fm_digest reference,
       vs_reference_state_digest = fm_state_digest reference, vs_halt_reason = sv_halt_reason sv,
       vs_digest = supervisor_digest blake3 (sv_mode sv) (sv_last_now sv) market reference (sv_halt_reason sv)\<rparr>)"

text \<open>The checks of \<open>evaluate\<close> in order; each error halts the supervisor.\<close>

definition evaluate_checks :: "(string \<Rightarrow> bytes32) \<Rightarrow> observation \<Rightarrow> supervisor \<Rightarrow> supervisor_error + supervisor_mode" where
  "evaluate_checks blake3 ob sv =
     (if ob_now ob < 0 then Inl (SupInvalidNow (ob_now ob))
      else
        rbind (case sv_last_now sv of
            None \<Rightarrow> Inr ()
          | Some previous \<Rightarrow> if ob_now ob < previous then Inl (SupClockRegression previous (ob_now ob)) else Inr ()) (\<lambda>_.
        rbind (validate_previous_marker ''market'' (sv_market_marker sv) (market_marker blake3 (ob_market ob))) (\<lambda>_.
        rbind (validate_previous_marker ''reference'' (sv_reference_marker sv) (reference_marker blake3 (ob_reference ob))) (\<lambda>_.
        rbind (validate_no_future_receive ob) (\<lambda>_.
        rbind (if rn_health (ob_reference ob) = RefReady then validate_reference_timing (ob_reference ob) else Inr ()) (\<lambda>_.
        evaluate_mode sv ob))))))"

definition supervisor_evaluate ::
  "(string \<Rightarrow> bytes32) \<Rightarrow> observation \<Rightarrow> supervisor \<Rightarrow> (supervisor_error + supervisor_snapshot) \<times> supervisor" where
  "supervisor_evaluate blake3 ob sv =
     (case sv_halt_reason sv of
        Some reason \<Rightarrow> (Inl (SupIsHalted reason), sv)
      | None \<Rightarrow>
          case evaluate_checks blake3 ob sv of
            Inl e \<Rightarrow> (Inl e, supervisor_halt e sv)
          | Inr m \<Rightarrow>
              let sv' = sv\<lparr>sv_mode := m, sv_last_now := Some (ob_now ob),
                sv_market_marker := Some (market_marker blake3 (ob_market ob)),
                sv_reference_marker := Some (reference_marker blake3 (ob_reference ob))\<rparr>
              in (Inr (supervisor_snapshot_of blake3 sv'), sv'))"

fun supervisor_observe :: "(string \<Rightarrow> bytes32) \<Rightarrow> supervisor \<Rightarrow> observation list \<Rightarrow> supervisor_error + supervisor" where
  "supervisor_observe blake3 sv [] = Inr sv"
| "supervisor_observe blake3 sv (ob # obs) =
     (case supervisor_evaluate blake3 ob sv of
        (Inl e, sv') \<Rightarrow> Inl e
      | (Inr _, sv') \<Rightarrow> supervisor_observe blake3 sv' obs)"

definition supervisor_replay ::
  "(string \<Rightarrow> bytes32) \<Rightarrow> supervisor_config \<Rightarrow> observation list \<Rightarrow> supervisor_error + supervisor_snapshot" where
  "supervisor_replay blake3 c obs =
     rbind (supervisor_new c) (\<lambda>sv.
     rbind (supervisor_observe blake3 sv obs) (\<lambda>sv'.
     Inr (supervisor_snapshot_of blake3 sv')))"

end
