(* ===== verification/Live_Market_Theorems.thy ===== *)
theory Live_Market_Theorems
  imports Live_Market Checkpoint_Theorems
begin

text \<open>
  What the live market state guarantees, over any sequence of inputs of its actor: the state it holds is the one that
  replaying the received journal rebuilds, ready means synchronized, authoritative and fresh, and an actor that has
  ended has not left a ready snapshot behind.
\<close>

section \<open>The core over time\<close>

text \<open>What the operations do to a core that is not halted: the replayed state moves only by accepted envelopes.\<close>

lemma live_halt_fields [simp]:
  "lc_replay (live_halt r c) = lc_replay c" "lc_mode (live_halt r c) = ActorHalted" "lc_halt_reason (live_halt r c) = Some r"
  "lc_last_received (live_halt r c) = lc_last_received c" "lc_stale_after (live_halt r c) = lc_stale_after c"
  "lc_last_event (live_halt r c) = lc_last_event c"
  by (simp_all add: live_halt_def)

lemma refresh_mode_fields [simp]:
  "lc_replay (snd (refresh_mode now c)) = lc_replay c" "lc_last_received (snd (refresh_mode now c)) = lc_last_received c"
  "lc_stale_after (snd (refresh_mode now c)) = lc_stale_after c"
  by (auto simp: refresh_mode_def split: epoch_status.split option.split sum.split)

text \<open>A core is consistent: a halt reason comes with the mode, and ready means synchronized and authoritative.\<close>

definition shows_shutdown :: "live_core \<Rightarrow> bool" where
  "shows_shutdown c \<longleftrightarrow> (rp_status (lc_replay c) = EpochShutdown \<and> lc_halt_reason c = None \<longrightarrow> lc_mode c = ActorShutdown)"

lemma halted_shows_shutdown [simp]: "shows_shutdown (live_halt r c)"
  by (simp add: shows_shutdown_def live_halt_def)

definition live_ok :: "live_core \<Rightarrow> bool" where
  "live_ok c \<longleftrightarrow> (lc_halt_reason c \<noteq> None \<longleftrightarrow> lc_mode c = ActorHalted)
     \<and> (lc_mode c \<in> {ActorReady, ActorStale} \<longrightarrow> rp_status (lc_replay c) = EpochSynchronized
          \<and> replay_is_authoritative (lc_replay c) \<and> lc_last_received c \<noteq> None)
     \<and> shows_shutdown c
     \<and> 0 < lc_stale_after c"

lemma refresh_mode_ok:
  "lc_halt_reason c = None \<Longrightarrow> 0 < lc_stale_after c \<Longrightarrow> live_ok (snd (refresh_mode now c))"
  by (auto simp: refresh_mode_def live_ok_def live_halt_def shows_shutdown_def split: epoch_status.split option.split sum.split)

lemma refresh_mode_error: "isl (fst (refresh_mode now c)) \<Longrightarrow> lc_mode (snd (refresh_mode now c)) = ActorHalted"
  by (auto simp: refresh_mode_def split: epoch_status.splits option.splits sum.splits if_splits)

lemma refresh_mode_no_error:
  "\<not> isl (fst (refresh_mode now c)) \<Longrightarrow> lc_halt_reason (snd (refresh_mode now c)) = lc_halt_reason c"
  by (auto simp: refresh_mode_def split: epoch_status.splits option.splits sum.splits if_splits)

lemma refresh_mode_ready:
  assumes "lc_mode (snd (refresh_mode now c)) = ActorReady"
  shows "\<exists>last. lc_last_received c = Some last \<and> last \<le> now \<and> now - last \<le> lc_stale_after c
    \<and> replay_is_authoritative (lc_replay c)"
  using assms by (auto simp: refresh_mode_def live_age_def sub64_def result_simps ok_or_def i64_new_def
      split: epoch_status.splits option.splits sum.splits if_splits)


lemma live_apply_cases:
  assumes "live_ok c" and "lc_halt_reason c = None" and "live_apply cx e c = (r, c')"
  shows "live_ok c' \<and> lc_stale_after c' = lc_stale_after c \<and> (isl r \<longrightarrow> lc_mode c' = ActorHalted)
    \<and> (\<not> isl r \<longrightarrow> replay_apply cx e (lc_replay c) = Inr (lc_replay c') \<and> lc_halt_reason c' = None)
    \<and> (lc_mode c' = ActorReady \<longrightarrow> (\<exists>received. lc_last_received c' = Some received \<and> received \<le> ev_received_time e
         \<and> ev_received_time e - received \<le> lc_stale_after c' \<and> replay_is_authoritative (lc_replay c')))"
proof (cases "market_time_error e c")
  case (Some err)
  then show ?thesis
    using assms by (auto simp: live_apply_def live_ok_def)
next
  case None
  show ?thesis
  proof (cases "replay_apply cx e (lc_replay c)")
    case (Inl err)
    then show ?thesis
      using assms None by (auto simp: live_apply_def live_ok_def)
  next
    case (Inr s)
    define b where "b = (if ev_source e = SourceMarket
        then c\<lparr>lc_replay := s, lc_last_event := Some (ev_event_time e), lc_last_received := Some (ev_received_time e)\<rparr>
        else c\<lparr>lc_replay := s\<rparr>)"
    have b: "lc_replay b = s" "lc_halt_reason b = None" "lc_stale_after b = lc_stale_after c" "0 < lc_stale_after b"
      using assms(1,2) by (simp_all add: b_def live_ok_def)
    have step: "refresh_mode (ev_received_time e) b = (r, c')"
      using assms None Inr by (simp add: live_apply_def b_def Let_def split: if_splits)
    then have c': "c' = snd (refresh_mode (ev_received_time e) b)" "r = fst (refresh_mode (ev_received_time e) b)"
      by simp_all
    have ok: "live_ok c'"
      unfolding c' by (rule refresh_mode_ok [OF b(2,4)])
    have "isl r \<longrightarrow> lc_mode c' = ActorHalted" "\<not> isl r \<longrightarrow> lc_halt_reason c' = None"
      using refresh_mode_error [of "ev_received_time e" b] refresh_mode_no_error [of "ev_received_time e" b] b(2)
      unfolding c' by simp_all
    then show ?thesis
      using ok Inr b refresh_mode_ready [of "ev_received_time e" b] unfolding c' by auto
  qed
qed

lemma evaluate_health_cases:
  assumes "live_ok c" and "lc_halt_reason c = None" and "evaluate_health now c = (r, c')"
  shows "live_ok c' \<and> lc_stale_after c' = lc_stale_after c \<and> lc_replay c' = lc_replay c
    \<and> (isl r \<longrightarrow> lc_mode c' = ActorHalted) \<and> (\<not> isl r \<longrightarrow> lc_halt_reason c' = None)
    \<and> (lc_mode c' = ActorReady \<longrightarrow> (\<exists>received. lc_last_received c' = Some received \<and> received \<le> now
         \<and> now - received \<le> lc_stale_after c' \<and> replay_is_authoritative (lc_replay c')))"
proof -
  have c': "c' = snd (refresh_mode now c)" "r = fst (refresh_mode now c)"
    using assms(2,3) by (simp_all add: evaluate_health_def)
  have "live_ok c'"
    unfolding c' using assms(1,2) by (intro refresh_mode_ok) (simp_all add: live_ok_def)
  then show ?thesis
    using refresh_mode_error [of now c] refresh_mode_no_error [of now c] refresh_mode_ready [of now c] assms(2)
    unfolding c' by auto
qed

lemma live_close_not_ready: "live_ok c \<Longrightarrow> lc_mode (live_close c) \<noteq> ActorReady"
  by (auto simp: live_close_def live_ok_def replay_is_authoritative_def)

section \<open>The actor over its inputs\<close>

fun input_time :: "actor_input \<Rightarrow> int option" where
  "input_time (ActorReceived None) = None"
| "input_time (ActorReceived (Some e)) = Some (ev_received_time e)"
| "input_time (ActorTick clock) = (case clock of Inl _ \<Rightarrow> None | Inr now \<Rightarrow> Some now)"

fun received_events :: "actor_input list \<Rightarrow> event_journal" where
  "received_events [] = []"
| "received_events (ActorReceived (Some e) # is) = Inr e # received_events is"
| "received_events (_ # is) = received_events is"

text \<open>A task that goes on has a core that is consistent and not halted.\<close>

definition live_running :: "int \<Rightarrow> live_core \<Rightarrow> bool" where
  "live_running stale c \<longleftrightarrow> live_ok c \<and> lc_halt_reason c = None \<and> lc_stale_after c = stale"

lemma actor_round_goes_on:
  assumes "actor_round cx i c = (False, c')" and "live_running stale c"
  shows "live_running stale c'
    \<and> replay_items cx wrap (lc_replay c) (received_events [i]) = Inr (lc_replay c')"
proof (cases i)
  case (ActorReceived e)
  then obtain v where v: "e = Some v"
    using assms(1) by (cases e) auto
  obtain r where r: "live_apply cx v c = (r, c')" "\<not> isl r"
    using assms(1) v ActorReceived by (auto split: prod.splits)
  then show ?thesis
    using live_apply_cases [OF _ _ r(1)] assms(2) by (simp add: live_running_def ActorReceived v)
next
  case (ActorTick clock)
  then obtain now r where r: "clock = Inr now" "evaluate_health now c = (r, c')" "\<not> isl r"
    using assms(1) by (auto simp: actor_tick_def split: sum.splits prod.splits)
  then show ?thesis
    using evaluate_health_cases [OF _ _ r(2)] assms(2) by (simp add: live_running_def ActorTick)
qed

lemma actor_round_ready:
  assumes "actor_round cx i c = (stop, c')" and "live_running stale c" and "lc_mode c' = ActorReady"
  shows "\<not> stop \<and> (\<exists>t received. input_time i = Some t \<and> lc_last_received c' = Some received \<and> received \<le> t
    \<and> t - received \<le> stale) \<and> replay_is_authoritative (lc_replay c')"
proof (cases i)
  case (ActorReceived e)
  then obtain v where v: "e = Some v"
    using assms live_close_not_ready [of c] by (cases e) (auto simp: live_running_def)
  obtain r where r: "live_apply cx v c = (r, c')" "stop = isl r"
    using assms(1) v ActorReceived by (auto split: prod.splits)
  then show ?thesis
    using live_apply_cases [OF _ _ r(1)] assms(2,3) by (auto simp: live_running_def ActorReceived v)
next
  case (ActorTick clock)
  show ?thesis
  proof (cases clock)
    case (Inl err)
    then show ?thesis
      using assms ActorTick by (auto simp: actor_tick_def live_running_def)
  next
    case (Inr now)
    obtain r d where r: "evaluate_health now c = (r, d)" by fastforce
    show ?thesis
      using evaluate_health_cases [OF _ _ r] assms r ActorTick Inr
      by (cases r) (auto simp: actor_tick_def live_running_def split: if_splits)
  qed
qed

definition live_ended :: "live_core \<Rightarrow> bool" where
  "live_ended c \<longleftrightarrow> lc_mode c \<in> {ActorClosed, ActorHalted, ActorShutdown} \<and> (lc_mode c = ActorHalted \<longrightarrow> lc_halt_reason c \<noteq> None)"

lemma actor_round_ends:
  assumes "actor_round cx i c = (True, c')" and "live_running stale c"
  shows "live_ended c'"
proof (cases i)
  case (ActorReceived e)
  show ?thesis
  proof (cases e)
    case None
    then have "c' = live_close c" "shows_shutdown c" "lc_halt_reason c = None"
      using assms ActorReceived by (auto simp: live_running_def live_ok_def)
    then show ?thesis
      by (auto simp: live_close_def live_ended_def shows_shutdown_def)
  next
    case (Some v)
    then obtain r where r: "live_apply cx v c = (r, c')" "isl r"
      using assms(1) ActorReceived by (auto split: prod.splits)
    then show ?thesis
      using live_apply_cases [OF _ _ r(1)] assms(2) by (auto simp: live_running_def live_ended_def live_ok_def)
  qed
next
  case (ActorTick clock)
  show ?thesis
  proof (cases clock)
    case (Inl err)
    then show ?thesis
      using assms ActorTick by (auto simp: actor_tick_def live_running_def live_ended_def)
  next
    case (Inr now)
    obtain r d where r: "evaluate_health now c = (r, d)" by fastforce
    show ?thesis
      using evaluate_health_cases [OF _ _ r] assms r ActorTick Inr
      by (cases r) (auto simp: actor_tick_def live_running_def live_ended_def live_ok_def split: if_splits)
  qed
qed

lemma received_events_append: "received_events (is @ js) = received_events is @ received_events js"
  by (induction "is" rule: received_events.induct) simp_all

lemma actor_run_goes_on:
  assumes "actor_run cx c is = (ss, False, c')" and "live_running stale c"
  shows "live_running stale c' \<and> replay_items cx wrap (lc_replay c) (received_events is) = Inr (lc_replay c')
    \<and> length ss = length is \<and> (is \<noteq> [] \<longrightarrow> last ss = live_snapshot cx c')"
  using assms
proof (induction cx c "is" arbitrary: ss rule: actor_run.induct)
  case (2 cx c i "is")
  obtain d where d: "actor_round cx i c = (False, d)"
    using "2.prems"(1) by (auto split: prod.splits bool.splits)
  then obtain rest where rest: "actor_run cx d is = (rest, False, c')" "ss = live_snapshot cx d # rest"
    using "2.prems"(1) by (auto split: prod.splits)
  note step = actor_round_goes_on [OF d "2.prems"(2), of wrap]
  have "received_events (i # is) = received_events [i] @ received_events is"
    using received_events_append [of "[i]" "is"] by simp
  then show ?case
    using "2.IH" [OF d [symmetric] refl rest(1)] step rest by (cases "is") (auto simp: replay_items_append)
qed simp

lemma spawned_running:
  assumes "spawn_actor config = Inr c" and "0 \<le> ac_stale_after config"
  shows "live_running (ac_stale_after config) c \<and> lc_replay c = replay_default"
  using assms by (auto simp: spawn_actor_def live_new_def live_running_def live_ok_def shows_shutdown_def replay_default_def result_simps checked_simps
      split: if_splits)

text \<open>C13: The live state is the replayed journal: as long as the actor goes on, the state its core holds is exactly the
  one that replaying the received envelopes from the start rebuilds, and the last published snapshot shows its epoch,
  its sequence and its digest.\<close>
theorem live_state_is_the_replayed_journal:
  assumes "spawn_actor config = Inr c0" and "0 \<le> ac_stale_after config" and "actor_run cx c0 is = (ss, False, c)"
    and "is \<noteq> []"
  shows "\<exists>s. replay_segmented_path cx (received_events is) = Inr s \<and> lc_replay c = s
    \<and> as_digest (last ss) = replay_digest cx s \<and> as_epoch (last ss) = rp_epoch s
    \<and> as_last_sequence (last ss) = rp_last_sequence s \<and> length ss = length is"
  using actor_run_goes_on [OF assms(3), of _ ReplaySegment] spawned_running [OF assms(1,2)] assms(4)
  by (auto simp: replay_segmented_path_def live_snapshot_def)

text \<open>Ready means fresh and consistent: whenever the actor publishes a snapshot that is ready, the round happened at
  a known time that is not before the last market event it shows and at most the staleness budget after it, the
  replayed state is synchronized, and all of its books, of which there is at least one, are authoritative.\<close>
theorem ready_snapshot_is_fresh:
  assumes "spawn_actor config = Inr c0" and "0 \<le> ac_stale_after config" and "actor_run cx c0 is = (ss, False, c)"
    and "actor_round cx i c = (stop, c')" and "as_ready (live_snapshot cx c')"
  shows "\<exists>t received. input_time i = Some t \<and> as_last_market_received (live_snapshot cx c') = Some received
    \<and> received \<le> t \<and> t - received \<le> ac_stale_after config
    \<and> replay_segmented_path cx (received_events (is @ [i])) = Inr (lc_replay c')
    \<and> rp_status (lc_replay c') = EpochSynchronized \<and> rp_books (lc_replay c') \<noteq> []
    \<and> (\<forall>e \<in> set (rp_books (lc_replay c')). tb_authoritative (snd e))"
proof -
  let ?stale = "ac_stale_after config"
  have start: "live_running ?stale c0" "lc_replay c0 = replay_default"
    using spawned_running [OF assms(1,2)] by simp_all
  then have c: "live_running ?stale c" "replay_items cx ReplaySegment replay_default (received_events is) = Inr (lc_replay c)"
    using actor_run_goes_on [OF assms(3), of ?stale ReplaySegment] by simp_all
  have ready: "lc_mode c' = ActorReady"
    using assms(5) by (simp add: live_snapshot_def)
  note step = actor_round_ready [OF assms(4) c(1) ready]
  have "replay_items cx ReplaySegment (lc_replay c) (received_events [i]) = Inr (lc_replay c')"
    using actor_round_goes_on [OF _ c(1), of cx i c' ReplaySegment] assms(4) step by simp
  then show ?thesis
    using step c(2)
    by (auto simp: replay_segmented_path_def received_events_append replay_items_append live_snapshot_def
        replay_is_authoritative_def list_all_iff)
qed

text \<open>The last word of an actor is not ready: when the task ends, because its senders are gone, because an envelope was
  refused or because the clock failed, the last snapshot it publishes is not ready and is closed, halted with a reason
  or shut down, and no later round or health check of the halted core changes it.\<close>
theorem ended_actor_is_not_ready:
  assumes "spawn_actor config = Inr c0" and "0 \<le> ac_stale_after config" and "actor_run cx c0 is = (ss, True, c)"
  shows "ss \<noteq> [] \<and> last ss = live_snapshot cx c \<and> \<not> as_ready (last ss)
    \<and> as_mode (last ss) \<in> {ActorClosed, ActorHalted, ActorShutdown}
    \<and> (as_mode (last ss) = ActorHalted \<longrightarrow> (\<exists>r. as_halt_reason (last ss) = Some r
         \<and> live_apply cx e c = (Inl (ActorIsHalted r), c) \<and> evaluate_health now c = (Inl (ActorIsHalted r), c)
         \<and> live_close c = c))"
proof -
  have run: "live_running (ac_stale_after config) c0"
    using spawned_running [OF assms(1,2)] by simp
  have "ss \<noteq> [] \<and> last ss = live_snapshot cx c \<and> live_ended c" if "actor_run cx c0 is = (ss, True, c)"
      "live_running stale c0" for c0 ss stale
    using that
  proof (induction cx c0 "is" arbitrary: ss rule: actor_run.induct)
    case (2 cx c0 i "is")
    obtain stop d where d: "actor_round cx i c0 = (stop, d)" by fastforce
    show ?case
    proof (cases stop)
      case True
      then show ?thesis
        using "2.prems" d actor_round_ends [of cx i c0 d stale] by auto
    next
      case False
      obtain rest where "actor_run cx d is = (rest, True, c)" "ss = live_snapshot cx d # rest"
        using "2.prems"(1) d False by (auto split: prod.splits)
      then show ?thesis
        using "2.IH" [OF d [symmetric], of rest] actor_round_goes_on [of cx i c0 d stale] "2.prems"(2) d False by auto
    qed
  qed simp
  from this [OF assms(3) run] show ?thesis
    by (auto simp: live_ended_def live_snapshot_def live_apply_def evaluate_health_def live_close_def)
qed

section \<open>An actor\<close>

definition demo_actor_config :: actor_config where
  "demo_actor_config = actor_config_default\<lparr>ac_stale_after := 10\<rparr>"

definition demo_inputs :: "actor_input list" where
  "demo_inputs = [ActorReceived (Some (demo_envelope 1 SourceSystem ''__public_market_gateway__'' ''PUBLIC_MARKET_EPOCH_START_V1'')),
     ActorReceived (Some (demo_envelope 2 SourceMarket demo_condition (demo_payload 1 ''b''))),
     ActorReceived (Some (demo_envelope 3 SourceSystem ''__public_market_gateway__'' ''PUBLIC_MARKET_EPOCH_SYNCED_V1''))]"

definition demo_core :: live_core where
  "demo_core = \<lparr>lc_replay = demo_replay, lc_stale_after = 10, lc_mode = ActorReady, lc_last_event = Some 5000000,
     lc_last_received = Some 0, lc_halt_reason = None\<rparr>"

lemma demo_spawned: "spawn_actor demo_actor_config = Inr \<lparr>lc_replay = replay_default, lc_stale_after = 10, lc_mode = ActorStarting,
    lc_last_event = None, lc_last_received = None, lc_halt_reason = None\<rparr>"
  by (simp add: spawn_actor_def demo_actor_config_def actor_config_default_def live_new_def i64_new_def i64_ok_def)

text \<open>The states that the replay of the journal passes.\<close>

definition demo_started :: replay_state where
  "demo_started = \<lparr>rp_epoch = 1, rp_status = EpochCollecting, rp_last_sequence = Some 1, rp_books = []\<rparr>"

lemma demo_replay_steps:
  "replay_apply demo_replay_codec (demo_envelope 1 SourceSystem ''__public_market_gateway__'' ''PUBLIC_MARKET_EPOCH_START_V1'') replay_default
     = Inr demo_started"
  "replay_apply demo_replay_codec (demo_envelope 2 SourceMarket demo_condition (demo_payload 1 ''b'')) demo_started
     = Inr (demo_replay\<lparr>rp_status := EpochCollecting, rp_last_sequence := Some 2\<rparr>)"
  "replay_apply demo_replay_codec (demo_envelope 3 SourceSystem ''__public_market_gateway__'' ''PUBLIC_MARKET_EPOCH_SYNCED_V1'')
     (demo_replay\<lparr>rp_status := EpochCollecting, rp_last_sequence := Some 2\<rparr>) = Inr demo_replay"
  by (simp_all add: demo_envelope_def replay_apply_def validate_sequence_def
      replay_default_def apply_validated_def apply_system_def apply_market_def addu64_def u64_ok_def epoch_active_def
      demo_replay_codec_def demo_decoded mul64_def i64_new_def i64_ok_def apply_snapshot_def levels_to_map_def add_level_def bt_contains_def
      less_price_micros_def validate_not_crossed_def is_crossed_def less_eq_price_micros_def demo_replay_def demo_token_book_def
      demo_started_def)

lemma demo_envelope_fields [simp]:
  "ev_source (demo_envelope n src m p) = src" "ev_received_time (demo_envelope n src m p) = 0"
  "ev_event_time (demo_envelope n src m p) = 5000000"
  by (simp_all add: demo_envelope_def)

lemma demo_replay_fields [simp]:
  "rp_status demo_replay = EpochSynchronized" "rp_status demo_started = EpochCollecting" "replay_is_authoritative demo_replay"
  by (simp_all add: demo_replay_def demo_started_def replay_is_authoritative_def demo_token_book_def)

lemma demo_actor_run:
  "\<exists>a b. actor_run demo_replay_codec \<lparr>lc_replay = replay_default, lc_stale_after = 10, lc_mode = ActorStarting,
    lc_last_event = None, lc_last_received = None, lc_halt_reason = None\<rparr> demo_inputs
   = ([a, b, live_snapshot demo_replay_codec demo_core], False, demo_core)"
  by (simp add: demo_inputs_def live_apply_def market_time_error_def refresh_mode_def live_age_def
      sub64_def i64_new_def i64_ok_def demo_core_def Let_def demo_replay_steps)

theorem live_state_is_the_replayed_journal_witness:
  "replay_segmented_path demo_replay_codec (received_events demo_inputs) = Inr demo_replay"
proof -
  obtain a b where "actor_run demo_replay_codec \<lparr>lc_replay = replay_default, lc_stale_after = 10, lc_mode = ActorStarting,
    lc_last_event = None, lc_last_received = None, lc_halt_reason = None\<rparr> demo_inputs
      = ([a, b, live_snapshot demo_replay_codec demo_core], False, demo_core)"
    using demo_actor_run by blast
  from live_state_is_the_replayed_journal [OF demo_spawned _ this] show ?thesis
    by (simp add: demo_actor_config_def actor_config_default_def demo_inputs_def demo_core_def)
qed

theorem ready_snapshot_is_fresh_witness:
  "\<exists>received. as_last_market_received (live_snapshot demo_replay_codec demo_core) = Some received \<and> received \<le> 7 \<and> 7 - received \<le> 10"
proof -
  obtain a b where run: "actor_run demo_replay_codec \<lparr>lc_replay = replay_default, lc_stale_after = 10, lc_mode = ActorStarting,
    lc_last_event = None, lc_last_received = None, lc_halt_reason = None\<rparr> demo_inputs
      = ([a, b, live_snapshot demo_replay_codec demo_core], False, demo_core)"
    using demo_actor_run by blast
  have "actor_round demo_replay_codec (ActorTick (Inr 7)) demo_core = (False, demo_core)"
    by (simp add: demo_core_def actor_tick_def evaluate_health_def refresh_mode_def live_age_def sub64_def i64_new_def i64_ok_def)
  from ready_snapshot_is_fresh [OF demo_spawned _ run this] show ?thesis
    by (simp add: demo_actor_config_def actor_config_default_def live_snapshot_def demo_core_def)
qed

theorem ended_actor_is_not_ready_witness:
  "\<not> as_ready (live_snapshot demo_replay_codec (live_close \<lparr>lc_replay = replay_default, lc_stale_after = 10, lc_mode = ActorStarting,
    lc_last_event = None, lc_last_received = None, lc_halt_reason = None\<rparr>))"
proof -
  let ?c = "\<lparr>lc_replay = replay_default, lc_stale_after = 10, lc_mode = ActorStarting, lc_last_event = None,
    lc_last_received = None, lc_halt_reason = None\<rparr>"
  have "actor_run demo_replay_codec ?c [ActorReceived None] = ([live_snapshot demo_replay_codec (live_close ?c)], True, live_close ?c)"
    by simp
  from ended_actor_is_not_ready [OF demo_spawned _ this, of "demo_envelope 1 SourceSystem [] []" 0] show ?thesis
    by (simp add: demo_actor_config_def actor_config_default_def)
qed

end
