(* ===== verification/Reference_Payload_Theorems.thy ===== *)
theory Reference_Payload_Theorems
  imports Reference_Payload
begin

text \<open>
  What the reference payload of \<open>reference-market-data\<close> guarantees: the binary format is exact, and every event that
  a stream message parses to survives the journal. The journal's decoder checks less of a trade than the parser.
\<close>

section \<open>Fields of eight bytes\<close>

lemma fields_of_bytes:
  "length bytes = 8 * n \<Longrightarrow> \<exists>xs. length xs = n \<and> bytes = concat (map (le_bytes 8) xs)"
proof (induction n arbitrary: bytes)
  case (Suc n)
  obtain v rest where v: "bytes = v @ rest" "length v = 8"
    using take_field [of 8 bytes] Suc.prems by auto
  obtain xs where "length xs = n" "rest = concat (map (le_bytes 8) xs)"
    using Suc.IH [of rest] Suc.prems v by auto
  then show ?case
    using v by (intro exI [of _ "of_le v # xs"]) (simp add: le_bytes_field)
qed simp

lemma signed_field [simp]: "le_bytes 8 (signed_of_le (le_bytes 8 x)) = le_bytes 8 x"
  by (simp add: le_bytes_signed)

lemma unsigned_field [simp]: "le_bytes 8 (x mod 18446744073709551616) = le_bytes 8 x"
  using le_bytes_mod [of 8 x] by simp

lemma signed_typed [simp]: "i64_ok (signed_of_le (le_bytes 8 x))"
  by (simp add: signed_of_le_range)

lemma unsigned_typed [simp]: "u64_ok (x mod 18446744073709551616)"
  by (simp add: u64_ok_def)

lemma unsigned_value: "u64_ok x \<Longrightarrow> x mod 18446744073709551616 = x"
  by (simp add: u64_ok_def mod_pos_pos_trivial)

definition quote_typed :: "quote_price_micros \<Rightarrow> bool" where
  "quote_typed p \<longleftrightarrow> 0 \<le> quote_price_as_micros p \<and> i64_ok (quote_price_as_micros p)"

definition e8_typed :: "reference_quantity_e8 \<Rightarrow> bool" where
  "e8_typed q \<longleftrightarrow> 0 \<le> reference_as_e8 q \<and> i64_ok (reference_as_e8 q)"

definition candle_typed :: "candle_data \<Rightarrow> bool" where
  "candle_typed c \<longleftrightarrow> list_all i64_ok [cn_open_time c, cn_close_time c, cn_first_trade c, cn_last_trade c]
     \<and> list_all quote_typed [cn_open c, cn_high c, cn_low c, cn_close c]
     \<and> e8_typed (cn_base_volume c) \<and> e8_typed (cn_quote_volume c) \<and> u64_ok (cn_trade_count c)"

lemma quote_from_i64_Inr [result_simps]: "quote_from_i64 v = Inr p \<longleftrightarrow> 0 \<le> v \<and> p = QuotePriceMicros v"
  by (auto simp: quote_from_i64_def quote_price_new_def)

lemma quantity_from_i64_Inr [result_simps]: "quantity_from_i64 v = Inr p \<longleftrightarrow> 0 \<le> v \<and> p = ReferenceQuantityE8 v"
  by (auto simp: quantity_from_i64_def reference_quantity_new_def)

lemma quote_expand: "p = QuotePriceMicros v \<longleftrightarrow> quote_price_as_micros p = v"
  by (cases p) auto

lemma e8_expand: "p = ReferenceQuantityE8 v \<longleftrightarrow> reference_as_e8 p = v"
  by (cases p) auto

lemma one_interval: "OneHourUtc = i"
  by (cases i) simp

lemmas ref_reads = ref_i64_def ref_u64_def ref_quote_def ref_quantity_def read_signed_def read_unsigned_def slice_def

lemma take_list: "length xs = Suc n \<Longrightarrow> \<exists>x ys. xs = x # ys \<and> length ys = n"
  by (cases xs) auto

lemma eleven_fields:
  assumes "length body = 88"
  shows "\<exists>a b c d e f g h i j k. body = concat (map (le_bytes 8) [a, b, c, d, e, f, g, h, i, j, k])"
proof -
  obtain xs where xs: "length xs = 11" "body = concat (map (le_bytes 8) xs)"
    using fields_of_bytes [of body 11] assms by auto
  from xs(1) have "\<exists>a b c d e f g h i j k. xs = [a, b, c, d, e, f, g, h, i, j, k]"
    by (auto simp: eval_nat_numeral length_Suc_conv)
  with xs(2) show ?thesis by blast
qed

lemma six_fields:
  assumes "length body = 49"
  shows "\<exists>a b c d e f m. body = concat (map (le_bytes 8) [a, b, c, d, e, f]) @ [m]"
proof -
  obtain v rest where v: "body = v @ rest" "length v = 48" "length rest = 1"
    using take_field [of 48 body] assms by auto
  obtain xs where xs: "length xs = 6" "v = concat (map (le_bytes 8) xs)"
    using fields_of_bytes [of v 6] v by auto
  from xs(1) have "\<exists>a b c d e f. xs = [a, b, c, d, e, f]"
    by (auto simp: eval_nat_numeral length_Suc_conv)
  moreover have "\<exists>m. rest = [m]"
    using v(3) by (cases rest) auto
  ultimately show ?thesis
    using xs(2) v(1) by blast
qed

lemma five_fields:
  assumes "length body = 40"
  shows "\<exists>a b c d e. body = concat (map (le_bytes 8) [a, b, c, d, e])"
proof -
  obtain xs where xs: "length xs = 5" "body = concat (map (le_bytes 8) xs)"
    using fields_of_bytes [of body 5] assms by auto
  from xs(1) have "\<exists>a b c d e. xs = [a, b, c, d, e]"
    by (auto simp: eval_nat_numeral length_Suc_conv)
  with xs(2) show ?thesis by blast
qed

lemma decode_candle_iff:
  "decode_candle symbol body = Inr c \<longleftrightarrow>
     candle_typed c \<and> validate_candle c = Inr () \<and> cn_symbol c = symbol \<and> encode_candle c = body"
proof
  assume c: "decode_candle symbol body = Inr c"
  then have "length body = 88"
    by (auto simp: decode_candle_def split: if_splits)
  from eleven_fields [OF this] obtain x1 x2 x3 x4 x5 x6 x7 x8 x9 x10 x11
    where "body = concat (map (le_bytes 8) [x1, x2, x3, x4, x5, x6, x7, x8, x9, x10, x11])"
    by (elim exE) (rule that)
  then show "candle_typed c \<and> validate_candle c = Inr () \<and> cn_symbol c = symbol \<and> encode_candle c = body"
    using c by (auto simp: decode_candle_def ref_reads encode_candle_def candle_typed_def quote_typed_def e8_typed_def
        result_simps Let_def)
next
  assume "candle_typed c \<and> validate_candle c = Inr () \<and> cn_symbol c = symbol \<and> encode_candle c = body"
  then show "decode_candle symbol body = Inr c"
    using one_interval [of "cn_interval c"] by (cases c) (auto simp: decode_candle_def ref_reads encode_candle_def candle_typed_def quote_typed_def e8_typed_def
        result_simps Let_def signed_of_le_bytes unsigned_value quote_expand e8_expand)
qed

definition trade_typed :: "aggregate_trade \<Rightarrow> bool" where
  "trade_typed t \<longleftrightarrow> list_all u64_ok [at_id t, at_first_trade t, at_last_trade t] \<and> quote_typed (at_price t)
     \<and> e8_typed (at_quantity t) \<and> i64_ok (at_trade_time t)"

lemma flag_char: "of_char m = (v :: int) \<Longrightarrow> char_of v = m"
  by (drule sym) simp

lemma decode_trade_iff:
  "decode_trade symbol body = Inr t \<longleftrightarrow> trade_typed t \<and> at_symbol t = symbol \<and> encode_reference_body (RefTrade t) = body"
proof
  assume t: "decode_trade symbol body = Inr t"
  then have "length body = 49"
    by (auto simp: decode_trade_def split: if_splits)
  from six_fields [OF this] obtain x1 x2 x3 x4 x5 x6 m where "body = concat (map (le_bytes 8) [x1, x2, x3, x4, x5, x6]) @ [m]"
    by (elim exE) (rule that)
  then show "trade_typed t \<and> at_symbol t = symbol \<and> encode_reference_body (RefTrade t) = body"
    using t by (auto intro!: flag_char simp: decode_trade_def ref_reads trade_typed_def quote_typed_def e8_typed_def nth_append le_bytes_one
        result_simps Let_def split: if_splits)
next
  assume "trade_typed t \<and> at_symbol t = symbol \<and> encode_reference_body (RefTrade t) = body"
  then show "decode_trade symbol body = Inr t"
    by (cases t) (auto simp: decode_trade_def ref_reads trade_typed_def quote_typed_def e8_typed_def nth_append of_char_of_byte
        result_simps Let_def signed_of_le_bytes unsigned_value quote_expand e8_expand split: if_splits)
qed

definition ticker_typed :: "book_ticker \<Rightarrow> bool" where
  "ticker_typed b \<longleftrightarrow> u64_ok (tk_update_id b) \<and> quote_typed (tk_best_bid b) \<and> quote_typed (tk_best_ask b)
     \<and> e8_typed (tk_best_bid_quantity b) \<and> e8_typed (tk_best_ask_quantity b)"

lemma decode_ticker_iff:
  "decode_ticker symbol body = Inr b \<longleftrightarrow> ticker_typed b \<and> quote_price_as_micros (tk_best_bid b) \<le> quote_price_as_micros (tk_best_ask b)
     \<and> tk_symbol b = symbol \<and> encode_reference_body (RefTicker b) = body"
proof
  assume b: "decode_ticker symbol body = Inr b"
  then have "length body = 40"
    by (auto simp: decode_ticker_def split: if_splits)
  from five_fields [OF this] obtain x1 x2 x3 x4 x5 where "body = concat (map (le_bytes 8) [x1, x2, x3, x4, x5])"
    by (elim exE) (rule that)
  then show "ticker_typed b \<and> quote_price_as_micros (tk_best_bid b) \<le> quote_price_as_micros (tk_best_ask b)
     \<and> tk_symbol b = symbol \<and> encode_reference_body (RefTicker b) = body"
    using b by (auto simp: decode_ticker_def ref_reads ticker_typed_def quote_typed_def e8_typed_def
        result_simps Let_def split: if_splits)
next
  assume "ticker_typed b \<and> quote_price_as_micros (tk_best_bid b) \<le> quote_price_as_micros (tk_best_ask b)
     \<and> tk_symbol b = symbol \<and> encode_reference_body (RefTicker b) = body"
  then show "decode_ticker symbol body = Inr b"
    by (cases b) (auto simp: decode_ticker_def ref_reads ticker_typed_def quote_typed_def e8_typed_def
        result_simps Let_def signed_of_le_bytes unsigned_value quote_expand e8_expand)
qed

section \<open>The payload is exact\<close>

text \<open>What a decoded payload promises.\<close>

fun reference_event_ok :: "reference_event \<Rightarrow> bool" where
  "reference_event_ok (RefInProgress c) \<longleftrightarrow> candle_typed c \<and> validate_candle c = Inr ()"
| "reference_event_ok (RefFinalized c) \<longleftrightarrow> candle_typed c \<and> validate_candle c = Inr ()"
| "reference_event_ok (RefTrade t) \<longleftrightarrow> trade_typed t"
| "reference_event_ok (RefTicker b) \<longleftrightarrow> ticker_typed b
     \<and> quote_price_as_micros (tk_best_bid b) \<le> quote_price_as_micros (tk_best_ask b)"

definition reference_ok :: "decoded_reference \<Rightarrow> bool" where
  "reference_ok d \<longleftrightarrow> reference_event_ok (rd_event d)
     \<and> (reference_event_kind (rd_event d) = KindBookTicker \<longleftrightarrow> rd_event_time d = None)
     \<and> (\<forall>ms. rd_event_time d = Some ms \<longrightarrow> 0 \<le> ms \<and> i64_ok ms)"

lemma decode_body_iff:
  "decode_reference_body kind symbol body = Inr e \<longleftrightarrow>
     reference_event_ok e \<and> reference_event_kind e = kind \<and> reference_event_symbol e = symbol \<and> encode_reference_body e = body"
  by (cases kind; cases e) (auto simp: decode_candle_iff decode_trade_iff decode_ticker_iff result_simps simp del: encode_reference_body.simps
      simp: encode_reference_body.simps(1,2))

lemma body_length: "length (encode_reference_body e) \<le> 88"
  by (cases e) (simp_all add: encode_candle_def)

lemma kind_bytes: "reference_kind_from_byte (reference_kind_byte k) = Inr k" "0 \<le> reference_kind_byte k" "reference_kind_byte k < 256"
  by (cases k; simp add: reference_kind_from_byte_def)+

lemma symbol_bytes: "symbol_from_byte (symbol_byte s) = Inr s" "0 \<le> symbol_byte s" "symbol_byte s < 256"
  by (cases s; simp add: symbol_from_byte_def)+

lemma kind_from_byte_Inr: "reference_kind_from_byte v = Inr k \<Longrightarrow> v = reference_kind_byte k"
  by (auto simp: reference_kind_from_byte_def split: if_splits)

lemma symbol_from_byte_Inr: "symbol_from_byte v = Inr k \<Longrightarrow> v = symbol_byte k"
  by (auto simp: symbol_from_byte_def split: if_splits)

lemma encode_reference_payload_Inr:
  "encode_reference_payload d = Inr bytes \<longleftrightarrow>
     bytes = le_bytes 2 2 @ [char_of (reference_kind_byte (reference_event_kind (rd_event d)))]
       @ [char_of (symbol_byte (reference_event_symbol (rd_event d)))]
       @ le_bytes 8 (case rd_event_time d of None \<Rightarrow> - 1 | Some ms \<Rightarrow> ms)
       @ le_bytes 4 (int (length (encode_reference_body (rd_event d)))) @ encode_reference_body (rd_event d)"
  using body_length [of "rd_event d"] kind_bytes [of "reference_event_kind (rd_event d)"]
    symbol_bytes [of "reference_event_symbol (rd_event d)"]
  by (auto simp: encode_reference_payload_def Let_def result_simps le_bytes_one)

lemma decode_encoded_reference:
  assumes "reference_ok d" and "encode_reference_payload d = Inr bytes"
  shows "decode_reference_payload bytes = Inr d"
proof -
  let ?e = "rd_event d"
  define ms where "ms = (case rd_event_time d of None \<Rightarrow> - 1 | Some ms \<Rightarrow> ms)"
  define body where "body = encode_reference_body ?e"
  have bytes: "bytes = le_bytes 2 2 @ [char_of (reference_kind_byte (reference_event_kind ?e))]
      @ [char_of (symbol_byte (reference_event_symbol ?e))] @ le_bytes 8 ms @ le_bytes 4 (int (length body)) @ body"
    using assms(2) by (simp add: encode_reference_payload_Inr ms_def body_def)
  have ms: "i64_ok ms" "(if ms = - 1 then Inr None else if 0 \<le> ms then Inr (Some ms) else Inl (RefInvalidField ''event time''))
      = (Inr (rd_event_time d) :: reference_error + int option)"
    using assms(1) by (auto simp: ms_def reference_ok_def i64_ok_def split: option.split)
  have "int (length body) mod 4294967296 = int (length body)"
    using body_length [of ?e] by (simp add: body_def mod_pos_pos_trivial)
  moreover have "decode_reference_body (reference_event_kind ?e) (reference_event_symbol ?e) body = Inr ?e"
    using assms(1) by (simp add: decode_body_iff body_def reference_ok_def)
  ultimately show ?thesis
    using ms assms(1) unfolding bytes
    by (cases d) (simp add: decode_reference_payload_def ref_i64_def read_unsigned_def read_signed_def slice_def nth_append
      of_char_of_byte kind_bytes symbol_bytes signed_of_le_bytes reference_ok_def)
qed

lemma decode_reference_is_encoding:
  assumes "decode_reference_payload bytes = Inr d"
  shows "reference_ok d \<and> encode_reference_payload d = Inr bytes"
proof -
  have len: "16 \<le> length bytes"
    using assms by (auto simp: decode_reference_payload_def split: if_splits)
  obtain a b where 1: "bytes = a @ b" "length a = 2" using take_field [of 2 bytes] len by auto
  obtain k c where 2: "b = k # c" using len 1 by (cases b) auto
  obtain s f where 3: "c = s # f" using len 1 2 by (cases c) auto
  obtain h i where 4: "f = h @ i" "length h = 8" using take_field [of 8 f] len 1 2 3 by auto
  obtain n body where 5: "i = n @ body" "length n = 4" using take_field [of 4 i] len 1 2 3 4 by auto
  have bytes: "bytes = a @ [k] @ [s] @ h @ n @ body"
    using 1 2 3 4 5 by simp
  note lengths = 1(2) 4(2) 5(2)
  obtain event time where facts: "of_le a = 2" "length body = nat (of_le n)"
      "reference_kind_from_byte (of_char k) = Inr (reference_event_kind event)"
      "symbol_from_byte (of_char s) = Inr (reference_event_symbol event)"
      "reference_event_ok event" "encode_reference_body event = body"
      "time = (if signed_of_le h = - 1 then None else Some (signed_of_le h))" "time = None \<or> 0 \<le> signed_of_le h"
      "(reference_event_kind event = KindBookTicker) = (time = None)" "d = \<lparr>rd_event_time = time, rd_event = event\<rparr>"
    using assms lengths unfolding bytes
    by (auto simp: decode_reference_payload_def ref_i64_def read_unsigned_def read_signed_def slice_def nth_append
        decode_body_iff result_simps split: if_splits)
  have "char_of (reference_kind_byte (reference_event_kind event)) = k" "char_of (symbol_byte (reference_event_symbol event)) = s"
    using kind_from_byte_Inr [OF facts(3)] symbol_from_byte_Inr [OF facts(4)] by (auto intro: flag_char)
  moreover have "le_bytes 4 (int (length body)) = n"
    using facts(2) lengths of_le_bounds(1) [of n] by (simp add: le_bytes_field)
  moreover have "le_bytes 8 (case time of None \<Rightarrow> - 1 | Some ms \<Rightarrow> ms) = h"
    using facts(7) le_bytes_signed [OF lengths(2)] by (auto split: if_splits)
  ultimately show ?thesis
    using facts lengths signed_of_le_range [OF lengths(2)] le_bytes_field [of a 2] unfolding bytes
    by (auto simp: encode_reference_payload_Inr reference_ok_def split: if_splits)
qed

text \<open>The reference payload is exact: bytes decode to an event if and only if they are the encoding of that event,
  its fields lie within their types, candles satisfy the price bounds, tickers are not crossed, and the source time is
  missing exactly for tickers.\<close>
theorem reference_payload_exact:
  "decode_reference_payload bytes = Inr d \<longleftrightarrow> reference_ok d \<and> encode_reference_payload d = Inr bytes"
  by (blast intro: decode_encoded_reference dest: decode_reference_is_encoding)

section \<open>Parsed messages\<close>

text \<open>What \<open>as_i64\<close> and \<open>as_u64\<close> return lies in the range of its type.\<close>

definition reference_json_typed :: "'v reference_json \<Rightarrow> bool" where
  "reference_json_typed jx \<longleftrightarrow> (\<forall>v n. rj_as_i64 jx v = Some n \<longrightarrow> i64_ok n) \<and> (\<forall>v n. rj_as_u64 jx v = Some n \<longrightarrow> u64_ok n)"

lemma json_i64_typed: "json_i64 jx m f = Inr n \<Longrightarrow> reference_json_typed jx \<Longrightarrow> 0 \<le> n \<and> i64_ok n"
  by (auto simp: json_i64_def reference_json_typed_def bind_eq_Some_conv split: option.splits if_splits)

lemma json_u64_typed: "json_u64 jx m f = Inr n \<Longrightarrow> reference_json_typed jx \<Longrightarrow> u64_ok n"
  by (auto simp: json_u64_def reference_json_typed_def bind_eq_Some_conv result_simps)

lemma parsed_range: "parse_unsigned_fixed v k = Inr n \<Longrightarrow> i64_ok n"
  by (erule parse_unsigned_fixed_parts)

lemma parse_quote_typed: "parse_quote_price_micros v = Inr p \<Longrightarrow> quote_typed p"
  by (auto simp: parse_quote_price_micros_def parse_unsigned_micros_def quote_price_new_def map_financial_def
      quote_typed_def result_simps parsed_range split: if_splits)

lemma parse_e8_typed: "parse_reference_quantity_e8 v = Inr q \<Longrightarrow> e8_typed q"
  by (auto simp: parse_reference_quantity_e8_def reference_quantity_new_def map_financial_def e8_typed_def
      result_simps parsed_range split: if_splits)

lemma json_quote_typed: "json_quote jx m f = Inr p \<Longrightarrow> quote_typed p"
  by (cases "json_string jx m f"; cases "parse_quote_price_micros (projr (json_string jx m f))")
    (auto simp: json_quote_def parse_quote_typed)

lemma json_quantity_typed: "json_quantity jx m f = Inr q \<Longrightarrow> e8_typed q"
  by (cases "json_string jx m f"; cases "parse_reference_quantity_e8 (projr (json_string jx m f))")
    (auto simp: json_quantity_def parse_e8_typed)

lemma parse_candle_typed:
  assumes "parse_candle jx s k = Inr c" and "reference_json_typed jx"
  shows "candle_typed c"
  using assms by (auto simp: parse_candle_def candle_typed_def result_simps
      dest: json_i64_typed json_u64_typed json_quote_typed json_quantity_typed)

lemma parse_kline_ok: "parse_kline jx data = Inr d \<Longrightarrow> reference_json_typed jx \<Longrightarrow> reference_ok d"
  by (auto simp: parse_kline_def reference_ok_def result_simps dest: parse_candle_typed json_i64_typed split: if_splits)

text \<open>Of a trade the parser checks more than the decoder of the journal does.\<close>

definition trade_bounded :: "reference_event \<Rightarrow> bool" where
  "trade_bounded e \<longleftrightarrow> (\<forall>t. e = RefTrade t \<longrightarrow> at_first_trade t \<le> at_last_trade t \<and> 0 \<le> at_trade_time t)"

lemma parse_trade_ok:
  "parse_aggregate_trade jx data = Inr d \<Longrightarrow> reference_json_typed jx \<Longrightarrow> reference_ok d \<and> trade_bounded (rd_event d)"
  by (auto simp: parse_aggregate_trade_def reference_ok_def trade_typed_def trade_bounded_def result_simps
      dest: json_i64_typed json_u64_typed json_quote_typed json_quantity_typed split: if_splits)

lemma parse_ticker_ok: "parse_book_ticker jx data = Inr d \<Longrightarrow> reference_json_typed jx \<Longrightarrow> reference_ok d"
  by (auto simp: parse_book_ticker_def reference_ok_def ticker_typed_def result_simps
      dest: json_u64_typed json_quote_typed json_quantity_typed split: if_splits)

lemma no_trade_bounded:
  "parse_kline jx data = Inr d \<Longrightarrow> trade_bounded (rd_event d)" "parse_book_ticker jx data = Inr d \<Longrightarrow> trade_bounded (rd_event d)"
  by (auto simp: parse_kline_def parse_book_ticker_def trade_bounded_def result_simps split: if_splits)

text \<open>C24: What is recorded is read back: an event parsed from a stream message has an encoding, decoding it gives the same
  event and time, and its trade ids and times are in order.\<close>
theorem parsed_message_survives_the_journal:
  assumes "parse_combined_message jx text = Inr d" and "reference_json_typed jx"
  shows "\<exists>bytes. encode_reference_payload d = Inr bytes \<and> decode_reference_payload bytes = Inr d \<and> trade_bounded (rd_event d)"
proof -
  obtain stream data where "parse_stream_data jx stream data = Inr d"
    using assms(1) unfolding parse_combined_message_def rbind_Inr_iff by blast
  then have "parse_kline jx data = Inr d \<or> parse_aggregate_trade jx data = Inr d \<or> parse_book_ticker jx data = Inr d"
    by (cases "json_string jx data ''e''") (auto simp: parse_stream_data_def split: if_splits)
  then have "reference_ok d \<and> trade_bounded (rd_event d)"
    using parse_kline_ok parse_trade_ok parse_ticker_ok no_trade_bounded assms(2) by blast
  moreover obtain bytes where "encode_reference_payload d = Inr bytes"
    using encode_reference_payload_Inr by blast
  ultimately show ?thesis
    using decode_encoded_reference by blast
qed


section \<open>A message\<close>

definition demo_reference_json :: "string reference_json" where
  "demo_reference_json = \<lparr>rj_from_str = Inr,
     rj_as_object = (\<lambda>v. if v = ''data'' then Some (\<lambda>f. if f \<in> {''s'', ''u'', ''b'', ''B'', ''a'', ''A''} then Some f else None)
       else Some (\<lambda>f. if f = ''stream'' \<or> f = ''data'' then Some f else None)),
     rj_as_str = (\<lambda>v. Some (if v = ''stream'' then ''btcusdt@bookTicker'' else if v = ''s'' then ''BTCUSDT''
       else if v = ''b'' then ''64000.5'' else if v = ''a'' then ''64000.75'' else ''2'')),
     rj_as_i64 = (\<lambda>v. None), rj_as_u64 = (\<lambda>v. Some 7), rj_as_bool = (\<lambda>v. None)\<rparr>"

definition demo_ticker :: decoded_reference where
  "demo_ticker = \<lparr>rd_event_time = None, rd_event = RefTicker \<lparr>tk_symbol = BtcUsdt, tk_update_id = 7,
     tk_best_bid = QuotePriceMicros 64000500000, tk_best_bid_quantity = ReferenceQuantityE8 200000000,
     tk_best_ask = QuotePriceMicros 64000750000, tk_best_ask_quantity = ReferenceQuantityE8 200000000\<rparr>\<rparr>"

lemma demo_ticker_parsed: "parse_combined_message demo_reference_json ''root'' = Inr demo_ticker"
  by code_simp

theorem parsed_message_survives_the_journal_witness:
  "\<exists>bytes. encode_reference_payload demo_ticker = Inr bytes \<and> decode_reference_payload bytes = Inr demo_ticker"
proof -
  have "reference_json_typed demo_reference_json"
    by (simp add: reference_json_typed_def demo_reference_json_def u64_ok_def)
  from parsed_message_survives_the_journal [OF demo_ticker_parsed this] show ?thesis by blast
qed

end
