(* ===== verification/Reference_Replay_Theorems.thy ===== *)
theory Reference_Replay_Theorems
  imports Reference_Replay Reference_Payload_Theorems
begin

text \<open>
  What the replayed reference feed of \<open>reference-market-data\<close> guarantees: finalized candles are settlement data and never
  change, and a feed that is ready has seen a candle, a trade and a ticker of each symbol.
\<close>

section \<open>Finalized candles\<close>

lemma finalized_step:
  assumes "reference_apply e s = Inr t" and "bt_get (rs_finalized s) k = Some c"
  shows "bt_get (rs_finalized t) k = Some c"
proof -
  have event: "bt_get (rs_finalized t) k = Some c"
    if "apply_reference_event event a b s = Inr t" for event a b t
    using that assms(2) by (cases event) (auto simp: result_simps Let_def bt_get_insert split: option.splits if_splits)
  show ?thesis
    using assms(1,2) event
    by (auto simp: reference_apply_def apply_reference_def apply_reference_system_def result_simps split: if_splits)
qed

lemma finalized_items:
  assumes "reference_items s items = Inr t" and "bt_get (rs_finalized s) k = Some c"
  shows "bt_get (rs_finalized t) k = Some c"
  using assms
proof (induction s items rule: reference_items.induct)
  case (3 s e items)
  then obtain u where "reference_apply e s = Inr u" "reference_items u items = Inr t"
    by (auto simp: result_simps)
  then show ?case
    using "3.IH" finalized_step "3.prems"(2) by blast
qed simp_all

section \<open>The invariant\<close>

definition received_by :: "int option \<Rightarrow> int option \<Rightarrow> bool" where
  "received_by newest t \<longleftrightarrow> (\<forall>v. t = Some v \<longrightarrow> 0 \<le> v \<and> (\<exists>n. newest = Some n \<and> v \<le> n))"

definition symbol_ok :: "int option \<Rightarrow> symbol_state \<Rightarrow> bool" where
  "symbol_ok newest v \<longleftrightarrow> received_by newest (sy_candle_received v) \<and> received_by newest (sy_trade_received v)
     \<and> received_by newest (sy_ticker_received v)
     \<and> (sy_candle_event v = None \<longleftrightarrow> sy_candle_received v = None) \<and> (sy_trade_event v = None \<longleftrightarrow> sy_trade_received v = None)
     \<and> (sy_trade v = None \<longleftrightarrow> sy_trade_received v = None) \<and> (sy_ticker v = None \<longleftrightarrow> sy_ticker_received v = None)
     \<and> (sy_candle_received v = None \<longrightarrow> sy_in_progress v = None \<and> sy_last_finalized v = None)"

definition sources_of :: "symbol_state \<Rightarrow> bool" where
  "sources_of v \<longleftrightarrow> sy_candle_received v \<noteq> None \<and> sy_trade_received v \<noteq> None \<and> sy_ticker_received v \<noteq> None"

definition sources_seen :: "reference_state \<Rightarrow> bool" where
  "sources_seen s \<longleftrightarrow> (\<forall>symbol. \<exists>v. bt_get (rs_symbols s) symbol = Some v \<and> sources_of v)"

definition reference_inv :: "reference_state \<Rightarrow> bool" where
  "reference_inv s \<longleftrightarrow> (\<forall>symbol v. bt_get (rs_symbols s) symbol = Some v \<longrightarrow> symbol_ok (rs_last_received s) v)
     \<and> (rs_health s = RefReady \<longrightarrow> sources_seen s)
     \<and> (\<forall>symbol t c. finalized_candle s symbol t = Some c \<longrightarrow> cn_symbol c = symbol \<and> cn_open_time c = t \<and> validate_candle c = Inr ())"

lemma received_by_later: "received_by newest t \<Longrightarrow> \<forall>n. newest = Some n \<longrightarrow> n \<le> m \<Longrightarrow> received_by (Some m) t"
  by (auto simp: received_by_def)

lemma symbol_ok_later: "symbol_ok newest v \<Longrightarrow> \<forall>n. newest = Some n \<longrightarrow> n \<le> m \<Longrightarrow> symbol_ok (Some m) v"
  by (auto simp: symbol_ok_def intro: received_by_later)

lemma symbol_default_ok [simp]: "symbol_ok newest symbol_default"
  by (simp add: symbol_ok_def symbol_default_def received_by_def)

lemma symbol_of_ok: "reference_inv s \<Longrightarrow> symbol_ok (rs_last_received s) (symbol_of s symbol)"
  by (auto simp: symbol_of_def reference_inv_def split: option.split)

lemma received_now [simp]: "0 \<le> m \<Longrightarrow> received_by (Some m) (Some m)"
  by (simp add: received_by_def)

lemma in_progress_applied: "apply_in_progress c v = Inr w \<Longrightarrow> w = v\<lparr>sy_in_progress := Some c\<rparr>"
  by (auto simp: apply_in_progress_def split: if_splits)

lemma finalized_applied:
  "apply_finalized c v = Inr w \<Longrightarrow> \<exists>p. w = v\<lparr>sy_last_finalized := Some c, sy_in_progress := p\<rparr>"
proof -
  assume "apply_finalized c v = Inr w"
  then have "w = v\<lparr>sy_last_finalized := Some c, sy_in_progress := None\<rparr> \<or> w = v\<lparr>sy_last_finalized := Some c, sy_in_progress := sy_in_progress v\<rparr>"
    by (auto simp: apply_finalized_def Let_def split: if_splits)
  then show ?thesis by blast
qed

text \<open>A symbol's entry is replaced by one that is fine and has lost none of its sources.\<close>

inductive entry_step :: "reference_event \<Rightarrow> int \<Rightarrow> reference_state \<Rightarrow> reference_state \<Rightarrow> bool" for e m s where
  "symbol = reference_event_symbol e
   \<Longrightarrow> symbol_ok (Some m) v \<Longrightarrow> sources_of (symbol_of s symbol) \<longrightarrow> sources_of v
   \<Longrightarrow> fin = rs_finalized s \<or> (\<exists>c. e = RefFinalized c \<and> fin = bt_insert (cn_symbol c, cn_open_time c) c (rs_finalized s))
   \<Longrightarrow> entry_step e m s (s\<lparr>rs_symbols := bt_insert symbol v (rs_symbols s), rs_finalized := fin\<rparr>)"

lemma reference_event_entry:
  assumes "apply_reference_event e t m s = Inr s'" and "symbol_ok (Some m) (symbol_of s (reference_event_symbol e))" and "0 \<le> m"
  shows "entry_step e m s s'"
proof (cases e)
  case (RefInProgress c)
  then obtain v where v: "apply_in_progress c (symbol_of s (cn_symbol c)) = Inr v"
      "s' = s\<lparr>rs_symbols := bt_insert (cn_symbol c) (v\<lparr>sy_candle_event := Some t, sy_candle_received := Some m\<rparr>) (rs_symbols s),
         rs_finalized := rs_finalized s\<rparr>"
    using assms(1) by (auto simp: result_simps)
  show ?thesis
    unfolding v(2) in_progress_applied [OF v(1)]
    by (rule entry_step.intros)
      (use assms(2,3) RefInProgress in \<open>simp_all add: symbol_ok_def sources_of_def\<close>)
next
  case (RefFinalized c)
  then obtain v where v: "apply_finalized c (symbol_of s (cn_symbol c)) = Inr v"
      "s' = s\<lparr>rs_symbols := bt_insert (cn_symbol c) (v\<lparr>sy_candle_event := Some t, sy_candle_received := Some m\<rparr>) (rs_symbols s),
         rs_finalized := bt_insert (cn_symbol c, cn_open_time c) c (rs_finalized s)\<rparr>"
    using assms(1) by (auto simp: result_simps Let_def split: option.splits if_splits)
  obtain p where p: "v = symbol_of s (cn_symbol c)\<lparr>sy_last_finalized := Some c, sy_in_progress := p\<rparr>"
    using finalized_applied [OF v(1)] by blast
  show ?thesis
    unfolding v(2) p
    by (rule entry_step.intros) (use assms(2,3) RefFinalized in \<open>simp_all add: symbol_ok_def sources_of_def\<close>)
next
  case (RefTrade tr)
  then have "s' = s\<lparr>rs_symbols := bt_insert (at_symbol tr) (symbol_of s (at_symbol tr)\<lparr>sy_trade := Some tr, sy_trade_event := Some t,
      sy_trade_received := Some m\<rparr>) (rs_symbols s), rs_finalized := rs_finalized s\<rparr>" (is "_ = ?t")
    using assms(1) by (auto simp: Let_def split: if_splits)
  moreover have "entry_step e m s ?t"
    by (rule entry_step.intros)
      (use assms(2,3) RefTrade in \<open>simp_all add: symbol_ok_def sources_of_def\<close>)
  ultimately show ?thesis by simp
next
  case (RefTicker b)
  then have "s' = s\<lparr>rs_symbols := bt_insert (tk_symbol b) (symbol_of s (tk_symbol b)\<lparr>sy_ticker := Some b,
      sy_ticker_received := Some m\<rparr>) (rs_symbols s), rs_finalized := rs_finalized s\<rparr>" (is "_ = ?t")
    using assms(1) by (auto simp: Let_def split: if_splits)
  moreover have "entry_step e m s ?t"
    by (rule entry_step.intros)
      (use assms(2,3) RefTicker in \<open>simp_all add: symbol_ok_def sources_of_def\<close>)
  ultimately show ?thesis by simp
qed

lemma entry_step_inv:
  assumes "entry_step e m s s'" and "reference_inv s" and "reference_event_ok e"
    and "\<forall>n. rs_last_received s = Some n \<longrightarrow> n \<le> m"
  shows "reference_inv (s'\<lparr>rs_last_received := Some m\<rparr>)"
  using assms(1)
proof cases
  case (1 symbol v fin)
  have "symbol_ok (Some m) w" if "bt_get (rs_symbols s') k = Some w" for k w
    using that 1 assms(2,4) by (auto simp: bt_get_insert reference_inv_def intro: symbol_ok_later split: if_splits)
  moreover have "sources_seen s'" if "rs_health s' = RefReady"
  proof -
    have "sources_seen s"
      using that 1 assms(2) by (simp add: reference_inv_def)
    then have "\<exists>w. bt_get (rs_symbols s') k = Some w \<and> sources_of w" for k
    proof -
      obtain w where "bt_get (rs_symbols s) k = Some w" "sources_of w"
        using \<open>sources_seen s\<close> by (auto simp: sources_seen_def)
      then show ?thesis
        using 1 by (cases "k = symbol") (auto simp: bt_get_insert symbol_of_def)
    qed
    then show ?thesis by (simp add: sources_seen_def)
  qed
  moreover have "cn_symbol c = k \<and> cn_open_time c = t \<and> validate_candle c = Inr ()" if "finalized_candle s' k t = Some c" for k t c
    using that 1 assms(2,3) by (auto simp: finalized_candle_def bt_get_insert reference_inv_def split: if_splits)
  ultimately show ?thesis
    by (simp add: reference_inv_def sources_seen_def finalized_candle_def)
qed

lemma system_step:
  assumes "apply_reference_system payload s = Inr s'"
  shows "rs_health s' \<noteq> RefReady \<and> s' = s\<lparr>rs_epoch := rs_epoch s', rs_health := rs_health s', rs_symbols := []\<rparr>
    \<or> all_predictive_sources_present s \<and> s' = s\<lparr>rs_health := RefReady\<rparr>"
proof -
  have "(\<exists>n. s' = s\<lparr>rs_epoch := n, rs_health := RefCollecting, rs_symbols := []\<rparr>)
      \<or> all_predictive_sources_present s \<and> s' = s\<lparr>rs_health := RefReady\<rparr>
      \<or> s' = s\<lparr>rs_health := RefDisconnected, rs_symbols := []\<rparr> \<or> s' = s\<lparr>rs_health := RefShutdown, rs_symbols := []\<rparr>"
    using assms unfolding apply_reference_system_def rbind_Inr_iff ok_or_Inr_iff
    by (simp only: if_Inr_iff rbind_Inr_iff ok_or_Inr_iff sum.inject split: if_split_asm) (blast | simp)+
  then show ?thesis
    by (elim disjE exE conjE) simp_all
qed

lemma cleared_inv:
  "reference_inv s \<Longrightarrow> h \<noteq> RefReady \<Longrightarrow> reference_inv (s\<lparr>rs_epoch := n, rs_health := h, rs_symbols := []\<rparr>)"
  by (simp add: reference_inv_def finalized_candle_def)

lemma system_inv:
  assumes "apply_reference_system payload s = Inr s'" and "reference_inv s"
  shows "reference_inv s'"
proof -
  have "sources_seen s" if present: "all_predictive_sources_present s"
  proof -
    have "\<exists>v. bt_get (rs_symbols s) symbol = Some v \<and> sources_of v" for symbol
    proof -
      obtain v where v: "bt_get (rs_symbols s) symbol = Some v" "sy_in_progress v \<noteq> None" "sy_trade v \<noteq> None" "sy_ticker v \<noteq> None"
        using present by (cases symbol) (auto simp: all_predictive_sources_present_def all_symbols_def split: option.splits)
      have "symbol_ok (rs_last_received s) v"
        using v(1) assms(2) by (simp add: reference_inv_def)
      then show ?thesis
        using v by (auto simp: symbol_ok_def sources_of_def)
    qed
    then show ?thesis by (simp add: sources_seen_def)
  qed
  then have "reference_inv (s\<lparr>rs_health := RefReady\<rparr>)" if "all_predictive_sources_present s"
    using that assms(2) by (simp add: reference_inv_def finalized_candle_def sources_seen_def)
  then show ?thesis
    using system_step [OF assms(1)] cleared_inv [OF assms(2)] by metis
qed

lemma feed_inv:
  assumes "apply_reference e s = Inr s'" and "reference_inv s"
  shows "reference_inv s'"
proof -
  obtain d t where d: "decode_reference_payload (ev_payload e) = Inr d" "0 \<le> ev_received_time e"
      "\<forall>n. rs_last_received s = Some n \<longrightarrow> n \<le> ev_received_time e"
      "apply_reference_event (rd_event d) (ev_event_time e) (ev_received_time e) s = Inr t"
      "s' = t\<lparr>rs_last_received := Some (ev_received_time e)\<rparr>"
    using assms(1) by (auto simp: apply_reference_def result_simps not_less split: if_splits sum.splits option.splits)
  have "symbol_ok (Some (ev_received_time e)) (symbol_of s (reference_event_symbol (rd_event d)))"
    by (rule symbol_ok_later [OF symbol_of_ok [OF assms(2)] d(3)])
  then have "entry_step (rd_event d) (ev_received_time e) s t"
    by (rule reference_event_entry [OF d(4) _ d(2)])
  moreover have "reference_event_ok (rd_event d)"
    using decode_reference_is_encoding [OF d(1)] by (simp add: reference_ok_def)
  ultimately show ?thesis
    unfolding d(5) using assms(2) d(3) by (intro entry_step_inv)
qed

lemma reference_apply_inv:
  assumes "reference_apply e s = Inr s'" and "reference_inv s"
  shows "reference_inv s'"
proof -
  obtain t where t: "apply_reference_system (ev_payload e) s = Inr t \<or> apply_reference e s = Inr t"
      "s' = t\<lparr>rs_last_sequence := Some (ev_sequence e)\<rparr>"
    using assms(1) by (auto simp: reference_apply_def result_simps split: if_splits)
  then have "reference_inv t"
    using system_inv feed_inv assms(2) by blast
  then show ?thesis
    unfolding t(2) by (simp add: reference_inv_def finalized_candle_def sources_seen_def)
qed

lemma reference_reached:
  assumes "reference_items s items = Inr t" and "reference_inv s"
  shows "reference_inv t"
  using assms
proof (induction s items rule: reference_items.induct)
  case (3 s e items)
  then show ?case
    using reference_apply_inv by (auto simp: result_simps)
qed simp_all

lemma reference_default_inv [simp]: "reference_inv reference_default"
  by (simp add: reference_inv_def reference_default_def finalized_candle_def)

text \<open>C16: A finalized candle is settlement data and never changes: once a replayed journal holds a finalized candle for an
  hour, every continuation of the journal that is accepted holds the same candle for it, through reconnects, rotations
  and new epochs; it is a candle of that symbol and hour whose prices are in order.\<close>
theorem finalized_candles_never_change:
  assumes "reference_replay_path items clean = Inr s" and "finalized_candle s symbol open_time = Some c"
    and "reference_items s later = Inr t"
  shows "finalized_candle t symbol open_time = Some c \<and> cn_symbol c = symbol \<and> cn_open_time c = open_time
    \<and> open_time < cn_close_time c \<and> quote_price_as_micros (cn_low c) \<le> quote_price_as_micros (cn_open c)
    \<and> quote_price_as_micros (cn_open c) \<le> quote_price_as_micros (cn_high c)
    \<and> quote_price_as_micros (cn_low c) \<le> quote_price_as_micros (cn_close c)
    \<and> quote_price_as_micros (cn_close c) \<le> quote_price_as_micros (cn_high c)"
proof -
  have "reference_items reference_default items = Inr s"
    using assms(1) by (auto simp: reference_replay_path_def result_simps)
  then have "reference_inv s"
    by (rule reference_reached) simp
  then have "cn_symbol c = symbol \<and> cn_open_time c = open_time \<and> validate_candle c = Inr ()"
    using assms(2) by (simp add: reference_inv_def)
  then show ?thesis
    using finalized_items [OF assms(3)] assms(2) by (auto simp: finalized_candle_def validate_candle_def split: if_splits)
qed

text \<open>A feed that is ready has seen every source of both symbols: each symbol's snapshot has a candle, a trade and a
  ticker, so the oldest required receive time is known, is not negative and is not after the last event received, and
  the latest source time is known.\<close>
theorem ready_reference_has_every_source:
  assumes "reference_replay_path items clean = Inr s" and "rs_health s = RefReady"
  shows "\<exists>v oldest newest. bt_get (rs_symbols s) symbol = Some v \<and> oldest_required_received (symbol_snapshot_of v) = Some oldest
    \<and> rs_last_received s = Some newest \<and> 0 \<le> oldest \<and> oldest \<le> newest
    \<and> latest_source_event (symbol_snapshot_of v) \<noteq> None \<and> latest_trade s symbol \<noteq> None \<and> latest_book s symbol \<noteq> None"
proof -
  have "reference_items reference_default items = Inr s"
    using assms(1) by (auto simp: reference_replay_path_def result_simps)
  then have inv: "reference_inv s"
    by (rule reference_reached) simp
  obtain v where v: "bt_get (rs_symbols s) symbol = Some v" "sources_of v"
    using inv assms(2) unfolding reference_inv_def sources_seen_def by blast
  have "symbol_ok (rs_last_received s) v"
    using inv v(1) by (simp add: reference_inv_def)
  then show ?thesis
    using v by (auto simp: symbol_ok_def sources_of_def received_by_def oldest_required_received_def latest_source_event_def
        symbol_snapshot_of_def latest_trade_def latest_book_def)
qed

section \<open>A feed\<close>

definition demo_candle :: "reference_symbol \<Rightarrow> candle_data" where
  "demo_candle symbol = \<lparr>cn_symbol = symbol, cn_interval = OneHourUtc, cn_open_time = 0, cn_close_time = 3599999,
     cn_first_trade = 1, cn_last_trade = 9, cn_open = QuotePriceMicros 5, cn_high = QuotePriceMicros 8, cn_low = QuotePriceMicros 4,
     cn_close = QuotePriceMicros 6, cn_base_volume = ReferenceQuantityE8 1, cn_quote_volume = ReferenceQuantityE8 1,
     cn_trade_count = 9\<rparr>"

definition demo_feed_trade :: "reference_symbol \<Rightarrow> aggregate_trade" where
  "demo_feed_trade symbol = \<lparr>at_symbol = symbol, at_id = 1, at_price = QuotePriceMicros 5, at_quantity = ReferenceQuantityE8 1,
     at_first_trade = 1, at_last_trade = 1, at_trade_time = 7, at_buyer_is_maker = True\<rparr>"

definition demo_tick :: "reference_symbol \<Rightarrow> book_ticker" where
  "demo_tick symbol = \<lparr>tk_symbol = symbol, tk_update_id = 1, tk_best_bid = QuotePriceMicros 5,
     tk_best_bid_quantity = ReferenceQuantityE8 1, tk_best_ask = QuotePriceMicros 6, tk_best_ask_quantity = ReferenceQuantityE8 1\<rparr>"

definition feed_event :: "int \<Rightarrow> int option \<Rightarrow> reference_event \<Rightarrow> envelope" where
  "feed_event n ms e = \<lparr>ev_schema_version = 1, ev_source = SourceReferencePrice, ev_sequence = n,
     ev_event_time = (case ms of None \<Rightarrow> - 1 | Some v \<Rightarrow> v * 1000000), ev_received_time = 10 + n,
     ev_market_id = ''BINANCE_SPOT:'' @ symbol_upper (reference_event_symbol e),
     ev_payload = projr (encode_reference_payload \<lparr>rd_event_time = ms, rd_event = e\<rparr>)\<rparr>"

definition feed_signal :: "int \<Rightarrow> string \<Rightarrow> envelope" where
  "feed_signal n payload = \<lparr>ev_schema_version = 1, ev_source = SourceSystem, ev_sequence = n, ev_event_time = 0,
     ev_received_time = 0, ev_market_id = ''__reference_market_gateway__'', ev_payload = payload\<rparr>"

lemma feed_event_decoded:
  assumes "reference_ok \<lparr>rd_event_time = ms, rd_event = e\<rparr>"
  shows "decode_reference_payload (ev_payload (feed_event n ms e)) = Inr \<lparr>rd_event_time = ms, rd_event = e\<rparr>"
proof -
  obtain bytes where "encode_reference_payload \<lparr>rd_event_time = ms, rd_event = e\<rparr> = Inr bytes"
    using encode_reference_payload_Inr by blast
  then show ?thesis
    using decode_encoded_reference [OF assms] by (simp add: feed_event_def)
qed

lemma demo_reference_ok [simp]:
  "reference_ok \<lparr>rd_event_time = Some 7, rd_event = RefInProgress (demo_candle symbol)\<rparr>"
  "reference_ok \<lparr>rd_event_time = Some 7, rd_event = RefFinalized (demo_candle symbol)\<rparr>"
  "reference_ok \<lparr>rd_event_time = Some 7, rd_event = RefTrade (demo_feed_trade symbol)\<rparr>"
  "reference_ok \<lparr>rd_event_time = None, rd_event = RefTicker (demo_tick symbol)\<rparr>"
  by (simp_all add: reference_ok_def demo_candle_def demo_feed_trade_def demo_tick_def candle_typed_def trade_typed_def ticker_typed_def
      quote_typed_def e8_typed_def i64_ok_def u64_ok_def validate_candle_def)

definition feed_items :: event_journal where
  "feed_items = [Inr (feed_signal 1 ''REFERENCE_MARKET_EPOCH_START_V1''),
     Inr (feed_event 2 (Some 7) (RefFinalized (demo_candle BtcUsdt))),
     Inr (feed_event 3 (Some 7) (RefInProgress ((demo_candle BtcUsdt)\<lparr>cn_open_time := 1\<rparr>))),
     Inr (feed_event 4 (Some 7) (RefInProgress (demo_candle EthUsdt))),
     Inr (feed_event 5 (Some 7) (RefTrade (demo_feed_trade BtcUsdt))), Inr (feed_event 6 (Some 7) (RefTrade (demo_feed_trade EthUsdt))),
     Inr (feed_event 7 None (RefTicker (demo_tick BtcUsdt))), Inr (feed_event 8 None (RefTicker (demo_tick EthUsdt))),
     Inr (feed_signal 9 ''REFERENCE_MARKET_EPOCH_SYNCED_V1'')]"

lemma later_candle_ok [simp]:
  "reference_ok \<lparr>rd_event_time = Some 7, rd_event = RefInProgress ((demo_candle symbol)\<lparr>cn_open_time := 1\<rparr>)\<rparr>"
  by (simp add: reference_ok_def demo_candle_def candle_typed_def quote_typed_def e8_typed_def i64_ok_def u64_ok_def validate_candle_def)

lemma feed_fields [simp]:
  "ev_source (feed_event n ms e) = SourceReferencePrice" "ev_sequence (feed_event n ms e) = n" "ev_received_time (feed_event n ms e) = 10 + n"
  "ev_event_time (feed_event n ms e) = (case ms of None \<Rightarrow> - 1 | Some v \<Rightarrow> v * 1000000)"
  "ev_market_id (feed_event n ms e) = ''BINANCE_SPOT:'' @ symbol_upper (reference_event_symbol e)"
  "ev_source (feed_signal n p) = SourceSystem" "ev_sequence (feed_signal n p) = n" "ev_payload (feed_signal n p) = p"
  "ev_market_id (feed_signal n p) = ''__reference_market_gateway__''"
  by (simp_all add: feed_event_def feed_signal_def)

lemma demo_feed_fields [simp]:
  "cn_symbol (demo_candle symbol) = symbol" "cn_open_time (demo_candle symbol) = 0" "at_symbol (demo_feed_trade symbol) = symbol"
  "tk_symbol (demo_tick symbol) = symbol"
  by (simp_all add: demo_candle_def demo_feed_trade_def demo_tick_def)

lemma feed_replayed:
  "\<exists>s. reference_replay_path feed_items True = Inr s \<and> rs_health s = RefReady
    \<and> finalized_candle s BtcUsdt 0 = Some (demo_candle BtcUsdt) \<and> rs_last_received s = Some 18"
  by (simp add: reference_replay_path_def feed_items_def reference_apply_def reference_default_def apply_reference_system_def
      apply_reference_def reference_active_def feed_event_decoded addu64_def u64_ok_def mul64_def i64_new_def i64_ok_def
      symbol_of_def symbol_default_def apply_finalized_def apply_in_progress_def candle_not_after_def Let_def
      less_reference_symbol_def all_predictive_sources_present_def all_symbols_def finalized_candle_def)

theorem finalized_candles_never_change_witness:
  "\<exists>s. reference_replay_path feed_items True = Inr s \<and> finalized_candle s BtcUsdt 0 = Some (demo_candle BtcUsdt)
    \<and> 0 < cn_close_time (demo_candle BtcUsdt)"
proof -
  obtain s where s: "reference_replay_path feed_items True = Inr s" "finalized_candle s BtcUsdt 0 = Some (demo_candle BtcUsdt)"
    using feed_replayed by blast
  then show ?thesis
    using finalized_candles_never_change [OF s, of "[]" s] by auto
qed

theorem ready_reference_has_every_source_witness:
  "\<exists>s oldest. reference_replay_path feed_items True = Inr s \<and> latest_trade s EthUsdt \<noteq> None \<and> 0 \<le> (oldest :: int)"
proof -
  obtain s where s: "reference_replay_path feed_items True = Inr s" "rs_health s = RefReady"
    using feed_replayed by blast
  then show ?thesis
    using ready_reference_has_every_source [OF s, of EthUsdt] by blast
qed

end
