(* ===== verification/Feed_Supervisor_Theorems.thy ===== *)
theory Feed_Supervisor_Theorems
  imports Feed_Supervisor Live_Market_Theorems Reference_Replay_Theorems
begin

text \<open>
  What the feed supervisor guarantees: ready means that both feeds are ready and fresh, an accepted history never goes
  back, and snapshots of a running actor and of a replayed feed never halt it for a missing or inconsistent time.
\<close>

section \<open>What ready promises\<close>

lemma age_Inr [result_simps]: "age now t = Inr a \<longleftrightarrow> i64_ok (now - t) \<and> a = now - t"
  by (auto simp: age_def result_simps checked_simps)

definition source_in_time :: "supervisor \<Rightarrow> int \<Rightarrow> int \<Rightarrow> bool" where
  "source_in_time sv now t \<longleftrightarrow> t - now \<le> sv_max_future sv \<and> now - t \<le> sv_max_lag sv"

lemma source_times_ready:
  assumes "source_times_mode sv now ts = Inr SupReady" and "0 \<le> sv_max_future sv" and "0 \<le> sv_max_lag sv"
  shows "\<forall>t \<in> set ts. source_in_time sv now t"
  using assms unfolding source_in_time_def by (induction sv now ts rule: source_times_mode.induct)
    (auto simp: u64_or_max_def result_simps split: if_splits)

text \<open>The collected sources of the symbols, when no mode was returned early.\<close>

lemma reference_sources_Inr:
  assumes "reference_sources sv ob symbols events = Inr (Inr all)"
  shows "set events \<subseteq> set all \<and> (\<forall>symbol \<in> set symbols. \<exists>t oldest candle trade. bt_get (rn_symbols (ob_reference ob)) symbol = Some t
    \<and> oldest_required_received t = Some oldest \<and> ob_now ob - oldest \<le> sv_reference_stale sv
    \<and> ss_candle_event t = Some candle \<and> ss_trade_event t = Some trade \<and> candle \<in> set all \<and> trade \<in> set all)"
  using assms
proof (induction sv ob symbols events rule: reference_sources.induct)
  case (2 sv ob symbol symbols events)
  then obtain t oldest candle trade where t: "bt_get (rn_symbols (ob_reference ob)) symbol = Some t"
      "oldest_required_received t = Some oldest" "i64_ok (ob_now ob - oldest)" "ob_now ob - oldest \<le> sv_reference_stale sv"
      "ss_candle_event t = Some candle" "ss_trade_event t = Some trade"
      "reference_sources sv ob symbols (events @ [candle, trade]) = Inr (Inr all)"
    by (auto simp: result_simps split: if_splits)
  have "set (events @ [candle, trade]) \<subseteq> set all \<and> (\<forall>symbol \<in> set symbols. \<exists>t oldest candle trade. bt_get (rn_symbols (ob_reference ob)) symbol = Some t
    \<and> oldest_required_received t = Some oldest \<and> ob_now ob - oldest \<le> sv_reference_stale sv
    \<and> ss_candle_event t = Some candle \<and> ss_trade_event t = Some trade \<and> candle \<in> set all \<and> trade \<in> set all)"
    by (rule "2.IH" [of t oldest "ob_now ob - oldest" candle trade]) (use t in \<open>simp_all add: age_Inr\<close>)
  then show ?case
    using t by auto
qed simp

lemma reference_sources_stale: "reference_sources sv ob symbols events = Inr (Inl m) \<Longrightarrow> m = SupReferenceStale"
  by (induction sv ob symbols events rule: reference_sources.induct) (auto simp: result_simps split: if_splits)

lemma evaluate_mode_ready:
  assumes "evaluate_mode sv ob = Inr SupReady" and "0 \<le> sv_max_future sv" and "0 \<le> sv_max_skew sv" and "0 \<le> sv_max_lag sv"
  shows "as_ready (ob_market ob) \<and> rn_health (ob_reference ob) = RefReady
    \<and> (\<exists>received event reference. as_last_market_received (ob_market ob) = Some received \<and> as_last_market_event (ob_market ob) = Some event
         \<and> rn_last_received (ob_reference ob) = Some reference
         \<and> ob_now ob - received \<le> sv_market_stale sv \<and> \<bar>received - reference\<bar> \<le> sv_max_skew sv
         \<and> source_in_time sv (ob_now ob) event)
    \<and> (\<forall>symbol. \<exists>t oldest candle trade. bt_get (rn_symbols (ob_reference ob)) symbol = Some t
         \<and> oldest_required_received t = Some oldest \<and> ob_now ob - oldest \<le> sv_reference_stale sv
         \<and> ss_candle_event t = Some candle \<and> ss_trade_event t = Some trade
         \<and> source_in_time sv (ob_now ob) candle \<and> source_in_time sv (ob_now ob) trade)"
proof -
  obtain received event reference r where f: "as_ready (ob_market ob)" "rn_health (ob_reference ob) = RefReady"
      "as_last_market_received (ob_market ob) = Some received" "as_last_market_event (ob_market ob) = Some event"
      "rn_last_received (ob_reference ob) = Some reference" "\<not> sv_market_stale sv < ob_now ob - received"
      and r: "reference_sources sv ob all_symbols [event] = Inr r"
      "(case r of Inl m \<Rightarrow> Inr m | Inr events \<Rightarrow> if u64_or_max (sv_max_skew sv) < \<bar>received - reference\<bar> then Inr SupCrossFeedSkew
          else source_times_mode sv (ob_now ob) events) = (Inr SupReady :: supervisor_error + supervisor_mode)"
    using assms(1) unfolding evaluate_mode_def Let_def
    by (auto simp only: result_simps if_Inr_iff rbind_Inr_iff ok_or_Inr_iff age_Inr sum.inject supervisor_mode.distinct split: if_split_asm)
  obtain events where events: "reference_sources sv ob all_symbols [event] = Inr (Inr events)"
      "\<bar>received - reference\<bar> \<le> sv_max_skew sv" "source_times_mode sv (ob_now ob) events = Inr SupReady"
    using r assms(3) reference_sources_stale by (cases r) (fastforce simp: u64_or_max_def split: if_splits)+
  have times: "\<forall>t \<in> set events. source_in_time sv (ob_now ob) t"
    by (rule source_times_ready [OF events(3) assms(2,4)])
  have "symbol \<in> set all_symbols" for symbol
    by (cases symbol) (simp_all add: all_symbols_def)
  then have symbols: "\<exists>t oldest candle trade. bt_get (rn_symbols (ob_reference ob)) symbol = Some t
      \<and> oldest_required_received t = Some oldest \<and> ob_now ob - oldest \<le> sv_reference_stale sv
      \<and> ss_candle_event t = Some candle \<and> ss_trade_event t = Some trade \<and> candle \<in> set events \<and> trade \<in> set events" for symbol
    using reference_sources_Inr [OF events(1)] by blast
  have "event \<in> set events"
    using reference_sources_Inr [OF events(1)] by simp
  then show ?thesis
    using f events(2) times symbols by (simp add: not_less) blast
qed

section \<open>Sequences of observations\<close>

definition budgets_of :: "supervisor_config \<Rightarrow> supervisor \<Rightarrow> bool" where
  "budgets_of c sv \<longleftrightarrow> sv_market_stale sv = vc_market_stale_after c \<and> sv_reference_stale sv = vc_reference_stale_after c
     \<and> sv_max_skew sv = vc_max_cross_feed_skew c \<and> sv_max_lag sv = vc_max_source_lag c
     \<and> sv_max_future sv = vc_max_source_future c
     \<and> list_all (\<lambda>v. v \<noteq> 0) [sv_market_stale sv, sv_reference_stale sv, sv_max_skew sv, sv_max_lag sv, sv_max_future sv]"

lemma duration_ns_Inr [result_simps]: "duration_ns d = Inr n \<longleftrightarrow> i64_ok d \<and> d \<noteq> 0 \<and> n = d"
  by (auto simp: duration_ns_def result_simps checked_simps)

lemma supervisor_new_budgets: "supervisor_new c = Inr sv \<Longrightarrow> budgets_of c sv \<and> sv_halt_reason sv = None"
  by (auto simp: supervisor_new_def budgets_of_def result_simps)

lemma evaluate_Inr:
  assumes "supervisor_evaluate blake3 ob sv = (Inr snap, sv')"
  shows "evaluate_checks blake3 ob sv = Inr (sv_mode sv') \<and> snap = supervisor_snapshot_of blake3 sv' \<and> sv_last_now sv' = Some (ob_now ob)
    \<and> sv_market_marker sv' = Some (market_marker blake3 (ob_market ob))
    \<and> sv_reference_marker sv' = Some (reference_marker blake3 (ob_reference ob))
    \<and> (budgets_of c sv \<longrightarrow> budgets_of c sv')"
  using assms by (auto simp: supervisor_evaluate_def Let_def budgets_of_def split: option.splits sum.splits)

lemma observe_budgets: "supervisor_observe blake3 sv obs = Inr sv' \<Longrightarrow> budgets_of c sv \<Longrightarrow> budgets_of c sv'"
proof (induction blake3 sv obs rule: supervisor_observe.induct)
  case (2 blake3 sv ob obs)
  then obtain snap u where u: "supervisor_evaluate blake3 ob sv = (Inr snap, u)" "supervisor_observe blake3 u obs = Inr sv'"
    by (auto split: prod.splits sum.splits)
  then show ?case
    using "2.IH" evaluate_Inr [OF u(1), of c] "2.prems"(2) by auto
qed simp

lemma no_future_receive:
  assumes "validate_no_future_receive ob = Inr ()"
  shows "as_last_market_received (ob_market ob) = Some t \<Longrightarrow> 0 \<le> t \<and> t \<le> ob_now ob"
    and "rn_last_received (ob_reference ob) = Some t \<Longrightarrow> 0 \<le> t \<and> t \<le> ob_now ob"
  using assms by (auto simp: validate_no_future_receive_def Let_def option_list_def list_ex_iff not_less split: if_splits)

lemma evaluate_checks_Inr:
  assumes "evaluate_checks blake3 ob sv = Inr m"
  shows "0 \<le> ob_now ob \<and> (\<forall>p. sv_last_now sv = Some p \<longrightarrow> p \<le> ob_now ob)
    \<and> validate_previous_marker ''market'' (sv_market_marker sv) (market_marker blake3 (ob_market ob)) = Inr ()
    \<and> validate_previous_marker ''reference'' (sv_reference_marker sv) (reference_marker blake3 (ob_reference ob)) = Inr ()
    \<and> validate_no_future_receive ob = Inr () \<and> evaluate_mode sv ob = Inr m"
  using assms by (auto simp: evaluate_checks_def result_simps split: option.splits if_splits)


text \<open>Later feed history never goes back.\<close>

definition marker_le :: "feed_marker \<Rightarrow> feed_marker \<Rightarrow> bool" where
  "marker_le a b \<longleftrightarrow> fm_epoch a \<le> fm_epoch b
     \<and> (\<forall>l. fm_sequence a = Some l \<longrightarrow> (\<exists>r. fm_sequence b = Some r \<and> l \<le> r))"

lemma marker_le_trans: "marker_le a b \<Longrightarrow> marker_le b c \<Longrightarrow> marker_le a c"
  unfolding marker_le_def by (meson order_trans)

lemma validate_marker_le: "validate_marker feed a b = Inr () \<Longrightarrow> marker_le a b"
  by (auto simp: validate_marker_def marker_le_def split: if_splits option.splits)

lemma observe_after:
  assumes "supervisor_observe blake3 sv obs = Inr sv'" and "b \<in> set obs"
  shows "(\<forall>p. sv_last_now sv = Some p \<longrightarrow> p \<le> ob_now b)
    \<and> (\<forall>m. sv_market_marker sv = Some m \<longrightarrow> marker_le m (market_marker blake3 (ob_market b)))
    \<and> (\<forall>m. sv_reference_marker sv = Some m \<longrightarrow> marker_le m (reference_marker blake3 (ob_reference b)))"
  using assms
proof (induction blake3 sv obs rule: supervisor_observe.induct)
  case (2 blake3 sv ob obs)
  obtain snap u where u: "supervisor_evaluate blake3 ob sv = (Inr snap, u)" "supervisor_observe blake3 u obs = Inr sv'"
    using "2.prems"(1) by (auto split: prod.splits sum.splits)
  note e = evaluate_Inr [OF u(1)]
  note first = evaluate_checks_Inr [of blake3 ob sv "sv_mode u"]
  have here: "(\<forall>p. sv_last_now sv = Some p \<longrightarrow> p \<le> ob_now ob)
    \<and> (\<forall>m. sv_market_marker sv = Some m \<longrightarrow> marker_le m (market_marker blake3 (ob_market ob)))
    \<and> (\<forall>m. sv_reference_marker sv = Some m \<longrightarrow> marker_le m (reference_marker blake3 (ob_reference ob)))"
    using first e by (auto simp: validate_previous_marker_def dest: validate_marker_le)
  show ?case
  proof (cases "b = ob")
    case False
    then have "b \<in> set obs" using "2.prems"(2) by simp
    then have "ob_now ob \<le> ob_now b \<and> marker_le (market_marker blake3 (ob_market ob)) (market_marker blake3 (ob_market b))
        \<and> marker_le (reference_marker blake3 (ob_reference ob)) (reference_marker blake3 (ob_reference b))"
      using "2.IH" u e by auto
    then show ?thesis
      using here by (meson marker_le_trans order_trans)
  qed (use here in simp)
qed simp

lemma observe_append: "supervisor_observe blake3 sv (as @ bs) = rbind (supervisor_observe blake3 sv as) (\<lambda>u. supervisor_observe blake3 u bs)"
  by (induction blake3 sv as rule: supervisor_observe.induct) (auto split: prod.splits sum.splits)

text \<open>An accepted history never goes back: of any two observations that a supervisor accepted, the later one has a
  later or equal evaluation time, and for each feed a later or equal epoch and sequence; a sequence once known stays
  known.\<close>
theorem supervised_history_is_monotone:
  assumes "supervisor_new config = Inr sv0" and "supervisor_observe blake3 sv0 (before @ a # between @ b # after) = Inr sv"
  shows "0 \<le> ob_now a \<and> ob_now a \<le> ob_now b
    \<and> as_epoch (ob_market a) \<le> as_epoch (ob_market b) \<and> rn_epoch (ob_reference a) \<le> rn_epoch (ob_reference b)
    \<and> (\<forall>l. as_last_sequence (ob_market a) = Some l \<longrightarrow> (\<exists>r. as_last_sequence (ob_market b) = Some r \<and> l \<le> r))
    \<and> (\<forall>l. rn_last_sequence (ob_reference a) = Some l \<longrightarrow> (\<exists>r. rn_last_sequence (ob_reference b) = Some r \<and> l \<le> r))"
proof -
  obtain u where u: "supervisor_observe blake3 u (a # between @ b # after) = Inr sv"
    using assms(2) by (auto simp: observe_append result_simps)
  then obtain snap w where w: "supervisor_evaluate blake3 a u = (Inr snap, w)" "supervisor_observe blake3 w (between @ b # after) = Inr sv"
    by (auto split: prod.splits sum.splits)
  have "0 \<le> ob_now a"
    using evaluate_Inr [OF w(1)] evaluate_checks_Inr [of blake3 a u "sv_mode w"] by simp
  then show ?thesis
    using observe_after [OF w(2), of b] evaluate_Inr [OF w(1)]
    by (simp add: marker_le_def market_marker_def reference_marker_def)
qed

section \<open>Feeds that are replayed\<close>

definition feed_times :: "reference_state \<Rightarrow> bool" where
  "feed_times s \<longleftrightarrow> (rs_symbols s = [] \<or> (\<exists>symbol v m. bt_get (rs_symbols s) symbol = Some v \<and> rs_last_received s = Some m
       \<and> Some m \<in> {sy_candle_received v, sy_trade_received v, sy_ticker_received v}))
     \<and> bt_ok (rs_symbols s) \<and> (\<forall>m. rs_last_received s = Some m \<longrightarrow> 0 \<le> m)
     \<and> (\<forall>symbol v t. bt_get (rs_symbols s) symbol = Some v \<and> Some t \<in> {sy_candle_event v, sy_trade_event v} \<longrightarrow> 0 \<le> t)"

lemma event_newest:
  assumes "apply_reference_event e t m s = Inr s'"
  shows "\<exists>v. rs_symbols s' = bt_insert (reference_event_symbol e) v (rs_symbols s)
    \<and> Some m \<in> {sy_candle_received v, sy_trade_received v, sy_ticker_received v}
    \<and> {sy_candle_event v, sy_trade_event v} \<subseteq> {sy_candle_event (symbol_of s (reference_event_symbol e)),
        sy_trade_event (symbol_of s (reference_event_symbol e))} \<union> (if reference_event_kind e = KindBookTicker then {} else {Some t})"
proof (cases e)
  case (RefInProgress c)
  then obtain v where v: "apply_in_progress c (symbol_of s (cn_symbol c)) = Inr v"
      "rs_symbols s' = bt_insert (cn_symbol c) (v\<lparr>sy_candle_event := Some t, sy_candle_received := Some m\<rparr>) (rs_symbols s)"
    using assms by (auto simp: result_simps)
  show ?thesis
    by (rule exI [of _ "v\<lparr>sy_candle_event := Some t, sy_candle_received := Some m\<rparr>"])
      (use v in_progress_applied [OF v(1)] RefInProgress in simp)
next
  case (RefFinalized c)
  then obtain v where v: "apply_finalized c (symbol_of s (cn_symbol c)) = Inr v"
      "rs_symbols s' = bt_insert (cn_symbol c) (v\<lparr>sy_candle_event := Some t, sy_candle_received := Some m\<rparr>) (rs_symbols s)"
    using assms by (auto simp: result_simps Let_def split: option.splits if_splits)
  show ?thesis
    by (rule exI [of _ "v\<lparr>sy_candle_event := Some t, sy_candle_received := Some m\<rparr>"])
      (use v finalized_applied [OF v(1)] RefFinalized in auto)
next
  case (RefTrade tr)
  then show ?thesis
    using assms by (intro exI [of _ "symbol_of s (at_symbol tr)\<lparr>sy_trade := Some tr, sy_trade_event := Some t, sy_trade_received := Some m\<rparr>"])
      (auto simp: Let_def split: if_splits)
next
  case (RefTicker b)
  then show ?thesis
    using assms by (intro exI [of _ "symbol_of s (tk_symbol b)\<lparr>sy_ticker := Some b, sy_ticker_received := Some m\<rparr>"])
      (auto simp: Let_def split: if_splits)
qed

lemma feed_times_event:
  assumes "apply_reference_event e t m s = Inr s'" and "feed_times s" and "reference_event_kind e = KindBookTicker \<or> 0 \<le> t"
    and "0 \<le> m"
  shows "feed_times (s'\<lparr>rs_last_received := Some m\<rparr>)"
proof -
  obtain v where v: "rs_symbols s' = bt_insert (reference_event_symbol e) v (rs_symbols s)"
      "Some m \<in> {sy_candle_received v, sy_trade_received v, sy_ticker_received v}"
      "{sy_candle_event v, sy_trade_event v} \<subseteq> {sy_candle_event (symbol_of s (reference_event_symbol e)),
        sy_trade_event (symbol_of s (reference_event_symbol e))} \<union> (if reference_event_kind e = KindBookTicker then {} else {Some t})"
    using event_newest [OF assms(1)] by blast
  have old: "0 \<le> x" if "bt_get (rs_symbols s) k = Some w" "Some x \<in> {sy_candle_event w, sy_trade_event w}" for k w x
    using assms(2) that unfolding feed_times_def by blast
  have "0 \<le> x" if "Some x \<in> {sy_candle_event (symbol_of s k), sy_trade_event (symbol_of s k)}" for k x
    using that old [of k] by (auto simp: symbol_of_def symbol_default_def split: option.splits)
  then have new: "0 \<le> x" if "Some x \<in> {sy_candle_event v, sy_trade_event v}" for x
    using subsetD [OF v(3) that] assms(3) by (auto split: if_splits)
  have "bt_get (rs_symbols s') (reference_event_symbol e) = Some v"
    by (simp add: v(1) bt_get_insert)
  then have "\<exists>symbol v n. bt_get (rs_symbols s') symbol = Some v \<and> Some m = Some n
      \<and> Some n \<in> {sy_candle_received v, sy_trade_received v, sy_ticker_received v}"
    using v(2) by blast
  moreover have "0 \<le> x" if "bt_get (rs_symbols s') k = Some w" "Some x \<in> {sy_candle_event w, sy_trade_event w}" for k w x
    using that new old by (auto simp: v(1) bt_get_insert split: if_splits)
  moreover have "bt_ok (rs_symbols s')"
    using assms(2) unfolding v(1) feed_times_def by (intro bt_ok_insert) blast
  ultimately show ?thesis
    using assms(4) unfolding feed_times_def by simp blast
qed

lemma feed_times_apply:
  assumes "reference_apply e s = Inr s'" and "feed_times s"
  shows "feed_times s'"
proof -
  obtain t where t: "apply_reference_system (ev_payload e) s = Inr t \<or> apply_reference e s = Inr t"
      "s' = t\<lparr>rs_last_sequence := Some (ev_sequence e)\<rparr>"
    using assms(1) by (auto simp: reference_apply_def result_simps split: if_splits)
  have "feed_times t" if "apply_reference_system (ev_payload e) s = Inr t"
  proof -
    have "rs_symbols t = [] \<and> rs_last_received t = rs_last_received s \<or> t = s\<lparr>rs_health := RefReady\<rparr>"
      using system_step [OF that] by (metis reference_state.select_convs(4,6) reference_state.surjective reference_state.update_convs(1,2,4))
    moreover have "feed_times (s\<lparr>rs_health := RefReady\<rparr>)"
      using assms(2) by (simp add: feed_times_def)
    moreover have "feed_times t" if "rs_symbols t = [] \<and> rs_last_received t = rs_last_received s"
      using that assms(2) by (simp add: feed_times_def)
    ultimately show ?thesis by blast
  qed
  moreover have "feed_times t" if applied: "apply_reference e s = Inr t"
  proof -
    obtain d u where d: "decode_reference_payload (ev_payload e) = Inr d"
        "apply_reference_event (rd_event d) (ev_event_time e) (ev_received_time e) s = Inr u"
        "t = u\<lparr>rs_last_received := Some (ev_received_time e)\<rparr>"
        "\<forall>ms. rd_event_time d = Some ms \<longrightarrow> ev_event_time e = ms * 1000000" "0 \<le> ev_received_time e"
      using applied by (auto simp: apply_reference_def result_simps checked_simps split: if_splits sum.splits option.splits)
    have "reference_event_kind (rd_event d) = KindBookTicker \<or> 0 \<le> ev_event_time e"
      using decode_reference_is_encoding [OF d(1)] d(4) by (auto simp: reference_ok_def)
    then show ?thesis
      unfolding d(3) by (rule feed_times_event [OF d(2) assms(2) _ d(5)])
  qed
  ultimately have "feed_times t"
    using t(1) by blast
  then show ?thesis
    by (simp add: t(2) feed_times_def)
qed

lemma feed_times_items: "reference_items s items = Inr t \<Longrightarrow> feed_times s \<Longrightarrow> feed_times t"
  by (induction s items rule: reference_items.induct) (auto simp: result_simps intro: feed_times_apply)

lemma replayed_feed:
  assumes "reference_replay_path items clean = Inr s"
  shows "feed_times s \<and> reference_inv s"
proof -
  have "reference_items reference_default items = Inr s"
    using assms by (auto simp: reference_replay_path_def result_simps)
  moreover have "feed_times reference_default"
    by (simp add: feed_times_def reference_default_def)
  ultimately show ?thesis
    using feed_times_items reference_reached reference_default_inv by blast
qed

section \<open>Actors that run\<close>

definition live_times :: "live_core \<Rightarrow> bool" where
  "live_times c \<longleftrightarrow> (lc_last_received c = None \<longleftrightarrow> lc_last_event c = None) \<and> (\<forall>t. lc_last_event c = Some t \<longrightarrow> 0 \<le> t)"

lemma refresh_mode_event [simp]: "lc_last_event (snd (refresh_mode now c)) = lc_last_event c"
  by (auto simp: refresh_mode_def split: epoch_status.split option.split sum.split)

lemma live_times_refresh [simp]: "live_times (snd (refresh_mode now c)) = live_times c" "live_times (live_halt r c) = live_times c"
  by (simp_all add: live_times_def)

lemma live_times_apply: "live_times c \<Longrightarrow> live_times (snd (live_apply cx e c))"
proof (cases "market_time_error e c")
  case (Some err)
  then show "live_times c \<Longrightarrow> ?thesis"
    by (simp add: live_apply_def split: option.split)
next
  case None
  then have "ev_source e = SourceMarket \<Longrightarrow> 0 \<le> ev_event_time e"
    by (auto simp: market_time_error_def split: if_splits)
  then show "live_times c \<Longrightarrow> ?thesis"
    using None by (auto simp: live_apply_def Let_def live_times_def split: option.split sum.split)
qed

lemma live_times_round: "actor_round cx i c = (False, c') \<Longrightarrow> live_times c \<Longrightarrow> live_times c'"
proof (induction cx i c rule: actor_round.induct)
  case (2 cx e c)
  then show ?case using live_times_apply [of c cx e] by (auto split: prod.splits)
next
  case (3 cx clock c)
  then show ?case
    by (auto simp: actor_tick_def evaluate_health_def split: sum.splits option.splits prod.splits dest: arg_cong [where f = snd]
        simp flip: snd_conv) (metis live_times_refresh(1) snd_conv)
qed simp

lemma live_times_run: "actor_run cx c is = (ss, False, c') \<Longrightarrow> live_times c \<Longrightarrow> live_times c'"
  by (induction cx c "is" arbitrary: ss rule: actor_run.induct) (auto split: prod.splits bool.splits dest: live_times_round)

section \<open>Supervising both\<close>

lemma sources_no_error:
  assumes "\<And>symbol. \<exists>t oldest candle trade. bt_get (rn_symbols (ob_reference ob)) symbol = Some t
      \<and> oldest_required_received t = Some oldest \<and> 0 \<le> oldest \<and> oldest \<le> ob_now ob
      \<and> ss_candle_event t = Some candle \<and> 0 \<le> candle \<and> ss_trade_event t = Some trade \<and> 0 \<le> trade"
    and "i64_ok (ob_now ob)" and "\<forall>t \<in> set events. 0 \<le> t"
  shows "\<exists>r. reference_sources sv ob symbols events = Inr r \<and> (\<forall>all. r = Inr all \<longrightarrow> (\<forall>t \<in> set all. 0 \<le> t))"
  using assms(3)
proof (induction symbols arbitrary: events)
  case (Cons symbol symbols)
  obtain t oldest candle trade where t: "bt_get (rn_symbols (ob_reference ob)) symbol = Some t"
      "oldest_required_received t = Some oldest" "0 \<le> oldest" "oldest \<le> ob_now ob"
      "ss_candle_event t = Some candle" "0 \<le> candle" "ss_trade_event t = Some trade" "0 \<le> trade"
    using assms(1) by blast
  have a: "age (ob_now ob) oldest = Inr (ob_now ob - oldest)"
    using t(3,4) assms(2) by (simp add: age_Inr i64_ok_def)
  have "\<exists>r. reference_sources sv ob symbols (events @ [candle, trade]) = Inr r \<and> (\<forall>all. r = Inr all \<longrightarrow> (\<forall>t \<in> set all. 0 \<le> t))"
    by (rule Cons.IH) (use Cons.prems t in auto)
  then show ?case
    using t a by simp
qed simp

lemma source_times_no_error:
  "\<forall>t \<in> set ts. 0 \<le> t \<Longrightarrow> i64_ok now \<Longrightarrow> 0 \<le> now \<Longrightarrow> \<exists>m. source_times_mode sv now ts = Inr m"
proof (induction ts)
  case (Cons t ts)
  have "age now t = Inr (now - t)" if "\<not> now < t"
    using that Cons.prems by (simp add: age_Inr i64_ok_def)
  then show ?case
    using Cons by auto
qed simp

lemma snapshot_get: "bt_get (map (\<lambda>(k, v). (k, f v)) m) k = map_option f (bt_get m k)"
  by (induction m) auto

lemma feed_event_times:
  "feed_times s \<Longrightarrow> bt_get (rs_symbols s) symbol = Some v \<Longrightarrow> sy_candle_event v = Some t \<or> sy_trade_event v = Some t \<Longrightarrow> 0 \<le> t"
  unfolding feed_times_def by (metis insert_iff)

text \<open>What the supervisor finds in the snapshot of a replayed feed that is ready.\<close>

lemma ready_snapshot:
  assumes "feed_times s" and "reference_inv s" and "rs_health s = RefReady"
  shows "\<exists>v oldest candle trade. bt_get (rs_symbols s) symbol = Some v
    \<and> oldest_required_received (symbol_snapshot_of v) = Some oldest \<and> 0 \<le> oldest
    \<and> (\<exists>m. rs_last_received s = Some m \<and> oldest \<le> m)
    \<and> sy_candle_event v = Some candle \<and> 0 \<le> candle \<and> sy_trade_event v = Some trade \<and> 0 \<le> trade"
proof -
  obtain v where v: "bt_get (rs_symbols s) symbol = Some v" "sources_of v"
    using assms(2,3) unfolding reference_inv_def sources_seen_def by blast
  have ok: "symbol_ok (rs_last_received s) v"
    using assms(2) v(1) by (simp add: reference_inv_def)
  obtain candle trade where e: "sy_candle_event v = Some candle" "sy_trade_event v = Some trade"
    using ok v(2) by (auto simp: symbol_ok_def sources_of_def)
  then have "0 \<le> candle" "0 \<le> trade"
    using feed_event_times [OF assms(1) v(1)] by simp_all
  then show ?thesis
    using v e ok by (auto simp: symbol_ok_def sources_of_def received_by_def oldest_required_received_def symbol_snapshot_of_def)
qed

lemma latest_component_Inr:
  "latest_component [Some a, Some b, Some c] l = Inr (max (max (max l a) b) c)"
  by simp

lemma max_six:
  assumes "m \<in> {a, b, c, d, e, f}" and "\<forall>x \<in> {a, b, c, d, e, f}. (0 :: int) \<le> x \<and> x \<le> m" and "l \<le> 0"
  shows "max (max (max (max (max (max l a) b) c) d) e) f = m"
proof (rule antisym)
  show "max (max (max (max (max (max l a) b) c) d) e) f \<le> m"
    using assms(2,3) by simp
  show "m \<le> max (max (max (max (max (max l a) b) c) d) e) f"
    using assms(1) unfolding le_max_iff_disj insert_iff by (elim disjE) simp_all
qed

lemma ready_timing:
  assumes "feed_times s" and "reference_inv s" and "rs_health s = RefReady"
  shows "validate_reference_timing (reference_snapshot_of blake3 s) = Inr ()"
proof -
  have all: "\<exists>v c t k. bt_get (rs_symbols s) symbol = Some v \<and> sy_candle_received v = Some c \<and> sy_trade_received v = Some t
      \<and> sy_ticker_received v = Some k \<and> (\<forall>x \<in> {c, t, k}. 0 \<le> x \<and> (\<exists>m. rs_last_received s = Some m \<and> x \<le> m))" for symbol
  proof -
    obtain v where v: "bt_get (rs_symbols s) symbol = Some v" "sources_of v"
      using assms(2,3) unfolding reference_inv_def sources_seen_def by blast
    have "symbol_ok (rs_last_received s) v"
      using assms(2) v(1) by (simp add: reference_inv_def)
    then show ?thesis
      using v by (auto simp: symbol_ok_def sources_of_def received_by_def)
  qed
  obtain v1 c1 t1 k1 where 1: "bt_get (rs_symbols s) BtcUsdt = Some v1" "sy_candle_received v1 = Some c1" "sy_trade_received v1 = Some t1"
      "sy_ticker_received v1 = Some k1" "\<forall>x \<in> {c1, t1, k1}. 0 \<le> x \<and> (\<exists>m. rs_last_received s = Some m \<and> x \<le> m)"
    using all by blast
  obtain v2 c2 t2 k2 where 2: "bt_get (rs_symbols s) EthUsdt = Some v2" "sy_candle_received v2 = Some c2" "sy_trade_received v2 = Some t2"
      "sy_ticker_received v2 = Some k2" "\<forall>x \<in> {c2, t2, k2}. 0 \<le> x \<and> (\<exists>m. rs_last_received s = Some m \<and> x \<le> m)"
    using all by blast
  obtain symbol v m where m: "bt_get (rs_symbols s) symbol = Some v" "rs_last_received s = Some m"
      "Some m \<in> {sy_candle_received v, sy_trade_received v, sy_ticker_received v}"
    using assms(1) 1(1) unfolding feed_times_def by auto
  have "m \<in> {c1, t1, k1, c2, t2, k2}"
    using m 1 2 by (cases symbol) auto
  moreover have "\<forall>x \<in> {c1, t1, k1, c2, t2, k2}. 0 \<le> x \<and> x \<le> m"
    using 1(5) [unfolded m(2)] 2(5) [unfolded m(2)] by simp
  ultimately have "max (max (max (max (max (max i64_min c1) t1) k1) c2) t2) k2 = m"
    by (rule max_six) (simp add: i64_min_def)
  moreover have get: "bt_get (rn_symbols (reference_snapshot_of blake3 s)) symbol = map_option symbol_snapshot_of (bt_get (rs_symbols s) symbol)" for symbol
    by (simp add: reference_snapshot_of_def snapshot_get)
  have "latest_over_symbols (reference_snapshot_of blake3 s) all_symbols i64_min
      = Inr (max (max (max (max (max (max i64_min c1) t1) k1) c2) t2) k2)"
    by (simp only: all_symbols_def latest_over_symbols.simps get 1(1-4) 2(1-4) option.map ok_or_simps sum.case symbol_snapshot_of_def
        symbol_snapshot.simps latest_component.simps)
  moreover have "rn_last_received (reference_snapshot_of blake3 s) = Some m"
    by (simp add: reference_snapshot_of_def m(2))
  ultimately show ?thesis
    by (simp only: validate_reference_timing_def ok_or_simps sum.case if_True simp_thms)
qed

lemma replayed_no_future:
  assumes "feed_times s" and "reference_inv s" and "\<forall>t. rs_last_received s = Some t \<longrightarrow> t \<le> now"
    and "\<forall>t. as_last_market_received market = Some t \<longrightarrow> 0 \<le> t \<and> t \<le> now"
  shows "validate_no_future_receive \<lparr>ob_now = now, ob_market = market, ob_reference = reference_snapshot_of blake3 s\<rparr> = Inr ()"
proof -
  have "0 \<le> t \<and> t \<le> now" if "(k, v) \<in> set (rs_symbols s)" "t \<in> set (component_times (symbol_snapshot_of v))" for k v t
  proof -
    have "bt_get (rs_symbols s) k = Some v"
      using that(1) assms(1) by (simp add: feed_times_def bt_mem_get)
    then have "symbol_ok (rs_last_received s) v"
      using assms(2) by (simp add: reference_inv_def)
    moreover have "Some t \<in> {sy_candle_received v, sy_trade_received v, sy_ticker_received v}"
      using that(2) by (auto simp: component_times_def option_list_def symbol_snapshot_of_def split: option.splits)
    ultimately show ?thesis
      using assms(3) by (fastforce simp: symbol_ok_def received_by_def)
  qed
  then have "\<forall>t \<in> set (concat (map (\<lambda>e. component_times (snd e)) (map (\<lambda>(symbol, v). (symbol, symbol_snapshot_of v)) (rs_symbols s)))). 0 \<le> t \<and> t \<le> now"
    by (auto simp: split: prod.splits)
  moreover have "\<forall>t \<in> set (option_list (rs_last_received s)). 0 \<le> t \<and> t \<le> now"
    using assms(1,3) by (auto simp: option_list_def feed_times_def split: option.splits)
  moreover have "\<forall>t \<in> set (option_list (as_last_market_received market)). 0 \<le> t \<and> t \<le> now"
    using assms(4) by (auto simp: option_list_def split: option.splits)
  ultimately show ?thesis
    by (fastforce simp: validate_no_future_receive_def Let_def reference_snapshot_of_def list_ex_iff)
qed


section \<open>Observations\<close>

definition demo_market :: actor_snapshot where
  "demo_market = \<lparr>as_mode = ActorReady, as_ready = True, as_epoch = 1, as_last_sequence = Some 3, as_book_count = 1,
     as_digest = 5, as_last_market_event = Some 90, as_last_market_received = Some 100, as_halt_reason = None\<rparr>"

definition demo_times :: symbol_snapshot where
  "demo_times = \<lparr>ss_candle_event = Some 80, ss_candle_received = Some 95, ss_trade_event = Some 91,
     ss_trade_received = Some 99, ss_ticker_received = Some 98\<rparr>"

definition demo_reference :: reference_snapshot where
  "demo_reference = \<lparr>rn_health = RefReady, rn_epoch = 1, rn_last_sequence = Some 9, rn_digest = 6, rn_last_received = Some 99,
     rn_symbols = [(BtcUsdt, demo_times), (EthUsdt, demo_times)]\<rparr>"

definition demo_observation :: observation where
  "demo_observation = \<lparr>ob_now = 100, ob_market = demo_market, ob_reference = demo_reference\<rparr>"

definition demo_supervisor :: supervisor where
  "demo_supervisor = \<lparr>sv_market_stale = 5000000000, sv_reference_stale = 5000000000, sv_max_skew = 2000000000,
     sv_max_lag = 10000000000, sv_max_future = 500000000, sv_mode = SupStarting, sv_last_now = None,
     sv_market_marker = None, sv_reference_marker = None, sv_halt_reason = None\<rparr>"

definition sup_hash :: "string \<Rightarrow> bytes32" where
  "sup_hash v = of_nat (length v)"

lemma demo_supervisor_new: "supervisor_new supervisor_config_default = Inr demo_supervisor"
  by (simp add: supervisor_new_def supervisor_config_default_def duration_ns_def demo_supervisor_def i64_new_def i64_ok_def)

definition sup_observed :: supervisor where
  "sup_observed = demo_supervisor\<lparr>sv_mode := SupReady, sv_last_now := Some 100,
     sv_market_marker := Some (market_marker sup_hash demo_market),
     sv_reference_marker := Some (reference_marker sup_hash demo_reference)\<rparr>"

lemma sup_demo_mode: "evaluate_mode (sv\<lparr>sv_mode := m, sv_last_now := n, sv_market_marker := a, sv_reference_marker := b\<rparr>) demo_observation = Inr SupReady"
  if "sv = demo_supervisor"
  by (simp add: that evaluate_mode_def demo_observation_def demo_market_def demo_reference_def demo_times_def demo_supervisor_def
      all_symbols_def age_def sub64_def i64_new_def i64_ok_def oldest_required_received_def u64_or_max_def less_reference_symbol_def)

lemma demo_checks:
  "validate_no_future_receive demo_observation = Inr ()" "validate_reference_timing demo_reference = Inr ()"
  by (simp_all add: validate_no_future_receive_def demo_observation_def demo_market_def demo_reference_def demo_times_def
      option_list_def component_times_def validate_reference_timing_def all_symbols_def i64_min_def)

lemma marker_stays [simp]: "validate_marker feed m m = Inr ()"
  by (simp add: validate_marker_def split: option.split)

lemma demo_evaluated:
  "supervisor_evaluate sup_hash demo_observation demo_supervisor = (Inr (supervisor_snapshot_of sup_hash sup_observed), sup_observed)"
  "supervisor_evaluate sup_hash demo_observation sup_observed = (Inr (supervisor_snapshot_of sup_hash sup_observed), sup_observed)"
  using demo_checks sup_demo_mode [OF refl]
  by (simp_all add: supervisor_evaluate_def evaluate_checks_def sup_observed_def validate_previous_marker_def Let_def
      demo_observation_def demo_supervisor_def)


theorem supervised_history_is_monotone_witness:
  "as_epoch (ob_market demo_observation) \<le> as_epoch (ob_market demo_observation)"
proof -
  have "supervisor_observe sup_hash demo_supervisor ([] @ demo_observation # [] @ demo_observation # []) = Inr sup_observed"
    using demo_evaluated by simp
  from supervised_history_is_monotone [OF demo_supervisor_new this] show ?thesis by blast
qed


end
