(* ===== verification/Resolution_Rules.thy ===== *)
theory Resolution_Rules
  imports Market_Identity Reference_Payload
begin

text \<open>
  The resolution rules of \<open>crates/resolution-rules/src/lib.rs\<close>: binding a market identity to the candle its rules
  name, the outcome of that candle, the oracle state that holds the final evidence, and the binary form of the
  evidence. \<open>blake3\<close> is a parameter.
\<close>

section \<open>Data\<close>

datatype close_comparator = GreaterThanOrEqual

datatype market_outcome = OutcomeUp | OutcomeDown

fun outcome_byte :: "market_outcome \<Rightarrow> int" where
  "outcome_byte OutcomeUp = 1"
| "outcome_byte OutcomeDown = 2"

datatype resolution_error =
    SeriesMismatch
  | ResolutionSourceMismatch
  | UnsupportedRuleLanguage
  | CandleWindowMismatch
  | ResolutionIdentityMismatch
  | ConflictingFinalEvidence
  | EvidenceTooLarge
  | EvidenceChecksum
  | EvidenceContractMismatch
  | InvalidEvidence string

fun resolution_error_text :: "resolution_error \<Rightarrow> string" where
  "resolution_error_text SeriesMismatch = ''hourly series and asset do not match''"
| "resolution_error_text ResolutionSourceMismatch = ''resolution source is not the exact Binance spot pair''"
| "resolution_error_text UnsupportedRuleLanguage = ''hourly resolution language is unsupported or changed''"
| "resolution_error_text CandleWindowMismatch = ''candle symbol or time window does not match market''"
| "resolution_error_text ResolutionIdentityMismatch = ''market identity is inconsistent''"
| "resolution_error_text ConflictingFinalEvidence = ''finalized oracle evidence conflicts with prior evidence''"
| "resolution_error_text EvidenceTooLarge = ''resolution evidence is too large''"
| "resolution_error_text EvidenceChecksum = ''resolution evidence checksum mismatch''"
| "resolution_error_text EvidenceContractMismatch = ''resolution evidence does not match immutable contract''"
| "resolution_error_text (InvalidEvidence field) = ''invalid resolution evidence: '' @ field"

record resolution_contract =
  rk_condition_id :: string
  rk_question_id :: string
  rk_up_token_id :: string
  rk_down_token_id :: string
  rk_rules_fingerprint :: bytes32
  rk_symbol :: reference_symbol
  rk_open_time :: int
  rk_close_time :: int
  rk_comparator :: close_comparator

record indicative_assessment =
  ia_outcome_if_closed_now :: market_outcome
  ia_open :: quote_price_micros
  ia_current_close :: quote_price_micros
  ia_open_time :: int

record resolution_evidence =
  re_condition_id :: string
  re_question_id :: string
  re_winning_token_id :: string
  re_rules_fingerprint :: bytes32
  re_symbol :: reference_symbol
  re_outcome :: market_outcome
  re_open_time :: int
  re_close_time :: int
  re_open :: quote_price_micros
  re_close :: quote_price_micros

record oracle_state =
  or_contract :: resolution_contract
  or_final_evidence :: "resolution_evidence option"

section \<open>The rule text\<close>

text \<open>The number of bytes of the Unicode white space that a text starts with, 0 when it starts with another character.\<close>

definition whitespace_width :: "string \<Rightarrow> nat" where
  "whitespace_width s =
     (case s of
        [] \<Rightarrow> 0
      | a # r \<Rightarrow>
          if byte_in 9 13 a \<or> byte_in 32 32 a then 1
          else case r of
            [] \<Rightarrow> 0
          | b # r' \<Rightarrow>
              if byte_in 194 194 a \<and> (byte_in 133 133 b \<or> byte_in 160 160 b) then 2
              else case r' of
                [] \<Rightarrow> 0
              | c # _ \<Rightarrow>
                  if byte_in 225 225 a \<and> byte_in 154 154 b \<and> byte_in 128 128 c
                     \<or> byte_in 226 226 a \<and> byte_in 128 128 b \<and> (byte_in 128 138 c \<or> byte_in 168 169 c \<or> byte_in 175 175 c)
                     \<or> byte_in 226 226 a \<and> byte_in 129 129 b \<and> byte_in 159 159 c
                     \<or> byte_in 227 227 a \<and> byte_in 128 128 b \<and> byte_in 128 128 c
                  then 3 else 0)"

text \<open>\<open>split_whitespace\<close>, with the word read so far.\<close>

function split_whitespace :: "string \<Rightarrow> string \<Rightarrow> string list" where
  "split_whitespace word [] = (if word = [] then [] else [word])"
| "split_whitespace word (c # cs) =
     (if whitespace_width (c # cs) = 0 then split_whitespace (word @ [c]) cs
      else (if word = [] then [] else [word]) @ split_whitespace [] (drop (whitespace_width (c # cs) - 1) cs))"
  by pat_completeness auto
termination
  by (relation "measure (length \<circ> snd)") auto

fun join_words :: "string list \<Rightarrow> string" where
  "join_words [] = []"
| "join_words [w] = w"
| "join_words (w # ws) = w @ '' '' @ join_words ws"

definition contains_text :: "string \<Rightarrow> string \<Rightarrow> bool" where
  "contains_text s pat \<longleftrightarrow> list_ex (\<lambda>k. take (length pat) (drop k s) = pat) [0..<Suc (length s)]"

definition rule_clauses :: "reference_symbol \<Rightarrow> string list" where
  "rule_clauses symbol =
     [''close price is greater than or equal to the open price'',
      ''otherwise, this market will resolve to \"down\"'',
      ''once the data for that candle is finalized'',
      ''not according to other exchanges or trading pairs'',
      (case symbol of BtcUsdt \<Rightarrow> ''btc/usdt 1 hour candle'' | EthUsdt \<Rightarrow> ''eth/usdt 1 hour candle'')]"

definition validate_rule_text :: "string \<Rightarrow> reference_symbol \<Rightarrow> resolution_error + unit" where
  "validate_rule_text text symbol =
     (let normalized = to_ascii_lowercase (join_words (split_whitespace [] text)) in
      if list_all (contains_text normalized) (rule_clauses symbol) then Inr () else Inl UnsupportedRuleLanguage)"

section \<open>The contract\<close>

definition expected_source :: "reference_symbol \<Rightarrow> string" where
  "expected_source symbol = (case symbol of
     BtcUsdt \<Rightarrow> ''https://www.binance.com/en/trade/BTC_USDT'' | EthUsdt \<Rightarrow> ''https://www.binance.com/en/trade/ETH_USDT'')"

definition asset_symbol :: "market_asset \<Rightarrow> reference_symbol" where
  "asset_symbol a = (case a of AssetBitcoin \<Rightarrow> BtcUsdt | AssetEthereum \<Rightarrow> EthUsdt)"

definition asset_series :: "market_asset \<Rightarrow> hourly_series" where
  "asset_series a = (case a of AssetBitcoin \<Rightarrow> BTC_HOURLY | AssetEthereum \<Rightarrow> ETH_HOURLY)"

definition contract_bind :: "market_identity \<Rightarrow> resolution_error + resolution_contract" where
  "contract_bind m =
     (let symbol = asset_symbol (mi_asset m); series = asset_series (mi_asset m) in
      if mi_series_id m \<noteq> hs_id series \<or> mi_series_slug m \<noteq> hs_slug series then Inl SeriesMismatch
      else if mi_resolution_source m \<noteq> expected_source symbol then Inl ResolutionSourceMismatch
      else
        rbind (validate_rule_text (mi_description m) symbol) (\<lambda>_.
        if mi_start_time_ms m < 0 \<or> mi_start_time_ms m mod 3600000 \<noteq> 0
           \<or> sub64 (mi_end_time_ms m) (mi_start_time_ms m) \<noteq> Some 3600000
        then Inl CandleWindowMismatch
        else if mi_condition_id m = [] \<or> mi_question_id m = [] \<or> mi_up_token_id m = [] \<or> mi_down_token_id m = []
           \<or> mi_up_token_id m = mi_down_token_id m
        then Inl ResolutionIdentityMismatch
        else
          rbind (ok_or (sub64 (mi_end_time_ms m) 1) CandleWindowMismatch) (\<lambda>close_time.
          Inr \<lparr>rk_condition_id = mi_condition_id m, rk_question_id = mi_question_id m, rk_up_token_id = mi_up_token_id m,
            rk_down_token_id = mi_down_token_id m, rk_rules_fingerprint = mi_rules_fingerprint m, rk_symbol = symbol,
            rk_open_time = mi_start_time_ms m, rk_close_time = close_time, rk_comparator = GreaterThanOrEqual\<rparr>)))"

definition contract_validate_candle :: "resolution_contract \<Rightarrow> candle_data \<Rightarrow> resolution_error + unit" where
  "contract_validate_candle k c =
     (if cn_symbol c \<noteq> rk_symbol k \<or> cn_interval c \<noteq> OneHourUtc \<or> cn_open_time c \<noteq> rk_open_time k
         \<or> cn_close_time c \<noteq> rk_close_time k
      then Inl CandleWindowMismatch else Inr ())"

definition contract_outcome :: "resolution_contract \<Rightarrow> quote_price_micros \<Rightarrow> quote_price_micros \<Rightarrow> market_outcome" where
  "contract_outcome k open close =
     (case rk_comparator k of
        GreaterThanOrEqual \<Rightarrow> if quote_price_as_micros open \<le> quote_price_as_micros close then OutcomeUp else OutcomeDown)"

definition winning_token :: "resolution_contract \<Rightarrow> market_outcome \<Rightarrow> string" where
  "winning_token k out = (case out of OutcomeUp \<Rightarrow> rk_up_token_id k | OutcomeDown \<Rightarrow> rk_down_token_id k)"

section \<open>Evidence\<close>

definition validate_evidence_outcome :: "resolution_evidence \<Rightarrow> resolution_error + unit" where
  "validate_evidence_outcome e =
     (let expected = (if quote_price_as_micros (re_open e) \<le> quote_price_as_micros (re_close e) then OutcomeUp else OutcomeDown) in
      if re_outcome e = expected then Inr () else Inl (InvalidEvidence ''outcome comparator''))"

definition validate_id_lengths :: "string \<Rightarrow> string \<Rightarrow> string \<Rightarrow> resolution_error + unit" where
  "validate_id_lengths condition question token =
     (if condition = [] \<or> question = [] \<or> token = [] \<or> 4 * 1024 < length condition \<or> 4 * 1024 < length question
         \<or> 4 * 1024 < length token
      then Inl EvidenceTooLarge else Inr ())"

definition u16_of :: "nat \<Rightarrow> resolution_error + nat" where
  "u16_of n = (if 65535 < n then Inl EvidenceTooLarge else Inr n)"

definition evidence_body :: "resolution_evidence \<Rightarrow> string" where
  "evidence_body e = ''POLYRES1'' @ le_bytes 2 1 @ le_bytes 1 (symbol_byte (re_symbol e)) @ le_bytes 1 (outcome_byte (re_outcome e))
     @ le_bytes 8 (re_open_time e) @ le_bytes 8 (re_close_time e) @ le_bytes 8 (quote_price_as_micros (re_open e))
     @ le_bytes 8 (quote_price_as_micros (re_close e)) @ le_bytes 2 (int (length (re_condition_id e)))
     @ le_bytes 2 (int (length (re_winning_token_id e))) @ le_bytes 2 (int (length (re_question_id e)))
     @ replicate 14 CHR 0x00 @ bytes_of_id (re_rules_fingerprint e) @ re_condition_id e @ re_winning_token_id e
     @ re_question_id e"

definition evidence_encode :: "(string \<Rightarrow> bytes32) \<Rightarrow> resolution_evidence \<Rightarrow> resolution_error + string" where
  "evidence_encode blake3 e =
     rbind (validate_evidence_outcome e) (\<lambda>_.
     rbind (validate_id_lengths (re_condition_id e) (re_question_id e) (re_winning_token_id e)) (\<lambda>_.
     rbind (u16_of (length (re_condition_id e))) (\<lambda>_.
     rbind (u16_of (length (re_winning_token_id e))) (\<lambda>_.
     rbind (u16_of (length (re_question_id e))) (\<lambda>_.
     Inr (evidence_body e @ bytes_of_id (blake3 (evidence_body e))))))))"

definition evidence_symbol :: "int \<Rightarrow> resolution_error + reference_symbol" where
  "evidence_symbol v = (if v = 1 then Inr BtcUsdt else if v = 2 then Inr EthUsdt else Inl (InvalidEvidence ''symbol''))"

definition outcome_from_byte :: "int \<Rightarrow> resolution_error + market_outcome" where
  "outcome_from_byte v = (if v = 1 then Inr OutcomeUp else if v = 2 then Inr OutcomeDown else Inl (InvalidEvidence ''outcome''))"

definition id_of_bytes :: "string \<Rightarrow> bytes32" where
  "id_of_bytes bytes = word_of_int (of_le (rev bytes))"

definition ev_u16 :: "string \<Rightarrow> nat \<Rightarrow> resolution_error + int" where
  "ev_u16 bytes offset = read_unsigned (InvalidEvidence ''truncated'') 2 bytes offset"

definition ev_i64 :: "string \<Rightarrow> nat \<Rightarrow> resolution_error + int" where
  "ev_i64 bytes offset = read_signed (InvalidEvidence ''truncated'') 8 bytes offset"

definition decode_evidence_string :: "string \<Rightarrow> nat \<Rightarrow> nat \<Rightarrow> resolution_error + string" where
  "decode_evidence_string bytes start end_offset =
     rbind (ok_or (slice bytes start end_offset) (InvalidEvidence ''string bounds'')) (\<lambda>v.
     from_utf8 (InvalidEvidence ''string UTF-8'') v)"

definition evidence_price :: "string \<Rightarrow> int \<Rightarrow> resolution_error + quote_price_micros" where
  "evidence_price field v = (case quote_price_new v of Inl _ \<Rightarrow> Inl (InvalidEvidence field) | Inr p \<Rightarrow> Inr p)"

text \<open>The fields after the identifiers. The body has at least 96 bytes, so the fingerprint is there.\<close>

definition decode_evidence_fields ::
  "string \<Rightarrow> reference_symbol \<Rightarrow> market_outcome \<Rightarrow> string \<Rightarrow> string \<Rightarrow> string \<Rightarrow> resolution_error + resolution_evidence" where
  "decode_evidence_fields body symbol out condition token question =
     rbind (ok_or (slice body 64 96) (InvalidEvidence ''rules fingerprint'')) (\<lambda>fingerprint.
     rbind (ev_i64 body 12) (\<lambda>open_time.
     rbind (ev_i64 body 20) (\<lambda>close_time.
     rbind (rbind (ev_i64 body 28) (evidence_price ''open price'')) (\<lambda>open.
     rbind (rbind (ev_i64 body 36) (evidence_price ''close price'')) (\<lambda>close.
     let e = \<lparr>re_condition_id = condition, re_question_id = question, re_winning_token_id = token,
       re_rules_fingerprint = id_of_bytes fingerprint, re_symbol = symbol, re_outcome = out, re_open_time = open_time,
       re_close_time = close_time, re_open = open, re_close = close\<rparr> in
     if re_close_time e \<le> re_open_time e then Inl (InvalidEvidence ''candle window'')
     else rbind (validate_evidence_outcome e) (\<lambda>_. Inr e))))))"

definition decode_evidence_body :: "string \<Rightarrow> resolution_error + resolution_evidence" where
  "decode_evidence_body body =
     (if slice body 0 8 \<noteq> Some ''POLYRES1'' then Inl (InvalidEvidence ''magic'')
      else
        rbind (ev_u16 body 8) (\<lambda>version.
        if version \<noteq> 1 then Inl (InvalidEvidence ''version'')
        else
          rbind (evidence_symbol (of_char (body ! 10))) (\<lambda>symbol.
          rbind (outcome_from_byte (of_char (body ! 11))) (\<lambda>out.
          if slice body 50 64 \<noteq> Some (replicate 14 CHR 0x00) then Inl (InvalidEvidence ''reserved bytes'')
          else
            rbind (ev_u16 body 44) (\<lambda>condition_len.
            rbind (ev_u16 body 46) (\<lambda>token_len.
            rbind (ev_u16 body 48) (\<lambda>question_len.
            let condition_end = 96 + nat condition_len; token_end = condition_end + nat token_len;
              question_end = token_end + nat question_len in
            if question_end \<noteq> length body then Inl (InvalidEvidence ''length'')
            else
              rbind (decode_evidence_string body 96 condition_end) (\<lambda>condition.
              rbind (decode_evidence_string body condition_end token_end) (\<lambda>token.
              rbind (decode_evidence_string body token_end question_end) (\<lambda>question.
              rbind (validate_id_lengths condition question token) (\<lambda>_.
              decode_evidence_fields body symbol out condition token question)))))))))))"

definition evidence_decode :: "(string \<Rightarrow> bytes32) \<Rightarrow> string \<Rightarrow> resolution_error + resolution_evidence" where
  "evidence_decode blake3 bytes =
     (if length bytes < 96 + 32 then Inl (InvalidEvidence ''truncated'')
      else
        let body = take (length bytes - 32) bytes; checksum = drop (length bytes - 32) bytes in
        if bytes_of_id (blake3 body) \<noteq> checksum then Inl EvidenceChecksum
        else decode_evidence_body body)"

definition evidence_validate_against :: "resolution_contract \<Rightarrow> resolution_evidence \<Rightarrow> resolution_error + unit" where
  "evidence_validate_against k e =
     rbind (validate_evidence_outcome e) (\<lambda>_.
     if re_condition_id e \<noteq> rk_condition_id k \<or> re_question_id e \<noteq> rk_question_id k
        \<or> re_rules_fingerprint e \<noteq> rk_rules_fingerprint k \<or> re_symbol e \<noteq> rk_symbol k
        \<or> re_open_time e \<noteq> rk_open_time k \<or> re_close_time e \<noteq> rk_close_time k
        \<or> re_outcome e \<noteq> contract_outcome k (re_open e) (re_close e)
        \<or> re_winning_token_id e \<noteq> winning_token k (re_outcome e)
     then Inl EvidenceContractMismatch else Inr ())"

definition evidence_digest :: "(string \<Rightarrow> bytes32) \<Rightarrow> resolution_evidence \<Rightarrow> resolution_error + bytes32" where
  "evidence_digest blake3 e = rbind (evidence_encode blake3 e) (\<lambda>bytes. Inr (blake3 bytes))"

section \<open>The oracle state\<close>

definition oracle_new :: "resolution_contract \<Rightarrow> oracle_state" where
  "oracle_new k = \<lparr>or_contract = k, or_final_evidence = None\<rparr>"

definition oracle_assess :: "candle_data \<Rightarrow> oracle_state \<Rightarrow> resolution_error + indicative_assessment" where
  "oracle_assess c s =
     rbind (contract_validate_candle (or_contract s) c) (\<lambda>_.
     Inr \<lparr>ia_outcome_if_closed_now = contract_outcome (or_contract s) (cn_open c) (cn_close c), ia_open = cn_open c,
       ia_current_close = cn_close c, ia_open_time = cn_open_time c\<rparr>)"

definition evidence_of :: "resolution_contract \<Rightarrow> candle_data \<Rightarrow> resolution_evidence" where
  "evidence_of k c =
     (let out = contract_outcome k (cn_open c) (cn_close c) in
      \<lparr>re_condition_id = rk_condition_id k, re_question_id = rk_question_id k, re_winning_token_id = winning_token k out,
       re_rules_fingerprint = rk_rules_fingerprint k, re_symbol = rk_symbol k, re_outcome = out,
       re_open_time = cn_open_time c, re_close_time = cn_close_time c, re_open = cn_open c, re_close = cn_close c\<rparr>)"

text \<open>The evidence and the state; an error leaves the state as it was.\<close>

definition oracle_finalize :: "candle_data \<Rightarrow> oracle_state \<Rightarrow> resolution_error + resolution_evidence \<times> oracle_state" where
  "oracle_finalize c s =
     rbind (contract_validate_candle (or_contract s) c) (\<lambda>_.
     let e = evidence_of (or_contract s) c in
     case or_final_evidence s of
       Some prior \<Rightarrow> if prior \<noteq> e then Inl ConflictingFinalEvidence else Inr (prior, s)
     | None \<Rightarrow> Inr (e, s\<lparr>or_final_evidence := Some e\<rparr>))"

end
