(* ===== verification/Resolution_Theorems.thy ===== *)
theory Resolution_Theorems
  imports Resolution_Rules Reference_Payload_Theorems
begin

text \<open>
  What the resolution rules guarantee: the evidence record is exact, and the final evidence of a bound market is decided
  once, by the candle its rules name.
\<close>

section \<open>The evidence record is exact\<close>

lemma id_of_bytes_id [simp]: "id_of_bytes (bytes_of_id w) = w"
proof -
  have "uint w mod 256 ^ 32 = uint w"
    using uint_bounded [of w] by (simp add: mod_pos_pos_trivial)
  then show ?thesis
    by (simp add: id_of_bytes_def bytes_of_id_def)
qed

lemma bytes_of_id_of:
  assumes "length bytes = 32"
  shows "bytes_of_id (id_of_bytes bytes) = bytes"
proof -
  have "uint (id_of_bytes bytes) = of_le (rev bytes)"
    using of_le_bounds [of "rev bytes"] assms by (simp add: id_of_bytes_def uint_word_of_int mod_pos_pos_trivial)
  then show ?thesis
    using le_bytes_field [of "rev bytes" 32] assms by (simp add: bytes_of_id_def)
qed

definition evidence_ok :: "resolution_evidence \<Rightarrow> bool" where
  "evidence_ok e \<longleftrightarrow> i64_ok (re_open_time e) \<and> i64_ok (re_close_time e) \<and> re_open_time e < re_close_time e
     \<and> quote_typed (re_open e) \<and> quote_typed (re_close e)
     \<and> utf8_valid (re_condition_id e) \<and> utf8_valid (re_winning_token_id e) \<and> utf8_valid (re_question_id e)"

definition ids_bounded :: "resolution_evidence \<Rightarrow> bool" where
  "ids_bounded e \<longleftrightarrow> (\<forall>v \<in> {re_condition_id e, re_question_id e, re_winning_token_id e}. v \<noteq> [] \<and> length v \<le> 4096)"

lemma evidence_encode_Inr:
  "evidence_encode blake3 e = Inr bytes \<longleftrightarrow> validate_evidence_outcome e = Inr () \<and> ids_bounded e
     \<and> bytes = evidence_body e @ bytes_of_id (blake3 (evidence_body e))"
  by (auto simp: evidence_encode_def validate_id_lengths_def u16_of_def ids_bounded_def result_simps)

lemma outcome_bytes: "outcome_from_byte (outcome_byte v) = Inr v" "0 \<le> outcome_byte v" "outcome_byte v < 256"
  by (cases v; simp add: outcome_from_byte_def)+

lemma evidence_symbol_bytes: "evidence_symbol (symbol_byte v) = Inr v"
  by (cases v; simp add: evidence_symbol_def)

lemma evidence_price_Inr [result_simps]: "evidence_price f v = Inr p \<longleftrightarrow> 0 \<le> v \<and> p = QuotePriceMicros v"
  by (auto simp: evidence_price_def quote_price_new_def)

lemma evidence_price_typed: "quote_typed p \<Longrightarrow> evidence_price f (quote_price_as_micros p) = Inr p"
  by (cases p) (simp add: evidence_price_def quote_price_new_def quote_typed_def)

text \<open>The 96 bytes before the identifiers, field by field.\<close>

type_synonym wire_field = string

definition head_fields :: "wire_field \<Rightarrow> wire_field \<Rightarrow> char \<Rightarrow> char \<Rightarrow> wire_field \<Rightarrow> wire_field \<Rightarrow> wire_field \<Rightarrow> wire_field \<Rightarrow> wire_field \<Rightarrow> wire_field \<Rightarrow> wire_field \<Rightarrow> wire_field \<Rightarrow> wire_field \<Rightarrow> bool" where
  "head_fields m v s k a b c d l1 l2 l3 z f \<longleftrightarrow> length m = 8 \<and> length v = 2 \<and> length a = 8 \<and> length b = 8 \<and> length c = 8
     \<and> length d = 8 \<and> length l1 = 2 \<and> length l2 = 2 \<and> length l3 = 2 \<and> length z = 14 \<and> length f = 32"

lemma head_read:
  assumes "head_fields m v s k a b c d l1 l2 l3 z f"
    and "body = (m @ v @ [s] @ [k] @ a @ b @ c @ d @ l1 @ l2 @ l3 @ z @ f) @ rest"
  shows "slice body 0 8 = Some m" "ev_u16 body 8 = Inr (of_le v)" "body ! 10 = s" "body ! 11 = k"
    "ev_i64 body 12 = Inr (signed_of_le a)" "ev_i64 body 20 = Inr (signed_of_le b)" "ev_i64 body 28 = Inr (signed_of_le c)"
    "ev_i64 body 36 = Inr (signed_of_le d)" "ev_u16 body 44 = Inr (of_le l1)" "ev_u16 body 46 = Inr (of_le l2)"
    "ev_u16 body 48 = Inr (of_le l3)" "slice body 50 64 = Some z" "slice body 64 96 = Some f"
  using assms(1) unfolding assms(2) head_fields_def
  by (simp_all add: ev_u16_def ev_i64_def read_unsigned_def read_signed_def slice_def nth_append)

lemma ids_read:
  assumes "length h = 96" and "body = h @ c @ t @ q"
  shows "slice body 96 (96 + length c) = Some c" "slice body (96 + length c) (96 + length c + length t) = Some t"
    "slice body (96 + length c + length t) (96 + length c + length t + length q) = Some q"
    "length body = 96 + length c + length t + length q"
  using assms slice_at [of h 96 c "length c" "96 + length c" "t @ q"] slice_at [of "h @ c" "96 + length c" t "length t" "96 + length c + length t" q]
    slice_at [of "h @ c @ t" "96 + length c + length t" q "length q" "96 + length c + length t + length q" "[]"]
  by simp_all

lemma decode_evidence_body_iff:
  assumes h: "head_fields m v s k a b c d l1 l2 l3 z f"
    and body: "body = (m @ v @ [s] @ [k] @ a @ b @ c @ d @ l1 @ l2 @ l3 @ z @ f) @ ci @ ti @ qi"
    and lens: "int (length ci) = of_le l1" "int (length ti) = of_le l2" "int (length qi) = of_le l3"
  shows "decode_evidence_body body = Inr e \<longleftrightarrow> m = ''POLYRES1'' \<and> of_le v = 1 \<and> evidence_symbol (of_char s) = Inr (re_symbol e)
    \<and> outcome_from_byte (of_char k) = Inr (re_outcome e) \<and> z = replicate 14 CHR 0x00
    \<and> re_condition_id e = ci \<and> re_winning_token_id e = ti \<and> re_question_id e = qi
    \<and> utf8_valid ci \<and> utf8_valid ti \<and> utf8_valid qi \<and> ids_bounded e \<and> re_rules_fingerprint e = id_of_bytes f
    \<and> re_open_time e = signed_of_le a \<and> re_close_time e = signed_of_le b \<and> 0 \<le> signed_of_le c \<and> 0 \<le> signed_of_le d
    \<and> re_open e = QuotePriceMicros (signed_of_le c) \<and> re_close e = QuotePriceMicros (signed_of_le d)
    \<and> re_open_time e < re_close_time e \<and> validate_evidence_outcome e = Inr ()"
proof -
  have len: "length (m @ v @ [s] @ [k] @ a @ b @ c @ d @ l1 @ l2 @ l3 @ z @ f) = 96"
    using h by (simp add: head_fields_def)
  have n: "nat (of_le l1) = length ci" "nat (of_le l2) = length ti" "nat (of_le l3) = length qi"
    using lens by linarith+
  note reads = head_read [OF h body] ids_read [OF len body] n
  have ids: "decode_evidence_string body 96 (96 + length ci) = from_utf8 (InvalidEvidence ''string UTF-8'') ci"
    "decode_evidence_string body (96 + length ci) (96 + length ci + length ti) = from_utf8 (InvalidEvidence ''string UTF-8'') ti"
    "decode_evidence_string body (96 + length ci + length ti) (96 + length ci + length ti + length qi)
      = from_utf8 (InvalidEvidence ''string UTF-8'') qi"
    by (simp_all add: decode_evidence_string_def reads)
  show ?thesis
    by (cases e) (auto simp: decode_evidence_body_def decode_evidence_fields_def ids reads from_utf8_def validate_id_lengths_def
        ids_bounded_def Let_def result_simps)
qed

lemma evidence_body_fields:
  "head_fields ''POLYRES1'' (le_bytes 2 1) (char_of (symbol_byte (re_symbol e))) (char_of (outcome_byte (re_outcome e)))
     (le_bytes 8 (re_open_time e)) (le_bytes 8 (re_close_time e)) (le_bytes 8 (quote_price_as_micros (re_open e)))
     (le_bytes 8 (quote_price_as_micros (re_close e))) (le_bytes 2 (int (length (re_condition_id e))))
     (le_bytes 2 (int (length (re_winning_token_id e)))) (le_bytes 2 (int (length (re_question_id e))))
     (replicate 14 CHR 0x00) (bytes_of_id (re_rules_fingerprint e))"
  "evidence_body e = (''POLYRES1'' @ le_bytes 2 1 @ [char_of (symbol_byte (re_symbol e))] @ [char_of (outcome_byte (re_outcome e))]
     @ le_bytes 8 (re_open_time e) @ le_bytes 8 (re_close_time e) @ le_bytes 8 (quote_price_as_micros (re_open e))
     @ le_bytes 8 (quote_price_as_micros (re_close e)) @ le_bytes 2 (int (length (re_condition_id e)))
     @ le_bytes 2 (int (length (re_winning_token_id e))) @ le_bytes 2 (int (length (re_question_id e)))
     @ replicate 14 CHR 0x00 @ bytes_of_id (re_rules_fingerprint e))
     @ re_condition_id e @ re_winning_token_id e @ re_question_id e"
  using symbol_bytes [of "re_symbol e"] outcome_bytes [of "re_outcome e"]
  by (simp_all add: head_fields_def evidence_body_def le_bytes_one)

lemma body_decoded:
  assumes "evidence_ok e" and "validate_evidence_outcome e = Inr ()" and "ids_bounded e"
  shows "decode_evidence_body (evidence_body e) = Inr e"
proof -
  have lens: "int (length (re_condition_id e)) = of_le (le_bytes 2 (int (length (re_condition_id e))))"
    "int (length (re_winning_token_id e)) = of_le (le_bytes 2 (int (length (re_winning_token_id e))))"
    "int (length (re_question_id e)) = of_le (le_bytes 2 (int (length (re_question_id e))))"
    using assms(3) by (simp_all add: ids_bounded_def mod_pos_pos_trivial)
  show ?thesis
    unfolding decode_evidence_body_iff [OF evidence_body_fields lens]
    using assms symbol_bytes [of "re_symbol e"] outcome_bytes [of "re_outcome e"]
    by (simp add: evidence_ok_def quote_typed_def signed_of_le_bytes of_char_of_byte evidence_symbol_bytes quote_expand)
qed

lemma evidence_decoded:
  assumes "evidence_ok e" and "evidence_encode blake3 e = Inr bytes"
  shows "evidence_decode blake3 bytes = Inr e"
proof -
  have e: "validate_evidence_outcome e = Inr ()" "ids_bounded e" "bytes = evidence_body e @ bytes_of_id (blake3 (evidence_body e))"
    using assms(2) by (simp_all add: evidence_encode_Inr)
  have "96 \<le> length (evidence_body e)"
    by (simp add: evidence_body_def)
  then show ?thesis
    unfolding e(3) using body_decoded [OF assms(1) e(1,2)] by (simp add: evidence_decode_def Let_def)
qed

lemma take_head:
  assumes "96 \<le> length body"
  obtains m v s k a b c d l1 l2 l3 z f rest where "head_fields m v s k a b c d l1 l2 l3 z f"
    and "body = (m @ v @ [s] @ [k] @ a @ b @ c @ d @ l1 @ l2 @ l3 @ z @ f) @ rest"
proof -
  obtain h rest where 0: "body = h @ rest" "length h = 96" using take_field [of 96 body] assms by auto
  obtain m h1 where 1: "h = m @ h1" "length m = 8" using take_field [of 8 h] 0 by auto
  obtain v h2 where 2: "h1 = v @ h2" "length v = 2" using take_field [of 2 h1] 0 1 by auto
  obtain s h3 where 3: "h2 = s # h3" using 0 1 2 by (cases h2) auto
  obtain k h4 where 4: "h3 = k # h4" using 0 1 2 3 by (cases h3) auto
  obtain a h5 where 5: "h4 = a @ h5" "length a = 8" using take_field [of 8 h4] 0 1 2 3 4 by auto
  obtain b h6 where 6: "h5 = b @ h6" "length b = 8" using take_field [of 8 h5] 0 1 2 3 4 5 by auto
  obtain c h7 where 7: "h6 = c @ h7" "length c = 8" using take_field [of 8 h6] 0 1 2 3 4 5 6 by auto
  obtain d h8 where 8: "h7 = d @ h8" "length d = 8" using take_field [of 8 h7] 0 1 2 3 4 5 6 7 by auto
  obtain l1 h9 where 9: "h8 = l1 @ h9" "length l1 = 2" using take_field [of 2 h8] 0 1 2 3 4 5 6 7 8 by auto
  obtain l2 h10 where 10: "h9 = l2 @ h10" "length l2 = 2" using take_field [of 2 h9] 0 1 2 3 4 5 6 7 8 9 by auto
  obtain l3 h11 where 11: "h10 = l3 @ h11" "length l3 = 2" using take_field [of 2 h10] 0 1 2 3 4 5 6 7 8 9 10 by auto
  obtain z f where 12: "h11 = z @ f" "length z = 14" using take_field [of 14 h11] 0 1 2 3 4 5 6 7 8 9 10 11 by auto
  have "length f = 32" using 0 1 2 3 4 5 6 7 8 9 10 11 12 by simp
  then show thesis
    using that [of m v s k a b c d l1 l2 l3 z f rest] 0 1 2 3 4 5 6 7 8 9 10 11 12 by (simp add: head_fields_def)
qed

lemma split_ids:
  assumes "length rest = x + y + z"
  obtains c t q where "rest = c @ t @ q" and "length c = x" and "length t = y" and "length q = z"
proof -
  obtain c r where 1: "rest = c @ r" "length c = x" using take_field [of x rest] assms by auto
  obtain t q where 2: "r = t @ q" "length t = y" using take_field [of y r] assms 1 by auto
  show thesis using that [of c t q] 1 2 assms by simp
qed

lemma evidence_is_encoding:
  assumes "evidence_decode blake3 bytes = Inr e"
  shows "evidence_ok e \<and> evidence_encode blake3 e = Inr bytes"
proof -
  define body where "body = take (length bytes - 32) bytes"
  have b: "128 \<le> length bytes" "bytes_of_id (blake3 body) = drop (length bytes - 32) bytes" "decode_evidence_body body = Inr e"
    using assms by (auto simp: evidence_decode_def body_def Let_def split: if_splits)
  then have "96 \<le> length body" by (simp add: body_def)
  then obtain m v s k a b' c d l1 l2 l3 z f rest where h: "head_fields m v s k a b' c d l1 l2 l3 z f"
      "body = (m @ v @ [s] @ [k] @ a @ b' @ c @ d @ l1 @ l2 @ l3 @ z @ f) @ rest"
    by (rule take_head)
  have "96 + nat (of_le l1) + nat (of_le l2) + nat (of_le l3) = length body"
    using b(3) head_read(9-11) [OF h] by (auto simp: decode_evidence_body_def Let_def result_simps split: if_splits)
  moreover have "length body = 96 + length rest"
    using h by (simp add: head_fields_def)
  ultimately have "length rest = nat (of_le l1) + nat (of_le l2) + nat (of_le l3)"
    by simp
  then obtain ci ti qi where ids: "rest = ci @ ti @ qi" "length ci = nat (of_le l1)" "length ti = nat (of_le l2)"
      "length qi = nat (of_le l3)"
    by (rule split_ids)
  have lens: "int (length ci) = of_le l1" "int (length ti) = of_le l2" "int (length qi) = of_le l3"
    using ids of_le_bounds(1) by simp_all
  note facts = b(3) [unfolded decode_evidence_body_iff [OF h(1) h(2) [unfolded ids(1)] lens]]
  have "char_of (symbol_byte (re_symbol e)) = s" "char_of (outcome_byte (re_outcome e)) = k"
    using facts by (auto simp: evidence_symbol_def outcome_from_byte_def intro!: flag_char split: if_splits)
  then have "evidence_body e = body"
    unfolding evidence_body_fields(2) h(2) ids(1) using facts h(1) lens le_bytes_field [of v 2]
    by (simp add: head_fields_def le_bytes_signed le_bytes_field bytes_of_id_of)
  moreover have "bytes = body @ drop (length bytes - 32) bytes"
    by (simp add: body_def)
  moreover have "evidence_ok e"
    using facts h(1) by (simp add: evidence_ok_def head_fields_def quote_typed_def signed_of_le_range)
  ultimately show ?thesis
    using facts b(2) by (simp add: evidence_encode_Inr)
qed

text \<open>C23: The evidence record is exact: bytes decode to evidence if and only if they are the encoding of that evidence, and
  its times and prices lie within their types, its candle closes after it opens and its identifiers are texts. So a
  record is read back as it was written, and a truncated, changed or malformed one is refused.\<close>
theorem evidence_record_exact:
  "evidence_decode blake3 bytes = Inr e \<longleftrightarrow> evidence_ok e \<and> evidence_encode blake3 e = Inr bytes"
  by (blast intro: evidence_decoded dest: evidence_is_encoding)

section \<open>Final evidence\<close>

text \<open>Finalized candles in the order in which they are offered; those that are refused change nothing.\<close>

fun oracle_run :: "oracle_state \<Rightarrow> candle_data list \<Rightarrow> oracle_state" where
  "oracle_run s [] = s"
| "oracle_run s (c # cs) = (case oracle_finalize c s of Inl _ \<Rightarrow> oracle_run s cs | Inr (_, s') \<Rightarrow> oracle_run s' cs)"

lemma oracle_run_append: "oracle_run s (as @ bs) = oracle_run (oracle_run s as) bs"
  by (induction s as rule: oracle_run.induct) (auto split: sum.split prod.split)

lemma finalize_step:
  assumes "oracle_finalize c s = Inr (e, s')"
  shows "or_contract s' = or_contract s \<and> or_final_evidence s' = Some e \<and> e = evidence_of (or_contract s) c
    \<and> contract_validate_candle (or_contract s) c = Inr () \<and> (\<forall>p. or_final_evidence s = Some p \<longrightarrow> p = e)"
  using assms by (auto simp: oracle_finalize_def Let_def result_simps split: option.splits)

lemma oracle_run_keeps:
  "or_contract (oracle_run s cs) = or_contract s \<and> (or_final_evidence s = Some e \<longrightarrow> or_final_evidence (oracle_run s cs) = Some e)"
proof (induction s cs rule: oracle_run.induct)
  case (2 s c cs)
  show ?case
  proof (cases "oracle_finalize c s")
    case (Inl err)
    then show ?thesis using "2.IH"(1) by simp
  next
    case (Inr r)
    then obtain e' s' where r: "oracle_finalize c s = Inr (e', s')" by (cases r) auto
    then show ?thesis
      using "2.IH"(2) [OF r] finalize_step [OF r] by auto
  qed
qed simp

lemma oracle_run_from:
  "or_final_evidence (oracle_run s cs) = Some e \<Longrightarrow> or_final_evidence s = None \<Longrightarrow>
     \<exists>c \<in> set cs. e = evidence_of (or_contract s) c \<and> contract_validate_candle (or_contract s) c = Inr ()"
proof (induction s cs rule: oracle_run.induct)
  case (2 s c cs)
  show ?case
  proof (cases "oracle_finalize c s")
    case (Inl err)
    then show ?thesis using 2 by auto
  next
    case (Inr r)
    then obtain e' s' where r: "oracle_finalize c s = Inr (e', s')" by (cases r) auto
    have "e = e'"
      using finalize_step [OF r] oracle_run_keeps [of s' cs e'] "2.prems"(1) r by simp
    then have "e = evidence_of (or_contract s) c \<and> contract_validate_candle (or_contract s) c = Inr ()"
      using finalize_step [OF r] by blast
    then show ?thesis
      by (intro bexI [of _ c]) simp_all
  qed
qed simp

lemma evidence_of_valid:
  assumes "contract_validate_candle k c = Inr ()"
  shows "evidence_validate_against k (evidence_of k c) = Inr ()"
  using assms by (cases "rk_comparator k") (auto simp: contract_validate_candle_def evidence_validate_against_def evidence_of_def
      validate_evidence_outcome_def contract_outcome_def Let_def split: if_splits)

text \<open>C17: Final evidence decides a market once and by its rules: when, after any finalized candles were offered for a
  bound market, the oracle holds final evidence, no later candle changes it; it validates against the contract; it
  comes from one of those candles, of the symbol of the market's asset, that opened at the market's start and closed at
  the last millisecond of its hour; and the winning token is the up token exactly when that candle did not close below
  its open, the down token, which is another one, otherwise.\<close>
theorem final_evidence_decides_once:
  assumes "contract_bind m = Inr k" and "or_final_evidence (oracle_run (oracle_new k) candles) = Some e"
  shows "or_final_evidence (oracle_run (oracle_new k) (candles @ later)) = Some e
    \<and> evidence_validate_against k e = Inr ()
    \<and> (\<exists>c \<in> set candles. cn_symbol c = asset_symbol (mi_asset m) \<and> cn_open_time c = mi_start_time_ms m
         \<and> cn_close_time c = mi_start_time_ms m + 3599999
         \<and> re_winning_token_id e = (if quote_price_as_micros (cn_open c) \<le> quote_price_as_micros (cn_close c)
             then mi_up_token_id m else mi_down_token_id m))
    \<and> mi_up_token_id m \<noteq> mi_down_token_id m \<and> re_condition_id e = mi_condition_id m
    \<and> re_rules_fingerprint e = mi_rules_fingerprint m"
proof -
  have k: "rk_symbol k = asset_symbol (mi_asset m)" "rk_open_time k = mi_start_time_ms m" "rk_close_time k = mi_start_time_ms m + 3599999"
      "rk_up_token_id k = mi_up_token_id m" "rk_down_token_id k = mi_down_token_id m" "mi_up_token_id m \<noteq> mi_down_token_id m"
      "rk_condition_id k = mi_condition_id m" "rk_rules_fingerprint k = mi_rules_fingerprint m"
    using assms(1) by (auto simp: contract_bind_def Let_def result_simps checked_simps split: if_splits)
  obtain c where c: "c \<in> set candles" "e = evidence_of k c" "contract_validate_candle k c = Inr ()"
    using oracle_run_from [OF assms(2)] by (auto simp: oracle_new_def)
  have kept: "or_final_evidence (oracle_run (oracle_new k) (candles @ later)) = Some e"
    using oracle_run_keeps [of "oracle_run (oracle_new k) candles" later e] assms(2) by (simp add: oracle_run_append)
  have "evidence_validate_against k e = Inr ()"
    unfolding c(2) by (rule evidence_of_valid [OF c(3)])
  moreover have "cn_symbol c = asset_symbol (mi_asset m) \<and> cn_open_time c = mi_start_time_ms m \<and> cn_close_time c = mi_start_time_ms m + 3599999"
    using c(3) k by (auto simp: contract_validate_candle_def split: if_splits)
  moreover have "re_winning_token_id e = (if quote_price_as_micros (cn_open c) \<le> quote_price_as_micros (cn_close c)
      then mi_up_token_id m else mi_down_token_id m)"
    unfolding c(2) using k by (cases "rk_comparator k") (simp add: evidence_of_def contract_outcome_def winning_token_def Let_def)
  moreover have "re_condition_id e = mi_condition_id m \<and> re_rules_fingerprint e = mi_rules_fingerprint m"
    unfolding c(2) using k by (simp add: evidence_of_def Let_def)
  ultimately show ?thesis
    using kept c(1) k(6) by blast
qed

section \<open>A market\<close>

definition demo_description :: string where
  "demo_description = ''Up if the close price is  greater than or equal to the open price. Otherwise, this market will resolve to \"Down\" once the data for that candle is finalized, for the BTC/USDT 1 hour candle, not according to other exchanges or trading pairs''"

definition demo_identity :: market_identity where
  "demo_identity = \<lparr>mi_asset = AssetBitcoin, mi_event_id = ''1'', mi_market_id = ''2'', mi_condition_id = ''0xc'', mi_question_id = ''0xd'',
     mi_event_slug = ''e'', mi_market_slug = ''m'', mi_series_id = ''10114'', mi_series_slug = ''btc-up-or-down-hourly'', mi_title = ''t'',
     mi_start_time_ms = 0, mi_end_time_ms = 3600000, mi_resolution_source = ''https://www.binance.com/en/trade/BTC_USDT'',
     mi_description = demo_description, mi_up_token_id = ''7'', mi_down_token_id = ''8'', mi_rules_fingerprint = 3\<rparr>"

definition demo_contract :: resolution_contract where
  "demo_contract = \<lparr>rk_condition_id = ''0xc'', rk_question_id = ''0xd'', rk_up_token_id = ''7'', rk_down_token_id = ''8'',
     rk_rules_fingerprint = 3, rk_symbol = BtcUsdt, rk_open_time = 0, rk_close_time = 3599999, rk_comparator = GreaterThanOrEqual\<rparr>"

lemma contains_at: "k \<le> length s \<Longrightarrow> take (length pat) (drop k s) = pat \<Longrightarrow> contains_text s pat"
  unfolding contains_text_def list_ex_iff by (rule bexI [of _ k]) auto

definition demo_normalized :: string where
  "demo_normalized = ''up if the close price is greater than or equal to the open price. otherwise, this market will resolve to \"down\" once the data for that candle is finalized, for the btc/usdt 1 hour candle, not according to other exchanges or trading pairs''"

lemma demo_description_normalized: "to_ascii_lowercase (join_words (split_whitespace [] demo_description)) = demo_normalized"
  by code_simp

lemma demo_rules: "validate_rule_text demo_description BtcUsdt = Inr ()"
proof -
  have c1: "contains_text demo_normalized ''close price is greater than or equal to the open price''"
    by (rule contains_at [of 10]) (code_simp, code_simp)
  have c2: "contains_text demo_normalized ''otherwise, this market will resolve to \"down\"''"
    by (rule contains_at [of 66]) (code_simp, code_simp)
  have c3: "contains_text demo_normalized ''once the data for that candle is finalized''"
    by (rule contains_at [of 112]) (code_simp, code_simp)
  have c4: "contains_text demo_normalized ''not according to other exchanges or trading pairs''"
    by (rule contains_at [of 188]) (code_simp, code_simp)
  have c5: "contains_text demo_normalized ''btc/usdt 1 hour candle''"
    by (rule contains_at [of 164]) (code_simp, code_simp)
  show ?thesis
    by (simp add: validate_rule_text_def demo_description_normalized rule_clauses_def c1 c2 c3 c4 c5)
qed

lemma demo_bound: "contract_bind demo_identity = Inr demo_contract"
  by (simp add: contract_bind_def demo_identity_def demo_contract_def asset_symbol_def asset_series_def BTC_HOURLY_def
      expected_source_def demo_rules sub64_def i64_new_def i64_ok_def)

definition demo_hour :: "int \<Rightarrow> candle_data" where
  "demo_hour close = \<lparr>cn_symbol = BtcUsdt, cn_interval = OneHourUtc, cn_open_time = 0, cn_close_time = 3599999,
     cn_first_trade = 1, cn_last_trade = 9, cn_open = QuotePriceMicros 5, cn_high = QuotePriceMicros 8, cn_low = QuotePriceMicros 4,
     cn_close = QuotePriceMicros close, cn_base_volume = ReferenceQuantityE8 1, cn_quote_volume = ReferenceQuantityE8 1,
     cn_trade_count = 9\<rparr>"

theorem final_evidence_decides_once_witness:
  "\<exists>e. or_final_evidence (oracle_run (oracle_new demo_contract) [demo_hour 5, demo_hour 4]) = Some e \<and> re_winning_token_id e = ''7''"
proof -
  have "or_final_evidence (oracle_run (oracle_new demo_contract) [demo_hour 5]) = Some (evidence_of demo_contract (demo_hour 5))"
    by (simp add: oracle_finalize_def oracle_new_def contract_validate_candle_def demo_contract_def demo_hour_def Let_def)
  from final_evidence_decides_once [OF demo_bound this, of "[demo_hour 4]"] show ?thesis
    by (auto simp: demo_identity_def demo_hour_def)
qed

end
