(* ===== verification/Market_Session.thy ===== *)
theory Market_Session
  imports Feed_Supervisor Resolution_Rules
begin

text \<open>
  The hourly sessions of \<open>crates/market-session/src/lib.rs\<close>: registering market identities, capturing a frame of the
  books and candles each of them needs, evaluating a frame into the phase of every session, and the snapshots and
  digests of the coordinator. \<open>blake3\<close> is a parameter. Registration and evaluation return their result and the
  coordinator they leave.
\<close>

section \<open>Data\<close>

text \<open>\<open>SessionKey\<close> with its derived order: asset and start time.\<close>

type_synonym session_key = "market_asset \<times> int"

definition session_key_of :: "market_identity \<Rightarrow> session_key" where
  "session_key_of m = (mi_asset m, mi_start_time_ms m)"

record token_book_view =
  tv_authoritative :: bool
  tv_best_bid :: "(price_micros \<times> quantity_micros) option"
  tv_best_ask :: "(price_micros \<times> quantity_micros) option"

record session_source =
  sr_up_book :: "token_book_view option"
  sr_down_book :: "token_book_view option"
  sr_in_progress :: "candle_data option"
  sr_finalized :: "candle_data option"

record coordination_frame =
  cf_now :: int
  cf_market :: actor_snapshot
  cf_reference :: reference_snapshot
  cf_supervision :: supervisor_snapshot
  cf_sessions :: "(session_key, session_source) btree"

datatype session_phase =
    PhaseUpcoming | PhaseActiveDegraded | PhaseActiveReady | PhaseAwaitingFinal | PhaseFinalized

fun phase_byte :: "session_phase \<Rightarrow> int" where
  "phase_byte PhaseUpcoming = 1"
| "phase_byte PhaseActiveDegraded = 2"
| "phase_byte PhaseActiveReady = 3"
| "phase_byte PhaseAwaitingFinal = 4"
| "phase_byte PhaseFinalized = 5"

datatype readiness_reason =
    ReasonBeforeWindow | ReasonSupervisorNotReady | ReasonBooksUnavailable | ReasonCandleUnavailable | ReasonReady
  | ReasonWindowEnded | ReasonFinalEvidence

fun reason_byte :: "readiness_reason \<Rightarrow> int" where
  "reason_byte ReasonBeforeWindow = 1"
| "reason_byte ReasonSupervisorNotReady = 2"
| "reason_byte ReasonBooksUnavailable = 3"
| "reason_byte ReasonCandleUnavailable = 4"
| "reason_byte ReasonReady = 5"
| "reason_byte ReasonWindowEnded = 6"
| "reason_byte ReasonFinalEvidence = 7"

record session_snapshot =
  sp_key :: session_key
  sp_condition_id :: string
  sp_end_time :: int
  sp_phase :: session_phase
  sp_ready :: bool
  sp_reason :: readiness_reason
  sp_indicative :: "indicative_assessment option"
  sp_final_evidence :: "resolution_evidence option"
  sp_digest :: bytes32

record coordinator_snapshot =
  cs_evaluated_at :: "int option"
  cs_applied_frame_digest :: "bytes32 option"
  cs_halted :: bool
  cs_halt_reason :: "string option"
  cs_current :: "(market_asset, session_key) btree"
  cs_next :: "(market_asset, session_key) btree"
  cs_sessions :: "(session_key, session_snapshot) btree"
  cs_digest :: bytes32

record session_record =
  sn_identity :: market_identity
  sn_oracle :: oracle_state
  sn_phase :: session_phase
  sn_reason :: readiness_reason
  sn_indicative :: "indicative_assessment option"

record coordinator =
  co_sessions :: "(session_key, session_record) btree"
  co_last_now :: "int option"
  co_last_frame_digest :: "bytes32 option"
  co_halt_reason :: "string option"

definition coordinator_default :: coordinator where
  "coordinator_default = \<lparr>co_sessions = [], co_last_now = None, co_last_frame_digest = None, co_halt_reason = None\<rparr>"

datatype coordinator_error =
    CoInvalidTime int
  | CoClockRegression int int
  | ConflictingSlot session_key
  | IdentityConflict
  | CoResolution resolution_error
  | SupervisorProvenanceMismatch
  | SessionSetMismatch
  | CoHalted string

fun asset_debug :: "market_asset \<Rightarrow> string" where
  "asset_debug AssetBitcoin = ''Bitcoin''"
| "asset_debug AssetEthereum = ''Ethereum''"

fun coordinator_error_text :: "coordinator_error \<Rightarrow> string" where
  "coordinator_error_text (CoInvalidTime v) = ''invalid coordination time: '' @ show_int v"
| "coordinator_error_text (CoClockRegression previous actual) = ''coordination clock regressed from ''
     @ show_int previous @ '' to '' @ show_int actual"
| "coordinator_error_text (ConflictingSlot k) = ''conflicting identity for hourly slot SessionKey { asset: ''
     @ asset_debug (fst k) @ '', start_time_ms: '' @ show_int (snd k) @ '' }''"
| "coordinator_error_text IdentityConflict = ''condition reuse or overlapping session identity''"
| "coordinator_error_text (CoResolution e) = ''resolution contract error: '' @ resolution_error_text e"
| "coordinator_error_text SupervisorProvenanceMismatch = ''supervisor provenance does not match component state''"
| "coordinator_error_text SessionSetMismatch = ''coordination frame session set does not match registry''"
| "coordinator_error_text (CoHalted r) = ''coordinator is permanently halted: '' @ r"

section \<open>Capturing a frame\<close>

definition token_book_view_of :: "replay_state \<Rightarrow> string \<Rightarrow> string \<Rightarrow> token_book_view option" where
  "token_book_view_of s condition asset =
     map_option (\<lambda>b. \<lparr>tv_authoritative = tb_authoritative b, tv_best_bid = best_bid b, tv_best_ask = best_ask b\<rparr>)
       (bt_get (rp_books s) (condition, asset))"

definition capture_source :: "replay_state \<Rightarrow> reference_state \<Rightarrow> market_identity \<Rightarrow> session_source" where
  "capture_source books reference m =
     (let contract = (case contract_bind m of Inl _ \<Rightarrow> None | Inr k \<Rightarrow> Some k) in
      \<lparr>sr_up_book = token_book_view_of books (mi_condition_id m) (mi_up_token_id m),
       sr_down_book = token_book_view_of books (mi_condition_id m) (mi_down_token_id m),
       sr_in_progress = Option.bind contract (\<lambda>k. in_progress_candle reference (rk_symbol k)),
       sr_finalized = Option.bind contract (\<lambda>k. finalized_candle reference (rk_symbol k) (rk_open_time k))\<rparr>)"

definition capture_sources :: "market_identity list \<Rightarrow> replay_state \<Rightarrow> reference_state \<Rightarrow> (session_key, session_source) btree" where
  "capture_sources identities books reference =
     foldl (\<lambda>m i. bt_insert (session_key_of i) (capture_source books reference i) m) [] identities"

definition capture_frame ::
  "(string \<Rightarrow> bytes32) \<Rightarrow> int \<Rightarrow> market_identity list \<Rightarrow> actor_snapshot \<Rightarrow> replay_state \<Rightarrow> reference_state \<Rightarrow>
   supervisor_snapshot \<Rightarrow> coordination_frame" where
  "capture_frame blake3 now identities market books reference supervision =
     \<lparr>cf_now = now, cf_market = market, cf_reference = reference_snapshot_of blake3 reference,
      cf_supervision = supervision, cf_sessions = capture_sources identities books reference\<rparr>"

section \<open>Registration\<close>

definition co_halt :: "coordinator_error \<Rightarrow> coordinator \<Rightarrow> coordinator" where
  "co_halt e co = co\<lparr>co_halt_reason := Some (coordinator_error_text e)\<rparr>"

definition co_identities :: "coordinator \<Rightarrow> market_identity list" where
  "co_identities co = map (\<lambda>e. sn_identity (snd e)) (co_sessions co)"

definition identity_conflicts :: "market_identity \<Rightarrow> market_identity \<Rightarrow> bool" where
  "identity_conflicts m other \<longleftrightarrow> mi_condition_id other = mi_condition_id m
     \<or> mi_asset other = mi_asset m \<and> mi_start_time_ms m < mi_end_time_ms other \<and> mi_start_time_ms other < mi_end_time_ms m"

definition session_register :: "market_identity \<Rightarrow> coordinator \<Rightarrow> (coordinator_error + unit) \<times> coordinator" where
  "session_register m co =
     (case co_halt_reason co of
        Some r \<Rightarrow> (Inl (CoHalted r), co)
      | None \<Rightarrow>
          (let key = session_key_of m in
           case bt_get (co_sessions co) key of
             Some existing \<Rightarrow>
               if sn_identity existing = m then (Inr (), co)
               else (Inl (ConflictingSlot key), co_halt (ConflictingSlot key) co)
           | None \<Rightarrow>
               if list_ex (\<lambda>e. identity_conflicts m (sn_identity (snd e))) (co_sessions co)
               then (Inl IdentityConflict, co_halt IdentityConflict co)
               else case contract_bind m of
                 Inl e \<Rightarrow> (Inl (CoResolution e), co_halt (CoResolution e) co)
               | Inr k \<Rightarrow>
                   (Inr (), co\<lparr>co_sessions := bt_insert key
                     \<lparr>sn_identity = m, sn_oracle = oracle_new k, sn_phase = PhaseUpcoming, sn_reason = ReasonBeforeWindow,
                      sn_indicative = None\<rparr> (co_sessions co)\<rparr>)))"

section \<open>Evaluation\<close>

definition set_state :: "session_phase \<Rightarrow> readiness_reason \<Rightarrow> session_record \<Rightarrow> session_record" where
  "set_state phase reason r = r\<lparr>sn_phase := phase, sn_reason := reason, sn_indicative := None\<rparr>"

definition book_authoritative :: "token_book_view option \<Rightarrow> bool" where
  "book_authoritative v \<longleftrightarrow> (case v of None \<Rightarrow> False | Some b \<Rightarrow> tv_authoritative b)"

definition evaluate_active :: "session_source \<Rightarrow> supervisor_snapshot \<Rightarrow> session_record \<Rightarrow> coordinator_error + session_record" where
  "evaluate_active source supervision r =
     rbind (case sr_in_progress source of
         None \<Rightarrow> Inr None
       | Some c \<Rightarrow> (case oracle_assess c (sn_oracle r) of Inl e \<Rightarrow> Inl (CoResolution e) | Inr a \<Rightarrow> Inr (Some a))) (\<lambda>indicative.
     let r' = r\<lparr>sn_indicative := indicative\<rparr> in
     Inr (if vs_mode supervision \<noteq> SupReady \<or> \<not> vs_ready supervision
       then r'\<lparr>sn_phase := PhaseActiveDegraded, sn_reason := ReasonSupervisorNotReady\<rparr>
       else if \<not> book_authoritative (sr_up_book source) \<or> \<not> book_authoritative (sr_down_book source)
       then r'\<lparr>sn_phase := PhaseActiveDegraded, sn_reason := ReasonBooksUnavailable\<rparr>
       else if indicative = None then r'\<lparr>sn_phase := PhaseActiveDegraded, sn_reason := ReasonCandleUnavailable\<rparr>
       else r'\<lparr>sn_phase := PhaseActiveReady, sn_reason := ReasonReady\<rparr>))"

text \<open>The body of the loop over the sessions.\<close>

definition session_transition ::
  "coordination_frame \<Rightarrow> session_key \<times> session_record \<Rightarrow> coordinator_error + session_key \<times> session_record" where
  "session_transition frame e =
     (let r = snd e; now_ms = cf_now frame div 1000000 in
      rbind (ok_or (bt_get (cf_sessions frame) (fst e)) SessionSetMismatch) (\<lambda>source.
      rbind (if now_ms < mi_start_time_ms (sn_identity r) then Inr (set_state PhaseUpcoming ReasonBeforeWindow r)
        else if now_ms < mi_end_time_ms (sn_identity r) then evaluate_active source (cf_supervision frame) r
        else case sr_finalized source of
          Some c \<Rightarrow>
            (case oracle_finalize c (sn_oracle r) of
               Inl err \<Rightarrow> Inl (CoResolution err)
             | Inr (_, oracle) \<Rightarrow> Inr (set_state PhaseFinalized ReasonFinalEvidence (r\<lparr>sn_oracle := oracle\<rparr>)))
        | None \<Rightarrow>
            if or_final_evidence (sn_oracle r) \<noteq> None then Inr (set_state PhaseFinalized ReasonFinalEvidence r)
            else Inr (set_state PhaseAwaitingFinal ReasonWindowEnded r)) (\<lambda>r'.
      Inr (fst e, r'))))"

definition validate_provenance :: "coordination_frame \<Rightarrow> coordinator_error + unit" where
  "validate_provenance frame =
     (let v = cf_supervision frame in
      if vs_evaluated_at v \<noteq> Some (cf_now frame) \<or> vs_market_epoch v \<noteq> as_epoch (cf_market frame)
         \<or> vs_market_sequence v \<noteq> as_last_sequence (cf_market frame)
         \<or> vs_market_state_digest v \<noteq> as_digest (cf_market frame)
         \<or> vs_reference_epoch v \<noteq> rn_epoch (cf_reference frame)
         \<or> vs_reference_sequence v \<noteq> rn_last_sequence (cf_reference frame)
         \<or> vs_reference_state_digest v \<noteq> rn_digest (cf_reference frame)
      then Inl SupervisorProvenanceMismatch else Inr ())"

section \<open>Digests\<close>

definition indicative_bytes :: "indicative_assessment option \<Rightarrow> string" where
  "indicative_bytes v =
     (case v of
        None \<Rightarrow> le_bytes 1 0
      | Some a \<Rightarrow> le_bytes 1 1 @ le_bytes 1 (outcome_byte (ia_outcome_if_closed_now a))
          @ le_bytes 8 (quote_price_as_micros (ia_open a)) @ le_bytes 8 (quote_price_as_micros (ia_current_close a)))"

definition evidence_bytes :: "resolution_evidence option \<Rightarrow> string" where
  "evidence_bytes v =
     (case v of
        None \<Rightarrow> le_bytes 1 0
      | Some e \<Rightarrow> le_bytes 1 1 @ prefixed (re_condition_id e) @ prefixed (re_question_id e) @ prefixed (re_winning_token_id e)
          @ bytes_of_id (re_rules_fingerprint e) @ le_bytes 1 (symbol_byte (re_symbol e)) @ le_bytes 1 (outcome_byte (re_outcome e))
          @ le_bytes 8 (re_open_time e) @ le_bytes 8 (re_close_time e) @ le_bytes 8 (quote_price_as_micros (re_open e))
          @ le_bytes 8 (quote_price_as_micros (re_close e)))"

definition session_digest :: "(string \<Rightarrow> bytes32) \<Rightarrow> session_key \<Rightarrow> session_record \<Rightarrow> resolution_evidence option \<Rightarrow> bytes32" where
  "session_digest blake3 key r evidence =
     (let m = sn_identity r in blake3
     (''MARKET_SESSION_V1'' @ le_bytes 1 (int (asset_index (fst key))) @ le_bytes 8 (snd key) @ le_bytes 8 (mi_end_time_ms m)
      @ prefixed (mi_condition_id m) @ prefixed (mi_question_id m) @ prefixed (mi_up_token_id m) @ prefixed (mi_down_token_id m)
      @ bytes_of_id (mi_rules_fingerprint m) @ le_bytes 1 (phase_byte (sn_phase r)) @ le_bytes 1 (reason_byte (sn_reason r))
      @ indicative_bytes (sn_indicative r) @ evidence_bytes evidence))"

definition view_level_bytes :: "(price_micros \<times> quantity_micros) option \<Rightarrow> string" where
  "view_level_bytes l = (case l of None \<Rightarrow> le_bytes 1 0 | Some v \<Rightarrow> le_bytes 1 1 @ level_bytes v)"

definition view_bytes :: "token_book_view option \<Rightarrow> string" where
  "view_bytes v =
     (case v of
        None \<Rightarrow> le_bytes 1 0
      | Some b \<Rightarrow> le_bytes 1 1 @ flag_byte (tv_authoritative b) @ view_level_bytes (tv_best_bid b) @ view_level_bytes (tv_best_ask b))"

definition candle_marker_bytes :: "candle_data option \<Rightarrow> string" where
  "candle_marker_bytes v =
     (case v of
        None \<Rightarrow> le_bytes 1 0
      | Some c \<Rightarrow> le_bytes 1 1 @ le_bytes 1 (symbol_byte (cn_symbol c)) @ le_bytes 8 (cn_open_time c) @ le_bytes 8 (cn_close_time c)
          @ le_bytes 8 (quote_price_as_micros (cn_open c)) @ le_bytes 8 (quote_price_as_micros (cn_close c)))"

definition source_bytes :: "session_key \<times> session_source \<Rightarrow> string" where
  "source_bytes e =
     (let s = snd e in le_bytes 1 (int (asset_index (fst (fst e)))) @ le_bytes 8 (snd (fst e)) @ view_bytes (sr_up_book s)
        @ view_bytes (sr_down_book s) @ candle_marker_bytes (sr_in_progress s) @ candle_marker_bytes (sr_finalized s))"

definition coordination_frame_digest :: "(string \<Rightarrow> bytes32) \<Rightarrow> coordination_frame \<Rightarrow> bytes32" where
  "coordination_frame_digest blake3 f = blake3
     (''COORDINATION_FRAME_V1'' @ le_bytes 8 (cf_now f) @ bytes_of_id (as_digest (cf_market f))
      @ bytes_of_id (rn_digest (cf_reference f)) @ bytes_of_id (vs_digest (cf_supervision f))
      @ concat (map source_bytes (cf_sessions f)))"

section \<open>Snapshots\<close>

definition session_snapshot_of :: "(string \<Rightarrow> bytes32) \<Rightarrow> session_key \<times> session_record \<Rightarrow> session_snapshot" where
  "session_snapshot_of blake3 e =
     (let r = snd e; evidence = or_final_evidence (sn_oracle r) in
      \<lparr>sp_key = fst e, sp_condition_id = mi_condition_id (sn_identity r), sp_end_time = mi_end_time_ms (sn_identity r),
       sp_phase = sn_phase r, sp_ready = (sn_phase r = PhaseActiveReady), sp_reason = sn_reason r,
       sp_indicative = sn_indicative r, sp_final_evidence = evidence,
       sp_digest = session_digest blake3 (fst e) r evidence\<rparr>)"

definition is_current :: "market_asset \<Rightarrow> int \<Rightarrow> session_key \<times> session_record \<Rightarrow> bool" where
  "is_current asset now_ms e \<longleftrightarrow> mi_asset (sn_identity (snd e)) = asset \<and> mi_start_time_ms (sn_identity (snd e)) \<le> now_ms
     \<and> now_ms < mi_end_time_ms (sn_identity (snd e))"

text \<open>\<open>min_by_key\<close>: the first entry with the least start time.\<close>

fun min_by_start :: "(session_key \<times> session_record) list \<Rightarrow> (session_key \<times> session_record) option" where
  "min_by_start [] = None"
| "min_by_start (e # es) =
     (case min_by_start es of
        None \<Rightarrow> Some e
      | Some f \<Rightarrow> if mi_start_time_ms (sn_identity (snd f)) < mi_start_time_ms (sn_identity (snd e)) then Some f else Some e)"

definition current_session :: "coordinator \<Rightarrow> int \<Rightarrow> market_asset \<Rightarrow> session_key option" where
  "current_session co now_ms asset = map_option fst (find (is_current asset now_ms) (co_sessions co))"

definition next_session :: "coordinator \<Rightarrow> int \<Rightarrow> market_asset \<Rightarrow> session_key option" where
  "next_session co now_ms asset = map_option fst (min_by_start
     (filter (\<lambda>e. mi_asset (sn_identity (snd e)) = asset \<and> now_ms < mi_start_time_ms (sn_identity (snd e))) (co_sessions co)))"

text \<open>The loop over the two assets that fills a map.\<close>

definition by_asset :: "int option \<Rightarrow> (int \<Rightarrow> market_asset \<Rightarrow> session_key option) \<Rightarrow> (market_asset, session_key) btree" where
  "by_asset now_ms f =
     (case now_ms of
        None \<Rightarrow> []
      | Some n \<Rightarrow> foldl (\<lambda>m asset. case f n asset of None \<Rightarrow> m | Some k \<Rightarrow> bt_insert asset k m) [] [AssetBitcoin, AssetEthereum])"

definition coordinator_digest ::
  "(string \<Rightarrow> bytes32) \<Rightarrow> int option \<Rightarrow> bytes32 option \<Rightarrow> string option \<Rightarrow> (session_key, session_snapshot) btree \<Rightarrow> bytes32" where
  "coordinator_digest blake3 now frame_digest reason sessions = blake3
     (''MARKET_SESSION_COORDINATOR_V1'' @ time_bytes now
      @ bytes_of_id (case frame_digest of None \<Rightarrow> 0 | Some d \<Rightarrow> d)
      @ (case reason of None \<Rightarrow> le_bytes 1 0 | Some r \<Rightarrow> le_bytes 1 1 @ prefixed r)
      @ concat (map (\<lambda>e. bytes_of_id (sp_digest (snd e))) sessions))"

definition coordinator_snapshot_of :: "(string \<Rightarrow> bytes32) \<Rightarrow> coordinator \<Rightarrow> coordinator_snapshot" where
  "coordinator_snapshot_of blake3 co =
     (let now_ms = map_option (\<lambda>v. v div 1000000) (co_last_now co);
        sessions = map (\<lambda>e. (fst e, session_snapshot_of blake3 e)) (co_sessions co) in
      \<lparr>cs_evaluated_at = co_last_now co, cs_applied_frame_digest = co_last_frame_digest co,
       cs_halted = (co_halt_reason co \<noteq> None), cs_halt_reason = co_halt_reason co,
       cs_current = by_asset now_ms (current_session co), cs_next = by_asset now_ms (next_session co),
       cs_sessions = sessions,
       cs_digest = coordinator_digest blake3 (co_last_now co) (co_last_frame_digest co) (co_halt_reason co) sessions\<rparr>)"

text \<open>The checks of \<open>evaluate\<close> and the transition of every session, on a copy.\<close>

definition session_checks :: "coordination_frame \<Rightarrow> coordinator \<Rightarrow> coordinator_error + (session_key, session_record) btree" where
  "session_checks frame co =
     (if cf_now frame < 0 then Inl (CoInvalidTime (cf_now frame))
      else
        rbind (case co_last_now co of
            None \<Rightarrow> Inr ()
          | Some previous \<Rightarrow> if cf_now frame < previous then Inl (CoClockRegression previous (cf_now frame)) else Inr ()) (\<lambda>_.
        rbind (validate_provenance frame) (\<lambda>_.
        if map fst (co_sessions co) \<noteq> map fst (cf_sessions frame) then Inl SessionSetMismatch
        else collect_results (session_transition frame) (co_sessions co))))"

definition session_evaluate ::
  "(string \<Rightarrow> bytes32) \<Rightarrow> coordination_frame \<Rightarrow> coordinator \<Rightarrow> (coordinator_error + coordinator_snapshot) \<times> coordinator" where
  "session_evaluate blake3 frame co =
     (case co_halt_reason co of
        Some r \<Rightarrow> (Inl (CoHalted r), co)
      | None \<Rightarrow>
          case session_checks frame co of
            Inl e \<Rightarrow> (Inl e, co_halt e co)
          | Inr sessions \<Rightarrow>
              let co' = co\<lparr>co_sessions := sessions, co_last_now := Some (cf_now frame),
                co_last_frame_digest := Some (coordination_frame_digest blake3 frame)\<rparr>
              in (Inr (coordinator_snapshot_of blake3 co'), co'))"

section \<open>Replay\<close>

fun register_all :: "coordinator \<Rightarrow> market_identity list \<Rightarrow> coordinator_error + coordinator" where
  "register_all co [] = Inr co"
| "register_all co (m # ms) =
     (case session_register m co of (Inl e, _) \<Rightarrow> Inl e | (Inr _, co') \<Rightarrow> register_all co' ms)"

fun evaluate_all :: "(string \<Rightarrow> bytes32) \<Rightarrow> coordinator \<Rightarrow> coordination_frame list \<Rightarrow> coordinator_error + coordinator" where
  "evaluate_all blake3 co [] = Inr co"
| "evaluate_all blake3 co (f # fs) =
     (case session_evaluate blake3 f co of (Inl e, _) \<Rightarrow> Inl e | (Inr _, co') \<Rightarrow> evaluate_all blake3 co' fs)"

definition session_replay ::
  "(string \<Rightarrow> bytes32) \<Rightarrow> market_identity list \<Rightarrow> coordination_frame list \<Rightarrow> coordinator_error + coordinator_snapshot" where
  "session_replay blake3 identities frames =
     rbind (register_all coordinator_default identities) (\<lambda>co.
     rbind (evaluate_all blake3 co frames) (\<lambda>co'.
     Inr (coordinator_snapshot_of blake3 co')))"

end
