(* ===== verification/Spec2Isabelle.thy ===== *)
theory Spec2Isabelle
  imports FixedPoint Ledger_Theorems Reconciliation_Theorems Portfolio_Risk_Theorems Order_Policy_Theorems
    Paper_Execution_Theorems Paper_Runtime_Theorems Strategy_Theorems Paired_Demo Settlement_Demo Event_Envelope
    Checkpoint_Theorems Feed_Supervisor_Theorems Resolution_Theorems Market_Session
begin

text \<open>
  A verification development for the poly-trading platform: the offline trading core, that is the
  crates through which a paper trade passes from its approval to the books, and the market data it rests on,
  from the recorded event to the session a strategy may act in.

  \<^bold>\<open>The program.\<close> Each core crate is a deterministic single-writer engine: a state, a command type and
  \<open>apply\<close>, which checks and encodes the command, hashes the bytes, answers a command id it knows
  with the recorded answer (or halts for good when the content differs), refuses commands out of
  order, and otherwise installs the new state only when every check has passed. The engines are

  \<^item> the ledger (\<open>crates/accounting-ledger\<close>), a double-entry book of cash, tokens, reservations, costs
    and locked pairs;
  \<^item> the reconciler (\<open>crates/settlement-reconciliation\<close>), which compares the ledger with the trades the
    exchange reports and the balances on the chain, and opens the risk gate only when they agree;
  \<^item> the risk gate (\<open>crates/portfolio-risk\<close>), which enumerates every fill, outcome and shock of a portfolio
    and approves an order only when the worst of them respects the limits;
  \<^item> the order policy (\<open>crates/order-intent-policy\<close>), which turns an approval into a permit to place or to
    cancel under the mode of the exchange and the policy of the signer;
  \<^item> the execution (\<open>crates/paper-execution\<close>), which submits permitted orders to a simulated exchange,
    follows their life and hands every fill to settlement;
  \<^item> the strategies (\<open>crates/strategy-proposal\<close>, \<open>crates/complete-set-arbitrage\<close>), which look for
    complete sets that trade away from their value and propose orders to the risk gate;
  \<^item> the runtime (\<open>crates/paper-trading-runtime\<close>), one writer over the first five, which lets a command reach its
    engine only when it agrees with the state of the others;
  \<^item> the paired chain, which carries a complete set with both its legs: \<open>crates/paired-opportunity-runtime\<close>
    (detector, proposals and risk gate on one pair), \<open>crates/paired-capital-staging\<close> (the capital of both
    legs reserved at once), \<open>crates/paired-placement-policy\<close> (permits for the first leg, then for the hedge),
    \<open>crates/paired-paper-execution\<close> (the two orders), \<open>crates/paired-settlement-runtime\<close> (postings, pair locks
    and finalisation) and \<open>crates/ctf-transaction-runtime\<close> (splits, merges and redemptions). Each of the six
    owns the one before it and wraps its commands; under the lowest lies the ledger.

  Before them lies the market data, from recorded events to sessions:

  \<^item> \<open>crates/event-schema\<close>, the envelope of a recorded event, and the payloads and market identities of
    \<open>crates/public-market-data\<close>;
  \<^item> the order books (\<open>crates/order-book-replay\<close>), rebuilt from the journal, with checkpoints, and the actor around
    them (\<open>crates/live-market-state\<close>), which says whether they are fresh;
  \<^item> the reference feed (\<open>crates/reference-market-data\<close>): candles, trades and tickers of the two symbols;
  \<^item> the supervisor (\<open>crates/feed-supervisor\<close>), which compares the times of both feeds;
  \<^item> the rules of an hourly market (\<open>crates/resolution-rules\<close>) and its sessions (\<open>crates/market-session\<close>), which
    put books, candles, rules and supervision together.

  Prices, quantities and money are the fixed-point types of \<open>crates/common-types\<close>.

  \<^bold>\<open>The theories.\<close> \<open>Prelude\<close> holds results with errors, checked machine arithmetic, bytes and digests;
  \<open>BTree_Map\<close> the ordered maps of the code as sorted association lists, with the locale \<open>ordered_map\<close>;
  \<open>Command_Engine\<close> the contract of \<open>apply\<close> as the locales \<open>command_engine\<close> and \<open>decision_engine\<close>, which
  every engine interprets on its own \<open>apply\<close>. Then, a model and its theorems per crate:

  \<^item> \<open>FixedPoint\<close>: parsing, bounds and rounding of \<open>common-types/src/lib.rs\<close>;
  \<^item> \<open>Ledger\<close>, \<open>Ledger_Invariant\<close>, \<open>Ledger_Theorems\<close>: \<open>accounting-ledger/src/lib.rs\<close>. The invariant \<open>ledger_inv\<close>
    (every asset sums to zero, reserved accounts equal the active reservations, positions carry their
    cost) is kept by every command; from it follow the books, the profit identity, the exact views,
    and that the run-time check \<open>verify_invariants\<close> only ever fails by overflow;
  \<^item> \<open>Reconciliation\<close>, \<open>Reconciliation_Theorems\<close>: \<open>settlement-reconciliation/src/lib.rs\<close>. The indices agree, history
    is monotone, and the mode \<open>Reconciled\<close> means that ledger, trades and wallet agree;
  \<^item> \<open>Portfolio_Risk\<close>, \<open>Portfolio_Risk_Theorems\<close>: \<open>portfolio-risk/src/lib.rs\<close>. The mixed-radix enumeration
    reaches every combination, the minimum is exact, a refusal names the scenario that breaks a limit;
  \<^item> \<open>Order_Policy\<close>, \<open>Order_Policy_Theorems\<close>: \<open>order-intent-policy/src/lib.rs\<close>. What a permit guarantees, that
    an approval is used once, and the life of an order as the relation \<open>stage_step\<close>;
  \<^item> \<open>Paper_Execution\<close>, \<open>Paper_Execution_Theorems\<close>: \<open>paper-execution/src/lib.rs\<close>. Fills stay within the order,
    hand-offs mirror fills one to one, nothing is lost, and what the policy permits can be executed;
  \<^item> \<open>Paper_Runtime\<close>, \<open>Paper_Runtime_Theorems\<close>: \<open>paper-trading-runtime/src/lib.rs\<close>. The steps of the runtime as
    the relation \<open>rt_step\<close>; its projections are runs of the engines, so the theorems of the engines hold
    inside it; orders rest on approvals and capital, confirmed trades on fills;
  \<^item> \<open>Strategy_Proposal\<close>, \<open>Complete_Set_Arbitrage\<close>, \<open>Strategy_Theorems\<close>: \<open>strategy-proposal/src/lib.rs\<close> and
    \<open>complete-set-arbitrage/src/lib.rs\<close>. The checked calculation equals the one over unbounded integers, a
    plan earns its profit at the prices of the risk gate, its orders are accepted downstream, and every
    evaluation and proposal id is used once. A context is an input: its capture from the session
    coordinator is not modelled.

  The runtimes of the paired chain share the locale \<open>journal\<close> of \<open>Journal\<close>: it takes a runtime's \<open>apply\<close> in its
  parts and gives the rule for invariants of histories and the origin of every answer; a runtime without checks
  before the encoding is a \<open>plain_journal\<close> and by that a \<open>decision_engine\<close>. \<open>Ledger_Progress\<close> adds what no ledger
  command undoes. Then

  \<^item> \<open>Paired_Opportunity\<close>, \<open>Paired_Opportunity_Theorems\<close>: \<open>paired-opportunity-runtime/src/lib.rs\<close>. What an eligible
    pair went through, and that no decision of the detector is spent twice;
  \<^item> \<open>Paired_Staging\<close>, \<open>Paired_Staging_Theorems\<close>: \<open>paired-capital-staging/src/lib.rs\<close>. Both legs are reserved or
    none, and staging and aborting is a round trip on the balances;
  \<^item> \<open>Paired_Policy\<close>, \<open>Paired_Policy_Theorems\<close>: \<open>paired-placement-policy/src/lib.rs\<close>. What may happen to the record of
    a pair is the relation \<open>record_step\<close>; hedges follow matched first legs, aborted pairs stay closed;
  \<^item> \<open>Paired_Execution\<close>, \<open>Paired_Execution_Theorems\<close>: \<open>paired-paper-execution/src/lib.rs\<close>. Orders and policy agree in
    every reachable state, fills stay within the permit, an order simulates one of \<open>Paper_Execution\<close>;
  \<^item> \<open>Paired_Settlement\<close>, \<open>Paired_Settlement_Theorems\<close>: \<open>paired-settlement-runtime/src/lib.rs\<close>. Its steps are the
    relation \<open>settle_step\<close>, all of them monotone (\<open>settle_le\<close>): posted fills are confirmed, closed pairs stay
    closed, and a pair whose first leg ends partly filled stays open;
  \<^item> \<open>Ctf_Runtime\<close>, \<open>Ctf_Theorems\<close>: \<open>ctf-transaction-runtime/src/lib.rs\<close>. Records of conversions are well-formed,
    finished ones stay finished, and the ledger under the whole chain is a reachable ledger, so that
    the theorems of \<open>Ledger_Theorems\<close> hold of it;
  \<^item> \<open>Paired_Demo\<close>, \<open>Settlement_Demo\<close>: one pair driven through all six runtimes by evaluation, with the properties
    applied to its states.

  The market data:

  \<^item> \<open>Wire_Bytes\<close>: little-endian fields, UTF-8 and cursors, with the locale \<open>byte_codec\<close>: what a field's writer and
    reader owe each other;
  \<^item> \<open>Event_Envelope\<close>: \<open>event-schema/src/lib.rs\<close>. Decoding inverts encoding and accepts nothing else;
  \<^item> \<open>Market_Identity\<close>, \<open>Public_Payload\<close>: \<open>domain.rs\<close> and \<open>payload.rs\<close> of \<open>public-market-data\<close>;
  \<^item> \<open>Order_Book\<close>, \<open>Order_Book_Checkpoint\<close>, \<open>Order_Book_Theorems\<close>, \<open>Checkpoint_Theorems\<close>:
    \<open>order-book-replay/src/lib.rs\<close>. A trusted book is never crossed, price changes refine updates of a map from
    prices to depths, resuming from a checkpoint is replaying the journal, checkpoints lose nothing;
  \<^item> \<open>Live_Market\<close>, \<open>Live_Market_Theorems\<close>: \<open>live-market-state/src/lib.rs\<close>. The loop of the actor is a function of what
    it receives; its state is the replayed journal, ready is fresh, the last word of an actor is never ready;
  \<^item> \<open>Reference_Payload\<close>, \<open>Reference_Replay\<close> and their theorems: \<open>payload.rs\<close> and \<open>replay.rs\<close> of
    \<open>reference-market-data\<close>. What is parsed survives the journal, finalized candles never change, a ready feed has
    seen every source;
  \<^item> \<open>Feed_Supervisor\<close>, \<open>Feed_Supervisor_Theorems\<close>: \<open>feed-supervisor/src/lib.rs\<close>. Ready is fresh on both sides,
    history is monotone, and snapshots of a running actor and a replayed feed never halt the supervisor except for
    a clock or a history that goes back;
  \<^item> \<open>Resolution_Rules\<close>, \<open>Resolution_Theorems\<close>: \<open>resolution-rules/src/lib.rs\<close>. Final evidence decides once and by the
    rules, its record is exact;
  \<^item> \<open>Market_Session\<close>: \<open>market-session/src/lib.rs\<close>, the coordinator of the hourly sessions.

  \<^bold>\<open>How the model corresponds to the code.\<close> A struct is a record, an enum a datatype with the source's
  constructors (prefixed where two crates share a name), a method a function from the old to the
  new state; \<open>Result\<close> is a sum with the error on the left, \<open>?\<close> is \<open>rbind\<close>. \<open>i128\<close>, \<open>i64\<close> and \<open>u64\<close> are
  integers with the checked operations \<open>add128\<close>, \<open>sub64\<close>, \<open>addu64\<close> and so on returning \<open>None\<close> outside
  their range; an unchecked operation is written with \<open>wrap64\<close> or \<open>wrap128\<close>, as the release profile does
  not check overflow. Identities and digests are 256-bit words, so that their order is the order of the
  bytes. An \<open>expect\<close> that can fail is \<open>None\<close> (or the error \<open>TPanic\<close>, \<open>GPanic\<close> and so on of a runtime, which leaves
  the state as it was). \<open>serde_json\<close> and \<open>blake3\<close> are not
  part of the repository: they are parameters, the fields of the codec records, and no theorem assumes
  anything of them, not even injectivity; where a digest identifies content, the theorem speaks of
  digests. The JSON values and the parser of times that the market data use are parameters in the same way, and a
  journal is the list of envelopes, or errors, that its reader gives. All loops of the code run over finite
  collections and are folds or structural recursion, so no fuel is used; the enumeration of scenarios runs over
  \<open>[0..<n]\<close> as the code's ranges do, and the loop of the actor over the list of what its channels deliver.

  \<^bold>\<open>Not modelled.\<close> The \<open>durable.rs\<close> files and the recorder (journals and checkpoints on disk), the WebSocket and
  HTTP gateways and discovery (network), the programs, and the tests do input and output around the modelled code.
  The window strategy (\<open>btc-window-strategy\<close>), the unified runtimes, the projections for the terminal and the
  simulators of operations (credentials, deployment, canaries, certification) build on this core or beside it and
  keep their own records; none of the modelled crates calls them.
\<close>

end
